(* ===== verification/Prelude.thy ===== *)
theory Prelude
  imports Main "HOL-Library.Word"
begin

text \<open>
  What every component shares: the thrown values and results of JavaScript code, the
  composition of fallible steps, decimal text of integers, and the integral JavaScript
  numbers with their conversions to and from text (\<open>String(x)\<close>, \<open>Number(s)\<close>).

  Strings are HOL strings: a character stands for one code unit below 256.
\<close>

named_theorems wire_intro \<open>introduction rules that build the round trip of a message codec\<close>
named_theorems wire_total \<open>introduction rules for the termination of a message reader\<close>
named_theorems wire_size \<open>upper bounds on the length of an encoding\<close>
named_theorems codec_ok \<open>definitions of the validity predicates of messages\<close>

type_synonym byte = "8 word"
type_synonym bytes = "byte list"


section \<open>Thrown values and results\<close>

text \<open>
  A JavaScript \<open>number\<close>: an integral one carries its value; any other one (a fraction,
  \<open>NaN\<close>, an infinity) carries its text \<open>String(x)\<close>, which determines it.
\<close>

datatype js_number = IntNum int | OtherNum string

text \<open>A number or a string, as the \<open>code\<close> of a thrown object can be.\<close>

datatype js_prim = PNum js_number | PStr string

text \<open>
  A thrown value, as a \<open>catch\<close> block sees it: \<open>null\<close> and \<open>undefined\<close> have no properties;
  any other value has a text, may be an \<open>Error\<close>, and may have a string \<open>message\<close> and a
  \<open>code\<close> (as a gRPC \<open>ServiceError\<close> has).
\<close>

record err_obj =
  eo_name :: string
  eo_isError :: bool
  eo_message :: "string option"
  eo_code :: "js_prim option"
  eo_string :: string

datatype thrown = Nullish string | Thrown err_obj

definition mkError :: "string \<Rightarrow> thrown" where
  "mkError msg = Thrown \<lparr>eo_name = ''Error'', eo_isError = True, eo_message = Some msg,
     eo_code = None, eo_string = ''Error: '' @ msg\<rparr>"

type_synonym 'a result = "thrown + 'a"

text \<open>
  A computation with loops: \<open>None\<close> when it does not return, \<open>Some (Inl e)\<close> when it throws.
\<close>

type_synonym 'a comp = "'a result option"

definition bindE :: "'e + 'a \<Rightarrow> ('a \<Rightarrow> 'e + 'b) \<Rightarrow> 'e + 'b" where
  "bindE x f = (case x of Inl e \<Rightarrow> Inl e | Inr a \<Rightarrow> f a)"

lemma bindE_simps [simp]: "bindE (Inl e) f = Inl e" "bindE (Inr a) f = f a"
  by (simp_all add: bindE_def)

lemma bindE_assoc: "bindE (bindE x f) g = bindE x (\<lambda>a. bindE (f a) g)"
  by (cases x) simp_all

lemma bindE_Inr_iff: "bindE x f = Inr b \<longleftrightarrow> (\<exists>a. x = Inr a \<and> f a = Inr b)"
  by (cases x) simp_all

definition bindC :: "'a comp \<Rightarrow> ('a \<Rightarrow> 'b comp) \<Rightarrow> 'b comp" where
  "bindC x f = Option.bind x (\<lambda>y. case y of Inl e \<Rightarrow> Some (Inl e) | Inr a \<Rightarrow> f a)"

lemma bindC_simps [simp]:
  "bindC None f = None" "bindC (Some (Inl e)) f = Some (Inl e)" "bindC (Some (Inr a)) f = f a"
  by (simp_all add: bindC_def)


section \<open>Decimal text\<close>

definition digit :: "int \<Rightarrow> char" where
  "digit d = char_of (48 + d)"

definition digit_val :: "char \<Rightarrow> int option" where
  "digit_val c = (let n = of_char c :: int in if 48 \<le> n \<and> n < 58 then Some (n - 48) else None)"

text \<open>Digits of a non-negative integer, and the decimal text of any integer.\<close>

function dec_pos :: "int \<Rightarrow> string" where
  "dec_pos n = (if n < 10 then [digit n] else dec_pos (n div 10) @ [digit (n mod 10)])"
  by pat_completeness auto
termination
  by (relation "measure nat") auto

declare dec_pos.simps [simp del]

definition dec :: "int \<Rightarrow> string" where
  "dec v = (if v < 0 then CHR ''-'' # dec_pos (- v) else dec_pos v)"

fun undec_digits :: "int \<Rightarrow> string \<Rightarrow> int option" where
  "undec_digits acc [] = Some acc"
| "undec_digits acc (c # cs) =
     (case digit_val c of None \<Rightarrow> None | Some d \<Rightarrow> undec_digits (10 * acc + d) cs)"

definition undec_pos :: "string \<Rightarrow> int option" where
  "undec_pos s = (if s = [] then None else undec_digits 0 s)"

definition undec :: "string \<Rightarrow> int option" where
  "undec s = (case s of [] \<Rightarrow> None
     | c # cs \<Rightarrow> if c = CHR ''-'' then map_option uminus (undec_pos cs) else undec_pos s)"

lemma digit_val_digit [simp]: "0 \<le> d \<Longrightarrow> d < 10 \<Longrightarrow> digit_val (digit d) = Some d"
  by (simp add: digit_val_def digit_def)

lemma digit_neq_minus: "0 \<le> d \<Longrightarrow> d < 10 \<Longrightarrow> digit d \<noteq> CHR ''-''"
proof
  assume d: "0 \<le> d" "d < 10" and "digit d = CHR ''-''"
  then have "digit_val (digit d) = None" by (simp add: digit_val_def)
  with d show False by simp
qed

lemma dec_pos_Nil [simp]: "dec_pos n \<noteq> []"
  by (subst dec_pos.simps) simp

lemma undec_digits_append:
  "undec_digits acc (xs @ ys) = Option.bind (undec_digits acc xs) (\<lambda>a. undec_digits a ys)"
  by (induction xs arbitrary: acc) (auto split: option.splits)

lemma undec_digits_dec_pos: "0 \<le> n \<Longrightarrow> undec_digits 0 (dec_pos n) = Some n"
proof (induction n rule: dec_pos.induct)
  case (1 n)
  show ?case
  proof (cases "n < 10")
    case True
    with "1.prems" show ?thesis by (simp add: dec_pos.simps [of n])
  next
    case False
    with 1 show ?thesis
      by (simp add: dec_pos.simps [of n] undec_digits_append)
  qed
qed

lemma undec_pos_dec_pos [simp]: "0 \<le> n \<Longrightarrow> undec_pos (dec_pos n) = Some n"
  by (simp add: undec_pos_def undec_digits_dec_pos)

lemma hd_dec_pos: "0 \<le> n \<Longrightarrow> \<exists>d. 0 \<le> d \<and> d < 10 \<and> hd (dec_pos n) = digit d"
proof (induction n rule: dec_pos.induct)
  case (1 n)
  then show ?case
    by (cases "n < 10") (auto simp: dec_pos.simps [of n] hd_append)
qed

lemma hd_dec_pos_minus: "0 \<le> n \<Longrightarrow> hd (dec_pos n) \<noteq> CHR ''-''"
  using hd_dec_pos [of n] digit_neq_minus by metis

lemma undec_dec [simp]: "undec (dec v) = Some v"
proof (cases "v < 0")
  case True
  then show ?thesis by (simp add: dec_def undec_def)
next
  case False
  obtain c cs where c: "dec_pos v = c # cs" by (cases "dec_pos v") auto
  with False hd_dec_pos_minus [of v] have "c \<noteq> CHR ''-''" by simp
  with False c undec_pos_dec_pos [of v] show ?thesis by (simp add: dec_def undec_def)
qed

lemma dec_inject [simp]: "dec v = dec w \<longleftrightarrow> v = w"
  by (metis option.inject undec_dec)

lemma dec_0 [simp]: "dec 0 = ''0''"
  by code_simp

lemma dec_eq_0_iff [simp]: "dec v = ''0'' \<longleftrightarrow> v = 0"
  using dec_inject [of v 0] by (simp del: dec_inject)

lemma dec_Nil [simp]: "dec v \<noteq> []"
  by (simp add: dec_def)

text \<open>The canonical decimal text of an integer that satisfies a range check.\<close>

definition dec_in :: "(int \<Rightarrow> bool) \<Rightarrow> string \<Rightarrow> bool" where
  "dec_in P s = (case undec s of None \<Rightarrow> False | Some v \<Rightarrow> dec v = s \<and> P v)"

lemma dec_inE:
  assumes "dec_in P s"
  obtains v where "s = dec v" "P v"
  using assms by (auto simp: dec_in_def split: option.splits)

lemma dec_in_dec [simp]: "dec_in P (dec v) \<longleftrightarrow> P v"
  by (simp add: dec_in_def)

abbreviation in_int32 :: "int \<Rightarrow> bool" where
  "in_int32 v \<equiv> - 2147483648 \<le> v \<and> v < 2147483648"

abbreviation in_uint32 :: "int \<Rightarrow> bool" where
  "in_uint32 v \<equiv> 0 \<le> v \<and> v < 4294967296"

abbreviation in_int64 :: "int \<Rightarrow> bool" where
  "in_int64 v \<equiv> - 9223372036854775808 \<le> v \<and> v < 9223372036854775808"

abbreviation in_uint64 :: "int \<Rightarrow> bool" where
  "in_uint64 v \<equiv> 0 \<le> v \<and> v < 18446744073709551616"


section \<open>Integral JavaScript numbers\<close>

text \<open>
  A double holds integers exactly up to \<open>2^53\<close>. Beyond that an integer is rounded to the
  nearest multiple of a power of two, ties to even (IEEE 754, as \<open>Number(s)\<close> does).
\<close>

function bit_len :: "int \<Rightarrow> nat" where
  "bit_len m = (if m \<le> 0 then 0 else Suc (bit_len (m div 2)))"
  by pat_completeness auto
termination
  by (relation "measure nat") auto

declare bit_len.simps [simp del]

definition round_even :: "int \<Rightarrow> int" where
  "round_even m = (let e = bit_len m - 53; q = m div 2 ^ e; r = m mod 2 ^ e; h = 2 ^ (e - 1)
     in (if h < r \<or> r = h \<and> odd q then q + 1 else q) * 2 ^ e)"

definition to_double :: "int \<Rightarrow> int" where
  "to_double v = (if \<bar>v\<bar> \<le> 9007199254740992 then v
     else if v < 0 then - round_even (- v) else round_even v)"

definition safe_int :: "int \<Rightarrow> bool" where
  "safe_int v \<longleftrightarrow> \<bar>v\<bar> \<le> 9007199254740992"

lemma to_double_safe [simp]: "safe_int v \<Longrightarrow> to_double v = v"
  by (simp add: to_double_def safe_int_def)

text \<open>
  \<open>Number(s)\<close> on decimal literals: the 64-bit fields the codecs keep as text, and the number
  literals of JSON. The empty text is 0. A literal is split into its digits and a power of
  ten; an integral one is rounded to a double (or overflows to an infinity), any other one
  is kept as its text. What is no literal is \<open>NaN\<close>.
\<close>

definition is_digit :: "char \<Rightarrow> bool" where
  "is_digit c \<longleftrightarrow> digit_val c \<noteq> None"

definition lit_exponent :: "string \<Rightarrow> int option" where
  "lit_exponent s = (case s of [] \<Rightarrow> Some 0
     | c # cs \<Rightarrow> if c \<in> set ''eE''
         then (case cs of [] \<Rightarrow> None | d # ds \<Rightarrow> if d = CHR ''+'' then undec_pos ds else undec cs)
         else None)"

definition literal :: "string \<Rightarrow> (int \<times> int) option" where
  "literal u = (let ip = takeWhile is_digit u; r = dropWhile is_digit u;
       frac = (r \<noteq> [] \<and> hd r = CHR ''.'');
       fp = (if frac then takeWhile is_digit (tl r) else []);
       r' = (if frac then dropWhile is_digit (tl r) else r)
     in case (undec_pos (ip @ fp), lit_exponent r') of
          (Some m, Some e) \<Rightarrow> Some (m, e - int (length fp)) | _ \<Rightarrow> None)"

definition lit_integer :: "int \<times> int \<Rightarrow> int option" where
  "lit_integer l = (case l of (m, e) \<Rightarrow> if 0 \<le> e then Some (m * 10 ^ nat e)
     else if 10 ^ nat (- e) dvd m then Some (m div 10 ^ nat (- e)) else None)"

definition double_num :: "int \<Rightarrow> js_number" where
  "double_num v = (let d = to_double v
     in if 2 ^ 1024 \<le> d then OtherNum ''Infinity''
        else if d \<le> - (2 ^ 1024) then OtherNum ''-Infinity'' else IntNum d)"

definition js_Number :: "string \<Rightarrow> js_number" where
  "js_Number s = (if s = [] then IntNum 0
     else case undec s of Some v \<Rightarrow> double_num v
     | None \<Rightarrow> let neg = (hd s = CHR ''-''); u = (if neg then tl s else s)
         in case literal u of None \<Rightarrow> OtherNum ''NaN''
            | Some l \<Rightarrow> (case lit_integer l of None \<Rightarrow> OtherNum s
                | Some v \<Rightarrow> double_num (if neg then - v else v)))"

text \<open>
  \<open>String(x)\<close> of an integral number: exact decimal digits up to \<open>2^53\<close>. Beyond, the
  shortest digits that still read back as \<open>x\<close>, padded with zeros; from \<open>10^21\<close> on the
  exponent form.
\<close>

fun shortest :: "nat \<Rightarrow> int \<Rightarrow> int" where
  "shortest 0 m = m"
| "shortest (Suc k) m =
     (let p = 10 ^ Suc k; lo = m div p * p; hi = lo + p;
          okl = (to_double lo = m); okh = (to_double hi = m)
      in if okl \<and> (\<not> okh \<or> m - lo \<le> hi - m) then lo
         else if okh then hi else shortest k m)"

definition exp_form :: "int \<Rightarrow> string" where
  "exp_form m = (let ds = dec_pos m;
       sig = rev (dropWhile (\<lambda>c. c = CHR ''0'') (rev ds))
     in (if length sig = 1 then sig else hd sig # CHR ''.'' # tl sig) @ ''e+'' @
        dec_pos (int (length ds) - 1))"

definition int_text :: "int \<Rightarrow> string" where
  "int_text m = (let s = shortest (length (dec_pos m)) m
     in if m < 1000000000000000000000 then dec_pos s else exp_form s)"

definition js_String :: "js_number \<Rightarrow> string" where
  "js_String x = (case x of OtherNum t \<Rightarrow> t
     | IntNum v \<Rightarrow> if \<bar>v\<bar> \<le> 9007199254740992 then dec v
         else if v < 0 then CHR ''-'' # int_text (- v) else int_text v)"

lemma js_String_safe [simp]: "safe_int v \<Longrightarrow> js_String (IntNum v) = dec v"
  by (simp add: js_String_def safe_int_def)

lemma bit_len_bound: "0 < m \<Longrightarrow> 2 ^ (bit_len m - 1) \<le> m"
proof (induction m rule: bit_len.induct)
  case (1 m)
  show ?case
  proof (cases "m = 1")
    case True
    then show ?thesis by (simp add: bit_len.simps)
  next
    case False
    with "1.prems" have "0 < m div 2" by auto
    then obtain k where k: "bit_len (m div 2) = Suc k" by (simp add: bit_len.simps [of "m div 2"])
    with 1 \<open>0 < m div 2\<close> have "2 ^ k \<le> m div 2" by auto
    then show ?thesis using "1.prems" k by (simp add: bit_len.simps [of m])
  qed
qed

lemma round_even_bound: "0 < m \<Longrightarrow> 0 \<le> round_even m \<and> round_even m \<le> 2 * m"
proof -
  assume m: "0 < m"
  define e where "e = bit_len m - 53"
  have "(2::int) ^ e \<le> 2 ^ (bit_len m - 1)" unfolding e_def by (rule power_increasing) auto
  then have e: "2 ^ e \<le> m" using bit_len_bound [OF m] by (rule order_trans)
  have "0 \<le> m div 2 ^ e" "m div 2 ^ e * 2 ^ e \<le> m"
    using m pos_imp_zdiv_nonneg_iff [of "2 ^ e" m] minus_mod_eq_div_mult [of m "2 ^ e"]
      pos_mod_sign [of "2 ^ e" m] by (simp, smt (verit) zero_less_power)
  with e m show ?thesis
    unfolding round_even_def Let_def e_def [symmetric]
    by (auto simp: algebra_simps)
qed

lemma to_double_bound: "\<bar>to_double v\<bar> \<le> 2 * \<bar>v\<bar>"
  using round_even_bound [of v] round_even_bound [of "- v"] by (auto simp: to_double_def)

lemma double_num_small: "\<bar>v\<bar> \<le> 18446744073709551616 \<Longrightarrow> double_num v = IntNum (to_double v)"
proof -
  assume "\<bar>v\<bar> \<le> 18446744073709551616"
  with to_double_bound [of v] have "\<bar>to_double v\<bar> < 2 ^ 66" by simp
  moreover have "(2::int) ^ 66 < 2 ^ 1024" by (rule power_strict_increasing) auto
  ultimately have "\<bar>to_double v\<bar> < 2 ^ 1024" by (rule less_trans)
  then show ?thesis unfolding double_num_def Let_def by (simp only: abs_less_iff) auto
qed

lemma js_Number_dec64: "- 9223372036854775808 \<le> v \<Longrightarrow> v < 18446744073709551616 \<Longrightarrow>
    js_Number (dec v) = IntNum (to_double v)"
  by (simp add: js_Number_def double_num_small)

lemma js_Number_safe: "safe_int v \<Longrightarrow> js_Number (dec v) = IntNum v"
  by (simp add: js_Number_def double_num_small safe_int_def to_double_def)

lemma js_Number_String: "safe_int v \<Longrightarrow> js_Number (js_String (IntNum v)) = IntNum v"
  by (simp add: js_Number_safe)

text \<open>
  Between \<open>2^53\<close> and \<open>2^54\<close> the doubles are the even numbers. An odd one is rounded to a
  neighbour, and an even one is printed with all its digits.
\<close>

lemma le_div: "a * b \<le> m \<Longrightarrow> 0 < b \<Longrightarrow> (a :: int) \<le> m div b"
  using zdiv_mono1 [of "a * b" m b] by simp

lemma bit_len_upper: "m < 2 ^ n \<Longrightarrow> bit_len m \<le> n"
proof (induction n arbitrary: m)
  case (Suc n)
  show ?case
  proof (cases "m \<le> 0")
    case False
    have "m div 2 < 2 ^ n" using Suc.prems by (simp add: div_less_iff_less_mult algebra_simps)
    from Suc.IH [OF this] show ?thesis using False by (simp add: bit_len.simps [of m])
  qed (simp add: bit_len.simps)
qed (simp add: bit_len.simps)

lemma bit_len_lower: "2 ^ n \<le> m \<Longrightarrow> n < bit_len m"
proof (induction n arbitrary: m)
  case (Suc n)
  then have "2 ^ n \<le> m div 2" by (intro le_div) simp_all
  from Suc.IH [OF this] show ?case using Suc.prems by (simp add: bit_len.simps [of m]) (smt (verit) zero_less_power)
qed (simp add: bit_len.simps)

lemma round_even_lower:
  assumes "2 ^ n \<le> m"
  shows "2 ^ n \<le> round_even m"
proof -
  define e where "e = bit_len m - 53"
  have m: "0 < m" using assms by (smt (verit) zero_less_power)
  have "(2 :: int) ^ e \<le> 2 ^ (bit_len m - 1)" unfolding e_def by (rule power_increasing) auto
  then have e: "2 ^ e \<le> m" using bit_len_bound [OF m] by (rule order_trans)
  have "2 ^ n \<le> m div 2 ^ e * 2 ^ e"
  proof (cases "n \<le> e")
    case True
    then have "(2 :: int) ^ n \<le> 2 ^ e" by (intro power_increasing) auto
    moreover have "1 * 2 ^ e \<le> m div 2 ^ e * 2 ^ e" using e by (intro mult_right_mono le_div) simp_all
    ultimately show ?thesis unfolding mult_1 by (rule order_trans)
  next
    case False
    then have "(2 :: int) ^ n = 2 ^ (n - e) * 2 ^ e" by (simp add: power_add [symmetric])
    moreover have "2 ^ (n - e) \<le> m div 2 ^ e" using assms calculation by (intro le_div) simp_all
    ultimately show ?thesis by simp
  qed
  moreover have "(0 :: int) \<le> 2 ^ e" by simp
  ultimately have "2 ^ n \<le> 2 ^ e + m div 2 ^ e * 2 ^ e" by linarith
  with \<open>2 ^ n \<le> m div 2 ^ e * 2 ^ e\<close> show ?thesis
    by (simp add: round_even_def Let_def e_def [symmetric] algebra_simps)
qed

lemma to_double_lower: "18014398509481984 \<le> m \<Longrightarrow> 18014398509481984 \<le> to_double m"
  using round_even_lower [of 54 m] by (simp add: to_double_def)

lemma to_double_even:
  assumes "9007199254740992 \<le> m" "m < 18014398509481984"
  shows "to_double m = (if even m then m else if odd (m div 2) then m + 1 else m - 1)"
proof (cases "m = 9007199254740992")
  case False
  have "bit_len m = 54" using bit_len_lower [of 53 m] bit_len_upper [of m 54] assms by simp
  moreover have "m mod 2 = (if even m then 0 else 1)" by (simp add: even_iff_mod_2_eq_zero odd_iff_mod_2_eq_one)
  moreover have "m div 2 * 2 = m - m mod 2" by (simp add: minus_mod_eq_div_mult)
  ultimately show ?thesis using assms False by (auto simp: to_double_def round_even_def algebra_simps)
qed (simp add: to_double_def)

lemma shortest_even:
  assumes "9007199254740992 \<le> m" "m < 18014398509481984" "even m"
  shows "shortest k m = m"
proof (induction k)
  case (Suc k)
  let ?p = "10 ^ Suc k :: int"
  let ?lo = "m div ?p * ?p"
  have p: "0 < ?p" "even ?p" by simp_all
  have lo: "even ?lo" "?lo \<le> m" "m < ?lo + ?p" using p
    by (simp, metis minus_mod_eq_div_mult diff_le_eq le_add_same_cancel1 p(1) pos_mod_sign add.commute,
        metis add.commute div_mult_mod_eq add_strict_left_mono p(1) pos_mod_bound)
  have fixed: "to_double x \<noteq> m \<or> x = m" if "even x" for x
  proof -
    consider "x \<le> 9007199254740992" "- 9007199254740992 \<le> x" | "x < - 9007199254740992"
      | "9007199254740992 \<le> x" "x < 18014398509481984" | "18014398509481984 \<le> x" by linarith
    then show ?thesis
    proof cases
      case 2
      then have "to_double x \<le> 0" using round_even_bound [of "- x"] by (simp add: to_double_def)
      then show ?thesis using assms(1) by simp
    next
      case 3
      then show ?thesis using to_double_even [of x] that by simp
    next
      case 4
      then show ?thesis using to_double_lower [of x] assms(2) by simp
    qed (use assms in \<open>auto simp: to_double_def\<close>)
  qed
  have "even (?lo + ?p)" using lo(1) p(2) by simp
  then have "to_double (?lo + ?p) \<noteq> m" using fixed [of "?lo + ?p"] lo(3) by linarith
  moreover have "to_double ?lo = m \<Longrightarrow> ?lo = m" using fixed lo(1) by blast
  ultimately show ?case using Suc.IH by (auto simp: Let_def)
qed simp

lemma js_String_even:
  assumes "9007199254740992 \<le> m" "m < 18014398509481984" "even m"
  shows "js_String (IntNum m) = dec m"
proof (cases "m = 9007199254740992")
  case False
  then show ?thesis using assms shortest_even [OF assms] by (simp add: js_String_def int_text_def Let_def dec_def)
qed (simp add: js_String_def)

lemma to_double_even_range:
  assumes "9007199254740992 \<le> k" "k < 18014398509481983"
  shows "9007199254740992 \<le> to_double k" "to_double k < 18014398509481984" "even (to_double k)"
    "to_double k = k \<longleftrightarrow> even k" "\<bar>to_double k - k\<bar> \<le> 1"
proof -
  have "k \<noteq> 9007199254740992" if "odd k" using that by auto
  then show "9007199254740992 \<le> to_double k" "to_double k < 18014398509481984" "even (to_double k)"
    "to_double k = k \<longleftrightarrow> even k" "\<bar>to_double k - k\<bar> \<le> 1"
    using assms to_double_even [of k] by auto
qed


section \<open>UTF-8 text\<close>

text \<open>
  \<open>new TextEncoder().encode(s)\<close>: UTF-8. A code unit below 128 is one byte; the others that a
  character of the model can be (128 to 255) are two. Decoding is strict.
\<close>

fun utf8 :: "string \<Rightarrow> bytes" where
  "utf8 [] = []"
| "utf8 (c # cs) = (let n = of_char c :: int in
     (if n < 128 then [of_int n] else [of_int (192 + n div 64), of_int (128 + n mod 64)]) @ utf8 cs)"

fun unutf8 :: "bytes \<Rightarrow> string option" where
  "unutf8 [] = Some []"
| "unutf8 (b # bs) =
     (if uint b < 128 then map_option (Cons (char_of (uint b))) (unutf8 bs)
      else if 192 \<le> uint b \<and> uint b < 196 then
        (case bs of [] \<Rightarrow> None | b' # bs' \<Rightarrow>
           if 128 \<le> uint b' \<and> uint b' < 192
           then map_option (Cons (char_of ((uint b - 192) * 64 + (uint b' - 128)))) (unutf8 bs')
           else None)
      else None)"

lemma uint_of_int_byte [simp]: "0 \<le> n \<Longrightarrow> n < 256 \<Longrightarrow> uint (of_int n :: byte) = n"
  by (simp add: uint_word_of_int take_bit_int_eq_self)

lemma unutf8_utf8 [simp]: "unutf8 (utf8 s) = Some s"
proof (induction s)
  case Nil
  then show ?case by simp
next
  case (Cons c s)
  define n where "n = (of_char c :: int)"
  have "n mod 256 = n" by (simp add: n_def)
  then have n: "0 \<le> n" "n < 256" "char_of n = c"
    using pos_mod_bound [of 256 n] pos_mod_sign [of 256 n] by (simp_all add: n_def)
  show ?case
  proof (cases "n < 128")
    case True
    with n Cons show ?thesis by (simp add: n_def [symmetric] Let_def)
  next
    case False
    have r: "0 \<le> n div 64" "n div 64 < 4" using n False by auto
    then have "uint (of_int (192 + n div 64) :: byte) = 192 + n div 64"
        "uint (of_int (128 + n mod 64) :: byte) = 128 + n mod 64" "n div 64 * 64 + n mod 64 = n"
      by (simp_all del: of_int_add)
    with r n False Cons show ?thesis by (simp add: n_def [symmetric] Let_def del: of_int_add)
  qed
qed

end
