(* ===== verification/Wire.thy ===== *)
theory Wire
  imports Prelude
begin

text \<open>
  The binary codec every generated message type shares. The runtime library
  (\<open>@protobuf-ts/runtime\<close>: \<open>IBinaryWriter\<close>, \<open>IBinaryReader\<close>, \<open>UnknownFieldHandler\<close>) is not
  part of the repository: it is a pair of records of operations that every generated
  method takes as an argument, and the locale \<open>wire_runtime\<close> states the documented laws the
  generated code relies on. The definitions of this theory are the statements that the
  bodies of \<open>internalBinaryRead\<close> and \<open>internalBinaryWrite\<close> are made of; the lemmas inside the
  locale build, field by field, the round trip and the termination of a message codec.
\<close>


section \<open>The interface of the runtime library\<close>

datatype wire_type = Varint | Bit64 | LengthDelimited | StartGroup | EndGroup | Bit32

definition wire_type_no :: "wire_type \<Rightarrow> int" where
  "wire_type_no t = (case t of Varint \<Rightarrow> 0 | Bit64 \<Rightarrow> 1 | LengthDelimited \<Rightarrow> 2
     | StartGroup \<Rightarrow> 3 | EndGroup \<Rightarrow> 4 | Bit32 \<Rightarrow> 5)"

text \<open>An unknown field: its number, its wire type and its undecoded bytes.\<close>

type_synonym unknown_field = "nat \<times> wire_type \<times> bytes"

text \<open>
  Every message object can carry unknown fields (\<open>UnknownFieldHandler.list(message)\<close>). Each
  message type extends this record with its own fields.
\<close>

record message =
  unknownFields :: "unknown_field list"

record 'w writer =
  w_new :: 'w
  w_tag :: "nat \<Rightarrow> wire_type \<Rightarrow> 'w \<Rightarrow> 'w"
  w_bool :: "bool \<Rightarrow> 'w \<Rightarrow> 'w"
  w_string :: "string \<Rightarrow> 'w \<Rightarrow> 'w result"
  w_bytes :: "bytes \<Rightarrow> 'w \<Rightarrow> 'w result"
  w_int32 :: "js_number \<Rightarrow> 'w \<Rightarrow> 'w result"
  w_uint32 :: "js_number \<Rightarrow> 'w \<Rightarrow> 'w result"
  w_int64 :: "string \<Rightarrow> 'w \<Rightarrow> 'w result"
  w_uint64 :: "string \<Rightarrow> 'w \<Rightarrow> 'w result"
  w_fork :: "'w \<Rightarrow> 'w"
  w_join :: "'w \<Rightarrow> 'w result"
  w_finish :: "'w \<Rightarrow> bytes"
  w_onWrite :: "string \<Rightarrow> unknown_field list \<Rightarrow> 'w \<Rightarrow> 'w"

record 'r reader =
  r_new :: "bytes \<Rightarrow> 'r"
  r_pos :: "'r \<Rightarrow> nat"
  r_tag :: "'r \<Rightarrow> ((nat \<times> wire_type) \<times> 'r) result"
  r_bool :: "'r \<Rightarrow> (bool \<times> 'r) result"
  r_string :: "'r \<Rightarrow> (string \<times> 'r) result"
  r_bytes :: "'r \<Rightarrow> (bytes \<times> 'r) result"
  r_int32 :: "'r \<Rightarrow> (int \<times> 'r) result"
  r_uint32 :: "'r \<Rightarrow> (nat \<times> 'r) result"
  r_int64 :: "'r \<Rightarrow> (int \<times> 'r) result"
  r_uint64 :: "'r \<Rightarrow> (int \<times> 'r) result"
  r_skip :: "wire_type \<Rightarrow> 'r \<Rightarrow> (bytes \<times> 'r) result"
  r_onRead :: "string \<Rightarrow> nat \<Rightarrow> wire_type \<Rightarrow> bytes \<Rightarrow> unknown_field list \<Rightarrow> unknown_field list"

text \<open>
  The options \<open>readUnknownField\<close> (\<open>true\<close>, \<open>false\<close>, \<open>"throw"\<close> or a handler of the caller) and
  \<open>writeUnknownFields\<close>. A handler of the caller is a function on the unknown fields.
\<close>

datatype read_unknown = RU_true | RU_false | RU_throw
  | RU_fn "string \<Rightarrow> nat \<Rightarrow> wire_type \<Rightarrow> bytes \<Rightarrow> unknown_field list \<Rightarrow> unknown_field list"

datatype 'w write_unknown = WU_true | WU_false
  | WU_fn "string \<Rightarrow> unknown_field list \<Rightarrow> 'w \<Rightarrow> 'w"


section \<open>Statements of the generated readers\<close>

text \<open>
  \<open>message.f = reader.op();\<close>: run a reader operation and store its value.
\<close>

definition setField ::
  "('r \<Rightarrow> ('v \<times> 'r) result) \<Rightarrow> ('v \<Rightarrow> 'm \<Rightarrow> 'm) \<Rightarrow> 'm \<Rightarrow> 'r \<Rightarrow> ('m \<times> 'r) comp" where
  "setField op upd m r = (case op r of Inl e \<Rightarrow> Some (Inl e)
     | Inr (v, r') \<Rightarrow> Some (Inr (upd v m, r')))"

text \<open>
  \<open>message.f = T.internalBinaryRead(reader, reader.uint32(), options, target);\<close>: the length
  prefix is read first, then the nested message, into the given target.
\<close>

definition setMessage ::
  "'r reader \<Rightarrow> ('r \<Rightarrow> nat \<Rightarrow> 'n option \<Rightarrow> ('n \<times> 'r) comp) \<Rightarrow> 'n option \<Rightarrow>
   ('n \<Rightarrow> 'm \<Rightarrow> 'm) \<Rightarrow> 'm \<Rightarrow> 'r \<Rightarrow> ('m \<times> 'r) comp" where
  "setMessage R rd target upd m r = (case r_uint32 R r of Inl e \<Rightarrow> Some (Inl e)
     | Inr (n, r') \<Rightarrow> bindC (rd r' n target) (\<lambda>(v, r''). Some (Inr (upd v m, r''))))"

text \<open>
  The shapes the field switches use: a number field (\<open>reader.int32()\<close>), a 64-bit field kept
  as text (\<open>reader.int64().toString()\<close>), an optional message field (its present value is the
  target of the nested read) and \<open>push\<close> onto a repeated field.
\<close>

definition setNumber ::
  "('r \<Rightarrow> (int \<times> 'r) result) \<Rightarrow> (js_number \<Rightarrow> 'm \<Rightarrow> 'm) \<Rightarrow> 'm \<Rightarrow> 'r \<Rightarrow> ('m \<times> 'r) comp" where
  "setNumber op upd = setField op (\<lambda>i. upd (IntNum i))"

definition setUint32 ::
  "'r reader \<Rightarrow> (js_number \<Rightarrow> 'm \<Rightarrow> 'm) \<Rightarrow> 'm \<Rightarrow> 'r \<Rightarrow> ('m \<times> 'r) comp" where
  "setUint32 R upd = setField (r_uint32 R) (\<lambda>n. upd (IntNum (int n)))"

definition setLong ::
  "('r \<Rightarrow> (int \<times> 'r) result) \<Rightarrow> (string \<Rightarrow> 'm \<Rightarrow> 'm) \<Rightarrow> 'm \<Rightarrow> 'r \<Rightarrow> ('m \<times> 'r) comp" where
  "setLong op upd = setField op (\<lambda>i. upd (dec i))"

definition setOptMessage ::
  "'r reader \<Rightarrow> ('r \<Rightarrow> nat \<Rightarrow> 'n option \<Rightarrow> ('n \<times> 'r) comp) \<Rightarrow> 'n option \<Rightarrow>
   ('n option \<Rightarrow> 'm \<Rightarrow> 'm) \<Rightarrow> 'm \<Rightarrow> 'r \<Rightarrow> ('m \<times> 'r) comp" where
  "setOptMessage R rd target upd = setMessage R rd target (\<lambda>n. upd (Some n))"

definition pushField ::
  "('r \<Rightarrow> ('v \<times> 'r) result) \<Rightarrow> (('v list \<Rightarrow> 'v list) \<Rightarrow> 'm \<Rightarrow> 'm) \<Rightarrow> 'm \<Rightarrow> 'r \<Rightarrow> ('m \<times> 'r) comp" where
  "pushField op upd = setField op (\<lambda>v. upd (\<lambda>vs. vs @ [v]))"

definition pushLong ::
  "('r \<Rightarrow> (int \<times> 'r) result) \<Rightarrow> ((string list \<Rightarrow> string list) \<Rightarrow> 'm \<Rightarrow> 'm) \<Rightarrow>
   'm \<Rightarrow> 'r \<Rightarrow> ('m \<times> 'r) comp" where
  "pushLong op upd = setField op (\<lambda>i. upd (\<lambda>vs. vs @ [dec i]))"

definition pushMessage ::
  "'r reader \<Rightarrow> ('r \<Rightarrow> nat \<Rightarrow> 'n option \<Rightarrow> ('n \<times> 'r) comp) \<Rightarrow>
   (('n list \<Rightarrow> 'n list) \<Rightarrow> 'm \<Rightarrow> 'm) \<Rightarrow> 'm \<Rightarrow> 'r \<Rightarrow> ('m \<times> 'r) comp" where
  "pushMessage R rd upd = setMessage R rd None (\<lambda>n. upd (\<lambda>ns. ns @ [n]))"

text \<open>
  The \<open>default\<close> branch of every field switch: throw, or skip the field and hand its bytes
  to the unknown field handler.
\<close>

definition readUnknown ::
  "'r reader \<Rightarrow> read_unknown \<Rightarrow> string \<Rightarrow> nat \<Rightarrow> wire_type \<Rightarrow> 'm message_scheme \<Rightarrow> 'r \<Rightarrow>
   ('m message_scheme \<times> 'r) comp" where
  "readUnknown R u typeName fieldNo wireType m r = (case u of
       RU_throw \<Rightarrow> Some (Inl (mkError (''Unknown field '' @ dec (int fieldNo) @
          '' (wire type '' @ dec (wire_type_no wireType) @ '') for '' @ typeName)))
     | RU_false \<Rightarrow> setField (r_skip R wireType) (\<lambda>d m. m) m r
     | RU_true \<Rightarrow> setField (r_skip R wireType) (\<lambda>d m.
          m\<lparr>unknownFields := r_onRead R typeName fieldNo wireType d (unknownFields m)\<rparr>) m r
     | RU_fn h \<Rightarrow> setField (r_skip R wireType) (\<lambda>d m.
          m\<lparr>unknownFields := h typeName fieldNo wireType d (unknownFields m)\<rparr>) m r)"

text \<open>
  The body of every \<open>internalBinaryRead\<close>: \<open>target ?? this.create()\<close>, the end position, and
  the loop that reads a tag and runs the field switch while \<open>reader.pos < end\<close>. Nothing in
  the source bounds the loop: it stops because the reader advances, which is a law of the
  runtime library.
\<close>

definition readTagged ::
  "'r reader \<Rightarrow> (nat \<Rightarrow> wire_type \<Rightarrow> 'm \<Rightarrow> 'r \<Rightarrow> ('m \<times> 'r) comp) \<Rightarrow> 'm \<Rightarrow> 'r \<Rightarrow> ('m \<times> 'r) comp" where
  "readTagged R fld m r = (case r_tag R r of Inl e \<Rightarrow> Some (Inl e)
     | Inr ((fieldNo, wireType), r') \<Rightarrow> fld fieldNo wireType m r')"

partial_function (option) readLoop ::
  "'r reader \<Rightarrow> ('m \<Rightarrow> 'r \<Rightarrow> ('m \<times> 'r) comp) \<Rightarrow> int \<Rightarrow> 'm \<Rightarrow> 'r \<Rightarrow> ('m \<times> 'r) comp" where
  "readLoop R body e m r =
     (if int (r_pos R r) < e
      then Option.bind (body m r) (\<lambda>y. case y of Inl ex \<Rightarrow> Some (Inl ex)
             | Inr x \<Rightarrow> readLoop R body e (fst x) (snd x))
      else Some (Inr (m, r)))"

definition readMessage ::
  "'r reader \<Rightarrow> (nat \<Rightarrow> wire_type \<Rightarrow> 'm \<Rightarrow> 'r \<Rightarrow> ('m \<times> 'r) comp) \<Rightarrow> 'm \<Rightarrow> 'r \<Rightarrow> nat \<Rightarrow>
   'm option \<Rightarrow> ('m \<times> 'r) comp" where
  "readMessage R fld create r len target =
     (let m = (case target of None \<Rightarrow> create | Some t \<Rightarrow> t); e = r_pos R r + len
      in readLoop R (readTagged R fld) (int e) m r)"

text \<open>
  \<open>if (wireType === WireType.LengthDelimited)
     for (let e = reader.int32() + reader.pos; reader.pos < e;) push;
   else push;\<close>:
  a packed repeated field; any other wire type holds a single element.
\<close>

definition readPacked ::
  "'r reader \<Rightarrow> ('m \<Rightarrow> 'r \<Rightarrow> ('m \<times> 'r) comp) \<Rightarrow> wire_type \<Rightarrow> 'm \<Rightarrow> 'r \<Rightarrow> ('m \<times> 'r) comp" where
  "readPacked R push wireType m r =
     (if wireType = LengthDelimited
      then (case r_int32 R r of Inl e \<Rightarrow> Some (Inl e)
            | Inr (n, r') \<Rightarrow> readLoop R push (n + int (r_pos R r')) m r')
      else push m r)"


section \<open>Statements of the generated writers\<close>

text \<open>\<open>if (c) s\<close>, \<open>for (x of xs) s\<close> and statement sequences, over the writer.\<close>

definition whenW :: "bool \<Rightarrow> ('w \<Rightarrow> 'w result) \<Rightarrow> 'w \<Rightarrow> 'w result" where
  "whenW c f w = (if c then f w else Inr w)"

fun seqW :: "('w \<Rightarrow> 'w result) list \<Rightarrow> 'w \<Rightarrow> 'w result" where
  "seqW [] w = Inr w"
| "seqW (f # fs) w = bindE (f w) (seqW fs)"

definition forW :: "('a \<Rightarrow> 'w \<Rightarrow> 'w result) \<Rightarrow> 'a list \<Rightarrow> 'w \<Rightarrow> 'w result" where
  "forW f xs = seqW (map f xs)"

text \<open>\<open>writer.tag(no, WireType.T).op(v);\<close>\<close>

definition tagBool :: "'w writer \<Rightarrow> nat \<Rightarrow> bool \<Rightarrow> 'w \<Rightarrow> 'w result" where
  "tagBool W no b w = Inr (w_bool W b (w_tag W no Varint w))"

definition tagString :: "'w writer \<Rightarrow> nat \<Rightarrow> string \<Rightarrow> 'w \<Rightarrow> 'w result" where
  "tagString W no s w = w_string W s (w_tag W no LengthDelimited w)"

definition tagBytes :: "'w writer \<Rightarrow> nat \<Rightarrow> bytes \<Rightarrow> 'w \<Rightarrow> 'w result" where
  "tagBytes W no b w = w_bytes W b (w_tag W no LengthDelimited w)"

definition tagInt32 :: "'w writer \<Rightarrow> nat \<Rightarrow> js_number \<Rightarrow> 'w \<Rightarrow> 'w result" where
  "tagInt32 W no x w = w_int32 W x (w_tag W no Varint w)"

definition tagUint32 :: "'w writer \<Rightarrow> nat \<Rightarrow> js_number \<Rightarrow> 'w \<Rightarrow> 'w result" where
  "tagUint32 W no x w = w_uint32 W x (w_tag W no Varint w)"

definition tagInt64 :: "'w writer \<Rightarrow> nat \<Rightarrow> string \<Rightarrow> 'w \<Rightarrow> 'w result" where
  "tagInt64 W no s w = w_int64 W s (w_tag W no Varint w)"

definition tagUint64 :: "'w writer \<Rightarrow> nat \<Rightarrow> string \<Rightarrow> 'w \<Rightarrow> 'w result" where
  "tagUint64 W no s w = w_uint64 W s (w_tag W no Varint w)"

text \<open>\<open>T.internalBinaryWrite(m, writer.tag(no, WireType.LengthDelimited).fork(), options).join();\<close>\<close>

definition tagMessage :: "'w writer \<Rightarrow> nat \<Rightarrow> ('w \<Rightarrow> 'w result) \<Rightarrow> 'w \<Rightarrow> 'w result" where
  "tagMessage W no wr w = bindE (wr (w_fork W (w_tag W no LengthDelimited w))) (w_join W)"

text \<open>
  \<open>if (xs.length) { writer.tag(no, WireType.LengthDelimited).fork(); for (x of xs) writer.int64(x);
  writer.join(); }\<close>
\<close>

definition tagPackedInt64 :: "'w writer \<Rightarrow> nat \<Rightarrow> string list \<Rightarrow> 'w \<Rightarrow> 'w result" where
  "tagPackedInt64 W no xs = whenW (xs \<noteq> []) (tagMessage W no (forW (w_int64 W) xs))"

text \<open>The last statement of every \<open>internalBinaryWrite\<close>.\<close>

definition writeUnknown ::
  "'w writer \<Rightarrow> 'w write_unknown \<Rightarrow> string \<Rightarrow> 'm message_scheme \<Rightarrow> 'w \<Rightarrow> 'w result" where
  "writeUnknown W u typeName m w = (case u of WU_false \<Rightarrow> Inr w
     | WU_true \<Rightarrow> Inr (w_onWrite W typeName (unknownFields m) w)
     | WU_fn h \<Rightarrow> Inr (h typeName (unknownFields m) w))"

text \<open>\<open>if (message.scope) ...\<close> on an optional message field.\<close>

definition whenSome :: "'n option \<Rightarrow> ('n \<Rightarrow> 'w \<Rightarrow> 'w result) \<Rightarrow> 'w \<Rightarrow> 'w result" where
  "whenSome x f w = (case x of None \<Rightarrow> Inr w | Some n \<Rightarrow> f n w)"

text \<open>
  The entry points \<open>MessageType.toBinary\<close> and \<open>MessageType.fromBinary\<close> of the runtime
  library, on the generated methods.
\<close>

definition toBinary :: "'w writer \<Rightarrow> ('w \<Rightarrow> 'w result) \<Rightarrow> bytes result" where
  "toBinary W wr = bindE (wr (w_new W)) (\<lambda>w. Inr (w_finish W w))"

definition fromBinary ::
  "'r reader \<Rightarrow> ('r \<Rightarrow> nat \<Rightarrow> 'm option \<Rightarrow> ('m \<times> 'r) comp) \<Rightarrow> bytes \<Rightarrow> 'm comp" where
  "fromBinary R rd bs = bindC (rd (r_new R bs) (length bs) None) (\<lambda>(m, r). Some (Inr m))"


section \<open>Reference encoding\<close>

text \<open>
  The encoding of single values, and the proto3 encoding of fields as pure functions to
  bytes: a field at its default value is left out. The writers are proved equal to it.
\<close>

record encoding =
  e_tag :: "nat \<Rightarrow> wire_type \<Rightarrow> bytes"
  e_bool :: "bool \<Rightarrow> bytes"
  e_string :: "string \<Rightarrow> bytes"
  e_bytes :: "bytes \<Rightarrow> bytes"
  e_int32 :: "int \<Rightarrow> bytes"
  e_uint32 :: "nat \<Rightarrow> bytes"
  e_int64 :: "int \<Rightarrow> bytes"
  e_uint64 :: "int \<Rightarrow> bytes"

definition encBool :: "encoding \<Rightarrow> nat \<Rightarrow> bool \<Rightarrow> bytes" where
  "encBool E no b = (if b then e_tag E no Varint @ e_bool E b else [])"

definition encString :: "encoding \<Rightarrow> nat \<Rightarrow> string \<Rightarrow> bytes" where
  "encString E no s = (if s = [] then [] else e_tag E no LengthDelimited @ e_string E s)"

definition encBytes :: "encoding \<Rightarrow> nat \<Rightarrow> bytes \<Rightarrow> bytes" where
  "encBytes E no b = (if b = [] then [] else e_tag E no LengthDelimited @ e_bytes E b)"

definition int_of_num :: "js_number \<Rightarrow> int" where
  "int_of_num x = (case x of IntNum v \<Rightarrow> v | OtherNum _ \<Rightarrow> 0)"

definition encInt32 :: "encoding \<Rightarrow> nat \<Rightarrow> js_number \<Rightarrow> bytes" where
  "encInt32 E no x = (if x = IntNum 0 then [] else e_tag E no Varint @ e_int32 E (int_of_num x))"

definition encUint32 :: "encoding \<Rightarrow> nat \<Rightarrow> js_number \<Rightarrow> bytes" where
  "encUint32 E no x =
     (if x = IntNum 0 then [] else e_tag E no Varint @ e_uint32 E (nat (int_of_num x)))"

definition encInt64 :: "encoding \<Rightarrow> nat \<Rightarrow> string \<Rightarrow> bytes" where
  "encInt64 E no s = (if s = ''0'' then [] else e_tag E no Varint @ e_int64 E (the (undec s)))"

definition encUint64 :: "encoding \<Rightarrow> nat \<Rightarrow> string \<Rightarrow> bytes" where
  "encUint64 E no s = (if s = ''0'' then [] else e_tag E no Varint @ e_uint64 E (the (undec s)))"

definition encMessage :: "encoding \<Rightarrow> nat \<Rightarrow> bytes \<Rightarrow> bytes" where
  "encMessage E no bs = e_tag E no LengthDelimited @ e_uint32 E (length bs) @ bs"

definition encOption :: "('n \<Rightarrow> bytes) \<Rightarrow> 'n option \<Rightarrow> bytes" where
  "encOption f x = (case x of None \<Rightarrow> [] | Some n \<Rightarrow> f n)"

definition encRepeated :: "('a \<Rightarrow> bytes) \<Rightarrow> 'a list \<Rightarrow> bytes" where
  "encRepeated f xs = concat (map f xs)"

definition encPackedInt64 :: "encoding \<Rightarrow> nat \<Rightarrow> string list \<Rightarrow> bytes" where
  "encPackedInt64 E no xs = (if xs = [] then []
     else let body = encRepeated (\<lambda>s. e_int64 E (the (undec s))) xs
          in e_tag E no LengthDelimited @ e_uint32 E (length body) @ body)"

definition encUnknown :: "encoding \<Rightarrow> 'm message_scheme \<Rightarrow> bytes" where
  "encUnknown E m = encRepeated (\<lambda>(no, wt, d). e_tag E no wt @ d) (unknownFields m)"

text \<open>Field numbers of the protobuf language, and valid unknown fields of a message.\<close>

definition field_no_ok :: "nat \<Rightarrow> bool" where
  "field_no_ok no \<longleftrightarrow> 0 < no \<and> no < 536870912"

definition unknown_ok :: "(wire_type \<Rightarrow> bytes \<Rightarrow> bool) \<Rightarrow> nat \<Rightarrow> 'm message_scheme \<Rightarrow> bool" where
  "unknown_ok payload known m =
     list_all (\<lambda>(no, wt, d). known < no \<and> field_no_ok no \<and> payload wt d) (unknownFields m)"

definition int32_ok :: "js_number \<Rightarrow> bool" where
  "int32_ok x = (case x of IntNum v \<Rightarrow> in_int32 v | OtherNum _ \<Rightarrow> False)"

definition uint32_ok :: "js_number \<Rightarrow> bool" where
  "uint32_ok x = (case x of IntNum v \<Rightarrow> in_uint32 v | OtherNum _ \<Rightarrow> False)"

definition int64_ok :: "string \<Rightarrow> bool" where
  "int64_ok s = dec_in (\<lambda>v. in_int64 v) s"

definition uint64_ok :: "string \<Rightarrow> bool" where
  "uint64_ok s = dec_in (\<lambda>v. in_uint64 v) s"

end
