(* ===== verification/Wire_Runtime.thy ===== *)
theory Wire_Runtime
  imports Wire
begin

text \<open>
  The contract of the runtime library, as the locale \<open>wire_runtime\<close>, and the rules that
  derive the behaviour of a generated codec from it: what the writer appends is the
  reference encoding, reading the reference encoding back gives the message, and a reader
  returns on every input.
\<close>


section \<open>Vocabulary\<close>

text \<open>
  \<open>appends st f bs\<close>: the writer action \<open>f\<close> succeeds and appends \<open>bs\<close> to the innermost open
  fork; \<open>st\<close> gives the bytes of the open forks, innermost first. \<open>consumes pos rest op bs v\<close>:
  on an input that starts with \<open>bs\<close> the reader operation \<open>op\<close> returns \<open>v\<close> and advances past \<open>bs\<close>.
\<close>

definition appends :: "('w \<Rightarrow> bytes list) \<Rightarrow> ('w \<Rightarrow> 'w result) \<Rightarrow> bytes \<Rightarrow> bool" where
  "appends st f bs \<longleftrightarrow>
     (\<forall>w c cs. st w = c # cs \<longrightarrow> (\<exists>w'. f w = Inr w' \<and> st w' = (c @ bs) # cs))"

definition consumes ::
  "('r \<Rightarrow> nat) \<Rightarrow> ('r \<Rightarrow> bytes) \<Rightarrow> ('r \<Rightarrow> ('v \<times> 'r) result) \<Rightarrow> bytes \<Rightarrow> 'v \<Rightarrow> bool" where
  "consumes pos rest op bs v \<longleftrightarrow> (\<forall>r t. rest r = bs @ t \<longrightarrow>
     (\<exists>r'. op r = Inr (v, r') \<and> rest r' = t \<and> pos r' = pos r + length bs))"

text \<open>\<open>forward pos op\<close>: the operation never moves the reader back.\<close>

definition forward :: "('r \<Rightarrow> nat) \<Rightarrow> ('r \<Rightarrow> ('v \<times> 'r) result) \<Rightarrow> bool" where
  "forward pos op \<longleftrightarrow> (\<forall>r v r'. op r = Inr (v, r') \<longrightarrow> pos r \<le> pos r')"

lemma appendsI:
  "(\<And>w c cs. st w = c # cs \<Longrightarrow> \<exists>w'. f w = Inr w' \<and> st w' = (c @ bs) # cs) \<Longrightarrow> appends st f bs"
  by (auto simp: appends_def)

lemma appendsE:
  assumes "appends st f bs" "st w = c # cs"
  obtains w' where "f w = Inr w'" "st w' = (c @ bs) # cs"
  using assms unfolding appends_def by blast

lemma consumesE:
  assumes "consumes pos rest op bs v" "rest r = bs @ t"
  obtains r' where "op r = Inr (v, r')" "rest r' = t" "pos r' = pos r + length bs"
  using assms unfolding consumes_def by blast

lemma appends_Nil: "appends st Inr []"
  by (auto simp: appends_def)

lemma appends_bind:
  assumes f: "appends st f bs" and g: "appends st g cs"
  shows "appends st (\<lambda>w. bindE (f w) g) (bs @ cs)"
proof (rule appendsI)
  fix w c ds
  assume "st w = c # ds"
  with f obtain w1 where w1: "f w = Inr w1" "st w1 = (c @ bs) # ds" by (rule appendsE)
  from g w1(2) obtain w2 where "g w1 = Inr w2" "st w2 = ((c @ bs) @ cs) # ds" by (rule appendsE)
  with w1 show "\<exists>w'. bindE (f w) g = Inr w' \<and> st w' = (c @ bs @ cs) # ds" by simp
qed

lemma appends_seqW:
  assumes "list_all2 (appends st) fs bss"
  shows "appends st (seqW fs) (concat bss)"
  using assms
proof (induction fs bss rule: list_all2_induct)
  case Nil
  then show ?case by (auto simp: appends_def)
next
  case (Cons f fs bs bss)
  then show ?case using appends_bind [of st f bs "seqW fs" "concat bss"]
    by (simp add: appends_def)
qed


lemma whenW_simps [simp]: "whenW True f = f" "whenW False f = Inr"
  by (auto simp: whenW_def)

lemma seqW_Cons: "seqW (f # fs) = (\<lambda>w. bindE (f w) (seqW fs))"
  by auto

lemma seqW_Nil: "seqW [] = Inr"
  by auto


text \<open>Messages are shorter than 2 GiB, so every nested length fits the runtime's lengths.\<close>

definition fits :: "bytes \<Rightarrow> bool" where
  "fits bs \<longleftrightarrow> length bs < 2147483648"

lemma fits_append: "fits (bs @ cs) \<Longrightarrow> fits bs \<and> fits cs"
  by (simp add: fits_def)

text \<open>The functional update of a record field: updates compose, the identity changes nothing.\<close>

definition field_update :: "(('v \<Rightarrow> 'v) \<Rightarrow> 'm \<Rightarrow> 'm) \<Rightarrow> bool" where
  "field_update upd \<longleftrightarrow>
     (\<forall>h k m. upd h (upd k m) = upd (\<lambda>y. h (k y)) m) \<and> (\<forall>m. upd (\<lambda>y. y) m = m)"

lemmas field_intros = field_no_ok_def field_update_def comp_def


section \<open>The contract\<close>

subsection \<open>The writer\<close>

text \<open>
  Each writer operation appends the encoding of its value, the 32-bit and 64-bit ones when
  the value is in range (and throw when a 64-bit text is a decimal out of range); \<open>fork\<close> opens
  a length-delimited run that \<open>join\<close> closes with its length and bytes; lengths are 32-bit;
  unknown fields are written in order.
\<close>

locale wire_writer =
  fixes W :: "'w writer" and E :: encoding and st :: "'w \<Rightarrow> bytes list"
  assumes new: "st (w_new W) = [[]]"
    and finish: "st w = [c] \<Longrightarrow> w_finish W w = c"
    and tag: "field_no_ok no \<Longrightarrow> appends st (\<lambda>w. Inr (w_tag W no wt w)) (e_tag E no wt)"
    and bool: "appends st (\<lambda>w. Inr (w_bool W b w)) (e_bool E b)"
    and string: "length (e_string E s) < 4294967296 \<Longrightarrow> appends st (w_string W s) (e_string E s)"
    and bytes: "length (e_bytes E bs) < 4294967296 \<Longrightarrow> appends st (w_bytes W bs) (e_bytes E bs)"
    and int32: "in_int32 v \<Longrightarrow> appends st (w_int32 W (IntNum v)) (e_int32 E v)"
    and uint32: "in_uint32 v \<Longrightarrow> appends st (w_uint32 W (IntNum v)) (e_uint32 E (nat v))"
    and int64: "in_int64 v \<Longrightarrow> appends st (w_int64 W (dec v)) (e_int64 E v)"
    and int64_range: "\<not> in_int64 v \<Longrightarrow> \<exists>e. w_int64 W (dec v) w = Inl e"
    and uint64: "in_uint64 v \<Longrightarrow> appends st (w_uint64 W (dec v)) (e_uint64 E v)"
    and fork: "st (w_fork W w) = [] # st w"
    and join: "st w = c # d # cs \<Longrightarrow> length c < 4294967296 \<Longrightarrow>
          \<exists>w'. w_join W w = Inr w' \<and> st w' = (d @ e_uint32 E (length c) @ c) # cs"
    and onWrite: "appends st (\<lambda>w. Inr (w_onWrite W tn us w))
          (encRepeated (\<lambda>(no, wt, d). e_tag E no wt @ d) us)"
begin

lemma tag_appends:
  assumes "field_no_ok no" "appends st op bs"
  shows "appends st (\<lambda>w. op (w_tag W no wt w)) (e_tag E no wt @ bs)"
  using appends_bind [OF tag [OF assms(1)] assms(2), of wt] by simp

text \<open>\<open>fork\<close> and \<open>join\<close> around an action that appends \<open>bs\<close>.\<close>

lemma fork_join:
  assumes no: "field_no_ok no" and f: "appends st f bs" and bs: "length bs < 4294967296"
  shows "appends st (tagMessage W no f) (encMessage E no bs)"
proof (rule appendsI)
  fix w c cs
  let ?t = "e_tag E no LengthDelimited"
  assume "st w = c # cs"
  with tag [OF no, of LengthDelimited] have "st (w_tag W no LengthDelimited w) = (c @ ?t) # cs"
    by (auto elim!: appendsE)
  then have "st (w_fork W (w_tag W no LengthDelimited w)) = [] # (c @ ?t) # cs"
    by (simp add: fork)
  with f obtain w1 where w1: "f (w_fork W (w_tag W no LengthDelimited w)) = Inr w1"
      "st w1 = ([] @ bs) # (c @ ?t) # cs" by (rule appendsE)
  from join [of w1 bs "c @ ?t" cs] w1 bs
  show "\<exists>w'. tagMessage W no f w = Inr w' \<and> st w' = (c @ encMessage E no bs) # cs"
    by (auto simp: tagMessage_def encMessage_def)
qed

lemma appends_longs:
  assumes "list_all int64_ok xs"
  shows "appends st (forW (w_int64 W) xs) (encRepeated (\<lambda>s. e_int64 E (the (undec s))) xs)"
  using assms
proof (induction xs)
  case Nil
  then show ?case by (simp add: forW_def encRepeated_def seqW_Nil appends_Nil)
next
  case (Cons s xs)
  then have "appends st (w_int64 W s) (e_int64 E (the (undec s)))"
    by (auto simp: int64_ok_def elim!: dec_inE intro: int64)
  with Cons show ?case
    using appends_bind [of st "w_int64 W s"] by (simp add: forW_def encRepeated_def seqW_Cons)
qed

end


subsection \<open>The reader\<close>

text \<open>
  Each reader operation decodes what the matching writer operation encodes; a tag takes at
  least one byte; \<open>skip\<close> returns the bytes of a well-formed field; unknown fields are kept in
  order.
\<close>

locale wire_reader =
  fixes R :: "'r reader" and E :: encoding and rest :: "'r \<Rightarrow> bytes"
    and payload :: "wire_type \<Rightarrow> bytes \<Rightarrow> bool"
  assumes r_new: "rest (r_new R bs) = bs" "r_pos R (r_new R bs) = 0"
    and r_tag: "field_no_ok no \<Longrightarrow> consumes (r_pos R) rest (r_tag R) (e_tag E no wt) (no, wt)"
    and tag_pos: "e_tag E no wt \<noteq> []"
    and r_bool: "consumes (r_pos R) rest (r_bool R) (e_bool E b) b"
    and r_string: "length (e_string E s) < 4294967296 \<Longrightarrow>
          consumes (r_pos R) rest (r_string R) (e_string E s) s"
    and r_bytes: "length (e_bytes E bs) < 4294967296 \<Longrightarrow>
          consumes (r_pos R) rest (r_bytes R) (e_bytes E bs) bs"
    and r_int32: "in_int32 v \<Longrightarrow> consumes (r_pos R) rest (r_int32 R) (e_int32 E v) v"
    and r_int32_len: "n < 2147483648 \<Longrightarrow>
          consumes (r_pos R) rest (r_int32 R) (e_uint32 E n) (int n)"
    and r_uint32: "n < 4294967296 \<Longrightarrow> consumes (r_pos R) rest (r_uint32 R) (e_uint32 E n) n"
    and r_int64: "in_int64 v \<Longrightarrow> consumes (r_pos R) rest (r_int64 R) (e_int64 E v) v"
    and int64_pos: "in_int64 v \<Longrightarrow> e_int64 E v \<noteq> []"
    and r_uint64: "in_uint64 v \<Longrightarrow> consumes (r_pos R) rest (r_uint64 R) (e_uint64 E v) v"
    and r_skip: "payload wt d \<Longrightarrow> consumes (r_pos R) rest (r_skip R wt) d d"
    and onRead: "r_onRead R tn no wt d us = us @ [(no, wt, d)]"
begin

text \<open>
  \<open>reads body bs m m'\<close>: the read loop with the given body, started on message \<open>m\<close> at an input
  that starts with \<open>bs\<close>, comes to message \<open>m'\<close> just past \<open>bs\<close>.
\<close>

definition reads :: "('m \<Rightarrow> 'r \<Rightarrow> ('m \<times> 'r) comp) \<Rightarrow> bytes \<Rightarrow> 'm \<Rightarrow> 'm \<Rightarrow> bool" where
  "reads body bs m m' \<longleftrightarrow> (\<forall>r t e. rest r = bs @ t \<longrightarrow> int (r_pos R r + length bs) \<le> e \<longrightarrow>
     (\<exists>r'. rest r' = t \<and> r_pos R r' = r_pos R r + length bs \<and>
           readLoop R body e m r = readLoop R body e m' r'))"

lemma reads_Nil: "reads body [] m m"
  by (auto simp: reads_def)

lemma reads_append:
  assumes a: "reads body bs m m1" and b: "reads body cs m1 m2"
  shows "reads body (bs @ cs) m m2"
  unfolding reads_def
proof (intro allI impI)
  fix r t e
  assume r: "rest r = (bs @ cs) @ t" and e: "int (r_pos R r + length (bs @ cs)) \<le> e"
  from r e obtain r1 where r1: "rest r1 = cs @ t" "r_pos R r1 = r_pos R r + length bs"
      "readLoop R body e m r = readLoop R body e m1 r1"
    using a [unfolded reads_def, rule_format, of r "cs @ t" e] by auto
  from r1 e obtain r2 where "rest r2 = t" "r_pos R r2 = r_pos R r1 + length cs"
      "readLoop R body e m1 r1 = readLoop R body e m2 r2"
    using b [unfolded reads_def, rule_format, of r1 t e] by auto
  with r1 show "\<exists>r'. rest r' = t \<and> r_pos R r' = r_pos R r + length (bs @ cs) \<and>
      readLoop R body e m r = readLoop R body e m2 r'" by auto
qed

text \<open>One turn of the loop: the body reads a non-empty chunk.\<close>

lemma reads_step:
  assumes step: "\<And>r t. rest r = bs @ t \<Longrightarrow> \<exists>r'. body m r = Some (Inr (m', r')) \<and> rest r' = t \<and>
      r_pos R r' = r_pos R r + length bs" and ne: "bs \<noteq> []"
  shows "reads body bs m m'"
  unfolding reads_def
proof (intro allI impI)
  fix r t e
  assume r: "rest r = bs @ t" and e: "int (r_pos R r + length bs) \<le> e"
  from step [OF r] obtain r' where r': "body m r = Some (Inr (m', r'))" "rest r' = t"
      "r_pos R r' = r_pos R r + length bs" by auto
  from ne have "0 < length bs" by simp
  with e have "int (r_pos R r) < e" by linarith
  with r' show "\<exists>r'. rest r' = t \<and> r_pos R r' = r_pos R r + length bs \<and>
      readLoop R body e m r = readLoop R body e m' r'"
    by (auto simp: readLoop.simps [of R body e m r])
qed

text \<open>A loop that has consumed its input stops there.\<close>

lemma reads_loop:
  assumes "reads body bs m m'" "rest r = bs @ t" "e = int (r_pos R r + length bs)"
  shows "\<exists>r'. readLoop R body e m r = Some (Inr (m', r')) \<and> rest r' = t \<and>
     r_pos R r' = r_pos R r + length bs"
proof -
  from assms obtain r' where "rest r' = t" "r_pos R r' = r_pos R r + length bs"
      "readLoop R body e m r = readLoop R body e m' r'"
    unfolding reads_def by blast
  moreover from this(2) assms(3) have "readLoop R body e m' r' = Some (Inr (m', r'))"
    by (subst readLoop.simps) simp
  ultimately show ?thesis by auto
qed

lemma setField_reads:
  assumes "consumes (r_pos R) rest op bs v" "rest r = bs @ t"
  shows "\<exists>r'. setField op upd m r = Some (Inr (upd v m, r')) \<and> rest r' = t \<and>
     r_pos R r' = r_pos R r + length bs"
  using assms by (auto simp: setField_def elim!: consumesE)

text \<open>A tagged field: the tag, then whatever the field switch reads.\<close>

lemma tagged_reads:
  assumes no: "field_no_ok no"
    and fld: "\<And>r t. rest r = bs @ t \<Longrightarrow> \<exists>r'. fld no wt m r = Some (Inr (m', r')) \<and> rest r' = t \<and>
      r_pos R r' = r_pos R r + length bs"
  shows "reads (readTagged R fld) (e_tag E no wt @ bs) m m'"
proof (rule reads_step)
  show "e_tag E no wt @ bs \<noteq> []" by (simp add: tag_pos)
  fix r t
  assume "rest r = (e_tag E no wt @ bs) @ t"
  then have "rest r = e_tag E no wt @ bs @ t" by simp
  with r_tag [OF no] obtain r1 where r1: "r_tag R r = Inr ((no, wt), r1)" "rest r1 = bs @ t"
      "r_pos R r1 = r_pos R r + length (e_tag E no wt)" by (rule consumesE)
  from fld [OF r1(2)] r1 show "\<exists>r'. readTagged R fld m r = Some (Inr (m', r')) \<and> rest r' = t \<and>
      r_pos R r' = r_pos R r + length (e_tag E no wt @ bs)"
    by (auto simp: readTagged_def)
qed

text \<open>The elements of a packed field, and unknown fields, which are kept in order.\<close>

lemma reads_longs:
  assumes "list_all int64_ok xs" "field_update upd"
  shows "reads (pushLong (r_int64 R) upd) (encRepeated (\<lambda>s. e_int64 E (the (undec s))) xs) m
    (upd (\<lambda>ys. ys @ xs) m)"
  using assms(1)
proof (induction xs arbitrary: m)
  case Nil
  with assms(2) show ?case by (simp add: encRepeated_def reads_Nil field_update_def)
next
  case (Cons s xs)
  from Cons.prems obtain v where v: "s = dec v" "in_int64 v"
    by (auto simp: int64_ok_def elim: dec_inE)
  let ?m1 = "upd (\<lambda>ys. ys @ [s]) m"
  have "reads (pushLong (r_int64 R) upd) (e_int64 E v) m ?m1"
    by (rule reads_step)
      (use setField_reads [OF r_int64 [OF v(2)], where upd = "\<lambda>i. upd (\<lambda>vs. vs @ [dec i])"] v
        in \<open>simp_all add: pushLong_def int64_pos\<close>)
  moreover have "reads (pushLong (r_int64 R) upd) (encRepeated (\<lambda>s. e_int64 E (the (undec s))) xs)
      ?m1 (upd (\<lambda>ys. ys @ s # xs) m)"
    using Cons.IH [of ?m1] Cons.prems assms(2) by (simp add: field_update_def)
  ultimately show ?case
    using reads_append [of "pushLong (r_int64 R) upd" "e_int64 E v"] v by (simp add: encRepeated_def)
qed

lemma reads_unknown:
  assumes fld: "\<And>no wt m. known < no \<Longrightarrow> fld no wt m = readUnknown R RU_true tn no wt m"
    and "list_all (\<lambda>(no, wt, d). known < no \<and> field_no_ok no \<and> payload wt d) us"
  shows "reads (readTagged R fld) (encRepeated (\<lambda>(no, wt, d). e_tag E no wt @ d) us) m
    (m\<lparr>unknownFields := unknownFields m @ us\<rparr>)"
  using assms(2)
proof (induction us arbitrary: m)
  case Nil
  then show ?case by (simp add: encRepeated_def reads_Nil)
next
  case (Cons u us)
  obtain no wt d where u: "u = (no, wt, d)" by (cases u)
  with Cons.prems have no: "known < no" "field_no_ok no" "payload wt d" by auto
  let ?m1 = "m\<lparr>unknownFields := unknownFields m @ [u]\<rparr>"
  have "reads (readTagged R fld) (e_tag E no wt @ d) m ?m1"
  proof (rule tagged_reads [OF no(2)])
    fix r t
    assume "rest r = d @ t"
    from setField_reads [OF r_skip [OF no(3)] this,
        of "\<lambda>d m. m\<lparr>unknownFields := unknownFields m @ [(no, wt, d)]\<rparr>" m]
    show "\<exists>r'. fld no wt m r = Some (Inr (?m1, r')) \<and> rest r' = t \<and>
        r_pos R r' = r_pos R r + length d"
      by (simp add: fld [OF no(1)] readUnknown_def onRead u)
  qed
  moreover have "reads (readTagged R fld) (encRepeated (\<lambda>(no, wt, d). e_tag E no wt @ d) us) ?m1
      (m\<lparr>unknownFields := unknownFields m @ u # us\<rparr>)"
    using Cons.IH [of ?m1] Cons.prems by simp
  ultimately show ?case
    using reads_append [of "readTagged R fld" "e_tag E no wt @ d"] by (simp add: encRepeated_def u)
qed

end


subsection \<open>Progress of the reader\<close>

text \<open>
  The reader only moves forward, and reading a tag or a 64-bit integer takes at least one
  byte. This is all that termination needs.
\<close>

locale wire_progress =
  fixes R :: "'r reader"
  assumes tag_forward: "r_tag R r = Inr (x, r') \<Longrightarrow> r_pos R r < r_pos R r'"
    and int64_forward: "r_int64 R r = Inr (y, r') \<Longrightarrow> r_pos R r < r_pos R r'"
    and op_forward: "forward (r_pos R) (r_bool R)" "forward (r_pos R) (r_string R)"
      "forward (r_pos R) (r_bytes R)" "forward (r_pos R) (r_int32 R)"
      "forward (r_pos R) (r_uint32 R)" "forward (r_pos R) (r_uint64 R)"
      "forward (r_pos R) (r_skip R wt)"
begin

text \<open>
  \<open>returns f\<close>: from every reader state the action returns or throws, and does not move the
  reader back. \<open>switch_returns fld\<close> says it of a field switch, \<open>reader_returns rd\<close> of the reader
  of a nested message.
\<close>

definition returns :: "('r \<Rightarrow> ('m \<times> 'r) comp) \<Rightarrow> bool" where
  "returns f \<longleftrightarrow> (\<forall>r. \<exists>y. f r = Some y \<and> (\<forall>m r'. y = Inr (m, r') \<longrightarrow> r_pos R r \<le> r_pos R r'))"

definition switch_returns :: "(nat \<Rightarrow> wire_type \<Rightarrow> 'm \<Rightarrow> 'r \<Rightarrow> ('m \<times> 'r) comp) \<Rightarrow> bool" where
  "switch_returns fld \<longleftrightarrow> (\<forall>no wt m. returns (fld no wt m))"

definition reader_returns :: "('r \<Rightarrow> nat \<Rightarrow> 'm option \<Rightarrow> ('m \<times> 'r) comp) \<Rightarrow> bool" where
  "reader_returns rd \<longleftrightarrow> (\<forall>n t. returns (\<lambda>r. rd r n t))"

text \<open>A loop whose body always moves the reader on returns.\<close>

lemma loop_returns:
  assumes body: "\<And>m r. \<exists>y. body m r = Some y \<and> (\<forall>m' r'. y = Inr (m', r') \<longrightarrow> r_pos R r < r_pos R r')"
  shows "returns (readLoop R body e m)"
  unfolding returns_def
proof
  fix r
  show "\<exists>y. readLoop R body e m r = Some y \<and> (\<forall>m' r'. y = Inr (m', r') \<longrightarrow> r_pos R r \<le> r_pos R r')"
  proof (induction "nat (e - int (r_pos R r))" arbitrary: m r rule: less_induct)
    case less
    show ?case
    proof (cases "int (r_pos R r) < e")
      case False
      then show ?thesis by (simp add: readLoop.simps [of R body e m r])
    next
      case True
      from body [of m r] obtain y where y: "body m r = Some y"
          "\<And>m' r'. y = Inr (m', r') \<Longrightarrow> r_pos R r < r_pos R r'" by auto
      show ?thesis
      proof (cases y)
        case (Inl ex)
        with y True show ?thesis by (simp add: readLoop.simps [of R body e m r])
      next
        case (Inr x)
        obtain m' r' where x: "x = (m', r')" by (cases x)
        with y Inr have lt: "r_pos R r < r_pos R r'" by simp
        with True have "nat (e - int (r_pos R r')) < nat (e - int (r_pos R r))" by linarith
        from less [OF this, of m'] obtain z where "readLoop R body e m' r' = Some z"
            "\<And>m'' r''. z = Inr (m'', r'') \<Longrightarrow> r_pos R r' \<le> r_pos R r''" by auto
        with lt y Inr x True show ?thesis
          by (fastforce simp: readLoop.simps [of R body e m r])
      qed
    qed
  qed
qed

lemma readMessage_returns [wire_total]:
  assumes "switch_returns fld"
  shows "reader_returns (readMessage R fld create)"
proof -
  have "\<exists>y. readTagged R fld m r = Some y \<and> (\<forall>m' r'. y = Inr (m', r') \<longrightarrow> r_pos R r < r_pos R r')"
    for m r
  proof (cases "r_tag R r")
    case (Inr x)
    then obtain no wt r1 where x: "r_tag R r = Inr ((no, wt), r1)" by (cases x) auto
    from assms obtain y where "fld no wt m r1 = Some y"
        "\<And>m' r'. y = Inr (m', r') \<Longrightarrow> r_pos R r1 \<le> r_pos R r'"
      unfolding switch_returns_def returns_def by blast
    with x tag_forward [OF x] show ?thesis by (fastforce simp: readTagged_def)
  qed (simp add: readTagged_def)
  from loop_returns [OF this] show ?thesis
    by (simp add: reader_returns_def readMessage_def returns_def)
qed

lemma setField_returns: "forward (r_pos R) op \<Longrightarrow> returns (setField op upd m)"
  by (auto simp: returns_def setField_def forward_def split: sum.split)

lemma int64_op_forward: "forward (r_pos R) (r_int64 R)"
  by (auto simp: forward_def dest: int64_forward)

lemma setMessage_returns:
  assumes "reader_returns rd"
  shows "returns (setMessage R rd target upd m)"
  unfolding returns_def
proof
  fix r
  show "\<exists>y. setMessage R rd target upd m r = Some y \<and>
      (\<forall>m' r'. y = Inr (m', r') \<longrightarrow> r_pos R r \<le> r_pos R r')"
  proof (cases "r_uint32 R r")
    case (Inr x)
    obtain n r1 where x: "x = (n, r1)" by (cases x)
    from assms obtain y where y: "rd r1 n target = Some y"
        "\<And>m' r'. y = Inr (m', r') \<Longrightarrow> r_pos R r1 \<le> r_pos R r'"
      unfolding reader_returns_def returns_def by blast
    from Inr x op_forward(5) have "r_pos R r \<le> r_pos R r1" by (auto simp: forward_def)
    with y Inr x show ?thesis by (cases y) (fastforce simp: setMessage_def)+
  qed (simp add: setMessage_def)
qed

lemma readPacked_returns [wire_total]: "returns (readPacked R (pushLong (r_int64 R) upd) wt m)"
proof -
  have "returns (readLoop R (pushLong (r_int64 R) upd) e m)" for e m
    by (rule loop_returns)
      (auto simp: pushLong_def setField_def split: sum.split dest: int64_forward)
  moreover have "returns (pushLong (r_int64 R) upd m)"
    unfolding pushLong_def by (rule setField_returns [OF int64_op_forward])
  moreover have "forward (r_pos R) (r_int32 R)" by (rule op_forward)
  ultimately show ?thesis
    unfolding returns_def readPacked_def forward_def
    by (auto split: sum.split) (meson order_trans)
qed

lemma readUnknown_returns [wire_total]: "returns (readUnknown R u tn no wt m)"
proof (cases u)
  case RU_throw
  then show ?thesis by (simp add: returns_def readUnknown_def)
qed (auto simp: readUnknown_def [abs_def] intro!: setField_returns op_forward)

lemma switch_returnsI [wire_total]:
  "(\<And>no wt m. returns (fld no wt m)) \<Longrightarrow> switch_returns fld"
  by (simp add: switch_returns_def)

lemma if_returns [wire_total]: "returns f \<Longrightarrow> returns g \<Longrightarrow> returns (if c then f else g)"
  by simp

lemma field_returns [wire_total]:
  "returns (setField (r_bool R) u1 m)" "returns (setField (r_string R) u2 m)"
  "returns (setField (r_bytes R) u3 m)" "returns (setNumber (r_int32 R) u4 m)"
  "returns (setUint32 R u4 m)" "returns (setLong (r_int64 R) u2 m)"
  "returns (setLong (r_uint64 R) u2 m)" "returns (pushField (r_string R) u5 m)"
  unfolding setNumber_def setUint32_def setLong_def pushField_def
  by (intro setField_returns op_forward int64_op_forward)+

lemma message_returns [wire_total]:
  assumes "reader_returns rd"
  shows "returns (setOptMessage R rd target u m)" "returns (pushMessage R rd u' m)"
  unfolding setOptMessage_def pushMessage_def by (rule setMessage_returns, rule assms)+

lemma fromBinary_returns:
  assumes "reader_returns rd"
  shows "fromBinary R rd bs \<noteq> None"
proof -
  from assms obtain y where "rd (r_new R bs) (length bs) None = Some y"
    unfolding reader_returns_def returns_def by blast
  then show ?thesis by (cases y) (auto simp: fromBinary_def)
qed

end


subsection \<open>Writer and reader together\<close>

locale wire_runtime = wire_writer W E st + wire_reader R E rest payload + wire_progress R
  for W :: "'w writer" and R :: "'r reader" and E :: encoding
    and st :: "'w \<Rightarrow> bytes list" and rest :: "'r \<Rightarrow> bytes"
    and payload :: "wire_type \<Rightarrow> bytes \<Rightarrow> bool"
begin

text \<open>
  \<open>rt fld f bs m m'\<close>: the writer action \<open>f\<close> appends \<open>bs\<close>, and the read loop with the field switch
  \<open>fld\<close> turns \<open>m\<close> into \<open>m'\<close> over \<open>bs\<close>.
\<close>

definition rt ::
  "(nat \<Rightarrow> wire_type \<Rightarrow> 'm \<Rightarrow> 'r \<Rightarrow> ('m \<times> 'r) comp) \<Rightarrow> ('w \<Rightarrow> 'w result) \<Rightarrow> bytes \<Rightarrow> 'm \<Rightarrow> 'm \<Rightarrow> bool"
  where "rt fld f bs m m' \<longleftrightarrow> (fits bs \<longrightarrow> appends st f bs \<and> reads (readTagged R fld) bs m m')"

lemma rt_Nil: "rt fld Inr [] m m"
  by (simp add: rt_def reads_Nil appends_Nil)

lemma rt_bind:
  assumes "rt fld f b m m1" "rt fld g bs m1 m2"
  shows "rt fld (\<lambda>w. bindE (f w) g) (b @ bs) m m2"
  using assms by (auto simp: rt_def dest!: fits_append intro: reads_append appends_bind)

lemma rt_seq_Cons [wire_intro]:
  assumes "rt fld f b m m1" "rt fld (seqW fs) bs m1 m2"
  shows "rt fld (seqW (f # fs)) (b @ bs) m m2"
  unfolding seqW_Cons using assms by (rule rt_bind)

lemma rt_seq_last [wire_intro]: "rt fld f b m m1 \<Longrightarrow> rt fld (seqW [f]) b m m1"
  using rt_bind [OF _ rt_Nil, of fld f b m m1] by (simp add: seqW_Cons seqW_Nil)

lemma rt_when:
  assumes "c \<Longrightarrow> rt fld f bs m m'" "\<not> c \<Longrightarrow> m' = m"
  shows "rt fld (whenW c f) (if c then bs else []) m m'"
  using assms by (cases c) (simp_all add: rt_Nil)

text \<open>A scalar field: the tag and one reader operation.\<close>

lemma rt_scalar:
  assumes no: "field_no_ok no" and fld: "fld no wt m = setField op upd m"
    and c: "fits bs \<Longrightarrow> consumes (r_pos R) rest op bs v" and a: "fits bs \<Longrightarrow> appends st wop bs"
  shows "rt fld (\<lambda>w. wop (w_tag W no wt w)) (e_tag E no wt @ bs) m (upd v m)"
  unfolding rt_def
proof (intro impI conjI)
  assume "fits (e_tag E no wt @ bs)"
  then have f: "fits bs" by (rule fits_append [THEN conjunct2])
  show "appends st (\<lambda>w. wop (w_tag W no wt w)) (e_tag E no wt @ bs)"
    using no a [OF f] by (rule tag_appends)
  show "reads (readTagged R fld) (e_tag E no wt @ bs) m (upd v m)"
  proof (rule tagged_reads [OF no])
    fix r t
    assume "rest r = bs @ t"
    then show "\<exists>r'. fld no wt m r = Some (Inr (upd v m, r')) \<and> rest r' = t \<and>
        r_pos R r' = r_pos R r + length bs"
      unfolding fld by (rule setField_reads [OF c [OF f]])
  qed
qed

lemma rt_tagString:
  assumes "fld no LengthDelimited m = setField (r_string R) upd m" "field_no_ok no"
  shows "rt fld (tagString W no s) (e_tag E no LengthDelimited @ e_string E s) m (upd s m)"
  unfolding tagString_def
  by (rule rt_scalar [where op = "r_string R"]) (simp_all add: assms fits_def r_string string)

lemma rt_string [wire_intro]:
  assumes "fld no LengthDelimited m = setField (r_string R) upd m"
    and "field_no_ok no" "upd [] m = m"
  shows "rt fld (whenW (s \<noteq> []) (tagString W no s)) (encString E no s) m (upd s m)"
proof -
  have "rt fld (tagString W no s) (e_tag E no LengthDelimited @ e_string E s) m (upd s m)"
    using assms(1,2) by (rule rt_tagString)
  from rt_when [of "s \<noteq> []", OF this] assms(3) show ?thesis
    by (simp add: encString_def split: if_splits)
qed

lemma rt_bytes [wire_intro]:
  assumes "fld no LengthDelimited m = setField (r_bytes R) upd m"
    and "field_no_ok no" "upd [] m = m"
  shows "rt fld (whenW (b \<noteq> []) (tagBytes W no b)) (encBytes E no b) m (upd b m)"
proof -
  have "rt fld (tagBytes W no b) (e_tag E no LengthDelimited @ e_bytes E b) m (upd b m)"
    unfolding tagBytes_def
    by (rule rt_scalar [where op = "r_bytes R"]) (simp_all add: assms fits_def r_bytes bytes)
  from rt_when [of "b \<noteq> []", OF this] assms(3) show ?thesis
    by (simp add: encBytes_def split: if_splits)
qed

lemma rt_bool [wire_intro]:
  assumes "fld no Varint m = setField (r_bool R) upd m"
    and "field_no_ok no" "upd False m = m"
  shows "rt fld (whenW (b \<noteq> False) (tagBool W no b)) (encBool E no b) m (upd b m)"
proof -
  have "rt fld (tagBool W no b) (e_tag E no Varint @ e_bool E b) m (upd b m)"
    unfolding tagBool_def
    by (rule rt_scalar [where op = "r_bool R"]) (simp_all add: assms r_bool bool)
  from rt_when [of "b \<noteq> False", OF this] assms(3) show ?thesis
    by (simp add: encBool_def split: if_splits)
qed

lemma rt_int32 [wire_intro]:
  assumes "fld no Varint m = setNumber (r_int32 R) upd m"
    and "int32_ok x" "field_no_ok no" "upd (IntNum 0) m = m"
  shows "rt fld (whenW (x \<noteq> IntNum 0) (tagInt32 W no x)) (encInt32 E no x) m (upd x m)"
proof -
  from assms(2) obtain v where x: "x = IntNum v" and v: "in_int32 v"
    by (auto simp: int32_ok_def split: js_number.splits)
  have "rt fld (tagInt32 W no x) (e_tag E no Varint @ e_int32 E v) m (upd (IntNum v) m)"
    unfolding tagInt32_def x
    by (rule rt_scalar [where op = "r_int32 R" and upd = "\<lambda>i. upd (IntNum i)"])
      (simp_all add: assms setNumber_def r_int32 int32 v)
  from rt_when [of "x \<noteq> IntNum 0", OF this] assms(4) show ?thesis
    by (simp add: encInt32_def x int_of_num_def split: if_splits)
qed

lemma rt_uint32 [wire_intro]:
  assumes "fld no Varint m = setUint32 R upd m"
    and "uint32_ok x" "field_no_ok no" "upd (IntNum 0) m = m"
  shows "rt fld (whenW (x \<noteq> IntNum 0) (tagUint32 W no x)) (encUint32 E no x) m (upd x m)"
proof -
  from assms(2) obtain v where x: "x = IntNum v" and v: "in_uint32 v"
    by (auto simp: uint32_ok_def split: js_number.splits)
  have "rt fld (tagUint32 W no x) (e_tag E no Varint @ e_uint32 E (nat v)) m
      (upd (IntNum (int (nat v))) m)"
    unfolding tagUint32_def x
    by (rule rt_scalar [where op = "r_uint32 R" and upd = "\<lambda>n. upd (IntNum (int n))"])
      (use v in \<open>simp_all add: assms setUint32_def r_uint32 uint32 nat_less_iff\<close>)
  from rt_when [of "x \<noteq> IntNum 0", OF this] assms(4) v show ?thesis
    by (simp add: encUint32_def x int_of_num_def split: if_splits)
qed

lemma rt_int64 [wire_intro]:
  assumes "fld no Varint m = setLong (r_int64 R) upd m"
    and "int64_ok s" "field_no_ok no" "upd ''0'' m = m"
  shows "rt fld (whenW (s \<noteq> ''0'') (tagInt64 W no s)) (encInt64 E no s) m (upd s m)"
proof -
  from assms(2) obtain v where s: "s = dec v" and v: "in_int64 v"
    by (auto simp: int64_ok_def elim: dec_inE)
  have "rt fld (tagInt64 W no s) (e_tag E no Varint @ e_int64 E v) m (upd (dec v) m)"
    unfolding tagInt64_def s
    by (rule rt_scalar [where op = "r_int64 R" and upd = "\<lambda>i. upd (dec i)"])
      (simp_all add: assms setLong_def r_int64 int64 v)
  from rt_when [of "s \<noteq> ''0''", OF this] assms(4) show ?thesis
    by (simp add: encInt64_def s split: if_splits)
qed

lemma rt_uint64 [wire_intro]:
  assumes "fld no Varint m = setLong (r_uint64 R) upd m"
    and "uint64_ok s" "field_no_ok no" "upd ''0'' m = m"
  shows "rt fld (whenW (s \<noteq> ''0'') (tagUint64 W no s)) (encUint64 E no s) m (upd s m)"
proof -
  from assms(2) obtain v where s: "s = dec v" and v: "in_uint64 v"
    by (auto simp: uint64_ok_def elim: dec_inE)
  have "rt fld (tagUint64 W no s) (e_tag E no Varint @ e_uint64 E v) m (upd (dec v) m)"
    unfolding tagUint64_def s
    by (rule rt_scalar [where op = "r_uint64 R" and upd = "\<lambda>i. upd (dec i)"])
      (simp_all add: assms setLong_def r_uint64 uint64 v)
  from rt_when [of "s \<noteq> ''0''", OF this] assms(4) show ?thesis
    by (simp add: encUint64_def s split: if_splits)
qed

text \<open>
  \<open>codec rd wr enc ok\<close>: for every valid message that fits, the writer appends its reference
  encoding and the reader turns this encoding, given its length, back into the message.
\<close>

definition codec ::
  "('r \<Rightarrow> nat \<Rightarrow> 'm option \<Rightarrow> ('m \<times> 'r) comp) \<Rightarrow> ('m \<Rightarrow> 'w \<Rightarrow> 'w result) \<Rightarrow> ('m \<Rightarrow> bytes) \<Rightarrow>
   ('m \<Rightarrow> bool) \<Rightarrow> bool" where
  "codec rd wr enc ok \<longleftrightarrow> (\<forall>m. ok m \<longrightarrow> fits (enc m) \<longrightarrow> appends st (wr m) (enc m) \<and>
     (\<forall>r t. rest r = enc m @ t \<longrightarrow> (\<exists>r'. rd r (length (enc m)) None = Some (Inr (m, r')) \<and>
        rest r' = t \<and> r_pos R r' = r_pos R r + length (enc m))))"

lemma codecI:
  assumes "\<And>m. ok m \<Longrightarrow> rt fld (wr m) (enc m) create m"
  shows "codec (readMessage R fld create) wr enc ok"
  unfolding codec_def
proof (intro allI impI conjI)
  fix m
  assume m: "ok m" "fits (enc m)"
  then show "appends st (wr m) (enc m)" using assms by (auto simp: rt_def)
  fix r t
  assume "rest r = enc m @ t"
  moreover have "reads (readTagged R fld) (enc m) create m" using assms m by (auto simp: rt_def)
  ultimately show "\<exists>r'. readMessage R fld create r (length (enc m)) None = Some (Inr (m, r')) \<and>
      rest r' = t \<and> r_pos R r' = r_pos R r + length (enc m)"
    using reads_loop [of "readTagged R fld" "enc m" create m r t] by (simp add: readMessage_def)
qed

lemma rt_chain: "rt fld f bs m m1 \<Longrightarrow> m1 = m2 \<Longrightarrow> rt fld f bs m m2"
  by simp

lemma setMessage_reads:
  assumes "codec rd wr enc ok" "ok n" "fits (enc n)"
    and "rest r = (e_uint32 E (length (enc n)) @ enc n) @ t"
  shows "\<exists>r'. setMessage R rd None upd m r = Some (Inr (upd n m, r')) \<and> rest r' = t \<and>
     r_pos R r' = r_pos R r + length (e_uint32 E (length (enc n)) @ enc n)"
proof -
  let ?l = "e_uint32 E (length (enc n))"
  from assms(3) have "length (enc n) < 4294967296" by (simp add: fits_def)
  moreover from assms(4) have "rest r = ?l @ enc n @ t" by simp
  ultimately obtain r1 where r1: "r_uint32 R r = Inr (length (enc n), r1)" "rest r1 = enc n @ t"
      "r_pos R r1 = r_pos R r + length ?l"
    using r_uint32 by (blast elim: consumesE)
  from assms(1-3) r1(2) obtain r2 where "rd r1 (length (enc n)) None = Some (Inr (n, r2))"
      "rest r2 = t" "r_pos R r2 = r_pos R r1 + length (enc n)"
    unfolding codec_def by blast
  with r1 show ?thesis by (simp add: setMessage_def)
qed

lemma rt_tagMessage:
  assumes c: "codec rd wr enc ok" and fld: "fld no LengthDelimited m = setMessage R rd None upd m"
    and n: "ok n" and no: "field_no_ok no"
  shows "rt fld (tagMessage W no (wr n)) (encMessage E no (enc n)) m (upd n m)"
  unfolding rt_def
proof (intro impI conjI)
  assume "fits (encMessage E no (enc n))"
  then have f: "fits (enc n)" by (simp add: encMessage_def fits_def)
  then show "appends st (tagMessage W no (wr n)) (encMessage E no (enc n))"
    using c n no by (intro fork_join) (auto simp: codec_def fits_def)
  show "reads (readTagged R fld) (encMessage E no (enc n)) m (upd n m)"
    unfolding encMessage_def
    by (rule tagged_reads [OF no], unfold fld, rule setMessage_reads [OF c n f])
qed

lemma rt_option [wire_intro]:
  assumes "fld no LengthDelimited m = setOptMessage R rd target upd m"
    and "codec rd wr enc ok" "\<And>n. x = Some n \<Longrightarrow> ok n" "field_no_ok no" "target = None"
      "upd None m = m"
  shows "rt fld (whenSome x (\<lambda>n. tagMessage W no (wr n)))
    (encOption (\<lambda>n. encMessage E no (enc n)) x) m (upd x m)"
proof (cases x)
  case None
  with assms(6) show ?thesis
    by (simp add: whenSome_def [abs_def] encOption_def rt_Nil)
next
  case (Some n)
  from assms Some have "rt fld (tagMessage W no (wr n)) (encMessage E no (enc n)) m (upd (Some n) m)"
    by (intro rt_tagMessage [where upd = "\<lambda>n. upd (Some n)" and rd = rd and ok = ok])
      (simp_all add: setOptMessage_def)
  with Some show ?thesis by (simp add: whenSome_def [abs_def] encOption_def)
qed

text \<open>A loop of writes whose reads push onto a list.\<close>

lemma rt_for:
  assumes "\<And>x m. x \<in> set xs \<Longrightarrow> rt fld (f x) (g x) m (upd (\<lambda>ys. ys @ [x]) m)"
    and upd: "field_update upd"
  shows "rt fld (forW f xs) (encRepeated g xs) m (upd (\<lambda>ys. ys @ xs) m)"
  using assms(1)
proof (induction xs arbitrary: m)
  case Nil
  with upd show ?case by (simp add: forW_def encRepeated_def rt_Nil field_update_def seqW_Nil)
next
  case (Cons x xs)
  have "rt fld (f x) (g x) m (upd (\<lambda>ys. ys @ [x]) m)" using Cons.prems by simp
  moreover have "rt fld (forW f xs) (encRepeated g xs) (upd (\<lambda>ys. ys @ [x]) m)
      (upd (\<lambda>ys. ys @ xs) (upd (\<lambda>ys. ys @ [x]) m))"
    using Cons by simp
  ultimately show ?case
    using rt_bind [of fld "f x" "g x" m _ "forW f xs" "encRepeated g xs"] upd
    by (simp add: forW_def encRepeated_def field_update_def seqW_Cons)
qed

lemma rt_strings [wire_intro]:
  assumes "\<And>m. fld no LengthDelimited m = pushField (r_string R) upd m"
    and "field_no_ok no" "field_update upd"
  shows "rt fld (forW (tagString W no) xs)
    (encRepeated (\<lambda>s. e_tag E no LengthDelimited @ e_string E s) xs) m (upd (\<lambda>ys. ys @ xs) m)"
proof (rule rt_for)
  show "field_update upd" by fact
  fix s m
  show "rt fld (tagString W no s) (e_tag E no LengthDelimited @ e_string E s) m
      (upd (\<lambda>ys. ys @ [s]) m)"
    by (rule rt_tagString [where upd = "\<lambda>v. upd (\<lambda>vs. vs @ [v])"])
      (simp_all add: assms pushField_def)
qed

lemma rt_messages [wire_intro]:
  assumes "\<And>m. fld no LengthDelimited m = pushMessage R rd upd m"
    and "codec rd wr enc ok" "list_all ok xs" "field_no_ok no" "field_update upd"
  shows "rt fld (forW (\<lambda>x. tagMessage W no (wr x)) xs)
    (encRepeated (\<lambda>x. encMessage E no (enc x)) xs) m (upd (\<lambda>ys. ys @ xs) m)"
proof (rule rt_for)
  show "field_update upd" by fact
  fix x m
  assume "x \<in> set xs"
  with assms(3) have "ok x" by (simp add: list_all_iff)
  with assms show "rt fld (tagMessage W no (wr x)) (encMessage E no (enc x)) m
      (upd (\<lambda>ys. ys @ [x]) m)"
    by (intro rt_tagMessage [where upd = "\<lambda>n. upd (\<lambda>ns. ns @ [n])" and rd = rd and ok = ok])
      (simp_all add: pushMessage_def)
qed

lemma rt_packed [wire_intro]:
  assumes fld: "fld no LengthDelimited m = readPacked R (pushLong (r_int64 R) upd) LengthDelimited m"
    and xs: "list_all int64_ok xs" and no: "field_no_ok no" and upd: "field_update upd"
  shows "rt fld (tagPackedInt64 W no xs) (encPackedInt64 E no xs) m (upd (\<lambda>ys. ys @ xs) m)"
proof (cases "xs = []")
  case True
  with upd show ?thesis
    by (simp add: tagPackedInt64_def encPackedInt64_def rt_Nil field_update_def)
next
  case False
  let ?b = "encRepeated (\<lambda>s. e_int64 E (the (undec s))) xs"
  have "reads (readTagged R fld) (e_tag E no LengthDelimited @ e_uint32 E (length ?b) @ ?b) m
      (upd (\<lambda>ys. ys @ xs) m)" if b: "length ?b < 2147483648"
  proof (rule tagged_reads [OF no])
    fix r t
    assume "rest r = (e_uint32 E (length ?b) @ ?b) @ t"
    then have "rest r = e_uint32 E (length ?b) @ ?b @ t" by simp
    with r_int32_len [OF b] obtain r1 where r1: "r_int32 R r = Inr (int (length ?b), r1)"
        "rest r1 = ?b @ t" "r_pos R r1 = r_pos R r + length (e_uint32 E (length ?b))"
      by (rule consumesE)
    from reads_loop [OF reads_longs [OF xs upd] r1(2) refl, of m] r1
    show "\<exists>r'. fld no LengthDelimited m r = Some (Inr (upd (\<lambda>ys. ys @ xs) m, r')) \<and> rest r' = t \<and>
        r_pos R r' = r_pos R r + length (e_uint32 E (length ?b) @ ?b)"
      by (auto simp: fld readPacked_def algebra_simps)
  qed
  moreover have "appends st (tagMessage W no (forW (w_int64 W) xs)) (encMessage E no ?b)"
    if "length ?b < 2147483648"
    using that by (intro fork_join appends_longs no xs) simp
  ultimately show ?thesis using False
    by (simp add: rt_def tagPackedInt64_def encPackedInt64_def encMessage_def fits_def Let_def)
qed

lemma rt_unknown [wire_intro]:
  assumes "\<And>no wt m. known < no \<Longrightarrow> fld no wt m = readUnknown R RU_true tn no wt m"
    and "unknown_ok payload known m0" "unknownFields m = []"
  shows "rt fld (writeUnknown W WU_true tn m0) (encUnknown E m0) m
    (m\<lparr>unknownFields := unknownFields m0\<rparr>)"
  using reads_unknown [of known fld tn "unknownFields m0" m] assms onWrite [of tn "unknownFields m0"]
  by (simp add: rt_def encUnknown_def unknown_ok_def writeUnknown_def [abs_def])

lemma codec_roundtrip:
  assumes "codec rd wr enc ok" "ok m" "length (enc m) < 2147483648"
  shows "toBinary W (wr m) = Inr (enc m) \<and> fromBinary R rd (enc m) = Some (Inr m)"
proof
  from assms have c: "appends st (wr m) (enc m)" "\<And>r t. rest r = enc m @ t \<Longrightarrow>
      \<exists>r'. rd r (length (enc m)) None = Some (Inr (m, r'))"
    unfolding codec_def fits_def by blast+
  from c(1) new obtain w where "wr m (w_new W) = Inr w" "st w = ([] @ enc m) # []"
    by (rule appendsE)
  then show "toBinary W (wr m) = Inr (enc m)" by (simp add: toBinary_def finish)
  from c(2) [of "r_new R (enc m)" "[]"] show "fromBinary R rd (enc m) = Some (Inr m)"
    by (auto simp: fromBinary_def r_new)
qed

end

end
