(* ===== verification/Proto_Wire.thy ===== *)
theory Proto_Wire
  imports Wire_Runtime
begin

text \<open>
  The protobuf wire format as a model of the runtime contract: base-128 varints, field tags,
  zig-zag-free signed integers in two's complement, length-delimited runs, UTF-8 text. It is
  written from the public encoding rules of the protobuf language, not from the library, and
  shows that the laws of \<open>wire_runtime\<close> hold together; the interpretation at the end makes
  every codec lemma available for it.
\<close>


section \<open>Varints\<close>

function varint :: "int \<Rightarrow> bytes" where
  "varint n = (if n < 128 then [of_int n] else of_int (n mod 128 + 128) # varint (n div 128))"
  by pat_completeness auto
termination
  by (relation "measure nat") auto

declare varint.simps [simp del]

fun unvarint :: "nat \<Rightarrow> bytes \<Rightarrow> (int \<times> bytes) option" where
  "unvarint 0 bs = None"
| "unvarint (Suc k) [] = None"
| "unvarint (Suc k) (b # bs) =
     (if uint b < 128 then Some (uint b, bs)
      else case unvarint k bs of None \<Rightarrow> None | Some (h, t) \<Rightarrow> Some (uint b - 128 + 128 * h, t))"

lemma unvarint_varint:
  "0 \<le> n \<Longrightarrow> n < 128 ^ Suc k \<Longrightarrow> unvarint (Suc k) (varint n @ t) = Some (n, t)"
proof (induction k arbitrary: n)
  case 0
  then show ?case by (simp add: varint.simps [of n])
next
  case (Suc k)
  show ?case
  proof (cases "n < 128")
    case True
    with Suc.prems show ?thesis by (simp add: varint.simps [of n])
  next
    case False
    have "uint (of_int (n mod 128 + 128) :: byte) = n mod 128 + 128"
      using pos_mod_bound [of 128 n] by (intro uint_of_int_byte) simp_all
    moreover from Suc.prems have "n div 128 < 128 ^ Suc k" by simp
    with Suc False have "unvarint (Suc k) (varint (n div 128) @ t) = Some (n div 128, t)" by simp
    moreover have "\<not> n mod 128 < 0" by simp
    ultimately show ?thesis using False by (simp add: varint.simps [of n] del: pos_mod_sign)
  qed
qed

lemma unvarint_append:
  "unvarint k bs = Some (v, r) \<Longrightarrow> unvarint k (bs @ t) = Some (v, r @ t)"
  by (induction k bs arbitrary: v r rule: unvarint.induct) (auto split: if_splits option.splits)

lemma unvarint_shorter: "unvarint k bs = Some (v, t) \<Longrightarrow> length t < length bs"
  by (induction k bs arbitrary: v t rule: unvarint.induct)
    (auto split: if_splits option.splits intro: less_SucI)

lemma varint_Nil [simp]: "varint n \<noteq> []"
  by (subst varint.simps) simp

abbreviation read_varint :: "bytes \<Rightarrow> (int \<times> bytes) option" where
  "read_varint \<equiv> unvarint 10"

lemma read_varint_varint: "in_uint64 n \<Longrightarrow> read_varint (varint n @ t) = Some (n, t)"
  using unvarint_varint [of n 9 t] by (simp add: numeral_eq_Suc del: unvarint.simps)


section \<open>Values\<close>

definition wire_type_of :: "int \<Rightarrow> wire_type option" where
  "wire_type_of n = (if n = 0 then Some Varint else if n = 1 then Some Bit64
     else if n = 2 then Some LengthDelimited else if n = 3 then Some StartGroup
     else if n = 4 then Some EndGroup else if n = 5 then Some Bit32 else None)"

definition signed :: "int \<Rightarrow> int \<Rightarrow> int" where
  "signed half v = (let u = v mod (2 * half) in if u < half then u else u - 2 * half)"

definition p_tag :: "nat \<Rightarrow> wire_type \<Rightarrow> bytes" where
  "p_tag no wt = varint (int no * 8 + wire_type_no wt)"

definition p_untag :: "bytes \<Rightarrow> ((nat \<times> wire_type) \<times> bytes) option" where
  "p_untag bs = (case read_varint bs of None \<Rightarrow> None
     | Some (v, t) \<Rightarrow> (case wire_type_of (v mod 8) of None \<Rightarrow> None
         | Some wt \<Rightarrow> if v < 8 then None else Some ((nat (v div 8), wt), t)))"

definition p_run :: "bytes \<Rightarrow> bytes" where
  "p_run b = varint (int (length b)) @ b"

definition p_unrun :: "bytes \<Rightarrow> (bytes \<times> bytes) option" where
  "p_unrun bs = (case read_varint bs of None \<Rightarrow> None
     | Some (n, t) \<Rightarrow> if nat n \<le> length t then Some (take (nat n) t, drop (nat n) t) else None)"

definition map_val :: "('a \<Rightarrow> 'b) \<Rightarrow> (bytes \<Rightarrow> ('a \<times> bytes) option) \<Rightarrow> bytes \<Rightarrow> ('b \<times> bytes) option" where
  "map_val f p bs = map_option (\<lambda>(v, t). (f v, t)) (p bs)"

definition p_unstring :: "bytes \<Rightarrow> (string \<times> bytes) option" where
  "p_unstring bs = (case p_unrun bs of None \<Rightarrow> None
     | Some (b, t) \<Rightarrow> map_option (\<lambda>s. (s, t)) (unutf8 b))"

definition p_skip :: "wire_type \<Rightarrow> bytes \<Rightarrow> (bytes \<times> bytes) option" where
  "p_skip wt bs = (case wt of
       Varint \<Rightarrow> map_option (\<lambda>(v, t). (take (length bs - length t) bs, t)) (read_varint bs)
     | Bit64 \<Rightarrow> if 8 \<le> length bs then Some (take 8 bs, drop 8 bs) else None
     | Bit32 \<Rightarrow> if 4 \<le> length bs then Some (take 4 bs, drop 4 bs) else None
     | LengthDelimited \<Rightarrow> map_option (\<lambda>(b, t). (take (length bs - length t) bs, t)) (p_unrun bs)
     | _ \<Rightarrow> None)"

definition p_payload :: "wire_type \<Rightarrow> bytes \<Rightarrow> bool" where
  "p_payload wt d = (case p_skip wt d of None \<Rightarrow> False | Some (x, t) \<Rightarrow> t = [])"

definition proto_E :: encoding where
  "proto_E = \<lparr>e_tag = p_tag, e_bool = (\<lambda>b. varint (if b then 1 else 0)),
     e_string = (\<lambda>s. p_run (utf8 s)), e_bytes = p_run,
     e_int32 = (\<lambda>v. varint (v mod 18446744073709551616)),
     e_uint32 = (\<lambda>n. varint (int n)),
     e_int64 = (\<lambda>v. varint (v mod 18446744073709551616)),
     e_uint64 = varint\<rparr>"


section \<open>Reader and writer\<close>

text \<open>
  The reader is its position and the bytes ahead; the writer is the stack of open forks,
  innermost first.
\<close>

type_synonym p_reader = "nat \<times> bytes"
type_synonym p_writer = "bytes list"

definition p_op :: "(bytes \<Rightarrow> ('v \<times> bytes) option) \<Rightarrow> p_reader \<Rightarrow> ('v \<times> p_reader) result" where
  "p_op p r = (case p (snd r) of None \<Rightarrow> Inl (mkError ''invalid wire format'')
     | Some (v, t) \<Rightarrow> Inr (v, (fst r + (length (snd r) - length t), t)))"

definition proto_R :: "p_reader reader" where
  "proto_R = \<lparr>r_new = (\<lambda>bs. (0, bs)), r_pos = fst, r_tag = p_op p_untag,
     r_bool = p_op (map_val (\<lambda>v. v \<noteq> 0) read_varint), r_string = p_op p_unstring,
     r_bytes = p_op p_unrun, r_int32 = p_op (map_val (signed 2147483648) read_varint),
     r_uint32 = p_op (map_val (\<lambda>v. nat (v mod 4294967296)) read_varint),
     r_int64 = p_op (map_val (signed 9223372036854775808) read_varint),
     r_uint64 = p_op (map_val (\<lambda>v. v mod 18446744073709551616) read_varint),
     r_skip = (\<lambda>wt. p_op (p_skip wt)),
     r_onRead = (\<lambda>tn no wt d us. us @ [(no, wt, d)])\<rparr>"

definition p_append :: "bytes \<Rightarrow> p_writer \<Rightarrow> p_writer" where
  "p_append bs w = (case w of [] \<Rightarrow> [bs] | c # cs \<Rightarrow> (c @ bs) # cs)"

definition p_run_w :: "bytes \<Rightarrow> p_writer \<Rightarrow> p_writer result" where
  "p_run_w b w = (if length b < 4294967296 then Inr (p_append (p_run b) w)
     else Inl (mkError ''invalid uint 32''))"

definition p_num_w :: "(int \<Rightarrow> bool) \<Rightarrow> (int \<Rightarrow> bytes) \<Rightarrow> js_number \<Rightarrow> p_writer \<Rightarrow> p_writer result" where
  "p_num_w P f x w = (case x of IntNum v \<Rightarrow>
       if P v then Inr (p_append (f v) w) else Inl (mkError ''invalid int 32'')
     | OtherNum _ \<Rightarrow> Inl (mkError ''invalid int 32''))"

definition p_long_w :: "(int \<Rightarrow> bool) \<Rightarrow> (int \<Rightarrow> bytes) \<Rightarrow> string \<Rightarrow> p_writer \<Rightarrow> p_writer result" where
  "p_long_w P f s w = (case undec s of Some v \<Rightarrow>
       if P v then Inr (p_append (f v) w) else Inl (mkError ''int64 out of range'')
     | None \<Rightarrow> Inl (mkError ''invalid int64''))"

definition p_join :: "p_writer \<Rightarrow> p_writer result" where
  "p_join w = (case w of c # d # cs \<Rightarrow>
       if length c < 4294967296 then Inr ((d @ p_run c) # cs) else Inl (mkError ''invalid uint 32'')
     | _ \<Rightarrow> Inl (mkError ''Invalid state, fork stack empty''))"

definition proto_W :: "p_writer writer" where
  "proto_W = \<lparr>w_new = [[]], w_tag = (\<lambda>no wt. p_append (p_tag no wt)),
     w_bool = (\<lambda>b. p_append (varint (if b then 1 else 0))),
     w_string = (\<lambda>s. p_run_w (utf8 s)), w_bytes = p_run_w,
     w_int32 = p_num_w (\<lambda>v. in_int32 v) (e_int32 proto_E),
     w_uint32 = p_num_w (\<lambda>v. in_uint32 v) varint,
     w_int64 = p_long_w (\<lambda>v. in_int64 v) (e_int64 proto_E),
     w_uint64 = p_long_w (\<lambda>v. in_uint64 v) varint,
     w_fork = (\<lambda>w. [] # w), w_join = p_join,
     w_finish = (\<lambda>w. concat (rev w)),
     w_onWrite = (\<lambda>tn us. p_append (encRepeated (\<lambda>(no, wt, d). p_tag no wt @ d) us))\<rparr>"

lemmas proto_simps = proto_W_def proto_R_def proto_E_def


section \<open>The laws\<close>

lemma p_append_appends:
  "(\<And>w. w \<noteq> [] \<Longrightarrow> f w = Inr (p_append bs w)) \<Longrightarrow> appends (\<lambda>w. w) f bs"
  by (auto simp: appends_def p_append_def)

lemma p_op_consumes:
  "(\<And>t. p (bs @ t) = Some (v, t)) \<Longrightarrow> consumes fst snd (p_op p) bs v"
  by (auto simp: consumes_def p_op_def)

lemma p_op_forward: "forward fst (p_op p)"
  by (auto simp: forward_def p_op_def split: option.splits)

lemma map_val_varint: "in_uint64 n \<Longrightarrow> map_val f read_varint (varint n @ t) = Some (f n, t)"
  by (simp add: map_val_def read_varint_varint)

lemma wire_type_of_no [simp]: "wire_type_of (wire_type_no wt) = Some wt"
  by (cases wt) (simp_all add: wire_type_of_def wire_type_no_def)

lemma wire_type_no_range: "0 \<le> wire_type_no wt \<and> wire_type_no wt < 8"
  by (cases wt) (simp_all add: wire_type_no_def)

lemma p_untag_tag:
  assumes "field_no_ok no"
  shows "p_untag (p_tag no wt @ t) = Some ((no, wt), t)"
proof -
  let ?v = "int no * 8 + wire_type_no wt"
  have "in_uint64 ?v" using assms wire_type_no_range [of wt] by (auto simp: field_no_ok_def)
  moreover have "?v mod 8 = wire_type_no wt" "?v div 8 = int no" "\<not> ?v < 8"
    using assms wire_type_no_range [of wt] by (auto simp: field_no_ok_def)
  ultimately show ?thesis by (simp add: p_untag_def p_tag_def read_varint_varint)
qed

lemma p_unrun_run:
  "length b < 4294967296 \<Longrightarrow> p_unrun (p_run b @ t) = Some (b, t)"
  by (simp add: p_unrun_def p_run_def read_varint_varint)

lemma mod_neg: "- m \<le> v \<Longrightarrow> v < 0 \<Longrightarrow> v mod m = v + m" for v m :: int
  using mod_pos_pos_trivial [of "v + m" m] by simp

lemma signed_mod:
  assumes "- half \<le> v" "v < half" "2 * half dvd m"
  shows "signed half (v mod m) = v"
proof (cases "v < 0")
  case True
  with assms have "v mod (2 * half) = v + 2 * half" by (intro mod_neg) auto
  with True assms show ?thesis by (simp add: signed_def mod_mod_cancel Let_def)
next
  case False
  with assms have "v mod (2 * half) = v" by (intro mod_pos_pos_trivial) auto
  with assms show ?thesis by (simp add: signed_def mod_mod_cancel Let_def)
qed

lemma p_skip_append: "p_skip wt d = Some (x, []) \<Longrightarrow> p_skip wt (d @ t) = Some (d, t)"
proof (cases wt)
  case LengthDelimited
  assume "p_skip wt d = Some (x, [])"
  with LengthDelimited obtain n u where n: "read_varint d = Some (n, u)" "nat n = length u"
    by (auto simp: p_skip_def p_unrun_def split: option.splits if_splits)
  with unvarint_append [OF n(1), of t] LengthDelimited show ?thesis
    by (simp add: p_skip_def p_unrun_def)
qed (auto simp: p_skip_def split: if_splits dest: unvarint_append [where t = t])

interpretation proto_w: wire_writer proto_W proto_E "\<lambda>w. w"
proof unfold_locales
  show "w_new proto_W = [[]]" by (simp add: proto_simps)
  show "w = [c] \<Longrightarrow> w_finish proto_W w = c" for w c by (simp add: proto_simps)
  show "appends (\<lambda>w. w) (\<lambda>w. Inr (w_tag proto_W no wt w)) (e_tag proto_E no wt)" for no wt
    by (simp add: proto_simps p_append_appends)
  show "appends (\<lambda>w. w) (\<lambda>w. Inr (w_bool proto_W b w)) (e_bool proto_E b)" for b
    by (simp add: proto_simps p_append_appends)
  show "appends (\<lambda>w. w) (w_string proto_W s) (e_string proto_E s)"
    if "length (e_string proto_E s) < 4294967296" for s
    using that by (simp add: proto_simps p_append_appends p_run_w_def p_run_def)
  show "appends (\<lambda>w. w) (w_bytes proto_W b) (e_bytes proto_E b)"
    if "length (e_bytes proto_E b) < 4294967296" for b
    using that by (simp add: proto_simps p_append_appends p_run_w_def p_run_def)
  show "appends (\<lambda>w. w) (w_int32 proto_W (IntNum v)) (e_int32 proto_E v)" if "in_int32 v" for v
    using that by (simp add: proto_simps p_append_appends p_num_w_def)
  show "appends (\<lambda>w. w) (w_uint32 proto_W (IntNum v)) (e_uint32 proto_E (nat v))"
    if "in_uint32 v" for v
    using that by (simp add: proto_simps p_append_appends p_num_w_def)
  show "appends (\<lambda>w. w) (w_int64 proto_W (dec v)) (e_int64 proto_E v)" if "in_int64 v" for v
    using that by (simp add: proto_simps p_append_appends p_long_w_def)
  show "\<exists>e. w_int64 proto_W (dec v) w = Inl e" if "\<not> in_int64 v" for v w
    using that by (auto simp: proto_simps p_long_w_def)
  show "appends (\<lambda>w. w) (w_uint64 proto_W (dec v)) (e_uint64 proto_E v)" if "in_uint64 v" for v
    using that by (simp add: proto_simps p_append_appends p_long_w_def)
  show "w_fork proto_W w = [] # w" for w by (simp add: proto_simps)
  show "\<exists>w'. w_join proto_W w = Inr w' \<and> w' = (d @ e_uint32 proto_E (length c) @ c) # cs"
    if "w = c # d # cs" "length c < 4294967296" for w c d cs
    using that by (simp add: proto_simps p_join_def p_run_def)
  show "appends (\<lambda>w. w) (\<lambda>w. Inr (w_onWrite proto_W tn us w))
      (encRepeated (\<lambda>(no, wt, d). e_tag proto_E no wt @ d) us)" for tn us
    by (simp add: proto_simps p_append_appends)
qed

lemma signed_mod64:
  "in_int32 v \<Longrightarrow> signed 2147483648 (v mod 18446744073709551616) = v"
  "in_int64 v \<Longrightarrow> signed 9223372036854775808 (v mod 18446744073709551616) = v"
  by (rule signed_mod; simp)+

interpretation proto_r: wire_reader proto_R proto_E snd p_payload
proof unfold_locales
  show "snd (r_new proto_R bs) = bs" "r_pos proto_R (r_new proto_R bs) = 0" for bs
    by (simp_all add: proto_simps)
  show "consumes (r_pos proto_R) snd (r_tag proto_R) (e_tag proto_E no wt) (no, wt)"
    if "field_no_ok no" for no wt
    using that by (simp add: proto_simps p_op_consumes p_untag_tag)
  show "e_tag proto_E no wt \<noteq> []" for no wt by (simp add: proto_simps p_tag_def)
  show "consumes (r_pos proto_R) snd (r_bool proto_R) (e_bool proto_E b) b" for b
    by (simp add: proto_simps p_op_consumes map_val_varint)
  show "consumes (r_pos proto_R) snd (r_string proto_R) (e_string proto_E s) s"
    if "length (e_string proto_E s) < 4294967296" for s
  proof -
    from that have "length (utf8 s) < 4294967296" by (simp add: proto_simps p_run_def)
    then show ?thesis by (simp add: proto_simps p_op_consumes p_unstring_def p_unrun_run)
  qed
  show "consumes (r_pos proto_R) snd (r_bytes proto_R) (e_bytes proto_E b) b"
    if "length (e_bytes proto_E b) < 4294967296" for b
  proof -
    from that have "length b < 4294967296" by (simp add: proto_simps p_run_def)
    then show ?thesis by (simp add: proto_simps p_op_consumes p_unrun_run)
  qed
  show "consumes (r_pos proto_R) snd (r_int32 proto_R) (e_int32 proto_E v) v" if "in_int32 v" for v
    using that by (simp add: proto_simps p_op_consumes map_val_varint signed_mod64)
  show "consumes (r_pos proto_R) snd (r_int32 proto_R) (e_uint32 proto_E n) (int n)"
    if "n < 2147483648" for n
    using that by (simp add: proto_simps p_op_consumes map_val_varint signed_def)
  show "consumes (r_pos proto_R) snd (r_uint32 proto_R) (e_uint32 proto_E n) n"
    if "n < 4294967296" for n
    using that by (simp add: proto_simps p_op_consumes map_val_varint)
  show "consumes (r_pos proto_R) snd (r_int64 proto_R) (e_int64 proto_E v) v" if "in_int64 v" for v
    using that by (simp add: proto_simps p_op_consumes map_val_varint signed_mod64)
  show "e_int64 proto_E v \<noteq> []" for v by (simp add: proto_simps)
  show "consumes (r_pos proto_R) snd (r_uint64 proto_R) (e_uint64 proto_E v) v"
    if "in_uint64 v" for v
    using that by (simp add: proto_simps p_op_consumes map_val_varint)
  show "consumes (r_pos proto_R) snd (r_skip proto_R wt) d d" if "p_payload wt d" for wt d
    using that p_skip_append [of wt d]
    by (auto simp: proto_simps p_payload_def split: option.splits intro!: p_op_consumes)
  show "r_onRead proto_R tn no wt d us = us @ [(no, wt, d)]" for tn no wt d us
    by (simp add: proto_simps)
qed

lemma p_op_progress:
  assumes "p_op p r = Inr (v, r')" "\<And>bs v t. p bs = Some (v, t) \<Longrightarrow> length t < length bs"
  shows "fst r < fst r'"
  using assms by (fastforce simp: p_op_def split: option.splits)

interpretation proto_p: wire_progress proto_R
proof unfold_locales
  have "p_untag bs = Some (v, t) \<Longrightarrow> length t < length bs" for bs v t
    by (auto simp: p_untag_def split: option.splits if_splits dest!: unvarint_shorter)
  then show "r_pos proto_R r < r_pos proto_R r'" if "r_tag proto_R r = Inr (x, r')" for r r' x
    using that by (auto simp: proto_simps intro: p_op_progress)
  have "map_val f read_varint bs = Some (v, t) \<Longrightarrow> length t < length bs" for f bs t and v :: int
    by (auto simp: map_val_def dest: unvarint_shorter)
  then show "r_pos proto_R r < r_pos proto_R r'" if "r_int64 proto_R r = Inr (y, r')" for r r' y
    using that by (auto simp: proto_simps intro: p_op_progress)
qed (simp_all add: proto_simps p_op_forward)

interpretation proto: wire_runtime proto_W proto_R proto_E "\<lambda>w. w" snd p_payload
  by unfold_locales

lemmas proto_runtime = proto.wire_runtime_axioms


section \<open>Sizes\<close>

text \<open>Bounds on the length of an encoding, one rule per shape of field.\<close>

lemma varint_length: "length (varint n) \<le> Suc (nat n)"
proof (induction n rule: varint.induct)
  case (1 n)
  show ?case
  proof (cases "n < 128")
    case False
    then have "Suc (nat (n div 128)) \<le> nat n" by (simp add: nat_div_distrib)
    with 1 False show ?thesis by (simp add: varint.simps [of n])
  qed (simp add: varint.simps [of n])
qed

lemma varint_bounded: "0 \<le> n \<Longrightarrow> n < 128 ^ Suc k \<Longrightarrow> length (varint n) \<le> Suc k"
proof (induction k arbitrary: n)
  case 0
  then show ?case by (simp add: varint.simps [of n])
next
  case (Suc k)
  then have "\<not> n < 128 \<Longrightarrow> length (varint (n div 128)) \<le> Suc k" by (intro Suc.IH) simp_all
  then show ?case by (simp add: varint.simps [of n])
qed

lemma varint64_length: "length (varint (v mod 18446744073709551616)) \<le> 10"
  using varint_bounded [of "v mod 18446744073709551616" 9] pos_mod_bound [of 18446744073709551616 v]
  by (simp add: less_trans)

lemma utf8_length: "length (utf8 s) \<le> 2 * length s"
  by (induction s) (auto simp: Let_def)

lemma tag_size: "length (p_tag no wt) \<le> 8 * no + 6"
  using varint_length [of "int no * 8 + wire_type_no wt"]
  by (cases wt) (simp_all add: p_tag_def wire_type_no_def nat_add_distrib)

lemma run_size: "length (p_run b) \<le> 1 + 2 * length b"
  using varint_length [of "int (length b)"] by (simp add: p_run_def)

lemma size_append [wire_size]:
  "length xs \<le> a \<Longrightarrow> length ys \<le> b \<Longrightarrow> length (xs @ ys) \<le> a + b"
  by simp

lemma size_string [wire_size]: "length (encString proto_E no s) \<le> 8 * no + 7 + 4 * length s"
  using tag_size [of no LengthDelimited] run_size [of "utf8 s"] utf8_length [of s]
  by (simp add: encString_def proto_simps)

lemma size_bytes [wire_size]: "length (encBytes proto_E no b) \<le> 8 * no + 7 + 2 * length b"
  using tag_size [of no LengthDelimited] run_size [of b] by (simp add: encBytes_def proto_simps)

lemma size_bool [wire_size]: "length (encBool proto_E no b) \<le> 8 * no + 8"
  using tag_size [of no Varint] varint_length [of 1] by (simp add: encBool_def proto_simps)

lemma size_int32 [wire_size]: "length (encInt32 proto_E no x) \<le> 8 * no + 16"
  using tag_size [of no Varint] varint64_length [of "int_of_num x"] by (simp add: encInt32_def proto_simps)

lemma size_uint32 [wire_size]: "length (encUint32 proto_E no x) \<le> 8 * no + 7 + nat (int_of_num x)"
  using tag_size [of no Varint] varint_length [of "int (nat (int_of_num x))"]
  by (auto simp: encUint32_def proto_simps varint.simps [of 0] split: if_splits)

lemma size_int64 [wire_size]: "length (encInt64 proto_E no s) \<le> 8 * no + 16"
  using tag_size [of no Varint] varint64_length [of "the (undec s)"] by (simp add: encInt64_def proto_simps)

lemma size_message [wire_size]:
  "length bs \<le> a \<Longrightarrow> length (encMessage proto_E no bs) \<le> 8 * no + 7 + 2 * a"
  using tag_size [of no LengthDelimited] varint_length [of "int (length bs)"]
  by (simp add: encMessage_def proto_simps)

lemma size_option [wire_size]:
  "(\<And>n. length (f n) \<le> g n) \<Longrightarrow> length (encOption f x) \<le> (case x of None \<Rightarrow> 0 | Some n \<Rightarrow> g n)"
  by (cases x) (simp_all add: encOption_def)

lemma size_repeated [wire_size]:
  "(\<And>x. length (f x) \<le> g x) \<Longrightarrow> length (encRepeated f xs) \<le> sum_list (map g xs)"
  by (induction xs) (auto simp: encRepeated_def intro: add_mono)

lemma size_unknown [wire_size]:
  "length (encUnknown proto_E m) \<le> sum_list (map (\<lambda>(no, wt, d). 8 * no + 6 + length d) (unknownFields m))"
  unfolding encUnknown_def using tag_size
  by (intro size_repeated) (auto simp: proto_simps intro: add_mono)

lemma size_packed [wire_size]: "length (encPackedInt64 proto_E no xs) \<le> 8 * no + 7 + 20 * length xs"
proof -
  let ?b = "encRepeated (\<lambda>s. e_int64 proto_E (the (undec s))) xs"
  have "length ?b \<le> sum_list (map (\<lambda>s. 10) xs)"
    by (rule size_repeated) (simp add: proto_simps varint64_length)
  then have "length ?b \<le> 10 * length xs" by (simp add: sum_list_triv mult.commute)
  with tag_size [of no LengthDelimited] varint_length [of "int (length ?b)"]
  show ?thesis by (simp add: encPackedInt64_def proto_simps Let_def)
qed

lemma size_e_string [wire_size]:
  "length (e_tag proto_E no LengthDelimited @ e_string proto_E s) \<le> 8 * no + 7 + 4 * length s"
  using tag_size [of no LengthDelimited] run_size [of "utf8 s"] utf8_length [of s]
  by (simp add: proto_simps)

end
