(* ===== verification/Common_Messages.thy ===== *)
theory Common_Messages
  imports Proto_Wire
begin

text \<open>
  The message types of \<open>sdk/typescript/src/gen/pgapp/v1/common.ts\<close>: the result and capability messages every service shares.
  For every type: its interface as a record that extends the unknown-field carrier, \<open>create\<close>,
  the field switch of \<open>internalBinaryRead\<close> and the whole reader, and \<open>internalBinaryWrite\<close>
  statement by statement. \<open>_encode\<close> is the reference encoding, \<open>_ok\<close> says that the 32-bit and
  64-bit fields hold values of their width in canonical form and that unknown fields are well
  formed. The lemmas show, for every type, that writer and reader are a codec for the reference
  encoding and that the reader returns on every input.
\<close>

datatype ServiceState = ServiceState_UNSPECIFIED | ServiceState_AVAILABLE | ServiceState_UNAVAILABLE | ServiceState_DISABLED

definition ServiceState_no :: "ServiceState \<Rightarrow> js_number" where
  "ServiceState_no x = (case x of ServiceState_UNSPECIFIED \<Rightarrow> IntNum 0
     | ServiceState_AVAILABLE \<Rightarrow> IntNum 1
     | ServiceState_UNAVAILABLE \<Rightarrow> IntNum 2
     | ServiceState_DISABLED \<Rightarrow> IntNum 3)"

subsection \<open>Empty\<close>

type_synonym Empty = message

definition Empty_create :: Empty where
  "Empty_create = \<lparr>unknownFields = []\<rparr>"

definition Empty_field ::
  "'r reader \<Rightarrow> read_unknown \<Rightarrow> nat \<Rightarrow> wire_type \<Rightarrow> Empty \<Rightarrow> 'r \<Rightarrow> (Empty \<times> 'r) comp" where
  "Empty_field R options fieldNo wireType message =
     readUnknown R options ''pgapp.v1.Empty'' fieldNo wireType message"

definition Empty_internalBinaryRead ::
  "'r reader \<Rightarrow> read_unknown \<Rightarrow> 'r \<Rightarrow> nat \<Rightarrow> Empty option \<Rightarrow> (Empty \<times> 'r) comp" where
  "Empty_internalBinaryRead R options =
     readMessage R (Empty_field R options) Empty_create"

definition Empty_internalBinaryWrite ::
  "'w writer \<Rightarrow> 'w write_unknown \<Rightarrow> Empty \<Rightarrow> 'w \<Rightarrow> 'w result" where
  "Empty_internalBinaryWrite W options message = seqW
     [writeUnknown W options ''pgapp.v1.Empty'' message]"

definition Empty_encode :: "encoding \<Rightarrow> Empty \<Rightarrow> bytes" where
  "Empty_encode E message =
     encUnknown E message"

definition Empty_ok :: "(wire_type \<Rightarrow> bytes \<Rightarrow> bool) \<Rightarrow> Empty \<Rightarrow> bool" where
  "Empty_ok payload message \<longleftrightarrow>
     unknown_ok payload 0 message"

subsection \<open>OperationResult\<close>

record OperationResult = message +
  OperationResult_success :: bool

definition OperationResult_create :: OperationResult where
  "OperationResult_create = \<lparr>unknownFields = [], OperationResult_success = False\<rparr>"

definition OperationResult_field ::
  "'r reader \<Rightarrow> read_unknown \<Rightarrow> nat \<Rightarrow> wire_type \<Rightarrow> OperationResult \<Rightarrow> 'r \<Rightarrow> (OperationResult \<times> 'r) comp" where
  "OperationResult_field R options fieldNo wireType message =
     (if fieldNo = 1 then setField (r_bool R) (\<lambda>v m. m\<lparr>OperationResult_success := v\<rparr>) message
      else readUnknown R options ''pgapp.v1.OperationResult'' fieldNo wireType message)"

definition OperationResult_internalBinaryRead ::
  "'r reader \<Rightarrow> read_unknown \<Rightarrow> 'r \<Rightarrow> nat \<Rightarrow> OperationResult option \<Rightarrow> (OperationResult \<times> 'r) comp" where
  "OperationResult_internalBinaryRead R options =
     readMessage R (OperationResult_field R options) OperationResult_create"

definition OperationResult_internalBinaryWrite ::
  "'w writer \<Rightarrow> 'w write_unknown \<Rightarrow> OperationResult \<Rightarrow> 'w \<Rightarrow> 'w result" where
  "OperationResult_internalBinaryWrite W options message = seqW
     [whenW (OperationResult_success message \<noteq> False) (tagBool W 1 (OperationResult_success message)),
      writeUnknown W options ''pgapp.v1.OperationResult'' message]"

definition OperationResult_encode :: "encoding \<Rightarrow> OperationResult \<Rightarrow> bytes" where
  "OperationResult_encode E message =
     encBool E 1 (OperationResult_success message) @
     encUnknown E message"

definition OperationResult_ok :: "(wire_type \<Rightarrow> bytes \<Rightarrow> bool) \<Rightarrow> OperationResult \<Rightarrow> bool" where
  "OperationResult_ok payload message \<longleftrightarrow>
     unknown_ok payload 1 message"

subsection \<open>ServiceCapability\<close>

record ServiceCapability = message +
  ServiceCapability_name :: string
  ServiceCapability_state :: js_number
  ServiceCapability_message :: string

definition ServiceCapability_create :: ServiceCapability where
  "ServiceCapability_create = \<lparr>unknownFields = [], ServiceCapability_name = [], ServiceCapability_state = IntNum 0, ServiceCapability_message = []\<rparr>"

definition ServiceCapability_field ::
  "'r reader \<Rightarrow> read_unknown \<Rightarrow> nat \<Rightarrow> wire_type \<Rightarrow> ServiceCapability \<Rightarrow> 'r \<Rightarrow> (ServiceCapability \<times> 'r) comp" where
  "ServiceCapability_field R options fieldNo wireType message =
     (if fieldNo = 1 then setField (r_string R) (\<lambda>v m. m\<lparr>ServiceCapability_name := v\<rparr>) message
      else if fieldNo = 2 then setNumber (r_int32 R) (\<lambda>v m. m\<lparr>ServiceCapability_state := v\<rparr>) message
      else if fieldNo = 3 then setField (r_string R) (\<lambda>v m. m\<lparr>ServiceCapability_message := v\<rparr>) message
      else readUnknown R options ''pgapp.v1.ServiceCapability'' fieldNo wireType message)"

definition ServiceCapability_internalBinaryRead ::
  "'r reader \<Rightarrow> read_unknown \<Rightarrow> 'r \<Rightarrow> nat \<Rightarrow> ServiceCapability option \<Rightarrow> (ServiceCapability \<times> 'r) comp" where
  "ServiceCapability_internalBinaryRead R options =
     readMessage R (ServiceCapability_field R options) ServiceCapability_create"

definition ServiceCapability_internalBinaryWrite ::
  "'w writer \<Rightarrow> 'w write_unknown \<Rightarrow> ServiceCapability \<Rightarrow> 'w \<Rightarrow> 'w result" where
  "ServiceCapability_internalBinaryWrite W options message = seqW
     [whenW (ServiceCapability_name message \<noteq> []) (tagString W 1 (ServiceCapability_name message)),
      whenW (ServiceCapability_state message \<noteq> IntNum 0) (tagInt32 W 2 (ServiceCapability_state message)),
      whenW (ServiceCapability_message message \<noteq> []) (tagString W 3 (ServiceCapability_message message)),
      writeUnknown W options ''pgapp.v1.ServiceCapability'' message]"

definition ServiceCapability_encode :: "encoding \<Rightarrow> ServiceCapability \<Rightarrow> bytes" where
  "ServiceCapability_encode E message =
     encString E 1 (ServiceCapability_name message) @
     encInt32 E 2 (ServiceCapability_state message) @
     encString E 3 (ServiceCapability_message message) @
     encUnknown E message"

definition ServiceCapability_ok :: "(wire_type \<Rightarrow> bytes \<Rightarrow> bool) \<Rightarrow> ServiceCapability \<Rightarrow> bool" where
  "ServiceCapability_ok payload message \<longleftrightarrow>
     unknown_ok payload 3 message \<and>
     int32_ok (ServiceCapability_state message)"


section \<open>The field switches, field by field\<close>

lemma Empty_field_simps:
  "0 < no \<Longrightarrow> Empty_field R u no wt m = readUnknown R u ''pgapp.v1.Empty'' no wt m"
  by (auto simp: Empty_field_def)

lemma OperationResult_field_simps:
  "OperationResult_field R u 1 wt m = setField (r_bool R) (\<lambda>v m. m\<lparr>OperationResult_success := v\<rparr>) m"
  "1 < no \<Longrightarrow> OperationResult_field R u no wt m = readUnknown R u ''pgapp.v1.OperationResult'' no wt m"
  by (auto simp: OperationResult_field_def)

lemma ServiceCapability_field_simps:
  "ServiceCapability_field R u 1 wt m = setField (r_string R) (\<lambda>v m. m\<lparr>ServiceCapability_name := v\<rparr>) m"
  "ServiceCapability_field R u 2 wt m = setNumber (r_int32 R) (\<lambda>v m. m\<lparr>ServiceCapability_state := v\<rparr>) m"
  "ServiceCapability_field R u 3 wt m = setField (r_string R) (\<lambda>v m. m\<lparr>ServiceCapability_message := v\<rparr>) m"
  "3 < no \<Longrightarrow> ServiceCapability_field R u no wt m = readUnknown R u ''pgapp.v1.ServiceCapability'' no wt m"
  by (auto simp: ServiceCapability_field_def)

section \<open>Codecs\<close>

context wire_runtime
begin

lemma Empty_codec [wire_intro]:
  "codec (Empty_internalBinaryRead R RU_true) (Empty_internalBinaryWrite W WU_true)
    (Empty_encode E) (Empty_ok payload)"
  unfolding Empty_internalBinaryRead_def
proof (rule codecI)
  fix m
  assume ok: "Empty_ok payload m"
  show "rt (Empty_field R RU_true) (Empty_internalBinaryWrite W WU_true m) (Empty_encode E m)
      Empty_create m"
    unfolding Empty_internalBinaryWrite_def Empty_encode_def
    by (rule rt_chain, (rule wire_intro Empty_field_simps |
        use ok in \<open>simp add: Empty_ok_def Empty_create_def field_intros\<close>)+)
qed

lemma OperationResult_codec [wire_intro]:
  "codec (OperationResult_internalBinaryRead R RU_true) (OperationResult_internalBinaryWrite W WU_true)
    (OperationResult_encode E) (OperationResult_ok payload)"
  unfolding OperationResult_internalBinaryRead_def
proof (rule codecI)
  fix m
  assume ok: "OperationResult_ok payload m"
  show "rt (OperationResult_field R RU_true) (OperationResult_internalBinaryWrite W WU_true m) (OperationResult_encode E m)
      OperationResult_create m"
    unfolding OperationResult_internalBinaryWrite_def OperationResult_encode_def
    by (rule rt_chain, (rule wire_intro OperationResult_field_simps |
        use ok in \<open>simp add: OperationResult_ok_def OperationResult_create_def field_intros\<close>)+)
qed

lemma ServiceCapability_codec [wire_intro]:
  "codec (ServiceCapability_internalBinaryRead R RU_true) (ServiceCapability_internalBinaryWrite W WU_true)
    (ServiceCapability_encode E) (ServiceCapability_ok payload)"
  unfolding ServiceCapability_internalBinaryRead_def
proof (rule codecI)
  fix m
  assume ok: "ServiceCapability_ok payload m"
  show "rt (ServiceCapability_field R RU_true) (ServiceCapability_internalBinaryWrite W WU_true m) (ServiceCapability_encode E m)
      ServiceCapability_create m"
    unfolding ServiceCapability_internalBinaryWrite_def ServiceCapability_encode_def
    by (rule rt_chain, (rule wire_intro ServiceCapability_field_simps |
        use ok in \<open>simp add: ServiceCapability_ok_def ServiceCapability_create_def field_intros\<close>)+)
qed

end


section \<open>Termination\<close>

context wire_progress
begin

lemma Empty_returns [wire_total]: "reader_returns (Empty_internalBinaryRead R u)"
  unfolding Empty_internalBinaryRead_def Empty_field_def by (intro wire_total)

lemma OperationResult_returns [wire_total]: "reader_returns (OperationResult_internalBinaryRead R u)"
  unfolding OperationResult_internalBinaryRead_def OperationResult_field_def by (intro wire_total)

lemma ServiceCapability_returns [wire_total]: "reader_returns (ServiceCapability_internalBinaryRead R u)"
  unfolding ServiceCapability_internalBinaryRead_def ServiceCapability_field_def by (intro wire_total)

end

end
