(* ===== verification/Cache_Messages.thy ===== *)
theory Cache_Messages
  imports Common_Messages
begin

text \<open>
  The message types of \<open>sdk/typescript/src/gen/pgapp/v1/cache.ts\<close>: the requests and responses of the cache service.
  For every type: its interface as a record that extends the unknown-field carrier, \<open>create\<close>,
  the field switch of \<open>internalBinaryRead\<close> and the whole reader, and \<open>internalBinaryWrite\<close>
  statement by statement. \<open>_encode\<close> is the reference encoding, \<open>_ok\<close> says that the 32-bit and
  64-bit fields hold values of their width in canonical form and that unknown fields are well
  formed. The lemmas show, for every type, that writer and reader are a codec for the reference
  encoding and that the reader returns on every input.
\<close>

subsection \<open>SetCacheRequest\<close>

record SetCacheRequest = message +
  SetCacheRequest_namespace :: string
  SetCacheRequest_key :: string
  SetCacheRequest_value :: bytes
  SetCacheRequest_ttlSeconds :: string

definition SetCacheRequest_create :: SetCacheRequest where
  "SetCacheRequest_create = \<lparr>unknownFields = [],
     SetCacheRequest_namespace = [],
     SetCacheRequest_key = [],
     SetCacheRequest_value = [],
     SetCacheRequest_ttlSeconds = ''0''\<rparr>"

definition SetCacheRequest_field ::
  "'r reader \<Rightarrow> read_unknown \<Rightarrow> nat \<Rightarrow> wire_type \<Rightarrow> SetCacheRequest \<Rightarrow> 'r \<Rightarrow> (SetCacheRequest \<times> 'r) comp" where
  "SetCacheRequest_field R options fieldNo wireType message =
     (if fieldNo = 1 then setField (r_string R) (\<lambda>v m. m\<lparr>SetCacheRequest_namespace := v\<rparr>) message
      else if fieldNo = 2 then setField (r_string R) (\<lambda>v m. m\<lparr>SetCacheRequest_key := v\<rparr>) message
      else if fieldNo = 3 then setField (r_bytes R) (\<lambda>v m. m\<lparr>SetCacheRequest_value := v\<rparr>) message
      else if fieldNo = 4 then setLong (r_int64 R) (\<lambda>v m. m\<lparr>SetCacheRequest_ttlSeconds := v\<rparr>) message
      else readUnknown R options ''pgapp.v1.SetCacheRequest'' fieldNo wireType message)"

definition SetCacheRequest_internalBinaryRead ::
  "'r reader \<Rightarrow> read_unknown \<Rightarrow> 'r \<Rightarrow> nat \<Rightarrow> SetCacheRequest option \<Rightarrow> (SetCacheRequest \<times> 'r) comp" where
  "SetCacheRequest_internalBinaryRead R options =
     readMessage R (SetCacheRequest_field R options) SetCacheRequest_create"

definition SetCacheRequest_internalBinaryWrite ::
  "'w writer \<Rightarrow> 'w write_unknown \<Rightarrow> SetCacheRequest \<Rightarrow> 'w \<Rightarrow> 'w result" where
  "SetCacheRequest_internalBinaryWrite W options message = seqW
     [whenW (SetCacheRequest_namespace message \<noteq> []) (tagString W 1 (SetCacheRequest_namespace message)),
      whenW (SetCacheRequest_key message \<noteq> []) (tagString W 2 (SetCacheRequest_key message)),
      whenW (SetCacheRequest_value message \<noteq> []) (tagBytes W 3 (SetCacheRequest_value message)),
      whenW (SetCacheRequest_ttlSeconds message \<noteq> ''0'') (tagInt64 W 4 (SetCacheRequest_ttlSeconds message)),
      writeUnknown W options ''pgapp.v1.SetCacheRequest'' message]"

definition SetCacheRequest_encode :: "encoding \<Rightarrow> SetCacheRequest \<Rightarrow> bytes" where
  "SetCacheRequest_encode E message =
     encString E 1 (SetCacheRequest_namespace message) @
     encString E 2 (SetCacheRequest_key message) @
     encBytes E 3 (SetCacheRequest_value message) @
     encInt64 E 4 (SetCacheRequest_ttlSeconds message) @
     encUnknown E message"

definition SetCacheRequest_ok :: "(wire_type \<Rightarrow> bytes \<Rightarrow> bool) \<Rightarrow> SetCacheRequest \<Rightarrow> bool" where
  "SetCacheRequest_ok payload message \<longleftrightarrow>
     unknown_ok payload 4 message \<and>
     int64_ok (SetCacheRequest_ttlSeconds message)"

subsection \<open>GetCacheRequest\<close>

record GetCacheRequest = message +
  GetCacheRequest_namespace :: string
  GetCacheRequest_key :: string

definition GetCacheRequest_create :: GetCacheRequest where
  "GetCacheRequest_create = \<lparr>unknownFields = [], GetCacheRequest_namespace = [], GetCacheRequest_key = []\<rparr>"

definition GetCacheRequest_field ::
  "'r reader \<Rightarrow> read_unknown \<Rightarrow> nat \<Rightarrow> wire_type \<Rightarrow> GetCacheRequest \<Rightarrow> 'r \<Rightarrow> (GetCacheRequest \<times> 'r) comp" where
  "GetCacheRequest_field R options fieldNo wireType message =
     (if fieldNo = 1 then setField (r_string R) (\<lambda>v m. m\<lparr>GetCacheRequest_namespace := v\<rparr>) message
      else if fieldNo = 2 then setField (r_string R) (\<lambda>v m. m\<lparr>GetCacheRequest_key := v\<rparr>) message
      else readUnknown R options ''pgapp.v1.GetCacheRequest'' fieldNo wireType message)"

definition GetCacheRequest_internalBinaryRead ::
  "'r reader \<Rightarrow> read_unknown \<Rightarrow> 'r \<Rightarrow> nat \<Rightarrow> GetCacheRequest option \<Rightarrow> (GetCacheRequest \<times> 'r) comp" where
  "GetCacheRequest_internalBinaryRead R options =
     readMessage R (GetCacheRequest_field R options) GetCacheRequest_create"

definition GetCacheRequest_internalBinaryWrite ::
  "'w writer \<Rightarrow> 'w write_unknown \<Rightarrow> GetCacheRequest \<Rightarrow> 'w \<Rightarrow> 'w result" where
  "GetCacheRequest_internalBinaryWrite W options message = seqW
     [whenW (GetCacheRequest_namespace message \<noteq> []) (tagString W 1 (GetCacheRequest_namespace message)),
      whenW (GetCacheRequest_key message \<noteq> []) (tagString W 2 (GetCacheRequest_key message)),
      writeUnknown W options ''pgapp.v1.GetCacheRequest'' message]"

definition GetCacheRequest_encode :: "encoding \<Rightarrow> GetCacheRequest \<Rightarrow> bytes" where
  "GetCacheRequest_encode E message =
     encString E 1 (GetCacheRequest_namespace message) @
     encString E 2 (GetCacheRequest_key message) @
     encUnknown E message"

definition GetCacheRequest_ok :: "(wire_type \<Rightarrow> bytes \<Rightarrow> bool) \<Rightarrow> GetCacheRequest \<Rightarrow> bool" where
  "GetCacheRequest_ok payload message \<longleftrightarrow>
     unknown_ok payload 2 message"

subsection \<open>GetCacheResponse\<close>

record GetCacheResponse = message +
  GetCacheResponse_hit :: bool
  GetCacheResponse_value :: bytes

definition GetCacheResponse_create :: GetCacheResponse where
  "GetCacheResponse_create = \<lparr>unknownFields = [], GetCacheResponse_hit = False, GetCacheResponse_value = []\<rparr>"

definition GetCacheResponse_field ::
  "'r reader \<Rightarrow> read_unknown \<Rightarrow> nat \<Rightarrow> wire_type \<Rightarrow> GetCacheResponse \<Rightarrow> 'r \<Rightarrow> (GetCacheResponse \<times> 'r) comp" where
  "GetCacheResponse_field R options fieldNo wireType message =
     (if fieldNo = 1 then setField (r_bool R) (\<lambda>v m. m\<lparr>GetCacheResponse_hit := v\<rparr>) message
      else if fieldNo = 2 then setField (r_bytes R) (\<lambda>v m. m\<lparr>GetCacheResponse_value := v\<rparr>) message
      else readUnknown R options ''pgapp.v1.GetCacheResponse'' fieldNo wireType message)"

definition GetCacheResponse_internalBinaryRead ::
  "'r reader \<Rightarrow> read_unknown \<Rightarrow> 'r \<Rightarrow> nat \<Rightarrow> GetCacheResponse option \<Rightarrow> (GetCacheResponse \<times> 'r) comp" where
  "GetCacheResponse_internalBinaryRead R options =
     readMessage R (GetCacheResponse_field R options) GetCacheResponse_create"

definition GetCacheResponse_internalBinaryWrite ::
  "'w writer \<Rightarrow> 'w write_unknown \<Rightarrow> GetCacheResponse \<Rightarrow> 'w \<Rightarrow> 'w result" where
  "GetCacheResponse_internalBinaryWrite W options message = seqW
     [whenW (GetCacheResponse_hit message \<noteq> False) (tagBool W 1 (GetCacheResponse_hit message)),
      whenW (GetCacheResponse_value message \<noteq> []) (tagBytes W 2 (GetCacheResponse_value message)),
      writeUnknown W options ''pgapp.v1.GetCacheResponse'' message]"

definition GetCacheResponse_encode :: "encoding \<Rightarrow> GetCacheResponse \<Rightarrow> bytes" where
  "GetCacheResponse_encode E message =
     encBool E 1 (GetCacheResponse_hit message) @
     encBytes E 2 (GetCacheResponse_value message) @
     encUnknown E message"

definition GetCacheResponse_ok :: "(wire_type \<Rightarrow> bytes \<Rightarrow> bool) \<Rightarrow> GetCacheResponse \<Rightarrow> bool" where
  "GetCacheResponse_ok payload message \<longleftrightarrow>
     unknown_ok payload 2 message"

subsection \<open>MGetCacheRequest\<close>

record MGetCacheRequest = message +
  MGetCacheRequest_namespace :: string
  MGetCacheRequest_keys :: "string list"

definition MGetCacheRequest_create :: MGetCacheRequest where
  "MGetCacheRequest_create = \<lparr>unknownFields = [], MGetCacheRequest_namespace = [], MGetCacheRequest_keys = []\<rparr>"

definition MGetCacheRequest_field ::
  "'r reader \<Rightarrow> read_unknown \<Rightarrow> nat \<Rightarrow> wire_type \<Rightarrow> MGetCacheRequest \<Rightarrow> 'r \<Rightarrow> (MGetCacheRequest \<times> 'r) comp" where
  "MGetCacheRequest_field R options fieldNo wireType message =
     (if fieldNo = 1 then setField (r_string R) (\<lambda>v m. m\<lparr>MGetCacheRequest_namespace := v\<rparr>) message
      else if fieldNo = 2 then pushField (r_string R) MGetCacheRequest_keys_update message
      else readUnknown R options ''pgapp.v1.MGetCacheRequest'' fieldNo wireType message)"

definition MGetCacheRequest_internalBinaryRead ::
  "'r reader \<Rightarrow> read_unknown \<Rightarrow> 'r \<Rightarrow> nat \<Rightarrow> MGetCacheRequest option \<Rightarrow> (MGetCacheRequest \<times> 'r) comp" where
  "MGetCacheRequest_internalBinaryRead R options =
     readMessage R (MGetCacheRequest_field R options) MGetCacheRequest_create"

definition MGetCacheRequest_internalBinaryWrite ::
  "'w writer \<Rightarrow> 'w write_unknown \<Rightarrow> MGetCacheRequest \<Rightarrow> 'w \<Rightarrow> 'w result" where
  "MGetCacheRequest_internalBinaryWrite W options message = seqW
     [whenW (MGetCacheRequest_namespace message \<noteq> []) (tagString W 1 (MGetCacheRequest_namespace message)),
      forW (tagString W 2) (MGetCacheRequest_keys message),
      writeUnknown W options ''pgapp.v1.MGetCacheRequest'' message]"

definition MGetCacheRequest_encode :: "encoding \<Rightarrow> MGetCacheRequest \<Rightarrow> bytes" where
  "MGetCacheRequest_encode E message =
     encString E 1 (MGetCacheRequest_namespace message) @
     encRepeated (\<lambda>v. e_tag E 2 LengthDelimited @ e_string E v) (MGetCacheRequest_keys message) @
     encUnknown E message"

definition MGetCacheRequest_ok :: "(wire_type \<Rightarrow> bytes \<Rightarrow> bool) \<Rightarrow> MGetCacheRequest \<Rightarrow> bool" where
  "MGetCacheRequest_ok payload message \<longleftrightarrow>
     unknown_ok payload 2 message"

subsection \<open>CacheItem\<close>

record CacheItem = message +
  CacheItem_key :: string
  CacheItem_hit :: bool
  CacheItem_value :: bytes

definition CacheItem_create :: CacheItem where
  "CacheItem_create = \<lparr>unknownFields = [], CacheItem_key = [], CacheItem_hit = False, CacheItem_value = []\<rparr>"

definition CacheItem_field ::
  "'r reader \<Rightarrow> read_unknown \<Rightarrow> nat \<Rightarrow> wire_type \<Rightarrow> CacheItem \<Rightarrow> 'r \<Rightarrow> (CacheItem \<times> 'r) comp" where
  "CacheItem_field R options fieldNo wireType message =
     (if fieldNo = 1 then setField (r_string R) (\<lambda>v m. m\<lparr>CacheItem_key := v\<rparr>) message
      else if fieldNo = 2 then setField (r_bool R) (\<lambda>v m. m\<lparr>CacheItem_hit := v\<rparr>) message
      else if fieldNo = 3 then setField (r_bytes R) (\<lambda>v m. m\<lparr>CacheItem_value := v\<rparr>) message
      else readUnknown R options ''pgapp.v1.CacheItem'' fieldNo wireType message)"

definition CacheItem_internalBinaryRead ::
  "'r reader \<Rightarrow> read_unknown \<Rightarrow> 'r \<Rightarrow> nat \<Rightarrow> CacheItem option \<Rightarrow> (CacheItem \<times> 'r) comp" where
  "CacheItem_internalBinaryRead R options =
     readMessage R (CacheItem_field R options) CacheItem_create"

definition CacheItem_internalBinaryWrite ::
  "'w writer \<Rightarrow> 'w write_unknown \<Rightarrow> CacheItem \<Rightarrow> 'w \<Rightarrow> 'w result" where
  "CacheItem_internalBinaryWrite W options message = seqW
     [whenW (CacheItem_key message \<noteq> []) (tagString W 1 (CacheItem_key message)),
      whenW (CacheItem_hit message \<noteq> False) (tagBool W 2 (CacheItem_hit message)),
      whenW (CacheItem_value message \<noteq> []) (tagBytes W 3 (CacheItem_value message)),
      writeUnknown W options ''pgapp.v1.CacheItem'' message]"

definition CacheItem_encode :: "encoding \<Rightarrow> CacheItem \<Rightarrow> bytes" where
  "CacheItem_encode E message =
     encString E 1 (CacheItem_key message) @
     encBool E 2 (CacheItem_hit message) @
     encBytes E 3 (CacheItem_value message) @
     encUnknown E message"

definition CacheItem_ok :: "(wire_type \<Rightarrow> bytes \<Rightarrow> bool) \<Rightarrow> CacheItem \<Rightarrow> bool" where
  "CacheItem_ok payload message \<longleftrightarrow>
     unknown_ok payload 3 message"

subsection \<open>MGetCacheResponse\<close>

record MGetCacheResponse = message +
  MGetCacheResponse_items :: "CacheItem list"

definition MGetCacheResponse_create :: MGetCacheResponse where
  "MGetCacheResponse_create = \<lparr>unknownFields = [], MGetCacheResponse_items = []\<rparr>"

definition MGetCacheResponse_field ::
  "'r reader \<Rightarrow> read_unknown \<Rightarrow> nat \<Rightarrow> wire_type \<Rightarrow> MGetCacheResponse \<Rightarrow> 'r \<Rightarrow> (MGetCacheResponse \<times> 'r) comp" where
  "MGetCacheResponse_field R options fieldNo wireType message =
     (if fieldNo = 1 then pushMessage R (CacheItem_internalBinaryRead R options) MGetCacheResponse_items_update message
      else readUnknown R options ''pgapp.v1.MGetCacheResponse'' fieldNo wireType message)"

definition MGetCacheResponse_internalBinaryRead ::
  "'r reader \<Rightarrow> read_unknown \<Rightarrow> 'r \<Rightarrow> nat \<Rightarrow> MGetCacheResponse option \<Rightarrow> (MGetCacheResponse \<times> 'r) comp" where
  "MGetCacheResponse_internalBinaryRead R options =
     readMessage R (MGetCacheResponse_field R options) MGetCacheResponse_create"

definition MGetCacheResponse_internalBinaryWrite ::
  "'w writer \<Rightarrow> 'w write_unknown \<Rightarrow> MGetCacheResponse \<Rightarrow> 'w \<Rightarrow> 'w result" where
  "MGetCacheResponse_internalBinaryWrite W options message = seqW
     [forW (\<lambda>v. tagMessage W 1 (CacheItem_internalBinaryWrite W options v)) (MGetCacheResponse_items message),
      writeUnknown W options ''pgapp.v1.MGetCacheResponse'' message]"

definition MGetCacheResponse_encode :: "encoding \<Rightarrow> MGetCacheResponse \<Rightarrow> bytes" where
  "MGetCacheResponse_encode E message =
     encRepeated (\<lambda>v. encMessage E 1 (CacheItem_encode E v)) (MGetCacheResponse_items message) @
     encUnknown E message"

definition MGetCacheResponse_ok :: "(wire_type \<Rightarrow> bytes \<Rightarrow> bool) \<Rightarrow> MGetCacheResponse \<Rightarrow> bool" where
  "MGetCacheResponse_ok payload message \<longleftrightarrow>
     unknown_ok payload 1 message \<and>
     list_all (CacheItem_ok payload) (MGetCacheResponse_items message)"

subsection \<open>DeleteCacheRequest\<close>

record DeleteCacheRequest = message +
  DeleteCacheRequest_namespace :: string
  DeleteCacheRequest_key :: string

definition DeleteCacheRequest_create :: DeleteCacheRequest where
  "DeleteCacheRequest_create = \<lparr>unknownFields = [], DeleteCacheRequest_namespace = [], DeleteCacheRequest_key = []\<rparr>"

definition DeleteCacheRequest_field ::
  "'r reader \<Rightarrow> read_unknown \<Rightarrow> nat \<Rightarrow> wire_type \<Rightarrow> DeleteCacheRequest \<Rightarrow> 'r \<Rightarrow> (DeleteCacheRequest \<times> 'r) comp" where
  "DeleteCacheRequest_field R options fieldNo wireType message =
     (if fieldNo = 1 then setField (r_string R) (\<lambda>v m. m\<lparr>DeleteCacheRequest_namespace := v\<rparr>) message
      else if fieldNo = 2 then setField (r_string R) (\<lambda>v m. m\<lparr>DeleteCacheRequest_key := v\<rparr>) message
      else readUnknown R options ''pgapp.v1.DeleteCacheRequest'' fieldNo wireType message)"

definition DeleteCacheRequest_internalBinaryRead ::
  "'r reader \<Rightarrow> read_unknown \<Rightarrow> 'r \<Rightarrow> nat \<Rightarrow> DeleteCacheRequest option \<Rightarrow> (DeleteCacheRequest \<times> 'r) comp" where
  "DeleteCacheRequest_internalBinaryRead R options =
     readMessage R (DeleteCacheRequest_field R options) DeleteCacheRequest_create"

definition DeleteCacheRequest_internalBinaryWrite ::
  "'w writer \<Rightarrow> 'w write_unknown \<Rightarrow> DeleteCacheRequest \<Rightarrow> 'w \<Rightarrow> 'w result" where
  "DeleteCacheRequest_internalBinaryWrite W options message = seqW
     [whenW (DeleteCacheRequest_namespace message \<noteq> []) (tagString W 1 (DeleteCacheRequest_namespace message)),
      whenW (DeleteCacheRequest_key message \<noteq> []) (tagString W 2 (DeleteCacheRequest_key message)),
      writeUnknown W options ''pgapp.v1.DeleteCacheRequest'' message]"

definition DeleteCacheRequest_encode :: "encoding \<Rightarrow> DeleteCacheRequest \<Rightarrow> bytes" where
  "DeleteCacheRequest_encode E message =
     encString E 1 (DeleteCacheRequest_namespace message) @
     encString E 2 (DeleteCacheRequest_key message) @
     encUnknown E message"

definition DeleteCacheRequest_ok :: "(wire_type \<Rightarrow> bytes \<Rightarrow> bool) \<Rightarrow> DeleteCacheRequest \<Rightarrow> bool" where
  "DeleteCacheRequest_ok payload message \<longleftrightarrow>
     unknown_ok payload 2 message"

subsection \<open>ExistsCacheRequest\<close>

record ExistsCacheRequest = message +
  ExistsCacheRequest_namespace :: string
  ExistsCacheRequest_key :: string

definition ExistsCacheRequest_create :: ExistsCacheRequest where
  "ExistsCacheRequest_create = \<lparr>unknownFields = [], ExistsCacheRequest_namespace = [], ExistsCacheRequest_key = []\<rparr>"

definition ExistsCacheRequest_field ::
  "'r reader \<Rightarrow> read_unknown \<Rightarrow> nat \<Rightarrow> wire_type \<Rightarrow> ExistsCacheRequest \<Rightarrow> 'r \<Rightarrow> (ExistsCacheRequest \<times> 'r) comp" where
  "ExistsCacheRequest_field R options fieldNo wireType message =
     (if fieldNo = 1 then setField (r_string R) (\<lambda>v m. m\<lparr>ExistsCacheRequest_namespace := v\<rparr>) message
      else if fieldNo = 2 then setField (r_string R) (\<lambda>v m. m\<lparr>ExistsCacheRequest_key := v\<rparr>) message
      else readUnknown R options ''pgapp.v1.ExistsCacheRequest'' fieldNo wireType message)"

definition ExistsCacheRequest_internalBinaryRead ::
  "'r reader \<Rightarrow> read_unknown \<Rightarrow> 'r \<Rightarrow> nat \<Rightarrow> ExistsCacheRequest option \<Rightarrow> (ExistsCacheRequest \<times> 'r) comp" where
  "ExistsCacheRequest_internalBinaryRead R options =
     readMessage R (ExistsCacheRequest_field R options) ExistsCacheRequest_create"

definition ExistsCacheRequest_internalBinaryWrite ::
  "'w writer \<Rightarrow> 'w write_unknown \<Rightarrow> ExistsCacheRequest \<Rightarrow> 'w \<Rightarrow> 'w result" where
  "ExistsCacheRequest_internalBinaryWrite W options message = seqW
     [whenW (ExistsCacheRequest_namespace message \<noteq> []) (tagString W 1 (ExistsCacheRequest_namespace message)),
      whenW (ExistsCacheRequest_key message \<noteq> []) (tagString W 2 (ExistsCacheRequest_key message)),
      writeUnknown W options ''pgapp.v1.ExistsCacheRequest'' message]"

definition ExistsCacheRequest_encode :: "encoding \<Rightarrow> ExistsCacheRequest \<Rightarrow> bytes" where
  "ExistsCacheRequest_encode E message =
     encString E 1 (ExistsCacheRequest_namespace message) @
     encString E 2 (ExistsCacheRequest_key message) @
     encUnknown E message"

definition ExistsCacheRequest_ok :: "(wire_type \<Rightarrow> bytes \<Rightarrow> bool) \<Rightarrow> ExistsCacheRequest \<Rightarrow> bool" where
  "ExistsCacheRequest_ok payload message \<longleftrightarrow>
     unknown_ok payload 2 message"

subsection \<open>ExistsCacheResponse\<close>

record ExistsCacheResponse = message +
  ExistsCacheResponse_exists :: bool

definition ExistsCacheResponse_create :: ExistsCacheResponse where
  "ExistsCacheResponse_create = \<lparr>unknownFields = [], ExistsCacheResponse_exists = False\<rparr>"

definition ExistsCacheResponse_field ::
  "'r reader \<Rightarrow> read_unknown \<Rightarrow> nat \<Rightarrow> wire_type \<Rightarrow> ExistsCacheResponse \<Rightarrow> 'r \<Rightarrow> (ExistsCacheResponse \<times> 'r) comp" where
  "ExistsCacheResponse_field R options fieldNo wireType message =
     (if fieldNo = 1 then setField (r_bool R) (\<lambda>v m. m\<lparr>ExistsCacheResponse_exists := v\<rparr>) message
      else readUnknown R options ''pgapp.v1.ExistsCacheResponse'' fieldNo wireType message)"

definition ExistsCacheResponse_internalBinaryRead ::
  "'r reader \<Rightarrow> read_unknown \<Rightarrow> 'r \<Rightarrow> nat \<Rightarrow> ExistsCacheResponse option \<Rightarrow> (ExistsCacheResponse \<times> 'r) comp" where
  "ExistsCacheResponse_internalBinaryRead R options =
     readMessage R (ExistsCacheResponse_field R options) ExistsCacheResponse_create"

definition ExistsCacheResponse_internalBinaryWrite ::
  "'w writer \<Rightarrow> 'w write_unknown \<Rightarrow> ExistsCacheResponse \<Rightarrow> 'w \<Rightarrow> 'w result" where
  "ExistsCacheResponse_internalBinaryWrite W options message = seqW
     [whenW (ExistsCacheResponse_exists message \<noteq> False) (tagBool W 1 (ExistsCacheResponse_exists message)),
      writeUnknown W options ''pgapp.v1.ExistsCacheResponse'' message]"

definition ExistsCacheResponse_encode :: "encoding \<Rightarrow> ExistsCacheResponse \<Rightarrow> bytes" where
  "ExistsCacheResponse_encode E message =
     encBool E 1 (ExistsCacheResponse_exists message) @
     encUnknown E message"

definition ExistsCacheResponse_ok :: "(wire_type \<Rightarrow> bytes \<Rightarrow> bool) \<Rightarrow> ExistsCacheResponse \<Rightarrow> bool" where
  "ExistsCacheResponse_ok payload message \<longleftrightarrow>
     unknown_ok payload 1 message"

subsection \<open>InvalidateNamespaceRequest\<close>

record InvalidateNamespaceRequest = message +
  InvalidateNamespaceRequest_namespace :: string

definition InvalidateNamespaceRequest_create :: InvalidateNamespaceRequest where
  "InvalidateNamespaceRequest_create = \<lparr>unknownFields = [], InvalidateNamespaceRequest_namespace = []\<rparr>"

definition InvalidateNamespaceRequest_field ::
  "'r reader \<Rightarrow> read_unknown \<Rightarrow> nat \<Rightarrow> wire_type \<Rightarrow> InvalidateNamespaceRequest \<Rightarrow> 'r \<Rightarrow> (InvalidateNamespaceRequest \<times> 'r) comp" where
  "InvalidateNamespaceRequest_field R options fieldNo wireType message =
     (if fieldNo = 1 then setField (r_string R) (\<lambda>v m. m\<lparr>InvalidateNamespaceRequest_namespace := v\<rparr>) message
      else readUnknown R options ''pgapp.v1.InvalidateNamespaceRequest'' fieldNo wireType message)"

definition InvalidateNamespaceRequest_internalBinaryRead ::
  "'r reader \<Rightarrow> read_unknown \<Rightarrow> 'r \<Rightarrow> nat \<Rightarrow> InvalidateNamespaceRequest option \<Rightarrow> (InvalidateNamespaceRequest \<times> 'r) comp" where
  "InvalidateNamespaceRequest_internalBinaryRead R options =
     readMessage R (InvalidateNamespaceRequest_field R options) InvalidateNamespaceRequest_create"

definition InvalidateNamespaceRequest_internalBinaryWrite ::
  "'w writer \<Rightarrow> 'w write_unknown \<Rightarrow> InvalidateNamespaceRequest \<Rightarrow> 'w \<Rightarrow> 'w result" where
  "InvalidateNamespaceRequest_internalBinaryWrite W options message = seqW
     [whenW (InvalidateNamespaceRequest_namespace message \<noteq> []) (tagString W 1 (InvalidateNamespaceRequest_namespace message)),
      writeUnknown W options ''pgapp.v1.InvalidateNamespaceRequest'' message]"

definition InvalidateNamespaceRequest_encode :: "encoding \<Rightarrow> InvalidateNamespaceRequest \<Rightarrow> bytes" where
  "InvalidateNamespaceRequest_encode E message =
     encString E 1 (InvalidateNamespaceRequest_namespace message) @
     encUnknown E message"

definition InvalidateNamespaceRequest_ok :: "(wire_type \<Rightarrow> bytes \<Rightarrow> bool) \<Rightarrow> InvalidateNamespaceRequest \<Rightarrow> bool" where
  "InvalidateNamespaceRequest_ok payload message \<longleftrightarrow>
     unknown_ok payload 1 message"

subsection \<open>CacheStatsRequest\<close>

type_synonym CacheStatsRequest = message

definition CacheStatsRequest_create :: CacheStatsRequest where
  "CacheStatsRequest_create = \<lparr>unknownFields = []\<rparr>"

definition CacheStatsRequest_field ::
  "'r reader \<Rightarrow> read_unknown \<Rightarrow> nat \<Rightarrow> wire_type \<Rightarrow> CacheStatsRequest \<Rightarrow> 'r \<Rightarrow> (CacheStatsRequest \<times> 'r) comp" where
  "CacheStatsRequest_field R options fieldNo wireType message =
     readUnknown R options ''pgapp.v1.CacheStatsRequest'' fieldNo wireType message"

definition CacheStatsRequest_internalBinaryRead ::
  "'r reader \<Rightarrow> read_unknown \<Rightarrow> 'r \<Rightarrow> nat \<Rightarrow> CacheStatsRequest option \<Rightarrow> (CacheStatsRequest \<times> 'r) comp" where
  "CacheStatsRequest_internalBinaryRead R options =
     readMessage R (CacheStatsRequest_field R options) CacheStatsRequest_create"

definition CacheStatsRequest_internalBinaryWrite ::
  "'w writer \<Rightarrow> 'w write_unknown \<Rightarrow> CacheStatsRequest \<Rightarrow> 'w \<Rightarrow> 'w result" where
  "CacheStatsRequest_internalBinaryWrite W options message = seqW
     [writeUnknown W options ''pgapp.v1.CacheStatsRequest'' message]"

definition CacheStatsRequest_encode :: "encoding \<Rightarrow> CacheStatsRequest \<Rightarrow> bytes" where
  "CacheStatsRequest_encode E message =
     encUnknown E message"

definition CacheStatsRequest_ok :: "(wire_type \<Rightarrow> bytes \<Rightarrow> bool) \<Rightarrow> CacheStatsRequest \<Rightarrow> bool" where
  "CacheStatsRequest_ok payload message \<longleftrightarrow>
     unknown_ok payload 0 message"

subsection \<open>NamespaceUsage\<close>

record NamespaceUsage = message +
  NamespaceUsage_namespace :: string
  NamespaceUsage_keyCount :: string
  NamespaceUsage_byteSize :: string

definition NamespaceUsage_create :: NamespaceUsage where
  "NamespaceUsage_create = \<lparr>unknownFields = [], NamespaceUsage_namespace = [], NamespaceUsage_keyCount = ''0'', NamespaceUsage_byteSize = ''0''\<rparr>"

definition NamespaceUsage_field ::
  "'r reader \<Rightarrow> read_unknown \<Rightarrow> nat \<Rightarrow> wire_type \<Rightarrow> NamespaceUsage \<Rightarrow> 'r \<Rightarrow> (NamespaceUsage \<times> 'r) comp" where
  "NamespaceUsage_field R options fieldNo wireType message =
     (if fieldNo = 1 then setField (r_string R) (\<lambda>v m. m\<lparr>NamespaceUsage_namespace := v\<rparr>) message
      else if fieldNo = 2 then setLong (r_int64 R) (\<lambda>v m. m\<lparr>NamespaceUsage_keyCount := v\<rparr>) message
      else if fieldNo = 3 then setLong (r_int64 R) (\<lambda>v m. m\<lparr>NamespaceUsage_byteSize := v\<rparr>) message
      else readUnknown R options ''pgapp.v1.NamespaceUsage'' fieldNo wireType message)"

definition NamespaceUsage_internalBinaryRead ::
  "'r reader \<Rightarrow> read_unknown \<Rightarrow> 'r \<Rightarrow> nat \<Rightarrow> NamespaceUsage option \<Rightarrow> (NamespaceUsage \<times> 'r) comp" where
  "NamespaceUsage_internalBinaryRead R options =
     readMessage R (NamespaceUsage_field R options) NamespaceUsage_create"

definition NamespaceUsage_internalBinaryWrite ::
  "'w writer \<Rightarrow> 'w write_unknown \<Rightarrow> NamespaceUsage \<Rightarrow> 'w \<Rightarrow> 'w result" where
  "NamespaceUsage_internalBinaryWrite W options message = seqW
     [whenW (NamespaceUsage_namespace message \<noteq> []) (tagString W 1 (NamespaceUsage_namespace message)),
      whenW (NamespaceUsage_keyCount message \<noteq> ''0'') (tagInt64 W 2 (NamespaceUsage_keyCount message)),
      whenW (NamespaceUsage_byteSize message \<noteq> ''0'') (tagInt64 W 3 (NamespaceUsage_byteSize message)),
      writeUnknown W options ''pgapp.v1.NamespaceUsage'' message]"

definition NamespaceUsage_encode :: "encoding \<Rightarrow> NamespaceUsage \<Rightarrow> bytes" where
  "NamespaceUsage_encode E message =
     encString E 1 (NamespaceUsage_namespace message) @
     encInt64 E 2 (NamespaceUsage_keyCount message) @
     encInt64 E 3 (NamespaceUsage_byteSize message) @
     encUnknown E message"

definition NamespaceUsage_ok :: "(wire_type \<Rightarrow> bytes \<Rightarrow> bool) \<Rightarrow> NamespaceUsage \<Rightarrow> bool" where
  "NamespaceUsage_ok payload message \<longleftrightarrow>
     unknown_ok payload 3 message \<and>
     int64_ok (NamespaceUsage_keyCount message) \<and>
     int64_ok (NamespaceUsage_byteSize message)"

subsection \<open>CacheStatsResponse\<close>

record CacheStatsResponse = message +
  CacheStatsResponse_hits :: string
  CacheStatsResponse_misses :: string
  CacheStatsResponse_writes :: string
  CacheStatsResponse_deletes :: string
  CacheStatsResponse_evictions :: string
  CacheStatsResponse_expiredRemovals :: string
  CacheStatsResponse_logicalKeyCount :: string
  CacheStatsResponse_logicalByteSize :: string
  CacheStatsResponse_namespaceUsage :: "NamespaceUsage list"

definition CacheStatsResponse_create :: CacheStatsResponse where
  "CacheStatsResponse_create = \<lparr>unknownFields = [],
     CacheStatsResponse_hits = ''0'',
     CacheStatsResponse_misses = ''0'',
     CacheStatsResponse_writes = ''0'',
     CacheStatsResponse_deletes = ''0'',
     CacheStatsResponse_evictions = ''0'',
     CacheStatsResponse_expiredRemovals = ''0'',
     CacheStatsResponse_logicalKeyCount = ''0'',
     CacheStatsResponse_logicalByteSize = ''0'',
     CacheStatsResponse_namespaceUsage = []\<rparr>"

definition CacheStatsResponse_field ::
  "'r reader \<Rightarrow> read_unknown \<Rightarrow> nat \<Rightarrow> wire_type \<Rightarrow> CacheStatsResponse \<Rightarrow> 'r \<Rightarrow> (CacheStatsResponse \<times> 'r) comp" where
  "CacheStatsResponse_field R options fieldNo wireType message =
     (if fieldNo = 1 then setLong (r_int64 R) (\<lambda>v m. m\<lparr>CacheStatsResponse_hits := v\<rparr>) message
      else if fieldNo = 2 then setLong (r_int64 R) (\<lambda>v m. m\<lparr>CacheStatsResponse_misses := v\<rparr>) message
      else if fieldNo = 3 then setLong (r_int64 R) (\<lambda>v m. m\<lparr>CacheStatsResponse_writes := v\<rparr>) message
      else if fieldNo = 4 then setLong (r_int64 R) (\<lambda>v m. m\<lparr>CacheStatsResponse_deletes := v\<rparr>) message
      else if fieldNo = 5 then setLong (r_int64 R) (\<lambda>v m. m\<lparr>CacheStatsResponse_evictions := v\<rparr>) message
      else if fieldNo = 6 then setLong (r_int64 R) (\<lambda>v m. m\<lparr>CacheStatsResponse_expiredRemovals := v\<rparr>) message
      else if fieldNo = 7 then setLong (r_int64 R) (\<lambda>v m. m\<lparr>CacheStatsResponse_logicalKeyCount := v\<rparr>) message
      else if fieldNo = 8 then setLong (r_int64 R) (\<lambda>v m. m\<lparr>CacheStatsResponse_logicalByteSize := v\<rparr>) message
      else if fieldNo = 9 then pushMessage R (NamespaceUsage_internalBinaryRead R options) CacheStatsResponse_namespaceUsage_update message
      else readUnknown R options ''pgapp.v1.CacheStatsResponse'' fieldNo wireType message)"

definition CacheStatsResponse_internalBinaryRead ::
  "'r reader \<Rightarrow> read_unknown \<Rightarrow> 'r \<Rightarrow> nat \<Rightarrow> CacheStatsResponse option \<Rightarrow> (CacheStatsResponse \<times> 'r) comp" where
  "CacheStatsResponse_internalBinaryRead R options =
     readMessage R (CacheStatsResponse_field R options) CacheStatsResponse_create"

definition CacheStatsResponse_internalBinaryWrite ::
  "'w writer \<Rightarrow> 'w write_unknown \<Rightarrow> CacheStatsResponse \<Rightarrow> 'w \<Rightarrow> 'w result" where
  "CacheStatsResponse_internalBinaryWrite W options message = seqW
     [whenW (CacheStatsResponse_hits message \<noteq> ''0'') (tagInt64 W 1 (CacheStatsResponse_hits message)),
      whenW (CacheStatsResponse_misses message \<noteq> ''0'') (tagInt64 W 2 (CacheStatsResponse_misses message)),
      whenW (CacheStatsResponse_writes message \<noteq> ''0'') (tagInt64 W 3 (CacheStatsResponse_writes message)),
      whenW (CacheStatsResponse_deletes message \<noteq> ''0'') (tagInt64 W 4 (CacheStatsResponse_deletes message)),
      whenW (CacheStatsResponse_evictions message \<noteq> ''0'') (tagInt64 W 5 (CacheStatsResponse_evictions message)),
      whenW (CacheStatsResponse_expiredRemovals message \<noteq> ''0'') (tagInt64 W 6 (CacheStatsResponse_expiredRemovals message)),
      whenW (CacheStatsResponse_logicalKeyCount message \<noteq> ''0'') (tagInt64 W 7 (CacheStatsResponse_logicalKeyCount message)),
      whenW (CacheStatsResponse_logicalByteSize message \<noteq> ''0'') (tagInt64 W 8 (CacheStatsResponse_logicalByteSize message)),
      forW (\<lambda>v. tagMessage W 9 (NamespaceUsage_internalBinaryWrite W options v)) (CacheStatsResponse_namespaceUsage message),
      writeUnknown W options ''pgapp.v1.CacheStatsResponse'' message]"

definition CacheStatsResponse_encode :: "encoding \<Rightarrow> CacheStatsResponse \<Rightarrow> bytes" where
  "CacheStatsResponse_encode E message =
     encInt64 E 1 (CacheStatsResponse_hits message) @
     encInt64 E 2 (CacheStatsResponse_misses message) @
     encInt64 E 3 (CacheStatsResponse_writes message) @
     encInt64 E 4 (CacheStatsResponse_deletes message) @
     encInt64 E 5 (CacheStatsResponse_evictions message) @
     encInt64 E 6 (CacheStatsResponse_expiredRemovals message) @
     encInt64 E 7 (CacheStatsResponse_logicalKeyCount message) @
     encInt64 E 8 (CacheStatsResponse_logicalByteSize message) @
     encRepeated (\<lambda>v. encMessage E 9 (NamespaceUsage_encode E v)) (CacheStatsResponse_namespaceUsage message) @
     encUnknown E message"

definition CacheStatsResponse_ok :: "(wire_type \<Rightarrow> bytes \<Rightarrow> bool) \<Rightarrow> CacheStatsResponse \<Rightarrow> bool" where
  "CacheStatsResponse_ok payload message \<longleftrightarrow>
     unknown_ok payload 9 message \<and>
     int64_ok (CacheStatsResponse_hits message) \<and>
     int64_ok (CacheStatsResponse_misses message) \<and>
     int64_ok (CacheStatsResponse_writes message) \<and>
     int64_ok (CacheStatsResponse_deletes message) \<and>
     int64_ok (CacheStatsResponse_evictions message) \<and>
     int64_ok (CacheStatsResponse_expiredRemovals message) \<and>
     int64_ok (CacheStatsResponse_logicalKeyCount message) \<and>
     int64_ok (CacheStatsResponse_logicalByteSize message) \<and>
     list_all (NamespaceUsage_ok payload) (CacheStatsResponse_namespaceUsage message)"

subsection \<open>IncrementRequest\<close>

record IncrementRequest = message +
  IncrementRequest_namespace :: string
  IncrementRequest_key :: string
  IncrementRequest_delta :: string
  IncrementRequest_ttlSeconds :: string

definition IncrementRequest_create :: IncrementRequest where
  "IncrementRequest_create = \<lparr>unknownFields = [],
     IncrementRequest_namespace = [],
     IncrementRequest_key = [],
     IncrementRequest_delta = ''0'',
     IncrementRequest_ttlSeconds = ''0''\<rparr>"

definition IncrementRequest_field ::
  "'r reader \<Rightarrow> read_unknown \<Rightarrow> nat \<Rightarrow> wire_type \<Rightarrow> IncrementRequest \<Rightarrow> 'r \<Rightarrow> (IncrementRequest \<times> 'r) comp" where
  "IncrementRequest_field R options fieldNo wireType message =
     (if fieldNo = 1 then setField (r_string R) (\<lambda>v m. m\<lparr>IncrementRequest_namespace := v\<rparr>) message
      else if fieldNo = 2 then setField (r_string R) (\<lambda>v m. m\<lparr>IncrementRequest_key := v\<rparr>) message
      else if fieldNo = 3 then setLong (r_int64 R) (\<lambda>v m. m\<lparr>IncrementRequest_delta := v\<rparr>) message
      else if fieldNo = 4 then setLong (r_int64 R) (\<lambda>v m. m\<lparr>IncrementRequest_ttlSeconds := v\<rparr>) message
      else readUnknown R options ''pgapp.v1.IncrementRequest'' fieldNo wireType message)"

definition IncrementRequest_internalBinaryRead ::
  "'r reader \<Rightarrow> read_unknown \<Rightarrow> 'r \<Rightarrow> nat \<Rightarrow> IncrementRequest option \<Rightarrow> (IncrementRequest \<times> 'r) comp" where
  "IncrementRequest_internalBinaryRead R options =
     readMessage R (IncrementRequest_field R options) IncrementRequest_create"

definition IncrementRequest_internalBinaryWrite ::
  "'w writer \<Rightarrow> 'w write_unknown \<Rightarrow> IncrementRequest \<Rightarrow> 'w \<Rightarrow> 'w result" where
  "IncrementRequest_internalBinaryWrite W options message = seqW
     [whenW (IncrementRequest_namespace message \<noteq> []) (tagString W 1 (IncrementRequest_namespace message)),
      whenW (IncrementRequest_key message \<noteq> []) (tagString W 2 (IncrementRequest_key message)),
      whenW (IncrementRequest_delta message \<noteq> ''0'') (tagInt64 W 3 (IncrementRequest_delta message)),
      whenW (IncrementRequest_ttlSeconds message \<noteq> ''0'') (tagInt64 W 4 (IncrementRequest_ttlSeconds message)),
      writeUnknown W options ''pgapp.v1.IncrementRequest'' message]"

definition IncrementRequest_encode :: "encoding \<Rightarrow> IncrementRequest \<Rightarrow> bytes" where
  "IncrementRequest_encode E message =
     encString E 1 (IncrementRequest_namespace message) @
     encString E 2 (IncrementRequest_key message) @
     encInt64 E 3 (IncrementRequest_delta message) @
     encInt64 E 4 (IncrementRequest_ttlSeconds message) @
     encUnknown E message"

definition IncrementRequest_ok :: "(wire_type \<Rightarrow> bytes \<Rightarrow> bool) \<Rightarrow> IncrementRequest \<Rightarrow> bool" where
  "IncrementRequest_ok payload message \<longleftrightarrow>
     unknown_ok payload 4 message \<and>
     int64_ok (IncrementRequest_delta message) \<and>
     int64_ok (IncrementRequest_ttlSeconds message)"

subsection \<open>IncrementResponse\<close>

record IncrementResponse = message +
  IncrementResponse_value :: string

definition IncrementResponse_create :: IncrementResponse where
  "IncrementResponse_create = \<lparr>unknownFields = [], IncrementResponse_value = ''0''\<rparr>"

definition IncrementResponse_field ::
  "'r reader \<Rightarrow> read_unknown \<Rightarrow> nat \<Rightarrow> wire_type \<Rightarrow> IncrementResponse \<Rightarrow> 'r \<Rightarrow> (IncrementResponse \<times> 'r) comp" where
  "IncrementResponse_field R options fieldNo wireType message =
     (if fieldNo = 1 then setLong (r_int64 R) (\<lambda>v m. m\<lparr>IncrementResponse_value := v\<rparr>) message
      else readUnknown R options ''pgapp.v1.IncrementResponse'' fieldNo wireType message)"

definition IncrementResponse_internalBinaryRead ::
  "'r reader \<Rightarrow> read_unknown \<Rightarrow> 'r \<Rightarrow> nat \<Rightarrow> IncrementResponse option \<Rightarrow> (IncrementResponse \<times> 'r) comp" where
  "IncrementResponse_internalBinaryRead R options =
     readMessage R (IncrementResponse_field R options) IncrementResponse_create"

definition IncrementResponse_internalBinaryWrite ::
  "'w writer \<Rightarrow> 'w write_unknown \<Rightarrow> IncrementResponse \<Rightarrow> 'w \<Rightarrow> 'w result" where
  "IncrementResponse_internalBinaryWrite W options message = seqW
     [whenW (IncrementResponse_value message \<noteq> ''0'') (tagInt64 W 1 (IncrementResponse_value message)),
      writeUnknown W options ''pgapp.v1.IncrementResponse'' message]"

definition IncrementResponse_encode :: "encoding \<Rightarrow> IncrementResponse \<Rightarrow> bytes" where
  "IncrementResponse_encode E message =
     encInt64 E 1 (IncrementResponse_value message) @
     encUnknown E message"

definition IncrementResponse_ok :: "(wire_type \<Rightarrow> bytes \<Rightarrow> bool) \<Rightarrow> IncrementResponse \<Rightarrow> bool" where
  "IncrementResponse_ok payload message \<longleftrightarrow>
     unknown_ok payload 1 message \<and>
     int64_ok (IncrementResponse_value message)"

subsection \<open>DecrementRequest\<close>

record DecrementRequest = message +
  DecrementRequest_namespace :: string
  DecrementRequest_key :: string
  DecrementRequest_delta :: string
  DecrementRequest_ttlSeconds :: string

definition DecrementRequest_create :: DecrementRequest where
  "DecrementRequest_create = \<lparr>unknownFields = [],
     DecrementRequest_namespace = [],
     DecrementRequest_key = [],
     DecrementRequest_delta = ''0'',
     DecrementRequest_ttlSeconds = ''0''\<rparr>"

definition DecrementRequest_field ::
  "'r reader \<Rightarrow> read_unknown \<Rightarrow> nat \<Rightarrow> wire_type \<Rightarrow> DecrementRequest \<Rightarrow> 'r \<Rightarrow> (DecrementRequest \<times> 'r) comp" where
  "DecrementRequest_field R options fieldNo wireType message =
     (if fieldNo = 1 then setField (r_string R) (\<lambda>v m. m\<lparr>DecrementRequest_namespace := v\<rparr>) message
      else if fieldNo = 2 then setField (r_string R) (\<lambda>v m. m\<lparr>DecrementRequest_key := v\<rparr>) message
      else if fieldNo = 3 then setLong (r_int64 R) (\<lambda>v m. m\<lparr>DecrementRequest_delta := v\<rparr>) message
      else if fieldNo = 4 then setLong (r_int64 R) (\<lambda>v m. m\<lparr>DecrementRequest_ttlSeconds := v\<rparr>) message
      else readUnknown R options ''pgapp.v1.DecrementRequest'' fieldNo wireType message)"

definition DecrementRequest_internalBinaryRead ::
  "'r reader \<Rightarrow> read_unknown \<Rightarrow> 'r \<Rightarrow> nat \<Rightarrow> DecrementRequest option \<Rightarrow> (DecrementRequest \<times> 'r) comp" where
  "DecrementRequest_internalBinaryRead R options =
     readMessage R (DecrementRequest_field R options) DecrementRequest_create"

definition DecrementRequest_internalBinaryWrite ::
  "'w writer \<Rightarrow> 'w write_unknown \<Rightarrow> DecrementRequest \<Rightarrow> 'w \<Rightarrow> 'w result" where
  "DecrementRequest_internalBinaryWrite W options message = seqW
     [whenW (DecrementRequest_namespace message \<noteq> []) (tagString W 1 (DecrementRequest_namespace message)),
      whenW (DecrementRequest_key message \<noteq> []) (tagString W 2 (DecrementRequest_key message)),
      whenW (DecrementRequest_delta message \<noteq> ''0'') (tagInt64 W 3 (DecrementRequest_delta message)),
      whenW (DecrementRequest_ttlSeconds message \<noteq> ''0'') (tagInt64 W 4 (DecrementRequest_ttlSeconds message)),
      writeUnknown W options ''pgapp.v1.DecrementRequest'' message]"

definition DecrementRequest_encode :: "encoding \<Rightarrow> DecrementRequest \<Rightarrow> bytes" where
  "DecrementRequest_encode E message =
     encString E 1 (DecrementRequest_namespace message) @
     encString E 2 (DecrementRequest_key message) @
     encInt64 E 3 (DecrementRequest_delta message) @
     encInt64 E 4 (DecrementRequest_ttlSeconds message) @
     encUnknown E message"

definition DecrementRequest_ok :: "(wire_type \<Rightarrow> bytes \<Rightarrow> bool) \<Rightarrow> DecrementRequest \<Rightarrow> bool" where
  "DecrementRequest_ok payload message \<longleftrightarrow>
     unknown_ok payload 4 message \<and>
     int64_ok (DecrementRequest_delta message) \<and>
     int64_ok (DecrementRequest_ttlSeconds message)"

subsection \<open>DecrementResponse\<close>

record DecrementResponse = message +
  DecrementResponse_value :: string

definition DecrementResponse_create :: DecrementResponse where
  "DecrementResponse_create = \<lparr>unknownFields = [], DecrementResponse_value = ''0''\<rparr>"

definition DecrementResponse_field ::
  "'r reader \<Rightarrow> read_unknown \<Rightarrow> nat \<Rightarrow> wire_type \<Rightarrow> DecrementResponse \<Rightarrow> 'r \<Rightarrow> (DecrementResponse \<times> 'r) comp" where
  "DecrementResponse_field R options fieldNo wireType message =
     (if fieldNo = 1 then setLong (r_int64 R) (\<lambda>v m. m\<lparr>DecrementResponse_value := v\<rparr>) message
      else readUnknown R options ''pgapp.v1.DecrementResponse'' fieldNo wireType message)"

definition DecrementResponse_internalBinaryRead ::
  "'r reader \<Rightarrow> read_unknown \<Rightarrow> 'r \<Rightarrow> nat \<Rightarrow> DecrementResponse option \<Rightarrow> (DecrementResponse \<times> 'r) comp" where
  "DecrementResponse_internalBinaryRead R options =
     readMessage R (DecrementResponse_field R options) DecrementResponse_create"

definition DecrementResponse_internalBinaryWrite ::
  "'w writer \<Rightarrow> 'w write_unknown \<Rightarrow> DecrementResponse \<Rightarrow> 'w \<Rightarrow> 'w result" where
  "DecrementResponse_internalBinaryWrite W options message = seqW
     [whenW (DecrementResponse_value message \<noteq> ''0'') (tagInt64 W 1 (DecrementResponse_value message)),
      writeUnknown W options ''pgapp.v1.DecrementResponse'' message]"

definition DecrementResponse_encode :: "encoding \<Rightarrow> DecrementResponse \<Rightarrow> bytes" where
  "DecrementResponse_encode E message =
     encInt64 E 1 (DecrementResponse_value message) @
     encUnknown E message"

definition DecrementResponse_ok :: "(wire_type \<Rightarrow> bytes \<Rightarrow> bool) \<Rightarrow> DecrementResponse \<Rightarrow> bool" where
  "DecrementResponse_ok payload message \<longleftrightarrow>
     unknown_ok payload 1 message \<and>
     int64_ok (DecrementResponse_value message)"

subsection \<open>SetNXRequest\<close>

record SetNXRequest = message +
  SetNXRequest_namespace :: string
  SetNXRequest_key :: string
  SetNXRequest_value :: bytes
  SetNXRequest_ttlSeconds :: string

definition SetNXRequest_create :: SetNXRequest where
  "SetNXRequest_create = \<lparr>unknownFields = [],
     SetNXRequest_namespace = [],
     SetNXRequest_key = [],
     SetNXRequest_value = [],
     SetNXRequest_ttlSeconds = ''0''\<rparr>"

definition SetNXRequest_field ::
  "'r reader \<Rightarrow> read_unknown \<Rightarrow> nat \<Rightarrow> wire_type \<Rightarrow> SetNXRequest \<Rightarrow> 'r \<Rightarrow> (SetNXRequest \<times> 'r) comp" where
  "SetNXRequest_field R options fieldNo wireType message =
     (if fieldNo = 1 then setField (r_string R) (\<lambda>v m. m\<lparr>SetNXRequest_namespace := v\<rparr>) message
      else if fieldNo = 2 then setField (r_string R) (\<lambda>v m. m\<lparr>SetNXRequest_key := v\<rparr>) message
      else if fieldNo = 3 then setField (r_bytes R) (\<lambda>v m. m\<lparr>SetNXRequest_value := v\<rparr>) message
      else if fieldNo = 4 then setLong (r_int64 R) (\<lambda>v m. m\<lparr>SetNXRequest_ttlSeconds := v\<rparr>) message
      else readUnknown R options ''pgapp.v1.SetNXRequest'' fieldNo wireType message)"

definition SetNXRequest_internalBinaryRead ::
  "'r reader \<Rightarrow> read_unknown \<Rightarrow> 'r \<Rightarrow> nat \<Rightarrow> SetNXRequest option \<Rightarrow> (SetNXRequest \<times> 'r) comp" where
  "SetNXRequest_internalBinaryRead R options =
     readMessage R (SetNXRequest_field R options) SetNXRequest_create"

definition SetNXRequest_internalBinaryWrite ::
  "'w writer \<Rightarrow> 'w write_unknown \<Rightarrow> SetNXRequest \<Rightarrow> 'w \<Rightarrow> 'w result" where
  "SetNXRequest_internalBinaryWrite W options message = seqW
     [whenW (SetNXRequest_namespace message \<noteq> []) (tagString W 1 (SetNXRequest_namespace message)),
      whenW (SetNXRequest_key message \<noteq> []) (tagString W 2 (SetNXRequest_key message)),
      whenW (SetNXRequest_value message \<noteq> []) (tagBytes W 3 (SetNXRequest_value message)),
      whenW (SetNXRequest_ttlSeconds message \<noteq> ''0'') (tagInt64 W 4 (SetNXRequest_ttlSeconds message)),
      writeUnknown W options ''pgapp.v1.SetNXRequest'' message]"

definition SetNXRequest_encode :: "encoding \<Rightarrow> SetNXRequest \<Rightarrow> bytes" where
  "SetNXRequest_encode E message =
     encString E 1 (SetNXRequest_namespace message) @
     encString E 2 (SetNXRequest_key message) @
     encBytes E 3 (SetNXRequest_value message) @
     encInt64 E 4 (SetNXRequest_ttlSeconds message) @
     encUnknown E message"

definition SetNXRequest_ok :: "(wire_type \<Rightarrow> bytes \<Rightarrow> bool) \<Rightarrow> SetNXRequest \<Rightarrow> bool" where
  "SetNXRequest_ok payload message \<longleftrightarrow>
     unknown_ok payload 4 message \<and>
     int64_ok (SetNXRequest_ttlSeconds message)"

subsection \<open>SetNXResponse\<close>

record SetNXResponse = message +
  SetNXResponse_created :: bool

definition SetNXResponse_create :: SetNXResponse where
  "SetNXResponse_create = \<lparr>unknownFields = [], SetNXResponse_created = False\<rparr>"

definition SetNXResponse_field ::
  "'r reader \<Rightarrow> read_unknown \<Rightarrow> nat \<Rightarrow> wire_type \<Rightarrow> SetNXResponse \<Rightarrow> 'r \<Rightarrow> (SetNXResponse \<times> 'r) comp" where
  "SetNXResponse_field R options fieldNo wireType message =
     (if fieldNo = 1 then setField (r_bool R) (\<lambda>v m. m\<lparr>SetNXResponse_created := v\<rparr>) message
      else readUnknown R options ''pgapp.v1.SetNXResponse'' fieldNo wireType message)"

definition SetNXResponse_internalBinaryRead ::
  "'r reader \<Rightarrow> read_unknown \<Rightarrow> 'r \<Rightarrow> nat \<Rightarrow> SetNXResponse option \<Rightarrow> (SetNXResponse \<times> 'r) comp" where
  "SetNXResponse_internalBinaryRead R options =
     readMessage R (SetNXResponse_field R options) SetNXResponse_create"

definition SetNXResponse_internalBinaryWrite ::
  "'w writer \<Rightarrow> 'w write_unknown \<Rightarrow> SetNXResponse \<Rightarrow> 'w \<Rightarrow> 'w result" where
  "SetNXResponse_internalBinaryWrite W options message = seqW
     [whenW (SetNXResponse_created message \<noteq> False) (tagBool W 1 (SetNXResponse_created message)),
      writeUnknown W options ''pgapp.v1.SetNXResponse'' message]"

definition SetNXResponse_encode :: "encoding \<Rightarrow> SetNXResponse \<Rightarrow> bytes" where
  "SetNXResponse_encode E message =
     encBool E 1 (SetNXResponse_created message) @
     encUnknown E message"

definition SetNXResponse_ok :: "(wire_type \<Rightarrow> bytes \<Rightarrow> bool) \<Rightarrow> SetNXResponse \<Rightarrow> bool" where
  "SetNXResponse_ok payload message \<longleftrightarrow>
     unknown_ok payload 1 message"

subsection \<open>GetSetRequest\<close>

record GetSetRequest = message +
  GetSetRequest_namespace :: string
  GetSetRequest_key :: string
  GetSetRequest_value :: bytes
  GetSetRequest_ttlSeconds :: string

definition GetSetRequest_create :: GetSetRequest where
  "GetSetRequest_create = \<lparr>unknownFields = [],
     GetSetRequest_namespace = [],
     GetSetRequest_key = [],
     GetSetRequest_value = [],
     GetSetRequest_ttlSeconds = ''0''\<rparr>"

definition GetSetRequest_field ::
  "'r reader \<Rightarrow> read_unknown \<Rightarrow> nat \<Rightarrow> wire_type \<Rightarrow> GetSetRequest \<Rightarrow> 'r \<Rightarrow> (GetSetRequest \<times> 'r) comp" where
  "GetSetRequest_field R options fieldNo wireType message =
     (if fieldNo = 1 then setField (r_string R) (\<lambda>v m. m\<lparr>GetSetRequest_namespace := v\<rparr>) message
      else if fieldNo = 2 then setField (r_string R) (\<lambda>v m. m\<lparr>GetSetRequest_key := v\<rparr>) message
      else if fieldNo = 3 then setField (r_bytes R) (\<lambda>v m. m\<lparr>GetSetRequest_value := v\<rparr>) message
      else if fieldNo = 4 then setLong (r_int64 R) (\<lambda>v m. m\<lparr>GetSetRequest_ttlSeconds := v\<rparr>) message
      else readUnknown R options ''pgapp.v1.GetSetRequest'' fieldNo wireType message)"

definition GetSetRequest_internalBinaryRead ::
  "'r reader \<Rightarrow> read_unknown \<Rightarrow> 'r \<Rightarrow> nat \<Rightarrow> GetSetRequest option \<Rightarrow> (GetSetRequest \<times> 'r) comp" where
  "GetSetRequest_internalBinaryRead R options =
     readMessage R (GetSetRequest_field R options) GetSetRequest_create"

definition GetSetRequest_internalBinaryWrite ::
  "'w writer \<Rightarrow> 'w write_unknown \<Rightarrow> GetSetRequest \<Rightarrow> 'w \<Rightarrow> 'w result" where
  "GetSetRequest_internalBinaryWrite W options message = seqW
     [whenW (GetSetRequest_namespace message \<noteq> []) (tagString W 1 (GetSetRequest_namespace message)),
      whenW (GetSetRequest_key message \<noteq> []) (tagString W 2 (GetSetRequest_key message)),
      whenW (GetSetRequest_value message \<noteq> []) (tagBytes W 3 (GetSetRequest_value message)),
      whenW (GetSetRequest_ttlSeconds message \<noteq> ''0'') (tagInt64 W 4 (GetSetRequest_ttlSeconds message)),
      writeUnknown W options ''pgapp.v1.GetSetRequest'' message]"

definition GetSetRequest_encode :: "encoding \<Rightarrow> GetSetRequest \<Rightarrow> bytes" where
  "GetSetRequest_encode E message =
     encString E 1 (GetSetRequest_namespace message) @
     encString E 2 (GetSetRequest_key message) @
     encBytes E 3 (GetSetRequest_value message) @
     encInt64 E 4 (GetSetRequest_ttlSeconds message) @
     encUnknown E message"

definition GetSetRequest_ok :: "(wire_type \<Rightarrow> bytes \<Rightarrow> bool) \<Rightarrow> GetSetRequest \<Rightarrow> bool" where
  "GetSetRequest_ok payload message \<longleftrightarrow>
     unknown_ok payload 4 message \<and>
     int64_ok (GetSetRequest_ttlSeconds message)"

subsection \<open>GetSetResponse\<close>

record GetSetResponse = message +
  GetSetResponse_hit :: bool
  GetSetResponse_oldValue :: bytes

definition GetSetResponse_create :: GetSetResponse where
  "GetSetResponse_create = \<lparr>unknownFields = [], GetSetResponse_hit = False, GetSetResponse_oldValue = []\<rparr>"

definition GetSetResponse_field ::
  "'r reader \<Rightarrow> read_unknown \<Rightarrow> nat \<Rightarrow> wire_type \<Rightarrow> GetSetResponse \<Rightarrow> 'r \<Rightarrow> (GetSetResponse \<times> 'r) comp" where
  "GetSetResponse_field R options fieldNo wireType message =
     (if fieldNo = 1 then setField (r_bool R) (\<lambda>v m. m\<lparr>GetSetResponse_hit := v\<rparr>) message
      else if fieldNo = 2 then setField (r_bytes R) (\<lambda>v m. m\<lparr>GetSetResponse_oldValue := v\<rparr>) message
      else readUnknown R options ''pgapp.v1.GetSetResponse'' fieldNo wireType message)"

definition GetSetResponse_internalBinaryRead ::
  "'r reader \<Rightarrow> read_unknown \<Rightarrow> 'r \<Rightarrow> nat \<Rightarrow> GetSetResponse option \<Rightarrow> (GetSetResponse \<times> 'r) comp" where
  "GetSetResponse_internalBinaryRead R options =
     readMessage R (GetSetResponse_field R options) GetSetResponse_create"

definition GetSetResponse_internalBinaryWrite ::
  "'w writer \<Rightarrow> 'w write_unknown \<Rightarrow> GetSetResponse \<Rightarrow> 'w \<Rightarrow> 'w result" where
  "GetSetResponse_internalBinaryWrite W options message = seqW
     [whenW (GetSetResponse_hit message \<noteq> False) (tagBool W 1 (GetSetResponse_hit message)),
      whenW (GetSetResponse_oldValue message \<noteq> []) (tagBytes W 2 (GetSetResponse_oldValue message)),
      writeUnknown W options ''pgapp.v1.GetSetResponse'' message]"

definition GetSetResponse_encode :: "encoding \<Rightarrow> GetSetResponse \<Rightarrow> bytes" where
  "GetSetResponse_encode E message =
     encBool E 1 (GetSetResponse_hit message) @
     encBytes E 2 (GetSetResponse_oldValue message) @
     encUnknown E message"

definition GetSetResponse_ok :: "(wire_type \<Rightarrow> bytes \<Rightarrow> bool) \<Rightarrow> GetSetResponse \<Rightarrow> bool" where
  "GetSetResponse_ok payload message \<longleftrightarrow>
     unknown_ok payload 2 message"

subsection \<open>AppendRequest\<close>

record AppendRequest = message +
  AppendRequest_namespace :: string
  AppendRequest_key :: string
  AppendRequest_value :: bytes
  AppendRequest_ttlSeconds :: string

definition AppendRequest_create :: AppendRequest where
  "AppendRequest_create = \<lparr>unknownFields = [],
     AppendRequest_namespace = [],
     AppendRequest_key = [],
     AppendRequest_value = [],
     AppendRequest_ttlSeconds = ''0''\<rparr>"

definition AppendRequest_field ::
  "'r reader \<Rightarrow> read_unknown \<Rightarrow> nat \<Rightarrow> wire_type \<Rightarrow> AppendRequest \<Rightarrow> 'r \<Rightarrow> (AppendRequest \<times> 'r) comp" where
  "AppendRequest_field R options fieldNo wireType message =
     (if fieldNo = 1 then setField (r_string R) (\<lambda>v m. m\<lparr>AppendRequest_namespace := v\<rparr>) message
      else if fieldNo = 2 then setField (r_string R) (\<lambda>v m. m\<lparr>AppendRequest_key := v\<rparr>) message
      else if fieldNo = 3 then setField (r_bytes R) (\<lambda>v m. m\<lparr>AppendRequest_value := v\<rparr>) message
      else if fieldNo = 4 then setLong (r_int64 R) (\<lambda>v m. m\<lparr>AppendRequest_ttlSeconds := v\<rparr>) message
      else readUnknown R options ''pgapp.v1.AppendRequest'' fieldNo wireType message)"

definition AppendRequest_internalBinaryRead ::
  "'r reader \<Rightarrow> read_unknown \<Rightarrow> 'r \<Rightarrow> nat \<Rightarrow> AppendRequest option \<Rightarrow> (AppendRequest \<times> 'r) comp" where
  "AppendRequest_internalBinaryRead R options =
     readMessage R (AppendRequest_field R options) AppendRequest_create"

definition AppendRequest_internalBinaryWrite ::
  "'w writer \<Rightarrow> 'w write_unknown \<Rightarrow> AppendRequest \<Rightarrow> 'w \<Rightarrow> 'w result" where
  "AppendRequest_internalBinaryWrite W options message = seqW
     [whenW (AppendRequest_namespace message \<noteq> []) (tagString W 1 (AppendRequest_namespace message)),
      whenW (AppendRequest_key message \<noteq> []) (tagString W 2 (AppendRequest_key message)),
      whenW (AppendRequest_value message \<noteq> []) (tagBytes W 3 (AppendRequest_value message)),
      whenW (AppendRequest_ttlSeconds message \<noteq> ''0'') (tagInt64 W 4 (AppendRequest_ttlSeconds message)),
      writeUnknown W options ''pgapp.v1.AppendRequest'' message]"

definition AppendRequest_encode :: "encoding \<Rightarrow> AppendRequest \<Rightarrow> bytes" where
  "AppendRequest_encode E message =
     encString E 1 (AppendRequest_namespace message) @
     encString E 2 (AppendRequest_key message) @
     encBytes E 3 (AppendRequest_value message) @
     encInt64 E 4 (AppendRequest_ttlSeconds message) @
     encUnknown E message"

definition AppendRequest_ok :: "(wire_type \<Rightarrow> bytes \<Rightarrow> bool) \<Rightarrow> AppendRequest \<Rightarrow> bool" where
  "AppendRequest_ok payload message \<longleftrightarrow>
     unknown_ok payload 4 message \<and>
     int64_ok (AppendRequest_ttlSeconds message)"

subsection \<open>AppendResponse\<close>

record AppendResponse = message +
  AppendResponse_length :: string

definition AppendResponse_create :: AppendResponse where
  "AppendResponse_create = \<lparr>unknownFields = [], AppendResponse_length = ''0''\<rparr>"

definition AppendResponse_field ::
  "'r reader \<Rightarrow> read_unknown \<Rightarrow> nat \<Rightarrow> wire_type \<Rightarrow> AppendResponse \<Rightarrow> 'r \<Rightarrow> (AppendResponse \<times> 'r) comp" where
  "AppendResponse_field R options fieldNo wireType message =
     (if fieldNo = 1 then setLong (r_int64 R) (\<lambda>v m. m\<lparr>AppendResponse_length := v\<rparr>) message
      else readUnknown R options ''pgapp.v1.AppendResponse'' fieldNo wireType message)"

definition AppendResponse_internalBinaryRead ::
  "'r reader \<Rightarrow> read_unknown \<Rightarrow> 'r \<Rightarrow> nat \<Rightarrow> AppendResponse option \<Rightarrow> (AppendResponse \<times> 'r) comp" where
  "AppendResponse_internalBinaryRead R options =
     readMessage R (AppendResponse_field R options) AppendResponse_create"

definition AppendResponse_internalBinaryWrite ::
  "'w writer \<Rightarrow> 'w write_unknown \<Rightarrow> AppendResponse \<Rightarrow> 'w \<Rightarrow> 'w result" where
  "AppendResponse_internalBinaryWrite W options message = seqW
     [whenW (AppendResponse_length message \<noteq> ''0'') (tagInt64 W 1 (AppendResponse_length message)),
      writeUnknown W options ''pgapp.v1.AppendResponse'' message]"

definition AppendResponse_encode :: "encoding \<Rightarrow> AppendResponse \<Rightarrow> bytes" where
  "AppendResponse_encode E message =
     encInt64 E 1 (AppendResponse_length message) @
     encUnknown E message"

definition AppendResponse_ok :: "(wire_type \<Rightarrow> bytes \<Rightarrow> bool) \<Rightarrow> AppendResponse \<Rightarrow> bool" where
  "AppendResponse_ok payload message \<longleftrightarrow>
     unknown_ok payload 1 message \<and>
     int64_ok (AppendResponse_length message)"

subsection \<open>PrependRequest\<close>

record PrependRequest = message +
  PrependRequest_namespace :: string
  PrependRequest_key :: string
  PrependRequest_value :: bytes
  PrependRequest_ttlSeconds :: string

definition PrependRequest_create :: PrependRequest where
  "PrependRequest_create = \<lparr>unknownFields = [],
     PrependRequest_namespace = [],
     PrependRequest_key = [],
     PrependRequest_value = [],
     PrependRequest_ttlSeconds = ''0''\<rparr>"

definition PrependRequest_field ::
  "'r reader \<Rightarrow> read_unknown \<Rightarrow> nat \<Rightarrow> wire_type \<Rightarrow> PrependRequest \<Rightarrow> 'r \<Rightarrow> (PrependRequest \<times> 'r) comp" where
  "PrependRequest_field R options fieldNo wireType message =
     (if fieldNo = 1 then setField (r_string R) (\<lambda>v m. m\<lparr>PrependRequest_namespace := v\<rparr>) message
      else if fieldNo = 2 then setField (r_string R) (\<lambda>v m. m\<lparr>PrependRequest_key := v\<rparr>) message
      else if fieldNo = 3 then setField (r_bytes R) (\<lambda>v m. m\<lparr>PrependRequest_value := v\<rparr>) message
      else if fieldNo = 4 then setLong (r_int64 R) (\<lambda>v m. m\<lparr>PrependRequest_ttlSeconds := v\<rparr>) message
      else readUnknown R options ''pgapp.v1.PrependRequest'' fieldNo wireType message)"

definition PrependRequest_internalBinaryRead ::
  "'r reader \<Rightarrow> read_unknown \<Rightarrow> 'r \<Rightarrow> nat \<Rightarrow> PrependRequest option \<Rightarrow> (PrependRequest \<times> 'r) comp" where
  "PrependRequest_internalBinaryRead R options =
     readMessage R (PrependRequest_field R options) PrependRequest_create"

definition PrependRequest_internalBinaryWrite ::
  "'w writer \<Rightarrow> 'w write_unknown \<Rightarrow> PrependRequest \<Rightarrow> 'w \<Rightarrow> 'w result" where
  "PrependRequest_internalBinaryWrite W options message = seqW
     [whenW (PrependRequest_namespace message \<noteq> []) (tagString W 1 (PrependRequest_namespace message)),
      whenW (PrependRequest_key message \<noteq> []) (tagString W 2 (PrependRequest_key message)),
      whenW (PrependRequest_value message \<noteq> []) (tagBytes W 3 (PrependRequest_value message)),
      whenW (PrependRequest_ttlSeconds message \<noteq> ''0'') (tagInt64 W 4 (PrependRequest_ttlSeconds message)),
      writeUnknown W options ''pgapp.v1.PrependRequest'' message]"

definition PrependRequest_encode :: "encoding \<Rightarrow> PrependRequest \<Rightarrow> bytes" where
  "PrependRequest_encode E message =
     encString E 1 (PrependRequest_namespace message) @
     encString E 2 (PrependRequest_key message) @
     encBytes E 3 (PrependRequest_value message) @
     encInt64 E 4 (PrependRequest_ttlSeconds message) @
     encUnknown E message"

definition PrependRequest_ok :: "(wire_type \<Rightarrow> bytes \<Rightarrow> bool) \<Rightarrow> PrependRequest \<Rightarrow> bool" where
  "PrependRequest_ok payload message \<longleftrightarrow>
     unknown_ok payload 4 message \<and>
     int64_ok (PrependRequest_ttlSeconds message)"

subsection \<open>PrependResponse\<close>

record PrependResponse = message +
  PrependResponse_length :: string

definition PrependResponse_create :: PrependResponse where
  "PrependResponse_create = \<lparr>unknownFields = [], PrependResponse_length = ''0''\<rparr>"

definition PrependResponse_field ::
  "'r reader \<Rightarrow> read_unknown \<Rightarrow> nat \<Rightarrow> wire_type \<Rightarrow> PrependResponse \<Rightarrow> 'r \<Rightarrow> (PrependResponse \<times> 'r) comp" where
  "PrependResponse_field R options fieldNo wireType message =
     (if fieldNo = 1 then setLong (r_int64 R) (\<lambda>v m. m\<lparr>PrependResponse_length := v\<rparr>) message
      else readUnknown R options ''pgapp.v1.PrependResponse'' fieldNo wireType message)"

definition PrependResponse_internalBinaryRead ::
  "'r reader \<Rightarrow> read_unknown \<Rightarrow> 'r \<Rightarrow> nat \<Rightarrow> PrependResponse option \<Rightarrow> (PrependResponse \<times> 'r) comp" where
  "PrependResponse_internalBinaryRead R options =
     readMessage R (PrependResponse_field R options) PrependResponse_create"

definition PrependResponse_internalBinaryWrite ::
  "'w writer \<Rightarrow> 'w write_unknown \<Rightarrow> PrependResponse \<Rightarrow> 'w \<Rightarrow> 'w result" where
  "PrependResponse_internalBinaryWrite W options message = seqW
     [whenW (PrependResponse_length message \<noteq> ''0'') (tagInt64 W 1 (PrependResponse_length message)),
      writeUnknown W options ''pgapp.v1.PrependResponse'' message]"

definition PrependResponse_encode :: "encoding \<Rightarrow> PrependResponse \<Rightarrow> bytes" where
  "PrependResponse_encode E message =
     encInt64 E 1 (PrependResponse_length message) @
     encUnknown E message"

definition PrependResponse_ok :: "(wire_type \<Rightarrow> bytes \<Rightarrow> bool) \<Rightarrow> PrependResponse \<Rightarrow> bool" where
  "PrependResponse_ok payload message \<longleftrightarrow>
     unknown_ok payload 1 message \<and>
     int64_ok (PrependResponse_length message)"


section \<open>The field switches, field by field\<close>

lemma SetCacheRequest_field_simps:
  "SetCacheRequest_field R u 1 wt m = setField (r_string R) (\<lambda>v m. m\<lparr>SetCacheRequest_namespace := v\<rparr>) m"
  "SetCacheRequest_field R u 2 wt m = setField (r_string R) (\<lambda>v m. m\<lparr>SetCacheRequest_key := v\<rparr>) m"
  "SetCacheRequest_field R u 3 wt m = setField (r_bytes R) (\<lambda>v m. m\<lparr>SetCacheRequest_value := v\<rparr>) m"
  "SetCacheRequest_field R u 4 wt m = setLong (r_int64 R) (\<lambda>v m. m\<lparr>SetCacheRequest_ttlSeconds := v\<rparr>) m"
  "4 < no \<Longrightarrow> SetCacheRequest_field R u no wt m = readUnknown R u ''pgapp.v1.SetCacheRequest'' no wt m"
  by (auto simp: SetCacheRequest_field_def)

lemma GetCacheRequest_field_simps:
  "GetCacheRequest_field R u 1 wt m = setField (r_string R) (\<lambda>v m. m\<lparr>GetCacheRequest_namespace := v\<rparr>) m"
  "GetCacheRequest_field R u 2 wt m = setField (r_string R) (\<lambda>v m. m\<lparr>GetCacheRequest_key := v\<rparr>) m"
  "2 < no \<Longrightarrow> GetCacheRequest_field R u no wt m = readUnknown R u ''pgapp.v1.GetCacheRequest'' no wt m"
  by (auto simp: GetCacheRequest_field_def)

lemma GetCacheResponse_field_simps:
  "GetCacheResponse_field R u 1 wt m = setField (r_bool R) (\<lambda>v m. m\<lparr>GetCacheResponse_hit := v\<rparr>) m"
  "GetCacheResponse_field R u 2 wt m = setField (r_bytes R) (\<lambda>v m. m\<lparr>GetCacheResponse_value := v\<rparr>) m"
  "2 < no \<Longrightarrow> GetCacheResponse_field R u no wt m = readUnknown R u ''pgapp.v1.GetCacheResponse'' no wt m"
  by (auto simp: GetCacheResponse_field_def)

lemma MGetCacheRequest_field_simps:
  "MGetCacheRequest_field R u 1 wt m = setField (r_string R) (\<lambda>v m. m\<lparr>MGetCacheRequest_namespace := v\<rparr>) m"
  "MGetCacheRequest_field R u 2 wt m = pushField (r_string R) MGetCacheRequest_keys_update m"
  "2 < no \<Longrightarrow> MGetCacheRequest_field R u no wt m = readUnknown R u ''pgapp.v1.MGetCacheRequest'' no wt m"
  by (auto simp: MGetCacheRequest_field_def)

lemma CacheItem_field_simps:
  "CacheItem_field R u 1 wt m = setField (r_string R) (\<lambda>v m. m\<lparr>CacheItem_key := v\<rparr>) m"
  "CacheItem_field R u 2 wt m = setField (r_bool R) (\<lambda>v m. m\<lparr>CacheItem_hit := v\<rparr>) m"
  "CacheItem_field R u 3 wt m = setField (r_bytes R) (\<lambda>v m. m\<lparr>CacheItem_value := v\<rparr>) m"
  "3 < no \<Longrightarrow> CacheItem_field R u no wt m = readUnknown R u ''pgapp.v1.CacheItem'' no wt m"
  by (auto simp: CacheItem_field_def)

lemma MGetCacheResponse_field_simps:
  "MGetCacheResponse_field R u 1 wt m = pushMessage R (CacheItem_internalBinaryRead R u) MGetCacheResponse_items_update m"
  "1 < no \<Longrightarrow> MGetCacheResponse_field R u no wt m = readUnknown R u ''pgapp.v1.MGetCacheResponse'' no wt m"
  by (auto simp: MGetCacheResponse_field_def)

lemma DeleteCacheRequest_field_simps:
  "DeleteCacheRequest_field R u 1 wt m = setField (r_string R) (\<lambda>v m. m\<lparr>DeleteCacheRequest_namespace := v\<rparr>) m"
  "DeleteCacheRequest_field R u 2 wt m = setField (r_string R) (\<lambda>v m. m\<lparr>DeleteCacheRequest_key := v\<rparr>) m"
  "2 < no \<Longrightarrow> DeleteCacheRequest_field R u no wt m = readUnknown R u ''pgapp.v1.DeleteCacheRequest'' no wt m"
  by (auto simp: DeleteCacheRequest_field_def)

lemma ExistsCacheRequest_field_simps:
  "ExistsCacheRequest_field R u 1 wt m = setField (r_string R) (\<lambda>v m. m\<lparr>ExistsCacheRequest_namespace := v\<rparr>) m"
  "ExistsCacheRequest_field R u 2 wt m = setField (r_string R) (\<lambda>v m. m\<lparr>ExistsCacheRequest_key := v\<rparr>) m"
  "2 < no \<Longrightarrow> ExistsCacheRequest_field R u no wt m = readUnknown R u ''pgapp.v1.ExistsCacheRequest'' no wt m"
  by (auto simp: ExistsCacheRequest_field_def)

lemma ExistsCacheResponse_field_simps:
  "ExistsCacheResponse_field R u 1 wt m = setField (r_bool R) (\<lambda>v m. m\<lparr>ExistsCacheResponse_exists := v\<rparr>) m"
  "1 < no \<Longrightarrow> ExistsCacheResponse_field R u no wt m = readUnknown R u ''pgapp.v1.ExistsCacheResponse'' no wt m"
  by (auto simp: ExistsCacheResponse_field_def)

lemma InvalidateNamespaceRequest_field_simps:
  "InvalidateNamespaceRequest_field R u 1 wt m = setField (r_string R) (\<lambda>v m. m\<lparr>InvalidateNamespaceRequest_namespace := v\<rparr>) m"
  "1 < no \<Longrightarrow> InvalidateNamespaceRequest_field R u no wt m = readUnknown R u ''pgapp.v1.InvalidateNamespaceRequest'' no wt m"
  by (auto simp: InvalidateNamespaceRequest_field_def)

lemma CacheStatsRequest_field_simps:
  "0 < no \<Longrightarrow> CacheStatsRequest_field R u no wt m = readUnknown R u ''pgapp.v1.CacheStatsRequest'' no wt m"
  by (auto simp: CacheStatsRequest_field_def)

lemma NamespaceUsage_field_simps:
  "NamespaceUsage_field R u 1 wt m = setField (r_string R) (\<lambda>v m. m\<lparr>NamespaceUsage_namespace := v\<rparr>) m"
  "NamespaceUsage_field R u 2 wt m = setLong (r_int64 R) (\<lambda>v m. m\<lparr>NamespaceUsage_keyCount := v\<rparr>) m"
  "NamespaceUsage_field R u 3 wt m = setLong (r_int64 R) (\<lambda>v m. m\<lparr>NamespaceUsage_byteSize := v\<rparr>) m"
  "3 < no \<Longrightarrow> NamespaceUsage_field R u no wt m = readUnknown R u ''pgapp.v1.NamespaceUsage'' no wt m"
  by (auto simp: NamespaceUsage_field_def)

lemma CacheStatsResponse_field_simps:
  "CacheStatsResponse_field R u 1 wt m = setLong (r_int64 R) (\<lambda>v m. m\<lparr>CacheStatsResponse_hits := v\<rparr>) m"
  "CacheStatsResponse_field R u 2 wt m = setLong (r_int64 R) (\<lambda>v m. m\<lparr>CacheStatsResponse_misses := v\<rparr>) m"
  "CacheStatsResponse_field R u 3 wt m = setLong (r_int64 R) (\<lambda>v m. m\<lparr>CacheStatsResponse_writes := v\<rparr>) m"
  "CacheStatsResponse_field R u 4 wt m = setLong (r_int64 R) (\<lambda>v m. m\<lparr>CacheStatsResponse_deletes := v\<rparr>) m"
  "CacheStatsResponse_field R u 5 wt m = setLong (r_int64 R) (\<lambda>v m. m\<lparr>CacheStatsResponse_evictions := v\<rparr>) m"
  "CacheStatsResponse_field R u 6 wt m = setLong (r_int64 R) (\<lambda>v m. m\<lparr>CacheStatsResponse_expiredRemovals := v\<rparr>) m"
  "CacheStatsResponse_field R u 7 wt m = setLong (r_int64 R) (\<lambda>v m. m\<lparr>CacheStatsResponse_logicalKeyCount := v\<rparr>) m"
  "CacheStatsResponse_field R u 8 wt m = setLong (r_int64 R) (\<lambda>v m. m\<lparr>CacheStatsResponse_logicalByteSize := v\<rparr>) m"
  "CacheStatsResponse_field R u 9 wt m = pushMessage R (NamespaceUsage_internalBinaryRead R u) CacheStatsResponse_namespaceUsage_update m"
  "9 < no \<Longrightarrow> CacheStatsResponse_field R u no wt m = readUnknown R u ''pgapp.v1.CacheStatsResponse'' no wt m"
  by (auto simp: CacheStatsResponse_field_def)

lemma IncrementRequest_field_simps:
  "IncrementRequest_field R u 1 wt m = setField (r_string R) (\<lambda>v m. m\<lparr>IncrementRequest_namespace := v\<rparr>) m"
  "IncrementRequest_field R u 2 wt m = setField (r_string R) (\<lambda>v m. m\<lparr>IncrementRequest_key := v\<rparr>) m"
  "IncrementRequest_field R u 3 wt m = setLong (r_int64 R) (\<lambda>v m. m\<lparr>IncrementRequest_delta := v\<rparr>) m"
  "IncrementRequest_field R u 4 wt m = setLong (r_int64 R) (\<lambda>v m. m\<lparr>IncrementRequest_ttlSeconds := v\<rparr>) m"
  "4 < no \<Longrightarrow> IncrementRequest_field R u no wt m = readUnknown R u ''pgapp.v1.IncrementRequest'' no wt m"
  by (auto simp: IncrementRequest_field_def)

lemma IncrementResponse_field_simps:
  "IncrementResponse_field R u 1 wt m = setLong (r_int64 R) (\<lambda>v m. m\<lparr>IncrementResponse_value := v\<rparr>) m"
  "1 < no \<Longrightarrow> IncrementResponse_field R u no wt m = readUnknown R u ''pgapp.v1.IncrementResponse'' no wt m"
  by (auto simp: IncrementResponse_field_def)

lemma DecrementRequest_field_simps:
  "DecrementRequest_field R u 1 wt m = setField (r_string R) (\<lambda>v m. m\<lparr>DecrementRequest_namespace := v\<rparr>) m"
  "DecrementRequest_field R u 2 wt m = setField (r_string R) (\<lambda>v m. m\<lparr>DecrementRequest_key := v\<rparr>) m"
  "DecrementRequest_field R u 3 wt m = setLong (r_int64 R) (\<lambda>v m. m\<lparr>DecrementRequest_delta := v\<rparr>) m"
  "DecrementRequest_field R u 4 wt m = setLong (r_int64 R) (\<lambda>v m. m\<lparr>DecrementRequest_ttlSeconds := v\<rparr>) m"
  "4 < no \<Longrightarrow> DecrementRequest_field R u no wt m = readUnknown R u ''pgapp.v1.DecrementRequest'' no wt m"
  by (auto simp: DecrementRequest_field_def)

lemma DecrementResponse_field_simps:
  "DecrementResponse_field R u 1 wt m = setLong (r_int64 R) (\<lambda>v m. m\<lparr>DecrementResponse_value := v\<rparr>) m"
  "1 < no \<Longrightarrow> DecrementResponse_field R u no wt m = readUnknown R u ''pgapp.v1.DecrementResponse'' no wt m"
  by (auto simp: DecrementResponse_field_def)

lemma SetNXRequest_field_simps:
  "SetNXRequest_field R u 1 wt m = setField (r_string R) (\<lambda>v m. m\<lparr>SetNXRequest_namespace := v\<rparr>) m"
  "SetNXRequest_field R u 2 wt m = setField (r_string R) (\<lambda>v m. m\<lparr>SetNXRequest_key := v\<rparr>) m"
  "SetNXRequest_field R u 3 wt m = setField (r_bytes R) (\<lambda>v m. m\<lparr>SetNXRequest_value := v\<rparr>) m"
  "SetNXRequest_field R u 4 wt m = setLong (r_int64 R) (\<lambda>v m. m\<lparr>SetNXRequest_ttlSeconds := v\<rparr>) m"
  "4 < no \<Longrightarrow> SetNXRequest_field R u no wt m = readUnknown R u ''pgapp.v1.SetNXRequest'' no wt m"
  by (auto simp: SetNXRequest_field_def)

lemma SetNXResponse_field_simps:
  "SetNXResponse_field R u 1 wt m = setField (r_bool R) (\<lambda>v m. m\<lparr>SetNXResponse_created := v\<rparr>) m"
  "1 < no \<Longrightarrow> SetNXResponse_field R u no wt m = readUnknown R u ''pgapp.v1.SetNXResponse'' no wt m"
  by (auto simp: SetNXResponse_field_def)

lemma GetSetRequest_field_simps:
  "GetSetRequest_field R u 1 wt m = setField (r_string R) (\<lambda>v m. m\<lparr>GetSetRequest_namespace := v\<rparr>) m"
  "GetSetRequest_field R u 2 wt m = setField (r_string R) (\<lambda>v m. m\<lparr>GetSetRequest_key := v\<rparr>) m"
  "GetSetRequest_field R u 3 wt m = setField (r_bytes R) (\<lambda>v m. m\<lparr>GetSetRequest_value := v\<rparr>) m"
  "GetSetRequest_field R u 4 wt m = setLong (r_int64 R) (\<lambda>v m. m\<lparr>GetSetRequest_ttlSeconds := v\<rparr>) m"
  "4 < no \<Longrightarrow> GetSetRequest_field R u no wt m = readUnknown R u ''pgapp.v1.GetSetRequest'' no wt m"
  by (auto simp: GetSetRequest_field_def)

lemma GetSetResponse_field_simps:
  "GetSetResponse_field R u 1 wt m = setField (r_bool R) (\<lambda>v m. m\<lparr>GetSetResponse_hit := v\<rparr>) m"
  "GetSetResponse_field R u 2 wt m = setField (r_bytes R) (\<lambda>v m. m\<lparr>GetSetResponse_oldValue := v\<rparr>) m"
  "2 < no \<Longrightarrow> GetSetResponse_field R u no wt m = readUnknown R u ''pgapp.v1.GetSetResponse'' no wt m"
  by (auto simp: GetSetResponse_field_def)

lemma AppendRequest_field_simps:
  "AppendRequest_field R u 1 wt m = setField (r_string R) (\<lambda>v m. m\<lparr>AppendRequest_namespace := v\<rparr>) m"
  "AppendRequest_field R u 2 wt m = setField (r_string R) (\<lambda>v m. m\<lparr>AppendRequest_key := v\<rparr>) m"
  "AppendRequest_field R u 3 wt m = setField (r_bytes R) (\<lambda>v m. m\<lparr>AppendRequest_value := v\<rparr>) m"
  "AppendRequest_field R u 4 wt m = setLong (r_int64 R) (\<lambda>v m. m\<lparr>AppendRequest_ttlSeconds := v\<rparr>) m"
  "4 < no \<Longrightarrow> AppendRequest_field R u no wt m = readUnknown R u ''pgapp.v1.AppendRequest'' no wt m"
  by (auto simp: AppendRequest_field_def)

lemma AppendResponse_field_simps:
  "AppendResponse_field R u 1 wt m = setLong (r_int64 R) (\<lambda>v m. m\<lparr>AppendResponse_length := v\<rparr>) m"
  "1 < no \<Longrightarrow> AppendResponse_field R u no wt m = readUnknown R u ''pgapp.v1.AppendResponse'' no wt m"
  by (auto simp: AppendResponse_field_def)

lemma PrependRequest_field_simps:
  "PrependRequest_field R u 1 wt m = setField (r_string R) (\<lambda>v m. m\<lparr>PrependRequest_namespace := v\<rparr>) m"
  "PrependRequest_field R u 2 wt m = setField (r_string R) (\<lambda>v m. m\<lparr>PrependRequest_key := v\<rparr>) m"
  "PrependRequest_field R u 3 wt m = setField (r_bytes R) (\<lambda>v m. m\<lparr>PrependRequest_value := v\<rparr>) m"
  "PrependRequest_field R u 4 wt m = setLong (r_int64 R) (\<lambda>v m. m\<lparr>PrependRequest_ttlSeconds := v\<rparr>) m"
  "4 < no \<Longrightarrow> PrependRequest_field R u no wt m = readUnknown R u ''pgapp.v1.PrependRequest'' no wt m"
  by (auto simp: PrependRequest_field_def)

lemma PrependResponse_field_simps:
  "PrependResponse_field R u 1 wt m = setLong (r_int64 R) (\<lambda>v m. m\<lparr>PrependResponse_length := v\<rparr>) m"
  "1 < no \<Longrightarrow> PrependResponse_field R u no wt m = readUnknown R u ''pgapp.v1.PrependResponse'' no wt m"
  by (auto simp: PrependResponse_field_def)

section \<open>Codecs\<close>

context wire_runtime
begin

lemma SetCacheRequest_codec [wire_intro]:
  "codec (SetCacheRequest_internalBinaryRead R RU_true) (SetCacheRequest_internalBinaryWrite W WU_true)
    (SetCacheRequest_encode E) (SetCacheRequest_ok payload)"
  unfolding SetCacheRequest_internalBinaryRead_def
proof (rule codecI)
  fix m
  assume ok: "SetCacheRequest_ok payload m"
  show "rt (SetCacheRequest_field R RU_true) (SetCacheRequest_internalBinaryWrite W WU_true m) (SetCacheRequest_encode E m)
      SetCacheRequest_create m"
    unfolding SetCacheRequest_internalBinaryWrite_def SetCacheRequest_encode_def
    by (rule rt_chain, (rule wire_intro SetCacheRequest_field_simps |
        use ok in \<open>simp add: SetCacheRequest_ok_def SetCacheRequest_create_def field_intros\<close>)+)
qed

lemma GetCacheRequest_codec [wire_intro]:
  "codec (GetCacheRequest_internalBinaryRead R RU_true) (GetCacheRequest_internalBinaryWrite W WU_true)
    (GetCacheRequest_encode E) (GetCacheRequest_ok payload)"
  unfolding GetCacheRequest_internalBinaryRead_def
proof (rule codecI)
  fix m
  assume ok: "GetCacheRequest_ok payload m"
  show "rt (GetCacheRequest_field R RU_true) (GetCacheRequest_internalBinaryWrite W WU_true m) (GetCacheRequest_encode E m)
      GetCacheRequest_create m"
    unfolding GetCacheRequest_internalBinaryWrite_def GetCacheRequest_encode_def
    by (rule rt_chain, (rule wire_intro GetCacheRequest_field_simps |
        use ok in \<open>simp add: GetCacheRequest_ok_def GetCacheRequest_create_def field_intros\<close>)+)
qed

lemma GetCacheResponse_codec [wire_intro]:
  "codec (GetCacheResponse_internalBinaryRead R RU_true) (GetCacheResponse_internalBinaryWrite W WU_true)
    (GetCacheResponse_encode E) (GetCacheResponse_ok payload)"
  unfolding GetCacheResponse_internalBinaryRead_def
proof (rule codecI)
  fix m
  assume ok: "GetCacheResponse_ok payload m"
  show "rt (GetCacheResponse_field R RU_true) (GetCacheResponse_internalBinaryWrite W WU_true m) (GetCacheResponse_encode E m)
      GetCacheResponse_create m"
    unfolding GetCacheResponse_internalBinaryWrite_def GetCacheResponse_encode_def
    by (rule rt_chain, (rule wire_intro GetCacheResponse_field_simps |
        use ok in \<open>simp add: GetCacheResponse_ok_def GetCacheResponse_create_def field_intros\<close>)+)
qed

lemma MGetCacheRequest_codec [wire_intro]:
  "codec (MGetCacheRequest_internalBinaryRead R RU_true) (MGetCacheRequest_internalBinaryWrite W WU_true)
    (MGetCacheRequest_encode E) (MGetCacheRequest_ok payload)"
  unfolding MGetCacheRequest_internalBinaryRead_def
proof (rule codecI)
  fix m
  assume ok: "MGetCacheRequest_ok payload m"
  show "rt (MGetCacheRequest_field R RU_true) (MGetCacheRequest_internalBinaryWrite W WU_true m) (MGetCacheRequest_encode E m)
      MGetCacheRequest_create m"
    unfolding MGetCacheRequest_internalBinaryWrite_def MGetCacheRequest_encode_def
    by (rule rt_chain, (rule wire_intro MGetCacheRequest_field_simps |
        use ok in \<open>simp add: MGetCacheRequest_ok_def MGetCacheRequest_create_def field_intros\<close>)+)
qed

lemma CacheItem_codec [wire_intro]:
  "codec (CacheItem_internalBinaryRead R RU_true) (CacheItem_internalBinaryWrite W WU_true)
    (CacheItem_encode E) (CacheItem_ok payload)"
  unfolding CacheItem_internalBinaryRead_def
proof (rule codecI)
  fix m
  assume ok: "CacheItem_ok payload m"
  show "rt (CacheItem_field R RU_true) (CacheItem_internalBinaryWrite W WU_true m) (CacheItem_encode E m)
      CacheItem_create m"
    unfolding CacheItem_internalBinaryWrite_def CacheItem_encode_def
    by (rule rt_chain, (rule wire_intro CacheItem_field_simps |
        use ok in \<open>simp add: CacheItem_ok_def CacheItem_create_def field_intros\<close>)+)
qed

lemma MGetCacheResponse_codec [wire_intro]:
  "codec (MGetCacheResponse_internalBinaryRead R RU_true) (MGetCacheResponse_internalBinaryWrite W WU_true)
    (MGetCacheResponse_encode E) (MGetCacheResponse_ok payload)"
  unfolding MGetCacheResponse_internalBinaryRead_def
proof (rule codecI)
  fix m
  assume ok: "MGetCacheResponse_ok payload m"
  show "rt (MGetCacheResponse_field R RU_true) (MGetCacheResponse_internalBinaryWrite W WU_true m) (MGetCacheResponse_encode E m)
      MGetCacheResponse_create m"
    unfolding MGetCacheResponse_internalBinaryWrite_def MGetCacheResponse_encode_def
    by (rule rt_chain, (rule wire_intro MGetCacheResponse_field_simps |
        use ok in \<open>simp add: MGetCacheResponse_ok_def MGetCacheResponse_create_def field_intros\<close>)+)
qed

lemma DeleteCacheRequest_codec [wire_intro]:
  "codec (DeleteCacheRequest_internalBinaryRead R RU_true) (DeleteCacheRequest_internalBinaryWrite W WU_true)
    (DeleteCacheRequest_encode E) (DeleteCacheRequest_ok payload)"
  unfolding DeleteCacheRequest_internalBinaryRead_def
proof (rule codecI)
  fix m
  assume ok: "DeleteCacheRequest_ok payload m"
  show "rt (DeleteCacheRequest_field R RU_true) (DeleteCacheRequest_internalBinaryWrite W WU_true m) (DeleteCacheRequest_encode E m)
      DeleteCacheRequest_create m"
    unfolding DeleteCacheRequest_internalBinaryWrite_def DeleteCacheRequest_encode_def
    by (rule rt_chain, (rule wire_intro DeleteCacheRequest_field_simps |
        use ok in \<open>simp add: DeleteCacheRequest_ok_def DeleteCacheRequest_create_def field_intros\<close>)+)
qed

lemma ExistsCacheRequest_codec [wire_intro]:
  "codec (ExistsCacheRequest_internalBinaryRead R RU_true) (ExistsCacheRequest_internalBinaryWrite W WU_true)
    (ExistsCacheRequest_encode E) (ExistsCacheRequest_ok payload)"
  unfolding ExistsCacheRequest_internalBinaryRead_def
proof (rule codecI)
  fix m
  assume ok: "ExistsCacheRequest_ok payload m"
  show "rt (ExistsCacheRequest_field R RU_true) (ExistsCacheRequest_internalBinaryWrite W WU_true m) (ExistsCacheRequest_encode E m)
      ExistsCacheRequest_create m"
    unfolding ExistsCacheRequest_internalBinaryWrite_def ExistsCacheRequest_encode_def
    by (rule rt_chain, (rule wire_intro ExistsCacheRequest_field_simps |
        use ok in \<open>simp add: ExistsCacheRequest_ok_def ExistsCacheRequest_create_def field_intros\<close>)+)
qed

lemma ExistsCacheResponse_codec [wire_intro]:
  "codec (ExistsCacheResponse_internalBinaryRead R RU_true) (ExistsCacheResponse_internalBinaryWrite W WU_true)
    (ExistsCacheResponse_encode E) (ExistsCacheResponse_ok payload)"
  unfolding ExistsCacheResponse_internalBinaryRead_def
proof (rule codecI)
  fix m
  assume ok: "ExistsCacheResponse_ok payload m"
  show "rt (ExistsCacheResponse_field R RU_true) (ExistsCacheResponse_internalBinaryWrite W WU_true m) (ExistsCacheResponse_encode E m)
      ExistsCacheResponse_create m"
    unfolding ExistsCacheResponse_internalBinaryWrite_def ExistsCacheResponse_encode_def
    by (rule rt_chain, (rule wire_intro ExistsCacheResponse_field_simps |
        use ok in \<open>simp add: ExistsCacheResponse_ok_def ExistsCacheResponse_create_def field_intros\<close>)+)
qed

lemma InvalidateNamespaceRequest_codec [wire_intro]:
  "codec (InvalidateNamespaceRequest_internalBinaryRead R RU_true) (InvalidateNamespaceRequest_internalBinaryWrite W WU_true)
    (InvalidateNamespaceRequest_encode E) (InvalidateNamespaceRequest_ok payload)"
  unfolding InvalidateNamespaceRequest_internalBinaryRead_def
proof (rule codecI)
  fix m
  assume ok: "InvalidateNamespaceRequest_ok payload m"
  show "rt (InvalidateNamespaceRequest_field R RU_true) (InvalidateNamespaceRequest_internalBinaryWrite W WU_true m) (InvalidateNamespaceRequest_encode E m)
      InvalidateNamespaceRequest_create m"
    unfolding InvalidateNamespaceRequest_internalBinaryWrite_def InvalidateNamespaceRequest_encode_def
    by (rule rt_chain, (rule wire_intro InvalidateNamespaceRequest_field_simps |
        use ok in \<open>simp add: InvalidateNamespaceRequest_ok_def InvalidateNamespaceRequest_create_def field_intros\<close>)+)
qed

lemma CacheStatsRequest_codec [wire_intro]:
  "codec (CacheStatsRequest_internalBinaryRead R RU_true) (CacheStatsRequest_internalBinaryWrite W WU_true)
    (CacheStatsRequest_encode E) (CacheStatsRequest_ok payload)"
  unfolding CacheStatsRequest_internalBinaryRead_def
proof (rule codecI)
  fix m
  assume ok: "CacheStatsRequest_ok payload m"
  show "rt (CacheStatsRequest_field R RU_true) (CacheStatsRequest_internalBinaryWrite W WU_true m) (CacheStatsRequest_encode E m)
      CacheStatsRequest_create m"
    unfolding CacheStatsRequest_internalBinaryWrite_def CacheStatsRequest_encode_def
    by (rule rt_chain, (rule wire_intro CacheStatsRequest_field_simps |
        use ok in \<open>simp add: CacheStatsRequest_ok_def CacheStatsRequest_create_def field_intros\<close>)+)
qed

lemma NamespaceUsage_codec [wire_intro]:
  "codec (NamespaceUsage_internalBinaryRead R RU_true) (NamespaceUsage_internalBinaryWrite W WU_true)
    (NamespaceUsage_encode E) (NamespaceUsage_ok payload)"
  unfolding NamespaceUsage_internalBinaryRead_def
proof (rule codecI)
  fix m
  assume ok: "NamespaceUsage_ok payload m"
  show "rt (NamespaceUsage_field R RU_true) (NamespaceUsage_internalBinaryWrite W WU_true m) (NamespaceUsage_encode E m)
      NamespaceUsage_create m"
    unfolding NamespaceUsage_internalBinaryWrite_def NamespaceUsage_encode_def
    by (rule rt_chain, (rule wire_intro NamespaceUsage_field_simps |
        use ok in \<open>simp add: NamespaceUsage_ok_def NamespaceUsage_create_def field_intros\<close>)+)
qed

lemma CacheStatsResponse_codec [wire_intro]:
  "codec (CacheStatsResponse_internalBinaryRead R RU_true) (CacheStatsResponse_internalBinaryWrite W WU_true)
    (CacheStatsResponse_encode E) (CacheStatsResponse_ok payload)"
  unfolding CacheStatsResponse_internalBinaryRead_def
proof (rule codecI)
  fix m
  assume ok: "CacheStatsResponse_ok payload m"
  show "rt (CacheStatsResponse_field R RU_true) (CacheStatsResponse_internalBinaryWrite W WU_true m) (CacheStatsResponse_encode E m)
      CacheStatsResponse_create m"
    unfolding CacheStatsResponse_internalBinaryWrite_def CacheStatsResponse_encode_def
    by (rule rt_chain, (rule wire_intro CacheStatsResponse_field_simps |
        use ok in \<open>simp add: CacheStatsResponse_ok_def CacheStatsResponse_create_def field_intros\<close>)+)
qed

lemma IncrementRequest_codec [wire_intro]:
  "codec (IncrementRequest_internalBinaryRead R RU_true) (IncrementRequest_internalBinaryWrite W WU_true)
    (IncrementRequest_encode E) (IncrementRequest_ok payload)"
  unfolding IncrementRequest_internalBinaryRead_def
proof (rule codecI)
  fix m
  assume ok: "IncrementRequest_ok payload m"
  show "rt (IncrementRequest_field R RU_true) (IncrementRequest_internalBinaryWrite W WU_true m) (IncrementRequest_encode E m)
      IncrementRequest_create m"
    unfolding IncrementRequest_internalBinaryWrite_def IncrementRequest_encode_def
    by (rule rt_chain, (rule wire_intro IncrementRequest_field_simps |
        use ok in \<open>simp add: IncrementRequest_ok_def IncrementRequest_create_def field_intros\<close>)+)
qed

lemma IncrementResponse_codec [wire_intro]:
  "codec (IncrementResponse_internalBinaryRead R RU_true) (IncrementResponse_internalBinaryWrite W WU_true)
    (IncrementResponse_encode E) (IncrementResponse_ok payload)"
  unfolding IncrementResponse_internalBinaryRead_def
proof (rule codecI)
  fix m
  assume ok: "IncrementResponse_ok payload m"
  show "rt (IncrementResponse_field R RU_true) (IncrementResponse_internalBinaryWrite W WU_true m) (IncrementResponse_encode E m)
      IncrementResponse_create m"
    unfolding IncrementResponse_internalBinaryWrite_def IncrementResponse_encode_def
    by (rule rt_chain, (rule wire_intro IncrementResponse_field_simps |
        use ok in \<open>simp add: IncrementResponse_ok_def IncrementResponse_create_def field_intros\<close>)+)
qed

lemma DecrementRequest_codec [wire_intro]:
  "codec (DecrementRequest_internalBinaryRead R RU_true) (DecrementRequest_internalBinaryWrite W WU_true)
    (DecrementRequest_encode E) (DecrementRequest_ok payload)"
  unfolding DecrementRequest_internalBinaryRead_def
proof (rule codecI)
  fix m
  assume ok: "DecrementRequest_ok payload m"
  show "rt (DecrementRequest_field R RU_true) (DecrementRequest_internalBinaryWrite W WU_true m) (DecrementRequest_encode E m)
      DecrementRequest_create m"
    unfolding DecrementRequest_internalBinaryWrite_def DecrementRequest_encode_def
    by (rule rt_chain, (rule wire_intro DecrementRequest_field_simps |
        use ok in \<open>simp add: DecrementRequest_ok_def DecrementRequest_create_def field_intros\<close>)+)
qed

lemma DecrementResponse_codec [wire_intro]:
  "codec (DecrementResponse_internalBinaryRead R RU_true) (DecrementResponse_internalBinaryWrite W WU_true)
    (DecrementResponse_encode E) (DecrementResponse_ok payload)"
  unfolding DecrementResponse_internalBinaryRead_def
proof (rule codecI)
  fix m
  assume ok: "DecrementResponse_ok payload m"
  show "rt (DecrementResponse_field R RU_true) (DecrementResponse_internalBinaryWrite W WU_true m) (DecrementResponse_encode E m)
      DecrementResponse_create m"
    unfolding DecrementResponse_internalBinaryWrite_def DecrementResponse_encode_def
    by (rule rt_chain, (rule wire_intro DecrementResponse_field_simps |
        use ok in \<open>simp add: DecrementResponse_ok_def DecrementResponse_create_def field_intros\<close>)+)
qed

lemma SetNXRequest_codec [wire_intro]:
  "codec (SetNXRequest_internalBinaryRead R RU_true) (SetNXRequest_internalBinaryWrite W WU_true)
    (SetNXRequest_encode E) (SetNXRequest_ok payload)"
  unfolding SetNXRequest_internalBinaryRead_def
proof (rule codecI)
  fix m
  assume ok: "SetNXRequest_ok payload m"
  show "rt (SetNXRequest_field R RU_true) (SetNXRequest_internalBinaryWrite W WU_true m) (SetNXRequest_encode E m)
      SetNXRequest_create m"
    unfolding SetNXRequest_internalBinaryWrite_def SetNXRequest_encode_def
    by (rule rt_chain, (rule wire_intro SetNXRequest_field_simps |
        use ok in \<open>simp add: SetNXRequest_ok_def SetNXRequest_create_def field_intros\<close>)+)
qed

lemma SetNXResponse_codec [wire_intro]:
  "codec (SetNXResponse_internalBinaryRead R RU_true) (SetNXResponse_internalBinaryWrite W WU_true)
    (SetNXResponse_encode E) (SetNXResponse_ok payload)"
  unfolding SetNXResponse_internalBinaryRead_def
proof (rule codecI)
  fix m
  assume ok: "SetNXResponse_ok payload m"
  show "rt (SetNXResponse_field R RU_true) (SetNXResponse_internalBinaryWrite W WU_true m) (SetNXResponse_encode E m)
      SetNXResponse_create m"
    unfolding SetNXResponse_internalBinaryWrite_def SetNXResponse_encode_def
    by (rule rt_chain, (rule wire_intro SetNXResponse_field_simps |
        use ok in \<open>simp add: SetNXResponse_ok_def SetNXResponse_create_def field_intros\<close>)+)
qed

lemma GetSetRequest_codec [wire_intro]:
  "codec (GetSetRequest_internalBinaryRead R RU_true) (GetSetRequest_internalBinaryWrite W WU_true)
    (GetSetRequest_encode E) (GetSetRequest_ok payload)"
  unfolding GetSetRequest_internalBinaryRead_def
proof (rule codecI)
  fix m
  assume ok: "GetSetRequest_ok payload m"
  show "rt (GetSetRequest_field R RU_true) (GetSetRequest_internalBinaryWrite W WU_true m) (GetSetRequest_encode E m)
      GetSetRequest_create m"
    unfolding GetSetRequest_internalBinaryWrite_def GetSetRequest_encode_def
    by (rule rt_chain, (rule wire_intro GetSetRequest_field_simps |
        use ok in \<open>simp add: GetSetRequest_ok_def GetSetRequest_create_def field_intros\<close>)+)
qed

lemma GetSetResponse_codec [wire_intro]:
  "codec (GetSetResponse_internalBinaryRead R RU_true) (GetSetResponse_internalBinaryWrite W WU_true)
    (GetSetResponse_encode E) (GetSetResponse_ok payload)"
  unfolding GetSetResponse_internalBinaryRead_def
proof (rule codecI)
  fix m
  assume ok: "GetSetResponse_ok payload m"
  show "rt (GetSetResponse_field R RU_true) (GetSetResponse_internalBinaryWrite W WU_true m) (GetSetResponse_encode E m)
      GetSetResponse_create m"
    unfolding GetSetResponse_internalBinaryWrite_def GetSetResponse_encode_def
    by (rule rt_chain, (rule wire_intro GetSetResponse_field_simps |
        use ok in \<open>simp add: GetSetResponse_ok_def GetSetResponse_create_def field_intros\<close>)+)
qed

lemma AppendRequest_codec [wire_intro]:
  "codec (AppendRequest_internalBinaryRead R RU_true) (AppendRequest_internalBinaryWrite W WU_true)
    (AppendRequest_encode E) (AppendRequest_ok payload)"
  unfolding AppendRequest_internalBinaryRead_def
proof (rule codecI)
  fix m
  assume ok: "AppendRequest_ok payload m"
  show "rt (AppendRequest_field R RU_true) (AppendRequest_internalBinaryWrite W WU_true m) (AppendRequest_encode E m)
      AppendRequest_create m"
    unfolding AppendRequest_internalBinaryWrite_def AppendRequest_encode_def
    by (rule rt_chain, (rule wire_intro AppendRequest_field_simps |
        use ok in \<open>simp add: AppendRequest_ok_def AppendRequest_create_def field_intros\<close>)+)
qed

lemma AppendResponse_codec [wire_intro]:
  "codec (AppendResponse_internalBinaryRead R RU_true) (AppendResponse_internalBinaryWrite W WU_true)
    (AppendResponse_encode E) (AppendResponse_ok payload)"
  unfolding AppendResponse_internalBinaryRead_def
proof (rule codecI)
  fix m
  assume ok: "AppendResponse_ok payload m"
  show "rt (AppendResponse_field R RU_true) (AppendResponse_internalBinaryWrite W WU_true m) (AppendResponse_encode E m)
      AppendResponse_create m"
    unfolding AppendResponse_internalBinaryWrite_def AppendResponse_encode_def
    by (rule rt_chain, (rule wire_intro AppendResponse_field_simps |
        use ok in \<open>simp add: AppendResponse_ok_def AppendResponse_create_def field_intros\<close>)+)
qed

lemma PrependRequest_codec [wire_intro]:
  "codec (PrependRequest_internalBinaryRead R RU_true) (PrependRequest_internalBinaryWrite W WU_true)
    (PrependRequest_encode E) (PrependRequest_ok payload)"
  unfolding PrependRequest_internalBinaryRead_def
proof (rule codecI)
  fix m
  assume ok: "PrependRequest_ok payload m"
  show "rt (PrependRequest_field R RU_true) (PrependRequest_internalBinaryWrite W WU_true m) (PrependRequest_encode E m)
      PrependRequest_create m"
    unfolding PrependRequest_internalBinaryWrite_def PrependRequest_encode_def
    by (rule rt_chain, (rule wire_intro PrependRequest_field_simps |
        use ok in \<open>simp add: PrependRequest_ok_def PrependRequest_create_def field_intros\<close>)+)
qed

lemma PrependResponse_codec [wire_intro]:
  "codec (PrependResponse_internalBinaryRead R RU_true) (PrependResponse_internalBinaryWrite W WU_true)
    (PrependResponse_encode E) (PrependResponse_ok payload)"
  unfolding PrependResponse_internalBinaryRead_def
proof (rule codecI)
  fix m
  assume ok: "PrependResponse_ok payload m"
  show "rt (PrependResponse_field R RU_true) (PrependResponse_internalBinaryWrite W WU_true m) (PrependResponse_encode E m)
      PrependResponse_create m"
    unfolding PrependResponse_internalBinaryWrite_def PrependResponse_encode_def
    by (rule rt_chain, (rule wire_intro PrependResponse_field_simps |
        use ok in \<open>simp add: PrependResponse_ok_def PrependResponse_create_def field_intros\<close>)+)
qed

end


section \<open>Termination\<close>

context wire_progress
begin

lemma SetCacheRequest_returns [wire_total]: "reader_returns (SetCacheRequest_internalBinaryRead R u)"
  unfolding SetCacheRequest_internalBinaryRead_def SetCacheRequest_field_def by (intro wire_total)

lemma GetCacheRequest_returns [wire_total]: "reader_returns (GetCacheRequest_internalBinaryRead R u)"
  unfolding GetCacheRequest_internalBinaryRead_def GetCacheRequest_field_def by (intro wire_total)

lemma GetCacheResponse_returns [wire_total]: "reader_returns (GetCacheResponse_internalBinaryRead R u)"
  unfolding GetCacheResponse_internalBinaryRead_def GetCacheResponse_field_def by (intro wire_total)

lemma MGetCacheRequest_returns [wire_total]: "reader_returns (MGetCacheRequest_internalBinaryRead R u)"
  unfolding MGetCacheRequest_internalBinaryRead_def MGetCacheRequest_field_def by (intro wire_total)

lemma CacheItem_returns [wire_total]: "reader_returns (CacheItem_internalBinaryRead R u)"
  unfolding CacheItem_internalBinaryRead_def CacheItem_field_def by (intro wire_total)

lemma MGetCacheResponse_returns [wire_total]: "reader_returns (MGetCacheResponse_internalBinaryRead R u)"
  unfolding MGetCacheResponse_internalBinaryRead_def MGetCacheResponse_field_def by (intro wire_total)

lemma DeleteCacheRequest_returns [wire_total]: "reader_returns (DeleteCacheRequest_internalBinaryRead R u)"
  unfolding DeleteCacheRequest_internalBinaryRead_def DeleteCacheRequest_field_def by (intro wire_total)

lemma ExistsCacheRequest_returns [wire_total]: "reader_returns (ExistsCacheRequest_internalBinaryRead R u)"
  unfolding ExistsCacheRequest_internalBinaryRead_def ExistsCacheRequest_field_def by (intro wire_total)

lemma ExistsCacheResponse_returns [wire_total]: "reader_returns (ExistsCacheResponse_internalBinaryRead R u)"
  unfolding ExistsCacheResponse_internalBinaryRead_def ExistsCacheResponse_field_def by (intro wire_total)

lemma InvalidateNamespaceRequest_returns [wire_total]: "reader_returns (InvalidateNamespaceRequest_internalBinaryRead R u)"
  unfolding InvalidateNamespaceRequest_internalBinaryRead_def InvalidateNamespaceRequest_field_def by (intro wire_total)

lemma CacheStatsRequest_returns [wire_total]: "reader_returns (CacheStatsRequest_internalBinaryRead R u)"
  unfolding CacheStatsRequest_internalBinaryRead_def CacheStatsRequest_field_def by (intro wire_total)

lemma NamespaceUsage_returns [wire_total]: "reader_returns (NamespaceUsage_internalBinaryRead R u)"
  unfolding NamespaceUsage_internalBinaryRead_def NamespaceUsage_field_def by (intro wire_total)

lemma CacheStatsResponse_returns [wire_total]: "reader_returns (CacheStatsResponse_internalBinaryRead R u)"
  unfolding CacheStatsResponse_internalBinaryRead_def CacheStatsResponse_field_def by (intro wire_total)

lemma IncrementRequest_returns [wire_total]: "reader_returns (IncrementRequest_internalBinaryRead R u)"
  unfolding IncrementRequest_internalBinaryRead_def IncrementRequest_field_def by (intro wire_total)

lemma IncrementResponse_returns [wire_total]: "reader_returns (IncrementResponse_internalBinaryRead R u)"
  unfolding IncrementResponse_internalBinaryRead_def IncrementResponse_field_def by (intro wire_total)

lemma DecrementRequest_returns [wire_total]: "reader_returns (DecrementRequest_internalBinaryRead R u)"
  unfolding DecrementRequest_internalBinaryRead_def DecrementRequest_field_def by (intro wire_total)

lemma DecrementResponse_returns [wire_total]: "reader_returns (DecrementResponse_internalBinaryRead R u)"
  unfolding DecrementResponse_internalBinaryRead_def DecrementResponse_field_def by (intro wire_total)

lemma SetNXRequest_returns [wire_total]: "reader_returns (SetNXRequest_internalBinaryRead R u)"
  unfolding SetNXRequest_internalBinaryRead_def SetNXRequest_field_def by (intro wire_total)

lemma SetNXResponse_returns [wire_total]: "reader_returns (SetNXResponse_internalBinaryRead R u)"
  unfolding SetNXResponse_internalBinaryRead_def SetNXResponse_field_def by (intro wire_total)

lemma GetSetRequest_returns [wire_total]: "reader_returns (GetSetRequest_internalBinaryRead R u)"
  unfolding GetSetRequest_internalBinaryRead_def GetSetRequest_field_def by (intro wire_total)

lemma GetSetResponse_returns [wire_total]: "reader_returns (GetSetResponse_internalBinaryRead R u)"
  unfolding GetSetResponse_internalBinaryRead_def GetSetResponse_field_def by (intro wire_total)

lemma AppendRequest_returns [wire_total]: "reader_returns (AppendRequest_internalBinaryRead R u)"
  unfolding AppendRequest_internalBinaryRead_def AppendRequest_field_def by (intro wire_total)

lemma AppendResponse_returns [wire_total]: "reader_returns (AppendResponse_internalBinaryRead R u)"
  unfolding AppendResponse_internalBinaryRead_def AppendResponse_field_def by (intro wire_total)

lemma PrependRequest_returns [wire_total]: "reader_returns (PrependRequest_internalBinaryRead R u)"
  unfolding PrependRequest_internalBinaryRead_def PrependRequest_field_def by (intro wire_total)

lemma PrependResponse_returns [wire_total]: "reader_returns (PrependResponse_internalBinaryRead R u)"
  unfolding PrependResponse_internalBinaryRead_def PrependResponse_field_def by (intro wire_total)

end

end
