(* ===== verification/Mq_Messages.thy ===== *)
theory Mq_Messages
  imports Common_Messages
begin

text \<open>
  The message types of \<open>sdk/typescript/src/gen/pgapp/v1/mq.ts\<close>: the requests and responses of the message queue service.
  For every type: its interface as a record that extends the unknown-field carrier, \<open>create\<close>,
  the field switch of \<open>internalBinaryRead\<close> and the whole reader, and \<open>internalBinaryWrite\<close>
  statement by statement. \<open>_encode\<close> is the reference encoding, \<open>_ok\<close> says that the 32-bit and
  64-bit fields hold values of their width in canonical form and that unknown fields are well
  formed. The lemmas show, for every type, that writer and reader are a codec for the reference
  encoding and that the reader returns on every input.
\<close>

datatype QueueStorageMode = QueueStorageMode_UNSPECIFIED | QueueStorageMode_DURABLE | QueueStorageMode_TRANSIENT

definition QueueStorageMode_no :: "QueueStorageMode \<Rightarrow> js_number" where
  "QueueStorageMode_no x = (case x of QueueStorageMode_UNSPECIFIED \<Rightarrow> IntNum 0
     | QueueStorageMode_DURABLE \<Rightarrow> IntNum 1
     | QueueStorageMode_TRANSIENT \<Rightarrow> IntNum 2)"

subsection \<open>CreateQueueRequest\<close>

record CreateQueueRequest = message +
  CreateQueueRequest_queueName :: string
  CreateQueueRequest_storageMode :: js_number

definition CreateQueueRequest_create :: CreateQueueRequest where
  "CreateQueueRequest_create = \<lparr>unknownFields = [], CreateQueueRequest_queueName = [], CreateQueueRequest_storageMode = IntNum 0\<rparr>"

definition CreateQueueRequest_field ::
  "'r reader \<Rightarrow> read_unknown \<Rightarrow> nat \<Rightarrow> wire_type \<Rightarrow> CreateQueueRequest \<Rightarrow> 'r \<Rightarrow> (CreateQueueRequest \<times> 'r) comp" where
  "CreateQueueRequest_field R options fieldNo wireType message =
     (if fieldNo = 1 then setField (r_string R) (\<lambda>v m. m\<lparr>CreateQueueRequest_queueName := v\<rparr>) message
      else if fieldNo = 2 then setNumber (r_int32 R) (\<lambda>v m. m\<lparr>CreateQueueRequest_storageMode := v\<rparr>) message
      else readUnknown R options ''pgapp.v1.CreateQueueRequest'' fieldNo wireType message)"

definition CreateQueueRequest_internalBinaryRead ::
  "'r reader \<Rightarrow> read_unknown \<Rightarrow> 'r \<Rightarrow> nat \<Rightarrow> CreateQueueRequest option \<Rightarrow> (CreateQueueRequest \<times> 'r) comp" where
  "CreateQueueRequest_internalBinaryRead R options =
     readMessage R (CreateQueueRequest_field R options) CreateQueueRequest_create"

definition CreateQueueRequest_internalBinaryWrite ::
  "'w writer \<Rightarrow> 'w write_unknown \<Rightarrow> CreateQueueRequest \<Rightarrow> 'w \<Rightarrow> 'w result" where
  "CreateQueueRequest_internalBinaryWrite W options message = seqW
     [whenW (CreateQueueRequest_queueName message \<noteq> []) (tagString W 1 (CreateQueueRequest_queueName message)),
      whenW (CreateQueueRequest_storageMode message \<noteq> IntNum 0) (tagInt32 W 2 (CreateQueueRequest_storageMode message)),
      writeUnknown W options ''pgapp.v1.CreateQueueRequest'' message]"

definition CreateQueueRequest_encode :: "encoding \<Rightarrow> CreateQueueRequest \<Rightarrow> bytes" where
  "CreateQueueRequest_encode E message =
     encString E 1 (CreateQueueRequest_queueName message) @
     encInt32 E 2 (CreateQueueRequest_storageMode message) @
     encUnknown E message"

definition CreateQueueRequest_ok :: "(wire_type \<Rightarrow> bytes \<Rightarrow> bool) \<Rightarrow> CreateQueueRequest \<Rightarrow> bool" where
  "CreateQueueRequest_ok payload message \<longleftrightarrow>
     unknown_ok payload 2 message \<and>
     int32_ok (CreateQueueRequest_storageMode message)"

subsection \<open>PurgeQueueRequest\<close>

record PurgeQueueRequest = message +
  PurgeQueueRequest_queueName :: string

definition PurgeQueueRequest_create :: PurgeQueueRequest where
  "PurgeQueueRequest_create = \<lparr>unknownFields = [], PurgeQueueRequest_queueName = []\<rparr>"

definition PurgeQueueRequest_field ::
  "'r reader \<Rightarrow> read_unknown \<Rightarrow> nat \<Rightarrow> wire_type \<Rightarrow> PurgeQueueRequest \<Rightarrow> 'r \<Rightarrow> (PurgeQueueRequest \<times> 'r) comp" where
  "PurgeQueueRequest_field R options fieldNo wireType message =
     (if fieldNo = 1 then setField (r_string R) (\<lambda>v m. m\<lparr>PurgeQueueRequest_queueName := v\<rparr>) message
      else readUnknown R options ''pgapp.v1.PurgeQueueRequest'' fieldNo wireType message)"

definition PurgeQueueRequest_internalBinaryRead ::
  "'r reader \<Rightarrow> read_unknown \<Rightarrow> 'r \<Rightarrow> nat \<Rightarrow> PurgeQueueRequest option \<Rightarrow> (PurgeQueueRequest \<times> 'r) comp" where
  "PurgeQueueRequest_internalBinaryRead R options =
     readMessage R (PurgeQueueRequest_field R options) PurgeQueueRequest_create"

definition PurgeQueueRequest_internalBinaryWrite ::
  "'w writer \<Rightarrow> 'w write_unknown \<Rightarrow> PurgeQueueRequest \<Rightarrow> 'w \<Rightarrow> 'w result" where
  "PurgeQueueRequest_internalBinaryWrite W options message = seqW
     [whenW (PurgeQueueRequest_queueName message \<noteq> []) (tagString W 1 (PurgeQueueRequest_queueName message)),
      writeUnknown W options ''pgapp.v1.PurgeQueueRequest'' message]"

definition PurgeQueueRequest_encode :: "encoding \<Rightarrow> PurgeQueueRequest \<Rightarrow> bytes" where
  "PurgeQueueRequest_encode E message =
     encString E 1 (PurgeQueueRequest_queueName message) @
     encUnknown E message"

definition PurgeQueueRequest_ok :: "(wire_type \<Rightarrow> bytes \<Rightarrow> bool) \<Rightarrow> PurgeQueueRequest \<Rightarrow> bool" where
  "PurgeQueueRequest_ok payload message \<longleftrightarrow>
     unknown_ok payload 1 message"

subsection \<open>DropQueueRequest\<close>

record DropQueueRequest = message +
  DropQueueRequest_queueName :: string

definition DropQueueRequest_create :: DropQueueRequest where
  "DropQueueRequest_create = \<lparr>unknownFields = [], DropQueueRequest_queueName = []\<rparr>"

definition DropQueueRequest_field ::
  "'r reader \<Rightarrow> read_unknown \<Rightarrow> nat \<Rightarrow> wire_type \<Rightarrow> DropQueueRequest \<Rightarrow> 'r \<Rightarrow> (DropQueueRequest \<times> 'r) comp" where
  "DropQueueRequest_field R options fieldNo wireType message =
     (if fieldNo = 1 then setField (r_string R) (\<lambda>v m. m\<lparr>DropQueueRequest_queueName := v\<rparr>) message
      else readUnknown R options ''pgapp.v1.DropQueueRequest'' fieldNo wireType message)"

definition DropQueueRequest_internalBinaryRead ::
  "'r reader \<Rightarrow> read_unknown \<Rightarrow> 'r \<Rightarrow> nat \<Rightarrow> DropQueueRequest option \<Rightarrow> (DropQueueRequest \<times> 'r) comp" where
  "DropQueueRequest_internalBinaryRead R options =
     readMessage R (DropQueueRequest_field R options) DropQueueRequest_create"

definition DropQueueRequest_internalBinaryWrite ::
  "'w writer \<Rightarrow> 'w write_unknown \<Rightarrow> DropQueueRequest \<Rightarrow> 'w \<Rightarrow> 'w result" where
  "DropQueueRequest_internalBinaryWrite W options message = seqW
     [whenW (DropQueueRequest_queueName message \<noteq> []) (tagString W 1 (DropQueueRequest_queueName message)),
      writeUnknown W options ''pgapp.v1.DropQueueRequest'' message]"

definition DropQueueRequest_encode :: "encoding \<Rightarrow> DropQueueRequest \<Rightarrow> bytes" where
  "DropQueueRequest_encode E message =
     encString E 1 (DropQueueRequest_queueName message) @
     encUnknown E message"

definition DropQueueRequest_ok :: "(wire_type \<Rightarrow> bytes \<Rightarrow> bool) \<Rightarrow> DropQueueRequest \<Rightarrow> bool" where
  "DropQueueRequest_ok payload message \<longleftrightarrow>
     unknown_ok payload 1 message"

subsection \<open>SendMessageRequest\<close>

record SendMessageRequest = message +
  SendMessageRequest_queueName :: string
  SendMessageRequest_jsonPayload :: string
  SendMessageRequest_delaySeconds :: string

definition SendMessageRequest_create :: SendMessageRequest where
  "SendMessageRequest_create = \<lparr>unknownFields = [], SendMessageRequest_queueName = [], SendMessageRequest_jsonPayload = [], SendMessageRequest_delaySeconds = ''0''\<rparr>"

definition SendMessageRequest_field ::
  "'r reader \<Rightarrow> read_unknown \<Rightarrow> nat \<Rightarrow> wire_type \<Rightarrow> SendMessageRequest \<Rightarrow> 'r \<Rightarrow> (SendMessageRequest \<times> 'r) comp" where
  "SendMessageRequest_field R options fieldNo wireType message =
     (if fieldNo = 1 then setField (r_string R) (\<lambda>v m. m\<lparr>SendMessageRequest_queueName := v\<rparr>) message
      else if fieldNo = 2 then setField (r_string R) (\<lambda>v m. m\<lparr>SendMessageRequest_jsonPayload := v\<rparr>) message
      else if fieldNo = 3 then setLong (r_int64 R) (\<lambda>v m. m\<lparr>SendMessageRequest_delaySeconds := v\<rparr>) message
      else readUnknown R options ''pgapp.v1.SendMessageRequest'' fieldNo wireType message)"

definition SendMessageRequest_internalBinaryRead ::
  "'r reader \<Rightarrow> read_unknown \<Rightarrow> 'r \<Rightarrow> nat \<Rightarrow> SendMessageRequest option \<Rightarrow> (SendMessageRequest \<times> 'r) comp" where
  "SendMessageRequest_internalBinaryRead R options =
     readMessage R (SendMessageRequest_field R options) SendMessageRequest_create"

definition SendMessageRequest_internalBinaryWrite ::
  "'w writer \<Rightarrow> 'w write_unknown \<Rightarrow> SendMessageRequest \<Rightarrow> 'w \<Rightarrow> 'w result" where
  "SendMessageRequest_internalBinaryWrite W options message = seqW
     [whenW (SendMessageRequest_queueName message \<noteq> []) (tagString W 1 (SendMessageRequest_queueName message)),
      whenW (SendMessageRequest_jsonPayload message \<noteq> []) (tagString W 2 (SendMessageRequest_jsonPayload message)),
      whenW (SendMessageRequest_delaySeconds message \<noteq> ''0'') (tagInt64 W 3 (SendMessageRequest_delaySeconds message)),
      writeUnknown W options ''pgapp.v1.SendMessageRequest'' message]"

definition SendMessageRequest_encode :: "encoding \<Rightarrow> SendMessageRequest \<Rightarrow> bytes" where
  "SendMessageRequest_encode E message =
     encString E 1 (SendMessageRequest_queueName message) @
     encString E 2 (SendMessageRequest_jsonPayload message) @
     encInt64 E 3 (SendMessageRequest_delaySeconds message) @
     encUnknown E message"

definition SendMessageRequest_ok :: "(wire_type \<Rightarrow> bytes \<Rightarrow> bool) \<Rightarrow> SendMessageRequest \<Rightarrow> bool" where
  "SendMessageRequest_ok payload message \<longleftrightarrow>
     unknown_ok payload 3 message \<and>
     int64_ok (SendMessageRequest_delaySeconds message)"

subsection \<open>SendMessageResponse\<close>

record SendMessageResponse = message +
  SendMessageResponse_messageId :: string

definition SendMessageResponse_create :: SendMessageResponse where
  "SendMessageResponse_create = \<lparr>unknownFields = [], SendMessageResponse_messageId = ''0''\<rparr>"

definition SendMessageResponse_field ::
  "'r reader \<Rightarrow> read_unknown \<Rightarrow> nat \<Rightarrow> wire_type \<Rightarrow> SendMessageResponse \<Rightarrow> 'r \<Rightarrow> (SendMessageResponse \<times> 'r) comp" where
  "SendMessageResponse_field R options fieldNo wireType message =
     (if fieldNo = 1 then setLong (r_int64 R) (\<lambda>v m. m\<lparr>SendMessageResponse_messageId := v\<rparr>) message
      else readUnknown R options ''pgapp.v1.SendMessageResponse'' fieldNo wireType message)"

definition SendMessageResponse_internalBinaryRead ::
  "'r reader \<Rightarrow> read_unknown \<Rightarrow> 'r \<Rightarrow> nat \<Rightarrow> SendMessageResponse option \<Rightarrow> (SendMessageResponse \<times> 'r) comp" where
  "SendMessageResponse_internalBinaryRead R options =
     readMessage R (SendMessageResponse_field R options) SendMessageResponse_create"

definition SendMessageResponse_internalBinaryWrite ::
  "'w writer \<Rightarrow> 'w write_unknown \<Rightarrow> SendMessageResponse \<Rightarrow> 'w \<Rightarrow> 'w result" where
  "SendMessageResponse_internalBinaryWrite W options message = seqW
     [whenW (SendMessageResponse_messageId message \<noteq> ''0'') (tagInt64 W 1 (SendMessageResponse_messageId message)),
      writeUnknown W options ''pgapp.v1.SendMessageResponse'' message]"

definition SendMessageResponse_encode :: "encoding \<Rightarrow> SendMessageResponse \<Rightarrow> bytes" where
  "SendMessageResponse_encode E message =
     encInt64 E 1 (SendMessageResponse_messageId message) @
     encUnknown E message"

definition SendMessageResponse_ok :: "(wire_type \<Rightarrow> bytes \<Rightarrow> bool) \<Rightarrow> SendMessageResponse \<Rightarrow> bool" where
  "SendMessageResponse_ok payload message \<longleftrightarrow>
     unknown_ok payload 1 message \<and>
     int64_ok (SendMessageResponse_messageId message)"

subsection \<open>SendBatchRequest\<close>

record SendBatchRequest = message +
  SendBatchRequest_queueName :: string
  SendBatchRequest_jsonPayloads :: "string list"
  SendBatchRequest_delaySeconds :: string

definition SendBatchRequest_create :: SendBatchRequest where
  "SendBatchRequest_create = \<lparr>unknownFields = [], SendBatchRequest_queueName = [], SendBatchRequest_jsonPayloads = [], SendBatchRequest_delaySeconds = ''0''\<rparr>"

definition SendBatchRequest_field ::
  "'r reader \<Rightarrow> read_unknown \<Rightarrow> nat \<Rightarrow> wire_type \<Rightarrow> SendBatchRequest \<Rightarrow> 'r \<Rightarrow> (SendBatchRequest \<times> 'r) comp" where
  "SendBatchRequest_field R options fieldNo wireType message =
     (if fieldNo = 1 then setField (r_string R) (\<lambda>v m. m\<lparr>SendBatchRequest_queueName := v\<rparr>) message
      else if fieldNo = 2 then pushField (r_string R) SendBatchRequest_jsonPayloads_update message
      else if fieldNo = 3 then setLong (r_int64 R) (\<lambda>v m. m\<lparr>SendBatchRequest_delaySeconds := v\<rparr>) message
      else readUnknown R options ''pgapp.v1.SendBatchRequest'' fieldNo wireType message)"

definition SendBatchRequest_internalBinaryRead ::
  "'r reader \<Rightarrow> read_unknown \<Rightarrow> 'r \<Rightarrow> nat \<Rightarrow> SendBatchRequest option \<Rightarrow> (SendBatchRequest \<times> 'r) comp" where
  "SendBatchRequest_internalBinaryRead R options =
     readMessage R (SendBatchRequest_field R options) SendBatchRequest_create"

definition SendBatchRequest_internalBinaryWrite ::
  "'w writer \<Rightarrow> 'w write_unknown \<Rightarrow> SendBatchRequest \<Rightarrow> 'w \<Rightarrow> 'w result" where
  "SendBatchRequest_internalBinaryWrite W options message = seqW
     [whenW (SendBatchRequest_queueName message \<noteq> []) (tagString W 1 (SendBatchRequest_queueName message)),
      forW (tagString W 2) (SendBatchRequest_jsonPayloads message),
      whenW (SendBatchRequest_delaySeconds message \<noteq> ''0'') (tagInt64 W 3 (SendBatchRequest_delaySeconds message)),
      writeUnknown W options ''pgapp.v1.SendBatchRequest'' message]"

definition SendBatchRequest_encode :: "encoding \<Rightarrow> SendBatchRequest \<Rightarrow> bytes" where
  "SendBatchRequest_encode E message =
     encString E 1 (SendBatchRequest_queueName message) @
     encRepeated (\<lambda>v. e_tag E 2 LengthDelimited @ e_string E v) (SendBatchRequest_jsonPayloads message) @
     encInt64 E 3 (SendBatchRequest_delaySeconds message) @
     encUnknown E message"

definition SendBatchRequest_ok :: "(wire_type \<Rightarrow> bytes \<Rightarrow> bool) \<Rightarrow> SendBatchRequest \<Rightarrow> bool" where
  "SendBatchRequest_ok payload message \<longleftrightarrow>
     unknown_ok payload 3 message \<and>
     int64_ok (SendBatchRequest_delaySeconds message)"

subsection \<open>SendBatchResponse\<close>

record SendBatchResponse = message +
  SendBatchResponse_messageIds :: "string list"

definition SendBatchResponse_create :: SendBatchResponse where
  "SendBatchResponse_create = \<lparr>unknownFields = [], SendBatchResponse_messageIds = []\<rparr>"

definition SendBatchResponse_field ::
  "'r reader \<Rightarrow> read_unknown \<Rightarrow> nat \<Rightarrow> wire_type \<Rightarrow> SendBatchResponse \<Rightarrow> 'r \<Rightarrow> (SendBatchResponse \<times> 'r) comp" where
  "SendBatchResponse_field R options fieldNo wireType message =
     (if fieldNo = 1 then readPacked R (pushLong (r_int64 R) SendBatchResponse_messageIds_update) wireType message
      else readUnknown R options ''pgapp.v1.SendBatchResponse'' fieldNo wireType message)"

definition SendBatchResponse_internalBinaryRead ::
  "'r reader \<Rightarrow> read_unknown \<Rightarrow> 'r \<Rightarrow> nat \<Rightarrow> SendBatchResponse option \<Rightarrow> (SendBatchResponse \<times> 'r) comp" where
  "SendBatchResponse_internalBinaryRead R options =
     readMessage R (SendBatchResponse_field R options) SendBatchResponse_create"

definition SendBatchResponse_internalBinaryWrite ::
  "'w writer \<Rightarrow> 'w write_unknown \<Rightarrow> SendBatchResponse \<Rightarrow> 'w \<Rightarrow> 'w result" where
  "SendBatchResponse_internalBinaryWrite W options message = seqW
     [tagPackedInt64 W 1 (SendBatchResponse_messageIds message),
      writeUnknown W options ''pgapp.v1.SendBatchResponse'' message]"

definition SendBatchResponse_encode :: "encoding \<Rightarrow> SendBatchResponse \<Rightarrow> bytes" where
  "SendBatchResponse_encode E message =
     encPackedInt64 E 1 (SendBatchResponse_messageIds message) @
     encUnknown E message"

definition SendBatchResponse_ok :: "(wire_type \<Rightarrow> bytes \<Rightarrow> bool) \<Rightarrow> SendBatchResponse \<Rightarrow> bool" where
  "SendBatchResponse_ok payload message \<longleftrightarrow>
     unknown_ok payload 1 message \<and>
     list_all int64_ok (SendBatchResponse_messageIds message)"

subsection \<open>ReadMessagesRequest\<close>

record ReadMessagesRequest = message +
  ReadMessagesRequest_queueName :: string
  ReadMessagesRequest_quantity :: js_number
  ReadMessagesRequest_visibilityTimeoutSeconds :: string

definition ReadMessagesRequest_create :: ReadMessagesRequest where
  "ReadMessagesRequest_create = \<lparr>unknownFields = [], ReadMessagesRequest_queueName = [], ReadMessagesRequest_quantity = IntNum 0, ReadMessagesRequest_visibilityTimeoutSeconds = ''0''\<rparr>"

definition ReadMessagesRequest_field ::
  "'r reader \<Rightarrow> read_unknown \<Rightarrow> nat \<Rightarrow> wire_type \<Rightarrow> ReadMessagesRequest \<Rightarrow> 'r \<Rightarrow> (ReadMessagesRequest \<times> 'r) comp" where
  "ReadMessagesRequest_field R options fieldNo wireType message =
     (if fieldNo = 1 then setField (r_string R) (\<lambda>v m. m\<lparr>ReadMessagesRequest_queueName := v\<rparr>) message
      else if fieldNo = 2 then setNumber (r_int32 R) (\<lambda>v m. m\<lparr>ReadMessagesRequest_quantity := v\<rparr>) message
      else if fieldNo = 3 then setLong (r_int64 R) (\<lambda>v m. m\<lparr>ReadMessagesRequest_visibilityTimeoutSeconds := v\<rparr>) message
      else readUnknown R options ''pgapp.v1.ReadMessagesRequest'' fieldNo wireType message)"

definition ReadMessagesRequest_internalBinaryRead ::
  "'r reader \<Rightarrow> read_unknown \<Rightarrow> 'r \<Rightarrow> nat \<Rightarrow> ReadMessagesRequest option \<Rightarrow> (ReadMessagesRequest \<times> 'r) comp" where
  "ReadMessagesRequest_internalBinaryRead R options =
     readMessage R (ReadMessagesRequest_field R options) ReadMessagesRequest_create"

definition ReadMessagesRequest_internalBinaryWrite ::
  "'w writer \<Rightarrow> 'w write_unknown \<Rightarrow> ReadMessagesRequest \<Rightarrow> 'w \<Rightarrow> 'w result" where
  "ReadMessagesRequest_internalBinaryWrite W options message = seqW
     [whenW (ReadMessagesRequest_queueName message \<noteq> []) (tagString W 1 (ReadMessagesRequest_queueName message)),
      whenW (ReadMessagesRequest_quantity message \<noteq> IntNum 0) (tagInt32 W 2 (ReadMessagesRequest_quantity message)),
      whenW (ReadMessagesRequest_visibilityTimeoutSeconds message \<noteq> ''0'') (tagInt64 W 3 (ReadMessagesRequest_visibilityTimeoutSeconds message)),
      writeUnknown W options ''pgapp.v1.ReadMessagesRequest'' message]"

definition ReadMessagesRequest_encode :: "encoding \<Rightarrow> ReadMessagesRequest \<Rightarrow> bytes" where
  "ReadMessagesRequest_encode E message =
     encString E 1 (ReadMessagesRequest_queueName message) @
     encInt32 E 2 (ReadMessagesRequest_quantity message) @
     encInt64 E 3 (ReadMessagesRequest_visibilityTimeoutSeconds message) @
     encUnknown E message"

definition ReadMessagesRequest_ok :: "(wire_type \<Rightarrow> bytes \<Rightarrow> bool) \<Rightarrow> ReadMessagesRequest \<Rightarrow> bool" where
  "ReadMessagesRequest_ok payload message \<longleftrightarrow>
     unknown_ok payload 3 message \<and>
     int32_ok (ReadMessagesRequest_quantity message) \<and>
     int64_ok (ReadMessagesRequest_visibilityTimeoutSeconds message)"

subsection \<open>ReadWithPollRequest\<close>

record ReadWithPollRequest = message +
  ReadWithPollRequest_queueName :: string
  ReadWithPollRequest_quantity :: js_number
  ReadWithPollRequest_visibilityTimeoutSeconds :: string
  ReadWithPollRequest_maxPollSeconds :: string
  ReadWithPollRequest_pollIntervalMillis :: string

definition ReadWithPollRequest_create :: ReadWithPollRequest where
  "ReadWithPollRequest_create = \<lparr>unknownFields = [],
     ReadWithPollRequest_queueName = [],
     ReadWithPollRequest_quantity = IntNum 0,
     ReadWithPollRequest_visibilityTimeoutSeconds = ''0'',
     ReadWithPollRequest_maxPollSeconds = ''0'',
     ReadWithPollRequest_pollIntervalMillis = ''0''\<rparr>"

definition ReadWithPollRequest_field ::
  "'r reader \<Rightarrow> read_unknown \<Rightarrow> nat \<Rightarrow> wire_type \<Rightarrow> ReadWithPollRequest \<Rightarrow> 'r \<Rightarrow> (ReadWithPollRequest \<times> 'r) comp" where
  "ReadWithPollRequest_field R options fieldNo wireType message =
     (if fieldNo = 1 then setField (r_string R) (\<lambda>v m. m\<lparr>ReadWithPollRequest_queueName := v\<rparr>) message
      else if fieldNo = 2 then setNumber (r_int32 R) (\<lambda>v m. m\<lparr>ReadWithPollRequest_quantity := v\<rparr>) message
      else if fieldNo = 3 then setLong (r_int64 R) (\<lambda>v m. m\<lparr>ReadWithPollRequest_visibilityTimeoutSeconds := v\<rparr>) message
      else if fieldNo = 4 then setLong (r_int64 R) (\<lambda>v m. m\<lparr>ReadWithPollRequest_maxPollSeconds := v\<rparr>) message
      else if fieldNo = 5 then setLong (r_int64 R) (\<lambda>v m. m\<lparr>ReadWithPollRequest_pollIntervalMillis := v\<rparr>) message
      else readUnknown R options ''pgapp.v1.ReadWithPollRequest'' fieldNo wireType message)"

definition ReadWithPollRequest_internalBinaryRead ::
  "'r reader \<Rightarrow> read_unknown \<Rightarrow> 'r \<Rightarrow> nat \<Rightarrow> ReadWithPollRequest option \<Rightarrow> (ReadWithPollRequest \<times> 'r) comp" where
  "ReadWithPollRequest_internalBinaryRead R options =
     readMessage R (ReadWithPollRequest_field R options) ReadWithPollRequest_create"

definition ReadWithPollRequest_internalBinaryWrite ::
  "'w writer \<Rightarrow> 'w write_unknown \<Rightarrow> ReadWithPollRequest \<Rightarrow> 'w \<Rightarrow> 'w result" where
  "ReadWithPollRequest_internalBinaryWrite W options message = seqW
     [whenW (ReadWithPollRequest_queueName message \<noteq> []) (tagString W 1 (ReadWithPollRequest_queueName message)),
      whenW (ReadWithPollRequest_quantity message \<noteq> IntNum 0) (tagInt32 W 2 (ReadWithPollRequest_quantity message)),
      whenW (ReadWithPollRequest_visibilityTimeoutSeconds message \<noteq> ''0'') (tagInt64 W 3 (ReadWithPollRequest_visibilityTimeoutSeconds message)),
      whenW (ReadWithPollRequest_maxPollSeconds message \<noteq> ''0'') (tagInt64 W 4 (ReadWithPollRequest_maxPollSeconds message)),
      whenW (ReadWithPollRequest_pollIntervalMillis message \<noteq> ''0'') (tagInt64 W 5 (ReadWithPollRequest_pollIntervalMillis message)),
      writeUnknown W options ''pgapp.v1.ReadWithPollRequest'' message]"

definition ReadWithPollRequest_encode :: "encoding \<Rightarrow> ReadWithPollRequest \<Rightarrow> bytes" where
  "ReadWithPollRequest_encode E message =
     encString E 1 (ReadWithPollRequest_queueName message) @
     encInt32 E 2 (ReadWithPollRequest_quantity message) @
     encInt64 E 3 (ReadWithPollRequest_visibilityTimeoutSeconds message) @
     encInt64 E 4 (ReadWithPollRequest_maxPollSeconds message) @
     encInt64 E 5 (ReadWithPollRequest_pollIntervalMillis message) @
     encUnknown E message"

definition ReadWithPollRequest_ok :: "(wire_type \<Rightarrow> bytes \<Rightarrow> bool) \<Rightarrow> ReadWithPollRequest \<Rightarrow> bool" where
  "ReadWithPollRequest_ok payload message \<longleftrightarrow>
     unknown_ok payload 5 message \<and>
     int32_ok (ReadWithPollRequest_quantity message) \<and>
     int64_ok (ReadWithPollRequest_visibilityTimeoutSeconds message) \<and>
     int64_ok (ReadWithPollRequest_maxPollSeconds message) \<and>
     int64_ok (ReadWithPollRequest_pollIntervalMillis message)"

subsection \<open>StreamReadRequest\<close>

record StreamReadRequest = message +
  StreamReadRequest_queueName :: string
  StreamReadRequest_quantity :: js_number
  StreamReadRequest_visibilityTimeoutSeconds :: string

definition StreamReadRequest_create :: StreamReadRequest where
  "StreamReadRequest_create = \<lparr>unknownFields = [], StreamReadRequest_queueName = [], StreamReadRequest_quantity = IntNum 0, StreamReadRequest_visibilityTimeoutSeconds = ''0''\<rparr>"

definition StreamReadRequest_field ::
  "'r reader \<Rightarrow> read_unknown \<Rightarrow> nat \<Rightarrow> wire_type \<Rightarrow> StreamReadRequest \<Rightarrow> 'r \<Rightarrow> (StreamReadRequest \<times> 'r) comp" where
  "StreamReadRequest_field R options fieldNo wireType message =
     (if fieldNo = 1 then setField (r_string R) (\<lambda>v m. m\<lparr>StreamReadRequest_queueName := v\<rparr>) message
      else if fieldNo = 2 then setNumber (r_int32 R) (\<lambda>v m. m\<lparr>StreamReadRequest_quantity := v\<rparr>) message
      else if fieldNo = 3 then setLong (r_int64 R) (\<lambda>v m. m\<lparr>StreamReadRequest_visibilityTimeoutSeconds := v\<rparr>) message
      else readUnknown R options ''pgapp.v1.StreamReadRequest'' fieldNo wireType message)"

definition StreamReadRequest_internalBinaryRead ::
  "'r reader \<Rightarrow> read_unknown \<Rightarrow> 'r \<Rightarrow> nat \<Rightarrow> StreamReadRequest option \<Rightarrow> (StreamReadRequest \<times> 'r) comp" where
  "StreamReadRequest_internalBinaryRead R options =
     readMessage R (StreamReadRequest_field R options) StreamReadRequest_create"

definition StreamReadRequest_internalBinaryWrite ::
  "'w writer \<Rightarrow> 'w write_unknown \<Rightarrow> StreamReadRequest \<Rightarrow> 'w \<Rightarrow> 'w result" where
  "StreamReadRequest_internalBinaryWrite W options message = seqW
     [whenW (StreamReadRequest_queueName message \<noteq> []) (tagString W 1 (StreamReadRequest_queueName message)),
      whenW (StreamReadRequest_quantity message \<noteq> IntNum 0) (tagInt32 W 2 (StreamReadRequest_quantity message)),
      whenW (StreamReadRequest_visibilityTimeoutSeconds message \<noteq> ''0'') (tagInt64 W 3 (StreamReadRequest_visibilityTimeoutSeconds message)),
      writeUnknown W options ''pgapp.v1.StreamReadRequest'' message]"

definition StreamReadRequest_encode :: "encoding \<Rightarrow> StreamReadRequest \<Rightarrow> bytes" where
  "StreamReadRequest_encode E message =
     encString E 1 (StreamReadRequest_queueName message) @
     encInt32 E 2 (StreamReadRequest_quantity message) @
     encInt64 E 3 (StreamReadRequest_visibilityTimeoutSeconds message) @
     encUnknown E message"

definition StreamReadRequest_ok :: "(wire_type \<Rightarrow> bytes \<Rightarrow> bool) \<Rightarrow> StreamReadRequest \<Rightarrow> bool" where
  "StreamReadRequest_ok payload message \<longleftrightarrow>
     unknown_ok payload 3 message \<and>
     int32_ok (StreamReadRequest_quantity message) \<and>
     int64_ok (StreamReadRequest_visibilityTimeoutSeconds message)"

subsection \<open>QueueMessage\<close>

record QueueMessage = message +
  QueueMessage_messageId :: string
  QueueMessage_readCount :: js_number
  QueueMessage_enqueuedAt :: string
  QueueMessage_visibilityTimeoutAt :: string
  QueueMessage_jsonPayload :: string
  QueueMessage_ackToken :: string

definition QueueMessage_create :: QueueMessage where
  "QueueMessage_create = \<lparr>unknownFields = [],
     QueueMessage_messageId = ''0'',
     QueueMessage_readCount = IntNum 0,
     QueueMessage_enqueuedAt = [],
     QueueMessage_visibilityTimeoutAt = [],
     QueueMessage_jsonPayload = [],
     QueueMessage_ackToken = []\<rparr>"

definition QueueMessage_field ::
  "'r reader \<Rightarrow> read_unknown \<Rightarrow> nat \<Rightarrow> wire_type \<Rightarrow> QueueMessage \<Rightarrow> 'r \<Rightarrow> (QueueMessage \<times> 'r) comp" where
  "QueueMessage_field R options fieldNo wireType message =
     (if fieldNo = 1 then setLong (r_int64 R) (\<lambda>v m. m\<lparr>QueueMessage_messageId := v\<rparr>) message
      else if fieldNo = 2 then setNumber (r_int32 R) (\<lambda>v m. m\<lparr>QueueMessage_readCount := v\<rparr>) message
      else if fieldNo = 3 then setField (r_string R) (\<lambda>v m. m\<lparr>QueueMessage_enqueuedAt := v\<rparr>) message
      else if fieldNo = 4 then setField (r_string R) (\<lambda>v m. m\<lparr>QueueMessage_visibilityTimeoutAt := v\<rparr>) message
      else if fieldNo = 5 then setField (r_string R) (\<lambda>v m. m\<lparr>QueueMessage_jsonPayload := v\<rparr>) message
      else if fieldNo = 6 then setField (r_string R) (\<lambda>v m. m\<lparr>QueueMessage_ackToken := v\<rparr>) message
      else readUnknown R options ''pgapp.v1.QueueMessage'' fieldNo wireType message)"

definition QueueMessage_internalBinaryRead ::
  "'r reader \<Rightarrow> read_unknown \<Rightarrow> 'r \<Rightarrow> nat \<Rightarrow> QueueMessage option \<Rightarrow> (QueueMessage \<times> 'r) comp" where
  "QueueMessage_internalBinaryRead R options =
     readMessage R (QueueMessage_field R options) QueueMessage_create"

definition QueueMessage_internalBinaryWrite ::
  "'w writer \<Rightarrow> 'w write_unknown \<Rightarrow> QueueMessage \<Rightarrow> 'w \<Rightarrow> 'w result" where
  "QueueMessage_internalBinaryWrite W options message = seqW
     [whenW (QueueMessage_messageId message \<noteq> ''0'') (tagInt64 W 1 (QueueMessage_messageId message)),
      whenW (QueueMessage_readCount message \<noteq> IntNum 0) (tagInt32 W 2 (QueueMessage_readCount message)),
      whenW (QueueMessage_enqueuedAt message \<noteq> []) (tagString W 3 (QueueMessage_enqueuedAt message)),
      whenW (QueueMessage_visibilityTimeoutAt message \<noteq> []) (tagString W 4 (QueueMessage_visibilityTimeoutAt message)),
      whenW (QueueMessage_jsonPayload message \<noteq> []) (tagString W 5 (QueueMessage_jsonPayload message)),
      whenW (QueueMessage_ackToken message \<noteq> []) (tagString W 6 (QueueMessage_ackToken message)),
      writeUnknown W options ''pgapp.v1.QueueMessage'' message]"

definition QueueMessage_encode :: "encoding \<Rightarrow> QueueMessage \<Rightarrow> bytes" where
  "QueueMessage_encode E message =
     encInt64 E 1 (QueueMessage_messageId message) @
     encInt32 E 2 (QueueMessage_readCount message) @
     encString E 3 (QueueMessage_enqueuedAt message) @
     encString E 4 (QueueMessage_visibilityTimeoutAt message) @
     encString E 5 (QueueMessage_jsonPayload message) @
     encString E 6 (QueueMessage_ackToken message) @
     encUnknown E message"

definition QueueMessage_ok :: "(wire_type \<Rightarrow> bytes \<Rightarrow> bool) \<Rightarrow> QueueMessage \<Rightarrow> bool" where
  "QueueMessage_ok payload message \<longleftrightarrow>
     unknown_ok payload 6 message \<and>
     int64_ok (QueueMessage_messageId message) \<and>
     int32_ok (QueueMessage_readCount message)"

subsection \<open>ReadMessagesResponse\<close>

record ReadMessagesResponse = message +
  ReadMessagesResponse_messages :: "QueueMessage list"

definition ReadMessagesResponse_create :: ReadMessagesResponse where
  "ReadMessagesResponse_create = \<lparr>unknownFields = [], ReadMessagesResponse_messages = []\<rparr>"

definition ReadMessagesResponse_field ::
  "'r reader \<Rightarrow> read_unknown \<Rightarrow> nat \<Rightarrow> wire_type \<Rightarrow> ReadMessagesResponse \<Rightarrow> 'r \<Rightarrow> (ReadMessagesResponse \<times> 'r) comp" where
  "ReadMessagesResponse_field R options fieldNo wireType message =
     (if fieldNo = 1 then pushMessage R (QueueMessage_internalBinaryRead R options) ReadMessagesResponse_messages_update message
      else readUnknown R options ''pgapp.v1.ReadMessagesResponse'' fieldNo wireType message)"

definition ReadMessagesResponse_internalBinaryRead ::
  "'r reader \<Rightarrow> read_unknown \<Rightarrow> 'r \<Rightarrow> nat \<Rightarrow> ReadMessagesResponse option \<Rightarrow> (ReadMessagesResponse \<times> 'r) comp" where
  "ReadMessagesResponse_internalBinaryRead R options =
     readMessage R (ReadMessagesResponse_field R options) ReadMessagesResponse_create"

definition ReadMessagesResponse_internalBinaryWrite ::
  "'w writer \<Rightarrow> 'w write_unknown \<Rightarrow> ReadMessagesResponse \<Rightarrow> 'w \<Rightarrow> 'w result" where
  "ReadMessagesResponse_internalBinaryWrite W options message = seqW
     [forW (\<lambda>v. tagMessage W 1 (QueueMessage_internalBinaryWrite W options v)) (ReadMessagesResponse_messages message),
      writeUnknown W options ''pgapp.v1.ReadMessagesResponse'' message]"

definition ReadMessagesResponse_encode :: "encoding \<Rightarrow> ReadMessagesResponse \<Rightarrow> bytes" where
  "ReadMessagesResponse_encode E message =
     encRepeated (\<lambda>v. encMessage E 1 (QueueMessage_encode E v)) (ReadMessagesResponse_messages message) @
     encUnknown E message"

definition ReadMessagesResponse_ok :: "(wire_type \<Rightarrow> bytes \<Rightarrow> bool) \<Rightarrow> ReadMessagesResponse \<Rightarrow> bool" where
  "ReadMessagesResponse_ok payload message \<longleftrightarrow>
     unknown_ok payload 1 message \<and>
     list_all (QueueMessage_ok payload) (ReadMessagesResponse_messages message)"

subsection \<open>AckMessageRequest\<close>

record AckMessageRequest = message +
  AckMessageRequest_queueName :: string
  AckMessageRequest_messageId :: string
  AckMessageRequest_ackToken :: string

definition AckMessageRequest_create :: AckMessageRequest where
  "AckMessageRequest_create = \<lparr>unknownFields = [], AckMessageRequest_queueName = [], AckMessageRequest_messageId = ''0'', AckMessageRequest_ackToken = []\<rparr>"

definition AckMessageRequest_field ::
  "'r reader \<Rightarrow> read_unknown \<Rightarrow> nat \<Rightarrow> wire_type \<Rightarrow> AckMessageRequest \<Rightarrow> 'r \<Rightarrow> (AckMessageRequest \<times> 'r) comp" where
  "AckMessageRequest_field R options fieldNo wireType message =
     (if fieldNo = 1 then setField (r_string R) (\<lambda>v m. m\<lparr>AckMessageRequest_queueName := v\<rparr>) message
      else if fieldNo = 2 then setLong (r_int64 R) (\<lambda>v m. m\<lparr>AckMessageRequest_messageId := v\<rparr>) message
      else if fieldNo = 3 then setField (r_string R) (\<lambda>v m. m\<lparr>AckMessageRequest_ackToken := v\<rparr>) message
      else readUnknown R options ''pgapp.v1.AckMessageRequest'' fieldNo wireType message)"

definition AckMessageRequest_internalBinaryRead ::
  "'r reader \<Rightarrow> read_unknown \<Rightarrow> 'r \<Rightarrow> nat \<Rightarrow> AckMessageRequest option \<Rightarrow> (AckMessageRequest \<times> 'r) comp" where
  "AckMessageRequest_internalBinaryRead R options =
     readMessage R (AckMessageRequest_field R options) AckMessageRequest_create"

definition AckMessageRequest_internalBinaryWrite ::
  "'w writer \<Rightarrow> 'w write_unknown \<Rightarrow> AckMessageRequest \<Rightarrow> 'w \<Rightarrow> 'w result" where
  "AckMessageRequest_internalBinaryWrite W options message = seqW
     [whenW (AckMessageRequest_queueName message \<noteq> []) (tagString W 1 (AckMessageRequest_queueName message)),
      whenW (AckMessageRequest_messageId message \<noteq> ''0'') (tagInt64 W 2 (AckMessageRequest_messageId message)),
      whenW (AckMessageRequest_ackToken message \<noteq> []) (tagString W 3 (AckMessageRequest_ackToken message)),
      writeUnknown W options ''pgapp.v1.AckMessageRequest'' message]"

definition AckMessageRequest_encode :: "encoding \<Rightarrow> AckMessageRequest \<Rightarrow> bytes" where
  "AckMessageRequest_encode E message =
     encString E 1 (AckMessageRequest_queueName message) @
     encInt64 E 2 (AckMessageRequest_messageId message) @
     encString E 3 (AckMessageRequest_ackToken message) @
     encUnknown E message"

definition AckMessageRequest_ok :: "(wire_type \<Rightarrow> bytes \<Rightarrow> bool) \<Rightarrow> AckMessageRequest \<Rightarrow> bool" where
  "AckMessageRequest_ok payload message \<longleftrightarrow>
     unknown_ok payload 3 message \<and>
     int64_ok (AckMessageRequest_messageId message)"

subsection \<open>ArchiveMessageRequest\<close>

record ArchiveMessageRequest = message +
  ArchiveMessageRequest_queueName :: string
  ArchiveMessageRequest_messageId :: string
  ArchiveMessageRequest_ackToken :: string

definition ArchiveMessageRequest_create :: ArchiveMessageRequest where
  "ArchiveMessageRequest_create = \<lparr>unknownFields = [], ArchiveMessageRequest_queueName = [], ArchiveMessageRequest_messageId = ''0'', ArchiveMessageRequest_ackToken = []\<rparr>"

definition ArchiveMessageRequest_field ::
  "'r reader \<Rightarrow> read_unknown \<Rightarrow> nat \<Rightarrow> wire_type \<Rightarrow> ArchiveMessageRequest \<Rightarrow> 'r \<Rightarrow> (ArchiveMessageRequest \<times> 'r) comp" where
  "ArchiveMessageRequest_field R options fieldNo wireType message =
     (if fieldNo = 1 then setField (r_string R) (\<lambda>v m. m\<lparr>ArchiveMessageRequest_queueName := v\<rparr>) message
      else if fieldNo = 2 then setLong (r_int64 R) (\<lambda>v m. m\<lparr>ArchiveMessageRequest_messageId := v\<rparr>) message
      else if fieldNo = 3 then setField (r_string R) (\<lambda>v m. m\<lparr>ArchiveMessageRequest_ackToken := v\<rparr>) message
      else readUnknown R options ''pgapp.v1.ArchiveMessageRequest'' fieldNo wireType message)"

definition ArchiveMessageRequest_internalBinaryRead ::
  "'r reader \<Rightarrow> read_unknown \<Rightarrow> 'r \<Rightarrow> nat \<Rightarrow> ArchiveMessageRequest option \<Rightarrow> (ArchiveMessageRequest \<times> 'r) comp" where
  "ArchiveMessageRequest_internalBinaryRead R options =
     readMessage R (ArchiveMessageRequest_field R options) ArchiveMessageRequest_create"

definition ArchiveMessageRequest_internalBinaryWrite ::
  "'w writer \<Rightarrow> 'w write_unknown \<Rightarrow> ArchiveMessageRequest \<Rightarrow> 'w \<Rightarrow> 'w result" where
  "ArchiveMessageRequest_internalBinaryWrite W options message = seqW
     [whenW (ArchiveMessageRequest_queueName message \<noteq> []) (tagString W 1 (ArchiveMessageRequest_queueName message)),
      whenW (ArchiveMessageRequest_messageId message \<noteq> ''0'') (tagInt64 W 2 (ArchiveMessageRequest_messageId message)),
      whenW (ArchiveMessageRequest_ackToken message \<noteq> []) (tagString W 3 (ArchiveMessageRequest_ackToken message)),
      writeUnknown W options ''pgapp.v1.ArchiveMessageRequest'' message]"

definition ArchiveMessageRequest_encode :: "encoding \<Rightarrow> ArchiveMessageRequest \<Rightarrow> bytes" where
  "ArchiveMessageRequest_encode E message =
     encString E 1 (ArchiveMessageRequest_queueName message) @
     encInt64 E 2 (ArchiveMessageRequest_messageId message) @
     encString E 3 (ArchiveMessageRequest_ackToken message) @
     encUnknown E message"

definition ArchiveMessageRequest_ok :: "(wire_type \<Rightarrow> bytes \<Rightarrow> bool) \<Rightarrow> ArchiveMessageRequest \<Rightarrow> bool" where
  "ArchiveMessageRequest_ok payload message \<longleftrightarrow>
     unknown_ok payload 3 message \<and>
     int64_ok (ArchiveMessageRequest_messageId message)"

subsection \<open>SetVisibilityTimeoutRequest\<close>

record SetVisibilityTimeoutRequest = message +
  SetVisibilityTimeoutRequest_queueName :: string
  SetVisibilityTimeoutRequest_messageId :: string
  SetVisibilityTimeoutRequest_visibilityTimeoutSeconds :: string
  SetVisibilityTimeoutRequest_ackToken :: string

definition SetVisibilityTimeoutRequest_create :: SetVisibilityTimeoutRequest where
  "SetVisibilityTimeoutRequest_create = \<lparr>unknownFields = [],
     SetVisibilityTimeoutRequest_queueName = [],
     SetVisibilityTimeoutRequest_messageId = ''0'',
     SetVisibilityTimeoutRequest_visibilityTimeoutSeconds = ''0'',
     SetVisibilityTimeoutRequest_ackToken = []\<rparr>"

definition SetVisibilityTimeoutRequest_field ::
  "'r reader \<Rightarrow> read_unknown \<Rightarrow> nat \<Rightarrow> wire_type \<Rightarrow> SetVisibilityTimeoutRequest \<Rightarrow> 'r \<Rightarrow> (SetVisibilityTimeoutRequest \<times> 'r) comp" where
  "SetVisibilityTimeoutRequest_field R options fieldNo wireType message =
     (if fieldNo = 1 then setField (r_string R) (\<lambda>v m. m\<lparr>SetVisibilityTimeoutRequest_queueName := v\<rparr>) message
      else if fieldNo = 2 then setLong (r_int64 R) (\<lambda>v m. m\<lparr>SetVisibilityTimeoutRequest_messageId := v\<rparr>) message
      else if fieldNo = 3 then setLong (r_int64 R) (\<lambda>v m. m\<lparr>SetVisibilityTimeoutRequest_visibilityTimeoutSeconds := v\<rparr>) message
      else if fieldNo = 4 then setField (r_string R) (\<lambda>v m. m\<lparr>SetVisibilityTimeoutRequest_ackToken := v\<rparr>) message
      else readUnknown R options ''pgapp.v1.SetVisibilityTimeoutRequest'' fieldNo wireType message)"

definition SetVisibilityTimeoutRequest_internalBinaryRead ::
  "'r reader \<Rightarrow> read_unknown \<Rightarrow> 'r \<Rightarrow> nat \<Rightarrow> SetVisibilityTimeoutRequest option \<Rightarrow> (SetVisibilityTimeoutRequest \<times> 'r) comp" where
  "SetVisibilityTimeoutRequest_internalBinaryRead R options =
     readMessage R (SetVisibilityTimeoutRequest_field R options) SetVisibilityTimeoutRequest_create"

definition SetVisibilityTimeoutRequest_internalBinaryWrite ::
  "'w writer \<Rightarrow> 'w write_unknown \<Rightarrow> SetVisibilityTimeoutRequest \<Rightarrow> 'w \<Rightarrow> 'w result" where
  "SetVisibilityTimeoutRequest_internalBinaryWrite W options message = seqW
     [whenW (SetVisibilityTimeoutRequest_queueName message \<noteq> []) (tagString W 1 (SetVisibilityTimeoutRequest_queueName message)),
      whenW (SetVisibilityTimeoutRequest_messageId message \<noteq> ''0'') (tagInt64 W 2 (SetVisibilityTimeoutRequest_messageId message)),
      whenW (SetVisibilityTimeoutRequest_visibilityTimeoutSeconds message \<noteq> ''0'') (tagInt64 W 3 (SetVisibilityTimeoutRequest_visibilityTimeoutSeconds message)),
      whenW (SetVisibilityTimeoutRequest_ackToken message \<noteq> []) (tagString W 4 (SetVisibilityTimeoutRequest_ackToken message)),
      writeUnknown W options ''pgapp.v1.SetVisibilityTimeoutRequest'' message]"

definition SetVisibilityTimeoutRequest_encode :: "encoding \<Rightarrow> SetVisibilityTimeoutRequest \<Rightarrow> bytes" where
  "SetVisibilityTimeoutRequest_encode E message =
     encString E 1 (SetVisibilityTimeoutRequest_queueName message) @
     encInt64 E 2 (SetVisibilityTimeoutRequest_messageId message) @
     encInt64 E 3 (SetVisibilityTimeoutRequest_visibilityTimeoutSeconds message) @
     encString E 4 (SetVisibilityTimeoutRequest_ackToken message) @
     encUnknown E message"

definition SetVisibilityTimeoutRequest_ok :: "(wire_type \<Rightarrow> bytes \<Rightarrow> bool) \<Rightarrow> SetVisibilityTimeoutRequest \<Rightarrow> bool" where
  "SetVisibilityTimeoutRequest_ok payload message \<longleftrightarrow>
     unknown_ok payload 4 message \<and>
     int64_ok (SetVisibilityTimeoutRequest_messageId message) \<and>
     int64_ok (SetVisibilityTimeoutRequest_visibilityTimeoutSeconds message)"

subsection \<open>QueueMetricsRequest\<close>

record QueueMetricsRequest = message +
  QueueMetricsRequest_queueName :: string

definition QueueMetricsRequest_create :: QueueMetricsRequest where
  "QueueMetricsRequest_create = \<lparr>unknownFields = [], QueueMetricsRequest_queueName = []\<rparr>"

definition QueueMetricsRequest_field ::
  "'r reader \<Rightarrow> read_unknown \<Rightarrow> nat \<Rightarrow> wire_type \<Rightarrow> QueueMetricsRequest \<Rightarrow> 'r \<Rightarrow> (QueueMetricsRequest \<times> 'r) comp" where
  "QueueMetricsRequest_field R options fieldNo wireType message =
     (if fieldNo = 1 then setField (r_string R) (\<lambda>v m. m\<lparr>QueueMetricsRequest_queueName := v\<rparr>) message
      else readUnknown R options ''pgapp.v1.QueueMetricsRequest'' fieldNo wireType message)"

definition QueueMetricsRequest_internalBinaryRead ::
  "'r reader \<Rightarrow> read_unknown \<Rightarrow> 'r \<Rightarrow> nat \<Rightarrow> QueueMetricsRequest option \<Rightarrow> (QueueMetricsRequest \<times> 'r) comp" where
  "QueueMetricsRequest_internalBinaryRead R options =
     readMessage R (QueueMetricsRequest_field R options) QueueMetricsRequest_create"

definition QueueMetricsRequest_internalBinaryWrite ::
  "'w writer \<Rightarrow> 'w write_unknown \<Rightarrow> QueueMetricsRequest \<Rightarrow> 'w \<Rightarrow> 'w result" where
  "QueueMetricsRequest_internalBinaryWrite W options message = seqW
     [whenW (QueueMetricsRequest_queueName message \<noteq> []) (tagString W 1 (QueueMetricsRequest_queueName message)),
      writeUnknown W options ''pgapp.v1.QueueMetricsRequest'' message]"

definition QueueMetricsRequest_encode :: "encoding \<Rightarrow> QueueMetricsRequest \<Rightarrow> bytes" where
  "QueueMetricsRequest_encode E message =
     encString E 1 (QueueMetricsRequest_queueName message) @
     encUnknown E message"

definition QueueMetricsRequest_ok :: "(wire_type \<Rightarrow> bytes \<Rightarrow> bool) \<Rightarrow> QueueMetricsRequest \<Rightarrow> bool" where
  "QueueMetricsRequest_ok payload message \<longleftrightarrow>
     unknown_ok payload 1 message"

subsection \<open>QueueMetricsResponse\<close>

record QueueMetricsResponse = message +
  QueueMetricsResponse_visibleMessageCount :: string
  QueueMetricsResponse_inFlightMessageCount :: string
  QueueMetricsResponse_oldestVisibleMessageAgeSeconds :: string
  QueueMetricsResponse_archivedMessageCount :: string
  QueueMetricsResponse_dlqMessageCount :: string

definition QueueMetricsResponse_create :: QueueMetricsResponse where
  "QueueMetricsResponse_create = \<lparr>unknownFields = [],
     QueueMetricsResponse_visibleMessageCount = ''0'',
     QueueMetricsResponse_inFlightMessageCount = ''0'',
     QueueMetricsResponse_oldestVisibleMessageAgeSeconds = ''0'',
     QueueMetricsResponse_archivedMessageCount = ''0'',
     QueueMetricsResponse_dlqMessageCount = ''0''\<rparr>"

definition QueueMetricsResponse_field ::
  "'r reader \<Rightarrow> read_unknown \<Rightarrow> nat \<Rightarrow> wire_type \<Rightarrow> QueueMetricsResponse \<Rightarrow> 'r \<Rightarrow> (QueueMetricsResponse \<times> 'r) comp" where
  "QueueMetricsResponse_field R options fieldNo wireType message =
     (if fieldNo = 1 then setLong (r_int64 R) (\<lambda>v m. m\<lparr>QueueMetricsResponse_visibleMessageCount := v\<rparr>) message
      else if fieldNo = 2 then setLong (r_int64 R) (\<lambda>v m. m\<lparr>QueueMetricsResponse_inFlightMessageCount := v\<rparr>) message
      else if fieldNo = 3 then setLong (r_int64 R) (\<lambda>v m. m\<lparr>QueueMetricsResponse_oldestVisibleMessageAgeSeconds := v\<rparr>) message
      else if fieldNo = 4 then setLong (r_int64 R) (\<lambda>v m. m\<lparr>QueueMetricsResponse_archivedMessageCount := v\<rparr>) message
      else if fieldNo = 5 then setLong (r_int64 R) (\<lambda>v m. m\<lparr>QueueMetricsResponse_dlqMessageCount := v\<rparr>) message
      else readUnknown R options ''pgapp.v1.QueueMetricsResponse'' fieldNo wireType message)"

definition QueueMetricsResponse_internalBinaryRead ::
  "'r reader \<Rightarrow> read_unknown \<Rightarrow> 'r \<Rightarrow> nat \<Rightarrow> QueueMetricsResponse option \<Rightarrow> (QueueMetricsResponse \<times> 'r) comp" where
  "QueueMetricsResponse_internalBinaryRead R options =
     readMessage R (QueueMetricsResponse_field R options) QueueMetricsResponse_create"

definition QueueMetricsResponse_internalBinaryWrite ::
  "'w writer \<Rightarrow> 'w write_unknown \<Rightarrow> QueueMetricsResponse \<Rightarrow> 'w \<Rightarrow> 'w result" where
  "QueueMetricsResponse_internalBinaryWrite W options message = seqW
     [whenW (QueueMetricsResponse_visibleMessageCount message \<noteq> ''0'') (tagInt64 W 1 (QueueMetricsResponse_visibleMessageCount message)),
      whenW (QueueMetricsResponse_inFlightMessageCount message \<noteq> ''0'') (tagInt64 W 2 (QueueMetricsResponse_inFlightMessageCount message)),
      whenW (QueueMetricsResponse_oldestVisibleMessageAgeSeconds message \<noteq> ''0'') (tagInt64 W 3 (QueueMetricsResponse_oldestVisibleMessageAgeSeconds message)),
      whenW (QueueMetricsResponse_archivedMessageCount message \<noteq> ''0'') (tagInt64 W 4 (QueueMetricsResponse_archivedMessageCount message)),
      whenW (QueueMetricsResponse_dlqMessageCount message \<noteq> ''0'') (tagInt64 W 5 (QueueMetricsResponse_dlqMessageCount message)),
      writeUnknown W options ''pgapp.v1.QueueMetricsResponse'' message]"

definition QueueMetricsResponse_encode :: "encoding \<Rightarrow> QueueMetricsResponse \<Rightarrow> bytes" where
  "QueueMetricsResponse_encode E message =
     encInt64 E 1 (QueueMetricsResponse_visibleMessageCount message) @
     encInt64 E 2 (QueueMetricsResponse_inFlightMessageCount message) @
     encInt64 E 3 (QueueMetricsResponse_oldestVisibleMessageAgeSeconds message) @
     encInt64 E 4 (QueueMetricsResponse_archivedMessageCount message) @
     encInt64 E 5 (QueueMetricsResponse_dlqMessageCount message) @
     encUnknown E message"

definition QueueMetricsResponse_ok :: "(wire_type \<Rightarrow> bytes \<Rightarrow> bool) \<Rightarrow> QueueMetricsResponse \<Rightarrow> bool" where
  "QueueMetricsResponse_ok payload message \<longleftrightarrow>
     unknown_ok payload 5 message \<and>
     int64_ok (QueueMetricsResponse_visibleMessageCount message) \<and>
     int64_ok (QueueMetricsResponse_inFlightMessageCount message) \<and>
     int64_ok (QueueMetricsResponse_oldestVisibleMessageAgeSeconds message) \<and>
     int64_ok (QueueMetricsResponse_archivedMessageCount message) \<and>
     int64_ok (QueueMetricsResponse_dlqMessageCount message)"

subsection \<open>DlqMessage\<close>

record DlqMessage = message +
  DlqMessage_id :: string
  DlqMessage_originalMessageId :: string
  DlqMessage_readCount :: js_number
  DlqMessage_enqueuedAt :: string
  DlqMessage_deadLetteredAt :: string
  DlqMessage_jsonPayload :: string
  DlqMessage_reason :: string

definition DlqMessage_create :: DlqMessage where
  "DlqMessage_create = \<lparr>unknownFields = [],
     DlqMessage_id = ''0'',
     DlqMessage_originalMessageId = ''0'',
     DlqMessage_readCount = IntNum 0,
     DlqMessage_enqueuedAt = [],
     DlqMessage_deadLetteredAt = [],
     DlqMessage_jsonPayload = [],
     DlqMessage_reason = []\<rparr>"

definition DlqMessage_field ::
  "'r reader \<Rightarrow> read_unknown \<Rightarrow> nat \<Rightarrow> wire_type \<Rightarrow> DlqMessage \<Rightarrow> 'r \<Rightarrow> (DlqMessage \<times> 'r) comp" where
  "DlqMessage_field R options fieldNo wireType message =
     (if fieldNo = 1 then setLong (r_int64 R) (\<lambda>v m. m\<lparr>DlqMessage_id := v\<rparr>) message
      else if fieldNo = 2 then setLong (r_int64 R) (\<lambda>v m. m\<lparr>DlqMessage_originalMessageId := v\<rparr>) message
      else if fieldNo = 3 then setNumber (r_int32 R) (\<lambda>v m. m\<lparr>DlqMessage_readCount := v\<rparr>) message
      else if fieldNo = 4 then setField (r_string R) (\<lambda>v m. m\<lparr>DlqMessage_enqueuedAt := v\<rparr>) message
      else if fieldNo = 5 then setField (r_string R) (\<lambda>v m. m\<lparr>DlqMessage_deadLetteredAt := v\<rparr>) message
      else if fieldNo = 6 then setField (r_string R) (\<lambda>v m. m\<lparr>DlqMessage_jsonPayload := v\<rparr>) message
      else if fieldNo = 7 then setField (r_string R) (\<lambda>v m. m\<lparr>DlqMessage_reason := v\<rparr>) message
      else readUnknown R options ''pgapp.v1.DlqMessage'' fieldNo wireType message)"

definition DlqMessage_internalBinaryRead ::
  "'r reader \<Rightarrow> read_unknown \<Rightarrow> 'r \<Rightarrow> nat \<Rightarrow> DlqMessage option \<Rightarrow> (DlqMessage \<times> 'r) comp" where
  "DlqMessage_internalBinaryRead R options =
     readMessage R (DlqMessage_field R options) DlqMessage_create"

definition DlqMessage_internalBinaryWrite ::
  "'w writer \<Rightarrow> 'w write_unknown \<Rightarrow> DlqMessage \<Rightarrow> 'w \<Rightarrow> 'w result" where
  "DlqMessage_internalBinaryWrite W options message = seqW
     [whenW (DlqMessage_id message \<noteq> ''0'') (tagInt64 W 1 (DlqMessage_id message)),
      whenW (DlqMessage_originalMessageId message \<noteq> ''0'') (tagInt64 W 2 (DlqMessage_originalMessageId message)),
      whenW (DlqMessage_readCount message \<noteq> IntNum 0) (tagInt32 W 3 (DlqMessage_readCount message)),
      whenW (DlqMessage_enqueuedAt message \<noteq> []) (tagString W 4 (DlqMessage_enqueuedAt message)),
      whenW (DlqMessage_deadLetteredAt message \<noteq> []) (tagString W 5 (DlqMessage_deadLetteredAt message)),
      whenW (DlqMessage_jsonPayload message \<noteq> []) (tagString W 6 (DlqMessage_jsonPayload message)),
      whenW (DlqMessage_reason message \<noteq> []) (tagString W 7 (DlqMessage_reason message)),
      writeUnknown W options ''pgapp.v1.DlqMessage'' message]"

definition DlqMessage_encode :: "encoding \<Rightarrow> DlqMessage \<Rightarrow> bytes" where
  "DlqMessage_encode E message =
     encInt64 E 1 (DlqMessage_id message) @
     encInt64 E 2 (DlqMessage_originalMessageId message) @
     encInt32 E 3 (DlqMessage_readCount message) @
     encString E 4 (DlqMessage_enqueuedAt message) @
     encString E 5 (DlqMessage_deadLetteredAt message) @
     encString E 6 (DlqMessage_jsonPayload message) @
     encString E 7 (DlqMessage_reason message) @
     encUnknown E message"

definition DlqMessage_ok :: "(wire_type \<Rightarrow> bytes \<Rightarrow> bool) \<Rightarrow> DlqMessage \<Rightarrow> bool" where
  "DlqMessage_ok payload message \<longleftrightarrow>
     unknown_ok payload 7 message \<and>
     int64_ok (DlqMessage_id message) \<and>
     int64_ok (DlqMessage_originalMessageId message) \<and>
     int32_ok (DlqMessage_readCount message)"

subsection \<open>ListDlqMessagesRequest\<close>

record ListDlqMessagesRequest = message +
  ListDlqMessagesRequest_queueName :: string
  ListDlqMessagesRequest_limit :: js_number
  ListDlqMessagesRequest_offset :: string

definition ListDlqMessagesRequest_create :: ListDlqMessagesRequest where
  "ListDlqMessagesRequest_create = \<lparr>unknownFields = [], ListDlqMessagesRequest_queueName = [], ListDlqMessagesRequest_limit = IntNum 0, ListDlqMessagesRequest_offset = ''0''\<rparr>"

definition ListDlqMessagesRequest_field ::
  "'r reader \<Rightarrow> read_unknown \<Rightarrow> nat \<Rightarrow> wire_type \<Rightarrow> ListDlqMessagesRequest \<Rightarrow> 'r \<Rightarrow> (ListDlqMessagesRequest \<times> 'r) comp" where
  "ListDlqMessagesRequest_field R options fieldNo wireType message =
     (if fieldNo = 1 then setField (r_string R) (\<lambda>v m. m\<lparr>ListDlqMessagesRequest_queueName := v\<rparr>) message
      else if fieldNo = 2 then setNumber (r_int32 R) (\<lambda>v m. m\<lparr>ListDlqMessagesRequest_limit := v\<rparr>) message
      else if fieldNo = 3 then setLong (r_int64 R) (\<lambda>v m. m\<lparr>ListDlqMessagesRequest_offset := v\<rparr>) message
      else readUnknown R options ''pgapp.v1.ListDlqMessagesRequest'' fieldNo wireType message)"

definition ListDlqMessagesRequest_internalBinaryRead ::
  "'r reader \<Rightarrow> read_unknown \<Rightarrow> 'r \<Rightarrow> nat \<Rightarrow> ListDlqMessagesRequest option \<Rightarrow> (ListDlqMessagesRequest \<times> 'r) comp" where
  "ListDlqMessagesRequest_internalBinaryRead R options =
     readMessage R (ListDlqMessagesRequest_field R options) ListDlqMessagesRequest_create"

definition ListDlqMessagesRequest_internalBinaryWrite ::
  "'w writer \<Rightarrow> 'w write_unknown \<Rightarrow> ListDlqMessagesRequest \<Rightarrow> 'w \<Rightarrow> 'w result" where
  "ListDlqMessagesRequest_internalBinaryWrite W options message = seqW
     [whenW (ListDlqMessagesRequest_queueName message \<noteq> []) (tagString W 1 (ListDlqMessagesRequest_queueName message)),
      whenW (ListDlqMessagesRequest_limit message \<noteq> IntNum 0) (tagInt32 W 2 (ListDlqMessagesRequest_limit message)),
      whenW (ListDlqMessagesRequest_offset message \<noteq> ''0'') (tagInt64 W 3 (ListDlqMessagesRequest_offset message)),
      writeUnknown W options ''pgapp.v1.ListDlqMessagesRequest'' message]"

definition ListDlqMessagesRequest_encode :: "encoding \<Rightarrow> ListDlqMessagesRequest \<Rightarrow> bytes" where
  "ListDlqMessagesRequest_encode E message =
     encString E 1 (ListDlqMessagesRequest_queueName message) @
     encInt32 E 2 (ListDlqMessagesRequest_limit message) @
     encInt64 E 3 (ListDlqMessagesRequest_offset message) @
     encUnknown E message"

definition ListDlqMessagesRequest_ok :: "(wire_type \<Rightarrow> bytes \<Rightarrow> bool) \<Rightarrow> ListDlqMessagesRequest \<Rightarrow> bool" where
  "ListDlqMessagesRequest_ok payload message \<longleftrightarrow>
     unknown_ok payload 3 message \<and>
     int32_ok (ListDlqMessagesRequest_limit message) \<and>
     int64_ok (ListDlqMessagesRequest_offset message)"

subsection \<open>ListDlqMessagesResponse\<close>

record ListDlqMessagesResponse = message +
  ListDlqMessagesResponse_messages :: "DlqMessage list"
  ListDlqMessagesResponse_nextOffset :: string

definition ListDlqMessagesResponse_create :: ListDlqMessagesResponse where
  "ListDlqMessagesResponse_create = \<lparr>unknownFields = [], ListDlqMessagesResponse_messages = [], ListDlqMessagesResponse_nextOffset = ''0''\<rparr>"

definition ListDlqMessagesResponse_field ::
  "'r reader \<Rightarrow> read_unknown \<Rightarrow> nat \<Rightarrow> wire_type \<Rightarrow> ListDlqMessagesResponse \<Rightarrow> 'r \<Rightarrow> (ListDlqMessagesResponse \<times> 'r) comp" where
  "ListDlqMessagesResponse_field R options fieldNo wireType message =
     (if fieldNo = 1 then pushMessage R (DlqMessage_internalBinaryRead R options) ListDlqMessagesResponse_messages_update message
      else if fieldNo = 2 then setLong (r_int64 R) (\<lambda>v m. m\<lparr>ListDlqMessagesResponse_nextOffset := v\<rparr>) message
      else readUnknown R options ''pgapp.v1.ListDlqMessagesResponse'' fieldNo wireType message)"

definition ListDlqMessagesResponse_internalBinaryRead ::
  "'r reader \<Rightarrow> read_unknown \<Rightarrow> 'r \<Rightarrow> nat \<Rightarrow> ListDlqMessagesResponse option \<Rightarrow> (ListDlqMessagesResponse \<times> 'r) comp" where
  "ListDlqMessagesResponse_internalBinaryRead R options =
     readMessage R (ListDlqMessagesResponse_field R options) ListDlqMessagesResponse_create"

definition ListDlqMessagesResponse_internalBinaryWrite ::
  "'w writer \<Rightarrow> 'w write_unknown \<Rightarrow> ListDlqMessagesResponse \<Rightarrow> 'w \<Rightarrow> 'w result" where
  "ListDlqMessagesResponse_internalBinaryWrite W options message = seqW
     [forW (\<lambda>v. tagMessage W 1 (DlqMessage_internalBinaryWrite W options v)) (ListDlqMessagesResponse_messages message),
      whenW (ListDlqMessagesResponse_nextOffset message \<noteq> ''0'') (tagInt64 W 2 (ListDlqMessagesResponse_nextOffset message)),
      writeUnknown W options ''pgapp.v1.ListDlqMessagesResponse'' message]"

definition ListDlqMessagesResponse_encode :: "encoding \<Rightarrow> ListDlqMessagesResponse \<Rightarrow> bytes" where
  "ListDlqMessagesResponse_encode E message =
     encRepeated (\<lambda>v. encMessage E 1 (DlqMessage_encode E v)) (ListDlqMessagesResponse_messages message) @
     encInt64 E 2 (ListDlqMessagesResponse_nextOffset message) @
     encUnknown E message"

definition ListDlqMessagesResponse_ok :: "(wire_type \<Rightarrow> bytes \<Rightarrow> bool) \<Rightarrow> ListDlqMessagesResponse \<Rightarrow> bool" where
  "ListDlqMessagesResponse_ok payload message \<longleftrightarrow>
     unknown_ok payload 2 message \<and>
     list_all (DlqMessage_ok payload) (ListDlqMessagesResponse_messages message) \<and>
     int64_ok (ListDlqMessagesResponse_nextOffset message)"

subsection \<open>GetDlqMessageRequest\<close>

record GetDlqMessageRequest = message +
  GetDlqMessageRequest_queueName :: string
  GetDlqMessageRequest_originalMessageId :: string

definition GetDlqMessageRequest_create :: GetDlqMessageRequest where
  "GetDlqMessageRequest_create = \<lparr>unknownFields = [], GetDlqMessageRequest_queueName = [], GetDlqMessageRequest_originalMessageId = ''0''\<rparr>"

definition GetDlqMessageRequest_field ::
  "'r reader \<Rightarrow> read_unknown \<Rightarrow> nat \<Rightarrow> wire_type \<Rightarrow> GetDlqMessageRequest \<Rightarrow> 'r \<Rightarrow> (GetDlqMessageRequest \<times> 'r) comp" where
  "GetDlqMessageRequest_field R options fieldNo wireType message =
     (if fieldNo = 1 then setField (r_string R) (\<lambda>v m. m\<lparr>GetDlqMessageRequest_queueName := v\<rparr>) message
      else if fieldNo = 2 then setLong (r_int64 R) (\<lambda>v m. m\<lparr>GetDlqMessageRequest_originalMessageId := v\<rparr>) message
      else readUnknown R options ''pgapp.v1.GetDlqMessageRequest'' fieldNo wireType message)"

definition GetDlqMessageRequest_internalBinaryRead ::
  "'r reader \<Rightarrow> read_unknown \<Rightarrow> 'r \<Rightarrow> nat \<Rightarrow> GetDlqMessageRequest option \<Rightarrow> (GetDlqMessageRequest \<times> 'r) comp" where
  "GetDlqMessageRequest_internalBinaryRead R options =
     readMessage R (GetDlqMessageRequest_field R options) GetDlqMessageRequest_create"

definition GetDlqMessageRequest_internalBinaryWrite ::
  "'w writer \<Rightarrow> 'w write_unknown \<Rightarrow> GetDlqMessageRequest \<Rightarrow> 'w \<Rightarrow> 'w result" where
  "GetDlqMessageRequest_internalBinaryWrite W options message = seqW
     [whenW (GetDlqMessageRequest_queueName message \<noteq> []) (tagString W 1 (GetDlqMessageRequest_queueName message)),
      whenW (GetDlqMessageRequest_originalMessageId message \<noteq> ''0'') (tagInt64 W 2 (GetDlqMessageRequest_originalMessageId message)),
      writeUnknown W options ''pgapp.v1.GetDlqMessageRequest'' message]"

definition GetDlqMessageRequest_encode :: "encoding \<Rightarrow> GetDlqMessageRequest \<Rightarrow> bytes" where
  "GetDlqMessageRequest_encode E message =
     encString E 1 (GetDlqMessageRequest_queueName message) @
     encInt64 E 2 (GetDlqMessageRequest_originalMessageId message) @
     encUnknown E message"

definition GetDlqMessageRequest_ok :: "(wire_type \<Rightarrow> bytes \<Rightarrow> bool) \<Rightarrow> GetDlqMessageRequest \<Rightarrow> bool" where
  "GetDlqMessageRequest_ok payload message \<longleftrightarrow>
     unknown_ok payload 2 message \<and>
     int64_ok (GetDlqMessageRequest_originalMessageId message)"

subsection \<open>ReprocessDlqMessageRequest\<close>

record ReprocessDlqMessageRequest = message +
  ReprocessDlqMessageRequest_queueName :: string
  ReprocessDlqMessageRequest_originalMessageId :: string

definition ReprocessDlqMessageRequest_create :: ReprocessDlqMessageRequest where
  "ReprocessDlqMessageRequest_create = \<lparr>unknownFields = [], ReprocessDlqMessageRequest_queueName = [], ReprocessDlqMessageRequest_originalMessageId = ''0''\<rparr>"

definition ReprocessDlqMessageRequest_field ::
  "'r reader \<Rightarrow> read_unknown \<Rightarrow> nat \<Rightarrow> wire_type \<Rightarrow> ReprocessDlqMessageRequest \<Rightarrow> 'r \<Rightarrow> (ReprocessDlqMessageRequest \<times> 'r) comp" where
  "ReprocessDlqMessageRequest_field R options fieldNo wireType message =
     (if fieldNo = 1 then setField (r_string R) (\<lambda>v m. m\<lparr>ReprocessDlqMessageRequest_queueName := v\<rparr>) message
      else if fieldNo = 2 then setLong (r_int64 R) (\<lambda>v m. m\<lparr>ReprocessDlqMessageRequest_originalMessageId := v\<rparr>) message
      else readUnknown R options ''pgapp.v1.ReprocessDlqMessageRequest'' fieldNo wireType message)"

definition ReprocessDlqMessageRequest_internalBinaryRead ::
  "'r reader \<Rightarrow> read_unknown \<Rightarrow> 'r \<Rightarrow> nat \<Rightarrow> ReprocessDlqMessageRequest option \<Rightarrow> (ReprocessDlqMessageRequest \<times> 'r) comp" where
  "ReprocessDlqMessageRequest_internalBinaryRead R options =
     readMessage R (ReprocessDlqMessageRequest_field R options) ReprocessDlqMessageRequest_create"

definition ReprocessDlqMessageRequest_internalBinaryWrite ::
  "'w writer \<Rightarrow> 'w write_unknown \<Rightarrow> ReprocessDlqMessageRequest \<Rightarrow> 'w \<Rightarrow> 'w result" where
  "ReprocessDlqMessageRequest_internalBinaryWrite W options message = seqW
     [whenW (ReprocessDlqMessageRequest_queueName message \<noteq> []) (tagString W 1 (ReprocessDlqMessageRequest_queueName message)),
      whenW (ReprocessDlqMessageRequest_originalMessageId message \<noteq> ''0'') (tagInt64 W 2 (ReprocessDlqMessageRequest_originalMessageId message)),
      writeUnknown W options ''pgapp.v1.ReprocessDlqMessageRequest'' message]"

definition ReprocessDlqMessageRequest_encode :: "encoding \<Rightarrow> ReprocessDlqMessageRequest \<Rightarrow> bytes" where
  "ReprocessDlqMessageRequest_encode E message =
     encString E 1 (ReprocessDlqMessageRequest_queueName message) @
     encInt64 E 2 (ReprocessDlqMessageRequest_originalMessageId message) @
     encUnknown E message"

definition ReprocessDlqMessageRequest_ok :: "(wire_type \<Rightarrow> bytes \<Rightarrow> bool) \<Rightarrow> ReprocessDlqMessageRequest \<Rightarrow> bool" where
  "ReprocessDlqMessageRequest_ok payload message \<longleftrightarrow>
     unknown_ok payload 2 message \<and>
     int64_ok (ReprocessDlqMessageRequest_originalMessageId message)"

subsection \<open>PurgeDlqRequest\<close>

record PurgeDlqRequest = message +
  PurgeDlqRequest_queueName :: string

definition PurgeDlqRequest_create :: PurgeDlqRequest where
  "PurgeDlqRequest_create = \<lparr>unknownFields = [], PurgeDlqRequest_queueName = []\<rparr>"

definition PurgeDlqRequest_field ::
  "'r reader \<Rightarrow> read_unknown \<Rightarrow> nat \<Rightarrow> wire_type \<Rightarrow> PurgeDlqRequest \<Rightarrow> 'r \<Rightarrow> (PurgeDlqRequest \<times> 'r) comp" where
  "PurgeDlqRequest_field R options fieldNo wireType message =
     (if fieldNo = 1 then setField (r_string R) (\<lambda>v m. m\<lparr>PurgeDlqRequest_queueName := v\<rparr>) message
      else readUnknown R options ''pgapp.v1.PurgeDlqRequest'' fieldNo wireType message)"

definition PurgeDlqRequest_internalBinaryRead ::
  "'r reader \<Rightarrow> read_unknown \<Rightarrow> 'r \<Rightarrow> nat \<Rightarrow> PurgeDlqRequest option \<Rightarrow> (PurgeDlqRequest \<times> 'r) comp" where
  "PurgeDlqRequest_internalBinaryRead R options =
     readMessage R (PurgeDlqRequest_field R options) PurgeDlqRequest_create"

definition PurgeDlqRequest_internalBinaryWrite ::
  "'w writer \<Rightarrow> 'w write_unknown \<Rightarrow> PurgeDlqRequest \<Rightarrow> 'w \<Rightarrow> 'w result" where
  "PurgeDlqRequest_internalBinaryWrite W options message = seqW
     [whenW (PurgeDlqRequest_queueName message \<noteq> []) (tagString W 1 (PurgeDlqRequest_queueName message)),
      writeUnknown W options ''pgapp.v1.PurgeDlqRequest'' message]"

definition PurgeDlqRequest_encode :: "encoding \<Rightarrow> PurgeDlqRequest \<Rightarrow> bytes" where
  "PurgeDlqRequest_encode E message =
     encString E 1 (PurgeDlqRequest_queueName message) @
     encUnknown E message"

definition PurgeDlqRequest_ok :: "(wire_type \<Rightarrow> bytes \<Rightarrow> bool) \<Rightarrow> PurgeDlqRequest \<Rightarrow> bool" where
  "PurgeDlqRequest_ok payload message \<longleftrightarrow>
     unknown_ok payload 1 message"


section \<open>The field switches, field by field\<close>

lemma CreateQueueRequest_field_simps:
  "CreateQueueRequest_field R u 1 wt m = setField (r_string R) (\<lambda>v m. m\<lparr>CreateQueueRequest_queueName := v\<rparr>) m"
  "CreateQueueRequest_field R u 2 wt m = setNumber (r_int32 R) (\<lambda>v m. m\<lparr>CreateQueueRequest_storageMode := v\<rparr>) m"
  "2 < no \<Longrightarrow> CreateQueueRequest_field R u no wt m = readUnknown R u ''pgapp.v1.CreateQueueRequest'' no wt m"
  by (auto simp: CreateQueueRequest_field_def)

lemma PurgeQueueRequest_field_simps:
  "PurgeQueueRequest_field R u 1 wt m = setField (r_string R) (\<lambda>v m. m\<lparr>PurgeQueueRequest_queueName := v\<rparr>) m"
  "1 < no \<Longrightarrow> PurgeQueueRequest_field R u no wt m = readUnknown R u ''pgapp.v1.PurgeQueueRequest'' no wt m"
  by (auto simp: PurgeQueueRequest_field_def)

lemma DropQueueRequest_field_simps:
  "DropQueueRequest_field R u 1 wt m = setField (r_string R) (\<lambda>v m. m\<lparr>DropQueueRequest_queueName := v\<rparr>) m"
  "1 < no \<Longrightarrow> DropQueueRequest_field R u no wt m = readUnknown R u ''pgapp.v1.DropQueueRequest'' no wt m"
  by (auto simp: DropQueueRequest_field_def)

lemma SendMessageRequest_field_simps:
  "SendMessageRequest_field R u 1 wt m = setField (r_string R) (\<lambda>v m. m\<lparr>SendMessageRequest_queueName := v\<rparr>) m"
  "SendMessageRequest_field R u 2 wt m = setField (r_string R) (\<lambda>v m. m\<lparr>SendMessageRequest_jsonPayload := v\<rparr>) m"
  "SendMessageRequest_field R u 3 wt m = setLong (r_int64 R) (\<lambda>v m. m\<lparr>SendMessageRequest_delaySeconds := v\<rparr>) m"
  "3 < no \<Longrightarrow> SendMessageRequest_field R u no wt m = readUnknown R u ''pgapp.v1.SendMessageRequest'' no wt m"
  by (auto simp: SendMessageRequest_field_def)

lemma SendMessageResponse_field_simps:
  "SendMessageResponse_field R u 1 wt m = setLong (r_int64 R) (\<lambda>v m. m\<lparr>SendMessageResponse_messageId := v\<rparr>) m"
  "1 < no \<Longrightarrow> SendMessageResponse_field R u no wt m = readUnknown R u ''pgapp.v1.SendMessageResponse'' no wt m"
  by (auto simp: SendMessageResponse_field_def)

lemma SendBatchRequest_field_simps:
  "SendBatchRequest_field R u 1 wt m = setField (r_string R) (\<lambda>v m. m\<lparr>SendBatchRequest_queueName := v\<rparr>) m"
  "SendBatchRequest_field R u 2 wt m = pushField (r_string R) SendBatchRequest_jsonPayloads_update m"
  "SendBatchRequest_field R u 3 wt m = setLong (r_int64 R) (\<lambda>v m. m\<lparr>SendBatchRequest_delaySeconds := v\<rparr>) m"
  "3 < no \<Longrightarrow> SendBatchRequest_field R u no wt m = readUnknown R u ''pgapp.v1.SendBatchRequest'' no wt m"
  by (auto simp: SendBatchRequest_field_def)

lemma SendBatchResponse_field_simps:
  "SendBatchResponse_field R u 1 wt m = readPacked R (pushLong (r_int64 R) SendBatchResponse_messageIds_update) wt m"
  "1 < no \<Longrightarrow> SendBatchResponse_field R u no wt m = readUnknown R u ''pgapp.v1.SendBatchResponse'' no wt m"
  by (auto simp: SendBatchResponse_field_def)

lemma ReadMessagesRequest_field_simps:
  "ReadMessagesRequest_field R u 1 wt m = setField (r_string R) (\<lambda>v m. m\<lparr>ReadMessagesRequest_queueName := v\<rparr>) m"
  "ReadMessagesRequest_field R u 2 wt m = setNumber (r_int32 R) (\<lambda>v m. m\<lparr>ReadMessagesRequest_quantity := v\<rparr>) m"
  "ReadMessagesRequest_field R u 3 wt m = setLong (r_int64 R) (\<lambda>v m. m\<lparr>ReadMessagesRequest_visibilityTimeoutSeconds := v\<rparr>) m"
  "3 < no \<Longrightarrow> ReadMessagesRequest_field R u no wt m = readUnknown R u ''pgapp.v1.ReadMessagesRequest'' no wt m"
  by (auto simp: ReadMessagesRequest_field_def)

lemma ReadWithPollRequest_field_simps:
  "ReadWithPollRequest_field R u 1 wt m = setField (r_string R) (\<lambda>v m. m\<lparr>ReadWithPollRequest_queueName := v\<rparr>) m"
  "ReadWithPollRequest_field R u 2 wt m = setNumber (r_int32 R) (\<lambda>v m. m\<lparr>ReadWithPollRequest_quantity := v\<rparr>) m"
  "ReadWithPollRequest_field R u 3 wt m = setLong (r_int64 R) (\<lambda>v m. m\<lparr>ReadWithPollRequest_visibilityTimeoutSeconds := v\<rparr>) m"
  "ReadWithPollRequest_field R u 4 wt m = setLong (r_int64 R) (\<lambda>v m. m\<lparr>ReadWithPollRequest_maxPollSeconds := v\<rparr>) m"
  "ReadWithPollRequest_field R u 5 wt m = setLong (r_int64 R) (\<lambda>v m. m\<lparr>ReadWithPollRequest_pollIntervalMillis := v\<rparr>) m"
  "5 < no \<Longrightarrow> ReadWithPollRequest_field R u no wt m = readUnknown R u ''pgapp.v1.ReadWithPollRequest'' no wt m"
  by (auto simp: ReadWithPollRequest_field_def)

lemma StreamReadRequest_field_simps:
  "StreamReadRequest_field R u 1 wt m = setField (r_string R) (\<lambda>v m. m\<lparr>StreamReadRequest_queueName := v\<rparr>) m"
  "StreamReadRequest_field R u 2 wt m = setNumber (r_int32 R) (\<lambda>v m. m\<lparr>StreamReadRequest_quantity := v\<rparr>) m"
  "StreamReadRequest_field R u 3 wt m = setLong (r_int64 R) (\<lambda>v m. m\<lparr>StreamReadRequest_visibilityTimeoutSeconds := v\<rparr>) m"
  "3 < no \<Longrightarrow> StreamReadRequest_field R u no wt m = readUnknown R u ''pgapp.v1.StreamReadRequest'' no wt m"
  by (auto simp: StreamReadRequest_field_def)

lemma QueueMessage_field_simps:
  "QueueMessage_field R u 1 wt m = setLong (r_int64 R) (\<lambda>v m. m\<lparr>QueueMessage_messageId := v\<rparr>) m"
  "QueueMessage_field R u 2 wt m = setNumber (r_int32 R) (\<lambda>v m. m\<lparr>QueueMessage_readCount := v\<rparr>) m"
  "QueueMessage_field R u 3 wt m = setField (r_string R) (\<lambda>v m. m\<lparr>QueueMessage_enqueuedAt := v\<rparr>) m"
  "QueueMessage_field R u 4 wt m = setField (r_string R) (\<lambda>v m. m\<lparr>QueueMessage_visibilityTimeoutAt := v\<rparr>) m"
  "QueueMessage_field R u 5 wt m = setField (r_string R) (\<lambda>v m. m\<lparr>QueueMessage_jsonPayload := v\<rparr>) m"
  "QueueMessage_field R u 6 wt m = setField (r_string R) (\<lambda>v m. m\<lparr>QueueMessage_ackToken := v\<rparr>) m"
  "6 < no \<Longrightarrow> QueueMessage_field R u no wt m = readUnknown R u ''pgapp.v1.QueueMessage'' no wt m"
  by (auto simp: QueueMessage_field_def)

lemma ReadMessagesResponse_field_simps:
  "ReadMessagesResponse_field R u 1 wt m = pushMessage R (QueueMessage_internalBinaryRead R u) ReadMessagesResponse_messages_update m"
  "1 < no \<Longrightarrow> ReadMessagesResponse_field R u no wt m = readUnknown R u ''pgapp.v1.ReadMessagesResponse'' no wt m"
  by (auto simp: ReadMessagesResponse_field_def)

lemma AckMessageRequest_field_simps:
  "AckMessageRequest_field R u 1 wt m = setField (r_string R) (\<lambda>v m. m\<lparr>AckMessageRequest_queueName := v\<rparr>) m"
  "AckMessageRequest_field R u 2 wt m = setLong (r_int64 R) (\<lambda>v m. m\<lparr>AckMessageRequest_messageId := v\<rparr>) m"
  "AckMessageRequest_field R u 3 wt m = setField (r_string R) (\<lambda>v m. m\<lparr>AckMessageRequest_ackToken := v\<rparr>) m"
  "3 < no \<Longrightarrow> AckMessageRequest_field R u no wt m = readUnknown R u ''pgapp.v1.AckMessageRequest'' no wt m"
  by (auto simp: AckMessageRequest_field_def)

lemma ArchiveMessageRequest_field_simps:
  "ArchiveMessageRequest_field R u 1 wt m = setField (r_string R) (\<lambda>v m. m\<lparr>ArchiveMessageRequest_queueName := v\<rparr>) m"
  "ArchiveMessageRequest_field R u 2 wt m = setLong (r_int64 R) (\<lambda>v m. m\<lparr>ArchiveMessageRequest_messageId := v\<rparr>) m"
  "ArchiveMessageRequest_field R u 3 wt m = setField (r_string R) (\<lambda>v m. m\<lparr>ArchiveMessageRequest_ackToken := v\<rparr>) m"
  "3 < no \<Longrightarrow> ArchiveMessageRequest_field R u no wt m = readUnknown R u ''pgapp.v1.ArchiveMessageRequest'' no wt m"
  by (auto simp: ArchiveMessageRequest_field_def)

lemma SetVisibilityTimeoutRequest_field_simps:
  "SetVisibilityTimeoutRequest_field R u 1 wt m = setField (r_string R) (\<lambda>v m. m\<lparr>SetVisibilityTimeoutRequest_queueName := v\<rparr>) m"
  "SetVisibilityTimeoutRequest_field R u 2 wt m = setLong (r_int64 R) (\<lambda>v m. m\<lparr>SetVisibilityTimeoutRequest_messageId := v\<rparr>) m"
  "SetVisibilityTimeoutRequest_field R u 3 wt m = setLong (r_int64 R) (\<lambda>v m. m\<lparr>SetVisibilityTimeoutRequest_visibilityTimeoutSeconds := v\<rparr>) m"
  "SetVisibilityTimeoutRequest_field R u 4 wt m = setField (r_string R) (\<lambda>v m. m\<lparr>SetVisibilityTimeoutRequest_ackToken := v\<rparr>) m"
  "4 < no \<Longrightarrow> SetVisibilityTimeoutRequest_field R u no wt m = readUnknown R u ''pgapp.v1.SetVisibilityTimeoutRequest'' no wt m"
  by (auto simp: SetVisibilityTimeoutRequest_field_def)

lemma QueueMetricsRequest_field_simps:
  "QueueMetricsRequest_field R u 1 wt m = setField (r_string R) (\<lambda>v m. m\<lparr>QueueMetricsRequest_queueName := v\<rparr>) m"
  "1 < no \<Longrightarrow> QueueMetricsRequest_field R u no wt m = readUnknown R u ''pgapp.v1.QueueMetricsRequest'' no wt m"
  by (auto simp: QueueMetricsRequest_field_def)

lemma QueueMetricsResponse_field_simps:
  "QueueMetricsResponse_field R u 1 wt m = setLong (r_int64 R) (\<lambda>v m. m\<lparr>QueueMetricsResponse_visibleMessageCount := v\<rparr>) m"
  "QueueMetricsResponse_field R u 2 wt m = setLong (r_int64 R) (\<lambda>v m. m\<lparr>QueueMetricsResponse_inFlightMessageCount := v\<rparr>) m"
  "QueueMetricsResponse_field R u 3 wt m = setLong (r_int64 R) (\<lambda>v m. m\<lparr>QueueMetricsResponse_oldestVisibleMessageAgeSeconds := v\<rparr>) m"
  "QueueMetricsResponse_field R u 4 wt m = setLong (r_int64 R) (\<lambda>v m. m\<lparr>QueueMetricsResponse_archivedMessageCount := v\<rparr>) m"
  "QueueMetricsResponse_field R u 5 wt m = setLong (r_int64 R) (\<lambda>v m. m\<lparr>QueueMetricsResponse_dlqMessageCount := v\<rparr>) m"
  "5 < no \<Longrightarrow> QueueMetricsResponse_field R u no wt m = readUnknown R u ''pgapp.v1.QueueMetricsResponse'' no wt m"
  by (auto simp: QueueMetricsResponse_field_def)

lemma DlqMessage_field_simps:
  "DlqMessage_field R u 1 wt m = setLong (r_int64 R) (\<lambda>v m. m\<lparr>DlqMessage_id := v\<rparr>) m"
  "DlqMessage_field R u 2 wt m = setLong (r_int64 R) (\<lambda>v m. m\<lparr>DlqMessage_originalMessageId := v\<rparr>) m"
  "DlqMessage_field R u 3 wt m = setNumber (r_int32 R) (\<lambda>v m. m\<lparr>DlqMessage_readCount := v\<rparr>) m"
  "DlqMessage_field R u 4 wt m = setField (r_string R) (\<lambda>v m. m\<lparr>DlqMessage_enqueuedAt := v\<rparr>) m"
  "DlqMessage_field R u 5 wt m = setField (r_string R) (\<lambda>v m. m\<lparr>DlqMessage_deadLetteredAt := v\<rparr>) m"
  "DlqMessage_field R u 6 wt m = setField (r_string R) (\<lambda>v m. m\<lparr>DlqMessage_jsonPayload := v\<rparr>) m"
  "DlqMessage_field R u 7 wt m = setField (r_string R) (\<lambda>v m. m\<lparr>DlqMessage_reason := v\<rparr>) m"
  "7 < no \<Longrightarrow> DlqMessage_field R u no wt m = readUnknown R u ''pgapp.v1.DlqMessage'' no wt m"
  by (auto simp: DlqMessage_field_def)

lemma ListDlqMessagesRequest_field_simps:
  "ListDlqMessagesRequest_field R u 1 wt m = setField (r_string R) (\<lambda>v m. m\<lparr>ListDlqMessagesRequest_queueName := v\<rparr>) m"
  "ListDlqMessagesRequest_field R u 2 wt m = setNumber (r_int32 R) (\<lambda>v m. m\<lparr>ListDlqMessagesRequest_limit := v\<rparr>) m"
  "ListDlqMessagesRequest_field R u 3 wt m = setLong (r_int64 R) (\<lambda>v m. m\<lparr>ListDlqMessagesRequest_offset := v\<rparr>) m"
  "3 < no \<Longrightarrow> ListDlqMessagesRequest_field R u no wt m = readUnknown R u ''pgapp.v1.ListDlqMessagesRequest'' no wt m"
  by (auto simp: ListDlqMessagesRequest_field_def)

lemma ListDlqMessagesResponse_field_simps:
  "ListDlqMessagesResponse_field R u 1 wt m = pushMessage R (DlqMessage_internalBinaryRead R u) ListDlqMessagesResponse_messages_update m"
  "ListDlqMessagesResponse_field R u 2 wt m = setLong (r_int64 R) (\<lambda>v m. m\<lparr>ListDlqMessagesResponse_nextOffset := v\<rparr>) m"
  "2 < no \<Longrightarrow> ListDlqMessagesResponse_field R u no wt m = readUnknown R u ''pgapp.v1.ListDlqMessagesResponse'' no wt m"
  by (auto simp: ListDlqMessagesResponse_field_def)

lemma GetDlqMessageRequest_field_simps:
  "GetDlqMessageRequest_field R u 1 wt m = setField (r_string R) (\<lambda>v m. m\<lparr>GetDlqMessageRequest_queueName := v\<rparr>) m"
  "GetDlqMessageRequest_field R u 2 wt m = setLong (r_int64 R) (\<lambda>v m. m\<lparr>GetDlqMessageRequest_originalMessageId := v\<rparr>) m"
  "2 < no \<Longrightarrow> GetDlqMessageRequest_field R u no wt m = readUnknown R u ''pgapp.v1.GetDlqMessageRequest'' no wt m"
  by (auto simp: GetDlqMessageRequest_field_def)

lemma ReprocessDlqMessageRequest_field_simps:
  "ReprocessDlqMessageRequest_field R u 1 wt m = setField (r_string R) (\<lambda>v m. m\<lparr>ReprocessDlqMessageRequest_queueName := v\<rparr>) m"
  "ReprocessDlqMessageRequest_field R u 2 wt m = setLong (r_int64 R) (\<lambda>v m. m\<lparr>ReprocessDlqMessageRequest_originalMessageId := v\<rparr>) m"
  "2 < no \<Longrightarrow> ReprocessDlqMessageRequest_field R u no wt m = readUnknown R u ''pgapp.v1.ReprocessDlqMessageRequest'' no wt m"
  by (auto simp: ReprocessDlqMessageRequest_field_def)

lemma PurgeDlqRequest_field_simps:
  "PurgeDlqRequest_field R u 1 wt m = setField (r_string R) (\<lambda>v m. m\<lparr>PurgeDlqRequest_queueName := v\<rparr>) m"
  "1 < no \<Longrightarrow> PurgeDlqRequest_field R u no wt m = readUnknown R u ''pgapp.v1.PurgeDlqRequest'' no wt m"
  by (auto simp: PurgeDlqRequest_field_def)

section \<open>Codecs\<close>

context wire_runtime
begin

lemma CreateQueueRequest_codec [wire_intro]:
  "codec (CreateQueueRequest_internalBinaryRead R RU_true) (CreateQueueRequest_internalBinaryWrite W WU_true)
    (CreateQueueRequest_encode E) (CreateQueueRequest_ok payload)"
  unfolding CreateQueueRequest_internalBinaryRead_def
proof (rule codecI)
  fix m
  assume ok: "CreateQueueRequest_ok payload m"
  show "rt (CreateQueueRequest_field R RU_true) (CreateQueueRequest_internalBinaryWrite W WU_true m) (CreateQueueRequest_encode E m)
      CreateQueueRequest_create m"
    unfolding CreateQueueRequest_internalBinaryWrite_def CreateQueueRequest_encode_def
    by (rule rt_chain, (rule wire_intro CreateQueueRequest_field_simps |
        use ok in \<open>simp add: CreateQueueRequest_ok_def CreateQueueRequest_create_def field_intros\<close>)+)
qed

lemma PurgeQueueRequest_codec [wire_intro]:
  "codec (PurgeQueueRequest_internalBinaryRead R RU_true) (PurgeQueueRequest_internalBinaryWrite W WU_true)
    (PurgeQueueRequest_encode E) (PurgeQueueRequest_ok payload)"
  unfolding PurgeQueueRequest_internalBinaryRead_def
proof (rule codecI)
  fix m
  assume ok: "PurgeQueueRequest_ok payload m"
  show "rt (PurgeQueueRequest_field R RU_true) (PurgeQueueRequest_internalBinaryWrite W WU_true m) (PurgeQueueRequest_encode E m)
      PurgeQueueRequest_create m"
    unfolding PurgeQueueRequest_internalBinaryWrite_def PurgeQueueRequest_encode_def
    by (rule rt_chain, (rule wire_intro PurgeQueueRequest_field_simps |
        use ok in \<open>simp add: PurgeQueueRequest_ok_def PurgeQueueRequest_create_def field_intros\<close>)+)
qed

lemma DropQueueRequest_codec [wire_intro]:
  "codec (DropQueueRequest_internalBinaryRead R RU_true) (DropQueueRequest_internalBinaryWrite W WU_true)
    (DropQueueRequest_encode E) (DropQueueRequest_ok payload)"
  unfolding DropQueueRequest_internalBinaryRead_def
proof (rule codecI)
  fix m
  assume ok: "DropQueueRequest_ok payload m"
  show "rt (DropQueueRequest_field R RU_true) (DropQueueRequest_internalBinaryWrite W WU_true m) (DropQueueRequest_encode E m)
      DropQueueRequest_create m"
    unfolding DropQueueRequest_internalBinaryWrite_def DropQueueRequest_encode_def
    by (rule rt_chain, (rule wire_intro DropQueueRequest_field_simps |
        use ok in \<open>simp add: DropQueueRequest_ok_def DropQueueRequest_create_def field_intros\<close>)+)
qed

lemma SendMessageRequest_codec [wire_intro]:
  "codec (SendMessageRequest_internalBinaryRead R RU_true) (SendMessageRequest_internalBinaryWrite W WU_true)
    (SendMessageRequest_encode E) (SendMessageRequest_ok payload)"
  unfolding SendMessageRequest_internalBinaryRead_def
proof (rule codecI)
  fix m
  assume ok: "SendMessageRequest_ok payload m"
  show "rt (SendMessageRequest_field R RU_true) (SendMessageRequest_internalBinaryWrite W WU_true m) (SendMessageRequest_encode E m)
      SendMessageRequest_create m"
    unfolding SendMessageRequest_internalBinaryWrite_def SendMessageRequest_encode_def
    by (rule rt_chain, (rule wire_intro SendMessageRequest_field_simps |
        use ok in \<open>simp add: SendMessageRequest_ok_def SendMessageRequest_create_def field_intros\<close>)+)
qed

lemma SendMessageResponse_codec [wire_intro]:
  "codec (SendMessageResponse_internalBinaryRead R RU_true) (SendMessageResponse_internalBinaryWrite W WU_true)
    (SendMessageResponse_encode E) (SendMessageResponse_ok payload)"
  unfolding SendMessageResponse_internalBinaryRead_def
proof (rule codecI)
  fix m
  assume ok: "SendMessageResponse_ok payload m"
  show "rt (SendMessageResponse_field R RU_true) (SendMessageResponse_internalBinaryWrite W WU_true m) (SendMessageResponse_encode E m)
      SendMessageResponse_create m"
    unfolding SendMessageResponse_internalBinaryWrite_def SendMessageResponse_encode_def
    by (rule rt_chain, (rule wire_intro SendMessageResponse_field_simps |
        use ok in \<open>simp add: SendMessageResponse_ok_def SendMessageResponse_create_def field_intros\<close>)+)
qed

lemma SendBatchRequest_codec [wire_intro]:
  "codec (SendBatchRequest_internalBinaryRead R RU_true) (SendBatchRequest_internalBinaryWrite W WU_true)
    (SendBatchRequest_encode E) (SendBatchRequest_ok payload)"
  unfolding SendBatchRequest_internalBinaryRead_def
proof (rule codecI)
  fix m
  assume ok: "SendBatchRequest_ok payload m"
  show "rt (SendBatchRequest_field R RU_true) (SendBatchRequest_internalBinaryWrite W WU_true m) (SendBatchRequest_encode E m)
      SendBatchRequest_create m"
    unfolding SendBatchRequest_internalBinaryWrite_def SendBatchRequest_encode_def
    by (rule rt_chain, (rule wire_intro SendBatchRequest_field_simps |
        use ok in \<open>simp add: SendBatchRequest_ok_def SendBatchRequest_create_def field_intros\<close>)+)
qed

lemma SendBatchResponse_codec [wire_intro]:
  "codec (SendBatchResponse_internalBinaryRead R RU_true) (SendBatchResponse_internalBinaryWrite W WU_true)
    (SendBatchResponse_encode E) (SendBatchResponse_ok payload)"
  unfolding SendBatchResponse_internalBinaryRead_def
proof (rule codecI)
  fix m
  assume ok: "SendBatchResponse_ok payload m"
  show "rt (SendBatchResponse_field R RU_true) (SendBatchResponse_internalBinaryWrite W WU_true m) (SendBatchResponse_encode E m)
      SendBatchResponse_create m"
    unfolding SendBatchResponse_internalBinaryWrite_def SendBatchResponse_encode_def
    by (rule rt_chain, (rule wire_intro SendBatchResponse_field_simps |
        use ok in \<open>simp add: SendBatchResponse_ok_def SendBatchResponse_create_def field_intros\<close>)+)
qed

lemma ReadMessagesRequest_codec [wire_intro]:
  "codec (ReadMessagesRequest_internalBinaryRead R RU_true) (ReadMessagesRequest_internalBinaryWrite W WU_true)
    (ReadMessagesRequest_encode E) (ReadMessagesRequest_ok payload)"
  unfolding ReadMessagesRequest_internalBinaryRead_def
proof (rule codecI)
  fix m
  assume ok: "ReadMessagesRequest_ok payload m"
  show "rt (ReadMessagesRequest_field R RU_true) (ReadMessagesRequest_internalBinaryWrite W WU_true m) (ReadMessagesRequest_encode E m)
      ReadMessagesRequest_create m"
    unfolding ReadMessagesRequest_internalBinaryWrite_def ReadMessagesRequest_encode_def
    by (rule rt_chain, (rule wire_intro ReadMessagesRequest_field_simps |
        use ok in \<open>simp add: ReadMessagesRequest_ok_def ReadMessagesRequest_create_def field_intros\<close>)+)
qed

lemma ReadWithPollRequest_codec [wire_intro]:
  "codec (ReadWithPollRequest_internalBinaryRead R RU_true) (ReadWithPollRequest_internalBinaryWrite W WU_true)
    (ReadWithPollRequest_encode E) (ReadWithPollRequest_ok payload)"
  unfolding ReadWithPollRequest_internalBinaryRead_def
proof (rule codecI)
  fix m
  assume ok: "ReadWithPollRequest_ok payload m"
  show "rt (ReadWithPollRequest_field R RU_true) (ReadWithPollRequest_internalBinaryWrite W WU_true m) (ReadWithPollRequest_encode E m)
      ReadWithPollRequest_create m"
    unfolding ReadWithPollRequest_internalBinaryWrite_def ReadWithPollRequest_encode_def
    by (rule rt_chain, (rule wire_intro ReadWithPollRequest_field_simps |
        use ok in \<open>simp add: ReadWithPollRequest_ok_def ReadWithPollRequest_create_def field_intros\<close>)+)
qed

lemma StreamReadRequest_codec [wire_intro]:
  "codec (StreamReadRequest_internalBinaryRead R RU_true) (StreamReadRequest_internalBinaryWrite W WU_true)
    (StreamReadRequest_encode E) (StreamReadRequest_ok payload)"
  unfolding StreamReadRequest_internalBinaryRead_def
proof (rule codecI)
  fix m
  assume ok: "StreamReadRequest_ok payload m"
  show "rt (StreamReadRequest_field R RU_true) (StreamReadRequest_internalBinaryWrite W WU_true m) (StreamReadRequest_encode E m)
      StreamReadRequest_create m"
    unfolding StreamReadRequest_internalBinaryWrite_def StreamReadRequest_encode_def
    by (rule rt_chain, (rule wire_intro StreamReadRequest_field_simps |
        use ok in \<open>simp add: StreamReadRequest_ok_def StreamReadRequest_create_def field_intros\<close>)+)
qed

lemma QueueMessage_codec [wire_intro]:
  "codec (QueueMessage_internalBinaryRead R RU_true) (QueueMessage_internalBinaryWrite W WU_true)
    (QueueMessage_encode E) (QueueMessage_ok payload)"
  unfolding QueueMessage_internalBinaryRead_def
proof (rule codecI)
  fix m
  assume ok: "QueueMessage_ok payload m"
  show "rt (QueueMessage_field R RU_true) (QueueMessage_internalBinaryWrite W WU_true m) (QueueMessage_encode E m)
      QueueMessage_create m"
    unfolding QueueMessage_internalBinaryWrite_def QueueMessage_encode_def
    by (rule rt_chain, (rule wire_intro QueueMessage_field_simps |
        use ok in \<open>simp add: QueueMessage_ok_def QueueMessage_create_def field_intros\<close>)+)
qed

lemma ReadMessagesResponse_codec [wire_intro]:
  "codec (ReadMessagesResponse_internalBinaryRead R RU_true) (ReadMessagesResponse_internalBinaryWrite W WU_true)
    (ReadMessagesResponse_encode E) (ReadMessagesResponse_ok payload)"
  unfolding ReadMessagesResponse_internalBinaryRead_def
proof (rule codecI)
  fix m
  assume ok: "ReadMessagesResponse_ok payload m"
  show "rt (ReadMessagesResponse_field R RU_true) (ReadMessagesResponse_internalBinaryWrite W WU_true m) (ReadMessagesResponse_encode E m)
      ReadMessagesResponse_create m"
    unfolding ReadMessagesResponse_internalBinaryWrite_def ReadMessagesResponse_encode_def
    by (rule rt_chain, (rule wire_intro ReadMessagesResponse_field_simps |
        use ok in \<open>simp add: ReadMessagesResponse_ok_def ReadMessagesResponse_create_def field_intros\<close>)+)
qed

lemma AckMessageRequest_codec [wire_intro]:
  "codec (AckMessageRequest_internalBinaryRead R RU_true) (AckMessageRequest_internalBinaryWrite W WU_true)
    (AckMessageRequest_encode E) (AckMessageRequest_ok payload)"
  unfolding AckMessageRequest_internalBinaryRead_def
proof (rule codecI)
  fix m
  assume ok: "AckMessageRequest_ok payload m"
  show "rt (AckMessageRequest_field R RU_true) (AckMessageRequest_internalBinaryWrite W WU_true m) (AckMessageRequest_encode E m)
      AckMessageRequest_create m"
    unfolding AckMessageRequest_internalBinaryWrite_def AckMessageRequest_encode_def
    by (rule rt_chain, (rule wire_intro AckMessageRequest_field_simps |
        use ok in \<open>simp add: AckMessageRequest_ok_def AckMessageRequest_create_def field_intros\<close>)+)
qed

lemma ArchiveMessageRequest_codec [wire_intro]:
  "codec (ArchiveMessageRequest_internalBinaryRead R RU_true) (ArchiveMessageRequest_internalBinaryWrite W WU_true)
    (ArchiveMessageRequest_encode E) (ArchiveMessageRequest_ok payload)"
  unfolding ArchiveMessageRequest_internalBinaryRead_def
proof (rule codecI)
  fix m
  assume ok: "ArchiveMessageRequest_ok payload m"
  show "rt (ArchiveMessageRequest_field R RU_true) (ArchiveMessageRequest_internalBinaryWrite W WU_true m) (ArchiveMessageRequest_encode E m)
      ArchiveMessageRequest_create m"
    unfolding ArchiveMessageRequest_internalBinaryWrite_def ArchiveMessageRequest_encode_def
    by (rule rt_chain, (rule wire_intro ArchiveMessageRequest_field_simps |
        use ok in \<open>simp add: ArchiveMessageRequest_ok_def ArchiveMessageRequest_create_def field_intros\<close>)+)
qed

lemma SetVisibilityTimeoutRequest_codec [wire_intro]:
  "codec (SetVisibilityTimeoutRequest_internalBinaryRead R RU_true) (SetVisibilityTimeoutRequest_internalBinaryWrite W WU_true)
    (SetVisibilityTimeoutRequest_encode E) (SetVisibilityTimeoutRequest_ok payload)"
  unfolding SetVisibilityTimeoutRequest_internalBinaryRead_def
proof (rule codecI)
  fix m
  assume ok: "SetVisibilityTimeoutRequest_ok payload m"
  show "rt (SetVisibilityTimeoutRequest_field R RU_true) (SetVisibilityTimeoutRequest_internalBinaryWrite W WU_true m) (SetVisibilityTimeoutRequest_encode E m)
      SetVisibilityTimeoutRequest_create m"
    unfolding SetVisibilityTimeoutRequest_internalBinaryWrite_def SetVisibilityTimeoutRequest_encode_def
    by (rule rt_chain, (rule wire_intro SetVisibilityTimeoutRequest_field_simps |
        use ok in \<open>simp add: SetVisibilityTimeoutRequest_ok_def SetVisibilityTimeoutRequest_create_def field_intros\<close>)+)
qed

lemma QueueMetricsRequest_codec [wire_intro]:
  "codec (QueueMetricsRequest_internalBinaryRead R RU_true) (QueueMetricsRequest_internalBinaryWrite W WU_true)
    (QueueMetricsRequest_encode E) (QueueMetricsRequest_ok payload)"
  unfolding QueueMetricsRequest_internalBinaryRead_def
proof (rule codecI)
  fix m
  assume ok: "QueueMetricsRequest_ok payload m"
  show "rt (QueueMetricsRequest_field R RU_true) (QueueMetricsRequest_internalBinaryWrite W WU_true m) (QueueMetricsRequest_encode E m)
      QueueMetricsRequest_create m"
    unfolding QueueMetricsRequest_internalBinaryWrite_def QueueMetricsRequest_encode_def
    by (rule rt_chain, (rule wire_intro QueueMetricsRequest_field_simps |
        use ok in \<open>simp add: QueueMetricsRequest_ok_def QueueMetricsRequest_create_def field_intros\<close>)+)
qed

lemma QueueMetricsResponse_codec [wire_intro]:
  "codec (QueueMetricsResponse_internalBinaryRead R RU_true) (QueueMetricsResponse_internalBinaryWrite W WU_true)
    (QueueMetricsResponse_encode E) (QueueMetricsResponse_ok payload)"
  unfolding QueueMetricsResponse_internalBinaryRead_def
proof (rule codecI)
  fix m
  assume ok: "QueueMetricsResponse_ok payload m"
  show "rt (QueueMetricsResponse_field R RU_true) (QueueMetricsResponse_internalBinaryWrite W WU_true m) (QueueMetricsResponse_encode E m)
      QueueMetricsResponse_create m"
    unfolding QueueMetricsResponse_internalBinaryWrite_def QueueMetricsResponse_encode_def
    by (rule rt_chain, (rule wire_intro QueueMetricsResponse_field_simps |
        use ok in \<open>simp add: QueueMetricsResponse_ok_def QueueMetricsResponse_create_def field_intros\<close>)+)
qed

lemma DlqMessage_codec [wire_intro]:
  "codec (DlqMessage_internalBinaryRead R RU_true) (DlqMessage_internalBinaryWrite W WU_true)
    (DlqMessage_encode E) (DlqMessage_ok payload)"
  unfolding DlqMessage_internalBinaryRead_def
proof (rule codecI)
  fix m
  assume ok: "DlqMessage_ok payload m"
  show "rt (DlqMessage_field R RU_true) (DlqMessage_internalBinaryWrite W WU_true m) (DlqMessage_encode E m)
      DlqMessage_create m"
    unfolding DlqMessage_internalBinaryWrite_def DlqMessage_encode_def
    by (rule rt_chain, (rule wire_intro DlqMessage_field_simps |
        use ok in \<open>simp add: DlqMessage_ok_def DlqMessage_create_def field_intros\<close>)+)
qed

lemma ListDlqMessagesRequest_codec [wire_intro]:
  "codec (ListDlqMessagesRequest_internalBinaryRead R RU_true) (ListDlqMessagesRequest_internalBinaryWrite W WU_true)
    (ListDlqMessagesRequest_encode E) (ListDlqMessagesRequest_ok payload)"
  unfolding ListDlqMessagesRequest_internalBinaryRead_def
proof (rule codecI)
  fix m
  assume ok: "ListDlqMessagesRequest_ok payload m"
  show "rt (ListDlqMessagesRequest_field R RU_true) (ListDlqMessagesRequest_internalBinaryWrite W WU_true m) (ListDlqMessagesRequest_encode E m)
      ListDlqMessagesRequest_create m"
    unfolding ListDlqMessagesRequest_internalBinaryWrite_def ListDlqMessagesRequest_encode_def
    by (rule rt_chain, (rule wire_intro ListDlqMessagesRequest_field_simps |
        use ok in \<open>simp add: ListDlqMessagesRequest_ok_def ListDlqMessagesRequest_create_def field_intros\<close>)+)
qed

lemma ListDlqMessagesResponse_codec [wire_intro]:
  "codec (ListDlqMessagesResponse_internalBinaryRead R RU_true) (ListDlqMessagesResponse_internalBinaryWrite W WU_true)
    (ListDlqMessagesResponse_encode E) (ListDlqMessagesResponse_ok payload)"
  unfolding ListDlqMessagesResponse_internalBinaryRead_def
proof (rule codecI)
  fix m
  assume ok: "ListDlqMessagesResponse_ok payload m"
  show "rt (ListDlqMessagesResponse_field R RU_true) (ListDlqMessagesResponse_internalBinaryWrite W WU_true m) (ListDlqMessagesResponse_encode E m)
      ListDlqMessagesResponse_create m"
    unfolding ListDlqMessagesResponse_internalBinaryWrite_def ListDlqMessagesResponse_encode_def
    by (rule rt_chain, (rule wire_intro ListDlqMessagesResponse_field_simps |
        use ok in \<open>simp add: ListDlqMessagesResponse_ok_def ListDlqMessagesResponse_create_def field_intros\<close>)+)
qed

lemma GetDlqMessageRequest_codec [wire_intro]:
  "codec (GetDlqMessageRequest_internalBinaryRead R RU_true) (GetDlqMessageRequest_internalBinaryWrite W WU_true)
    (GetDlqMessageRequest_encode E) (GetDlqMessageRequest_ok payload)"
  unfolding GetDlqMessageRequest_internalBinaryRead_def
proof (rule codecI)
  fix m
  assume ok: "GetDlqMessageRequest_ok payload m"
  show "rt (GetDlqMessageRequest_field R RU_true) (GetDlqMessageRequest_internalBinaryWrite W WU_true m) (GetDlqMessageRequest_encode E m)
      GetDlqMessageRequest_create m"
    unfolding GetDlqMessageRequest_internalBinaryWrite_def GetDlqMessageRequest_encode_def
    by (rule rt_chain, (rule wire_intro GetDlqMessageRequest_field_simps |
        use ok in \<open>simp add: GetDlqMessageRequest_ok_def GetDlqMessageRequest_create_def field_intros\<close>)+)
qed

lemma ReprocessDlqMessageRequest_codec [wire_intro]:
  "codec (ReprocessDlqMessageRequest_internalBinaryRead R RU_true) (ReprocessDlqMessageRequest_internalBinaryWrite W WU_true)
    (ReprocessDlqMessageRequest_encode E) (ReprocessDlqMessageRequest_ok payload)"
  unfolding ReprocessDlqMessageRequest_internalBinaryRead_def
proof (rule codecI)
  fix m
  assume ok: "ReprocessDlqMessageRequest_ok payload m"
  show "rt (ReprocessDlqMessageRequest_field R RU_true) (ReprocessDlqMessageRequest_internalBinaryWrite W WU_true m) (ReprocessDlqMessageRequest_encode E m)
      ReprocessDlqMessageRequest_create m"
    unfolding ReprocessDlqMessageRequest_internalBinaryWrite_def ReprocessDlqMessageRequest_encode_def
    by (rule rt_chain, (rule wire_intro ReprocessDlqMessageRequest_field_simps |
        use ok in \<open>simp add: ReprocessDlqMessageRequest_ok_def ReprocessDlqMessageRequest_create_def field_intros\<close>)+)
qed

lemma PurgeDlqRequest_codec [wire_intro]:
  "codec (PurgeDlqRequest_internalBinaryRead R RU_true) (PurgeDlqRequest_internalBinaryWrite W WU_true)
    (PurgeDlqRequest_encode E) (PurgeDlqRequest_ok payload)"
  unfolding PurgeDlqRequest_internalBinaryRead_def
proof (rule codecI)
  fix m
  assume ok: "PurgeDlqRequest_ok payload m"
  show "rt (PurgeDlqRequest_field R RU_true) (PurgeDlqRequest_internalBinaryWrite W WU_true m) (PurgeDlqRequest_encode E m)
      PurgeDlqRequest_create m"
    unfolding PurgeDlqRequest_internalBinaryWrite_def PurgeDlqRequest_encode_def
    by (rule rt_chain, (rule wire_intro PurgeDlqRequest_field_simps |
        use ok in \<open>simp add: PurgeDlqRequest_ok_def PurgeDlqRequest_create_def field_intros\<close>)+)
qed

end


section \<open>Termination\<close>

context wire_progress
begin

lemma CreateQueueRequest_returns [wire_total]: "reader_returns (CreateQueueRequest_internalBinaryRead R u)"
  unfolding CreateQueueRequest_internalBinaryRead_def CreateQueueRequest_field_def by (intro wire_total)

lemma PurgeQueueRequest_returns [wire_total]: "reader_returns (PurgeQueueRequest_internalBinaryRead R u)"
  unfolding PurgeQueueRequest_internalBinaryRead_def PurgeQueueRequest_field_def by (intro wire_total)

lemma DropQueueRequest_returns [wire_total]: "reader_returns (DropQueueRequest_internalBinaryRead R u)"
  unfolding DropQueueRequest_internalBinaryRead_def DropQueueRequest_field_def by (intro wire_total)

lemma SendMessageRequest_returns [wire_total]: "reader_returns (SendMessageRequest_internalBinaryRead R u)"
  unfolding SendMessageRequest_internalBinaryRead_def SendMessageRequest_field_def by (intro wire_total)

lemma SendMessageResponse_returns [wire_total]: "reader_returns (SendMessageResponse_internalBinaryRead R u)"
  unfolding SendMessageResponse_internalBinaryRead_def SendMessageResponse_field_def by (intro wire_total)

lemma SendBatchRequest_returns [wire_total]: "reader_returns (SendBatchRequest_internalBinaryRead R u)"
  unfolding SendBatchRequest_internalBinaryRead_def SendBatchRequest_field_def by (intro wire_total)

lemma SendBatchResponse_returns [wire_total]: "reader_returns (SendBatchResponse_internalBinaryRead R u)"
  unfolding SendBatchResponse_internalBinaryRead_def SendBatchResponse_field_def by (intro wire_total)

lemma ReadMessagesRequest_returns [wire_total]: "reader_returns (ReadMessagesRequest_internalBinaryRead R u)"
  unfolding ReadMessagesRequest_internalBinaryRead_def ReadMessagesRequest_field_def by (intro wire_total)

lemma ReadWithPollRequest_returns [wire_total]: "reader_returns (ReadWithPollRequest_internalBinaryRead R u)"
  unfolding ReadWithPollRequest_internalBinaryRead_def ReadWithPollRequest_field_def by (intro wire_total)

lemma StreamReadRequest_returns [wire_total]: "reader_returns (StreamReadRequest_internalBinaryRead R u)"
  unfolding StreamReadRequest_internalBinaryRead_def StreamReadRequest_field_def by (intro wire_total)

lemma QueueMessage_returns [wire_total]: "reader_returns (QueueMessage_internalBinaryRead R u)"
  unfolding QueueMessage_internalBinaryRead_def QueueMessage_field_def by (intro wire_total)

lemma ReadMessagesResponse_returns [wire_total]: "reader_returns (ReadMessagesResponse_internalBinaryRead R u)"
  unfolding ReadMessagesResponse_internalBinaryRead_def ReadMessagesResponse_field_def by (intro wire_total)

lemma AckMessageRequest_returns [wire_total]: "reader_returns (AckMessageRequest_internalBinaryRead R u)"
  unfolding AckMessageRequest_internalBinaryRead_def AckMessageRequest_field_def by (intro wire_total)

lemma ArchiveMessageRequest_returns [wire_total]: "reader_returns (ArchiveMessageRequest_internalBinaryRead R u)"
  unfolding ArchiveMessageRequest_internalBinaryRead_def ArchiveMessageRequest_field_def by (intro wire_total)

lemma SetVisibilityTimeoutRequest_returns [wire_total]: "reader_returns (SetVisibilityTimeoutRequest_internalBinaryRead R u)"
  unfolding SetVisibilityTimeoutRequest_internalBinaryRead_def SetVisibilityTimeoutRequest_field_def by (intro wire_total)

lemma QueueMetricsRequest_returns [wire_total]: "reader_returns (QueueMetricsRequest_internalBinaryRead R u)"
  unfolding QueueMetricsRequest_internalBinaryRead_def QueueMetricsRequest_field_def by (intro wire_total)

lemma QueueMetricsResponse_returns [wire_total]: "reader_returns (QueueMetricsResponse_internalBinaryRead R u)"
  unfolding QueueMetricsResponse_internalBinaryRead_def QueueMetricsResponse_field_def by (intro wire_total)

lemma DlqMessage_returns [wire_total]: "reader_returns (DlqMessage_internalBinaryRead R u)"
  unfolding DlqMessage_internalBinaryRead_def DlqMessage_field_def by (intro wire_total)

lemma ListDlqMessagesRequest_returns [wire_total]: "reader_returns (ListDlqMessagesRequest_internalBinaryRead R u)"
  unfolding ListDlqMessagesRequest_internalBinaryRead_def ListDlqMessagesRequest_field_def by (intro wire_total)

lemma ListDlqMessagesResponse_returns [wire_total]: "reader_returns (ListDlqMessagesResponse_internalBinaryRead R u)"
  unfolding ListDlqMessagesResponse_internalBinaryRead_def ListDlqMessagesResponse_field_def by (intro wire_total)

lemma GetDlqMessageRequest_returns [wire_total]: "reader_returns (GetDlqMessageRequest_internalBinaryRead R u)"
  unfolding GetDlqMessageRequest_internalBinaryRead_def GetDlqMessageRequest_field_def by (intro wire_total)

lemma ReprocessDlqMessageRequest_returns [wire_total]: "reader_returns (ReprocessDlqMessageRequest_internalBinaryRead R u)"
  unfolding ReprocessDlqMessageRequest_internalBinaryRead_def ReprocessDlqMessageRequest_field_def by (intro wire_total)

lemma PurgeDlqRequest_returns [wire_total]: "reader_returns (PurgeDlqRequest_internalBinaryRead R u)"
  unfolding PurgeDlqRequest_internalBinaryRead_def PurgeDlqRequest_field_def by (intro wire_total)

end

end
