(* ===== verification/Config_Messages.thy ===== *)
theory Config_Messages
  imports Common_Messages
begin

text \<open>
  The message types of \<open>sdk/typescript/src/gen/pgapp/v1/config.ts\<close>: the requests and responses of the config center.
  For every type: its interface as a record that extends the unknown-field carrier, \<open>create\<close>,
  the field switch of \<open>internalBinaryRead\<close> and the whole reader, and \<open>internalBinaryWrite\<close>
  statement by statement. \<open>_encode\<close> is the reference encoding, \<open>_ok\<close> says that the 32-bit and
  64-bit fields hold values of their width in canonical form and that unknown fields are well
  formed. The lemmas show, for every type, that writer and reader are a codec for the reference
  encoding and that the reader returns on every input.
\<close>

subsection \<open>ConfigScope\<close>

record ConfigScope = message +
  ConfigScope_appId :: string
  ConfigScope_environment :: string
  ConfigScope_cluster :: string
  ConfigScope_namespace :: string

definition ConfigScope_create :: ConfigScope where
  "ConfigScope_create = \<lparr>unknownFields = [],
     ConfigScope_appId = [],
     ConfigScope_environment = [],
     ConfigScope_cluster = [],
     ConfigScope_namespace = []\<rparr>"

definition ConfigScope_field ::
  "'r reader \<Rightarrow> read_unknown \<Rightarrow> nat \<Rightarrow> wire_type \<Rightarrow> ConfigScope \<Rightarrow> 'r \<Rightarrow> (ConfigScope \<times> 'r) comp" where
  "ConfigScope_field R options fieldNo wireType message =
     (if fieldNo = 1 then setField (r_string R) (\<lambda>v m. m\<lparr>ConfigScope_appId := v\<rparr>) message
      else if fieldNo = 2 then setField (r_string R) (\<lambda>v m. m\<lparr>ConfigScope_environment := v\<rparr>) message
      else if fieldNo = 3 then setField (r_string R) (\<lambda>v m. m\<lparr>ConfigScope_cluster := v\<rparr>) message
      else if fieldNo = 4 then setField (r_string R) (\<lambda>v m. m\<lparr>ConfigScope_namespace := v\<rparr>) message
      else readUnknown R options ''pgapp.v1.ConfigScope'' fieldNo wireType message)"

definition ConfigScope_internalBinaryRead ::
  "'r reader \<Rightarrow> read_unknown \<Rightarrow> 'r \<Rightarrow> nat \<Rightarrow> ConfigScope option \<Rightarrow> (ConfigScope \<times> 'r) comp" where
  "ConfigScope_internalBinaryRead R options =
     readMessage R (ConfigScope_field R options) ConfigScope_create"

definition ConfigScope_internalBinaryWrite ::
  "'w writer \<Rightarrow> 'w write_unknown \<Rightarrow> ConfigScope \<Rightarrow> 'w \<Rightarrow> 'w result" where
  "ConfigScope_internalBinaryWrite W options message = seqW
     [whenW (ConfigScope_appId message \<noteq> []) (tagString W 1 (ConfigScope_appId message)),
      whenW (ConfigScope_environment message \<noteq> []) (tagString W 2 (ConfigScope_environment message)),
      whenW (ConfigScope_cluster message \<noteq> []) (tagString W 3 (ConfigScope_cluster message)),
      whenW (ConfigScope_namespace message \<noteq> []) (tagString W 4 (ConfigScope_namespace message)),
      writeUnknown W options ''pgapp.v1.ConfigScope'' message]"

definition ConfigScope_encode :: "encoding \<Rightarrow> ConfigScope \<Rightarrow> bytes" where
  "ConfigScope_encode E message =
     encString E 1 (ConfigScope_appId message) @
     encString E 2 (ConfigScope_environment message) @
     encString E 3 (ConfigScope_cluster message) @
     encString E 4 (ConfigScope_namespace message) @
     encUnknown E message"

definition ConfigScope_ok :: "(wire_type \<Rightarrow> bytes \<Rightarrow> bool) \<Rightarrow> ConfigScope \<Rightarrow> bool" where
  "ConfigScope_ok payload message \<longleftrightarrow>
     unknown_ok payload 4 message"

subsection \<open>ConfigItem\<close>

record ConfigItem = message +
  ConfigItem_key :: string
  ConfigItem_jsonValue :: string
  ConfigItem_deleted :: bool
  ConfigItem_updatedAt :: string

definition ConfigItem_create :: ConfigItem where
  "ConfigItem_create = \<lparr>unknownFields = [],
     ConfigItem_key = [],
     ConfigItem_jsonValue = [],
     ConfigItem_deleted = False,
     ConfigItem_updatedAt = []\<rparr>"

definition ConfigItem_field ::
  "'r reader \<Rightarrow> read_unknown \<Rightarrow> nat \<Rightarrow> wire_type \<Rightarrow> ConfigItem \<Rightarrow> 'r \<Rightarrow> (ConfigItem \<times> 'r) comp" where
  "ConfigItem_field R options fieldNo wireType message =
     (if fieldNo = 1 then setField (r_string R) (\<lambda>v m. m\<lparr>ConfigItem_key := v\<rparr>) message
      else if fieldNo = 2 then setField (r_string R) (\<lambda>v m. m\<lparr>ConfigItem_jsonValue := v\<rparr>) message
      else if fieldNo = 3 then setField (r_bool R) (\<lambda>v m. m\<lparr>ConfigItem_deleted := v\<rparr>) message
      else if fieldNo = 4 then setField (r_string R) (\<lambda>v m. m\<lparr>ConfigItem_updatedAt := v\<rparr>) message
      else readUnknown R options ''pgapp.v1.ConfigItem'' fieldNo wireType message)"

definition ConfigItem_internalBinaryRead ::
  "'r reader \<Rightarrow> read_unknown \<Rightarrow> 'r \<Rightarrow> nat \<Rightarrow> ConfigItem option \<Rightarrow> (ConfigItem \<times> 'r) comp" where
  "ConfigItem_internalBinaryRead R options =
     readMessage R (ConfigItem_field R options) ConfigItem_create"

definition ConfigItem_internalBinaryWrite ::
  "'w writer \<Rightarrow> 'w write_unknown \<Rightarrow> ConfigItem \<Rightarrow> 'w \<Rightarrow> 'w result" where
  "ConfigItem_internalBinaryWrite W options message = seqW
     [whenW (ConfigItem_key message \<noteq> []) (tagString W 1 (ConfigItem_key message)),
      whenW (ConfigItem_jsonValue message \<noteq> []) (tagString W 2 (ConfigItem_jsonValue message)),
      whenW (ConfigItem_deleted message \<noteq> False) (tagBool W 3 (ConfigItem_deleted message)),
      whenW (ConfigItem_updatedAt message \<noteq> []) (tagString W 4 (ConfigItem_updatedAt message)),
      writeUnknown W options ''pgapp.v1.ConfigItem'' message]"

definition ConfigItem_encode :: "encoding \<Rightarrow> ConfigItem \<Rightarrow> bytes" where
  "ConfigItem_encode E message =
     encString E 1 (ConfigItem_key message) @
     encString E 2 (ConfigItem_jsonValue message) @
     encBool E 3 (ConfigItem_deleted message) @
     encString E 4 (ConfigItem_updatedAt message) @
     encUnknown E message"

definition ConfigItem_ok :: "(wire_type \<Rightarrow> bytes \<Rightarrow> bool) \<Rightarrow> ConfigItem \<Rightarrow> bool" where
  "ConfigItem_ok payload message \<longleftrightarrow>
     unknown_ok payload 4 message"

subsection \<open>ConfigRelease\<close>

record ConfigRelease = message +
  ConfigRelease_scope :: "ConfigScope option"
  ConfigRelease_revision :: string
  ConfigRelease_checksum :: string
  ConfigRelease_snapshotJson :: string
  ConfigRelease_message :: string
  ConfigRelease_publishedBy :: string
  ConfigRelease_publishedAt :: string

definition ConfigRelease_create :: ConfigRelease where
  "ConfigRelease_create = \<lparr>unknownFields = [],
     ConfigRelease_scope = None,
     ConfigRelease_revision = ''0'',
     ConfigRelease_checksum = [],
     ConfigRelease_snapshotJson = [],
     ConfigRelease_message = [],
     ConfigRelease_publishedBy = [],
     ConfigRelease_publishedAt = []\<rparr>"

definition ConfigRelease_field ::
  "'r reader \<Rightarrow> read_unknown \<Rightarrow> nat \<Rightarrow> wire_type \<Rightarrow> ConfigRelease \<Rightarrow> 'r \<Rightarrow> (ConfigRelease \<times> 'r) comp" where
  "ConfigRelease_field R options fieldNo wireType message =
     (if fieldNo = 1 then setOptMessage R (ConfigScope_internalBinaryRead R options) (ConfigRelease_scope message)
            (\<lambda>v m. m\<lparr>ConfigRelease_scope := v\<rparr>) message
      else if fieldNo = 2 then setLong (r_int64 R) (\<lambda>v m. m\<lparr>ConfigRelease_revision := v\<rparr>) message
      else if fieldNo = 3 then setField (r_string R) (\<lambda>v m. m\<lparr>ConfigRelease_checksum := v\<rparr>) message
      else if fieldNo = 4 then setField (r_string R) (\<lambda>v m. m\<lparr>ConfigRelease_snapshotJson := v\<rparr>) message
      else if fieldNo = 5 then setField (r_string R) (\<lambda>v m. m\<lparr>ConfigRelease_message := v\<rparr>) message
      else if fieldNo = 6 then setField (r_string R) (\<lambda>v m. m\<lparr>ConfigRelease_publishedBy := v\<rparr>) message
      else if fieldNo = 7 then setField (r_string R) (\<lambda>v m. m\<lparr>ConfigRelease_publishedAt := v\<rparr>) message
      else readUnknown R options ''pgapp.v1.ConfigRelease'' fieldNo wireType message)"

definition ConfigRelease_internalBinaryRead ::
  "'r reader \<Rightarrow> read_unknown \<Rightarrow> 'r \<Rightarrow> nat \<Rightarrow> ConfigRelease option \<Rightarrow> (ConfigRelease \<times> 'r) comp" where
  "ConfigRelease_internalBinaryRead R options =
     readMessage R (ConfigRelease_field R options) ConfigRelease_create"

definition ConfigRelease_internalBinaryWrite ::
  "'w writer \<Rightarrow> 'w write_unknown \<Rightarrow> ConfigRelease \<Rightarrow> 'w \<Rightarrow> 'w result" where
  "ConfigRelease_internalBinaryWrite W options message = seqW
     [whenSome (ConfigRelease_scope message) (\<lambda>v. tagMessage W 1 (ConfigScope_internalBinaryWrite W options v)),
      whenW (ConfigRelease_revision message \<noteq> ''0'') (tagInt64 W 2 (ConfigRelease_revision message)),
      whenW (ConfigRelease_checksum message \<noteq> []) (tagString W 3 (ConfigRelease_checksum message)),
      whenW (ConfigRelease_snapshotJson message \<noteq> []) (tagString W 4 (ConfigRelease_snapshotJson message)),
      whenW (ConfigRelease_message message \<noteq> []) (tagString W 5 (ConfigRelease_message message)),
      whenW (ConfigRelease_publishedBy message \<noteq> []) (tagString W 6 (ConfigRelease_publishedBy message)),
      whenW (ConfigRelease_publishedAt message \<noteq> []) (tagString W 7 (ConfigRelease_publishedAt message)),
      writeUnknown W options ''pgapp.v1.ConfigRelease'' message]"

definition ConfigRelease_encode :: "encoding \<Rightarrow> ConfigRelease \<Rightarrow> bytes" where
  "ConfigRelease_encode E message =
     encOption (\<lambda>v. encMessage E 1 (ConfigScope_encode E v)) (ConfigRelease_scope message) @
     encInt64 E 2 (ConfigRelease_revision message) @
     encString E 3 (ConfigRelease_checksum message) @
     encString E 4 (ConfigRelease_snapshotJson message) @
     encString E 5 (ConfigRelease_message message) @
     encString E 6 (ConfigRelease_publishedBy message) @
     encString E 7 (ConfigRelease_publishedAt message) @
     encUnknown E message"

definition ConfigRelease_ok :: "(wire_type \<Rightarrow> bytes \<Rightarrow> bool) \<Rightarrow> ConfigRelease \<Rightarrow> bool" where
  "ConfigRelease_ok payload message \<longleftrightarrow>
     unknown_ok payload 7 message \<and>
     pred_option (ConfigScope_ok payload) (ConfigRelease_scope message) \<and>
     int64_ok (ConfigRelease_revision message)"

subsection \<open>ListConfigScopesRequest\<close>

record ListConfigScopesRequest = message +
  ListConfigScopesRequest_limit :: js_number
  ListConfigScopesRequest_offset :: string

definition ListConfigScopesRequest_create :: ListConfigScopesRequest where
  "ListConfigScopesRequest_create = \<lparr>unknownFields = [], ListConfigScopesRequest_limit = IntNum 0, ListConfigScopesRequest_offset = ''0''\<rparr>"

definition ListConfigScopesRequest_field ::
  "'r reader \<Rightarrow> read_unknown \<Rightarrow> nat \<Rightarrow> wire_type \<Rightarrow> ListConfigScopesRequest \<Rightarrow> 'r \<Rightarrow> (ListConfigScopesRequest \<times> 'r) comp" where
  "ListConfigScopesRequest_field R options fieldNo wireType message =
     (if fieldNo = 1 then setNumber (r_int32 R) (\<lambda>v m. m\<lparr>ListConfigScopesRequest_limit := v\<rparr>) message
      else if fieldNo = 2 then setLong (r_int64 R) (\<lambda>v m. m\<lparr>ListConfigScopesRequest_offset := v\<rparr>) message
      else readUnknown R options ''pgapp.v1.ListConfigScopesRequest'' fieldNo wireType message)"

definition ListConfigScopesRequest_internalBinaryRead ::
  "'r reader \<Rightarrow> read_unknown \<Rightarrow> 'r \<Rightarrow> nat \<Rightarrow> ListConfigScopesRequest option \<Rightarrow> (ListConfigScopesRequest \<times> 'r) comp" where
  "ListConfigScopesRequest_internalBinaryRead R options =
     readMessage R (ListConfigScopesRequest_field R options) ListConfigScopesRequest_create"

definition ListConfigScopesRequest_internalBinaryWrite ::
  "'w writer \<Rightarrow> 'w write_unknown \<Rightarrow> ListConfigScopesRequest \<Rightarrow> 'w \<Rightarrow> 'w result" where
  "ListConfigScopesRequest_internalBinaryWrite W options message = seqW
     [whenW (ListConfigScopesRequest_limit message \<noteq> IntNum 0) (tagInt32 W 1 (ListConfigScopesRequest_limit message)),
      whenW (ListConfigScopesRequest_offset message \<noteq> ''0'') (tagInt64 W 2 (ListConfigScopesRequest_offset message)),
      writeUnknown W options ''pgapp.v1.ListConfigScopesRequest'' message]"

definition ListConfigScopesRequest_encode :: "encoding \<Rightarrow> ListConfigScopesRequest \<Rightarrow> bytes" where
  "ListConfigScopesRequest_encode E message =
     encInt32 E 1 (ListConfigScopesRequest_limit message) @
     encInt64 E 2 (ListConfigScopesRequest_offset message) @
     encUnknown E message"

definition ListConfigScopesRequest_ok :: "(wire_type \<Rightarrow> bytes \<Rightarrow> bool) \<Rightarrow> ListConfigScopesRequest \<Rightarrow> bool" where
  "ListConfigScopesRequest_ok payload message \<longleftrightarrow>
     unknown_ok payload 2 message \<and>
     int32_ok (ListConfigScopesRequest_limit message) \<and>
     int64_ok (ListConfigScopesRequest_offset message)"

subsection \<open>ConfigScopeSummary\<close>

record ConfigScopeSummary = message +
  ConfigScopeSummary_scope :: "ConfigScope option"
  ConfigScopeSummary_currentRevision :: string
  ConfigScopeSummary_createdAt :: string
  ConfigScopeSummary_updatedAt :: string

definition ConfigScopeSummary_create :: ConfigScopeSummary where
  "ConfigScopeSummary_create = \<lparr>unknownFields = [],
     ConfigScopeSummary_scope = None,
     ConfigScopeSummary_currentRevision = ''0'',
     ConfigScopeSummary_createdAt = [],
     ConfigScopeSummary_updatedAt = []\<rparr>"

definition ConfigScopeSummary_field ::
  "'r reader \<Rightarrow> read_unknown \<Rightarrow> nat \<Rightarrow> wire_type \<Rightarrow> ConfigScopeSummary \<Rightarrow> 'r \<Rightarrow> (ConfigScopeSummary \<times> 'r) comp" where
  "ConfigScopeSummary_field R options fieldNo wireType message =
     (if fieldNo = 1 then setOptMessage R (ConfigScope_internalBinaryRead R options) (ConfigScopeSummary_scope message)
            (\<lambda>v m. m\<lparr>ConfigScopeSummary_scope := v\<rparr>) message
      else if fieldNo = 2 then setLong (r_int64 R) (\<lambda>v m. m\<lparr>ConfigScopeSummary_currentRevision := v\<rparr>) message
      else if fieldNo = 3 then setField (r_string R) (\<lambda>v m. m\<lparr>ConfigScopeSummary_createdAt := v\<rparr>) message
      else if fieldNo = 4 then setField (r_string R) (\<lambda>v m. m\<lparr>ConfigScopeSummary_updatedAt := v\<rparr>) message
      else readUnknown R options ''pgapp.v1.ConfigScopeSummary'' fieldNo wireType message)"

definition ConfigScopeSummary_internalBinaryRead ::
  "'r reader \<Rightarrow> read_unknown \<Rightarrow> 'r \<Rightarrow> nat \<Rightarrow> ConfigScopeSummary option \<Rightarrow> (ConfigScopeSummary \<times> 'r) comp" where
  "ConfigScopeSummary_internalBinaryRead R options =
     readMessage R (ConfigScopeSummary_field R options) ConfigScopeSummary_create"

definition ConfigScopeSummary_internalBinaryWrite ::
  "'w writer \<Rightarrow> 'w write_unknown \<Rightarrow> ConfigScopeSummary \<Rightarrow> 'w \<Rightarrow> 'w result" where
  "ConfigScopeSummary_internalBinaryWrite W options message = seqW
     [whenSome (ConfigScopeSummary_scope message) (\<lambda>v. tagMessage W 1 (ConfigScope_internalBinaryWrite W options v)),
      whenW (ConfigScopeSummary_currentRevision message \<noteq> ''0'') (tagInt64 W 2 (ConfigScopeSummary_currentRevision message)),
      whenW (ConfigScopeSummary_createdAt message \<noteq> []) (tagString W 3 (ConfigScopeSummary_createdAt message)),
      whenW (ConfigScopeSummary_updatedAt message \<noteq> []) (tagString W 4 (ConfigScopeSummary_updatedAt message)),
      writeUnknown W options ''pgapp.v1.ConfigScopeSummary'' message]"

definition ConfigScopeSummary_encode :: "encoding \<Rightarrow> ConfigScopeSummary \<Rightarrow> bytes" where
  "ConfigScopeSummary_encode E message =
     encOption (\<lambda>v. encMessage E 1 (ConfigScope_encode E v)) (ConfigScopeSummary_scope message) @
     encInt64 E 2 (ConfigScopeSummary_currentRevision message) @
     encString E 3 (ConfigScopeSummary_createdAt message) @
     encString E 4 (ConfigScopeSummary_updatedAt message) @
     encUnknown E message"

definition ConfigScopeSummary_ok :: "(wire_type \<Rightarrow> bytes \<Rightarrow> bool) \<Rightarrow> ConfigScopeSummary \<Rightarrow> bool" where
  "ConfigScopeSummary_ok payload message \<longleftrightarrow>
     unknown_ok payload 4 message \<and>
     pred_option (ConfigScope_ok payload) (ConfigScopeSummary_scope message) \<and>
     int64_ok (ConfigScopeSummary_currentRevision message)"

subsection \<open>ListConfigScopesResponse\<close>

record ListConfigScopesResponse = message +
  ListConfigScopesResponse_scopes :: "ConfigScopeSummary list"
  ListConfigScopesResponse_nextOffset :: string

definition ListConfigScopesResponse_create :: ListConfigScopesResponse where
  "ListConfigScopesResponse_create = \<lparr>unknownFields = [], ListConfigScopesResponse_scopes = [], ListConfigScopesResponse_nextOffset = ''0''\<rparr>"

definition ListConfigScopesResponse_field ::
  "'r reader \<Rightarrow> read_unknown \<Rightarrow> nat \<Rightarrow> wire_type \<Rightarrow> ListConfigScopesResponse \<Rightarrow> 'r \<Rightarrow> (ListConfigScopesResponse \<times> 'r) comp" where
  "ListConfigScopesResponse_field R options fieldNo wireType message =
     (if fieldNo = 1 then pushMessage R (ConfigScopeSummary_internalBinaryRead R options) ListConfigScopesResponse_scopes_update message
      else if fieldNo = 2 then setLong (r_int64 R) (\<lambda>v m. m\<lparr>ListConfigScopesResponse_nextOffset := v\<rparr>) message
      else readUnknown R options ''pgapp.v1.ListConfigScopesResponse'' fieldNo wireType message)"

definition ListConfigScopesResponse_internalBinaryRead ::
  "'r reader \<Rightarrow> read_unknown \<Rightarrow> 'r \<Rightarrow> nat \<Rightarrow> ListConfigScopesResponse option \<Rightarrow> (ListConfigScopesResponse \<times> 'r) comp" where
  "ListConfigScopesResponse_internalBinaryRead R options =
     readMessage R (ListConfigScopesResponse_field R options) ListConfigScopesResponse_create"

definition ListConfigScopesResponse_internalBinaryWrite ::
  "'w writer \<Rightarrow> 'w write_unknown \<Rightarrow> ListConfigScopesResponse \<Rightarrow> 'w \<Rightarrow> 'w result" where
  "ListConfigScopesResponse_internalBinaryWrite W options message = seqW
     [forW (\<lambda>v. tagMessage W 1 (ConfigScopeSummary_internalBinaryWrite W options v)) (ListConfigScopesResponse_scopes message),
      whenW (ListConfigScopesResponse_nextOffset message \<noteq> ''0'') (tagInt64 W 2 (ListConfigScopesResponse_nextOffset message)),
      writeUnknown W options ''pgapp.v1.ListConfigScopesResponse'' message]"

definition ListConfigScopesResponse_encode :: "encoding \<Rightarrow> ListConfigScopesResponse \<Rightarrow> bytes" where
  "ListConfigScopesResponse_encode E message =
     encRepeated (\<lambda>v. encMessage E 1 (ConfigScopeSummary_encode E v)) (ListConfigScopesResponse_scopes message) @
     encInt64 E 2 (ListConfigScopesResponse_nextOffset message) @
     encUnknown E message"

definition ListConfigScopesResponse_ok :: "(wire_type \<Rightarrow> bytes \<Rightarrow> bool) \<Rightarrow> ListConfigScopesResponse \<Rightarrow> bool" where
  "ListConfigScopesResponse_ok payload message \<longleftrightarrow>
     unknown_ok payload 2 message \<and>
     list_all (ConfigScopeSummary_ok payload) (ListConfigScopesResponse_scopes message) \<and>
     int64_ok (ListConfigScopesResponse_nextOffset message)"

subsection \<open>UpsertConfigItemRequest\<close>

record UpsertConfigItemRequest = message +
  UpsertConfigItemRequest_scope :: "ConfigScope option"
  UpsertConfigItemRequest_key :: string
  UpsertConfigItemRequest_jsonValue :: string

definition UpsertConfigItemRequest_create :: UpsertConfigItemRequest where
  "UpsertConfigItemRequest_create = \<lparr>unknownFields = [], UpsertConfigItemRequest_scope = None, UpsertConfigItemRequest_key = [], UpsertConfigItemRequest_jsonValue = []\<rparr>"

definition UpsertConfigItemRequest_field ::
  "'r reader \<Rightarrow> read_unknown \<Rightarrow> nat \<Rightarrow> wire_type \<Rightarrow> UpsertConfigItemRequest \<Rightarrow> 'r \<Rightarrow> (UpsertConfigItemRequest \<times> 'r) comp" where
  "UpsertConfigItemRequest_field R options fieldNo wireType message =
     (if fieldNo = 1 then setOptMessage R (ConfigScope_internalBinaryRead R options) (UpsertConfigItemRequest_scope message)
            (\<lambda>v m. m\<lparr>UpsertConfigItemRequest_scope := v\<rparr>) message
      else if fieldNo = 2 then setField (r_string R) (\<lambda>v m. m\<lparr>UpsertConfigItemRequest_key := v\<rparr>) message
      else if fieldNo = 3 then setField (r_string R) (\<lambda>v m. m\<lparr>UpsertConfigItemRequest_jsonValue := v\<rparr>) message
      else readUnknown R options ''pgapp.v1.UpsertConfigItemRequest'' fieldNo wireType message)"

definition UpsertConfigItemRequest_internalBinaryRead ::
  "'r reader \<Rightarrow> read_unknown \<Rightarrow> 'r \<Rightarrow> nat \<Rightarrow> UpsertConfigItemRequest option \<Rightarrow> (UpsertConfigItemRequest \<times> 'r) comp" where
  "UpsertConfigItemRequest_internalBinaryRead R options =
     readMessage R (UpsertConfigItemRequest_field R options) UpsertConfigItemRequest_create"

definition UpsertConfigItemRequest_internalBinaryWrite ::
  "'w writer \<Rightarrow> 'w write_unknown \<Rightarrow> UpsertConfigItemRequest \<Rightarrow> 'w \<Rightarrow> 'w result" where
  "UpsertConfigItemRequest_internalBinaryWrite W options message = seqW
     [whenSome (UpsertConfigItemRequest_scope message) (\<lambda>v. tagMessage W 1 (ConfigScope_internalBinaryWrite W options v)),
      whenW (UpsertConfigItemRequest_key message \<noteq> []) (tagString W 2 (UpsertConfigItemRequest_key message)),
      whenW (UpsertConfigItemRequest_jsonValue message \<noteq> []) (tagString W 3 (UpsertConfigItemRequest_jsonValue message)),
      writeUnknown W options ''pgapp.v1.UpsertConfigItemRequest'' message]"

definition UpsertConfigItemRequest_encode :: "encoding \<Rightarrow> UpsertConfigItemRequest \<Rightarrow> bytes" where
  "UpsertConfigItemRequest_encode E message =
     encOption (\<lambda>v. encMessage E 1 (ConfigScope_encode E v)) (UpsertConfigItemRequest_scope message) @
     encString E 2 (UpsertConfigItemRequest_key message) @
     encString E 3 (UpsertConfigItemRequest_jsonValue message) @
     encUnknown E message"

definition UpsertConfigItemRequest_ok :: "(wire_type \<Rightarrow> bytes \<Rightarrow> bool) \<Rightarrow> UpsertConfigItemRequest \<Rightarrow> bool" where
  "UpsertConfigItemRequest_ok payload message \<longleftrightarrow>
     unknown_ok payload 3 message \<and>
     pred_option (ConfigScope_ok payload) (UpsertConfigItemRequest_scope message)"

subsection \<open>DeleteConfigItemRequest\<close>

record DeleteConfigItemRequest = message +
  DeleteConfigItemRequest_scope :: "ConfigScope option"
  DeleteConfigItemRequest_key :: string

definition DeleteConfigItemRequest_create :: DeleteConfigItemRequest where
  "DeleteConfigItemRequest_create = \<lparr>unknownFields = [], DeleteConfigItemRequest_scope = None, DeleteConfigItemRequest_key = []\<rparr>"

definition DeleteConfigItemRequest_field ::
  "'r reader \<Rightarrow> read_unknown \<Rightarrow> nat \<Rightarrow> wire_type \<Rightarrow> DeleteConfigItemRequest \<Rightarrow> 'r \<Rightarrow> (DeleteConfigItemRequest \<times> 'r) comp" where
  "DeleteConfigItemRequest_field R options fieldNo wireType message =
     (if fieldNo = 1 then setOptMessage R (ConfigScope_internalBinaryRead R options) (DeleteConfigItemRequest_scope message)
            (\<lambda>v m. m\<lparr>DeleteConfigItemRequest_scope := v\<rparr>) message
      else if fieldNo = 2 then setField (r_string R) (\<lambda>v m. m\<lparr>DeleteConfigItemRequest_key := v\<rparr>) message
      else readUnknown R options ''pgapp.v1.DeleteConfigItemRequest'' fieldNo wireType message)"

definition DeleteConfigItemRequest_internalBinaryRead ::
  "'r reader \<Rightarrow> read_unknown \<Rightarrow> 'r \<Rightarrow> nat \<Rightarrow> DeleteConfigItemRequest option \<Rightarrow> (DeleteConfigItemRequest \<times> 'r) comp" where
  "DeleteConfigItemRequest_internalBinaryRead R options =
     readMessage R (DeleteConfigItemRequest_field R options) DeleteConfigItemRequest_create"

definition DeleteConfigItemRequest_internalBinaryWrite ::
  "'w writer \<Rightarrow> 'w write_unknown \<Rightarrow> DeleteConfigItemRequest \<Rightarrow> 'w \<Rightarrow> 'w result" where
  "DeleteConfigItemRequest_internalBinaryWrite W options message = seqW
     [whenSome (DeleteConfigItemRequest_scope message) (\<lambda>v. tagMessage W 1 (ConfigScope_internalBinaryWrite W options v)),
      whenW (DeleteConfigItemRequest_key message \<noteq> []) (tagString W 2 (DeleteConfigItemRequest_key message)),
      writeUnknown W options ''pgapp.v1.DeleteConfigItemRequest'' message]"

definition DeleteConfigItemRequest_encode :: "encoding \<Rightarrow> DeleteConfigItemRequest \<Rightarrow> bytes" where
  "DeleteConfigItemRequest_encode E message =
     encOption (\<lambda>v. encMessage E 1 (ConfigScope_encode E v)) (DeleteConfigItemRequest_scope message) @
     encString E 2 (DeleteConfigItemRequest_key message) @
     encUnknown E message"

definition DeleteConfigItemRequest_ok :: "(wire_type \<Rightarrow> bytes \<Rightarrow> bool) \<Rightarrow> DeleteConfigItemRequest \<Rightarrow> bool" where
  "DeleteConfigItemRequest_ok payload message \<longleftrightarrow>
     unknown_ok payload 2 message \<and>
     pred_option (ConfigScope_ok payload) (DeleteConfigItemRequest_scope message)"

subsection \<open>GetConfigDraftRequest\<close>

record GetConfigDraftRequest = message +
  GetConfigDraftRequest_scope :: "ConfigScope option"

definition GetConfigDraftRequest_create :: GetConfigDraftRequest where
  "GetConfigDraftRequest_create = \<lparr>unknownFields = [], GetConfigDraftRequest_scope = None\<rparr>"

definition GetConfigDraftRequest_field ::
  "'r reader \<Rightarrow> read_unknown \<Rightarrow> nat \<Rightarrow> wire_type \<Rightarrow> GetConfigDraftRequest \<Rightarrow> 'r \<Rightarrow> (GetConfigDraftRequest \<times> 'r) comp" where
  "GetConfigDraftRequest_field R options fieldNo wireType message =
     (if fieldNo = 1 then setOptMessage R (ConfigScope_internalBinaryRead R options) (GetConfigDraftRequest_scope message)
            (\<lambda>v m. m\<lparr>GetConfigDraftRequest_scope := v\<rparr>) message
      else readUnknown R options ''pgapp.v1.GetConfigDraftRequest'' fieldNo wireType message)"

definition GetConfigDraftRequest_internalBinaryRead ::
  "'r reader \<Rightarrow> read_unknown \<Rightarrow> 'r \<Rightarrow> nat \<Rightarrow> GetConfigDraftRequest option \<Rightarrow> (GetConfigDraftRequest \<times> 'r) comp" where
  "GetConfigDraftRequest_internalBinaryRead R options =
     readMessage R (GetConfigDraftRequest_field R options) GetConfigDraftRequest_create"

definition GetConfigDraftRequest_internalBinaryWrite ::
  "'w writer \<Rightarrow> 'w write_unknown \<Rightarrow> GetConfigDraftRequest \<Rightarrow> 'w \<Rightarrow> 'w result" where
  "GetConfigDraftRequest_internalBinaryWrite W options message = seqW
     [whenSome (GetConfigDraftRequest_scope message) (\<lambda>v. tagMessage W 1 (ConfigScope_internalBinaryWrite W options v)),
      writeUnknown W options ''pgapp.v1.GetConfigDraftRequest'' message]"

definition GetConfigDraftRequest_encode :: "encoding \<Rightarrow> GetConfigDraftRequest \<Rightarrow> bytes" where
  "GetConfigDraftRequest_encode E message =
     encOption (\<lambda>v. encMessage E 1 (ConfigScope_encode E v)) (GetConfigDraftRequest_scope message) @
     encUnknown E message"

definition GetConfigDraftRequest_ok :: "(wire_type \<Rightarrow> bytes \<Rightarrow> bool) \<Rightarrow> GetConfigDraftRequest \<Rightarrow> bool" where
  "GetConfigDraftRequest_ok payload message \<longleftrightarrow>
     unknown_ok payload 1 message \<and>
     pred_option (ConfigScope_ok payload) (GetConfigDraftRequest_scope message)"

subsection \<open>ConfigDraftResponse\<close>

record ConfigDraftResponse = message +
  ConfigDraftResponse_scope :: "ConfigScope option"
  ConfigDraftResponse_items :: "ConfigItem list"

definition ConfigDraftResponse_create :: ConfigDraftResponse where
  "ConfigDraftResponse_create = \<lparr>unknownFields = [], ConfigDraftResponse_scope = None, ConfigDraftResponse_items = []\<rparr>"

definition ConfigDraftResponse_field ::
  "'r reader \<Rightarrow> read_unknown \<Rightarrow> nat \<Rightarrow> wire_type \<Rightarrow> ConfigDraftResponse \<Rightarrow> 'r \<Rightarrow> (ConfigDraftResponse \<times> 'r) comp" where
  "ConfigDraftResponse_field R options fieldNo wireType message =
     (if fieldNo = 1 then setOptMessage R (ConfigScope_internalBinaryRead R options) (ConfigDraftResponse_scope message)
            (\<lambda>v m. m\<lparr>ConfigDraftResponse_scope := v\<rparr>) message
      else if fieldNo = 2 then pushMessage R (ConfigItem_internalBinaryRead R options) ConfigDraftResponse_items_update message
      else readUnknown R options ''pgapp.v1.ConfigDraftResponse'' fieldNo wireType message)"

definition ConfigDraftResponse_internalBinaryRead ::
  "'r reader \<Rightarrow> read_unknown \<Rightarrow> 'r \<Rightarrow> nat \<Rightarrow> ConfigDraftResponse option \<Rightarrow> (ConfigDraftResponse \<times> 'r) comp" where
  "ConfigDraftResponse_internalBinaryRead R options =
     readMessage R (ConfigDraftResponse_field R options) ConfigDraftResponse_create"

definition ConfigDraftResponse_internalBinaryWrite ::
  "'w writer \<Rightarrow> 'w write_unknown \<Rightarrow> ConfigDraftResponse \<Rightarrow> 'w \<Rightarrow> 'w result" where
  "ConfigDraftResponse_internalBinaryWrite W options message = seqW
     [whenSome (ConfigDraftResponse_scope message) (\<lambda>v. tagMessage W 1 (ConfigScope_internalBinaryWrite W options v)),
      forW (\<lambda>v. tagMessage W 2 (ConfigItem_internalBinaryWrite W options v)) (ConfigDraftResponse_items message),
      writeUnknown W options ''pgapp.v1.ConfigDraftResponse'' message]"

definition ConfigDraftResponse_encode :: "encoding \<Rightarrow> ConfigDraftResponse \<Rightarrow> bytes" where
  "ConfigDraftResponse_encode E message =
     encOption (\<lambda>v. encMessage E 1 (ConfigScope_encode E v)) (ConfigDraftResponse_scope message) @
     encRepeated (\<lambda>v. encMessage E 2 (ConfigItem_encode E v)) (ConfigDraftResponse_items message) @
     encUnknown E message"

definition ConfigDraftResponse_ok :: "(wire_type \<Rightarrow> bytes \<Rightarrow> bool) \<Rightarrow> ConfigDraftResponse \<Rightarrow> bool" where
  "ConfigDraftResponse_ok payload message \<longleftrightarrow>
     unknown_ok payload 2 message \<and>
     pred_option (ConfigScope_ok payload) (ConfigDraftResponse_scope message) \<and>
     list_all (ConfigItem_ok payload) (ConfigDraftResponse_items message)"

subsection \<open>PublishConfigRequest\<close>

record PublishConfigRequest = message +
  PublishConfigRequest_scope :: "ConfigScope option"
  PublishConfigRequest_message :: string
  PublishConfigRequest_publishedBy :: string

definition PublishConfigRequest_create :: PublishConfigRequest where
  "PublishConfigRequest_create = \<lparr>unknownFields = [], PublishConfigRequest_scope = None, PublishConfigRequest_message = [], PublishConfigRequest_publishedBy = []\<rparr>"

definition PublishConfigRequest_field ::
  "'r reader \<Rightarrow> read_unknown \<Rightarrow> nat \<Rightarrow> wire_type \<Rightarrow> PublishConfigRequest \<Rightarrow> 'r \<Rightarrow> (PublishConfigRequest \<times> 'r) comp" where
  "PublishConfigRequest_field R options fieldNo wireType message =
     (if fieldNo = 1 then setOptMessage R (ConfigScope_internalBinaryRead R options) (PublishConfigRequest_scope message)
            (\<lambda>v m. m\<lparr>PublishConfigRequest_scope := v\<rparr>) message
      else if fieldNo = 2 then setField (r_string R) (\<lambda>v m. m\<lparr>PublishConfigRequest_message := v\<rparr>) message
      else if fieldNo = 3 then setField (r_string R) (\<lambda>v m. m\<lparr>PublishConfigRequest_publishedBy := v\<rparr>) message
      else readUnknown R options ''pgapp.v1.PublishConfigRequest'' fieldNo wireType message)"

definition PublishConfigRequest_internalBinaryRead ::
  "'r reader \<Rightarrow> read_unknown \<Rightarrow> 'r \<Rightarrow> nat \<Rightarrow> PublishConfigRequest option \<Rightarrow> (PublishConfigRequest \<times> 'r) comp" where
  "PublishConfigRequest_internalBinaryRead R options =
     readMessage R (PublishConfigRequest_field R options) PublishConfigRequest_create"

definition PublishConfigRequest_internalBinaryWrite ::
  "'w writer \<Rightarrow> 'w write_unknown \<Rightarrow> PublishConfigRequest \<Rightarrow> 'w \<Rightarrow> 'w result" where
  "PublishConfigRequest_internalBinaryWrite W options message = seqW
     [whenSome (PublishConfigRequest_scope message) (\<lambda>v. tagMessage W 1 (ConfigScope_internalBinaryWrite W options v)),
      whenW (PublishConfigRequest_message message \<noteq> []) (tagString W 2 (PublishConfigRequest_message message)),
      whenW (PublishConfigRequest_publishedBy message \<noteq> []) (tagString W 3 (PublishConfigRequest_publishedBy message)),
      writeUnknown W options ''pgapp.v1.PublishConfigRequest'' message]"

definition PublishConfigRequest_encode :: "encoding \<Rightarrow> PublishConfigRequest \<Rightarrow> bytes" where
  "PublishConfigRequest_encode E message =
     encOption (\<lambda>v. encMessage E 1 (ConfigScope_encode E v)) (PublishConfigRequest_scope message) @
     encString E 2 (PublishConfigRequest_message message) @
     encString E 3 (PublishConfigRequest_publishedBy message) @
     encUnknown E message"

definition PublishConfigRequest_ok :: "(wire_type \<Rightarrow> bytes \<Rightarrow> bool) \<Rightarrow> PublishConfigRequest \<Rightarrow> bool" where
  "PublishConfigRequest_ok payload message \<longleftrightarrow>
     unknown_ok payload 3 message \<and>
     pred_option (ConfigScope_ok payload) (PublishConfigRequest_scope message)"

subsection \<open>GetConfigReleaseRequest\<close>

record GetConfigReleaseRequest = message +
  GetConfigReleaseRequest_scope :: "ConfigScope option"
  GetConfigReleaseRequest_revision :: string

definition GetConfigReleaseRequest_create :: GetConfigReleaseRequest where
  "GetConfigReleaseRequest_create = \<lparr>unknownFields = [], GetConfigReleaseRequest_scope = None, GetConfigReleaseRequest_revision = ''0''\<rparr>"

definition GetConfigReleaseRequest_field ::
  "'r reader \<Rightarrow> read_unknown \<Rightarrow> nat \<Rightarrow> wire_type \<Rightarrow> GetConfigReleaseRequest \<Rightarrow> 'r \<Rightarrow> (GetConfigReleaseRequest \<times> 'r) comp" where
  "GetConfigReleaseRequest_field R options fieldNo wireType message =
     (if fieldNo = 1 then setOptMessage R (ConfigScope_internalBinaryRead R options) (GetConfigReleaseRequest_scope message)
            (\<lambda>v m. m\<lparr>GetConfigReleaseRequest_scope := v\<rparr>) message
      else if fieldNo = 2 then setLong (r_int64 R) (\<lambda>v m. m\<lparr>GetConfigReleaseRequest_revision := v\<rparr>) message
      else readUnknown R options ''pgapp.v1.GetConfigReleaseRequest'' fieldNo wireType message)"

definition GetConfigReleaseRequest_internalBinaryRead ::
  "'r reader \<Rightarrow> read_unknown \<Rightarrow> 'r \<Rightarrow> nat \<Rightarrow> GetConfigReleaseRequest option \<Rightarrow> (GetConfigReleaseRequest \<times> 'r) comp" where
  "GetConfigReleaseRequest_internalBinaryRead R options =
     readMessage R (GetConfigReleaseRequest_field R options) GetConfigReleaseRequest_create"

definition GetConfigReleaseRequest_internalBinaryWrite ::
  "'w writer \<Rightarrow> 'w write_unknown \<Rightarrow> GetConfigReleaseRequest \<Rightarrow> 'w \<Rightarrow> 'w result" where
  "GetConfigReleaseRequest_internalBinaryWrite W options message = seqW
     [whenSome (GetConfigReleaseRequest_scope message) (\<lambda>v. tagMessage W 1 (ConfigScope_internalBinaryWrite W options v)),
      whenW (GetConfigReleaseRequest_revision message \<noteq> ''0'') (tagInt64 W 2 (GetConfigReleaseRequest_revision message)),
      writeUnknown W options ''pgapp.v1.GetConfigReleaseRequest'' message]"

definition GetConfigReleaseRequest_encode :: "encoding \<Rightarrow> GetConfigReleaseRequest \<Rightarrow> bytes" where
  "GetConfigReleaseRequest_encode E message =
     encOption (\<lambda>v. encMessage E 1 (ConfigScope_encode E v)) (GetConfigReleaseRequest_scope message) @
     encInt64 E 2 (GetConfigReleaseRequest_revision message) @
     encUnknown E message"

definition GetConfigReleaseRequest_ok :: "(wire_type \<Rightarrow> bytes \<Rightarrow> bool) \<Rightarrow> GetConfigReleaseRequest \<Rightarrow> bool" where
  "GetConfigReleaseRequest_ok payload message \<longleftrightarrow>
     unknown_ok payload 2 message \<and>
     pred_option (ConfigScope_ok payload) (GetConfigReleaseRequest_scope message) \<and>
     int64_ok (GetConfigReleaseRequest_revision message)"

subsection \<open>ListConfigReleasesRequest\<close>

record ListConfigReleasesRequest = message +
  ListConfigReleasesRequest_scope :: "ConfigScope option"
  ListConfigReleasesRequest_limit :: js_number
  ListConfigReleasesRequest_offset :: string

definition ListConfigReleasesRequest_create :: ListConfigReleasesRequest where
  "ListConfigReleasesRequest_create = \<lparr>unknownFields = [], ListConfigReleasesRequest_scope = None, ListConfigReleasesRequest_limit = IntNum 0, ListConfigReleasesRequest_offset = ''0''\<rparr>"

definition ListConfigReleasesRequest_field ::
  "'r reader \<Rightarrow> read_unknown \<Rightarrow> nat \<Rightarrow> wire_type \<Rightarrow> ListConfigReleasesRequest \<Rightarrow> 'r \<Rightarrow> (ListConfigReleasesRequest \<times> 'r) comp" where
  "ListConfigReleasesRequest_field R options fieldNo wireType message =
     (if fieldNo = 1 then setOptMessage R (ConfigScope_internalBinaryRead R options) (ListConfigReleasesRequest_scope message)
            (\<lambda>v m. m\<lparr>ListConfigReleasesRequest_scope := v\<rparr>) message
      else if fieldNo = 2 then setNumber (r_int32 R) (\<lambda>v m. m\<lparr>ListConfigReleasesRequest_limit := v\<rparr>) message
      else if fieldNo = 3 then setLong (r_int64 R) (\<lambda>v m. m\<lparr>ListConfigReleasesRequest_offset := v\<rparr>) message
      else readUnknown R options ''pgapp.v1.ListConfigReleasesRequest'' fieldNo wireType message)"

definition ListConfigReleasesRequest_internalBinaryRead ::
  "'r reader \<Rightarrow> read_unknown \<Rightarrow> 'r \<Rightarrow> nat \<Rightarrow> ListConfigReleasesRequest option \<Rightarrow> (ListConfigReleasesRequest \<times> 'r) comp" where
  "ListConfigReleasesRequest_internalBinaryRead R options =
     readMessage R (ListConfigReleasesRequest_field R options) ListConfigReleasesRequest_create"

definition ListConfigReleasesRequest_internalBinaryWrite ::
  "'w writer \<Rightarrow> 'w write_unknown \<Rightarrow> ListConfigReleasesRequest \<Rightarrow> 'w \<Rightarrow> 'w result" where
  "ListConfigReleasesRequest_internalBinaryWrite W options message = seqW
     [whenSome (ListConfigReleasesRequest_scope message) (\<lambda>v. tagMessage W 1 (ConfigScope_internalBinaryWrite W options v)),
      whenW (ListConfigReleasesRequest_limit message \<noteq> IntNum 0) (tagInt32 W 2 (ListConfigReleasesRequest_limit message)),
      whenW (ListConfigReleasesRequest_offset message \<noteq> ''0'') (tagInt64 W 3 (ListConfigReleasesRequest_offset message)),
      writeUnknown W options ''pgapp.v1.ListConfigReleasesRequest'' message]"

definition ListConfigReleasesRequest_encode :: "encoding \<Rightarrow> ListConfigReleasesRequest \<Rightarrow> bytes" where
  "ListConfigReleasesRequest_encode E message =
     encOption (\<lambda>v. encMessage E 1 (ConfigScope_encode E v)) (ListConfigReleasesRequest_scope message) @
     encInt32 E 2 (ListConfigReleasesRequest_limit message) @
     encInt64 E 3 (ListConfigReleasesRequest_offset message) @
     encUnknown E message"

definition ListConfigReleasesRequest_ok :: "(wire_type \<Rightarrow> bytes \<Rightarrow> bool) \<Rightarrow> ListConfigReleasesRequest \<Rightarrow> bool" where
  "ListConfigReleasesRequest_ok payload message \<longleftrightarrow>
     unknown_ok payload 3 message \<and>
     pred_option (ConfigScope_ok payload) (ListConfigReleasesRequest_scope message) \<and>
     int32_ok (ListConfigReleasesRequest_limit message) \<and>
     int64_ok (ListConfigReleasesRequest_offset message)"

subsection \<open>ListConfigReleasesResponse\<close>

record ListConfigReleasesResponse = message +
  ListConfigReleasesResponse_releases :: "ConfigRelease list"
  ListConfigReleasesResponse_nextOffset :: string

definition ListConfigReleasesResponse_create :: ListConfigReleasesResponse where
  "ListConfigReleasesResponse_create = \<lparr>unknownFields = [], ListConfigReleasesResponse_releases = [], ListConfigReleasesResponse_nextOffset = ''0''\<rparr>"

definition ListConfigReleasesResponse_field ::
  "'r reader \<Rightarrow> read_unknown \<Rightarrow> nat \<Rightarrow> wire_type \<Rightarrow> ListConfigReleasesResponse \<Rightarrow> 'r \<Rightarrow> (ListConfigReleasesResponse \<times> 'r) comp" where
  "ListConfigReleasesResponse_field R options fieldNo wireType message =
     (if fieldNo = 1 then pushMessage R (ConfigRelease_internalBinaryRead R options) ListConfigReleasesResponse_releases_update message
      else if fieldNo = 2 then setLong (r_int64 R) (\<lambda>v m. m\<lparr>ListConfigReleasesResponse_nextOffset := v\<rparr>) message
      else readUnknown R options ''pgapp.v1.ListConfigReleasesResponse'' fieldNo wireType message)"

definition ListConfigReleasesResponse_internalBinaryRead ::
  "'r reader \<Rightarrow> read_unknown \<Rightarrow> 'r \<Rightarrow> nat \<Rightarrow> ListConfigReleasesResponse option \<Rightarrow> (ListConfigReleasesResponse \<times> 'r) comp" where
  "ListConfigReleasesResponse_internalBinaryRead R options =
     readMessage R (ListConfigReleasesResponse_field R options) ListConfigReleasesResponse_create"

definition ListConfigReleasesResponse_internalBinaryWrite ::
  "'w writer \<Rightarrow> 'w write_unknown \<Rightarrow> ListConfigReleasesResponse \<Rightarrow> 'w \<Rightarrow> 'w result" where
  "ListConfigReleasesResponse_internalBinaryWrite W options message = seqW
     [forW (\<lambda>v. tagMessage W 1 (ConfigRelease_internalBinaryWrite W options v)) (ListConfigReleasesResponse_releases message),
      whenW (ListConfigReleasesResponse_nextOffset message \<noteq> ''0'') (tagInt64 W 2 (ListConfigReleasesResponse_nextOffset message)),
      writeUnknown W options ''pgapp.v1.ListConfigReleasesResponse'' message]"

definition ListConfigReleasesResponse_encode :: "encoding \<Rightarrow> ListConfigReleasesResponse \<Rightarrow> bytes" where
  "ListConfigReleasesResponse_encode E message =
     encRepeated (\<lambda>v. encMessage E 1 (ConfigRelease_encode E v)) (ListConfigReleasesResponse_releases message) @
     encInt64 E 2 (ListConfigReleasesResponse_nextOffset message) @
     encUnknown E message"

definition ListConfigReleasesResponse_ok :: "(wire_type \<Rightarrow> bytes \<Rightarrow> bool) \<Rightarrow> ListConfigReleasesResponse \<Rightarrow> bool" where
  "ListConfigReleasesResponse_ok payload message \<longleftrightarrow>
     unknown_ok payload 2 message \<and>
     list_all (ConfigRelease_ok payload) (ListConfigReleasesResponse_releases message) \<and>
     int64_ok (ListConfigReleasesResponse_nextOffset message)"

subsection \<open>WatchConfigRequest\<close>

record WatchConfigRequest = message +
  WatchConfigRequest_scope :: "ConfigScope option"
  WatchConfigRequest_knownRevision :: string
  WatchConfigRequest_timeoutSeconds :: string

definition WatchConfigRequest_create :: WatchConfigRequest where
  "WatchConfigRequest_create = \<lparr>unknownFields = [], WatchConfigRequest_scope = None, WatchConfigRequest_knownRevision = ''0'', WatchConfigRequest_timeoutSeconds = ''0''\<rparr>"

definition WatchConfigRequest_field ::
  "'r reader \<Rightarrow> read_unknown \<Rightarrow> nat \<Rightarrow> wire_type \<Rightarrow> WatchConfigRequest \<Rightarrow> 'r \<Rightarrow> (WatchConfigRequest \<times> 'r) comp" where
  "WatchConfigRequest_field R options fieldNo wireType message =
     (if fieldNo = 1 then setOptMessage R (ConfigScope_internalBinaryRead R options) (WatchConfigRequest_scope message)
            (\<lambda>v m. m\<lparr>WatchConfigRequest_scope := v\<rparr>) message
      else if fieldNo = 2 then setLong (r_int64 R) (\<lambda>v m. m\<lparr>WatchConfigRequest_knownRevision := v\<rparr>) message
      else if fieldNo = 3 then setLong (r_int64 R) (\<lambda>v m. m\<lparr>WatchConfigRequest_timeoutSeconds := v\<rparr>) message
      else readUnknown R options ''pgapp.v1.WatchConfigRequest'' fieldNo wireType message)"

definition WatchConfigRequest_internalBinaryRead ::
  "'r reader \<Rightarrow> read_unknown \<Rightarrow> 'r \<Rightarrow> nat \<Rightarrow> WatchConfigRequest option \<Rightarrow> (WatchConfigRequest \<times> 'r) comp" where
  "WatchConfigRequest_internalBinaryRead R options =
     readMessage R (WatchConfigRequest_field R options) WatchConfigRequest_create"

definition WatchConfigRequest_internalBinaryWrite ::
  "'w writer \<Rightarrow> 'w write_unknown \<Rightarrow> WatchConfigRequest \<Rightarrow> 'w \<Rightarrow> 'w result" where
  "WatchConfigRequest_internalBinaryWrite W options message = seqW
     [whenSome (WatchConfigRequest_scope message) (\<lambda>v. tagMessage W 1 (ConfigScope_internalBinaryWrite W options v)),
      whenW (WatchConfigRequest_knownRevision message \<noteq> ''0'') (tagInt64 W 2 (WatchConfigRequest_knownRevision message)),
      whenW (WatchConfigRequest_timeoutSeconds message \<noteq> ''0'') (tagInt64 W 3 (WatchConfigRequest_timeoutSeconds message)),
      writeUnknown W options ''pgapp.v1.WatchConfigRequest'' message]"

definition WatchConfigRequest_encode :: "encoding \<Rightarrow> WatchConfigRequest \<Rightarrow> bytes" where
  "WatchConfigRequest_encode E message =
     encOption (\<lambda>v. encMessage E 1 (ConfigScope_encode E v)) (WatchConfigRequest_scope message) @
     encInt64 E 2 (WatchConfigRequest_knownRevision message) @
     encInt64 E 3 (WatchConfigRequest_timeoutSeconds message) @
     encUnknown E message"

definition WatchConfigRequest_ok :: "(wire_type \<Rightarrow> bytes \<Rightarrow> bool) \<Rightarrow> WatchConfigRequest \<Rightarrow> bool" where
  "WatchConfigRequest_ok payload message \<longleftrightarrow>
     unknown_ok payload 3 message \<and>
     pred_option (ConfigScope_ok payload) (WatchConfigRequest_scope message) \<and>
     int64_ok (WatchConfigRequest_knownRevision message) \<and>
     int64_ok (WatchConfigRequest_timeoutSeconds message)"

subsection \<open>WatchConfigResponse\<close>

record WatchConfigResponse = message +
  WatchConfigResponse_changed :: bool
  WatchConfigResponse_latestRevision :: string
  WatchConfigResponse_release :: "ConfigRelease option"

definition WatchConfigResponse_create :: WatchConfigResponse where
  "WatchConfigResponse_create = \<lparr>unknownFields = [], WatchConfigResponse_changed = False, WatchConfigResponse_latestRevision = ''0'', WatchConfigResponse_release = None\<rparr>"

definition WatchConfigResponse_field ::
  "'r reader \<Rightarrow> read_unknown \<Rightarrow> nat \<Rightarrow> wire_type \<Rightarrow> WatchConfigResponse \<Rightarrow> 'r \<Rightarrow> (WatchConfigResponse \<times> 'r) comp" where
  "WatchConfigResponse_field R options fieldNo wireType message =
     (if fieldNo = 1 then setField (r_bool R) (\<lambda>v m. m\<lparr>WatchConfigResponse_changed := v\<rparr>) message
      else if fieldNo = 2 then setLong (r_int64 R) (\<lambda>v m. m\<lparr>WatchConfigResponse_latestRevision := v\<rparr>) message
      else if fieldNo = 3 then setOptMessage R (ConfigRelease_internalBinaryRead R options) (WatchConfigResponse_release message)
            (\<lambda>v m. m\<lparr>WatchConfigResponse_release := v\<rparr>) message
      else readUnknown R options ''pgapp.v1.WatchConfigResponse'' fieldNo wireType message)"

definition WatchConfigResponse_internalBinaryRead ::
  "'r reader \<Rightarrow> read_unknown \<Rightarrow> 'r \<Rightarrow> nat \<Rightarrow> WatchConfigResponse option \<Rightarrow> (WatchConfigResponse \<times> 'r) comp" where
  "WatchConfigResponse_internalBinaryRead R options =
     readMessage R (WatchConfigResponse_field R options) WatchConfigResponse_create"

definition WatchConfigResponse_internalBinaryWrite ::
  "'w writer \<Rightarrow> 'w write_unknown \<Rightarrow> WatchConfigResponse \<Rightarrow> 'w \<Rightarrow> 'w result" where
  "WatchConfigResponse_internalBinaryWrite W options message = seqW
     [whenW (WatchConfigResponse_changed message \<noteq> False) (tagBool W 1 (WatchConfigResponse_changed message)),
      whenW (WatchConfigResponse_latestRevision message \<noteq> ''0'') (tagInt64 W 2 (WatchConfigResponse_latestRevision message)),
      whenSome (WatchConfigResponse_release message) (\<lambda>v. tagMessage W 3 (ConfigRelease_internalBinaryWrite W options v)),
      writeUnknown W options ''pgapp.v1.WatchConfigResponse'' message]"

definition WatchConfigResponse_encode :: "encoding \<Rightarrow> WatchConfigResponse \<Rightarrow> bytes" where
  "WatchConfigResponse_encode E message =
     encBool E 1 (WatchConfigResponse_changed message) @
     encInt64 E 2 (WatchConfigResponse_latestRevision message) @
     encOption (\<lambda>v. encMessage E 3 (ConfigRelease_encode E v)) (WatchConfigResponse_release message) @
     encUnknown E message"

definition WatchConfigResponse_ok :: "(wire_type \<Rightarrow> bytes \<Rightarrow> bool) \<Rightarrow> WatchConfigResponse \<Rightarrow> bool" where
  "WatchConfigResponse_ok payload message \<longleftrightarrow>
     unknown_ok payload 3 message \<and>
     int64_ok (WatchConfigResponse_latestRevision message) \<and>
     pred_option (ConfigRelease_ok payload) (WatchConfigResponse_release message)"

subsection \<open>SetConfigSchemaRequest\<close>

record SetConfigSchemaRequest = message +
  SetConfigSchemaRequest_scope :: "ConfigScope option"
  SetConfigSchemaRequest_jsonSchema :: string

definition SetConfigSchemaRequest_create :: SetConfigSchemaRequest where
  "SetConfigSchemaRequest_create = \<lparr>unknownFields = [], SetConfigSchemaRequest_scope = None, SetConfigSchemaRequest_jsonSchema = []\<rparr>"

definition SetConfigSchemaRequest_field ::
  "'r reader \<Rightarrow> read_unknown \<Rightarrow> nat \<Rightarrow> wire_type \<Rightarrow> SetConfigSchemaRequest \<Rightarrow> 'r \<Rightarrow> (SetConfigSchemaRequest \<times> 'r) comp" where
  "SetConfigSchemaRequest_field R options fieldNo wireType message =
     (if fieldNo = 1 then setOptMessage R (ConfigScope_internalBinaryRead R options) (SetConfigSchemaRequest_scope message)
            (\<lambda>v m. m\<lparr>SetConfigSchemaRequest_scope := v\<rparr>) message
      else if fieldNo = 2 then setField (r_string R) (\<lambda>v m. m\<lparr>SetConfigSchemaRequest_jsonSchema := v\<rparr>) message
      else readUnknown R options ''pgapp.v1.SetConfigSchemaRequest'' fieldNo wireType message)"

definition SetConfigSchemaRequest_internalBinaryRead ::
  "'r reader \<Rightarrow> read_unknown \<Rightarrow> 'r \<Rightarrow> nat \<Rightarrow> SetConfigSchemaRequest option \<Rightarrow> (SetConfigSchemaRequest \<times> 'r) comp" where
  "SetConfigSchemaRequest_internalBinaryRead R options =
     readMessage R (SetConfigSchemaRequest_field R options) SetConfigSchemaRequest_create"

definition SetConfigSchemaRequest_internalBinaryWrite ::
  "'w writer \<Rightarrow> 'w write_unknown \<Rightarrow> SetConfigSchemaRequest \<Rightarrow> 'w \<Rightarrow> 'w result" where
  "SetConfigSchemaRequest_internalBinaryWrite W options message = seqW
     [whenSome (SetConfigSchemaRequest_scope message) (\<lambda>v. tagMessage W 1 (ConfigScope_internalBinaryWrite W options v)),
      whenW (SetConfigSchemaRequest_jsonSchema message \<noteq> []) (tagString W 2 (SetConfigSchemaRequest_jsonSchema message)),
      writeUnknown W options ''pgapp.v1.SetConfigSchemaRequest'' message]"

definition SetConfigSchemaRequest_encode :: "encoding \<Rightarrow> SetConfigSchemaRequest \<Rightarrow> bytes" where
  "SetConfigSchemaRequest_encode E message =
     encOption (\<lambda>v. encMessage E 1 (ConfigScope_encode E v)) (SetConfigSchemaRequest_scope message) @
     encString E 2 (SetConfigSchemaRequest_jsonSchema message) @
     encUnknown E message"

definition SetConfigSchemaRequest_ok :: "(wire_type \<Rightarrow> bytes \<Rightarrow> bool) \<Rightarrow> SetConfigSchemaRequest \<Rightarrow> bool" where
  "SetConfigSchemaRequest_ok payload message \<longleftrightarrow>
     unknown_ok payload 2 message \<and>
     pred_option (ConfigScope_ok payload) (SetConfigSchemaRequest_scope message)"

subsection \<open>GetConfigSchemaRequest\<close>

record GetConfigSchemaRequest = message +
  GetConfigSchemaRequest_scope :: "ConfigScope option"

definition GetConfigSchemaRequest_create :: GetConfigSchemaRequest where
  "GetConfigSchemaRequest_create = \<lparr>unknownFields = [], GetConfigSchemaRequest_scope = None\<rparr>"

definition GetConfigSchemaRequest_field ::
  "'r reader \<Rightarrow> read_unknown \<Rightarrow> nat \<Rightarrow> wire_type \<Rightarrow> GetConfigSchemaRequest \<Rightarrow> 'r \<Rightarrow> (GetConfigSchemaRequest \<times> 'r) comp" where
  "GetConfigSchemaRequest_field R options fieldNo wireType message =
     (if fieldNo = 1 then setOptMessage R (ConfigScope_internalBinaryRead R options) (GetConfigSchemaRequest_scope message)
            (\<lambda>v m. m\<lparr>GetConfigSchemaRequest_scope := v\<rparr>) message
      else readUnknown R options ''pgapp.v1.GetConfigSchemaRequest'' fieldNo wireType message)"

definition GetConfigSchemaRequest_internalBinaryRead ::
  "'r reader \<Rightarrow> read_unknown \<Rightarrow> 'r \<Rightarrow> nat \<Rightarrow> GetConfigSchemaRequest option \<Rightarrow> (GetConfigSchemaRequest \<times> 'r) comp" where
  "GetConfigSchemaRequest_internalBinaryRead R options =
     readMessage R (GetConfigSchemaRequest_field R options) GetConfigSchemaRequest_create"

definition GetConfigSchemaRequest_internalBinaryWrite ::
  "'w writer \<Rightarrow> 'w write_unknown \<Rightarrow> GetConfigSchemaRequest \<Rightarrow> 'w \<Rightarrow> 'w result" where
  "GetConfigSchemaRequest_internalBinaryWrite W options message = seqW
     [whenSome (GetConfigSchemaRequest_scope message) (\<lambda>v. tagMessage W 1 (ConfigScope_internalBinaryWrite W options v)),
      writeUnknown W options ''pgapp.v1.GetConfigSchemaRequest'' message]"

definition GetConfigSchemaRequest_encode :: "encoding \<Rightarrow> GetConfigSchemaRequest \<Rightarrow> bytes" where
  "GetConfigSchemaRequest_encode E message =
     encOption (\<lambda>v. encMessage E 1 (ConfigScope_encode E v)) (GetConfigSchemaRequest_scope message) @
     encUnknown E message"

definition GetConfigSchemaRequest_ok :: "(wire_type \<Rightarrow> bytes \<Rightarrow> bool) \<Rightarrow> GetConfigSchemaRequest \<Rightarrow> bool" where
  "GetConfigSchemaRequest_ok payload message \<longleftrightarrow>
     unknown_ok payload 1 message \<and>
     pred_option (ConfigScope_ok payload) (GetConfigSchemaRequest_scope message)"

subsection \<open>ConfigSchemaResponse\<close>

record ConfigSchemaResponse = message +
  ConfigSchemaResponse_scope :: "ConfigScope option"
  ConfigSchemaResponse_hasSchema :: bool
  ConfigSchemaResponse_jsonSchema :: string

definition ConfigSchemaResponse_create :: ConfigSchemaResponse where
  "ConfigSchemaResponse_create = \<lparr>unknownFields = [], ConfigSchemaResponse_scope = None, ConfigSchemaResponse_hasSchema = False, ConfigSchemaResponse_jsonSchema = []\<rparr>"

definition ConfigSchemaResponse_field ::
  "'r reader \<Rightarrow> read_unknown \<Rightarrow> nat \<Rightarrow> wire_type \<Rightarrow> ConfigSchemaResponse \<Rightarrow> 'r \<Rightarrow> (ConfigSchemaResponse \<times> 'r) comp" where
  "ConfigSchemaResponse_field R options fieldNo wireType message =
     (if fieldNo = 1 then setOptMessage R (ConfigScope_internalBinaryRead R options) (ConfigSchemaResponse_scope message)
            (\<lambda>v m. m\<lparr>ConfigSchemaResponse_scope := v\<rparr>) message
      else if fieldNo = 2 then setField (r_bool R) (\<lambda>v m. m\<lparr>ConfigSchemaResponse_hasSchema := v\<rparr>) message
      else if fieldNo = 3 then setField (r_string R) (\<lambda>v m. m\<lparr>ConfigSchemaResponse_jsonSchema := v\<rparr>) message
      else readUnknown R options ''pgapp.v1.ConfigSchemaResponse'' fieldNo wireType message)"

definition ConfigSchemaResponse_internalBinaryRead ::
  "'r reader \<Rightarrow> read_unknown \<Rightarrow> 'r \<Rightarrow> nat \<Rightarrow> ConfigSchemaResponse option \<Rightarrow> (ConfigSchemaResponse \<times> 'r) comp" where
  "ConfigSchemaResponse_internalBinaryRead R options =
     readMessage R (ConfigSchemaResponse_field R options) ConfigSchemaResponse_create"

definition ConfigSchemaResponse_internalBinaryWrite ::
  "'w writer \<Rightarrow> 'w write_unknown \<Rightarrow> ConfigSchemaResponse \<Rightarrow> 'w \<Rightarrow> 'w result" where
  "ConfigSchemaResponse_internalBinaryWrite W options message = seqW
     [whenSome (ConfigSchemaResponse_scope message) (\<lambda>v. tagMessage W 1 (ConfigScope_internalBinaryWrite W options v)),
      whenW (ConfigSchemaResponse_hasSchema message \<noteq> False) (tagBool W 2 (ConfigSchemaResponse_hasSchema message)),
      whenW (ConfigSchemaResponse_jsonSchema message \<noteq> []) (tagString W 3 (ConfigSchemaResponse_jsonSchema message)),
      writeUnknown W options ''pgapp.v1.ConfigSchemaResponse'' message]"

definition ConfigSchemaResponse_encode :: "encoding \<Rightarrow> ConfigSchemaResponse \<Rightarrow> bytes" where
  "ConfigSchemaResponse_encode E message =
     encOption (\<lambda>v. encMessage E 1 (ConfigScope_encode E v)) (ConfigSchemaResponse_scope message) @
     encBool E 2 (ConfigSchemaResponse_hasSchema message) @
     encString E 3 (ConfigSchemaResponse_jsonSchema message) @
     encUnknown E message"

definition ConfigSchemaResponse_ok :: "(wire_type \<Rightarrow> bytes \<Rightarrow> bool) \<Rightarrow> ConfigSchemaResponse \<Rightarrow> bool" where
  "ConfigSchemaResponse_ok payload message \<longleftrightarrow>
     unknown_ok payload 3 message \<and>
     pred_option (ConfigScope_ok payload) (ConfigSchemaResponse_scope message)"


section \<open>The field switches, field by field\<close>

lemma ConfigScope_field_simps:
  "ConfigScope_field R u 1 wt m = setField (r_string R) (\<lambda>v m. m\<lparr>ConfigScope_appId := v\<rparr>) m"
  "ConfigScope_field R u 2 wt m = setField (r_string R) (\<lambda>v m. m\<lparr>ConfigScope_environment := v\<rparr>) m"
  "ConfigScope_field R u 3 wt m = setField (r_string R) (\<lambda>v m. m\<lparr>ConfigScope_cluster := v\<rparr>) m"
  "ConfigScope_field R u 4 wt m = setField (r_string R) (\<lambda>v m. m\<lparr>ConfigScope_namespace := v\<rparr>) m"
  "4 < no \<Longrightarrow> ConfigScope_field R u no wt m = readUnknown R u ''pgapp.v1.ConfigScope'' no wt m"
  by (auto simp: ConfigScope_field_def)

lemma ConfigItem_field_simps:
  "ConfigItem_field R u 1 wt m = setField (r_string R) (\<lambda>v m. m\<lparr>ConfigItem_key := v\<rparr>) m"
  "ConfigItem_field R u 2 wt m = setField (r_string R) (\<lambda>v m. m\<lparr>ConfigItem_jsonValue := v\<rparr>) m"
  "ConfigItem_field R u 3 wt m = setField (r_bool R) (\<lambda>v m. m\<lparr>ConfigItem_deleted := v\<rparr>) m"
  "ConfigItem_field R u 4 wt m = setField (r_string R) (\<lambda>v m. m\<lparr>ConfigItem_updatedAt := v\<rparr>) m"
  "4 < no \<Longrightarrow> ConfigItem_field R u no wt m = readUnknown R u ''pgapp.v1.ConfigItem'' no wt m"
  by (auto simp: ConfigItem_field_def)

lemma ConfigRelease_field_simps:
  "ConfigRelease_field R u 1 wt m = setOptMessage R (ConfigScope_internalBinaryRead R u) (ConfigRelease_scope m) (\<lambda>v m. m\<lparr>ConfigRelease_scope := v\<rparr>) m"
  "ConfigRelease_field R u 2 wt m = setLong (r_int64 R) (\<lambda>v m. m\<lparr>ConfigRelease_revision := v\<rparr>) m"
  "ConfigRelease_field R u 3 wt m = setField (r_string R) (\<lambda>v m. m\<lparr>ConfigRelease_checksum := v\<rparr>) m"
  "ConfigRelease_field R u 4 wt m = setField (r_string R) (\<lambda>v m. m\<lparr>ConfigRelease_snapshotJson := v\<rparr>) m"
  "ConfigRelease_field R u 5 wt m = setField (r_string R) (\<lambda>v m. m\<lparr>ConfigRelease_message := v\<rparr>) m"
  "ConfigRelease_field R u 6 wt m = setField (r_string R) (\<lambda>v m. m\<lparr>ConfigRelease_publishedBy := v\<rparr>) m"
  "ConfigRelease_field R u 7 wt m = setField (r_string R) (\<lambda>v m. m\<lparr>ConfigRelease_publishedAt := v\<rparr>) m"
  "7 < no \<Longrightarrow> ConfigRelease_field R u no wt m = readUnknown R u ''pgapp.v1.ConfigRelease'' no wt m"
  by (auto simp: ConfigRelease_field_def)

lemma ListConfigScopesRequest_field_simps:
  "ListConfigScopesRequest_field R u 1 wt m = setNumber (r_int32 R) (\<lambda>v m. m\<lparr>ListConfigScopesRequest_limit := v\<rparr>) m"
  "ListConfigScopesRequest_field R u 2 wt m = setLong (r_int64 R) (\<lambda>v m. m\<lparr>ListConfigScopesRequest_offset := v\<rparr>) m"
  "2 < no \<Longrightarrow> ListConfigScopesRequest_field R u no wt m = readUnknown R u ''pgapp.v1.ListConfigScopesRequest'' no wt m"
  by (auto simp: ListConfigScopesRequest_field_def)

lemma ConfigScopeSummary_field_simps:
  "ConfigScopeSummary_field R u 1 wt m = setOptMessage R (ConfigScope_internalBinaryRead R u) (ConfigScopeSummary_scope m) (\<lambda>v m. m\<lparr>ConfigScopeSummary_scope := v\<rparr>) m"
  "ConfigScopeSummary_field R u 2 wt m = setLong (r_int64 R) (\<lambda>v m. m\<lparr>ConfigScopeSummary_currentRevision := v\<rparr>) m"
  "ConfigScopeSummary_field R u 3 wt m = setField (r_string R) (\<lambda>v m. m\<lparr>ConfigScopeSummary_createdAt := v\<rparr>) m"
  "ConfigScopeSummary_field R u 4 wt m = setField (r_string R) (\<lambda>v m. m\<lparr>ConfigScopeSummary_updatedAt := v\<rparr>) m"
  "4 < no \<Longrightarrow> ConfigScopeSummary_field R u no wt m = readUnknown R u ''pgapp.v1.ConfigScopeSummary'' no wt m"
  by (auto simp: ConfigScopeSummary_field_def)

lemma ListConfigScopesResponse_field_simps:
  "ListConfigScopesResponse_field R u 1 wt m = pushMessage R (ConfigScopeSummary_internalBinaryRead R u) ListConfigScopesResponse_scopes_update m"
  "ListConfigScopesResponse_field R u 2 wt m = setLong (r_int64 R) (\<lambda>v m. m\<lparr>ListConfigScopesResponse_nextOffset := v\<rparr>) m"
  "2 < no \<Longrightarrow> ListConfigScopesResponse_field R u no wt m = readUnknown R u ''pgapp.v1.ListConfigScopesResponse'' no wt m"
  by (auto simp: ListConfigScopesResponse_field_def)

lemma UpsertConfigItemRequest_field_simps:
  "UpsertConfigItemRequest_field R u 1 wt m = setOptMessage R (ConfigScope_internalBinaryRead R u) (UpsertConfigItemRequest_scope m) (\<lambda>v m. m\<lparr>UpsertConfigItemRequest_scope := v\<rparr>) m"
  "UpsertConfigItemRequest_field R u 2 wt m = setField (r_string R) (\<lambda>v m. m\<lparr>UpsertConfigItemRequest_key := v\<rparr>) m"
  "UpsertConfigItemRequest_field R u 3 wt m = setField (r_string R) (\<lambda>v m. m\<lparr>UpsertConfigItemRequest_jsonValue := v\<rparr>) m"
  "3 < no \<Longrightarrow> UpsertConfigItemRequest_field R u no wt m = readUnknown R u ''pgapp.v1.UpsertConfigItemRequest'' no wt m"
  by (auto simp: UpsertConfigItemRequest_field_def)

lemma DeleteConfigItemRequest_field_simps:
  "DeleteConfigItemRequest_field R u 1 wt m = setOptMessage R (ConfigScope_internalBinaryRead R u) (DeleteConfigItemRequest_scope m) (\<lambda>v m. m\<lparr>DeleteConfigItemRequest_scope := v\<rparr>) m"
  "DeleteConfigItemRequest_field R u 2 wt m = setField (r_string R) (\<lambda>v m. m\<lparr>DeleteConfigItemRequest_key := v\<rparr>) m"
  "2 < no \<Longrightarrow> DeleteConfigItemRequest_field R u no wt m = readUnknown R u ''pgapp.v1.DeleteConfigItemRequest'' no wt m"
  by (auto simp: DeleteConfigItemRequest_field_def)

lemma GetConfigDraftRequest_field_simps:
  "GetConfigDraftRequest_field R u 1 wt m = setOptMessage R (ConfigScope_internalBinaryRead R u) (GetConfigDraftRequest_scope m) (\<lambda>v m. m\<lparr>GetConfigDraftRequest_scope := v\<rparr>) m"
  "1 < no \<Longrightarrow> GetConfigDraftRequest_field R u no wt m = readUnknown R u ''pgapp.v1.GetConfigDraftRequest'' no wt m"
  by (auto simp: GetConfigDraftRequest_field_def)

lemma ConfigDraftResponse_field_simps:
  "ConfigDraftResponse_field R u 1 wt m = setOptMessage R (ConfigScope_internalBinaryRead R u) (ConfigDraftResponse_scope m) (\<lambda>v m. m\<lparr>ConfigDraftResponse_scope := v\<rparr>) m"
  "ConfigDraftResponse_field R u 2 wt m = pushMessage R (ConfigItem_internalBinaryRead R u) ConfigDraftResponse_items_update m"
  "2 < no \<Longrightarrow> ConfigDraftResponse_field R u no wt m = readUnknown R u ''pgapp.v1.ConfigDraftResponse'' no wt m"
  by (auto simp: ConfigDraftResponse_field_def)

lemma PublishConfigRequest_field_simps:
  "PublishConfigRequest_field R u 1 wt m = setOptMessage R (ConfigScope_internalBinaryRead R u) (PublishConfigRequest_scope m) (\<lambda>v m. m\<lparr>PublishConfigRequest_scope := v\<rparr>) m"
  "PublishConfigRequest_field R u 2 wt m = setField (r_string R) (\<lambda>v m. m\<lparr>PublishConfigRequest_message := v\<rparr>) m"
  "PublishConfigRequest_field R u 3 wt m = setField (r_string R) (\<lambda>v m. m\<lparr>PublishConfigRequest_publishedBy := v\<rparr>) m"
  "3 < no \<Longrightarrow> PublishConfigRequest_field R u no wt m = readUnknown R u ''pgapp.v1.PublishConfigRequest'' no wt m"
  by (auto simp: PublishConfigRequest_field_def)

lemma GetConfigReleaseRequest_field_simps:
  "GetConfigReleaseRequest_field R u 1 wt m = setOptMessage R (ConfigScope_internalBinaryRead R u) (GetConfigReleaseRequest_scope m) (\<lambda>v m. m\<lparr>GetConfigReleaseRequest_scope := v\<rparr>) m"
  "GetConfigReleaseRequest_field R u 2 wt m = setLong (r_int64 R) (\<lambda>v m. m\<lparr>GetConfigReleaseRequest_revision := v\<rparr>) m"
  "2 < no \<Longrightarrow> GetConfigReleaseRequest_field R u no wt m = readUnknown R u ''pgapp.v1.GetConfigReleaseRequest'' no wt m"
  by (auto simp: GetConfigReleaseRequest_field_def)

lemma ListConfigReleasesRequest_field_simps:
  "ListConfigReleasesRequest_field R u 1 wt m = setOptMessage R (ConfigScope_internalBinaryRead R u) (ListConfigReleasesRequest_scope m) (\<lambda>v m. m\<lparr>ListConfigReleasesRequest_scope := v\<rparr>) m"
  "ListConfigReleasesRequest_field R u 2 wt m = setNumber (r_int32 R) (\<lambda>v m. m\<lparr>ListConfigReleasesRequest_limit := v\<rparr>) m"
  "ListConfigReleasesRequest_field R u 3 wt m = setLong (r_int64 R) (\<lambda>v m. m\<lparr>ListConfigReleasesRequest_offset := v\<rparr>) m"
  "3 < no \<Longrightarrow> ListConfigReleasesRequest_field R u no wt m = readUnknown R u ''pgapp.v1.ListConfigReleasesRequest'' no wt m"
  by (auto simp: ListConfigReleasesRequest_field_def)

lemma ListConfigReleasesResponse_field_simps:
  "ListConfigReleasesResponse_field R u 1 wt m = pushMessage R (ConfigRelease_internalBinaryRead R u) ListConfigReleasesResponse_releases_update m"
  "ListConfigReleasesResponse_field R u 2 wt m = setLong (r_int64 R) (\<lambda>v m. m\<lparr>ListConfigReleasesResponse_nextOffset := v\<rparr>) m"
  "2 < no \<Longrightarrow> ListConfigReleasesResponse_field R u no wt m = readUnknown R u ''pgapp.v1.ListConfigReleasesResponse'' no wt m"
  by (auto simp: ListConfigReleasesResponse_field_def)

lemma WatchConfigRequest_field_simps:
  "WatchConfigRequest_field R u 1 wt m = setOptMessage R (ConfigScope_internalBinaryRead R u) (WatchConfigRequest_scope m) (\<lambda>v m. m\<lparr>WatchConfigRequest_scope := v\<rparr>) m"
  "WatchConfigRequest_field R u 2 wt m = setLong (r_int64 R) (\<lambda>v m. m\<lparr>WatchConfigRequest_knownRevision := v\<rparr>) m"
  "WatchConfigRequest_field R u 3 wt m = setLong (r_int64 R) (\<lambda>v m. m\<lparr>WatchConfigRequest_timeoutSeconds := v\<rparr>) m"
  "3 < no \<Longrightarrow> WatchConfigRequest_field R u no wt m = readUnknown R u ''pgapp.v1.WatchConfigRequest'' no wt m"
  by (auto simp: WatchConfigRequest_field_def)

lemma WatchConfigResponse_field_simps:
  "WatchConfigResponse_field R u 1 wt m = setField (r_bool R) (\<lambda>v m. m\<lparr>WatchConfigResponse_changed := v\<rparr>) m"
  "WatchConfigResponse_field R u 2 wt m = setLong (r_int64 R) (\<lambda>v m. m\<lparr>WatchConfigResponse_latestRevision := v\<rparr>) m"
  "WatchConfigResponse_field R u 3 wt m = setOptMessage R (ConfigRelease_internalBinaryRead R u) (WatchConfigResponse_release m) (\<lambda>v m. m\<lparr>WatchConfigResponse_release := v\<rparr>) m"
  "3 < no \<Longrightarrow> WatchConfigResponse_field R u no wt m = readUnknown R u ''pgapp.v1.WatchConfigResponse'' no wt m"
  by (auto simp: WatchConfigResponse_field_def)

lemma SetConfigSchemaRequest_field_simps:
  "SetConfigSchemaRequest_field R u 1 wt m = setOptMessage R (ConfigScope_internalBinaryRead R u) (SetConfigSchemaRequest_scope m) (\<lambda>v m. m\<lparr>SetConfigSchemaRequest_scope := v\<rparr>) m"
  "SetConfigSchemaRequest_field R u 2 wt m = setField (r_string R) (\<lambda>v m. m\<lparr>SetConfigSchemaRequest_jsonSchema := v\<rparr>) m"
  "2 < no \<Longrightarrow> SetConfigSchemaRequest_field R u no wt m = readUnknown R u ''pgapp.v1.SetConfigSchemaRequest'' no wt m"
  by (auto simp: SetConfigSchemaRequest_field_def)

lemma GetConfigSchemaRequest_field_simps:
  "GetConfigSchemaRequest_field R u 1 wt m = setOptMessage R (ConfigScope_internalBinaryRead R u) (GetConfigSchemaRequest_scope m) (\<lambda>v m. m\<lparr>GetConfigSchemaRequest_scope := v\<rparr>) m"
  "1 < no \<Longrightarrow> GetConfigSchemaRequest_field R u no wt m = readUnknown R u ''pgapp.v1.GetConfigSchemaRequest'' no wt m"
  by (auto simp: GetConfigSchemaRequest_field_def)

lemma ConfigSchemaResponse_field_simps:
  "ConfigSchemaResponse_field R u 1 wt m = setOptMessage R (ConfigScope_internalBinaryRead R u) (ConfigSchemaResponse_scope m) (\<lambda>v m. m\<lparr>ConfigSchemaResponse_scope := v\<rparr>) m"
  "ConfigSchemaResponse_field R u 2 wt m = setField (r_bool R) (\<lambda>v m. m\<lparr>ConfigSchemaResponse_hasSchema := v\<rparr>) m"
  "ConfigSchemaResponse_field R u 3 wt m = setField (r_string R) (\<lambda>v m. m\<lparr>ConfigSchemaResponse_jsonSchema := v\<rparr>) m"
  "3 < no \<Longrightarrow> ConfigSchemaResponse_field R u no wt m = readUnknown R u ''pgapp.v1.ConfigSchemaResponse'' no wt m"
  by (auto simp: ConfigSchemaResponse_field_def)

section \<open>Codecs\<close>

context wire_runtime
begin

lemma ConfigScope_codec [wire_intro]:
  "codec (ConfigScope_internalBinaryRead R RU_true) (ConfigScope_internalBinaryWrite W WU_true)
    (ConfigScope_encode E) (ConfigScope_ok payload)"
  unfolding ConfigScope_internalBinaryRead_def
proof (rule codecI)
  fix m
  assume ok: "ConfigScope_ok payload m"
  show "rt (ConfigScope_field R RU_true) (ConfigScope_internalBinaryWrite W WU_true m) (ConfigScope_encode E m)
      ConfigScope_create m"
    unfolding ConfigScope_internalBinaryWrite_def ConfigScope_encode_def
    by (rule rt_chain, (rule wire_intro ConfigScope_field_simps |
        use ok in \<open>simp add: ConfigScope_ok_def ConfigScope_create_def field_intros\<close>)+)
qed

lemma ConfigItem_codec [wire_intro]:
  "codec (ConfigItem_internalBinaryRead R RU_true) (ConfigItem_internalBinaryWrite W WU_true)
    (ConfigItem_encode E) (ConfigItem_ok payload)"
  unfolding ConfigItem_internalBinaryRead_def
proof (rule codecI)
  fix m
  assume ok: "ConfigItem_ok payload m"
  show "rt (ConfigItem_field R RU_true) (ConfigItem_internalBinaryWrite W WU_true m) (ConfigItem_encode E m)
      ConfigItem_create m"
    unfolding ConfigItem_internalBinaryWrite_def ConfigItem_encode_def
    by (rule rt_chain, (rule wire_intro ConfigItem_field_simps |
        use ok in \<open>simp add: ConfigItem_ok_def ConfigItem_create_def field_intros\<close>)+)
qed

lemma ConfigRelease_codec [wire_intro]:
  "codec (ConfigRelease_internalBinaryRead R RU_true) (ConfigRelease_internalBinaryWrite W WU_true)
    (ConfigRelease_encode E) (ConfigRelease_ok payload)"
  unfolding ConfigRelease_internalBinaryRead_def
proof (rule codecI)
  fix m
  assume ok: "ConfigRelease_ok payload m"
  show "rt (ConfigRelease_field R RU_true) (ConfigRelease_internalBinaryWrite W WU_true m) (ConfigRelease_encode E m)
      ConfigRelease_create m"
    unfolding ConfigRelease_internalBinaryWrite_def ConfigRelease_encode_def
    by (rule rt_chain, (rule wire_intro ConfigRelease_field_simps |
        use ok in \<open>simp add: ConfigRelease_ok_def ConfigRelease_create_def field_intros\<close>)+)
qed

lemma ListConfigScopesRequest_codec [wire_intro]:
  "codec (ListConfigScopesRequest_internalBinaryRead R RU_true) (ListConfigScopesRequest_internalBinaryWrite W WU_true)
    (ListConfigScopesRequest_encode E) (ListConfigScopesRequest_ok payload)"
  unfolding ListConfigScopesRequest_internalBinaryRead_def
proof (rule codecI)
  fix m
  assume ok: "ListConfigScopesRequest_ok payload m"
  show "rt (ListConfigScopesRequest_field R RU_true) (ListConfigScopesRequest_internalBinaryWrite W WU_true m) (ListConfigScopesRequest_encode E m)
      ListConfigScopesRequest_create m"
    unfolding ListConfigScopesRequest_internalBinaryWrite_def ListConfigScopesRequest_encode_def
    by (rule rt_chain, (rule wire_intro ListConfigScopesRequest_field_simps |
        use ok in \<open>simp add: ListConfigScopesRequest_ok_def ListConfigScopesRequest_create_def field_intros\<close>)+)
qed

lemma ConfigScopeSummary_codec [wire_intro]:
  "codec (ConfigScopeSummary_internalBinaryRead R RU_true) (ConfigScopeSummary_internalBinaryWrite W WU_true)
    (ConfigScopeSummary_encode E) (ConfigScopeSummary_ok payload)"
  unfolding ConfigScopeSummary_internalBinaryRead_def
proof (rule codecI)
  fix m
  assume ok: "ConfigScopeSummary_ok payload m"
  show "rt (ConfigScopeSummary_field R RU_true) (ConfigScopeSummary_internalBinaryWrite W WU_true m) (ConfigScopeSummary_encode E m)
      ConfigScopeSummary_create m"
    unfolding ConfigScopeSummary_internalBinaryWrite_def ConfigScopeSummary_encode_def
    by (rule rt_chain, (rule wire_intro ConfigScopeSummary_field_simps |
        use ok in \<open>simp add: ConfigScopeSummary_ok_def ConfigScopeSummary_create_def field_intros\<close>)+)
qed

lemma ListConfigScopesResponse_codec [wire_intro]:
  "codec (ListConfigScopesResponse_internalBinaryRead R RU_true) (ListConfigScopesResponse_internalBinaryWrite W WU_true)
    (ListConfigScopesResponse_encode E) (ListConfigScopesResponse_ok payload)"
  unfolding ListConfigScopesResponse_internalBinaryRead_def
proof (rule codecI)
  fix m
  assume ok: "ListConfigScopesResponse_ok payload m"
  show "rt (ListConfigScopesResponse_field R RU_true) (ListConfigScopesResponse_internalBinaryWrite W WU_true m) (ListConfigScopesResponse_encode E m)
      ListConfigScopesResponse_create m"
    unfolding ListConfigScopesResponse_internalBinaryWrite_def ListConfigScopesResponse_encode_def
    by (rule rt_chain, (rule wire_intro ListConfigScopesResponse_field_simps |
        use ok in \<open>simp add: ListConfigScopesResponse_ok_def ListConfigScopesResponse_create_def field_intros\<close>)+)
qed

lemma UpsertConfigItemRequest_codec [wire_intro]:
  "codec (UpsertConfigItemRequest_internalBinaryRead R RU_true) (UpsertConfigItemRequest_internalBinaryWrite W WU_true)
    (UpsertConfigItemRequest_encode E) (UpsertConfigItemRequest_ok payload)"
  unfolding UpsertConfigItemRequest_internalBinaryRead_def
proof (rule codecI)
  fix m
  assume ok: "UpsertConfigItemRequest_ok payload m"
  show "rt (UpsertConfigItemRequest_field R RU_true) (UpsertConfigItemRequest_internalBinaryWrite W WU_true m) (UpsertConfigItemRequest_encode E m)
      UpsertConfigItemRequest_create m"
    unfolding UpsertConfigItemRequest_internalBinaryWrite_def UpsertConfigItemRequest_encode_def
    by (rule rt_chain, (rule wire_intro UpsertConfigItemRequest_field_simps |
        use ok in \<open>simp add: UpsertConfigItemRequest_ok_def UpsertConfigItemRequest_create_def field_intros\<close>)+)
qed

lemma DeleteConfigItemRequest_codec [wire_intro]:
  "codec (DeleteConfigItemRequest_internalBinaryRead R RU_true) (DeleteConfigItemRequest_internalBinaryWrite W WU_true)
    (DeleteConfigItemRequest_encode E) (DeleteConfigItemRequest_ok payload)"
  unfolding DeleteConfigItemRequest_internalBinaryRead_def
proof (rule codecI)
  fix m
  assume ok: "DeleteConfigItemRequest_ok payload m"
  show "rt (DeleteConfigItemRequest_field R RU_true) (DeleteConfigItemRequest_internalBinaryWrite W WU_true m) (DeleteConfigItemRequest_encode E m)
      DeleteConfigItemRequest_create m"
    unfolding DeleteConfigItemRequest_internalBinaryWrite_def DeleteConfigItemRequest_encode_def
    by (rule rt_chain, (rule wire_intro DeleteConfigItemRequest_field_simps |
        use ok in \<open>simp add: DeleteConfigItemRequest_ok_def DeleteConfigItemRequest_create_def field_intros\<close>)+)
qed

lemma GetConfigDraftRequest_codec [wire_intro]:
  "codec (GetConfigDraftRequest_internalBinaryRead R RU_true) (GetConfigDraftRequest_internalBinaryWrite W WU_true)
    (GetConfigDraftRequest_encode E) (GetConfigDraftRequest_ok payload)"
  unfolding GetConfigDraftRequest_internalBinaryRead_def
proof (rule codecI)
  fix m
  assume ok: "GetConfigDraftRequest_ok payload m"
  show "rt (GetConfigDraftRequest_field R RU_true) (GetConfigDraftRequest_internalBinaryWrite W WU_true m) (GetConfigDraftRequest_encode E m)
      GetConfigDraftRequest_create m"
    unfolding GetConfigDraftRequest_internalBinaryWrite_def GetConfigDraftRequest_encode_def
    by (rule rt_chain, (rule wire_intro GetConfigDraftRequest_field_simps |
        use ok in \<open>simp add: GetConfigDraftRequest_ok_def GetConfigDraftRequest_create_def field_intros\<close>)+)
qed

lemma ConfigDraftResponse_codec [wire_intro]:
  "codec (ConfigDraftResponse_internalBinaryRead R RU_true) (ConfigDraftResponse_internalBinaryWrite W WU_true)
    (ConfigDraftResponse_encode E) (ConfigDraftResponse_ok payload)"
  unfolding ConfigDraftResponse_internalBinaryRead_def
proof (rule codecI)
  fix m
  assume ok: "ConfigDraftResponse_ok payload m"
  show "rt (ConfigDraftResponse_field R RU_true) (ConfigDraftResponse_internalBinaryWrite W WU_true m) (ConfigDraftResponse_encode E m)
      ConfigDraftResponse_create m"
    unfolding ConfigDraftResponse_internalBinaryWrite_def ConfigDraftResponse_encode_def
    by (rule rt_chain, (rule wire_intro ConfigDraftResponse_field_simps |
        use ok in \<open>simp add: ConfigDraftResponse_ok_def ConfigDraftResponse_create_def field_intros\<close>)+)
qed

lemma PublishConfigRequest_codec [wire_intro]:
  "codec (PublishConfigRequest_internalBinaryRead R RU_true) (PublishConfigRequest_internalBinaryWrite W WU_true)
    (PublishConfigRequest_encode E) (PublishConfigRequest_ok payload)"
  unfolding PublishConfigRequest_internalBinaryRead_def
proof (rule codecI)
  fix m
  assume ok: "PublishConfigRequest_ok payload m"
  show "rt (PublishConfigRequest_field R RU_true) (PublishConfigRequest_internalBinaryWrite W WU_true m) (PublishConfigRequest_encode E m)
      PublishConfigRequest_create m"
    unfolding PublishConfigRequest_internalBinaryWrite_def PublishConfigRequest_encode_def
    by (rule rt_chain, (rule wire_intro PublishConfigRequest_field_simps |
        use ok in \<open>simp add: PublishConfigRequest_ok_def PublishConfigRequest_create_def field_intros\<close>)+)
qed

lemma GetConfigReleaseRequest_codec [wire_intro]:
  "codec (GetConfigReleaseRequest_internalBinaryRead R RU_true) (GetConfigReleaseRequest_internalBinaryWrite W WU_true)
    (GetConfigReleaseRequest_encode E) (GetConfigReleaseRequest_ok payload)"
  unfolding GetConfigReleaseRequest_internalBinaryRead_def
proof (rule codecI)
  fix m
  assume ok: "GetConfigReleaseRequest_ok payload m"
  show "rt (GetConfigReleaseRequest_field R RU_true) (GetConfigReleaseRequest_internalBinaryWrite W WU_true m) (GetConfigReleaseRequest_encode E m)
      GetConfigReleaseRequest_create m"
    unfolding GetConfigReleaseRequest_internalBinaryWrite_def GetConfigReleaseRequest_encode_def
    by (rule rt_chain, (rule wire_intro GetConfigReleaseRequest_field_simps |
        use ok in \<open>simp add: GetConfigReleaseRequest_ok_def GetConfigReleaseRequest_create_def field_intros\<close>)+)
qed

lemma ListConfigReleasesRequest_codec [wire_intro]:
  "codec (ListConfigReleasesRequest_internalBinaryRead R RU_true) (ListConfigReleasesRequest_internalBinaryWrite W WU_true)
    (ListConfigReleasesRequest_encode E) (ListConfigReleasesRequest_ok payload)"
  unfolding ListConfigReleasesRequest_internalBinaryRead_def
proof (rule codecI)
  fix m
  assume ok: "ListConfigReleasesRequest_ok payload m"
  show "rt (ListConfigReleasesRequest_field R RU_true) (ListConfigReleasesRequest_internalBinaryWrite W WU_true m) (ListConfigReleasesRequest_encode E m)
      ListConfigReleasesRequest_create m"
    unfolding ListConfigReleasesRequest_internalBinaryWrite_def ListConfigReleasesRequest_encode_def
    by (rule rt_chain, (rule wire_intro ListConfigReleasesRequest_field_simps |
        use ok in \<open>simp add: ListConfigReleasesRequest_ok_def ListConfigReleasesRequest_create_def field_intros\<close>)+)
qed

lemma ListConfigReleasesResponse_codec [wire_intro]:
  "codec (ListConfigReleasesResponse_internalBinaryRead R RU_true) (ListConfigReleasesResponse_internalBinaryWrite W WU_true)
    (ListConfigReleasesResponse_encode E) (ListConfigReleasesResponse_ok payload)"
  unfolding ListConfigReleasesResponse_internalBinaryRead_def
proof (rule codecI)
  fix m
  assume ok: "ListConfigReleasesResponse_ok payload m"
  show "rt (ListConfigReleasesResponse_field R RU_true) (ListConfigReleasesResponse_internalBinaryWrite W WU_true m) (ListConfigReleasesResponse_encode E m)
      ListConfigReleasesResponse_create m"
    unfolding ListConfigReleasesResponse_internalBinaryWrite_def ListConfigReleasesResponse_encode_def
    by (rule rt_chain, (rule wire_intro ListConfigReleasesResponse_field_simps |
        use ok in \<open>simp add: ListConfigReleasesResponse_ok_def ListConfigReleasesResponse_create_def field_intros\<close>)+)
qed

lemma WatchConfigRequest_codec [wire_intro]:
  "codec (WatchConfigRequest_internalBinaryRead R RU_true) (WatchConfigRequest_internalBinaryWrite W WU_true)
    (WatchConfigRequest_encode E) (WatchConfigRequest_ok payload)"
  unfolding WatchConfigRequest_internalBinaryRead_def
proof (rule codecI)
  fix m
  assume ok: "WatchConfigRequest_ok payload m"
  show "rt (WatchConfigRequest_field R RU_true) (WatchConfigRequest_internalBinaryWrite W WU_true m) (WatchConfigRequest_encode E m)
      WatchConfigRequest_create m"
    unfolding WatchConfigRequest_internalBinaryWrite_def WatchConfigRequest_encode_def
    by (rule rt_chain, (rule wire_intro WatchConfigRequest_field_simps |
        use ok in \<open>simp add: WatchConfigRequest_ok_def WatchConfigRequest_create_def field_intros\<close>)+)
qed

lemma WatchConfigResponse_codec [wire_intro]:
  "codec (WatchConfigResponse_internalBinaryRead R RU_true) (WatchConfigResponse_internalBinaryWrite W WU_true)
    (WatchConfigResponse_encode E) (WatchConfigResponse_ok payload)"
  unfolding WatchConfigResponse_internalBinaryRead_def
proof (rule codecI)
  fix m
  assume ok: "WatchConfigResponse_ok payload m"
  show "rt (WatchConfigResponse_field R RU_true) (WatchConfigResponse_internalBinaryWrite W WU_true m) (WatchConfigResponse_encode E m)
      WatchConfigResponse_create m"
    unfolding WatchConfigResponse_internalBinaryWrite_def WatchConfigResponse_encode_def
    by (rule rt_chain, (rule wire_intro WatchConfigResponse_field_simps |
        use ok in \<open>simp add: WatchConfigResponse_ok_def WatchConfigResponse_create_def field_intros\<close>)+)
qed

lemma SetConfigSchemaRequest_codec [wire_intro]:
  "codec (SetConfigSchemaRequest_internalBinaryRead R RU_true) (SetConfigSchemaRequest_internalBinaryWrite W WU_true)
    (SetConfigSchemaRequest_encode E) (SetConfigSchemaRequest_ok payload)"
  unfolding SetConfigSchemaRequest_internalBinaryRead_def
proof (rule codecI)
  fix m
  assume ok: "SetConfigSchemaRequest_ok payload m"
  show "rt (SetConfigSchemaRequest_field R RU_true) (SetConfigSchemaRequest_internalBinaryWrite W WU_true m) (SetConfigSchemaRequest_encode E m)
      SetConfigSchemaRequest_create m"
    unfolding SetConfigSchemaRequest_internalBinaryWrite_def SetConfigSchemaRequest_encode_def
    by (rule rt_chain, (rule wire_intro SetConfigSchemaRequest_field_simps |
        use ok in \<open>simp add: SetConfigSchemaRequest_ok_def SetConfigSchemaRequest_create_def field_intros\<close>)+)
qed

lemma GetConfigSchemaRequest_codec [wire_intro]:
  "codec (GetConfigSchemaRequest_internalBinaryRead R RU_true) (GetConfigSchemaRequest_internalBinaryWrite W WU_true)
    (GetConfigSchemaRequest_encode E) (GetConfigSchemaRequest_ok payload)"
  unfolding GetConfigSchemaRequest_internalBinaryRead_def
proof (rule codecI)
  fix m
  assume ok: "GetConfigSchemaRequest_ok payload m"
  show "rt (GetConfigSchemaRequest_field R RU_true) (GetConfigSchemaRequest_internalBinaryWrite W WU_true m) (GetConfigSchemaRequest_encode E m)
      GetConfigSchemaRequest_create m"
    unfolding GetConfigSchemaRequest_internalBinaryWrite_def GetConfigSchemaRequest_encode_def
    by (rule rt_chain, (rule wire_intro GetConfigSchemaRequest_field_simps |
        use ok in \<open>simp add: GetConfigSchemaRequest_ok_def GetConfigSchemaRequest_create_def field_intros\<close>)+)
qed

lemma ConfigSchemaResponse_codec [wire_intro]:
  "codec (ConfigSchemaResponse_internalBinaryRead R RU_true) (ConfigSchemaResponse_internalBinaryWrite W WU_true)
    (ConfigSchemaResponse_encode E) (ConfigSchemaResponse_ok payload)"
  unfolding ConfigSchemaResponse_internalBinaryRead_def
proof (rule codecI)
  fix m
  assume ok: "ConfigSchemaResponse_ok payload m"
  show "rt (ConfigSchemaResponse_field R RU_true) (ConfigSchemaResponse_internalBinaryWrite W WU_true m) (ConfigSchemaResponse_encode E m)
      ConfigSchemaResponse_create m"
    unfolding ConfigSchemaResponse_internalBinaryWrite_def ConfigSchemaResponse_encode_def
    by (rule rt_chain, (rule wire_intro ConfigSchemaResponse_field_simps |
        use ok in \<open>simp add: ConfigSchemaResponse_ok_def ConfigSchemaResponse_create_def field_intros\<close>)+)
qed

end


section \<open>Termination\<close>

context wire_progress
begin

lemma ConfigScope_returns [wire_total]: "reader_returns (ConfigScope_internalBinaryRead R u)"
  unfolding ConfigScope_internalBinaryRead_def ConfigScope_field_def by (intro wire_total)

lemma ConfigItem_returns [wire_total]: "reader_returns (ConfigItem_internalBinaryRead R u)"
  unfolding ConfigItem_internalBinaryRead_def ConfigItem_field_def by (intro wire_total)

lemma ConfigRelease_returns [wire_total]: "reader_returns (ConfigRelease_internalBinaryRead R u)"
  unfolding ConfigRelease_internalBinaryRead_def ConfigRelease_field_def by (intro wire_total)

lemma ListConfigScopesRequest_returns [wire_total]: "reader_returns (ListConfigScopesRequest_internalBinaryRead R u)"
  unfolding ListConfigScopesRequest_internalBinaryRead_def ListConfigScopesRequest_field_def by (intro wire_total)

lemma ConfigScopeSummary_returns [wire_total]: "reader_returns (ConfigScopeSummary_internalBinaryRead R u)"
  unfolding ConfigScopeSummary_internalBinaryRead_def ConfigScopeSummary_field_def by (intro wire_total)

lemma ListConfigScopesResponse_returns [wire_total]: "reader_returns (ListConfigScopesResponse_internalBinaryRead R u)"
  unfolding ListConfigScopesResponse_internalBinaryRead_def ListConfigScopesResponse_field_def by (intro wire_total)

lemma UpsertConfigItemRequest_returns [wire_total]: "reader_returns (UpsertConfigItemRequest_internalBinaryRead R u)"
  unfolding UpsertConfigItemRequest_internalBinaryRead_def UpsertConfigItemRequest_field_def by (intro wire_total)

lemma DeleteConfigItemRequest_returns [wire_total]: "reader_returns (DeleteConfigItemRequest_internalBinaryRead R u)"
  unfolding DeleteConfigItemRequest_internalBinaryRead_def DeleteConfigItemRequest_field_def by (intro wire_total)

lemma GetConfigDraftRequest_returns [wire_total]: "reader_returns (GetConfigDraftRequest_internalBinaryRead R u)"
  unfolding GetConfigDraftRequest_internalBinaryRead_def GetConfigDraftRequest_field_def by (intro wire_total)

lemma ConfigDraftResponse_returns [wire_total]: "reader_returns (ConfigDraftResponse_internalBinaryRead R u)"
  unfolding ConfigDraftResponse_internalBinaryRead_def ConfigDraftResponse_field_def by (intro wire_total)

lemma PublishConfigRequest_returns [wire_total]: "reader_returns (PublishConfigRequest_internalBinaryRead R u)"
  unfolding PublishConfigRequest_internalBinaryRead_def PublishConfigRequest_field_def by (intro wire_total)

lemma GetConfigReleaseRequest_returns [wire_total]: "reader_returns (GetConfigReleaseRequest_internalBinaryRead R u)"
  unfolding GetConfigReleaseRequest_internalBinaryRead_def GetConfigReleaseRequest_field_def by (intro wire_total)

lemma ListConfigReleasesRequest_returns [wire_total]: "reader_returns (ListConfigReleasesRequest_internalBinaryRead R u)"
  unfolding ListConfigReleasesRequest_internalBinaryRead_def ListConfigReleasesRequest_field_def by (intro wire_total)

lemma ListConfigReleasesResponse_returns [wire_total]: "reader_returns (ListConfigReleasesResponse_internalBinaryRead R u)"
  unfolding ListConfigReleasesResponse_internalBinaryRead_def ListConfigReleasesResponse_field_def by (intro wire_total)

lemma WatchConfigRequest_returns [wire_total]: "reader_returns (WatchConfigRequest_internalBinaryRead R u)"
  unfolding WatchConfigRequest_internalBinaryRead_def WatchConfigRequest_field_def by (intro wire_total)

lemma WatchConfigResponse_returns [wire_total]: "reader_returns (WatchConfigResponse_internalBinaryRead R u)"
  unfolding WatchConfigResponse_internalBinaryRead_def WatchConfigResponse_field_def by (intro wire_total)

lemma SetConfigSchemaRequest_returns [wire_total]: "reader_returns (SetConfigSchemaRequest_internalBinaryRead R u)"
  unfolding SetConfigSchemaRequest_internalBinaryRead_def SetConfigSchemaRequest_field_def by (intro wire_total)

lemma GetConfigSchemaRequest_returns [wire_total]: "reader_returns (GetConfigSchemaRequest_internalBinaryRead R u)"
  unfolding GetConfigSchemaRequest_internalBinaryRead_def GetConfigSchemaRequest_field_def by (intro wire_total)

lemma ConfigSchemaResponse_returns [wire_total]: "reader_returns (ConfigSchemaResponse_internalBinaryRead R u)"
  unfolding ConfigSchemaResponse_internalBinaryRead_def ConfigSchemaResponse_field_def by (intro wire_total)

end

end
