(* ===== verification/Health_Messages.thy ===== *)
theory Health_Messages
  imports Common_Messages
begin

text \<open>
  The message types of \<open>sdk/typescript/src/gen/pgapp/v1/health.ts\<close>: the health, readiness and metrics messages.
  For every type: its interface as a record that extends the unknown-field carrier, \<open>create\<close>,
  the field switch of \<open>internalBinaryRead\<close> and the whole reader, and \<open>internalBinaryWrite\<close>
  statement by statement. \<open>_encode\<close> is the reference encoding, \<open>_ok\<close> says that the 32-bit and
  64-bit fields hold values of their width in canonical form and that unknown fields are well
  formed. The lemmas show, for every type, that writer and reader are a codec for the reference
  encoding and that the reader returns on every input.
\<close>

subsection \<open>HealthRequest\<close>

type_synonym HealthRequest = message

definition HealthRequest_create :: HealthRequest where
  "HealthRequest_create = \<lparr>unknownFields = []\<rparr>"

definition HealthRequest_field ::
  "'r reader \<Rightarrow> read_unknown \<Rightarrow> nat \<Rightarrow> wire_type \<Rightarrow> HealthRequest \<Rightarrow> 'r \<Rightarrow> (HealthRequest \<times> 'r) comp" where
  "HealthRequest_field R options fieldNo wireType message =
     readUnknown R options ''pgapp.v1.HealthRequest'' fieldNo wireType message"

definition HealthRequest_internalBinaryRead ::
  "'r reader \<Rightarrow> read_unknown \<Rightarrow> 'r \<Rightarrow> nat \<Rightarrow> HealthRequest option \<Rightarrow> (HealthRequest \<times> 'r) comp" where
  "HealthRequest_internalBinaryRead R options =
     readMessage R (HealthRequest_field R options) HealthRequest_create"

definition HealthRequest_internalBinaryWrite ::
  "'w writer \<Rightarrow> 'w write_unknown \<Rightarrow> HealthRequest \<Rightarrow> 'w \<Rightarrow> 'w result" where
  "HealthRequest_internalBinaryWrite W options message = seqW
     [writeUnknown W options ''pgapp.v1.HealthRequest'' message]"

definition HealthRequest_encode :: "encoding \<Rightarrow> HealthRequest \<Rightarrow> bytes" where
  "HealthRequest_encode E message =
     encUnknown E message"

definition HealthRequest_ok :: "(wire_type \<Rightarrow> bytes \<Rightarrow> bool) \<Rightarrow> HealthRequest \<Rightarrow> bool" where
  "HealthRequest_ok payload message \<longleftrightarrow>
     unknown_ok payload 0 message"

subsection \<open>HealthResponse\<close>

record HealthResponse = message +
  HealthResponse_live :: bool

definition HealthResponse_create :: HealthResponse where
  "HealthResponse_create = \<lparr>unknownFields = [], HealthResponse_live = False\<rparr>"

definition HealthResponse_field ::
  "'r reader \<Rightarrow> read_unknown \<Rightarrow> nat \<Rightarrow> wire_type \<Rightarrow> HealthResponse \<Rightarrow> 'r \<Rightarrow> (HealthResponse \<times> 'r) comp" where
  "HealthResponse_field R options fieldNo wireType message =
     (if fieldNo = 1 then setField (r_bool R) (\<lambda>v m. m\<lparr>HealthResponse_live := v\<rparr>) message
      else readUnknown R options ''pgapp.v1.HealthResponse'' fieldNo wireType message)"

definition HealthResponse_internalBinaryRead ::
  "'r reader \<Rightarrow> read_unknown \<Rightarrow> 'r \<Rightarrow> nat \<Rightarrow> HealthResponse option \<Rightarrow> (HealthResponse \<times> 'r) comp" where
  "HealthResponse_internalBinaryRead R options =
     readMessage R (HealthResponse_field R options) HealthResponse_create"

definition HealthResponse_internalBinaryWrite ::
  "'w writer \<Rightarrow> 'w write_unknown \<Rightarrow> HealthResponse \<Rightarrow> 'w \<Rightarrow> 'w result" where
  "HealthResponse_internalBinaryWrite W options message = seqW
     [whenW (HealthResponse_live message \<noteq> False) (tagBool W 1 (HealthResponse_live message)),
      writeUnknown W options ''pgapp.v1.HealthResponse'' message]"

definition HealthResponse_encode :: "encoding \<Rightarrow> HealthResponse \<Rightarrow> bytes" where
  "HealthResponse_encode E message =
     encBool E 1 (HealthResponse_live message) @
     encUnknown E message"

definition HealthResponse_ok :: "(wire_type \<Rightarrow> bytes \<Rightarrow> bool) \<Rightarrow> HealthResponse \<Rightarrow> bool" where
  "HealthResponse_ok payload message \<longleftrightarrow>
     unknown_ok payload 1 message"

subsection \<open>ReadinessRequest\<close>

type_synonym ReadinessRequest = message

definition ReadinessRequest_create :: ReadinessRequest where
  "ReadinessRequest_create = \<lparr>unknownFields = []\<rparr>"

definition ReadinessRequest_field ::
  "'r reader \<Rightarrow> read_unknown \<Rightarrow> nat \<Rightarrow> wire_type \<Rightarrow> ReadinessRequest \<Rightarrow> 'r \<Rightarrow> (ReadinessRequest \<times> 'r) comp" where
  "ReadinessRequest_field R options fieldNo wireType message =
     readUnknown R options ''pgapp.v1.ReadinessRequest'' fieldNo wireType message"

definition ReadinessRequest_internalBinaryRead ::
  "'r reader \<Rightarrow> read_unknown \<Rightarrow> 'r \<Rightarrow> nat \<Rightarrow> ReadinessRequest option \<Rightarrow> (ReadinessRequest \<times> 'r) comp" where
  "ReadinessRequest_internalBinaryRead R options =
     readMessage R (ReadinessRequest_field R options) ReadinessRequest_create"

definition ReadinessRequest_internalBinaryWrite ::
  "'w writer \<Rightarrow> 'w write_unknown \<Rightarrow> ReadinessRequest \<Rightarrow> 'w \<Rightarrow> 'w result" where
  "ReadinessRequest_internalBinaryWrite W options message = seqW
     [writeUnknown W options ''pgapp.v1.ReadinessRequest'' message]"

definition ReadinessRequest_encode :: "encoding \<Rightarrow> ReadinessRequest \<Rightarrow> bytes" where
  "ReadinessRequest_encode E message =
     encUnknown E message"

definition ReadinessRequest_ok :: "(wire_type \<Rightarrow> bytes \<Rightarrow> bool) \<Rightarrow> ReadinessRequest \<Rightarrow> bool" where
  "ReadinessRequest_ok payload message \<longleftrightarrow>
     unknown_ok payload 0 message"

subsection \<open>ReadinessResponse\<close>

record ReadinessResponse = message +
  ReadinessResponse_ready :: bool
  ReadinessResponse_capabilities :: "ServiceCapability list"

definition ReadinessResponse_create :: ReadinessResponse where
  "ReadinessResponse_create = \<lparr>unknownFields = [], ReadinessResponse_ready = False, ReadinessResponse_capabilities = []\<rparr>"

definition ReadinessResponse_field ::
  "'r reader \<Rightarrow> read_unknown \<Rightarrow> nat \<Rightarrow> wire_type \<Rightarrow> ReadinessResponse \<Rightarrow> 'r \<Rightarrow> (ReadinessResponse \<times> 'r) comp" where
  "ReadinessResponse_field R options fieldNo wireType message =
     (if fieldNo = 1 then setField (r_bool R) (\<lambda>v m. m\<lparr>ReadinessResponse_ready := v\<rparr>) message
      else if fieldNo = 2 then pushMessage R (ServiceCapability_internalBinaryRead R options) ReadinessResponse_capabilities_update message
      else readUnknown R options ''pgapp.v1.ReadinessResponse'' fieldNo wireType message)"

definition ReadinessResponse_internalBinaryRead ::
  "'r reader \<Rightarrow> read_unknown \<Rightarrow> 'r \<Rightarrow> nat \<Rightarrow> ReadinessResponse option \<Rightarrow> (ReadinessResponse \<times> 'r) comp" where
  "ReadinessResponse_internalBinaryRead R options =
     readMessage R (ReadinessResponse_field R options) ReadinessResponse_create"

definition ReadinessResponse_internalBinaryWrite ::
  "'w writer \<Rightarrow> 'w write_unknown \<Rightarrow> ReadinessResponse \<Rightarrow> 'w \<Rightarrow> 'w result" where
  "ReadinessResponse_internalBinaryWrite W options message = seqW
     [whenW (ReadinessResponse_ready message \<noteq> False) (tagBool W 1 (ReadinessResponse_ready message)),
      forW (\<lambda>v. tagMessage W 2 (ServiceCapability_internalBinaryWrite W options v)) (ReadinessResponse_capabilities message),
      writeUnknown W options ''pgapp.v1.ReadinessResponse'' message]"

definition ReadinessResponse_encode :: "encoding \<Rightarrow> ReadinessResponse \<Rightarrow> bytes" where
  "ReadinessResponse_encode E message =
     encBool E 1 (ReadinessResponse_ready message) @
     encRepeated (\<lambda>v. encMessage E 2 (ServiceCapability_encode E v)) (ReadinessResponse_capabilities message) @
     encUnknown E message"

definition ReadinessResponse_ok :: "(wire_type \<Rightarrow> bytes \<Rightarrow> bool) \<Rightarrow> ReadinessResponse \<Rightarrow> bool" where
  "ReadinessResponse_ok payload message \<longleftrightarrow>
     unknown_ok payload 2 message \<and>
     list_all (ServiceCapability_ok payload) (ReadinessResponse_capabilities message)"

subsection \<open>RuntimeMetricsRequest\<close>

type_synonym RuntimeMetricsRequest = message

definition RuntimeMetricsRequest_create :: RuntimeMetricsRequest where
  "RuntimeMetricsRequest_create = \<lparr>unknownFields = []\<rparr>"

definition RuntimeMetricsRequest_field ::
  "'r reader \<Rightarrow> read_unknown \<Rightarrow> nat \<Rightarrow> wire_type \<Rightarrow> RuntimeMetricsRequest \<Rightarrow> 'r \<Rightarrow> (RuntimeMetricsRequest \<times> 'r) comp" where
  "RuntimeMetricsRequest_field R options fieldNo wireType message =
     readUnknown R options ''pgapp.v1.RuntimeMetricsRequest'' fieldNo wireType message"

definition RuntimeMetricsRequest_internalBinaryRead ::
  "'r reader \<Rightarrow> read_unknown \<Rightarrow> 'r \<Rightarrow> nat \<Rightarrow> RuntimeMetricsRequest option \<Rightarrow> (RuntimeMetricsRequest \<times> 'r) comp" where
  "RuntimeMetricsRequest_internalBinaryRead R options =
     readMessage R (RuntimeMetricsRequest_field R options) RuntimeMetricsRequest_create"

definition RuntimeMetricsRequest_internalBinaryWrite ::
  "'w writer \<Rightarrow> 'w write_unknown \<Rightarrow> RuntimeMetricsRequest \<Rightarrow> 'w \<Rightarrow> 'w result" where
  "RuntimeMetricsRequest_internalBinaryWrite W options message = seqW
     [writeUnknown W options ''pgapp.v1.RuntimeMetricsRequest'' message]"

definition RuntimeMetricsRequest_encode :: "encoding \<Rightarrow> RuntimeMetricsRequest \<Rightarrow> bytes" where
  "RuntimeMetricsRequest_encode E message =
     encUnknown E message"

definition RuntimeMetricsRequest_ok :: "(wire_type \<Rightarrow> bytes \<Rightarrow> bool) \<Rightarrow> RuntimeMetricsRequest \<Rightarrow> bool" where
  "RuntimeMetricsRequest_ok payload message \<longleftrightarrow>
     unknown_ok payload 0 message"

subsection \<open>MethodMetric\<close>

record MethodMetric = message +
  MethodMetric_service :: string
  MethodMetric_method :: string
  MethodMetric_status :: string
  MethodMetric_count :: string
  MethodMetric_errors :: string
  MethodMetric_totalLatencyMillis :: string

definition MethodMetric_create :: MethodMetric where
  "MethodMetric_create = \<lparr>unknownFields = [],
     MethodMetric_service = [],
     MethodMetric_method = [],
     MethodMetric_status = [],
     MethodMetric_count = ''0'',
     MethodMetric_errors = ''0'',
     MethodMetric_totalLatencyMillis = ''0''\<rparr>"

definition MethodMetric_field ::
  "'r reader \<Rightarrow> read_unknown \<Rightarrow> nat \<Rightarrow> wire_type \<Rightarrow> MethodMetric \<Rightarrow> 'r \<Rightarrow> (MethodMetric \<times> 'r) comp" where
  "MethodMetric_field R options fieldNo wireType message =
     (if fieldNo = 1 then setField (r_string R) (\<lambda>v m. m\<lparr>MethodMetric_service := v\<rparr>) message
      else if fieldNo = 2 then setField (r_string R) (\<lambda>v m. m\<lparr>MethodMetric_method := v\<rparr>) message
      else if fieldNo = 3 then setField (r_string R) (\<lambda>v m. m\<lparr>MethodMetric_status := v\<rparr>) message
      else if fieldNo = 4 then setLong (r_uint64 R) (\<lambda>v m. m\<lparr>MethodMetric_count := v\<rparr>) message
      else if fieldNo = 5 then setLong (r_uint64 R) (\<lambda>v m. m\<lparr>MethodMetric_errors := v\<rparr>) message
      else if fieldNo = 6 then setLong (r_uint64 R) (\<lambda>v m. m\<lparr>MethodMetric_totalLatencyMillis := v\<rparr>) message
      else readUnknown R options ''pgapp.v1.MethodMetric'' fieldNo wireType message)"

definition MethodMetric_internalBinaryRead ::
  "'r reader \<Rightarrow> read_unknown \<Rightarrow> 'r \<Rightarrow> nat \<Rightarrow> MethodMetric option \<Rightarrow> (MethodMetric \<times> 'r) comp" where
  "MethodMetric_internalBinaryRead R options =
     readMessage R (MethodMetric_field R options) MethodMetric_create"

definition MethodMetric_internalBinaryWrite ::
  "'w writer \<Rightarrow> 'w write_unknown \<Rightarrow> MethodMetric \<Rightarrow> 'w \<Rightarrow> 'w result" where
  "MethodMetric_internalBinaryWrite W options message = seqW
     [whenW (MethodMetric_service message \<noteq> []) (tagString W 1 (MethodMetric_service message)),
      whenW (MethodMetric_method message \<noteq> []) (tagString W 2 (MethodMetric_method message)),
      whenW (MethodMetric_status message \<noteq> []) (tagString W 3 (MethodMetric_status message)),
      whenW (MethodMetric_count message \<noteq> ''0'') (tagUint64 W 4 (MethodMetric_count message)),
      whenW (MethodMetric_errors message \<noteq> ''0'') (tagUint64 W 5 (MethodMetric_errors message)),
      whenW (MethodMetric_totalLatencyMillis message \<noteq> ''0'') (tagUint64 W 6 (MethodMetric_totalLatencyMillis message)),
      writeUnknown W options ''pgapp.v1.MethodMetric'' message]"

definition MethodMetric_encode :: "encoding \<Rightarrow> MethodMetric \<Rightarrow> bytes" where
  "MethodMetric_encode E message =
     encString E 1 (MethodMetric_service message) @
     encString E 2 (MethodMetric_method message) @
     encString E 3 (MethodMetric_status message) @
     encUint64 E 4 (MethodMetric_count message) @
     encUint64 E 5 (MethodMetric_errors message) @
     encUint64 E 6 (MethodMetric_totalLatencyMillis message) @
     encUnknown E message"

definition MethodMetric_ok :: "(wire_type \<Rightarrow> bytes \<Rightarrow> bool) \<Rightarrow> MethodMetric \<Rightarrow> bool" where
  "MethodMetric_ok payload message \<longleftrightarrow>
     unknown_ok payload 6 message \<and>
     uint64_ok (MethodMetric_count message) \<and>
     uint64_ok (MethodMetric_errors message) \<and>
     uint64_ok (MethodMetric_totalLatencyMillis message)"

subsection \<open>PgPoolMetrics\<close>

record PgPoolMetrics = message +
  PgPoolMetrics_size :: js_number
  PgPoolMetrics_idle :: js_number

definition PgPoolMetrics_create :: PgPoolMetrics where
  "PgPoolMetrics_create = \<lparr>unknownFields = [], PgPoolMetrics_size = IntNum 0, PgPoolMetrics_idle = IntNum 0\<rparr>"

definition PgPoolMetrics_field ::
  "'r reader \<Rightarrow> read_unknown \<Rightarrow> nat \<Rightarrow> wire_type \<Rightarrow> PgPoolMetrics \<Rightarrow> 'r \<Rightarrow> (PgPoolMetrics \<times> 'r) comp" where
  "PgPoolMetrics_field R options fieldNo wireType message =
     (if fieldNo = 1 then setUint32 R (\<lambda>v m. m\<lparr>PgPoolMetrics_size := v\<rparr>) message
      else if fieldNo = 2 then setUint32 R (\<lambda>v m. m\<lparr>PgPoolMetrics_idle := v\<rparr>) message
      else readUnknown R options ''pgapp.v1.PgPoolMetrics'' fieldNo wireType message)"

definition PgPoolMetrics_internalBinaryRead ::
  "'r reader \<Rightarrow> read_unknown \<Rightarrow> 'r \<Rightarrow> nat \<Rightarrow> PgPoolMetrics option \<Rightarrow> (PgPoolMetrics \<times> 'r) comp" where
  "PgPoolMetrics_internalBinaryRead R options =
     readMessage R (PgPoolMetrics_field R options) PgPoolMetrics_create"

definition PgPoolMetrics_internalBinaryWrite ::
  "'w writer \<Rightarrow> 'w write_unknown \<Rightarrow> PgPoolMetrics \<Rightarrow> 'w \<Rightarrow> 'w result" where
  "PgPoolMetrics_internalBinaryWrite W options message = seqW
     [whenW (PgPoolMetrics_size message \<noteq> IntNum 0) (tagUint32 W 1 (PgPoolMetrics_size message)),
      whenW (PgPoolMetrics_idle message \<noteq> IntNum 0) (tagUint32 W 2 (PgPoolMetrics_idle message)),
      writeUnknown W options ''pgapp.v1.PgPoolMetrics'' message]"

definition PgPoolMetrics_encode :: "encoding \<Rightarrow> PgPoolMetrics \<Rightarrow> bytes" where
  "PgPoolMetrics_encode E message =
     encUint32 E 1 (PgPoolMetrics_size message) @
     encUint32 E 2 (PgPoolMetrics_idle message) @
     encUnknown E message"

definition PgPoolMetrics_ok :: "(wire_type \<Rightarrow> bytes \<Rightarrow> bool) \<Rightarrow> PgPoolMetrics \<Rightarrow> bool" where
  "PgPoolMetrics_ok payload message \<longleftrightarrow>
     unknown_ok payload 2 message \<and>
     uint32_ok (PgPoolMetrics_size message) \<and>
     uint32_ok (PgPoolMetrics_idle message)"

subsection \<open>RuntimeMetricsResponse\<close>

record RuntimeMetricsResponse = message +
  RuntimeMetricsResponse_methods :: "MethodMetric list"
  RuntimeMetricsResponse_pgPool :: "PgPoolMetrics option"

definition RuntimeMetricsResponse_create :: RuntimeMetricsResponse where
  "RuntimeMetricsResponse_create = \<lparr>unknownFields = [], RuntimeMetricsResponse_methods = [], RuntimeMetricsResponse_pgPool = None\<rparr>"

definition RuntimeMetricsResponse_field ::
  "'r reader \<Rightarrow> read_unknown \<Rightarrow> nat \<Rightarrow> wire_type \<Rightarrow> RuntimeMetricsResponse \<Rightarrow> 'r \<Rightarrow> (RuntimeMetricsResponse \<times> 'r) comp" where
  "RuntimeMetricsResponse_field R options fieldNo wireType message =
     (if fieldNo = 1 then pushMessage R (MethodMetric_internalBinaryRead R options) RuntimeMetricsResponse_methods_update message
      else if fieldNo = 2 then setOptMessage R (PgPoolMetrics_internalBinaryRead R options) (RuntimeMetricsResponse_pgPool message)
            (\<lambda>v m. m\<lparr>RuntimeMetricsResponse_pgPool := v\<rparr>) message
      else readUnknown R options ''pgapp.v1.RuntimeMetricsResponse'' fieldNo wireType message)"

definition RuntimeMetricsResponse_internalBinaryRead ::
  "'r reader \<Rightarrow> read_unknown \<Rightarrow> 'r \<Rightarrow> nat \<Rightarrow> RuntimeMetricsResponse option \<Rightarrow> (RuntimeMetricsResponse \<times> 'r) comp" where
  "RuntimeMetricsResponse_internalBinaryRead R options =
     readMessage R (RuntimeMetricsResponse_field R options) RuntimeMetricsResponse_create"

definition RuntimeMetricsResponse_internalBinaryWrite ::
  "'w writer \<Rightarrow> 'w write_unknown \<Rightarrow> RuntimeMetricsResponse \<Rightarrow> 'w \<Rightarrow> 'w result" where
  "RuntimeMetricsResponse_internalBinaryWrite W options message = seqW
     [forW (\<lambda>v. tagMessage W 1 (MethodMetric_internalBinaryWrite W options v)) (RuntimeMetricsResponse_methods message),
      whenSome (RuntimeMetricsResponse_pgPool message) (\<lambda>v. tagMessage W 2 (PgPoolMetrics_internalBinaryWrite W options v)),
      writeUnknown W options ''pgapp.v1.RuntimeMetricsResponse'' message]"

definition RuntimeMetricsResponse_encode :: "encoding \<Rightarrow> RuntimeMetricsResponse \<Rightarrow> bytes" where
  "RuntimeMetricsResponse_encode E message =
     encRepeated (\<lambda>v. encMessage E 1 (MethodMetric_encode E v)) (RuntimeMetricsResponse_methods message) @
     encOption (\<lambda>v. encMessage E 2 (PgPoolMetrics_encode E v)) (RuntimeMetricsResponse_pgPool message) @
     encUnknown E message"

definition RuntimeMetricsResponse_ok :: "(wire_type \<Rightarrow> bytes \<Rightarrow> bool) \<Rightarrow> RuntimeMetricsResponse \<Rightarrow> bool" where
  "RuntimeMetricsResponse_ok payload message \<longleftrightarrow>
     unknown_ok payload 2 message \<and>
     list_all (MethodMetric_ok payload) (RuntimeMetricsResponse_methods message) \<and>
     pred_option (PgPoolMetrics_ok payload) (RuntimeMetricsResponse_pgPool message)"


section \<open>The field switches, field by field\<close>

lemma HealthRequest_field_simps:
  "0 < no \<Longrightarrow> HealthRequest_field R u no wt m = readUnknown R u ''pgapp.v1.HealthRequest'' no wt m"
  by (auto simp: HealthRequest_field_def)

lemma HealthResponse_field_simps:
  "HealthResponse_field R u 1 wt m = setField (r_bool R) (\<lambda>v m. m\<lparr>HealthResponse_live := v\<rparr>) m"
  "1 < no \<Longrightarrow> HealthResponse_field R u no wt m = readUnknown R u ''pgapp.v1.HealthResponse'' no wt m"
  by (auto simp: HealthResponse_field_def)

lemma ReadinessRequest_field_simps:
  "0 < no \<Longrightarrow> ReadinessRequest_field R u no wt m = readUnknown R u ''pgapp.v1.ReadinessRequest'' no wt m"
  by (auto simp: ReadinessRequest_field_def)

lemma ReadinessResponse_field_simps:
  "ReadinessResponse_field R u 1 wt m = setField (r_bool R) (\<lambda>v m. m\<lparr>ReadinessResponse_ready := v\<rparr>) m"
  "ReadinessResponse_field R u 2 wt m = pushMessage R (ServiceCapability_internalBinaryRead R u) ReadinessResponse_capabilities_update m"
  "2 < no \<Longrightarrow> ReadinessResponse_field R u no wt m = readUnknown R u ''pgapp.v1.ReadinessResponse'' no wt m"
  by (auto simp: ReadinessResponse_field_def)

lemma RuntimeMetricsRequest_field_simps:
  "0 < no \<Longrightarrow> RuntimeMetricsRequest_field R u no wt m = readUnknown R u ''pgapp.v1.RuntimeMetricsRequest'' no wt m"
  by (auto simp: RuntimeMetricsRequest_field_def)

lemma MethodMetric_field_simps:
  "MethodMetric_field R u 1 wt m = setField (r_string R) (\<lambda>v m. m\<lparr>MethodMetric_service := v\<rparr>) m"
  "MethodMetric_field R u 2 wt m = setField (r_string R) (\<lambda>v m. m\<lparr>MethodMetric_method := v\<rparr>) m"
  "MethodMetric_field R u 3 wt m = setField (r_string R) (\<lambda>v m. m\<lparr>MethodMetric_status := v\<rparr>) m"
  "MethodMetric_field R u 4 wt m = setLong (r_uint64 R) (\<lambda>v m. m\<lparr>MethodMetric_count := v\<rparr>) m"
  "MethodMetric_field R u 5 wt m = setLong (r_uint64 R) (\<lambda>v m. m\<lparr>MethodMetric_errors := v\<rparr>) m"
  "MethodMetric_field R u 6 wt m = setLong (r_uint64 R) (\<lambda>v m. m\<lparr>MethodMetric_totalLatencyMillis := v\<rparr>) m"
  "6 < no \<Longrightarrow> MethodMetric_field R u no wt m = readUnknown R u ''pgapp.v1.MethodMetric'' no wt m"
  by (auto simp: MethodMetric_field_def)

lemma PgPoolMetrics_field_simps:
  "PgPoolMetrics_field R u 1 wt m = setUint32 R (\<lambda>v m. m\<lparr>PgPoolMetrics_size := v\<rparr>) m"
  "PgPoolMetrics_field R u 2 wt m = setUint32 R (\<lambda>v m. m\<lparr>PgPoolMetrics_idle := v\<rparr>) m"
  "2 < no \<Longrightarrow> PgPoolMetrics_field R u no wt m = readUnknown R u ''pgapp.v1.PgPoolMetrics'' no wt m"
  by (auto simp: PgPoolMetrics_field_def)

lemma RuntimeMetricsResponse_field_simps:
  "RuntimeMetricsResponse_field R u 1 wt m = pushMessage R (MethodMetric_internalBinaryRead R u) RuntimeMetricsResponse_methods_update m"
  "RuntimeMetricsResponse_field R u 2 wt m = setOptMessage R (PgPoolMetrics_internalBinaryRead R u) (RuntimeMetricsResponse_pgPool m) (\<lambda>v m. m\<lparr>RuntimeMetricsResponse_pgPool := v\<rparr>) m"
  "2 < no \<Longrightarrow> RuntimeMetricsResponse_field R u no wt m = readUnknown R u ''pgapp.v1.RuntimeMetricsResponse'' no wt m"
  by (auto simp: RuntimeMetricsResponse_field_def)

section \<open>Codecs\<close>

context wire_runtime
begin

lemma HealthRequest_codec [wire_intro]:
  "codec (HealthRequest_internalBinaryRead R RU_true) (HealthRequest_internalBinaryWrite W WU_true)
    (HealthRequest_encode E) (HealthRequest_ok payload)"
  unfolding HealthRequest_internalBinaryRead_def
proof (rule codecI)
  fix m
  assume ok: "HealthRequest_ok payload m"
  show "rt (HealthRequest_field R RU_true) (HealthRequest_internalBinaryWrite W WU_true m) (HealthRequest_encode E m)
      HealthRequest_create m"
    unfolding HealthRequest_internalBinaryWrite_def HealthRequest_encode_def
    by (rule rt_chain, (rule wire_intro HealthRequest_field_simps |
        use ok in \<open>simp add: HealthRequest_ok_def HealthRequest_create_def field_intros\<close>)+)
qed

lemma HealthResponse_codec [wire_intro]:
  "codec (HealthResponse_internalBinaryRead R RU_true) (HealthResponse_internalBinaryWrite W WU_true)
    (HealthResponse_encode E) (HealthResponse_ok payload)"
  unfolding HealthResponse_internalBinaryRead_def
proof (rule codecI)
  fix m
  assume ok: "HealthResponse_ok payload m"
  show "rt (HealthResponse_field R RU_true) (HealthResponse_internalBinaryWrite W WU_true m) (HealthResponse_encode E m)
      HealthResponse_create m"
    unfolding HealthResponse_internalBinaryWrite_def HealthResponse_encode_def
    by (rule rt_chain, (rule wire_intro HealthResponse_field_simps |
        use ok in \<open>simp add: HealthResponse_ok_def HealthResponse_create_def field_intros\<close>)+)
qed

lemma ReadinessRequest_codec [wire_intro]:
  "codec (ReadinessRequest_internalBinaryRead R RU_true) (ReadinessRequest_internalBinaryWrite W WU_true)
    (ReadinessRequest_encode E) (ReadinessRequest_ok payload)"
  unfolding ReadinessRequest_internalBinaryRead_def
proof (rule codecI)
  fix m
  assume ok: "ReadinessRequest_ok payload m"
  show "rt (ReadinessRequest_field R RU_true) (ReadinessRequest_internalBinaryWrite W WU_true m) (ReadinessRequest_encode E m)
      ReadinessRequest_create m"
    unfolding ReadinessRequest_internalBinaryWrite_def ReadinessRequest_encode_def
    by (rule rt_chain, (rule wire_intro ReadinessRequest_field_simps |
        use ok in \<open>simp add: ReadinessRequest_ok_def ReadinessRequest_create_def field_intros\<close>)+)
qed

lemma ReadinessResponse_codec [wire_intro]:
  "codec (ReadinessResponse_internalBinaryRead R RU_true) (ReadinessResponse_internalBinaryWrite W WU_true)
    (ReadinessResponse_encode E) (ReadinessResponse_ok payload)"
  unfolding ReadinessResponse_internalBinaryRead_def
proof (rule codecI)
  fix m
  assume ok: "ReadinessResponse_ok payload m"
  show "rt (ReadinessResponse_field R RU_true) (ReadinessResponse_internalBinaryWrite W WU_true m) (ReadinessResponse_encode E m)
      ReadinessResponse_create m"
    unfolding ReadinessResponse_internalBinaryWrite_def ReadinessResponse_encode_def
    by (rule rt_chain, (rule wire_intro ReadinessResponse_field_simps |
        use ok in \<open>simp add: ReadinessResponse_ok_def ReadinessResponse_create_def field_intros\<close>)+)
qed

lemma RuntimeMetricsRequest_codec [wire_intro]:
  "codec (RuntimeMetricsRequest_internalBinaryRead R RU_true) (RuntimeMetricsRequest_internalBinaryWrite W WU_true)
    (RuntimeMetricsRequest_encode E) (RuntimeMetricsRequest_ok payload)"
  unfolding RuntimeMetricsRequest_internalBinaryRead_def
proof (rule codecI)
  fix m
  assume ok: "RuntimeMetricsRequest_ok payload m"
  show "rt (RuntimeMetricsRequest_field R RU_true) (RuntimeMetricsRequest_internalBinaryWrite W WU_true m) (RuntimeMetricsRequest_encode E m)
      RuntimeMetricsRequest_create m"
    unfolding RuntimeMetricsRequest_internalBinaryWrite_def RuntimeMetricsRequest_encode_def
    by (rule rt_chain, (rule wire_intro RuntimeMetricsRequest_field_simps |
        use ok in \<open>simp add: RuntimeMetricsRequest_ok_def RuntimeMetricsRequest_create_def field_intros\<close>)+)
qed

lemma MethodMetric_codec [wire_intro]:
  "codec (MethodMetric_internalBinaryRead R RU_true) (MethodMetric_internalBinaryWrite W WU_true)
    (MethodMetric_encode E) (MethodMetric_ok payload)"
  unfolding MethodMetric_internalBinaryRead_def
proof (rule codecI)
  fix m
  assume ok: "MethodMetric_ok payload m"
  show "rt (MethodMetric_field R RU_true) (MethodMetric_internalBinaryWrite W WU_true m) (MethodMetric_encode E m)
      MethodMetric_create m"
    unfolding MethodMetric_internalBinaryWrite_def MethodMetric_encode_def
    by (rule rt_chain, (rule wire_intro MethodMetric_field_simps |
        use ok in \<open>simp add: MethodMetric_ok_def MethodMetric_create_def field_intros\<close>)+)
qed

lemma PgPoolMetrics_codec [wire_intro]:
  "codec (PgPoolMetrics_internalBinaryRead R RU_true) (PgPoolMetrics_internalBinaryWrite W WU_true)
    (PgPoolMetrics_encode E) (PgPoolMetrics_ok payload)"
  unfolding PgPoolMetrics_internalBinaryRead_def
proof (rule codecI)
  fix m
  assume ok: "PgPoolMetrics_ok payload m"
  show "rt (PgPoolMetrics_field R RU_true) (PgPoolMetrics_internalBinaryWrite W WU_true m) (PgPoolMetrics_encode E m)
      PgPoolMetrics_create m"
    unfolding PgPoolMetrics_internalBinaryWrite_def PgPoolMetrics_encode_def
    by (rule rt_chain, (rule wire_intro PgPoolMetrics_field_simps |
        use ok in \<open>simp add: PgPoolMetrics_ok_def PgPoolMetrics_create_def field_intros\<close>)+)
qed

lemma RuntimeMetricsResponse_codec [wire_intro]:
  "codec (RuntimeMetricsResponse_internalBinaryRead R RU_true) (RuntimeMetricsResponse_internalBinaryWrite W WU_true)
    (RuntimeMetricsResponse_encode E) (RuntimeMetricsResponse_ok payload)"
  unfolding RuntimeMetricsResponse_internalBinaryRead_def
proof (rule codecI)
  fix m
  assume ok: "RuntimeMetricsResponse_ok payload m"
  show "rt (RuntimeMetricsResponse_field R RU_true) (RuntimeMetricsResponse_internalBinaryWrite W WU_true m) (RuntimeMetricsResponse_encode E m)
      RuntimeMetricsResponse_create m"
    unfolding RuntimeMetricsResponse_internalBinaryWrite_def RuntimeMetricsResponse_encode_def
    by (rule rt_chain, (rule wire_intro RuntimeMetricsResponse_field_simps |
        use ok in \<open>simp add: RuntimeMetricsResponse_ok_def RuntimeMetricsResponse_create_def field_intros\<close>)+)
qed

end


section \<open>Termination\<close>

context wire_progress
begin

lemma HealthRequest_returns [wire_total]: "reader_returns (HealthRequest_internalBinaryRead R u)"
  unfolding HealthRequest_internalBinaryRead_def HealthRequest_field_def by (intro wire_total)

lemma HealthResponse_returns [wire_total]: "reader_returns (HealthResponse_internalBinaryRead R u)"
  unfolding HealthResponse_internalBinaryRead_def HealthResponse_field_def by (intro wire_total)

lemma ReadinessRequest_returns [wire_total]: "reader_returns (ReadinessRequest_internalBinaryRead R u)"
  unfolding ReadinessRequest_internalBinaryRead_def ReadinessRequest_field_def by (intro wire_total)

lemma ReadinessResponse_returns [wire_total]: "reader_returns (ReadinessResponse_internalBinaryRead R u)"
  unfolding ReadinessResponse_internalBinaryRead_def ReadinessResponse_field_def by (intro wire_total)

lemma RuntimeMetricsRequest_returns [wire_total]: "reader_returns (RuntimeMetricsRequest_internalBinaryRead R u)"
  unfolding RuntimeMetricsRequest_internalBinaryRead_def RuntimeMetricsRequest_field_def by (intro wire_total)

lemma MethodMetric_returns [wire_total]: "reader_returns (MethodMetric_internalBinaryRead R u)"
  unfolding MethodMetric_internalBinaryRead_def MethodMetric_field_def by (intro wire_total)

lemma PgPoolMetrics_returns [wire_total]: "reader_returns (PgPoolMetrics_internalBinaryRead R u)"
  unfolding PgPoolMetrics_internalBinaryRead_def PgPoolMetrics_field_def by (intro wire_total)

lemma RuntimeMetricsResponse_returns [wire_total]: "reader_returns (RuntimeMetricsResponse_internalBinaryRead R u)"
  unfolding RuntimeMetricsResponse_internalBinaryRead_def RuntimeMetricsResponse_field_def by (intro wire_total)

end

end
