(* ===== verification/Codec_Laws.thy ===== *)
theory Codec_Laws
  imports Common_Messages Cache_Messages Mq_Messages Config_Messages Health_Messages Proto_Wire
begin

text \<open>
  What the generated codecs guarantee to their users: a message survives the wire, with the
  fields it does not know; concatenated encodings merge; packed and unpacked repeated fields
  read alike; decoding returns on every input; unknown fields are refused when the caller asks
  for it; a 64-bit value out of range is not written.
\<close>


section \<open>Reading from any message\<close>

context wire_runtime
begin

text \<open>An input that the read loop turns into \<open>m\<close> decodes to \<open>m\<close>.\<close>

lemma fromBinary_reads:
  assumes "reads (readTagged R fld) bs create m"
  shows "fromBinary R (readMessage R fld create) bs = Some (Inr m)"
  using reads_loop [OF assms, of "r_new R bs" "[]" "int (length bs)"]
  by (auto simp: fromBinary_def readMessage_def r_new Let_def)

text \<open>The encoding of a field, read into a message that may hold the field already.\<close>

lemma reads_encString:
  assumes "fld no LengthDelimited m = setField (r_string R) upd m" "field_no_ok no" "fits (encString E no s)"
  shows "reads (readTagged R fld) (encString E no s) m (if s = [] then m else upd s m)"
  using rt_tagString [of fld no m upd s] assms
  by (auto simp: encString_def rt_def reads_Nil split: if_splits)

lemma reads_encStrings:
  assumes "\<And>m. fld no LengthDelimited m = pushField (r_string R) upd m" "field_no_ok no" "field_update upd"
    and "fits (encRepeated (\<lambda>s. e_tag E no LengthDelimited @ e_string E s) xs)"
  shows "reads (readTagged R fld) (encRepeated (\<lambda>s. e_tag E no LengthDelimited @ e_string E s) xs) m
     (upd (\<lambda>ys. ys @ xs) m)"
  using rt_strings [of fld no upd xs m] assms by (auto simp: rt_def)

lemma reads_encUnknown:
  assumes "\<And>no wt m. known < no \<Longrightarrow> fld no wt m = readUnknown R RU_true tn no wt m"
    and "unknown_ok payload known m0"
  shows "reads (readTagged R fld) (encUnknown E m0) m
    (m\<lparr>unknownFields := unknownFields m @ unknownFields m0\<rparr>)"
  using reads_unknown [of known fld tn "unknownFields m0" m] assms
  by (simp add: encUnknown_def unknown_ok_def)

text \<open>One element of a repeated 64-bit field that is not packed.\<close>

lemma reads_unpacked:
  assumes fld: "\<And>m. fld no Varint m = readPacked R (pushLong (r_int64 R) upd) Varint m"
    and no: "field_no_ok no" and upd: "field_update upd" and vs: "list_all (\<lambda>v. in_int64 v) vs"
  shows "reads (readTagged R fld) (encRepeated (\<lambda>v. e_tag E no Varint @ e_int64 E v) vs) m
    (upd (\<lambda>ys. ys @ map dec vs) m)"
  using vs
proof (induction vs arbitrary: m)
  case Nil
  with upd show ?case by (simp add: encRepeated_def reads_Nil field_update_def)
next
  case (Cons v vs)
  let ?m1 = "upd (\<lambda>ys. ys @ [dec v]) m"
  have "reads (readTagged R fld) (e_tag E no Varint @ e_int64 E v) m ?m1"
  proof (rule tagged_reads [OF no])
    fix r t
    assume r: "rest r = e_int64 E v @ t"
    from Cons.prems have "in_int64 v" by simp
    from setField_reads [OF r_int64 [OF this] r, where upd = "\<lambda>i. upd (\<lambda>vs. vs @ [dec i])"]
    show "\<exists>r'. fld no Varint m r = Some (Inr (?m1, r')) \<and> rest r' = t \<and>
        r_pos R r' = r_pos R r + length (e_int64 E v)"
      by (simp add: fld readPacked_def pushLong_def)
  qed
  moreover have "reads (readTagged R fld) (encRepeated (\<lambda>v. e_tag E no Varint @ e_int64 E v) vs)
      ?m1 (upd (\<lambda>ys. ys @ map dec (v # vs)) m)"
    using Cons.IH [of ?m1] Cons.prems upd by (simp add: field_update_def)
  ultimately show ?case
    using reads_append [of "readTagged R fld" "e_tag E no Varint @ e_int64 E v"]
    by (simp add: encRepeated_def)
qed

text \<open>An unknown field at the front, for a reader that refuses unknown fields.\<close>

lemma fromBinary_throws:
  assumes no: "field_no_ok no" and fld: "\<And>m. fld no wt m = readUnknown R RU_throw tn no wt m"
  shows "fromBinary R (readMessage R fld create) (e_tag E no wt @ t) =
    Some (Inl (mkError (''Unknown field '' @ dec (int no) @ '' (wire type '' @
      dec (wire_type_no wt) @ '') for '' @ tn)))"
proof -
  let ?r = "r_new R (e_tag E no wt @ t)"
  have "rest ?r = e_tag E no wt @ t" by (simp add: r_new)
  with r_tag [OF no] obtain r1 where "r_tag R ?r = Inr ((no, wt), r1)" by (rule consumesE)
  moreover have "int (r_pos R ?r) < int (length (e_tag E no wt @ t))"
    using tag_pos [of no wt] by (cases "e_tag E no wt") (simp_all add: r_new)
  ultimately show ?thesis using tag_pos [of no wt]
    by (simp add: fromBinary_def readMessage_def r_new Let_def readLoop.simps [of R _ _ _ ?r]
        readTagged_def fld readUnknown_def)
qed

text \<open>Reading one encoding after another merges the messages.\<close>

lemma MGetCacheRequest_reads:
  assumes "MGetCacheRequest_ok payload b" "fits (MGetCacheRequest_encode E b)"
  shows "reads (readTagged R (MGetCacheRequest_field R RU_true)) (MGetCacheRequest_encode E b) m
    \<lparr>unknownFields = unknownFields m @ unknownFields b,
     MGetCacheRequest_namespace = (if MGetCacheRequest_namespace b = [] then MGetCacheRequest_namespace m
        else MGetCacheRequest_namespace b),
     MGetCacheRequest_keys = MGetCacheRequest_keys m @ MGetCacheRequest_keys b\<rparr>"
proof -
  let ?f = "readTagged R (MGetCacheRequest_field R RU_true)"
  let ?m1 = "if MGetCacheRequest_namespace b = [] then m
     else m\<lparr>MGetCacheRequest_namespace := MGetCacheRequest_namespace b\<rparr>"
  let ?m2 = "MGetCacheRequest_keys_update (\<lambda>ys. ys @ MGetCacheRequest_keys b) ?m1"
  note parts = assms(2) [unfolded MGetCacheRequest_encode_def, THEN fits_append]
  have "reads ?f (encString E 1 (MGetCacheRequest_namespace b)) m ?m1"
    by (rule reads_encString, rule MGetCacheRequest_field_simps) (use parts in \<open>simp_all add: field_no_ok_def\<close>)
  moreover have "reads ?f (encRepeated (\<lambda>s. e_tag E 2 LengthDelimited @ e_string E s) (MGetCacheRequest_keys b)) ?m1 ?m2"
    by (rule reads_encStrings [where upd = MGetCacheRequest_keys_update])
      (use parts in \<open>auto simp: MGetCacheRequest_field_simps field_intros dest!: fits_append\<close>)
  moreover have "reads ?f (encUnknown E b) ?m2 (?m2\<lparr>unknownFields := unknownFields ?m2 @ unknownFields b\<rparr>)"
    by (rule reads_encUnknown [where known = 2])
      (use assms(1) in \<open>auto simp: MGetCacheRequest_field_simps MGetCacheRequest_ok_def\<close>)
  ultimately have "reads ?f (MGetCacheRequest_encode E b) m
      (?m2\<lparr>unknownFields := unknownFields ?m2 @ unknownFields b\<rparr>)"
    unfolding MGetCacheRequest_encode_def by (intro reads_append)
  then show ?thesis by (cases m) (simp split: if_splits)
qed

lemma MGetCacheRequest_merges:
  assumes "MGetCacheRequest_ok payload a" "MGetCacheRequest_ok payload b"
    and "fits (MGetCacheRequest_encode E a)" "fits (MGetCacheRequest_encode E b)"
  shows "fromBinary R (MGetCacheRequest_internalBinaryRead R RU_true)
      (MGetCacheRequest_encode E a @ MGetCacheRequest_encode E b) =
    Some (Inr \<lparr>unknownFields = unknownFields a @ unknownFields b,
      MGetCacheRequest_namespace = (if MGetCacheRequest_namespace b = [] then MGetCacheRequest_namespace a
        else MGetCacheRequest_namespace b),
      MGetCacheRequest_keys = MGetCacheRequest_keys a @ MGetCacheRequest_keys b\<rparr>)"
  unfolding MGetCacheRequest_internalBinaryRead_def
  by (intro fromBinary_reads)
    (use reads_append [OF MGetCacheRequest_reads MGetCacheRequest_reads, OF assms(1,3,2,4), of MGetCacheRequest_create]
     in \<open>simp add: MGetCacheRequest_create_def cong: if_cong\<close>)

end


section \<open>Properties\<close>

text \<open>
  C29. A cache write request survives the wire: the generated writer produces the proto3
  encoding of the message, unknown fields included, and the generated reader turns these bytes
  back into the same message.
\<close>

theorem SetCacheRequest_roundtrip:
  assumes "wire_runtime W R E st rest payload" "SetCacheRequest_ok payload m"
    and "length (SetCacheRequest_encode E m) < 2147483648"
  shows "toBinary W (SetCacheRequest_internalBinaryWrite W WU_true m) = Inr (SetCacheRequest_encode E m) \<and>
    fromBinary R (SetCacheRequest_internalBinaryRead R RU_true) (SetCacheRequest_encode E m) = Some (Inr m)"
  using assms(2,3)
  by (rule wire_runtime.codec_roundtrip [OF assms(1) wire_runtime.SetCacheRequest_codec [OF assms(1)]])

definition set_example :: SetCacheRequest where
  "set_example = SetCacheRequest_create\<lparr>SetCacheRequest_namespace := ''users'',
     SetCacheRequest_key := ''42'', SetCacheRequest_value := [1, 0, 255],
     SetCacheRequest_ttlSeconds := ''-60'', unknownFields := [(9, Varint, [150, 1])]\<rparr>"

theorem SetCacheRequest_roundtrip_witness:
  "toBinary proto_W (SetCacheRequest_internalBinaryWrite proto_W WU_true set_example) =
      Inr (SetCacheRequest_encode proto_E set_example) \<and>
   fromBinary proto_R (SetCacheRequest_internalBinaryRead proto_R RU_true)
      (SetCacheRequest_encode proto_E set_example) = Some (Inr set_example)"
proof (rule SetCacheRequest_roundtrip [OF proto_runtime])
  have "int64_ok ''-60''" "p_payload Varint [150, 1]" by code_simp+
  then show "SetCacheRequest_ok p_payload set_example"
    by (simp add: SetCacheRequest_ok_def unknown_ok_def field_no_ok_def set_example_def SetCacheRequest_create_def)
  show "length (SetCacheRequest_encode proto_E set_example) < 2147483648"
    unfolding SetCacheRequest_encode_def
    by (rule le_less_trans, (rule wire_size)+) (simp add: set_example_def SetCacheRequest_create_def)
qed

text \<open>
  Nested optional messages survive the wire: the answer of a configuration watch carries a
  release, which carries a scope.
\<close>

theorem WatchConfigResponse_roundtrip:
  assumes "wire_runtime W R E st rest payload" "WatchConfigResponse_ok payload m"
    and "length (WatchConfigResponse_encode E m) < 2147483648"
  shows "toBinary W (WatchConfigResponse_internalBinaryWrite W WU_true m) = Inr (WatchConfigResponse_encode E m) \<and>
    fromBinary R (WatchConfigResponse_internalBinaryRead R RU_true) (WatchConfigResponse_encode E m) = Some (Inr m)"
  using assms(2,3)
  by (rule wire_runtime.codec_roundtrip [OF assms(1) wire_runtime.WatchConfigResponse_codec [OF assms(1)]])

definition watch_example :: WatchConfigResponse where
  "watch_example = WatchConfigResponse_create\<lparr>WatchConfigResponse_changed := True,
     WatchConfigResponse_latestRevision := ''7'',
     WatchConfigResponse_release := Some (ConfigRelease_create\<lparr>
       ConfigRelease_scope := Some (ConfigScope_create\<lparr>ConfigScope_appId := ''shop''\<rparr>),
       ConfigRelease_revision := ''7'', ConfigRelease_snapshotJson := ''{}''\<rparr>)\<rparr>"

lemmas watch_creates = WatchConfigResponse_create_def ConfigRelease_create_def ConfigScope_create_def

theorem WatchConfigResponse_roundtrip_witness:
  "toBinary proto_W (WatchConfigResponse_internalBinaryWrite proto_W WU_true watch_example) =
      Inr (WatchConfigResponse_encode proto_E watch_example) \<and>
   fromBinary proto_R (WatchConfigResponse_internalBinaryRead proto_R RU_true)
      (WatchConfigResponse_encode proto_E watch_example) = Some (Inr watch_example)"
proof (rule WatchConfigResponse_roundtrip [OF proto_runtime])
  have "int64_ok ''7''" by code_simp
  then show "WatchConfigResponse_ok p_payload watch_example"
    by (simp add: WatchConfigResponse_ok_def ConfigRelease_ok_def ConfigScope_ok_def unknown_ok_def
        watch_example_def watch_creates)
  show "length (WatchConfigResponse_encode proto_E watch_example) < 2147483648"
    unfolding WatchConfigResponse_encode_def ConfigRelease_encode_def ConfigScope_encode_def
    by (rule le_less_trans, (rule wire_size)+) (simp add: watch_example_def watch_creates)
qed

text \<open>
  Repeated nested messages survive the wire in order: the messages of a queue read.
\<close>

theorem ReadMessagesResponse_roundtrip:
  assumes "wire_runtime W R E st rest payload" "ReadMessagesResponse_ok payload m"
    and "length (ReadMessagesResponse_encode E m) < 2147483648"
  shows "toBinary W (ReadMessagesResponse_internalBinaryWrite W WU_true m) = Inr (ReadMessagesResponse_encode E m) \<and>
    fromBinary R (ReadMessagesResponse_internalBinaryRead R RU_true) (ReadMessagesResponse_encode E m) = Some (Inr m)"
  using assms(2,3)
  by (rule wire_runtime.codec_roundtrip [OF assms(1) wire_runtime.ReadMessagesResponse_codec [OF assms(1)]])

definition read_example :: ReadMessagesResponse where
  "read_example = ReadMessagesResponse_create\<lparr>ReadMessagesResponse_messages :=
     [QueueMessage_create\<lparr>QueueMessage_messageId := ''1'', QueueMessage_readCount := IntNum 3,
        QueueMessage_jsonPayload := ''null''\<rparr>, QueueMessage_create]\<rparr>"

theorem ReadMessagesResponse_roundtrip_witness:
  "toBinary proto_W (ReadMessagesResponse_internalBinaryWrite proto_W WU_true read_example) =
      Inr (ReadMessagesResponse_encode proto_E read_example) \<and>
   fromBinary proto_R (ReadMessagesResponse_internalBinaryRead proto_R RU_true)
      (ReadMessagesResponse_encode proto_E read_example) = Some (Inr read_example)"
proof (rule ReadMessagesResponse_roundtrip [OF proto_runtime])
  have "int64_ok ''1''" "int64_ok ''0''" "int32_ok (IntNum 3)" "int32_ok (IntNum 0)" by code_simp+
  then show "ReadMessagesResponse_ok p_payload read_example"
    by (simp add: ReadMessagesResponse_ok_def QueueMessage_ok_def unknown_ok_def read_example_def
        ReadMessagesResponse_create_def QueueMessage_create_def)
  show "length (ReadMessagesResponse_encode proto_E read_example) < 2147483648"
    unfolding ReadMessagesResponse_encode_def QueueMessage_encode_def
    by (rule le_less_trans, (rule wire_size)+)
      (simp add: read_example_def ReadMessagesResponse_create_def QueueMessage_create_def)
qed

text \<open>
  C31. The ids of a batch, a repeated 64-bit field, read the same whether the other side packs
  them or writes them one by one.
\<close>

theorem SendBatchResponse_packed_or_not:
  assumes "wire_runtime W R E st rest payload" "list_all (\<lambda>v. in_int64 v) vs"
    and "length (SendBatchResponse_encode E (SendBatchResponse_create\<lparr>SendBatchResponse_messageIds := map dec vs\<rparr>))
      < 2147483648"
  shows "fromBinary R (SendBatchResponse_internalBinaryRead R RU_true)
      (encRepeated (\<lambda>v. e_tag E 1 Varint @ e_int64 E v) vs) =
    fromBinary R (SendBatchResponse_internalBinaryRead R RU_true)
      (SendBatchResponse_encode E (SendBatchResponse_create\<lparr>SendBatchResponse_messageIds := map dec vs\<rparr>))"
proof -
  let ?m = "SendBatchResponse_create\<lparr>SendBatchResponse_messageIds := map dec vs\<rparr>"
  have "SendBatchResponse_ok payload ?m"
    using assms(2) by (simp add: SendBatchResponse_ok_def SendBatchResponse_create_def unknown_ok_def
        list_all_iff int64_ok_def)
  from wire_runtime.codec_roundtrip [OF assms(1) wire_runtime.SendBatchResponse_codec [OF assms(1)]
      this assms(3)]
  have "fromBinary R (SendBatchResponse_internalBinaryRead R RU_true) (SendBatchResponse_encode E ?m) = Some (Inr ?m)"
    by simp
  moreover have "fromBinary R (SendBatchResponse_internalBinaryRead R RU_true)
      (encRepeated (\<lambda>v. e_tag E 1 Varint @ e_int64 E v) vs) = Some (Inr ?m)"
    unfolding SendBatchResponse_internalBinaryRead_def
    using wire_runtime.reads_unpacked [OF assms(1), of "SendBatchResponse_field R RU_true" 1
        SendBatchResponse_messageIds_update vs SendBatchResponse_create, OF SendBatchResponse_field_simps(1)]
      assms(2)
    by (intro wire_runtime.fromBinary_reads [OF assms(1)])
      (simp add: field_intros SendBatchResponse_create_def)
  ultimately show ?thesis by simp
qed

theorem SendBatchResponse_packed_or_not_witness:
  "fromBinary proto_R (SendBatchResponse_internalBinaryRead proto_R RU_true)
      (encRepeated (\<lambda>v. e_tag proto_E 1 Varint @ e_int64 proto_E v) [5, -1, 300]) =
    fromBinary proto_R (SendBatchResponse_internalBinaryRead proto_R RU_true)
      (SendBatchResponse_encode proto_E
         (SendBatchResponse_create\<lparr>SendBatchResponse_messageIds := map dec [5, -1, 300]\<rparr>))"
proof (rule SendBatchResponse_packed_or_not [OF proto_runtime])
  show "length (SendBatchResponse_encode proto_E
      (SendBatchResponse_create\<lparr>SendBatchResponse_messageIds := map dec [5, -1, 300]\<rparr>)) < 2147483648"
    unfolding SendBatchResponse_encode_def
    by (rule le_less_trans, (rule wire_size)+) (simp add: SendBatchResponse_create_def)
qed simp

text \<open>
  Concatenated encodings merge, as the protobuf format requires: the last namespace wins,
  repeated keys and unknown fields are appended.
\<close>

theorem MGetCacheRequest_merge:
  assumes "wire_runtime W R E st rest payload"
    and "MGetCacheRequest_ok payload a" "MGetCacheRequest_ok payload b"
    and "length (MGetCacheRequest_encode E a) < 2147483648" "length (MGetCacheRequest_encode E b) < 2147483648"
  shows "fromBinary R (MGetCacheRequest_internalBinaryRead R RU_true)
      (MGetCacheRequest_encode E a @ MGetCacheRequest_encode E b) =
    Some (Inr \<lparr>unknownFields = unknownFields a @ unknownFields b,
      MGetCacheRequest_namespace = (if MGetCacheRequest_namespace b = [] then MGetCacheRequest_namespace a
        else MGetCacheRequest_namespace b),
      MGetCacheRequest_keys = MGetCacheRequest_keys a @ MGetCacheRequest_keys b\<rparr>)"
  by (rule wire_runtime.MGetCacheRequest_merges [OF assms(1,2,3)]) (use assms in \<open>simp_all add: fits_def\<close>)

definition mget_example :: "string \<Rightarrow> string list \<Rightarrow> MGetCacheRequest" where
  "mget_example ns ks = \<lparr>unknownFields = [], MGetCacheRequest_namespace = ns, MGetCacheRequest_keys = ks\<rparr>"

theorem MGetCacheRequest_merge_witness:
  "fromBinary proto_R (MGetCacheRequest_internalBinaryRead proto_R RU_true)
      (MGetCacheRequest_encode proto_E (mget_example ''a'' [''k'']) @
       MGetCacheRequest_encode proto_E (mget_example [] [''l'', ''m''])) =
    Some (Inr (mget_example ''a'' [''k'', ''l'', ''m'']))"
proof -
  have ok: "MGetCacheRequest_ok p_payload (mget_example ns ks)" for ns ks
    by (simp add: MGetCacheRequest_ok_def mget_example_def unknown_ok_def)
  have small: "length (MGetCacheRequest_encode proto_E (mget_example ''a'' [''k''])) < 2147483648"
    "length (MGetCacheRequest_encode proto_E (mget_example [] [''l'', ''m''])) < 2147483648"
    unfolding MGetCacheRequest_encode_def
    by (rule le_less_trans, (rule wire_size)+, simp add: mget_example_def)+
  from MGetCacheRequest_merge [OF proto_runtime ok ok small]
  show ?thesis by (simp add: mget_example_def)
qed

text \<open>
  C32. Decoding returns on every input, well formed or not, under every unknown-field option:
  the loops of the generated readers, nested ones included, need only that the reader moves on.
\<close>

theorem WatchConfigResponse_decode_returns:
  assumes "wire_progress R"
  shows "\<exists>y. fromBinary R (WatchConfigResponse_internalBinaryRead R options) bs = Some y"
  using wire_progress.fromBinary_returns [OF assms wire_progress.WatchConfigResponse_returns [OF assms]]
  by blast

theorem WatchConfigResponse_decode_returns_witness:
  "\<exists>y. fromBinary proto_R (WatchConfigResponse_internalBinaryRead proto_R RU_throw) [26, 255, 1] = Some y"
  by (rule WatchConfigResponse_decode_returns [OF proto_p.wire_progress_axioms])

text \<open>
  A reader that is told to refuse unknown fields throws an \<open>Error\<close> that names the field
  number, the wire type and the message type.
\<close>

theorem QueueMessage_unknown_throws:
  assumes "wire_runtime W R E st rest payload" "field_no_ok no" "6 < no"
  shows "fromBinary R (QueueMessage_internalBinaryRead R RU_throw) (e_tag E no wt @ bs) =
    Some (Inl (mkError (''Unknown field '' @ dec (int no) @ '' (wire type '' @
      dec (wire_type_no wt) @ '') for pgapp.v1.QueueMessage'')))"
  unfolding QueueMessage_internalBinaryRead_def
  using wire_runtime.fromBinary_throws [OF assms(1,2), of "QueueMessage_field R RU_throw" wt
      "''pgapp.v1.QueueMessage''" QueueMessage_create bs] assms(3)
  by (simp add: QueueMessage_field_simps)

theorem QueueMessage_unknown_throws_witness:
  "fromBinary proto_R (QueueMessage_internalBinaryRead proto_R RU_throw) (e_tag proto_E 99 Bit32 @ [1, 2]) =
    Some (Inl (mkError (''Unknown field '' @ dec 99 @ '' (wire type '' @
      dec 5 @ '') for pgapp.v1.QueueMessage'')))"
  using QueueMessage_unknown_throws [OF proto_runtime, of 99 Bit32 "[1, 2]"]
  by (simp add: field_no_ok_def wire_type_no_def)

end
