(* ===== verification/Service_Clients.thy ===== *)
theory Service_Clients
  imports Common_Messages Cache_Messages Mq_Messages Config_Messages Health_Messages
begin

text \<open>
  The generated service tables (\<open>ServiceType\<close> constants of \<open>cache.ts\<close>, \<open>mq.ts\<close>, \<open>config.ts\<close>,
  \<open>health.ts\<close>) and the generated clients (\<open>*.client.ts\<close>). Every client method picks its entry
  of the service's method table by index, merges the call options into the transport's and
  hands the call to the RPC library.

  The RPC library and the network are not part of the repository. They are the record
  \<open>rpc_env\<close>: what a unary call answers to the request bytes, what a streaming call delivers,
  how options are merged, and the binary runtime. The library serialises the input with the
  input type of the method and parses the answer with its output type; \<open>'s\<close> is the state of
  the other side.
\<close>

section \<open>The RPC library\<close>

record method_info =
  mi_name :: string
  mi_serverStreaming :: bool
  mi_I :: string
  mi_O :: string

record service_type =
  st_typeName :: string
  st_methods :: "method_info list"

record rpc_options =
  ro_meta :: "(string \<times> string) list"
  ro_timeout :: "js_number option"

record ('w, 'r, 's) rpc_env =
  env_W :: "'w writer"
  env_R :: "'r reader"
  env_mergeOptions :: "rpc_options \<Rightarrow> rpc_options"
  env_unary :: "string \<Rightarrow> method_info \<Rightarrow> rpc_options \<Rightarrow> bytes \<Rightarrow> 's \<Rightarrow> bytes result \<times> 's"
  env_serverStreaming ::
    "string \<Rightarrow> method_info \<Rightarrow> rpc_options \<Rightarrow> bytes \<Rightarrow> 's \<Rightarrow> (bytes list \<times> thrown option) \<times> 's"

text \<open>A unary method entry of a service table.\<close>

abbreviation unaryMethod :: "string \<Rightarrow> string \<Rightarrow> string \<Rightarrow> method_info" where
  "unaryMethod n i out \<equiv> \<lparr>mi_name = n, mi_serverStreaming = False, mi_I = i, mi_O = out\<rparr>"

text \<open>\<open>stackIntercept("unary", transport, method, options, input)\<close>, at its byte boundary.\<close>

definition stackIntercept_unary ::
  "('w, 'r, 's) rpc_env \<Rightarrow> string \<Rightarrow> method_info \<Rightarrow> rpc_options \<Rightarrow>
   ('w \<Rightarrow> 'w result) \<Rightarrow> ('r \<Rightarrow> nat \<Rightarrow> 'o option \<Rightarrow> ('o \<times> 'r) comp) \<Rightarrow> 's \<Rightarrow> 'o comp \<times> 's" where
  "stackIntercept_unary env service m opt wr rd s =
     (case toBinary (env_W env) wr of Inl e \<Rightarrow> (Some (Inl e), s)
      | Inr bs \<Rightarrow> (case env_unary env service m opt bs s of
          (Inl e, s') \<Rightarrow> (Some (Inl e), s')
        | (Inr answer, s') \<Rightarrow> (fromBinary (env_R env) rd answer, s')))"

text \<open>
  \<open>stackIntercept("serverStreaming", ...)\<close>: the parsed responses in the order they arrive, up
  to the end of the stream or the first error.
\<close>

fun parseAll ::
  "'r reader \<Rightarrow> ('r \<Rightarrow> nat \<Rightarrow> 'o option \<Rightarrow> ('o \<times> 'r) comp) \<Rightarrow> bytes list \<Rightarrow> thrown option \<Rightarrow>
   ('o list \<times> thrown option) option" where
  "parseAll R rd [] fin = Some ([], fin)"
| "parseAll R rd (b # bs) fin = (case fromBinary R rd b of None \<Rightarrow> None
     | Some (Inl e) \<Rightarrow> Some ([], Some e)
     | Some (Inr x) \<Rightarrow> map_option (\<lambda>(xs, e). (x # xs, e)) (parseAll R rd bs fin))"

definition stackIntercept_serverStreaming ::
  "('w, 'r, 's) rpc_env \<Rightarrow> string \<Rightarrow> method_info \<Rightarrow> rpc_options \<Rightarrow>
   ('w \<Rightarrow> 'w result) \<Rightarrow> ('r \<Rightarrow> nat \<Rightarrow> 'o option \<Rightarrow> ('o \<times> 'r) comp) \<Rightarrow> 's \<Rightarrow>
   ('o list \<times> thrown option) option \<times> 's" where
  "stackIntercept_serverStreaming env service m opt wr rd s =
     (case toBinary (env_W env) wr of Inl e \<Rightarrow> (Some ([], Some e), s)
      | Inr bs \<Rightarrow> (case env_serverStreaming env service m opt bs s of
          ((answers, fin), s') \<Rightarrow> (parseAll (env_R env) rd answers fin, s')))"


section \<open>CacheService\<close>

definition CacheService :: service_type where
  "CacheService = \<lparr>st_typeName = ''pgapp.v1.CacheService'', st_methods = [
     unaryMethod ''Set'' ''pgapp.v1.SetCacheRequest'' ''pgapp.v1.OperationResult'',
     unaryMethod ''Get'' ''pgapp.v1.GetCacheRequest'' ''pgapp.v1.GetCacheResponse'',
     unaryMethod ''MGet'' ''pgapp.v1.MGetCacheRequest'' ''pgapp.v1.MGetCacheResponse'',
     unaryMethod ''Delete'' ''pgapp.v1.DeleteCacheRequest'' ''pgapp.v1.OperationResult'',
     unaryMethod ''Exists'' ''pgapp.v1.ExistsCacheRequest'' ''pgapp.v1.ExistsCacheResponse'',
     unaryMethod ''InvalidateNamespace'' ''pgapp.v1.InvalidateNamespaceRequest'' ''pgapp.v1.OperationResult'',
     unaryMethod ''Stats'' ''pgapp.v1.CacheStatsRequest'' ''pgapp.v1.CacheStatsResponse'',
     unaryMethod ''Increment'' ''pgapp.v1.IncrementRequest'' ''pgapp.v1.IncrementResponse'',
     unaryMethod ''Decrement'' ''pgapp.v1.DecrementRequest'' ''pgapp.v1.DecrementResponse'',
     unaryMethod ''SetNX'' ''pgapp.v1.SetNXRequest'' ''pgapp.v1.SetNXResponse'',
     unaryMethod ''GetSet'' ''pgapp.v1.GetSetRequest'' ''pgapp.v1.GetSetResponse'',
     unaryMethod ''Append'' ''pgapp.v1.AppendRequest'' ''pgapp.v1.AppendResponse'',
     unaryMethod ''Prepend'' ''pgapp.v1.PrependRequest'' ''pgapp.v1.PrependResponse'']\<rparr>"

definition CacheServiceClient_set ::
  "('w, 'r, 's) rpc_env \<Rightarrow> SetCacheRequest \<Rightarrow> rpc_options \<Rightarrow> 's \<Rightarrow> OperationResult comp \<times> 's" where
  "CacheServiceClient_set env input options =
     stackIntercept_unary env (st_typeName CacheService) (st_methods CacheService ! 0)
       (env_mergeOptions env options) (SetCacheRequest_internalBinaryWrite (env_W env) WU_true input)
       (OperationResult_internalBinaryRead (env_R env) RU_true)"

definition CacheServiceClient_get ::
  "('w, 'r, 's) rpc_env \<Rightarrow> GetCacheRequest \<Rightarrow> rpc_options \<Rightarrow> 's \<Rightarrow> GetCacheResponse comp \<times> 's" where
  "CacheServiceClient_get env input options =
     stackIntercept_unary env (st_typeName CacheService) (st_methods CacheService ! 1)
       (env_mergeOptions env options) (GetCacheRequest_internalBinaryWrite (env_W env) WU_true input)
       (GetCacheResponse_internalBinaryRead (env_R env) RU_true)"

definition CacheServiceClient_mGet ::
  "('w, 'r, 's) rpc_env \<Rightarrow> MGetCacheRequest \<Rightarrow> rpc_options \<Rightarrow> 's \<Rightarrow> MGetCacheResponse comp \<times> 's" where
  "CacheServiceClient_mGet env input options =
     stackIntercept_unary env (st_typeName CacheService) (st_methods CacheService ! 2)
       (env_mergeOptions env options) (MGetCacheRequest_internalBinaryWrite (env_W env) WU_true input)
       (MGetCacheResponse_internalBinaryRead (env_R env) RU_true)"

definition CacheServiceClient_delete ::
  "('w, 'r, 's) rpc_env \<Rightarrow> DeleteCacheRequest \<Rightarrow> rpc_options \<Rightarrow> 's \<Rightarrow> OperationResult comp \<times> 's" where
  "CacheServiceClient_delete env input options =
     stackIntercept_unary env (st_typeName CacheService) (st_methods CacheService ! 3)
       (env_mergeOptions env options) (DeleteCacheRequest_internalBinaryWrite (env_W env) WU_true input)
       (OperationResult_internalBinaryRead (env_R env) RU_true)"

definition CacheServiceClient_exists ::
  "('w, 'r, 's) rpc_env \<Rightarrow> ExistsCacheRequest \<Rightarrow> rpc_options \<Rightarrow> 's \<Rightarrow> ExistsCacheResponse comp \<times> 's" where
  "CacheServiceClient_exists env input options =
     stackIntercept_unary env (st_typeName CacheService) (st_methods CacheService ! 4)
       (env_mergeOptions env options) (ExistsCacheRequest_internalBinaryWrite (env_W env) WU_true input)
       (ExistsCacheResponse_internalBinaryRead (env_R env) RU_true)"

definition CacheServiceClient_invalidateNamespace ::
  "('w, 'r, 's) rpc_env \<Rightarrow> InvalidateNamespaceRequest \<Rightarrow> rpc_options \<Rightarrow> 's \<Rightarrow> OperationResult comp \<times> 's" where
  "CacheServiceClient_invalidateNamespace env input options =
     stackIntercept_unary env (st_typeName CacheService) (st_methods CacheService ! 5)
       (env_mergeOptions env options) (InvalidateNamespaceRequest_internalBinaryWrite (env_W env) WU_true input)
       (OperationResult_internalBinaryRead (env_R env) RU_true)"

definition CacheServiceClient_stats ::
  "('w, 'r, 's) rpc_env \<Rightarrow> CacheStatsRequest \<Rightarrow> rpc_options \<Rightarrow> 's \<Rightarrow> CacheStatsResponse comp \<times> 's" where
  "CacheServiceClient_stats env input options =
     stackIntercept_unary env (st_typeName CacheService) (st_methods CacheService ! 6)
       (env_mergeOptions env options) (CacheStatsRequest_internalBinaryWrite (env_W env) WU_true input)
       (CacheStatsResponse_internalBinaryRead (env_R env) RU_true)"

definition CacheServiceClient_increment ::
  "('w, 'r, 's) rpc_env \<Rightarrow> IncrementRequest \<Rightarrow> rpc_options \<Rightarrow> 's \<Rightarrow> IncrementResponse comp \<times> 's" where
  "CacheServiceClient_increment env input options =
     stackIntercept_unary env (st_typeName CacheService) (st_methods CacheService ! 7)
       (env_mergeOptions env options) (IncrementRequest_internalBinaryWrite (env_W env) WU_true input)
       (IncrementResponse_internalBinaryRead (env_R env) RU_true)"

definition CacheServiceClient_decrement ::
  "('w, 'r, 's) rpc_env \<Rightarrow> DecrementRequest \<Rightarrow> rpc_options \<Rightarrow> 's \<Rightarrow> DecrementResponse comp \<times> 's" where
  "CacheServiceClient_decrement env input options =
     stackIntercept_unary env (st_typeName CacheService) (st_methods CacheService ! 8)
       (env_mergeOptions env options) (DecrementRequest_internalBinaryWrite (env_W env) WU_true input)
       (DecrementResponse_internalBinaryRead (env_R env) RU_true)"

definition CacheServiceClient_setNX ::
  "('w, 'r, 's) rpc_env \<Rightarrow> SetNXRequest \<Rightarrow> rpc_options \<Rightarrow> 's \<Rightarrow> SetNXResponse comp \<times> 's" where
  "CacheServiceClient_setNX env input options =
     stackIntercept_unary env (st_typeName CacheService) (st_methods CacheService ! 9)
       (env_mergeOptions env options) (SetNXRequest_internalBinaryWrite (env_W env) WU_true input)
       (SetNXResponse_internalBinaryRead (env_R env) RU_true)"

definition CacheServiceClient_getSet ::
  "('w, 'r, 's) rpc_env \<Rightarrow> GetSetRequest \<Rightarrow> rpc_options \<Rightarrow> 's \<Rightarrow> GetSetResponse comp \<times> 's" where
  "CacheServiceClient_getSet env input options =
     stackIntercept_unary env (st_typeName CacheService) (st_methods CacheService ! 10)
       (env_mergeOptions env options) (GetSetRequest_internalBinaryWrite (env_W env) WU_true input)
       (GetSetResponse_internalBinaryRead (env_R env) RU_true)"

definition CacheServiceClient_append ::
  "('w, 'r, 's) rpc_env \<Rightarrow> AppendRequest \<Rightarrow> rpc_options \<Rightarrow> 's \<Rightarrow> AppendResponse comp \<times> 's" where
  "CacheServiceClient_append env input options =
     stackIntercept_unary env (st_typeName CacheService) (st_methods CacheService ! 11)
       (env_mergeOptions env options) (AppendRequest_internalBinaryWrite (env_W env) WU_true input)
       (AppendResponse_internalBinaryRead (env_R env) RU_true)"

definition CacheServiceClient_prepend ::
  "('w, 'r, 's) rpc_env \<Rightarrow> PrependRequest \<Rightarrow> rpc_options \<Rightarrow> 's \<Rightarrow> PrependResponse comp \<times> 's" where
  "CacheServiceClient_prepend env input options =
     stackIntercept_unary env (st_typeName CacheService) (st_methods CacheService ! 12)
       (env_mergeOptions env options) (PrependRequest_internalBinaryWrite (env_W env) WU_true input)
       (PrependResponse_internalBinaryRead (env_R env) RU_true)"

section \<open>MQService\<close>

definition MQService :: service_type where
  "MQService = \<lparr>st_typeName = ''pgapp.v1.MQService'', st_methods = [
     unaryMethod ''CreateQueue'' ''pgapp.v1.CreateQueueRequest'' ''pgapp.v1.OperationResult'',
     unaryMethod ''PurgeQueue'' ''pgapp.v1.PurgeQueueRequest'' ''pgapp.v1.OperationResult'',
     unaryMethod ''DropQueue'' ''pgapp.v1.DropQueueRequest'' ''pgapp.v1.OperationResult'',
     unaryMethod ''Send'' ''pgapp.v1.SendMessageRequest'' ''pgapp.v1.SendMessageResponse'',
     unaryMethod ''SendBatch'' ''pgapp.v1.SendBatchRequest'' ''pgapp.v1.SendBatchResponse'',
     unaryMethod ''Read'' ''pgapp.v1.ReadMessagesRequest'' ''pgapp.v1.ReadMessagesResponse'',
     unaryMethod ''ReadWithPoll'' ''pgapp.v1.ReadWithPollRequest'' ''pgapp.v1.ReadMessagesResponse'',
     unaryMethod ''Ack'' ''pgapp.v1.AckMessageRequest'' ''pgapp.v1.OperationResult'',
     unaryMethod ''Archive'' ''pgapp.v1.ArchiveMessageRequest'' ''pgapp.v1.OperationResult'',
     unaryMethod ''SetVisibilityTimeout'' ''pgapp.v1.SetVisibilityTimeoutRequest'' ''pgapp.v1.OperationResult'',
     unaryMethod ''Metrics'' ''pgapp.v1.QueueMetricsRequest'' ''pgapp.v1.QueueMetricsResponse'',
     unaryMethod ''ListDlqMessages'' ''pgapp.v1.ListDlqMessagesRequest'' ''pgapp.v1.ListDlqMessagesResponse'',
     unaryMethod ''GetDlqMessage'' ''pgapp.v1.GetDlqMessageRequest'' ''pgapp.v1.DlqMessage'',
     unaryMethod ''ReprocessDlqMessage'' ''pgapp.v1.ReprocessDlqMessageRequest'' ''pgapp.v1.OperationResult'',
     unaryMethod ''PurgeDlq'' ''pgapp.v1.PurgeDlqRequest'' ''pgapp.v1.OperationResult'',
     \<lparr>mi_name = ''StreamRead'', mi_serverStreaming = True, mi_I = ''pgapp.v1.StreamReadRequest'', mi_O = ''pgapp.v1.ReadMessagesResponse''\<rparr>]\<rparr>"

definition MQServiceClient_createQueue ::
  "('w, 'r, 's) rpc_env \<Rightarrow> CreateQueueRequest \<Rightarrow> rpc_options \<Rightarrow> 's \<Rightarrow> OperationResult comp \<times> 's" where
  "MQServiceClient_createQueue env input options =
     stackIntercept_unary env (st_typeName MQService) (st_methods MQService ! 0)
       (env_mergeOptions env options) (CreateQueueRequest_internalBinaryWrite (env_W env) WU_true input)
       (OperationResult_internalBinaryRead (env_R env) RU_true)"

definition MQServiceClient_purgeQueue ::
  "('w, 'r, 's) rpc_env \<Rightarrow> PurgeQueueRequest \<Rightarrow> rpc_options \<Rightarrow> 's \<Rightarrow> OperationResult comp \<times> 's" where
  "MQServiceClient_purgeQueue env input options =
     stackIntercept_unary env (st_typeName MQService) (st_methods MQService ! 1)
       (env_mergeOptions env options) (PurgeQueueRequest_internalBinaryWrite (env_W env) WU_true input)
       (OperationResult_internalBinaryRead (env_R env) RU_true)"

definition MQServiceClient_dropQueue ::
  "('w, 'r, 's) rpc_env \<Rightarrow> DropQueueRequest \<Rightarrow> rpc_options \<Rightarrow> 's \<Rightarrow> OperationResult comp \<times> 's" where
  "MQServiceClient_dropQueue env input options =
     stackIntercept_unary env (st_typeName MQService) (st_methods MQService ! 2)
       (env_mergeOptions env options) (DropQueueRequest_internalBinaryWrite (env_W env) WU_true input)
       (OperationResult_internalBinaryRead (env_R env) RU_true)"

definition MQServiceClient_send ::
  "('w, 'r, 's) rpc_env \<Rightarrow> SendMessageRequest \<Rightarrow> rpc_options \<Rightarrow> 's \<Rightarrow> SendMessageResponse comp \<times> 's" where
  "MQServiceClient_send env input options =
     stackIntercept_unary env (st_typeName MQService) (st_methods MQService ! 3)
       (env_mergeOptions env options) (SendMessageRequest_internalBinaryWrite (env_W env) WU_true input)
       (SendMessageResponse_internalBinaryRead (env_R env) RU_true)"

definition MQServiceClient_sendBatch ::
  "('w, 'r, 's) rpc_env \<Rightarrow> SendBatchRequest \<Rightarrow> rpc_options \<Rightarrow> 's \<Rightarrow> SendBatchResponse comp \<times> 's" where
  "MQServiceClient_sendBatch env input options =
     stackIntercept_unary env (st_typeName MQService) (st_methods MQService ! 4)
       (env_mergeOptions env options) (SendBatchRequest_internalBinaryWrite (env_W env) WU_true input)
       (SendBatchResponse_internalBinaryRead (env_R env) RU_true)"

definition MQServiceClient_read ::
  "('w, 'r, 's) rpc_env \<Rightarrow> ReadMessagesRequest \<Rightarrow> rpc_options \<Rightarrow> 's \<Rightarrow> ReadMessagesResponse comp \<times> 's" where
  "MQServiceClient_read env input options =
     stackIntercept_unary env (st_typeName MQService) (st_methods MQService ! 5)
       (env_mergeOptions env options) (ReadMessagesRequest_internalBinaryWrite (env_W env) WU_true input)
       (ReadMessagesResponse_internalBinaryRead (env_R env) RU_true)"

definition MQServiceClient_readWithPoll ::
  "('w, 'r, 's) rpc_env \<Rightarrow> ReadWithPollRequest \<Rightarrow> rpc_options \<Rightarrow> 's \<Rightarrow> ReadMessagesResponse comp \<times> 's" where
  "MQServiceClient_readWithPoll env input options =
     stackIntercept_unary env (st_typeName MQService) (st_methods MQService ! 6)
       (env_mergeOptions env options) (ReadWithPollRequest_internalBinaryWrite (env_W env) WU_true input)
       (ReadMessagesResponse_internalBinaryRead (env_R env) RU_true)"

definition MQServiceClient_ack ::
  "('w, 'r, 's) rpc_env \<Rightarrow> AckMessageRequest \<Rightarrow> rpc_options \<Rightarrow> 's \<Rightarrow> OperationResult comp \<times> 's" where
  "MQServiceClient_ack env input options =
     stackIntercept_unary env (st_typeName MQService) (st_methods MQService ! 7)
       (env_mergeOptions env options) (AckMessageRequest_internalBinaryWrite (env_W env) WU_true input)
       (OperationResult_internalBinaryRead (env_R env) RU_true)"

definition MQServiceClient_archive ::
  "('w, 'r, 's) rpc_env \<Rightarrow> ArchiveMessageRequest \<Rightarrow> rpc_options \<Rightarrow> 's \<Rightarrow> OperationResult comp \<times> 's" where
  "MQServiceClient_archive env input options =
     stackIntercept_unary env (st_typeName MQService) (st_methods MQService ! 8)
       (env_mergeOptions env options) (ArchiveMessageRequest_internalBinaryWrite (env_W env) WU_true input)
       (OperationResult_internalBinaryRead (env_R env) RU_true)"

definition MQServiceClient_setVisibilityTimeout ::
  "('w, 'r, 's) rpc_env \<Rightarrow> SetVisibilityTimeoutRequest \<Rightarrow> rpc_options \<Rightarrow> 's \<Rightarrow> OperationResult comp \<times> 's" where
  "MQServiceClient_setVisibilityTimeout env input options =
     stackIntercept_unary env (st_typeName MQService) (st_methods MQService ! 9)
       (env_mergeOptions env options) (SetVisibilityTimeoutRequest_internalBinaryWrite (env_W env) WU_true input)
       (OperationResult_internalBinaryRead (env_R env) RU_true)"

definition MQServiceClient_metrics ::
  "('w, 'r, 's) rpc_env \<Rightarrow> QueueMetricsRequest \<Rightarrow> rpc_options \<Rightarrow> 's \<Rightarrow> QueueMetricsResponse comp \<times> 's" where
  "MQServiceClient_metrics env input options =
     stackIntercept_unary env (st_typeName MQService) (st_methods MQService ! 10)
       (env_mergeOptions env options) (QueueMetricsRequest_internalBinaryWrite (env_W env) WU_true input)
       (QueueMetricsResponse_internalBinaryRead (env_R env) RU_true)"

definition MQServiceClient_listDlqMessages ::
  "('w, 'r, 's) rpc_env \<Rightarrow> ListDlqMessagesRequest \<Rightarrow> rpc_options \<Rightarrow> 's \<Rightarrow> ListDlqMessagesResponse comp \<times> 's" where
  "MQServiceClient_listDlqMessages env input options =
     stackIntercept_unary env (st_typeName MQService) (st_methods MQService ! 11)
       (env_mergeOptions env options) (ListDlqMessagesRequest_internalBinaryWrite (env_W env) WU_true input)
       (ListDlqMessagesResponse_internalBinaryRead (env_R env) RU_true)"

definition MQServiceClient_getDlqMessage ::
  "('w, 'r, 's) rpc_env \<Rightarrow> GetDlqMessageRequest \<Rightarrow> rpc_options \<Rightarrow> 's \<Rightarrow> DlqMessage comp \<times> 's" where
  "MQServiceClient_getDlqMessage env input options =
     stackIntercept_unary env (st_typeName MQService) (st_methods MQService ! 12)
       (env_mergeOptions env options) (GetDlqMessageRequest_internalBinaryWrite (env_W env) WU_true input)
       (DlqMessage_internalBinaryRead (env_R env) RU_true)"

definition MQServiceClient_reprocessDlqMessage ::
  "('w, 'r, 's) rpc_env \<Rightarrow> ReprocessDlqMessageRequest \<Rightarrow> rpc_options \<Rightarrow> 's \<Rightarrow> OperationResult comp \<times> 's" where
  "MQServiceClient_reprocessDlqMessage env input options =
     stackIntercept_unary env (st_typeName MQService) (st_methods MQService ! 13)
       (env_mergeOptions env options) (ReprocessDlqMessageRequest_internalBinaryWrite (env_W env) WU_true input)
       (OperationResult_internalBinaryRead (env_R env) RU_true)"

definition MQServiceClient_purgeDlq ::
  "('w, 'r, 's) rpc_env \<Rightarrow> PurgeDlqRequest \<Rightarrow> rpc_options \<Rightarrow> 's \<Rightarrow> OperationResult comp \<times> 's" where
  "MQServiceClient_purgeDlq env input options =
     stackIntercept_unary env (st_typeName MQService) (st_methods MQService ! 14)
       (env_mergeOptions env options) (PurgeDlqRequest_internalBinaryWrite (env_W env) WU_true input)
       (OperationResult_internalBinaryRead (env_R env) RU_true)"

definition MQServiceClient_streamRead ::
  "('w, 'r, 's) rpc_env \<Rightarrow> StreamReadRequest \<Rightarrow> rpc_options \<Rightarrow> 's \<Rightarrow> (ReadMessagesResponse list \<times> thrown option) option \<times> 's" where
  "MQServiceClient_streamRead env input options =
     stackIntercept_serverStreaming env (st_typeName MQService) (st_methods MQService ! 15)
       (env_mergeOptions env options) (StreamReadRequest_internalBinaryWrite (env_W env) WU_true input)
       (ReadMessagesResponse_internalBinaryRead (env_R env) RU_true)"

section \<open>ConfigService\<close>

definition ConfigService :: service_type where
  "ConfigService = \<lparr>st_typeName = ''pgapp.v1.ConfigService'', st_methods = [
     unaryMethod ''ListScopes'' ''pgapp.v1.ListConfigScopesRequest'' ''pgapp.v1.ListConfigScopesResponse'',
     unaryMethod ''UpsertItem'' ''pgapp.v1.UpsertConfigItemRequest'' ''pgapp.v1.OperationResult'',
     unaryMethod ''DeleteItem'' ''pgapp.v1.DeleteConfigItemRequest'' ''pgapp.v1.OperationResult'',
     unaryMethod ''GetDraft'' ''pgapp.v1.GetConfigDraftRequest'' ''pgapp.v1.ConfigDraftResponse'',
     unaryMethod ''Publish'' ''pgapp.v1.PublishConfigRequest'' ''pgapp.v1.ConfigRelease'',
     unaryMethod ''GetRelease'' ''pgapp.v1.GetConfigReleaseRequest'' ''pgapp.v1.ConfigRelease'',
     unaryMethod ''ListReleases'' ''pgapp.v1.ListConfigReleasesRequest'' ''pgapp.v1.ListConfigReleasesResponse'',
     unaryMethod ''Watch'' ''pgapp.v1.WatchConfigRequest'' ''pgapp.v1.WatchConfigResponse'',
     unaryMethod ''SetSchema'' ''pgapp.v1.SetConfigSchemaRequest'' ''pgapp.v1.OperationResult'',
     unaryMethod ''GetSchema'' ''pgapp.v1.GetConfigSchemaRequest'' ''pgapp.v1.ConfigSchemaResponse'']\<rparr>"

definition ConfigServiceClient_listScopes ::
  "('w, 'r, 's) rpc_env \<Rightarrow> ListConfigScopesRequest \<Rightarrow> rpc_options \<Rightarrow> 's \<Rightarrow> ListConfigScopesResponse comp \<times> 's" where
  "ConfigServiceClient_listScopes env input options =
     stackIntercept_unary env (st_typeName ConfigService) (st_methods ConfigService ! 0)
       (env_mergeOptions env options) (ListConfigScopesRequest_internalBinaryWrite (env_W env) WU_true input)
       (ListConfigScopesResponse_internalBinaryRead (env_R env) RU_true)"

definition ConfigServiceClient_upsertItem ::
  "('w, 'r, 's) rpc_env \<Rightarrow> UpsertConfigItemRequest \<Rightarrow> rpc_options \<Rightarrow> 's \<Rightarrow> OperationResult comp \<times> 's" where
  "ConfigServiceClient_upsertItem env input options =
     stackIntercept_unary env (st_typeName ConfigService) (st_methods ConfigService ! 1)
       (env_mergeOptions env options) (UpsertConfigItemRequest_internalBinaryWrite (env_W env) WU_true input)
       (OperationResult_internalBinaryRead (env_R env) RU_true)"

definition ConfigServiceClient_deleteItem ::
  "('w, 'r, 's) rpc_env \<Rightarrow> DeleteConfigItemRequest \<Rightarrow> rpc_options \<Rightarrow> 's \<Rightarrow> OperationResult comp \<times> 's" where
  "ConfigServiceClient_deleteItem env input options =
     stackIntercept_unary env (st_typeName ConfigService) (st_methods ConfigService ! 2)
       (env_mergeOptions env options) (DeleteConfigItemRequest_internalBinaryWrite (env_W env) WU_true input)
       (OperationResult_internalBinaryRead (env_R env) RU_true)"

definition ConfigServiceClient_getDraft ::
  "('w, 'r, 's) rpc_env \<Rightarrow> GetConfigDraftRequest \<Rightarrow> rpc_options \<Rightarrow> 's \<Rightarrow> ConfigDraftResponse comp \<times> 's" where
  "ConfigServiceClient_getDraft env input options =
     stackIntercept_unary env (st_typeName ConfigService) (st_methods ConfigService ! 3)
       (env_mergeOptions env options) (GetConfigDraftRequest_internalBinaryWrite (env_W env) WU_true input)
       (ConfigDraftResponse_internalBinaryRead (env_R env) RU_true)"

definition ConfigServiceClient_publish ::
  "('w, 'r, 's) rpc_env \<Rightarrow> PublishConfigRequest \<Rightarrow> rpc_options \<Rightarrow> 's \<Rightarrow> ConfigRelease comp \<times> 's" where
  "ConfigServiceClient_publish env input options =
     stackIntercept_unary env (st_typeName ConfigService) (st_methods ConfigService ! 4)
       (env_mergeOptions env options) (PublishConfigRequest_internalBinaryWrite (env_W env) WU_true input)
       (ConfigRelease_internalBinaryRead (env_R env) RU_true)"

definition ConfigServiceClient_getRelease ::
  "('w, 'r, 's) rpc_env \<Rightarrow> GetConfigReleaseRequest \<Rightarrow> rpc_options \<Rightarrow> 's \<Rightarrow> ConfigRelease comp \<times> 's" where
  "ConfigServiceClient_getRelease env input options =
     stackIntercept_unary env (st_typeName ConfigService) (st_methods ConfigService ! 5)
       (env_mergeOptions env options) (GetConfigReleaseRequest_internalBinaryWrite (env_W env) WU_true input)
       (ConfigRelease_internalBinaryRead (env_R env) RU_true)"

definition ConfigServiceClient_listReleases ::
  "('w, 'r, 's) rpc_env \<Rightarrow> ListConfigReleasesRequest \<Rightarrow> rpc_options \<Rightarrow> 's \<Rightarrow> ListConfigReleasesResponse comp \<times> 's" where
  "ConfigServiceClient_listReleases env input options =
     stackIntercept_unary env (st_typeName ConfigService) (st_methods ConfigService ! 6)
       (env_mergeOptions env options) (ListConfigReleasesRequest_internalBinaryWrite (env_W env) WU_true input)
       (ListConfigReleasesResponse_internalBinaryRead (env_R env) RU_true)"

definition ConfigServiceClient_watch ::
  "('w, 'r, 's) rpc_env \<Rightarrow> WatchConfigRequest \<Rightarrow> rpc_options \<Rightarrow> 's \<Rightarrow> WatchConfigResponse comp \<times> 's" where
  "ConfigServiceClient_watch env input options =
     stackIntercept_unary env (st_typeName ConfigService) (st_methods ConfigService ! 7)
       (env_mergeOptions env options) (WatchConfigRequest_internalBinaryWrite (env_W env) WU_true input)
       (WatchConfigResponse_internalBinaryRead (env_R env) RU_true)"

definition ConfigServiceClient_setSchema ::
  "('w, 'r, 's) rpc_env \<Rightarrow> SetConfigSchemaRequest \<Rightarrow> rpc_options \<Rightarrow> 's \<Rightarrow> OperationResult comp \<times> 's" where
  "ConfigServiceClient_setSchema env input options =
     stackIntercept_unary env (st_typeName ConfigService) (st_methods ConfigService ! 8)
       (env_mergeOptions env options) (SetConfigSchemaRequest_internalBinaryWrite (env_W env) WU_true input)
       (OperationResult_internalBinaryRead (env_R env) RU_true)"

definition ConfigServiceClient_getSchema ::
  "('w, 'r, 's) rpc_env \<Rightarrow> GetConfigSchemaRequest \<Rightarrow> rpc_options \<Rightarrow> 's \<Rightarrow> ConfigSchemaResponse comp \<times> 's" where
  "ConfigServiceClient_getSchema env input options =
     stackIntercept_unary env (st_typeName ConfigService) (st_methods ConfigService ! 9)
       (env_mergeOptions env options) (GetConfigSchemaRequest_internalBinaryWrite (env_W env) WU_true input)
       (ConfigSchemaResponse_internalBinaryRead (env_R env) RU_true)"

section \<open>HealthService\<close>

definition HealthService :: service_type where
  "HealthService = \<lparr>st_typeName = ''pgapp.v1.HealthService'', st_methods = [
     unaryMethod ''GetHealth'' ''pgapp.v1.HealthRequest'' ''pgapp.v1.HealthResponse'',
     unaryMethod ''GetReadiness'' ''pgapp.v1.ReadinessRequest'' ''pgapp.v1.ReadinessResponse'',
     unaryMethod ''GetRuntimeMetrics'' ''pgapp.v1.RuntimeMetricsRequest'' ''pgapp.v1.RuntimeMetricsResponse'']\<rparr>"

definition HealthServiceClient_getHealth ::
  "('w, 'r, 's) rpc_env \<Rightarrow> HealthRequest \<Rightarrow> rpc_options \<Rightarrow> 's \<Rightarrow> HealthResponse comp \<times> 's" where
  "HealthServiceClient_getHealth env input options =
     stackIntercept_unary env (st_typeName HealthService) (st_methods HealthService ! 0)
       (env_mergeOptions env options) (HealthRequest_internalBinaryWrite (env_W env) WU_true input)
       (HealthResponse_internalBinaryRead (env_R env) RU_true)"

definition HealthServiceClient_getReadiness ::
  "('w, 'r, 's) rpc_env \<Rightarrow> ReadinessRequest \<Rightarrow> rpc_options \<Rightarrow> 's \<Rightarrow> ReadinessResponse comp \<times> 's" where
  "HealthServiceClient_getReadiness env input options =
     stackIntercept_unary env (st_typeName HealthService) (st_methods HealthService ! 1)
       (env_mergeOptions env options) (ReadinessRequest_internalBinaryWrite (env_W env) WU_true input)
       (ReadinessResponse_internalBinaryRead (env_R env) RU_true)"

definition HealthServiceClient_getRuntimeMetrics ::
  "('w, 'r, 's) rpc_env \<Rightarrow> RuntimeMetricsRequest \<Rightarrow> rpc_options \<Rightarrow> 's \<Rightarrow> RuntimeMetricsResponse comp \<times> 's" where
  "HealthServiceClient_getRuntimeMetrics env input options =
     stackIntercept_unary env (st_typeName HealthService) (st_methods HealthService ! 2)
       (env_mergeOptions env options) (RuntimeMetricsRequest_internalBinaryWrite (env_W env) WU_true input)
       (RuntimeMetricsResponse_internalBinaryRead (env_R env) RU_true)"

end
