(* ===== verification/Rpc_Link.thy ===== *)
theory Rpc_Link
  imports Service_Clients Proto_Wire
begin

text \<open>
  The contract between the generated clients and the other end of the connection. \<open>serves\<close> and
  \<open>streams\<close> say that the other side decodes a request with the request type of the method, runs
  a typed handler and encodes its answer; the locale \<open>rpc_link\<close> adds the laws of the binary
  runtime. Its lemmas show that a call through a generated client is a call of the handler: no
  field of the request or the answer is lost or altered on the way, errors pass unchanged, and
  the call returns whatever bytes come back.
\<close>


section \<open>The other side\<close>

definition serves ::
  "('w, 'r, 's) rpc_env \<Rightarrow> string \<Rightarrow> method_info \<Rightarrow> ('r \<Rightarrow> nat \<Rightarrow> 'i option \<Rightarrow> ('i \<times> 'r) comp) \<Rightarrow>
   ('o \<Rightarrow> 'w \<Rightarrow> 'w result) \<Rightarrow> (rpc_options \<Rightarrow> 'i \<Rightarrow> 's \<Rightarrow> 'o result \<times> 's) \<Rightarrow> bool" where
  "serves env service m rd wr h \<longleftrightarrow> (\<forall>opt bs req s. fromBinary (env_R env) rd bs = Some (Inr req) \<longrightarrow>
     env_unary env service m opt bs s =
       (bindE (fst (h opt req s)) (\<lambda>x. toBinary (env_W env) (wr x)), snd (h opt req s)))"

definition streams ::
  "('w, 'r, 's) rpc_env \<Rightarrow> string \<Rightarrow> method_info \<Rightarrow> ('r \<Rightarrow> nat \<Rightarrow> 'i option \<Rightarrow> ('i \<times> 'r) comp) \<Rightarrow>
   ('o \<Rightarrow> bytes) \<Rightarrow> (rpc_options \<Rightarrow> 'i \<Rightarrow> 's \<Rightarrow> ('o list \<times> thrown option) \<times> 's) \<Rightarrow> bool" where
  "streams env service m rd enc h \<longleftrightarrow> (\<forall>opt bs req s. fromBinary (env_R env) rd bs = Some (Inr req) \<longrightarrow>
     env_serverStreaming env service m opt bs s =
       ((map enc (fst (fst (h opt req s))), snd (fst (h opt req s))), snd (h opt req s)))"

text \<open>A message that can go over the wire: valid, and of a size the wire format can hold.\<close>

definition transmissible :: "('m \<Rightarrow> bool) \<Rightarrow> ('m \<Rightarrow> bytes) \<Rightarrow> 'm \<Rightarrow> bool" where
  "transmissible ok enc m \<longleftrightarrow> ok m \<and> length (enc m) < 2147483648"

text \<open>An answer that can go over the wire: an error, or a message that can.\<close>

definition deliverable :: "('m \<Rightarrow> bool) \<Rightarrow> ('m \<Rightarrow> bytes) \<Rightarrow> 'm result \<Rightarrow> bool" where
  "deliverable ok enc x = (case x of Inl _ \<Rightarrow> True | Inr m \<Rightarrow> transmissible ok enc m)"

lemma deliverable_simps [simp]:
  "deliverable ok enc (Inl e)" "deliverable ok enc (Inr m) \<longleftrightarrow> transmissible ok enc m"
  by (simp_all add: deliverable_def)


section \<open>Calls over the link\<close>

locale rpc_link = wire_runtime "env_W env" "env_R env" E st rest payload
  for env :: "('w, 'r, 's) rpc_env" and E :: encoding and st :: "'w \<Rightarrow> bytes list"
    and rest :: "'r \<Rightarrow> bytes" and payload :: "wire_type \<Rightarrow> bytes \<Rightarrow> bool"
begin

lemma codec_transmits:
  assumes "codec rd wr enc ok" "transmissible ok enc m"
  shows "toBinary (env_W env) (wr m) = Inr (enc m)" "fromBinary (env_R env) rd (enc m) = Some (Inr m)"
  using codec_roundtrip [OF assms(1), of m] assms(2) by (auto simp: transmissible_def)

lemma unary_call:
  assumes i: "codec rdI wrI encI okI" and o: "codec rdO wrO encO okO"
    and h: "serves env service m rdI wrO h" and req: "transmissible okI encI req"
    and out: "deliverable okO encO (fst (h opt req s))"
  shows "stackIntercept_unary env service m opt (wrI req) rdO s =
     (Some (fst (h opt req s)), snd (h opt req s))"
proof -
  have "env_unary env service m opt (encI req) s =
      (bindE (fst (h opt req s)) (\<lambda>x. toBinary (env_W env) (wrO x)), snd (h opt req s))"
    using h codec_transmits(2) [OF i req] unfolding serves_def by blast
  moreover have "toBinary (env_W env) (wrI req) = Inr (encI req)" by (rule codec_transmits(1) [OF i req])
  ultimately show ?thesis
    using out codec_transmits [OF o]
    by (cases "fst (h opt req s)") (simp_all add: stackIntercept_unary_def)
qed

lemma parseAll_encoded:
  assumes "codec rd wr enc ok" "list_all (transmissible ok enc) ms"
  shows "parseAll (env_R env) rd (map enc ms) fin = Some (ms, fin)"
  using assms(2) by (induction ms) (simp_all add: codec_transmits(2) [OF assms(1)])

lemma stream_call:
  assumes i: "codec rdI wrI encI okI" and o: "codec rdO wrO encO okO"
    and h: "streams env service m rdI encO h" and req: "transmissible okI encI req"
    and out: "list_all (transmissible okO encO) (fst (fst (h opt req s)))"
  shows "stackIntercept_serverStreaming env service m opt (wrI req) rdO s =
     (Some (fst (h opt req s)), snd (h opt req s))"
proof -
  have "env_serverStreaming env service m opt (encI req) s =
      ((map encO (fst (fst (h opt req s))), snd (fst (h opt req s))), snd (h opt req s))"
    using h codec_transmits(2) [OF i req] unfolding streams_def by blast
  then show ?thesis
    using parseAll_encoded [OF o out] codec_transmits(1) [OF i req]
    by (simp add: stackIntercept_serverStreaming_def)
qed

text \<open>A request that cannot be encoded is never sent.\<close>

lemma unsent: "toBinary (env_W env) w = Inl e \<Longrightarrow>
    stackIntercept_unary env service m opt w rd s = (Some (Inl e), s)"
  by (simp add: stackIntercept_unary_def)

end

text \<open>
  A call returns whatever the other side does, also when the answer is malformed: all it needs
  is that the reader moves on.
\<close>

context wire_progress
begin

lemma unary_returns:
  assumes "reader_returns rd" "env_R env = R"
  shows "\<exists>y. fst (stackIntercept_unary env service m opt w rd s) = Some y"
proof (cases "toBinary (env_W env) w")
  case (Inr bs)
  then show ?thesis
    using fromBinary_returns [OF assms(1)] assms(2)
    by (cases "env_unary env service m opt bs s"; cases "fst (env_unary env service m opt bs s)")
      (auto simp: stackIntercept_unary_def)
qed (simp add: stackIntercept_unary_def)

lemma parseAll_returns:
  assumes "reader_returns rd"
  shows "\<exists>y. parseAll R rd bs fin = Some y"
proof (induction bs)
  case (Cons b bs)
  then show ?case
    using fromBinary_returns [OF assms, of b] by (auto split: sum.splits)
qed simp

lemma stream_returns:
  assumes "reader_returns rd" "env_R env = R"
  shows "\<exists>y. fst (stackIntercept_serverStreaming env service m opt w rd s) = Some y"
  using parseAll_returns [OF assms(1)] assms(2)
  by (auto simp: stackIntercept_serverStreaming_def split: sum.splits prod.splits)

end


section \<open>A transport over the protobuf wire format\<close>

text \<open>
  A transport with the binary format of the library and given calls; and the call that
  dispatches one method to a typed handler.
\<close>

definition proto_env ::
  "(string \<Rightarrow> method_info \<Rightarrow> rpc_options \<Rightarrow> bytes \<Rightarrow> 's \<Rightarrow> bytes result \<times> 's) \<Rightarrow>
   (string \<Rightarrow> method_info \<Rightarrow> rpc_options \<Rightarrow> bytes \<Rightarrow> 's \<Rightarrow> (bytes list \<times> thrown option) \<times> 's) \<Rightarrow>
   (bytes list, nat \<times> bytes, 's) rpc_env" where
  "proto_env un ss = \<lparr>env_W = proto_W, env_R = proto_R, env_mergeOptions = (\<lambda>opt. opt),
     env_unary = un, env_serverStreaming = ss\<rparr>"

lemma proto_env_simps [simp]:
  "env_W (proto_env un ss) = proto_W" "env_R (proto_env un ss) = proto_R"
  "env_mergeOptions (proto_env un ss) opt = opt"
  "env_unary (proto_env un ss) = un" "env_serverStreaming (proto_env un ss) = ss"
  by (simp_all add: proto_env_def)

definition dispatch ::
  "string \<Rightarrow> method_info \<Rightarrow> (nat \<times> bytes \<Rightarrow> nat \<Rightarrow> 'i option \<Rightarrow> ('i \<times> nat \<times> bytes) comp) \<Rightarrow>
   ('o \<Rightarrow> bytes list \<Rightarrow> bytes list result) \<Rightarrow> (rpc_options \<Rightarrow> 'i \<Rightarrow> 's \<Rightarrow> 'o result \<times> 's) \<Rightarrow>
   string \<Rightarrow> method_info \<Rightarrow> rpc_options \<Rightarrow> bytes \<Rightarrow> 's \<Rightarrow> bytes result \<times> 's" where
  "dispatch service m rd wr h service' m' opt bs s =
     (if service' = service \<and> m' = m
      then (case fromBinary proto_R rd bs of None \<Rightarrow> (Inl (mkError ''INTERNAL''), s)
            | Some (Inl e) \<Rightarrow> (Inl e, s)
            | Some (Inr req) \<Rightarrow>
                (bindE (fst (h opt req s)) (\<lambda>x. toBinary proto_W (wr x)), snd (h opt req s)))
      else (Inl (mkError ''UNIMPLEMENTED''), s))"

lemma dispatch_serves: "serves (proto_env (dispatch service m rd wr h) ss) service m rd wr h"
  by (simp add: serves_def dispatch_def)

definition dispatch_stream ::
  "(nat \<times> bytes \<Rightarrow> nat \<Rightarrow> 'i option \<Rightarrow> ('i \<times> nat \<times> bytes) comp) \<Rightarrow> ('o \<Rightarrow> bytes) \<Rightarrow>
   (rpc_options \<Rightarrow> 'i \<Rightarrow> 's \<Rightarrow> ('o list \<times> thrown option) \<times> 's) \<Rightarrow>
   string \<Rightarrow> method_info \<Rightarrow> rpc_options \<Rightarrow> bytes \<Rightarrow> 's \<Rightarrow> (bytes list \<times> thrown option) \<times> 's" where
  "dispatch_stream rd enc h service m opt bs s = (case fromBinary proto_R rd bs of
       Some (Inr req) \<Rightarrow> ((map enc (fst (fst (h opt req s))), snd (fst (h opt req s))), snd (h opt req s))
     | _ \<Rightarrow> (([], Some (mkError ''INVALID_ARGUMENT'')), s))"

lemma dispatch_streams: "streams (proto_env un (dispatch_stream rd enc h)) service m rd enc h"
  by (simp add: streams_def dispatch_stream_def)

interpretation proto_link: rpc_link "proto_env un ss" proto_E "\<lambda>w. w" snd p_payload for un ss
  unfolding rpc_link_def by (simp add: proto_runtime)

lemmas proto_link = proto_link.rpc_link_axioms


section \<open>The methods of the generated clients\<close>

text \<open>
  Each method of a generated client reaches the method of its own name, with the request and
  answer types of that method.
\<close>

abbreviation serves_CacheService_Set ::
  "('w, 'r, 's) rpc_env \<Rightarrow> (rpc_options \<Rightarrow> SetCacheRequest \<Rightarrow> 's \<Rightarrow> OperationResult result \<times> 's) \<Rightarrow> bool" where
  "serves_CacheService_Set env h \<equiv> serves env ''pgapp.v1.CacheService''
     (unaryMethod ''Set'' ''pgapp.v1.SetCacheRequest'' ''pgapp.v1.OperationResult'')
     (SetCacheRequest_internalBinaryRead (env_R env) RU_true) (OperationResult_internalBinaryWrite (env_W env) WU_true) h"

abbreviation serves_CacheService_Get ::
  "('w, 'r, 's) rpc_env \<Rightarrow> (rpc_options \<Rightarrow> GetCacheRequest \<Rightarrow> 's \<Rightarrow> GetCacheResponse result \<times> 's) \<Rightarrow> bool" where
  "serves_CacheService_Get env h \<equiv> serves env ''pgapp.v1.CacheService''
     (unaryMethod ''Get'' ''pgapp.v1.GetCacheRequest'' ''pgapp.v1.GetCacheResponse'')
     (GetCacheRequest_internalBinaryRead (env_R env) RU_true) (GetCacheResponse_internalBinaryWrite (env_W env) WU_true) h"

abbreviation serves_CacheService_MGet ::
  "('w, 'r, 's) rpc_env \<Rightarrow> (rpc_options \<Rightarrow> MGetCacheRequest \<Rightarrow> 's \<Rightarrow> MGetCacheResponse result \<times> 's) \<Rightarrow> bool" where
  "serves_CacheService_MGet env h \<equiv> serves env ''pgapp.v1.CacheService''
     (unaryMethod ''MGet'' ''pgapp.v1.MGetCacheRequest'' ''pgapp.v1.MGetCacheResponse'')
     (MGetCacheRequest_internalBinaryRead (env_R env) RU_true) (MGetCacheResponse_internalBinaryWrite (env_W env) WU_true) h"

abbreviation serves_CacheService_Delete ::
  "('w, 'r, 's) rpc_env \<Rightarrow> (rpc_options \<Rightarrow> DeleteCacheRequest \<Rightarrow> 's \<Rightarrow> OperationResult result \<times> 's) \<Rightarrow> bool" where
  "serves_CacheService_Delete env h \<equiv> serves env ''pgapp.v1.CacheService''
     (unaryMethod ''Delete'' ''pgapp.v1.DeleteCacheRequest'' ''pgapp.v1.OperationResult'')
     (DeleteCacheRequest_internalBinaryRead (env_R env) RU_true) (OperationResult_internalBinaryWrite (env_W env) WU_true) h"

abbreviation serves_CacheService_Exists ::
  "('w, 'r, 's) rpc_env \<Rightarrow> (rpc_options \<Rightarrow> ExistsCacheRequest \<Rightarrow> 's \<Rightarrow> ExistsCacheResponse result \<times> 's) \<Rightarrow> bool" where
  "serves_CacheService_Exists env h \<equiv> serves env ''pgapp.v1.CacheService''
     (unaryMethod ''Exists'' ''pgapp.v1.ExistsCacheRequest'' ''pgapp.v1.ExistsCacheResponse'')
     (ExistsCacheRequest_internalBinaryRead (env_R env) RU_true) (ExistsCacheResponse_internalBinaryWrite (env_W env) WU_true) h"

abbreviation serves_CacheService_InvalidateNamespace ::
  "('w, 'r, 's) rpc_env \<Rightarrow> (rpc_options \<Rightarrow> InvalidateNamespaceRequest \<Rightarrow> 's \<Rightarrow> OperationResult result \<times> 's) \<Rightarrow> bool" where
  "serves_CacheService_InvalidateNamespace env h \<equiv> serves env ''pgapp.v1.CacheService''
     (unaryMethod ''InvalidateNamespace'' ''pgapp.v1.InvalidateNamespaceRequest'' ''pgapp.v1.OperationResult'')
     (InvalidateNamespaceRequest_internalBinaryRead (env_R env) RU_true) (OperationResult_internalBinaryWrite (env_W env) WU_true) h"

abbreviation serves_CacheService_Stats ::
  "('w, 'r, 's) rpc_env \<Rightarrow> (rpc_options \<Rightarrow> CacheStatsRequest \<Rightarrow> 's \<Rightarrow> CacheStatsResponse result \<times> 's) \<Rightarrow> bool" where
  "serves_CacheService_Stats env h \<equiv> serves env ''pgapp.v1.CacheService''
     (unaryMethod ''Stats'' ''pgapp.v1.CacheStatsRequest'' ''pgapp.v1.CacheStatsResponse'')
     (CacheStatsRequest_internalBinaryRead (env_R env) RU_true) (CacheStatsResponse_internalBinaryWrite (env_W env) WU_true) h"

abbreviation serves_CacheService_Increment ::
  "('w, 'r, 's) rpc_env \<Rightarrow> (rpc_options \<Rightarrow> IncrementRequest \<Rightarrow> 's \<Rightarrow> IncrementResponse result \<times> 's) \<Rightarrow> bool" where
  "serves_CacheService_Increment env h \<equiv> serves env ''pgapp.v1.CacheService''
     (unaryMethod ''Increment'' ''pgapp.v1.IncrementRequest'' ''pgapp.v1.IncrementResponse'')
     (IncrementRequest_internalBinaryRead (env_R env) RU_true) (IncrementResponse_internalBinaryWrite (env_W env) WU_true) h"

abbreviation serves_CacheService_Decrement ::
  "('w, 'r, 's) rpc_env \<Rightarrow> (rpc_options \<Rightarrow> DecrementRequest \<Rightarrow> 's \<Rightarrow> DecrementResponse result \<times> 's) \<Rightarrow> bool" where
  "serves_CacheService_Decrement env h \<equiv> serves env ''pgapp.v1.CacheService''
     (unaryMethod ''Decrement'' ''pgapp.v1.DecrementRequest'' ''pgapp.v1.DecrementResponse'')
     (DecrementRequest_internalBinaryRead (env_R env) RU_true) (DecrementResponse_internalBinaryWrite (env_W env) WU_true) h"

abbreviation serves_CacheService_SetNX ::
  "('w, 'r, 's) rpc_env \<Rightarrow> (rpc_options \<Rightarrow> SetNXRequest \<Rightarrow> 's \<Rightarrow> SetNXResponse result \<times> 's) \<Rightarrow> bool" where
  "serves_CacheService_SetNX env h \<equiv> serves env ''pgapp.v1.CacheService''
     (unaryMethod ''SetNX'' ''pgapp.v1.SetNXRequest'' ''pgapp.v1.SetNXResponse'')
     (SetNXRequest_internalBinaryRead (env_R env) RU_true) (SetNXResponse_internalBinaryWrite (env_W env) WU_true) h"

abbreviation serves_CacheService_GetSet ::
  "('w, 'r, 's) rpc_env \<Rightarrow> (rpc_options \<Rightarrow> GetSetRequest \<Rightarrow> 's \<Rightarrow> GetSetResponse result \<times> 's) \<Rightarrow> bool" where
  "serves_CacheService_GetSet env h \<equiv> serves env ''pgapp.v1.CacheService''
     (unaryMethod ''GetSet'' ''pgapp.v1.GetSetRequest'' ''pgapp.v1.GetSetResponse'')
     (GetSetRequest_internalBinaryRead (env_R env) RU_true) (GetSetResponse_internalBinaryWrite (env_W env) WU_true) h"

abbreviation serves_CacheService_Append ::
  "('w, 'r, 's) rpc_env \<Rightarrow> (rpc_options \<Rightarrow> AppendRequest \<Rightarrow> 's \<Rightarrow> AppendResponse result \<times> 's) \<Rightarrow> bool" where
  "serves_CacheService_Append env h \<equiv> serves env ''pgapp.v1.CacheService''
     (unaryMethod ''Append'' ''pgapp.v1.AppendRequest'' ''pgapp.v1.AppendResponse'')
     (AppendRequest_internalBinaryRead (env_R env) RU_true) (AppendResponse_internalBinaryWrite (env_W env) WU_true) h"

abbreviation serves_CacheService_Prepend ::
  "('w, 'r, 's) rpc_env \<Rightarrow> (rpc_options \<Rightarrow> PrependRequest \<Rightarrow> 's \<Rightarrow> PrependResponse result \<times> 's) \<Rightarrow> bool" where
  "serves_CacheService_Prepend env h \<equiv> serves env ''pgapp.v1.CacheService''
     (unaryMethod ''Prepend'' ''pgapp.v1.PrependRequest'' ''pgapp.v1.PrependResponse'')
     (PrependRequest_internalBinaryRead (env_R env) RU_true) (PrependResponse_internalBinaryWrite (env_W env) WU_true) h"

abbreviation serves_MQService_CreateQueue ::
  "('w, 'r, 's) rpc_env \<Rightarrow> (rpc_options \<Rightarrow> CreateQueueRequest \<Rightarrow> 's \<Rightarrow> OperationResult result \<times> 's) \<Rightarrow> bool" where
  "serves_MQService_CreateQueue env h \<equiv> serves env ''pgapp.v1.MQService''
     (unaryMethod ''CreateQueue'' ''pgapp.v1.CreateQueueRequest'' ''pgapp.v1.OperationResult'')
     (CreateQueueRequest_internalBinaryRead (env_R env) RU_true) (OperationResult_internalBinaryWrite (env_W env) WU_true) h"

abbreviation serves_MQService_PurgeQueue ::
  "('w, 'r, 's) rpc_env \<Rightarrow> (rpc_options \<Rightarrow> PurgeQueueRequest \<Rightarrow> 's \<Rightarrow> OperationResult result \<times> 's) \<Rightarrow> bool" where
  "serves_MQService_PurgeQueue env h \<equiv> serves env ''pgapp.v1.MQService''
     (unaryMethod ''PurgeQueue'' ''pgapp.v1.PurgeQueueRequest'' ''pgapp.v1.OperationResult'')
     (PurgeQueueRequest_internalBinaryRead (env_R env) RU_true) (OperationResult_internalBinaryWrite (env_W env) WU_true) h"

abbreviation serves_MQService_DropQueue ::
  "('w, 'r, 's) rpc_env \<Rightarrow> (rpc_options \<Rightarrow> DropQueueRequest \<Rightarrow> 's \<Rightarrow> OperationResult result \<times> 's) \<Rightarrow> bool" where
  "serves_MQService_DropQueue env h \<equiv> serves env ''pgapp.v1.MQService''
     (unaryMethod ''DropQueue'' ''pgapp.v1.DropQueueRequest'' ''pgapp.v1.OperationResult'')
     (DropQueueRequest_internalBinaryRead (env_R env) RU_true) (OperationResult_internalBinaryWrite (env_W env) WU_true) h"

abbreviation serves_MQService_Send ::
  "('w, 'r, 's) rpc_env \<Rightarrow> (rpc_options \<Rightarrow> SendMessageRequest \<Rightarrow> 's \<Rightarrow> SendMessageResponse result \<times> 's) \<Rightarrow> bool" where
  "serves_MQService_Send env h \<equiv> serves env ''pgapp.v1.MQService''
     (unaryMethod ''Send'' ''pgapp.v1.SendMessageRequest'' ''pgapp.v1.SendMessageResponse'')
     (SendMessageRequest_internalBinaryRead (env_R env) RU_true) (SendMessageResponse_internalBinaryWrite (env_W env) WU_true) h"

abbreviation serves_MQService_SendBatch ::
  "('w, 'r, 's) rpc_env \<Rightarrow> (rpc_options \<Rightarrow> SendBatchRequest \<Rightarrow> 's \<Rightarrow> SendBatchResponse result \<times> 's) \<Rightarrow> bool" where
  "serves_MQService_SendBatch env h \<equiv> serves env ''pgapp.v1.MQService''
     (unaryMethod ''SendBatch'' ''pgapp.v1.SendBatchRequest'' ''pgapp.v1.SendBatchResponse'')
     (SendBatchRequest_internalBinaryRead (env_R env) RU_true) (SendBatchResponse_internalBinaryWrite (env_W env) WU_true) h"

abbreviation serves_MQService_Read ::
  "('w, 'r, 's) rpc_env \<Rightarrow> (rpc_options \<Rightarrow> ReadMessagesRequest \<Rightarrow> 's \<Rightarrow> ReadMessagesResponse result \<times> 's) \<Rightarrow> bool" where
  "serves_MQService_Read env h \<equiv> serves env ''pgapp.v1.MQService''
     (unaryMethod ''Read'' ''pgapp.v1.ReadMessagesRequest'' ''pgapp.v1.ReadMessagesResponse'')
     (ReadMessagesRequest_internalBinaryRead (env_R env) RU_true) (ReadMessagesResponse_internalBinaryWrite (env_W env) WU_true) h"

abbreviation serves_MQService_ReadWithPoll ::
  "('w, 'r, 's) rpc_env \<Rightarrow> (rpc_options \<Rightarrow> ReadWithPollRequest \<Rightarrow> 's \<Rightarrow> ReadMessagesResponse result \<times> 's) \<Rightarrow> bool" where
  "serves_MQService_ReadWithPoll env h \<equiv> serves env ''pgapp.v1.MQService''
     (unaryMethod ''ReadWithPoll'' ''pgapp.v1.ReadWithPollRequest'' ''pgapp.v1.ReadMessagesResponse'')
     (ReadWithPollRequest_internalBinaryRead (env_R env) RU_true) (ReadMessagesResponse_internalBinaryWrite (env_W env) WU_true) h"

abbreviation serves_MQService_Ack ::
  "('w, 'r, 's) rpc_env \<Rightarrow> (rpc_options \<Rightarrow> AckMessageRequest \<Rightarrow> 's \<Rightarrow> OperationResult result \<times> 's) \<Rightarrow> bool" where
  "serves_MQService_Ack env h \<equiv> serves env ''pgapp.v1.MQService''
     (unaryMethod ''Ack'' ''pgapp.v1.AckMessageRequest'' ''pgapp.v1.OperationResult'')
     (AckMessageRequest_internalBinaryRead (env_R env) RU_true) (OperationResult_internalBinaryWrite (env_W env) WU_true) h"

abbreviation serves_MQService_Archive ::
  "('w, 'r, 's) rpc_env \<Rightarrow> (rpc_options \<Rightarrow> ArchiveMessageRequest \<Rightarrow> 's \<Rightarrow> OperationResult result \<times> 's) \<Rightarrow> bool" where
  "serves_MQService_Archive env h \<equiv> serves env ''pgapp.v1.MQService''
     (unaryMethod ''Archive'' ''pgapp.v1.ArchiveMessageRequest'' ''pgapp.v1.OperationResult'')
     (ArchiveMessageRequest_internalBinaryRead (env_R env) RU_true) (OperationResult_internalBinaryWrite (env_W env) WU_true) h"

abbreviation serves_MQService_SetVisibilityTimeout ::
  "('w, 'r, 's) rpc_env \<Rightarrow> (rpc_options \<Rightarrow> SetVisibilityTimeoutRequest \<Rightarrow> 's \<Rightarrow> OperationResult result \<times> 's) \<Rightarrow> bool" where
  "serves_MQService_SetVisibilityTimeout env h \<equiv> serves env ''pgapp.v1.MQService''
     (unaryMethod ''SetVisibilityTimeout'' ''pgapp.v1.SetVisibilityTimeoutRequest'' ''pgapp.v1.OperationResult'')
     (SetVisibilityTimeoutRequest_internalBinaryRead (env_R env) RU_true) (OperationResult_internalBinaryWrite (env_W env) WU_true) h"

abbreviation serves_MQService_Metrics ::
  "('w, 'r, 's) rpc_env \<Rightarrow> (rpc_options \<Rightarrow> QueueMetricsRequest \<Rightarrow> 's \<Rightarrow> QueueMetricsResponse result \<times> 's) \<Rightarrow> bool" where
  "serves_MQService_Metrics env h \<equiv> serves env ''pgapp.v1.MQService''
     (unaryMethod ''Metrics'' ''pgapp.v1.QueueMetricsRequest'' ''pgapp.v1.QueueMetricsResponse'')
     (QueueMetricsRequest_internalBinaryRead (env_R env) RU_true) (QueueMetricsResponse_internalBinaryWrite (env_W env) WU_true) h"

abbreviation serves_MQService_ListDlqMessages ::
  "('w, 'r, 's) rpc_env \<Rightarrow> (rpc_options \<Rightarrow> ListDlqMessagesRequest \<Rightarrow> 's \<Rightarrow> ListDlqMessagesResponse result \<times> 's) \<Rightarrow> bool" where
  "serves_MQService_ListDlqMessages env h \<equiv> serves env ''pgapp.v1.MQService''
     (unaryMethod ''ListDlqMessages'' ''pgapp.v1.ListDlqMessagesRequest'' ''pgapp.v1.ListDlqMessagesResponse'')
     (ListDlqMessagesRequest_internalBinaryRead (env_R env) RU_true) (ListDlqMessagesResponse_internalBinaryWrite (env_W env) WU_true) h"

abbreviation serves_MQService_GetDlqMessage ::
  "('w, 'r, 's) rpc_env \<Rightarrow> (rpc_options \<Rightarrow> GetDlqMessageRequest \<Rightarrow> 's \<Rightarrow> DlqMessage result \<times> 's) \<Rightarrow> bool" where
  "serves_MQService_GetDlqMessage env h \<equiv> serves env ''pgapp.v1.MQService''
     (unaryMethod ''GetDlqMessage'' ''pgapp.v1.GetDlqMessageRequest'' ''pgapp.v1.DlqMessage'')
     (GetDlqMessageRequest_internalBinaryRead (env_R env) RU_true) (DlqMessage_internalBinaryWrite (env_W env) WU_true) h"

abbreviation serves_MQService_ReprocessDlqMessage ::
  "('w, 'r, 's) rpc_env \<Rightarrow> (rpc_options \<Rightarrow> ReprocessDlqMessageRequest \<Rightarrow> 's \<Rightarrow> OperationResult result \<times> 's) \<Rightarrow> bool" where
  "serves_MQService_ReprocessDlqMessage env h \<equiv> serves env ''pgapp.v1.MQService''
     (unaryMethod ''ReprocessDlqMessage'' ''pgapp.v1.ReprocessDlqMessageRequest'' ''pgapp.v1.OperationResult'')
     (ReprocessDlqMessageRequest_internalBinaryRead (env_R env) RU_true) (OperationResult_internalBinaryWrite (env_W env) WU_true) h"

abbreviation serves_MQService_PurgeDlq ::
  "('w, 'r, 's) rpc_env \<Rightarrow> (rpc_options \<Rightarrow> PurgeDlqRequest \<Rightarrow> 's \<Rightarrow> OperationResult result \<times> 's) \<Rightarrow> bool" where
  "serves_MQService_PurgeDlq env h \<equiv> serves env ''pgapp.v1.MQService''
     (unaryMethod ''PurgeDlq'' ''pgapp.v1.PurgeDlqRequest'' ''pgapp.v1.OperationResult'')
     (PurgeDlqRequest_internalBinaryRead (env_R env) RU_true) (OperationResult_internalBinaryWrite (env_W env) WU_true) h"

abbreviation streams_MQService_StreamRead ::
  "('w, 'r, 's) rpc_env \<Rightarrow> encoding \<Rightarrow>
   (rpc_options \<Rightarrow> StreamReadRequest \<Rightarrow> 's \<Rightarrow> (ReadMessagesResponse list \<times> thrown option) \<times> 's) \<Rightarrow> bool" where
  "streams_MQService_StreamRead env E h \<equiv> streams env ''pgapp.v1.MQService''
     \<lparr>mi_name = ''StreamRead'', mi_serverStreaming = True, mi_I = ''pgapp.v1.StreamReadRequest'', mi_O = ''pgapp.v1.ReadMessagesResponse''\<rparr>
     (StreamReadRequest_internalBinaryRead (env_R env) RU_true) (ReadMessagesResponse_encode E) h"

abbreviation serves_ConfigService_GetRelease ::
  "('w, 'r, 's) rpc_env \<Rightarrow> (rpc_options \<Rightarrow> GetConfigReleaseRequest \<Rightarrow> 's \<Rightarrow> ConfigRelease result \<times> 's) \<Rightarrow> bool" where
  "serves_ConfigService_GetRelease env h \<equiv> serves env ''pgapp.v1.ConfigService''
     (unaryMethod ''GetRelease'' ''pgapp.v1.GetConfigReleaseRequest'' ''pgapp.v1.ConfigRelease'')
     (GetConfigReleaseRequest_internalBinaryRead (env_R env) RU_true) (ConfigRelease_internalBinaryWrite (env_W env) WU_true) h"

abbreviation serves_ConfigService_Watch ::
  "('w, 'r, 's) rpc_env \<Rightarrow> (rpc_options \<Rightarrow> WatchConfigRequest \<Rightarrow> 's \<Rightarrow> WatchConfigResponse result \<times> 's) \<Rightarrow> bool" where
  "serves_ConfigService_Watch env h \<equiv> serves env ''pgapp.v1.ConfigService''
     (unaryMethod ''Watch'' ''pgapp.v1.WatchConfigRequest'' ''pgapp.v1.WatchConfigResponse'')
     (WatchConfigRequest_internalBinaryRead (env_R env) RU_true) (WatchConfigResponse_internalBinaryWrite (env_W env) WU_true) h"

context rpc_link
begin

lemma CacheServiceClient_set_call:
  assumes "serves_CacheService_Set env h"
    and "transmissible (SetCacheRequest_ok payload) (SetCacheRequest_encode E) req"
    and "deliverable (OperationResult_ok payload) (OperationResult_encode E) (fst (h (env_mergeOptions env opt) req s))"
  shows "CacheServiceClient_set env req opt s =
     (Some (fst (h (env_mergeOptions env opt) req s)), snd (h (env_mergeOptions env opt) req s))"
  unfolding CacheServiceClient_set_def
  by (rule unary_call [OF SetCacheRequest_codec OperationResult_codec]) (use assms in \<open>simp_all add: CacheService_def\<close>)

lemma CacheServiceClient_get_call:
  assumes "serves_CacheService_Get env h"
    and "transmissible (GetCacheRequest_ok payload) (GetCacheRequest_encode E) req"
    and "deliverable (GetCacheResponse_ok payload) (GetCacheResponse_encode E) (fst (h (env_mergeOptions env opt) req s))"
  shows "CacheServiceClient_get env req opt s =
     (Some (fst (h (env_mergeOptions env opt) req s)), snd (h (env_mergeOptions env opt) req s))"
  unfolding CacheServiceClient_get_def
  by (rule unary_call [OF GetCacheRequest_codec GetCacheResponse_codec]) (use assms in \<open>simp_all add: CacheService_def\<close>)

lemma CacheServiceClient_mGet_call:
  assumes "serves_CacheService_MGet env h"
    and "transmissible (MGetCacheRequest_ok payload) (MGetCacheRequest_encode E) req"
    and "deliverable (MGetCacheResponse_ok payload) (MGetCacheResponse_encode E) (fst (h (env_mergeOptions env opt) req s))"
  shows "CacheServiceClient_mGet env req opt s =
     (Some (fst (h (env_mergeOptions env opt) req s)), snd (h (env_mergeOptions env opt) req s))"
  unfolding CacheServiceClient_mGet_def
  by (rule unary_call [OF MGetCacheRequest_codec MGetCacheResponse_codec]) (use assms in \<open>simp_all add: CacheService_def\<close>)

lemma CacheServiceClient_delete_call:
  assumes "serves_CacheService_Delete env h"
    and "transmissible (DeleteCacheRequest_ok payload) (DeleteCacheRequest_encode E) req"
    and "deliverable (OperationResult_ok payload) (OperationResult_encode E) (fst (h (env_mergeOptions env opt) req s))"
  shows "CacheServiceClient_delete env req opt s =
     (Some (fst (h (env_mergeOptions env opt) req s)), snd (h (env_mergeOptions env opt) req s))"
  unfolding CacheServiceClient_delete_def
  by (rule unary_call [OF DeleteCacheRequest_codec OperationResult_codec]) (use assms in \<open>simp_all add: CacheService_def\<close>)

lemma CacheServiceClient_exists_call:
  assumes "serves_CacheService_Exists env h"
    and "transmissible (ExistsCacheRequest_ok payload) (ExistsCacheRequest_encode E) req"
    and "deliverable (ExistsCacheResponse_ok payload) (ExistsCacheResponse_encode E) (fst (h (env_mergeOptions env opt) req s))"
  shows "CacheServiceClient_exists env req opt s =
     (Some (fst (h (env_mergeOptions env opt) req s)), snd (h (env_mergeOptions env opt) req s))"
  unfolding CacheServiceClient_exists_def
  by (rule unary_call [OF ExistsCacheRequest_codec ExistsCacheResponse_codec]) (use assms in \<open>simp_all add: CacheService_def\<close>)

lemma CacheServiceClient_invalidateNamespace_call:
  assumes "serves_CacheService_InvalidateNamespace env h"
    and "transmissible (InvalidateNamespaceRequest_ok payload) (InvalidateNamespaceRequest_encode E) req"
    and "deliverable (OperationResult_ok payload) (OperationResult_encode E) (fst (h (env_mergeOptions env opt) req s))"
  shows "CacheServiceClient_invalidateNamespace env req opt s =
     (Some (fst (h (env_mergeOptions env opt) req s)), snd (h (env_mergeOptions env opt) req s))"
  unfolding CacheServiceClient_invalidateNamespace_def
  by (rule unary_call [OF InvalidateNamespaceRequest_codec OperationResult_codec]) (use assms in \<open>simp_all add: CacheService_def\<close>)

lemma CacheServiceClient_stats_call:
  assumes "serves_CacheService_Stats env h"
    and "transmissible (CacheStatsRequest_ok payload) (CacheStatsRequest_encode E) req"
    and "deliverable (CacheStatsResponse_ok payload) (CacheStatsResponse_encode E) (fst (h (env_mergeOptions env opt) req s))"
  shows "CacheServiceClient_stats env req opt s =
     (Some (fst (h (env_mergeOptions env opt) req s)), snd (h (env_mergeOptions env opt) req s))"
  unfolding CacheServiceClient_stats_def
  by (rule unary_call [OF CacheStatsRequest_codec CacheStatsResponse_codec]) (use assms in \<open>simp_all add: CacheService_def\<close>)

lemma CacheServiceClient_increment_call:
  assumes "serves_CacheService_Increment env h"
    and "transmissible (IncrementRequest_ok payload) (IncrementRequest_encode E) req"
    and "deliverable (IncrementResponse_ok payload) (IncrementResponse_encode E) (fst (h (env_mergeOptions env opt) req s))"
  shows "CacheServiceClient_increment env req opt s =
     (Some (fst (h (env_mergeOptions env opt) req s)), snd (h (env_mergeOptions env opt) req s))"
  unfolding CacheServiceClient_increment_def
  by (rule unary_call [OF IncrementRequest_codec IncrementResponse_codec]) (use assms in \<open>simp_all add: CacheService_def\<close>)

lemma CacheServiceClient_decrement_call:
  assumes "serves_CacheService_Decrement env h"
    and "transmissible (DecrementRequest_ok payload) (DecrementRequest_encode E) req"
    and "deliverable (DecrementResponse_ok payload) (DecrementResponse_encode E) (fst (h (env_mergeOptions env opt) req s))"
  shows "CacheServiceClient_decrement env req opt s =
     (Some (fst (h (env_mergeOptions env opt) req s)), snd (h (env_mergeOptions env opt) req s))"
  unfolding CacheServiceClient_decrement_def
  by (rule unary_call [OF DecrementRequest_codec DecrementResponse_codec]) (use assms in \<open>simp_all add: CacheService_def\<close>)

lemma CacheServiceClient_setNX_call:
  assumes "serves_CacheService_SetNX env h"
    and "transmissible (SetNXRequest_ok payload) (SetNXRequest_encode E) req"
    and "deliverable (SetNXResponse_ok payload) (SetNXResponse_encode E) (fst (h (env_mergeOptions env opt) req s))"
  shows "CacheServiceClient_setNX env req opt s =
     (Some (fst (h (env_mergeOptions env opt) req s)), snd (h (env_mergeOptions env opt) req s))"
  unfolding CacheServiceClient_setNX_def
  by (rule unary_call [OF SetNXRequest_codec SetNXResponse_codec]) (use assms in \<open>simp_all add: CacheService_def\<close>)

lemma CacheServiceClient_getSet_call:
  assumes "serves_CacheService_GetSet env h"
    and "transmissible (GetSetRequest_ok payload) (GetSetRequest_encode E) req"
    and "deliverable (GetSetResponse_ok payload) (GetSetResponse_encode E) (fst (h (env_mergeOptions env opt) req s))"
  shows "CacheServiceClient_getSet env req opt s =
     (Some (fst (h (env_mergeOptions env opt) req s)), snd (h (env_mergeOptions env opt) req s))"
  unfolding CacheServiceClient_getSet_def
  by (rule unary_call [OF GetSetRequest_codec GetSetResponse_codec]) (use assms in \<open>simp_all add: CacheService_def\<close>)

lemma CacheServiceClient_append_call:
  assumes "serves_CacheService_Append env h"
    and "transmissible (AppendRequest_ok payload) (AppendRequest_encode E) req"
    and "deliverable (AppendResponse_ok payload) (AppendResponse_encode E) (fst (h (env_mergeOptions env opt) req s))"
  shows "CacheServiceClient_append env req opt s =
     (Some (fst (h (env_mergeOptions env opt) req s)), snd (h (env_mergeOptions env opt) req s))"
  unfolding CacheServiceClient_append_def
  by (rule unary_call [OF AppendRequest_codec AppendResponse_codec]) (use assms in \<open>simp_all add: CacheService_def\<close>)

lemma CacheServiceClient_prepend_call:
  assumes "serves_CacheService_Prepend env h"
    and "transmissible (PrependRequest_ok payload) (PrependRequest_encode E) req"
    and "deliverable (PrependResponse_ok payload) (PrependResponse_encode E) (fst (h (env_mergeOptions env opt) req s))"
  shows "CacheServiceClient_prepend env req opt s =
     (Some (fst (h (env_mergeOptions env opt) req s)), snd (h (env_mergeOptions env opt) req s))"
  unfolding CacheServiceClient_prepend_def
  by (rule unary_call [OF PrependRequest_codec PrependResponse_codec]) (use assms in \<open>simp_all add: CacheService_def\<close>)

lemma MQServiceClient_createQueue_call:
  assumes "serves_MQService_CreateQueue env h"
    and "transmissible (CreateQueueRequest_ok payload) (CreateQueueRequest_encode E) req"
    and "deliverable (OperationResult_ok payload) (OperationResult_encode E) (fst (h (env_mergeOptions env opt) req s))"
  shows "MQServiceClient_createQueue env req opt s =
     (Some (fst (h (env_mergeOptions env opt) req s)), snd (h (env_mergeOptions env opt) req s))"
  unfolding MQServiceClient_createQueue_def
  by (rule unary_call [OF CreateQueueRequest_codec OperationResult_codec]) (use assms in \<open>simp_all add: MQService_def\<close>)

lemma MQServiceClient_purgeQueue_call:
  assumes "serves_MQService_PurgeQueue env h"
    and "transmissible (PurgeQueueRequest_ok payload) (PurgeQueueRequest_encode E) req"
    and "deliverable (OperationResult_ok payload) (OperationResult_encode E) (fst (h (env_mergeOptions env opt) req s))"
  shows "MQServiceClient_purgeQueue env req opt s =
     (Some (fst (h (env_mergeOptions env opt) req s)), snd (h (env_mergeOptions env opt) req s))"
  unfolding MQServiceClient_purgeQueue_def
  by (rule unary_call [OF PurgeQueueRequest_codec OperationResult_codec]) (use assms in \<open>simp_all add: MQService_def\<close>)

lemma MQServiceClient_dropQueue_call:
  assumes "serves_MQService_DropQueue env h"
    and "transmissible (DropQueueRequest_ok payload) (DropQueueRequest_encode E) req"
    and "deliverable (OperationResult_ok payload) (OperationResult_encode E) (fst (h (env_mergeOptions env opt) req s))"
  shows "MQServiceClient_dropQueue env req opt s =
     (Some (fst (h (env_mergeOptions env opt) req s)), snd (h (env_mergeOptions env opt) req s))"
  unfolding MQServiceClient_dropQueue_def
  by (rule unary_call [OF DropQueueRequest_codec OperationResult_codec]) (use assms in \<open>simp_all add: MQService_def\<close>)

lemma MQServiceClient_send_call:
  assumes "serves_MQService_Send env h"
    and "transmissible (SendMessageRequest_ok payload) (SendMessageRequest_encode E) req"
    and "deliverable (SendMessageResponse_ok payload) (SendMessageResponse_encode E) (fst (h (env_mergeOptions env opt) req s))"
  shows "MQServiceClient_send env req opt s =
     (Some (fst (h (env_mergeOptions env opt) req s)), snd (h (env_mergeOptions env opt) req s))"
  unfolding MQServiceClient_send_def
  by (rule unary_call [OF SendMessageRequest_codec SendMessageResponse_codec]) (use assms in \<open>simp_all add: MQService_def\<close>)

lemma MQServiceClient_sendBatch_call:
  assumes "serves_MQService_SendBatch env h"
    and "transmissible (SendBatchRequest_ok payload) (SendBatchRequest_encode E) req"
    and "deliverable (SendBatchResponse_ok payload) (SendBatchResponse_encode E) (fst (h (env_mergeOptions env opt) req s))"
  shows "MQServiceClient_sendBatch env req opt s =
     (Some (fst (h (env_mergeOptions env opt) req s)), snd (h (env_mergeOptions env opt) req s))"
  unfolding MQServiceClient_sendBatch_def
  by (rule unary_call [OF SendBatchRequest_codec SendBatchResponse_codec]) (use assms in \<open>simp_all add: MQService_def\<close>)

lemma MQServiceClient_read_call:
  assumes "serves_MQService_Read env h"
    and "transmissible (ReadMessagesRequest_ok payload) (ReadMessagesRequest_encode E) req"
    and "deliverable (ReadMessagesResponse_ok payload) (ReadMessagesResponse_encode E) (fst (h (env_mergeOptions env opt) req s))"
  shows "MQServiceClient_read env req opt s =
     (Some (fst (h (env_mergeOptions env opt) req s)), snd (h (env_mergeOptions env opt) req s))"
  unfolding MQServiceClient_read_def
  by (rule unary_call [OF ReadMessagesRequest_codec ReadMessagesResponse_codec]) (use assms in \<open>simp_all add: MQService_def\<close>)

lemma MQServiceClient_readWithPoll_call:
  assumes "serves_MQService_ReadWithPoll env h"
    and "transmissible (ReadWithPollRequest_ok payload) (ReadWithPollRequest_encode E) req"
    and "deliverable (ReadMessagesResponse_ok payload) (ReadMessagesResponse_encode E) (fst (h (env_mergeOptions env opt) req s))"
  shows "MQServiceClient_readWithPoll env req opt s =
     (Some (fst (h (env_mergeOptions env opt) req s)), snd (h (env_mergeOptions env opt) req s))"
  unfolding MQServiceClient_readWithPoll_def
  by (rule unary_call [OF ReadWithPollRequest_codec ReadMessagesResponse_codec]) (use assms in \<open>simp_all add: MQService_def\<close>)

lemma MQServiceClient_ack_call:
  assumes "serves_MQService_Ack env h"
    and "transmissible (AckMessageRequest_ok payload) (AckMessageRequest_encode E) req"
    and "deliverable (OperationResult_ok payload) (OperationResult_encode E) (fst (h (env_mergeOptions env opt) req s))"
  shows "MQServiceClient_ack env req opt s =
     (Some (fst (h (env_mergeOptions env opt) req s)), snd (h (env_mergeOptions env opt) req s))"
  unfolding MQServiceClient_ack_def
  by (rule unary_call [OF AckMessageRequest_codec OperationResult_codec]) (use assms in \<open>simp_all add: MQService_def\<close>)

lemma MQServiceClient_archive_call:
  assumes "serves_MQService_Archive env h"
    and "transmissible (ArchiveMessageRequest_ok payload) (ArchiveMessageRequest_encode E) req"
    and "deliverable (OperationResult_ok payload) (OperationResult_encode E) (fst (h (env_mergeOptions env opt) req s))"
  shows "MQServiceClient_archive env req opt s =
     (Some (fst (h (env_mergeOptions env opt) req s)), snd (h (env_mergeOptions env opt) req s))"
  unfolding MQServiceClient_archive_def
  by (rule unary_call [OF ArchiveMessageRequest_codec OperationResult_codec]) (use assms in \<open>simp_all add: MQService_def\<close>)

lemma MQServiceClient_setVisibilityTimeout_call:
  assumes "serves_MQService_SetVisibilityTimeout env h"
    and "transmissible (SetVisibilityTimeoutRequest_ok payload) (SetVisibilityTimeoutRequest_encode E) req"
    and "deliverable (OperationResult_ok payload) (OperationResult_encode E) (fst (h (env_mergeOptions env opt) req s))"
  shows "MQServiceClient_setVisibilityTimeout env req opt s =
     (Some (fst (h (env_mergeOptions env opt) req s)), snd (h (env_mergeOptions env opt) req s))"
  unfolding MQServiceClient_setVisibilityTimeout_def
  by (rule unary_call [OF SetVisibilityTimeoutRequest_codec OperationResult_codec]) (use assms in \<open>simp_all add: MQService_def\<close>)

lemma MQServiceClient_metrics_call:
  assumes "serves_MQService_Metrics env h"
    and "transmissible (QueueMetricsRequest_ok payload) (QueueMetricsRequest_encode E) req"
    and "deliverable (QueueMetricsResponse_ok payload) (QueueMetricsResponse_encode E) (fst (h (env_mergeOptions env opt) req s))"
  shows "MQServiceClient_metrics env req opt s =
     (Some (fst (h (env_mergeOptions env opt) req s)), snd (h (env_mergeOptions env opt) req s))"
  unfolding MQServiceClient_metrics_def
  by (rule unary_call [OF QueueMetricsRequest_codec QueueMetricsResponse_codec]) (use assms in \<open>simp_all add: MQService_def\<close>)

lemma MQServiceClient_listDlqMessages_call:
  assumes "serves_MQService_ListDlqMessages env h"
    and "transmissible (ListDlqMessagesRequest_ok payload) (ListDlqMessagesRequest_encode E) req"
    and "deliverable (ListDlqMessagesResponse_ok payload) (ListDlqMessagesResponse_encode E) (fst (h (env_mergeOptions env opt) req s))"
  shows "MQServiceClient_listDlqMessages env req opt s =
     (Some (fst (h (env_mergeOptions env opt) req s)), snd (h (env_mergeOptions env opt) req s))"
  unfolding MQServiceClient_listDlqMessages_def
  by (rule unary_call [OF ListDlqMessagesRequest_codec ListDlqMessagesResponse_codec]) (use assms in \<open>simp_all add: MQService_def\<close>)

lemma MQServiceClient_getDlqMessage_call:
  assumes "serves_MQService_GetDlqMessage env h"
    and "transmissible (GetDlqMessageRequest_ok payload) (GetDlqMessageRequest_encode E) req"
    and "deliverable (DlqMessage_ok payload) (DlqMessage_encode E) (fst (h (env_mergeOptions env opt) req s))"
  shows "MQServiceClient_getDlqMessage env req opt s =
     (Some (fst (h (env_mergeOptions env opt) req s)), snd (h (env_mergeOptions env opt) req s))"
  unfolding MQServiceClient_getDlqMessage_def
  by (rule unary_call [OF GetDlqMessageRequest_codec DlqMessage_codec]) (use assms in \<open>simp_all add: MQService_def\<close>)

lemma MQServiceClient_reprocessDlqMessage_call:
  assumes "serves_MQService_ReprocessDlqMessage env h"
    and "transmissible (ReprocessDlqMessageRequest_ok payload) (ReprocessDlqMessageRequest_encode E) req"
    and "deliverable (OperationResult_ok payload) (OperationResult_encode E) (fst (h (env_mergeOptions env opt) req s))"
  shows "MQServiceClient_reprocessDlqMessage env req opt s =
     (Some (fst (h (env_mergeOptions env opt) req s)), snd (h (env_mergeOptions env opt) req s))"
  unfolding MQServiceClient_reprocessDlqMessage_def
  by (rule unary_call [OF ReprocessDlqMessageRequest_codec OperationResult_codec]) (use assms in \<open>simp_all add: MQService_def\<close>)

lemma MQServiceClient_purgeDlq_call:
  assumes "serves_MQService_PurgeDlq env h"
    and "transmissible (PurgeDlqRequest_ok payload) (PurgeDlqRequest_encode E) req"
    and "deliverable (OperationResult_ok payload) (OperationResult_encode E) (fst (h (env_mergeOptions env opt) req s))"
  shows "MQServiceClient_purgeDlq env req opt s =
     (Some (fst (h (env_mergeOptions env opt) req s)), snd (h (env_mergeOptions env opt) req s))"
  unfolding MQServiceClient_purgeDlq_def
  by (rule unary_call [OF PurgeDlqRequest_codec OperationResult_codec]) (use assms in \<open>simp_all add: MQService_def\<close>)

lemma MQServiceClient_streamRead_call:
  assumes "streams_MQService_StreamRead env E h"
    and "transmissible (StreamReadRequest_ok payload) (StreamReadRequest_encode E) req"
    and "list_all (transmissible (ReadMessagesResponse_ok payload) (ReadMessagesResponse_encode E))
      (fst (fst (h (env_mergeOptions env opt) req s)))"
  shows "MQServiceClient_streamRead env req opt s =
     (Some (fst (h (env_mergeOptions env opt) req s)), snd (h (env_mergeOptions env opt) req s))"
  unfolding MQServiceClient_streamRead_def
  by (rule stream_call [OF StreamReadRequest_codec ReadMessagesResponse_codec]) (use assms in \<open>simp_all add: MQService_def\<close>)

lemma ConfigServiceClient_getRelease_call:
  assumes "serves_ConfigService_GetRelease env h"
    and "transmissible (GetConfigReleaseRequest_ok payload) (GetConfigReleaseRequest_encode E) req"
    and "deliverable (ConfigRelease_ok payload) (ConfigRelease_encode E) (fst (h (env_mergeOptions env opt) req s))"
  shows "ConfigServiceClient_getRelease env req opt s =
     (Some (fst (h (env_mergeOptions env opt) req s)), snd (h (env_mergeOptions env opt) req s))"
  unfolding ConfigServiceClient_getRelease_def
  by (rule unary_call [OF GetConfigReleaseRequest_codec ConfigRelease_codec]) (use assms in \<open>simp_all add: ConfigService_def\<close>)

lemma ConfigServiceClient_watch_call:
  assumes "serves_ConfigService_Watch env h"
    and "transmissible (WatchConfigRequest_ok payload) (WatchConfigRequest_encode E) req"
    and "deliverable (WatchConfigResponse_ok payload) (WatchConfigResponse_encode E) (fst (h (env_mergeOptions env opt) req s))"
  shows "ConfigServiceClient_watch env req opt s =
     (Some (fst (h (env_mergeOptions env opt) req s)), snd (h (env_mergeOptions env opt) req s))"
  unfolding ConfigServiceClient_watch_def
  by (rule unary_call [OF WatchConfigRequest_codec WatchConfigResponse_codec]) (use assms in \<open>simp_all add: ConfigService_def\<close>)

end

end
