(* ===== verification/Client_Core.thy ===== *)
theory Client_Core
  imports Rpc_Link
begin

text \<open>
  What the three clients of \<open>sdk/typescript/src/index.ts\<close> share: \<open>PGAppError\<close>, the options of a
  \<open>PGAppClient\<close> and the metadata every call carries, \<open>wrap\<close>, and \<open>encodeBytes\<close>. The lemmas say
  what a caller can rely on when a call fails, and that a call through the generated client and
  the wire is a call of the other side's typed handler: the locale \<open>rpc_link\<close> states what the
  clients assume of the transport.
\<close>


section \<open>Errors\<close>

text \<open>\<open>new PGAppError(message, code)\<close>: an \<open>Error\<close> named \<open>PGAppError\<close> with a code.\<close>

definition PGAppError :: "string \<Rightarrow> js_prim option \<Rightarrow> err_obj" where
  "PGAppError message code = \<lparr>eo_name = ''PGAppError'', eo_isError = True,
     eo_message = Some message, eo_code = code,
     eo_string = (if message = [] then ''PGAppError'' else ''PGAppError: '' @ message)\<rparr>"

text \<open>
  \<open>PGAppError.from(error)\<close>. Reading \<open>candidate.message\<close> of \<open>null\<close> or \<open>undefined\<close> throws a
  \<open>TypeError\<close>. An \<open>Error\<close> without a string message passes \<open>undefined\<close> on, which becomes the
  empty message.
\<close>

definition type_error :: "string \<Rightarrow> thrown" where
  "type_error text = (let msg = ''Cannot read properties of '' @ text @ '' (reading 'message')''
     in Thrown \<lparr>eo_name = ''TypeError'', eo_isError = True, eo_message = Some msg,
          eo_code = None, eo_string = ''TypeError: '' @ msg\<rparr>)"

definition PGAppError_from :: "thrown \<Rightarrow> err_obj result" where
  "PGAppError_from error = (case error of Nullish text \<Rightarrow> Inl (type_error text)
     | Thrown candidate \<Rightarrow> (case eo_message candidate of
         Some message \<Rightarrow> Inr (PGAppError message (eo_code candidate))
       | None \<Rightarrow> Inr (PGAppError (if eo_isError candidate then [] else eo_string candidate) None)))"

text \<open>\<open>throw PGAppError.from(error)\<close>: what is thrown in the end.\<close>

definition throwFrom :: "thrown \<Rightarrow> thrown" where
  "throwFrom error = (case PGAppError_from error of Inl e \<Rightarrow> e | Inr pe \<Rightarrow> Thrown pe)"

text \<open>
  \<open>wrap(fn)\<close>, the same private method in each of the three clients: the value of \<open>fn\<close>, or its
  error converted. The state of the other side is that after \<open>fn\<close>.
\<close>

definition wrap :: "'a comp \<times> 's \<Rightarrow> 'a comp \<times> 's" where
  "wrap r = (map_option (\<lambda>x. case x of Inl e \<Rightarrow> Inl (throwFrom e) | Inr v \<Rightarrow> Inr v) (fst r), snd r)"

text \<open>\<open>const response = await call; return f(response.response);\<close>\<close>

definition answer :: "'o comp \<times> 's \<Rightarrow> ('o \<Rightarrow> 'a result) \<Rightarrow> 'a comp \<times> 's" where
  "answer r f = (bindC (fst r) (\<lambda>x. Some (f x)), snd r)"


section \<open>The client\<close>

text \<open>A parameter with a default value: \<open>None\<close> when the caller leaves it out.\<close>

definition orDefault :: "'a \<Rightarrow> 'a option \<Rightarrow> 'a" where
  "orDefault d x = (case x of None \<Rightarrow> d | Some v \<Rightarrow> v)"

record Credentials =
  cr_key :: string
  cr_secret :: string

record PGAppClientOptions =
  po_timeoutMs :: "js_number option"
  po_credentials :: "Credentials option"

text \<open>
  The fields of a \<open>PGAppClient\<close>. The three clients hold the same transport and the client
  itself, so the transport is a field here. \<open>GrpcTransport\<close> is not part of the repository: it
  is the argument \<open>connect\<close>, from a host to a transport.
\<close>

record ('w, 'r, 's) PGAppClient =
  pc_endpoint :: string
  pc_timeoutMs :: "js_number option"
  pc_credentials :: "Credentials option"
  pc_transport :: "('w, 'r, 's) rpc_env"

definition PGAppClient_new ::
  "(string \<Rightarrow> ('w, 'r, 's) rpc_env) \<Rightarrow> string option \<Rightarrow> PGAppClientOptions option \<Rightarrow>
   ('w, 'r, 's) PGAppClient" where
  "PGAppClient_new connect endpoint options =
     (let host = orDefault ''127.0.0.1:50051'' endpoint;
          opts = orDefault \<lparr>po_timeoutMs = None, po_credentials = None\<rparr> options
      in \<lparr>pc_endpoint = host, pc_timeoutMs = po_timeoutMs opts,
          pc_credentials = po_credentials opts, pc_transport = connect host\<rparr>)"

definition rpcOptions :: "('w, 'r, 's) PGAppClient \<Rightarrow> rpc_options" where
  "rpcOptions this =
     \<lparr>ro_meta = (case pc_credentials this of None \<Rightarrow> []
        | Some c \<Rightarrow> [(''x-pgapp-key'', cr_key c), (''x-pgapp-secret'', cr_secret c)]),
      ro_timeout = pc_timeoutMs this\<rparr>"

text \<open>\<open>Uint8Array | string\<close>, and \<open>encodeBytes\<close>.\<close>

datatype byte_source = Uint8Array bytes | Text string

definition encodeBytes :: "byte_source \<Rightarrow> bytes" where
  "encodeBytes x = (case x of Text t \<Rightarrow> utf8 t | Uint8Array b \<Rightarrow> b)"


section \<open>What a failing call throws\<close>

text \<open>Everything the clients throw is a \<open>PGAppError\<close>, except for a thrown \<open>null\<close> or \<open>undefined\<close>.\<close>

definition is_PGAppError :: "thrown \<Rightarrow> bool" where
  "is_PGAppError e = (case e of Nullish _ \<Rightarrow> False
     | Thrown obj \<Rightarrow> eo_name obj = ''PGAppError'' \<and> eo_isError obj \<and> eo_message obj \<noteq> None)"

definition nullish :: "thrown \<Rightarrow> bool" where
  "nullish e = (case e of Nullish _ \<Rightarrow> True | Thrown _ \<Rightarrow> False)"

lemma throwFrom_cases:
  "is_PGAppError (throwFrom e) \<longleftrightarrow> \<not> nullish e"
  by (cases e) (simp_all add: throwFrom_def PGAppError_from_def is_PGAppError_def nullish_def
      PGAppError_def type_error_def Let_def split: option.splits)

lemma wrap_simps [simp]:
  "wrap (None, s) = (None, s)"
  "wrap (Some (Inl e), s) = (Some (Inl (throwFrom e)), s)"
  "wrap (Some (Inr v), s) = (Some (Inr v), s)"
  by (simp_all add: wrap_def)

lemma wrap_Inr: "fst (wrap r) = Some (Inr v) \<longleftrightarrow> fst r = Some (Inr v)"
  by (cases r; cases "fst r") (auto simp: wrap_def split: sum.splits)

lemma wrap_state [simp]: "snd (wrap r) = snd r"
  by (simp add: wrap_def)

lemma answer_simps [simp]:
  "answer (None, s) f = (None, s)"
  "answer (Some (Inl e), s) f = (Some (Inl e), s)"
  "answer (Some (Inr v), s) f = (Some (f v), s)"
  by (simp_all add: answer_def)

lemma answer_state [simp]: "snd (answer r f) = snd r"
  by (simp add: answer_def)


section \<open>Calls over the link\<close>

text \<open>The outcome of a handler as the caller of the client sees it.\<close>

definition converted :: "'a result \<Rightarrow> 'a result" where
  "converted x = (case x of Inl e \<Rightarrow> Inl (throwFrom e) | Inr v \<Rightarrow> Inr v)"

lemma converted_simps [simp]: "converted (Inl e) = Inl (throwFrom e)" "converted (Inr v) = Inr v"
  by (simp_all add: converted_def)

lemma wrap_answer: "wrap (answer (Some out, s) f) = (Some (converted (bindE out f)), s)"
  by (cases out; cases "bindE out f") (simp_all add: answer_def)

text \<open>What a client method does, in terms of the call it makes.\<close>

lemma wrapped_call:
  assumes "call = (Some out, s)"
  shows "wrap (answer call f) = (Some (converted (bindE out f)), s)"
  using assms wrap_answer by simp

lemma wrapped_errors:
  assumes "fst (wrap (answer call f)) = Some (Inl e)"
  shows "\<exists>e'. e = throwFrom e' \<and> (fst call = Some (Inl e') \<or> (\<exists>x. fst call = Some (Inr x) \<and> f x = Inl e'))"
  using assms
  by (cases call; cases "fst call")
    (auto simp: wrap_def answer_def bindC_def split: sum.splits)

text \<open>The integers a caller can pass to a 64-bit or a 32-bit parameter.\<close>

definition safe_num :: "js_number \<Rightarrow> bool" where
  "safe_num x = (case x of IntNum v \<Rightarrow> safe_int v | OtherNum _ \<Rightarrow> False)"

lemma safe_num_IntNum [simp]: "safe_num (IntNum v) \<longleftrightarrow> safe_int v"
  by (simp add: safe_num_def)

lemma safe_num_literals [simp]:
  "safe_int 0" "safe_int 1" "safe_int (numeral n) \<longleftrightarrow> numeral n \<le> (9007199254740992 :: int)"
  by (simp_all add: safe_int_def)

lemma int64_ok_String [simp]: "safe_num x \<Longrightarrow> int64_ok (js_String x)"
  by (cases x) (auto simp: int64_ok_def safe_num_def safe_int_def)

lemma int32_ok_num [simp]: "int32_ok (IntNum v) \<longleftrightarrow> in_int32 v"
  by (simp add: int32_ok_def)

lemma orDefault_simps [simp]: "orDefault d None = d" "orDefault d (Some v) = v"
  by (simp_all add: orDefault_def)

lemma unknown_ok_Nil: "unknownFields m = [] \<Longrightarrow> unknown_ok payload k m"
  by (simp add: unknown_ok_def)

end
