(* ===== verification/Cache_Client.thy ===== *)
theory Cache_Client
  imports Client_Core
begin

text \<open>
  \<open>CacheClient\<close> of \<open>sdk/typescript/src/index.ts\<close>: every method builds the request message,
  calls the generated client with the options of the \<open>PGAppClient\<close> and reads the answer. The
  lemmas say, for every method, that it runs the service's handler on exactly the request the
  arguments describe and returns the part of the answer the method promises.
\<close>

section \<open>Methods\<close>

definition CacheClient_set ::
  "('w, 'r, 's) PGAppClient \<Rightarrow> string \<Rightarrow> string \<Rightarrow> byte_source \<Rightarrow> js_number option \<Rightarrow> 's \<Rightarrow> bool comp \<times> 's" where
  "CacheClient_set this namespace key value ttlSeconds s = wrap (answer
     (CacheServiceClient_set (pc_transport this)
        (SetCacheRequest_create\<lparr>SetCacheRequest_namespace := namespace,
          SetCacheRequest_key := key,
          SetCacheRequest_value := encodeBytes value,
          SetCacheRequest_ttlSeconds := js_String (orDefault (IntNum 0) ttlSeconds)\<rparr>)
        (rpcOptions this) s)
     (\<lambda>response. Inr (OperationResult_success response)))"

definition CacheClient_get ::
  "('w, 'r, 's) PGAppClient \<Rightarrow> string \<Rightarrow> string \<Rightarrow> 's \<Rightarrow> bytes option comp \<times> 's" where
  "CacheClient_get this namespace key s = wrap (answer
     (CacheServiceClient_get (pc_transport this)
        (GetCacheRequest_create\<lparr>GetCacheRequest_namespace := namespace,
          GetCacheRequest_key := key\<rparr>)
        (rpcOptions this) s)
     (\<lambda>response. Inr (if GetCacheResponse_hit response then Some (GetCacheResponse_value response) else None)))"

definition CacheClient_mget ::
  "('w, 'r, 's) PGAppClient \<Rightarrow> string \<Rightarrow> string list \<Rightarrow> 's \<Rightarrow> CacheItem list comp \<times> 's" where
  "CacheClient_mget this namespace keys s = wrap (answer
     (CacheServiceClient_mGet (pc_transport this)
        (MGetCacheRequest_create\<lparr>MGetCacheRequest_namespace := namespace,
          MGetCacheRequest_keys := keys\<rparr>)
        (rpcOptions this) s)
     (\<lambda>response. Inr (MGetCacheResponse_items response)))"

definition CacheClient_delete ::
  "('w, 'r, 's) PGAppClient \<Rightarrow> string \<Rightarrow> string \<Rightarrow> 's \<Rightarrow> bool comp \<times> 's" where
  "CacheClient_delete this namespace key s = wrap (answer
     (CacheServiceClient_delete (pc_transport this)
        (DeleteCacheRequest_create\<lparr>DeleteCacheRequest_namespace := namespace,
          DeleteCacheRequest_key := key\<rparr>)
        (rpcOptions this) s)
     (\<lambda>response. Inr (OperationResult_success response)))"

definition CacheClient_exists ::
  "('w, 'r, 's) PGAppClient \<Rightarrow> string \<Rightarrow> string \<Rightarrow> 's \<Rightarrow> bool comp \<times> 's" where
  "CacheClient_exists this namespace key s = wrap (answer
     (CacheServiceClient_exists (pc_transport this)
        (ExistsCacheRequest_create\<lparr>ExistsCacheRequest_namespace := namespace,
          ExistsCacheRequest_key := key\<rparr>)
        (rpcOptions this) s)
     (\<lambda>response. Inr (ExistsCacheResponse_exists response)))"

definition CacheClient_invalidateNamespace ::
  "('w, 'r, 's) PGAppClient \<Rightarrow> string \<Rightarrow> 's \<Rightarrow> bool comp \<times> 's" where
  "CacheClient_invalidateNamespace this namespace s = wrap (answer
     (CacheServiceClient_invalidateNamespace (pc_transport this)
        (InvalidateNamespaceRequest_create\<lparr>InvalidateNamespaceRequest_namespace := namespace\<rparr>)
        (rpcOptions this) s)
     (\<lambda>response. Inr (OperationResult_success response)))"

definition CacheClient_stats ::
  "('w, 'r, 's) PGAppClient \<Rightarrow> 's \<Rightarrow> CacheStatsResponse comp \<times> 's" where
  "CacheClient_stats this s = wrap (answer
     (CacheServiceClient_stats (pc_transport this)
        (CacheStatsRequest_create)
        (rpcOptions this) s)
     (\<lambda>response. Inr (response)))"

definition CacheClient_increment ::
  "('w, 'r, 's) PGAppClient \<Rightarrow> string \<Rightarrow> string \<Rightarrow> js_number option \<Rightarrow> js_number option \<Rightarrow> 's \<Rightarrow> js_number comp \<times> 's" where
  "CacheClient_increment this namespace key delta ttlSeconds s = wrap (answer
     (CacheServiceClient_increment (pc_transport this)
        (IncrementRequest_create\<lparr>IncrementRequest_namespace := namespace,
          IncrementRequest_key := key,
          IncrementRequest_delta := js_String (orDefault (IntNum 1) delta),
          IncrementRequest_ttlSeconds := js_String (orDefault (IntNum 0) ttlSeconds)\<rparr>)
        (rpcOptions this) s)
     (\<lambda>response. Inr (js_Number (IncrementResponse_value response))))"

definition CacheClient_decrement ::
  "('w, 'r, 's) PGAppClient \<Rightarrow> string \<Rightarrow> string \<Rightarrow> js_number option \<Rightarrow> js_number option \<Rightarrow> 's \<Rightarrow> js_number comp \<times> 's" where
  "CacheClient_decrement this namespace key delta ttlSeconds s = wrap (answer
     (CacheServiceClient_decrement (pc_transport this)
        (DecrementRequest_create\<lparr>DecrementRequest_namespace := namespace,
          DecrementRequest_key := key,
          DecrementRequest_delta := js_String (orDefault (IntNum 1) delta),
          DecrementRequest_ttlSeconds := js_String (orDefault (IntNum 0) ttlSeconds)\<rparr>)
        (rpcOptions this) s)
     (\<lambda>response. Inr (js_Number (DecrementResponse_value response))))"

definition CacheClient_setNX ::
  "('w, 'r, 's) PGAppClient \<Rightarrow> string \<Rightarrow> string \<Rightarrow> byte_source \<Rightarrow> js_number option \<Rightarrow> 's \<Rightarrow> bool comp \<times> 's" where
  "CacheClient_setNX this namespace key value ttlSeconds s = wrap (answer
     (CacheServiceClient_setNX (pc_transport this)
        (SetNXRequest_create\<lparr>SetNXRequest_namespace := namespace,
          SetNXRequest_key := key,
          SetNXRequest_value := encodeBytes value,
          SetNXRequest_ttlSeconds := js_String (orDefault (IntNum 0) ttlSeconds)\<rparr>)
        (rpcOptions this) s)
     (\<lambda>response. Inr (SetNXResponse_created response)))"

definition CacheClient_getSet ::
  "('w, 'r, 's) PGAppClient \<Rightarrow> string \<Rightarrow> string \<Rightarrow> byte_source \<Rightarrow> js_number option \<Rightarrow> 's \<Rightarrow> bytes option comp \<times> 's" where
  "CacheClient_getSet this namespace key value ttlSeconds s = wrap (answer
     (CacheServiceClient_getSet (pc_transport this)
        (GetSetRequest_create\<lparr>GetSetRequest_namespace := namespace,
          GetSetRequest_key := key,
          GetSetRequest_value := encodeBytes value,
          GetSetRequest_ttlSeconds := js_String (orDefault (IntNum 0) ttlSeconds)\<rparr>)
        (rpcOptions this) s)
     (\<lambda>response. Inr (if GetSetResponse_hit response then Some (GetSetResponse_oldValue response) else None)))"

definition CacheClient_append ::
  "('w, 'r, 's) PGAppClient \<Rightarrow> string \<Rightarrow> string \<Rightarrow> byte_source \<Rightarrow> js_number option \<Rightarrow> 's \<Rightarrow> js_number comp \<times> 's" where
  "CacheClient_append this namespace key value ttlSeconds s = wrap (answer
     (CacheServiceClient_append (pc_transport this)
        (AppendRequest_create\<lparr>AppendRequest_namespace := namespace,
          AppendRequest_key := key,
          AppendRequest_value := encodeBytes value,
          AppendRequest_ttlSeconds := js_String (orDefault (IntNum 0) ttlSeconds)\<rparr>)
        (rpcOptions this) s)
     (\<lambda>response. Inr (js_Number (AppendResponse_length response))))"

definition CacheClient_prepend ::
  "('w, 'r, 's) PGAppClient \<Rightarrow> string \<Rightarrow> string \<Rightarrow> byte_source \<Rightarrow> js_number option \<Rightarrow> 's \<Rightarrow> js_number comp \<times> 's" where
  "CacheClient_prepend this namespace key value ttlSeconds s = wrap (answer
     (CacheServiceClient_prepend (pc_transport this)
        (PrependRequest_create\<lparr>PrependRequest_namespace := namespace,
          PrependRequest_key := key,
          PrependRequest_value := encodeBytes value,
          PrependRequest_ttlSeconds := js_String (orDefault (IntNum 0) ttlSeconds)\<rparr>)
        (rpcOptions this) s)
     (\<lambda>response. Inr (js_Number (PrependResponse_length response))))"


section \<open>Every method runs its handler\<close>

lemma CacheClient_set_call:
  fixes this :: "('w, 'r, 's) PGAppClient"
  assumes link: "rpc_link (pc_transport this) E st rest skippable"
    and handler: "serves_CacheService_Set (pc_transport this) h"
    and "safe_num (orDefault (IntNum 0) ttlSeconds)"
  shows "let opt = env_mergeOptions (pc_transport this) (rpcOptions this);
        req = SetCacheRequest_create\<lparr>SetCacheRequest_namespace := namespace,
            SetCacheRequest_key := key,
            SetCacheRequest_value := encodeBytes content,
            SetCacheRequest_ttlSeconds := js_String (orDefault (IntNum 0) ttlSeconds)\<rparr>; out = h opt req s
      in length (SetCacheRequest_encode E req) < 2147483648 \<longrightarrow>
         deliverable (OperationResult_ok skippable) (OperationResult_encode E) (fst out) \<longrightarrow>
         CacheClient_set this namespace key content ttlSeconds s =
           (Some (converted (bindE (fst out) (\<lambda>response. Inr (OperationResult_success response)))), snd out)"
  unfolding CacheClient_set_def Let_def
  by (intro impI wrapped_call rpc_link.CacheServiceClient_set_call [OF link handler])
    (use assms in \<open>simp_all add: transmissible_def SetCacheRequest_ok_def SetCacheRequest_create_def unknown_ok_def\<close>)

lemma CacheClient_get_call:
  fixes this :: "('w, 'r, 's) PGAppClient"
  assumes link: "rpc_link (pc_transport this) E st rest skippable"
    and handler: "serves_CacheService_Get (pc_transport this) h"
  shows "let opt = env_mergeOptions (pc_transport this) (rpcOptions this);
        req = GetCacheRequest_create\<lparr>GetCacheRequest_namespace := namespace,
            GetCacheRequest_key := key\<rparr>; out = h opt req s
      in length (GetCacheRequest_encode E req) < 2147483648 \<longrightarrow>
         deliverable (GetCacheResponse_ok skippable) (GetCacheResponse_encode E) (fst out) \<longrightarrow>
         CacheClient_get this namespace key s =
           (Some (converted (bindE (fst out) (\<lambda>response. Inr (if GetCacheResponse_hit response then Some (GetCacheResponse_value response) else None)))), snd out)"
  unfolding CacheClient_get_def Let_def
  by (intro impI wrapped_call rpc_link.CacheServiceClient_get_call [OF link handler])
    (use assms in \<open>simp_all add: transmissible_def GetCacheRequest_ok_def GetCacheRequest_create_def unknown_ok_def\<close>)

lemma CacheClient_mget_call:
  fixes this :: "('w, 'r, 's) PGAppClient"
  assumes link: "rpc_link (pc_transport this) E st rest skippable"
    and handler: "serves_CacheService_MGet (pc_transport this) h"
  shows "let opt = env_mergeOptions (pc_transport this) (rpcOptions this);
        req = MGetCacheRequest_create\<lparr>MGetCacheRequest_namespace := namespace,
            MGetCacheRequest_keys := keys\<rparr>; out = h opt req s
      in length (MGetCacheRequest_encode E req) < 2147483648 \<longrightarrow>
         deliverable (MGetCacheResponse_ok skippable) (MGetCacheResponse_encode E) (fst out) \<longrightarrow>
         CacheClient_mget this namespace keys s =
           (Some (converted (bindE (fst out) (\<lambda>response. Inr (MGetCacheResponse_items response)))), snd out)"
  unfolding CacheClient_mget_def Let_def
  by (intro impI wrapped_call rpc_link.CacheServiceClient_mGet_call [OF link handler])
    (use assms in \<open>simp_all add: transmissible_def MGetCacheRequest_ok_def MGetCacheRequest_create_def unknown_ok_def\<close>)

lemma CacheClient_delete_call:
  fixes this :: "('w, 'r, 's) PGAppClient"
  assumes link: "rpc_link (pc_transport this) E st rest skippable"
    and handler: "serves_CacheService_Delete (pc_transport this) h"
  shows "let opt = env_mergeOptions (pc_transport this) (rpcOptions this);
        req = DeleteCacheRequest_create\<lparr>DeleteCacheRequest_namespace := namespace,
            DeleteCacheRequest_key := key\<rparr>; out = h opt req s
      in length (DeleteCacheRequest_encode E req) < 2147483648 \<longrightarrow>
         deliverable (OperationResult_ok skippable) (OperationResult_encode E) (fst out) \<longrightarrow>
         CacheClient_delete this namespace key s =
           (Some (converted (bindE (fst out) (\<lambda>response. Inr (OperationResult_success response)))), snd out)"
  unfolding CacheClient_delete_def Let_def
  by (intro impI wrapped_call rpc_link.CacheServiceClient_delete_call [OF link handler])
    (use assms in \<open>simp_all add: transmissible_def DeleteCacheRequest_ok_def DeleteCacheRequest_create_def unknown_ok_def\<close>)

lemma CacheClient_exists_call:
  fixes this :: "('w, 'r, 's) PGAppClient"
  assumes link: "rpc_link (pc_transport this) E st rest skippable"
    and handler: "serves_CacheService_Exists (pc_transport this) h"
  shows "let opt = env_mergeOptions (pc_transport this) (rpcOptions this);
        req = ExistsCacheRequest_create\<lparr>ExistsCacheRequest_namespace := namespace,
            ExistsCacheRequest_key := key\<rparr>; out = h opt req s
      in length (ExistsCacheRequest_encode E req) < 2147483648 \<longrightarrow>
         deliverable (ExistsCacheResponse_ok skippable) (ExistsCacheResponse_encode E) (fst out) \<longrightarrow>
         CacheClient_exists this namespace key s =
           (Some (converted (bindE (fst out) (\<lambda>response. Inr (ExistsCacheResponse_exists response)))), snd out)"
  unfolding CacheClient_exists_def Let_def
  by (intro impI wrapped_call rpc_link.CacheServiceClient_exists_call [OF link handler])
    (use assms in \<open>simp_all add: transmissible_def ExistsCacheRequest_ok_def ExistsCacheRequest_create_def unknown_ok_def\<close>)

lemma CacheClient_invalidateNamespace_call:
  fixes this :: "('w, 'r, 's) PGAppClient"
  assumes link: "rpc_link (pc_transport this) E st rest skippable"
    and handler: "serves_CacheService_InvalidateNamespace (pc_transport this) h"
  shows "let opt = env_mergeOptions (pc_transport this) (rpcOptions this);
        req = InvalidateNamespaceRequest_create\<lparr>InvalidateNamespaceRequest_namespace := namespace\<rparr>; out = h opt req s
      in length (InvalidateNamespaceRequest_encode E req) < 2147483648 \<longrightarrow>
         deliverable (OperationResult_ok skippable) (OperationResult_encode E) (fst out) \<longrightarrow>
         CacheClient_invalidateNamespace this namespace s =
           (Some (converted (bindE (fst out) (\<lambda>response. Inr (OperationResult_success response)))), snd out)"
  unfolding CacheClient_invalidateNamespace_def Let_def
  by (intro impI wrapped_call rpc_link.CacheServiceClient_invalidateNamespace_call [OF link handler])
    (use assms in \<open>simp_all add: transmissible_def InvalidateNamespaceRequest_ok_def InvalidateNamespaceRequest_create_def unknown_ok_def\<close>)

lemma CacheClient_stats_call:
  fixes this :: "('w, 'r, 's) PGAppClient"
  assumes link: "rpc_link (pc_transport this) E st rest skippable"
    and handler: "serves_CacheService_Stats (pc_transport this) h"
  shows "let opt = env_mergeOptions (pc_transport this) (rpcOptions this);
        req = CacheStatsRequest_create; out = h opt req s
      in length (CacheStatsRequest_encode E req) < 2147483648 \<longrightarrow>
         deliverable (CacheStatsResponse_ok skippable) (CacheStatsResponse_encode E) (fst out) \<longrightarrow>
         CacheClient_stats this s =
           (Some (converted (bindE (fst out) (\<lambda>response. Inr (response)))), snd out)"
  unfolding CacheClient_stats_def Let_def
  by (intro impI wrapped_call rpc_link.CacheServiceClient_stats_call [OF link handler])
    (use assms in \<open>simp_all add: transmissible_def CacheStatsRequest_ok_def CacheStatsRequest_create_def unknown_ok_def\<close>)

lemma CacheClient_increment_call:
  fixes this :: "('w, 'r, 's) PGAppClient"
  assumes link: "rpc_link (pc_transport this) E st rest skippable"
    and handler: "serves_CacheService_Increment (pc_transport this) h"
    and "safe_num (orDefault (IntNum 1) delta)"
    and "safe_num (orDefault (IntNum 0) ttlSeconds)"
  shows "let opt = env_mergeOptions (pc_transport this) (rpcOptions this);
        req = IncrementRequest_create\<lparr>IncrementRequest_namespace := namespace,
            IncrementRequest_key := key,
            IncrementRequest_delta := js_String (orDefault (IntNum 1) delta),
            IncrementRequest_ttlSeconds := js_String (orDefault (IntNum 0) ttlSeconds)\<rparr>; out = h opt req s
      in length (IncrementRequest_encode E req) < 2147483648 \<longrightarrow>
         deliverable (IncrementResponse_ok skippable) (IncrementResponse_encode E) (fst out) \<longrightarrow>
         CacheClient_increment this namespace key delta ttlSeconds s =
           (Some (converted (bindE (fst out) (\<lambda>response. Inr (js_Number (IncrementResponse_value response))))), snd out)"
  unfolding CacheClient_increment_def Let_def
  by (intro impI wrapped_call rpc_link.CacheServiceClient_increment_call [OF link handler])
    (use assms in \<open>simp_all add: transmissible_def IncrementRequest_ok_def IncrementRequest_create_def unknown_ok_def\<close>)

lemma CacheClient_decrement_call:
  fixes this :: "('w, 'r, 's) PGAppClient"
  assumes link: "rpc_link (pc_transport this) E st rest skippable"
    and handler: "serves_CacheService_Decrement (pc_transport this) h"
    and "safe_num (orDefault (IntNum 1) delta)"
    and "safe_num (orDefault (IntNum 0) ttlSeconds)"
  shows "let opt = env_mergeOptions (pc_transport this) (rpcOptions this);
        req = DecrementRequest_create\<lparr>DecrementRequest_namespace := namespace,
            DecrementRequest_key := key,
            DecrementRequest_delta := js_String (orDefault (IntNum 1) delta),
            DecrementRequest_ttlSeconds := js_String (orDefault (IntNum 0) ttlSeconds)\<rparr>; out = h opt req s
      in length (DecrementRequest_encode E req) < 2147483648 \<longrightarrow>
         deliverable (DecrementResponse_ok skippable) (DecrementResponse_encode E) (fst out) \<longrightarrow>
         CacheClient_decrement this namespace key delta ttlSeconds s =
           (Some (converted (bindE (fst out) (\<lambda>response. Inr (js_Number (DecrementResponse_value response))))), snd out)"
  unfolding CacheClient_decrement_def Let_def
  by (intro impI wrapped_call rpc_link.CacheServiceClient_decrement_call [OF link handler])
    (use assms in \<open>simp_all add: transmissible_def DecrementRequest_ok_def DecrementRequest_create_def unknown_ok_def\<close>)

lemma CacheClient_setNX_call:
  fixes this :: "('w, 'r, 's) PGAppClient"
  assumes link: "rpc_link (pc_transport this) E st rest skippable"
    and handler: "serves_CacheService_SetNX (pc_transport this) h"
    and "safe_num (orDefault (IntNum 0) ttlSeconds)"
  shows "let opt = env_mergeOptions (pc_transport this) (rpcOptions this);
        req = SetNXRequest_create\<lparr>SetNXRequest_namespace := namespace,
            SetNXRequest_key := key,
            SetNXRequest_value := encodeBytes content,
            SetNXRequest_ttlSeconds := js_String (orDefault (IntNum 0) ttlSeconds)\<rparr>; out = h opt req s
      in length (SetNXRequest_encode E req) < 2147483648 \<longrightarrow>
         deliverable (SetNXResponse_ok skippable) (SetNXResponse_encode E) (fst out) \<longrightarrow>
         CacheClient_setNX this namespace key content ttlSeconds s =
           (Some (converted (bindE (fst out) (\<lambda>response. Inr (SetNXResponse_created response)))), snd out)"
  unfolding CacheClient_setNX_def Let_def
  by (intro impI wrapped_call rpc_link.CacheServiceClient_setNX_call [OF link handler])
    (use assms in \<open>simp_all add: transmissible_def SetNXRequest_ok_def SetNXRequest_create_def unknown_ok_def\<close>)

lemma CacheClient_getSet_call:
  fixes this :: "('w, 'r, 's) PGAppClient"
  assumes link: "rpc_link (pc_transport this) E st rest skippable"
    and handler: "serves_CacheService_GetSet (pc_transport this) h"
    and "safe_num (orDefault (IntNum 0) ttlSeconds)"
  shows "let opt = env_mergeOptions (pc_transport this) (rpcOptions this);
        req = GetSetRequest_create\<lparr>GetSetRequest_namespace := namespace,
            GetSetRequest_key := key,
            GetSetRequest_value := encodeBytes content,
            GetSetRequest_ttlSeconds := js_String (orDefault (IntNum 0) ttlSeconds)\<rparr>; out = h opt req s
      in length (GetSetRequest_encode E req) < 2147483648 \<longrightarrow>
         deliverable (GetSetResponse_ok skippable) (GetSetResponse_encode E) (fst out) \<longrightarrow>
         CacheClient_getSet this namespace key content ttlSeconds s =
           (Some (converted (bindE (fst out) (\<lambda>response. Inr (if GetSetResponse_hit response then Some (GetSetResponse_oldValue response) else None)))), snd out)"
  unfolding CacheClient_getSet_def Let_def
  by (intro impI wrapped_call rpc_link.CacheServiceClient_getSet_call [OF link handler])
    (use assms in \<open>simp_all add: transmissible_def GetSetRequest_ok_def GetSetRequest_create_def unknown_ok_def\<close>)

lemma CacheClient_append_call:
  fixes this :: "('w, 'r, 's) PGAppClient"
  assumes link: "rpc_link (pc_transport this) E st rest skippable"
    and handler: "serves_CacheService_Append (pc_transport this) h"
    and "safe_num (orDefault (IntNum 0) ttlSeconds)"
  shows "let opt = env_mergeOptions (pc_transport this) (rpcOptions this);
        req = AppendRequest_create\<lparr>AppendRequest_namespace := namespace,
            AppendRequest_key := key,
            AppendRequest_value := encodeBytes content,
            AppendRequest_ttlSeconds := js_String (orDefault (IntNum 0) ttlSeconds)\<rparr>; out = h opt req s
      in length (AppendRequest_encode E req) < 2147483648 \<longrightarrow>
         deliverable (AppendResponse_ok skippable) (AppendResponse_encode E) (fst out) \<longrightarrow>
         CacheClient_append this namespace key content ttlSeconds s =
           (Some (converted (bindE (fst out) (\<lambda>response. Inr (js_Number (AppendResponse_length response))))), snd out)"
  unfolding CacheClient_append_def Let_def
  by (intro impI wrapped_call rpc_link.CacheServiceClient_append_call [OF link handler])
    (use assms in \<open>simp_all add: transmissible_def AppendRequest_ok_def AppendRequest_create_def unknown_ok_def\<close>)

lemma CacheClient_prepend_call:
  fixes this :: "('w, 'r, 's) PGAppClient"
  assumes link: "rpc_link (pc_transport this) E st rest skippable"
    and handler: "serves_CacheService_Prepend (pc_transport this) h"
    and "safe_num (orDefault (IntNum 0) ttlSeconds)"
  shows "let opt = env_mergeOptions (pc_transport this) (rpcOptions this);
        req = PrependRequest_create\<lparr>PrependRequest_namespace := namespace,
            PrependRequest_key := key,
            PrependRequest_value := encodeBytes content,
            PrependRequest_ttlSeconds := js_String (orDefault (IntNum 0) ttlSeconds)\<rparr>; out = h opt req s
      in length (PrependRequest_encode E req) < 2147483648 \<longrightarrow>
         deliverable (PrependResponse_ok skippable) (PrependResponse_encode E) (fst out) \<longrightarrow>
         CacheClient_prepend this namespace key content ttlSeconds s =
           (Some (converted (bindE (fst out) (\<lambda>response. Inr (js_Number (PrependResponse_length response))))), snd out)"
  unfolding CacheClient_prepend_def Let_def
  by (intro impI wrapped_call rpc_link.CacheServiceClient_prepend_call [OF link handler])
    (use assms in \<open>simp_all add: transmissible_def PrependRequest_ok_def PrependRequest_create_def unknown_ok_def\<close>)

end
