(* ===== verification/Json.thy ===== *)
theory Json
  imports Prelude
begin

text \<open>
  \<open>JsonValue\<close> of \<open>sdk/typescript/src/index.ts\<close> and the two functions of the language the
  sources apply to it, \<open>JSON.stringify\<close> and \<open>JSON.parse\<close>. An object is the list of its own
  properties in the order of their enumeration. A string escape above \<open>\\u00ff\<close> names a
  character outside the model and is refused. The parser has a fuel argument; the lemmas show that \<open>JSON_parse\<close> gives it enough,
  and that parsing the text of a value gives the value back.
\<close>


section \<open>Values\<close>

datatype json = JNull | JBool bool | JNum js_number | JStr string
  | JArr "json list" | JObj "(string \<times> json) list"


section \<open>Printing\<close>

definition hex_digit :: "int \<Rightarrow> char" where
  "hex_digit d = (if d < 10 then digit d else char_of (87 + d))"

text \<open>One character of a JSON string: the short escapes, \<open>\\u00xx\<close> below 32, itself otherwise.\<close>

definition escape :: "char \<Rightarrow> string" where
  "escape c = (let n = of_char c :: int in
     if n = 34 then [CHR 0x5C, CHR 0x22] else if n = 92 then [CHR 0x5C, CHR 0x5C]
     else if n = 8 then [CHR 0x5C, CHR ''b''] else if n = 12 then [CHR 0x5C, CHR ''f'']
     else if n = 10 then [CHR 0x5C, CHR ''n''] else if n = 13 then [CHR 0x5C, CHR ''r'']
     else if n = 9 then [CHR 0x5C, CHR ''t'']
     else if n < 32 then [CHR 0x5C, CHR ''u'', CHR ''0'', CHR ''0'', hex_digit (n div 16), hex_digit (n mod 16)]
     else [c])"

definition quote :: "string \<Rightarrow> string" where
  "quote s = CHR 0x22 # concat (map escape s) @ [CHR 0x22]"

definition num_text :: "js_number \<Rightarrow> string" where
  "num_text x = (if x \<in> {OtherNum ''NaN'', OtherNum ''Infinity'', OtherNum ''-Infinity''}
     then ''null'' else js_String x)"

fun stringify :: "json \<Rightarrow> string"
  and elems_text :: "json list \<Rightarrow> string"
  and members_text :: "(string \<times> json) list \<Rightarrow> string" where
  "stringify JNull = ''null''"
| "stringify (JBool b) = (if b then ''true'' else ''false'')"
| "stringify (JNum x) = num_text x"
| "stringify (JStr s) = quote s"
| "stringify (JArr xs) = CHR ''['' # elems_text xs @ '']''"
| "stringify (JObj ps) = CHR ''{'' # members_text ps @ ''}''"
| "elems_text [] = []"
| "elems_text [x] = stringify x"
| "elems_text (x # y # ys) = stringify x @ '','' @ elems_text (y # ys)"
| "members_text [] = []"
| "members_text [(k, v)] = quote k @ '':'' @ stringify v"
| "members_text ((k, v) # q # qs) = quote k @ '':'' @ stringify v @ '','' @ members_text (q # qs)"


text \<open>\<open>JSON.stringify(v, null, 2)\<close>: the same with line breaks and an indentation of two spaces.\<close>

definition newline :: "nat \<Rightarrow> string" where
  "newline k = CHR 0x0A # replicate k (CHR 0x20)"

fun pretty :: "nat \<Rightarrow> json \<Rightarrow> string"
  and pretty_elems :: "nat \<Rightarrow> json list \<Rightarrow> string"
  and pretty_members :: "nat \<Rightarrow> (string \<times> json) list \<Rightarrow> string" where
  "pretty k (JArr xs) = (if xs = [] then ''[]''
     else ''['' @ newline (k + 2) @ pretty_elems (k + 2) xs @ newline k @ '']'')"
| "pretty k (JObj ps) = (if ps = [] then ''{}''
     else ''{'' @ newline (k + 2) @ pretty_members (k + 2) ps @ newline k @ ''}'')"
| "pretty k JNull = stringify JNull"
| "pretty k (JBool b) = stringify (JBool b)"
| "pretty k (JNum x) = stringify (JNum x)"
| "pretty k (JStr s) = stringify (JStr s)"
| "pretty_elems k [] = []"
| "pretty_elems k [x] = pretty k x"
| "pretty_elems k (x # y # ys) = pretty k x @ '','' @ newline k @ pretty_elems k (y # ys)"
| "pretty_members k [] = []"
| "pretty_members k [(key, v)] = quote key @ '': '' @ pretty k v"
| "pretty_members k ((key, v) # q # qs) =
     quote key @ '': '' @ pretty k v @ '','' @ newline k @ pretty_members k (q # qs)"


section \<open>Parsing\<close>

definition is_ws :: "char \<Rightarrow> bool" where
  "is_ws c \<longleftrightarrow> c \<in> {CHR 0x20, CHR 0x09, CHR 0x0A, CHR 0x0D}"

definition skip_ws :: "string \<Rightarrow> string" where
  "skip_ws s = dropWhile is_ws s"

definition hex_val :: "char \<Rightarrow> int option" where
  "hex_val c = (let n = of_char c :: int in if 48 \<le> n \<and> n < 58 then Some (n - 48)
     else if 97 \<le> n \<and> n < 103 then Some (n - 87) else if 65 \<le> n \<and> n < 71 then Some (n - 55) else None)"

text \<open>The character after a backslash.\<close>

definition unescape :: "char \<Rightarrow> char option" where
  "unescape c = (if c \<in> {CHR 0x22, CHR 0x5C, CHR ''/''} then Some c
     else if c = CHR ''b'' then Some (CHR 0x08) else if c = CHR ''f'' then Some (CHR 0x0C)
     else if c = CHR ''n'' then Some (CHR 0x0A) else if c = CHR ''r'' then Some (CHR 0x0D)
     else if c = CHR ''t'' then Some (CHR 0x09) else None)"

definition unescape_u :: "char \<Rightarrow> char \<Rightarrow> char \<Rightarrow> char \<Rightarrow> char option" where
  "unescape_u a b c d = (case (hex_val a, hex_val b, hex_val c, hex_val d) of
       (Some w, Some x, Some y, Some z) \<Rightarrow>
          if w = 0 \<and> x = 0 then Some (char_of (16 * y + z)) else None
     | _ \<Rightarrow> None)"

text \<open>
  One step through a string literal: its closing quote, or the next character with escapes
  resolved.
\<close>

definition parse_escape :: "string \<Rightarrow> (char option \<times> string) option" where
  "parse_escape s = (case s of [] \<Rightarrow> None
     | e # es \<Rightarrow> if e = CHR ''u'' then
          (case es of w # x # y # z # r \<Rightarrow> map_option (\<lambda>u. (Some u, r)) (unescape_u w x y z)
           | _ \<Rightarrow> None)
        else map_option (\<lambda>u. (Some u, es)) (unescape e))"

definition parse_char :: "string \<Rightarrow> (char option \<times> string) option" where
  "parse_char s = (case s of [] \<Rightarrow> None
     | c # cs \<Rightarrow> if c = CHR 0x22 then Some (None, cs)
        else if c = CHR 0x5C then parse_escape cs
        else if (of_char c :: int) < 32 then None else Some (Some c, cs))"

lemma parse_escape_length: "parse_escape s = Some (x, r) \<Longrightarrow> length r < length s"
  by (auto simp: parse_escape_def split: list.splits if_splits)

lemma parse_char_length: "parse_char s = Some (x, r) \<Longrightarrow> length r < length s"
  by (fastforce simp: parse_char_def split: list.splits if_splits dest: parse_escape_length)

text \<open>The rest of a string literal, after the opening quote.\<close>

function parse_chars :: "string \<Rightarrow> (string \<times> string) option" where
  "parse_chars s = (case parse_char s of None \<Rightarrow> None
     | Some (None, r) \<Rightarrow> Some ([], r)
     | Some (Some c, r) \<Rightarrow> map_option (\<lambda>(t, r'). (c # t, r')) (parse_chars r))"
  by pat_completeness auto
termination
  by (relation "measure length") (auto dest: parse_char_length)

declare parse_chars.simps [simp del]

text \<open>
  A number literal: the longest run of number characters, which has to match the grammar
  \<open>-? (0 | [1-9][0-9]*) (. [0-9]+)? ([eE] [+-]? [0-9]+)?\<close>.
\<close>

definition is_frac_char :: "char \<Rightarrow> bool" where
  "is_frac_char c \<longleftrightarrow> is_digit c \<or> c \<in> set ''.-+eE''"

definition exp_ok :: "string \<Rightarrow> bool" where
  "exp_ok s = (case s of [] \<Rightarrow> True
     | c # cs \<Rightarrow> c \<in> set ''eE'' \<and>
         (let ds = (case cs of [] \<Rightarrow> [] | d # ds \<Rightarrow> if d \<in> set ''+-'' then ds else cs)
          in ds \<noteq> [] \<and> list_all is_digit ds))"

definition frac_ok :: "string \<Rightarrow> bool" where
  "frac_ok s = (case s of [] \<Rightarrow> True
     | c # cs \<Rightarrow> if c = CHR ''.''
         then takeWhile is_digit cs \<noteq> [] \<and> exp_ok (dropWhile is_digit cs) else exp_ok s)"

definition num_ok :: "string \<Rightarrow> bool" where
  "num_ok s = (let u = (case s of [] \<Rightarrow> [] | c # cs \<Rightarrow> if c = CHR ''-'' then cs else s);
                   ds = takeWhile is_digit u
     in ds \<noteq> [] \<and> (hd ds = CHR ''0'' \<longrightarrow> length ds = 1) \<and> frac_ok (dropWhile is_digit u))"

definition parse_num :: "string \<Rightarrow> (json \<times> string) option" where
  "parse_num s = (let t = takeWhile is_frac_char s
     in if num_ok t then Some (JNum (js_Number t), dropWhile is_frac_char s) else None)"

text \<open>
  Own properties are enumerated with the array indices first, in ascending order, then the
  other keys in the order of their insertion. A later duplicate key replaces the value and
  keeps the place of the first.
\<close>

definition array_index :: "string \<Rightarrow> int option" where
  "array_index k = (if dec_in (\<lambda>v. 0 \<le> v \<and> v < 4294967295) k then undec k else None)"

definition key_before :: "string \<Rightarrow> string \<Rightarrow> bool" where
  "key_before a b = (case array_index a of None \<Rightarrow> False
     | Some i \<Rightarrow> (case array_index b of None \<Rightarrow> True | Some j \<Rightarrow> i < j))"

fun put :: "string \<Rightarrow> json \<Rightarrow> (string \<times> json) list \<Rightarrow> (string \<times> json) list" where
  "put k v [] = [(k, v)]"
| "put k v ((k', v') # ps) = (if k = k' then (k, v) # ps
     else if key_before k k' then (k, v) # (k', v') # ps else (k', v') # put k v ps)"

definition keyword :: "string \<Rightarrow> json \<Rightarrow> string \<Rightarrow> (json \<times> string) option" where
  "keyword w v s = (if take (length w) s = w then Some (v, drop (length w) s) else None)"

definition starts :: "char \<Rightarrow> string \<Rightarrow> bool" where
  "starts c s \<longleftrightarrow> s \<noteq> [] \<and> hd s = c"

fun parse_value :: "nat \<Rightarrow> string \<Rightarrow> (json \<times> string) option"
  and parse_elems :: "nat \<Rightarrow> string \<Rightarrow> (json list \<times> string) option"
  and parse_members :: "nat \<Rightarrow> (string \<times> json) list \<Rightarrow> string \<Rightarrow> ((string \<times> json) list \<times> string) option"
where
  "parse_value 0 s = None"
| "parse_value (Suc n) s = (case skip_ws s of [] \<Rightarrow> None
     | c # cs \<Rightarrow>
        if c = CHR 0x22 then map_option (\<lambda>(t, r). (JStr t, r)) (parse_chars cs)
        else if c = CHR ''['' then
          (if starts (CHR '']'') (skip_ws cs) then Some (JArr [], tl (skip_ws cs))
           else map_option (\<lambda>(xs, r). (JArr xs, r)) (parse_elems n cs))
        else if c = CHR ''{'' then
          (if starts (CHR ''}'') (skip_ws cs) then Some (JObj [], tl (skip_ws cs))
           else map_option (\<lambda>(ps, r). (JObj ps, r)) (parse_members n [] cs))
        else if c = CHR ''t'' then keyword ''true'' (JBool True) (c # cs)
        else if c = CHR ''f'' then keyword ''false'' (JBool False) (c # cs)
        else if c = CHR ''n'' then keyword ''null'' JNull (c # cs)
        else parse_num (c # cs))"
| "parse_elems 0 s = None"
| "parse_elems (Suc n) s = (case parse_value n s of None \<Rightarrow> None
     | Some (v, r) \<Rightarrow> (case skip_ws r of [] \<Rightarrow> None
         | d # ds \<Rightarrow> if d = CHR '','' then map_option (\<lambda>(xs, r'). (v # xs, r')) (parse_elems n ds)
                    else if d = CHR '']'' then Some ([v], ds) else None))"
| "parse_members 0 acc s = None"
| "parse_members (Suc n) acc s = (case skip_ws s of [] \<Rightarrow> None
     | c # cs \<Rightarrow> if c \<noteq> CHR 0x22 then None
        else (case parse_chars cs of None \<Rightarrow> None
          | Some (k, r) \<Rightarrow> (case skip_ws r of [] \<Rightarrow> None
              | d # ds \<Rightarrow> if d \<noteq> CHR '':'' then None
                 else (case parse_value n ds of None \<Rightarrow> None
                   | Some (v, r') \<Rightarrow> (case skip_ws r' of [] \<Rightarrow> None
                       | e # es \<Rightarrow> if e = CHR '','' then parse_members n (put k v acc) es
                                  else if e = CHR ''}'' then Some (put k v acc, es) else None)))))"

text \<open>\<open>JSON.parse(s)\<close>: the whole text is one value, or a \<open>SyntaxError\<close> is thrown.\<close>

definition syntax_error :: thrown where
  "syntax_error = Thrown \<lparr>eo_name = ''SyntaxError'', eo_isError = True,
     eo_message = Some ''Unexpected token in JSON'', eo_code = None,
     eo_string = ''SyntaxError: Unexpected token in JSON''\<rparr>"

definition JSON_parse :: "string \<Rightarrow> json result" where
  "JSON_parse s = (case parse_value (2 * length s + 2) s of None \<Rightarrow> Inl syntax_error
     | Some (v, r) \<Rightarrow> if skip_ws r = [] then Inr v else Inl syntax_error)"



section \<open>The fuel is enough\<close>

lemma skip_ws_length: "length (skip_ws s) \<le> length s"
  by (simp add: skip_ws_def length_dropWhile_le)

lemma skip_ws_Cons: "skip_ws s = c # cs \<Longrightarrow> length cs < length s"
  using skip_ws_length [of s] by simp

lemma parse_chars_length: "parse_chars s = Some (t, r) \<Longrightarrow> length r < length s"
proof (induction s arbitrary: t r rule: parse_chars.induct)
  case (1 s)
  from "1.prems" obtain x r1 where x: "parse_char s = Some (x, r1)"
    by (subst (asm) parse_chars.simps) (auto split: option.splits)
  with "1.prems" "1.IH" [OF x refl] parse_char_length [OF x] show ?case
    by (auto simp: parse_chars.simps [of s] split: option.splits intro: less_trans)
qed

lemma parse_num_length: "parse_num s = Some (v, r) \<Longrightarrow> length r < length s"
proof -
  assume a: "parse_num s = Some (v, r)"
  let ?t = "takeWhile is_frac_char s"
  from a have "num_ok ?t" "r = dropWhile is_frac_char s"
    by (auto simp: parse_num_def Let_def split: if_splits)
  moreover from this(1) have "?t \<noteq> []" by (auto simp: num_ok_def)
  ultimately show ?thesis
    by (metis append_self_conv2 length_append length_greater_0_conv less_add_same_cancel2 takeWhile_dropWhile_id)
qed

lemma keyword_length: "keyword w v s = Some (x, r) \<Longrightarrow> w \<noteq> [] \<Longrightarrow> length r < length s"
  by (cases "s = []") (auto simp: keyword_def split: if_splits)

lemmas shorter_dests = skip_ws_Cons parse_chars_length parse_num_length keyword_length

lemma tl_skip_ws: "starts c (skip_ws s) \<Longrightarrow> length (tl (skip_ws s)) < length s"
  using skip_ws_length [of s] by (cases "skip_ws s") (auto simp: starts_def)

lemma parse_shorter:
  "parse_value n s = Some (v, r) \<Longrightarrow> length r < length s"
  "parse_elems n s = Some (xs, r) \<Longrightarrow> length r < length s"
  "parse_members n acc s = Some (ps, r) \<Longrightarrow> length r < length s"
proof (induction n s and n s and n acc s arbitrary: v r and xs r and ps r
    rule: parse_value_parse_elems_parse_members.induct)
  case (2 n s)
  obtain c cs where s: "skip_ws s = c # cs" using "2.prems" by (auto split: list.splits)
  have "length r < length (c # cs)"
    using "2.prems" "2.IH" [OF s] s
    by (auto split: if_splits dest!: shorter_dests tl_skip_ws intro: less_trans less_SucI)
  with s skip_ws_length [of s] show ?case by simp
next
  case (4 n s)
  from "4.prems" obtain v r1 d ds where r1: "parse_value n s = Some (v, r1)" "skip_ws r1 = d # ds"
    by (auto split: option.splits list.splits)
  from r1(2) have "length ds < length r1" by (rule skip_ws_Cons)
  moreover have "length r1 < length s" using r1(1) by (rule "4.IH"(1))
  moreover have "length r \<le> length ds"
    using "4.prems" r1 "4.IH"(2) [OF r1(1) refl r1(2)] by (auto split: if_splits intro: less_imp_le)
  ultimately show ?case by simp
next
  case (6 n acc s)
  from "6.prems" obtain c cs k r1 d ds v r2 e es where *: "skip_ws s = c # cs"
      "parse_chars cs = Some (k, r1)" "skip_ws r1 = d # ds" "parse_value n ds = Some (v, r2)"
      "skip_ws r2 = e # es" "c = CHR 0x22" "d = CHR '':''"
    by (auto split: option.splits list.splits if_splits)
  have "length r \<le> length es" using "6.prems" "6.IH"(2) [OF *(1) _ *(2) refl *(3) _ *(4) refl *(5)] *
    by (auto split: if_splits intro: less_imp_le)
  moreover have "length r2 < length ds" using * "6.IH"(1) [OF *(1) _ *(2) refl *(3)] by simp
  with * have "length es < length s" by (auto dest!: shorter_dests)
  ultimately show ?case by simp
qed auto

lemma parse_enough:
  "parse_value n s = Some x \<Longrightarrow> 2 * length s + 1 \<le> m \<Longrightarrow> parse_value m s = Some x"
  "parse_elems n s = Some y \<Longrightarrow> 2 * length s + 2 \<le> m \<Longrightarrow> parse_elems m s = Some y"
  "parse_members n acc s = Some z \<Longrightarrow> 2 * length s + 2 \<le> m \<Longrightarrow> parse_members m acc s = Some z"
proof (induction n s and n s and n acc s arbitrary: x m and y m and z m
    rule: parse_value_parse_elems_parse_members.induct)
  case (2 n s)
  obtain c cs where s: "skip_ws s = c # cs" using "2.prems" by (auto split: list.splits)
  obtain k where m: "m = Suc k" using "2.prems" by (cases m) auto
  with "2.prems" skip_ws_Cons [OF s] have "2 * length cs + 2 \<le> k" by simp
  then have k: "2 * length cs + 2 \<le> k" .
  have e: "c = CHR ''['' \<Longrightarrow> \<not> starts (CHR '']'') (skip_ws cs) \<Longrightarrow> parse_elems n cs = Some w \<Longrightarrow>
        parse_elems k cs = Some w"
    and p: "c = CHR ''{'' \<Longrightarrow> \<not> starts (CHR ''}'') (skip_ws cs) \<Longrightarrow> parse_members n [] cs = Some u \<Longrightarrow>
        parse_members k [] cs = Some u" for w u
    by (rule "2.IH"(1) [OF s _ _ _ _ k] "2.IH"(2) [OF s _ _ _ _ _ k]; simp)+
  show ?case
  proof (cases "c = CHR ''['' \<or> c = CHR ''{''")
    case True
    with "2.prems"(1) s m e p show ?thesis by (auto split: if_splits)
  qed (use "2.prems"(1) s m in \<open>auto split: if_splits\<close>)
next
  case (4 n s)
  from "4.prems" obtain v r1 d ds where r1: "parse_value n s = Some (v, r1)" "skip_ws r1 = d # ds"
    by (auto split: option.splits list.splits)
  obtain k where m: "m = Suc k" using "4.prems" by (cases m) auto
  with "4.prems" have v: "parse_value k s = Some (v, r1)" using "4.IH"(1) [OF r1(1)] by simp
  have "2 * length ds + 2 \<le> k"
    using "4.prems"(2) m skip_ws_Cons [OF r1(2)] parse_shorter(1) [OF r1(1)] by simp
  then have ds: "d = CHR '','' \<Longrightarrow> parse_elems n ds = Some w \<Longrightarrow> parse_elems k ds = Some w" for w
    using "4.IH"(2) [OF r1(1) refl r1(2)] by blast
  show ?case
  proof (cases "d = CHR '',''")
    case True
    with "4.prems" r1 obtain w where w: "parse_elems n ds = Some w" by auto
    with ds [OF True w] "4.prems" True r1 m v show ?thesis by simp
  qed (use "4.prems" r1 m v in simp)
next
  case (6 n acc s)
  from "6.prems" obtain c cs k r1 d ds v r2 e es where *: "skip_ws s = c # cs"
      "parse_chars cs = Some (k, r1)" "skip_ws r1 = d # ds" "parse_value n ds = Some (v, r2)"
      "skip_ws r2 = e # es" "c = CHR 0x22" "d = CHR '':''"
    by (auto split: option.splits list.splits if_splits)
  obtain l where m: "m = Suc l" using "6.prems" by (cases m) auto
  have ds: "length ds + 2 \<le> length s" using * by (auto dest!: shorter_dests)
  then have v: "parse_value l ds = Some (v, r2)"
    using "6.prems"(2) m "6.IH"(1) [OF *(1) _ *(2) refl *(3) _ *(4)] * by simp
  have "2 * length es + 2 \<le> l"
    using "6.prems"(2) m ds skip_ws_Cons [OF *(5)] parse_shorter(1) [OF *(4)] by simp
  then have es: "e = CHR '','' \<Longrightarrow> parse_members n (put k v acc) es = Some w \<Longrightarrow>
      parse_members l (put k v acc) es = Some w" for w
    using "6.IH"(2) [OF *(1) _ *(2) refl *(3) _ *(4) refl *(5)] * by blast
  show ?case
  proof (cases "e = CHR '',''")
    case True
    with "6.prems" * have w: "parse_members n (put k v acc) es = Some z" by simp
    with es [OF True w] True * m v show ?thesis by simp
  qed (use "6.prems" * m v in simp)
qed auto

lemma JSON_parse_any_fuel:
  assumes "parse_value n s = Some (v, r)"
  shows "JSON_parse s = (if skip_ws r = [] then Inr v else Inl syntax_error)"
  using parse_enough(1) [OF assms, of "2 * length s + 2"] by (simp add: JSON_parse_def)


section \<open>Round trip\<close>

lemma hex_val_digit: "0 \<le> d \<Longrightarrow> d < 16 \<Longrightarrow> hex_val (hex_digit d) = Some d"
  by (auto simp: hex_val_def hex_digit_def digit_def Let_def)

lemma char_of_of_char_int: "char_of (of_char c :: int) = c"
  by simp

lemma of_char_int_range: "0 \<le> (of_char c :: int)" "(of_char c :: int) < 256"
proof -
  have "(of_char c :: int) mod 256 = of_char c" by simp
  then show "0 \<le> (of_char c :: int)" "(of_char c :: int) < 256"
    using pos_mod_bound [of 256 "of_char c :: int"] pos_mod_sign [of 256 "of_char c :: int"] by simp_all
qed

lemma special_char:
    "(of_char c :: int) = 34 \<longleftrightarrow> c = CHR 0x22" "(of_char c :: int) = 92 \<longleftrightarrow> c = CHR 0x5C"
    "(of_char c :: int) = 8 \<longleftrightarrow> c = CHR 0x08" "(of_char c :: int) = 12 \<longleftrightarrow> c = CHR 0x0C"
    "(of_char c :: int) = 10 \<longleftrightarrow> c = CHR 0x0A" "(of_char c :: int) = 13 \<longleftrightarrow> c = CHR 0x0D"
    "(of_char c :: int) = 9 \<longleftrightarrow> c = CHR 0x09"
  using of_char_eq_iff [where ?'a = int and c = c and d = "CHR 0x22"]
    of_char_eq_iff [where ?'a = int and c = c and d = "CHR 0x5C"]
    of_char_eq_iff [where ?'a = int and c = c and d = "CHR 0x08"]
    of_char_eq_iff [where ?'a = int and c = c and d = "CHR 0x0C"]
    of_char_eq_iff [where ?'a = int and c = c and d = "CHR 0x0A"]
    of_char_eq_iff [where ?'a = int and c = c and d = "CHR 0x0D"]
    of_char_eq_iff [where ?'a = int and c = c and d = "CHR 0x09"]
  by (simp_all del: of_char_eq_iff)

lemma parse_char_escape: "parse_char (escape c @ u) = Some (Some c, u)"
proof -
  define n where "n = (of_char c :: int)"
  have c: "c = char_of n" by (simp add: n_def)
  have n: "0 \<le> n" "n < 256" using of_char_int_range [of c] by (simp_all add: n_def)
  consider "n \<in> {34, 92, 8, 12, 10, 13, 9}" | "n \<notin> {34, 92, 8, 12, 10, 13, 9}" "n < 32"
    | "n \<notin> {34, 92, 8, 12, 10, 13, 9}" "32 \<le> n" by linarith
  then show ?thesis
  proof cases
    case 1
    then have "c \<in> {CHR 0x22, CHR 0x5C, CHR 0x08, CHR 0x0C, CHR 0x0A, CHR 0x0D, CHR 0x09}"
      by (auto simp: n_def special_char)
    then show ?thesis
      by (auto simp: escape_def parse_char_def parse_escape_def unescape_def Let_def)
  next
    case 2
    let ?h = "hex_digit (n div 16)" and ?l = "hex_digit (n mod 16)"
    have "n div 16 < 16" "0 \<le> n div 16" using n by auto
    then have "unescape_u (CHR ''0'') (CHR ''0'') ?h ?l = Some (char_of (16 * (n div 16) + n mod 16))"
      by (simp add: unescape_u_def hex_val_digit hex_val_def [of "CHR ''0''"] del: mult_div_mod_eq)
    then have "unescape_u (CHR ''0'') (CHR ''0'') ?h ?l = Some c" by (simp add: c)
    moreover have "escape c = [CHR 0x5C, CHR ''u'', CHR ''0'', CHR ''0'', ?h, ?l]"
      using 2 by (simp add: escape_def Let_def n_def [symmetric])
    ultimately show ?thesis by (simp add: parse_char_def parse_escape_def)
  next
    case 3
    then have "c \<noteq> CHR 0x22" "c \<noteq> CHR 0x5C" by (auto simp: n_def)
    with 3 show ?thesis by (simp add: escape_def parse_char_def Let_def n_def)
  qed
qed

lemma parse_chars_quote: "parse_chars (concat (map escape s) @ CHR 0x22 # t) = Some (s, t)"
proof (induction s)
  case Nil
  then show ?case by (simp add: parse_chars.simps [of "CHR 0x22 # t"] parse_char_def)
next
  case (Cons c s)
  then show ?case
    by (simp add: parse_chars.simps [of "escape c @ _"] parse_char_escape)
qed

text \<open>
  Numbers that survive: safe integers, and fractions in the form of a literal. The values
  that survive are built from them, every object with its keys in enumeration order.
\<close>

definition own_keys :: "string list \<Rightarrow> bool" where
  "own_keys ks = sorted_wrt (\<lambda>a b. a \<noteq> b \<and> \<not> key_before b a) ks"

definition num_json :: "js_number \<Rightarrow> bool" where
  "num_json x = (case x of IntNum v \<Rightarrow> safe_int v
     | OtherNum t \<Rightarrow> num_ok t \<and> list_all is_frac_char t \<and> js_Number t = OtherNum t)"

fun json_ok :: "json \<Rightarrow> bool"
  and elems_ok :: "json list \<Rightarrow> bool"
  and members_ok :: "(string \<times> json) list \<Rightarrow> bool" where
  "json_ok (JNum x) = num_json x"
| "json_ok (JArr xs) = elems_ok xs"
| "json_ok (JObj ps) = (own_keys (map fst ps) \<and> members_ok ps)"
| "json_ok _ = True"
| "elems_ok [] = True"
| "elems_ok (x # xs) = (json_ok x \<and> elems_ok xs)"
| "members_ok [] = True"
| "members_ok ((k, v) # ps) = (json_ok v \<and> members_ok ps)"

text \<open>What may follow a value: anything that cannot continue a number.\<close>

definition delim :: "string \<Rightarrow> bool" where
  "delim t \<longleftrightarrow> t = [] \<or> \<not> is_frac_char (hd t)"

lemma is_digit_digit [simp]: "0 \<le> d \<Longrightarrow> d < 10 \<Longrightarrow> is_digit (digit d)"
  by (simp add: is_digit_def)

lemma digit_frac: "is_digit c \<Longrightarrow> is_frac_char c"
  by (auto simp: is_digit_def is_frac_char_def)

lemma dec_pos_digits: "0 \<le> n \<Longrightarrow> list_all is_digit (dec_pos n)"
proof (induction n rule: dec_pos.induct)
  case (1 n)
  then show ?case by (cases "n < 10") (auto simp: dec_pos.simps [of n])
qed

lemma digit_0: "0 \<le> d \<Longrightarrow> d < 10 \<Longrightarrow> digit d = CHR ''0'' \<Longrightarrow> d = 0"
  using digit_val_digit [of d] by (auto simp: digit_val_def)

lemma dec_pos_lead: "0 \<le> n \<Longrightarrow> hd (dec_pos n) = CHR ''0'' \<Longrightarrow> length (dec_pos n) = 1"
proof -
  have "0 < n \<Longrightarrow> hd (dec_pos n) \<noteq> CHR ''0''"
  proof (induction n rule: dec_pos.induct)
    case (1 n)
    then show ?case
      using digit_0 [of n] by (cases "n < 10") (auto simp: dec_pos.simps [of n] hd_append)
  qed
  moreover have "length (dec_pos 0) = 1" by (simp add: dec_pos.simps)
  ultimately show "0 \<le> n \<Longrightarrow> hd (dec_pos n) = CHR ''0'' \<Longrightarrow> ?thesis" by (cases "n = 0") auto
qed

lemma takeWhile_all: "list_all P xs \<Longrightarrow> takeWhile P xs = xs \<and> dropWhile P xs = []"
  by (auto simp: list_all_iff takeWhile_eq_all_conv dropWhile_eq_Nil_conv)

lemma num_ok_dec: "num_ok (dec v)"
proof -
  have "num_ok (dec_pos n)" "num_ok (CHR ''-'' # dec_pos n)" if n: "0 \<le> n" for n
  proof -
    obtain c cs where c: "dec_pos n = c # cs" by (cases "dec_pos n") auto
    with hd_dec_pos_minus [OF n] have "c \<noteq> CHR ''-''" by simp
    with c dec_pos_lead [OF n] takeWhile_all [OF dec_pos_digits [OF n]]
    show "num_ok (dec_pos n)" "num_ok (CHR ''-'' # dec_pos n)"
      by (auto simp: num_ok_def frac_ok_def)
  qed
  then show ?thesis by (simp add: dec_def)
qed

lemma dec_frac: "list_all is_frac_char (dec v)"
proof -
  have "list_all is_frac_char (dec_pos n)" if "0 \<le> n" for n
    using dec_pos_digits [OF that] by (auto simp: list_all_iff intro: digit_frac)
  then show ?thesis by (auto simp: dec_def is_frac_char_def [of "CHR ''-''"])
qed

text \<open>The text of a number is a literal that reads back.\<close>

lemma num_text_ok:
  assumes "num_json x"
  shows "num_ok (num_text x) \<and> list_all is_frac_char (num_text x) \<and> js_Number (num_text x) = x"
proof (cases x)
  case (IntNum v)
  with assms have "num_text x = dec v" "safe_int v" by (simp_all add: num_json_def num_text_def)
  with IntNum show ?thesis by (simp add: num_ok_dec dec_frac js_Number_safe)
next
  case (OtherNum t)
  with assms have t: "num_ok t" "js_Number t = OtherNum t" "list_all is_frac_char t"
    by (simp_all add: num_json_def)
  from t(1) have "t \<noteq> ''NaN'' \<and> t \<noteq> ''Infinity'' \<and> t \<noteq> ''-Infinity'' \<and> t \<noteq> []"
    by (auto simp: num_ok_def is_digit_def digit_val_def)
  with OtherNum t show ?thesis by (simp add: num_text_def js_String_def)
qed

lemma parse_num_text:
  assumes "num_json x" "delim t"
  shows "parse_num (num_text x @ t) = Some (JNum x, t)"
proof -
  have "takeWhile is_frac_char (num_text x @ t) = num_text x"
    "dropWhile is_frac_char (num_text x @ t) = t"
    using num_text_ok [OF assms(1)] assms(2)
    by (auto simp: takeWhile_append dropWhile_append list_all_iff delim_def takeWhile_eq_Nil_iff
        dropWhile_eq_self_iff takeWhile_all)
  with num_text_ok [OF assms(1)] show ?thesis by (simp add: parse_num_def)
qed

text \<open>The first character of a value decides how it is parsed.\<close>

definition num_start :: "char \<Rightarrow> bool" where
  "num_start c \<longleftrightarrow> c = CHR ''-'' \<or> is_digit c"

lemma num_start_special: "num_start c \<Longrightarrow> \<not> is_ws c \<and> c \<notin> set ''[]{}tfn'' \<and> c \<noteq> CHR 0x22"
  by (auto simp: num_start_def is_digit_def digit_val_def is_ws_def)

lemma num_text_start:
  assumes "num_json x"
  obtains c cs where "num_text x = c # cs" "num_start c"
proof -
  have "num_ok s \<Longrightarrow> s \<noteq> [] \<and> num_start (hd s)" for s
    by (cases s) (auto simp: num_ok_def num_start_def Let_def split: if_splits)
  then have "num_text x \<noteq> [] \<and> num_start (hd (num_text x))" using num_text_ok [OF assms] by blast
  with that show ?thesis by (cases "num_text x") auto
qed

lemma parse_value_num:
  assumes "num_json x" "delim t"
  shows "parse_value (Suc n) (num_text x @ t) = Some (JNum x, t)"
proof -
  obtain c cs where c: "num_text x = c # cs" "num_start c" using num_text_start [OF assms(1)] .
  from num_start_special [OF c(2)] c(1) have "skip_ws (num_text x @ t) = c # cs @ t"
    by (simp add: skip_ws_def)
  with num_start_special [OF c(2)] parse_num_text [OF assms] c(1) show ?thesis by auto
qed

lemma stringify_start:
  assumes "json_ok v"
  obtains c cs where "stringify v = c # cs" "\<not> is_ws c" "c \<noteq> CHR '']''" "c \<noteq> CHR ''}''"
proof (cases v)
  case (JNum x)
  with assms obtain c cs where "stringify v = c # cs" "num_start c"
    by (auto elim: num_text_start)
  with that num_start_special show ?thesis by auto
next
  case (JBool b)
  with that show ?thesis by (cases b) (auto simp: is_ws_def)
qed (use that in \<open>auto simp: quote_def is_ws_def\<close>)

lemma delim_simps [simp]: "delim (CHR '','' # t)" "delim (CHR '']'' # t)" "delim (CHR ''}'' # t)"
  "delim []"
  by (simp_all add: delim_def is_frac_char_def is_digit_def digit_val_def)

lemma skip_ws_simps [simp]: "\<not> is_ws c \<Longrightarrow> skip_ws (c # t) = c # t"
  by (simp add: skip_ws_def)

lemma not_ws [simp]: "\<not> is_ws (CHR '','')" "\<not> is_ws (CHR '']'')" "\<not> is_ws (CHR ''}'')"
  "\<not> is_ws (CHR '':'')" "\<not> is_ws (CHR 0x22)" "\<not> is_ws (CHR ''['')" "\<not> is_ws (CHR ''{'')"
  "\<not> is_ws (CHR ''t'')" "\<not> is_ws (CHR ''f'')" "\<not> is_ws (CHR ''n'')"
  by (simp_all add: is_ws_def)

lemma put_new: "\<forall>a \<in> fst ` set ps. a \<noteq> k \<and> \<not> key_before k a \<Longrightarrow> put k v ps = ps @ [(k, v)]"
  by (induction ps) auto

lemma parse_stringify:
  "json_ok v \<Longrightarrow> delim t \<Longrightarrow> 2 * length (stringify v @ t) + 1 \<le> n \<Longrightarrow>
     parse_value n (stringify v @ t) = Some (v, t)"
  "xs \<noteq> [] \<Longrightarrow> elems_ok xs \<Longrightarrow> 2 * length (elems_text xs @ CHR '']'' # t) + 2 \<le> n \<Longrightarrow>
     parse_elems n (elems_text xs @ CHR '']'' # t) = Some (xs, t)"
  "ps \<noteq> [] \<Longrightarrow> members_ok ps \<Longrightarrow> own_keys (map fst (acc @ ps)) \<Longrightarrow>
     2 * length (members_text ps @ CHR ''}'' # t) + 2 \<le> n \<Longrightarrow>
     parse_members n acc (members_text ps @ CHR ''}'' # t) = Some (acc @ ps, t)"
proof (induction v and xs and ps arbitrary: t n and t n and acc t n
    rule: stringify_elems_text_members_text.induct)
  case 1
  then show ?case by (cases n) (simp_all add: keyword_def)
next
  case (2 b)
  then show ?case by (cases n; cases b) (simp_all add: keyword_def)
next
  case (3 x)
  then show ?case using parse_value_num [of x t "n - 1"] by simp
next
  case (4 s)
  then show ?case by (cases n) (simp_all add: quote_def parse_chars_quote)
next
  case (5 xs)
  obtain k where k: "n = Suc k" using 5 by (cases n) auto
  show ?case
  proof (cases xs)
    case Nil
    with k show ?thesis by (simp add: starts_def)
  next
    case (Cons y ys)
    then obtain c cs where "elems_text xs = c # cs" "\<not> is_ws c" "c \<noteq> CHR '']''"
      using 5 by (cases ys) (auto elim!: stringify_start)
    then have "\<not> starts (CHR '']'') (skip_ws (elems_text xs @ CHR '']'' # t))"
      by (simp add: starts_def)
    moreover have "parse_elems k (elems_text xs @ CHR '']'' # t) = Some (xs, t)"
      using 5 k Cons by simp
    ultimately show ?thesis using k by simp
  qed
next
  case (6 ps)
  obtain k where k: "n = Suc k" using 6 by (cases n) auto
  show ?case
  proof (cases ps)
    case Nil
    with k show ?thesis by (simp add: starts_def)
  next
    case (Cons q qs)
    then obtain cs where "members_text ps = CHR 0x22 # cs"
      by (cases q; cases qs) (auto simp: quote_def)
    then have "\<not> starts (CHR ''}'') (skip_ws (members_text ps @ CHR ''}'' # t))"
      by (simp add: starts_def)
    moreover have "parse_members k [] (members_text ps @ CHR ''}'' # t) = Some ([] @ ps, t)"
      using 6 k Cons by simp
    ultimately show ?thesis using k by simp
  qed
next
  case (8 x)
  then show ?case by (cases n) simp_all
next
  case (9 x y ys)
  then show ?case by (cases n) simp_all
next
  case (11 k v)
  then show ?case by (cases n) (simp_all add: quote_def parse_chars_quote put_new own_keys_def sorted_wrt_append)
next
  case (12 k v q qs)
  then obtain l where l: "n = Suc l" by (cases n) auto
  have "parse_members l (acc @ [(k, v)]) (members_text (q # qs) @ CHR ''}'' # t) =
      Some ((acc @ [(k, v)]) @ q # qs, t)"
    by (rule "12.IH"(2)) (use "12.prems" l in auto)
  with 12 l show ?case by (simp add: quote_def parse_chars_quote put_new own_keys_def sorted_wrt_append)
qed auto

lemma JSON_parse_stringify: "json_ok v \<Longrightarrow> JSON_parse (stringify v) = Inr v"
  using parse_stringify(1) [of v "[]" "2 * length (stringify v) + 2"]
  by (simp add: JSON_parse_def skip_ws_def)

text \<open>The indented text reads back as well: white space before a value is skipped.\<close>

lemma skip_newline [simp]: "skip_ws (newline k @ s) = skip_ws s" "skip_ws (CHR 0x20 # s) = skip_ws s"
proof -
  have "skip_ws (replicate k (CHR 0x20) @ s) = skip_ws s"
    by (induction k) (simp_all add: skip_ws_def is_ws_def)
  then show "skip_ws (newline k @ s) = skip_ws s" by (simp add: newline_def skip_ws_def is_ws_def)
  show "skip_ws (CHR 0x20 # s) = skip_ws s" by (simp add: skip_ws_def is_ws_def)
qed

lemma parse_value_ws [simp]:
  "parse_value n (newline k @ s) = parse_value n s" "parse_value n (CHR 0x20 # s) = parse_value n s"
  by (cases n; simp)+

lemma parse_elems_ws [simp]: "parse_elems n (newline k @ s) = parse_elems n s"
  by (cases n) simp_all

lemma parse_members_ws [simp]: "parse_members n acc (newline k @ s) = parse_members n acc s"
  by (cases n) simp_all

lemma delim_newline [simp]: "delim (newline k @ s)"
  by (simp add: newline_def delim_def is_frac_char_def is_digit_def digit_val_def)

lemma pretty_start:
  assumes "json_ok v"
  shows "\<exists>c cs. pretty k v = c # cs \<and> \<not> is_ws c \<and> c \<noteq> CHR '']''"
proof -
  have "\<exists>c cs. stringify v = c # cs \<and> \<not> is_ws c \<and> c \<noteq> CHR '']''"
    using stringify_start [OF assms] by metis
  then show ?thesis
  proof (cases v)
    case (JArr xs)
    then show ?thesis by (cases "xs = []") (auto simp: is_ws_def)
  next
    case (JObj ps)
    then show ?thesis by (cases "ps = []") (auto simp: is_ws_def)
  qed simp_all
qed

lemma pretty_elems_start:
  assumes "xs \<noteq> []" "elems_ok xs"
  shows "\<exists>c cs. pretty_elems k xs = c # cs \<and> \<not> is_ws c \<and> c \<noteq> CHR '']''"
proof -
  from assms obtain x ys where xs: "xs = x # ys" "json_ok x" by (cases xs) auto
  with pretty_start [of x k] show ?thesis by (cases ys) auto
qed

lemma parse_pretty:
  "json_ok v \<Longrightarrow> delim t \<Longrightarrow> 2 * length (pretty k v @ t) + 1 \<le> n \<Longrightarrow>
     parse_value n (pretty k v @ t) = Some (v, t)"
  "xs \<noteq> [] \<Longrightarrow> elems_ok xs \<Longrightarrow> 2 * length (pretty_elems k xs @ newline j @ CHR '']'' # t) + 2 \<le> n \<Longrightarrow>
     parse_elems n (pretty_elems k xs @ newline j @ CHR '']'' # t) = Some (xs, t)"
  "ps \<noteq> [] \<Longrightarrow> members_ok ps \<Longrightarrow> own_keys (map fst (acc @ ps)) \<Longrightarrow>
     2 * length (pretty_members k ps @ newline j @ CHR ''}'' # t) + 2 \<le> n \<Longrightarrow>
     parse_members n acc (pretty_members k ps @ newline j @ CHR ''}'' # t) = Some (acc @ ps, t)"
proof (induction k v and k xs and k ps arbitrary: t n and t n j and acc t n j
    rule: pretty_pretty_elems_pretty_members.induct)
  case (1 k xs)
  obtain l where l: "n = Suc l" using 1 by (cases n) auto
  show ?case
  proof (cases xs)
    case Nil
    with l show ?thesis by (simp add: starts_def)
  next
    case (Cons y ys)
    then obtain c cs where "pretty_elems (k + 2) xs = c # cs" "\<not> is_ws c" "c \<noteq> CHR '']''"
      using 1 pretty_elems_start [of xs "k + 2"] by auto
    then have "\<not> starts (CHR '']'') (skip_ws (pretty_elems (k + 2) xs @ newline k @ CHR '']'' # t))"
      by (simp add: starts_def)
    moreover have "parse_elems l (pretty_elems (k + 2) xs @ newline k @ CHR '']'' # t) = Some (xs, t)"
      using 1 l Cons by simp
    ultimately show ?thesis using l Cons by simp
  qed
next
  case (2 k ps)
  obtain l where l: "n = Suc l" using 2 by (cases n) auto
  show ?case
  proof (cases ps)
    case Nil
    with l show ?thesis by (simp add: starts_def)
  next
    case (Cons q qs)
    then obtain cs where "pretty_members (k + 2) ps = CHR 0x22 # cs"
      by (cases q; cases qs) (auto simp: quote_def)
    then have "\<not> starts (CHR ''}'') (skip_ws (pretty_members (k + 2) ps @ newline k @ CHR ''}'' # t))"
      by (simp add: starts_def)
    moreover have "parse_members l [] (pretty_members (k + 2) ps @ newline k @ CHR ''}'' # t) = Some ([] @ ps, t)"
      using 2 l Cons by simp
    ultimately show ?thesis using l Cons by simp
  qed
next
  case (3 k)
  then show ?case unfolding pretty.simps by (rule parse_stringify(1))
next
  case (4 k b)
  then show ?case unfolding pretty.simps by (rule parse_stringify(1))
next
  case (5 k x)
  then show ?case unfolding pretty.simps by (rule parse_stringify(1))
next
  case (6 k s)
  then show ?case unfolding pretty.simps by (rule parse_stringify(1))
next
  case (8 k x)
  then show ?case by (cases n) simp_all
next
  case (9 k x y ys)
  then show ?case by (cases n) simp_all
next
  case (11 k key v)
  then show ?case
    by (cases n) (simp_all add: quote_def parse_chars_quote put_new own_keys_def sorted_wrt_append)
next
  case (12 k key v q qs)
  then obtain l where l: "n = Suc l" by (cases n) auto
  have "parse_members l (acc @ [(key, v)]) (pretty_members k (q # qs) @ newline j @ CHR ''}'' # t) =
      Some ((acc @ [(key, v)]) @ q # qs, t)"
    by (rule "12.IH"(2)) (use "12.prems" l in auto)
  with 12 l show ?case by (simp add: quote_def parse_chars_quote put_new own_keys_def sorted_wrt_append)
qed auto

lemma JSON_parse_pretty: "json_ok v \<Longrightarrow> JSON_parse (pretty 0 v) = Inr v"
  using parse_pretty(1) [of v "[]" 0 "2 * length (pretty 0 v) + 2"]
  by (simp add: JSON_parse_def skip_ws_def)

end
