(* ===== verification/Mq_Client.thy ===== *)
theory Mq_Client
  imports Client_Core Json
begin

text \<open>
  \<open>MQClient\<close> of \<open>sdk/typescript/src/index.ts\<close>: queues, messages with JSON payloads, the
  dead-letter queue and the streaming reader. The lemmas say, for every method, that it runs
  the service's handler on exactly the request the arguments describe, and that the stream
  yields the messages of the responses in order and converts the error it ends with.
\<close>

section \<open>Methods\<close>

definition MQClient_createQueue ::
  "('w, 'r, 's) PGAppClient \<Rightarrow> string \<Rightarrow> js_number option \<Rightarrow> 's \<Rightarrow> bool comp \<times> 's" where
  "MQClient_createQueue this queueName storageMode s = wrap (answer
     (MQServiceClient_createQueue (pc_transport this)
        (CreateQueueRequest_create\<lparr>CreateQueueRequest_queueName := queueName,
          CreateQueueRequest_storageMode := (orDefault (QueueStorageMode_no QueueStorageMode_DURABLE) storageMode)\<rparr>)
        (rpcOptions this) s)
     (\<lambda>response. Inr (OperationResult_success response)))"

definition MQClient_purgeQueue ::
  "('w, 'r, 's) PGAppClient \<Rightarrow> string \<Rightarrow> 's \<Rightarrow> bool comp \<times> 's" where
  "MQClient_purgeQueue this queueName s = wrap (answer
     (MQServiceClient_purgeQueue (pc_transport this)
        (PurgeQueueRequest_create\<lparr>PurgeQueueRequest_queueName := queueName\<rparr>)
        (rpcOptions this) s)
     (\<lambda>response. Inr (OperationResult_success response)))"

definition MQClient_dropQueue ::
  "('w, 'r, 's) PGAppClient \<Rightarrow> string \<Rightarrow> 's \<Rightarrow> bool comp \<times> 's" where
  "MQClient_dropQueue this queueName s = wrap (answer
     (MQServiceClient_dropQueue (pc_transport this)
        (DropQueueRequest_create\<lparr>DropQueueRequest_queueName := queueName\<rparr>)
        (rpcOptions this) s)
     (\<lambda>response. Inr (OperationResult_success response)))"

definition MQClient_sendJson ::
  "('w, 'r, 's) PGAppClient \<Rightarrow> string \<Rightarrow> json \<Rightarrow> js_number option \<Rightarrow> 's \<Rightarrow> js_number comp \<times> 's" where
  "MQClient_sendJson this queueName payload delaySeconds s = wrap (answer
     (MQServiceClient_send (pc_transport this)
        (SendMessageRequest_create\<lparr>SendMessageRequest_queueName := queueName,
          SendMessageRequest_jsonPayload := stringify payload,
          SendMessageRequest_delaySeconds := js_String (orDefault (IntNum 0) delaySeconds)\<rparr>)
        (rpcOptions this) s)
     (\<lambda>response. Inr (js_Number (SendMessageResponse_messageId response))))"

definition MQClient_sendBatchJson ::
  "('w, 'r, 's) PGAppClient \<Rightarrow> string \<Rightarrow> json list \<Rightarrow> js_number option \<Rightarrow> 's \<Rightarrow> js_number list comp \<times> 's" where
  "MQClient_sendBatchJson this queueName payloads delaySeconds s = wrap (answer
     (MQServiceClient_sendBatch (pc_transport this)
        (SendBatchRequest_create\<lparr>SendBatchRequest_queueName := queueName,
          SendBatchRequest_jsonPayloads := map stringify payloads,
          SendBatchRequest_delaySeconds := js_String (orDefault (IntNum 0) delaySeconds)\<rparr>)
        (rpcOptions this) s)
     (\<lambda>response. Inr (map js_Number (SendBatchResponse_messageIds response))))"

definition MQClient_read ::
  "('w, 'r, 's) PGAppClient \<Rightarrow> string \<Rightarrow> js_number option \<Rightarrow> js_number option \<Rightarrow> 's \<Rightarrow> QueueMessage list comp \<times> 's" where
  "MQClient_read this queueName quantity visibilityTimeoutSeconds s = wrap (answer
     (MQServiceClient_read (pc_transport this)
        (ReadMessagesRequest_create\<lparr>ReadMessagesRequest_queueName := queueName,
          ReadMessagesRequest_quantity := (orDefault (IntNum 1) quantity),
          ReadMessagesRequest_visibilityTimeoutSeconds := js_String (orDefault (IntNum 30) visibilityTimeoutSeconds)\<rparr>)
        (rpcOptions this) s)
     (\<lambda>response. Inr (ReadMessagesResponse_messages response)))"

definition MQClient_readWithPoll ::
  "('w, 'r, 's) PGAppClient \<Rightarrow> string \<Rightarrow> js_number option \<Rightarrow> js_number option \<Rightarrow> js_number option \<Rightarrow> js_number option \<Rightarrow> 's \<Rightarrow> QueueMessage list comp \<times> 's" where
  "MQClient_readWithPoll this queueName quantity visibilityTimeoutSeconds maxPollSeconds pollIntervalMillis s = wrap (answer
     (MQServiceClient_readWithPoll (pc_transport this)
        (ReadWithPollRequest_create\<lparr>ReadWithPollRequest_queueName := queueName,
          ReadWithPollRequest_quantity := (orDefault (IntNum 1) quantity),
          ReadWithPollRequest_visibilityTimeoutSeconds := js_String (orDefault (IntNum 30) visibilityTimeoutSeconds),
          ReadWithPollRequest_maxPollSeconds := js_String (orDefault (IntNum 10) maxPollSeconds),
          ReadWithPollRequest_pollIntervalMillis := js_String (orDefault (IntNum 100) pollIntervalMillis)\<rparr>)
        (rpcOptions this) s)
     (\<lambda>response. Inr (ReadMessagesResponse_messages response)))"

definition MQClient_ack ::
  "('w, 'r, 's) PGAppClient \<Rightarrow> string \<Rightarrow> js_number \<Rightarrow> string \<Rightarrow> 's \<Rightarrow> bool comp \<times> 's" where
  "MQClient_ack this queueName messageId ackToken s = wrap (answer
     (MQServiceClient_ack (pc_transport this)
        (AckMessageRequest_create\<lparr>AckMessageRequest_queueName := queueName,
          AckMessageRequest_messageId := js_String messageId,
          AckMessageRequest_ackToken := ackToken\<rparr>)
        (rpcOptions this) s)
     (\<lambda>response. Inr (OperationResult_success response)))"

definition MQClient_archive ::
  "('w, 'r, 's) PGAppClient \<Rightarrow> string \<Rightarrow> js_number \<Rightarrow> string \<Rightarrow> 's \<Rightarrow> bool comp \<times> 's" where
  "MQClient_archive this queueName messageId ackToken s = wrap (answer
     (MQServiceClient_archive (pc_transport this)
        (ArchiveMessageRequest_create\<lparr>ArchiveMessageRequest_queueName := queueName,
          ArchiveMessageRequest_messageId := js_String messageId,
          ArchiveMessageRequest_ackToken := ackToken\<rparr>)
        (rpcOptions this) s)
     (\<lambda>response. Inr (OperationResult_success response)))"

definition MQClient_setVisibilityTimeout ::
  "('w, 'r, 's) PGAppClient \<Rightarrow> string \<Rightarrow> js_number \<Rightarrow> string \<Rightarrow> js_number \<Rightarrow> 's \<Rightarrow> bool comp \<times> 's" where
  "MQClient_setVisibilityTimeout this queueName messageId ackToken visibilityTimeoutSeconds s = wrap (answer
     (MQServiceClient_setVisibilityTimeout (pc_transport this)
        (SetVisibilityTimeoutRequest_create\<lparr>SetVisibilityTimeoutRequest_queueName := queueName,
          SetVisibilityTimeoutRequest_messageId := js_String messageId,
          SetVisibilityTimeoutRequest_ackToken := ackToken,
          SetVisibilityTimeoutRequest_visibilityTimeoutSeconds := js_String visibilityTimeoutSeconds\<rparr>)
        (rpcOptions this) s)
     (\<lambda>response. Inr (OperationResult_success response)))"

definition MQClient_metrics ::
  "('w, 'r, 's) PGAppClient \<Rightarrow> string \<Rightarrow> 's \<Rightarrow> QueueMetricsResponse comp \<times> 's" where
  "MQClient_metrics this queueName s = wrap (answer
     (MQServiceClient_metrics (pc_transport this)
        (QueueMetricsRequest_create\<lparr>QueueMetricsRequest_queueName := queueName\<rparr>)
        (rpcOptions this) s)
     (\<lambda>response. Inr (response)))"

definition MQClient_listDlqMessages ::
  "('w, 'r, 's) PGAppClient \<Rightarrow> string \<Rightarrow> js_number option \<Rightarrow> js_number option \<Rightarrow> 's \<Rightarrow> DlqMessage list comp \<times> 's" where
  "MQClient_listDlqMessages this queueName limit offset s = wrap (answer
     (MQServiceClient_listDlqMessages (pc_transport this)
        (ListDlqMessagesRequest_create\<lparr>ListDlqMessagesRequest_queueName := queueName,
          ListDlqMessagesRequest_limit := (orDefault (IntNum 100) limit),
          ListDlqMessagesRequest_offset := js_String (orDefault (IntNum 0) offset)\<rparr>)
        (rpcOptions this) s)
     (\<lambda>response. Inr (ListDlqMessagesResponse_messages response)))"

definition MQClient_getDlqMessage ::
  "('w, 'r, 's) PGAppClient \<Rightarrow> string \<Rightarrow> js_number \<Rightarrow> 's \<Rightarrow> DlqMessage comp \<times> 's" where
  "MQClient_getDlqMessage this queueName originalMessageId s = wrap (answer
     (MQServiceClient_getDlqMessage (pc_transport this)
        (GetDlqMessageRequest_create\<lparr>GetDlqMessageRequest_queueName := queueName,
          GetDlqMessageRequest_originalMessageId := js_String originalMessageId\<rparr>)
        (rpcOptions this) s)
     (\<lambda>response. Inr (response)))"

definition MQClient_reprocessDlqMessage ::
  "('w, 'r, 's) PGAppClient \<Rightarrow> string \<Rightarrow> js_number \<Rightarrow> 's \<Rightarrow> bool comp \<times> 's" where
  "MQClient_reprocessDlqMessage this queueName originalMessageId s = wrap (answer
     (MQServiceClient_reprocessDlqMessage (pc_transport this)
        (ReprocessDlqMessageRequest_create\<lparr>ReprocessDlqMessageRequest_queueName := queueName,
          ReprocessDlqMessageRequest_originalMessageId := js_String originalMessageId\<rparr>)
        (rpcOptions this) s)
     (\<lambda>response. Inr (OperationResult_success response)))"

definition MQClient_purgeDlq ::
  "('w, 'r, 's) PGAppClient \<Rightarrow> string \<Rightarrow> 's \<Rightarrow> bool comp \<times> 's" where
  "MQClient_purgeDlq this queueName s = wrap (answer
     (MQServiceClient_purgeDlq (pc_transport this)
        (PurgeDlqRequest_create\<lparr>PurgeDlqRequest_queueName := queueName\<rparr>)
        (rpcOptions this) s)
     (\<lambda>response. Inr (OperationResult_success response)))"

text \<open>
  \<open>streamRead\<close> as a consumer that runs it to its end sees it: the messages it yields, in order,
  and the error it throws after them, if any.
\<close>

record StreamReadOptions =
  so_quantity :: "js_number option"
  so_visibilityTimeoutSeconds :: "js_number option"

definition yieldMessages ::
  "(ReadMessagesResponse list \<times> thrown option) option \<times> 's \<Rightarrow>
   (QueueMessage list \<times> thrown option) option \<times> 's" where
  "yieldMessages responses =
     (map_option (\<lambda>(rs, e). (concat (map ReadMessagesResponse_messages rs), map_option throwFrom e))
        (fst responses), snd responses)"

definition MQClient_streamRead ::
  "('w, 'r, 's) PGAppClient \<Rightarrow> string \<Rightarrow> StreamReadOptions option \<Rightarrow> 's \<Rightarrow>
   (QueueMessage list \<times> thrown option) option \<times> 's" where
  "MQClient_streamRead this queueName options s =
     (let opts = orDefault \<lparr>so_quantity = None, so_visibilityTimeoutSeconds = None\<rparr> options
      in yieldMessages (MQServiceClient_streamRead (pc_transport this)
           (StreamReadRequest_create\<lparr>StreamReadRequest_queueName := queueName,
              StreamReadRequest_quantity := orDefault (IntNum 1) (so_quantity opts),
              StreamReadRequest_visibilityTimeoutSeconds :=
                js_String (orDefault (IntNum 30) (so_visibilityTimeoutSeconds opts))\<rparr>)
           (rpcOptions this) s))"


section \<open>Every method runs its handler\<close>

lemma MQClient_createQueue_call:
  fixes this :: "('w, 'r, 's) PGAppClient"
  assumes link: "rpc_link (pc_transport this) E st rest skippable"
    and handler: "serves_MQService_CreateQueue (pc_transport this) h"
    and "int32_ok (orDefault (QueueStorageMode_no QueueStorageMode_DURABLE) storageMode)"
  shows "let opt = env_mergeOptions (pc_transport this) (rpcOptions this);
        req = CreateQueueRequest_create\<lparr>CreateQueueRequest_queueName := queueName,
            CreateQueueRequest_storageMode := (orDefault (QueueStorageMode_no QueueStorageMode_DURABLE) storageMode)\<rparr>; out = h opt req s
      in length (CreateQueueRequest_encode E req) < 2147483648 \<longrightarrow>
         deliverable (OperationResult_ok skippable) (OperationResult_encode E) (fst out) \<longrightarrow>
         MQClient_createQueue this queueName storageMode s =
           (Some (converted (bindE (fst out) (\<lambda>response. Inr (OperationResult_success response)))), snd out)"
  unfolding MQClient_createQueue_def Let_def
  by (intro impI wrapped_call rpc_link.MQServiceClient_createQueue_call [OF link handler])
    (use assms in \<open>simp_all add: transmissible_def CreateQueueRequest_ok_def CreateQueueRequest_create_def unknown_ok_def\<close>)

lemma MQClient_purgeQueue_call:
  fixes this :: "('w, 'r, 's) PGAppClient"
  assumes link: "rpc_link (pc_transport this) E st rest skippable"
    and handler: "serves_MQService_PurgeQueue (pc_transport this) h"
  shows "let opt = env_mergeOptions (pc_transport this) (rpcOptions this);
        req = PurgeQueueRequest_create\<lparr>PurgeQueueRequest_queueName := queueName\<rparr>; out = h opt req s
      in length (PurgeQueueRequest_encode E req) < 2147483648 \<longrightarrow>
         deliverable (OperationResult_ok skippable) (OperationResult_encode E) (fst out) \<longrightarrow>
         MQClient_purgeQueue this queueName s =
           (Some (converted (bindE (fst out) (\<lambda>response. Inr (OperationResult_success response)))), snd out)"
  unfolding MQClient_purgeQueue_def Let_def
  by (intro impI wrapped_call rpc_link.MQServiceClient_purgeQueue_call [OF link handler])
    (use assms in \<open>simp_all add: transmissible_def PurgeQueueRequest_ok_def PurgeQueueRequest_create_def unknown_ok_def\<close>)

lemma MQClient_dropQueue_call:
  fixes this :: "('w, 'r, 's) PGAppClient"
  assumes link: "rpc_link (pc_transport this) E st rest skippable"
    and handler: "serves_MQService_DropQueue (pc_transport this) h"
  shows "let opt = env_mergeOptions (pc_transport this) (rpcOptions this);
        req = DropQueueRequest_create\<lparr>DropQueueRequest_queueName := queueName\<rparr>; out = h opt req s
      in length (DropQueueRequest_encode E req) < 2147483648 \<longrightarrow>
         deliverable (OperationResult_ok skippable) (OperationResult_encode E) (fst out) \<longrightarrow>
         MQClient_dropQueue this queueName s =
           (Some (converted (bindE (fst out) (\<lambda>response. Inr (OperationResult_success response)))), snd out)"
  unfolding MQClient_dropQueue_def Let_def
  by (intro impI wrapped_call rpc_link.MQServiceClient_dropQueue_call [OF link handler])
    (use assms in \<open>simp_all add: transmissible_def DropQueueRequest_ok_def DropQueueRequest_create_def unknown_ok_def\<close>)

lemma MQClient_sendJson_call:
  fixes this :: "('w, 'r, 's) PGAppClient"
  assumes link: "rpc_link (pc_transport this) E st rest skippable"
    and handler: "serves_MQService_Send (pc_transport this) h"
    and "safe_num (orDefault (IntNum 0) delaySeconds)"
  shows "let opt = env_mergeOptions (pc_transport this) (rpcOptions this);
        req = SendMessageRequest_create\<lparr>SendMessageRequest_queueName := queueName,
            SendMessageRequest_jsonPayload := stringify payload,
            SendMessageRequest_delaySeconds := js_String (orDefault (IntNum 0) delaySeconds)\<rparr>; out = h opt req s
      in length (SendMessageRequest_encode E req) < 2147483648 \<longrightarrow>
         deliverable (SendMessageResponse_ok skippable) (SendMessageResponse_encode E) (fst out) \<longrightarrow>
         MQClient_sendJson this queueName payload delaySeconds s =
           (Some (converted (bindE (fst out) (\<lambda>response. Inr (js_Number (SendMessageResponse_messageId response))))), snd out)"
  unfolding MQClient_sendJson_def Let_def
  by (intro impI wrapped_call rpc_link.MQServiceClient_send_call [OF link handler])
    (use assms in \<open>simp_all add: transmissible_def SendMessageRequest_ok_def SendMessageRequest_create_def unknown_ok_def\<close>)

lemma MQClient_sendBatchJson_call:
  fixes this :: "('w, 'r, 's) PGAppClient"
  assumes link: "rpc_link (pc_transport this) E st rest skippable"
    and handler: "serves_MQService_SendBatch (pc_transport this) h"
    and "safe_num (orDefault (IntNum 0) delaySeconds)"
  shows "let opt = env_mergeOptions (pc_transport this) (rpcOptions this);
        req = SendBatchRequest_create\<lparr>SendBatchRequest_queueName := queueName,
            SendBatchRequest_jsonPayloads := map stringify payloads,
            SendBatchRequest_delaySeconds := js_String (orDefault (IntNum 0) delaySeconds)\<rparr>; out = h opt req s
      in length (SendBatchRequest_encode E req) < 2147483648 \<longrightarrow>
         deliverable (SendBatchResponse_ok skippable) (SendBatchResponse_encode E) (fst out) \<longrightarrow>
         MQClient_sendBatchJson this queueName payloads delaySeconds s =
           (Some (converted (bindE (fst out) (\<lambda>response. Inr (map js_Number (SendBatchResponse_messageIds response))))), snd out)"
  unfolding MQClient_sendBatchJson_def Let_def
  by (intro impI wrapped_call rpc_link.MQServiceClient_sendBatch_call [OF link handler])
    (use assms in \<open>simp_all add: transmissible_def SendBatchRequest_ok_def SendBatchRequest_create_def unknown_ok_def\<close>)

lemma MQClient_read_call:
  fixes this :: "('w, 'r, 's) PGAppClient"
  assumes link: "rpc_link (pc_transport this) E st rest skippable"
    and handler: "serves_MQService_Read (pc_transport this) h"
    and "int32_ok (orDefault (IntNum 1) quantity)"
    and "safe_num (orDefault (IntNum 30) visibilityTimeoutSeconds)"
  shows "let opt = env_mergeOptions (pc_transport this) (rpcOptions this);
        req = ReadMessagesRequest_create\<lparr>ReadMessagesRequest_queueName := queueName,
            ReadMessagesRequest_quantity := (orDefault (IntNum 1) quantity),
            ReadMessagesRequest_visibilityTimeoutSeconds := js_String (orDefault (IntNum 30) visibilityTimeoutSeconds)\<rparr>; out = h opt req s
      in length (ReadMessagesRequest_encode E req) < 2147483648 \<longrightarrow>
         deliverable (ReadMessagesResponse_ok skippable) (ReadMessagesResponse_encode E) (fst out) \<longrightarrow>
         MQClient_read this queueName quantity visibilityTimeoutSeconds s =
           (Some (converted (bindE (fst out) (\<lambda>response. Inr (ReadMessagesResponse_messages response)))), snd out)"
  unfolding MQClient_read_def Let_def
  by (intro impI wrapped_call rpc_link.MQServiceClient_read_call [OF link handler])
    (use assms in \<open>simp_all add: transmissible_def ReadMessagesRequest_ok_def ReadMessagesRequest_create_def unknown_ok_def\<close>)

lemma MQClient_readWithPoll_call:
  fixes this :: "('w, 'r, 's) PGAppClient"
  assumes link: "rpc_link (pc_transport this) E st rest skippable"
    and handler: "serves_MQService_ReadWithPoll (pc_transport this) h"
    and "int32_ok (orDefault (IntNum 1) quantity)"
    and "safe_num (orDefault (IntNum 30) visibilityTimeoutSeconds)"
    and "safe_num (orDefault (IntNum 10) maxPollSeconds)"
    and "safe_num (orDefault (IntNum 100) pollIntervalMillis)"
  shows "let opt = env_mergeOptions (pc_transport this) (rpcOptions this);
        req = ReadWithPollRequest_create\<lparr>ReadWithPollRequest_queueName := queueName,
            ReadWithPollRequest_quantity := (orDefault (IntNum 1) quantity),
            ReadWithPollRequest_visibilityTimeoutSeconds := js_String (orDefault (IntNum 30) visibilityTimeoutSeconds),
            ReadWithPollRequest_maxPollSeconds := js_String (orDefault (IntNum 10) maxPollSeconds),
            ReadWithPollRequest_pollIntervalMillis := js_String (orDefault (IntNum 100) pollIntervalMillis)\<rparr>; out = h opt req s
      in length (ReadWithPollRequest_encode E req) < 2147483648 \<longrightarrow>
         deliverable (ReadMessagesResponse_ok skippable) (ReadMessagesResponse_encode E) (fst out) \<longrightarrow>
         MQClient_readWithPoll this queueName quantity visibilityTimeoutSeconds maxPollSeconds pollIntervalMillis s =
           (Some (converted (bindE (fst out) (\<lambda>response. Inr (ReadMessagesResponse_messages response)))), snd out)"
  unfolding MQClient_readWithPoll_def Let_def
  by (intro impI wrapped_call rpc_link.MQServiceClient_readWithPoll_call [OF link handler])
    (use assms in \<open>simp_all add: transmissible_def ReadWithPollRequest_ok_def ReadWithPollRequest_create_def unknown_ok_def\<close>)

lemma MQClient_ack_call:
  fixes this :: "('w, 'r, 's) PGAppClient"
  assumes link: "rpc_link (pc_transport this) E st rest skippable"
    and handler: "serves_MQService_Ack (pc_transport this) h"
    and "safe_num messageId"
  shows "let opt = env_mergeOptions (pc_transport this) (rpcOptions this);
        req = AckMessageRequest_create\<lparr>AckMessageRequest_queueName := queueName,
            AckMessageRequest_messageId := js_String messageId,
            AckMessageRequest_ackToken := ackToken\<rparr>; out = h opt req s
      in length (AckMessageRequest_encode E req) < 2147483648 \<longrightarrow>
         deliverable (OperationResult_ok skippable) (OperationResult_encode E) (fst out) \<longrightarrow>
         MQClient_ack this queueName messageId ackToken s =
           (Some (converted (bindE (fst out) (\<lambda>response. Inr (OperationResult_success response)))), snd out)"
  unfolding MQClient_ack_def Let_def
  by (intro impI wrapped_call rpc_link.MQServiceClient_ack_call [OF link handler])
    (use assms in \<open>simp_all add: transmissible_def AckMessageRequest_ok_def AckMessageRequest_create_def unknown_ok_def\<close>)

lemma MQClient_archive_call:
  fixes this :: "('w, 'r, 's) PGAppClient"
  assumes link: "rpc_link (pc_transport this) E st rest skippable"
    and handler: "serves_MQService_Archive (pc_transport this) h"
    and "safe_num messageId"
  shows "let opt = env_mergeOptions (pc_transport this) (rpcOptions this);
        req = ArchiveMessageRequest_create\<lparr>ArchiveMessageRequest_queueName := queueName,
            ArchiveMessageRequest_messageId := js_String messageId,
            ArchiveMessageRequest_ackToken := ackToken\<rparr>; out = h opt req s
      in length (ArchiveMessageRequest_encode E req) < 2147483648 \<longrightarrow>
         deliverable (OperationResult_ok skippable) (OperationResult_encode E) (fst out) \<longrightarrow>
         MQClient_archive this queueName messageId ackToken s =
           (Some (converted (bindE (fst out) (\<lambda>response. Inr (OperationResult_success response)))), snd out)"
  unfolding MQClient_archive_def Let_def
  by (intro impI wrapped_call rpc_link.MQServiceClient_archive_call [OF link handler])
    (use assms in \<open>simp_all add: transmissible_def ArchiveMessageRequest_ok_def ArchiveMessageRequest_create_def unknown_ok_def\<close>)

lemma MQClient_setVisibilityTimeout_call:
  fixes this :: "('w, 'r, 's) PGAppClient"
  assumes link: "rpc_link (pc_transport this) E st rest skippable"
    and handler: "serves_MQService_SetVisibilityTimeout (pc_transport this) h"
    and "safe_num messageId"
    and "safe_num visibilityTimeoutSeconds"
  shows "let opt = env_mergeOptions (pc_transport this) (rpcOptions this);
        req = SetVisibilityTimeoutRequest_create\<lparr>SetVisibilityTimeoutRequest_queueName := queueName,
            SetVisibilityTimeoutRequest_messageId := js_String messageId,
            SetVisibilityTimeoutRequest_ackToken := ackToken,
            SetVisibilityTimeoutRequest_visibilityTimeoutSeconds := js_String visibilityTimeoutSeconds\<rparr>; out = h opt req s
      in length (SetVisibilityTimeoutRequest_encode E req) < 2147483648 \<longrightarrow>
         deliverable (OperationResult_ok skippable) (OperationResult_encode E) (fst out) \<longrightarrow>
         MQClient_setVisibilityTimeout this queueName messageId ackToken visibilityTimeoutSeconds s =
           (Some (converted (bindE (fst out) (\<lambda>response. Inr (OperationResult_success response)))), snd out)"
  unfolding MQClient_setVisibilityTimeout_def Let_def
  by (intro impI wrapped_call rpc_link.MQServiceClient_setVisibilityTimeout_call [OF link handler])
    (use assms in \<open>simp_all add: transmissible_def SetVisibilityTimeoutRequest_ok_def SetVisibilityTimeoutRequest_create_def unknown_ok_def\<close>)

lemma MQClient_metrics_call:
  fixes this :: "('w, 'r, 's) PGAppClient"
  assumes link: "rpc_link (pc_transport this) E st rest skippable"
    and handler: "serves_MQService_Metrics (pc_transport this) h"
  shows "let opt = env_mergeOptions (pc_transport this) (rpcOptions this);
        req = QueueMetricsRequest_create\<lparr>QueueMetricsRequest_queueName := queueName\<rparr>; out = h opt req s
      in length (QueueMetricsRequest_encode E req) < 2147483648 \<longrightarrow>
         deliverable (QueueMetricsResponse_ok skippable) (QueueMetricsResponse_encode E) (fst out) \<longrightarrow>
         MQClient_metrics this queueName s =
           (Some (converted (bindE (fst out) (\<lambda>response. Inr (response)))), snd out)"
  unfolding MQClient_metrics_def Let_def
  by (intro impI wrapped_call rpc_link.MQServiceClient_metrics_call [OF link handler])
    (use assms in \<open>simp_all add: transmissible_def QueueMetricsRequest_ok_def QueueMetricsRequest_create_def unknown_ok_def\<close>)

lemma MQClient_listDlqMessages_call:
  fixes this :: "('w, 'r, 's) PGAppClient"
  assumes link: "rpc_link (pc_transport this) E st rest skippable"
    and handler: "serves_MQService_ListDlqMessages (pc_transport this) h"
    and "int32_ok (orDefault (IntNum 100) limit)"
    and "safe_num (orDefault (IntNum 0) offset)"
  shows "let opt = env_mergeOptions (pc_transport this) (rpcOptions this);
        req = ListDlqMessagesRequest_create\<lparr>ListDlqMessagesRequest_queueName := queueName,
            ListDlqMessagesRequest_limit := (orDefault (IntNum 100) limit),
            ListDlqMessagesRequest_offset := js_String (orDefault (IntNum 0) offset)\<rparr>; out = h opt req s
      in length (ListDlqMessagesRequest_encode E req) < 2147483648 \<longrightarrow>
         deliverable (ListDlqMessagesResponse_ok skippable) (ListDlqMessagesResponse_encode E) (fst out) \<longrightarrow>
         MQClient_listDlqMessages this queueName limit offset s =
           (Some (converted (bindE (fst out) (\<lambda>response. Inr (ListDlqMessagesResponse_messages response)))), snd out)"
  unfolding MQClient_listDlqMessages_def Let_def
  by (intro impI wrapped_call rpc_link.MQServiceClient_listDlqMessages_call [OF link handler])
    (use assms in \<open>simp_all add: transmissible_def ListDlqMessagesRequest_ok_def ListDlqMessagesRequest_create_def unknown_ok_def\<close>)

lemma MQClient_getDlqMessage_call:
  fixes this :: "('w, 'r, 's) PGAppClient"
  assumes link: "rpc_link (pc_transport this) E st rest skippable"
    and handler: "serves_MQService_GetDlqMessage (pc_transport this) h"
    and "safe_num originalMessageId"
  shows "let opt = env_mergeOptions (pc_transport this) (rpcOptions this);
        req = GetDlqMessageRequest_create\<lparr>GetDlqMessageRequest_queueName := queueName,
            GetDlqMessageRequest_originalMessageId := js_String originalMessageId\<rparr>; out = h opt req s
      in length (GetDlqMessageRequest_encode E req) < 2147483648 \<longrightarrow>
         deliverable (DlqMessage_ok skippable) (DlqMessage_encode E) (fst out) \<longrightarrow>
         MQClient_getDlqMessage this queueName originalMessageId s =
           (Some (converted (bindE (fst out) (\<lambda>response. Inr (response)))), snd out)"
  unfolding MQClient_getDlqMessage_def Let_def
  by (intro impI wrapped_call rpc_link.MQServiceClient_getDlqMessage_call [OF link handler])
    (use assms in \<open>simp_all add: transmissible_def GetDlqMessageRequest_ok_def GetDlqMessageRequest_create_def unknown_ok_def\<close>)

lemma MQClient_reprocessDlqMessage_call:
  fixes this :: "('w, 'r, 's) PGAppClient"
  assumes link: "rpc_link (pc_transport this) E st rest skippable"
    and handler: "serves_MQService_ReprocessDlqMessage (pc_transport this) h"
    and "safe_num originalMessageId"
  shows "let opt = env_mergeOptions (pc_transport this) (rpcOptions this);
        req = ReprocessDlqMessageRequest_create\<lparr>ReprocessDlqMessageRequest_queueName := queueName,
            ReprocessDlqMessageRequest_originalMessageId := js_String originalMessageId\<rparr>; out = h opt req s
      in length (ReprocessDlqMessageRequest_encode E req) < 2147483648 \<longrightarrow>
         deliverable (OperationResult_ok skippable) (OperationResult_encode E) (fst out) \<longrightarrow>
         MQClient_reprocessDlqMessage this queueName originalMessageId s =
           (Some (converted (bindE (fst out) (\<lambda>response. Inr (OperationResult_success response)))), snd out)"
  unfolding MQClient_reprocessDlqMessage_def Let_def
  by (intro impI wrapped_call rpc_link.MQServiceClient_reprocessDlqMessage_call [OF link handler])
    (use assms in \<open>simp_all add: transmissible_def ReprocessDlqMessageRequest_ok_def ReprocessDlqMessageRequest_create_def unknown_ok_def\<close>)

lemma MQClient_purgeDlq_call:
  fixes this :: "('w, 'r, 's) PGAppClient"
  assumes link: "rpc_link (pc_transport this) E st rest skippable"
    and handler: "serves_MQService_PurgeDlq (pc_transport this) h"
  shows "let opt = env_mergeOptions (pc_transport this) (rpcOptions this);
        req = PurgeDlqRequest_create\<lparr>PurgeDlqRequest_queueName := queueName\<rparr>; out = h opt req s
      in length (PurgeDlqRequest_encode E req) < 2147483648 \<longrightarrow>
         deliverable (OperationResult_ok skippable) (OperationResult_encode E) (fst out) \<longrightarrow>
         MQClient_purgeDlq this queueName s =
           (Some (converted (bindE (fst out) (\<lambda>response. Inr (OperationResult_success response)))), snd out)"
  unfolding MQClient_purgeDlq_def Let_def
  by (intro impI wrapped_call rpc_link.MQServiceClient_purgeDlq_call [OF link handler])
    (use assms in \<open>simp_all add: transmissible_def PurgeDlqRequest_ok_def PurgeDlqRequest_create_def unknown_ok_def\<close>)


lemma yieldMessages_call:
  assumes "call = (Some out, s)"
  shows "yieldMessages call = (Some (concat (map ReadMessagesResponse_messages (fst out)),
     map_option throwFrom (snd out)), s)"
  using assms by (simp add: yieldMessages_def case_prod_beta)

lemma MQClient_streamRead_call:
  fixes this :: "('w, 'r, 's) PGAppClient"
  assumes link: "rpc_link (pc_transport this) E st rest skippable"
    and handler: "streams_MQService_StreamRead (pc_transport this) E h"
    and "int32_ok (orDefault (IntNum 1) quantity)"
    and "safe_num (orDefault (IntNum 30) visibilityTimeoutSeconds)"
  shows "let opt = env_mergeOptions (pc_transport this) (rpcOptions this);
        req = StreamReadRequest_create\<lparr>StreamReadRequest_queueName := queueName,
            StreamReadRequest_quantity := orDefault (IntNum 1) quantity,
            StreamReadRequest_visibilityTimeoutSeconds :=
              js_String (orDefault (IntNum 30) visibilityTimeoutSeconds)\<rparr>;
        out = h opt req s
      in length (StreamReadRequest_encode E req) < 2147483648 \<longrightarrow>
         list_all (transmissible (ReadMessagesResponse_ok skippable) (ReadMessagesResponse_encode E))
           (fst (fst out)) \<longrightarrow>
         MQClient_streamRead this queueName
             (Some \<lparr>so_quantity = quantity, so_visibilityTimeoutSeconds = visibilityTimeoutSeconds\<rparr>) s =
           (Some (concat (map ReadMessagesResponse_messages (fst (fst out))),
              map_option throwFrom (snd (fst out))), snd out)"
  unfolding MQClient_streamRead_def Let_def orDefault_simps StreamReadOptions.simps
  by (intro impI yieldMessages_call rpc_link.MQServiceClient_streamRead_call [OF link handler])
    (use assms in \<open>simp_all add: transmissible_def StreamReadRequest_ok_def StreamReadRequest_create_def
       unknown_ok_def\<close>)

end
