(* ===== verification/Admin_Http.thy ===== *)
theory Admin_Http
  imports Json
begin

text \<open>
  The requests of the admin console, \<open>apps/admin-ui/src/App.tsx\<close>: \<open>fetchJson\<close> with its bearer
  token and error messages, \<open>sendJson\<close>, \<open>postAction\<close>, \<open>deleteAction\<close> and \<open>errorMessage\<close>. The
  browser's \<open>fetch\<close> and the server behind it are an argument: a function from the request and a
  state of the other side to a response, or a rejection, and the next state.
\<close>


section \<open>Requests and responses\<close>

record http_request =
  rq_path :: string
  rq_method :: "string option"
  rq_headers :: "(string \<times> string) list"
  rq_body :: "string option"

record http_response =
  rp_status :: int
  rp_body :: string

record request_init =
  in_method :: "string option"
  in_headers :: "(string \<times> string) list"
  in_body :: "string option"

definition no_init :: request_init where
  "no_init = \<lparr>in_method = None, in_headers = [], in_body = None\<rparr>"

type_synonym 'n fetch = "http_request \<Rightarrow> 'n \<Rightarrow> http_response result \<times> 'n"

text \<open>\<open>response.ok\<close>: a status from 200 to 299.\<close>

definition response_ok :: "http_response \<Rightarrow> bool" where
  "response_ok r \<longleftrightarrow> 200 \<le> rp_status r \<and> rp_status r \<le> 299"

text \<open>\<open>{ ...a, ...b }\<close> on header objects: a later key replaces the value of an earlier one.\<close>

fun obj_set :: "string \<Rightarrow> 'v \<Rightarrow> (string \<times> 'v) list \<Rightarrow> (string \<times> 'v) list" where
  "obj_set k v [] = [(k, v)]"
| "obj_set k v ((k', v') # ps) = (if k = k' then (k, v) # ps else (k', v') # obj_set k v ps)"

definition obj_spread :: "(string \<times> 'v) list \<Rightarrow> (string \<times> 'v) list \<Rightarrow> (string \<times> 'v) list" where
  "obj_spread a b = foldl (\<lambda>ps (k, v). obj_set k v ps) a b"


section \<open>Properties of JSON values\<close>

text \<open>
  \<open>v.name\<close> on a JSON value: \<open>null\<close> has no properties and throws, an object may have the
  property, anything else has none of the names the console reads.
\<close>

definition null_error :: "string \<Rightarrow> thrown" where
  "null_error name = mkError (''Cannot read properties of null (reading '' @ name @ '')'')"

definition getProp :: "string \<Rightarrow> json \<Rightarrow> json option result" where
  "getProp name v = (case v of JNull \<Rightarrow> Inl (null_error name)
     | JObj ps \<Rightarrow> Inr (map_of ps name) | _ \<Rightarrow> Inr None)"

text \<open>\<open>String(v)\<close> of a JSON value, as string templates and \<open>new Error(v)\<close> convert it.\<close>

fun json_text :: "json \<Rightarrow> string"
  and elem_texts :: "json list \<Rightarrow> string" where
  "json_text JNull = ''null''"
| "json_text (JBool b) = (if b then ''true'' else ''false'')"
| "json_text (JNum x) = js_String x"
| "json_text (JStr s) = s"
| "json_text (JArr xs) = elem_texts xs"
| "json_text (JObj ps) = ''[object Object]''"
| "elem_texts [] = []"
| "elem_texts [x] = (if x = JNull then [] else json_text x)"
| "elem_texts (x # y # ys) = (if x = JNull then [] else json_text x) @ '','' @ elem_texts (y # ys)"

definition opt_text :: "json option \<Rightarrow> string" where
  "opt_text x = (case x of None \<Rightarrow> ''undefined'' | Some v \<Rightarrow> json_text v)"


section \<open>fetchJson\<close>

text \<open>\<open>if (token)\<close>: neither \<open>null\<close> nor the empty string.\<close>

definition request_headers :: "string option \<Rightarrow> (string \<times> string) list" where
  "request_headers token = (''Accept'', ''application/json'') #
     (case token of None \<Rightarrow> [] | Some t \<Rightarrow> if t = [] then [] else [(''Authorization'', ''Bearer '' @ t)])"

definition build_request :: "string option \<Rightarrow> string \<Rightarrow> request_init \<Rightarrow> http_request" where
  "build_request token path init = \<lparr>rq_path = path, rq_method = in_method init,
     rq_headers = obj_spread (request_headers token) (in_headers init), rq_body = in_body init\<rparr>"

text \<open>\<open>body.message ?? message\<close> inside \<open>try\<close>: a body that cannot be read leaves the fallback.\<close>

definition failure_message :: "http_response \<Rightarrow> string" where
  "failure_message r = (let fallback = ''Request failed with '' @ dec (rp_status r)
     in case bindE (JSON_parse (rp_body r)) (getProp ''message'') of
          Inr (Some m) \<Rightarrow> if m = JNull then fallback else json_text m
        | _ \<Rightarrow> fallback)"

definition fetchJson ::
  "'n fetch \<Rightarrow> string option \<Rightarrow> string \<Rightarrow> request_init \<Rightarrow> 'n \<Rightarrow> json result \<times> 'n" where
  "fetchJson fetch token path init n = (case fetch (build_request token path init) n of
       (Inl _, n') \<Rightarrow> (Inl (mkError ''Admin API unavailable''), n')
     | (Inr r, n') \<Rightarrow> if \<not> response_ok r then (Inl (mkError (failure_message r)), n')
         else (JSON_parse (rp_body r), n'))"

definition sendJson ::
  "'n fetch \<Rightarrow> string option \<Rightarrow> string \<Rightarrow> string \<Rightarrow> json \<Rightarrow> 'n \<Rightarrow> json result \<times> 'n" where
  "sendJson fetch token path verb body = fetchJson fetch token path
     \<lparr>in_method = Some verb, in_headers = [(''Content-Type'', ''application/json'')],
      in_body = Some (stringify body)\<rparr>"

definition postAction :: "'n fetch \<Rightarrow> string option \<Rightarrow> string \<Rightarrow> 'n \<Rightarrow> json result \<times> 'n" where
  "postAction fetch token path = fetchJson fetch token path (no_init\<lparr>in_method := Some ''POST''\<rparr>)"

definition deleteAction :: "'n fetch \<Rightarrow> string option \<Rightarrow> string \<Rightarrow> 'n \<Rightarrow> json result \<times> 'n" where
  "deleteAction fetch token path = fetchJson fetch token path (no_init\<lparr>in_method := Some ''DELETE''\<rparr>)"

text \<open>\<open>errorMessage(error)\<close>.\<close>

definition errorMessage :: "thrown \<Rightarrow> string" where
  "errorMessage error = (case error of Nullish _ \<Rightarrow> ''Unknown error''
     | Thrown e \<Rightarrow> if eo_isError e then (case eo_message e of Some m \<Rightarrow> m | None \<Rightarrow> [])
         else ''Unknown error'')"


section \<open>What the requests carry and how they fail\<close>

lemma errorMessage_mkError [simp]: "errorMessage (mkError m) = m"
  by (simp add: errorMessage_def mkError_def)

lemma map_of_obj_set: "map_of (obj_set k v ps) = (map_of ps)(k \<mapsto> v)"
  by (induction ps) auto

lemma obj_spread_simps [simp]:
  "obj_spread a [] = a" "obj_spread a ((k, v) # b) = obj_spread (obj_set k v a) b"
  by (simp_all add: obj_spread_def)

lemma map_of_obj_spread: "map_of (obj_spread a b) k = (case map_of (rev b) k of None \<Rightarrow> map_of a k | Some v \<Rightarrow> Some v)"
proof (induction b arbitrary: a)
  case (Cons p b)
  then show ?case
    by (cases p) (auto simp: map_of_obj_set map_add_def split: option.splits)
qed simp

text \<open>The three outcomes of a request.\<close>

lemma fetchJson_rejected:
  "fetch (build_request token path init) n = (Inl e, n') \<Longrightarrow>
   fetchJson fetch token path init n = (Inl (mkError ''Admin API unavailable''), n')"
  by (simp add: fetchJson_def)

lemma fetchJson_failed:
  "fetch (build_request token path init) n = (Inr r, n') \<Longrightarrow> \<not> response_ok r \<Longrightarrow>
   fetchJson fetch token path init n = (Inl (mkError (failure_message r)), n')"
  by (simp add: fetchJson_def)

lemma fetchJson_ok:
  "fetch (build_request token path init) n = (Inr r, n') \<Longrightarrow> response_ok r \<Longrightarrow>
   fetchJson fetch token path init n = (JSON_parse (rp_body r), n')"
  by (simp add: fetchJson_def)

end
