(* ===== verification/Async_Data.thy ===== *)
theory Async_Data
  imports Admin_Http
begin

text \<open>
  \<open>useAsyncData\<close> of \<open>apps/admin-ui/src/App.tsx\<close>, the hook behind every view of the console: a
  state machine over the runs of its effect. Each run has its own \<open>cancelled\<close> flag, which the
  cleanup of the run sets; a run that is enabled starts one load and applies its outcome only
  while it is not cancelled. React runs the cleanup of a run before the next run and when the
  component is unmounted; the loads settle in any order.
\<close>


section \<open>The hook\<close>

datatype 'd LoadState = Loading | LoadError string | Ready 'd

text \<open>The state, the flags of the runs so far, the loads still out, and whether it is mounted.\<close>

record 'd hook =
  hk_state :: "'d LoadState"
  hk_cancelled :: "bool list"
  hk_pending :: "nat list"
  hk_mounted :: bool

definition hook_init :: "'d hook" where
  "hook_init = \<lparr>hk_state = Loading, hk_cancelled = [], hk_pending = [], hk_mounted = True\<rparr>"

text \<open>The cleanup of the last run: \<open>cancelled = true\<close>.\<close>

definition cleanup :: "bool list \<Rightarrow> bool list" where
  "cleanup flags = (if flags = [] then [] else butlast flags @ [True])"

text \<open>A run of the effect, after a change of the dependencies or of \<open>enabled\<close>.\<close>

definition run_effect :: "bool \<Rightarrow> 'd hook \<Rightarrow> 'd hook" where
  "run_effect enabled h = (let flags = cleanup (hk_cancelled h) @ [False] in
     if \<not> enabled
     then h\<lparr>hk_state := LoadError ''Admin token required'', hk_cancelled := flags\<rparr>
     else h\<lparr>hk_state := Loading, hk_cancelled := flags,
            hk_pending := hk_pending h @ [length (hk_cancelled h)]\<rparr>)"

text \<open>The load of run \<open>i\<close> settles: \<open>.then\<close> and \<open>.catch\<close>.\<close>

definition settled_state :: "'d result \<Rightarrow> 'd LoadState" where
  "settled_state outcome = (case outcome of Inr data \<Rightarrow> Ready data | Inl e \<Rightarrow> LoadError (errorMessage e))"

definition settle :: "nat \<Rightarrow> 'd result \<Rightarrow> 'd hook \<Rightarrow> 'd hook" where
  "settle i outcome h = (let h' = h\<lparr>hk_pending := removeAll i (hk_pending h)\<rparr> in
     if i < length (hk_cancelled h) \<and> \<not> hk_cancelled h ! i
     then h'\<lparr>hk_state := settled_state outcome\<rparr> else h')"

definition unmount :: "'d hook \<Rightarrow> 'd hook" where
  "unmount h = h\<lparr>hk_cancelled := cleanup (hk_cancelled h), hk_mounted := False\<rparr>"


section \<open>Runs\<close>

text \<open>What can happen to a mounted hook, in any order and any number of times.\<close>

datatype 'd event = Run bool | Settle nat "'d result" | Unmount

inductive step :: "'d hook \<Rightarrow> 'd event \<Rightarrow> 'd hook \<Rightarrow> bool" where
  step_run: "hk_mounted h \<Longrightarrow> step h (Run enabled) (run_effect enabled h)"
| step_settle: "i \<in> set (hk_pending h) \<Longrightarrow> step h (Settle i outcome) (settle i outcome h)"
| step_unmount: "hk_mounted h \<Longrightarrow> step h Unmount (unmount h)"

inductive_cases step_runE: "step h (Run enabled) h'"
inductive_cases step_settleE: "step h (Settle i outcome) h'"
inductive_cases step_unmountE: "step h Unmount h'"

inductive reaches :: "'d hook \<Rightarrow> 'd event list \<Rightarrow> 'd hook \<Rightarrow> bool" where
  reaches_Nil: "reaches h [] h"
| reaches_snoc: "reaches h es h1 \<Longrightarrow> step h1 e h2 \<Longrightarrow> reaches h (es @ [e]) h2"

text \<open>The same histories as a function, so that a history can be evaluated.\<close>

definition apply_event :: "'d event \<Rightarrow> 'd hook \<Rightarrow> 'd hook option" where
  "apply_event e h = (case e of
       Run enabled \<Rightarrow> if hk_mounted h then Some (run_effect enabled h) else None
     | Settle i outcome \<Rightarrow> if i \<in> set (hk_pending h) then Some (settle i outcome h) else None
     | Unmount \<Rightarrow> if hk_mounted h then Some (unmount h) else None)"

fun run_events :: "'d event list \<Rightarrow> 'd hook \<Rightarrow> 'd hook option" where
  "run_events [] h = Some h"
| "run_events (e # es) h = Option.bind (apply_event e h) (run_events es)"

lemma step_apply: "step h e h' \<longleftrightarrow> apply_event e h = Some h'"
  by (cases e) (auto simp: apply_event_def intro: step.intros elim: step_runE step_settleE step_unmountE)

lemma run_events_append: "run_events (es @ es') h = Option.bind (run_events es h) (run_events es')"
  by (induction es arbitrary: h) (auto simp: Option.bind_eq_Some_conv split: bind_splits)

lemma reaches_run: "reaches h es h' \<longleftrightarrow> run_events es h = Some h'"
proof
  show "reaches h es h' \<Longrightarrow> run_events es h = Some h'"
    by (induction rule: reaches.induct) (simp_all add: run_events_append step_apply)
  show "run_events es h = Some h' \<Longrightarrow> reaches h es h'"
  proof (induction es arbitrary: h' rule: rev_induct)
    case (snoc e es)
    then obtain h1 where "run_events es h = Some h1" "step h1 e h'"
      by (auto simp: run_events_append step_apply bind_eq_Some_conv)
    with snoc.IH show ?case by (blast intro: reaches_snoc)
  qed (simp add: reaches_Nil)
qed

text \<open>
  While the hook is mounted its last run is live and no other: every earlier flag is set, and
  the last one too once the hook is unmounted. Loads that are out belong to runs.
\<close>

definition hook_inv :: "'d hook \<Rightarrow> bool" where
  "hook_inv h \<longleftrightarrow> list_all id (butlast (hk_cancelled h)) \<and>
     (\<not> hk_mounted h \<longrightarrow> list_all id (hk_cancelled h)) \<and>
     (hk_mounted h \<and> hk_cancelled h \<noteq> [] \<longrightarrow> \<not> last (hk_cancelled h)) \<and>
     list_all (\<lambda>i. i < length (hk_cancelled h)) (hk_pending h) \<and> distinct (hk_pending h)"

lemma cleanup_length [simp]: "length (cleanup flags) = length flags"
  by (simp add: cleanup_def)

lemma cleanup_all: "list_all id (butlast flags) \<Longrightarrow> list_all id (cleanup flags)"
  by (simp add: cleanup_def)

lemma hook_inv_init [simp]: "hook_inv hook_init"
  by (simp add: hook_inv_def hook_init_def)

lemma hook_inv_run: "hook_inv h \<Longrightarrow> hk_mounted h \<Longrightarrow> hook_inv (run_effect enabled h)"
  using cleanup_all [of "hk_cancelled h"]
  by (cases enabled) (auto simp: hook_inv_def run_effect_def Let_def list_all_iff less_Suc_eq)

lemma hook_inv_settle: "hook_inv h \<Longrightarrow> hook_inv (settle i outcome h)"
  by (auto simp: hook_inv_def settle_def Let_def list_all_iff distinct_removeAll)

lemma hook_inv_unmount: "hook_inv h \<Longrightarrow> hook_inv (unmount h)"
  by (auto simp: hook_inv_def unmount_def cleanup_def list_all_iff)

lemmas hook_invs = hook_inv_run hook_inv_settle hook_inv_unmount

lemma step_inv: "step h e h' \<Longrightarrow> hook_inv h \<Longrightarrow> hook_inv h'"
  by (cases rule: step.cases) (auto intro: hook_invs)

lemma reaches_inv: "reaches h es h' \<Longrightarrow> hook_inv h \<Longrightarrow> hook_inv h'"
  by (induction rule: reaches.induct) (auto intro: step_inv)

text \<open>A run that is not the last one is cancelled, and its load changes nothing that is shown.\<close>

lemma stale_cancelled:
  assumes "hook_inv h" "Suc i < length (hk_cancelled h)"
  shows "hk_cancelled h ! i"
proof -
  have "butlast (hk_cancelled h) ! i = hk_cancelled h ! i" using assms(2) by (intro nth_butlast) simp
  moreover have "butlast (hk_cancelled h) ! i"
    using assms by (simp add: hook_inv_def list_all_length)
  ultimately show ?thesis by simp
qed

lemma settle_stale:
  assumes "hook_inv h" "Suc i < length (hk_cancelled h)"
  shows "hk_state (settle i outcome h) = hk_state h"
  using stale_cancelled [OF assms] by (simp add: settle_def Let_def)

text \<open>The runs of a history, and what they leave behind.\<close>

definition is_Run :: "'d event \<Rightarrow> bool" where
  "is_Run e = (case e of Run _ \<Rightarrow> True | _ \<Rightarrow> False)"

definition runs :: "'d event list \<Rightarrow> nat" where
  "runs es = length (filter is_Run es)"

lemma is_Run_simps [simp]: "is_Run (Run b)" "\<not> is_Run (Settle i x)" "\<not> is_Run Unmount"
  by (simp_all add: is_Run_def)

lemma runs_snoc [simp]: "runs [] = 0" "runs (es @ [e]) = (if is_Run e then Suc (runs es) else runs es)"
  by (simp_all add: runs_def)

lemma reaches_runs: "reaches h es h' \<Longrightarrow> length (hk_cancelled h') = length (hk_cancelled h) + runs es"
  by (induction rule: reaches.induct)
    (auto elim!: step.cases simp: run_effect_def settle_def unmount_def Let_def)

lemma run_not_ready: "hk_state (run_effect enabled h) \<noteq> Ready data"
  by (simp add: run_effect_def Let_def)

text \<open>
  What is shown as loaded is the outcome of the newest run: the history has a settled load
  with this outcome that belongs to the last run before it, and no run after it.
\<close>

lemma ready_is_newest:
  assumes "reaches hook_init es h" "hk_state h = Ready data"
  shows "\<exists>es1 es2 i. es = es1 @ Settle i (Inr data) # es2 \<and> Suc i = runs es1 \<and> \<not> list_ex is_Run es2"
  using assms
proof (induction "hook_init :: 'a hook" es h rule: reaches.induct)
  case reaches_Nil
  then show ?case by (simp add: hook_init_def)
next
  case (reaches_snoc es h1 e h2)
  have inv: "hook_inv h1" using reaches_snoc.hyps(1) by (rule reaches_inv) simp
  have len: "length (hk_cancelled h1) = runs es"
    using reaches_runs [OF reaches_snoc.hyps(1)] by (simp add: hook_init_def)
  have old: ?case if "hk_state h1 = Ready data" "\<not> is_Run e"
  proof -
    from reaches_snoc.hyps(2) [OF that(1)] obtain es1 es2 i where
      "es = es1 @ Settle i (Inr data) # es2" "Suc i = runs es1" "\<not> list_ex is_Run es2" by auto
    with that(2) show ?case by (intro exI [of _ es1] exI [of _ "es2 @ [e]"] exI [of _ i]) simp
  qed
  from reaches_snoc.hyps(3) show ?case
  proof cases
    case (step_run enabled)
    with reaches_snoc.prems show ?thesis by (simp add: run_not_ready)
  next
    case (step_settle i outcome)
    show ?thesis
    proof (cases "i < length (hk_cancelled h1) \<and> \<not> hk_cancelled h1 ! i")
      case True
      with inv stale_cancelled [OF inv, of i] have "Suc i = runs es" using len by fastforce
      moreover from True step_settle reaches_snoc.prems have "outcome = Inr data"
        by (auto simp: settle_def Let_def settled_state_def split: sum.splits)
      ultimately show ?thesis using step_settle by (intro exI [of _ es] exI [of _ "[]"] exI [of _ i]) simp
    next
      case False
      then have "hk_state h2 = hk_state h1" using step_settle by (auto simp: settle_def Let_def)
      then show ?thesis using old step_settle reaches_snoc.prems by simp
    qed
  next
    case step_unmount
    then show ?thesis using old reaches_snoc.prems by (simp add: unmount_def)
  qed
qed

text \<open>The load of the newest run is applied when it settles, whatever settled before it.\<close>

lemma settle_keeps_flags [simp]: "hk_cancelled (settle i outcome h) = hk_cancelled h"
  by (simp add: settle_def Let_def)

definition settle_all :: "(nat \<times> 'd result) list \<Rightarrow> 'd hook \<Rightarrow> 'd hook" where
  "settle_all xs h = foldl (\<lambda>h (i, outcome). settle i outcome h) h xs"

lemma settle_all_flags [simp]: "hk_cancelled (settle_all xs h) = hk_cancelled h"
  unfolding settle_all_def by (induction xs arbitrary: h) auto

lemma newest_applied:
  "hk_state (settle (length (hk_cancelled h)) outcome (settle_all xs (run_effect True h))) =
   settled_state outcome"
  by (simp add: settle_def Let_def run_effect_def nth_append)

text \<open>A run that is not enabled starts no load.\<close>

lemma disabled_run:
  "hk_pending (run_effect False h) = hk_pending h"
  "hk_state (run_effect False h) = LoadError ''Admin token required''"
  by (simp_all add: run_effect_def Let_def)

text \<open>
  While no run of the effect starts, loads of earlier runs change nothing: if every load that is
  out belongs to a run before the last one, the state stays as it is.
\<close>

definition no_live_load :: "'d hook \<Rightarrow> bool" where
  "no_live_load h \<longleftrightarrow> list_all (\<lambda>i. Suc i < length (hk_cancelled h)) (hk_pending h)"

lemma no_live_load_step:
  assumes "step h e h'" "hook_inv h" "no_live_load h" "\<not> is_Run e"
  shows "hk_state h' = hk_state h \<and> no_live_load h'"
  using assms(1)
proof cases
  case (step_settle i outcome)
  then have "Suc i < length (hk_cancelled h)" using assms(3) by (simp add: no_live_load_def list_all_iff)
  then show ?thesis using settle_stale [OF assms(2), of i outcome] assms(3) step_settle
    by (auto simp: no_live_load_def list_all_iff settle_def Let_def)
next
  case step_unmount
  then show ?thesis using assms(3) by (simp add: unmount_def no_live_load_def)
qed (use assms(4) in simp)

lemma no_live_load_reaches:
  "reaches h es h' \<Longrightarrow> hook_inv h \<Longrightarrow> no_live_load h \<Longrightarrow> \<not> list_ex is_Run es \<Longrightarrow>
   hk_state h' = hk_state h \<and> no_live_load h'"
proof (induction rule: reaches.induct)
  case (reaches_snoc h es h1 e h2)
  then have "hook_inv h1" by (blast intro: reaches_inv)
  with reaches_snoc no_live_load_step [of h1 e h2] show ?case by simp
qed simp

lemma disabled_no_live_load: "hook_inv h \<Longrightarrow> no_live_load (run_effect False h)"
  by (auto simp: hook_inv_def no_live_load_def run_effect_def Let_def list_all_iff)

text \<open>After a run that is not enabled the hook says so until the next run, whatever settles.\<close>

lemma disabled_stays:
  assumes "reaches hook_init (es @ Run False # es') h" "\<not> list_ex is_Run es'"
  shows "hk_state h = LoadError ''Admin token required''"
proof -
  from assms(1) obtain h1 where "run_events es hook_init = Some h1" "hk_mounted h1"
      and after: "reaches (run_effect False h1) es' h"
    by (auto simp: reaches_run run_events_append bind_eq_Some_conv apply_event_def split: if_splits)
  then have inv: "hook_inv h1" "hk_mounted h1" using reaches_inv [of hook_init es h1] by (simp_all add: reaches_run)
  from no_live_load_reaches [OF after hook_inv_run [OF inv] disabled_no_live_load [OF inv(1)] assms(2)]
  show ?thesis by (simp add: disabled_run)
qed


section \<open>What a hook promises\<close>

text \<open>
  The specification: a view has a number of loads it has asked for and shows the last one. An
  answer counts if it belongs to the last load asked for and the view is still there; everything
  about flags and lists of loads is gone.
\<close>

record 'd view_spec =
  vs_asked :: nat
  vs_mounted :: bool
  vs_shown :: "'d LoadState"

definition spec_init :: "'d view_spec" where
  "spec_init = \<lparr>vs_asked = 0, vs_mounted = True, vs_shown = Loading\<rparr>"

fun spec_step :: "'d event \<Rightarrow> 'd view_spec \<Rightarrow> 'd view_spec" where
  "spec_step (Run enabled) v = v\<lparr>vs_asked := Suc (vs_asked v),
     vs_shown := (if enabled then Loading else LoadError ''Admin token required'')\<rparr>"
| "spec_step (Settle i outcome) v = (if Suc i = vs_asked v \<and> vs_mounted v
     then v\<lparr>vs_shown := settled_state outcome\<rparr> else v)"
| "spec_step Unmount v = v\<lparr>vs_mounted := False\<rparr>"

definition abs_hook :: "'d hook \<Rightarrow> 'd view_spec" where
  "abs_hook h = \<lparr>vs_asked = length (hk_cancelled h), vs_mounted = hk_mounted h, vs_shown = hk_state h\<rparr>"

lemma live_iff:
  assumes "hook_inv h"
  shows "i < length (hk_cancelled h) \<and> \<not> hk_cancelled h ! i \<longleftrightarrow> Suc i = length (hk_cancelled h) \<and> hk_mounted h"
proof (cases "Suc i = length (hk_cancelled h)")
  case True
  then have ne: "hk_cancelled h \<noteq> []" by auto
  moreover from True have "length (hk_cancelled h) - 1 = i" by simp
  ultimately have "last (hk_cancelled h) = hk_cancelled h ! i" by (simp add: last_conv_nth)
  with True ne assms show ?thesis by (auto simp: hook_inv_def list_all_length)
next
  case False
  with stale_cancelled [OF assms, of i] show ?thesis by auto
qed

text \<open>Each step of the hook is the step of the specification.\<close>

lemma step_refines:
  assumes "step h e h'" "hook_inv h"
  shows "abs_hook h' = spec_step e (abs_hook h)"
  using assms(1)
proof cases
  case (step_settle i outcome)
  with live_iff [OF assms(2), of i] show ?thesis by (auto simp: abs_hook_def settle_def Let_def)
qed (simp_all add: abs_hook_def run_effect_def unmount_def Let_def)

lemma reaches_refines:
  "reaches h es h' \<Longrightarrow> hook_inv h \<Longrightarrow> abs_hook h' = foldl (\<lambda>v e. spec_step e v) (abs_hook h) es"
proof (induction rule: reaches.induct)
  case (reaches_snoc h es h1 e h2)
  then have "hook_inv h1" by (blast intro: reaches_inv)
  with reaches_snoc step_refines [of h1 e h2] show ?case by simp
qed simp

end
