(* ===== verification/Admin_Views.thy ===== *)
theory Admin_Views
  imports Async_Data
begin

text \<open>
  The shared components and the read-only views of the admin console,
  \<open>apps/admin-ui/src/App.tsx\<close>: tables and messages, the overview, cache and log views, and the
  token prompt with the state of the shell. A rendered component is a tree of elements with their class names, texts and
  button actions; icons carry no content and are left out. The counters of the admin API are
  integral numbers.
\<close>


section \<open>Rendered elements\<close>

datatype View = Overview | Cache | Mq | Config | Logs | Clients

datatype ui_action = SetView View | SaveToken | PurgeDlq | ReprocessDlq int | SelectScope string
  | SaveItem | Publish | SaveSchema | RemoveSchema | CreateClient | RotateClient string
  | DeactivateClient string

text \<open>
  A text, an element with a tag and a class, a button with its accessible label, class and
  action, and an input or text area with its label and current content.
\<close>

datatype element = Txt string | El string string "element list"
  | Button string string ui_action "element list" | Field string string

definition show_int :: "int \<Rightarrow> string" where
  "show_int n = js_String (IntNum n)"

text \<open>The buttons of a tree, as a user can press them.\<close>

fun actions :: "element \<Rightarrow> ui_action list"
  and actions_of :: "element list \<Rightarrow> ui_action list" where
  "actions (Txt s) = []"
| "actions (El tag cls es) = actions_of es"
| "actions (Button label cls a es) = a # actions_of es"
| "actions (Field label content) = []"
| "actions_of [] = []"
| "actions_of (e # es) = actions e @ actions_of es"

lemma actions_of_append [simp]: "actions_of (xs @ ys) = actions_of xs @ actions_of ys"
  by (induction xs) simp_all

lemma actions_of_concat: "actions_of (concat ess) = concat (map actions_of ess)"
  by (induction ess) simp_all

lemma actions_of_map: "actions_of (map f xs) = concat (map (\<lambda>x. actions (f x)) xs)"
  by (induction xs) simp_all


section \<open>Tables and messages\<close>

record 'a Page =
  pg_items :: "'a list"
  pg_limit :: int
  pg_offset :: int
  pg_next_offset :: "int option"

definition StateMessage :: "'d LoadState \<Rightarrow> element" where
  "StateMessage state = (case state of LoadError message \<Rightarrow> El ''p'' ''state error'' [Txt message]
     | _ \<Rightarrow> El ''p'' ''state'' [Txt ''Loading''])"

definition DataTable :: "string list \<Rightarrow> element list list \<Rightarrow> string \<Rightarrow> element" where
  "DataTable columns rows noRows = (if rows = [] then El ''p'' ''empty'' [Txt noRows]
     else El ''div'' ''table-wrap'' [El ''table'' [] [
       El ''thead'' [] [El ''tr'' [] (map (\<lambda>column. El ''th'' [] [Txt column]) columns)],
       El ''tbody'' [] (map (\<lambda>row. El ''tr'' [] (map (\<lambda>cell. El ''td'' [] [cell]) row)) rows)]])"

definition AsyncTable ::
  "'a Page LoadState \<Rightarrow> string list \<Rightarrow> ('a \<Rightarrow> element list) \<Rightarrow> string \<Rightarrow> element" where
  "AsyncTable state columns mapRow noRows = (case state of
       Ready page \<Rightarrow> DataTable columns (map mapRow (pg_items page)) noRows
     | _ \<Rightarrow> StateMessage state)"

definition Metric :: "string \<Rightarrow> string \<Rightarrow> string \<Rightarrow> element" where
  "Metric title content detail = El ''div'' ''metric'' [El ''div'' ''metric-icon'' [],
     El ''div'' [] [El ''span'' [] [Txt title], El ''strong'' [] [Txt content], El ''small'' [] [Txt detail]]]"

definition StatusPill :: "string \<Rightarrow> element" where
  "StatusPill state = El ''span'' (''status-pill '' @ (if state = ''ready'' then ''good'' else [])) [Txt state]"

definition panel :: "string \<Rightarrow> element list \<Rightarrow> element" where
  "panel heading body = El ''section'' ''panel''
     (El ''div'' ''panel-heading'' [El ''h2'' [] [Txt heading]] # body)"


section \<open>Overview\<close>

record UiMethodMetric =
  mm_service :: string
  mm_method :: string
  mm_status :: string
  mm_count :: int
  mm_errors :: int
  mm_total_latency_millis :: int

record UiCacheSummary =
  cs_hits :: int
  cs_misses :: int
  cs_writes :: int
  cs_deletes :: int
  cs_evictions :: int
  cs_expired_removals :: int
  cs_logical_key_count :: int
  cs_logical_byte_size :: int

record UiMqSummary =
  ms_queue_count :: int
  ms_visible_message_count :: int
  ms_in_flight_message_count :: int
  ms_archived_message_count :: int

record UiOverview =
  ov_server_state :: string
  ov_ready :: bool
  ov_methods :: "UiMethodMetric list"
  ov_pool_size :: int
  ov_pool_idle :: int
  ov_cache_summary :: UiCacheSummary
  ov_mq_summary :: UiMqSummary

text \<open>Addition of two integral doubles.\<close>

definition js_add :: "int \<Rightarrow> int \<Rightarrow> int" where
  "js_add a b = to_double (a + b)"

definition sumErrors :: "UiMethodMetric list \<Rightarrow> int" where
  "sumErrors methods = foldl (\<lambda>total metric. js_add total (mm_errors metric)) 0 methods"

definition OverviewView :: "UiOverview LoadState \<Rightarrow> element" where
  "OverviewView state = (case state of
       Ready data \<Rightarrow> El ''div'' ''stack'' [
         El ''section'' ''metric-grid'' [
           Metric ''PG Pool'' (show_int (ov_pool_idle data) @ ''/'' @ show_int (ov_pool_size data)) ''idle / size'',
           Metric ''Cache keys'' (show_int (cs_logical_key_count (ov_cache_summary data)))
             (show_int (cs_logical_byte_size (ov_cache_summary data)) @ '' bytes''),
           Metric ''MQ queues'' (show_int (ms_queue_count (ov_mq_summary data)))
             (show_int (ms_visible_message_count (ov_mq_summary data)) @ '' visible''),
           Metric ''Errors'' (show_int (sumErrors (ov_methods data)))
             (show_int (int (length (ov_methods data))) @ '' methods'')],
         panel ''Runtime'' [DataTable [''service'', ''method'', ''status'', ''count'', ''errors'']
           (map (\<lambda>metric. [Txt (mm_service metric), Txt (mm_method metric), Txt (mm_status metric),
              Txt (show_int (mm_count metric)), Txt (show_int (mm_errors metric))]) (ov_methods data))
           ''No request metrics'']]
     | _ \<Rightarrow> StateMessage state)"


section \<open>Cache and logs\<close>

record UiCacheNamespace =
  cn_name :: string
  cn_key_count :: int
  cn_byte_size :: int

record UiCacheEntry =
  ce_namespace :: string
  ce_key :: string
  ce_size_bytes :: int
  ce_value_preview :: string
  ce_value_encoding :: string
  ce_access_count :: int

record UiLogEvent =
  le_id :: int
  le_level :: string
  le_target :: string
  le_message :: string
  le_request_id :: "string option"

text \<open>The requests of the two views, one load each when the view is mounted.\<close>

definition namespacesPath :: string where
  "namespacesPath = ''/api/admin/cache/namespaces?limit=50&offset=0''"

definition entriesPath :: string where
  "entriesPath = ''/api/admin/cache/entries?limit=50&offset=0''"

definition logsPath :: string where
  "logsPath = ''/api/admin/logs?limit=50&offset=0''"

definition CacheView ::
  "UiCacheNamespace Page LoadState \<Rightarrow> UiCacheEntry Page LoadState \<Rightarrow> element" where
  "CacheView namespaces entries = El ''div'' ''split'' [
     panel ''Namespaces'' [AsyncTable namespaces [''namespace'', ''keys'', ''bytes'']
       (\<lambda>row. [Txt (cn_name row), Txt (show_int (cn_key_count row)), Txt (show_int (cn_byte_size row))])
       ''No namespaces''],
     panel ''Entries'' [AsyncTable entries [''namespace'', ''key'', ''bytes'', ''encoding'', ''preview'']
       (\<lambda>row. [Txt (ce_namespace row), Txt (ce_key row), Txt (show_int (ce_size_bytes row)),
          Txt (ce_value_encoding row), Txt (ce_value_preview row)])
       ''No entries'']]"

definition LogsView :: "UiLogEvent Page LoadState \<Rightarrow> element" where
  "LogsView logs = panel ''Events'' [AsyncTable logs [''level'', ''target'', ''message'', ''request'']
     (\<lambda>row. [Txt (le_level row), Txt (le_target row), Txt (le_message row),
        Txt (case le_request_id row of None \<Rightarrow> [] | Some r \<Rightarrow> r)])
     ''No logs'']"


section \<open>The shell\<close>

definition titleFor :: "View \<Rightarrow> string" where
  "titleFor v = (case v of Overview \<Rightarrow> ''PGApp Console'' | Cache \<Rightarrow> ''Cache'' | Mq \<Rightarrow> ''MQ''
     | Config \<Rightarrow> ''Config'' | Logs \<Rightarrow> ''Logs'' | Clients \<Rightarrow> ''Clients'')"

definition descriptionFor :: "View \<Rightarrow> string" where
  "descriptionFor v = (case v of
       Overview \<Rightarrow> ''A PostgreSQL-backed operational surface for service health, traffic, and storage state.''
     | Cache \<Rightarrow> ''Inspect namespace usage and cached entry previews without mutating runtime data.''
     | Mq \<Rightarrow> ''Review queues and message previews while preserving delivery and acknowledgement state.''
     | Config \<Rightarrow> ''Manage scoped JSON drafts, publish immutable releases, and inspect release history.''
     | Logs \<Rightarrow> ''Trace persisted admin and service events from the server-side PostgreSQL log store.''
     | Clients \<Rightarrow> ''Observe Admin sessions and API method activity across SDK and console traffic.'')"

definition navItems :: "(View \<times> string) list" where
  "navItems = [(Overview, ''Overview''), (Cache, ''Cache''), (Mq, ''MQ''), (Config, ''Config''),
     (Logs, ''Logs''), (Clients, ''Clients'')]"

text \<open>\<open>s.trim()\<close>: white space at both ends.\<close>

definition is_js_space :: "char \<Rightarrow> bool" where
  "is_js_space c = (let n = of_char c :: int in 9 \<le> n \<and> n \<le> 13 \<or> n = 32 \<or> n = 160)"

definition js_trim :: "string \<Rightarrow> string" where
  "js_trim s = rev (dropWhile is_js_space (rev (dropWhile is_js_space s)))"

text \<open>The stored token, the view, and whether the console has a token.\<close>

record app_state =
  as_storage :: "string option"
  as_view :: View
  as_tokenReady :: bool

definition app_init :: "string option \<Rightarrow> app_state" where
  "app_init stored = \<lparr>as_storage = stored, as_view = Overview,
     as_tokenReady = (case stored of None \<Rightarrow> False | Some t \<Rightarrow> t \<noteq> [])\<rparr>"

definition setView :: "View \<Rightarrow> app_state \<Rightarrow> app_state" where
  "setView v a = a\<lparr>as_view := v\<rparr>"

text \<open>The \<open>onSubmit\<close> of the token prompt, with the content of its input.\<close>

definition submitToken :: "string \<Rightarrow> app_state \<Rightarrow> app_state" where
  "submitToken content a = (if js_trim content \<noteq> []
     then a\<lparr>as_storage := Some (js_trim content), as_tokenReady := True\<rparr> else a)"

definition TokenPrompt :: "string \<Rightarrow> element" where
  "TokenPrompt content = El ''section'' ''panel token-panel'' [
     El ''div'' ''panel-heading'' [El ''h2'' [] [Txt ''Admin token'']],
     El ''form'' ''token-form'' [Field ''Admin token'' content, Button [] [] SaveToken [Txt ''Save'']]]"


section \<open>What the views show\<close>

lemma StateMessage_no_actions [simp]: "actions (StateMessage s) = []"
  by (cases s) (simp_all add: StateMessage_def)

lemma DataTable_actions:
  "actions (DataTable columns rows noRows) = concat (map actions_of rows)"
proof -
  have "actions_of (map (\<lambda>cell. El ''td'' [] [cell]) row) = actions_of row" for row
    by (induction row) simp_all
  moreover have "actions_of (map (\<lambda>column. El ''th'' [] [Txt column]) columns) = []"
    by (induction columns) simp_all
  ultimately show ?thesis
    by (simp add: DataTable_def actions_of_map)
qed

lemma AsyncTable_actions:
  "actions (AsyncTable state columns mapRow noRows) =
     (case state of Ready page \<Rightarrow> concat (map (actions_of \<circ> mapRow) (pg_items page)) | _ \<Rightarrow> [])"
  by (cases state) (simp_all add: AsyncTable_def DataTable_actions comp_def)

lemma panel_actions [simp]: "actions (panel heading body) = actions_of body"
  by (simp add: panel_def)

lemma js_trim_idem [simp]: "js_trim (js_trim s) = js_trim s"
proof -
  let ?d = "dropWhile is_js_space"
  have d: "?d xs = [] \<or> \<not> is_js_space (hd (?d xs))" for xs
    using hd_dropWhile [of is_js_space xs] by blast
  define r where "r = ?d (rev (?d s))"
  have "?d (rev r) = rev r"
  proof (cases "rev r")
    case (Cons c cs)
    have "\<exists>ws. rev (?d s) = ws @ r" unfolding r_def by (metis takeWhile_dropWhile_id)
    then obtain ws where "?d s = rev r @ rev ws" by (metis rev_append rev_rev_ident)
    with d [of s] Cons have "\<not> is_js_space c" by simp
    with Cons show ?thesis by simp
  qed simp
  moreover have "?d r = r" using d [of "rev (?d s)"] unfolding r_def by (cases "?d (rev (?d s))") simp_all
  ultimately show ?thesis by (simp add: js_trim_def r_def [symmetric])
qed

text \<open>Exact sums: while the partial sums are integers a double holds, nothing is rounded.\<close>

lemma foldl_js_add:
  assumes "\<forall>m \<in> set ms. 0 \<le> mm_errors m" "0 \<le> acc" "acc + sum_list (map mm_errors ms) \<le> 9007199254740992"
  shows "foldl (\<lambda>total metric. js_add total (mm_errors metric)) acc ms = acc + sum_list (map mm_errors ms)"
  using assms
proof (induction ms arbitrary: acc)
  case (Cons m ms)
  have "0 \<le> sum_list (map mm_errors ms)" using Cons.prems(1) by (intro sum_list_nonneg) auto
  with Cons.prems have "js_add acc (mm_errors m) = acc + mm_errors m"
    by (simp add: js_add_def to_double_def)
  with Cons show ?case by (simp add: add.assoc)
qed simp

end
