(* ===== verification/Validation.thy ===== *)
theory Validation
  imports Prelude
begin

text \<open>
  The argument checks of the server, \<open>crates/pgapp-core/src/validation.rs\<close>: identifiers (names
  of namespaces, queues, config scopes and clients), cache and config keys, quantities and
  durations. Every check returns its error as a value. The lemmas say what a valid identifier
  looks like; the admin console relies on it when it builds paths and scope ids.
\<close>


section \<open>Checks\<close>

text \<open>
  \<open>PgAppError\<close> of \<open>error.rs\<close>. A database error carries what went wrong instead of the text the
  driver makes of it, or the text that the code gives it itself.
\<close>

datatype db_error = DatetimeValueOutOfRange | UniqueViolation | NumericValueOutOfRange | InvalidParameterValue
  | InvalidRowCountInLimit | InvalidJsonText | OwnText string

datatype pg_error = InvalidArgument string | NotFound string | Conflict string | Timeout string
  | DatabaseUnavailable string | Database db_error | ServiceUnavailable string

definition MAX_IDENTIFIER_LEN :: nat where "MAX_IDENTIFIER_LEN = 128"
definition MAX_CACHE_KEY_LEN :: nat where "MAX_CACHE_KEY_LEN = 1024"
definition MAX_CONFIG_KEY_LEN :: nat where "MAX_CONFIG_KEY_LEN = 256"

text \<open>\<open>trim\<close> removes the white space of Unicode, of which these are below U+0100.\<close>

definition is_whitespace :: "char \<Rightarrow> bool" where
  "is_whitespace c = (let n = of_char c :: int in 9 \<le> n \<and> n \<le> 13 \<or> n = 32 \<or> n = 133 \<or> n = 160)"

definition is_ascii_alphabetic :: "char \<Rightarrow> bool" where
  "is_ascii_alphabetic c = (let n = of_char c :: int in 65 \<le> n \<and> n \<le> 90 \<or> 97 \<le> n \<and> n \<le> 122)"

definition is_ascii_alphanumeric :: "char \<Rightarrow> bool" where
  "is_ascii_alphanumeric c = (is_ascii_alphabetic c \<or> is_digit c)"

text \<open>\<open>value.len()\<close> counts the bytes of the UTF-8 text.\<close>

definition validate_identifier :: "string \<Rightarrow> string \<Rightarrow> pg_error + unit" where
  "validate_identifier field text =
     (if text = [] then Inl (InvalidArgument (field @ '' must not be empty''))
      else if MAX_IDENTIFIER_LEN < length (utf8 text)
      then Inl (InvalidArgument (field @ '' exceeds '' @ dec (int MAX_IDENTIFIER_LEN) @ '' bytes''))
      else if \<not> (is_ascii_alphabetic (hd text) \<or> hd text = CHR ''_'')
      then Inl (InvalidArgument (field @ '' must start with an ASCII letter or underscore''))
      else if \<not> list_all (\<lambda>c. is_ascii_alphanumeric c \<or> c = CHR ''_'' \<or> c = CHR ''-'') (tl text)
      then Inl (InvalidArgument (field @ '' may only contain ASCII letters, digits, underscore, or dash''))
      else Inr ())"

definition validate_namespace :: "string \<Rightarrow> pg_error + unit" where
  "validate_namespace namespace = validate_identifier ''namespace'' namespace"

definition validate_queue_name :: "string \<Rightarrow> pg_error + unit" where
  "validate_queue_name queue_name = validate_identifier ''queue_name'' queue_name"

definition validate_config_component :: "string \<Rightarrow> string \<Rightarrow> pg_error + unit" where
  "validate_config_component field text = validate_identifier field text"

definition validate_config_key :: "string \<Rightarrow> pg_error + unit" where
  "validate_config_key key =
     (if MAX_CONFIG_KEY_LEN < length (utf8 key)
      then Inl (InvalidArgument (''config key exceeds '' @ dec (int MAX_CONFIG_KEY_LEN) @ '' bytes''))
      else validate_identifier ''config_key'' key)"

definition validate_cache_key :: "string \<Rightarrow> pg_error + unit" where
  "validate_cache_key key =
     (if key = [] then Inl (InvalidArgument ''cache key must not be empty'')
      else if MAX_CACHE_KEY_LEN < length (utf8 key)
      then Inl (InvalidArgument (''cache key exceeds '' @ dec (int MAX_CACHE_KEY_LEN) @ '' bytes''))
      else Inr ())"

definition validate_quantity :: "int \<Rightarrow> int \<Rightarrow> pg_error + int" where
  "validate_quantity quantity limit =
     (if quantity \<le> 0 then Inl (InvalidArgument ''quantity must be greater than zero'')
      else if limit < quantity
      then Inl (InvalidArgument (''quantity must be less than or equal to '' @ dec limit))
      else Inr quantity)"

definition validate_non_negative_seconds :: "string \<Rightarrow> int \<Rightarrow> pg_error + int" where
  "validate_non_negative_seconds field seconds =
     (if seconds < 0 then Inl (InvalidArgument (field @ '' must not be negative'')) else Inr seconds)"


section \<open>Valid identifiers\<close>

text \<open>What all characters of a valid identifier are, and that they are all ASCII.\<close>

definition ident_char :: "char \<Rightarrow> bool" where
  "ident_char c \<longleftrightarrow> is_ascii_alphanumeric c \<or> c = CHR ''_'' \<or> c = CHR ''-''"

lemma ident_char_ascii: "ident_char c \<Longrightarrow> (of_char c :: int) < 128"
  by (auto simp: ident_char_def is_ascii_alphanumeric_def is_ascii_alphabetic_def is_digit_def
      digit_val_def Let_def split: if_splits)

lemma utf8_ascii: "list_all (\<lambda>c. (of_char c :: int) < 128) s \<Longrightarrow> length (utf8 s) = length s"
  by (induction s) (auto simp: Let_def)

lemma validate_identifier_chars:
  assumes "validate_identifier field s = Inr ()"
  shows "s \<noteq> [] \<and> list_all ident_char s \<and> length s \<le> 128"
proof -
  from assms obtain c cs where s: "s = c # cs" by (cases s) (auto simp: validate_identifier_def)
  with assms have *: "is_ascii_alphabetic c \<or> c = CHR ''_''" "list_all ident_char cs"
      "length (utf8 s) \<le> 128"
    by (auto simp: validate_identifier_def ident_char_def [abs_def] MAX_IDENTIFIER_LEN_def split: if_splits
        simp del: utf8.simps)
  then have "list_all ident_char s" by (auto simp: s ident_char_def is_ascii_alphanumeric_def)
  moreover from this have "length (utf8 s) = length s"
    by (intro utf8_ascii) (auto simp: list_all_iff ident_char_ascii)
  ultimately show ?thesis using * s by simp
qed

text \<open>Characters that end a segment of a path, a query or a scope id are not among them.\<close>

lemma ident_char_delims [simp]:
  "\<not> ident_char (CHR ''/'')" "\<not> ident_char (CHR ''?'')" "\<not> ident_char (CHR ''#'')"
  "\<not> ident_char (CHR ''%'')" "\<not> ident_char (CHR ''&'')" "\<not> ident_char (CHR ''='')"
  "\<not> ident_char (CHR '','')"
  by code_simp+

lemma ident_no_slash: "validate_identifier field s = Inr () \<Longrightarrow> CHR ''/'' \<notin> set s"
  using validate_identifier_chars [of field s] by (auto simp: list_all_iff)

text \<open>
  The limit of 256 bytes on config keys is never the one that decides: the key is an identifier
  too, and those end at 128 bytes.
\<close>

lemma validate_config_key_ident:
  assumes "validate_config_key key = Inr ()"
  shows "key \<noteq> [] \<and> list_all ident_char key \<and> length key \<le> 128"
  using assms validate_identifier_chars [of "''config_key''" key]
  by (simp add: validate_config_key_def split: if_splits)

end
