(* ===== verification/Admin_Mq.thy ===== *)
theory Admin_Mq
  imports Admin_Views Validation
begin

text \<open>
  \<open>MqView\<close> of \<open>apps/admin-ui/src/App.tsx\<close>: the queues, the messages and dead letters of the
  first queue, and the two actions on dead letters. The lemmas say which requests the view
  makes, that queue names the server accepts stay one segment of the path, and which buttons it
  offers.
\<close>


section \<open>Data and loads\<close>

record UiQueueSummary =
  qs_name :: string
  qs_visible_message_count :: int
  qs_in_flight_message_count :: int
  qs_archived_message_count :: int

record UiQueueMessage =
  qm_queue_name :: string
  qm_message_id :: int
  qm_read_count :: int
  qm_payload_preview :: string

record UiDlqMessage =
  dm_id :: int
  dm_original_message_id :: int
  dm_read_count :: int
  dm_enqueued_at :: string
  dm_dead_lettered_at :: string
  dm_payload :: json
  dm_reason :: string

definition queuesPath :: string where
  "queuesPath = ''/api/admin/mq/queues?limit=50&offset=0''"

text \<open>\<open>queues.data.items[0]?.name\<close> once the queues are loaded.\<close>

definition selectedQueue :: "UiQueueSummary Page LoadState \<Rightarrow> string option" where
  "selectedQueue queues = (case queues of
       Ready page \<Rightarrow> (case pg_items page of [] \<Rightarrow> None | q # _ \<Rightarrow> Some (qs_name q)) | _ \<Rightarrow> None)"

text \<open>\<open>if (!selectedQueue)\<close>: \<open>undefined\<close> and the empty string are falsy.\<close>

definition chosen :: "string option \<Rightarrow> bool" where
  "chosen q = (case q of None \<Rightarrow> False | Some name \<Rightarrow> name \<noteq> [])"

definition emptyPage :: json where
  "emptyPage = JObj [(''items'', JArr []), (''limit'', JNum (IntNum 50)), (''offset'', JNum (IntNum 0)),
     (''next_offset'', JNull)]"

definition messagesPath :: "string \<Rightarrow> string" where
  "messagesPath queue = ''/api/admin/mq/queues/'' @ queue @ ''/messages?limit=50&offset=0''"

definition dlqPath :: "string \<Rightarrow> string" where
  "dlqPath queue = ''/api/admin/mq/queues/'' @ queue @ ''/dlq?limit=50&offset=0''"

text \<open>The factories of the two loads that depend on the selected queue.\<close>

definition loadMessages :: "'n fetch \<Rightarrow> string option \<Rightarrow> string option \<Rightarrow> 'n \<Rightarrow> json result \<times> 'n" where
  "loadMessages fetch token queue n = (if \<not> chosen queue then (Inr emptyPage, n)
     else fetchJson fetch token (messagesPath (the queue)) no_init n)"

definition loadDlq :: "'n fetch \<Rightarrow> string option \<Rightarrow> string option \<Rightarrow> 'n \<Rightarrow> json result \<times> 'n" where
  "loadDlq fetch token queue n = (if \<not> chosen queue then (Inr emptyPage, n)
     else fetchJson fetch token (dlqPath (the queue)) no_init n)"


section \<open>Actions\<close>

text \<open>
  The state of the view is its feedback line. An action clears it, sends its request and then
  reports the outcome.
\<close>

definition reprocessPath :: "string \<Rightarrow> int \<Rightarrow> string" where
  "reprocessPath queue messageId =
     ''/api/admin/mq/queues/'' @ queue @ ''/dlq/'' @ show_int messageId @ ''/reprocess''"

definition reprocessDlq ::
  "'n fetch \<Rightarrow> string option \<Rightarrow> string option \<Rightarrow> int \<Rightarrow> string \<times> 'n \<Rightarrow> string \<times> 'n" where
  "reprocessDlq fetch token queue messageId s = (if \<not> chosen queue then s
     else case postAction fetch token (reprocessPath (the queue) messageId) (snd s) of
       (Inr _, n) \<Rightarrow> (''Reprocessed '' @ show_int messageId, n)
     | (Inl error, n) \<Rightarrow> (errorMessage error, n))"

definition purgePath :: "string \<Rightarrow> string" where
  "purgePath queue = ''/api/admin/mq/queues/'' @ queue @ ''/dlq/purge''"

definition purgeDlq :: "'n fetch \<Rightarrow> string option \<Rightarrow> string option \<Rightarrow> string \<times> 'n \<Rightarrow> string \<times> 'n" where
  "purgeDlq fetch token queue s = (if \<not> chosen queue then s
     else case postAction fetch token (purgePath (the queue)) (snd s) of
       (answer, n) \<Rightarrow> (case bindE answer (getProp ''deleted_count'') of
            Inr count \<Rightarrow> (''Purged '' @ opt_text count, n)
          | Inl error \<Rightarrow> (errorMessage error, n)))"


section \<open>Rendering\<close>

text \<open>\<open>s.includes(t)\<close>.\<close>

fun js_includes :: "string \<Rightarrow> string \<Rightarrow> bool" where
  "js_includes [] t = (t = [])"
| "js_includes (c # cs) t = (take (length t) (c # cs) = t \<or> js_includes cs t)"

definition MqView ::
  "UiQueueSummary Page LoadState \<Rightarrow> UiQueueMessage Page LoadState \<Rightarrow> UiDlqMessage Page LoadState \<Rightarrow>
   string \<Rightarrow> element" where
  "MqView queues messages dlq feedback = El ''div'' ''stack'' [
     El ''div'' ''split'' [
       panel ''Queues'' [AsyncTable queues [''queue'', ''visible'', ''in-flight'', ''archived'']
         (\<lambda>row. [Txt (qs_name row), Txt (show_int (qs_visible_message_count row)),
            Txt (show_int (qs_in_flight_message_count row)), Txt (show_int (qs_archived_message_count row))])
         ''No queues''],
       panel ''Messages'' [AsyncTable messages [''id'', ''queue'', ''reads'', ''payload'']
         (\<lambda>row. [Txt (show_int (qm_message_id row)), Txt (qm_queue_name row),
            Txt (show_int (qm_read_count row)), Txt (qm_payload_preview row)])
         ''No messages'']],
     El ''section'' ''panel'' (
       El ''div'' ''panel-heading'' (El ''h2'' [] [Txt ''Dead letters''] #
         (if chosen (selectedQueue queues)
          then [Button (''Purge DLQ for '' @ the (selectedQueue queues)) ''icon-button'' PurgeDlq
                  [El ''span'' [] [Txt ''Purge'']]] else [])) #
       (case dlq of
          Ready page \<Rightarrow> DataTable [''original id'', ''reads'', ''reason'', ''payload'', ''action'']
            (map (\<lambda>message. [Txt (show_int (dm_original_message_id message)), Txt (show_int (dm_read_count message)),
               Txt (dm_reason message), Txt (stringify (dm_payload message)),
               Button (''Reprocess DLQ message '' @ show_int (dm_original_message_id message)) ''icon-button''
                 (ReprocessDlq (dm_original_message_id message)) [El ''span'' [] [Txt ''Reprocess'']]])
              (pg_items page)) ''No dead letters''
        | _ \<Rightarrow> StateMessage dlq) #
       (if feedback \<noteq> []
        then [El ''p'' (if js_includes feedback ''failed'' then ''state error compact panel-feedback''
                else ''state compact panel-feedback'') [Txt feedback]] else []))]"


section \<open>Paths of valid queues\<close>

text \<open>The segments of a path, up to the query.\<close>

fun segments :: "string \<Rightarrow> string list" where
  "segments [] = [[]]"
| "segments (c # cs) = (if c = CHR ''?'' then [[]]
     else if c = CHR ''/'' then [] # segments cs
     else (case segments cs of [] \<Rightarrow> [[c]] | w # ws \<Rightarrow> (c # w) # ws))"

lemma segments_Nil [simp]: "segments s \<noteq> []"
  by (induction s) (auto split: list.splits)

lemma segments_word:
  assumes "list_all (\<lambda>c. c \<noteq> CHR ''/'' \<and> c \<noteq> CHR ''?'') w"
  shows "segments (w @ s) = (w @ hd (segments s)) # tl (segments s)"
  using assms
proof (induction w)
  case Nil
  then show ?case by simp
next
  case (Cons c w)
  then show ?case by simp
qed

lemma ident_word: "validate_identifier field w = Inr () \<Longrightarrow> list_all (\<lambda>c. c \<noteq> CHR ''/'' \<and> c \<noteq> CHR ''?'') w"
  using validate_identifier_chars [of field w] by (auto simp: list_all_iff)

lemma segments_prefix:
  "segments (''/api/admin/mq/queues/'' @ s) = [[], ''api'', ''admin'', ''mq'', ''queues''] @ segments s"
  by simp

lemma queue_segments:
  assumes "validate_queue_name queue = Inr ()"
  shows "segments (''/api/admin/mq/queues/'' @ queue @ CHR ''/'' # s) =
     [[], ''api'', ''admin'', ''mq'', ''queues'', queue] @ segments s"
  using assms segments_word [OF ident_word, of "''queue_name''" queue "CHR ''/'' # s"]
  unfolding segments_prefix by (simp add: validate_queue_name_def)

lemma messagesPath_segments:
  "validate_queue_name queue = Inr () \<Longrightarrow>
   segments (messagesPath queue) = [[], ''api'', ''admin'', ''mq'', ''queues'', queue, ''messages'']"
  using queue_segments [of queue "''messages?limit=50&offset=0''"] by (simp add: messagesPath_def)

lemma dlqPath_segments:
  "validate_queue_name queue = Inr () \<Longrightarrow>
   segments (dlqPath queue) = [[], ''api'', ''admin'', ''mq'', ''queues'', queue, ''dlq'']"
  using queue_segments [of queue "''dlq?limit=50&offset=0''"] by (simp add: dlqPath_def)

lemma purgePath_segments:
  "validate_queue_name queue = Inr () \<Longrightarrow>
   segments (purgePath queue) = [[], ''api'', ''admin'', ''mq'', ''queues'', queue, ''dlq'', ''purge'']"
  using queue_segments [of queue "''dlq/purge''"] by (simp add: purgePath_def)

lemma dec_digits: "list_all (\<lambda>c. c \<noteq> CHR ''/'' \<and> c \<noteq> CHR ''?'') (dec v)"
proof -
  have "\<not> is_digit (CHR ''/'')" "\<not> is_digit (CHR ''?'')" by code_simp+
  then show ?thesis
    using dec_pos_digits [of v] dec_pos_digits [of "- v"] by (auto simp: dec_def list_all_iff)
qed

lemma reprocessPath_segments:
  assumes "validate_queue_name queue = Inr ()" "safe_int messageId"
  shows "segments (reprocessPath queue messageId) =
     [[], ''api'', ''admin'', ''mq'', ''queues'', queue, ''dlq'', dec messageId, ''reprocess'']"
proof -
  have "segments (dec messageId @ ''/reprocess'') = [dec messageId, ''reprocess'']"
    by (subst segments_word [OF dec_digits]) simp
  with queue_segments [OF assms(1), of "''dlq/'' @ dec messageId @ ''/reprocess''"] assms(2)
  show ?thesis by (simp add: reprocessPath_def show_int_def)
qed


section \<open>Buttons\<close>

lemma MqView_actions:
  "actions (MqView queues messages dlq feedback) =
     (if chosen (selectedQueue queues) then [PurgeDlq] else []) @
     (case dlq of Ready page \<Rightarrow> map (\<lambda>m. ReprocessDlq (dm_original_message_id m)) (pg_items page) | _ \<Rightarrow> [])"
proof -
  have text_only: "concat (map (\<lambda>x. []) xs) = []" for xs by (induction xs) simp_all
  show ?thesis
    by (cases queues; cases messages; cases dlq)
      (simp_all add: MqView_def AsyncTable_actions DataTable_actions comp_def text_only)
qed

end
