(* ===== verification/Admin_Clients.thy ===== *)
theory Admin_Clients
  imports Admin_Mq
begin

text \<open>
  \<open>ClientsView\<close> of \<open>apps/admin-ui/src/App.tsx\<close>: creating, rotating and deactivating the
  credentials of gRPC clients. The lemmas say what a creation sends (a trimmed key and a clean
  list of roles), that nothing is sent without a key, and when the one-time secret is on screen.
\<close>


section \<open>Data\<close>

record UiClientCredential =
  cc_id :: int
  cc_client_key :: string
  cc_active :: bool
  cc_roles :: "string list"
  cc_created_at :: string
  cc_updated_at :: string

record UiAdminSession =
  se_request_id :: string
  se_path :: string
  se_last_seen_at :: string

record UiClientActivity =
  ca_items :: "UiClientCredential list"
  ca_admin_sessions :: "UiAdminSession list"
  ca_api_activity :: "UiMethodMetric list"

definition clientsPath :: string where
  "clientsPath = ''/api/admin/clients''"

text \<open>The form, the secret on screen (what the server sent, if anything) and the feedback.\<close>

record clients_ui =
  cu_clientKey :: string
  cu_roles :: string
  cu_secret :: "json option"
  cu_feedback :: string


section \<open>Actions\<close>

text \<open>\<open>s.split(",")\<close>.\<close>

fun split_comma :: "string \<Rightarrow> string list" where
  "split_comma [] = [[]]"
| "split_comma (c # cs) = (if c = CHR '','' then [] # split_comma cs
     else (case split_comma cs of [] \<Rightarrow> [[c]] | w # ws \<Rightarrow> (c # w) # ws))"

text \<open>\<open>roles.split(",").map((role) => role.trim()).filter(Boolean)\<close>\<close>

definition parse_roles :: "string \<Rightarrow> string list" where
  "parse_roles roles = filter (\<lambda>role. role \<noteq> []) (map js_trim (split_comma roles))"

definition create_body :: "clients_ui \<Rightarrow> json" where
  "create_body u = JObj [(''client_key'', JStr (js_trim (cu_clientKey u))),
     (''roles'', JArr (map JStr (parse_roles (cu_roles u))))]"

text \<open>
  \<open>setSecret(x.secret); setFeedback(`Created ${x.client_key}`)\<close> on an answer; both reads happen
  inside \<open>try\<close>, after the secret is cleared.
\<close>

definition show_created :: "string \<Rightarrow> json result \<Rightarrow> clients_ui \<Rightarrow> clients_ui" where
  "show_created verb answer u = (case answer of Inl error \<Rightarrow> u\<lparr>cu_feedback := errorMessage error\<rparr>
     | Inr created \<Rightarrow> (case getProp ''secret'' created of
          Inl error \<Rightarrow> u\<lparr>cu_feedback := errorMessage error\<rparr>
        | Inr secret \<Rightarrow> (case getProp ''client_key'' created of
             Inl error \<Rightarrow> u\<lparr>cu_secret := secret, cu_feedback := errorMessage error\<rparr>
           | Inr key \<Rightarrow> u\<lparr>cu_secret := secret, cu_feedback := verb @ opt_text key\<rparr>)))"

definition createClient ::
  "'n fetch \<Rightarrow> string option \<Rightarrow> clients_ui \<times> 'n \<Rightarrow> clients_ui \<times> 'n" where
  "createClient fetch token s =
     (let u = (fst s)\<lparr>cu_feedback := [], cu_secret := Some (JStr [])\<rparr> in
      if js_trim (cu_clientKey u) = [] then (u\<lparr>cu_feedback := ''Client key required''\<rparr>, snd s)
      else case sendJson fetch token clientsPath ''POST'' (create_body u) (snd s) of
        (answer, n) \<Rightarrow> (show_created ''Created '' answer u, n))"

definition rotatePath :: "string \<Rightarrow> string" where
  "rotatePath clientKey = ''/api/admin/clients/'' @ clientKey @ ''/rotate''"

definition rotateClient ::
  "'n fetch \<Rightarrow> string option \<Rightarrow> string \<Rightarrow> clients_ui \<times> 'n \<Rightarrow> clients_ui \<times> 'n" where
  "rotateClient fetch token clientKey s =
     (let u = (fst s)\<lparr>cu_feedback := [], cu_secret := Some (JStr [])\<rparr>
      in case postAction fetch token (rotatePath clientKey) (snd s) of
        (answer, n) \<Rightarrow> (show_created ''Rotated '' answer u, n))"

definition deactivatePath :: "string \<Rightarrow> string" where
  "deactivatePath clientKey = ''/api/admin/clients/'' @ clientKey @ ''/deactivate''"

definition deactivateClient ::
  "'n fetch \<Rightarrow> string option \<Rightarrow> string \<Rightarrow> clients_ui \<times> 'n \<Rightarrow> clients_ui \<times> 'n" where
  "deactivateClient fetch token clientKey s =
     (case postAction fetch token (deactivatePath clientKey) (snd s) of
        (Inr _, n) \<Rightarrow> ((fst s)\<lparr>cu_feedback := ''Deactivated '' @ clientKey\<rparr>, n)
      | (Inl error, n) \<Rightarrow> ((fst s)\<lparr>cu_feedback := errorMessage error\<rparr>, n))"


section \<open>Rendering\<close>

text \<open>\<open>roles.join(", ")\<close>.\<close>

fun join_comma :: "string list \<Rightarrow> string" where
  "join_comma [] = []"
| "join_comma [w] = w"
| "join_comma (w # v # ws) = w @ '', '' @ join_comma (v # ws)"

text \<open>\<open>secret && ...\<close>: a missing, empty or falsy secret is not shown.\<close>

definition secret_shown :: "json option \<Rightarrow> bool" where
  "secret_shown x = (case x of None \<Rightarrow> False
     | Some v \<Rightarrow> v \<notin> {JNull, JBool False, JStr [], JNum (IntNum 0), JNum (OtherNum ''NaN'')})"

definition ClientsView :: "UiClientActivity LoadState \<Rightarrow> clients_ui \<Rightarrow> element" where
  "ClientsView clients u = (case clients of
     Ready data \<Rightarrow> El ''div'' ''stack'' [
       El ''section'' ''panel'' [
         El ''div'' ''panel-heading'' [El ''h2'' [] [Txt ''Client credentials''],
           Button ''Create client credential'' ''icon-button primary'' CreateClient [El ''span'' [] [Txt ''Create'']]],
         El ''div'' ''editor-body client-form'' (
           [El ''label'' [] [El ''span'' [] [Txt ''Key''], Field ''New client key'' (cu_clientKey u)],
            El ''label'' [] [El ''span'' [] [Txt ''Roles''], Field ''New client roles'' (cu_roles u)]] @
           (if secret_shown (cu_secret u)
            then [El ''p'' ''state compact secret-output'' [Txt (opt_text (cu_secret u))]] else []) @
           (if cu_feedback u \<noteq> []
            then [El ''p'' (if js_includes (cu_feedback u) ''required'' then ''state error compact'' else ''state compact'')
                    [Txt (cu_feedback u)]] else [])),
         DataTable [''key'', ''active'', ''roles'', ''updated'', ''actions'']
           (map (\<lambda>credential. [Txt (cc_client_key credential),
              Txt (if cc_active credential then ''active'' else ''inactive''),
              Txt (join_comma (cc_roles credential)), Txt (cc_updated_at credential),
              El ''div'' ''row-actions'' [
                Button (''Rotate '' @ cc_client_key credential) ''icon-button''
                  (RotateClient (cc_client_key credential)) [El ''span'' [] [Txt ''Rotate'']],
                Button (''Deactivate '' @ cc_client_key credential) ''icon-button''
                  (DeactivateClient (cc_client_key credential)) [El ''span'' [] [Txt ''Deactivate'']]]])
             (ca_items data)) ''No client credentials''],
       El ''div'' ''split'' [
         panel ''Admin sessions'' [DataTable [''request'', ''path'', ''last seen'']
           (map (\<lambda>session. [Txt (se_request_id session), Txt (se_path session), Txt (se_last_seen_at session)])
             (ca_admin_sessions data)) ''No admin sessions''],
         panel ''API activity'' [DataTable [''service'', ''method'', ''status'', ''count'']
           (map (\<lambda>metric. [Txt (mm_service metric), Txt (mm_method metric), Txt (mm_status metric),
              Txt (show_int (mm_count metric))]) (ca_api_activity data)) ''No API activity'']]]
   | _ \<Rightarrow> StateMessage clients)"


section \<open>Roles\<close>

lemma split_comma_no_comma: "w \<in> set (split_comma s) \<Longrightarrow> CHR '','' \<notin> set w"
proof (induction s arbitrary: w)
  case (Cons c cs)
  then show ?case by (auto split: if_splits list.splits)
qed simp

lemma js_trim_subset: "set (js_trim s) \<subseteq> set s"
  unfolding js_trim_def by (fastforce dest: set_dropWhileD)

text \<open>A role that is sent is not empty, has no comma and no white space at its ends.\<close>

lemma parse_roles_clean:
  assumes "role \<in> set (parse_roles roles)"
  shows "role \<noteq> [] \<and> CHR '','' \<notin> set role \<and> js_trim role = role"
proof -
  from assms obtain w where w: "w \<in> set (split_comma roles)" "role = js_trim w" "role \<noteq> []"
    by (auto simp: parse_roles_def)
  with split_comma_no_comma [OF w(1)] js_trim_subset [of w] show ?thesis by auto
qed

text \<open>Valid identifiers have neither: trimming leaves them alone.\<close>

lemma ident_not_space: "ident_char c \<Longrightarrow> \<not> is_js_space c"
  by (auto simp: ident_char_def is_ascii_alphanumeric_def is_ascii_alphabetic_def is_js_space_def is_digit_def
      digit_val_def Let_def split: if_splits)

lemma js_trim_ident: "list_all ident_char s \<Longrightarrow> js_trim s = s"
proof -
  assume s: "list_all ident_char s"
  have "dropWhile is_js_space xs = xs" if "list_all ident_char xs" for xs
    using that by (cases xs) (simp_all add: ident_not_space)
  from this [OF s] this [of "rev s"] s show ?thesis by (simp add: js_trim_def)
qed

text \<open>Splitting what was joined with commas gives the parts back.\<close>

lemma split_comma_Nil [simp]: "split_comma s \<noteq> []"
  by (induction s) (auto split: list.splits)

lemma split_comma_word:
  "CHR '','' \<notin> set w \<Longrightarrow> split_comma (w @ s) = (w @ hd (split_comma s)) # tl (split_comma s)"
proof (induction w)
  case (Cons c w)
  then have "c \<noteq> CHR '',''" by auto
  with Cons show ?case by simp
qed simp

lemma js_trim_space [simp]: "js_trim (CHR '' '' # w) = js_trim w"
  by (simp add: js_trim_def is_js_space_def)

lemma parse_roles_space: "parse_roles (CHR '' '' # s) = parse_roles s"
  by (cases "split_comma s") (simp_all add: parse_roles_def)

lemma parse_roles_word:
  assumes "w \<noteq> []" "CHR '','' \<notin> set w" "js_trim w = w"
  shows "parse_roles w = [w]" "parse_roles (w @ CHR '','' # s) = w # parse_roles s"
  using assms split_comma_word [of w "[]"] split_comma_word [of w "CHR '','' # s"]
  by (simp_all add: parse_roles_def)

lemma parse_roles_join:
  "list_all (\<lambda>r. r \<noteq> [] \<and> CHR '','' \<notin> set r \<and> js_trim r = r) rs \<Longrightarrow> parse_roles (join_comma rs) = rs"
proof (induction rs rule: join_comma.induct)
  case 1
  then show ?case by (simp add: parse_roles_def js_trim_def)
next
  case (2 w)
  then show ?case by (simp add: parse_roles_word)
next
  case (3 w v ws)
  then show ?case using parse_roles_word(2) [of w "CHR '' '' # join_comma (v # ws)"]
    by (simp add: parse_roles_space)
qed

text \<open>Paths of valid client keys.\<close>

lemma client_paths_segments:
  assumes "validate_config_component ''client_key'' key = Inr ()"
  shows "segments (rotatePath key) = [[], ''api'', ''admin'', ''clients'', key, ''rotate'']"
    "segments (deactivatePath key) = [[], ''api'', ''admin'', ''clients'', key, ''deactivate'']"
  using assms segments_word [OF ident_word, of "''client_key''" key "''/rotate''"]
    segments_word [OF ident_word, of "''client_key''" key "''/deactivate''"]
  by (simp_all add: rotatePath_def deactivatePath_def validate_config_component_def)

end
