(* ===== verification/Query_Text.thy ===== *)
theory Query_Text
  imports Json
begin

text \<open>
  \<open>URLSearchParams.toString()\<close>, the form encoding of a query string, and its inverse, as a
  server reads the query. The round trip shows that no part of a name or a value can end its
  parameter early.
\<close>


section \<open>Encoding\<close>

text \<open>Bytes of the UTF-8 text: letters, digits and \<open>*-._\<close> stay, a blank is \<open>+\<close>, others are \<open>%XX\<close>.\<close>

definition form_safe :: "char \<Rightarrow> bool" where
  "form_safe c = (let n = of_char c :: int in 48 \<le> n \<and> n < 58 \<or> 65 \<le> n \<and> n < 91 \<or> 97 \<le> n \<and> n < 123 \<or>
     n = 42 \<or> n = 45 \<or> n = 46 \<or> n = 95)"

definition hex_upper :: "int \<Rightarrow> char" where
  "hex_upper d = (if d < 10 then digit d else char_of (55 + d))"

definition form_byte :: "byte \<Rightarrow> string" where
  "form_byte b = (let n = uint b in if n = 32 then ''+''
     else if form_safe (char_of n) then [char_of n]
     else [CHR ''%'', hex_upper (n div 16), hex_upper (n mod 16)])"

definition form_encode :: "string \<Rightarrow> string" where
  "form_encode s = concat (map form_byte (utf8 s))"

fun query_text :: "(string \<times> string) list \<Rightarrow> string" where
  "query_text [] = []"
| "query_text [(k, v)] = form_encode k @ ''='' @ form_encode v"
| "query_text ((k, v) # q # qs) = form_encode k @ ''='' @ form_encode v @ ''&'' @ query_text (q # qs)"


section \<open>Decoding\<close>

fun form_bytes :: "string \<Rightarrow> bytes option" where
  "form_bytes [] = Some []"
| "form_bytes (c # cs) =
     (if c = CHR ''+'' then map_option (Cons 32) (form_bytes cs)
      else if c = CHR ''%'' then
        (case cs of a # b # r \<Rightarrow> (case (hex_val a, hex_val b) of
             (Some h, Some l) \<Rightarrow> map_option (Cons (of_int (16 * h + l))) (form_bytes r) | _ \<Rightarrow> None)
         | _ \<Rightarrow> None)
      else map_option (Cons (of_int (of_char c))) (form_bytes cs))"

definition form_decode :: "string \<Rightarrow> string option" where
  "form_decode s = Option.bind (form_bytes s) unutf8"

fun split_at :: "char \<Rightarrow> string \<Rightarrow> string list" where
  "split_at d [] = [[]]"
| "split_at d (c # cs) = (if c = d then [] # split_at d cs
     else (case split_at d cs of [] \<Rightarrow> [[c]] | w # ws \<Rightarrow> (c # w) # ws))"

definition parse_param :: "string \<Rightarrow> (string \<times> string) option" where
  "parse_param s = (case (form_decode (takeWhile (\<lambda>c. c \<noteq> CHR ''='') s),
       form_decode (drop 1 (dropWhile (\<lambda>c. c \<noteq> CHR ''='') s))) of
     (Some k, Some v) \<Rightarrow> Some (k, v) | _ \<Rightarrow> None)"

fun all_some :: "'a option list \<Rightarrow> 'a list option" where
  "all_some [] = Some []"
| "all_some (x # xs) = (case x of None \<Rightarrow> None | Some a \<Rightarrow> map_option (Cons a) (all_some xs))"

definition parse_query :: "string \<Rightarrow> (string \<times> string) list option" where
  "parse_query s = all_some (map parse_param (split_at (CHR ''&'') s))"


section \<open>Round trip\<close>

lemma hex_val_upper: "0 \<le> d \<Longrightarrow> d < 16 \<Longrightarrow> hex_val (hex_upper d) = Some d"
  by (auto simp: hex_val_def hex_upper_def digit_def Let_def)

lemma uint_byte: "0 \<le> uint (b :: byte)" "uint b < 256"
  using uint_lt2p [of b] by simp_all

lemma form_safe_special: "\<not> form_safe (CHR ''+'')" "\<not> form_safe (CHR ''%'')" "\<not> form_safe (CHR ''&'')"
    "\<not> form_safe (CHR ''='')"
  by code_simp+

lemma form_bytes_byte: "form_bytes (form_byte b @ t) = map_option (Cons b) (form_bytes t)"
proof -
  consider "uint b = 32" | "uint b \<noteq> 32" "form_safe (char_of (uint b))"
    | "uint b \<noteq> 32" "\<not> form_safe (char_of (uint b))" by blast
  then show ?thesis
  proof cases
    case 1
    then have "b = 32" by (metis of_int_numeral word_of_int_uint)
    then show ?thesis by (simp add: form_byte_def)
  next
    case 2
    then have "char_of (uint b) \<noteq> CHR ''+''" "char_of (uint b) \<noteq> CHR ''%''"
      using form_safe_special by metis+
    moreover have "uint b mod 256 = uint b" using uint_byte [of b] by simp
    ultimately show ?thesis using 2 by (simp add: form_byte_def Let_def)
  next
    case 3
    have "0 \<le> uint b div 16" "uint b div 16 < 16"
      using uint_byte [of b] by (simp_all add: pos_imp_zdiv_nonneg_iff)
    then have "hex_val (hex_upper (uint b div 16)) = Some (uint b div 16)"
      "hex_val (hex_upper (uint b mod 16)) = Some (uint b mod 16)" by (simp_all add: hex_val_upper)
    moreover have "(of_int (16 * (uint b div 16) + uint b mod 16) :: byte) = b"
      by (simp only: mult_div_mod_eq word_of_int_uint)
    ultimately show ?thesis using 3 by (simp add: form_byte_def Let_def del: of_int_add of_int_mult)
  qed
qed

lemma form_bytes_encode: "form_bytes (concat (map form_byte bs)) = Some bs"
  by (induction bs) (simp_all add: form_bytes_byte)

lemma form_decode_encode [simp]: "form_decode (form_encode s) = Some s"
  by (simp add: form_decode_def form_encode_def form_bytes_encode)

lemma form_byte_chars:
  assumes "c \<in> set (form_byte b)"
  shows "c \<noteq> CHR ''&'' \<and> c \<noteq> CHR ''=''"
proof -
  have h: "hex_upper d \<noteq> CHR ''&'' \<and> hex_upper d \<noteq> CHR ''=''" if "0 \<le> d" "d < 16" for d
  proof -
    have "hex_val (CHR ''&'') = None" "hex_val (CHR ''='') = None" by code_simp+
    with hex_val_upper [OF that] show ?thesis by auto
  qed
  have "0 \<le> uint b div 16" "uint b div 16 < 16"
    using uint_byte [of b] by (simp_all add: pos_imp_zdiv_nonneg_iff)
  with assms h [of "uint b div 16"] h [of "uint b mod 16"] form_safe_special show ?thesis
    by (auto simp: form_byte_def Let_def split: if_splits)
qed

lemma form_encode_chars: "c \<in> set (form_encode s) \<Longrightarrow> c \<noteq> CHR ''&'' \<and> c \<noteq> CHR ''=''"
  using form_byte_chars by (auto simp: form_encode_def)

lemma parse_param_text: "parse_param (form_encode k @ CHR ''='' # form_encode v) = Some (k, v)"
proof -
  have "\<forall>c \<in> set (form_encode k). c \<noteq> CHR ''=''" using form_encode_chars by blast
  then have "takeWhile (\<lambda>c. c \<noteq> CHR ''='') (form_encode k @ CHR ''='' # form_encode v) = form_encode k"
    "dropWhile (\<lambda>c. c \<noteq> CHR ''='') (form_encode k @ CHR ''='' # form_encode v) = CHR ''='' # form_encode v"
    by (simp_all add: takeWhile_append dropWhile_append)
  then show ?thesis by (simp add: parse_param_def)
qed

lemma split_at_Nil [simp]: "split_at d s \<noteq> []"
  by (induction s) (auto split: list.splits)

lemma split_at_word: "d \<notin> set w \<Longrightarrow> split_at d (w @ s) = (w @ hd (split_at d s)) # tl (split_at d s)"
proof (induction w)
  case (Cons c w)
  then have "c \<noteq> d" by auto
  with Cons show ?case by simp
qed simp

lemma split_param:
  "split_at (CHR ''&'') (form_encode k @ CHR ''='' # form_encode v) = [form_encode k @ CHR ''='' # form_encode v]"
  "split_at (CHR ''&'') (form_encode k @ CHR ''='' # form_encode v @ CHR ''&'' # s) =
     (form_encode k @ CHR ''='' # form_encode v) # split_at (CHR ''&'') s"
proof -
  have "CHR ''&'' \<notin> set (form_encode k @ CHR ''='' # form_encode v)" using form_encode_chars by auto
  from split_at_word [OF this, of "[]"] split_at_word [OF this, of "CHR ''&'' # s"]
  show "split_at (CHR ''&'') (form_encode k @ CHR ''='' # form_encode v) = [form_encode k @ CHR ''='' # form_encode v]"
    "split_at (CHR ''&'') (form_encode k @ CHR ''='' # form_encode v @ CHR ''&'' # s) =
       (form_encode k @ CHR ''='' # form_encode v) # split_at (CHR ''&'') s"
    by simp_all
qed

lemma parse_query_text: "ps \<noteq> [] \<Longrightarrow> parse_query (query_text ps) = Some ps"
proof (induction ps rule: query_text.induct)
  case (2 k v)
  then show ?case by (simp add: parse_query_def split_param parse_param_text)
next
  case (3 k v q qs)
  then show ?case by (simp add: parse_query_def split_param parse_param_text)
qed simp

end
