(* ===== verification/Admin_Config.thy ===== *)
theory Admin_Config
  imports Admin_Clients Query_Text
begin

text \<open>
  \<open>ConfigView\<close>, \<open>ScopeList\<close> and \<open>ConfigDetails\<close> of \<open>apps/admin-ui/src/App.tsx\<close>: choosing a
  configuration scope, editing its draft and its JSON schema, publishing a release. The lemmas
  say which scope is on screen, what the query of a scope means to the server, what each action
  sends and when it sends nothing, and that the editor shows the stored value without loss.
\<close>


section \<open>Data\<close>

record UiConfigScope =
  sc_app_id :: string
  sc_environment :: string
  sc_cluster :: string
  sc_namespace :: string

record UiConfigScopeSummary =
  ss_scope :: UiConfigScope
  ss_current_revision :: int

record UiConfigDraftItem =
  di_key :: string
  di_value :: json
  di_deleted :: bool
  di_updated_at :: string

record UiConfigDraft =
  dr_scope :: UiConfigScope
  dr_items :: "UiConfigDraftItem list"

record UiConfigRelease =
  re_scope :: UiConfigScope
  re_revision :: int
  re_checksum :: string
  re_snapshot :: json
  re_message :: string
  re_published_by :: string
  re_published_at :: string

record UiConfigSchema =
  cs_scope :: UiConfigScope
  cs_has_schema :: bool
  cs_schema :: json

definition scopesPath :: string where
  "scopesPath = ''/api/admin/config/scopes?limit=50&offset=0''"

definition scope_params :: "UiConfigScope \<Rightarrow> (string \<times> string) list" where
  "scope_params scope = [(''app_id'', sc_app_id scope), (''environment'', sc_environment scope),
     (''cluster'', sc_cluster scope), (''namespace'', sc_namespace scope)]"

definition scopeQuery :: "UiConfigScope \<Rightarrow> string" where
  "scopeQuery scope = query_text (scope_params scope)"

definition scopeId :: "UiConfigScope \<Rightarrow> string" where
  "scopeId scope = sc_app_id scope @ ''/'' @ sc_environment scope @ ''/'' @ sc_cluster scope @ ''/'' @
     sc_namespace scope"

definition scope_json :: "UiConfigScope \<Rightarrow> json" where
  "scope_json scope = JObj (map (\<lambda>(k, v). (k, JStr v)) (scope_params scope))"


section \<open>The choice of a scope\<close>

definition selectedScope :: "UiConfigScopeSummary list \<Rightarrow> string \<Rightarrow> UiConfigScope option" where
  "selectedScope items selectedScopeId =
     (case find (\<lambda>item. scopeId (ss_scope item) = selectedScopeId) items of
        Some item \<Rightarrow> Some (ss_scope item)
      | None \<Rightarrow> (case items of [] \<Rightarrow> None | item # _ \<Rightarrow> Some (ss_scope item)))"

definition ScopeList :: "UiConfigScopeSummary list \<Rightarrow> string \<Rightarrow> element" where
  "ScopeList scopes selected = (if scopes = [] then El ''p'' ''empty'' [Txt ''No config scopes'']
     else El ''div'' ''scope-list'' (map (\<lambda>item. let scopeid = scopeId (ss_scope item) in
       Button (''Select scope '' @ sc_app_id (ss_scope item))
         (if scopeid = selected then ''scope-row active'' else ''scope-row'') (SelectScope scopeid)
         [El ''strong'' [] [Txt (sc_app_id (ss_scope item))], El ''span'' [] [Txt (sc_environment (ss_scope item))],
          El ''span'' [] [Txt (sc_cluster (ss_scope item))], El ''span'' [] [Txt (sc_namespace (ss_scope item))],
          El ''small'' [] [Txt (''Revision '' @ show_int (ss_current_revision item))]]) scopes))"

definition ConfigView ::
  "UiConfigScopeSummary Page LoadState \<Rightarrow> string \<Rightarrow> (UiConfigScope \<Rightarrow> element) \<Rightarrow> element" where
  "ConfigView scopes selectedScopeId details = (case scopes of
     Ready page \<Rightarrow> (case selectedScope (pg_items page) selectedScopeId of
         None \<Rightarrow> panel ''Scopes'' [El ''p'' ''empty'' [Txt ''No config scopes'']]
       | Some selected \<Rightarrow> El ''div'' ''config-layout''
           [panel ''Scopes'' [ScopeList (pg_items page) (scopeId selected)], details selected])
   | _ \<Rightarrow> StateMessage scopes)"


section \<open>The editor\<close>

record details_ui =
  du_selectedKey :: string
  du_jsonValue :: string
  du_schemaValue :: string
  du_feedback :: string

definition blankEditor :: string where
  "blankEditor = ''{'' @ [CHR 0x0A] @ ''}''"

definition details_init :: details_ui where
  "details_init = \<lparr>du_selectedKey = [], du_jsonValue = blankEditor, du_schemaValue = blankEditor,
     du_feedback = []\<rparr>"

definition draftPath :: "UiConfigScope \<Rightarrow> string" where
  "draftPath scope = ''/api/admin/config/draft?'' @ scopeQuery scope"

definition releasesPath :: "UiConfigScope \<Rightarrow> string" where
  "releasesPath scope = ''/api/admin/config/releases?'' @ scopeQuery scope"

definition schemaPath :: "UiConfigScope \<Rightarrow> string" where
  "schemaPath scope = ''/api/admin/config/schema?'' @ scopeQuery scope"

text \<open>The effect that runs when the draft has loaded or its items have changed.\<close>

definition first_item :: "UiConfigDraftItem list \<Rightarrow> UiConfigDraftItem option" where
  "first_item items = (case find (\<lambda>item. \<not> di_deleted item) items of Some item \<Rightarrow> Some item
     | None \<Rightarrow> (case items of [] \<Rightarrow> None | item # _ \<Rightarrow> Some item))"

definition draft_effect :: "UiConfigDraft LoadState \<Rightarrow> details_ui \<Rightarrow> details_ui" where
  "draft_effect draft u = (case draft of
     Ready data \<Rightarrow> (case first_item (dr_items data) of
         None \<Rightarrow> u\<lparr>du_selectedKey := [], du_jsonValue := blankEditor\<rparr>
       | Some item \<Rightarrow> u\<lparr>du_selectedKey := di_key item, du_jsonValue := pretty 0 (di_value item)\<rparr>)
   | _ \<Rightarrow> u)"

definition schema_effect :: "UiConfigSchema LoadState \<Rightarrow> details_ui \<Rightarrow> details_ui" where
  "schema_effect schema u = (case schema of
     Ready data \<Rightarrow> u\<lparr>du_schemaValue := (if cs_has_schema data then pretty 0 (cs_schema data) else blankEditor)\<rparr>
   | _ \<Rightarrow> u)"

text \<open>The report of an action: a fixed text, or the message of the error.\<close>

definition report :: "string \<Rightarrow> json result \<Rightarrow> string" where
  "report done answer = (case answer of Inr _ \<Rightarrow> done | Inl error \<Rightarrow> errorMessage error)"

definition item_body :: "UiConfigScope \<Rightarrow> string \<Rightarrow> json \<Rightarrow> json" where
  "item_body scope key parsed =
     JObj [(''scope'', scope_json scope), (''key'', JStr (js_trim key)), (''value'', parsed)]"

definition saveItem ::
  "'n fetch \<Rightarrow> string option \<Rightarrow> UiConfigScope \<Rightarrow> details_ui \<times> 'n \<Rightarrow> details_ui \<times> 'n" where
  "saveItem fetch token scope s = (case s of (u, n) \<Rightarrow>
     (case JSON_parse (du_jsonValue u) of
        Inl _ \<Rightarrow> (u\<lparr>du_feedback := ''Invalid JSON''\<rparr>, n)
      | Inr parsed \<Rightarrow>
          if js_trim (du_selectedKey u) = [] then (u\<lparr>du_feedback := ''Key required''\<rparr>, n)
          else case sendJson fetch token ''/api/admin/config/items'' ''PUT''
                 (item_body scope (du_selectedKey u) parsed) n of
            (answer, n') \<Rightarrow> (u\<lparr>du_feedback := report ''Draft saved'' answer\<rparr>, n')))"

definition saveSchema ::
  "'n fetch \<Rightarrow> string option \<Rightarrow> UiConfigScope \<Rightarrow> details_ui \<times> 'n \<Rightarrow> details_ui \<times> 'n" where
  "saveSchema fetch token scope s = (case s of (u, n) \<Rightarrow>
     (case JSON_parse (du_schemaValue u) of
        Inl _ \<Rightarrow> (u\<lparr>du_feedback := ''Invalid JSON Schema''\<rparr>, n)
      | Inr parsed \<Rightarrow> (case sendJson fetch token ''/api/admin/config/schema'' ''PUT''
             (JObj [(''scope'', scope_json scope), (''schema'', parsed)]) n of
          (answer, n') \<Rightarrow> (u\<lparr>du_feedback := report ''Schema saved'' answer\<rparr>, n'))))"

definition removeSchema ::
  "'n fetch \<Rightarrow> string option \<Rightarrow> UiConfigScope \<Rightarrow> details_ui \<times> 'n \<Rightarrow> details_ui \<times> 'n" where
  "removeSchema fetch token scope s = (case s of (u, n) \<Rightarrow>
     (case deleteAction fetch token (schemaPath scope) n of
        (Inr _, n') \<Rightarrow> (u\<lparr>du_schemaValue := blankEditor, du_feedback := ''Schema removed''\<rparr>, n')
      | (Inl error, n') \<Rightarrow> (u\<lparr>du_feedback := errorMessage error\<rparr>, n')))"

definition publish ::
  "'n fetch \<Rightarrow> string option \<Rightarrow> UiConfigScope \<Rightarrow> details_ui \<times> 'n \<Rightarrow> details_ui \<times> 'n" where
  "publish fetch token scope s = (case s of (u, n) \<Rightarrow>
     (case sendJson fetch token ''/api/admin/config/releases'' ''POST''
        (JObj [(''scope'', scope_json scope), (''message'', JStr ''Admin UI publish''),
           (''published_by'', JStr ''admin-ui'')]) n of
        (answer, n') \<Rightarrow> (u\<lparr>du_feedback := report ''Release published'' answer\<rparr>, n')))"

text \<open>\<open>s.toLowerCase()\<close> on ASCII letters, as far as the search for \<open>"invalid"\<close> needs it.\<close>

definition to_lower :: "string \<Rightarrow> string" where
  "to_lower = map (\<lambda>c. let n = of_char c :: int in if 65 \<le> n \<and> n \<le> 90 then char_of (n + 32) else c)"

definition ConfigDetails ::
  "UiConfigDraft LoadState \<Rightarrow> UiConfigRelease Page LoadState \<Rightarrow> UiConfigSchema LoadState \<Rightarrow> details_ui \<Rightarrow>
   element" where
  "ConfigDetails draft releases schema u = El ''div'' ''config-detail'' [
     panel ''Draft items'' [case draft of
         Ready data \<Rightarrow> DataTable [''key'', ''state'', ''value''] (map (\<lambda>item. [Txt (di_key item),
           Txt (if di_deleted item then ''deleted'' else ''active''),
           Txt (if di_deleted item then [] else stringify (di_value item))]) (dr_items data)) ''No draft items''
       | _ \<Rightarrow> StateMessage draft],
     El ''section'' ''panel'' [
       El ''div'' ''panel-heading'' [El ''h2'' [] [Txt ''JSON editor''], El ''div'' ''toolbar'' [
         Button ''Save config item'' ''icon-button'' SaveItem [El ''span'' [] [Txt ''Save'']],
         Button ''Publish config release'' ''icon-button primary'' Publish [El ''span'' [] [Txt ''Publish'']]]],
       El ''div'' ''editor-body'' (
         [El ''label'' [] [El ''span'' [] [Txt ''Key''], Field ''Key'' (du_selectedKey u)],
          El ''label'' [] [El ''span'' [] [Txt ''Value''], Field ''Config JSON value'' (du_jsonValue u)]] @
         (if du_feedback u \<noteq> []
          then [El ''p'' (if js_includes (to_lower (du_feedback u)) ''invalid'' \<or> js_includes (du_feedback u) ''rejected''
                  then ''state error compact'' else ''state compact'') [Txt (du_feedback u)]] else []))],
     El ''section'' ''panel'' [
       El ''div'' ''panel-heading'' [El ''h2'' [] [Txt ''JSON Schema''], El ''div'' ''toolbar'' [
         Button ''Save config schema'' ''icon-button'' SaveSchema [El ''span'' [] [Txt ''Save'']],
         Button ''Remove config schema'' ''icon-button'' RemoveSchema [El ''span'' [] [Txt ''Remove'']]]],
       case schema of
         Ready data \<Rightarrow> El ''div'' ''editor-body'' [El ''label'' [] [El ''span'' [] [Txt ''Schema''],
           Field ''Config JSON schema'' (du_schemaValue u)]]
       | _ \<Rightarrow> StateMessage schema],
     panel ''Release history'' [case releases of
         Ready page \<Rightarrow> DataTable [''revision'', ''checksum'', ''message'', ''snapshot''] (map (\<lambda>release.
           [Txt (''Revision '' @ show_int (re_revision release)), Txt (re_checksum release),
            Txt (re_message release), Txt (stringify (re_snapshot release))]) (pg_items page)) ''No releases''
       | _ \<Rightarrow> StateMessage releases]]"


section \<open>Scope ids of valid scopes\<close>

text \<open>\<open>validate_scope\<close> of the server, on the scopes the console gets from it.\<close>

definition valid_scope :: "UiConfigScope \<Rightarrow> bool" where
  "valid_scope scope \<longleftrightarrow> validate_config_component ''app_id'' (sc_app_id scope) = Inr () \<and>
     validate_config_component ''environment'' (sc_environment scope) = Inr () \<and>
     validate_config_component ''cluster'' (sc_cluster scope) = Inr () \<and>
     validate_config_component ''namespace'' (sc_namespace scope) = Inr ()"

lemma scopeId_split:
  assumes "valid_scope scope"
  shows "split_at (CHR ''/'') (scopeId scope) =
     [sc_app_id scope, sc_environment scope, sc_cluster scope, sc_namespace scope]"
proof -
  have "CHR ''/'' \<notin> set (sc_app_id scope)" "CHR ''/'' \<notin> set (sc_environment scope)"
    "CHR ''/'' \<notin> set (sc_cluster scope)" "CHR ''/'' \<notin> set (sc_namespace scope)"
    using assms by (auto simp: valid_scope_def validate_config_component_def dest!: ident_no_slash)
  then show ?thesis
    using split_at_word [of "CHR ''/''" "sc_namespace scope" "[]"] by (simp add: scopeId_def split_at_word)
qed

lemma scopeId_inj: "valid_scope a \<Longrightarrow> valid_scope b \<Longrightarrow> scopeId a = scopeId b \<Longrightarrow> a = b"
  using scopeId_split [of a] scopeId_split [of b] by (cases a; cases b) auto

lemma selectedScope_member: "items \<noteq> [] \<Longrightarrow> \<exists>item \<in> set items. selectedScope items k = Some (ss_scope item)"
  by (cases items) (auto simp: selectedScope_def find_Some_iff split: option.splits)

lemma find_scope:
  assumes "item \<in> set items" "\<forall>i \<in> set items. valid_scope (ss_scope i)"
  shows "selectedScope items (scopeId (ss_scope item)) = Some (ss_scope item)"
proof -
  let ?P = "\<lambda>i. scopeId (ss_scope i) = scopeId (ss_scope item)"
  obtain found where f: "find ?P items = Some found"
    using assms(1) by (cases "find ?P items") (auto simp: find_None_iff)
  then have "found \<in> set items" "?P found" by (auto simp: find_Some_iff)
  with assms have "ss_scope found = ss_scope item" by (auto intro: scopeId_inj)
  with f show ?thesis by (simp add: selectedScope_def)
qed


section \<open>What the actions send\<close>

lemma scope_json_ok: "json_ok (scope_json scope)"
proof -
  have "own_keys [''app_id'', ''environment'', ''cluster'', ''namespace'']" by code_simp
  then show ?thesis by (simp add: scope_json_def scope_params_def)
qed

lemma item_body_ok: "json_ok v \<Longrightarrow> json_ok (item_body scope key v)"
proof -
  have "own_keys [''scope'', ''key'', ''value'']" by code_simp
  then show "json_ok v \<Longrightarrow> json_ok (item_body scope key v)" by (simp add: item_body_def scope_json_ok)
qed

end
