(* ===== verification/Admin_App.thy ===== *)
theory Admin_App
  imports Admin_Config
begin

text \<open>
  \<open>App\<close> of \<open>apps/admin-ui/src/App.tsx\<close>: the whole console, one state with the loads and the form
  states of its views. The lemmas say which actions a user can reach: none but the token prompt
  and the navigation without a token, and per view only the ones it is meant to offer.
\<close>


section \<open>The console\<close>

record console =
  co_app :: app_state
  co_prompt :: string
  co_overview :: "UiOverview LoadState"
  co_namespaces :: "UiCacheNamespace Page LoadState"
  co_entries :: "UiCacheEntry Page LoadState"
  co_queues :: "UiQueueSummary Page LoadState"
  co_messages :: "UiQueueMessage Page LoadState"
  co_dlq :: "UiDlqMessage Page LoadState"
  co_mq_feedback :: string
  co_scopes :: "UiConfigScopeSummary Page LoadState"
  co_selectedScopeId :: string
  co_draft :: "UiConfigDraft LoadState"
  co_releases :: "UiConfigRelease Page LoadState"
  co_schema :: "UiConfigSchema LoadState"
  co_details :: details_ui
  co_logs :: "UiLogEvent Page LoadState"
  co_clients :: "UiClientActivity LoadState"
  co_clients_ui :: clients_ui

text \<open>The view of the page, and the page: the prompt without a token, the view with one.\<close>

definition view_body :: "console \<Rightarrow> element" where
  "view_body c = (case as_view (co_app c) of
       Overview \<Rightarrow> OverviewView (co_overview c)
     | Cache \<Rightarrow> CacheView (co_namespaces c) (co_entries c)
     | Mq \<Rightarrow> MqView (co_queues c) (co_messages c) (co_dlq c) (co_mq_feedback c)
     | Config \<Rightarrow> ConfigView (co_scopes c) (co_selectedScopeId c)
         (\<lambda>scope. ConfigDetails (co_draft c) (co_releases c) (co_schema c) (co_details c))
     | Logs \<Rightarrow> LogsView (co_logs c)
     | Clients \<Rightarrow> ClientsView (co_clients c) (co_clients_ui c))"

definition nav :: "View \<Rightarrow> element list" where
  "nav current = map (\<lambda>(v, label). Button label
     (if current = v then ''nav-button active'' else ''nav-button'') (SetView v)
     [El ''span'' [] [Txt label]]) navItems"

definition App :: "console \<Rightarrow> element" where
  "App c = El ''main'' ''app-shell'' [
     El ''aside'' ''sidebar'' [
       El ''div'' ''brand'' [El ''div'' ''brand-mark'' [],
         El ''div'' ''brand-copy'' [El ''span'' [] [Txt ''pgapp Admin''], El ''small'' [] [Txt ''PostgreSQL-first ops'']]],
       El ''nav'' ''nav-list'' (nav (as_view (co_app c))),
       El ''div'' ''sidebar-note'' [El ''strong'' [] [Txt ''PG-first control plane''],
         El ''span'' [] [Txt ''Cache, MQ, Config, logs, and client activity backed by PostgreSQL.'']]],
     El ''section'' ''workspace'' [
       El ''header'' ''topbar'' [El ''label'' ''global-search'' [Field ''Search admin resources'' []],
         El ''div'' ''top-actions'' [El ''span'' ''icon-status'' [],
           StatusPill (case co_overview c of Ready data \<Rightarrow> ov_server_state data | _ \<Rightarrow> ''loading'')]],
       El ''div'' ''page'' [El ''header'' ''page-head'' [El ''div'' [] [El ''p'' ''eyebrow'' [Txt ''local admin''],
           El ''h1'' [] [Txt (titleFor (as_view (co_app c)))],
           El ''p'' ''head-desc'' [Txt (descriptionFor (as_view (co_app c)))]]],
         (if \<not> as_tokenReady (co_app c) then TokenPrompt (co_prompt c) else view_body c)]]]"


section \<open>The actions of a page\<close>

lemma no_text_actions: "concat (map (\<lambda>x. []) xs) = []"
  by (induction xs) simp_all

lemma nav_actions: "actions_of (nav current) = map SetView [Overview, Cache, Mq, Config, Logs, Clients]"
  by (simp add: nav_def navItems_def)

lemma App_actions:
  "actions (App c) = map SetView [Overview, Cache, Mq, Config, Logs, Clients] @
     (if as_tokenReady (co_app c) then actions (view_body c) else [SaveToken])"
  by (simp add: App_def nav_actions StatusPill_def TokenPrompt_def)

lemma OverviewView_actions: "actions (OverviewView s) = []"
  by (cases s) (simp_all add: OverviewView_def Metric_def DataTable_actions no_text_actions comp_def)

lemma CacheView_actions: "actions (CacheView ns es) = []"
  by (cases ns; cases es)
    (simp_all add: CacheView_def AsyncTable_actions no_text_actions comp_def)

lemma LogsView_actions: "actions (LogsView logs) = []"
  by (cases logs) (simp_all add: LogsView_def AsyncTable_actions no_text_actions comp_def)

lemma ConfigDetails_actions:
  "actions (ConfigDetails draft releases schema u) = [SaveItem, Publish, SaveSchema, RemoveSchema]"
  by (cases draft; cases releases; cases schema)
    (simp_all add: ConfigDetails_def DataTable_actions no_text_actions comp_def)

lemma ClientsView_actions:
  "actions (ClientsView clients u) = (case clients of
     Ready data \<Rightarrow> CreateClient # concat (map (\<lambda>c. [RotateClient (cc_client_key c), DeactivateClient (cc_client_key c)])
       (ca_items data))
   | _ \<Rightarrow> [])"
  by (cases clients) (simp_all add: ClientsView_def DataTable_actions no_text_actions comp_def)

lemma ScopeList_actions: "actions (ScopeList scopes k) = map (\<lambda>i. SelectScope (scopeId (ss_scope i))) scopes"
  by (simp add: ScopeList_def actions_of_map Let_def concat_map_singleton)

lemma ConfigView_actions:
  "actions (ConfigView scopes k details) = (case scopes of
     Ready page \<Rightarrow> (case selectedScope (pg_items page) k of None \<Rightarrow> []
       | Some selected \<Rightarrow> map (\<lambda>i. SelectScope (scopeId (ss_scope i))) (pg_items page) @ actions (details selected))
   | _ \<Rightarrow> [])"
  by (cases scopes) (simp_all add: ConfigView_def ScopeList_actions split: option.splits)

lemmas view_actions = OverviewView_actions CacheView_actions MqView_actions ConfigView_actions
  ConfigDetails_actions LogsView_actions ClientsView_actions

text \<open>The actions that change state on the server.\<close>

definition mutates :: "ui_action \<Rightarrow> bool" where
  "mutates a = (case a of SetView _ \<Rightarrow> False | SaveToken \<Rightarrow> False | SelectScope _ \<Rightarrow> False | _ \<Rightarrow> True)"

end
