(* ===== verification/Admin_Console.thy ===== *)
theory Admin_Console
  imports Admin_App
begin

text \<open>
  The console at work: what pressing a button, typing into a field and an arriving answer do to
  the whole state of \<open>App\<close>, as a step relation over the console and the other side of the
  network. Buttons run the handlers of the views; a change of the view unmounts one component and
  mounts another with fresh state, as React does. The lemmas give the invariants of every
  session: no request without a token, and the stored token on every request.
\<close>


section \<open>Handlers\<close>

definition clients_init :: clients_ui where
  "clients_init = \<lparr>cu_clientKey = [], cu_roles = [], cu_secret = Some (JStr []), cu_feedback = []\<rparr>"

text \<open>The state of the views when they are mounted.\<close>

definition fresh_views :: "console \<Rightarrow> console" where
  "fresh_views c = c\<lparr>co_namespaces := Loading, co_entries := Loading, co_queues := Loading,
     co_messages := Loading, co_dlq := Loading, co_mq_feedback := [], co_scopes := Loading,
     co_selectedScopeId := [], co_draft := Loading, co_releases := Loading, co_schema := Loading,
     co_details := details_init, co_logs := Loading, co_clients := Loading, co_clients_ui := clients_init\<rparr>"

text \<open>The console when the page is opened, with what the session storage holds.\<close>

definition console_init :: "string option \<Rightarrow> console" where
  "console_init stored = \<lparr>co_app = app_init stored, co_prompt = [], co_overview = Loading,
     co_namespaces = Loading, co_entries = Loading, co_queues = Loading, co_messages = Loading,
     co_dlq = Loading, co_mq_feedback = [], co_scopes = Loading, co_selectedScopeId = [],
     co_draft = Loading, co_releases = Loading, co_schema = Loading, co_details = details_init,
     co_logs = Loading, co_clients = Loading, co_clients_ui = clients_init\<rparr>"

text \<open>The \<open>scope\<close> property of \<open>ConfigDetails\<close>.\<close>

definition current_scope :: "console \<Rightarrow> UiConfigScope option" where
  "current_scope c = (case co_scopes c of
     Ready page \<Rightarrow> selectedScope (pg_items page) (co_selectedScopeId c) | _ \<Rightarrow> None)"

text \<open>
  \<open>onSelect\<close>: another scope is another \<open>query\<close>, so the three loads of \<open>ConfigDetails\<close> run again.
  The component stays mounted and keeps the fields of its editors.
\<close>

definition select_scope :: "string \<Rightarrow> console \<Rightarrow> console" where
  "select_scope k c = (let c' = c\<lparr>co_selectedScopeId := k\<rparr> in
     if map_option scopeQuery (current_scope c') = map_option scopeQuery (current_scope c) then c'
     else c'\<lparr>co_draft := Loading, co_releases := Loading, co_schema := Loading\<rparr>)"

text \<open>A handler of \<open>ConfigDetails\<close>, with the scope on screen.\<close>

definition in_details ::
  "(UiConfigScope \<Rightarrow> details_ui \<times> 'n \<Rightarrow> details_ui \<times> 'n) \<Rightarrow> console \<times> 'n \<Rightarrow> console \<times> 'n" where
  "in_details handler s = (case s of (c, n) \<Rightarrow> (case current_scope c of None \<Rightarrow> (c, n)
     | Some scope \<Rightarrow> (case handler scope (co_details c, n) of (u, n') \<Rightarrow> (c\<lparr>co_details := u\<rparr>, n'))))"

definition in_mq :: "(string \<times> 'n \<Rightarrow> string \<times> 'n) \<Rightarrow> console \<times> 'n \<Rightarrow> console \<times> 'n" where
  "in_mq handler s = (case s of (c, n) \<Rightarrow>
     (case handler (co_mq_feedback c, n) of (f, n') \<Rightarrow> (c\<lparr>co_mq_feedback := f\<rparr>, n')))"

definition in_clients :: "(clients_ui \<times> 'n \<Rightarrow> clients_ui \<times> 'n) \<Rightarrow> console \<times> 'n \<Rightarrow> console \<times> 'n" where
  "in_clients handler s = (case s of (c, n) \<Rightarrow>
     (case handler (co_clients_ui c, n) of (u, n') \<Rightarrow> (c\<lparr>co_clients_ui := u\<rparr>, n')))"

text \<open>\<open>sessionStorage.getItem\<close> in \<open>fetchJson\<close>: the token stored when the request is made.\<close>

abbreviation token_of :: "console \<Rightarrow> string option" where
  "token_of c \<equiv> as_storage (co_app c)"

definition perform :: "'n fetch \<Rightarrow> ui_action \<Rightarrow> console \<times> 'n \<Rightarrow> console \<times> 'n" where
  "perform fetch action s = (case s of (c, n) \<Rightarrow> (case action of
       SetView v \<Rightarrow> (if v = as_view (co_app c) then c else fresh_views (c\<lparr>co_app := setView v (co_app c)\<rparr>), n)
     | SaveToken \<Rightarrow> (c\<lparr>co_app := submitToken (co_prompt c) (co_app c)\<rparr>, n)
     | PurgeDlq \<Rightarrow> in_mq (purgeDlq fetch (token_of c) (selectedQueue (co_queues c))) s
     | ReprocessDlq messageId \<Rightarrow> in_mq (reprocessDlq fetch (token_of c) (selectedQueue (co_queues c)) messageId) s
     | SelectScope k \<Rightarrow> (select_scope k c, n)
     | SaveItem \<Rightarrow> in_details (saveItem fetch (token_of c)) s
     | Publish \<Rightarrow> in_details (publish fetch (token_of c)) s
     | SaveSchema \<Rightarrow> in_details (saveSchema fetch (token_of c)) s
     | RemoveSchema \<Rightarrow> in_details (removeSchema fetch (token_of c)) s
     | CreateClient \<Rightarrow> in_clients (createClient fetch (token_of c)) s
     | RotateClient key \<Rightarrow> in_clients (rotateClient fetch (token_of c) key) s
     | DeactivateClient key \<Rightarrow> in_clients (deactivateClient fetch (token_of c) key) s))"


section \<open>Fields\<close>

datatype ui_field = TokenField | ItemKeyField | ItemValueField | SchemaField | ClientKeyField | RolesField

text \<open>\<open>onChange\<close> of the inputs and text areas.\<close>

definition type_into :: "ui_field \<Rightarrow> string \<Rightarrow> console \<Rightarrow> console" where
  "type_into field content c = (case field of
       TokenField \<Rightarrow> c\<lparr>co_prompt := content\<rparr>
     | ItemKeyField \<Rightarrow> c\<lparr>co_details := (co_details c)\<lparr>du_selectedKey := content\<rparr>\<rparr>
     | ItemValueField \<Rightarrow> c\<lparr>co_details := (co_details c)\<lparr>du_jsonValue := content\<rparr>\<rparr>
     | SchemaField \<Rightarrow> c\<lparr>co_details := (co_details c)\<lparr>du_schemaValue := content\<rparr>\<rparr>
     | ClientKeyField \<Rightarrow> c\<lparr>co_clients_ui := (co_clients_ui c)\<lparr>cu_clientKey := content\<rparr>\<rparr>
     | RolesField \<Rightarrow> c\<lparr>co_clients_ui := (co_clients_ui c)\<lparr>cu_roles := content\<rparr>\<rparr>)"


section \<open>Loads\<close>

definition overviewPath :: string where
  "overviewPath = ''/api/admin/overview''"

text \<open>The requests the hooks of a page make: the overview with a token, and those of the view.\<close>

definition view_loads :: "console \<Rightarrow> string list" where
  "view_loads c = (case as_view (co_app c) of
       Overview \<Rightarrow> []
     | Cache \<Rightarrow> [namespacesPath, entriesPath]
     | Mq \<Rightarrow> queuesPath # (case selectedQueue (co_queues c) of None \<Rightarrow> []
         | Some q \<Rightarrow> if q = [] then [] else [messagesPath q, dlqPath q])
     | Config \<Rightarrow> scopesPath # (case current_scope c of None \<Rightarrow> []
         | Some scope \<Rightarrow> [draftPath scope, releasesPath scope, schemaPath scope])
     | Logs \<Rightarrow> [logsPath]
     | Clients \<Rightarrow> [clientsPath])"

definition page_loads :: "console \<Rightarrow> string list" where
  "page_loads c = (if as_tokenReady (co_app c) then overviewPath # view_loads c else [])"

text \<open>
  What an arriving answer may change: the loaded data of the view, and the editors of
  \<open>ConfigDetails\<close> through its two effects.
\<close>

definition arrives :: "console \<Rightarrow> console \<Rightarrow> bool" where
  "arrives c c' \<longleftrightarrow> co_app c' = co_app c \<and> co_prompt c' = co_prompt c \<and>
     co_mq_feedback c' = co_mq_feedback c \<and> co_selectedScopeId c' = co_selectedScopeId c \<and>
     co_clients_ui c' = co_clients_ui c \<and>
     (co_details c' = co_details c \<or> co_details c' = draft_effect (co_draft c') (co_details c) \<or>
      co_details c' = schema_effect (co_schema c') (co_details c))"


section \<open>Sessions\<close>

inductive console_step :: "'n fetch \<Rightarrow> console \<times> 'n \<Rightarrow> console \<times> 'n \<Rightarrow> bool" for fetch where
  console_press: "action \<in> set (actions (App c)) \<Longrightarrow> console_step fetch (c, n) (perform fetch action (c, n))"
| console_type: "console_step fetch (c, n) (type_into field content c, n)"
| console_load: "path \<in> set (page_loads c) \<Longrightarrow> arrives c c' \<Longrightarrow>
    console_step fetch (c, n) (c', snd (fetchJson fetch (token_of c) path no_init n))"

inductive session :: "'n fetch \<Rightarrow> console \<times> 'n \<Rightarrow> console \<times> 'n \<Rightarrow> bool" for fetch where
  session_refl: "session fetch s s"
| session_step: "session fetch s s' \<Longrightarrow> console_step fetch s' s'' \<Longrightarrow> session fetch s s''"

text \<open>A console has a token exactly when the storage holds one.\<close>

definition console_inv :: "console \<Rightarrow> bool" where
  "console_inv c \<longleftrightarrow> (as_tokenReady (co_app c) \<longleftrightarrow> (\<exists>t. token_of c = Some t \<and> t \<noteq> []))"

lemma console_inv_init: "console_inv (console_init stored)"
  by (auto simp: console_inv_def console_init_def app_init_def split: option.splits)


section \<open>What reaches the network\<close>

text \<open>
  One step of the console reaches the network at most once, with the token it was given and no
  authorization of its own.
\<close>

definition sends :: "'n fetch \<Rightarrow> string option \<Rightarrow> 'n \<Rightarrow> 'n \<Rightarrow> bool" where
  "sends fetch token n n' \<longleftrightarrow> n' = n \<or> (\<exists>path init. ''Authorization'' \<notin> fst ` set (in_headers init) \<and>
     n' = snd (fetch (build_request token path init) n))"

named_theorems sends_rules

lemma sends_refl [sends_rules]: "sends fetch token n n"
  by (simp add: sends_def)

lemma snd_fetchJson: "snd (fetchJson fetch token path init n) = snd (fetch (build_request token path init) n)"
  by (cases "fetch (build_request token path init) n"; cases "fst (fetch (build_request token path init) n)")
    (auto simp: fetchJson_def split: sum.splits)

lemma fetchJson_sends:
  "''Authorization'' \<notin> fst ` set (in_headers init) \<Longrightarrow> sends fetch token n (snd (fetchJson fetch token path init n))"
  unfolding sends_def snd_fetchJson by blast

lemma request_sends [sends_rules]:
  "sends fetch token n (snd (sendJson fetch token path verb body n))"
  "sends fetch token n (snd (postAction fetch token path n))"
  "sends fetch token n (snd (deleteAction fetch token path n))"
  "sends fetch token n (snd (fetchJson fetch token path no_init n))"
  by (simp_all add: sendJson_def postAction_def deleteAction_def fetchJson_sends no_init_def)

lemma mq_sends [sends_rules]:
  "sends fetch token n (snd (purgeDlq fetch token queue (f, n)))"
  "sends fetch token n (snd (reprocessDlq fetch token queue messageId (f, n)))"
  using request_sends(2) [of fetch token n]
  by (auto simp: purgeDlq_def reprocessDlq_def sends_refl split: prod.split sum.split)
     (metis snd_conv)+

lemma details_sends [sends_rules]:
  "sends fetch token n (snd (saveItem fetch token scope (u, n)))"
  "sends fetch token n (snd (publish fetch token scope (u, n)))"
  "sends fetch token n (snd (saveSchema fetch token scope (u, n)))"
  "sends fetch token n (snd (removeSchema fetch token scope (u, n)))"
  using request_sends(1,3) [of fetch token n]
  by (auto simp: saveItem_def publish_def saveSchema_def removeSchema_def sends_refl split: prod.split sum.split)
     (metis snd_conv)+

lemma clients_sends [sends_rules]:
  "sends fetch token n (snd (createClient fetch token (u, n)))"
  "sends fetch token n (snd (rotateClient fetch token key (u, n)))"
  "sends fetch token n (snd (deactivateClient fetch token key (u, n)))"
  using request_sends(1,2) [of fetch token n]
  by (auto simp: createClient_def rotateClient_def deactivateClient_def Let_def sends_refl split: prod.split sum.split)
     (metis snd_conv)+

text \<open>The wrappers pass the network on and leave the shell alone.\<close>

lemma in_view_snd:
  "snd (in_mq hm (c, n)) = snd (hm (co_mq_feedback c, n))"
  "snd (in_clients hc (c, n)) = snd (hc (co_clients_ui c, n))"
  "snd (in_details hs (c, n)) = (case current_scope c of None \<Rightarrow> n | Some scope \<Rightarrow> snd (hs scope (co_details c, n)))"
  by (simp_all add: in_mq_def in_clients_def in_details_def split: prod.split option.split)

lemma in_view_app [simp]:
  "co_app (fst (in_mq hm (c, n))) = co_app c" "co_app (fst (in_clients hc (c, n))) = co_app c"
  "co_app (fst (in_details hs (c, n))) = co_app c"
  by (simp_all add: in_mq_def in_clients_def in_details_def split: prod.split option.split)

lemma perform_sends: "sends fetch (token_of c) n (snd (perform fetch action (c, n)))"
  by (cases action) (auto simp: perform_def in_view_snd intro: sends_rules split: option.split)

lemma perform_app:
  "co_app (fst (perform fetch action (c, n))) = (case action of SetView v \<Rightarrow> setView v (co_app c)
     | SaveToken \<Rightarrow> submitToken (co_prompt c) (co_app c) | _ \<Rightarrow> co_app c)"
  by (cases action) (auto simp: perform_def fresh_views_def setView_def select_scope_def Let_def)

lemma type_into_app [simp]: "co_app (type_into field content c) = co_app c"
  by (cases field) (simp_all add: type_into_def)

text \<open>Without a token the page offers the navigation and the prompt, which send nothing.\<close>

lemma no_token_press:
  assumes "\<not> as_tokenReady (co_app c)" "action \<in> set (actions (App c))"
  shows "snd (perform fetch action (c, n)) = n"
  using assms by (auto simp: App_actions perform_def)


section \<open>Invariants of a session\<close>

lemma step_sends:
  assumes "console_step fetch (c, n) (c', n')"
  shows "sends fetch (token_of c) n n'"
  using assms
proof cases
  case (console_press action)
  with perform_sends [of fetch c n action] show ?thesis by (metis snd_conv)
qed (auto intro: sends_rules)

lemma step_no_token:
  assumes "console_step fetch (c, n) (c', n')" "\<not> as_tokenReady (co_app c)"
  shows "n' = n"
  using assms(1)
proof cases
  case (console_press action)
  with no_token_press [OF assms(2), of action fetch n] show ?thesis by (metis snd_conv)
qed (use assms(2) in \<open>auto simp: page_loads_def\<close>)

text \<open>Once there is a token it stays; the prompt that changes it is no longer on the page.\<close>

lemma step_token:
  assumes "console_step fetch (c, n) (c', n')" "console_inv c"
  shows "console_inv c' \<and> (as_tokenReady (co_app c) \<longrightarrow> as_tokenReady (co_app c') \<and> token_of c' = token_of c)"
  using assms(1)
proof cases
  case (console_press action)
  have ready: "SaveToken \<notin> set (actions (App c))" if "as_tokenReady (co_app c)"
    using that by (cases "as_view (co_app c)")
      (auto simp: App_actions view_body_def view_actions split: LoadState.splits option.splits if_splits)
  have "co_app c' = (case action of SetView v \<Rightarrow> setView v (co_app c)
      | SaveToken \<Rightarrow> submitToken (co_prompt c) (co_app c) | _ \<Rightarrow> co_app c)"
    using perform_app [of fetch action c n] console_press by (metis fst_conv)
  with ready console_press(2) assms(2) show ?thesis
    by (cases action) (auto simp: console_inv_def setView_def submitToken_def)
qed (use assms(2) in \<open>auto simp: console_inv_def arrives_def\<close>)

lemma session_inv: "session fetch s s' \<Longrightarrow> console_inv (fst s) \<Longrightarrow> console_inv (fst s')"
proof (induction rule: session.induct)
  case (session_step s s' s'')
  then show ?case using step_token [of fetch "fst s'" "snd s'" "fst s''" "snd s''"] by simp
qed simp

lemma session_no_token:
  "session fetch s s' \<Longrightarrow> console_inv (fst s) \<Longrightarrow> \<not> as_tokenReady (co_app (fst s')) \<Longrightarrow> snd s' = snd s"
proof (induction rule: session.induct)
  case (session_step s s' s'')
  have inv: "console_inv (fst s')" using session_step.hyps(1) session_step.prems(1) by (rule session_inv)
  have step: "console_step fetch (fst s', snd s') (fst s'', snd s'')" using session_step.hyps(2) by simp
  from step_token [OF step inv] session_step.prems(2) have "\<not> as_tokenReady (co_app (fst s'))" by auto
  with session_step.IH session_step.prems(1) step_no_token [OF step] show ?case by simp
qed simp

text \<open>A network that keeps the requests it gets, with any answers.\<close>

definition recording :: "(http_request \<Rightarrow> http_request list \<Rightarrow> http_response result) \<Rightarrow> http_request list fetch" where
  "recording answer rq log = (answer rq log, log @ [rq])"

lemma bearer_header:
  "''Authorization'' \<notin> fst ` set (in_headers init) \<Longrightarrow>
   map_of (rq_headers (build_request token path init)) ''Authorization'' =
     (case token of None \<Rightarrow> None | Some t \<Rightarrow> if t = [] then None else Some (''Bearer '' @ t))"
proof -
  assume "''Authorization'' \<notin> fst ` set (in_headers init)"
  then have "map_of (rev (in_headers init)) ''Authorization'' = None" by (simp add: map_of_eq_None_iff)
  then show ?thesis by (simp add: build_request_def map_of_obj_spread request_headers_def split: option.splits)
qed

lemma sends_recording:
  assumes "sends (recording answer) token log log'"
  shows "log' = log \<or> (\<exists>rq. log' = log @ [rq] \<and> map_of (rq_headers rq) ''Authorization'' =
     (case token of None \<Rightarrow> None | Some t \<Rightarrow> if t = [] then None else Some (''Bearer '' @ t)))"
  using assms bearer_header unfolding sends_def recording_def by auto

lemma session_token:
  "session (recording answer) s s' \<Longrightarrow> console_inv (fst s) \<Longrightarrow>
   (\<forall>rq \<in> set (snd s). map_of (rq_headers rq) ''Authorization'' = Some (''Bearer '' @ the (token_of (fst s)))) \<Longrightarrow>
   (snd s \<noteq> [] \<longrightarrow> as_tokenReady (co_app (fst s))) \<Longrightarrow>
   (\<forall>rq \<in> set (snd s'). map_of (rq_headers rq) ''Authorization'' = Some (''Bearer '' @ the (token_of (fst s')))) \<and>
   (snd s' \<noteq> [] \<longrightarrow> as_tokenReady (co_app (fst s')))"
proof (induction rule: session.induct)
  case (session_step s s' s'')
  have inv: "console_inv (fst s')" using session_step.hyps(1) session_step.prems(1) by (rule session_inv)
  have step: "console_step (recording answer) (fst s', snd s') (fst s'', snd s'')" using session_step.hyps(2) by simp
  note tok = step_token [OF step inv]
  note IH = session_step.IH [OF session_step.prems]
  show ?case
  proof (cases "as_tokenReady (co_app (fst s'))")
    case True
    with inv obtain t where t: "token_of (fst s') = Some t" "t \<noteq> []" by (auto simp: console_inv_def)
    with IH tok True sends_recording [OF step_sends [OF step]] show ?thesis by auto
  next
    case False
    with IH step_no_token [OF step] show ?thesis by auto
  qed
qed simp

text \<open>The read-only views make requests without a method, that is \<open>GET\<close>.\<close>

lemma read_only_step:
  assumes "console_step (recording answer) (c, log) (c', log')" "as_view (co_app c) \<in> {Overview, Cache, Logs}"
  shows "log' = log \<or> (\<exists>rq. log' = log @ [rq] \<and> rq_method rq = None \<and> rq_body rq = None)"
  using assms(1)
proof cases
  case (console_press action)
  with assms(2) have "action = SaveToken \<or> (\<exists>v. action = SetView v)"
    by (auto simp: App_actions view_body_def view_actions split: if_splits)
  then have "snd (perform (recording answer) action (c, log)) = log" by (auto simp: perform_def)
  with console_press show ?thesis by (metis snd_conv)
qed (auto simp: snd_fetchJson recording_def build_request_def no_init_def)



section \<open>The secret of a client\<close>

text \<open>A network that keeps the requests it gets together with its answers.\<close>

type_synonym exchange_log = "(http_request \<times> http_response result) list"

definition exchanging :: "(http_request \<Rightarrow> exchange_log \<Rightarrow> http_response result) \<Rightarrow> exchange_log fetch" where
  "exchanging answer rq log = (answer rq log, log @ [(rq, answer rq log)])"

text \<open>The requests that make the server issue a secret: creating a client, and rotating one.\<close>

definition is_rotate :: "string \<Rightarrow> bool" where
  "is_rotate path \<longleftrightarrow> take 19 path = ''/api/admin/clients/'' \<and> drop (length path - 7) path = ''/rotate''"

definition issues :: "http_request \<Rightarrow> bool" where
  "issues rq \<longleftrightarrow> rq_method rq = Some ''POST'' \<and> (rq_path rq = clientsPath \<or> is_rotate (rq_path rq))"

text \<open>The secret of an answer: there is one only in the body of a success.\<close>

definition answered_secret :: "http_response result \<Rightarrow> json option" where
  "answered_secret x = (case x of Inl _ \<Rightarrow> None | Inr r \<Rightarrow> if response_ok r
     then (case bindE (JSON_parse (rp_body r)) (getProp ''secret'') of Inl _ \<Rightarrow> None | Inr v \<Rightarrow> v) else None)"

text \<open>The secret of the last of these requests.\<close>

definition issued_secret :: "exchange_log \<Rightarrow> json option" where
  "issued_secret log = (case filter (\<lambda>e. issues (fst e)) (rev log) of [] \<Rightarrow> None | e # _ \<Rightarrow> answered_secret (snd e))"

lemma issued_secret_snoc:
  "issued_secret (log @ [(rq, x)]) = (if issues rq then answered_secret x else issued_secret log)"
  by (simp add: issued_secret_def)

lemma is_rotate_paths:
  "is_rotate (rotatePath key)" "\<not> is_rotate (deactivatePath key)" "\<not> is_rotate (reprocessPath queue messageId)"
  "\<not> is_rotate (purgePath queue)" "\<not> is_rotate ''/api/admin/config/releases''"
  "deactivatePath key \<noteq> clientsPath" "reprocessPath queue messageId \<noteq> clientsPath" "purgePath queue \<noteq> clientsPath"
  by (simp_all add: is_rotate_def rotatePath_def deactivatePath_def reprocessPath_def purgePath_def clientsPath_def)

lemma exchanged:
  "snd (fetchJson (exchanging answer) token path init log) = log @ [(build_request token path init, answer (build_request token path init) log)]"
  by (simp add: snd_fetchJson exchanging_def)

lemma build_request_simps [simp]:
  "rq_path (build_request token path init) = path" "rq_method (build_request token path init) = in_method init"
  by (simp_all add: build_request_def)

text \<open>Every other request leaves the issued secret as it is.\<close>

lemma quiet_fetch:
  assumes "in_method init \<noteq> Some ''POST'' \<or> path \<noteq> clientsPath \<and> \<not> is_rotate path"
  shows "issued_secret (snd (fetchJson (exchanging answer) token path init log)) = issued_secret log"
  using assms by (auto simp: exchanged issued_secret_snoc issues_def)

lemma quiet_handlers:
  "issued_secret (snd (purgeDlq (exchanging answer) token queue (f, log))) = issued_secret log"
  "issued_secret (snd (reprocessDlq (exchanging answer) token queue messageId (f, log))) = issued_secret log"
  "issued_secret (snd (saveItem (exchanging answer) token scope (u, log))) = issued_secret log"
  "issued_secret (snd (publish (exchanging answer) token scope (u, log))) = issued_secret log"
  "issued_secret (snd (saveSchema (exchanging answer) token scope (u, log))) = issued_secret log"
  "issued_secret (snd (removeSchema (exchanging answer) token scope (u, log))) = issued_secret log"
  "issued_secret (snd (deactivateClient (exchanging answer) token key (v, log))) = issued_secret log"
proof -
  have send: "issued_secret (snd (sendJson (exchanging answer) token path verb body log)) = issued_secret log"
    if "verb \<noteq> ''POST'' \<or> path \<noteq> clientsPath \<and> \<not> is_rotate path" for path verb body
    unfolding sendJson_def by (rule quiet_fetch) (use that in auto)
  have post: "issued_secret (snd (postAction (exchanging answer) token path log)) = issued_secret log"
    if "path \<noteq> clientsPath" "\<not> is_rotate path" for path
    unfolding postAction_def by (rule quiet_fetch) (use that in auto)
  have del: "issued_secret (snd (deleteAction (exchanging answer) token path log)) = issued_secret log" for path
    unfolding deleteAction_def by (rule quiet_fetch) (simp add: no_init_def)
  have other: "''/api/admin/config/releases'' \<noteq> clientsPath" by (simp add: clientsPath_def)
  show "issued_secret (snd (purgeDlq (exchanging answer) token queue (f, log))) = issued_secret log"
    "issued_secret (snd (reprocessDlq (exchanging answer) token queue messageId (f, log))) = issued_secret log"
    "issued_secret (snd (deactivateClient (exchanging answer) token key (v, log))) = issued_secret log"
    using post is_rotate_paths
    by (auto simp: purgeDlq_def reprocessDlq_def deactivateClient_def split: prod.split sum.split) (metis snd_conv)+
  show "issued_secret (snd (saveItem (exchanging answer) token scope (u, log))) = issued_secret log"
    "issued_secret (snd (publish (exchanging answer) token scope (u, log))) = issued_secret log"
    "issued_secret (snd (saveSchema (exchanging answer) token scope (u, log))) = issued_secret log"
    "issued_secret (snd (removeSchema (exchanging answer) token scope (u, log))) = issued_secret log"
    using send [of "''PUT''"] send [of "''POST''" "''/api/admin/config/releases''"] del is_rotate_paths(5) other
    by (auto simp: saveItem_def publish_def saveSchema_def removeSchema_def split: prod.split sum.split) (metis snd_conv)+
qed

text \<open>On screen is the issued secret, if there is one to show.\<close>

definition displays :: "clients_ui \<Rightarrow> exchange_log \<Rightarrow> bool" where
  "displays u log \<longleftrightarrow> (if secret_shown (issued_secret log) then cu_secret u = issued_secret log
     else \<not> secret_shown (cu_secret u))"

lemma no_secret [simp]: "\<not> secret_shown None" "\<not> secret_shown (Some (JStr []))"
  by (simp_all add: secret_shown_def)

text \<open>A creation or rotation that is sent puts the secret of its answer on screen, or none.\<close>

lemma shown_answer:
  assumes "fetchJson (exchanging answer) token path init log = (x, log')" "issues (build_request token path init)" "\<not> secret_shown (cu_secret u)"
  shows "length log' = Suc (length log) \<and> displays (show_created verb x u) log'"
proof -
  let ?rq = "build_request token path init"
  have log': "log' = log @ [(?rq, answer ?rq log)]" using exchanged [of answer token path init log] assms(1) by simp
  have x: "x = fst (fetchJson (exchanging answer) token path init log)" using assms(1) by simp
  show ?thesis
  proof (cases "answer ?rq log")
    case (Inl e)
    then show ?thesis using assms(2,3)
      by (simp add: log' x issued_secret_snoc fetchJson_def exchanging_def answered_secret_def show_created_def displays_def)
  next
    case (Inr r)
    show ?thesis
    proof (cases "response_ok r")
      case False
      then show ?thesis using Inr assms(2,3)
        by (simp add: log' x issued_secret_snoc fetchJson_def exchanging_def answered_secret_def show_created_def displays_def)
    next
      case True
      then show ?thesis using Inr assms(2,3)
        by (cases "JSON_parse (rp_body r)"; cases "getProp ''secret'' (projr (JSON_parse (rp_body r)))";
            cases "getProp ''client_key'' (projr (JSON_parse (rp_body r)))")
          (simp_all add: log' x issued_secret_snoc fetchJson_def exchanging_def answered_secret_def show_created_def displays_def)
    qed
  qed
qed

lemma createClient_shows:
  assumes "createClient (exchanging answer) token (u, log) = (u', log')" "js_trim (cu_clientKey u) \<noteq> []"
  shows "length log' = Suc (length log) \<and> displays u' log'"
proof -
  let ?u = "u\<lparr>cu_feedback := [], cu_secret := Some (JStr [])\<rparr>"
  obtain x l where f: "sendJson (exchanging answer) token clientsPath ''POST'' (create_body ?u) log = (x, l)" by fastforce
  with assms have "u' = show_created ''Created '' x ?u" "log' = l" by (simp_all add: createClient_def Let_def)
  with shown_answer [OF f [unfolded sendJson_def], of ?u "''Created ''"] show ?thesis by (simp add: issues_def)
qed

lemma rotateClient_shows:
  assumes "rotateClient (exchanging answer) token key (u, log) = (u', log')"
  shows "length log' = Suc (length log) \<and> displays u' log'"
proof -
  let ?u = "u\<lparr>cu_feedback := [], cu_secret := Some (JStr [])\<rparr>"
  obtain x l where f: "postAction (exchanging answer) token (rotatePath key) log = (x, l)" by fastforce
  with assms have "u' = show_created ''Rotated '' x ?u" "log' = l" by (simp_all add: rotateClient_def Let_def)
  with shown_answer [OF f [unfolded postAction_def], of ?u "''Rotated ''"] show ?thesis by (simp add: issues_def is_rotate_paths)
qed

text \<open>The invariant: a secret on screen is the last one issued, and the view is that of the clients.\<close>

definition secret_inv :: "console \<times> exchange_log \<Rightarrow> bool" where
  "secret_inv s \<longleftrightarrow> (secret_shown (cu_secret (co_clients_ui (fst s))) \<longrightarrow>
     as_view (co_app (fst s)) = Clients \<and> cu_secret (co_clients_ui (fst s)) = issued_secret (snd s))"


lemma perform_secret:
  "co_clients_ui (fst (perform fetch action (c, n))) = (case action of
     SetView v \<Rightarrow> if v = as_view (co_app c) then co_clients_ui c else clients_init
   | CreateClient \<Rightarrow> fst (createClient fetch (token_of c) (co_clients_ui c, n))
   | RotateClient key \<Rightarrow> fst (rotateClient fetch (token_of c) key (co_clients_ui c, n))
   | DeactivateClient key \<Rightarrow> fst (deactivateClient fetch (token_of c) key (co_clients_ui c, n))
   | _ \<Rightarrow> co_clients_ui c)"
  by (cases action) (auto simp: perform_def fresh_views_def select_scope_def Let_def in_mq_def in_details_def in_clients_def
      split: prod.split option.split)

lemma deactivateClient_secret [simp]: "cu_secret (fst (deactivateClient fetch token key s)) = cu_secret (fst s)"
  by (auto simp: deactivateClient_def split: prod.split sum.split)

text \<open>A press that issues a secret, and what every other one leaves.\<close>

definition issuing :: "ui_action \<Rightarrow> clients_ui \<Rightarrow> bool" where
  "issuing action u = (case action of CreateClient \<Rightarrow> js_trim (cu_clientKey u) \<noteq> [] | RotateClient _ \<Rightarrow> True | _ \<Rightarrow> False)"

lemma perform_issuing:
  assumes "issuing action (co_clients_ui c)" "perform (exchanging answer) action (c, log) = (c', log')"
  shows "length log' = Suc (length log) \<and> displays (co_clients_ui c') log'"
proof -
  let ?u = "co_clients_ui c"
  have u: "co_clients_ui c' = co_clients_ui (fst (perform (exchanging answer) action (c, log)))"
    "log' = snd (perform (exchanging answer) action (c, log))" using assms(2) by simp_all
  from assms(1) consider "action = CreateClient" "js_trim (cu_clientKey ?u) \<noteq> []" | key where "action = RotateClient key"
    by (cases action) (auto simp: issuing_def)
  then show ?thesis
  proof cases
    case 1
    with createClient_shows [OF prod.collapse [symmetric], where answer = answer and token = "token_of c" and u = ?u and log = log] show ?thesis
      unfolding u perform_secret by (simp add: perform_def in_view_snd)
  next
    case 2
    with rotateClient_shows [OF prod.collapse [symmetric], where answer = answer and token = "token_of c" and key = key and u = ?u and log = log] show ?thesis
      unfolding u perform_secret by (simp add: perform_def in_view_snd)
  qed
qed

lemma perform_quiet:
  assumes "\<not> issuing action (co_clients_ui c)"
  shows "issued_secret (snd (perform (exchanging answer) action (c, log))) = issued_secret log"
    "cu_secret (co_clients_ui (fst (perform (exchanging answer) action (c, log)))) = cu_secret (co_clients_ui c) \<or>
     \<not> secret_shown (cu_secret (co_clients_ui (fst (perform (exchanging answer) action (c, log)))))"
proof -
  show "issued_secret (snd (perform (exchanging answer) action (c, log))) = issued_secret log"
    using assms by (cases action)
      (auto simp: perform_def in_view_snd quiet_handlers issuing_def createClient_def split: option.split)
  show "cu_secret (co_clients_ui (fst (perform (exchanging answer) action (c, log)))) = cu_secret (co_clients_ui c) \<or>
     \<not> secret_shown (cu_secret (co_clients_ui (fst (perform (exchanging answer) action (c, log)))))"
    using assms unfolding perform_secret by (cases action) (auto simp: issuing_def createClient_def clients_init_def)
qed

text \<open>The buttons of the clients are on their view only.\<close>

lemma client_buttons:
  assumes "action \<in> set (actions (App c))" "issuing action u"
  shows "as_view (co_app c) = Clients"
  using assms by (cases "as_view (co_app c)")
    (auto simp: App_actions view_body_def view_actions issuing_def split: LoadState.splits option.splits if_splits)

lemma secret_step:
  assumes "console_step (exchanging answer) s s'" "secret_inv s"
  shows "secret_inv s'"
  using assms(1)
proof cases
  case (console_press action c log)
  obtain c' log' where p: "perform (exchanging answer) action (c, log) = (c', log')" by fastforce
  have app: "as_view (co_app c') = (case action of SetView v \<Rightarrow> v | _ \<Rightarrow> as_view (co_app c))"
    using perform_app [of "exchanging answer" action c log] p by (cases action) (auto simp: setView_def submitToken_def)
  show ?thesis
  proof (cases "issuing action (co_clients_ui c)")
    case True
    then have "as_view (co_app c') = Clients" using client_buttons [OF console_press(3)] app
      by (cases action) (auto simp: issuing_def)
    with perform_issuing [OF True p] show ?thesis using console_press p
      by (auto simp: secret_inv_def displays_def split: if_splits)
  next
    case False
    note q = perform_quiet [OF False, of answer log, unfolded p, simplified]
    have "\<not> secret_shown (cu_secret (co_clients_ui c'))" if "as_view (co_app c') \<noteq> as_view (co_app c)"
      using that app perform_secret [of "exchanging answer" action c log] p
      by (cases action) (auto simp: clients_init_def)
    with q assms(2) show ?thesis using console_press p
      by (cases "as_view (co_app c') = as_view (co_app c)") (auto simp: secret_inv_def)
  qed
next
  case (console_type c log field content)
  then show ?thesis using assms(2) by (cases field) (auto simp: secret_inv_def type_into_def)
next
  case (console_load path c c' log)
  have "issued_secret (snd (fetchJson (exchanging answer) (token_of c) path no_init log)) = issued_secret log"
    by (rule quiet_fetch) (simp add: no_init_def)
  then show ?thesis using assms(2) console_load by (auto simp: secret_inv_def arrives_def)
qed

lemma session_secret: "session (exchanging answer) s s' \<Longrightarrow> secret_inv s \<Longrightarrow> secret_inv s'"
  by (induction rule: session.induct) (auto intro: secret_step)

lemma secret_inv_init: "secret_inv (console_init stored, log)"
  by (simp add: secret_inv_def console_init_def clients_init_def)

end
