(* ===== verification/Admin_Laws.thy ===== *)
theory Admin_Laws
  imports Admin_Console
begin

text \<open>
  The properties of the admin console: what its sessions send and when they send nothing, how a
  view chooses between answers that arrive in any order, what the editors and forms send, and
  how the console addresses scopes, queues and clients.
\<close>


section \<open>Sessions\<close>

text \<open>
  C36. Every request of the console carries the token it stores: whatever buttons a user presses,
  types or navigates to, and whatever the server answers, each request that left the browser since
  the page was opened has the \<open>Authorization\<close> header \<open>Bearer t\<close> for the token \<open>t\<close> that is stored,
  and this token is not empty.
\<close>

theorem every_request_carries_token:
  assumes "session (recording answer) (console_init stored, []) (c, log)" "rq \<in> set log"
  shows "\<exists>t. token_of c = Some t \<and> t \<noteq> [] \<and> map_of (rq_headers rq) ''Authorization'' = Some (''Bearer '' @ t)"
proof -
  have "console_inv c" using session_inv [OF assms(1)] by (simp add: console_inv_init)
  with session_token [OF assms(1)] assms(2) console_inv_init show ?thesis
    by (fastforce simp: console_inv_def)
qed

text \<open>A session: the token is typed and stored, then the overview is loaded.\<close>

definition typed_console :: console where
  "typed_console = type_into TokenField '' t0 '' (console_init None)"

definition stored_console :: console where
  "stored_console = fst (perform (recording (\<lambda>rq log. Inl (mkError ''offline''))) SaveToken (typed_console, []))"

lemma stored_session:
  "session (recording (\<lambda>rq log. Inl (mkError ''offline''))) (console_init None, []) (stored_console, [])"
proof -
  let ?f = "recording (\<lambda>rq log. Inl (mkError ''offline''))"
  have "SaveToken \<in> set (actions (App typed_console))"
    by (simp add: App_actions typed_console_def type_into_def console_init_def app_init_def)
  from console_press [OF this, of ?f "[]"] have "console_step ?f (typed_console, []) (stored_console, [])"
    by (simp add: stored_console_def perform_def)
  moreover have "console_step ?f (console_init None, []) (typed_console, [])"
    unfolding typed_console_def by (rule console_type)
  ultimately show ?thesis by (blast intro: session_step session_refl)
qed

lemma stored_token: "token_of stored_console = Some ''t0''" "as_tokenReady (co_app stored_console)"
  by (simp_all add: stored_console_def perform_def typed_console_def type_into_def console_init_def
      app_init_def submitToken_def js_trim_def is_js_space_def)

theorem every_request_carries_token_witness:
  "map_of (rq_headers (build_request (Some ''t0'') overviewPath no_init)) ''Authorization'' = Some ''Bearer t0''"
proof -
  let ?f = "recording (\<lambda>rq log. Inl (mkError ''offline''))"
  have "console_step ?f (stored_console, []) (stored_console, snd (fetchJson ?f (token_of stored_console) overviewPath no_init []))"
    by (rule console_load) (simp_all add: page_loads_def stored_token arrives_def)
  then have "session ?f (console_init None, []) (stored_console, [build_request (Some ''t0'') overviewPath no_init])"
    using stored_session by (auto intro: session_step simp: snd_fetchJson recording_def stored_token)
  from every_request_carries_token [OF this] show ?thesis by (simp add: stored_token)
qed

text \<open>
  Without a token nothing is sent: as long as a user has not stored a token, no session of the
  console, whatever is pressed or typed, has reached the network.
\<close>

theorem no_token_no_request:
  assumes "session fetch (console_init stored, n) (c, n')" "\<not> as_tokenReady (co_app c)"
  shows "n' = n"
  using session_no_token [OF assms(1)] assms(2) by (simp add: console_inv_init)

definition counting :: "nat fetch" where
  "counting rq n = (Inl (mkError ''offline''), Suc n)"

theorem no_token_no_request_witness:
  "session counting (console_init None, 0) (typed_console, 0) \<and>
   \<not> session counting (console_init None, 0) (typed_console, 1)"
proof -
  have off: "\<not> as_tokenReady (co_app typed_console)"
    by (simp add: typed_console_def type_into_def console_init_def app_init_def)
  have "console_step counting (console_init None, 0) (typed_console, 0)"
    unfolding typed_console_def by (rule console_type)
  then have "session counting (console_init None, 0) (typed_console, 0)" by (blast intro: session_step session_refl)
  with no_token_no_request [OF _ off, of counting None 0 1] show ?thesis by auto
qed

text \<open>
  The overview, cache and log views are read-only: a step of the console on one of them sends
  nothing or one \<open>GET\<close> request without a body.
\<close>

theorem read_only_views:
  assumes "console_step (recording answer) (c, log) (c', log')" "as_view (co_app c) \<in> {Overview, Cache, Logs}"
  shows "log' = log \<or> (\<exists>rq. log' = log @ [rq] \<and> rq_method rq = None \<and> rq_body rq = None)"
  using assms by (rule read_only_step)

theorem read_only_views_witness:
  "rq_method (build_request (Some ''t0'') overviewPath no_init) = None"
proof -
  let ?f = "recording (\<lambda>rq log. Inl (mkError ''offline''))"
  have "console_step ?f (stored_console, []) (stored_console, snd (fetchJson ?f (token_of stored_console) overviewPath no_init []))"
    by (rule console_load) (simp_all add: page_loads_def stored_token arrives_def)
  then have "console_step ?f (stored_console, []) (stored_console, [build_request (Some ''t0'') overviewPath no_init])"
    by (simp add: snd_fetchJson recording_def stored_token)
  moreover have "as_view (co_app stored_console) \<in> {Overview, Cache, Logs}"
    by (simp add: stored_console_def perform_def typed_console_def type_into_def console_init_def
        app_init_def submitToken_def)
  ultimately show ?thesis using read_only_views by fastforce
qed

text \<open>
  A request of the console fails with a stable message: when the network fails, with a fixed
  one that shows nothing of the cause; when the server refuses, with the server's message, or with
  the status when the answer has none; a response with status 2xx is parsed.
\<close>

theorem fetchJson_outcomes:
  "(fetch (build_request token path init) n = (Inl e, n') \<longrightarrow>
      fetchJson fetch token path init n = (Inl (mkError ''Admin API unavailable''), n')) \<and>
   (fetch (build_request token path init) n = (Inr r, n') \<and> \<not> response_ok r \<and>
      rp_body r = stringify (JObj [(''message'', JStr m)]) \<longrightarrow>
      fetchJson fetch token path init n = (Inl (mkError m), n')) \<and>
   (fetch (build_request token path init) n = (Inr r, n') \<and> \<not> response_ok r \<and> JSON_parse (rp_body r) = Inl se \<longrightarrow>
      fetchJson fetch token path init n = (Inl (mkError (''Request failed with '' @ dec (rp_status r))), n')) \<and>
   (fetch (build_request token path init) n = (Inr r, n') \<and> response_ok r \<and> rp_body r = stringify v \<and> json_ok v \<longrightarrow>
      fetchJson fetch token path init n = (Inr v, n'))"
proof -
  have "json_ok (JObj [(''message'', JStr m)])" by (simp add: own_keys_def)
  from JSON_parse_stringify [OF this] show ?thesis
    by (auto simp: fetchJson_rejected fetchJson_failed fetchJson_ok failure_message_def getProp_def
        JSON_parse_stringify Let_def)
qed

theorem fetchJson_outcomes_witness:
  "fetchJson (\<lambda>rq n. (Inr \<lparr>rp_status = 400, rp_body = stringify (JObj [(''message'', JStr ''config item update rejected'')])\<rparr>, n + 1))
     (Some ''t0'') ''/api/admin/config/items'' no_init (0 :: nat) = (Inl (mkError ''config item update rejected''), 1) \<and>
   fetchJson (\<lambda>rq n. (Inl (mkError ''Failed to fetch''), n + 1)) (Some ''t0'') ''/api/admin/overview'' no_init (0 :: nat) =
     (Inl (mkError ''Admin API unavailable''), 1)"
  using fetchJson_outcomes [of "\<lambda>rq n. (Inr \<lparr>rp_status = 400,
        rp_body = stringify (JObj [(''message'', JStr ''config item update rejected'')])\<rparr>, n + 1)" "Some ''t0''"
      "''/api/admin/config/items''" no_init "0 :: nat" _ 1 "\<lparr>rp_status = 400,
        rp_body = stringify (JObj [(''message'', JStr ''config item update rejected'')])\<rparr>" "''config item update rejected''"]
    fetchJson_outcomes [of "\<lambda>rq n. (Inl (mkError ''Failed to fetch''), n + 1)" "Some ''t0''" "''/api/admin/overview''"
      no_init "0 :: nat" "mkError ''Failed to fetch''" 1]
  by (simp add: response_ok_def)


section \<open>Loads\<close>

text \<open>
  C37. The hook behind the views refines its specification: in every history of runs of the effect,
  settled loads and an unmount, in any order, what a view shows is what the specification shows,
  which knows only how many loads were asked for and applies an answer if and only if it belongs to
  the last of them and the view is still mounted. Late answers of earlier loads change nothing.
\<close>

theorem hook_refines_latest:
  assumes "reaches hook_init es h"
  shows "abs_hook h = foldl (\<lambda>v e. spec_step e v) spec_init es"
  using reaches_refines [OF assms] by (simp add: abs_hook_def spec_init_def hook_init_def hook_inv_def)

definition two_loads :: "nat event list" where
  "two_loads = [Run True, Run True, Settle 1 (Inr 20), Settle 0 (Inr 10)]"

lemmas hook_run_simps = run_effect_def settle_def settled_state_def hook_init_def cleanup_def apply_event_def Let_def

theorem hook_refines_latest_witness:
  "run_events two_loads hook_init \<noteq> None \<and> hk_state (the (run_events two_loads hook_init)) = Ready 20"
proof -
  have "run_events two_loads hook_init \<noteq> None" by (simp add: two_loads_def hook_run_simps)
  then have "reaches hook_init two_loads (the (run_events two_loads hook_init))" by (simp add: reaches_run)
  from hook_refines_latest [OF this]
  have "vs_shown (abs_hook (the (run_events two_loads hook_init))) = Ready 20"
    by (simp add: two_loads_def spec_init_def settled_state_def)
  with \<open>run_events two_loads hook_init \<noteq> None\<close> show ?thesis by (simp add: abs_hook_def)
qed

text \<open>
  In every history of the hook, at most one run is live: all flags but the last are set, the
  last one is set exactly when the hook is unmounted, and the loads that are out are distinct and
  belong to runs that have started.
\<close>

theorem hook_invariant:
  assumes "reaches hook_init es h"
  shows "hook_inv h \<and> length (hk_cancelled h) = runs es \<and>
    (hk_cancelled h \<noteq> [] \<longrightarrow> last (hk_cancelled h) = (\<not> hk_mounted h))"
proof -
  have inv: "hook_inv h" using assms by (rule reaches_inv) simp
  then have "hk_cancelled h \<noteq> [] \<Longrightarrow> last (hk_cancelled h) = (\<not> hk_mounted h)"
    by (auto simp: hook_inv_def list_all_iff dest: last_in_set)
  with inv reaches_runs [OF assms] show ?thesis by (auto simp: hook_init_def)
qed

theorem hook_invariant_witness:
  "runs two_loads = 2 \<and> length (hk_cancelled (the (run_events two_loads hook_init))) = 2"
proof -
  have "reaches hook_init two_loads (the (run_events two_loads hook_init))"
    by (simp add: reaches_run two_loads_def hook_run_simps)
  from hook_invariant [OF this] show ?thesis by (simp add: two_loads_def runs_def)
qed


section \<open>Editing a configuration\<close>

text \<open>What a saved item looks like on the network, with the answer of the server.\<close>

definition item_request :: "string option \<Rightarrow> UiConfigScope \<Rightarrow> string \<Rightarrow> json \<Rightarrow> http_request" where
  "item_request token scope key v = build_request token ''/api/admin/config/items''
     \<lparr>in_method = Some ''PUT'', in_headers = [(''Content-Type'', ''application/json'')],
      in_body = Some (stringify (item_body scope key v))\<rparr>"

definition asks_to_store :: "http_request \<Rightarrow> UiConfigScope \<Rightarrow> string \<Rightarrow> json \<Rightarrow> bool" where
  "asks_to_store rq scope key v \<longleftrightarrow> rq_path rq = ''/api/admin/config/items'' \<and> rq_method rq = Some ''PUT'' \<and>
     (\<exists>body. rq_body rq = Some body \<and> JSON_parse body =
        Inr (JObj [(''scope'', scope_json scope), (''key'', JStr key), (''value'', v)]))"

lemma item_request_asks: "json_ok v \<Longrightarrow> asks_to_store (item_request token scope key v) scope (js_trim key) v"
  using JSON_parse_stringify [OF item_body_ok, of v scope key]
  by (simp add: asks_to_store_def item_request_def build_request_def item_body_def)

lemma saveItem_request:
  assumes "JSON_parse (du_jsonValue u) = Inr v" "js_trim (du_selectedKey u) \<noteq> []"
  shows "saveItem fetch token scope (u, n) = (case fetch (item_request token scope (du_selectedKey u) v) n of
     (Inl _, n') \<Rightarrow> (u\<lparr>du_feedback := ''Admin API unavailable''\<rparr>, n')
   | (Inr r, n') \<Rightarrow> (u\<lparr>du_feedback := (if response_ok r then report ''Draft saved'' (JSON_parse (rp_body r))
        else failure_message r)\<rparr>, n'))"
  using assms
  by (auto simp: saveItem_def sendJson_def fetchJson_def item_request_def report_def split: prod.split sum.split)

text \<open>
  Saving a config item sends exactly one request when the text is JSON and the key is not
  blank, a \<open>PUT\<close> that asks the server to store the value under the trimmed key in the scope, and
  reports success, the refusal of the server or the failure of the network; text that is not JSON
  and a blank key are reported and send nothing. The fields of the editor are kept.
\<close>

theorem saveItem_sends:
  "(JSON_parse (du_jsonValue u) = Inl e \<longrightarrow>
      saveItem fetch token scope (u, n) = (u\<lparr>du_feedback := ''Invalid JSON''\<rparr>, n)) \<and>
   (JSON_parse (du_jsonValue u) = Inr v \<and> js_trim (du_selectedKey u) = [] \<longrightarrow>
      saveItem fetch token scope (u, n) = (u\<lparr>du_feedback := ''Key required''\<rparr>, n)) \<and>
   (JSON_parse (du_jsonValue u) = Inr v \<and> json_ok v \<and> js_trim (du_selectedKey u) \<noteq> [] \<longrightarrow>
      (\<exists>rq feedback. asks_to_store rq scope (js_trim (du_selectedKey u)) v \<and>
         saveItem fetch token scope (u, n) = (u\<lparr>du_feedback := feedback\<rparr>, snd (fetch rq n)) \<and>
         (\<forall>w r. fst (fetch rq n) = Inr r \<and> response_ok r \<and> JSON_parse (rp_body r) = Inr w \<longrightarrow> feedback = ''Draft saved'') \<and>
         (\<forall>r. fst (fetch rq n) = Inr r \<and> \<not> response_ok r \<longrightarrow> feedback = failure_message r) \<and>
         (\<forall>x. fst (fetch rq n) = Inl x \<longrightarrow> feedback = ''Admin API unavailable'')))"
proof -
  let ?rq = "item_request token scope (du_selectedKey u) v"
  let ?f = "case fst (fetch ?rq n) of Inl _ \<Rightarrow> ''Admin API unavailable''
    | Inr r \<Rightarrow> if response_ok r then report ''Draft saved'' (JSON_parse (rp_body r)) else failure_message r"
  have "\<exists>rq feedback. asks_to_store rq scope (js_trim (du_selectedKey u)) v \<and>
         saveItem fetch token scope (u, n) = (u\<lparr>du_feedback := feedback\<rparr>, snd (fetch rq n)) \<and>
         (\<forall>w r. fst (fetch rq n) = Inr r \<and> response_ok r \<and> JSON_parse (rp_body r) = Inr w \<longrightarrow> feedback = ''Draft saved'') \<and>
         (\<forall>r. fst (fetch rq n) = Inr r \<and> \<not> response_ok r \<longrightarrow> feedback = failure_message r) \<and>
         (\<forall>x. fst (fetch rq n) = Inl x \<longrightarrow> feedback = ''Admin API unavailable'')"
    if "JSON_parse (du_jsonValue u) = Inr v" "json_ok v" "js_trim (du_selectedKey u) \<noteq> []"
    using saveItem_request [OF that(1,3), of fetch token scope n] item_request_asks [OF that(2), of token scope "du_selectedKey u"]
    by (intro exI [of _ ?rq] exI [of _ ?f]) (auto simp: report_def split: prod.splits sum.splits)
  then show ?thesis by (simp add: saveItem_def)
qed

definition limit_editor :: details_ui where
  "limit_editor = details_init\<lparr>du_selectedKey := '' limit '', du_jsonValue := ''25''\<rparr>"

definition orders_scope :: UiConfigScope where
  "orders_scope = \<lparr>sc_app_id = ''orders'', sc_environment = ''prod'', sc_cluster = ''default'', sc_namespace = ''app''\<rparr>"

lemma parse_25: "JSON_parse ''25'' = Inr (JNum (IntNum 25))"
  by code_simp

lemma json_ok_25: "json_ok (JNum (IntNum 25))"
  by (simp add: num_json_def safe_int_def)

theorem saveItem_sends_witness:
  "\<exists>rq. asks_to_store rq orders_scope ''limit'' (JNum (IntNum 25)) \<and>
     saveItem (recording (\<lambda>rq log. Inl (mkError ''offline''))) (Some ''t0'') orders_scope (limit_editor, []) =
       (limit_editor\<lparr>du_feedback := ''Admin API unavailable''\<rparr>, [rq])"
proof -
  have "js_trim '' limit '' = ''limit''" by code_simp
  with saveItem_sends [of limit_editor _ "recording (\<lambda>rq log. Inl (mkError ''offline''))" "Some ''t0''" orders_scope "[]"
      "JNum (IntNum 25)"] parse_25 json_ok_25
  show ?thesis by (auto simp: limit_editor_def recording_def)
qed

text \<open>
  C38. Saving what was loaded stores the same item: when the draft of a scope has arrived, its first
  live item is in the editor, and saving it unchanged asks the server to store the same value under
  the same key; printing the value for the editor and parsing it back loses nothing.
\<close>

theorem editor_saves_what_it_loaded:
  assumes "first_item (dr_items data) = Some item" "json_ok (di_value item)" "validate_config_key (di_key item) = Inr ()"
  shows "\<exists>rq. asks_to_store rq scope (di_key item) (di_value item) \<and>
    snd (saveItem fetch token scope (draft_effect (Ready data) u, n)) = snd (fetch rq n)"
proof -
  have k: "js_trim (di_key item) = di_key item" "di_key item \<noteq> []"
    using validate_config_key_ident [OF assms(3)] by (simp_all add: js_trim_ident)
  let ?rq = "item_request token scope (di_key item) (di_value item)"
  have "snd (saveItem fetch token scope (draft_effect (Ready data) u, n)) = snd (fetch ?rq n)"
    using k assms(1) JSON_parse_pretty [OF assms(2)]
    by (subst saveItem_request [where v = "di_value item"])
      (auto simp: draft_effect_def split: prod.split sum.split)
  with item_request_asks [OF assms(2), of token scope "di_key item"] k(1) show ?thesis by auto
qed

definition limit_draft :: UiConfigDraft where
  "limit_draft = \<lparr>dr_scope = orders_scope, dr_items =
     [\<lparr>di_key = ''old'', di_value = JNull, di_deleted = True, di_updated_at = []\<rparr>,
      \<lparr>di_key = ''limit'', di_value = JNum (IntNum 25), di_deleted = False, di_updated_at = []\<rparr>]\<rparr>"

theorem editor_saves_what_it_loaded_witness:
  "\<exists>rq. asks_to_store rq orders_scope ''limit'' (JNum (IntNum 25)) \<and>
    snd (saveItem (recording (\<lambda>rq log. Inl (mkError ''offline''))) (Some ''t0'') orders_scope
      (draft_effect (Ready limit_draft) details_init, [])) = [rq]"
proof -
  have "validate_config_key ''limit'' = Inr ()" by code_simp
  with editor_saves_what_it_loaded [of limit_draft "\<lparr>di_key = ''limit'', di_value = JNum (IntNum 25), di_deleted = False,
      di_updated_at = []\<rparr>" orders_scope "recording (\<lambda>rq log. Inl (mkError ''offline''))" "Some ''t0''" details_init "[]"] json_ok_25
  show ?thesis by (auto simp: first_item_def limit_draft_def recording_def)
qed


section \<open>Scopes\<close>

lemma select_scope_current:
  assumes "co_scopes c = Ready page" "item \<in> set (pg_items page)" "\<forall>i \<in> set (pg_items page). valid_scope (ss_scope i)"
  shows "current_scope (select_scope (scopeId (ss_scope item)) c) = Some (ss_scope item)"
  using assms find_scope [OF assms(2,3)] by (simp add: select_scope_def current_scope_def Let_def)

lemma select_scope_details [simp]: "co_details (select_scope k c) = co_details c" "co_app (select_scope k c) = co_app c"
  by (simp_all add: select_scope_def Let_def)

text \<open>
  Pressing a scope shows that scope: with a token, every listed scope has a button on the config
  page, and after pressing it the details on the page are those of this scope and of no other, since
  scopes the server accepts have distinct ids.
\<close>

theorem pressed_scope_is_shown:
  assumes "as_tokenReady (co_app c)" "as_view (co_app c) = Config" "co_scopes c = Ready page"
    "item \<in> set (pg_items page)" "\<forall>i \<in> set (pg_items page). valid_scope (ss_scope i)"
  shows "SelectScope (scopeId (ss_scope item)) \<in> set (actions (App c)) \<and>
    current_scope (fst (perform fetch (SelectScope (scopeId (ss_scope item))) (c, n))) = Some (ss_scope item)"
proof -
  obtain shown where "selectedScope (pg_items page) (co_selectedScopeId c) = Some shown"
    using selectedScope_member [of "pg_items page" "co_selectedScopeId c"] assms(4) by fastforce
  with assms(1-4) have "SelectScope (scopeId (ss_scope item)) \<in> set (actions (App c))"
    by (auto simp: App_actions view_body_def ConfigView_actions)
  with select_scope_current [OF assms(3-5)] show ?thesis by (simp add: perform_def)
qed

definition billing_scope :: UiConfigScope where
  "billing_scope = \<lparr>sc_app_id = ''billing'', sc_environment = ''prod'', sc_cluster = ''default'', sc_namespace = ''app''\<rparr>"

definition two_scopes :: "UiConfigScopeSummary Page" where
  "two_scopes = \<lparr>pg_items = [\<lparr>ss_scope = orders_scope, ss_current_revision = 3\<rparr>,
     \<lparr>ss_scope = billing_scope, ss_current_revision = 1\<rparr>], pg_limit = 50, pg_offset = 0, pg_next_offset = None\<rparr>"

definition config_console :: console where
  "config_console = (console_init (Some ''t0''))\<lparr>co_app := setView Config (app_init (Some ''t0'')),
     co_scopes := Ready two_scopes, co_draft := Ready limit_draft, co_details := limit_editor\<rparr>"

lemma two_scopes_valid: "\<forall>i \<in> set (pg_items two_scopes). valid_scope (ss_scope i)"
  by code_simp

lemma config_console_simps:
  "as_tokenReady (co_app config_console)" "as_view (co_app config_console) = Config"
  "co_scopes config_console = Ready two_scopes" "\<lparr>ss_scope = billing_scope, ss_current_revision = 1\<rparr> \<in> set (pg_items two_scopes)"
  "co_details config_console = limit_editor" "token_of config_console = Some ''t0''"
  by (simp_all add: config_console_def setView_def app_init_def two_scopes_def)

theorem pressed_scope_is_shown_witness:
  "current_scope (fst (perform counting (SelectScope (scopeId billing_scope)) (config_console, 0))) = Some billing_scope"
  using pressed_scope_is_shown [OF config_console_simps(1-4) two_scopes_valid, of counting 0] by simp

text \<open>
  C39. The editor outlives its scope: after another scope is pressed, and until the draft of that
  scope has arrived, pressing Save asks the server to store the key and the value that were loaded
  for the previous scope in the newly chosen one.
\<close>

theorem stale_editor_is_saved_elsewhere:
  assumes "co_scopes c = Ready page" "item \<in> set (pg_items page)" "\<forall>i \<in> set (pg_items page). valid_scope (ss_scope i)"
    "JSON_parse (du_jsonValue (co_details c)) = Inr v" "json_ok v" "js_trim (du_selectedKey (co_details c)) \<noteq> []"
  shows "\<exists>rq. asks_to_store rq (ss_scope item) (js_trim (du_selectedKey (co_details c))) v \<and>
    snd (perform fetch SaveItem (perform fetch (SelectScope (scopeId (ss_scope item))) (c, n))) = snd (fetch rq n)"
proof -
  let ?rq = "item_request (token_of c) (ss_scope item) (du_selectedKey (co_details c)) v"
  have "snd (perform fetch SaveItem (perform fetch (SelectScope (scopeId (ss_scope item))) (c, n))) = snd (fetch ?rq n)"
    using select_scope_current [OF assms(1-3)] saveItem_request [OF assms(4,6), of fetch "token_of c" "ss_scope item" n]
    by (simp add: perform_def in_view_snd split: prod.split sum.split)
  with item_request_asks [OF assms(5)] show ?thesis by blast
qed

theorem stale_editor_is_saved_elsewhere_witness:
  "current_scope config_console = Some orders_scope \<and>
   (\<exists>rq. asks_to_store rq billing_scope ''limit'' (JNum (IntNum 25)) \<and>
     snd (perform (recording (\<lambda>rq log. Inl (mkError ''offline''))) SaveItem
       (perform (recording (\<lambda>rq log. Inl (mkError ''offline''))) (SelectScope (scopeId billing_scope)) (config_console, []))) = [rq])"
proof -
  have "js_trim '' limit '' = ''limit''" by code_simp
  with stale_editor_is_saved_elsewhere [OF config_console_simps(3,4) two_scopes_valid, of "JNum (IntNum 25)"
      "recording (\<lambda>rq log. Inl (mkError ''offline''))" "[]"] parse_25 json_ok_25
  have "\<exists>rq. asks_to_store rq billing_scope ''limit'' (JNum (IntNum 25)) \<and>
     snd (perform (recording (\<lambda>rq log. Inl (mkError ''offline''))) SaveItem
       (perform (recording (\<lambda>rq log. Inl (mkError ''offline''))) (SelectScope (scopeId billing_scope)) (config_console, []))) = [rq]"
    by (auto simp: config_console_simps limit_editor_def recording_def)
  moreover have "current_scope config_console = Some orders_scope"
    by (simp add: current_scope_def config_console_def two_scopes_def selectedScope_def console_init_def
        scopeId_def orders_scope_def billing_scope_def)
  ultimately show ?thesis by blast
qed

text \<open>
  The query of a scope means that scope: a server that reads the query string of the draft,
  release and schema requests gets the four components back, whatever characters they have.
\<close>

theorem scopeQuery_roundtrip:
  "parse_query (scopeQuery scope) = Some [(''app_id'', sc_app_id scope), (''environment'', sc_environment scope),
     (''cluster'', sc_cluster scope), (''namespace'', sc_namespace scope)]"
  using parse_query_text [of "scope_params scope"] by (simp add: scopeQuery_def scope_params_def)

text \<open>
  The paths of requests about queues and clients have the name as one segment: for a queue name
  or a client key the server accepts, and a message id that is a safe integer, no name can change
  which resource or which action the request is about.
\<close>

theorem resource_paths:
  assumes "validate_queue_name queue = Inr ()" "validate_config_component ''client_key'' key = Inr ()" "safe_int messageId"
  shows "segments (messagesPath queue) = [[], ''api'', ''admin'', ''mq'', ''queues'', queue, ''messages''] \<and>
    segments (dlqPath queue) = [[], ''api'', ''admin'', ''mq'', ''queues'', queue, ''dlq''] \<and>
    segments (purgePath queue) = [[], ''api'', ''admin'', ''mq'', ''queues'', queue, ''dlq'', ''purge''] \<and>
    segments (reprocessPath queue messageId) =
      [[], ''api'', ''admin'', ''mq'', ''queues'', queue, ''dlq'', dec messageId, ''reprocess''] \<and>
    segments (rotatePath key) = [[], ''api'', ''admin'', ''clients'', key, ''rotate''] \<and>
    segments (deactivatePath key) = [[], ''api'', ''admin'', ''clients'', key, ''deactivate'']"
  using assms by (simp add: messagesPath_segments dlqPath_segments purgePath_segments reprocessPath_segments client_paths_segments)

theorem resource_paths_witness:
  "segments (reprocessPath ''orders-1'' 42) = [[], ''api'', ''admin'', ''mq'', ''queues'', ''orders-1'', ''dlq'', dec 42, ''reprocess'']"
proof -
  have "validate_queue_name ''orders-1'' = Inr ()" "validate_config_component ''client_key'' ''svc'' = Inr ()" "safe_int 42"
    by code_simp+
  from resource_paths [OF this] show ?thesis by blast
qed


section \<open>Client credentials\<close>

lemma create_body_ok: "json_ok (create_body u)"
proof -
  have "elems_ok (map JStr ws)" for ws by (induction ws) simp_all
  moreover have "own_keys [''client_key'', ''roles'']" by code_simp
  ultimately show ?thesis by (simp add: create_body_def)
qed

text \<open>
  Creating a client sends nothing without a key; with one it sends a single \<open>POST\<close> whose body is
  the trimmed key and the list of roles of the form, and no role in it is empty, padded with white
  space or contains a comma.
\<close>

theorem createClient_sends:
  "(js_trim (cu_clientKey u) = [] \<longrightarrow> snd (createClient fetch token (u, n)) = n \<and>
      cu_feedback (fst (createClient fetch token (u, n))) = ''Client key required'') \<and>
   (js_trim (cu_clientKey u) \<noteq> [] \<longrightarrow> (\<exists>rq body roles. snd (createClient fetch token (u, n)) = snd (fetch rq n) \<and>
      rq_path rq = ''/api/admin/clients'' \<and> rq_method rq = Some ''POST'' \<and> rq_body rq = Some body \<and>
      JSON_parse body = Inr (JObj [(''client_key'', JStr (js_trim (cu_clientKey u))), (''roles'', JArr (map JStr roles))]) \<and>
      (\<forall>role \<in> set roles. role \<noteq> [] \<and> CHR '','' \<notin> set role \<and> js_trim role = role)))"
proof -
  let ?u = "u\<lparr>cu_feedback := [], cu_secret := Some (JStr [])\<rparr>"
  let ?rq = "build_request token clientsPath \<lparr>in_method = Some ''POST'',
    in_headers = [(''Content-Type'', ''application/json'')], in_body = Some (stringify (create_body ?u))\<rparr>"
  have "snd (createClient fetch token (u, n)) = snd (fetch ?rq n)" if "js_trim (cu_clientKey u) \<noteq> []"
    using that by (simp add: createClient_def sendJson_def Let_def case_prod_beta snd_fetchJson)
  then have "\<exists>rq body roles. snd (createClient fetch token (u, n)) = snd (fetch rq n) \<and>
      rq_path rq = ''/api/admin/clients'' \<and> rq_method rq = Some ''POST'' \<and> rq_body rq = Some body \<and>
      JSON_parse body = Inr (JObj [(''client_key'', JStr (js_trim (cu_clientKey u))), (''roles'', JArr (map JStr roles))]) \<and>
      (\<forall>role \<in> set roles. role \<noteq> [] \<and> CHR '','' \<notin> set role \<and> js_trim role = role)"
    if "js_trim (cu_clientKey u) \<noteq> []"
    using that JSON_parse_stringify [OF create_body_ok, of ?u] parse_roles_clean
    by (intro exI [of _ ?rq] exI [of _ "stringify (create_body ?u)"] exI [of _ "parse_roles (cu_roles u)"])
      (simp add: build_request_def clientsPath_def create_body_def)
  then show ?thesis by (simp add: createClient_def Let_def)
qed

definition client_form :: clients_ui where
  "client_form = clients_init\<lparr>cu_clientKey := '' svc '', cu_roles := ''cache, mq,''\<rparr>"

theorem createClient_sends_witness:
  "\<exists>rq. snd (createClient (recording (\<lambda>rq log. Inl (mkError ''offline''))) (Some ''t0'') (client_form, [])) = [rq] \<and>
     rq_method rq = Some ''POST''"
proof -
  have "js_trim '' svc '' = ''svc''" by code_simp
  with createClient_sends [of client_form "recording (\<lambda>rq log. Inl (mkError ''offline''))" "Some ''t0''" "[]"]
  show ?thesis by (auto simp: client_form_def recording_def)
qed







text \<open>
  The roles column of a client can be typed back: for roles the server accepts, the form parses
  the text it shows for a client to exactly the client's roles.
\<close>

theorem shown_roles_roundtrip:
  assumes "list_all (\<lambda>role. validate_config_component ''role'' role = Inr ()) roles"
  shows "parse_roles (join_comma roles) = roles"
proof (rule parse_roles_join)
  have "role \<noteq> [] \<and> CHR '','' \<notin> set role \<and> js_trim role = role" if "validate_config_component ''role'' role = Inr ()" for role
    using validate_identifier_chars [OF that [unfolded validate_config_component_def]]
    by (auto simp: js_trim_ident list_all_iff)
  then show "list_all (\<lambda>r. r \<noteq> [] \<and> CHR '','' \<notin> set r \<and> js_trim r = r) roles"
    using assms by (auto simp: list_all_iff)
qed

theorem shown_roles_roundtrip_witness: "parse_roles ''cache, mq-reader'' = [''cache'', ''mq-reader'']"
proof -
  have "list_all (\<lambda>role. validate_config_component ''role'' role = Inr ()) [''cache'', ''mq-reader'']" by code_simp
  from shown_roles_roundtrip [OF this] show ?thesis by simp
qed

text \<open>
  The error count of the overview is exact: the sum over all methods, as long as it stays within
  the integers a JavaScript number holds without rounding.
\<close>

theorem sumErrors_exact:
  assumes "\<forall>m \<in> set methods. 0 \<le> mm_errors m" "sum_list (map mm_errors methods) \<le> 9007199254740992"
  shows "sumErrors methods = sum_list (map mm_errors methods)"
  using foldl_js_add [OF assms(1), of 0] assms(2) by (simp add: sumErrors_def)

definition metric_of :: "int \<Rightarrow> UiMethodMetric" where
  "metric_of errors = \<lparr>mm_service = ''cache'', mm_method = ''Get'', mm_status = ''ok'', mm_count = 10, mm_errors = errors,
     mm_total_latency_millis = 5\<rparr>"

theorem sumErrors_exact_witness:
  "sumErrors [metric_of 9007199254740990, metric_of 2] = 9007199254740992"
  using sumErrors_exact [of "[metric_of 9007199254740990, metric_of 2]"] by (simp add: metric_of_def)

end
