(* ===== verification/Sql_Ops.thy ===== *)
theory Sql_Ops
  imports Validation
begin

text \<open>
  Operations on tables: sequencing with the \<open>?\<close> operator, transactions, timestamps of the database,
  and the triples in which their invariants are proved. The tables are a type parameter; the cache
  and the queues of the server both use them.
\<close>


section \<open>Operations\<close>

text \<open>An operation: a result, or an error, and the tables afterwards.\<close>

type_synonym ('s, 'a) sql_op = "'s \<Rightarrow> (pg_error + 'a) \<times> 's"

text \<open>The \<open>?\<close> operator: after a check, and after a statement.\<close>

definition check :: "pg_error + 'b \<Rightarrow> ('s, 'a) sql_op \<Rightarrow> ('s, 'a) sql_op" where
  "check v op db = (case v of Inl e \<Rightarrow> (Inl e, db) | Inr _ \<Rightarrow> op db)"

definition andThen :: "('s, 'a) sql_op \<Rightarrow> ('a \<Rightarrow> ('s, 'b) sql_op) \<Rightarrow> ('s, 'b) sql_op" where
  "andThen m f db = (case m db of (Inl e, db') \<Rightarrow> (Inl e, db') | (Inr x, db') \<Rightarrow> f x db')"

definition given :: "pg_error + 'b \<Rightarrow> ('b \<Rightarrow> ('s, 'a) sql_op) \<Rightarrow> ('s, 'a) sql_op" where
  "given v f db = (case v of Inl e \<Rightarrow> (Inl e, db) | Inr x \<Rightarrow> f x db)"

lemma checked [simp]: "check (Inr x) op db = op db" "check (Inl e) op db = (Inl e, db)"
  by (simp_all add: check_def)

lemma given_simps [simp]: "given (Inr x) f db = f x db" "given (Inl e) f db = (Inl e, db)"
  by (simp_all add: given_def)

text \<open>
  A transaction that is dropped without \<open>commit\<close> is rolled back. Row ids are used only to tell rows
  apart and to order them by age; the gaps that failed insertions leave in them are left out.
\<close>

definition transaction :: "('s, 'a) sql_op \<Rightarrow> ('s, 'a) sql_op" where
  "transaction op db = (case op db of (Inl e, _) \<Rightarrow> (Inl e, db) | (Inr x, db') \<Rightarrow> (Inr x, db'))"


section \<open>Timestamps\<close>

text \<open>
  \<open>now() + seconds::double precision * interval '1 second'\<close> in microseconds since 2000, which is an error
  beyond the last timestamp of PostgreSQL (of the same class for the interval and for the sum).
\<close>

definition last_timestamp :: int where
  "last_timestamp = 9223371331200000000"

definition timestamp_after :: "int \<Rightarrow> int \<Rightarrow> pg_error + int" where
  "timestamp_after now seconds = (let at = now + to_double (to_double seconds * 1000000)
     in if at < last_timestamp then Inr at else Inl (Database DatetimeValueOutOfRange))"

definition expires_at :: "int \<Rightarrow> int option \<Rightarrow> pg_error + int option" where
  "expires_at now ttl = (case ttl of None \<Rightarrow> Inr None
     | Some seconds \<Rightarrow> map_sum id Some (timestamp_after now seconds))"


text \<open>A positive number of seconds stays positive as a double.\<close>

lemma round_even_pos: "0 < m \<Longrightarrow> 0 < round_even m"
proof -
  assume m: "0 < m"
  define e where "e = bit_len m - 53"
  have "(2 :: int) ^ e \<le> 2 ^ (bit_len m - 1)" unfolding e_def by (rule power_increasing) auto
  with bit_len_bound [OF m] have "2 ^ e \<le> m" by linarith
  then have "0 < m div 2 ^ e" by (simp add: pos_imp_zdiv_pos_iff)
  then have "0 < (if h < r \<or> r = h \<and> odd (m div 2 ^ e) then m div 2 ^ e + 1 else m div 2 ^ e) * 2 ^ e" for h r :: int
    by (auto intro!: mult_pos_pos)
  then show ?thesis unfolding round_even_def Let_def e_def [symmetric] by simp
qed

lemma to_double_pos: "0 < v \<Longrightarrow> 0 < to_double v"
  by (auto simp: to_double_def round_even_pos)

lemma timestamp_later: "timestamp_after now seconds = Inr at \<Longrightarrow> 0 < seconds \<Longrightarrow> now < at"
  using to_double_pos by (auto simp: timestamp_after_def Let_def split: if_splits)

lemma timestamp_not_before: "timestamp_after now seconds = Inr at \<Longrightarrow> 0 \<le> seconds \<Longrightarrow> now \<le> at"
  using timestamp_later [of now seconds at] by (cases "seconds = 0") (auto simp: timestamp_after_def Let_def safe_int_def split: if_splits)


section \<open>Rows\<close>

text \<open>Looking rows up in a table, by a predicate or by a key that no two rows share.\<close>

lemma find_member: "find P xs = Some x \<Longrightarrow> x \<in> set xs \<and> P x"
  by (induction xs) (auto split: if_splits)

lemma find_append: "find P (xs @ ys) = (case find P xs of None \<Rightarrow> find P ys | Some x \<Rightarrow> Some x)"
  by (induction xs) simp_all

lemma find_map: "find P (map f xs) = map_option f (find (P \<circ> f) xs)"
  by (induction xs) simp_all

lemma find_unique: "distinct (map k xs) \<Longrightarrow> x \<in> set xs \<Longrightarrow> find (\<lambda>y. k y = k x) xs = Some x"
  by (induction xs) (auto simp: image_iff)

lemma filter_one: "distinct (map k xs) \<Longrightarrow> x \<in> set xs \<Longrightarrow> filter (\<lambda>y. k y = k x) xs = [x]"
  by (induction xs) (auto simp: image_iff filter_empty_conv)


section \<open>Triples\<close>

named_theorems op_intro \<open>rules that take an operation apart\<close>

definition triple :: "('s \<Rightarrow> bool) \<Rightarrow> ('s \<Rightarrow> bool) \<Rightarrow> ('s, 'a) sql_op \<Rightarrow> ('a \<Rightarrow> 's \<Rightarrow> bool) \<Rightarrow> bool" where
  "triple I P op Q \<longleftrightarrow> (\<forall>db. P db \<longrightarrow> (case op db of (Inl _, db') \<Rightarrow> I db' | (Inr x, db') \<Rightarrow> Q x db'))"

lemma triple_check [op_intro]: "(\<And>db. P db \<Longrightarrow> I db) \<Longrightarrow> triple I P op Q \<Longrightarrow> triple I P (check v op) Q"
  by (auto simp: triple_def check_def split: sum.splits)

lemma triple_given [op_intro]: "(\<And>db. P db \<Longrightarrow> I db) \<Longrightarrow> (\<And>x. v = Inr x \<Longrightarrow> triple I P (f x) Q) \<Longrightarrow> triple I P (given v f) Q"
  by (auto simp: triple_def given_def split: sum.splits)

lemma triple_andThen: "triple I P m R \<Longrightarrow> (\<And>x. triple I (R x) (f x) Q) \<Longrightarrow> triple I P (andThen m f) Q"
  unfolding triple_def andThen_def by (fastforce split: sum.splits prod.splits)

lemma triple_transaction [op_intro]: "(\<And>db. P db \<Longrightarrow> I db) \<Longrightarrow> triple (\<lambda>_. True) P op Q \<Longrightarrow> triple I P (transaction op) Q"
  unfolding triple_def transaction_def by (fastforce split: sum.splits prod.splits)

lemma triple_return [op_intro]: "(\<And>db. P db \<Longrightarrow> Q x db) \<Longrightarrow> triple I P (\<lambda>db. (Inr x, db)) Q"
  by (simp add: triple_def)

lemma triple_apply: "triple I P op Q \<Longrightarrow> (\<And>db. P' db \<Longrightarrow> P (f db)) \<Longrightarrow> triple I P' (\<lambda>db. op (f db)) Q"
  by (simp add: triple_def)

lemma triple_weaken: "triple I P op Q \<Longrightarrow> (\<And>db. P' db \<Longrightarrow> P db) \<Longrightarrow> (\<And>x db. Q x db \<Longrightarrow> Q' x db) \<Longrightarrow> triple I P' op Q'"
  unfolding triple_def by (fastforce split: sum.splits prod.splits)

lemma triple_result: "triple I P op (\<lambda>_. I) \<Longrightarrow> P db \<Longrightarrow> I (snd (op db))"
  unfolding triple_def by (cases "op db"; cases "fst (op db)") fastforce+

end
