(* ===== verification/Cache_Store.thy ===== *)
theory Cache_Store
  imports Sql_Ops
begin

text \<open>
  \<open>CacheStore\<close> of \<open>crates/pgapp-core/src/cache.rs\<close>: the cache of the server over its tables
  (\<open>migrations/0001_cache.sql\<close>). The tables are lists of rows, the SQL statements functions on
  them; \<open>hash_key\<close> (SHA-256 of a library) is an argument. An operation runs alone and at one
  instant, given in microseconds; the only database errors are those its statements can cause. The
  columns \<open>metadata\<close>, \<open>created_at\<close> and \<open>updated_at\<close> are read by no operation and left out.
\<close>


section \<open>Tables\<close>

record CacheLimits =
  max_keys :: "int option"
  max_bytes :: "int option"

record cache_row =
  ce_id :: int
  ce_ns :: string
  ce_generation :: int
  ce_key_hash :: string
  ce_cache_key :: string
  ce_bytes :: bytes
  ce_expires_at :: "int option"
  ce_size :: int
  ce_last_accessed_at :: int
  ce_accesses :: int

record cache_counters =
  ct_hits :: int
  ct_misses :: int
  ct_writes :: int
  ct_deletes :: int
  ct_evictions :: int
  ct_expired_removals :: int

record cache_db =
  db_namespaces :: "(string \<times> int) list"
  db_entries :: "cache_row list"
  db_next_id :: int
  db_counters :: cache_counters

definition empty_db :: cache_db where
  "empty_db = \<lparr>db_namespaces = [], db_entries = [], db_next_id = 1, db_counters = \<lparr>ct_hits = 0, ct_misses = 0,
     ct_writes = 0, ct_deletes = 0, ct_evictions = 0, ct_expired_removals = 0\<rparr>\<rparr>"

text \<open>An operation: a result, or an error, and the tables afterwards.\<close>

type_synonym 'a db_op = "(cache_db, 'a) sql_op"


section \<open>Statements\<close>

text \<open>\<open>expires_at IS NULL OR expires_at > now()\<close>\<close>

definition live :: "int \<Rightarrow> cache_row \<Rightarrow> bool" where
  "live now r = (case ce_expires_at r of None \<Rightarrow> True | Some at \<Rightarrow> now < at)"

definition in_generation :: "string \<Rightarrow> int \<Rightarrow> cache_row \<Rightarrow> bool" where
  "in_generation ns gen r \<longleftrightarrow> ce_ns r = ns \<and> ce_generation r = gen"

text \<open>The columns of the unique constraint, and the condition that also compares the key.\<close>

definition at_hash :: "string \<Rightarrow> int \<Rightarrow> string \<Rightarrow> cache_row \<Rightarrow> bool" where
  "at_hash ns gen key_hash r \<longleftrightarrow> in_generation ns gen r \<and> ce_key_hash r = key_hash"

definition at_key :: "string \<Rightarrow> int \<Rightarrow> string \<Rightarrow> string \<Rightarrow> cache_row \<Rightarrow> bool" where
  "at_key ns gen key_hash key r \<longleftrightarrow> at_hash ns gen key_hash r \<and> ce_cache_key r = key"

definition new_row :: "cache_db \<Rightarrow> int \<Rightarrow> string \<Rightarrow> int \<Rightarrow> string \<Rightarrow> string \<Rightarrow> bytes \<Rightarrow> int option \<Rightarrow> cache_row" where
  "new_row db now ns gen key_hash key content expires = \<lparr>ce_id = db_next_id db, ce_ns = ns, ce_generation = gen,
     ce_key_hash = key_hash, ce_cache_key = key, ce_bytes = content, ce_expires_at = expires,
     ce_size = int (length content), ce_last_accessed_at = now, ce_accesses = 0\<rparr>"

definition has_conflict :: "string \<Rightarrow> int \<Rightarrow> string \<Rightarrow> cache_db \<Rightarrow> bool" where
  "has_conflict ns gen key_hash db = list_ex (at_hash ns gen key_hash) (db_entries db)"

text \<open>A sequence gives a number also to an insertion that meets a conflict.\<close>

definition take_id :: "cache_db \<Rightarrow> cache_db" where
  "take_id db = db\<lparr>db_next_id := db_next_id db + 1\<rparr>"

text \<open>\<open>INSERT ... ON CONFLICT (namespace, generation, key_hash) DO UPDATE\<close>\<close>

definition upsert :: "int \<Rightarrow> string \<Rightarrow> int \<Rightarrow> string \<Rightarrow> string \<Rightarrow> bytes \<Rightarrow> int option \<Rightarrow> cache_db \<Rightarrow> cache_db" where
  "upsert now ns gen key_hash key content expires db = take_id (if has_conflict ns gen key_hash db
     then db\<lparr>db_entries := map (\<lambda>r. if at_hash ns gen key_hash r then r\<lparr>ce_cache_key := key,
            ce_bytes := content, ce_expires_at := expires, ce_size := int (length content)\<rparr> else r) (db_entries db)\<rparr>
     else db\<lparr>db_entries := db_entries db @ [new_row db now ns gen key_hash key content expires]\<rparr>)"

text \<open>\<open>INSERT ... ON CONFLICT DO NOTHING\<close>, with the number of rows it made.\<close>

definition insert_new ::
  "int \<Rightarrow> string \<Rightarrow> int \<Rightarrow> string \<Rightarrow> string \<Rightarrow> bytes \<Rightarrow> int option \<Rightarrow> cache_db \<Rightarrow> int \<times> cache_db" where
  "insert_new now ns gen key_hash key content expires db = (if has_conflict ns gen key_hash db then (0, take_id db)
     else (1, take_id (db\<lparr>db_entries := db_entries db @ [new_row db now ns gen key_hash key content expires]\<rparr>)))"

text \<open>\<open>insert_value\<close>: an \<open>INSERT\<close> without a conflict clause.\<close>

definition insert_value ::
  "int \<Rightarrow> string \<Rightarrow> int \<Rightarrow> string \<Rightarrow> string \<Rightarrow> bytes \<Rightarrow> int option \<Rightarrow> unit db_op" where
  "insert_value now ns gen key_hash key content ttl db = (case expires_at now ttl of Inl e \<Rightarrow> (Inl e, db)
     | Inr expires \<Rightarrow> (case insert_new now ns gen key_hash key content expires db of
          (made, db') \<Rightarrow> if made = 0 then (Inl (Database UniqueViolation), db') else (Inr (), db')))"

definition update_value :: "int \<Rightarrow> int \<Rightarrow> bytes \<Rightarrow> int option \<Rightarrow> bool \<Rightarrow> unit db_op" where
  "update_value now ident content ttl preserve_expiry_when_unset db = (case expires_at now ttl of Inl e \<Rightarrow> (Inl e, db)
     | Inr expires \<Rightarrow> (Inr (), db\<lparr>db_entries := map (\<lambda>r. if ce_id r = ident
          then r\<lparr>ce_bytes := content, ce_size := int (length content),
             ce_expires_at := (if ttl = None \<and> preserve_expiry_when_unset then ce_expires_at r else expires)\<rparr>
          else r) (db_entries db)\<rparr>))"

text \<open>\<open>DELETE\<close> with the number of rows it removed.\<close>

definition delete_rows :: "(cache_row \<Rightarrow> bool) \<Rightarrow> cache_db \<Rightarrow> int \<times> cache_db" where
  "delete_rows P db = (int (length (filter P (db_entries db))), db\<lparr>db_entries := filter (\<lambda>r. \<not> P r) (db_entries db)\<rparr>)"

definition delete_expired_key :: "int \<Rightarrow> string \<Rightarrow> int \<Rightarrow> string \<Rightarrow> string \<Rightarrow> cache_db \<Rightarrow> cache_db" where
  "delete_expired_key now ns gen key_hash key db =
     snd (delete_rows (\<lambda>r. at_key ns gen key_hash key r \<and> \<not> live now r) db)"

definition select_key :: "int \<Rightarrow> string \<Rightarrow> int \<Rightarrow> string \<Rightarrow> string \<Rightarrow> cache_db \<Rightarrow> cache_row option" where
  "select_key now ns gen key_hash key db = find (\<lambda>r. at_key ns gen key_hash key r \<and> live now r) (db_entries db)"

definition ensure_namespace :: "string \<Rightarrow> cache_db \<Rightarrow> cache_db" where
  "ensure_namespace ns db = (if map_of (db_namespaces db) ns = None
     then db\<lparr>db_namespaces := db_namespaces db @ [(ns, 0)]\<rparr> else db)"

definition try_namespace_generation :: "string \<Rightarrow> cache_db \<Rightarrow> int option" where
  "try_namespace_generation ns db = map_of (db_namespaces db) ns"

definition namespace_generation :: "string \<Rightarrow> int db_op" where
  "namespace_generation ns db = (case try_namespace_generation ns db of
     None \<Rightarrow> (Inl (NotFound (''namespace '' @ ns)), db) | Some gen \<Rightarrow> (Inr gen, db))"

definition increment_counter :: "string \<Rightarrow> int \<Rightarrow> unit db_op" where
  "increment_counter counter amount db = (let c = db_counters db in
     if counter = ''hits'' then (Inr (), db\<lparr>db_counters := c\<lparr>ct_hits := ct_hits c + amount\<rparr>\<rparr>)
     else if counter = ''misses'' then (Inr (), db\<lparr>db_counters := c\<lparr>ct_misses := ct_misses c + amount\<rparr>\<rparr>)
     else if counter = ''writes'' then (Inr (), db\<lparr>db_counters := c\<lparr>ct_writes := ct_writes c + amount\<rparr>\<rparr>)
     else if counter = ''deletes'' then (Inr (), db\<lparr>db_counters := c\<lparr>ct_deletes := ct_deletes c + amount\<rparr>\<rparr>)
     else if counter = ''evictions'' then (Inr (), db\<lparr>db_counters := c\<lparr>ct_evictions := ct_evictions c + amount\<rparr>\<rparr>)
     else if counter = ''expired_removals''
     then (Inr (), db\<lparr>db_counters := c\<lparr>ct_expired_removals := ct_expired_removals c + amount\<rparr>\<rparr>)
     else (Inl (InvalidArgument ''unknown cache counter''), db))"

definition validate_ttl_seconds :: "int option \<Rightarrow> pg_error + unit" where
  "validate_ttl_seconds ttl = (case ttl of None \<Rightarrow> Inr ()
     | Some seconds \<Rightarrow> if seconds \<le> 0 then Inl (InvalidArgument ''ttl_seconds must be positive when provided'') else Inr ())"


section \<open>Capacity\<close>

text \<open>
  \<open>sweep_expired\<close>: the expired rows with the earliest expiry go first, at most \<open>limit\<close> of them; of
  rows with the same expiry the older ones.
\<close>

definition doomed :: "int \<Rightarrow> nat \<Rightarrow> cache_db \<Rightarrow> int list" where
  "doomed now limit db = map ce_id (take limit (sort_key (\<lambda>r. case ce_expires_at r of None \<Rightarrow> 0 | Some at \<Rightarrow> at)
     (filter (\<lambda>r. \<not> live now r) (db_entries db))))"

definition sweep_expired :: "int \<Rightarrow> nat \<Rightarrow> int db_op" where
  "sweep_expired now limit db = (case delete_rows (\<lambda>r. ce_id r \<in> set (doomed now limit db)) db of (removed, db') \<Rightarrow>
     if 0 < removed then andThen (increment_counter ''expired_removals'' removed) (\<lambda>_ db. (Inr removed, db)) db'
     else (Inr removed, db'))"

definition key_count :: "string \<Rightarrow> int \<Rightarrow> cache_db \<Rightarrow> int" where
  "key_count ns gen db = int (length (filter (in_generation ns gen) (db_entries db)))"

definition byte_size :: "string \<Rightarrow> int \<Rightarrow> cache_db \<Rightarrow> int" where
  "byte_size ns gen db = sum_list (map ce_size (filter (in_generation ns gen) (db_entries db)))"

text \<open>\<open>ORDER BY last_accessed_at ASC, id ASC LIMIT 1\<close>\<close>

definition before :: "cache_row \<Rightarrow> cache_row \<Rightarrow> bool" where
  "before a b \<longleftrightarrow> ce_last_accessed_at a < ce_last_accessed_at b \<or>
     ce_last_accessed_at a = ce_last_accessed_at b \<and> ce_id a \<le> ce_id b"

fun first_row :: "cache_row list \<Rightarrow> cache_row option" where
  "first_row [] = None"
| "first_row (r # rs) = (case first_row rs of None \<Rightarrow> Some r | Some r' \<Rightarrow> if before r r' then Some r else Some r')"

definition victim :: "string \<Rightarrow> int \<Rightarrow> cache_db \<Rightarrow> cache_row option" where
  "victim ns gen db = first_row (filter (in_generation ns gen) (db_entries db))"

lemma first_row_member: "first_row rs = Some r \<Longrightarrow> r \<in> set rs"
  by (induction rs arbitrary: r) (auto split: option.splits if_splits)

definition evict :: "string \<Rightarrow> int \<Rightarrow> cache_db \<Rightarrow> int \<times> cache_db" where
  "evict ns gen db = (case victim ns gen db of None \<Rightarrow> (0, db) | Some v \<Rightarrow> delete_rows (\<lambda>r. ce_id r = ce_id v) db)"

definition over :: "CacheLimits \<Rightarrow> string \<Rightarrow> int \<Rightarrow> cache_db \<Rightarrow> bool" where
  "over limits ns gen db = (case max_bytes limits of None \<Rightarrow> False | Some limit \<Rightarrow> limit < byte_size ns gen db)"

lemma evict_shrinks:
  assumes "evict ns gen db = (deleted, db')" "deleted \<noteq> 0"
  shows "length (db_entries db') < length (db_entries db)"
proof (cases "victim ns gen db")
  case (Some v)
  then have "v \<in> set (db_entries db)" unfolding victim_def by (auto dest: first_row_member)
  then show ?thesis using assms Some length_filter_less [of v "db_entries db" "\<lambda>r. ce_id r \<noteq> ce_id v"]
    by (auto simp: evict_def delete_rows_def)
qed (use assms in \<open>simp add: evict_def\<close>)

function evict_loop :: "CacheLimits \<Rightarrow> string \<Rightarrow> int \<Rightarrow> int \<Rightarrow> bool \<Rightarrow> unit db_op" where
  "evict_loop limits ns gen excess_keys over_bytes db =
     (if 0 < excess_keys \<or> over_bytes then
        (case evict ns gen db of (deleted, db1) \<Rightarrow>
           if deleted = 0 then (Inr (), db1)
           else case increment_counter ''evictions'' deleted db1 of
             (Inl e, db2) \<Rightarrow> (Inl e, db2)
           | (Inr _, db2) \<Rightarrow> evict_loop limits ns gen (excess_keys - deleted)
               (if max_bytes limits \<noteq> None then over limits ns gen db2 else over_bytes) db2)
      else (Inr (), db))"
  by pat_completeness auto
termination
  by (relation "measure (\<lambda>(_, _, _, _, _, db). length (db_entries db))")
    (auto simp: increment_counter_def Let_def dest: evict_shrinks [OF sym] split: if_splits)

declare evict_loop.simps [simp del]

definition enforce_capacity :: "CacheLimits \<Rightarrow> int \<Rightarrow> string \<Rightarrow> unit db_op" where
  "enforce_capacity limits now ns = andThen (sweep_expired now 1000) (\<lambda>removed db.
     if 0 < removed then (Inr (), db)
     else case try_namespace_generation ns db of None \<Rightarrow> (Inr (), db)
       | Some gen \<Rightarrow> evict_loop limits ns gen
           (case max_keys limits of None \<Rightarrow> 0 | Some limit \<Rightarrow> key_count ns gen db - limit) (over limits ns gen db) db)"


section \<open>Operations\<close>

definition CacheStore_set ::
  "(string \<Rightarrow> string) \<Rightarrow> CacheLimits \<Rightarrow> int \<Rightarrow> string \<Rightarrow> string \<Rightarrow> bytes \<Rightarrow> int option \<Rightarrow> unit db_op" where
  "CacheStore_set hash_key limits now namespace key content ttl_seconds =
     check (validate_namespace namespace) (check (validate_cache_key key) (check (validate_ttl_seconds ttl_seconds) (\<lambda>db.
       andThen (namespace_generation namespace) (\<lambda>gen db. case expires_at now ttl_seconds of Inl e \<Rightarrow> (Inl e, db)
         | Inr expires \<Rightarrow> andThen (increment_counter ''writes'' 1) (\<lambda>_. enforce_capacity limits now namespace)
             (upsert now namespace gen (hash_key key) key content expires db))
         (ensure_namespace namespace db))))"

definition CacheStore_set_nx ::
  "(string \<Rightarrow> string) \<Rightarrow> CacheLimits \<Rightarrow> int \<Rightarrow> string \<Rightarrow> string \<Rightarrow> bytes \<Rightarrow> int option \<Rightarrow> bool db_op" where
  "CacheStore_set_nx hash_key limits now namespace key content ttl_seconds =
     check (validate_namespace namespace) (check (validate_cache_key key) (check (validate_ttl_seconds ttl_seconds) (\<lambda>db.
       andThen (namespace_generation namespace) (\<lambda>gen.
         andThen (transaction (\<lambda>db. case expires_at now ttl_seconds of Inl e \<Rightarrow> (Inl e, db)
             | Inr expires \<Rightarrow> (case insert_new now namespace gen (hash_key key) key content expires
                  (delete_expired_key now namespace gen (hash_key key) key db) of (made, db') \<Rightarrow> (Inr (0 < made), db'))))
           (\<lambda>created. if created
              then andThen (increment_counter ''writes'' 1) (\<lambda>_. andThen (enforce_capacity limits now namespace)
                (\<lambda>_ db. (Inr created, db)))
              else (\<lambda>db. (Inr created, db))))
         (ensure_namespace namespace db))))"

text \<open>
  \<open>get_set\<close>, \<open>add_integer\<close> and \<open>concat\<close> share their shape: lock the key, drop its expired row, then
  replace the value of the live row or insert one, in a transaction. Locks order transactions and
  have no effect on an operation that runs alone.
\<close>

definition exchange ::
  "(string \<Rightarrow> string) \<Rightarrow> CacheLimits \<Rightarrow> int \<Rightarrow> string \<Rightarrow> string \<Rightarrow> int option \<Rightarrow> bool \<Rightarrow>
   (bytes \<Rightarrow> pg_error + bytes \<times> 'a) \<Rightarrow> bytes \<times> 'a \<Rightarrow> 'a db_op" where
  "exchange hash_key limits now namespace key ttl_seconds preserve change initial =
     check (validate_namespace namespace) (check (validate_cache_key key) (check (validate_ttl_seconds ttl_seconds) (\<lambda>db.
       andThen (namespace_generation namespace) (\<lambda>gen.
         andThen (transaction (\<lambda>db. let db1 = delete_expired_key now namespace gen (hash_key key) key db in
             case select_key now namespace gen (hash_key key) key db1 of
               Some row \<Rightarrow> (case change (ce_bytes row) of Inl e \<Rightarrow> (Inl e, db1)
                 | Inr (content, out) \<Rightarrow> andThen (update_value now (ce_id row) content ttl_seconds preserve) (\<lambda>_ db. (Inr out, db)) db1)
             | None \<Rightarrow> andThen (insert_value now namespace gen (hash_key key) key (fst initial) ttl_seconds)
                 (\<lambda>_ db. (Inr (snd initial), db)) db1))
           (\<lambda>out. andThen (increment_counter ''writes'' 1) (\<lambda>_. andThen (enforce_capacity limits now namespace)
                (\<lambda>_ db. (Inr out, db)))))
         (ensure_namespace namespace db))))"

definition CacheStore_get_set ::
  "(string \<Rightarrow> string) \<Rightarrow> CacheLimits \<Rightarrow> int \<Rightarrow> string \<Rightarrow> string \<Rightarrow> bytes \<Rightarrow> int option \<Rightarrow> bytes option db_op" where
  "CacheStore_get_set hash_key limits now namespace key content ttl_seconds =
     exchange hash_key limits now namespace key ttl_seconds False
       (\<lambda>old_value. Inr (content, Some old_value)) (content, None)"

text \<open>\<open>text.parse::<i64>()\<close>: an optional sign and at least one digit, within the range.\<close>

definition parse_i64 :: "string \<Rightarrow> int option" where
  "parse_i64 s = (let v = (case s of [] \<Rightarrow> None
       | c # cs \<Rightarrow> if c = CHR ''-'' then map_option uminus (undec_pos cs)
           else if c = CHR ''+'' then undec_pos cs else undec_pos s)
     in Option.bind v (\<lambda>v. if in_int64 v then Some v else None))"

definition parse_i64_value :: "bytes \<Rightarrow> pg_error + int" where
  "parse_i64_value content = (case Option.bind (unutf8 content) parse_i64 of
     None \<Rightarrow> Inl (InvalidArgument ''cache value is not a numeric i64'') | Some v \<Rightarrow> Inr v)"

definition add_integer ::
  "(string \<Rightarrow> string) \<Rightarrow> CacheLimits \<Rightarrow> int \<Rightarrow> string \<Rightarrow> string \<Rightarrow> int \<Rightarrow> int option \<Rightarrow> int db_op" where
  "add_integer hash_key limits now namespace key delta ttl_seconds =
     exchange hash_key limits now namespace key ttl_seconds True
       (\<lambda>old_value. bindE (parse_i64_value old_value) (\<lambda>current. let new_value = current + delta in
          if in_int64 new_value then Inr (utf8 (dec new_value), new_value)
          else Inl (InvalidArgument ''numeric cache value overflowed i64'')))
       (utf8 (dec delta), delta)"

definition CacheStore_increment ::
  "(string \<Rightarrow> string) \<Rightarrow> CacheLimits \<Rightarrow> int \<Rightarrow> string \<Rightarrow> string \<Rightarrow> int \<Rightarrow> int option \<Rightarrow> int db_op" where
  "CacheStore_increment = add_integer"

text \<open>\<open>delta.checked_neg()\<close> fails on the least \<open>i64\<close> only.\<close>

definition CacheStore_decrement ::
  "(string \<Rightarrow> string) \<Rightarrow> CacheLimits \<Rightarrow> int \<Rightarrow> string \<Rightarrow> string \<Rightarrow> int \<Rightarrow> int option \<Rightarrow> int db_op" where
  "CacheStore_decrement hash_key limits now namespace key delta ttl_seconds db =
     (if in_int64 (- delta) then add_integer hash_key limits now namespace key (- delta) ttl_seconds db
      else (Inl (InvalidArgument ''delta is too large to decrement''), db))"

datatype ConcatPosition = Append | Prepend

definition CacheStore_concat ::
  "(string \<Rightarrow> string) \<Rightarrow> CacheLimits \<Rightarrow> int \<Rightarrow> string \<Rightarrow> string \<Rightarrow> bytes \<Rightarrow> int option \<Rightarrow> ConcatPosition \<Rightarrow> int db_op" where
  "CacheStore_concat hash_key limits now namespace key content ttl_seconds position =
     exchange hash_key limits now namespace key ttl_seconds False
       (\<lambda>old_value. let new_value = (case position of Append \<Rightarrow> old_value @ content | Prepend \<Rightarrow> content @ old_value)
          in Inr (new_value, int (length new_value)))
       (content, int (length content))"

definition CacheStore_append ::
  "(string \<Rightarrow> string) \<Rightarrow> CacheLimits \<Rightarrow> int \<Rightarrow> string \<Rightarrow> string \<Rightarrow> bytes \<Rightarrow> int option \<Rightarrow> int db_op" where
  "CacheStore_append hash_key limits now namespace key content ttl_seconds =
     CacheStore_concat hash_key limits now namespace key content ttl_seconds Append"

definition CacheStore_prepend ::
  "(string \<Rightarrow> string) \<Rightarrow> CacheLimits \<Rightarrow> int \<Rightarrow> string \<Rightarrow> string \<Rightarrow> bytes \<Rightarrow> int option \<Rightarrow> int db_op" where
  "CacheStore_prepend hash_key limits now namespace key content ttl_seconds =
     CacheStore_concat hash_key limits now namespace key content ttl_seconds Prepend"

definition touch :: "int \<Rightarrow> int \<Rightarrow> cache_db \<Rightarrow> cache_db" where
  "touch now ident db = db\<lparr>db_entries := map (\<lambda>r. if ce_id r = ident
     then r\<lparr>ce_last_accessed_at := now, ce_accesses := ce_accesses r + 1\<rparr> else r) (db_entries db)\<rparr>"

definition CacheStore_get :: "(string \<Rightarrow> string) \<Rightarrow> int \<Rightarrow> string \<Rightarrow> string \<Rightarrow> bytes option db_op" where
  "CacheStore_get hash_key now namespace key =
     check (validate_namespace namespace) (check (validate_cache_key key) (\<lambda>db.
       case try_namespace_generation namespace db of
         None \<Rightarrow> andThen (increment_counter ''misses'' 1) (\<lambda>_ db. (Inr None, db)) db
       | Some gen \<Rightarrow> (case select_key now namespace gen (hash_key key) key db of
             Some row \<Rightarrow> andThen (increment_counter ''hits'' 1) (\<lambda>_ db. (Inr (Some (ce_bytes row)), db)) (touch now (ce_id row) db)
           | None \<Rightarrow> andThen (increment_counter ''misses'' 1) (\<lambda>_ db. (Inr None, db)) db)))"

fun CacheStore_mget :: "(string \<Rightarrow> string) \<Rightarrow> int \<Rightarrow> string \<Rightarrow> string list \<Rightarrow> (string \<times> bytes option) list db_op" where
  "CacheStore_mget hash_key now namespace [] db = (Inr [], db)"
| "CacheStore_mget hash_key now namespace (key # keys) db =
     andThen (CacheStore_get hash_key now namespace key) (\<lambda>found.
       andThen (CacheStore_mget hash_key now namespace keys) (\<lambda>results db. (Inr ((key, found) # results), db))) db"

definition CacheStore_exists :: "(string \<Rightarrow> string) \<Rightarrow> int \<Rightarrow> string \<Rightarrow> string \<Rightarrow> bool db_op" where
  "CacheStore_exists hash_key now namespace key =
     andThen (CacheStore_get hash_key now namespace key) (\<lambda>found db. (Inr (found \<noteq> None), db))"

definition CacheStore_delete :: "(string \<Rightarrow> string) \<Rightarrow> string \<Rightarrow> string \<Rightarrow> bool db_op" where
  "CacheStore_delete hash_key namespace key =
     check (validate_namespace namespace) (check (validate_cache_key key) (\<lambda>db.
       case try_namespace_generation namespace db of None \<Rightarrow> (Inr False, db)
       | Some gen \<Rightarrow> (case delete_rows (at_key namespace gen (hash_key key) key) db of (deleted, db') \<Rightarrow>
           if 0 < deleted then andThen (increment_counter ''deletes'' deleted) (\<lambda>_ db. (Inr (0 < deleted), db)) db'
           else (Inr (0 < deleted), db'))))"

definition CacheStore_invalidate_namespace :: "string \<Rightarrow> unit db_op" where
  "CacheStore_invalidate_namespace namespace = check (validate_namespace namespace) (\<lambda>db.
     let db1 = ensure_namespace namespace db;
         updated = map (\<lambda>(name, gen). (name, if name = namespace then gen + 1 else gen)) (db_namespaces db1)
     in (Inr (), db1\<lparr>db_namespaces := updated, db_entries := filter (\<lambda>r. \<not> (ce_ns r = namespace \<and>
           (\<exists>gen \<in> set (map snd (filter (\<lambda>(name, _). name = namespace) updated)). ce_generation r < gen))) (db_entries db1)\<rparr>))"

record NamespaceTotals =
  nu_keys :: int
  nu_bytes :: int

record CacheStats =
  st_counters :: cache_counters
  st_key_count :: int
  st_byte_size :: int
  st_usage :: "(string \<times> NamespaceTotals) list"

text \<open>The rows that count: live and of the current generation of their namespace.\<close>

definition counted :: "int \<Rightarrow> cache_db \<Rightarrow> cache_row list" where
  "counted now db = filter (\<lambda>r. map_of (db_namespaces db) (ce_ns r) = Some (ce_generation r) \<and> live now r) (db_entries db)"

text \<open>The usage of the namespaces is a hash map; the list has them in some order.\<close>

definition CacheStore_stats :: "int \<Rightarrow> CacheStats db_op" where
  "CacheStore_stats now db = (let rows = counted now db;
       usage = map (\<lambda>ns. (ns, \<lparr>nu_keys = int (length (filter (\<lambda>r. ce_ns r = ns) rows)),
         nu_bytes = sum_list (map ce_size (filter (\<lambda>r. ce_ns r = ns) rows))\<rparr>)) (remdups (map ce_ns rows))
     in (Inr \<lparr>st_counters = db_counters db, st_key_count = sum_list (map (nu_keys \<circ> snd) usage),
          st_byte_size = sum_list (map (nu_bytes \<circ> snd) usage), st_usage = usage\<rparr>, db))"

end
