(* ===== verification/Cache_Spec.thy ===== *)
theory Cache_Spec
  imports Cache_Store
begin

text \<open>
  What the cache of the server promises: an invariant of its tables that every operation keeps, and
  the content of the cache as a function of namespace, key and time, which every operation changes
  as its specification says. The content is the abstraction; rows, generations, hashes and counters
  are its implementation.
\<close>


section \<open>Invariant\<close>

definition row_ok :: "(string \<Rightarrow> string) \<Rightarrow> cache_db \<Rightarrow> cache_row \<Rightarrow> bool" where
  "row_ok hash_key db r \<longleftrightarrow> ce_key_hash r = hash_key (ce_cache_key r) \<and> ce_size r = int (length (ce_bytes r)) \<and>
     ce_id r < db_next_id db \<and> (\<exists>gen. map_of (db_namespaces db) (ce_ns r) = Some gen \<and> ce_generation r \<le> gen)"

definition slot :: "cache_row \<Rightarrow> string \<times> int \<times> string" where
  "slot r = (ce_ns r, ce_generation r, ce_key_hash r)"

definition db_ok :: "(string \<Rightarrow> string) \<Rightarrow> cache_db \<Rightarrow> bool" where
  "db_ok hash_key db \<longleftrightarrow> distinct (map fst (db_namespaces db)) \<and> distinct (map ce_id (db_entries db)) \<and>
     distinct (map slot (db_entries db)) \<and> (\<forall>r \<in> set (db_entries db). row_ok hash_key db r)"

lemma db_ok_empty: "db_ok hash_key empty_db"
  by (simp add: db_ok_def empty_db_def)

lemma db_ok_filter: "db_ok hash_key db \<Longrightarrow> db_ok hash_key (db\<lparr>db_entries := filter P (db_entries db)\<rparr>)"
  by (auto simp: db_ok_def row_ok_def distinct_map_filter)

lemma db_ok_counters [simp]: "db_ok hash_key (db\<lparr>db_counters := c\<rparr>) = db_ok hash_key db"
  by (simp add: db_ok_def row_ok_def)

lemma db_ok_map:
  assumes "db_ok hash_key db" "\<And>r. ce_id (f r) = ce_id r" "\<And>r. slot (f r) = slot r"
    "\<And>r. r \<in> set (db_entries db) \<Longrightarrow> row_ok hash_key db r \<Longrightarrow> row_ok hash_key db (f r)"
  shows "db_ok hash_key (db\<lparr>db_entries := map f (db_entries db)\<rparr>)"
proof -
  have "ce_id \<circ> f = ce_id" "slot \<circ> f = slot" using assms(2,3) by auto
  moreover have "row_ok hash_key (db\<lparr>db_entries := map f (db_entries db)\<rparr>) r = row_ok hash_key db r" for r
    by (simp add: row_ok_def)
  ultimately show ?thesis using assms(1,4) by (simp add: db_ok_def)
qed

lemma row_ok_take_id: "row_ok hash_key db r \<Longrightarrow> row_ok hash_key (take_id db) r"
  by (auto simp: row_ok_def take_id_def)

lemma db_ok_take_id: "db_ok hash_key db \<Longrightarrow> db_ok hash_key (take_id db)"
  by (auto simp: db_ok_def row_ok_def take_id_def)

lemma at_hash_slot: "at_hash ns gen key_hash r \<longleftrightarrow> slot r = (ns, gen, key_hash)"
  by (auto simp: at_hash_def in_generation_def slot_def)

lemma db_ok_insert:
  assumes "db_ok hash_key db" "\<not> has_conflict ns gen (hash_key key) db" "map_of (db_namespaces db) ns = Some gen"
  shows "db_ok hash_key (take_id (db\<lparr>db_entries := db_entries db @ [new_row db now ns gen (hash_key key) key content expires]\<rparr>))"
proof -
  have "slot r \<noteq> (ns, gen, hash_key key)" if "r \<in> set (db_entries db)" for r
    using assms(2) that by (auto simp: has_conflict_def list_ex_iff at_hash_slot)
  then show ?thesis using assms(1,3)
    by (fastforce simp: db_ok_def row_ok_def take_id_def new_row_def slot_def)
qed

lemma db_ok_upsert:
  assumes "db_ok hash_key db" "map_of (db_namespaces db) ns = Some gen"
  shows "db_ok hash_key (upsert now ns gen (hash_key key) key content expires db)"
proof (cases "has_conflict ns gen (hash_key key) db")
  case True
  show ?thesis unfolding upsert_def using True
    by (auto intro!: db_ok_take_id db_ok_map assms simp: slot_def row_ok_def at_hash_def)
next
  case False
  then show ?thesis using db_ok_insert [OF assms(1) False assms(2)] by (simp add: upsert_def)
qed

lemma db_ok_ensure: "db_ok hash_key db \<Longrightarrow> db_ok hash_key (ensure_namespace ns db)"
proof (cases "map_of (db_namespaces db) ns")
  case None
  then have "ns \<notin> fst ` set (db_namespaces db)" by (simp add: map_of_eq_None_iff)
  moreover assume "db_ok hash_key db"
  ultimately show ?thesis using None
    by (fastforce simp: ensure_namespace_def db_ok_def row_ok_def map_add_def split: option.splits)
qed (simp add: ensure_namespace_def)

lemma ensure_namespace_generation: "\<exists>gen. map_of (db_namespaces (ensure_namespace ns db)) ns = Some gen"
  by (auto simp: ensure_namespace_def map_add_def split: option.splits)


section \<open>Content\<close>

definition lookup :: "(string \<Rightarrow> string) \<Rightarrow> int \<Rightarrow> cache_db \<Rightarrow> string \<Rightarrow> string \<Rightarrow> bytes option" where
  "lookup hash_key now db ns key = (case try_namespace_generation ns db of None \<Rightarrow> None
     | Some gen \<Rightarrow> map_option ce_bytes (select_key now ns gen (hash_key key) key db))"

text \<open>The row that answers a lookup.\<close>

definition holds :: "(string \<Rightarrow> string) \<Rightarrow> int \<Rightarrow> cache_db \<Rightarrow> string \<Rightarrow> string \<Rightarrow> cache_row \<Rightarrow> bool" where
  "holds hash_key now db ns key r \<longleftrightarrow> r \<in> set (db_entries db) \<and>
     (\<exists>gen. map_of (db_namespaces db) ns = Some gen \<and> at_key ns gen (hash_key key) key r) \<and> live now r"

lemma slot_unique:
  assumes "db_ok hash_key db" "r \<in> set (db_entries db)" "r' \<in> set (db_entries db)" "slot r = slot r'"
  shows "r = r'"
  using assms by (auto simp: db_ok_def distinct_map inj_on_def)

lemma holds_unique: "db_ok hash_key db \<Longrightarrow> holds hash_key now db ns key r \<Longrightarrow> holds hash_key now' db ns key r' \<Longrightarrow> r = r'"
  by (rule slot_unique [of hash_key db]) (auto simp: holds_def at_key_def at_hash_slot)

lemma lookup_iff:
  assumes "db_ok hash_key db"
  shows "lookup hash_key now db ns key = Some v \<longleftrightarrow> (\<exists>r. holds hash_key now db ns key r \<and> ce_bytes r = v)"
proof
  assume "lookup hash_key now db ns key = Some v"
  then show "\<exists>r. holds hash_key now db ns key r \<and> ce_bytes r = v"
    by (auto simp: lookup_def try_namespace_generation_def select_key_def holds_def dest!: find_member split: option.splits)
next
  assume "\<exists>r. holds hash_key now db ns key r \<and> ce_bytes r = v"
  then obtain r where r: "holds hash_key now db ns key r" "ce_bytes r = v" by blast
  then obtain gen where gen: "map_of (db_namespaces db) ns = Some gen" "at_key ns gen (hash_key key) key r"
    "r \<in> set (db_entries db)" "live now r" by (auto simp: holds_def)
  then obtain r' where r': "select_key now ns gen (hash_key key) key db = Some r'"
    unfolding select_key_def by (cases "find (\<lambda>r. at_key ns gen (hash_key key) key r \<and> live now r) (db_entries db)")
      (auto simp: find_None_iff)
  then have "holds hash_key now db ns key r'" using gen(1) by (auto simp: select_key_def holds_def dest!: find_member)
  with holds_unique [OF assms r(1)] have "r' = r" by simp
  with r r' gen show "lookup hash_key now db ns key = Some v" by (simp add: lookup_def try_namespace_generation_def)
qed

lemma option_eqI: "(\<And>v. a = Some v \<longleftrightarrow> b = Some v) \<Longrightarrow> a = b"
  by (metis not_Some_eq)

text \<open>Two states with the same answering rows have the same content.\<close>

lemma lookup_cong:
  assumes "db_ok hash_key db" "db_ok hash_key db'"
    "\<And>v. (\<exists>r. holds hash_key now db' ns key r \<and> ce_bytes r = v) \<longleftrightarrow> (\<exists>r. holds hash_key now db ns key r \<and> ce_bytes r = v)"
  shows "lookup hash_key now db' ns key = lookup hash_key now db ns key"
  by (rule option_eqI) (simp add: lookup_iff [OF assms(1)] lookup_iff [OF assms(2)] assms(3))

lemma lookup_counters [simp]: "lookup hash_key now (db\<lparr>db_counters := c\<rparr>) = lookup hash_key now db"
  by (intro ext) (simp add: lookup_def try_namespace_generation_def select_key_def split: option.split)

lemma lookup_take_id [simp]: "lookup hash_key now (take_id db) = lookup hash_key now db"
  by (intro ext) (simp add: lookup_def try_namespace_generation_def select_key_def take_id_def split: option.split)

lemma lookup_ensure:
  assumes "db_ok hash_key db"
  shows "lookup hash_key now (ensure_namespace ns db) = lookup hash_key now db"
proof (intro ext, rule lookup_cong [OF assms db_ok_ensure [OF assms]])
  fix ns' key v
  have "ce_ns r \<noteq> ns" if "r \<in> set (db_entries db)" "map_of (db_namespaces db) ns = None" for r
    using assms that by (auto simp: db_ok_def row_ok_def)
  then have "holds hash_key now (ensure_namespace ns db) ns' key r = holds hash_key now db ns' key r" for r
    by (cases "map_of (db_namespaces db) ns"; cases "ns' = ns")
      (auto simp: holds_def ensure_namespace_def at_key_def at_hash_def in_generation_def map_add_def split: option.splits)
  then show "(\<exists>r. holds hash_key now (ensure_namespace ns db) ns' key r \<and> ce_bytes r = v) \<longleftrightarrow>
      (\<exists>r. holds hash_key now db ns' key r \<and> ce_bytes r = v)" by simp
qed


section \<open>Statements that only remove rows\<close>

text \<open>The tables shrink: rows that satisfy \<open>Q\<close> stay, nothing else changes but the counters.\<close>

definition keeps :: "(cache_row \<Rightarrow> bool) \<Rightarrow> cache_db \<Rightarrow> cache_db \<Rightarrow> bool" where
  "keeps Q db db' \<longleftrightarrow> db_namespaces db' = db_namespaces db \<and> db_next_id db' = db_next_id db \<and>
     (\<exists>P. db_entries db' = filter P (db_entries db) \<and> (\<forall>r \<in> set (db_entries db). Q r \<longrightarrow> P r))"

lemma keeps_refl [simp]: "keeps Q db db" "keeps Q db (db\<lparr>db_counters := c\<rparr>)"
  by (auto simp: keeps_def intro!: exI [of _ "\<lambda>_. True"])

lemma keeps_trans: "keeps Q db db1 \<Longrightarrow> keeps Q db1 db2 \<Longrightarrow> keeps Q db db2"
  unfolding keeps_def by (fastforce simp: filter_filter)

lemma keeps_ok: "keeps Q db db' \<Longrightarrow> db_ok hash_key db \<Longrightarrow> db_ok hash_key db'"
  by (auto simp: keeps_def db_ok_def row_ok_def distinct_map_filter)

lemma keeps_weaken: "keeps Q db db' \<Longrightarrow> (\<And>r. r \<in> set (db_entries db) \<Longrightarrow> Q' r \<Longrightarrow> Q r) \<Longrightarrow> keeps Q' db db'"
  unfolding keeps_def by blast

lemma keeps_holds:
  "keeps Q db db' \<Longrightarrow> holds hash_key now db' ns key r \<Longrightarrow> holds hash_key now db ns key r"
  "keeps Q db db' \<Longrightarrow> holds hash_key now db ns key r \<Longrightarrow> Q r \<Longrightarrow> holds hash_key now db' ns key r"
  by (auto simp: keeps_def holds_def)

lemma keeps_lookup:
  assumes "keeps Q db db'" "db_ok hash_key db" "\<And>r. holds hash_key now db ns key r \<Longrightarrow> Q r"
  shows "lookup hash_key now db' ns key = lookup hash_key now db ns key"
  by (rule lookup_cong [OF assms(2) keeps_ok [OF assms(1,2)]]) (use keeps_holds [OF assms(1)] assms(3) in blast)

text \<open>Counting succeeds and changes the counters only.\<close>

definition bump :: "string \<Rightarrow> int \<Rightarrow> cache_db \<Rightarrow> cache_db" where
  "bump counter amount db = snd (increment_counter counter amount db)"

lemma increment_counter_known [simp]:
  "increment_counter ''hits'' n db = (Inr (), bump ''hits'' n db)"
  "increment_counter ''misses'' n db = (Inr (), bump ''misses'' n db)"
  "increment_counter ''writes'' n db = (Inr (), bump ''writes'' n db)"
  "increment_counter ''deletes'' n db = (Inr (), bump ''deletes'' n db)"
  "increment_counter ''evictions'' n db = (Inr (), bump ''evictions'' n db)"
  "increment_counter ''expired_removals'' n db = (Inr (), bump ''expired_removals'' n db)"
  by (simp_all add: bump_def increment_counter_def Let_def)

lemma bump_same [simp]: "db_entries (bump c n db) = db_entries db" "db_namespaces (bump c n db) = db_namespaces db"
    "db_next_id (bump c n db) = db_next_id db"
  by (simp_all add: bump_def increment_counter_def Let_def)

lemma db_ok_bump [simp]: "db_ok hash_key (bump c n db) = db_ok hash_key db"
  by (simp add: db_ok_def row_ok_def)

lemma lookup_bump [simp]: "lookup hash_key now (bump c n db) = lookup hash_key now db"
  by (intro ext) (simp add: lookup_def try_namespace_generation_def select_key_def split: option.split)

lemma keeps_bump [simp]: "keeps Q db (bump c n db') = keeps Q db db'" "keeps Q (bump c n db) db' = keeps Q db db'"
  by (simp_all add: keeps_def)

lemma capacity_bump [simp]: "key_count ns gen (bump c n db) = key_count ns gen db"
    "byte_size ns gen (bump c n db) = byte_size ns gen db"
  by (simp_all add: key_count_def byte_size_def)

lemma holds_bump [simp]: "holds hash_key now (bump c n db) ns key r = holds hash_key now db ns key r"
  by (simp add: holds_def)

lemma keeps_delete_rows:
  "(\<And>r. r \<in> set (db_entries db) \<Longrightarrow> Q r \<Longrightarrow> \<not> P r) \<Longrightarrow> keeps Q db (snd (delete_rows P db))"
  unfolding keeps_def delete_rows_def by (auto intro!: exI [of _ "\<lambda>r. \<not> P r"])

lemma id_unique: "db_ok hash_key db \<Longrightarrow> r \<in> set (db_entries db) \<Longrightarrow> r' \<in> set (db_entries db) \<Longrightarrow> ce_id r = ce_id r' \<Longrightarrow> r = r'"
  by (auto simp: db_ok_def distinct_map inj_on_def)

lemma sweep_expired_keeps:
  assumes "db_ok hash_key db"
  shows "\<exists>removed db'. sweep_expired now limit db = (Inr removed, db') \<and> keeps (live now) db db'"
proof -
  let ?P = "\<lambda>r. ce_id r \<in> set (doomed now limit db)"
  have "\<not> live now r" if "r \<in> set (db_entries db)" "?P r" for r
  proof -
    from that(2) obtain r' where "r' \<in> set (filter (\<lambda>r. \<not> live now r) (db_entries db))" "ce_id r' = ce_id r"
      unfolding doomed_def by (force dest: in_set_takeD)
    with id_unique [OF assms, of r' r] that(1) show ?thesis by auto
  qed
  then have k: "keeps (live now) db (snd (delete_rows ?P db))" by (intro keeps_delete_rows) blast
  then show ?thesis by (simp add: sweep_expired_def andThen_def case_prod_beta)
qed

lemma sweep_nothing:
  assumes "\<forall>r \<in> set (db_entries db). live now r"
  shows "sweep_expired now limit db = (Inr 0, db)"
proof -
  have "doomed now limit db = []" using assms by (simp add: doomed_def filter_empty_conv)
  then show ?thesis by (simp add: sweep_expired_def delete_rows_def)
qed

text \<open>An eviction removes exactly the row that was read longest ago.\<close>

lemma first_row_None: "first_row rs = None \<longleftrightarrow> rs = []"
  by (cases rs) (auto split: option.splits)

lemma first_row_least: "first_row rs = Some v \<Longrightarrow> r \<in> set rs \<Longrightarrow> before v r"
proof (induction rs arbitrary: v)
  case (Cons a rs)
  then show ?case
    by (cases "first_row rs") (auto simp: first_row_None before_def split: if_splits)
qed simp

lemma evict_cases:
  assumes "db_ok hash_key db"
  obtains (none) "evict ns gen db = (0, db)" "filter (in_generation ns gen) (db_entries db) = []"
  | (one) v db' where "evict ns gen db = (1, db')" "v \<in> set (db_entries db)" "in_generation ns gen v"
      "\<forall>r \<in> set (db_entries db). in_generation ns gen r \<longrightarrow> before v r"
      "db' = db\<lparr>db_entries := filter (\<lambda>r. r \<noteq> v) (db_entries db)\<rparr>"
proof (cases "victim ns gen db")
  case None
  then show ?thesis by (intro none) (simp_all add: evict_def victim_def first_row_None)
next
  case (Some v)
  then have v: "v \<in> set (db_entries db)" "in_generation ns gen v"
    "\<forall>r \<in> set (db_entries db). in_generation ns gen r \<longrightarrow> before v r"
    unfolding victim_def by (auto dest: first_row_member first_row_least)
  have eq: "ce_id r = ce_id v \<longleftrightarrow> r = v" if "r \<in> set (db_entries db)" for r
    using id_unique [OF assms that v(1)] by auto
  have "distinct (db_entries db)" using assms by (auto simp: db_ok_def simp: distinct_map)
  with v(1) have "length (filter (\<lambda>r. r = v) (db_entries db)) = 1"
    by (simp add: distinct_length_filter)
  moreover have "filter (\<lambda>r. ce_id r = ce_id v) (db_entries db) = filter (\<lambda>r. r = v) (db_entries db)"
    "filter (\<lambda>r. ce_id r \<noteq> ce_id v) (db_entries db) = filter (\<lambda>r. r \<noteq> v) (db_entries db)"
    using eq by (auto intro: filter_cong)
  ultimately show ?thesis using v by (intro one [OF _ v]) (simp_all add: evict_def Some delete_rows_def)
qed

lemma filter_count:
  assumes "distinct rs" "v \<in> set rs" "P v"
  shows "int (length (filter P (filter (\<lambda>r. r \<noteq> v) rs))) = int (length (filter P rs)) - 1"
proof -
  have "filter P (filter (\<lambda>r. r \<noteq> v) rs) = remove1 v (filter P rs)"
    using assms(1) by (simp add: distinct_remove1_removeAll removeAll_filter_not_eq) (rule filter_cong, auto)
  then have "length (filter P (filter (\<lambda>r. r \<noteq> v) rs)) = length (filter P rs) - 1"
    using assms(2,3) by (simp add: length_remove1)
  moreover have "0 < length (filter P rs)" using assms(2,3) by (auto simp: filter_empty_conv)
  ultimately show ?thesis by linarith
qed


text \<open>
  The loop ends with a result, leaves other namespaces and generations alone, and, when its two
  variables agree with the tables at the start, ends within the limits.
\<close>

definition within :: "CacheLimits \<Rightarrow> string \<Rightarrow> int \<Rightarrow> cache_db \<Rightarrow> bool" where
  "within limits ns gen db \<longleftrightarrow> (case max_keys limits of None \<Rightarrow> True | Some limit \<Rightarrow> key_count ns gen db \<le> max 0 limit) \<and>
     (case max_bytes limits of None \<Rightarrow> True | Some limit \<Rightarrow> byte_size ns gen db \<le> max 0 limit)"

definition loop_vars :: "CacheLimits \<Rightarrow> string \<Rightarrow> int \<Rightarrow> cache_db \<Rightarrow> int \<Rightarrow> bool \<Rightarrow> bool" where
  "loop_vars limits ns gen db excess over_bytes \<longleftrightarrow>
     excess = (case max_keys limits of None \<Rightarrow> excess | Some limit \<Rightarrow> key_count ns gen db - limit) \<and>
     over_bytes = over limits ns gen db"

lemma evict_loop_spec:
  assumes "db_ok hash_key db" "loop_vars limits ns gen db excess over_bytes"
  shows "\<exists>db'. evict_loop limits ns gen excess over_bytes db = (Inr (), db') \<and>
    keeps (\<lambda>r. \<not> in_generation ns gen r) db db' \<and> within limits ns gen db'"
  using assms
proof (induction "length (db_entries db)" arbitrary: db excess over_bytes rule: less_induct)
  case less
  show ?case
  proof (cases "0 < excess \<or> over_bytes")
    case False
    then show ?thesis using less.prems(2)
      by (auto simp: evict_loop.simps within_def loop_vars_def over_def split: option.splits)
  next
    case True
    from less.prems(1) show ?thesis
    proof (cases rule: evict_cases [where ns = ns and gen = gen])
      case none
      then show ?thesis using True
        by (auto simp: evict_loop.simps [of limits ns gen excess] within_def key_count_def byte_size_def split: option.splits)
    next
      case (one v db1)
      let ?db2 = "bump ''evictions'' 1 db1"
      let ?over = "if max_bytes limits \<noteq> None then over limits ns gen ?db2 else over_bytes"
      have k: "keeps (\<lambda>r. \<not> in_generation ns gen r) db ?db2"
        unfolding keeps_def using one(2,3,5) by (auto intro!: exI [of _ "\<lambda>r. r \<noteq> v"])
      have "distinct (db_entries db)" using less.prems(1) by (auto simp: db_ok_def distinct_map)
      with one(2,3,5) have "key_count ns gen ?db2 = key_count ns gen db - 1"
        using filter_count [of "db_entries db" v "in_generation ns gen"] by (simp add: key_count_def)
      then have vars: "loop_vars limits ns gen ?db2 (excess - 1) ?over"
        using less.prems(2) by (auto simp: loop_vars_def over_def split: option.splits)
      have "length (db_entries ?db2) < length (db_entries db)"
        using one(2,5) length_filter_less [of v "db_entries db" "\<lambda>r. r \<noteq> v"] by simp
      from less.hyps [OF this keeps_ok [OF k less.prems(1)] vars] obtain db' where
        "evict_loop limits ns gen (excess - 1) ?over ?db2 = (Inr (), db')"
        "keeps (\<lambda>r. \<not> in_generation ns gen r) ?db2 db'" "within limits ns gen db'" by blast
      then show ?thesis using True one(1) keeps_trans [OF k]
        by (auto simp: evict_loop.simps [of limits ns gen excess])
    qed
  qed
qed

lemma enforce_capacity_spec:
  assumes "db_ok hash_key db"
  shows "\<exists>db'. enforce_capacity limits now ns db = (Inr (), db') \<and>
    (\<forall>gen. map_of (db_namespaces db) ns = Some gen \<longrightarrow> keeps (\<lambda>r. live now r \<and> \<not> in_generation ns gen r) db db') \<and>
    (max_keys limits = None \<and> max_bytes limits = None \<longrightarrow> keeps (live now) db db') \<and>
    ((\<forall>r \<in> set (db_entries db). live now r) \<longrightarrow> (\<forall>gen. map_of (db_namespaces db) ns = Some gen \<longrightarrow> within limits ns gen db'))"
proof -
  obtain removed db1 where s: "sweep_expired now 1000 db = (Inr removed, db1)" "keeps (live now) db db1"
    using sweep_expired_keeps [OF assms] by blast
  have ok1: "db_ok hash_key db1" using keeps_ok [OF s(2) assms] .
  have names: "map_of (db_namespaces db1) ns = map_of (db_namespaces db) ns" using s(2) by (simp add: keeps_def)
  have weak: "keeps (\<lambda>r. live now r \<and> \<not> in_generation ns gen r) db db1" for gen
    by (rule keeps_weaken [OF s(2)]) simp
  have some: "\<not> (\<forall>r \<in> set (db_entries db). live now r)" if "0 < removed"
    using sweep_nothing [of db now 1000] s(1) that by auto
  show ?thesis
  proof (cases "0 < removed \<or> map_of (db_namespaces db) ns = None")
    case True
    then have "enforce_capacity limits now ns db = (Inr (), db1)"
      using s(1) names by (auto simp: enforce_capacity_def andThen_def try_namespace_generation_def)
    with True s(2) weak some show ?thesis by auto
  next
    case False
    then obtain gen where gen: "map_of (db_namespaces db) ns = Some gen" by blast
    let ?excess = "case max_keys limits of None \<Rightarrow> 0 | Some limit \<Rightarrow> key_count ns gen db1 - limit"
    have "loop_vars limits ns gen db1 ?excess (over limits ns gen db1)"
      by (auto simp: loop_vars_def split: option.splits)
    from evict_loop_spec [OF ok1 this] obtain db' where e: "evict_loop limits ns gen ?excess (over limits ns gen db1) db1 = (Inr (), db')"
      "keeps (\<lambda>r. \<not> in_generation ns gen r) db1 db'" "within limits ns gen db'" by blast
    have "enforce_capacity limits now ns db = (Inr (), db')"
      using False s(1) e(1) names gen by (simp add: enforce_capacity_def andThen_def try_namespace_generation_def)
    moreover have "keeps (\<lambda>r. live now r \<and> \<not> in_generation ns gen r) db db'"
      by (rule keeps_trans [OF weak], rule keeps_weaken [OF e(2)]) simp
    moreover have "db' = db1" if "max_keys limits = None" "max_bytes limits = None"
      using e(1) that by (simp add: evict_loop.simps over_def)
    ultimately show ?thesis using gen e(3) s(2) by auto
  qed
qed


section \<open>What a write does to the content\<close>

lemma live_mono: "live now' r \<Longrightarrow> now \<le> now' \<Longrightarrow> live now r"
  by (auto simp: live_def split: option.splits)

definition alive :: "int option \<Rightarrow> int \<Rightarrow> bool" where
  "alive expires now = (case expires of None \<Rightarrow> True | Some at \<Rightarrow> now < at)"

text \<open>The content after a key was written, at a time: the new value until it expires.\<close>

definition written :: "string \<Rightarrow> string \<Rightarrow> bytes \<Rightarrow> int option \<Rightarrow> int \<Rightarrow> (string \<Rightarrow> string \<Rightarrow> bytes option) \<Rightarrow>
    string \<Rightarrow> string \<Rightarrow> bytes option" where
  "written ns key content expires now c ns' key' = (if ns' = ns \<and> key' = key
     then (if alive expires now then Some content else None) else c ns' key')"

text \<open>Keys with the same hash share a row; the laws below are about a key that collides with none that is stored.\<close>

definition own_hash :: "(string \<Rightarrow> string) \<Rightarrow> cache_db \<Rightarrow> string \<Rightarrow> bool" where
  "own_hash hash_key db key \<longleftrightarrow> (\<forall>r \<in> set (db_entries db). hash_key (ce_cache_key r) = hash_key key \<longrightarrow> ce_cache_key r = key)"

lemma own_hash_ensure [simp]: "own_hash hash_key (ensure_namespace ns db) key = own_hash hash_key db key"
  by (simp add: own_hash_def ensure_namespace_def)

text \<open>What remains to do after the row is written: count the write, make room.\<close>

definition wrap_up :: "CacheLimits \<Rightarrow> int \<Rightarrow> string \<Rightarrow> unit db_op" where
  "wrap_up limits now ns = andThen (increment_counter ''writes'' 1) (\<lambda>_. enforce_capacity limits now ns)"

definition unlimited :: "CacheLimits \<Rightarrow> bool" where
  "unlimited limits \<longleftrightarrow> max_keys limits = None \<and> max_bytes limits = None"

lemma wrap_up_spec:
  assumes "db_ok hash_key db" "map_of (db_namespaces db) ns = Some gen"
  shows "\<exists>db'. wrap_up limits now ns db = (Inr (), db') \<and> db_ok hash_key db' \<and> db_namespaces db' = db_namespaces db \<and>
    (\<forall>now' ns' key. now \<le> now' \<and> (ns' \<noteq> ns \<or> unlimited limits) \<longrightarrow>
        lookup hash_key now' db' ns' key = lookup hash_key now' db ns' key) \<and>
    ((\<forall>r \<in> set (db_entries db). live now r) \<longrightarrow> within limits ns gen db')"
proof -
  let ?db1 = "bump ''writes'' 1 db"
  have ok1: "db_ok hash_key ?db1" using assms(1) by simp
  from enforce_capacity_spec [OF this, of limits now ns] assms(2) obtain db' where
    e: "enforce_capacity limits now ns ?db1 = (Inr (), db')"
      "keeps (\<lambda>r. live now r \<and> \<not> in_generation ns gen r) ?db1 db'" "unlimited limits \<Longrightarrow> keeps (live now) ?db1 db'"
      "(\<forall>r \<in> set (db_entries db). live now r) \<longrightarrow> within limits ns gen db'"
    by (auto simp: unlimited_def)
  have "lookup hash_key now' db' ns' key = lookup hash_key now' ?db1 ns' key"
    if "now \<le> now'" "ns' \<noteq> ns \<or> unlimited limits" for now' ns' key
  proof (cases "unlimited limits")
    case True
    show ?thesis by (rule keeps_lookup [OF e(3) [OF True] ok1]) (use that(1) in \<open>auto simp: holds_def live_mono\<close>)
  next
    case False
    with that(2) have "ns' \<noteq> ns" by simp
    then show ?thesis using that(1)
      by (intro keeps_lookup [OF e(2) ok1]) (auto simp: holds_def at_key_def at_hash_def in_generation_def live_mono)
  qed
  moreover have "db_namespaces db' = db_namespaces db" using e(2) by (simp add: keeps_def)
  ultimately show ?thesis using e(1,4) keeps_ok [OF e(2) ok1] by (auto simp: wrap_up_def andThen_def)
qed

lemma lookup_insert:
  assumes "db_ok hash_key db" "\<not> has_conflict ns gen (hash_key key) db" "map_of (db_namespaces db) ns = Some gen"
  shows "lookup hash_key now' (take_id (db\<lparr>db_entries := db_entries db @ [new_row db now ns gen (hash_key key) key content expires]\<rparr>)) =
    written ns key content expires now' (lookup hash_key now' db)" (is "lookup _ _ ?db' = _")
proof (intro ext option_eqI)
  fix ns' key' v
  let ?n = "new_row db now ns gen (hash_key key) key content expires"
  have h: "holds hash_key now' ?db' ns' key' r \<longleftrightarrow> holds hash_key now' db ns' key' r \<or>
      r = ?n \<and> ns' = ns \<and> key' = key \<and> alive expires now'" for r
    using assms(3) by (auto simp: holds_def take_id_def new_row_def at_key_def at_hash_def in_generation_def live_def alive_def)
  have "\<not> holds hash_key now' db ns key r" for r
    using assms(2,3) by (auto simp: holds_def has_conflict_def list_ex_iff at_key_def)
  moreover have "ce_bytes ?n = content" by (simp add: new_row_def)
  ultimately have "(\<exists>r. holds hash_key now' ?db' ns' key' r \<and> ce_bytes r = v) \<longleftrightarrow>
      written ns key content expires now' (lookup hash_key now' db) ns' key' = Some v"
    unfolding h by (auto simp: written_def lookup_iff [OF assms(1)])
  then show "lookup hash_key now' ?db' ns' key' = Some v \<longleftrightarrow>
      written ns key content expires now' (lookup hash_key now' db) ns' key' = Some v"
    by (simp only: lookup_iff [OF db_ok_insert [OF assms]])
qed

lemma lookup_upsert:
  assumes "db_ok hash_key db" "map_of (db_namespaces db) ns = Some gen" "own_hash hash_key db key"
  shows "lookup hash_key now' (upsert now ns gen (hash_key key) key content expires db) =
    written ns key content expires now' (lookup hash_key now' db)" (is "lookup _ _ ?db' = _")
proof (cases "has_conflict ns gen (hash_key key) db")
  case False
  then show ?thesis using lookup_insert [OF assms(1) False assms(2)] by (simp add: upsert_def)
next
  case True
  let ?f = "\<lambda>r. if at_hash ns gen (hash_key key) r then r\<lparr>ce_cache_key := key, ce_bytes := content,
      ce_expires_at := expires, ce_size := int (length content)\<rparr> else r"
  have rows: "db_entries ?db' = map ?f (db_entries db)" "db_namespaces ?db' = db_namespaces db"
    using True by (simp_all add: upsert_def take_id_def)
  show ?thesis
  proof (intro ext option_eqI)
    fix ns' key' v
    show "lookup hash_key now' ?db' ns' key' = Some v \<longleftrightarrow>
        written ns key content expires now' (lookup hash_key now' db) ns' key' = Some v"
    proof (cases "ns' = ns \<and> key' = key")
      case same: True
      obtain r where "r \<in> set (db_entries db)" "at_hash ns gen (hash_key key) r"
        using True by (auto simp: has_conflict_def list_ex_iff)
      then have "holds hash_key now' ?db' ns key (?f r) \<longleftrightarrow> alive expires now'"
        using assms(2) by (auto simp: holds_def rows at_key_def at_hash_def in_generation_def live_def alive_def)
      moreover have "ce_bytes r' = content \<and> alive expires now'" if "holds hash_key now' ?db' ns key r'" for r'
      proof -
        from that have r': "r' \<in> ?f ` set (db_entries db)" "at_key ns gen (hash_key key) key r'" "live now' r'"
          using assms(2) by (simp_all add: holds_def rows)
        from r'(1) obtain x where x: "r' = ?f x" by (rule imageE)
        with r'(2) have "at_hash ns gen (hash_key key) x" by (simp add: at_key_def split: if_splits)
        with x r'(3) show ?thesis by (simp add: live_def alive_def)
      qed
      moreover have "ce_bytes (?f r) = content" using \<open>at_hash ns gen (hash_key key) r\<close> by simp
      ultimately show ?thesis
        using lookup_iff [OF db_ok_upsert [OF assms(1,2)], of now' now key content expires ns key v] same
        by (auto simp: written_def)
    next
      case other: False
      have not_it: "\<not> at_hash ns gen (hash_key key) r" if "r \<in> set (db_entries db)" "at_key ns' gen' (hash_key key') key' r" for r gen'
        using that other assms(3) by (auto simp: at_key_def at_hash_def in_generation_def own_hash_def)
      have "holds hash_key now' ?db' ns' key' r \<longleftrightarrow> holds hash_key now' db ns' key' r" for r
      proof
        assume "holds hash_key now' ?db' ns' key' r"
        then obtain x gen' where x: "x \<in> set (db_entries db)" "r = ?f x" "at_key ns' gen' (hash_key key') key' r"
          "map_of (db_namespaces db) ns' = Some gen'" "live now' r" unfolding holds_def rows by auto
        with other have "\<not> at_hash ns gen (hash_key key) x" by (auto simp: at_key_def at_hash_def in_generation_def)
        with x show "holds hash_key now' db ns' key' r" by (simp add: holds_def)
      next
        assume h: "holds hash_key now' db ns' key' r"
        then obtain gen' where g: "r \<in> set (db_entries db)" "at_key ns' gen' (hash_key key') key' r" by (auto simp: holds_def)
        from not_it [OF this] have "?f r = r" by simp
        with g(1) have "r \<in> ?f ` set (db_entries db)" by (intro image_eqI [of _ _ r]) (rule sym)
        with h show "holds hash_key now' ?db' ns' key' r" by (simp add: holds_def rows)
      qed
      then show ?thesis using lookup_iff [OF db_ok_upsert [OF assms(1,2)], of now' now key content expires ns' key' v]
          lookup_iff [OF assms(1), of now' ns' key' v] other by (auto simp: written_def)
    qed
  qed
qed


section \<open>Reads, deletions and writes\<close>

lemma checked_fails: "fst (check v op db) = Inr x \<Longrightarrow> v = Inr ()"
  by (cases v) (auto simp: check_def)

lemma lookup_touch: "lookup hash_key now' (touch now ident db) = lookup hash_key now' db"
proof -
  let ?f = "\<lambda>r. if ce_id r = ident then r\<lparr>ce_last_accessed_at := now, ce_accesses := ce_accesses r + 1\<rparr> else r"
  have "(\<lambda>r. at_key ns gen h k r \<and> live now' r) \<circ> ?f = (\<lambda>r. at_key ns gen h k r \<and> live now' r)" for ns gen h k
    by (simp add: fun_eq_iff at_key_def at_hash_def in_generation_def live_def)
  then have "map_option ce_bytes (select_key now' ns gen h k (touch now ident db)) =
      map_option ce_bytes (select_key now' ns gen h k db)" for ns gen h k
    unfolding select_key_def touch_def by (simp add: find_map option.map_comp comp_def if_distrib cong: if_cong)
  then show ?thesis
    by (intro ext) (simp add: lookup_def try_namespace_generation_def touch_def split: option.split)
qed

lemma db_ok_touch: "db_ok hash_key db \<Longrightarrow> db_ok hash_key (touch now ident db)"
  unfolding touch_def by (rule db_ok_map) (auto simp: slot_def row_ok_def)

lemma CacheStore_get_spec:
  assumes "db_ok hash_key db" "validate_namespace ns = Inr ()" "validate_cache_key key = Inr ()"
  shows "\<exists>db'. CacheStore_get hash_key now ns key db = (Inr (lookup hash_key now db ns key), db') \<and> db_ok hash_key db' \<and>
    (\<forall>now'. lookup hash_key now' db' = lookup hash_key now' db)"
proof -
  show ?thesis
    using assms db_ok_touch [OF assms(1)]
    by (auto simp: CacheStore_get_def lookup_def [of hash_key now db] andThen_def lookup_touch split: option.splits)
qed

lemma CacheStore_exists_spec:
  assumes "db_ok hash_key db" "validate_namespace ns = Inr ()" "validate_cache_key key = Inr ()"
  shows "\<exists>db'. CacheStore_exists hash_key now ns key db = (Inr (lookup hash_key now db ns key \<noteq> None), db') \<and>
    db_ok hash_key db' \<and> (\<forall>now'. lookup hash_key now' db' = lookup hash_key now' db)"
  using CacheStore_get_spec [OF assms, of now] by (auto simp: CacheStore_exists_def andThen_def)

lemma CacheStore_mget_spec:
  assumes "db_ok hash_key db" "validate_namespace ns = Inr ()" "\<forall>key \<in> set keys. validate_cache_key key = Inr ()"
  shows "\<exists>db'. CacheStore_mget hash_key now ns keys db = (Inr (map (\<lambda>key. (key, lookup hash_key now db ns key)) keys), db') \<and>
    db_ok hash_key db' \<and> (\<forall>now'. lookup hash_key now' db' = lookup hash_key now' db)"
  using assms
proof (induction keys arbitrary: db)
  case (Cons key keys)
  obtain db1 where g: "CacheStore_get hash_key now ns key db = (Inr (lookup hash_key now db ns key), db1)"
    "db_ok hash_key db1" "\<forall>now'. lookup hash_key now' db1 = lookup hash_key now' db"
    using CacheStore_get_spec [OF Cons.prems(1,2), of key now] Cons.prems(3) by auto
  from Cons.IH [OF g(2) Cons.prems(2)] Cons.prems(3) g show ?case by (auto simp: andThen_def)
qed simp

lemma CacheStore_delete_spec:
  assumes "db_ok hash_key db" "validate_namespace ns = Inr ()" "validate_cache_key key = Inr ()"
  shows "\<exists>deleted db'. CacheStore_delete hash_key ns key db = (Inr deleted, db') \<and> db_ok hash_key db' \<and>
    (\<forall>now. lookup hash_key now db ns key \<noteq> None \<longrightarrow> deleted) \<and>
    (\<forall>now ns' key'. lookup hash_key now db' ns' key' = (if ns' = ns \<and> key' = key then None else lookup hash_key now db ns' key'))"
proof (cases "try_namespace_generation ns db")
  case None
  then show ?thesis using assms by (auto simp: CacheStore_delete_def lookup_def)
next
  case (Some gen)
  let ?P = "at_key ns gen (hash_key key) key"
  define db1 where "db1 = snd (delete_rows ?P db)"
  have k: "keeps (\<lambda>r. \<not> ?P r) db db1" unfolding db1_def by (rule keeps_delete_rows) simp
  have ok1: "db_ok hash_key db1" by (rule keeps_ok [OF k assms(1)])
  have "lookup hash_key now db1 ns key = None" for now
    using lookup_iff [OF ok1, of now ns key] Some
    by (cases "lookup hash_key now db1 ns key") (auto simp: holds_def db1_def delete_rows_def try_namespace_generation_def)
  moreover have "lookup hash_key now db1 ns' key' = lookup hash_key now db ns' key'" if "\<not> (ns' = ns \<and> key' = key)" for now ns' key'
    using that by (intro keeps_lookup [OF k assms(1)]) (auto simp: holds_def at_key_def at_hash_def in_generation_def)
  moreover have "0 < fst (delete_rows ?P db)" if "lookup hash_key now db ns key \<noteq> None" for now
    using that lookup_iff [OF assms(1), of now ns key] Some
    by (auto simp: holds_def delete_rows_def try_namespace_generation_def filter_empty_conv)
  moreover have "CacheStore_delete hash_key ns key db = (Inr (0 < fst (delete_rows ?P db)),
      if 0 < fst (delete_rows ?P db) then bump ''deletes'' (fst (delete_rows ?P db)) db1 else db1)"
    using assms(2,3) Some by (simp add: CacheStore_delete_def db1_def case_prod_beta andThen_def)
  ultimately show ?thesis using ok1
    by (intro exI [of _ "0 < fst (delete_rows ?P db)"]
        exI [of _ "if 0 < fst (delete_rows ?P db) then bump ''deletes'' (fst (delete_rows ?P db)) db1 else db1"]) simp
qed

end
