(* ===== verification/Cache_Writes.thy ===== *)
theory Cache_Writes
  imports Cache_Spec
begin

text \<open>
  The writing operations of the cache against their specification: \<open>set\<close>, \<open>set_nx\<close>, the atomic
  exchanges (\<open>get_set\<close>, \<open>increment\<close>, \<open>append\<close> and their relatives) and the invalidation of a
  namespace. Each lemma gives the result and the content of the cache from then on; without
  capacity limits for all namespaces, with limits for all but the one that was written.
\<close>


section \<open>Writing a key\<close>

text \<open>From \<open>now\<close> on and where capacity does not interfere, the content is as given.\<close>

definition becomes :: "(string \<Rightarrow> string) \<Rightarrow> CacheLimits \<Rightarrow> int \<Rightarrow> string \<Rightarrow> cache_db \<Rightarrow>
    (int \<Rightarrow> string \<Rightarrow> string \<Rightarrow> bytes option) \<Rightarrow> bool" where
  "becomes hash_key limits now ns db' c \<longleftrightarrow> db_ok hash_key db' \<and> (\<forall>now' ns' key'.
     now \<le> now' \<and> (ns' \<noteq> ns \<or> unlimited limits) \<longrightarrow> lookup hash_key now' db' ns' key' = c now' ns' key')"

lemma becomes_wrap_up:
  assumes "db_ok hash_key db" "map_of (db_namespaces db) ns = Some gen" "\<And>now'. now \<le> now' \<Longrightarrow> lookup hash_key now' db = c now'"
  shows "\<exists>db'. wrap_up limits now ns db = (Inr (), db') \<and> becomes hash_key limits now ns db' c \<and>
    db_namespaces db' = db_namespaces db \<and> ((\<forall>r \<in> set (db_entries db). live now r) \<longrightarrow> within limits ns gen db')"
proof -
  from wrap_up_spec [OF assms(1,2), of limits now] obtain db' where w: "wrap_up limits now ns db = (Inr (), db')"
    "db_ok hash_key db'" "db_namespaces db' = db_namespaces db"
    "\<forall>now' ns' key. now \<le> now' \<and> (ns' \<noteq> ns \<or> unlimited limits) \<longrightarrow> lookup hash_key now' db' ns' key = lookup hash_key now' db ns' key"
    "(\<forall>r \<in> set (db_entries db). live now r) \<longrightarrow> within limits ns gen db'" by auto
  then show ?thesis using assms(3) by (auto simp: becomes_def)
qed

lemma generation_ensured:
  obtains gen where "map_of (db_namespaces (ensure_namespace ns db)) ns = Some gen"
    "namespace_generation ns (ensure_namespace ns db) = (Inr gen, ensure_namespace ns db)"
  using ensure_namespace_generation [of ns db] by (auto simp: namespace_generation_def try_namespace_generation_def)

lemma CacheStore_set_spec:
  assumes "db_ok hash_key db" "validate_namespace ns = Inr ()" "validate_cache_key key = Inr ()"
    "validate_ttl_seconds ttl = Inr ()" "expires_at now ttl = Inr expires" "own_hash hash_key db key"
  shows "\<exists>db'. CacheStore_set hash_key limits now ns key content ttl db = (Inr (), db') \<and>
    becomes hash_key limits now ns db' (\<lambda>now'. written ns key content expires now' (lookup hash_key now' db))"
proof -
  let ?db0 = "ensure_namespace ns db"
  obtain gen where gen: "map_of (db_namespaces ?db0) ns = Some gen" "namespace_generation ns ?db0 = (Inr gen, ?db0)"
    by (rule generation_ensured)
  have ok0: "db_ok hash_key ?db0" by (rule db_ok_ensure [OF assms(1)])
  let ?db1 = "upsert now ns gen (hash_key key) key content expires ?db0"
  let ?c = "\<lambda>now'. written ns key content expires now' (lookup hash_key now' db)"
  have look: "lookup hash_key now' ?db1 = ?c now'" for now'
    using lookup_upsert [OF ok0 gen(1)] assms(6) lookup_ensure [OF assms(1)] by simp
  have gen1: "map_of (db_namespaces ?db1) ns = Some gen" using gen(1) by (simp add: upsert_def take_id_def)
  have "CacheStore_set hash_key limits now ns key content ttl db = wrap_up limits now ns ?db1"
    using assms(2-5) gen(2) by (simp add: CacheStore_set_def andThen_def wrap_up_def)
  with becomes_wrap_up [OF db_ok_upsert [OF ok0 gen(1)] gen1 look, where limits = limits] show ?thesis by auto
qed

text \<open>A refused argument changes nothing.\<close>

lemma CacheStore_set_refused:
  assumes "check (validate_namespace ns) (check (validate_cache_key key) (check (validate_ttl_seconds ttl) (\<lambda>db. (Inr (), db)))) db = (Inl e, db')"
  shows "CacheStore_set hash_key limits now ns key content ttl db = (Inl e, db)"
  using assms by (auto simp: CacheStore_set_def check_def split: sum.splits)


section \<open>Expired rows of a key\<close>

text \<open>After its expired row is gone, a key has a row exactly when it has a value.\<close>

lemma delete_expired_key_spec:
  fixes now :: int
  assumes "db_ok hash_key db" "map_of (db_namespaces db) ns = Some gen" "own_hash hash_key db key"
  defines "db1 \<equiv> delete_expired_key now ns gen (hash_key key) key db"
  shows "db_ok hash_key db1" "db_namespaces db1 = db_namespaces db" "db_next_id db1 = db_next_id db"
    "\<And>now'. now \<le> now' \<Longrightarrow> lookup hash_key now' db1 = lookup hash_key now' db"
    "has_conflict ns gen (hash_key key) db1 \<longleftrightarrow> lookup hash_key now db ns key \<noteq> None"
proof -
  have k: "keeps (live now) db db1" unfolding db1_def delete_expired_key_def by (rule keeps_delete_rows) simp
  show ok: "db_ok hash_key db1" by (rule keeps_ok [OF k assms(1)])
  show names: "db_namespaces db1 = db_namespaces db" "db_next_id db1 = db_next_id db" using k by (simp_all add: keeps_def)
  show same: "lookup hash_key now' db1 = lookup hash_key now' db" if "now \<le> now'" for now'
    using that by (intro ext keeps_lookup [OF k assms(1)]) (auto simp: holds_def live_mono)
  have "at_hash ns gen (hash_key key) r \<longleftrightarrow> at_key ns gen (hash_key key) key r" if "r \<in> set (db_entries db1)" for r
    using that ok assms(3) by (auto simp: at_key_def at_hash_def db_ok_def row_ok_def own_hash_def db1_def delete_expired_key_def delete_rows_def)
  moreover have "live now r" if "r \<in> set (db_entries db1)" "at_key ns gen (hash_key key) key r" for r
    using that by (auto simp: db1_def delete_expired_key_def delete_rows_def)
  ultimately have "has_conflict ns gen (hash_key key) db1 \<longleftrightarrow> (\<exists>r. holds hash_key now db1 ns key r)"
    using assms(2) names by (auto simp: has_conflict_def list_ex_iff holds_def)
  then show "has_conflict ns gen (hash_key key) db1 \<longleftrightarrow> lookup hash_key now db ns key \<noteq> None"
    using lookup_iff [OF ok, of now ns key] same [of now] by auto
qed

lemma CacheStore_set_nx_spec:
  assumes "db_ok hash_key db" "validate_namespace ns = Inr ()" "validate_cache_key key = Inr ()"
    "validate_ttl_seconds ttl = Inr ()" "expires_at now ttl = Inr expires" "own_hash hash_key db key"
  shows "\<exists>db'. CacheStore_set_nx hash_key limits now ns key content ttl db = (Inr (lookup hash_key now db ns key = None), db') \<and>
    becomes hash_key limits now ns db' (\<lambda>now'. if lookup hash_key now db ns key = None
      then written ns key content expires now' (lookup hash_key now' db) else lookup hash_key now' db)"
proof -
  let ?db0 = "ensure_namespace ns db"
  obtain gen where gen: "map_of (db_namespaces ?db0) ns = Some gen" "namespace_generation ns ?db0 = (Inr gen, ?db0)"
    by (rule generation_ensured)
  have ok0: "db_ok hash_key ?db0" by (rule db_ok_ensure [OF assms(1)])
  define db1 where "db1 = delete_expired_key now ns gen (hash_key key) key ?db0"
  have "own_hash hash_key ?db0 key" using assms(6) by simp
  note d = delete_expired_key_spec [OF ok0 gen(1) this, of now, folded db1_def]
  have gen1: "map_of (db_namespaces db1) ns = Some gen" using d(2) gen(1) by simp
  have look: "lookup hash_key now' db1 = lookup hash_key now' db" if "now \<le> now'" for now'
    using d(4) [OF that] lookup_ensure [OF assms(1)] by simp
  have absent: "has_conflict ns gen (hash_key key) db1 \<longleftrightarrow> lookup hash_key now db ns key \<noteq> None"
    using d(5) lookup_ensure [OF assms(1)] by simp
  let ?n = "insert_new now ns gen (hash_key key) key content expires db1"
  have op: "CacheStore_set_nx hash_key limits now ns key content ttl db =
      (if 0 < fst ?n then andThen (wrap_up limits now ns) (\<lambda>_ db. (Inr True, db)) (snd ?n) else (Inr False, snd ?n))"
    using assms(2-5) gen(2)
    by (simp add: CacheStore_set_nx_def andThen_def transaction_def wrap_up_def db1_def case_prod_beta)
  show ?thesis
  proof (cases "lookup hash_key now db ns key = None")
    case True
    then have n: "\<not> has_conflict ns gen (hash_key key) db1" using absent by simp
    let ?db2 = "take_id (db1\<lparr>db_entries := db_entries db1 @ [new_row db1 now ns gen (hash_key key) key content expires]\<rparr>)"
    let ?c = "\<lambda>now'. written ns key content expires now' (lookup hash_key now' db)"
    have look2: "lookup hash_key now' ?db2 = ?c now'" if "now \<le> now'" for now'
      using lookup_insert [OF d(1) n gen1] look [OF that] by simp
    have gen2: "map_of (db_namespaces ?db2) ns = Some gen" using gen1 by (simp add: take_id_def)
    obtain db' where "wrap_up limits now ns ?db2 = (Inr (), db')" "becomes hash_key limits now ns db' ?c"
      using becomes_wrap_up [OF db_ok_insert [OF d(1) n gen1] gen2 look2, where limits = limits] by auto
    moreover have "?n = (1, ?db2)" using n by (simp add: insert_new_def)
    ultimately show ?thesis using True op by (simp add: andThen_def)
  next
    case False
    then have "?n = (0, take_id db1)" using absent by (simp add: insert_new_def)
    then show ?thesis using False op d(1) look by (auto simp: becomes_def db_ok_take_id)
  qed
qed


section \<open>Exchanging the value of a key\<close>

definition updated :: "int \<Rightarrow> bytes \<Rightarrow> int option \<Rightarrow> cache_db \<Rightarrow> cache_db" where
  "updated ident content expires db = db\<lparr>db_entries := map (\<lambda>r. if ce_id r = ident
     then r\<lparr>ce_bytes := content, ce_size := int (length content), ce_expires_at := expires\<rparr> else r) (db_entries db)\<rparr>"

lemma db_ok_updated: "db_ok hash_key db \<Longrightarrow> db_ok hash_key (updated ident content expires db)"
  unfolding updated_def by (rule db_ok_map) (auto simp: slot_def row_ok_def)

lemma lookup_updated:
  assumes "db_ok hash_key db" "holds hash_key now db ns key row"
  shows "lookup hash_key now' (updated (ce_id row) content expires db) =
    written ns key content expires now' (lookup hash_key now' db)" (is "lookup _ _ ?db' = _")
proof (intro ext option_eqI)
  fix ns' key' v
  define row' where "row' = row\<lparr>ce_bytes := content, ce_size := int (length content), ce_expires_at := expires\<rparr>"
  have row: "row \<in> set (db_entries db)" using assms(2) by (simp add: holds_def)
  have "ce_id r = ce_id row \<longleftrightarrow> r = row" if "r \<in> set (db_entries db)" for r
    using id_unique [OF assms(1) that row] by auto
  then have rows: "set (db_entries ?db') = {r \<in> set (db_entries db). r \<noteq> row} \<union> {row'}" using row
    by (fastforce simp: updated_def row'_def)
  have row'_bytes: "ce_bytes row' = content" by (simp add: row'_def)
  have names: "db_namespaces ?db' = db_namespaces db" by (simp add: updated_def)
  have key: "ce_ns row = ns" "ce_cache_key row = key" using assms(2) by (auto simp: holds_def at_key_def at_hash_def in_generation_def)
  have new: "holds hash_key now' ?db' ns' key' row' \<longleftrightarrow> ns' = ns \<and> key' = key \<and> alive expires now'"
    using assms(2) by (auto simp: holds_def rows names row'_def at_key_def at_hash_def in_generation_def live_def alive_def)
  have old: "holds hash_key now' ?db' ns' key' r \<longleftrightarrow> holds hash_key now' db ns' key' r \<and> r \<noteq> row" if "r \<noteq> row'" for r
    using that by (auto simp: holds_def rows names)
  have "(\<exists>r. holds hash_key now' ?db' ns' key' r \<and> ce_bytes r = v) \<longleftrightarrow>
      written ns key content expires now' (lookup hash_key now' db) ns' key' = Some v"
  proof (cases "ns' = ns \<and> key' = key")
    case True
    have "r = row'" if "holds hash_key now' ?db' ns' key' r" for r
      using that old [of r] holds_unique [OF assms, of now' r] True by metis
    then have "(\<exists>r. holds hash_key now' ?db' ns' key' r \<and> ce_bytes r = v) \<longleftrightarrow> alive expires now' \<and> content = v"
      using True new by (metis row'_bytes)
    then show ?thesis using True by (auto simp: written_def)
  next
    case False
    have "\<not> holds hash_key now' db ns' key' row" "\<not> holds hash_key now' db ns' key' row'"
      using False key by (auto simp: holds_def row'_def at_key_def at_hash_def in_generation_def)
    then have "holds hash_key now' ?db' ns' key' r \<longleftrightarrow> holds hash_key now' db ns' key' r" for r
      using old [of r] new False by metis
    then show ?thesis using False lookup_iff [OF assms(1), of now' ns' key' v] by (auto simp: written_def)
  qed
  then show "lookup hash_key now' ?db' ns' key' = Some v \<longleftrightarrow>
      written ns key content expires now' (lookup hash_key now' db) ns' key' = Some v"
    by (simp only: lookup_iff [OF db_ok_updated [OF assms(1)]])
qed

lemma update_value_updated:
  assumes "db_ok hash_key db" "row \<in> set (db_entries db)" "expires_at now ttl = Inr expires"
  shows "update_value now (ce_id row) content ttl preserve db =
    (Inr (), updated (ce_id row) content (if ttl = None \<and> preserve then ce_expires_at row else expires) db)"
proof -
  have "ce_id r = ce_id row \<longleftrightarrow> r = row" if "r \<in> set (db_entries db)" for r
    using id_unique [OF assms(1) that assms(2)] by auto
  then show ?thesis using assms(3) by (auto simp: update_value_def updated_def)
qed


text \<open>
  The content after an exchange, for a function that computes the new value from the old one. An
  exchange that preserves the expiry keeps the new value as long as the old one would have been
  kept.
\<close>

lemma exchange_spec:
  assumes "db_ok hash_key db" "validate_namespace ns = Inr ()" "validate_cache_key key = Inr ()"
    "validate_ttl_seconds ttl = Inr ()" "expires_at now ttl = Inr expires" "own_hash hash_key db key"
  shows "case lookup hash_key now db ns key of
      None \<Rightarrow> \<exists>db'. exchange hash_key limits now ns key ttl preserve change initial db = (Inr (snd initial), db') \<and>
        becomes hash_key limits now ns db' (\<lambda>now'. written ns key (fst initial) expires now' (lookup hash_key now' db))
    | Some old \<Rightarrow> (case change old of
        Inl e \<Rightarrow> exchange hash_key limits now ns key ttl preserve change initial db = (Inl e, ensure_namespace ns db)
      | Inr (content, out) \<Rightarrow> \<exists>db' expires'. exchange hash_key limits now ns key ttl preserve change initial db = (Inr out, db') \<and>
          (if ttl = None \<and> preserve then \<forall>now'. now \<le> now' \<longrightarrow> alive expires' now' = (lookup hash_key now' db ns key \<noteq> None)
           else expires' = expires) \<and>
          becomes hash_key limits now ns db' (\<lambda>now'. written ns key content expires' now' (lookup hash_key now' db)))"
proof -
  let ?db0 = "ensure_namespace ns db"
  obtain gen where gen: "map_of (db_namespaces ?db0) ns = Some gen" "namespace_generation ns ?db0 = (Inr gen, ?db0)"
    by (rule generation_ensured)
  have ok0: "db_ok hash_key ?db0" by (rule db_ok_ensure [OF assms(1)])
  define db1 where "db1 = delete_expired_key now ns gen (hash_key key) key ?db0"
  have "own_hash hash_key ?db0 key" using assms(6) by simp
  note d = delete_expired_key_spec [OF ok0 gen(1) this, of now, folded db1_def]
  have gen1: "map_of (db_namespaces db1) ns = Some gen" using d(2) gen(1) by simp
  have look: "lookup hash_key now' db1 = lookup hash_key now' db" if "now \<le> now'" for now'
    using d(4) [OF that] lookup_ensure [OF assms(1)] by simp
  have sel: "lookup hash_key now db ns key = map_option ce_bytes (select_key now ns gen (hash_key key) key db1)"
    using look [of now] gen1 by (simp add: lookup_def [of hash_key now db1] try_namespace_generation_def flip: look)
  let ?tx = "\<lambda>db. let db1 = delete_expired_key now ns gen (hash_key key) key db in
             case select_key now ns gen (hash_key key) key db1 of
               Some row \<Rightarrow> (case change (ce_bytes row) of Inl e \<Rightarrow> (Inl e, db1)
                 | Inr (content, out) \<Rightarrow> andThen (update_value now (ce_id row) content ttl preserve) (\<lambda>_ db. (Inr out, db)) db1)
             | None \<Rightarrow> andThen (insert_value now ns gen (hash_key key) key (fst initial) ttl) (\<lambda>_ db. (Inr (snd initial), db)) db1"
  have op: "exchange hash_key limits now ns key ttl preserve change initial db =
      andThen (transaction ?tx) (\<lambda>out. andThen (wrap_up limits now ns) (\<lambda>_ db. (Inr out, db))) ?db0"
    using assms(2-4) gen(2) by (simp add: exchange_def andThen_def wrap_up_def split: prod.split sum.split)
  show ?thesis
  proof (cases "select_key now ns gen (hash_key key) key db1")
    case None
    then have l: "lookup hash_key now db ns key = None" using sel by simp
    then have n: "\<not> has_conflict ns gen (hash_key key) db1" using d(5) lookup_ensure [OF assms(1)] by simp
    let ?db2 = "take_id (db1\<lparr>db_entries := db_entries db1 @ [new_row db1 now ns gen (hash_key key) key (fst initial) expires]\<rparr>)"
    let ?c = "\<lambda>now'. written ns key (fst initial) expires now' (lookup hash_key now' db)"
    have look2: "lookup hash_key now' ?db2 = ?c now'" if "now \<le> now'" for now'
      using lookup_insert [OF d(1) n gen1] look [OF that] by simp
    have gen2: "map_of (db_namespaces ?db2) ns = Some gen" using gen1 by (simp add: take_id_def)
    obtain db' where w: "wrap_up limits now ns ?db2 = (Inr (), db')" "becomes hash_key limits now ns db' ?c"
      using becomes_wrap_up [OF db_ok_insert [OF d(1) n gen1] gen2 look2, where limits = limits] by auto
    have "transaction ?tx ?db0 = (Inr (snd initial), ?db2)"
      using None n assms(5) by (simp add: transaction_def db1_def [symmetric] andThen_def insert_value_def insert_new_def Let_def)
    with w l op show ?thesis by (simp add: andThen_def)
  next
    case (Some row)
    then have l: "lookup hash_key now db ns key = Some (ce_bytes row)" using sel by simp
    have row: "row \<in> set (db_entries db1)" "at_key ns gen (hash_key key) key row" "live now row"
      using find_member [OF Some [unfolded select_key_def]] by auto
    then have h: "holds hash_key now db1 ns key row" using gen1 by (simp add: holds_def)
    show ?thesis
    proof (cases "change (ce_bytes row)")
      case (Inl e)
      then show ?thesis using Some l op by (simp add: transaction_def db1_def [symmetric] andThen_def Let_def)
    next
      case (Inr x)
      obtain content out where x: "x = (content, out)" by (cases x)
      let ?ex = "if ttl = None \<and> preserve then ce_expires_at row else expires"
      let ?db2 = "updated (ce_id row) content ?ex db1"
      let ?c = "\<lambda>now'. written ns key content ?ex now' (lookup hash_key now' db)"
      have look2: "lookup hash_key now' ?db2 = ?c now'" if "now \<le> now'" for now'
        using lookup_updated [OF d(1) h] look [OF that] by simp
      have gen2: "map_of (db_namespaces ?db2) ns = Some gen" using gen1 by (simp add: updated_def)
      obtain db' where w: "wrap_up limits now ns ?db2 = (Inr (), db')" "becomes hash_key limits now ns db' ?c"
        using becomes_wrap_up [OF db_ok_updated [OF d(1)] gen2 look2, where limits = limits] by auto
      have "transaction ?tx ?db0 = (Inr out, ?db2)"
        using Some Inr x update_value_updated [OF d(1) row(1) assms(5), of content preserve]
        by (simp add: transaction_def db1_def [symmetric] andThen_def Let_def)
      with w op have run: "exchange hash_key limits now ns key ttl preserve change initial db = (Inr out, db')"
        by (simp add: andThen_def)
      have "alive (ce_expires_at row) now' \<longleftrightarrow> lookup hash_key now' db ns key \<noteq> None" if "now \<le> now'" for now'
      proof -
        have "lookup hash_key now' db1 ns key \<noteq> None \<longleftrightarrow> (\<exists>r. holds hash_key now' db1 ns key r)"
          using lookup_iff [OF d(1), of now' ns key] by auto
        also have "\<dots> \<longleftrightarrow> holds hash_key now' db1 ns key row" using holds_unique [OF d(1) h] by metis
        also have "\<dots> \<longleftrightarrow> alive (ce_expires_at row) now'" using h by (auto simp: holds_def live_def alive_def)
        finally show ?thesis using look [OF that] by simp
      qed
      with run w(2) l Inr x show ?thesis by (auto intro!: exI [of _ db'] exI [of _ ?ex])
    qed
  qed
qed

text \<open>An expiry beyond the last timestamp is refused, after the function of the exchange has had its say.\<close>

lemma exchange_unexpirable:
  assumes "db_ok hash_key db" "validate_namespace ns = Inr ()" "validate_cache_key key = Inr ()"
    "validate_ttl_seconds ttl = Inr ()" "expires_at now ttl = Inl e" "own_hash hash_key db key"
  shows "exchange hash_key limits now ns key ttl preserve change initial db = (Inl (case lookup hash_key now db ns key of None \<Rightarrow> e
      | Some old \<Rightarrow> (case change old of Inl e' \<Rightarrow> e' | Inr _ \<Rightarrow> e)), ensure_namespace ns db)"
proof -
  let ?db0 = "ensure_namespace ns db"
  obtain gen where gen: "map_of (db_namespaces ?db0) ns = Some gen" "namespace_generation ns ?db0 = (Inr gen, ?db0)"
    by (rule generation_ensured)
  have ok0: "db_ok hash_key ?db0" by (rule db_ok_ensure [OF assms(1)])
  define db1 where "db1 = delete_expired_key now ns gen (hash_key key) key ?db0"
  have "own_hash hash_key ?db0 key" using assms(6) by simp
  note d = delete_expired_key_spec [OF ok0 gen(1) this, of now, folded db1_def]
  have "lookup hash_key now db ns key = lookup hash_key now db1 ns key" using d(4) [of now] lookup_ensure [OF assms(1)] by simp
  also have "lookup hash_key now db1 ns key = map_option ce_bytes (select_key now ns gen (hash_key key) key db1)"
    using d(2) gen(1) by (simp add: lookup_def try_namespace_generation_def)
  finally show ?thesis
    using assms(2-5) gen(2) unfolding exchange_def
    by (simp add: andThen_def transaction_def db1_def [symmetric] Let_def update_value_def insert_value_def split: option.splits sum.splits)
qed


section \<open>The exchanges of the interface\<close>

lemma parse_i64_dec:
  assumes "in_int64 v"
  shows "parse_i64_value (utf8 (dec v)) = Inr v"
proof -
  have same: "parse_i64 s = Option.bind (undec s) (\<lambda>v. if in_int64 v then Some v else None)" if "hd s \<noteq> CHR ''+''" for s
    using that by (auto simp: parse_i64_def undec_def split: list.splits)
  have "hd (dec v) \<noteq> CHR ''+''"
  proof (cases "v < 0")
    case False
    then obtain d where d: "0 \<le> d" "d < 10" "hd (dec_pos v) = digit d" using hd_dec_pos [of v] by auto
    moreover have "digit_val (CHR ''+'') = None" by code_simp
    ultimately have "hd (dec_pos v) \<noteq> CHR ''+''" using digit_val_digit [OF d(1,2)] by (metis option.distinct(1))
    with False show ?thesis by (simp add: dec_def)
  qed (simp add: dec_def)
  with assms same [of "dec v"] show ?thesis by (simp add: parse_i64_value_def)
qed

lemma expires_later: "validate_ttl_seconds ttl = Inr () \<Longrightarrow> expires_at now ttl = Inr expires \<Longrightarrow> alive expires now"
  using timestamp_later by (cases "timestamp_after now (the ttl)")
    (auto simp: expires_at_def validate_ttl_seconds_def alive_def split: option.splits if_splits)

lemma CacheStore_get_set_spec:
  assumes "db_ok hash_key db" "validate_namespace ns = Inr ()" "validate_cache_key key = Inr ()"
    "validate_ttl_seconds ttl = Inr ()" "expires_at now ttl = Inr expires" "own_hash hash_key db key"
  shows "\<exists>db'. CacheStore_get_set hash_key limits now ns key content ttl db = (Inr (lookup hash_key now db ns key), db') \<and>
    becomes hash_key limits now ns db' (\<lambda>now'. written ns key content expires now' (lookup hash_key now' db))"
  using exchange_spec [OF assms, of limits False "\<lambda>old_value. Inr (content, Some old_value)" "(content, None)"]
  by (auto simp: CacheStore_get_set_def split: option.splits)

lemma CacheStore_concat_spec:
  fixes position :: ConcatPosition and content :: bytes
  assumes "db_ok hash_key db" "validate_namespace ns = Inr ()" "validate_cache_key key = Inr ()"
    "validate_ttl_seconds ttl = Inr ()" "expires_at now ttl = Inr expires" "own_hash hash_key db key"
  defines "old \<equiv> (case lookup hash_key now db ns key of None \<Rightarrow> [] | Some old \<Rightarrow> old)"
  defines "both \<equiv> (case position of Append \<Rightarrow> old @ content | Prepend \<Rightarrow> content @ old)"
  shows "\<exists>db'. CacheStore_concat hash_key limits now ns key content ttl position db = (Inr (int (length both)), db') \<and>
    becomes hash_key limits now ns db' (\<lambda>now'. written ns key both expires now' (lookup hash_key now' db))"
  using exchange_spec [OF assms(1-6), of limits False "\<lambda>old_value. let new_value = (case position of Append \<Rightarrow> old_value @ content
      | Prepend \<Rightarrow> content @ old_value) in Inr (new_value, int (length new_value))" "(content, int (length content))"]
  unfolding both_def old_def
  by (cases position) (auto simp: CacheStore_concat_def Let_def split: option.splits)

text \<open>
  The number a key holds, a missing one counting as 0: an increment within the range returns the
  sum and stores it; one beyond the range, or of a value that is no number, is refused and stores
  nothing.
\<close>

definition number_at :: "(string \<Rightarrow> string) \<Rightarrow> int \<Rightarrow> cache_db \<Rightarrow> string \<Rightarrow> string \<Rightarrow> int option" where
  "number_at hash_key now db ns key = (case lookup hash_key now db ns key of None \<Rightarrow> Some 0
     | Some content \<Rightarrow> (case parse_i64_value content of Inl _ \<Rightarrow> None | Inr v \<Rightarrow> Some v))"

lemma add_integer_spec:
  assumes "db_ok hash_key db" "validate_namespace ns = Inr ()" "validate_cache_key key = Inr ()"
    "validate_ttl_seconds ttl = Inr ()" "expires_at now ttl = Inr expires" "own_hash hash_key db key" "in_int64 delta"
  shows "case number_at hash_key now db ns key of
      None \<Rightarrow> add_integer hash_key limits now ns key delta ttl db =
        (Inl (InvalidArgument ''cache value is not a numeric i64''), ensure_namespace ns db)
    | Some v \<Rightarrow> if in_int64 (v + delta)
        then \<exists>db' expires'. add_integer hash_key limits now ns key delta ttl db = (Inr (v + delta), db') \<and> alive expires' now \<and>
          becomes hash_key limits now ns db' (\<lambda>now'. written ns key (utf8 (dec (v + delta))) expires' now' (lookup hash_key now' db))
        else add_integer hash_key limits now ns key delta ttl db =
          (Inl (InvalidArgument ''numeric cache value overflowed i64''), ensure_namespace ns db)"
proof -
  have fresh: "alive expires now" by (rule expires_later [OF assms(4,5)])
  note e = exchange_spec [OF assms(1-6), of limits True "\<lambda>old_value. bindE (parse_i64_value old_value) (\<lambda>current. let new_value = current + delta in
          if in_int64 new_value then Inr (utf8 (dec new_value), new_value)
          else Inl (InvalidArgument ''numeric cache value overflowed i64''))" "(utf8 (dec delta), delta)", folded add_integer_def]
  show ?thesis
  proof (cases "lookup hash_key now db ns key")
    case None
    with e fresh assms(7) show ?thesis by (auto simp: number_at_def)
  next
    case (Some content)
    show ?thesis
    proof (cases "parse_i64_value content")
      case (Inl x)
      then have "x = InvalidArgument ''cache value is not a numeric i64''"
        by (auto simp: parse_i64_value_def split: option.splits)
      with Inl Some e show ?thesis by (simp add: number_at_def)
    next
      case (Inr v)
      with Some e fresh show ?thesis by (auto simp: number_at_def Let_def split: if_splits)
    qed
  qed
qed


section \<open>Invalidating a namespace\<close>

lemma map_of_bump_one:
  fixes gens :: "(string \<times> int) list"
  shows "map_of (map (\<lambda>(name, gen). (name, if name = ns then gen + 1 else gen)) gens) ns' =
    (if ns' = ns then map_option (\<lambda>g. g + 1) (map_of gens ns') else map_of gens ns')"
  by (induction gens) auto

lemma CacheStore_invalidate_spec:
  assumes "db_ok hash_key db" "validate_namespace ns = Inr ()"
  shows "\<exists>db'. CacheStore_invalidate_namespace ns db = (Inr (), db') \<and> db_ok hash_key db' \<and>
    (\<forall>now ns' key. lookup hash_key now db' ns' key = (if ns' = ns then None else lookup hash_key now db ns' key))"
proof -
  let ?db0 = "ensure_namespace ns db"
  obtain gen where gen: "map_of (db_namespaces ?db0) ns = Some gen" by (rule generation_ensured)
  have ok0: "db_ok hash_key ?db0" by (rule db_ok_ensure [OF assms(1)])
  let ?up = "map (\<lambda>(name, gen). (name, if name = ns then gen + 1 else gen)) (db_namespaces ?db0)"
  let ?old = "\<lambda>r. ce_ns r = ns \<and> (\<exists>gen \<in> set (map snd (filter (\<lambda>(name, _). name = ns) ?up)). ce_generation r < gen)"
  let ?db' = "?db0\<lparr>db_namespaces := ?up, db_entries := filter (\<lambda>r. \<not> ?old r) (db_entries ?db0)\<rparr>"
  have names: "map_of ?up ns' = (if ns' = ns then map_option (\<lambda>g. g + 1) (map_of (db_namespaces ?db0) ns')
      else map_of (db_namespaces ?db0) ns')" for ns'
    by (rule map_of_bump_one)
  have dist: "distinct (map fst (db_namespaces ?db0))" using ok0 by (simp add: db_ok_def)
  then have "distinct (map fst ?up)" by (simp add: comp_def case_prod_beta)
  have old: "?old r \<longleftrightarrow> ce_ns r = ns" if "r \<in> set (db_entries ?db0)" for r
  proof -
    from that ok0 gen have "ce_ns r = ns \<Longrightarrow> ce_generation r < gen + 1" by (auto simp: db_ok_def row_ok_def)
    moreover have "(ns, gen) \<in> set (db_namespaces ?db0)" using gen by (rule map_of_SomeD)
    ultimately show ?thesis by force
  qed
  then have rows: "filter (\<lambda>r. \<not> ?old r) (db_entries ?db0) = filter (\<lambda>r. ce_ns r \<noteq> ns) (db_entries ?db0)"
    by (intro filter_cong) auto
  have ok: "db_ok hash_key ?db'"
    using ok0 \<open>distinct (map fst ?up)\<close> unfolding db_ok_def row_ok_def rows
    by (auto simp: names distinct_map_filter)
  have "lookup hash_key now ?db' ns' key = (if ns' = ns then None else lookup hash_key now db ns' key)" for now ns' key
  proof (rule option_eqI)
    fix v
    have "holds hash_key now ?db' ns' key r \<longleftrightarrow> ns' \<noteq> ns \<and> holds hash_key now ?db0 ns' key r" for r
      unfolding holds_def rows by (auto simp: names at_key_def at_hash_def in_generation_def)
    then show "lookup hash_key now ?db' ns' key = Some v \<longleftrightarrow>
        (if ns' = ns then None else lookup hash_key now db ns' key) = Some v"
      using lookup_iff [OF ok, of now ns' key v] lookup_iff [OF ok0, of now ns' key v] lookup_ensure [OF assms(1), of now ns] by auto
  qed
  moreover have "CacheStore_invalidate_namespace ns db = (Inr (), ?db')"
    unfolding CacheStore_invalidate_namespace_def assms(2) checked Let_def delete_rows_def snd_conv by simp
  ultimately show ?thesis using ok by blast
qed

end
