(* ===== verification/Cache_Inv.thy ===== *)
theory Cache_Inv
  imports Cache_Writes
begin

text \<open>
  The invariant of the tables of the cache is kept by every operation, whatever its arguments and
  also where it fails. The proofs run over the statements of an operation with triples: a
  precondition, and a postcondition of the result; an error leaves the invariant.
\<close>


section \<open>Invariants of the statements\<close>

text \<open>
  A property of the tables that the statements of an operation on a namespace keep: then the
  operations keep it. \<open>K\<close> holds the keys that are written.
\<close>

locale op_invariant =
  fixes I :: "cache_db \<Rightarrow> bool" and hash_key :: "string \<Rightarrow> string" and K :: "string set" and ns :: string and now :: int
  assumes consistent: "I db \<Longrightarrow> db_ok hash_key db"
    and ensured: "I db \<Longrightarrow> I (ensure_namespace ns db)"
    and counted: "I db \<Longrightarrow> I (db\<lparr>db_counters := c\<rparr>)"
    and numbered: "I db \<Longrightarrow> I (take_id db)"
    and roomy: "I db \<Longrightarrow> I (snd (enforce_capacity limits now ns db))"
    and upserted: "I db \<Longrightarrow> map_of (db_namespaces db) ns = Some gen \<Longrightarrow> key \<in> K \<Longrightarrow>
        I (upsert now ns gen (hash_key key) key content expires db)"
    and inserted: "I db \<Longrightarrow> map_of (db_namespaces db) ns = Some gen \<Longrightarrow> key \<in> K \<Longrightarrow> \<not> has_conflict ns gen (hash_key key) db \<Longrightarrow>
        I (take_id (db\<lparr>db_entries := db_entries db @ [new_row db now ns gen (hash_key key) key content expires]\<rparr>))"
    and changed: "I db \<Longrightarrow> row \<in> set (db_entries db) \<Longrightarrow> ce_ns row = ns \<Longrightarrow> I (updated (ce_id row) content expires db)"
    and touched: "I db \<Longrightarrow> row \<in> set (db_entries db) \<Longrightarrow> ce_ns row = ns \<Longrightarrow> I (touch now (ce_id row) db)"
    and deleted: "I db \<Longrightarrow> (\<And>r. P r \<Longrightarrow> ce_ns r = ns) \<Longrightarrow> I (snd (delete_rows P db))"
    and invalidated: "I db \<Longrightarrow> I (snd (CacheStore_invalidate_namespace ns db))"
begin

text \<open>While a statement works on the namespace at its current generation.\<close>

definition at_gen :: "int \<Rightarrow> cache_db \<Rightarrow> bool" where
  "at_gen gen db \<longleftrightarrow> I db \<and> map_of (db_namespaces db) ns = Some gen"

lemma at_gen_inv: "at_gen gen db \<Longrightarrow> I db"
  by (simp add: at_gen_def)

lemma triple_generation: "triple I I (namespace_generation ns) at_gen"
  by (auto simp: triple_def namespace_generation_def try_namespace_generation_def at_gen_def split: option.splits)

lemma triple_counter: "triple I I (increment_counter counter n) (\<lambda>_. I)"
  by (auto simp: triple_def increment_counter_def Let_def counted)

lemma inv_counted: "I db \<Longrightarrow> I (snd (andThen (increment_counter c n) (\<lambda>_ db. (Inr x, db)) db))"
  by (rule triple_result [OF triple_andThen [OF triple_counter triple_return]])

lemma triple_capacity: "triple I I (enforce_capacity limits now ns) (\<lambda>_. I)"
  using roomy by (auto simp: triple_def case_prod_beta split: sum.split)

lemma triple_wrap_up: "triple I I (wrap_up limits now ns) (\<lambda>_. I)"
  unfolding wrap_up_def by (rule triple_andThen [OF triple_counter triple_capacity])

lemma triple_finish:
  "triple I I (andThen (increment_counter ''writes'' 1) (\<lambda>_. andThen (enforce_capacity limits now ns) (\<lambda>_ db. (Inr x, db)))) (\<lambda>_. I)"
  by (rule triple_andThen [OF triple_counter triple_andThen [OF triple_capacity triple_return]])

lemma at_gen_delete_expired: "at_gen gen db \<Longrightarrow> at_gen gen (delete_expired_key now ns gen h key db)"
  using deleted [of db "\<lambda>r. at_key ns gen h key r \<and> \<not> live now r"]
  by (auto simp: delete_expired_key_def at_gen_def delete_rows_def at_key_def at_hash_def in_generation_def)

text \<open>An operation that prepares its namespace, reads its generation and goes on from there.\<close>

lemma triple_in_namespace:
  assumes "\<And>gen. triple I (at_gen gen) (f gen) (\<lambda>_. I)"
  shows "triple I I (\<lambda>db. andThen (namespace_generation ns) f (ensure_namespace ns db)) (\<lambda>_. I)"
  by (rule triple_apply [OF triple_andThen [OF triple_generation assms] ensured])

lemma set_inv:
  assumes "key \<in> K"
  shows "triple I I (CacheStore_set hash_key limits now ns key content ttl) (\<lambda>_. I)"
  unfolding CacheStore_set_def
proof (intro op_intro triple_in_namespace)
  fix gen
  show "triple I (at_gen gen) (\<lambda>db. case expires_at now ttl of Inl e \<Rightarrow> (Inl e, db)
      | Inr expires \<Rightarrow> andThen (increment_counter ''writes'' 1) (\<lambda>_. enforce_capacity limits now ns)
          (upsert now ns gen (hash_key key) key content expires db)) (\<lambda>_. I)"
  proof (cases "expires_at now ttl")
    case (Inr expires)
    show ?thesis unfolding Inr sum.case wrap_up_def [symmetric]
      by (rule triple_apply [OF triple_wrap_up]) (use assms in \<open>simp add: at_gen_def upserted\<close>)
  qed (auto simp: triple_def intro: at_gen_inv)
qed

lemma set_nx_inv:
  assumes "key \<in> K"
  shows "triple I I (CacheStore_set_nx hash_key limits now ns key content ttl) (\<lambda>_. I)"
  unfolding CacheStore_set_nx_def
proof (intro op_intro triple_in_namespace, assumption, assumption, assumption)
  fix gen
  let ?made = "\<lambda>db expires. insert_new now ns gen (hash_key key) key content expires (delete_expired_key now ns gen (hash_key key) key db)"
  have made: "I (snd (?made db expires))" if "at_gen gen db" for db expires
    using at_gen_delete_expired [OF that, of "hash_key key" key] inserted [OF _ _ assms] numbered by (auto simp: insert_new_def at_gen_def)
  show "triple I (at_gen gen) (andThen (transaction (\<lambda>db. case expires_at now ttl of Inl e \<Rightarrow> (Inl e, db)
      | Inr expires \<Rightarrow> (case ?made db expires of (made, db') \<Rightarrow> (Inr (0 < made), db'))))
      (\<lambda>created. if created then andThen (increment_counter ''writes'' 1) (\<lambda>_. andThen (enforce_capacity limits now ns)
          (\<lambda>_ db. (Inr created, db))) else (\<lambda>db. (Inr created, db)))) (\<lambda>_. I)"
  proof (rule triple_andThen [where R = "\<lambda>_. I"])
    show "triple I (at_gen gen) (transaction (\<lambda>db. case expires_at now ttl of Inl e \<Rightarrow> (Inl e, db)
        | Inr expires \<Rightarrow> (case ?made db expires of (made, db') \<Rightarrow> (Inr (0 < made), db')))) (\<lambda>_. I)"
      using made by (intro op_intro) (auto simp: triple_def case_prod_beta split: sum.splits intro: at_gen_inv)
  qed (simp add: triple_finish triple_return)
qed

lemma exchange_inv:
  assumes "key \<in> K"
  shows "triple I I (exchange hash_key limits now ns key ttl preserve change initial) (\<lambda>_. I)"
  unfolding exchange_def
proof (intro op_intro triple_in_namespace triple_andThen [where R = "\<lambda>_. I"] triple_finish, assumption, assumption, assumption, erule at_gen_inv)
  fix gen
  let ?db1 = "\<lambda>db. delete_expired_key now ns gen (hash_key key) key db"
  have upd: "I db'" if "at_gen gen db" "row \<in> set (db_entries db)" "at_key ns gen (hash_key key) key row"
    "update_value now (ce_id row) content ttl preserve db = (Inr x, db')" for db row content x db'
  proof -
    have "I db" "ce_ns row = ns" using that(1,3) by (simp_all add: at_gen_def at_key_def at_hash_def in_generation_def)
    with that(2,4) show ?thesis using changed [of db row] update_value_updated [OF consistent that(2), of now ttl]
      by (cases "expires_at now ttl") (auto simp: update_value_def [of now _ _ ttl])
  qed
  have ins: "I db'" if "at_gen gen db" "insert_value now ns gen (hash_key key) key content ttl db = (Inr x, db')" for db content x db'
    using that inserted [of db gen key, OF _ _ assms]
    by (fastforce simp: insert_value_def insert_new_def at_gen_def split: sum.splits if_splits)
  show "triple (\<lambda>_. True) (at_gen gen) (\<lambda>db. let db1 = ?db1 db in
      case select_key now ns gen (hash_key key) key db1 of
        Some row \<Rightarrow> (case change (ce_bytes row) of Inl e \<Rightarrow> (Inl e, db1)
          | Inr (content, out) \<Rightarrow> andThen (update_value now (ce_id row) content ttl preserve) (\<lambda>_ db. (Inr out, db)) db1)
      | None \<Rightarrow> andThen (insert_value now ns gen (hash_key key) key (fst initial) ttl) (\<lambda>_ db. (Inr (snd initial), db)) db1) (\<lambda>_. I)"
    unfolding triple_def Let_def andThen_def select_key_def
    using upd [OF at_gen_delete_expired] ins [OF at_gen_delete_expired]
    by (fastforce split: sum.splits prod.splits option.splits dest!: find_member)
qed (intro triple_counter triple_capacity)+

lemma get_inv: "triple I I (CacheStore_get hash_key now ns key) (\<lambda>_. I)"
proof -
  have "I (touch now (ce_id row) db)" if "I db" "select_key now ns gen h key db = Some row" for db row gen h
    using that find_member [of _ "db_entries db" row]
    by (intro touched) (fastforce simp: select_key_def at_key_def at_hash_def in_generation_def)+
  then show ?thesis unfolding CacheStore_get_def
    by (intro op_intro) (auto simp: triple_def inv_counted case_prod_beta split: option.splits)
qed

lemma mget_inv: "triple I I (CacheStore_mget hash_key now ns keys) (\<lambda>_. I)"
proof (induction keys)
  case (Cons key keys)
  have "CacheStore_mget hash_key now ns (key # keys) = andThen (CacheStore_get hash_key now ns key) (\<lambda>found.
      andThen (CacheStore_mget hash_key now ns keys) (\<lambda>results db. (Inr ((key, found) # results), db)))" by (rule ext) simp
  then show ?case using triple_andThen [OF get_inv triple_andThen [OF Cons.IH triple_return]] by metis
qed (simp add: triple_def)

lemma exists_inv: "triple I I (CacheStore_exists hash_key now ns key) (\<lambda>_. I)"
  unfolding CacheStore_exists_def by (rule triple_andThen [OF get_inv triple_return])

lemma delete_inv: "triple I I (CacheStore_delete hash_key ns key) (\<lambda>_. I)"
proof -
  have "I (snd (delete_rows (at_key ns gen h key) db))" if "I db" for gen h db
    by (rule deleted [OF that]) (simp add: at_key_def at_hash_def in_generation_def)
  then show ?thesis unfolding CacheStore_delete_def
    by (intro op_intro) (auto simp: triple_def case_prod_beta inv_counted split: option.splits)
qed

lemma invalidate_inv: "triple I I (CacheStore_invalidate_namespace ns) (\<lambda>_. I)"
  using invalidated by (auto simp: triple_def case_prod_beta split: sum.split)

end


section \<open>Consistent tables\<close>

text \<open>Consistent tables, in which all keys are from a given set.\<close>

definition keys_in :: "string set \<Rightarrow> cache_db \<Rightarrow> bool" where
  "keys_in K db \<longleftrightarrow> (\<forall>r \<in> set (db_entries db). ce_cache_key r \<in> K)"

definition db_inv :: "(string \<Rightarrow> string) \<Rightarrow> string set \<Rightarrow> cache_db \<Rightarrow> bool" where
  "db_inv hash_key K db \<longleftrightarrow> db_ok hash_key db \<and> keys_in K db"

lemma keys_in_map: "(\<And>r. ce_cache_key (f r) = ce_cache_key r) \<Longrightarrow> keys_in K (db\<lparr>db_entries := map f (db_entries db)\<rparr>) = keys_in K db"
  by (simp add: keys_in_def)

lemma keys_in_same:
  "keys_in K (ensure_namespace ns db) = keys_in K db" "keys_in K (take_id db) = keys_in K db"
  "keys_in K (updated ident content expires db) = keys_in K db" "keys_in K (touch now ident db) = keys_in K db"
  "keys_in K (db\<lparr>db_counters := c\<rparr>) = keys_in K db"
  unfolding updated_def touch_def by (simp_all add: keys_in_map) (simp_all add: keys_in_def ensure_namespace_def take_id_def)

lemma db_inv_keeps: "keeps Q db db' \<Longrightarrow> db_inv hash_key K db \<Longrightarrow> db_inv hash_key K db'"
  using keeps_ok [of Q db db' hash_key] by (auto simp: db_inv_def keeps_def keys_in_def)

lemma enforce_capacity_keeps:
  assumes "db_ok hash_key db"
  shows "\<exists>db'. enforce_capacity limits now ns db = (Inr (), db') \<and> keeps (\<lambda>r. live now r \<and> ce_ns r \<noteq> ns) db db'"
proof (cases "map_of (db_namespaces db) ns")
  case None
  obtain removed db1 where "sweep_expired now 1000 db = (Inr removed, db1)" "keeps (live now) db db1"
    using sweep_expired_keeps [OF assms] by blast
  moreover from this(2) None have "map_of (db_namespaces db1) ns = None" by (simp add: keeps_def)
  ultimately show ?thesis using keeps_weaken [of "live now" db db1 "\<lambda>r. live now r \<and> ce_ns r \<noteq> ns"]
    by (auto simp: enforce_capacity_def andThen_def try_namespace_generation_def)
next
  case (Some gen)
  with enforce_capacity_spec [OF assms, of limits now ns] obtain db' where
    "enforce_capacity limits now ns db = (Inr (), db')" "keeps (\<lambda>r. live now r \<and> \<not> in_generation ns gen r) db db'" by auto
  then show ?thesis using keeps_weaken [of "\<lambda>r. live now r \<and> \<not> in_generation ns gen r" db db' "\<lambda>r. live now r \<and> ce_ns r \<noteq> ns"]
    by (auto simp: in_generation_def)
qed

lemma db_ok_invalidate:
  assumes "db_ok hash_key db"
  shows "db_ok hash_key (snd (CacheStore_invalidate_namespace ns db))"
proof (cases "validate_namespace ns")
  case (Inr x)
  then show ?thesis using CacheStore_invalidate_spec [OF assms, of ns] by auto
qed (simp add: CacheStore_invalidate_namespace_def assms)

lemma invalidate_rows:
  "set (db_entries (snd (CacheStore_invalidate_namespace ns db))) \<subseteq> set (db_entries db)"
  "r \<in> set (db_entries db) \<Longrightarrow> ce_ns r \<noteq> ns \<Longrightarrow> r \<in> set (db_entries (snd (CacheStore_invalidate_namespace ns db)))"
  by (cases "validate_namespace ns"; auto simp: CacheStore_invalidate_namespace_def Let_def ensure_namespace_def)+

lemma db_inv_op_invariant: "op_invariant (db_inv hash_key K) hash_key K ns now"
proof
  fix db limits assume I: "db_inv hash_key K db"
  show "db_inv hash_key K (snd (enforce_capacity limits now ns db))"
    using enforce_capacity_keeps [of hash_key db limits now ns] I db_inv_keeps by (fastforce simp: db_inv_def)
  show "db_inv hash_key K (snd (CacheStore_invalidate_namespace ns db))"
    using I db_ok_invalidate [of hash_key db ns] invalidate_rows(1) [of ns db] by (auto simp: db_inv_def keys_in_def)
  show "db_inv hash_key K (snd (delete_rows P db))" for P
    by (rule db_inv_keeps [OF keeps_delete_rows [where Q = "\<lambda>_. False"] I]) simp
next
  fix db gen key content expires assume I: "db_inv hash_key K db" "map_of (db_namespaces db) ns = Some gen" "key \<in> K"
  show "db_inv hash_key K (upsert now ns gen (hash_key key) key content expires db)"
    using I db_ok_upsert [of hash_key db ns gen now key content expires]
    by (auto simp: db_inv_def keys_in_def upsert_def take_id_def new_row_def)
  show "db_inv hash_key K (take_id (db\<lparr>db_entries := db_entries db @ [new_row db now ns gen (hash_key key) key content expires]\<rparr>))"
    if "\<not> has_conflict ns gen (hash_key key) db"
    using I that db_ok_insert [of hash_key db ns gen key now content expires]
    by (auto simp: db_inv_def keys_in_def take_id_def new_row_def)
qed (auto simp: db_inv_def keys_in_same db_ok_ensure db_ok_take_id db_ok_updated db_ok_touch)

interpretation consistent: op_invariant "db_inv hash_key K" hash_key K ns now for hash_key K ns now
  by (rule db_inv_op_invariant)


section \<open>Other namespaces\<close>

text \<open>The rows of the other namespaces that can still be read, and their generations, are those of given tables.\<close>

definition others :: "string \<Rightarrow> int \<Rightarrow> cache_db \<Rightarrow> cache_row set" where
  "others ns now db = {r \<in> set (db_entries db). ce_ns r \<noteq> ns \<and> live now r}"

definition untouched :: "(string \<Rightarrow> string) \<Rightarrow> string \<Rightarrow> int \<Rightarrow> cache_db \<Rightarrow> cache_db \<Rightarrow> bool" where
  "untouched hash_key ns now db0 db \<longleftrightarrow> db_ok hash_key db \<and> others ns now db = others ns now db0 \<and>
     (\<forall>ns'. ns' \<noteq> ns \<longrightarrow> map_of (db_namespaces db) ns' = map_of (db_namespaces db0) ns')"

lemma untouched_lookup:
  assumes "db_ok hash_key db0" "untouched hash_key ns now db0 db" "ns' \<noteq> ns" "now \<le> t"
  shows "lookup hash_key t db ns' key = lookup hash_key t db0 ns' key"
proof (rule lookup_cong [OF assms(1)])
  show "db_ok hash_key db" using assms(2) by (simp add: untouched_def)
  have "holds hash_key t db ns' key r \<longleftrightarrow> holds hash_key t db0 ns' key r" for r
  proof -
    have "r \<in> others ns now db \<longleftrightarrow> r \<in> others ns now db0" using assms(2) by (simp add: untouched_def)
    then show ?thesis using assms(2-4) live_mono [of t r now]
      by (auto simp: holds_def untouched_def others_def at_key_def at_hash_def in_generation_def)
  qed
  then show "(\<exists>r. holds hash_key t db ns' key r \<and> ce_bytes r = v) \<longleftrightarrow> (\<exists>r. holds hash_key t db0 ns' key r \<and> ce_bytes r = v)" for v
    by simp
qed

lemma others_keeps: "keeps (\<lambda>r. live now r \<and> ce_ns r \<noteq> ns) db db' \<Longrightarrow> others ns now db' = others ns now db"
  by (auto simp: keeps_def others_def)

lemma others_map:
  assumes "\<And>r. r \<in> set (db_entries db) \<Longrightarrow> f r = r \<or> ce_ns r = ns \<and> ce_ns (f r) = ns"
  shows "others ns now (db\<lparr>db_entries := map f (db_entries db)\<rparr>) = others ns now db"
proof (rule set_eqI)
  fix r
  show "r \<in> others ns now (db\<lparr>db_entries := map f (db_entries db)\<rparr>) \<longleftrightarrow> r \<in> others ns now db"
  proof
    assume "r \<in> others ns now (db\<lparr>db_entries := map f (db_entries db)\<rparr>)"
    then obtain x where "x \<in> set (db_entries db)" "r = f x" "ce_ns r \<noteq> ns" "live now r" by (auto simp: others_def)
    with assms [of x] show "r \<in> others ns now db" by (auto simp: others_def)
  next
    assume r: "r \<in> others ns now db"
    then have "f r = r" using assms [of r] by (auto simp: others_def)
    with r show "r \<in> others ns now (db\<lparr>db_entries := map f (db_entries db)\<rparr>)" by (auto simp: others_def intro: rev_image_eqI)
  qed
qed

lemma others_row:
  assumes "db_ok hash_key db" "row \<in> set (db_entries db)" "ce_ns row = ns" "\<And>r. ce_ns (f r) = ce_ns r"
  shows "others ns now (db\<lparr>db_entries := map (\<lambda>r. if ce_id r = ce_id row then f r else r) (db_entries db)\<rparr>) = others ns now db"
  using id_unique [OF assms(1) _ assms(2)] assms(3,4) by (intro others_map) auto

lemma others_names [simp]: "others ns now (db\<lparr>db_namespaces := names\<rparr>) = others ns now db"
  "others ns now (db\<lparr>db_counters := c\<rparr>) = others ns now db" "others ns now (take_id db) = others ns now db"
  "others ns now (ensure_namespace ns' db) = others ns now db"
  by (simp_all add: others_def take_id_def ensure_namespace_def)

lemma others_upsert: "others ns now (upsert now' ns gen h key content expires db) = others ns now db"
proof (cases "has_conflict ns gen h db")
  case True
  then show ?thesis unfolding upsert_def others_names by (auto intro!: others_map simp: at_hash_def in_generation_def split: if_splits)
next
  case False
  then show ?thesis by (auto simp: upsert_def others_def new_row_def take_id_def)
qed

lemma untouched_op_invariant: "op_invariant (untouched hash_key ns now db0) hash_key K ns now"
proof
  fix db limits assume I: "untouched hash_key ns now db0 db"
  then have ok: "db_ok hash_key db" by (simp add: untouched_def)
  from enforce_capacity_keeps [OF ok, of limits now ns] obtain db' where
    "enforce_capacity limits now ns db = (Inr (), db')" "keeps (\<lambda>r. live now r \<and> ce_ns r \<noteq> ns) db db'" by blast
  with I show "untouched hash_key ns now db0 (snd (enforce_capacity limits now ns db))"
    using keeps_ok [of _ db db' hash_key] others_keeps [of now ns db db'] by (auto simp: untouched_def keeps_def)
  have "others ns now (snd (CacheStore_invalidate_namespace ns db)) = others ns now db"
    using invalidate_rows [where ns = ns and db = db] by (auto simp: others_def)
  moreover have "map_of (db_namespaces (snd (CacheStore_invalidate_namespace ns db))) ns' = map_of (db_namespaces db) ns'" if "ns' \<noteq> ns" for ns'
    using that by (cases "validate_namespace ns")
      (auto simp: CacheStore_invalidate_namespace_def Let_def map_of_bump_one ensure_namespace_def map_add_def split: option.splits)
  ultimately show "untouched hash_key ns now db0 (snd (CacheStore_invalidate_namespace ns db))"
    using I db_ok_invalidate [OF ok, of ns] by (simp add: untouched_def)
  show "untouched hash_key ns now db0 (snd (delete_rows P db))" if "\<And>r. P r \<Longrightarrow> ce_ns r = ns" for P
    using I that keeps_ok [OF keeps_delete_rows [where Q = "\<lambda>_. False"] ok, of P]
    by (auto simp: untouched_def others_def delete_rows_def)
next
  fix db gen key content expires assume I: "untouched hash_key ns now db0 db" "map_of (db_namespaces db) ns = Some gen" "key \<in> K"
  show "untouched hash_key ns now db0 (upsert now ns gen (hash_key key) key content expires db)"
    using I db_ok_upsert [of hash_key db ns gen now key content expires]
    by (simp add: untouched_def others_upsert) (simp add: upsert_def take_id_def)
  show "untouched hash_key ns now db0 (take_id (db\<lparr>db_entries := db_entries db @ [new_row db now ns gen (hash_key key) key content expires]\<rparr>))"
    if "\<not> has_conflict ns gen (hash_key key) db"
    using I that db_ok_insert [of hash_key db ns gen key now content expires]
    by (auto simp: untouched_def take_id_def others_def new_row_def)
next
  fix db row content expires assume I: "untouched hash_key ns now db0 db" and row: "row \<in> set (db_entries db)" "ce_ns row = ns"
  then have ok: "db_ok hash_key db" by (simp add: untouched_def)
  show "untouched hash_key ns now db0 (updated (ce_id row) content expires db)"
    using I db_ok_updated [OF ok, of "ce_id row" content expires] by (simp add: untouched_def updated_def others_row [OF ok row])
  show "untouched hash_key ns now db0 (touch now (ce_id row) db)"
    using I db_ok_touch [OF ok, of now "ce_id row"] by (simp add: untouched_def touch_def others_row [OF ok row])
qed (auto simp: untouched_def db_ok_ensure db_ok_take_id, auto simp: ensure_namespace_def map_add_def take_id_def split: option.splits)

interpretation isolated: op_invariant "untouched hash_key ns now db0" hash_key K ns now for hash_key ns now db0 K
  by (rule untouched_op_invariant)

end
