(* ===== verification/Cache_Refine.thy ===== *)
theory Cache_Refine
  imports Cache_Inv
begin

text \<open>
  The cache as its callers see it: a specification that knows only which value a key has and until
  when, and the refinement of the specification by the operations on the tables, for whole runs of
  commands. The specification has no rows, generations, hashes, sweeps or transactions.
\<close>


section \<open>Commands\<close>

datatype cache_command =
    CSet string string bytes "int option"
  | CSetNx string string bytes "int option"
  | CGetSet string string bytes "int option"
  | CIncrement string string int "int option"
  | CDecrement string string int "int option"
  | CAppend string string bytes "int option"
  | CPrepend string string bytes "int option"
  | CGet string string
  | CMget string "string list"
  | CExists string string
  | CDelete string string
  | CInvalidate string

datatype cache_reply = Done | Flag bool | Found "bytes option" | Number int | Items "(string \<times> bytes option) list"

definition reply :: "('a \<Rightarrow> cache_reply) \<Rightarrow> 'a db_op \<Rightarrow> cache_reply db_op" where
  "reply f op = andThen op (\<lambda>x db. (Inr (f x), db))"

fun run_command :: "(string \<Rightarrow> string) \<Rightarrow> CacheLimits \<Rightarrow> int \<Rightarrow> cache_command \<Rightarrow> cache_reply db_op" where
  "run_command H limits now (CSet ns key content ttl) = reply (\<lambda>_. Done) (CacheStore_set H limits now ns key content ttl)"
| "run_command H limits now (CSetNx ns key content ttl) = reply Flag (CacheStore_set_nx H limits now ns key content ttl)"
| "run_command H limits now (CGetSet ns key content ttl) = reply Found (CacheStore_get_set H limits now ns key content ttl)"
| "run_command H limits now (CIncrement ns key delta ttl) = reply Number (CacheStore_increment H limits now ns key delta ttl)"
| "run_command H limits now (CDecrement ns key delta ttl) = reply Number (CacheStore_decrement H limits now ns key delta ttl)"
| "run_command H limits now (CAppend ns key content ttl) = reply Number (CacheStore_append H limits now ns key content ttl)"
| "run_command H limits now (CPrepend ns key content ttl) = reply Number (CacheStore_prepend H limits now ns key content ttl)"
| "run_command H limits now (CGet ns key) = reply Found (CacheStore_get H now ns key)"
| "run_command H limits now (CMget ns keys) = reply Items (CacheStore_mget H now ns keys)"
| "run_command H limits now (CExists ns key) = reply Flag (CacheStore_exists H now ns key)"
| "run_command H limits now (CDelete ns key) = reply Flag (CacheStore_delete H ns key)"
| "run_command H limits now (CInvalidate ns) = reply (\<lambda>_. Done) (CacheStore_invalidate_namespace ns)"

fun run_commands :: "(string \<Rightarrow> string) \<Rightarrow> CacheLimits \<Rightarrow> (int \<times> cache_command) list \<Rightarrow> cache_db \<Rightarrow>
    (pg_error + cache_reply) list \<times> cache_db" where
  "run_commands H limits [] db = ([], db)"
| "run_commands H limits ((now, cmd) # cmds) db = (case run_command H limits now cmd db of (r, db1) \<Rightarrow>
     (case run_commands H limits cmds db1 of (rs, db2) \<Rightarrow> (r # rs, db2)))"

fun command_keys :: "cache_command \<Rightarrow> string list" where
  "command_keys (CSet ns key content ttl) = [key]"
| "command_keys (CSetNx ns key content ttl) = [key]"
| "command_keys (CGetSet ns key content ttl) = [key]"
| "command_keys (CIncrement ns key delta ttl) = [key]"
| "command_keys (CDecrement ns key delta ttl) = [key]"
| "command_keys (CAppend ns key content ttl) = [key]"
| "command_keys (CPrepend ns key content ttl) = [key]"
| "command_keys (CGet ns key) = [key]"
| "command_keys (CMget ns keys) = keys"
| "command_keys (CExists ns key) = [key]"
| "command_keys (CDelete ns key) = [key]"
| "command_keys (CInvalidate ns) = []"

fun command_ns :: "cache_command \<Rightarrow> string" where
  "command_ns (CSet ns key content ttl) = ns"
| "command_ns (CSetNx ns key content ttl) = ns"
| "command_ns (CGetSet ns key content ttl) = ns"
| "command_ns (CIncrement ns key delta ttl) = ns"
| "command_ns (CDecrement ns key delta ttl) = ns"
| "command_ns (CAppend ns key content ttl) = ns"
| "command_ns (CPrepend ns key content ttl) = ns"
| "command_ns (CGet ns key) = ns"
| "command_ns (CMget ns keys) = ns"
| "command_ns (CExists ns key) = ns"
| "command_ns (CDelete ns key) = ns"
| "command_ns (CInvalidate ns) = ns"

text \<open>The number of an increment is an \<open>i64\<close>.\<close>

fun command_ok :: "cache_command \<Rightarrow> bool" where
  "command_ok (CIncrement ns key delta ttl) = in_int64 delta"
| "command_ok (CDecrement ns key delta ttl) = in_int64 delta"
| "command_ok _ = True"

lemma triple_reply: "triple I P op (\<lambda>_. Q) \<Longrightarrow> triple I P (reply f op) (\<lambda>_. Q)"
  unfolding reply_def by (rule triple_andThen [OF _ triple_return])

context op_invariant
begin

lemma run_command_inv:
  "command_ns cmd = ns \<Longrightarrow> set (command_keys cmd) \<subseteq> K \<Longrightarrow> triple I I (run_command hash_key limits now cmd) (\<lambda>_. I)"
proof (cases cmd)
  case (CDecrement ns' key delta ttl)
  assume "command_ns cmd = ns" "set (command_keys cmd) \<subseteq> K"
  with CDecrement have "triple I I (add_integer hash_key limits now ns' key (- delta) ttl) (\<lambda>_. I)"
    by (simp add: add_integer_def exchange_inv)
  then have "triple I I (CacheStore_decrement hash_key limits now ns' key delta ttl) (\<lambda>_. I)"
    by (simp add: triple_def CacheStore_decrement_def)
  with CDecrement show ?thesis by (simp add: triple_reply)
qed (auto intro!: triple_reply set_inv set_nx_inv exchange_inv get_inv mget_inv exists_inv delete_inv invalidate_inv
    simp: CacheStore_get_set_def CacheStore_increment_def add_integer_def CacheStore_append_def CacheStore_prepend_def CacheStore_concat_def)

lemma run_command_keeps:
  "I db \<Longrightarrow> command_ns cmd = ns \<Longrightarrow> set (command_keys cmd) \<subseteq> K \<Longrightarrow> run_command hash_key limits now cmd db = (r, db') \<Longrightarrow> I db'"
  using triple_result [OF run_command_inv [of cmd limits], of db] by simp

end

text \<open>The states the tables can be in.\<close>

inductive reachable_db :: "(string \<Rightarrow> string) \<Rightarrow> CacheLimits \<Rightarrow> cache_db \<Rightarrow> bool" for H limits where
  start: "reachable_db H limits empty_db"
| step: "reachable_db H limits db \<Longrightarrow> run_command H limits now cmd db = (r, db') \<Longrightarrow> reachable_db H limits db'"

lemma reachable_run: "reachable_db H limits db \<Longrightarrow> reachable_db H limits (snd (run_commands H limits cmds db))"
proof (induction cmds arbitrary: db)
  case (Cons x cmds)
  obtain now cmd where x: "x = (now, cmd)" by (cases x)
  obtain r db1 where run: "run_command H limits now cmd db = (r, db1)" by fastforce
  show ?case using Cons.IH [OF reachable_db.step [OF Cons.prems run]] by (simp add: x run case_prod_beta)
qed simp

lemma reachable_ok: "reachable_db H limits db \<Longrightarrow> db_ok H db"
proof -
  assume "reachable_db H limits db"
  then have "db_inv H UNIV db"
  proof induction
    case start
    show ?case by (simp add: db_inv_def keys_in_def db_ok_empty)
  next
    case (step db now cmd r db')
    then show ?case using consistent.run_command_keeps [of H UNIV db cmd "command_ns cmd" limits now r db'] by simp
  qed
  then show ?thesis by (simp add: db_inv_def)
qed


section \<open>Specification\<close>

text \<open>The value of a key and when it expires.\<close>

type_synonym cache_content = "string \<Rightarrow> string \<Rightarrow> (bytes \<times> int option) option"

definition seen :: "int \<Rightarrow> cache_content \<Rightarrow> string \<Rightarrow> string \<Rightarrow> bytes option" where
  "seen now c ns key = (case c ns key of None \<Rightarrow> None | Some (content, expires) \<Rightarrow> if alive expires now then Some content else None)"

definition put :: "string \<Rightarrow> string \<Rightarrow> bytes \<Rightarrow> int option \<Rightarrow> cache_content \<Rightarrow> cache_content" where
  "put ns key content expires c = c(ns := (c ns)(key := Some (content, expires)))"

definition admitted :: "string \<Rightarrow> string \<Rightarrow> int option \<Rightarrow> pg_error + unit" where
  "admitted ns key ttl = bindE (validate_namespace ns) (\<lambda>_. bindE (validate_cache_key key) (\<lambda>_. validate_ttl_seconds ttl))"

fun admitted_all :: "string \<Rightarrow> string list \<Rightarrow> pg_error + unit" where
  "admitted_all ns [] = Inr ()"
| "admitted_all ns (key # keys) = bindE (admitted ns key None) (\<lambda>_. admitted_all ns keys)"

text \<open>
  A command that replaces the value of a key: a function of its present value gives the new one and
  the answer. The new value lives for \<open>ttl\<close>; without a \<open>ttl\<close> it lives for ever or, if \<open>keep\<close> is set,
  as long as the present one.
\<close>

definition spec_exchange :: "int \<Rightarrow> string \<Rightarrow> string \<Rightarrow> int option \<Rightarrow> bool \<Rightarrow> (bytes option \<Rightarrow> pg_error + bytes \<times> cache_reply) \<Rightarrow>
    cache_content \<Rightarrow> (pg_error + cache_reply) \<times> cache_content" where
  "spec_exchange now ns key ttl keep f c =
     (case bindE (admitted ns key ttl) (\<lambda>_. bindE (f (seen now c ns key)) (\<lambda>(content, r).
         bindE (expires_at now ttl) (\<lambda>expires. Inr (content, expires, r)))) of
        Inl e \<Rightarrow> (Inl e, c)
      | Inr (content, expires, r) \<Rightarrow> (Inr r, put ns key content
          (case c ns key of Some (old, until) \<Rightarrow> if ttl = None \<and> keep \<and> alive until now then until else expires | None \<Rightarrow> expires) c))"

definition spec_add :: "int \<Rightarrow> bytes option \<Rightarrow> pg_error + bytes \<times> cache_reply" where
  "spec_add delta old = bindE (case old of None \<Rightarrow> Inr 0 | Some v \<Rightarrow> parse_i64_value v) (\<lambda>v.
     if in_int64 (v + delta) then Inr (utf8 (dec (v + delta)), Number (v + delta))
     else Inl (InvalidArgument ''numeric cache value overflowed i64''))"

definition orEmpty :: "bytes option \<Rightarrow> bytes" where
  "orEmpty old = (case old of None \<Rightarrow> [] | Some v \<Rightarrow> v)"

fun spec_command :: "int \<Rightarrow> cache_command \<Rightarrow> cache_content \<Rightarrow> (pg_error + cache_reply) \<times> cache_content" where
  "spec_command now (CSet ns key content ttl) c = spec_exchange now ns key ttl False (\<lambda>_. Inr (content, Done)) c"
| "spec_command now (CSetNx ns key content ttl) c = (if seen now c ns key = None
     then spec_exchange now ns key ttl False (\<lambda>_. Inr (content, Flag True)) c
     else (fst (spec_exchange now ns key ttl False (\<lambda>_. Inr (content, Flag False)) c), c))"
| "spec_command now (CGetSet ns key content ttl) c = spec_exchange now ns key ttl False (\<lambda>old. Inr (content, Found old)) c"
| "spec_command now (CIncrement ns key delta ttl) c = spec_exchange now ns key ttl True (spec_add delta) c"
| "spec_command now (CDecrement ns key delta ttl) c = (if in_int64 (- delta)
     then spec_exchange now ns key ttl True (spec_add (- delta)) c
     else (Inl (InvalidArgument ''delta is too large to decrement''), c))"
| "spec_command now (CAppend ns key content ttl) c = spec_exchange now ns key ttl False
     (\<lambda>old. Inr (orEmpty old @ content, Number (int (length (orEmpty old @ content))))) c"
| "spec_command now (CPrepend ns key content ttl) c = spec_exchange now ns key ttl False
     (\<lambda>old. Inr (content @ orEmpty old, Number (int (length (content @ orEmpty old))))) c"
| "spec_command now (CGet ns key) c = (bindE (admitted ns key None) (\<lambda>_. Inr (Found (seen now c ns key))), c)"
| "spec_command now (CMget ns keys) c = (bindE (admitted_all ns keys)
     (\<lambda>_. Inr (Items (map (\<lambda>key. (key, seen now c ns key)) keys))), c)"
| "spec_command now (CExists ns key) c = (bindE (admitted ns key None) (\<lambda>_. Inr (Flag (seen now c ns key \<noteq> None))), c)"
| "spec_command now (CDelete ns key) c = (case admitted ns key None of Inl e \<Rightarrow> (Inl e, c)
     | Inr _ \<Rightarrow> (Inr (Flag (seen now c ns key \<noteq> None)), c(ns := (c ns)(key := None))))"
| "spec_command now (CInvalidate ns) c = (case validate_namespace ns of Inl e \<Rightarrow> (Inl e, c)
     | Inr _ \<Rightarrow> (Inr Done, c(ns := (\<lambda>_. None))))"

fun spec_commands :: "(int \<times> cache_command) list \<Rightarrow> cache_content \<Rightarrow> (pg_error + cache_reply) list \<times> cache_content" where
  "spec_commands [] c = ([], c)"
| "spec_commands ((now, cmd) # cmds) c = (case spec_command now cmd c of (r, c1) \<Rightarrow>
     (case spec_commands cmds c1 of (rs, c2) \<Rightarrow> (r # rs, c2)))"

text \<open>
  The answers agree, but for one: the deletion of a value that has expired reports success when its
  row was not yet swept.
\<close>

definition matches :: "cache_command \<Rightarrow> pg_error + cache_reply \<Rightarrow> pg_error + cache_reply \<Rightarrow> bool" where
  "matches cmd r r' \<longleftrightarrow> r = r' \<or> (\<exists>ns key. cmd = CDelete ns key) \<and> r = Inr (Flag True) \<and> r' = Inr (Flag False)"

definition simulates :: "(string \<Rightarrow> string) \<Rightarrow> int \<Rightarrow> cache_db \<Rightarrow> cache_content \<Rightarrow> bool" where
  "simulates H now db c \<longleftrightarrow> (\<forall>now' \<ge> now. lookup H now' db = seen now' c)"


section \<open>Simulation\<close>

lemma admitted_iff: "admitted ns key ttl = Inr () \<longleftrightarrow>
    validate_namespace ns = Inr () \<and> validate_cache_key key = Inr () \<and> validate_ttl_seconds ttl = Inr ()"
  by (cases "validate_namespace ns"; cases "validate_cache_key key") (auto simp: admitted_def)

lemma admitted_check:
  "check (validate_namespace ns) (check (validate_cache_key key) (check (validate_ttl_seconds ttl) op)) = check (admitted ns key ttl) op"
  by (rule ext) (simp add: check_def admitted_def bindE_def split: sum.splits)

lemma admitted_check_key: "check (validate_namespace ns) (check (validate_cache_key key) op) = check (admitted ns key None) op"
  by (rule ext) (simp add: check_def admitted_def bindE_def validate_ttl_seconds_def split: sum.splits)

lemma own_hash_inj: "db_inv H K db \<Longrightarrow> inj_on H K \<Longrightarrow> key \<in> K \<Longrightarrow> own_hash H db key"
  by (auto simp: db_inv_def keys_in_def own_hash_def dest: inj_onD)

lemma seen_put: "seen now (put ns key content expires c) = written ns key content expires now (seen now c)"
  by (intro ext) (simp add: seen_def put_def written_def)

lemma simulates_put:
  assumes "becomes H limits now ns db' (\<lambda>now'. written ns key content expires now' (lookup H now' db))" "unlimited limits"
    "simulates H now db c" "\<And>now'. now \<le> now' \<Longrightarrow> alive expires' now' = alive expires now'"
  shows "simulates H now db' (put ns key content expires' c)"
  using assms by (auto simp: simulates_def becomes_def seen_put written_def fun_eq_iff)

lemma simulates_same: "(\<And>now'. now \<le> now' \<Longrightarrow> lookup H now' db' = lookup H now' db) \<Longrightarrow> simulates H now db c \<Longrightarrow> simulates H now db' c"
  by (simp add: simulates_def)

lemma simulates_ensure: "db_ok H db \<Longrightarrow> simulates H now db c \<Longrightarrow> simulates H now (ensure_namespace ns db) c"
  by (rule simulates_same) (simp_all add: lookup_ensure)

lemma simulates_seen: "simulates H now db c \<Longrightarrow> lookup H now db ns key = seen now c ns key"
  by (simp add: simulates_def)

text \<open>A value that can be seen stays until its expiry.\<close>

lemma seen_until: "seen now c ns key = Some v \<Longrightarrow> \<exists>until. c ns key = Some (v, until) \<and> alive until now"
  by (auto simp: seen_def split: option.splits if_splits)

text \<open>
  The exchange of the tables refines that of the specification, for functions that agree on a
  missing value and on a present one.
\<close>

lemma exchange_refines:
  assumes inv: "db_inv H K db" "inj_on H K" "key \<in> K" and lim: "unlimited limits" and sim: "simulates H now db c"
    and f: "\<And>old. f (Some old) = map_sum id (\<lambda>(content, out). (content, g out)) (change old)"
      "f None = Inr (fst initial, g (snd initial))"
  shows "fst (reply g (exchange H limits now ns key ttl keep change initial) db) = fst (spec_exchange now ns key ttl keep f c) \<and>
    simulates H now (snd (reply g (exchange H limits now ns key ttl keep change initial) db)) (snd (spec_exchange now ns key ttl keep f c))"
proof (cases "admitted ns key ttl")
  case (Inl e)
  then show ?thesis using sim unfolding exchange_def admitted_check by (simp add: reply_def andThen_def spec_exchange_def)
next
  case (Inr u)
  have ok: "db_ok H db" using inv(1) by (simp add: db_inv_def)
  have adm: "validate_namespace ns = Inr ()" "validate_cache_key key = Inr ()" "validate_ttl_seconds ttl = Inr ()" "u = ()"
    using Inr admitted_iff by auto
  note look = simulates_seen [OF sim, of ns key]
  note ens = simulates_ensure [OF ok sim]
  show ?thesis
  proof (cases "expires_at now ttl")
    case (Inr expires)
    note spec = exchange_spec [OF ok adm(1-3) Inr own_hash_inj [OF inv], of limits keep change initial]
    show ?thesis
    proof (cases "seen now c ns key")
      case None
      then have "(case c ns key of Some (old, until) \<Rightarrow> if ttl = None \<and> keep \<and> alive until now then until else expires | None \<Rightarrow> expires) = expires"
        by (auto simp: seen_def split: option.splits if_splits)
      with None spec look Inr \<open>admitted ns key ttl = Inr u\<close> f show ?thesis
        using simulates_put [OF _ lim sim] by (auto simp: spec_exchange_def reply_def andThen_def)
    next
      case (Some old)
      then obtain until where until: "c ns key = Some (old, until)" "alive until now" using seen_until by blast
      show ?thesis
      proof (cases "change old")
        case (Inl e)
        with Some spec look \<open>admitted ns key ttl = Inr u\<close> f ens show ?thesis
          by (simp add: spec_exchange_def reply_def andThen_def)
      next
        case change: (Inr x)
        obtain content out where x: "x = (content, out)" by (cases x)
        from spec look Some change x obtain db' expires' where
          run: "exchange H limits now ns key ttl keep change initial db = (Inr out, db')" and
          exp: "if ttl = None \<and> keep then \<forall>now'. now \<le> now' \<longrightarrow> alive expires' now' = (lookup H now' db ns key \<noteq> None) else expires' = expires" and
          bec: "becomes H limits now ns db' (\<lambda>now'. written ns key content expires' now' (lookup H now' db))" by auto
        have "alive (if ttl = None \<and> keep \<and> alive until now then until else expires) now' = alive expires' now'" if "now \<le> now'" for now'
          using exp that until sim by (auto simp: simulates_def seen_def)
        from simulates_put [OF bec lim sim this] show ?thesis
          using run Inr \<open>admitted ns key ttl = Inr u\<close> f Some change x until by (auto simp: spec_exchange_def reply_def andThen_def)
      qed
    qed
  next
    case (Inl e)
    show ?thesis using exchange_unexpirable [OF ok adm(1-3) Inl own_hash_inj [OF inv], of limits keep change initial]
        look ens f Inl \<open>admitted ns key ttl = Inr u\<close>
      by (auto simp: spec_exchange_def reply_def andThen_def split: option.splits sum.splits)
  qed
qed

lemma set_refines:
  assumes "db_inv H K db" "inj_on H K" "key \<in> K" "unlimited limits" "simulates H now db c"
  shows "fst (reply (\<lambda>_. Done) (CacheStore_set H limits now ns key content ttl) db) = fst (spec_command now (CSet ns key content ttl) c) \<and>
    simulates H now (snd (reply (\<lambda>_. Done) (CacheStore_set H limits now ns key content ttl) db)) (snd (spec_command now (CSet ns key content ttl) c))"
proof (cases "admitted ns key ttl")
  case (Inl e)
  then show ?thesis using assms(5) unfolding CacheStore_set_def admitted_check by (simp add: reply_def andThen_def spec_exchange_def)
next
  case (Inr u)
  have ok: "db_ok H db" using assms(1) by (simp add: db_inv_def)
  have adm: "validate_namespace ns = Inr ()" "validate_cache_key key = Inr ()" "validate_ttl_seconds ttl = Inr ()" "u = ()"
    using Inr admitted_iff by auto
  show ?thesis
  proof (cases "expires_at now ttl")
    case (Inl e)
    obtain gen where "namespace_generation ns (ensure_namespace ns db) = (Inr gen, ensure_namespace ns db)" by (rule generation_ensured)
    with Inl Inr adm simulates_ensure [OF ok assms(5), of ns] show ?thesis
      by (simp add: CacheStore_set_def andThen_def reply_def spec_exchange_def)
  next
    case expires: (Inr expires)
    with CacheStore_set_spec [OF ok adm(1-3) expires own_hash_inj [OF assms(1-3)], of limits content] Inr show ?thesis
      using simulates_put [OF _ assms(4,5)] by (auto simp: reply_def andThen_def spec_exchange_def split: option.splits)
  qed
qed

lemma set_nx_refines:
  assumes "db_inv H K db" "inj_on H K" "key \<in> K" "unlimited limits" "simulates H now db c"
  shows "fst (reply Flag (CacheStore_set_nx H limits now ns key content ttl) db) = fst (spec_command now (CSetNx ns key content ttl) c) \<and>
    simulates H now (snd (reply Flag (CacheStore_set_nx H limits now ns key content ttl) db)) (snd (spec_command now (CSetNx ns key content ttl) c))"
proof (cases "admitted ns key ttl")
  case (Inl e)
  then show ?thesis using assms(5) unfolding CacheStore_set_nx_def admitted_check by (simp add: reply_def andThen_def spec_exchange_def)
next
  case (Inr u)
  have ok: "db_ok H db" using assms(1) by (simp add: db_inv_def)
  have adm: "validate_namespace ns = Inr ()" "validate_cache_key key = Inr ()" "validate_ttl_seconds ttl = Inr ()" "u = ()"
    using Inr admitted_iff by auto
  show ?thesis
  proof (cases "expires_at now ttl")
    case (Inl e)
    obtain gen where "namespace_generation ns (ensure_namespace ns db) = (Inr gen, ensure_namespace ns db)" by (rule generation_ensured)
    with Inl Inr adm simulates_ensure [OF ok assms(5), of ns] show ?thesis
      by (simp add: CacheStore_set_nx_def andThen_def transaction_def reply_def spec_exchange_def)
  next
    case expires: (Inr expires)
    note spec = CacheStore_set_nx_spec [OF ok adm(1-3) expires own_hash_inj [OF assms(1-3)], of limits content]
    show ?thesis
    proof (cases "seen now c ns key")
      case None
      with spec Inr expires show ?thesis
        using simulates_put [OF _ assms(4,5)] simulates_seen [OF assms(5), of ns key]
        by (auto simp: reply_def andThen_def spec_exchange_def split: option.splits)
    next
      case (Some v)
      from spec Some simulates_seen [OF assms(5), of ns key] obtain db' where
        "CacheStore_set_nx H limits now ns key content ttl db = (Inr False, db')" "becomes H limits now ns db' (\<lambda>now'. lookup H now' db)" by auto
      with Some Inr expires assms(4,5) show ?thesis
        by (auto simp: reply_def andThen_def spec_exchange_def becomes_def simulates_def fun_eq_iff)
    qed
  qed
qed

text \<open>Reading and deleting.\<close>

lemma get_refines:
  assumes "db_ok H db" "simulates H now db c"
  shows "\<exists>db'. CacheStore_get H now ns key db = (bindE (admitted ns key None) (\<lambda>_. Inr (seen now c ns key)), db') \<and> db_ok H db' \<and> simulates H now db' c"
proof (cases "admitted ns key None")
  case (Inl e)
  then show ?thesis using assms unfolding CacheStore_get_def admitted_check_key by simp
next
  case (Inr u)
  then have "validate_namespace ns = Inr ()" "validate_cache_key key = Inr ()" using admitted_iff [of ns key None] by auto
  from CacheStore_get_spec [OF assms(1) this, of now] Inr show ?thesis
    using simulates_seen [OF assms(2), of ns key] assms(2) by (auto simp: simulates_def)
qed

lemma mget_refines:
  assumes "db_ok H db" "simulates H now db c"
  shows "\<exists>db'. CacheStore_mget H now ns keys db = (bindE (admitted_all ns keys)
      (\<lambda>_. Inr (map (\<lambda>key. (key, seen now c ns key)) keys)), db') \<and> db_ok H db' \<and> simulates H now db' c"
  using assms
proof (induction keys arbitrary: db)
  case (Cons key keys)
  obtain db1 where g: "CacheStore_get H now ns key db = (bindE (admitted ns key None) (\<lambda>_. Inr (seen now c ns key)), db1)"
    "db_ok H db1" "simulates H now db1 c" using get_refines [OF Cons.prems, of ns key] by blast
  from Cons.IH [OF g(2,3)] g show ?case
    by (cases "admitted ns key None"; cases "admitted_all ns keys") (auto simp: andThen_def)
qed simp

lemma delete_refines:
  assumes "db_ok H db" "simulates H now db c"
  shows "matches (CDelete ns key) (fst (reply Flag (CacheStore_delete H ns key) db)) (fst (spec_command now (CDelete ns key) c)) \<and>
    simulates H now (snd (reply Flag (CacheStore_delete H ns key) db)) (snd (spec_command now (CDelete ns key) c))"
proof (cases "admitted ns key None")
  case (Inl e)
  then show ?thesis using assms unfolding CacheStore_delete_def admitted_check_key by (simp add: reply_def andThen_def matches_def)
next
  case (Inr u)
  then have "validate_namespace ns = Inr ()" "validate_cache_key key = Inr ()" using admitted_iff [of ns key None] by auto
  from CacheStore_delete_spec [OF assms(1) this] obtain deleted db' where
    d: "CacheStore_delete H ns key db = (Inr deleted, db')" "\<And>now. lookup H now db ns key \<noteq> None \<Longrightarrow> deleted"
    "\<And>now ns' key'. lookup H now db' ns' key' = (if ns' = ns \<and> key' = key then None else lookup H now db ns' key')" by blast
  have "simulates H now db' (c(ns := (c ns)(key := None)))"
    using assms(2) d(3) by (auto simp: simulates_def seen_def fun_eq_iff)
  moreover have "seen now c ns key = None \<or> deleted" using d(2) [of now] simulates_seen [OF assms(2), of ns key] by metis
  ultimately show ?thesis using d(1) Inr
    by (cases deleted) (auto simp: reply_def andThen_def matches_def)
qed

lemma invalidate_refines:
  assumes "db_ok H db" "simulates H now db c"
  shows "fst (reply (\<lambda>_. Done) (CacheStore_invalidate_namespace ns) db) = fst (spec_command now (CInvalidate ns) c) \<and>
    simulates H now (snd (reply (\<lambda>_. Done) (CacheStore_invalidate_namespace ns) db)) (snd (spec_command now (CInvalidate ns) c))"
proof (cases "validate_namespace ns")
  case (Inl e)
  then show ?thesis using assms by (simp add: CacheStore_invalidate_namespace_def reply_def andThen_def)
next
  case (Inr u)
  then have "validate_namespace ns = Inr ()" by simp
  from CacheStore_invalidate_spec [OF assms(1) this] obtain db' where
    "CacheStore_invalidate_namespace ns db = (Inr (), db')"
    "\<And>now ns' key. lookup H now db' ns' key = (if ns' = ns then None else lookup H now db ns' key)" by blast
  with Inr assms(2) show ?thesis by (auto simp: reply_def andThen_def simulates_def seen_def fun_eq_iff)
qed

lemma run_command_refines:
  assumes "db_inv H K db" "inj_on H K" "set (command_keys cmd) \<subseteq> K" "command_ok cmd" "unlimited limits" "simulates H now db c"
  shows "matches cmd (fst (run_command H limits now cmd db)) (fst (spec_command now cmd c)) \<and>
    simulates H now (snd (run_command H limits now cmd db)) (snd (spec_command now cmd c))"
proof -
  have ok: "db_ok H db" using assms(1) by (simp add: db_inv_def)
  note ex = exchange_refines [OF assms(1,2) _ assms(5,6)]
  have add: "fst (reply Number (add_integer H limits now ns key delta ttl) db) = fst (spec_exchange now ns key ttl True (spec_add delta) c) \<and>
      simulates H now (snd (reply Number (add_integer H limits now ns key delta ttl) db)) (snd (spec_exchange now ns key ttl True (spec_add delta) c))"
    if "key \<in> K" "in_int64 delta" for ns key delta ttl
    unfolding add_integer_def by (rule ex [OF that(1)]) (use that(2) in \<open>auto simp: spec_add_def Let_def bindE_def split: sum.splits\<close>)
  show ?thesis
  proof (cases cmd)
    case (CSet ns key content ttl)
    then show ?thesis using set_refines [OF assms(1,2) _ assms(5,6)] assms(3) by (simp add: matches_def)
  next
    case (CSetNx ns key content ttl)
    then show ?thesis using set_nx_refines [OF assms(1,2) _ assms(5,6)] assms(3) by (simp add: matches_def del: spec_command.simps)
  next
    case (CGetSet ns key content ttl)
    then show ?thesis using assms(3) ex [of key "\<lambda>old. Inr (content, Found old)" Found "\<lambda>old. Inr (content, Some old)" "(content, None)"]
      by (simp add: matches_def CacheStore_get_set_def)
  next
    case (CIncrement ns key delta ttl)
    then show ?thesis using add assms(3,4) by (simp add: matches_def CacheStore_increment_def)
  next
    case (CDecrement ns key delta ttl)
    then show ?thesis using add [of key "- delta"] assms(3,4,6)
      by (simp add: matches_def CacheStore_decrement_def reply_def andThen_def)
  next
    case (CAppend ns key content ttl)
    have "key \<in> K" using CAppend assms(3) by simp
    then have "fst (reply Number (CacheStore_append H limits now ns key content ttl) db) = fst (spec_command now cmd c) \<and>
        simulates H now (snd (reply Number (CacheStore_append H limits now ns key content ttl) db)) (snd (spec_command now cmd c))"
      unfolding CAppend spec_command.simps CacheStore_append_def CacheStore_concat_def
      by (rule ex) (simp_all add: orEmpty_def Let_def)
    then show ?thesis by (simp add: CAppend matches_def del: spec_command.simps)
  next
    case (CPrepend ns key content ttl)
    have "key \<in> K" using CPrepend assms(3) by simp
    then have "fst (reply Number (CacheStore_prepend H limits now ns key content ttl) db) = fst (spec_command now cmd c) \<and>
        simulates H now (snd (reply Number (CacheStore_prepend H limits now ns key content ttl) db)) (snd (spec_command now cmd c))"
      unfolding CPrepend spec_command.simps CacheStore_prepend_def CacheStore_concat_def
      by (rule ex) (simp_all add: orEmpty_def Let_def)
    then show ?thesis by (simp add: CPrepend matches_def del: spec_command.simps)
  next
    case (CGet ns key)
    then show ?thesis using get_refines [OF ok assms(6), of ns key]
      by (auto simp: matches_def reply_def andThen_def bindE_def split: sum.splits)
  next
    case (CMget ns keys)
    then show ?thesis using mget_refines [OF ok assms(6), of ns keys]
      by (auto simp: matches_def reply_def andThen_def bindE_def split: sum.splits)
  next
    case (CExists ns key)
    then show ?thesis using get_refines [OF ok assms(6), of ns key]
      by (auto simp: matches_def reply_def andThen_def bindE_def CacheStore_exists_def split: sum.splits)
  next
    case (CDelete ns key)
    then show ?thesis using delete_refines [OF ok assms(6)] by (simp del: spec_command.simps)
  next
    case (CInvalidate ns)
    then show ?thesis using invalidate_refines [OF ok assms(6)] by (simp add: matches_def del: spec_command.simps)
  qed
qed


section \<open>Runs\<close>

lemma simulates_later: "simulates H now db c \<Longrightarrow> now \<le> now' \<Longrightarrow> simulates H now' db c"
  by (auto simp: simulates_def)

lemma run_commands_refine:
  assumes "db_inv H K db" "inj_on H K" "unlimited limits" "simulates H start db c"
    "list_all (\<lambda>(_, cmd). set (command_keys cmd) \<subseteq> K \<and> command_ok cmd) cmds" "sorted (start # map fst cmds)"
  shows "list_all2 (\<lambda>(_, cmd) (r, r'). matches cmd r r') cmds
    (zip (fst (run_commands H limits cmds db)) (fst (spec_commands cmds c)))"
  using assms
proof (induction cmds arbitrary: db c start)
  case (Cons x cmds)
  obtain now cmd where x: "x = (now, cmd)" by (cases x)
  have cmd: "set (command_keys cmd) \<subseteq> K" "command_ok cmd" using Cons.prems(5) x by simp_all
  have "simulates H now db c" using Cons.prems(4,6) x by (auto intro: simulates_later)
  note step = run_command_refines [OF Cons.prems(1,2) cmd Cons.prems(3) this]
  obtain r db1 where r: "run_command H limits now cmd db = (r, db1)" by fastforce
  obtain r' c1 where r': "spec_command now cmd c = (r', c1)" by fastforce
  have "db_inv H K db1" by (rule consistent.run_command_keeps [OF Cons.prems(1) refl cmd(1) r])
  from Cons.IH [OF this Cons.prems(2,3), of now c1] step r r' Cons.prems(5,6) x
  show ?case by (auto split: prod.splits)
qed simp

text \<open>A command changes nothing in other namespaces, whatever the limits of the cache.\<close>

lemma run_command_elsewhere:
  assumes "db_ok H db" "run_command H limits now cmd db = (r, db')" "ns' \<noteq> command_ns cmd" "now \<le> t"
  shows "lookup H t db' ns' key = lookup H t db ns' key"
proof (rule untouched_lookup [OF assms(1) _ assms(3,4)])
  have "untouched H (command_ns cmd) now db db" using assms(1) by (simp add: untouched_def)
  then show "untouched H (command_ns cmd) now db db'" by (rule isolated.run_command_keeps [OF _ refl subset_UNIV assms(2)])
qed

end
