(* ===== verification/Waiting.thy ===== *)
theory Waiting
  imports Sql_Ops
begin

text \<open>
  Calls of the server that wait: a loop that asks the tables, sleeps and asks again until it has an
  answer, its own deadline has passed, or its caller drops it (\<open>tokio::time::timeout\<close>). The long poll of
  the queues and the watch of the config centre are such loops.
\<close>


section \<open>Sleeping\<close>

text \<open>
  What others do to the tables while a call sleeps, and when it wakes up, is an argument: a
  function of the number of the sleep, its length in microseconds, the tables and the time.
\<close>

type_synonym 's world = "nat \<Rightarrow> int \<Rightarrow> 's \<times> int \<Rightarrow> 's \<times> int"

text \<open>How such a call ends: it returns, it panics, or its caller drops it while it sleeps.\<close>

datatype ('a, 's) outcome = Returned 'a 's | Panicked | GaveUp 's

text \<open>A sleep, which ends early when the caller gives up at the time \<open>dropped\<close>, if there is one.\<close>

definition given_up :: "int option \<Rightarrow> int \<Rightarrow> bool" where
  "given_up dropped now = (case dropped of None \<Rightarrow> False | Some t \<Rightarrow> t \<le> now)"

definition nap :: "'s world \<Rightarrow> int option \<Rightarrow> int \<Rightarrow> nat \<Rightarrow> 's \<times> int \<Rightarrow> 's \<times> int" where
  "nap others dropped duration n st = others n (case dropped of None \<Rightarrow> duration | Some t \<Rightarrow> min duration (t - snd st)) st"

text \<open>The loop: \<open>attempt\<close> asks the tables and \<open>settled\<close> says whether its answer ends the loop.\<close>

partial_function (option) poll_loop ::
  "(int \<Rightarrow> ('s, 'a) sql_op) \<Rightarrow> ('a \<Rightarrow> bool) \<Rightarrow> 's world \<Rightarrow> int option \<Rightarrow> int \<Rightarrow> int \<Rightarrow> nat \<Rightarrow> 's \<times> int \<Rightarrow>
   (pg_error + 'a, 's \<times> int) outcome option" where
  "poll_loop attempt settled others dropped interval deadline n st = (if given_up dropped (snd st) then Some (GaveUp st)
     else case attempt (snd st) (fst st) of
       (Inl e, db) \<Rightarrow> Some (Returned (Inl e) (db, snd st))
     | (Inr x, db) \<Rightarrow> if settled x \<or> deadline \<le> snd st then Some (Returned (Inr x) (db, snd st))
         else poll_loop attempt settled others dropped interval deadline (n + 1) (nap others dropped interval n (db, snd st)))"

definition poll_interval :: "int \<Rightarrow> int" where
  "poll_interval millis = (if millis \<le> 0 then 100000 else millis * 1000)"


section \<open>Such calls return\<close>

text \<open>Time passes while a call sleeps.\<close>

definition time_passes :: "'s world \<Rightarrow> bool" where
  "time_passes others \<longleftrightarrow> (\<forall>n d st. 0 < d \<longrightarrow> snd st < snd (others n d st))"

text \<open>An answer that does not settle comes after the deadline, and a call is dropped when its time is over.\<close>

fun waited :: "('a \<Rightarrow> bool) \<Rightarrow> int \<Rightarrow> int option \<Rightarrow> (pg_error + 'a, 's \<times> int) outcome \<Rightarrow> bool" where
  "waited settled deadline dropped (Returned (Inr x) st) \<longleftrightarrow> settled x \<or> deadline \<le> snd st"
| "waited settled deadline dropped (Returned (Inl e) st) \<longleftrightarrow> True"
| "waited settled deadline dropped (GaveUp st) \<longleftrightarrow> given_up dropped (snd st)"
| "waited settled deadline dropped Panicked \<longleftrightarrow> False"

lemma nap_later:
  assumes "time_passes others" "0 < d" "\<not> given_up dropped (snd st)"
  shows "snd st < snd (nap others dropped d n st)"
  using assms unfolding time_passes_def nap_def given_up_def by (auto split: option.splits simp del: split_paired_All)

lemma poll_loop_returns:
  assumes "time_passes others" "0 < interval"
  shows "\<exists>out. poll_loop attempt settled others dropped interval deadline n st = Some out \<and> waited settled deadline dropped out"
proof (induction "nat (deadline - snd st)" arbitrary: n st rule: less_induct)
  case less
  show ?case
  proof (cases "given_up dropped (snd st)")
    case False
    obtain r db where rd: "attempt (snd st) (fst st) = (r, db)" by fastforce
    let ?st = "nap others dropped interval n (db, snd st)"
    have "snd st < snd ?st" using nap_later [OF assms, of dropped "(db, snd st)" n] False by simp
    then have "nat (deadline - snd ?st) < nat (deadline - snd st)" if "\<not> deadline \<le> snd st" using that by simp
    with less [of ?st "n + 1"] rd False show ?thesis by (subst poll_loop.simps) (auto split: sum.splits)
  qed (subst poll_loop.simps, simp)
qed

lemma poll_interval_pos: "0 < poll_interval millis"
  by (simp add: poll_interval_def)


text \<open>What a loop answers is an answer of its last attempt.\<close>

lemma poll_loop_answer:
  assumes "poll_loop attempt settled others dropped interval deadline n st = Some (Returned r st')"
  shows "\<exists>db. attempt (snd st') db = (r, fst st')"
proof -
  let ?P = "\<lambda>attempt settled others dropped interval deadline n st out. \<forall>r st'. out = Returned r st' \<longrightarrow> (\<exists>db. attempt (snd st') db = (r, fst st'))"
  have "?P attempt settled others dropped interval deadline n st (Returned r st')"
    by (rule poll_loop.raw_induct [of ?P, OF _ assms]) (auto split: if_splits prod.splits sum.splits)
  then show ?thesis by blast
qed

text \<open>
  A loop that gets no answer, over tables that nobody changes, is dropped when its caller gives up
  before its own deadline or at the same time.
\<close>

lemma poll_loop_gives_up:
  assumes "time_passes others" "0 < interval" and quiet: "\<And>n d st. fst (others n d st) = fst st"
    and unanswered: "\<And>now. attempt now db = (Inr x, db)" "\<not> settled x" and "t \<le> deadline"
  shows "\<exists>now'. poll_loop attempt settled others (Some t) interval deadline n (db, now) = Some (GaveUp (db, now')) \<and> t \<le> now'"
proof (induction "nat (t - now)" arbitrary: n now rule: less_induct)
  case less
  show ?case
  proof (cases "t \<le> now")
    case False
    let ?st = "nap others (Some t) interval n (db, now)"
    have st: "fst ?st = db" "now < snd ?st"
      using quiet nap_later [OF assms(1,2), of "Some t" "(db, now)" n] False by (simp_all add: nap_def given_up_def)
    then have "nat (t - snd ?st) < nat (t - now)" using False by simp
    from less [OF this, of "n + 1"] st(1) have "\<exists>now'. poll_loop attempt settled others (Some t) interval deadline (n + 1) ?st = Some (GaveUp (db, now')) \<and> t \<le> now'"
      by (metis prod.collapse)
    then show ?thesis using False unanswered assms(6) by (subst poll_loop.simps) (simp add: given_up_def)
  qed (subst poll_loop.simps, simp add: given_up_def)
qed

end
