(* ===== verification/Rpc_Server.thy ===== *)
theory Rpc_Server
  imports Waiting Client_Core
begin

text \<open>
  What the services of the server share (\<open>crates/pgapp-server/src/lib.rs\<close>): statuses of failed calls
  (\<open>crates/pgapp-core/src/error.rs\<close>), metrics (\<open>metrics.rs\<close>), and \<open>record_rpc\<close>, in which every handler
  runs. A request ends before its timeout and takes the milliseconds that its state says.
\<close>


section \<open>Statuses\<close>

datatype Code = Code_InvalidArgument | Code_NotFound | Code_AlreadyExists | Code_DeadlineExceeded | Code_Unavailable | Code_Internal
  | Code_Unauthenticated

record Status =
  s_code :: Code
  s_message :: string

definition PgAppError_code :: "pg_error \<Rightarrow> Code" where
  "PgAppError_code e = (case e of InvalidArgument _ \<Rightarrow> Code_InvalidArgument | NotFound _ \<Rightarrow> Code_NotFound
     | Conflict _ \<Rightarrow> Code_AlreadyExists | Timeout _ \<Rightarrow> Code_DeadlineExceeded
     | DatabaseUnavailable _ \<Rightarrow> Code_Unavailable | ServiceUnavailable _ \<Rightarrow> Code_Unavailable | Database _ \<Rightarrow> Code_Internal)"

text \<open>The text of a database error comes from the driver; it is an argument.\<close>

definition PgAppError_text :: "(db_error \<Rightarrow> string) \<Rightarrow> pg_error \<Rightarrow> string" where
  "PgAppError_text db_text e = (case e of InvalidArgument s \<Rightarrow> ''invalid argument: '' @ s | NotFound s \<Rightarrow> ''not found: '' @ s
     | Conflict s \<Rightarrow> ''conflict: '' @ s | Timeout s \<Rightarrow> ''timeout: '' @ s
     | DatabaseUnavailable s \<Rightarrow> ''database unavailable: '' @ s | Database d \<Rightarrow> ''database error: '' @ (case d of OwnText s \<Rightarrow> s | _ \<Rightarrow> db_text d)
     | ServiceUnavailable s \<Rightarrow> ''service unavailable: '' @ s)"

definition Status_from :: "(db_error \<Rightarrow> string) \<Rightarrow> pg_error \<Rightarrow> Status" where
  "Status_from db_text e = \<lparr>s_code = PgAppError_code e, s_message = PgAppError_text db_text e\<rparr>"

definition status_label :: "Code \<Rightarrow> string" where
  "status_label code = (case code of Code_InvalidArgument \<Rightarrow> ''invalid_argument'' | Code_NotFound \<Rightarrow> ''not_found''
     | Code_AlreadyExists \<Rightarrow> ''already_exists'' | Code_DeadlineExceeded \<Rightarrow> ''deadline_exceeded''
     | Code_Unavailable \<Rightarrow> ''unavailable'' | Code_Internal \<Rightarrow> ''internal'' | Code_Unauthenticated \<Rightarrow> ''unauthenticated'')"


section \<open>Metrics\<close>

record MethodMetrics =
  mm_count :: int
  mm_errors :: int
  mm_total_latency_millis :: int

type_synonym metrics = "string \<Rightarrow> MethodMetrics option"

definition MetricsRegistry_record :: "string \<Rightarrow> string \<Rightarrow> string \<Rightarrow> int \<Rightarrow> metrics \<Rightarrow> metrics" where
  "MetricsRegistry_record service method status latency m = (let key = service @ ''.'' @ method @ ''.'' @ status;
       metric = (case m key of None \<Rightarrow> \<lparr>mm_count = 0, mm_errors = 0, mm_total_latency_millis = 0\<rparr> | Some metric \<Rightarrow> metric)
     in m(key := Some \<lparr>mm_count = mm_count metric + 1,
          mm_errors = (if status \<noteq> ''ok'' then mm_errors metric + 1 else mm_errors metric),
          mm_total_latency_millis = mm_total_latency_millis metric + latency\<rparr>))"


section \<open>Handlers\<close>

record 'db rpc_server =
  sv_now :: int
  sv_latency :: int
  sv_db :: 'db
  sv_metrics :: metrics

text \<open>The body of a handler, and its \<open>?\<close> operator: after a check, and after a call of the store.\<close>

type_synonym ('db, 'a) rpc_body = "'db \<Rightarrow> (Status + 'a) \<times> 'db"

definition require :: "Status + 'b \<Rightarrow> ('b \<Rightarrow> ('db, 'a) rpc_body) \<Rightarrow> ('db, 'a) rpc_body" where
  "require v f db = (case v of Inl e \<Rightarrow> (Inl e, db) | Inr x \<Rightarrow> f x db)"

definition await :: "(db_error \<Rightarrow> string) \<Rightarrow> ('db, 'b) sql_op \<Rightarrow> ('b \<Rightarrow> 'a) \<Rightarrow> ('db, 'a) rpc_body" where
  "await db_text op respond db = (case op db of (Inl e, db') \<Rightarrow> (Inl (Status_from db_text e), db')
     | (Inr x, db') \<Rightarrow> (Inr (respond x), db'))"

definition record_rpc :: "string \<Rightarrow> string \<Rightarrow> ('db, 'a) rpc_body \<Rightarrow> 'db rpc_server \<Rightarrow> (Status + 'a) \<times> 'db rpc_server" where
  "record_rpc service method body s = (case body (sv_db s) of (result, db') \<Rightarrow>
     (result, s\<lparr>sv_db := db', sv_metrics := MetricsRegistry_record service method
        (case result of Inr _ \<Rightarrow> ''ok'' | Inl err \<Rightarrow> status_label (s_code err)) (sv_latency s) (sv_metrics s)\<rparr>))"

text \<open>
  A handler that waits: \<open>record_rpc\<close> drops it when the timeout of requests is over (in microseconds here)
  and counts the time it took. A panic ends the call without a status.
\<close>

definition after_waiting :: "'db rpc_server \<Rightarrow> int \<Rightarrow> ('db rpc_server \<Rightarrow> 'r \<times> 'db rpc_server) \<Rightarrow> 'db \<Rightarrow> 'r \<times> 'db rpc_server" where
  "after_waiting s now finish db = (case finish (s\<lparr>sv_db := db, sv_now := now, sv_latency := sv_latency s + (now - sv_now s) div 1000\<rparr>) of
     (r, s') \<Rightarrow> (r, s'\<lparr>sv_latency := sv_latency s\<rparr>))"

definition request_timed_out :: Status where
  "request_timed_out = \<lparr>s_code = Code_DeadlineExceeded, s_message = ''request timed out''\<rparr>"

definition await_waiting :: "(db_error \<Rightarrow> string) \<Rightarrow> string \<Rightarrow> string \<Rightarrow> ('db \<times> int \<Rightarrow> (pg_error + 'b, 'db \<times> int) outcome option) \<Rightarrow> ('b \<Rightarrow> 'a) \<Rightarrow>
    'db rpc_server \<Rightarrow> ((Status + 'a) \<times> 'db rpc_server) option option" where
  "await_waiting db_text service method op respond s = (case op (sv_db s, sv_now s) of None \<Rightarrow> None | Some Panicked \<Rightarrow> Some None
     | Some (GaveUp (db, now)) \<Rightarrow> Some (Some (after_waiting s now (record_rpc service method (\<lambda>db. (Inl request_timed_out, db))) db))
     | Some (Returned r (db, now)) \<Rightarrow> Some (Some (after_waiting s now (record_rpc service method (await db_text (\<lambda>db. (r, db)) respond)) db)))"

text \<open>The number of a 64-bit field.\<close>

definition i64 :: "string \<Rightarrow> int" where
  "i64 text = (case undec text of None \<Rightarrow> 0 | Some v \<Rightarrow> v)"

text \<open>The number of a 32-bit field.\<close>

definition i32 :: "js_number \<Rightarrow> int" where
  "i32 n = (case n of IntNum v \<Rightarrow> v | _ \<Rightarrow> 0)"

definition operation_result :: "bool \<Rightarrow> OperationResult" where
  "operation_result success = OperationResult_create\<lparr>OperationResult_success := success\<rparr>"

text \<open>A handler behind the connection: the client sees a status as the error its transport makes of it.\<close>

definition behind :: "(Status \<Rightarrow> thrown) \<Rightarrow> ('i \<Rightarrow> 'db rpc_server \<Rightarrow> (Status + 'o) \<times> 'db rpc_server) \<Rightarrow>
    rpc_options \<Rightarrow> 'i \<Rightarrow> 'db rpc_server \<Rightarrow> 'o result \<times> 'db rpc_server" where
  "behind raise h opt req s = (case h req s of (r, s') \<Rightarrow> (map_sum raise id r, s'))"

lemma i64_dec [simp]: "i64 (dec v) = v"
  by (simp add: i64_def)

lemma i64_zero [simp]: "i64 ''0'' = 0"
  using i64_dec [of 0] by simp

lemma record_rpc_simps [simp]:
  "fst (record_rpc service method body s) = fst (body (sv_db s))"
  "sv_db (snd (record_rpc service method body s)) = snd (body (sv_db s))"
  "sv_now (snd (record_rpc service method body s)) = sv_now s"
  by (simp_all add: record_rpc_def split: prod.splits)

text \<open>What a handler that waits answers, and when.\<close>

lemma Status_from_not_timeout [simp]: "Status_from db_text e \<noteq> request_timed_out" "request_timed_out \<noteq> Status_from db_text e"
  by (cases e; simp add: Status_from_def request_timed_out_def PgAppError_text_def)+

lemma await_waiting_returns:
  assumes "op (sv_db s, sv_now s) = Some out" "waited settled deadline dropped out"
  shows "\<exists>r s'. await_waiting db_text service call op respond s = Some (Some (r, s')) \<and>
    (\<forall>x st. out = Returned (Inr x) st \<longrightarrow> r = Inr (respond x) \<and> sv_db s' = fst st \<and> sv_now s' = snd st) \<and>
    (\<forall>y. r = Inr y \<longrightarrow> (\<exists>x. y = respond x \<and> (settled x \<or> deadline \<le> sv_now s'))) \<and>
    (r = Inl request_timed_out \<longrightarrow> given_up dropped (sv_now s'))"
proof (cases out)
  case (Returned r st)
  with assms show ?thesis by (cases r; cases st) (auto simp: await_waiting_def after_waiting_def record_rpc_def await_def)
next
  case (GaveUp st)
  with assms show ?thesis by (cases st) (simp add: await_waiting_def after_waiting_def record_rpc_def)
qed (use assms(2) in simp)

end
