(* ===== verification/Cache_Server.thy ===== *)
theory Cache_Server
  imports Cache_Refine Cache_Client Rpc_Server
begin

text \<open>
  The cache service of the server, \<open>CacheGrpc\<close> of \<open>crates/pgapp-server/src/lib.rs\<close>: its handlers over
  \<open>CacheStore\<close>, the statuses they fail with (\<open>crates/pgapp-core/src/error.rs\<close>) and the metrics they
  record (\<open>metrics.rs\<close>). The messages are those of the generated code, whose 64-bit fields are
  decimal texts. A request ends before its timeout and takes the milliseconds that its state says.
\<close>


section \<open>The service\<close>

record CacheGrpc =
  cg_limits :: CacheLimits
  cg_enabled :: bool
  cg_max_payload_bytes :: nat
  cg_max_batch_size :: int

text \<open>Functions of libraries: the hash of a key, the text of a database error.\<close>

record libraries =
  lib_hash_key :: "string \<Rightarrow> string"
  lib_db_text :: "db_error \<Rightarrow> string"

type_synonym cache_server = "cache_db rpc_server"

definition ensure_enabled :: "CacheGrpc \<Rightarrow> Status + unit" where
  "ensure_enabled self = (if cg_enabled self then Inr ()
     else Inl \<lparr>s_code = Code_Unavailable, s_message = ''cache service is disabled''\<rparr>)"

definition validate_payload_bytes :: "(db_error \<Rightarrow> string) \<Rightarrow> nat \<Rightarrow> nat \<Rightarrow> Status + unit" where
  "validate_payload_bytes db_text len limit = (if limit < len
     then Inl (Status_from db_text (InvalidArgument (''payload exceeds '' @ dec (int limit) @ '' bytes''))) else Inr ())"

definition ttl_from_proto :: "(db_error \<Rightarrow> string) \<Rightarrow> int \<Rightarrow> Status + int option" where
  "ttl_from_proto db_text ttl_seconds = (if 0 < ttl_seconds then Inr (Some ttl_seconds)
     else if ttl_seconds = 0 then Inr None
     else Inl (Status_from db_text (InvalidArgument ''ttl_seconds must not be negative'')))"

text \<open>\<open>max as usize\<close> wraps a negative number around.\<close>

definition validate_batch_len :: "(db_error \<Rightarrow> string) \<Rightarrow> nat \<Rightarrow> int \<Rightarrow> Status + unit" where
  "validate_batch_len db_text len limit = (if limit mod 2 ^ 64 < int len
     then Inl (Status_from db_text (InvalidArgument (''batch size must be less than or equal to '' @ dec limit))) else Inr ())"

definition CacheGrpc_set ::
  "libraries \<Rightarrow> CacheGrpc \<Rightarrow> SetCacheRequest \<Rightarrow> cache_server \<Rightarrow> (Status + OperationResult) \<times> cache_server" where
  "CacheGrpc_set lib self req s = record_rpc ''cache'' ''set''
     (require (ensure_enabled self) (\<lambda>_.
      require (validate_payload_bytes (lib_db_text lib) (length (SetCacheRequest_value req)) (cg_max_payload_bytes self)) (\<lambda>_.
      require (let ttl_seconds = i64 (SetCacheRequest_ttlSeconds req) in
          if 0 < ttl_seconds then Inr (Some ttl_seconds) else if ttl_seconds = 0 then Inr None
          else Inl (Status_from (lib_db_text lib) (InvalidArgument ''ttl_seconds must not be negative''))) (\<lambda>ttl.
      await (lib_db_text lib) (CacheStore_set (lib_hash_key lib) (cg_limits self) (sv_now s) (SetCacheRequest_namespace req)
          (SetCacheRequest_key req) (SetCacheRequest_value req) ttl)
        (\<lambda>_. OperationResult_create\<lparr>OperationResult_success := True\<rparr>))))) s"

definition CacheGrpc_get ::
  "libraries \<Rightarrow> CacheGrpc \<Rightarrow> GetCacheRequest \<Rightarrow> cache_server \<Rightarrow> (Status + GetCacheResponse) \<times> cache_server" where
  "CacheGrpc_get lib self req s = record_rpc ''cache'' ''get''
     (require (ensure_enabled self) (\<lambda>_.
      await (lib_db_text lib) (CacheStore_get (lib_hash_key lib) (sv_now s) (GetCacheRequest_namespace req) (GetCacheRequest_key req))
        (\<lambda>value. case value of
           Some value \<Rightarrow> GetCacheResponse_create\<lparr>GetCacheResponse_hit := True, GetCacheResponse_value := value\<rparr>
         | None \<Rightarrow> GetCacheResponse_create\<lparr>GetCacheResponse_hit := False, GetCacheResponse_value := []\<rparr>))) s"

definition CacheGrpc_m_get ::
  "libraries \<Rightarrow> CacheGrpc \<Rightarrow> MGetCacheRequest \<Rightarrow> cache_server \<Rightarrow> (Status + MGetCacheResponse) \<times> cache_server" where
  "CacheGrpc_m_get lib self req s = record_rpc ''cache'' ''m_get''
     (require (ensure_enabled self) (\<lambda>_.
      require (validate_batch_len (lib_db_text lib) (length (MGetCacheRequest_keys req)) (cg_max_batch_size self)) (\<lambda>_.
      await (lib_db_text lib) (CacheStore_mget (lib_hash_key lib) (sv_now s) (MGetCacheRequest_namespace req) (MGetCacheRequest_keys req))
        (\<lambda>found. MGetCacheResponse_create\<lparr>MGetCacheResponse_items := map (\<lambda>(key, value). CacheItem_create\<lparr>CacheItem_key := key,
            CacheItem_hit := value \<noteq> None, CacheItem_value := orEmpty value\<rparr>) found\<rparr>)))) s"

definition CacheGrpc_delete ::
  "libraries \<Rightarrow> CacheGrpc \<Rightarrow> DeleteCacheRequest \<Rightarrow> cache_server \<Rightarrow> (Status + OperationResult) \<times> cache_server" where
  "CacheGrpc_delete lib self req s = record_rpc ''cache'' ''delete''
     (require (ensure_enabled self) (\<lambda>_.
      await (lib_db_text lib) (CacheStore_delete (lib_hash_key lib) (DeleteCacheRequest_namespace req) (DeleteCacheRequest_key req))
        (\<lambda>success. OperationResult_create\<lparr>OperationResult_success := success\<rparr>))) s"

definition CacheGrpc_exists ::
  "libraries \<Rightarrow> CacheGrpc \<Rightarrow> ExistsCacheRequest \<Rightarrow> cache_server \<Rightarrow> (Status + ExistsCacheResponse) \<times> cache_server" where
  "CacheGrpc_exists lib self req s = record_rpc ''cache'' ''exists''
     (require (ensure_enabled self) (\<lambda>_.
      await (lib_db_text lib) (CacheStore_exists (lib_hash_key lib) (sv_now s) (ExistsCacheRequest_namespace req) (ExistsCacheRequest_key req))
        (\<lambda>found. ExistsCacheResponse_create\<lparr>ExistsCacheResponse_exists := found\<rparr>))) s"

definition CacheGrpc_invalidate_namespace ::
  "libraries \<Rightarrow> CacheGrpc \<Rightarrow> InvalidateNamespaceRequest \<Rightarrow> cache_server \<Rightarrow> (Status + OperationResult) \<times> cache_server" where
  "CacheGrpc_invalidate_namespace lib self req s = record_rpc ''cache'' ''invalidate_namespace''
     (require (ensure_enabled self) (\<lambda>_.
      await (lib_db_text lib) (CacheStore_invalidate_namespace (InvalidateNamespaceRequest_namespace req))
        (\<lambda>_. OperationResult_create\<lparr>OperationResult_success := True\<rparr>))) s"

definition CacheGrpc_stats ::
  "libraries \<Rightarrow> CacheGrpc \<Rightarrow> CacheStatsRequest \<Rightarrow> cache_server \<Rightarrow> (Status + CacheStatsResponse) \<times> cache_server" where
  "CacheGrpc_stats lib self req s = record_rpc ''cache'' ''stats''
     (require (ensure_enabled self) (\<lambda>_.
      await (lib_db_text lib) (CacheStore_stats (sv_now s)) (\<lambda>stats. let c = st_counters stats in
        CacheStatsResponse_create\<lparr>CacheStatsResponse_hits := dec (ct_hits c), CacheStatsResponse_misses := dec (ct_misses c),
          CacheStatsResponse_writes := dec (ct_writes c), CacheStatsResponse_deletes := dec (ct_deletes c),
          CacheStatsResponse_evictions := dec (ct_evictions c), CacheStatsResponse_expiredRemovals := dec (ct_expired_removals c),
          CacheStatsResponse_logicalKeyCount := dec (st_key_count stats), CacheStatsResponse_logicalByteSize := dec (st_byte_size stats),
          CacheStatsResponse_namespaceUsage := map (\<lambda>(ns, usage). NamespaceUsage_create\<lparr>NamespaceUsage_namespace := ns,
            NamespaceUsage_keyCount := dec (nu_keys usage), NamespaceUsage_byteSize := dec (nu_bytes usage)\<rparr>) (st_usage stats)\<rparr>))) s"

definition CacheGrpc_increment ::
  "libraries \<Rightarrow> CacheGrpc \<Rightarrow> IncrementRequest \<Rightarrow> cache_server \<Rightarrow> (Status + IncrementResponse) \<times> cache_server" where
  "CacheGrpc_increment lib self req s = record_rpc ''cache'' ''increment''
     (require (ensure_enabled self) (\<lambda>_.
      require (ttl_from_proto (lib_db_text lib) (i64 (IncrementRequest_ttlSeconds req))) (\<lambda>ttl.
      await (lib_db_text lib) (CacheStore_increment (lib_hash_key lib) (cg_limits self) (sv_now s) (IncrementRequest_namespace req)
          (IncrementRequest_key req) (i64 (IncrementRequest_delta req)) ttl)
        (\<lambda>value. IncrementResponse_create\<lparr>IncrementResponse_value := dec value\<rparr>)))) s"

definition CacheGrpc_decrement ::
  "libraries \<Rightarrow> CacheGrpc \<Rightarrow> DecrementRequest \<Rightarrow> cache_server \<Rightarrow> (Status + DecrementResponse) \<times> cache_server" where
  "CacheGrpc_decrement lib self req s = record_rpc ''cache'' ''decrement''
     (require (ensure_enabled self) (\<lambda>_.
      require (ttl_from_proto (lib_db_text lib) (i64 (DecrementRequest_ttlSeconds req))) (\<lambda>ttl.
      await (lib_db_text lib) (CacheStore_decrement (lib_hash_key lib) (cg_limits self) (sv_now s) (DecrementRequest_namespace req)
          (DecrementRequest_key req) (i64 (DecrementRequest_delta req)) ttl)
        (\<lambda>value. DecrementResponse_create\<lparr>DecrementResponse_value := dec value\<rparr>)))) s"

definition CacheGrpc_set_nx ::
  "libraries \<Rightarrow> CacheGrpc \<Rightarrow> SetNXRequest \<Rightarrow> cache_server \<Rightarrow> (Status + SetNXResponse) \<times> cache_server" where
  "CacheGrpc_set_nx lib self req s = record_rpc ''cache'' ''set_nx''
     (require (ensure_enabled self) (\<lambda>_.
      require (validate_payload_bytes (lib_db_text lib) (length (SetNXRequest_value req)) (cg_max_payload_bytes self)) (\<lambda>_.
      require (ttl_from_proto (lib_db_text lib) (i64 (SetNXRequest_ttlSeconds req))) (\<lambda>ttl.
      await (lib_db_text lib) (CacheStore_set_nx (lib_hash_key lib) (cg_limits self) (sv_now s) (SetNXRequest_namespace req)
          (SetNXRequest_key req) (SetNXRequest_value req) ttl)
        (\<lambda>created. SetNXResponse_create\<lparr>SetNXResponse_created := created\<rparr>))))) s"

definition CacheGrpc_get_set ::
  "libraries \<Rightarrow> CacheGrpc \<Rightarrow> GetSetRequest \<Rightarrow> cache_server \<Rightarrow> (Status + GetSetResponse) \<times> cache_server" where
  "CacheGrpc_get_set lib self req s = record_rpc ''cache'' ''get_set''
     (require (ensure_enabled self) (\<lambda>_.
      require (validate_payload_bytes (lib_db_text lib) (length (GetSetRequest_value req)) (cg_max_payload_bytes self)) (\<lambda>_.
      require (ttl_from_proto (lib_db_text lib) (i64 (GetSetRequest_ttlSeconds req))) (\<lambda>ttl.
      await (lib_db_text lib) (CacheStore_get_set (lib_hash_key lib) (cg_limits self) (sv_now s) (GetSetRequest_namespace req)
          (GetSetRequest_key req) (GetSetRequest_value req) ttl)
        (\<lambda>old_value. GetSetResponse_create\<lparr>GetSetResponse_hit := old_value \<noteq> None, GetSetResponse_oldValue := orEmpty old_value\<rparr>))))) s"

definition CacheGrpc_append ::
  "libraries \<Rightarrow> CacheGrpc \<Rightarrow> AppendRequest \<Rightarrow> cache_server \<Rightarrow> (Status + AppendResponse) \<times> cache_server" where
  "CacheGrpc_append lib self req s = record_rpc ''cache'' ''append''
     (require (ensure_enabled self) (\<lambda>_.
      require (validate_payload_bytes (lib_db_text lib) (length (AppendRequest_value req)) (cg_max_payload_bytes self)) (\<lambda>_.
      require (ttl_from_proto (lib_db_text lib) (i64 (AppendRequest_ttlSeconds req))) (\<lambda>ttl.
      await (lib_db_text lib) (CacheStore_append (lib_hash_key lib) (cg_limits self) (sv_now s) (AppendRequest_namespace req)
          (AppendRequest_key req) (AppendRequest_value req) ttl)
        (\<lambda>len. AppendResponse_create\<lparr>AppendResponse_length := dec len\<rparr>))))) s"

definition CacheGrpc_prepend ::
  "libraries \<Rightarrow> CacheGrpc \<Rightarrow> PrependRequest \<Rightarrow> cache_server \<Rightarrow> (Status + PrependResponse) \<times> cache_server" where
  "CacheGrpc_prepend lib self req s = record_rpc ''cache'' ''prepend''
     (require (ensure_enabled self) (\<lambda>_.
      require (validate_payload_bytes (lib_db_text lib) (length (PrependRequest_value req)) (cg_max_payload_bytes self)) (\<lambda>_.
      require (ttl_from_proto (lib_db_text lib) (i64 (PrependRequest_ttlSeconds req))) (\<lambda>ttl.
      await (lib_db_text lib) (CacheStore_prepend (lib_hash_key lib) (cg_limits self) (sv_now s) (PrependRequest_namespace req)
          (PrependRequest_key req) (PrependRequest_value req) ttl)
        (\<lambda>len. PrependResponse_create\<lparr>PrependResponse_length := dec len\<rparr>))))) s"

end
