(* ===== verification/Cache_Service.thy ===== *)
theory Cache_Service
  imports Cache_Server
begin

text \<open>
  The SDK and the cache service together. The locale \<open>cache_contract\<close> is what a client of the cache
  relies on: what a write and a read do to the content over time. Its lemmas carry the contract
  through the generated code and the SDK; the interpretation shows that the handlers of the server
  keep it.
\<close>


section \<open>The contract\<close>

locale cache_contract =
  fixes inv :: "'s \<Rightarrow> bool" and clock :: "'s \<Rightarrow> int" and wait :: "int \<Rightarrow> 's \<Rightarrow> 's"
    and view :: "'s \<Rightarrow> int \<Rightarrow> string \<Rightarrow> string \<Rightarrow> bytes option"
    and until :: "'s \<Rightarrow> int \<Rightarrow> int option"
    and writable :: "'s \<Rightarrow> string \<Rightarrow> string \<Rightarrow> bytes \<Rightarrow> int \<Rightarrow> bool"
    and readable :: "string \<Rightarrow> string \<Rightarrow> bool"
    and set_h :: "rpc_options \<Rightarrow> SetCacheRequest \<Rightarrow> 's \<Rightarrow> OperationResult result \<times> 's"
    and get_h :: "rpc_options \<Rightarrow> GetCacheRequest \<Rightarrow> 's \<Rightarrow> GetCacheResponse result \<times> 's"
    and delete_h :: "rpc_options \<Rightarrow> DeleteCacheRequest \<Rightarrow> 's \<Rightarrow> OperationResult result \<times> 's"
  assumes waits: "inv s \<Longrightarrow> 0 \<le> d \<Longrightarrow> inv (wait d s) \<and> clock (wait d s) = clock s + d \<and> view (wait d s) = view s"
    and writes: "inv s \<Longrightarrow> writable s ns key content ttl \<Longrightarrow> \<exists>s'. set_h opt \<lparr>unknownFields = [], SetCacheRequest_namespace = ns,
        SetCacheRequest_key = key, SetCacheRequest_value = content, SetCacheRequest_ttlSeconds = dec ttl\<rparr> s =
          (Inr \<lparr>unknownFields = [], OperationResult_success = True\<rparr>, s') \<and> inv s' \<and> clock s' = clock s \<and>
        (\<forall>t \<ge> clock s. view s' t = written ns key content (until s ttl) t (view s t))"
    and reads: "inv s \<Longrightarrow> readable ns key \<Longrightarrow> \<exists>s'. get_h opt \<lparr>unknownFields = [], GetCacheRequest_namespace = ns, GetCacheRequest_key = key\<rparr> s =
          (Inr \<lparr>unknownFields = [], GetCacheResponse_hit = view s (clock s) ns key \<noteq> None,
             GetCacheResponse_value = orEmpty (view s (clock s) ns key)\<rparr>, s') \<and> inv s' \<and> clock s' = clock s \<and> view s' = view s"
    and deletes: "inv s \<Longrightarrow> readable ns key \<Longrightarrow> \<exists>s' success. delete_h opt \<lparr>unknownFields = [], DeleteCacheRequest_namespace = ns, DeleteCacheRequest_key = key\<rparr> s =
          (Inr \<lparr>unknownFields = [], OperationResult_success = success\<rparr>, s') \<and> inv s' \<and> clock s' = clock s \<and>
        (view s (clock s) ns key \<noteq> None \<longrightarrow> success) \<and>
        (\<forall>t ns' key'. view s' t ns' key' = (if ns' = ns \<and> key' = key then None else view s t ns' key'))"
begin

lemma ok_result: "deliverable (OperationResult_ok payload) (OperationResult_encode E) (Inr \<lparr>unknownFields = [], OperationResult_success = b\<rparr>) \<longleftrightarrow>
    length (OperationResult_encode E \<lparr>unknownFields = [], OperationResult_success = b\<rparr>) < 2147483648"
  by (simp add: transmissible_def OperationResult_ok_def unknown_ok_def)

lemma sdk_set:
  fixes this :: "('w, 'r, 's) PGAppClient"
  assumes link: "rpc_link (pc_transport this) E st rest payload" and serves: "serves_CacheService_Set (pc_transport this) set_h"
    and state: "inv s" "writable s ns key (encodeBytes v) ttl" "safe_int ttl"
    and sizes: "length (SetCacheRequest_encode E \<lparr>unknownFields = [], SetCacheRequest_namespace = ns, SetCacheRequest_key = key,
        SetCacheRequest_value = encodeBytes v, SetCacheRequest_ttlSeconds = dec ttl\<rparr>) < 2147483648"
      "length (OperationResult_encode E \<lparr>unknownFields = [], OperationResult_success = True\<rparr>) < 2147483648"
  shows "\<exists>s'. CacheClient_set this ns key v (Some (IntNum ttl)) s = (Some (Inr True), s') \<and> inv s' \<and> clock s' = clock s \<and>
    (\<forall>t \<ge> clock s. view s' t = written ns key (encodeBytes v) (until s ttl) t (view s t))"
proof -
  let ?opt = "env_mergeOptions (pc_transport this) (rpcOptions this)"
  from writes [OF state(1,2), of ?opt] obtain s' where w: "set_h ?opt \<lparr>unknownFields = [], SetCacheRequest_namespace = ns,
      SetCacheRequest_key = key, SetCacheRequest_value = encodeBytes v, SetCacheRequest_ttlSeconds = dec ttl\<rparr> s =
        (Inr \<lparr>unknownFields = [], OperationResult_success = True\<rparr>, s')" "inv s'" "clock s' = clock s"
      "\<forall>t \<ge> clock s. view s' t = written ns key (encodeBytes v) (until s ttl) t (view s t)" by blast
  have "CacheClient_set this ns key v (Some (IntNum ttl)) s = (Some (Inr True), s')"
    using CacheClient_set_call [OF link serves, where ttlSeconds = "Some (IntNum ttl)" and namespace = ns and key = key and content = v and s = s]
      state(3) w(1) sizes by (simp add: Let_def SetCacheRequest_create_def transmissible_def OperationResult_ok_def unknown_ok_def)
  with w(2-) show ?thesis by blast
qed

lemma sdk_get:
  fixes this :: "('w, 'r, 's) PGAppClient"
  assumes link: "rpc_link (pc_transport this) E st rest payload" and serves: "serves_CacheService_Get (pc_transport this) get_h"
    and state: "inv s" "readable ns key"
    and sizes: "length (GetCacheRequest_encode E \<lparr>unknownFields = [], GetCacheRequest_namespace = ns, GetCacheRequest_key = key\<rparr>) < 2147483648"
      "length (GetCacheResponse_encode E \<lparr>unknownFields = [], GetCacheResponse_hit = view s (clock s) ns key \<noteq> None,
         GetCacheResponse_value = orEmpty (view s (clock s) ns key)\<rparr>) < 2147483648"
  shows "\<exists>s'. CacheClient_get this ns key s = (Some (Inr (view s (clock s) ns key)), s') \<and> inv s' \<and> clock s' = clock s \<and> view s' = view s"
proof -
  let ?opt = "env_mergeOptions (pc_transport this) (rpcOptions this)"
  from reads [OF state, of ?opt] obtain s' where r: "get_h ?opt \<lparr>unknownFields = [], GetCacheRequest_namespace = ns, GetCacheRequest_key = key\<rparr> s =
      (Inr \<lparr>unknownFields = [], GetCacheResponse_hit = view s (clock s) ns key \<noteq> None,
         GetCacheResponse_value = orEmpty (view s (clock s) ns key)\<rparr>, s')" "inv s'" "clock s' = clock s" "view s' = view s" by blast
  have "CacheClient_get this ns key s = (Some (Inr (view s (clock s) ns key)), s')"
    using CacheClient_get_call [OF link serves, where namespace = ns and key = key and s = s] r(1) sizes
    by (auto simp: Let_def GetCacheRequest_create_def transmissible_def GetCacheResponse_ok_def unknown_ok_def orEmpty_def split: option.splits)
  with r(2-) show ?thesis by blast
qed

text \<open>What is written is read back until it expires, and not after.\<close>

lemma set_wait_get:
  fixes this :: "('w, 'r, 's) PGAppClient"
  assumes link: "rpc_link (pc_transport this) E st rest payload"
    and serves: "serves_CacheService_Set (pc_transport this) set_h" "serves_CacheService_Get (pc_transport this) get_h"
    and state: "inv s" "writable s ns key (encodeBytes v) ttl" "readable ns key" "safe_int ttl" "0 \<le> d"
    and sizes: "length (SetCacheRequest_encode E \<lparr>unknownFields = [], SetCacheRequest_namespace = ns, SetCacheRequest_key = key,
        SetCacheRequest_value = encodeBytes v, SetCacheRequest_ttlSeconds = dec ttl\<rparr>) < 2147483648"
      "length (OperationResult_encode E \<lparr>unknownFields = [], OperationResult_success = True\<rparr>) < 2147483648"
      "length (GetCacheRequest_encode E \<lparr>unknownFields = [], GetCacheRequest_namespace = ns, GetCacheRequest_key = key\<rparr>) < 2147483648"
      "length (GetCacheResponse_encode E \<lparr>unknownFields = [], GetCacheResponse_hit = True, GetCacheResponse_value = encodeBytes v\<rparr>) < 2147483648"
      "length (GetCacheResponse_encode E \<lparr>unknownFields = [], GetCacheResponse_hit = False, GetCacheResponse_value = []\<rparr>) < 2147483648"
  shows "\<exists>s' s''. CacheClient_set this ns key v (Some (IntNum ttl)) s = (Some (Inr True), s') \<and>
    CacheClient_get this ns key (wait d s') =
      (Some (Inr (if alive (until s ttl) (clock s + d) then Some (encodeBytes v) else None)), s'')"
proof -
  from sdk_set [OF link serves(1) state(1,2,4) sizes(1,2)] obtain s' where s':
    "CacheClient_set this ns key v (Some (IntNum ttl)) s = (Some (Inr True), s')" "inv s'" "clock s' = clock s"
    "\<forall>t \<ge> clock s. view s' t = written ns key (encodeBytes v) (until s ttl) t (view s t)" by blast
  note w = waits [OF s'(2) state(5)]
  have v: "view (wait d s') (clock (wait d s')) ns key = (if alive (until s ttl) (clock s + d) then Some (encodeBytes v) else None)"
    using w s'(3,4) state(5) by (simp add: written_def)
  have "length (GetCacheResponse_encode E \<lparr>unknownFields = [], GetCacheResponse_hit = view (wait d s') (clock (wait d s')) ns key \<noteq> None,
      GetCacheResponse_value = orEmpty (view (wait d s') (clock (wait d s')) ns key)\<rparr>) < 2147483648"
    using sizes(4,5) unfolding v by (simp add: orEmpty_def)
  from sdk_get [OF link serves(2) conjunct1 [OF w] state(3) sizes(3) this] s'(1) show ?thesis unfolding v by blast
qed

lemma sdk_delete:
  fixes this :: "('w, 'r, 's) PGAppClient"
  assumes link: "rpc_link (pc_transport this) E st rest payload" and serves: "serves_CacheService_Delete (pc_transport this) delete_h"
    and state: "inv s" "readable ns key"
    and sizes: "length (DeleteCacheRequest_encode E \<lparr>unknownFields = [], DeleteCacheRequest_namespace = ns, DeleteCacheRequest_key = key\<rparr>) < 2147483648"
      "\<And>success. length (OperationResult_encode E \<lparr>unknownFields = [], OperationResult_success = success\<rparr>) < 2147483648"
  shows "\<exists>s' success. CacheClient_delete this ns key s = (Some (Inr success), s') \<and> inv s' \<and> clock s' = clock s \<and>
    (view s (clock s) ns key \<noteq> None \<longrightarrow> success) \<and>
    (\<forall>t ns' key'. view s' t ns' key' = (if ns' = ns \<and> key' = key then None else view s t ns' key'))"
proof -
  let ?opt = "env_mergeOptions (pc_transport this) (rpcOptions this)"
  from deletes [OF state, of ?opt] obtain s' success where r:
    "delete_h ?opt \<lparr>unknownFields = [], DeleteCacheRequest_namespace = ns, DeleteCacheRequest_key = key\<rparr> s =
      (Inr \<lparr>unknownFields = [], OperationResult_success = success\<rparr>, s')"
    "inv s' \<and> clock s' = clock s \<and> (view s (clock s) ns key \<noteq> None \<longrightarrow> success) \<and>
      (\<forall>t ns' key'. view s' t ns' key' = (if ns' = ns \<and> key' = key then None else view s t ns' key'))" by blast
  have "CacheClient_delete this ns key s = (Some (Inr success), s')"
    using CacheClient_delete_call [OF link serves, where namespace = ns and key = key and s = s] r(1) sizes
    by (simp add: Let_def DeleteCacheRequest_create_def transmissible_def OperationResult_ok_def unknown_ok_def)
  with r(2) show ?thesis by blast
qed

end


section \<open>The handlers keep it\<close>

definition cache_inv :: "libraries \<Rightarrow> cache_server \<Rightarrow> bool" where
  "cache_inv lib s \<longleftrightarrow> db_ok (lib_hash_key lib) (sv_db s)"

definition cache_view :: "libraries \<Rightarrow> cache_server \<Rightarrow> int \<Rightarrow> string \<Rightarrow> string \<Rightarrow> bytes option" where
  "cache_view lib s t = lookup (lib_hash_key lib) t (sv_db s)"

definition passes :: "int \<Rightarrow> cache_server \<Rightarrow> cache_server" where
  "passes d s = s\<lparr>sv_now := sv_now s + d\<rparr>"

text \<open>When a value written now expires: a time to live of 0 is none.\<close>

definition ttl_option :: "int \<Rightarrow> int option" where
  "ttl_option ttl = (if ttl = 0 then None else Some ttl)"

definition expiry :: "cache_server \<Rightarrow> int \<Rightarrow> int option" where
  "expiry s ttl = (case expires_at (sv_now s) (ttl_option ttl) of Inl _ \<Rightarrow> None | Inr expires \<Rightarrow> expires)"

definition can_read :: "CacheGrpc \<Rightarrow> string \<Rightarrow> string \<Rightarrow> bool" where
  "can_read self ns key \<longleftrightarrow> cg_enabled self \<and> validate_namespace ns = Inr () \<and> validate_cache_key key = Inr ()"

text \<open>A write that is taken and stays: within the limits of a request, and a cache without limits of capacity.\<close>

definition can_write :: "libraries \<Rightarrow> CacheGrpc \<Rightarrow> cache_server \<Rightarrow> string \<Rightarrow> string \<Rightarrow> bytes \<Rightarrow> int \<Rightarrow> bool" where
  "can_write lib self s ns key content ttl \<longleftrightarrow> can_read self ns key \<and> length content \<le> cg_max_payload_bytes self \<and> 0 \<le> ttl \<and>
     (\<exists>expires. expires_at (sv_now s) (ttl_option ttl) = Inr expires) \<and> unlimited (cg_limits self) \<and>
     own_hash (lib_hash_key lib) (sv_db s) key"

lemma becomes_unlimited:
  "becomes H limits now ns db' c \<Longrightarrow> unlimited limits \<Longrightarrow> db_ok H db' \<and> (\<forall>t \<ge> now. lookup H t db' = c t)"
  by (auto simp: becomes_def fun_eq_iff)

lemma CacheGrpc_set_spec:
  assumes "cache_inv lib s" "can_write lib self s ns key content ttl"
  shows "\<exists>s'. CacheGrpc_set lib self \<lparr>unknownFields = [], SetCacheRequest_namespace = ns, SetCacheRequest_key = key,
      SetCacheRequest_value = content, SetCacheRequest_ttlSeconds = dec ttl\<rparr> s = (Inr \<lparr>unknownFields = [], OperationResult_success = True\<rparr>, s') \<and>
    cache_inv lib s' \<and> sv_now s' = sv_now s \<and>
    (\<forall>t \<ge> sv_now s. cache_view lib s' t = written ns key content (expiry s ttl) t (cache_view lib s t))"
proof -
  from assms(2) obtain expires where a: "cg_enabled self" "validate_namespace ns = Inr ()" "validate_cache_key key = Inr ()"
    "length content \<le> cg_max_payload_bytes self" "0 \<le> ttl" "expires_at (sv_now s) (ttl_option ttl) = Inr expires"
    "unlimited (cg_limits self)" "own_hash (lib_hash_key lib) (sv_db s) key" by (auto simp: can_write_def can_read_def)
  have ok: "db_ok (lib_hash_key lib) (sv_db s)" using assms(1) by (simp add: cache_inv_def)
  have ttl: "validate_ttl_seconds (ttl_option ttl) = Inr ()" using a(5) by (simp add: validate_ttl_seconds_def ttl_option_def)
  from CacheStore_set_spec [OF ok a(2,3) ttl a(6,8), of "cg_limits self" content] obtain db' where
    d: "CacheStore_set (lib_hash_key lib) (cg_limits self) (sv_now s) ns key content (ttl_option ttl) (sv_db s) = (Inr (), db')"
      "becomes (lib_hash_key lib) (cg_limits self) (sv_now s) ns db'
        (\<lambda>t. written ns key content expires t (lookup (lib_hash_key lib) t (sv_db s)))" by blast
  note b = becomes_unlimited [OF d(2) a(7)]
  have "(if 0 < ttl then Inr (Some ttl) else if ttl = 0 then Inr None
      else Inl (Status_from (lib_db_text lib) (InvalidArgument ''ttl_seconds must not be negative''))) = (Inr (ttl_option ttl) :: Status + int option)"
    using a(5) by (simp add: ttl_option_def)
  then show ?thesis using a d(1) b
    by (auto simp: CacheGrpc_set_def record_rpc_def require_def ensure_enabled_def validate_payload_bytes_def await_def Let_def
        OperationResult_create_def cache_inv_def cache_view_def expiry_def)
qed

lemma CacheGrpc_get_spec:
  assumes "cache_inv lib s" "can_read self ns key"
  shows "\<exists>s'. CacheGrpc_get lib self \<lparr>unknownFields = [], GetCacheRequest_namespace = ns, GetCacheRequest_key = key\<rparr> s =
      (Inr \<lparr>unknownFields = [], GetCacheResponse_hit = cache_view lib s (sv_now s) ns key \<noteq> None,
         GetCacheResponse_value = orEmpty (cache_view lib s (sv_now s) ns key)\<rparr>, s') \<and>
    cache_inv lib s' \<and> sv_now s' = sv_now s \<and> cache_view lib s' = cache_view lib s"
proof -
  from CacheStore_get_spec [of "lib_hash_key lib" "sv_db s" ns key "sv_now s"] assms obtain db' where
    "CacheStore_get (lib_hash_key lib) (sv_now s) ns key (sv_db s) = (Inr (lookup (lib_hash_key lib) (sv_now s) (sv_db s) ns key), db')"
    "db_ok (lib_hash_key lib) db'" "\<forall>t. lookup (lib_hash_key lib) t db' = lookup (lib_hash_key lib) t (sv_db s)"
    by (auto simp: cache_inv_def can_read_def)
  with assms show ?thesis
    by (auto simp: CacheGrpc_get_def record_rpc_def require_def ensure_enabled_def await_def GetCacheResponse_create_def can_read_def
        cache_inv_def cache_view_def fun_eq_iff orEmpty_def split: option.splits)
qed

lemma CacheGrpc_delete_spec:
  assumes "cache_inv lib s" "can_read self ns key"
  shows "\<exists>s' success. CacheGrpc_delete lib self \<lparr>unknownFields = [], DeleteCacheRequest_namespace = ns, DeleteCacheRequest_key = key\<rparr> s =
      (Inr \<lparr>unknownFields = [], OperationResult_success = success\<rparr>, s') \<and> cache_inv lib s' \<and> sv_now s' = sv_now s \<and>
    (cache_view lib s (sv_now s) ns key \<noteq> None \<longrightarrow> success) \<and>
    (\<forall>t ns' key'. cache_view lib s' t ns' key' = (if ns' = ns \<and> key' = key then None else cache_view lib s t ns' key'))"
proof -
  from CacheStore_delete_spec [of "lib_hash_key lib" "sv_db s" ns key] assms obtain deleted db' where
    "CacheStore_delete (lib_hash_key lib) ns key (sv_db s) = (Inr deleted, db')" "db_ok (lib_hash_key lib) db'"
    "\<forall>t. lookup (lib_hash_key lib) t (sv_db s) ns key \<noteq> None \<longrightarrow> deleted"
    "\<forall>t ns' key'. lookup (lib_hash_key lib) t db' ns' key' = (if ns' = ns \<and> key' = key then None else lookup (lib_hash_key lib) t (sv_db s) ns' key')"
    by (auto simp: cache_inv_def can_read_def)
  with assms show ?thesis
    by (auto simp: CacheGrpc_delete_def record_rpc_def require_def ensure_enabled_def await_def OperationResult_create_def can_read_def
        cache_inv_def cache_view_def)
qed

interpretation server: cache_contract "cache_inv lib" sv_now passes "cache_view lib" expiry "can_write lib self" "can_read self"
    "behind raise (CacheGrpc_set lib self)" "behind raise (CacheGrpc_get lib self)" "behind raise (CacheGrpc_delete lib self)"
  for lib self raise
proof
  fix s d
  show "cache_inv lib s \<Longrightarrow> 0 \<le> d \<Longrightarrow> cache_inv lib (passes d s) \<and> sv_now (passes d s) = sv_now s + d \<and>
      cache_view lib (passes d s) = cache_view lib s"
    by (simp add: cache_inv_def passes_def cache_view_def fun_eq_iff)
qed (use CacheGrpc_set_spec CacheGrpc_get_spec CacheGrpc_delete_spec in \<open>fastforce simp: behind_def\<close>)+

end
