(* ===== verification/Cache_Capacity.thy ===== *)
theory Cache_Capacity
  imports Cache_Refine
begin

text \<open>
  What the capacity limits of the cache do to the rows of the namespace that is written: the sweep
  that comes before any eviction, and the choice of the row that an eviction removes.
\<close>


section \<open>The shape of a write\<close>

text \<open>A write that succeeds stores the value and then counts it and enforces the limits.\<close>

lemma CacheStore_set_success:
  assumes "CacheStore_set H limits now ns key content ttl db = (Inr (), db')"
  obtains gen expires where "expires_at now ttl = Inr expires" "alive expires now"
    "map_of (db_namespaces (ensure_namespace ns db)) ns = Some gen"
    "enforce_capacity limits now ns
       (bump ''writes'' 1 (upsert now ns gen (H key) key content expires (ensure_namespace ns db))) = (Inr (), db')"
proof -
  have adm: "admitted ns key ttl = Inr ()"
    using assms unfolding CacheStore_set_def admitted_check by (cases "admitted ns key ttl") (auto simp: check_def)
  obtain gen where gen: "map_of (db_namespaces (ensure_namespace ns db)) ns = Some gen"
    "namespace_generation ns (ensure_namespace ns db) = (Inr gen, ensure_namespace ns db)" by (rule generation_ensured)
  then obtain expires where expires: "expires_at now ttl = Inr expires"
    using assms adm admitted_iff by (cases "expires_at now ttl") (auto simp: CacheStore_set_def andThen_def)
  show ?thesis
  proof (rule that [OF expires _ gen(1)])
    show "alive expires now" using adm admitted_iff expires_later expires by blast
    show "enforce_capacity limits now ns
        (bump ''writes'' 1 (upsert now ns gen (H key) key content expires (ensure_namespace ns db))) = (Inr (), db')"
      using assms adm admitted_iff expires gen(2) by (simp add: CacheStore_set_def andThen_def)
  qed
qed

lemma upsert_names [simp]: "db_namespaces (upsert now ns gen h key content expires db) = db_namespaces db"
  by (simp add: upsert_def take_id_def)

lemma upsert_other_rows: "r \<in> set (db_entries db) \<Longrightarrow> \<not> at_hash ns gen h r \<Longrightarrow>
    r \<in> set (db_entries (upsert now ns gen h key content expires db))"
  by (force simp: upsert_def take_id_def)


section \<open>Sweeping\<close>

lemma sweep_found:
  assumes "db_ok H db" "r \<in> set (db_entries db)" "\<not> live now r" "0 < limit"
  shows "\<exists>removed db'. sweep_expired now limit db = (Inr removed, db') \<and> 0 < removed \<and> keeps (live now) db db'"
proof -
  obtain removed db' where s: "sweep_expired now limit db = (Inr removed, db')" "keeps (live now) db db'"
    using sweep_expired_keeps [OF assms(1)] by blast
  let ?dead = "sort_key (\<lambda>r. case ce_expires_at r of None \<Rightarrow> 0 | Some at \<Rightarrow> at) (filter (\<lambda>r. \<not> live now r) (db_entries db))"
  have "r \<in> set ?dead" using assms(2,3) by simp
  then obtain d ds where dead: "?dead = d # ds" by (cases ?dead) auto
  then have "d \<in> set ?dead" by simp
  then have "d \<in> set (db_entries db)" by simp
  moreover have "ce_id d \<in> set (doomed now limit db)" unfolding doomed_def dead using assms(4) by (cases limit) auto
  ultimately have "filter (\<lambda>r. ce_id r \<in> set (doomed now limit db)) (db_entries db) \<noteq> []" by (auto simp: filter_empty_conv)
  then have "0 < removed" using s(1) by (auto simp: sweep_expired_def delete_rows_def andThen_def split: if_splits)
  with s show ?thesis by blast
qed

text \<open>Where an expired row is found, it is swept and every live row stays, whatever the limits.\<close>

lemma enforce_capacity_found:
  assumes "db_ok H db" "r \<in> set (db_entries db)" "\<not> live now r"
  shows "\<exists>db'. enforce_capacity limits now ns db = (Inr (), db') \<and> keeps (live now) db db'"
  using sweep_found [OF assms, of 1000] by (auto simp: enforce_capacity_def andThen_def)

text \<open>The keys with a value are at most as many as the rows of the namespace.\<close>

lemma keys_counted:
  assumes "db_ok H db" "map_of (db_namespaces db) ns = Some gen"
  shows "int (card {key. lookup H now db ns key \<noteq> None}) \<le> key_count ns gen db"
proof -
  let ?rows = "filter (in_generation ns gen) (db_entries db)"
  have "{key. lookup H now db ns key \<noteq> None} \<subseteq> ce_cache_key ` set ?rows"
    using assms(2) lookup_iff [OF assms(1)] by (fastforce simp: holds_def at_key_def at_hash_def)
  then have "card {key. lookup H now db ns key \<noteq> None} \<le> card (ce_cache_key ` set ?rows)" by (rule card_mono [rotated]) simp
  also have "\<dots> \<le> length ?rows" using card_image_le [of "set ?rows" ce_cache_key] card_length [of ?rows] by simp
  finally show ?thesis by (simp add: key_count_def)
qed

lemma CacheStore_set_found:
  assumes "db_ok H db" "own_hash H db key"
    and "r \<in> set (db_entries db)" "\<not> live now r" "ce_ns r \<noteq> ns \<or> ce_cache_key r \<noteq> key"
    and "CacheStore_set H limits now ns key content ttl db = (Inr (), db')"
  obtains gen expires where "expires_at now ttl = Inr expires" "db_ok H db'" "map_of (db_namespaces db') ns = Some gen"
    "\<And>t. now \<le> t \<Longrightarrow> lookup H t db' = written ns key content expires t (lookup H t db)"
proof -
  let ?db0 = "ensure_namespace ns db"
  from assms(6) obtain gen expires where e: "expires_at now ttl = Inr expires" "map_of (db_namespaces ?db0) ns = Some gen"
    "enforce_capacity limits now ns (bump ''writes'' 1 (upsert now ns gen (H key) key content expires ?db0)) = (Inr (), db')"
    by (rule CacheStore_set_success)
  let ?db1 = "bump ''writes'' 1 (upsert now ns gen (H key) key content expires ?db0)"
  have ok: "db_ok H ?db0" "db_ok H ?db1" using db_ok_upsert [OF db_ok_ensure e(2)] assms(1) by (simp_all add: db_ok_ensure)
  have "\<not> at_hash ns gen (H key) r" using assms(1-3,5) by (auto simp: at_hash_def in_generation_def db_ok_def row_ok_def own_hash_def)
  then have "r \<in> set (db_entries ?db1)" using assms(3) by (simp add: upsert_other_rows ensure_namespace_def)
  from enforce_capacity_found [OF ok(2) this assms(4), of limits ns] e(3) have k: "keeps (live now) ?db1 db'" by auto
  show ?thesis
  proof (rule that [OF e(1) keeps_ok [OF k ok(2)]])
    show "map_of (db_namespaces db') ns = Some gen" using k e(2) by (simp add: keeps_def)
    show "lookup H t db' = written ns key content expires t (lookup H t db)" if "now \<le> t" for t
    proof -
      have "lookup H t db' = lookup H t ?db1"
        using that by (intro ext keeps_lookup [OF k ok(2)]) (auto simp: holds_def live_mono)
      then show ?thesis using lookup_upsert [OF ok(1) e(2)] lookup_ensure [OF assms(1)] assms(2) by simp
    qed
  qed
qed


section \<open>Evicting\<close>

text \<open>Where a row comes before all others of its namespace, an eviction removes it.\<close>

lemma evict_least:
  assumes "db_ok H db" "v \<in> set (db_entries db)" "in_generation ns gen v"
    and "\<forall>r \<in> set (db_entries db). in_generation ns gen r \<longrightarrow> before v r"
  shows "evict ns gen db = (1, db\<lparr>db_entries := filter (\<lambda>r. r \<noteq> v) (db_entries db)\<rparr>)"
  using assms(1)
proof (cases rule: evict_cases [where ns = ns and gen = gen])
  case none
  then show ?thesis using assms(2,3) by (auto simp: filter_empty_conv)
next
  case (one u db')
  then have "before u v" "before v u" using assms(2-4) by auto
  then have "ce_id u = ce_id v" by (auto simp: before_def)
  then have "u = v" using id_unique [OF assms(1) one(2) assms(2)] by simp
  with one show ?thesis by simp
qed

lemma evict_loop_least:
  assumes "db_ok H db" "v \<in> set (db_entries db)" "in_generation ns gen v"
    and "\<forall>r \<in> set (db_entries db). in_generation ns gen r \<longrightarrow> before v r"
    and "over limits ns gen db" "loop_vars limits ns gen db excess True"
  shows "\<exists>db'. evict_loop limits ns gen excess True db = (Inr (), db') \<and> keeps (\<lambda>r. \<not> in_generation ns gen r) db db' \<and>
    v \<notin> set (db_entries db')"
proof -
  let ?db2 = "bump ''evictions'' 1 (db\<lparr>db_entries := filter (\<lambda>r. r \<noteq> v) (db_entries db)\<rparr>)"
  let ?over = "over limits ns gen ?db2"
  have k: "keeps (\<lambda>r. \<not> in_generation ns gen r) db ?db2"
    unfolding keeps_def using assms(2,3) by (auto intro!: exI [of _ "\<lambda>r. r \<noteq> v"])
  have "distinct (db_entries db)" using assms(1) by (auto simp: db_ok_def distinct_map)
  then have "key_count ns gen ?db2 = key_count ns gen db - 1"
    using filter_count [of "db_entries db" v "in_generation ns gen"] assms(2,3) by (simp add: key_count_def)
  then have vars: "loop_vars limits ns gen ?db2 (excess - 1) ?over"
    using assms(6) by (auto simp: loop_vars_def split: option.splits)
  have bytes: "max_bytes limits \<noteq> None" using assms(5) by (auto simp: over_def split: option.splits)
  from evict_loop_spec [OF keeps_ok [OF k assms(1)] vars] obtain db' where e:
    "evict_loop limits ns gen (excess - 1) ?over ?db2 = (Inr (), db')"
    "keeps (\<lambda>r. \<not> in_generation ns gen r) ?db2 db'" by blast
  have "evict_loop limits ns gen excess True db = (Inr (), db')"
    using evict_least [OF assms(1-4)] e(1) bytes by (simp add: evict_loop.simps [of limits ns gen excess])
  moreover have "v \<notin> set (db_entries db')" using e(2) by (auto simp: keeps_def)
  ultimately show ?thesis using keeps_trans [OF k e(2)] by blast
qed

text \<open>The bytes of a namespace after one of its rows was changed.\<close>

lemma sum_changed:
  assumes "distinct rs" "r \<in> set rs" "P r" "P (f r)" "\<And>x. x \<in> set rs \<Longrightarrow> x \<noteq> r \<Longrightarrow> f x = x"
  shows "sum_list (map g (filter P (map f rs))) = sum_list (map g (filter P rs)) - g r + (g (f r) :: int)"
  using assms
proof (induction rs)
  case (Cons a rs)
  show ?case
  proof (cases "a = r")
    case True
    then have "map f rs = rs" using Cons.prems(1,5) by (auto intro: map_idI)
    then show ?thesis using True Cons.prems(3,4) by simp
  next
    case False
    then show ?thesis using Cons.IH Cons.prems by auto
  qed
qed simp

text \<open>Overwriting the row that comes first of its namespace leaves it first.\<close>

definition overwritten :: "string \<Rightarrow> bytes \<Rightarrow> int option \<Rightarrow> cache_row \<Rightarrow> cache_row" where
  "overwritten key content expires r = r\<lparr>ce_cache_key := key, ce_bytes := content, ce_expires_at := expires,
     ce_size := int (length content)\<rparr>"

lemma upsert_first:
  fixes now key content expires
  assumes "db_ok H db" "v \<in> set (db_entries db)" "at_hash ns gen (H key) v"
    and "\<forall>r \<in> set (db_entries db). in_generation ns gen r \<longrightarrow> before v r"
  defines "db1 \<equiv> upsert now ns gen (H key) key content expires db" and "v1 \<equiv> overwritten key content expires v"
  shows "v1 \<in> set (db_entries db1)" "in_generation ns gen v1"
    "\<forall>r \<in> set (db_entries db1). in_generation ns gen r \<longrightarrow> before v1 r"
    "\<forall>r \<in> set (db_entries db1). at_hash ns gen (H key) r \<longrightarrow> r = v1"
    "byte_size ns gen db1 = byte_size ns gen db - ce_size v + int (length content)"
    "\<forall>r \<in> set (db_entries db1). r = v1 \<or> r \<in> set (db_entries db)"
proof -
  let ?f = "\<lambda>r. if at_hash ns gen (H key) r then overwritten key content expires r else r"
  have only: "at_hash ns gen (H key) r \<longleftrightarrow> r = v" if "r \<in> set (db_entries db)" for r
    using slot_unique [OF assms(1) that assms(2)] assms(3) by (auto simp: at_hash_slot)
  have rows: "db_entries db1 = map ?f (db_entries db)" using assms(2,3)
    by (auto simp: db1_def upsert_def has_conflict_def list_ex_iff take_id_def overwritten_def)
  have mem: "r \<in> set (db_entries db1) \<longleftrightarrow> r = v1 \<or> r \<in> set (db_entries db) \<and> r \<noteq> v" for r
    unfolding rows using only assms(2,3) by (auto simp: v1_def image_iff)
  have same: "before v1 r = before v r" "before v1 v1" "ce_size v1 = int (length content)" for r
    by (auto simp: v1_def overwritten_def before_def)
  show v1: "in_generation ns gen v1" using assms(3) by (simp add: v1_def overwritten_def at_hash_def in_generation_def)
  show "v1 \<in> set (db_entries db1)" "\<forall>r \<in> set (db_entries db1). in_generation ns gen r \<longrightarrow> before v1 r"
    "\<forall>r \<in> set (db_entries db1). at_hash ns gen (H key) r \<longrightarrow> r = v1"
    "\<forall>r \<in> set (db_entries db1). r = v1 \<or> r \<in> set (db_entries db)"
    using assms(4) only same by (auto simp: mem)
  have "distinct (db_entries db)" using assms(1) by (auto simp: db_ok_def distinct_map)
  moreover have "?f v = v1" using assms(3) by (simp add: v1_def)
  moreover have "in_generation ns gen v" using assms(3) by (simp add: at_hash_def)
  ultimately show "byte_size ns gen db1 = byte_size ns gen db - ce_size v + int (length content)"
    using sum_changed [of "db_entries db" v "in_generation ns gen" ?f ce_size] assms(2) v1 same(3) only
    unfolding byte_size_def rows by simp
qed

text \<open>If the namespace is over its bytes then, the row just written is the one that goes.\<close>

lemma CacheStore_set_first:
  assumes "db_ok H db" "\<forall>r \<in> set (db_entries db). live now r"
    and "map_of (db_namespaces db) ns = Some gen" "v \<in> set (db_entries db)" "at_key ns gen (H key) key v"
    and "\<forall>r \<in> set (db_entries db). in_generation ns gen r \<longrightarrow> before v r"
    and "max_bytes limits = Some limit" "limit < byte_size ns gen db - ce_size v + int (length content)"
    and "CacheStore_set H limits now ns key content ttl db = (Inr (), db')"
  shows "lookup H t db' ns key = None"
proof -
  have ens: "ensure_namespace ns db = db" using assms(3) by (simp add: ensure_namespace_def)
  from assms(9) obtain g expires where "alive expires now" "map_of (db_namespaces (ensure_namespace ns db)) ns = Some g"
    "enforce_capacity limits now ns (bump ''writes'' 1 (upsert now ns g (H key) key content expires (ensure_namespace ns db))) = (Inr (), db')"
    by (rule CacheStore_set_success)
  then have e: "alive expires now"
    "enforce_capacity limits now ns (bump ''writes'' 1 (upsert now ns gen (H key) key content expires db)) = (Inr (), db')"
    using assms(3) unfolding ens by auto
  let ?db1 = "bump ''writes'' 1 (upsert now ns gen (H key) key content expires db)"
  let ?v = "overwritten key content expires v"
  have h: "at_hash ns gen (H key) v" using assms(5) by (simp add: at_key_def)
  note u = upsert_first(1,3-) [OF assms(1,4) h assms(6), where now = now and content = content and expires = expires]
    upsert_first(2) [OF assms(1,4) h assms(6)]
  have ok: "db_ok H ?db1" using db_ok_upsert [OF assms(1,3)] by simp
  have over: "over limits ns gen ?db1" using assms(7,8) u(4) by (simp add: over_def)
  have "live now ?v" using e(1) by (simp add: overwritten_def live_def alive_def)
  then have live: "\<forall>r \<in> set (db_entries ?db1). live now r" using assms(2) u(5) by auto
  let ?excess = "case max_keys limits of None \<Rightarrow> 0 | Some limit \<Rightarrow> key_count ns gen ?db1 - limit"
  have vars: "loop_vars limits ns gen ?db1 ?excess True" using over by (auto simp: loop_vars_def split: option.splits)
  have v: "?v \<in> set (db_entries ?db1)" "\<forall>r \<in> set (db_entries ?db1). in_generation ns gen r \<longrightarrow> before ?v r"
    using u(1,2) by simp_all
  from evict_loop_least [OF ok v(1) u(6) v(2) over vars] obtain db2 where l:
    "evict_loop limits ns gen ?excess True ?db1 = (Inr (), db2)" "keeps (\<lambda>r. \<not> in_generation ns gen r) ?db1 db2"
    "?v \<notin> set (db_entries db2)" by blast
  have "enforce_capacity limits now ns ?db1 = (Inr (), db2)"
    using sweep_nothing [OF live, of 1000] l(1) over assms(3)
    by (simp add: enforce_capacity_def andThen_def try_namespace_generation_def)
  with e(2) have "db' = db2" by simp
  have "\<not> holds H t db' ns key r" for r
    using l(2,3) assms(3) u(3) unfolding \<open>db' = db2\<close> by (auto simp: holds_def keeps_def at_key_def)
  then show ?thesis using lookup_iff [OF keeps_ok [OF l(2) ok], of t ns key] unfolding \<open>db' = db2\<close> by (metis option.exhaust)
qed

end
