(* ===== verification/Cache_Laws.thy ===== *)
theory Cache_Laws
  imports Cache_Service Cache_Capacity
begin

text \<open>
  The properties of the cache service of the server: its tables, its refinement of the specification
  of a cache, its namespaces and its capacity, and the SDK in front of it.
\<close>


section \<open>Lemmas\<close>

lemma upsert_live:
  assumes "\<forall>r \<in> set (db_entries db). live now r" "alive expires now"
  shows "\<forall>r \<in> set (db_entries (upsert now ns gen h key content expires db)). live now r"
  using assms by (auto simp: upsert_def take_id_def new_row_def live_def alive_def)

lemma CacheStore_set_within:
  assumes "db_ok H db" "validate_namespace ns = Inr ()" "validate_cache_key key = Inr ()"
    "validate_ttl_seconds ttl = Inr ()" "expires_at now ttl = Inr expires" "\<forall>r \<in> set (db_entries db). live now r"
  shows "\<exists>db' gen. CacheStore_set H limits now ns key content ttl db = (Inr (), db') \<and>
    map_of (db_namespaces db') ns = Some gen \<and> within limits ns gen db'"
proof -
  let ?db0 = "ensure_namespace ns db"
  obtain gen where gen: "map_of (db_namespaces ?db0) ns = Some gen" "namespace_generation ns ?db0 = (Inr gen, ?db0)"
    by (rule generation_ensured)
  let ?db1 = "upsert now ns gen (H key) key content expires ?db0"
  have gen1: "map_of (db_namespaces ?db1) ns = Some gen" using gen(1) by (simp add: upsert_def take_id_def)
  have "\<forall>r \<in> set (db_entries ?db0). live now r" using assms(6) by (simp add: ensure_namespace_def)
  from upsert_live [OF this expires_later [OF assms(4,5)]] have "\<forall>r \<in> set (db_entries ?db1). live now r" .
  moreover have "CacheStore_set H limits now ns key content ttl db = wrap_up limits now ns ?db1"
    using assms(2-5) gen(2) by (simp add: CacheStore_set_def andThen_def wrap_up_def)
  ultimately show ?thesis
    using becomes_wrap_up [OF db_ok_upsert [OF db_ok_ensure [OF assms(1)] gen(1)] gen1 refl, where limits = limits and now = now] gen1 by metis
qed

text \<open>A cache that hashes a key to itself, for concrete runs.\<close>

definition plain_lib :: libraries where
  "plain_lib = \<lparr>lib_hash_key = (\<lambda>key. key), lib_db_text = (\<lambda>_. ''error'')\<rparr>"

definition plain_grpc :: CacheGrpc where
  "plain_grpc = \<lparr>cg_limits = \<lparr>max_keys = None, max_bytes = None\<rparr>, cg_enabled = True, cg_max_payload_bytes = 1024, cg_max_batch_size = 100\<rparr>"

definition fresh_server :: cache_server where
  "fresh_server = \<lparr>sv_now = 0, sv_latency = 0, sv_db = empty_db, sv_metrics = (\<lambda>_. None)\<rparr>"


section \<open>Properties\<close>

text \<open>
  C24. Every operation of the cache keeps its tables consistent, whatever the arguments and also where
  it fails: no two rows share an id or a slot (namespace, generation and hash), the size of a row is
  the size of its value, its hash the hash of its key, and its generation not ahead of its namespace.
\<close>

theorem cache_tables_consistent:
  assumes "reachable_db H limits db"
  shows "db_ok H db"
  using assms by (rule reachable_ok)

theorem cache_tables_consistent_witness:
  "db_ok (\<lambda>key. key) (snd (run_command (\<lambda>key. key) \<lparr>max_keys = Some 1, max_bytes = None\<rparr> 5 (CSet ''a'' ''k'' [1, 2] (Some 3)) empty_db))"
proof -
  obtain r db where run: "run_command (\<lambda>key. key) \<lparr>max_keys = Some 1, max_bytes = None\<rparr> 5 (CSet ''a'' ''k'' [1, 2] (Some 3)) empty_db = (r, db)"
    by fastforce
  have "reachable_db (\<lambda>key. key) \<lparr>max_keys = Some 1, max_bytes = None\<rparr> db"
    by (rule reachable_db.step [OF reachable_db.start run])
  from cache_tables_consistent [OF this] show ?thesis unfolding run by simp
qed

text \<open>
  C2. Without capacity limits, any run of commands gives the answers of a cache that only knows
  which value a key has and until when: as long as no two keys of the run have the same hash and time
  does not go back. The one difference: deleting a value that has expired may report success.
\<close>

theorem cache_refines_spec:
  assumes "inj_on H K" "unlimited limits" "sorted (map fst cmds)"
    and "list_all (\<lambda>(_, cmd). set (command_keys cmd) \<subseteq> K \<and> command_ok cmd) cmds"
  shows "list_all2 (\<lambda>(_, cmd) (r, r'). matches cmd r r') cmds
    (zip (fst (run_commands H limits cmds empty_db)) (fst (spec_commands cmds (\<lambda>_ _. None))))"
proof (cases cmds)
  case (Cons x xs)
  have "db_inv H K empty_db" by (simp add: db_inv_def keys_in_def db_ok_empty) (simp add: empty_db_def)
  moreover have "simulates H (fst x) empty_db (\<lambda>_ _. None)"
    by (simp add: simulates_def fun_eq_iff lookup_def seen_def try_namespace_generation_def empty_db_def)
  ultimately show ?thesis using assms Cons by (intro run_commands_refine [where start = "fst x"]) auto
qed simp

definition sample_run :: "(int \<times> cache_command) list" where
  "sample_run = [(0, CIncrement ''n'' ''k'' 41 (Some 1)), (10, CIncrement ''n'' ''k'' 1 None),
     (20, CAppend ''n'' ''k'' [48] None), (30, CInvalidate ''n''), (30, CGet ''n'' ''k'')]"

theorem cache_refines_spec_witness:
  "list_all2 (\<lambda>(_, cmd) (r, r'). matches cmd r r') sample_run
    (zip (fst (run_commands (\<lambda>key. key) \<lparr>max_keys = None, max_bytes = None\<rparr> sample_run empty_db))
         (fst (spec_commands sample_run (\<lambda>_ _. None)))) \<and>
   fst (spec_commands sample_run (\<lambda>_ _. None)) =
     [Inr (Number 41), Inr (Number 42), Inr (Number 3), Inr Done, Inr (Found None)]"
proof
  show "list_all2 (\<lambda>(_, cmd) (r, r'). matches cmd r r') sample_run
    (zip (fst (run_commands (\<lambda>key. key) \<lparr>max_keys = None, max_bytes = None\<rparr> sample_run empty_db))
         (fst (spec_commands sample_run (\<lambda>_ _. None))))"
    by (rule cache_refines_spec [where K = UNIV]) (auto simp: sample_run_def unlimited_def)
  show "fst (spec_commands sample_run (\<lambda>_ _. None)) = [Inr (Number 41), Inr (Number 42), Inr (Number 3), Inr Done, Inr (Found None)]"
    by code_simp
qed

text \<open>
  C25. A command changes nothing that can be read in another namespace, whatever the limits of the
  cache and whatever it evicts or sweeps, from then on.
\<close>

theorem namespaces_isolated:
  assumes "reachable_db H limits db" "run_command H limits now cmd db = (r, db')" "ns \<noteq> command_ns cmd" "now \<le> t"
  shows "lookup H t db' ns key = lookup H t db ns key"
  using reachable_ok [OF assms(1)] assms(2-) by (rule run_command_elsewhere)

definition two_namespaces :: cache_db where
  "two_namespaces = snd (run_command (\<lambda>key. key) \<lparr>max_keys = Some 1, max_bytes = None\<rparr> 0 (CSet ''a'' ''k'' [7] None) empty_db)"

theorem namespaces_isolated_witness:
  "lookup (\<lambda>key. key) 9 (snd (run_command (\<lambda>key. key) \<lparr>max_keys = Some 1, max_bytes = None\<rparr> 3 (CInvalidate ''b'') two_namespaces)) ''a'' ''k'' = Some [7]"
proof -
  let ?limits = "\<lparr>max_keys = Some 1, max_bytes = None\<rparr>"
  obtain r db where run: "run_command (\<lambda>key. key) ?limits 3 (CInvalidate ''b'') two_namespaces = (r, db)" by fastforce
  have "reachable_db (\<lambda>key. key) ?limits two_namespaces"
    unfolding two_namespaces_def by (rule reachable_db.step [OF reachable_db.start]) (rule prod.collapse [symmetric])
  from namespaces_isolated [OF this run, of "''a''" 9 "''k''"]
  have "lookup (\<lambda>key. key) 9 db ''a'' ''k'' = lookup (\<lambda>key. key) 9 two_namespaces ''a'' ''k''" by simp
  also have "\<dots> = Some [7]" by code_simp
  finally show ?thesis unfolding run by simp
qed

text \<open>
  C26. While no entry has expired, a write leaves its namespace within the limits on keys and bytes.
\<close>

theorem capacity_enforced:
  assumes "reachable_db H limits db" "\<forall>r \<in> set (db_entries db). live now r"
    and "CacheStore_set H limits now ns key content ttl db = (Inr (), db')"
  shows "\<exists>gen. map_of (db_namespaces db') ns = Some gen \<and>
    (\<forall>limit. max_keys limits = Some limit \<longrightarrow> key_count ns gen db' \<le> max 0 limit) \<and>
    (\<forall>limit. max_bytes limits = Some limit \<longrightarrow> byte_size ns gen db' \<le> max 0 limit)"
proof -
  have adm: "admitted ns key ttl = Inr ()"
    using assms(3) unfolding CacheStore_set_def admitted_check by (cases "admitted ns key ttl") (auto simp: check_def)
  obtain gen where "namespace_generation ns (ensure_namespace ns db) = (Inr gen, ensure_namespace ns db)" by (rule generation_ensured)
  then obtain expires where "expires_at now ttl = Inr expires"
    using assms(3) adm admitted_iff by (cases "expires_at now ttl") (auto simp: CacheStore_set_def andThen_def)
  with CacheStore_set_within [OF reachable_ok [OF assms(1)] _ _ _ _ assms(2), of ns key ttl expires limits content] assms(3) adm admitted_iff
  show ?thesis by (fastforce simp: within_def)
qed

theorem capacity_enforced_witness:
  "key_count ''a'' 0 (snd (CacheStore_set (\<lambda>key. key) \<lparr>max_keys = Some 1, max_bytes = None\<rparr> 3 ''a'' ''l'' [8] None two_namespaces)) \<le> 1"
proof -
  let ?limits = "\<lparr>max_keys = Some 1, max_bytes = None\<rparr>"
  let ?db' = "snd (CacheStore_set (\<lambda>key. key) ?limits 3 ''a'' ''l'' [8] None two_namespaces)"
  have "reachable_db (\<lambda>key. key) ?limits two_namespaces"
    unfolding two_namespaces_def by (rule reachable_db.step [OF reachable_db.start]) (rule prod.collapse [symmetric])
  moreover have "\<forall>r \<in> set (db_entries two_namespaces). live 3 r" by code_simp
  moreover have "CacheStore_set (\<lambda>key. key) ?limits 3 ''a'' ''l'' [8] None two_namespaces = (Inr (), ?db')"
    by (simp add: prod_eq_iff) code_simp
  ultimately have "\<exists>gen. map_of (db_namespaces ?db') ''a'' = Some gen \<and>
      (\<forall>limit. max_keys ?limits = Some limit \<longrightarrow> key_count ''a'' gen ?db' \<le> max 0 limit) \<and>
      (\<forall>limit. max_bytes ?limits = Some limit \<longrightarrow> byte_size ''a'' gen ?db' \<le> max 0 limit)"
    by (rule capacity_enforced)
  moreover have "map_of (db_namespaces ?db') ''a'' = Some 0" by code_simp
  ultimately show ?thesis by simp
qed

text \<open>
  C27. The limits do not hold while an entry has expired: a write that meets an expired entry, in any
  namespace, sweeps and evicts nothing. Whatever the limits, every key that had a value keeps it beside
  the one written, and the namespace has as many entries as that takes.
\<close>

theorem expired_entry_suspends_limit:
  assumes "reachable_db H limits db" "own_hash H db key"
    and "r \<in> set (db_entries db)" "\<not> live now r" "ce_ns r \<noteq> ns \<or> ce_cache_key r \<noteq> key"
    and "CacheStore_set H limits now ns key content ttl db = (Inr (), db')"
  shows "\<exists>gen expires. expires_at now ttl = Inr expires \<and> map_of (db_namespaces db') ns = Some gen \<and>
    (\<forall>t ns' key'. now \<le> t \<longrightarrow> lookup H t db' ns' key' = written ns key content expires t (lookup H t db) ns' key') \<and>
    int (card (insert key {key'. lookup H now db ns key' \<noteq> None})) \<le> key_count ns gen db'"
proof -
  from CacheStore_set_found [OF reachable_ok [OF assms(1)] assms(2-)] obtain gen expires where
    e: "expires_at now ttl = Inr expires" "db_ok H db'" "map_of (db_namespaces db') ns = Some gen"
    "\<And>t. now \<le> t \<Longrightarrow> lookup H t db' = written ns key content expires t (lookup H t db)" by metis
  from assms(6) obtain expires' where "expires_at now ttl = Inr expires'" "alive expires' now" by (rule CacheStore_set_success)
  with e(1) have "{key'. lookup H now db' ns key' \<noteq> None} = insert key {key'. lookup H now db ns key' \<noteq> None}"
    using e(4) [of now] by (auto simp: written_def)
  with keys_counted [OF e(2,3), of now] e show ?thesis by auto
qed

definition one_key :: CacheLimits where
  "one_key = \<lparr>max_keys = Some 1, max_bytes = None\<rparr>"

definition with_expired :: cache_db where
  "with_expired = snd (run_commands (\<lambda>key. key) one_key
     [(0, CSet ''b'' ''old'' [1] (Some 1)), (0, CSet ''a'' ''k'' [7] None)] empty_db)"

theorem expired_entry_suspends_limit_witness:
  "max_keys one_key = Some 1 \<and>
   1 < key_count ''a'' 0 (snd (CacheStore_set (\<lambda>key. key) one_key 2000000 ''a'' ''l'' [8] None with_expired))"
proof -
  let ?db' = "snd (CacheStore_set (\<lambda>key. key) one_key 2000000 ''a'' ''l'' [8] None with_expired)"
  let ?r = "hd (db_entries with_expired)"
  have "reachable_db (\<lambda>key. key) one_key with_expired"
    unfolding with_expired_def by (rule reachable_run [OF reachable_db.start])
  moreover have "own_hash (\<lambda>key. key) with_expired ''l''" by (simp add: own_hash_def)
  moreover have "?r \<in> set (db_entries with_expired)" "\<not> live 2000000 ?r" "ce_ns ?r \<noteq> ''a'' \<or> ce_cache_key ?r \<noteq> ''l''"
    by code_simp+
  moreover have "CacheStore_set (\<lambda>key. key) one_key 2000000 ''a'' ''l'' [8] None with_expired = (Inr (), ?db')"
    by (simp add: prod_eq_iff) code_simp
  ultimately have "\<exists>gen expires. expires_at 2000000 None = Inr expires \<and> map_of (db_namespaces ?db') ''a'' = Some gen \<and>
      (\<forall>t ns' key'. 2000000 \<le> t \<longrightarrow> lookup (\<lambda>key. key) t ?db' ns' key' =
        written ''a'' ''l'' [8] expires t (lookup (\<lambda>key. key) t with_expired) ns' key') \<and>
      int (card (insert ''l'' {key'. lookup (\<lambda>key. key) 2000000 with_expired ''a'' key' \<noteq> None})) \<le> key_count ''a'' gen ?db'"
    by (rule expired_entry_suspends_limit)
  moreover have "map_of (db_namespaces ?db') ''a'' = Some 0" by code_simp
  ultimately have c: "int (card (insert ''l'' {key'. lookup (\<lambda>key. key) 2000000 with_expired ''a'' key' \<noteq> None})) \<le> key_count ''a'' 0 ?db'" by auto
  have "{key'. lookup (\<lambda>key. key) 2000000 with_expired ''a'' key' \<noteq> None} = {''k''}"
  proof -
    have rows: "map ce_cache_key (db_entries with_expired) = [''old'', ''k'']" "map ce_ns (db_entries with_expired) = [''b'', ''a'']"
      "lookup (\<lambda>key. key) 2000000 with_expired ''a'' ''k'' = Some [7]" by code_simp+
    have "key' = ''k''" if "lookup (\<lambda>key. key) 2000000 with_expired ''a'' key' \<noteq> None" for key'
      using that rows(1,2) by (auto simp: lookup_def select_key_def at_key_def at_hash_def in_generation_def map_eq_Cons_conv split: option.splits if_splits)
    with rows(3) show ?thesis by auto
  qed
  with c show ?thesis by (simp add: one_key_def)
qed

text \<open>
  C28. Writing a key does not count as an access to it. Under a limit on bytes and while no entry has
  expired, a write to the key that was read longest ago in its namespace, with a value that takes the
  namespace over the limit, reports success and evicts the value it has just stored: from then on the
  key has no value, neither the new one nor the old one.
\<close>

theorem write_evicts_itself:
  assumes "reachable_db H limits db" "\<forall>r \<in> set (db_entries db). live now r"
    and "map_of (db_namespaces db) ns = Some gen" "v \<in> set (db_entries db)" "at_key ns gen (H key) key v"
    and "\<forall>r \<in> set (db_entries db). in_generation ns gen r \<longrightarrow> before v r"
    and "max_bytes limits = Some limit" "limit < byte_size ns gen db - ce_size v + int (length content)"
    and "validate_namespace ns = Inr ()" "validate_cache_key key = Inr ()" "validate_ttl_seconds ttl = Inr ()"
    and "expires_at now ttl = Inr expires"
  shows "\<exists>db'. CacheStore_set H limits now ns key content ttl db = (Inr (), db') \<and> (\<forall>t. lookup H t db' ns key = None)"
proof -
  have ok: "db_ok H db" by (rule reachable_ok [OF assms(1)])
  from CacheStore_set_within [OF ok assms(9-12,2)] obtain db' where
    "CacheStore_set H limits now ns key content ttl db = (Inr (), db')" by blast
  with CacheStore_set_first [OF ok assms(2-8) this] show ?thesis by blast
qed

definition three_bytes :: CacheLimits where
  "three_bytes = \<lparr>max_keys = None, max_bytes = Some 3\<rparr>"

definition two_values :: cache_db where
  "two_values = snd (run_commands (\<lambda>key. key) three_bytes [(0, CSet ''a'' ''k'' [1] None), (1, CSet ''a'' ''l'' [1] None)] empty_db)"

theorem write_evicts_itself_witness:
  "lookup (\<lambda>key. key) 2 two_values ''a'' ''k'' = Some [1] \<and>
   (\<exists>db'. CacheStore_set (\<lambda>key. key) three_bytes 2 ''a'' ''k'' [1, 2, 3] None two_values = (Inr (), db') \<and>
     (\<forall>t. lookup (\<lambda>key. key) t db' ''a'' ''k'' = None))"
proof
  show "lookup (\<lambda>key. key) 2 two_values ''a'' ''k'' = Some [1]" by code_simp
  let ?v = "hd (db_entries two_values)"
  show "\<exists>db'. CacheStore_set (\<lambda>key. key) three_bytes 2 ''a'' ''k'' [1, 2, 3] None two_values = (Inr (), db') \<and>
      (\<forall>t. lookup (\<lambda>key. key) t db' ''a'' ''k'' = None)"
  proof (rule write_evicts_itself)
    show "reachable_db (\<lambda>key. key) three_bytes two_values"
      unfolding two_values_def by (rule reachable_run [OF reachable_db.start])
    show "\<forall>r \<in> set (db_entries two_values). live 2 r" "map_of (db_namespaces two_values) ''a'' = Some 0"
      "?v \<in> set (db_entries two_values)" "at_key ''a'' 0 ''k'' ''k'' ?v"
      "\<forall>r \<in> set (db_entries two_values). in_generation ''a'' 0 r \<longrightarrow> before ?v r"
      "max_bytes three_bytes = Some 3" "3 < byte_size ''a'' 0 two_values - ce_size ?v + int (length [1, 2, 3 :: 8 word])"
      "validate_namespace ''a'' = Inr ()" "validate_cache_key ''k'' = Inr ()" "validate_ttl_seconds None = Inr ()"
      "expires_at 2 None = Inr None" by code_simp+
  qed
qed

text \<open>
  A write with a payload above the limit, a negative time to live, or a namespace or key that is
  not valid is refused as an invalid argument; the tables stay as they were and the metrics count one
  more failed request.
\<close>

theorem refused_write_changes_nothing:
  assumes "cg_enabled self"
    and "cg_max_payload_bytes self < length (SetCacheRequest_value req) \<or> i64 (SetCacheRequest_ttlSeconds req) < 0 \<or>
      validate_namespace (SetCacheRequest_namespace req) \<noteq> Inr () \<or> validate_cache_key (SetCacheRequest_key req) \<noteq> Inr ()"
    and "CacheGrpc_set lib self req s = (r, s')"
  shows "(\<exists>message. r = Inl \<lparr>s_code = Code_InvalidArgument, s_message = message\<rparr>) \<and> sv_db s' = sv_db s \<and>
    sv_metrics s' = MetricsRegistry_record ''cache'' ''set'' ''invalid_argument'' (sv_latency s) (sv_metrics s)"
proof -
  have ident: "\<exists>m. v = Inl (InvalidArgument m)" if "v = validate_identifier f x" "v \<noteq> Inr ()" for v f x
    using that by (auto simp: validate_identifier_def split: if_splits)
  have key: "\<exists>m. validate_cache_key x = Inl (InvalidArgument m)" if "validate_cache_key x \<noteq> Inr ()" for x
    using that by (auto simp: validate_cache_key_def split: if_splits)
  have ns: "\<exists>m. validate_namespace x = Inl (InvalidArgument m)" if "validate_namespace x \<noteq> Inr ()" for x
    using ident [OF validate_namespace_def [of x]] that by blast
  show ?thesis
  proof (cases "cg_max_payload_bytes self < length (SetCacheRequest_value req) \<or> i64 (SetCacheRequest_ttlSeconds req) < 0")
    case True
    with assms(1,3) show ?thesis
      by (cases "cg_max_payload_bytes self < length (SetCacheRequest_value req)")
        (auto simp: CacheGrpc_set_def record_rpc_def require_def ensure_enabled_def validate_payload_bytes_def Let_def
          Status_from_def PgAppError_code_def status_label_def)
  next
    case False
    then have "validate_namespace (SetCacheRequest_namespace req) \<noteq> Inr () \<or>
        validate_namespace (SetCacheRequest_namespace req) = Inr () \<and> validate_cache_key (SetCacheRequest_key req) \<noteq> Inr ()" using assms(2) by blast
    then obtain m where m: "CacheStore_set H limits now (SetCacheRequest_namespace req) (SetCacheRequest_key req) content ttl db = (Inl (InvalidArgument m), db)"
      for H limits now content ttl db
      using ns [of "SetCacheRequest_namespace req"] key [of "SetCacheRequest_key req"] by (fastforce simp: CacheStore_set_def)
    with False assms(1,3) show ?thesis
      by (cases "i64 (SetCacheRequest_ttlSeconds req) = 0") (auto simp: CacheGrpc_set_def record_rpc_def require_def ensure_enabled_def validate_payload_bytes_def Let_def await_def
          Status_from_def PgAppError_code_def status_label_def)
  qed
qed

theorem refused_write_changes_nothing_witness:
  "sv_db (snd (CacheGrpc_set plain_lib plain_grpc \<lparr>unknownFields = [], SetCacheRequest_namespace = ''a'', SetCacheRequest_key = ''k'',
     SetCacheRequest_value = [], SetCacheRequest_ttlSeconds = ''-1''\<rparr> fresh_server)) = empty_db"
  (is "sv_db (snd (CacheGrpc_set plain_lib plain_grpc ?req fresh_server)) = _")
proof -
  have "cg_enabled plain_grpc" by (simp add: plain_grpc_def)
  moreover have "i64 (SetCacheRequest_ttlSeconds ?req) < 0" by code_simp
  ultimately show ?thesis
    using refused_write_changes_nothing [of plain_grpc ?req plain_lib fresh_server, OF _ _ prod.collapse [symmetric]]
    by (simp add: fresh_server_def)
qed


section \<open>The SDK in front of the service\<close>

text \<open>
  C3. A value that an application writes through the SDK is the value it reads back, byte for byte,
  until the time to live is over, and \<open>null\<close> from then on; without a time to live it stays. This
  holds for a server without capacity limits that takes the write, a transport that speaks the wire
  format, and whatever happened before.
\<close>

theorem sdk_reads_what_it_wrote:
  fixes this :: "('w, 'r, cache_server) PGAppClient"
  assumes "rpc_link (pc_transport this) E st rest payload"
    and "serves_CacheService_Set (pc_transport this) (behind raise (CacheGrpc_set lib self))"
      "serves_CacheService_Get (pc_transport this) (behind raise (CacheGrpc_get lib self))"
    and "cache_inv lib s" "can_write lib self s ns key (encodeBytes v) ttl" "safe_int ttl" "0 \<le> d"
    and "length (SetCacheRequest_encode E \<lparr>unknownFields = [], SetCacheRequest_namespace = ns, SetCacheRequest_key = key,
        SetCacheRequest_value = encodeBytes v, SetCacheRequest_ttlSeconds = dec ttl\<rparr>) < 2147483648"
      "length (OperationResult_encode E \<lparr>unknownFields = [], OperationResult_success = True\<rparr>) < 2147483648"
      "length (GetCacheRequest_encode E \<lparr>unknownFields = [], GetCacheRequest_namespace = ns, GetCacheRequest_key = key\<rparr>) < 2147483648"
      "length (GetCacheResponse_encode E \<lparr>unknownFields = [], GetCacheResponse_hit = True, GetCacheResponse_value = encodeBytes v\<rparr>) < 2147483648"
      "length (GetCacheResponse_encode E \<lparr>unknownFields = [], GetCacheResponse_hit = False, GetCacheResponse_value = []\<rparr>) < 2147483648"
  shows "\<exists>s' s''. CacheClient_set this ns key v (Some (IntNum ttl)) s = (Some (Inr True), s') \<and>
    CacheClient_get this ns key (passes d s') =
      (Some (Inr (if alive (expiry s ttl) (sv_now s + d) then Some (encodeBytes v) else None)), s'')"
  using server.set_wait_get [OF assms(1-5) _ assms(6-)] assms(5) by (simp add: can_write_def)

text \<open>A transport with the two methods.\<close>

definition cache_routes :: "string \<Rightarrow> method_info \<Rightarrow> rpc_options \<Rightarrow> bytes \<Rightarrow> cache_server \<Rightarrow> bytes result \<times> cache_server" where
  "cache_routes service m = (if mi_name m = ''Set''
     then dispatch ''pgapp.v1.CacheService'' (unaryMethod ''Set'' ''pgapp.v1.SetCacheRequest'' ''pgapp.v1.OperationResult'')
       (SetCacheRequest_internalBinaryRead proto_R RU_true) (OperationResult_internalBinaryWrite proto_W WU_true)
       (behind (\<lambda>status. mkError (s_message status)) (CacheGrpc_set plain_lib plain_grpc)) service m
     else dispatch ''pgapp.v1.CacheService'' (unaryMethod ''Get'' ''pgapp.v1.GetCacheRequest'' ''pgapp.v1.GetCacheResponse'')
       (GetCacheRequest_internalBinaryRead proto_R RU_true) (GetCacheResponse_internalBinaryWrite proto_W WU_true)
       (behind (\<lambda>status. mkError (s_message status)) (CacheGrpc_get plain_lib plain_grpc)) service m)"

definition cache_client :: "(bytes list, nat \<times> bytes, cache_server) PGAppClient" where
  "cache_client = PGAppClient_new (\<lambda>host. proto_env cache_routes (\<lambda>service m opt bs s. (([], None), s))) None None"

theorem sdk_reads_what_it_wrote_witness:
  "\<exists>s' s''. CacheClient_set cache_client ''users'' ''42'' (Text ''hi'') (Some (IntNum 60)) fresh_server = (Some (Inr True), s') \<and>
    CacheClient_get cache_client ''users'' ''42'' (passes 59999999 s') = (Some (Inr (Some (encodeBytes (Text ''hi'')))), s'')"
proof -
  let ?raise = "\<lambda>status. mkError (s_message status)"
  have tr: "pc_transport cache_client = proto_env cache_routes (\<lambda>service m opt bs s. (([], None), s))"
    by (simp add: cache_client_def PGAppClient_new_def Let_def)
  have set: "serves_CacheService_Set (pc_transport cache_client) (behind ?raise (CacheGrpc_set plain_lib plain_grpc))"
    unfolding tr by (simp add: serves_def cache_routes_def dispatch_def)
  have get: "serves_CacheService_Get (pc_transport cache_client) (behind ?raise (CacheGrpc_get plain_lib plain_grpc))"
    unfolding tr by (simp add: serves_def cache_routes_def dispatch_def)
  have inv: "cache_inv plain_lib fresh_server" by (simp add: cache_inv_def fresh_server_def db_ok_empty)
  have can: "can_write plain_lib plain_grpc fresh_server ''users'' ''42'' (encodeBytes (Text ''hi'')) 60"
  proof -
    have "expires_at 0 (Some 60) = Inr (Some 60000000)" "validate_namespace ''users'' = Inr ()" "validate_cache_key ''42'' = Inr ()"
      by code_simp+
    then show ?thesis
      by (simp add: can_write_def can_read_def own_hash_def unlimited_def ttl_option_def plain_grpc_def plain_lib_def fresh_server_def
          empty_db_def encodeBytes_def Let_def)
  qed
  have small: "length (SetCacheRequest_encode proto_E \<lparr>unknownFields = [], SetCacheRequest_namespace = ''users'', SetCacheRequest_key = ''42'',
        SetCacheRequest_value = encodeBytes (Text ''hi''), SetCacheRequest_ttlSeconds = dec 60\<rparr>) < 2147483648"
      "length (OperationResult_encode proto_E \<lparr>unknownFields = [], OperationResult_success = True\<rparr>) < 2147483648"
      "length (GetCacheRequest_encode proto_E \<lparr>unknownFields = [], GetCacheRequest_namespace = ''users'', GetCacheRequest_key = ''42''\<rparr>) < 2147483648"
      "length (GetCacheResponse_encode proto_E \<lparr>unknownFields = [], GetCacheResponse_hit = True, GetCacheResponse_value = encodeBytes (Text ''hi'')\<rparr>) < 2147483648"
      "length (GetCacheResponse_encode proto_E \<lparr>unknownFields = [], GetCacheResponse_hit = False, GetCacheResponse_value = []\<rparr>) < 2147483648"
    unfolding SetCacheRequest_encode_def OperationResult_encode_def GetCacheRequest_encode_def GetCacheResponse_encode_def
    by (rule le_less_trans, (rule wire_size)+, simp add: encodeBytes_def Let_def)+
  have "alive (expiry fresh_server 60) (sv_now fresh_server + 59999999)" by code_simp
  moreover have "rpc_link (pc_transport cache_client) proto_E (\<lambda>w. w) snd p_payload" unfolding tr by (rule proto_link)
  ultimately show ?thesis
    using sdk_reads_what_it_wrote [OF _ set get inv can _ _ small, of "\<lambda>w. w" snd p_payload 59999999] by simp
qed

end
