(* ===== verification/Mq_Store.thy ===== *)
theory Mq_Store
  imports Waiting
begin

text \<open>
  \<open>MqStore\<close> of \<open>crates/pgapp-core/src/mq.rs\<close>: the message queues of the server over their tables
  (\<open>migrations/0002_mq.sql\<close>, \<open>0005_dlq.sql\<close>). The tables are lists of rows, the SQL statements
  functions on them. JSON values are a type parameter; what the code takes from libraries and from
  the database (parsing and storing JSON, MD5, random numbers, the order in which a statement visits
  rows, dates) is a record of functions that every operation gets. An operation runs alone and at
  one instant, in microseconds, except where it sleeps. The columns \<open>last_read_at\<close>, \<open>updated_at\<close>,
  \<open>max_receive_count\<close> and \<open>default_visibility_timeout_seconds\<close> are read by no operation and left out.
\<close>


section \<open>Tables\<close>

datatype QueueStorageMode_core = Durable | Transient

record MqLimits =
  lim_max_batch_size :: int
  lim_max_payload_bytes :: nat
  lim_max_visibility_timeout_seconds :: int
  lim_max_redelivery_count :: int

definition MqLimits_default :: MqLimits where
  "MqLimits_default = \<lparr>lim_max_batch_size = 100, lim_max_payload_bytes = 1024 * 1024,
     lim_max_visibility_timeout_seconds = 12 * 60 * 60, lim_max_redelivery_count = 0\<rparr>"

record MqStore =
  ms_transient_enabled :: bool
  ms_limits :: MqLimits

record mq_queue =
  q_id :: int
  q_name :: string
  q_durable :: bool
  q_max_redelivery_count :: "int option"

record 'v mq_message =
  m_id :: int
  m_queue_id :: int
  m_payload :: 'v
  m_headers :: 'v
  m_available_at :: int
  m_visibility_timeout_at :: "int option"
  m_ack_token :: "string option"
  m_read_count :: int
  m_created_at :: int

record 'v mq_archive =
  a_id :: int
  a_queue_id :: int
  a_original_message_id :: int
  a_payload :: 'v
  a_headers :: 'v
  a_read_count :: int
  a_enqueued_at :: int
  a_archived_at :: int

record 'v mq_dead =
  d_id :: int
  d_queue_id :: int
  d_original_message_id :: int
  d_payload :: 'v
  d_headers :: 'v
  d_read_count :: int
  d_enqueued_at :: int
  d_dead_lettered_at :: int
  d_reason :: string

text \<open>The tables with the next number of each sequence, the random numbers drawn, and the notifications sent.\<close>

record 'v mq_db =
  mq_queues :: "mq_queue list"
  mq_messages :: "'v mq_message list"
  mq_archives :: "'v mq_archive list"
  mq_dlq :: "'v mq_dead list"
  mq_next_queue :: int
  mq_next_message :: int
  mq_next_archive :: int
  mq_next_dead :: int
  mq_draws :: nat
  mq_notifications :: "(string \<times> string) list"

definition empty_mq :: "'v mq_db" where
  "empty_mq = \<lparr>mq_queues = [], mq_messages = [], mq_archives = [], mq_dlq = [], mq_next_queue = 1, mq_next_message = 1,
     mq_next_archive = 1, mq_next_dead = 1, mq_draws = 0, mq_notifications = []\<rparr>"

text \<open>
  What comes from libraries and the database: \<open>serde_json::from_str\<close> (a value or the text of an error)
  and \<open>to_string\<close>, what a JSONB column makes of a value and its default, \<open>md5\<close>, the texts of the
  clock and of the random numbers, the order in which an \<open>UPDATE\<close> or \<open>DELETE\<close> visits its rows, the
  text of a time and of a database error, and the sum of a time and seconds (nothing where it panics).
\<close>

record 'v mq_lib =
  ml_parse :: "string \<Rightarrow> string + 'v"
  ml_print :: "'v \<Rightarrow> string"
  ml_jsonb :: "'v \<Rightarrow> db_error + 'v"
  ml_no_headers :: 'v
  ml_md5 :: "string \<Rightarrow> string"
  ml_clock_text :: "int \<Rightarrow> string"
  ml_random_text :: "nat \<Rightarrow> string"
  ml_scan :: "'v mq_message list \<Rightarrow> 'v mq_message list"
  ml_rfc3339 :: "int \<Rightarrow> string"
  ml_db_text :: "db_error \<Rightarrow> string"
  ml_deadline :: "int \<Rightarrow> int \<Rightarrow> int option"


section \<open>Messages of the store\<close>

record 'v QueueMessage_core =
  qm_id :: int
  qm_read_count :: int
  qm_enqueued_at :: int
  qm_visibility_timeout_at :: "int option"
  qm_ack_token :: string
  qm_payload :: 'v

record QueueMetrics =
  qs_visible_message_count :: int
  qs_in_flight_message_count :: int
  qs_oldest_visible_message_age_seconds :: int
  qs_archived_message_count :: int
  qs_dlq_message_count :: int

record 'v DlqMessage_core =
  dm_id :: int
  dm_original_message_id :: int
  dm_read_count :: int
  dm_enqueued_at :: int
  dm_dead_lettered_at :: int
  dm_payload :: 'v
  dm_reason :: string

record 'v DlqPage =
  dp_messages :: "'v DlqMessage_core list"
  dp_next_offset :: "int option"

definition row_to_message :: "'v mq_message \<Rightarrow> 'v QueueMessage_core" where
  "row_to_message m = \<lparr>qm_id = m_id m, qm_read_count = m_read_count m, qm_enqueued_at = m_created_at m,
     qm_visibility_timeout_at = m_visibility_timeout_at m,
     qm_ack_token = (case m_ack_token m of None \<Rightarrow> '''' | Some t \<Rightarrow> t), qm_payload = m_payload m\<rparr>"

definition row_to_dlq_message :: "'v mq_dead \<Rightarrow> 'v DlqMessage_core" where
  "row_to_dlq_message d = \<lparr>dm_id = d_id d, dm_original_message_id = d_original_message_id d, dm_read_count = d_read_count d,
     dm_enqueued_at = d_enqueued_at d, dm_dead_lettered_at = d_dead_lettered_at d, dm_payload = d_payload d, dm_reason = d_reason d\<rparr>"


section \<open>Checks\<close>

definition parse_json_payload :: "'v mq_lib \<Rightarrow> string \<Rightarrow> pg_error + 'v" where
  "parse_json_payload lib payload = (case ml_parse lib payload of
     Inl err \<Rightarrow> Inl (InvalidArgument (''invalid JSON payload: '' @ err)) | Inr v \<Rightarrow> Inr v)"

text \<open>\<open>max_batch_size as usize\<close> wraps a negative number around.\<close>

definition MqStore_validate_batch_len :: "MqStore \<Rightarrow> nat \<Rightarrow> pg_error + unit" where
  "MqStore_validate_batch_len self len = (if lim_max_batch_size (ms_limits self) mod 2 ^ 64 < int len
     then Inl (InvalidArgument (''batch size must be less than or equal to '' @ dec (lim_max_batch_size (ms_limits self))))
     else Inr ())"

definition validate_payload_size :: "MqStore \<Rightarrow> string \<Rightarrow> pg_error + unit" where
  "validate_payload_size self payload = (if lim_max_payload_bytes (ms_limits self) < length (utf8 payload)
     then Inl (InvalidArgument (''payload exceeds '' @ dec (int (lim_max_payload_bytes (ms_limits self))) @ '' bytes''))
     else Inr ())"

definition validate_visibility_timeout :: "MqStore \<Rightarrow> int \<Rightarrow> pg_error + unit" where
  "validate_visibility_timeout self seconds = (if lim_max_visibility_timeout_seconds (ms_limits self) < seconds
     then Inl (InvalidArgument (''visibility_timeout_seconds must be less than or equal to '' @
       dec (lim_max_visibility_timeout_seconds (ms_limits self)))) else Inr ())"

definition page_limit :: "MqStore \<Rightarrow> int \<Rightarrow> pg_error + int" where
  "page_limit self limit = (if limit < 0 then Inl (InvalidArgument ''limit must not be negative'')
     else if limit = 0 then Inr (lim_max_batch_size (ms_limits self))
     else Inr (min limit (lim_max_batch_size (ms_limits self))))"

definition validate_ack_token :: "string \<Rightarrow> pg_error + unit" where
  "validate_ack_token ack_token = (if list_all is_whitespace ack_token
     then Inl (InvalidArgument ''ack_token must not be empty'')
     else if 256 < length (utf8 ack_token)
     then Inl (InvalidArgument ''ack_token must be at most 256 bytes'') else Inr ())"

text \<open>\<open>mq_channel\<close> of \<open>listen.rs\<close>\<close>

definition mq_channel :: "string \<Rightarrow> pg_error + string" where
  "mq_channel queue_name = (case validate_queue_name queue_name of Inl e \<Rightarrow> Inl e | Inr _ \<Rightarrow> Inr (''pgapp_mq_'' @ queue_name))"


section \<open>Statements\<close>

definition queue_id :: "string \<Rightarrow> ('v mq_db, int) sql_op" where
  "queue_id queue_name = check (validate_queue_name queue_name) (\<lambda>db.
     case find (\<lambda>q. q_name q = queue_name) (mq_queues db) of
       None \<Rightarrow> (Inl (NotFound (''queue '' @ queue_name)), db) | Some q \<Rightarrow> (Inr (q_id q), db))"

text \<open>\<open>INSERT INTO mq_messages(queue_id, payload, available_at) ... RETURNING id\<close>\<close>

definition insert_message :: "'v mq_lib \<Rightarrow> int \<Rightarrow> int \<Rightarrow> 'v \<Rightarrow> int \<Rightarrow> ('v mq_db, int) sql_op" where
  "insert_message lib now qid payload delay_seconds =
     given (map_sum Database id (ml_jsonb lib payload)) (\<lambda>v. given (timestamp_after now delay_seconds) (\<lambda>at db.
       (Inr (mq_next_message db), db\<lparr>mq_messages := mq_messages db @ [\<lparr>m_id = mq_next_message db, m_queue_id = qid, m_payload = v,
            m_headers = ml_no_headers lib, m_available_at = at, m_visibility_timeout_at = None, m_ack_token = None, m_read_count = 0,
            m_created_at = now\<rparr>], mq_next_message := mq_next_message db + 1\<rparr>)))"

text \<open>
  \<open>pg_notify\<close> refuses a channel whose name does not fit an identifier of PostgreSQL, which has 63 bytes.
  A notification is sent when the transaction commits.
\<close>

definition pg_notify :: "string \<Rightarrow> string \<Rightarrow> ('v mq_db, unit) sql_op" where
  "pg_notify channel payload db = (if 64 \<le> length (utf8 channel) then (Inl (Database InvalidParameterValue), db)
     else (Inr (), db\<lparr>mq_notifications := mq_notifications db @ [(channel, payload)]\<rparr>))"

definition notify_queue :: "string \<Rightarrow> nat \<Rightarrow> ('v mq_db, unit) sql_op" where
  "notify_queue queue_name count = given (mq_channel queue_name) (\<lambda>channel. pg_notify channel (dec (int count)))"

text \<open>\<open>available_at <= now() AND (visibility_timeout_at IS NULL OR visibility_timeout_at <= now())\<close>\<close>

definition visible :: "int \<Rightarrow> 'v mq_message \<Rightarrow> bool" where
  "visible now m \<longleftrightarrow> m_available_at m \<le> now \<and>
     (case m_visibility_timeout_at m of None \<Rightarrow> True | Some at \<Rightarrow> at \<le> now)"

text \<open>\<open>visibility_timeout_at > now()\<close>, which a missing value is not.\<close>

definition in_flight :: "int \<Rightarrow> 'v mq_message \<Rightarrow> bool" where
  "in_flight now m = (case m_visibility_timeout_at m of None \<Rightarrow> False | Some at \<Rightarrow> now < at)"

text \<open>The delivery that a client holds: its message with its token, while it is not over.\<close>

definition delivery :: "int \<Rightarrow> int \<Rightarrow> int \<Rightarrow> string \<Rightarrow> 'v mq_message \<Rightarrow> bool" where
  "delivery now qid message_id ack_token m \<longleftrightarrow>
     m_queue_id m = qid \<and> m_id m = message_id \<and> m_ack_token m = Some ack_token \<and> in_flight now m"

definition delete_messages :: "('v mq_message \<Rightarrow> bool) \<Rightarrow> 'v mq_db \<Rightarrow> 'v mq_db" where
  "delete_messages P db = db\<lparr>mq_messages := filter (\<lambda>m. \<not> P m) (mq_messages db)\<rparr>"

text \<open>\<open>INSERT INTO mq_dlq ... ON CONFLICT (queue_id, original_message_id) DO NOTHING\<close>, with the rows it made.\<close>

definition insert_dead :: "int \<Rightarrow> string \<Rightarrow> 'v mq_message \<Rightarrow> int \<times> 'v mq_db \<Rightarrow> int \<times> 'v mq_db" where
  "insert_dead now reason m = (\<lambda>(n, db).
     if list_ex (\<lambda>d. d_queue_id d = m_queue_id m \<and> d_original_message_id d = m_id m) (mq_dlq db) then (n, db)
     else (n + 1, db\<lparr>mq_dlq := mq_dlq db @ [\<lparr>d_id = mq_next_dead db, d_queue_id = m_queue_id m, d_original_message_id = m_id m,
            d_payload = m_payload m, d_headers = m_headers m, d_read_count = m_read_count m, d_enqueued_at = m_created_at m,
            d_dead_lettered_at = now, d_reason = reason\<rparr>], mq_next_dead := mq_next_dead db + 1\<rparr>))"

text \<open>\<open>WITH moved AS (DELETE FROM mq_messages ... RETURNING ...) INSERT INTO mq_dlq ...\<close>\<close>

definition move_to_dlq :: "'v mq_lib \<Rightarrow> int \<Rightarrow> string \<Rightarrow> ('v mq_message \<Rightarrow> bool) \<Rightarrow> 'v mq_db \<Rightarrow> int \<times> 'v mq_db" where
  "move_to_dlq lib now reason P db =
     fold (insert_dead now reason) (ml_scan lib (filter P (mq_messages db))) (0, delete_messages P db)"

definition dead_letter_due_messages :: "'v mq_lib \<Rightarrow> int \<Rightarrow> int \<Rightarrow> ('v mq_db, int) sql_op" where
  "dead_letter_due_messages lib now qid db = (case find (\<lambda>q. q_id q = qid) (mq_queues db) of None \<Rightarrow> (Inr 0, db)
     | Some q \<Rightarrow> let limit = (case q_max_redelivery_count q of None \<Rightarrow> 0 | Some n \<Rightarrow> n) in
         map_prod Inr id (move_to_dlq lib now (''max_redelivery_count='' @ dec limit)
           (\<lambda>m. m_queue_id m = qid \<and> 0 < limit \<and> limit \<le> m_read_count m \<and> visible now m) db))"

text \<open>\<open>md5(m.id::text || ':' || (m.read_count + 1)::text || ':' || clock_timestamp()::text || ':' || random()::text)\<close>\<close>

definition new_token :: "'v mq_lib \<Rightarrow> int \<Rightarrow> nat \<Rightarrow> 'v mq_message \<Rightarrow> string" where
  "new_token lib now draw m = ml_md5 lib (dec (m_id m) @ '':'' @ dec (m_read_count m + 1) @ '':'' @ ml_clock_text lib now @ '':'' @
     ml_random_text lib draw)"

definition claimed :: "'v mq_lib \<Rightarrow> int \<Rightarrow> int \<Rightarrow> nat \<times> 'v mq_message \<Rightarrow> 'v mq_message" where
  "claimed lib now until = (\<lambda>(draw, m). m\<lparr>m_visibility_timeout_at := Some until, m_ack_token := Some (new_token lib now draw m),
     m_read_count := m_read_count m + 1\<rparr>)"

text \<open>\<open>SELECT id ... ORDER BY id LIMIT $2 FOR UPDATE SKIP LOCKED\<close>: no other operation holds a lock.\<close>

definition picked :: "int \<Rightarrow> int \<Rightarrow> int \<Rightarrow> 'v mq_db \<Rightarrow> 'v mq_message list" where
  "picked now qid quantity db = take (nat quantity) (sort_key m_id (filter (\<lambda>m. m_queue_id m = qid \<and> visible now m) (mq_messages db)))"

text \<open>The rows that an \<open>UPDATE\<close> changed, in place of those with their ids.\<close>

definition replace_rows :: "'v mq_message list \<Rightarrow> 'v mq_message list \<Rightarrow> 'v mq_message list" where
  "replace_rows changed = map (\<lambda>m. case find (\<lambda>m'. m_id m' = m_id m) changed of None \<Rightarrow> m | Some m' \<Rightarrow> m')"

text \<open>
  \<open>WITH picked AS (...) UPDATE mq_messages ... RETURNING ...\<close>. The new times and counts are computed for the
  rows that were picked: without one nothing can fail. The count of a message is a 32-bit integer, and an
  \<open>UPDATE\<close> that overflows it fails. The rows come back in the order in which the statement visits them.
\<close>

definition claim :: "'v mq_lib \<Rightarrow> int \<Rightarrow> int \<Rightarrow> int \<Rightarrow> int \<Rightarrow> ('v mq_db, 'v mq_message list) sql_op" where
  "claim lib now qid quantity visibility_timeout_seconds db = (let rows = picked now qid quantity db in
     if rows = [] then (Inr [], db)
     else given (timestamp_after now visibility_timeout_seconds) (\<lambda>until db.
       let changed = map (claimed lib now until) (enumerate (mq_draws db) rows)
       in if list_ex (\<lambda>m. m_read_count m = 2147483647) rows then (Inl (Database NumericValueOutOfRange), db)
          else (Inr (ml_scan lib changed), db\<lparr>mq_messages := replace_rows changed (mq_messages db),
                 mq_draws := mq_draws db + length rows\<rparr>)) db)"


section \<open>Operations\<close>

definition MqStore_create_queue :: "MqStore \<Rightarrow> string \<Rightarrow> QueueStorageMode_core \<Rightarrow> ('v mq_db, unit) sql_op" where
  "MqStore_create_queue self queue_name mode = check (validate_queue_name queue_name) (\<lambda>db.
     if mode = Transient \<and> \<not> ms_transient_enabled self then (Inl (InvalidArgument ''transient queues are disabled''), db)
     else if list_ex (\<lambda>q. q_name q = queue_name) (mq_queues db) then (Inr (), db)
     else (Inr (), db\<lparr>mq_queues := mq_queues db @ [\<lparr>q_id = mq_next_queue db, q_name = queue_name, q_durable = (mode = Durable),
            q_max_redelivery_count = (if lim_max_redelivery_count (ms_limits self) = 0 then None
              else Some (lim_max_redelivery_count (ms_limits self)))\<rparr>], mq_next_queue := mq_next_queue db + 1\<rparr>))"

definition MqStore_purge_queue :: "string \<Rightarrow> ('v mq_db, unit) sql_op" where
  "MqStore_purge_queue queue_name = andThen (queue_id queue_name) (\<lambda>qid db.
     (Inr (), delete_messages (\<lambda>m. m_queue_id m = qid) db))"

text \<open>\<open>DELETE FROM mq_queues\<close>, whose rows in the other tables go with it (\<open>ON DELETE CASCADE\<close>).\<close>

definition MqStore_drop_queue :: "string \<Rightarrow> ('v mq_db, unit) sql_op" where
  "MqStore_drop_queue queue_name = check (validate_queue_name queue_name) (\<lambda>db.
     let dropped = filter (\<lambda>q. q_name q = queue_name) (mq_queues db); gone = (\<lambda>qid. qid \<in> set (map q_id dropped))
     in if dropped = [] then (Inl (NotFound (''queue '' @ queue_name)), db)
        else (Inr (), db\<lparr>mq_queues := filter (\<lambda>q. q_name q \<noteq> queue_name) (mq_queues db),
               mq_messages := filter (\<lambda>m. \<not> gone (m_queue_id m)) (mq_messages db),
               mq_archives := filter (\<lambda>a. \<not> gone (a_queue_id a)) (mq_archives db),
               mq_dlq := filter (\<lambda>d. \<not> gone (d_queue_id d)) (mq_dlq db)\<rparr>))"

definition send_value :: "'v mq_lib \<Rightarrow> int \<Rightarrow> string \<Rightarrow> 'v \<Rightarrow> int \<Rightarrow> ('v mq_db, int) sql_op" where
  "send_value lib now queue_name payload delay_seconds = check (validate_non_negative_seconds ''delay_seconds'' delay_seconds)
     (andThen (queue_id queue_name) (\<lambda>qid. transaction (
        andThen (insert_message lib now qid payload delay_seconds) (\<lambda>ident.
        andThen (notify_queue queue_name 1) (\<lambda>_ db. (Inr ident, db))))))"

definition MqStore_send :: "'v mq_lib \<Rightarrow> MqStore \<Rightarrow> int \<Rightarrow> string \<Rightarrow> string \<Rightarrow> int \<Rightarrow> ('v mq_db, int) sql_op" where
  "MqStore_send lib self now queue_name json_payload delay_seconds = check (validate_payload_size self json_payload)
     (given (parse_json_payload lib json_payload) (\<lambda>payload. send_value lib now queue_name payload delay_seconds))"

text \<open>\<open>collect\<close> over the payloads: the first one that is refused decides.\<close>

fun parse_payloads :: "'v mq_lib \<Rightarrow> MqStore \<Rightarrow> string list \<Rightarrow> pg_error + 'v list" where
  "parse_payloads lib self [] = Inr []"
| "parse_payloads lib self (payload # payloads) = (case validate_payload_size self payload of Inl e \<Rightarrow> Inl e
     | Inr _ \<Rightarrow> (case parse_json_payload lib payload of Inl e \<Rightarrow> Inl e
       | Inr v \<Rightarrow> (case parse_payloads lib self payloads of Inl e \<Rightarrow> Inl e | Inr vs \<Rightarrow> Inr (v # vs))))"

fun insert_messages :: "'v mq_lib \<Rightarrow> int \<Rightarrow> int \<Rightarrow> 'v list \<Rightarrow> int \<Rightarrow> ('v mq_db, int list) sql_op" where
  "insert_messages lib now qid [] delay_seconds db = (Inr [], db)"
| "insert_messages lib now qid (payload # payloads) delay_seconds db = andThen (insert_message lib now qid payload delay_seconds)
     (\<lambda>ident. andThen (insert_messages lib now qid payloads delay_seconds) (\<lambda>ids db. (Inr (ident # ids), db))) db"

definition MqStore_send_batch ::
  "'v mq_lib \<Rightarrow> MqStore \<Rightarrow> int \<Rightarrow> string \<Rightarrow> string list \<Rightarrow> int \<Rightarrow> ('v mq_db, int list) sql_op" where
  "MqStore_send_batch lib self now queue_name json_payloads delay_seconds =
     check (MqStore_validate_batch_len self (length json_payloads))
     (check (validate_non_negative_seconds ''delay_seconds'' delay_seconds)
     (if json_payloads = [] then (\<lambda>db. (Inr [], db))
      else andThen (queue_id queue_name) (\<lambda>qid. given (parse_payloads lib self json_payloads) (\<lambda>payloads. transaction (
        andThen (insert_messages lib now qid payloads delay_seconds) (\<lambda>ids.
        andThen (notify_queue queue_name (length ids)) (\<lambda>_ db. (Inr ids, db))))))))"

definition MqStore_read ::
  "'v mq_lib \<Rightarrow> MqStore \<Rightarrow> int \<Rightarrow> string \<Rightarrow> int \<Rightarrow> int \<Rightarrow> ('v mq_db, 'v QueueMessage_core list) sql_op" where
  "MqStore_read lib self now queue_name quantity visibility_timeout_seconds =
     check (validate_quantity quantity (lim_max_batch_size (ms_limits self)))
     (check (validate_non_negative_seconds ''visibility_timeout_seconds'' visibility_timeout_seconds)
     (check (validate_visibility_timeout self visibility_timeout_seconds)
     (andThen (queue_id queue_name) (\<lambda>qid.
      andThen (dead_letter_due_messages lib now qid) (\<lambda>_.
      andThen (claim lib now qid quantity visibility_timeout_seconds) (\<lambda>rows db. (Inr (map row_to_message rows), db)))))))"

definition MqStore_dead_letter :: "'v mq_lib \<Rightarrow> int \<Rightarrow> string \<Rightarrow> int \<Rightarrow> string \<Rightarrow> ('v mq_db, bool) sql_op" where
  "MqStore_dead_letter lib now queue_name message_id reason = andThen (queue_id queue_name) (\<lambda>qid db.
     case move_to_dlq lib now reason (\<lambda>m. m_queue_id m = qid \<and> m_id m = message_id) db of (moved, db') \<Rightarrow> (Inr (0 < moved), db'))"

text \<open>\<open>ORDER BY dead_lettered_at DESC, id DESC\<close>\<close>

definition dlq_rows :: "int \<Rightarrow> 'v mq_db \<Rightarrow> 'v mq_dead list" where
  "dlq_rows qid db = sort_key (\<lambda>d. - d_dead_lettered_at d) (sort_key (\<lambda>d. - d_id d) (filter (\<lambda>d. d_queue_id d = qid) (mq_dlq db)))"

definition MqStore_list_dlq_messages :: "MqStore \<Rightarrow> string \<Rightarrow> int \<Rightarrow> int \<Rightarrow> ('v mq_db, 'v DlqPage) sql_op" where
  "MqStore_list_dlq_messages self queue_name limit offset = andThen (queue_id queue_name) (\<lambda>qid db.
     if offset < 0 then (Inl (InvalidArgument ''offset must not be negative''), db)
     else given (page_limit self limit) (\<lambda>limit db.
       if limit + 1 < 0 then (Inl (Database InvalidRowCountInLimit), db)
       else let rows = take (nat (limit + 1)) (drop (nat offset) (dlq_rows qid db)); has_more = limit < int (length rows)
         in (Inr \<lparr>dp_messages = map row_to_dlq_message (take (nat (limit mod 2 ^ 64)) rows),
                  dp_next_offset = (if has_more then Some (offset + limit) else None)\<rparr>, db)) db)"

definition MqStore_get_dlq_message :: "string \<Rightarrow> int \<Rightarrow> ('v mq_db, 'v DlqMessage_core) sql_op" where
  "MqStore_get_dlq_message queue_name original_message_id = andThen (queue_id queue_name) (\<lambda>qid db.
     case find (\<lambda>d. d_queue_id d = qid \<and> d_original_message_id d = original_message_id) (mq_dlq db) of
       None \<Rightarrow> (Inl (NotFound (''DLQ message '' @ dec original_message_id)), db)
     | Some d \<Rightarrow> (Inr (row_to_dlq_message d), db))"

text \<open>\<open>INSERT INTO mq_messages(id, ...)\<close> with the id the message had, which must be free.\<close>

definition reinsert :: "'v mq_lib \<Rightarrow> int \<Rightarrow> 'v mq_dead \<Rightarrow> ('v mq_db, unit) sql_op" where
  "reinsert lib now d db = (if list_ex (\<lambda>m. m_id m = d_original_message_id d) (mq_messages db)
     then (Inl (Database UniqueViolation), db)
     else (Inr (), db\<lparr>mq_messages := mq_messages db @ [\<lparr>m_id = d_original_message_id d, m_queue_id = d_queue_id d, m_payload = d_payload d,
            m_headers = ml_no_headers lib, m_available_at = now, m_visibility_timeout_at = None, m_ack_token = None, m_read_count = 0,
            m_created_at = d_enqueued_at d\<rparr>]\<rparr>))"

fun reinsert_all :: "'v mq_lib \<Rightarrow> int \<Rightarrow> 'v mq_dead list \<Rightarrow> ('v mq_db, int) sql_op" where
  "reinsert_all lib now [] db = (Inr 0, db)"
| "reinsert_all lib now (d # ds) db = andThen (reinsert lib now d)
     (\<lambda>_. andThen (reinsert_all lib now ds) (\<lambda>n db. (Inr (n + 1), db))) db"

definition MqStore_reprocess_dlq_message :: "'v mq_lib \<Rightarrow> int \<Rightarrow> string \<Rightarrow> int \<Rightarrow> ('v mq_db, bool) sql_op" where
  "MqStore_reprocess_dlq_message lib now queue_name original_message_id = andThen (queue_id queue_name) (\<lambda>qid. transaction (\<lambda>db.
     let P = (\<lambda>d. d_queue_id d = qid \<and> d_original_message_id d = original_message_id)
     in andThen (reinsert_all lib now (filter P (mq_dlq db))) (\<lambda>inserted db. (Inr (0 < inserted), db))
          (db\<lparr>mq_dlq := filter (\<lambda>d. \<not> P d) (mq_dlq db)\<rparr>)))"

definition MqStore_purge_dlq :: "string \<Rightarrow> ('v mq_db, int) sql_op" where
  "MqStore_purge_dlq queue_name = andThen (queue_id queue_name) (\<lambda>qid db.
     (Inr (int (length (filter (\<lambda>d. d_queue_id d = qid) (mq_dlq db)))),
      db\<lparr>mq_dlq := filter (\<lambda>d. d_queue_id d \<noteq> qid) (mq_dlq db)\<rparr>))"

text \<open>
  \<open>now() - days::double precision * interval '1 day'\<close>, in a session whose time zone has no summer time: the
  days of an interval are a 32-bit integer, and the first timestamp is in 4714 BC.
\<close>

definition first_timestamp :: int where
  "first_timestamp = - 211813488000000000"

definition days_before :: "int \<Rightarrow> int \<Rightarrow> pg_error + int" where
  "days_before now days = (let at = now - days * 86400000000
     in if days \<le> 2147483647 \<and> first_timestamp \<le> at then Inr at else Inl (Database DatetimeValueOutOfRange))"

definition MqStore_sweep_dlq :: "int \<Rightarrow> int \<Rightarrow> ('v mq_db, int) sql_op" where
  "MqStore_sweep_dlq now retention_days = (if retention_days \<le> 0 then (\<lambda>db. (Inr 0, db))
     else given (days_before now retention_days) (\<lambda>at db.
       (Inr (int (length (filter (\<lambda>d. d_dead_lettered_at d < at) (mq_dlq db)))),
        db\<lparr>mq_dlq := filter (\<lambda>d. \<not> d_dead_lettered_at d < at) (mq_dlq db)\<rparr>)))"

definition MqStore_ack :: "int \<Rightarrow> string \<Rightarrow> int \<Rightarrow> string \<Rightarrow> ('v mq_db, bool) sql_op" where
  "MqStore_ack now queue_name message_id ack_token = check (validate_ack_token ack_token) (andThen (queue_id queue_name) (\<lambda>qid db.
     (Inr (list_ex (delivery now qid message_id ack_token) (mq_messages db)),
      delete_messages (delivery now qid message_id ack_token) db)))"

definition archive_row :: "int \<Rightarrow> 'v mq_message \<Rightarrow> 'v mq_db \<Rightarrow> 'v mq_db" where
  "archive_row now m db = db\<lparr>mq_archives := mq_archives db @ [\<lparr>a_id = mq_next_archive db, a_queue_id = m_queue_id m,
     a_original_message_id = m_id m, a_payload = m_payload m, a_headers = m_headers m, a_read_count = m_read_count m,
     a_enqueued_at = m_created_at m, a_archived_at = now\<rparr>], mq_next_archive := mq_next_archive db + 1\<rparr>"

definition MqStore_archive :: "int \<Rightarrow> string \<Rightarrow> int \<Rightarrow> string \<Rightarrow> ('v mq_db, bool) sql_op" where
  "MqStore_archive now queue_name message_id ack_token = check (validate_ack_token ack_token) (andThen (queue_id queue_name)
     (\<lambda>qid. transaction (\<lambda>db. let moved = filter (delivery now qid message_id ack_token) (mq_messages db)
        in (Inr (moved \<noteq> []), fold (archive_row now) moved (delete_messages (delivery now qid message_id ack_token) db)))))"

text \<open>The \<open>UPDATE\<close> computes the new time for the row it finds; without one nothing can fail.\<close>

definition MqStore_set_visibility_timeout :: "MqStore \<Rightarrow> int \<Rightarrow> string \<Rightarrow> int \<Rightarrow> string \<Rightarrow> int \<Rightarrow> ('v mq_db, bool) sql_op" where
  "MqStore_set_visibility_timeout self now queue_name message_id ack_token visibility_timeout_seconds =
     check (validate_ack_token ack_token)
     (check (validate_non_negative_seconds ''visibility_timeout_seconds'' visibility_timeout_seconds)
     (check (validate_visibility_timeout self visibility_timeout_seconds)
     (andThen (queue_id queue_name) (\<lambda>qid db. if \<not> list_ex (delivery now qid message_id ack_token) (mq_messages db) then (Inr False, db)
      else given (timestamp_after now visibility_timeout_seconds) (\<lambda>until db.
        (Inr True, db\<lparr>mq_messages := map (\<lambda>m. if delivery now qid message_id ack_token m
             then m\<lparr>m_visibility_timeout_at := Some until\<rparr> else m) (mq_messages db)\<rparr>)) db))))"

text \<open>\<open>EXTRACT(EPOCH FROM ...)::bigint\<close> rounds to the nearest second, halves away from zero.\<close>

definition epoch :: "int \<Rightarrow> int" where
  "epoch micros = (if 0 \<le> micros then (micros + 500000) div 1000000 else - ((500000 - micros) div 1000000))"

definition MqStore_metrics :: "int \<Rightarrow> string \<Rightarrow> ('v mq_db, QueueMetrics) sql_op" where
  "MqStore_metrics now queue_name = andThen (queue_id queue_name) (\<lambda>qid db.
     let rows = filter (\<lambda>m. m_queue_id m = qid) (mq_messages db); shown = filter (visible now) rows
     in (Inr \<lparr>qs_visible_message_count = int (length shown), qs_in_flight_message_count = int (length (filter (in_flight now) rows)),
          qs_oldest_visible_message_age_seconds = (if shown = [] then 0 else epoch (now - Min (m_created_at ` set shown))),
          qs_archived_message_count = int (length (filter (\<lambda>a. a_queue_id a = qid) (mq_archives db))),
          qs_dlq_message_count = int (length (filter (\<lambda>d. d_queue_id d = qid) (mq_dlq db)))\<rparr>, db))"


section \<open>Waiting for messages\<close>

definition MqStore_read_with_poll :: "'v mq_lib \<Rightarrow> MqStore \<Rightarrow> 'v mq_db world \<Rightarrow> int option \<Rightarrow> string \<Rightarrow> int \<Rightarrow> int \<Rightarrow> int \<Rightarrow> int \<Rightarrow> 'v mq_db \<times> int \<Rightarrow>
    (pg_error + 'v QueueMessage_core list, 'v mq_db \<times> int) outcome option" where
  "MqStore_read_with_poll lib self others dropped queue_name quantity visibility_timeout_seconds max_poll_seconds poll_interval_millis st =
     (case check (validate_quantity quantity (lim_max_batch_size (ms_limits self)))
         (check (validate_non_negative_seconds ''visibility_timeout_seconds'' visibility_timeout_seconds)
         (check (validate_visibility_timeout self visibility_timeout_seconds)
         (check (validate_non_negative_seconds ''max_poll_seconds'' max_poll_seconds) (\<lambda>db. (Inr (), db))))) (fst st) of
       (Inl e, db) \<Rightarrow> Some (Returned (Inl e) (db, snd st))
     | (Inr _, db) \<Rightarrow> (case ml_deadline lib (snd st) max_poll_seconds of None \<Rightarrow> Some Panicked
         | Some deadline \<Rightarrow> poll_loop (\<lambda>now. MqStore_read lib self now queue_name quantity visibility_timeout_seconds)
             (\<lambda>messages. messages \<noteq> []) others dropped
             (poll_interval poll_interval_millis) deadline 0 st))"

end
