(* ===== verification/Mq_Steps.thy ===== *)
theory Mq_Steps
  imports Mq_Store "HOL-Library.Multiset"
begin

text \<open>
  The queues as a state machine: a step changes one message, or removes the messages of a queue, and
  every operation of \<open>MqStore\<close> is a sequence of steps that its reply explains. Properties of the
  queues are proved of single steps, by rule induction, and carried to runs of operations.
\<close>


section \<open>Commands\<close>

datatype mq_command =
    QCreate string QueueStorageMode_core
  | QPurge string
  | QDrop string
  | QSend string string int
  | QSendBatch string "string list" int
  | QRead string int int
  | QDeadLetter string int string
  | QListDlq string int int
  | QGetDlq string int
  | QReprocess string int
  | QPurgeDlq string
  | QSweepDlq int
  | QAck string int string
  | QArchive string int string
  | QSetVisibility string int string int
  | QMetrics string

datatype 'v mq_reply = RDone | RIds "int list" | RMessages "'v QueueMessage_core list" | RFlag bool | RPage "'v DlqPage"
  | RDead "'v DlqMessage_core" | RCount int | RMetrics QueueMetrics

definition mq_reply :: "('a \<Rightarrow> 'v mq_reply) \<Rightarrow> ('v mq_db, 'a) sql_op \<Rightarrow> ('v mq_db, 'v mq_reply) sql_op" where
  "mq_reply f op = andThen op (\<lambda>x db. (Inr (f x), db))"

fun run_mq :: "'v mq_lib \<Rightarrow> MqStore \<Rightarrow> int \<Rightarrow> mq_command \<Rightarrow> ('v mq_db, 'v mq_reply) sql_op" where
  "run_mq lib self now (QCreate name mode) = mq_reply (\<lambda>_. RDone) (MqStore_create_queue self name mode)"
| "run_mq lib self now (QPurge name) = mq_reply (\<lambda>_. RDone) (MqStore_purge_queue name)"
| "run_mq lib self now (QDrop name) = mq_reply (\<lambda>_. RDone) (MqStore_drop_queue name)"
| "run_mq lib self now (QSend name payload delay) = mq_reply (\<lambda>i. RIds [i]) (MqStore_send lib self now name payload delay)"
| "run_mq lib self now (QSendBatch name payloads delay) = mq_reply RIds (MqStore_send_batch lib self now name payloads delay)"
| "run_mq lib self now (QRead name quantity timeout) = mq_reply RMessages (MqStore_read lib self now name quantity timeout)"
| "run_mq lib self now (QDeadLetter name i reason) = mq_reply RFlag (MqStore_dead_letter lib now name i reason)"
| "run_mq lib self now (QListDlq name limit offset) = mq_reply RPage (MqStore_list_dlq_messages self name limit offset)"
| "run_mq lib self now (QGetDlq name i) = mq_reply RDead (MqStore_get_dlq_message name i)"
| "run_mq lib self now (QReprocess name i) = mq_reply RFlag (MqStore_reprocess_dlq_message lib now name i)"
| "run_mq lib self now (QPurgeDlq name) = mq_reply RCount (MqStore_purge_dlq name)"
| "run_mq lib self now (QSweepDlq days) = mq_reply RCount (MqStore_sweep_dlq now days)"
| "run_mq lib self now (QAck name i token) = mq_reply RFlag (MqStore_ack now name i token)"
| "run_mq lib self now (QArchive name i token) = mq_reply RFlag (MqStore_archive now name i token)"
| "run_mq lib self now (QSetVisibility name i token seconds) = mq_reply RFlag (MqStore_set_visibility_timeout self now name i token seconds)"
| "run_mq lib self now (QMetrics name) = mq_reply RMetrics (MqStore_metrics now name)"

fun run_mqs :: "'v mq_lib \<Rightarrow> MqStore \<Rightarrow> (int \<times> mq_command) list \<Rightarrow> 'v mq_db \<Rightarrow> (pg_error + 'v mq_reply) list \<times> 'v mq_db" where
  "run_mqs lib self [] db = ([], db)"
| "run_mqs lib self ((now, cmd) # cmds) db = (case run_mq lib self now cmd db of (r, db1) \<Rightarrow>
     (case run_mqs lib self cmds db1 of (rs, db2) \<Rightarrow> (r # rs, db2)))"

inductive reachable_mq :: "'v mq_lib \<Rightarrow> MqStore \<Rightarrow> 'v mq_db \<Rightarrow> bool" for lib self where
  start: "reachable_mq lib self empty_mq"
| step: "reachable_mq lib self db \<Longrightarrow> run_mq lib self now cmd db = (r, db') \<Longrightarrow> reachable_mq lib self db'"

text \<open>A statement visits each row that it changes once, in some order.\<close>

definition scans :: "'v mq_lib \<Rightarrow> bool" where
  "scans lib \<longleftrightarrow> (\<forall>rows. mset (ml_scan lib rows) = mset rows)"


section \<open>Consistent tables\<close>

definition has_queue :: "'v mq_db \<Rightarrow> int \<Rightarrow> bool" where
  "has_queue db qid \<longleftrightarrow> qid \<in> q_id ` set (mq_queues db)"

text \<open>What is kept of a message wherever it is: its id, queue, payload and the time it was sent.\<close>

type_synonym 'v content = "int \<times> int \<times> 'v \<times> int"

definition message_content :: "'v mq_message \<Rightarrow> 'v content" where
  "message_content m = (m_id m, m_queue_id m, m_payload m, m_created_at m)"

definition dead_content :: "'v mq_dead \<Rightarrow> 'v content" where
  "dead_content d = (d_original_message_id d, d_queue_id d, d_payload d, d_enqueued_at d)"

definition archive_content :: "'v mq_archive \<Rightarrow> 'v content" where
  "archive_content a = (a_original_message_id a, a_queue_id a, a_payload a, a_enqueued_at a)"

definition contents :: "'v mq_db \<Rightarrow> 'v content list" where
  "contents db = map message_content (mq_messages db) @ map dead_content (mq_dlq db) @ map archive_content (mq_archives db)"

text \<open>The limit of a queue, where it has one.\<close>

definition limit_of :: "mq_queue \<Rightarrow> int" where
  "limit_of q = (case q_max_redelivery_count q of None \<Rightarrow> 0 | Some n \<Rightarrow> n)"

definition spent :: "mq_queue \<Rightarrow> 'v mq_message \<Rightarrow> bool" where
  "spent q m \<longleftrightarrow> 0 < limit_of q \<and> limit_of q \<le> m_read_count m"

definition message_ok :: "'v mq_db \<Rightarrow> 'v mq_message \<Rightarrow> bool" where
  "message_ok db m \<longleftrightarrow> 0 \<le> m_read_count m \<and> m_read_count m \<le> 2147483647 \<and>
     (m_ack_token m = None \<longleftrightarrow> m_visibility_timeout_at m = None) \<and> (m_ack_token m = None \<longleftrightarrow> m_read_count m = 0) \<and>
     (\<forall>q \<in> set (mq_queues db). q_id q = m_queue_id m \<longrightarrow> 0 < limit_of q \<longrightarrow> m_read_count m \<le> limit_of q)"

definition mq_ok :: "'v mq_db \<Rightarrow> bool" where
  "mq_ok db \<longleftrightarrow> distinct (map q_id (mq_queues db)) \<and> distinct (map q_name (mq_queues db)) \<and>
     (\<forall>q \<in> set (mq_queues db). q_id q < mq_next_queue db) \<and>
     distinct (map fst (contents db)) \<and>
     (\<forall>(i, qid, _) \<in> set (contents db). i < mq_next_message db \<and> has_queue db qid) \<and>
     distinct (map d_id (mq_dlq db)) \<and> (\<forall>d \<in> set (mq_dlq db). d_id d < mq_next_dead db) \<and>
     (\<forall>m \<in> set (mq_messages db). message_ok db m)"

lemma mq_ok_empty: "mq_ok empty_mq"
  by (simp add: mq_ok_def empty_mq_def contents_def)

lemma contents_ids: "map fst (contents db) =
    map m_id (mq_messages db) @ map d_original_message_id (mq_dlq db) @ map a_original_message_id (mq_archives db)"
  by (simp add: contents_def message_content_def dead_content_def archive_content_def)

lemma mq_ok_ids:
  assumes "mq_ok db"
  shows "distinct (map m_id (mq_messages db))" "distinct (map d_original_message_id (mq_dlq db))"
    "m_id ` set (mq_messages db) \<inter> d_original_message_id ` set (mq_dlq db) = {}"
  using assms by (auto simp: mq_ok_def contents_ids)

lemma message_unique: "mq_ok db \<Longrightarrow> m \<in> set (mq_messages db) \<Longrightarrow> m' \<in> set (mq_messages db) \<Longrightarrow> m_id m = m_id m' \<Longrightarrow> m = m'"
  using mq_ok_ids(1) by (metis distinct_map inj_onD)


section \<open>Steps\<close>

datatype label = Created string | Sent int | Notified | Delivered int string int | Buried int | Revived int | Acked int string
  | Archived int string | Extended int string int | Purged | Dropped | DlqPurged | DlqSwept int

text \<open>One message delivered, buried, or put back.\<close>

definition update_message :: "int \<Rightarrow> ('v mq_message \<Rightarrow> 'v mq_message) \<Rightarrow> 'v mq_db \<Rightarrow> 'v mq_db" where
  "update_message i f db = db\<lparr>mq_messages := map (\<lambda>m. if m_id m = i then f m else m) (mq_messages db)\<rparr>"

definition drop_message :: "int \<Rightarrow> 'v mq_db \<Rightarrow> 'v mq_db" where
  "drop_message i = delete_messages (\<lambda>m. m_id m = i)"

definition deliver :: "'v mq_lib \<Rightarrow> int \<Rightarrow> int \<Rightarrow> 'v mq_message \<Rightarrow> 'v mq_db \<Rightarrow> 'v mq_db" where
  "deliver lib now until m db = (update_message (m_id m) (\<lambda>_. claimed lib now until (mq_draws db, m)) db)\<lparr>mq_draws := mq_draws db + 1\<rparr>"

definition dead_row :: "int \<Rightarrow> string \<Rightarrow> int \<Rightarrow> 'v mq_message \<Rightarrow> 'v mq_dead" where
  "dead_row now reason i m = \<lparr>d_id = i, d_queue_id = m_queue_id m, d_original_message_id = m_id m,
     d_payload = m_payload m, d_headers = m_headers m, d_read_count = m_read_count m, d_enqueued_at = m_created_at m,
     d_dead_lettered_at = now, d_reason = reason\<rparr>"

definition bury :: "int \<Rightarrow> string \<Rightarrow> 'v mq_message \<Rightarrow> 'v mq_db \<Rightarrow> 'v mq_db" where
  "bury now reason m db = (drop_message (m_id m) db)\<lparr>mq_dlq := mq_dlq db @ [dead_row now reason (mq_next_dead db) m],
     mq_next_dead := mq_next_dead db + 1\<rparr>"

definition revived_row :: "'v mq_lib \<Rightarrow> int \<Rightarrow> 'v mq_dead \<Rightarrow> 'v mq_message" where
  "revived_row lib now d = \<lparr>m_id = d_original_message_id d, m_queue_id = d_queue_id d, m_payload = d_payload d,
     m_headers = ml_no_headers lib, m_available_at = now, m_visibility_timeout_at = None, m_ack_token = None, m_read_count = 0,
     m_created_at = d_enqueued_at d\<rparr>"

definition revive :: "'v mq_lib \<Rightarrow> int \<Rightarrow> 'v mq_dead \<Rightarrow> 'v mq_db \<Rightarrow> 'v mq_db" where
  "revive lib now d db = db\<lparr>mq_dlq := filter (\<lambda>d'. d_original_message_id d' \<noteq> d_original_message_id d) (mq_dlq db),
     mq_messages := mq_messages db @ [revived_row lib now d]\<rparr>"

definition sent_row :: "'v mq_lib \<Rightarrow> int \<Rightarrow> int \<Rightarrow> int \<Rightarrow> 'v \<Rightarrow> int \<Rightarrow> 'v mq_message" where
  "sent_row lib now i qid v at = \<lparr>m_id = i, m_queue_id = qid, m_payload = v, m_headers = ml_no_headers lib, m_available_at = at,
     m_visibility_timeout_at = None, m_ack_token = None, m_read_count = 0, m_created_at = now\<rparr>"

definition enqueue :: "'v mq_lib \<Rightarrow> int \<Rightarrow> int \<Rightarrow> 'v \<Rightarrow> int \<Rightarrow> 'v mq_db \<Rightarrow> 'v mq_db" where
  "enqueue lib now qid v at db = db\<lparr>mq_messages := mq_messages db @ [sent_row lib now (mq_next_message db) qid v at],
     mq_next_message := mq_next_message db + 1\<rparr>"

definition without_queue :: "int \<Rightarrow> 'v mq_db \<Rightarrow> 'v mq_db" where
  "without_queue qid db = db\<lparr>mq_queues := filter (\<lambda>q. q_id q \<noteq> qid) (mq_queues db),
     mq_messages := filter (\<lambda>m. m_queue_id m \<noteq> qid) (mq_messages db),
     mq_archives := filter (\<lambda>a. a_queue_id a \<noteq> qid) (mq_archives db),
     mq_dlq := filter (\<lambda>d. d_queue_id d \<noteq> qid) (mq_dlq db)\<rparr>"

text \<open>A step on the queue \<open>qid\<close>; sweeping concerns all queues.\<close>

inductive mq_step :: "'v mq_lib \<Rightarrow> int \<Rightarrow> int \<Rightarrow> label \<Rightarrow> 'v mq_db \<Rightarrow> 'v mq_db \<Rightarrow> bool" for lib now qid where
  created: "name \<notin> q_name ` set (mq_queues db) \<Longrightarrow> mq_step lib now qid (Created name) db
     (db\<lparr>mq_queues := mq_queues db @ [\<lparr>q_id = mq_next_queue db, q_name = name, q_durable = d, q_max_redelivery_count = limit\<rparr>],
         mq_next_queue := mq_next_queue db + 1\<rparr>)"
| sent: "has_queue db qid \<Longrightarrow> now \<le> at \<Longrightarrow> mq_step lib now qid (Sent (mq_next_message db)) db (enqueue lib now qid v at db)"
| notified: "mq_step lib now qid Notified db (db\<lparr>mq_notifications := notices\<rparr>)"
| delivered: "m \<in> set (mq_messages db) \<Longrightarrow> m_queue_id m = qid \<Longrightarrow> visible now m \<Longrightarrow> q \<in> set (mq_queues db) \<Longrightarrow> q_id q = qid \<Longrightarrow>
     \<not> spent q m \<Longrightarrow> m_read_count m < 2147483647 \<Longrightarrow>
     mq_step lib now qid (Delivered (m_id m) (new_token lib now (mq_draws db) m) until) db (deliver lib now until m db)"
| buried: "m \<in> set (mq_messages db) \<Longrightarrow> m_queue_id m = qid \<Longrightarrow> mq_step lib now qid (Buried (m_id m)) db (bury now reason m db)"
| revived: "d \<in> set (mq_dlq db) \<Longrightarrow> d_queue_id d = qid \<Longrightarrow>
     mq_step lib now qid (Revived (d_original_message_id d)) db (revive lib now d db)"
| acked: "m \<in> set (mq_messages db) \<Longrightarrow> delivery now qid (m_id m) token m \<Longrightarrow>
     mq_step lib now qid (Acked (m_id m) token) db (drop_message (m_id m) db)"
| archived: "m \<in> set (mq_messages db) \<Longrightarrow> delivery now qid (m_id m) token m \<Longrightarrow>
     mq_step lib now qid (Archived (m_id m) token) db (archive_row now m (drop_message (m_id m) db))"
| extended: "m \<in> set (mq_messages db) \<Longrightarrow> delivery now qid (m_id m) token m \<Longrightarrow>
     mq_step lib now qid (Extended (m_id m) token until) db (update_message (m_id m) (\<lambda>m. m\<lparr>m_visibility_timeout_at := Some until\<rparr>) db)"
| purged: "mq_step lib now qid Purged db (delete_messages (\<lambda>m. m_queue_id m = qid) db)"
| dropped: "mq_step lib now qid Dropped db (without_queue qid db)"
| dlq_purged: "mq_step lib now qid DlqPurged db (db\<lparr>mq_dlq := filter (\<lambda>d. d_queue_id d \<noteq> qid) (mq_dlq db)\<rparr>)"
| dlq_swept: "mq_step lib now qid (DlqSwept at) db (db\<lparr>mq_dlq := filter (\<lambda>d. \<not> d_dead_lettered_at d < at) (mq_dlq db)\<rparr>)"

inductive_simps mq_step_dropped [simp]: "mq_step lib now qid Dropped db db'"
inductive_simps mq_step_purged [simp]: "mq_step lib now qid Purged db db'"
inductive_cases mq_step_deliveredE: "mq_step lib now qid (Delivered i token until) db db'"

inductive mq_steps :: "'v mq_lib \<Rightarrow> int \<Rightarrow> int \<Rightarrow> label list \<Rightarrow> 'v mq_db \<Rightarrow> 'v mq_db \<Rightarrow> bool" for lib now qid where
  none: "mq_steps lib now qid [] db db"
| more: "mq_step lib now qid l db db1 \<Longrightarrow> mq_steps lib now qid ls db1 db2 \<Longrightarrow> mq_steps lib now qid (l # ls) db db2"

inductive_cases mq_steps_NilE [elim!]: "mq_steps lib now qid [] db db'"
inductive_cases mq_steps_ConsE: "mq_steps lib now qid (l # ls) db db'"

lemma mq_steps_one: "mq_step lib now qid l db db' \<Longrightarrow> mq_steps lib now qid [l] db db'"
  by (rule mq_steps.more [OF _ mq_steps.none])

lemma mq_steps_append: "mq_steps lib now qid ls db db1 \<Longrightarrow> mq_steps lib now qid ls' db1 db2 \<Longrightarrow> mq_steps lib now qid (ls @ ls') db db2"
  by (induction rule: mq_steps.induct) (auto intro: mq_steps.more)

text \<open>A property that every step keeps is kept by sequences of steps.\<close>

lemma mq_steps_keep:
  assumes "mq_steps lib now qid ls db db'" "I db" "\<And>l db db'. l \<in> set ls \<Longrightarrow> mq_step lib now qid l db db' \<Longrightarrow> I db \<Longrightarrow> I db'"
  shows "I db'"
  using assms by (induction rule: mq_steps.induct) auto

end
