(* ===== verification/Mq_Inv.thy ===== *)
theory Mq_Inv
  imports Mq_Steps
begin

text \<open>
  Steps of the queues keep their tables consistent, and every operation is a sequence of steps.
\<close>


section \<open>Contents under the changes of a step\<close>

lemma mset_without: "distinct (map k xs) \<Longrightarrow> x \<in> set xs \<Longrightarrow> mset xs = add_mset x (mset (filter (\<lambda>y. k y \<noteq> k x) xs))"
proof (induction xs)
  case (Cons a xs)
  then show ?case
  proof (cases "k a = k x")
    case True
    with Cons.prems have "a = x" by (auto simp: image_iff)
    moreover from Cons.prems(1) True have "filter (\<lambda>y. k y \<noteq> k x) xs = xs" by (auto simp: filter_id_conv image_iff)
    ultimately show ?thesis by simp
  qed auto
qed simp

lemma distinct_map_filter_subset: "distinct (map k xs) \<Longrightarrow> distinct (map k (filter P xs))"
  by (simp add: distinct_map inj_on_def)

lemma contents_update:
  assumes "\<And>m. m \<in> set (mq_messages db) \<Longrightarrow> m_id m = i \<Longrightarrow> message_content (f m) = message_content m"
  shows "contents (update_message i f db) = contents db"
  using assms by (simp add: contents_def update_message_def)

lemma mset_map_without:
  assumes "distinct (map k xs)" "x \<in> set xs"
  shows "mset (map f xs) = add_mset (f x) (mset (map f (filter (\<lambda>y. k y \<noteq> k x) xs)))"
  using arg_cong [OF mset_without [OF assms], of "image_mset f"] by simp

lemma mset_contents_without:
  assumes "distinct (map m_id (mq_messages db))" "m \<in> set (mq_messages db)"
  shows "mset (contents db) = add_mset (message_content m) (mset (contents (drop_message (m_id m) db)))"
  using mset_map_without [OF assms] by (simp add: contents_def drop_message_def delete_messages_def)

lemma mset_contents_bury:
  assumes "distinct (map m_id (mq_messages db))" "m \<in> set (mq_messages db)"
  shows "mset (contents (bury now reason m db)) = mset (contents db)"
  using mset_contents_without [OF assms]
  by (simp add: contents_def bury_def drop_message_def delete_messages_def dead_row_def dead_content_def message_content_def)

lemma mset_contents_revive:
  assumes "distinct (map d_original_message_id (mq_dlq db))" "d \<in> set (mq_dlq db)"
  shows "mset (contents (revive lib now d db)) = mset (contents db)"
  using mset_map_without [OF assms, of dead_content]
  by (simp add: contents_def revive_def revived_row_def dead_content_def message_content_def)

lemma mset_contents_archive:
  assumes "distinct (map m_id (mq_messages db))" "m \<in> set (mq_messages db)"
  shows "mset (contents (archive_row now m (drop_message (m_id m) db))) = mset (contents db)"
  using mset_contents_without [OF assms]
  by (simp add: contents_def archive_row_def drop_message_def delete_messages_def archive_content_def message_content_def)

text \<open>Deleting rows leaves a part of the contents.\<close>

lemma contents_filtered:
  assumes "mq_messages db' = filter P (mq_messages db)" "mq_dlq db' = filter Q (mq_dlq db)" "mq_archives db' = filter R (mq_archives db)"
  shows "distinct (map fst (contents db)) \<Longrightarrow> distinct (map fst (contents db'))" "set (contents db') \<subseteq> set (contents db)"
  using assms by (auto simp: contents_ids distinct_map_filter_subset) (auto simp: contents_def)


section \<open>Steps keep the tables consistent\<close>

lemma mq_ok_same_contents:
  assumes "mq_ok db" "mset (contents db') = mset (contents db)" "mq_queues db' = mq_queues db"
    "mq_next_queue db' = mq_next_queue db" "mq_next_message db' = mq_next_message db"
    "distinct (map d_id (mq_dlq db'))" "\<forall>d \<in> set (mq_dlq db'). d_id d < mq_next_dead db'"
    "\<forall>m \<in> set (mq_messages db'). message_ok db m"
  shows "mq_ok db'"
proof -
  have "set (contents db') = set (contents db)" using assms(2) by (rule mset_eq_setD)
  moreover have "mset (map fst (contents db')) = mset (map fst (contents db))" using assms(2) by simp
  then have "distinct (map fst (contents db')) = distinct (map fst (contents db))" by (rule mset_eq_imp_distinct_iff)
  ultimately show ?thesis using assms(1,3-) by (auto simp: mq_ok_def has_queue_def message_ok_def)
qed

lemma mq_ok_filtered:
  assumes "mq_ok db" "mq_messages db' = filter P (mq_messages db)" "mq_dlq db' = filter Q (mq_dlq db)" "mq_archives db' = filter R (mq_archives db)"
    "mq_queues db' = mq_queues db" "mq_next_queue db' = mq_next_queue db" "mq_next_message db' = mq_next_message db" "mq_next_dead db' = mq_next_dead db"
  shows "mq_ok db'"
proof -
  have "\<forall>(i, qid, _) \<in> set (contents db'). i < mq_next_message db \<and> has_queue db qid"
    using assms(1) contents_filtered(2) [OF assms(2-4)] unfolding mq_ok_def by blast
  moreover have "distinct (map fst (contents db'))" using assms(1) contents_filtered(1) [OF assms(2-4)] by (simp add: mq_ok_def)
  ultimately show ?thesis using assms by (auto simp: mq_ok_def has_queue_def message_ok_def distinct_map_filter_subset)
qed

lemma message_ok_claimed:
  assumes "message_ok db m" "q \<in> set (mq_queues db)" "q_id q = m_queue_id m" "\<not> spent q m" "m_read_count m < 2147483647"
    "distinct (map q_id (mq_queues db))"
  shows "message_ok db (claimed lib now until (draw, m))"
proof -
  have "m_read_count m + 1 \<le> limit_of q'" if "q' \<in> set (mq_queues db)" "q_id q' = m_queue_id m" "0 < limit_of q'" for q'
  proof -
    from that(1,2) assms(2,3,6) have "q' = q" by (metis distinct_map inj_onD)
    with that(3) assms(4) show ?thesis by (simp add: spent_def)
  qed
  then show ?thesis using assms(1,5) by (simp add: message_ok_def claimed_def)
qed

lemma mq_ok_message:
  assumes "mq_ok db" "m \<in> set (mq_messages db)"
  shows "has_queue db (m_queue_id m)" "m_id m < mq_next_message db" "message_ok db m"
proof -
  have "message_content m \<in> set (contents db)" using assms(2) by (simp add: contents_def)
  with assms(1) show "has_queue db (m_queue_id m)" "m_id m < mq_next_message db" by (auto simp: mq_ok_def message_content_def)
  show "message_ok db m" using assms by (simp add: mq_ok_def)
qed

lemma has_queue_below: "mq_ok db \<Longrightarrow> has_queue db qid \<Longrightarrow> qid < mq_next_queue db"
  by (auto simp: mq_ok_def has_queue_def)

lemma message_content_claimed [simp]: "message_content (claimed lib now until (draw, m)) = message_content m"
  by (simp add: message_content_def claimed_def)

lemma contents_enqueue:
  "distinct (map fst (contents (enqueue lib now qid v at db))) = distinct (mq_next_message db # map fst (contents db))"
  "set (contents (enqueue lib now qid v at db)) = insert (mq_next_message db, qid, v, now) (set (contents db))"
proof -
  have c: "mset (contents (enqueue lib now qid v at db)) = add_mset (mq_next_message db, qid, v, now) (mset (contents db))"
    by (simp add: contents_def enqueue_def sent_row_def message_content_def)
  have "mset (map fst (contents (enqueue lib now qid v at db))) = mset (mq_next_message db # map fst (contents db))"
    using arg_cong [OF c, of "image_mset fst"] by simp
  then show "distinct (map fst (contents (enqueue lib now qid v at db))) = distinct (mq_next_message db # map fst (contents db))"
    by (rule mset_eq_imp_distinct_iff)
  show "set (contents (enqueue lib now qid v at db)) = insert (mq_next_message db, qid, v, now) (set (contents db))"
    using arg_cong [OF c, of set_mset] by simp
qed

lemma without_queue_simps [simp]:
  "mq_queues (without_queue qid db) = filter (\<lambda>q. q_id q \<noteq> qid) (mq_queues db)"
  "mq_messages (without_queue qid db) = filter (\<lambda>m. m_queue_id m \<noteq> qid) (mq_messages db)"
  "mq_dlq (without_queue qid db) = filter (\<lambda>d. d_queue_id d \<noteq> qid) (mq_dlq db)"
  "mq_archives (without_queue qid db) = filter (\<lambda>a. a_queue_id a \<noteq> qid) (mq_archives db)"
  "mq_next_queue (without_queue qid db) = mq_next_queue db" "mq_next_message (without_queue qid db) = mq_next_message db"
  "mq_next_dead (without_queue qid db) = mq_next_dead db" "mq_draws (without_queue qid db) = mq_draws db"
  by (simp_all add: without_queue_def)

lemma mq_ok_without_queue:
  assumes "mq_ok db"
  shows "mq_ok (without_queue qid db)"
proof -
  let ?db = "without_queue qid db"
  have hq: "has_queue db q \<Longrightarrow> q \<noteq> qid \<Longrightarrow> has_queue ?db q" for q by (auto simp: has_queue_def)
  have "set (contents ?db) \<subseteq> {(i, q, c) \<in> set (contents db). q \<noteq> qid}"
    by (auto simp: contents_def message_content_def dead_content_def archive_content_def)
  moreover have "\<forall>(i, q, _) \<in> set (contents db). i < mq_next_message db \<and> has_queue db q" using assms by (simp add: mq_ok_def)
  ultimately have "\<forall>(i, q, _) \<in> set (contents ?db). i < mq_next_message db \<and> has_queue ?db q"
    using hq by blast
  moreover have "distinct (map fst (contents ?db))"
    by (rule contents_filtered(1) [OF without_queue_simps(2,3,4)]) (use assms in \<open>simp add: mq_ok_def\<close>)
  moreover have "\<forall>m \<in> set (mq_messages ?db). message_ok ?db m" using assms by (auto simp: mq_ok_def message_ok_def)
  moreover have "distinct (map q_id (mq_queues ?db)) \<and> distinct (map q_name (mq_queues ?db)) \<and> distinct (map d_id (mq_dlq ?db)) \<and>
      (\<forall>q \<in> set (mq_queues ?db). q_id q < mq_next_queue db) \<and> (\<forall>d \<in> set (mq_dlq ?db). d_id d < mq_next_dead db)"
    using assms by (simp add: mq_ok_def distinct_map_filter_subset)
  ultimately show ?thesis unfolding mq_ok_def [of ?db] without_queue_simps(5,6,7) by blast
qed

lemma step_mq_ok:
  assumes "mq_step lib now qid l db db'" "mq_ok db"
  shows "mq_ok db'"
  using assms
proof (induction rule: mq_step.induct)
  case (created name db d limit)
  let ?db = "db\<lparr>mq_queues := mq_queues db @ [\<lparr>q_id = mq_next_queue db, q_name = name, q_durable = d, q_max_redelivery_count = limit\<rparr>],
      mq_next_queue := mq_next_queue db + 1\<rparr>"
  have "message_ok ?db m" if "m \<in> set (mq_messages db)" for m
    using mq_ok_message [OF created.prems that] has_queue_below [OF created.prems, of "m_queue_id m"] by (auto simp: message_ok_def)
  moreover have "contents ?db = contents db" by (simp add: contents_def)
  moreover have "has_queue ?db qid" if "has_queue db qid" for qid using that by (simp add: has_queue_def)
  ultimately show ?case using created by (auto simp: mq_ok_def)
next
  case (sent db at v)
  note c = contents_enqueue [of lib now qid v at db]
  have "mq_queues (enqueue lib now qid v at db) = mq_queues db" by (simp add: enqueue_def)
  moreover have "\<forall>m \<in> set (mq_messages (enqueue lib now qid v at db)). message_ok db m"
    using sent.prems by (auto simp: enqueue_def sent_row_def message_ok_def mq_ok_def)
  ultimately show ?case using sent c by (fastforce simp: mq_ok_def has_queue_def message_ok_def enqueue_def)
next
  case (notified db notices)
  then show ?case by (intro mq_ok_filtered [OF notified, where P = "\<lambda>_. True" and Q = "\<lambda>_. True" and R = "\<lambda>_. True"]) simp_all
next
  case (delivered m db q until)
  have ok: "\<forall>x \<in> set (mq_messages (deliver lib now until m db)). message_ok db x"
    using delivered message_ok_claimed [of db m q lib now until "mq_draws db"] by (auto simp: deliver_def update_message_def mq_ok_def)
  have "contents (deliver lib now until m db) = contents (update_message (m_id m) (\<lambda>_. claimed lib now until (mq_draws db, m)) db)"
    by (simp add: deliver_def contents_def)
  also have "\<dots> = contents db" using message_unique [OF delivered.prems _ delivered(1)] by (intro contents_update) auto
  finally show ?case using delivered.prems ok
    by (intro mq_ok_same_contents [OF delivered.prems]) (auto simp: deliver_def update_message_def mq_ok_def)
next
  case (buried m db reason)
  then show ?case
    by (intro mq_ok_same_contents [OF buried.prems mset_contents_bury [OF mq_ok_ids(1) [OF buried.prems] buried(1)]]) (auto simp: bury_def drop_message_def delete_messages_def mq_ok_def dead_row_def)
next
  case (revived d db)
  then show ?case
    by (intro mq_ok_same_contents [OF revived.prems mset_contents_revive [OF mq_ok_ids(2) [OF revived.prems] revived(1)]])
      (auto simp: revive_def mq_ok_def revived_row_def message_ok_def distinct_map_filter_subset)
next
  case (acked m db token)
  then show ?case by (intro mq_ok_filtered [OF acked.prems, where P = "\<lambda>x. m_id x \<noteq> m_id m" and Q = "\<lambda>_. True" and R = "\<lambda>_. True"])
      (simp_all add: drop_message_def delete_messages_def)
next
  case (archived m db token)
  then show ?case
    by (intro mq_ok_same_contents [OF archived.prems mset_contents_archive [OF mq_ok_ids(1) [OF archived.prems] archived(1)]]) (auto simp: archive_row_def drop_message_def delete_messages_def mq_ok_def)
next
  case (extended m db token until)
  have "contents (update_message (m_id m) (\<lambda>m. m\<lparr>m_visibility_timeout_at := Some until\<rparr>) db) = contents db"
    by (intro contents_update) (simp add: message_content_def)
  moreover have vis: "\<forall>x \<in> set (mq_messages db). m_id x = m_id m \<longrightarrow> m_visibility_timeout_at x \<noteq> None"
    using message_unique [OF extended.prems _ extended(1)] extended(2) by (fastforce simp: delivery_def in_flight_def split: option.splits)
  have "\<forall>x \<in> set (mq_messages (update_message (m_id m) (\<lambda>m. m\<lparr>m_visibility_timeout_at := Some until\<rparr>) db)). message_ok db x"
    using vis extended.prems by (auto simp: update_message_def mq_ok_def message_ok_def)
  ultimately show ?case using extended
    by (intro mq_ok_same_contents [OF extended.prems]) (auto simp: update_message_def mq_ok_def)
next
  case (purged db)
  then show ?case by (intro mq_ok_filtered [OF purged, where P = "\<lambda>m. m_queue_id m \<noteq> qid" and Q = "\<lambda>_. True" and R = "\<lambda>_. True"])
      (simp_all add: delete_messages_def)
next
  case (dropped db)
  then show ?case by (rule mq_ok_without_queue)
next
  case (dlq_purged db)
  then show ?case by (intro mq_ok_filtered [OF dlq_purged, where P = "\<lambda>_. True" and Q = "\<lambda>d. d_queue_id d \<noteq> qid" and R = "\<lambda>_. True"]) simp_all
next
  case (dlq_swept at db)
  then show ?case by (intro mq_ok_filtered [OF dlq_swept, where P = "\<lambda>_. True" and Q = "\<lambda>d. \<not> d_dead_lettered_at d < at" and R = "\<lambda>_. True"]) simp_all
qed

lemma steps_mq_ok: "mq_steps lib now qid ls db db' \<Longrightarrow> mq_ok db \<Longrightarrow> mq_ok db'"
  by (erule mq_steps_keep [where I = mq_ok]) (auto intro: step_mq_ok)

end
