(* ===== verification/Mq_Ops.thy ===== *)
theory Mq_Ops
  imports Mq_Inv
begin

text \<open>
  Every operation of the queues is a sequence of steps, and its reply says which.
\<close>


section \<open>Moving and claiming messages one by one\<close>

lemma drop_others: "distinct (map m_id (m # ms)) \<Longrightarrow> set (m # ms) \<subseteq> set rows \<Longrightarrow>
    set ms \<subseteq> set (filter (\<lambda>x. m_id x \<noteq> m_id m) rows)"
  by (auto simp: image_iff)

lemma fold_insert_dead:
  assumes "distinct (map m_id ms)" "set ms \<subseteq> set (mq_messages db)" "m_id ` set ms \<inter> d_original_message_id ` set (mq_dlq db) = {}"
  shows "fold (insert_dead now reason) ms (n, delete_messages (\<lambda>x. m_id x \<in> m_id ` set ms) db) =
    (n + int (length ms), fold (bury now reason) ms db)"
  using assms
proof (induction ms arbitrary: n db)
  case Nil
  then show ?case by (simp add: delete_messages_def)
next
  case (Cons m ms)
  let ?db = "bury now reason m db"
  have free: "\<forall>d \<in> set (mq_dlq db). d_original_message_id d \<noteq> m_id m" using Cons.prems(3) by fastforce
  have "insert_dead now reason m (n, delete_messages (\<lambda>x. m_id x \<in> m_id ` set (m # ms)) db) =
      (n + 1, delete_messages (\<lambda>x. m_id x \<in> m_id ` set ms) ?db)"
    using free by (auto simp: insert_dead_def delete_messages_def bury_def drop_message_def dead_row_def list_ex_iff conj_commute)
  moreover have "set ms \<subseteq> set (mq_messages ?db)"
    using drop_others [OF Cons.prems(1,2)] by (simp add: bury_def drop_message_def delete_messages_def)
  moreover have "m_id ` set ms \<inter> d_original_message_id ` set (mq_dlq ?db) = {}"
    using Cons.prems(1,3) by (auto simp: bury_def dead_row_def)
  ultimately show ?case using Cons.IH [of ?db "n + 1"] Cons.prems(1) by simp
qed

lemma bury_steps:
  assumes "distinct (map m_id ms)" "set ms \<subseteq> set (mq_messages db)" "\<forall>m \<in> set ms. m_queue_id m = qid"
  shows "mq_steps lib now qid (map (Buried \<circ> m_id) ms) db (fold (bury now reason) ms db)"
  using assms
proof (induction ms arbitrary: db)
  case (Cons m ms)
  have "set ms \<subseteq> set (mq_messages (bury now reason m db))"
    using drop_others [OF Cons.prems(1,2)] by (simp add: bury_def drop_message_def delete_messages_def)
  then show ?case using Cons by (auto intro!: mq_steps.more [OF mq_step.buried])
qed (simp add: mq_steps.none)

lemma fold_bury: "mq_messages (fold (bury now reason) ms db) = filter (\<lambda>x. m_id x \<notin> m_id ` set ms) (mq_messages db)"
  "mq_queues (fold (bury now reason) ms db) = mq_queues db" "mq_draws (fold (bury now reason) ms db) = mq_draws db"
  "mq_next_message (fold (bury now reason) ms db) = mq_next_message db"
  by (induction ms arbitrary: db) (auto simp: bury_def drop_message_def delete_messages_def intro: filter_cong)

lemma move_to_dlq_steps:
  assumes "mq_ok db" "scans lib" "\<And>m. P m \<Longrightarrow> m_queue_id m = qid"
  obtains ms where "mset ms = mset (filter P (mq_messages db))" "move_to_dlq lib now reason P db = (int (length ms), fold (bury now reason) ms db)"
    "mq_steps lib now qid (map (Buried \<circ> m_id) ms) db (fold (bury now reason) ms db)"
    "mq_messages (fold (bury now reason) ms db) = filter (\<lambda>m. \<not> P m) (mq_messages db)"
proof -
  let ?ms = "ml_scan lib (filter P (mq_messages db))"
  have ms: "mset ?ms = mset (filter P (mq_messages db))" using assms(2) by (simp add: scans_def)
  then have set: "set ?ms = {m \<in> set (mq_messages db). P m}" by (metis mset_eq_setD set_filter)
  have "mset (map m_id ?ms) = mset (map m_id (filter P (mq_messages db)))" using ms by simp
  then have d: "distinct (map m_id ?ms)" using mq_ok_ids(1) [OF assms(1)] distinct_map_filter_subset mset_eq_imp_distinct_iff by blast
  have ids: "m_id m \<in> m_id ` set ?ms \<longleftrightarrow> P m" if "m \<in> set (mq_messages db)" for m
    using that message_unique [OF assms(1)] set by auto
  have "delete_messages P db = delete_messages (\<lambda>x. m_id x \<in> m_id ` set ?ms) db"
    using ids by (auto simp: delete_messages_def intro!: filter_cong arg_cong [where f = "\<lambda>rows. db\<lparr>mq_messages := rows\<rparr>"])
  then have "move_to_dlq lib now reason P db = (int (length ?ms), fold (bury now reason) ?ms db)"
    using fold_insert_dead [OF d, of db now reason 0] set mq_ok_ids(3) [OF assms(1)] by (auto simp: move_to_dlq_def)
  moreover have "mq_messages (fold (bury now reason) ?ms db) = filter (\<lambda>m. \<not> P m) (mq_messages db)"
    by (simp add: fold_bury ids cong: filter_cong)
  moreover have "mq_steps lib now qid (map (Buried \<circ> m_id) ?ms) db (fold (bury now reason) ?ms db)"
    using bury_steps [OF d] set assms(3) by auto
  ultimately show thesis using ms that by blast
qed

lemma replace_rows_Cons:
  assumes "m_id c = m_id m" "\<forall>x \<in> set cs. m_id x \<noteq> m_id m"
  shows "replace_rows cs (map (\<lambda>x. if m_id x = m_id m then c else x) rows) = replace_rows (c # cs) rows"
proof -
  have "find (\<lambda>x. m_id x = m_id m) cs = None" using assms(2) by (auto simp: find_None_iff)
  then show ?thesis using assms(1) by (auto simp: replace_rows_def)
qed

lemma claimed_id [simp]: "m_id (claimed lib now until km) = m_id (snd km)" "m_queue_id (claimed lib now until km) = m_queue_id (snd km)"
  by (cases km; simp add: claimed_def)+

lemma enumerate_member: "(k, x) \<in> set (enumerate n xs) \<Longrightarrow> x \<in> set xs"
  by (metis enumerate_eq_zip set_zip_rightD)

lemma fold_deliver:
  assumes "distinct (map m_id ms)"
  shows "fold (deliver lib now until) ms db = db\<lparr>mq_messages := replace_rows (map (claimed lib now until) (enumerate (mq_draws db) ms)) (mq_messages db),
    mq_draws := mq_draws db + length ms\<rparr>"
  using assms
proof (induction ms arbitrary: db)
  case Nil
  then show ?case by (simp add: replace_rows_def)
next
  case (Cons m ms)
  let ?c = "claimed lib now until (mq_draws db, m)"
  have "\<forall>x \<in> set (map (claimed lib now until) (enumerate (Suc (mq_draws db)) ms)). m_id x \<noteq> m_id m"
    using Cons.prems by (auto simp: image_iff dest!: enumerate_member)
  from replace_rows_Cons [OF _ this, of ?c] Cons show ?case by (simp add: deliver_def update_message_def)
qed

definition deliveries :: "'v mq_lib \<Rightarrow> int \<Rightarrow> int \<Rightarrow> nat \<Rightarrow> 'v mq_message list \<Rightarrow> label list" where
  "deliveries lib now until draw ms = map (\<lambda>(k, m). Delivered (m_id m) (new_token lib now k m) until) (enumerate draw ms)"

lemma deliver_steps:
  assumes "distinct (map m_id ms)" "set ms \<subseteq> set (mq_messages db)" "q \<in> set (mq_queues db)" "q_id q = qid"
    "\<forall>m \<in> set ms. m_queue_id m = qid \<and> visible now m \<and> \<not> spent q m \<and> m_read_count m < 2147483647"
  shows "mq_steps lib now qid (deliveries lib now until (mq_draws db) ms) db (fold (deliver lib now until) ms db)"
  using assms
proof (induction ms arbitrary: db)
  case (Cons m ms)
  let ?db = "deliver lib now until m db"
  have "set ms \<subseteq> set (mq_messages ?db)"
    using Cons.prems(1,2) by (auto simp: deliver_def update_message_def image_iff)
  moreover have "mq_queues ?db = mq_queues db" "mq_draws ?db = Suc (mq_draws db)" by (simp_all add: deliver_def update_message_def)
  moreover have "mq_step lib now qid (Delivered (m_id m) (new_token lib now (mq_draws db) m) until) db ?db"
    using Cons.prems by (intro mq_step.delivered [where q = q]) auto
  ultimately show ?case using Cons.IH [of ?db] Cons.prems by (auto simp: deliveries_def intro: mq_steps.more)
qed (simp add: deliveries_def mq_steps.none)


section \<open>Operations as steps\<close>

definition named :: "'v mq_db \<Rightarrow> string \<Rightarrow> int \<Rightarrow> bool" where
  "named db name qid \<longleftrightarrow> (\<exists>q \<in> set (mq_queues db). q_name q = name \<and> q_id q = qid)"

text \<open>An operation on a queue makes steps on it, which explain its result.\<close>

definition stepwise :: "'v mq_lib \<Rightarrow> int \<Rightarrow> string \<Rightarrow> 'v mq_db \<Rightarrow> ('v mq_db, 'a) sql_op \<Rightarrow> (label list \<Rightarrow> pg_error + 'a \<Rightarrow> bool) \<Rightarrow> bool" where
  "stepwise lib now name db op R \<longleftrightarrow> (\<exists>qid ls. mq_steps lib now qid ls db (snd (op db)) \<and> R ls (fst (op db)) \<and> (ls = [] \<or> named db name qid))"

lemma stepwise_none: "op db = (r, db) \<Longrightarrow> R [] r \<Longrightarrow> stepwise lib now name db op R"
  unfolding stepwise_def by (rule exI, rule exI [of _ "[]"]) (simp add: mq_steps.none)

lemma stepwise_cong: "op db = op' db \<Longrightarrow> stepwise lib now name db op' R \<Longrightarrow> stepwise lib now name db op R"
  by (simp add: stepwise_def)

lemma stepwise_check:
  assumes "\<And>e. R [] (Inl e)" "stepwise lib now name db op R"
  shows "stepwise lib now name db (check v op) R"
proof (cases v)
  case (Inl e)
  show ?thesis by (rule stepwise_none [of _ _ "Inl e"]) (simp_all add: Inl assms(1))
qed (use assms(2) in \<open>simp add: stepwise_def\<close>)

lemma stepwise_given:
  assumes "\<And>e. R [] (Inl e)" "\<And>x. v = Inr x \<Longrightarrow> stepwise lib now name db (f x) R"
  shows "stepwise lib now name db (given v f) R"
proof (cases v)
  case (Inl e)
  show ?thesis by (rule stepwise_none [of _ _ "Inl e"]) (simp_all add: Inl assms(1))
qed (use assms(2) in \<open>simp add: stepwise_def\<close>)

lemma queue_id_cases:
  obtains (missing) e where "queue_id name db = (Inl e, db)"
  | (found) q where "queue_id name db = (Inr (q_id q), db)" "q \<in> set (mq_queues db)" "q_name q = name" "validate_queue_name name = Inr ()"
proof (cases "validate_queue_name name")
  case (Inr x)
  then show thesis using that
    by (cases "find (\<lambda>q. q_name q = name) (mq_queues db)") (auto simp: queue_id_def find_Some_iff)
qed (use that in \<open>simp add: queue_id_def\<close>)

lemma stepwise_queue:
  assumes "\<And>e. R [] (Inl e)"
    and "\<And>q. q \<in> set (mq_queues db) \<Longrightarrow> q_name q = name \<Longrightarrow> validate_queue_name name = Inr () \<Longrightarrow>
      \<exists>ls. mq_steps lib now (q_id q) ls db (snd (f (q_id q) db)) \<and> R ls (fst (f (q_id q) db))"
  shows "stepwise lib now name db (andThen (queue_id name) f) R"
proof (cases rule: queue_id_cases [of name db])
  case (missing e)
  then show ?thesis by (intro stepwise_none [of _ _ "Inl e"] assms(1)) (simp add: andThen_def)
next
  case (found q)
  from assms(2) [OF found(2-4)] obtain ls where "mq_steps lib now (q_id q) ls db (snd (f (q_id q) db))" "R ls (fst (f (q_id q) db))" by blast
  then show ?thesis using found unfolding stepwise_def andThen_def by (intro exI [of _ "q_id q"] exI [of _ ls]) (auto simp: named_def)
qed

lemma stepwise_reply: "stepwise lib now name db op (\<lambda>ls r. R ls (map_sum id f r)) \<Longrightarrow> stepwise lib now name db (mq_reply f op) R"
proof -
  have "mq_reply f op db = (map_sum id f (fst (op db)), snd (op db))"
    by (simp add: mq_reply_def andThen_def split: prod.splits sum.splits)
  then show "stepwise lib now name db op (\<lambda>ls r. R ls (map_sum id f r)) \<Longrightarrow> stepwise lib now name db (mq_reply f op) R"
    by (simp add: stepwise_def)
qed

text \<open>What the steps of a command are, given its reply.\<close>

fun explained :: "mq_command \<Rightarrow> label list \<Rightarrow> pg_error + 'v mq_reply \<Rightarrow> bool" where
  "explained (QCreate name mode) ls r \<longleftrightarrow> ls = [] \<or> ls = [Created name]"
| "explained (QPurge name) ls r \<longleftrightarrow> (if isl r then ls = [] else ls = [Purged])"
| "explained (QDrop name) ls r \<longleftrightarrow> (if isl r then ls = [] else ls = [Dropped])"
| "explained (QSend name payload delay) ls r \<longleftrightarrow> (case r of Inr (RIds ids) \<Rightarrow> ls = map Sent ids @ [Notified] \<and> length ids = 1 | _ \<Rightarrow> ls = [])"
| "explained (QSendBatch name payloads delay) ls r \<longleftrightarrow> (case r of Inr (RIds ids) \<Rightarrow> length ids = length payloads \<and>
      ls = map Sent ids @ (if ids = [] then [] else [Notified]) | _ \<Rightarrow> ls = [])"
| "explained (QRead name quantity timeout) ls r \<longleftrightarrow> (\<exists>bs ds until. ls = map Buried bs @ map (\<lambda>(i, t). Delivered i t until) ds \<and>
      (case r of Inr (RMessages ms) \<Rightarrow> mset (map (\<lambda>m. (qm_id m, qm_ack_token m)) ms) = mset ds | _ \<Rightarrow> ds = []))"
| "explained (QDeadLetter name i reason) ls r \<longleftrightarrow> ls = (if r = Inr (RFlag True) then [Buried i] else [])"
| "explained (QReprocess name i) ls r \<longleftrightarrow> ls = (if r = Inr (RFlag True) then [Revived i] else [])"
| "explained (QPurgeDlq name) ls r \<longleftrightarrow> (if isl r then ls = [] else ls = [DlqPurged])"
| "explained (QSweepDlq days) ls r \<longleftrightarrow> ls = [] \<or> (\<exists>at. ls = [DlqSwept at])"
| "explained (QAck name i token) ls r \<longleftrightarrow> ls = (if r = Inr (RFlag True) then [Acked i token] else [])"
| "explained (QArchive name i token) ls r \<longleftrightarrow> ls = (if r = Inr (RFlag True) then [Archived i token] else [])"
| "explained (QSetVisibility name i token seconds) ls r \<longleftrightarrow>
      (if r = Inr (RFlag True) then \<exists>until. ls = [Extended i token until] else ls = [])"
| "explained (QListDlq name limit offset) ls r \<longleftrightarrow> ls = []"
| "explained (QGetDlq name i) ls r \<longleftrightarrow> ls = []"
| "explained (QMetrics name) ls r \<longleftrightarrow> ls = []"

lemma purge_stepwise: "stepwise lib now name db (run_mq lib self now (QPurge name)) (explained (QPurge name))"
  unfolding run_mq.simps MqStore_purge_queue_def
  by (intro stepwise_reply stepwise_queue) (auto intro: mq_steps_one mq_step.purged)

lemma purge_dlq_stepwise: "stepwise lib now name db (run_mq lib self now (QPurgeDlq name)) (explained (QPurgeDlq name))"
  unfolding run_mq.simps MqStore_purge_dlq_def
  by (intro stepwise_reply stepwise_queue) (auto intro: mq_steps_one mq_step.dlq_purged)

lemma query_stepwise:
  "stepwise lib now name db (run_mq lib self now (QListDlq name limit offset)) (explained (QListDlq name limit offset))"
  "stepwise lib now name db (run_mq lib self now (QGetDlq name i)) (explained (QGetDlq name i))"
  "stepwise lib now name db (run_mq lib self now (QMetrics name)) (explained (QMetrics name))"
  unfolding run_mq.simps MqStore_list_dlq_messages_def MqStore_get_dlq_message_def MqStore_metrics_def
  by (intro stepwise_reply stepwise_queue; auto simp: given_def Let_def intro!: exI [of _ "[]"] mq_steps.none split: sum.splits option.splits)+

lemma queue_unique: "mq_ok db \<Longrightarrow> q \<in> set (mq_queues db) \<Longrightarrow> q' \<in> set (mq_queues db) \<Longrightarrow> q_id q = q_id q' \<or> q_name q = q_name q' \<Longrightarrow> q = q'"
  unfolding mq_ok_def by (metis distinct_map inj_onD)

lemma drop_stepwise: "mq_ok db \<Longrightarrow> stepwise lib now name db (run_mq lib self now (QDrop name)) (explained (QDrop name))"
  unfolding run_mq.simps MqStore_drop_queue_def
proof (intro stepwise_reply stepwise_check)
  let ?op = "\<lambda>db. let dropped = filter (\<lambda>q. q_name q = name) (mq_queues db); gone = \<lambda>qid. qid \<in> set (map q_id dropped)
      in if dropped = [] then (Inl (NotFound (''queue '' @ name)), db)
         else (Inr (), db\<lparr>mq_queues := filter (\<lambda>q. q_name q \<noteq> name) (mq_queues db),
               mq_messages := filter (\<lambda>m. \<not> gone (m_queue_id m)) (mq_messages db),
               mq_archives := filter (\<lambda>a. \<not> gone (a_queue_id a)) (mq_archives db),
               mq_dlq := filter (\<lambda>d. \<not> gone (d_queue_id d)) (mq_dlq db)\<rparr>)"
  assume ok: "mq_ok db"
  show "stepwise lib now name db ?op (\<lambda>ls r. explained (QDrop name) ls (map_sum id (\<lambda>_. RDone) r))"
  proof (cases "\<exists>q \<in> set (mq_queues db). q_name q = name")
    case True
    then obtain q where q: "q \<in> set (mq_queues db)" "q_name q = name" by blast
    then have "filter (\<lambda>x. q_name x = name) (mq_queues db) = [q]" using filter_one [of q_name "mq_queues db" q] ok by (simp add: mq_ok_def)
    moreover have "filter (\<lambda>x. q_name x \<noteq> name) (mq_queues db) = filter (\<lambda>x. q_id x \<noteq> q_id q) (mq_queues db)"
      using queue_unique [OF ok q(1)] q(2) by (intro filter_cong refl) metis
    ultimately have "?op db = (Inr (), without_queue (q_id q) db)" by (simp add: without_queue_def)
    then show ?thesis unfolding stepwise_def using q
      by (intro exI [of _ "q_id q"] exI [of _ "[Dropped]"]) (auto simp: named_def intro: mq_steps_one mq_step.dropped)
  qed (intro stepwise_none [of _ _ "Inl (NotFound (''queue '' @ name))"]; auto simp: filter_empty_conv)
qed simp

text \<open>At most one message is the delivery that a client holds.\<close>

lemma delivery_row:
  assumes "mq_ok db" "list_ex (delivery now qid i token) (mq_messages db)"
  obtains m where "m \<in> set (mq_messages db)" "m_id m = i" "delivery now qid (m_id m) token m"
    "\<And>x. x \<in> set (mq_messages db) \<Longrightarrow> delivery now qid i token x \<longleftrightarrow> m_id x = i"
proof -
  from assms(2) obtain m where m: "m \<in> set (mq_messages db)" "delivery now qid i token m" by (auto simp: list_ex_iff)
  moreover from m(2) have "m_id m = i" by (simp add: delivery_def)
  moreover have "delivery now qid i token x \<longleftrightarrow> m_id x = i" if "x \<in> set (mq_messages db)" for x
    using message_unique [OF assms(1) that m(1)] m(2) by (auto simp: delivery_def)
  ultimately show thesis using that by blast
qed

lemma no_delivery: "\<not> list_ex (delivery now qid i token) rows \<Longrightarrow> filter (\<lambda>m. \<not> delivery now qid i token m) rows = rows"
  "\<not> list_ex (delivery now qid i token) rows \<Longrightarrow> map (\<lambda>m. if delivery now qid i token m then f m else m) rows = rows"
  by (auto simp: list_ex_iff filter_id_conv intro!: map_idI)

lemma ack_stepwise:
  assumes "mq_ok db"
  shows "stepwise lib now name db (run_mq lib self now (QAck name i token)) (explained (QAck name i token))"
  unfolding run_mq.simps MqStore_ack_def
proof (intro stepwise_reply stepwise_check stepwise_queue)
  fix q
  let ?D = "delivery now (q_id q) i token"
  show "\<exists>ls. mq_steps lib now (q_id q) ls db (snd (Inr (list_ex ?D (mq_messages db)), delete_messages ?D db)) \<and>
      explained (QAck name i token) ls (map_sum id RFlag (fst (Inr (list_ex ?D (mq_messages db)), delete_messages ?D db)))"
  proof (cases "list_ex ?D (mq_messages db)")
    case True
    from delivery_row [OF assms True] obtain m where m: "m \<in> set (mq_messages db)" "m_id m = i" "delivery now (q_id q) (m_id m) token m"
      "\<And>x. x \<in> set (mq_messages db) \<Longrightarrow> ?D x \<longleftrightarrow> m_id x = i" by blast
    have "delete_messages ?D db = drop_message i db" using m(4) by (simp add: delete_messages_def drop_message_def cong: filter_cong)
    with mq_step.acked [OF m(1,3), of lib] m(2) True show ?thesis by (auto intro: mq_steps_one)
  qed (auto simp: delete_messages_def no_delivery intro: mq_steps.none)
qed simp_all

lemma archive_stepwise:
  assumes "mq_ok db"
  shows "stepwise lib now name db (run_mq lib self now (QArchive name i token)) (explained (QArchive name i token))"
  unfolding run_mq.simps MqStore_archive_def
proof (intro stepwise_reply stepwise_check stepwise_queue)
  fix q
  let ?D = "delivery now (q_id q) i token"
  let ?op = "transaction (\<lambda>db. let moved = filter ?D (mq_messages db) in (Inr (moved \<noteq> []), fold (archive_row now) moved (delete_messages ?D db)))"
  show "\<exists>ls. mq_steps lib now (q_id q) ls db (snd (?op db)) \<and> explained (QArchive name i token) ls (map_sum id RFlag (fst (?op db)))"
  proof (cases "list_ex ?D (mq_messages db)")
    case True
    from delivery_row [OF assms True] obtain m where m: "m \<in> set (mq_messages db)" "m_id m = i" "delivery now (q_id q) (m_id m) token m"
      "\<And>x. x \<in> set (mq_messages db) \<Longrightarrow> ?D x \<longleftrightarrow> m_id x = i" by blast
    have "delete_messages ?D db = drop_message i db" using m(4) by (simp add: delete_messages_def drop_message_def cong: filter_cong)
    moreover have "filter ?D (mq_messages db) = [m]"
      using filter_one [OF mq_ok_ids(1) [OF assms] m(1)] m(2,4) by (simp cong: filter_cong)
    ultimately show ?thesis using mq_step.archived [OF m(1,3), of lib] m(2) by (auto simp: transaction_def intro: mq_steps_one)
  next
    case False
    then have "filter ?D (mq_messages db) = []" by (auto simp: list_ex_iff filter_empty_conv)
    with False show ?thesis by (auto simp: transaction_def delete_messages_def no_delivery intro: mq_steps.none)
  qed
qed simp_all

lemma set_visibility_stepwise:
  assumes "mq_ok db"
  shows "stepwise lib now name db (run_mq lib self now (QSetVisibility name i token seconds)) (explained (QSetVisibility name i token seconds))"
  unfolding run_mq.simps MqStore_set_visibility_timeout_def
proof (intro stepwise_reply stepwise_check stepwise_queue)
  fix q
  let ?D = "delivery now (q_id q) i token"
  let ?f = "\<lambda>until db. (Inr True, db\<lparr>mq_messages := map (\<lambda>m. if ?D m then m\<lparr>m_visibility_timeout_at := Some until\<rparr> else m)
              (mq_messages db)\<rparr>)"
  let ?op = "\<lambda>db. if \<not> list_ex ?D (mq_messages db) then (Inr False, db) else given (timestamp_after now seconds) ?f db"
  show "\<exists>ls. mq_steps lib now (q_id q) ls db (snd (?op db)) \<and> explained (QSetVisibility name i token seconds) ls (map_sum id RFlag (fst (?op db)))"
  proof (cases "list_ex ?D (mq_messages db)")
    case True
    show ?thesis
    proof (cases "timestamp_after now seconds")
      case (Inr until)
      from delivery_row [OF assms True] obtain m where m: "m \<in> set (mq_messages db)" "m_id m = i" "delivery now (q_id q) (m_id m) token m"
        "\<And>x. x \<in> set (mq_messages db) \<Longrightarrow> ?D x \<longleftrightarrow> m_id x = i" by blast
      have "snd (?f until db) = update_message i (\<lambda>m. m\<lparr>m_visibility_timeout_at := Some until\<rparr>) db" using m(4) by (simp add: update_message_def cong: map_cong)
      with mq_step.extended [OF m(1,3), of lib until] m(2) True Inr show ?thesis by (auto intro: mq_steps_one)
    qed (auto simp: True intro: mq_steps.none)
  qed (auto intro: mq_steps.none)
qed simp_all

lemma insert_message_steps:
  assumes "has_queue db qid" "0 \<le> delay" "insert_message lib now qid payload delay db = (Inr i, db')"
  shows "mq_step lib now qid (Sent i) db db'" "has_queue db' qid"
proof -
  from assms(3) obtain v at where "timestamp_after now delay = Inr at" "i = mq_next_message db" "db' = enqueue lib now qid v at db"
    by (auto simp: insert_message_def given_def enqueue_def sent_row_def split: sum.splits)
  with assms(1,2) mq_step.sent [OF assms(1), of now at lib v] show "mq_step lib now qid (Sent i) db db'" "has_queue db' qid"
    by (simp_all add: timestamp_not_before) (simp add: has_queue_def enqueue_def)
qed

lemma insert_messages_steps:
  assumes "has_queue db qid" "0 \<le> delay" "insert_messages lib now qid payloads delay db = (Inr ids, db')"
  shows "mq_steps lib now qid (map Sent ids) db db' \<and> length ids = length payloads"
  using assms
proof (induction payloads arbitrary: db ids)
  case (Cons payload payloads)
  from Cons.prems(3) obtain i db1 rest where i: "insert_message lib now qid payload delay db = (Inr i, db1)"
    "insert_messages lib now qid payloads delay db1 = (Inr rest, db')" "ids = i # rest"
    by (auto simp: andThen_def split: prod.splits sum.splits)
  show ?case using insert_message_steps [OF Cons.prems(1,2) i(1)] Cons.IH [OF _ Cons.prems(2) i(2)] i(3) by (auto intro: mq_steps.more)
qed (auto intro: mq_steps.none)

lemma notify_queue_steps:
  assumes "notify_queue name n db = (Inr u, db')"
  shows "mq_step lib now qid Notified db db'"
proof -
  from assms obtain notices where "db' = db\<lparr>mq_notifications := notices\<rparr>"
    by (auto simp: notify_queue_def given_def pg_notify_def split: sum.splits if_splits)
  then show ?thesis by (simp add: mq_step.notified)
qed

text \<open>A transaction that inserts messages and notifies: all or nothing.\<close>

lemma transaction_steps:
  assumes "\<And>x db'. op db = (Inr x, db') \<Longrightarrow> \<exists>ls. mq_steps lib now qid ls db db' \<and> R ls (Inr x)" "\<And>e. R [] (Inl e)"
  shows "\<exists>ls. mq_steps lib now qid ls db (snd (transaction op db)) \<and> R ls (fst (transaction op db))"
proof (cases "op db")
  case (Pair r db')
  then show ?thesis
  proof (cases r)
    case (Inl e)
    then show ?thesis using Pair assms(2) by (intro exI [of _ "[]"]) (simp add: transaction_def mq_steps.none)
  qed (use Pair assms(1) in \<open>auto simp: transaction_def\<close>)
qed

lemma non_negative: "validate_non_negative_seconds field seconds = Inr x \<Longrightarrow> 0 \<le> seconds"
  by (simp add: validate_non_negative_seconds_def split: if_splits)

lemma stepwise_non_negative:
  assumes "\<And>e. R [] (Inl e)" "0 \<le> seconds \<Longrightarrow> stepwise lib now name db op R"
  shows "stepwise lib now name db (check (validate_non_negative_seconds field seconds) op) R"
proof (cases "validate_non_negative_seconds field seconds")
  case (Inl e)
  show ?thesis by (rule stepwise_none [of _ _ "Inl e"]) (simp_all add: Inl assms(1))
qed (use assms(2) non_negative in \<open>auto simp: stepwise_def\<close>)

lemma send_stepwise:
  "stepwise lib now name db (run_mq lib self now (QSend name payload delay)) (explained (QSend name payload delay))"
  unfolding run_mq.simps MqStore_send_def send_value_def
proof (intro stepwise_reply stepwise_non_negative stepwise_check stepwise_given stepwise_queue)
  fix v q
  assume delay: "0 \<le> delay" and q: "q \<in> set (mq_queues db)"
  let ?op = "andThen (insert_message lib now (q_id q) v delay) (\<lambda>ident. andThen (notify_queue name 1) (\<lambda>_ db. (Inr ident, db)))"
  show "\<exists>ls. mq_steps lib now (q_id q) ls db (snd (transaction ?op db)) \<and>
      explained (QSend name payload delay) ls (map_sum id (\<lambda>i. RIds [i]) (fst (transaction ?op db)))"
  proof (rule transaction_steps [where R = "\<lambda>ls r. explained (QSend name payload delay) ls (map_sum id (\<lambda>i. RIds [i]) r)"])
    fix i db' assume "?op db = (Inr i, db')"
    then obtain db1 where *: "insert_message lib now (q_id q) v delay db = (Inr i, db1)" "notify_queue name 1 db1 = (Inr (), db')"
      by (auto simp: andThen_def split: prod.splits sum.splits)
    have "has_queue db (q_id q)" using q by (simp add: has_queue_def)
    from insert_message_steps(1) [OF this delay *(1)] notify_queue_steps [OF *(2), of lib now "q_id q"]
    show "\<exists>ls. mq_steps lib now (q_id q) ls db db' \<and> explained (QSend name payload delay) ls (map_sum id (\<lambda>i. RIds [i]) (Inr i))"
      by (intro exI [of _ "[Sent i, Notified]"]) (auto intro: mq_steps.intros)
  qed simp
qed simp_all

lemma send_batch_stepwise:
  "stepwise lib now name db (run_mq lib self now (QSendBatch name payloads delay)) (explained (QSendBatch name payloads delay))"
proof (cases "payloads = []")
  case True
  show ?thesis unfolding run_mq.simps MqStore_send_batch_def
    by (intro stepwise_reply stepwise_check) (auto simp: True intro: stepwise_none [of _ _ "Inr []"])
next
  case False
  have [simp]: "length vs = length payloads" if "parse_payloads lib self payloads = Inr vs" for vs
    using that by (induction payloads arbitrary: vs) (auto split: sum.splits)
  show ?thesis unfolding run_mq.simps MqStore_send_batch_def if_not_P [OF False]
  proof (intro stepwise_reply stepwise_non_negative stepwise_check stepwise_queue)
    fix q
    assume delay: "0 \<le> delay" and q: "q \<in> set (mq_queues db)"
    let ?op = "\<lambda>vs. andThen (insert_messages lib now (q_id q) vs delay) (\<lambda>ids. andThen (notify_queue name (length ids)) (\<lambda>_ db. (Inr ids, db)))"
    have sends: "\<exists>ls. mq_steps lib now (q_id q) ls db db' \<and> explained (QSendBatch name payloads delay) ls (Inr (RIds ids))"
      if vs: "parse_payloads lib self payloads = Inr vs" and run: "?op vs db = (Inr ids, db')" for vs ids db'
    proof -
      from run obtain db1 where *: "insert_messages lib now (q_id q) vs delay db = (Inr ids, db1)" "notify_queue name (length ids) db1 = (Inr (), db')"
        by (auto simp: andThen_def split: prod.splits sum.splits)
      have "has_queue db (q_id q)" using q by (simp add: has_queue_def)
      from insert_messages_steps [OF this delay *(1)] notify_queue_steps [OF *(2), of lib now "q_id q"] vs False show ?thesis
        by (intro exI [of _ "map Sent ids @ [Notified]"]) (auto intro: mq_steps_append mq_steps_one)
    qed
    show "\<exists>ls. mq_steps lib now (q_id q) ls db (snd (given (parse_payloads lib self payloads) (\<lambda>vs. transaction (?op vs)) db)) \<and>
        explained (QSendBatch name payloads delay) ls (map_sum id RIds (fst (given (parse_payloads lib self payloads) (\<lambda>vs. transaction (?op vs)) db)))"
    proof (cases "parse_payloads lib self payloads")
      case (Inr vs)
      show ?thesis unfolding Inr given_simps
        by (rule transaction_steps [where R = "\<lambda>ls r. explained (QSendBatch name payloads delay) ls (map_sum id RIds r)"])
          (use sends [OF Inr] in simp_all)
    qed (auto intro: mq_steps.none)
  qed simp_all
qed

lemma dead_letter_stepwise:
  assumes "mq_ok db" "scans lib"
  shows "stepwise lib now name db (run_mq lib self now (QDeadLetter name i reason)) (explained (QDeadLetter name i reason))"
  unfolding run_mq.simps MqStore_dead_letter_def
proof (intro stepwise_reply stepwise_queue)
  fix q
  let ?P = "\<lambda>m. m_queue_id m = q_id q \<and> m_id m = i"
  let ?op = "\<lambda>db. case move_to_dlq lib now reason ?P db of (moved, db') \<Rightarrow> (Inr (0 < moved), db')"
  obtain ms where ms: "mset ms = mset (filter ?P (mq_messages db))"
    "move_to_dlq lib now reason ?P db = (int (length ms), fold (bury now reason) ms db)"
    "mq_steps lib now (q_id q) (map (Buried \<circ> m_id) ms) db (fold (bury now reason) ms db)"
    by (rule move_to_dlq_steps [OF assms, where P = ?P and qid = "q_id q"]) auto
  have ids: "m_id m = i" if "m \<in> set ms" for m using that mset_eq_setD [OF ms(1)] by simp
  have "mset (map m_id ms) = mset (map m_id (filter ?P (mq_messages db)))" using ms(1) by simp
  then have "distinct (map m_id ms)" using mq_ok_ids(1) [OF assms(1)] distinct_map_filter_subset mset_eq_imp_distinct_iff by blast
  then have "ms = [] \<or> (\<exists>m. ms = [m] \<and> m_id m = i)" using ids by (cases ms; cases "tl ms") (auto simp: image_iff)
  with ms(2,3) show "\<exists>ls. mq_steps lib now (q_id q) ls db (snd (?op db)) \<and> explained (QDeadLetter name i reason) ls (map_sum id RFlag (fst (?op db)))"
    by (auto intro: mq_steps.none)
qed simp

lemma reprocess_found:
  assumes "mq_ok db" "d \<in> set (mq_dlq db)"
  defines "P \<equiv> \<lambda>x. d_queue_id x = d_queue_id d \<and> d_original_message_id x = d_original_message_id d"
  shows "andThen (reinsert_all lib now (filter P (mq_dlq db))) (\<lambda>inserted db. (Inr (0 < inserted), db)) (db\<lparr>mq_dlq := filter (\<lambda>d. \<not> P d) (mq_dlq db)\<rparr>) =
    (Inr True, revive lib now d db)"
proof -
  have only: "P x \<longleftrightarrow> d_original_message_id x = d_original_message_id d" if "x \<in> set (mq_dlq db)" for x
    using that assms(2) mq_ok_ids(2) [OF assms(1)] unfolding P_def by (metis distinct_map inj_onD)
  then have "filter P (mq_dlq db) = [d]" using filter_one [OF mq_ok_ids(2) [OF assms(1)] assms(2)] by (simp cong: filter_cong)
  moreover have "filter (\<lambda>d. \<not> P d) (mq_dlq db) = filter (\<lambda>x. d_original_message_id x \<noteq> d_original_message_id d) (mq_dlq db)"
    using only by (simp cong: filter_cong)
  moreover have "\<not> list_ex (\<lambda>m. m_id m = d_original_message_id d) (mq_messages db)"
    using mq_ok_ids(3) [OF assms(1)] assms(2) by (fastforce simp: list_ex_iff)
  ultimately show ?thesis by (simp add: andThen_def reinsert_def revive_def revived_row_def)
qed

lemma reprocess_stepwise:
  assumes "mq_ok db"
  shows "stepwise lib now name db (run_mq lib self now (QReprocess name i)) (explained (QReprocess name i))"
  unfolding run_mq.simps MqStore_reprocess_dlq_message_def
proof (intro stepwise_reply stepwise_queue)
  fix q
  let ?P = "\<lambda>d. d_queue_id d = q_id q \<and> d_original_message_id d = i"
  let ?op = "transaction (\<lambda>db. let P = ?P in andThen (reinsert_all lib now (filter P (mq_dlq db))) (\<lambda>inserted db. (Inr (0 < inserted), db))
          (db\<lparr>mq_dlq := filter (\<lambda>d. \<not> P d) (mq_dlq db)\<rparr>))"
  show "\<exists>ls. mq_steps lib now (q_id q) ls db (snd (?op db)) \<and> explained (QReprocess name i) ls (map_sum id RFlag (fst (?op db)))"
  proof (cases "\<exists>d \<in> set (mq_dlq db). ?P d")
    case True
    then obtain d where d: "d \<in> set (mq_dlq db)" "d_queue_id d = q_id q" "d_original_message_id d = i" by blast
    with reprocess_found [OF assms d(1), of lib now] have "?op db = (Inr True, revive lib now d db)" by (simp add: transaction_def)
    with mq_step.revived [OF d(1,2), of lib now] d(3) show ?thesis by (auto intro: mq_steps_one)
  next
    case False
    then have "filter ?P (mq_dlq db) = []" "filter (\<lambda>d. \<not> ?P d) (mq_dlq db) = mq_dlq db" by (auto simp: filter_empty_conv filter_id_conv)
    then have "?op db = (Inr False, db)" by (simp add: transaction_def andThen_def)
    then show ?thesis by (auto intro: mq_steps.none)
  qed
qed simp

text \<open>What \<open>dead_letter_due_messages\<close> leaves: no message that can be read is spent.\<close>

lemma dead_letter_due_steps:
  assumes "mq_ok db" "scans lib" "q \<in> set (mq_queues db)"
  obtains ms n where "dead_letter_due_messages lib now (q_id q) db = (Inr n, fold (bury now (''max_redelivery_count='' @ dec (limit_of q))) ms db)"
    "mset ms = mset (filter (\<lambda>m. m_queue_id m = q_id q \<and> spent q m \<and> visible now m) (mq_messages db))"
    "mq_steps lib now (q_id q) (map (Buried \<circ> m_id) ms) db (fold (bury now (''max_redelivery_count='' @ dec (limit_of q))) ms db)"
    "mq_messages (fold (bury now (''max_redelivery_count='' @ dec (limit_of q))) ms db) =
       filter (\<lambda>m. \<not> (m_queue_id m = q_id q \<and> spent q m \<and> visible now m)) (mq_messages db)"
proof -
  let ?P = "\<lambda>m. m_queue_id m = q_id q \<and> spent q m \<and> visible now m"
  have "find (\<lambda>x. q_id x = q_id q) (mq_queues db) = Some q"
    using find_unique [of q_id "mq_queues db" q] assms(1,3) by (simp add: mq_ok_def)
  then have "dead_letter_due_messages lib now (q_id q) db =
      map_prod Inr id (move_to_dlq lib now (''max_redelivery_count='' @ dec (limit_of q)) ?P db)"
    by (simp add: dead_letter_due_messages_def Let_def limit_of_def [symmetric] spent_def)
  moreover obtain ms where "mset ms = mset (filter ?P (mq_messages db))"
    "move_to_dlq lib now (''max_redelivery_count='' @ dec (limit_of q)) ?P db = (int (length ms), fold (bury now (''max_redelivery_count='' @ dec (limit_of q))) ms db)"
    "mq_steps lib now (q_id q) (map (Buried \<circ> m_id) ms) db (fold (bury now (''max_redelivery_count='' @ dec (limit_of q))) ms db)"
    "mq_messages (fold (bury now (''max_redelivery_count='' @ dec (limit_of q))) ms db) = filter (\<lambda>m. \<not> ?P m) (mq_messages db)"
    by (rule move_to_dlq_steps [OF assms(1,2), where P = ?P and qid = "q_id q" and reason = "''max_redelivery_count='' @ dec (limit_of q)" and now = now]) auto
  ultimately show thesis using that by simp
qed

lemma picked_rows:
  assumes "mq_ok db"
  shows "distinct (map m_id (picked now qid quantity db))"
    "set (picked now qid quantity db) \<subseteq> {m \<in> set (mq_messages db). m_queue_id m = qid \<and> visible now m}"
proof -
  let ?rows = "sort_key m_id (filter (\<lambda>m. m_queue_id m = qid \<and> visible now m) (mq_messages db))"
  have "mset (map m_id ?rows) = mset (map m_id (filter (\<lambda>m. m_queue_id m = qid \<and> visible now m) (mq_messages db)))"
    by simp
  then have "distinct (map m_id ?rows)" using mq_ok_ids(1) [OF assms] distinct_map_filter_subset mset_eq_imp_distinct_iff by blast
  then show "distinct (map m_id (picked now qid quantity db))" by (simp add: picked_def take_map [symmetric])
  show "set (picked now qid quantity db) \<subseteq> {m \<in> set (mq_messages db). m_queue_id m = qid \<and> visible now m}"
    using set_take_subset [of "nat quantity" ?rows] by (auto simp: picked_def)
qed

lemma claim_success:
  assumes "claim lib now qid quantity timeout db = (Inr rows, db')"
  shows "\<exists>until. (picked now qid quantity db = [] \<or> timestamp_after now timeout = Inr until) \<and>
    (\<forall>m \<in> set (picked now qid quantity db). m_read_count m \<noteq> 2147483647)"
  using assms by (cases "timestamp_after now timeout") (auto simp: claim_def Let_def list_ex_iff split: if_splits)

lemma claim_result:
  assumes "scans lib" "distinct (map m_id (picked now qid quantity db))"
    "picked now qid quantity db = [] \<or> timestamp_after now timeout = Inr until"
    "\<forall>m \<in> set (picked now qid quantity db). m_read_count m \<noteq> 2147483647"
  shows "claim lib now qid quantity timeout db =
    (Inr (ml_scan lib (map (claimed lib now until) (enumerate (mq_draws db) (picked now qid quantity db)))),
     fold (deliver lib now until) (picked now qid quantity db) db)"
proof (cases "picked now qid quantity db = []")
  case True
  have "mset (ml_scan lib []) = mset []" using assms(1) unfolding scans_def by blast
  then have "ml_scan lib [] = []" by simp
  with True show ?thesis by (simp add: claim_def)
next
  case False
  with assms(3,4) show ?thesis by (auto simp: claim_def Let_def fold_deliver [OF assms(2)] list_ex_iff)
qed

lemma claim_steps:
  assumes "mq_ok db" "scans lib" "q \<in> set (mq_queues db)" "\<forall>m \<in> set (mq_messages db). m_queue_id m = q_id q \<longrightarrow> visible now m \<longrightarrow> \<not> spent q m"
    "claim lib now (q_id q) quantity timeout db = (Inr rows, db')"
  obtains until where "picked now (q_id q) quantity db = [] \<or> timestamp_after now timeout = Inr until" "db' = fold (deliver lib now until) (picked now (q_id q) quantity db) db"
    "mset rows = mset (map (claimed lib now until) (enumerate (mq_draws db) (picked now (q_id q) quantity db)))"
    "mq_steps lib now (q_id q) (deliveries lib now until (mq_draws db) (picked now (q_id q) quantity db)) db db'"
proof -
  let ?ms = "picked now (q_id q) quantity db"
  from claim_success [OF assms(5)] obtain until where until: "?ms = [] \<or> timestamp_after now timeout = Inr until"
    "\<forall>m \<in> set ?ms. m_read_count m \<noteq> 2147483647" by blast
  note ms = picked_rows [OF assms(1), of now "q_id q" quantity] and small = until(2)
  from claim_result [OF assms(2) ms(1) until] assms(5)
  have rows: "rows = ml_scan lib (map (claimed lib now until) (enumerate (mq_draws db) ?ms))"
    and db': "db' = fold (deliver lib now until) ?ms db" by simp_all
  have "m_read_count m < 2147483647" if "m \<in> set ?ms" for m
  proof -
    from ms(2) that have "message_ok db m" using mq_ok_message(3) [OF assms(1)] by blast
    with small that show ?thesis by (auto simp: message_ok_def less_le)
  qed
  then have "mq_steps lib now (q_id q) (deliveries lib now until (mq_draws db) ?ms) db db'"
    unfolding db' using ms assms(3,4) by (intro deliver_steps [where q = q]) auto
  moreover have "mset rows = mset (map (claimed lib now until) (enumerate (mq_draws db) ?ms))"
    unfolding rows using assms(2) unfolding scans_def by blast
  ultimately show thesis using that [OF until(1) db'] by blast
qed


text \<open>A read: the spent messages are buried, then the oldest of those that can be read are delivered.\<close>

definition holds_token :: "'v mq_message \<Rightarrow> int \<times> string" where
  "holds_token m = (m_id m, case m_ack_token m of None \<Rightarrow> [] | Some t \<Rightarrow> t)"

lemma holds_token_rows:
  assumes "mset rows = mset (map (claimed lib now until) (enumerate draw ms))"
  shows "mset (map (\<lambda>m. (qm_id m, qm_ack_token m)) (map row_to_message rows)) =
    mset (map (\<lambda>(k, m). (m_id m, new_token lib now k m)) (enumerate draw ms))"
proof -
  have "map (\<lambda>m. (qm_id m, qm_ack_token m)) (map row_to_message rows) = map holds_token rows"
    by (simp add: row_to_message_def holds_token_def)
  moreover have "mset (map holds_token rows) = mset (map holds_token (map (claimed lib now until) (enumerate draw ms)))"
    using arg_cong [OF assms, of "image_mset holds_token"] by (simp only: mset_map)
  moreover have "map holds_token (map (claimed lib now until) (enumerate draw ms)) = map (\<lambda>(k, m). (m_id m, new_token lib now k m)) (enumerate draw ms)"
    by (simp add: claimed_def holds_token_def comp_def case_prod_unfold)
  ultimately show ?thesis by (simp only:)
qed

lemma MqStore_read_steps:
  assumes "mq_ok db" "scans lib" "q \<in> set (mq_queues db)"
  shows "\<exists>ls. mq_steps lib now (q_id q) ls db (snd (andThen (dead_letter_due_messages lib now (q_id q)) (\<lambda>_.
      andThen (claim lib now (q_id q) quantity timeout) (\<lambda>rows db. (Inr (map row_to_message rows), db))) db)) \<and>
    explained (QRead name quantity timeout) ls (map_sum id RMessages (fst (andThen (dead_letter_due_messages lib now (q_id q)) (\<lambda>_.
      andThen (claim lib now (q_id q) quantity timeout) (\<lambda>rows db. (Inr (map row_to_message rows), db))) db)))"
    (is "\<exists>ls. mq_steps lib now (q_id q) ls db (snd ?r) \<and> _ ls (_ (fst ?r))")
proof -
  obtain bs n db1 where due: "dead_letter_due_messages lib now (q_id q) db = (Inr n, db1)" "mq_steps lib now (q_id q) (map Buried bs) db db1"
    "mq_messages db1 = filter (\<lambda>m. \<not> (m_queue_id m = q_id q \<and> spent q m \<and> visible now m)) (mq_messages db)" "mq_queues db1 = mq_queues db"
    by (rule dead_letter_due_steps [OF assms, of now]) (auto simp: fold_bury simp flip: map_map)
  show ?thesis
  proof (cases "claim lib now (q_id q) quantity timeout db1")
    case (Pair r db2)
    show ?thesis
    proof (cases r)
      case (Inl e)
      with Pair have "db2 = db1" by (cases "timestamp_after now timeout") (auto simp: claim_def Let_def split: if_splits)
      then have "?r = (Inl e, db1)" using Inl Pair due(1) by (simp add: andThen_def)
      then show ?thesis using due(2) by fastforce
    next
      case (Inr rows)
      have spent: "\<forall>m \<in> set (mq_messages db1). m_queue_id m = q_id q \<longrightarrow> visible now m \<longrightarrow> \<not> spent q m" using due(3) by auto
      from claim_steps [OF steps_mq_ok [OF due(2) assms(1)] assms(2) _ spent Pair [unfolded Inr]] assms(3) due(4) obtain until where c:
        "mset rows = mset (map (claimed lib now until) (enumerate (mq_draws db1) (picked now (q_id q) quantity db1)))"
        "mq_steps lib now (q_id q) (deliveries lib now until (mq_draws db1) (picked now (q_id q) quantity db1)) db1 db2" by metis
      let ?ds = "map (\<lambda>(k, m). (m_id m, new_token lib now k m)) (enumerate (mq_draws db1) (picked now (q_id q) quantity db1))"
      have "deliveries lib now until (mq_draws db1) (picked now (q_id q) quantity db1) = map (\<lambda>(i, t). Delivered i t until) ?ds"
        by (simp add: deliveries_def comp_def case_prod_unfold)
      with mq_steps_append [OF due(2) c(2)]
      have "mq_steps lib now (q_id q) (map Buried bs @ map (\<lambda>(i, t). Delivered i t until) ?ds) db db2" by (simp only:)
      moreover have "?r = (Inr (map row_to_message rows), db2)" using Inr Pair due(1) by (simp add: andThen_def)
      moreover have "explained (QRead name quantity timeout) (map Buried bs @ map (\<lambda>(i, t). Delivered i t until) ?ds)
          (Inr (RMessages (map row_to_message rows)))"
        unfolding explained.simps using holds_token_rows [OF c(1)] by (intro exI [of _ bs] exI [of _ ?ds] exI [of _ until]) simp
      ultimately show ?thesis by (intro exI conjI) simp_all
    qed
  qed
qed

lemma read_stepwise:
  assumes "mq_ok db" "scans lib"
  shows "stepwise lib now name db (run_mq lib self now (QRead name quantity timeout)) (explained (QRead name quantity timeout))"
proof -
  have "explained (QRead name quantity timeout) [] (map_sum id RMessages (Inl e))" for e :: pg_error
    by (simp add: exI [of _ "[]"])
  then show ?thesis unfolding run_mq.simps MqStore_read_def
    by (intro stepwise_reply stepwise_check stepwise_queue MqStore_read_steps [OF assms])
qed

lemma create_steps:
  "\<exists>ls. mq_steps lib now qid ls db (snd (run_mq lib self now (QCreate name mode) db)) \<and>
    explained (QCreate name mode) ls (fst (run_mq lib self now (QCreate name mode) db))"
proof -
  have "snd (run_mq lib self now (QCreate name mode) db) = snd (MqStore_create_queue self name mode db)"
    by (auto simp: mq_reply_def andThen_def split: prod.splits sum.splits)
  moreover have "snd (MqStore_create_queue self name mode db) = db \<or> mq_step lib now qid (Created name) db (snd (MqStore_create_queue self name mode db))"
    by (cases "validate_queue_name name") (auto simp: MqStore_create_queue_def list_ex_iff intro!: mq_step.created)
  ultimately show ?thesis by (metis explained.simps(1) mq_steps.none mq_steps_one)
qed

lemma sweep_steps:
  "\<exists>ls. mq_steps lib now qid ls db (snd (run_mq lib self now (QSweepDlq days) db)) \<and>
    explained (QSweepDlq days) ls (fst (run_mq lib self now (QSweepDlq days) db))"
proof -
  have "snd (run_mq lib self now (QSweepDlq days) db) = snd (MqStore_sweep_dlq now days db)"
    by (auto simp: mq_reply_def andThen_def split: prod.splits sum.splits)
  moreover have "snd (MqStore_sweep_dlq now days db) = db \<or> (\<exists>at. mq_step lib now qid (DlqSwept at) db (snd (MqStore_sweep_dlq now days db)))"
    by (cases "days_before now days") (auto simp: MqStore_sweep_dlq_def intro: mq_step.dlq_swept)
  ultimately show ?thesis by (metis explained.simps(10) mq_steps.none mq_steps_one)
qed


section \<open>Every command\<close>

fun command_queue :: "mq_command \<Rightarrow> string option" where
  "command_queue (QCreate name mode) = None"
| "command_queue (QPurge name) = Some name"
| "command_queue (QDrop name) = Some name"
| "command_queue (QSend name payload delay) = Some name"
| "command_queue (QSendBatch name payloads delay) = Some name"
| "command_queue (QRead name quantity timeout) = Some name"
| "command_queue (QDeadLetter name i reason) = Some name"
| "command_queue (QListDlq name limit offset) = Some name"
| "command_queue (QGetDlq name i) = Some name"
| "command_queue (QReprocess name i) = Some name"
| "command_queue (QPurgeDlq name) = Some name"
| "command_queue (QSweepDlq days) = None"
| "command_queue (QAck name i token) = Some name"
| "command_queue (QArchive name i token) = Some name"
| "command_queue (QSetVisibility name i token seconds) = Some name"
| "command_queue (QMetrics name) = Some name"

lemmas stepwise_commands = purge_stepwise purge_dlq_stepwise query_stepwise drop_stepwise ack_stepwise archive_stepwise set_visibility_stepwise
  send_stepwise send_batch_stepwise dead_letter_stepwise reprocess_stepwise read_stepwise

theorem run_mq_steps:
  assumes "mq_ok db" "scans lib" "run_mq lib self now cmd db = (r, db')"
  obtains qid ls where "mq_steps lib now qid ls db db'" "explained cmd ls r"
    "\<And>name. command_queue cmd = Some name \<Longrightarrow> ls = [] \<or> named db name qid"
proof (cases "command_queue cmd")
  case None
  then have "(\<exists>name mode. cmd = QCreate name mode) \<or> (\<exists>days. cmd = QSweepDlq days)" by (cases cmd) auto
  then have "\<exists>ls. mq_steps lib now 0 ls db db' \<and> explained cmd ls r"
    using create_steps [of lib now 0 db self] sweep_steps [of lib now 0 db self] assms(3) by (metis fst_conv snd_conv)
  then show thesis using that None by auto
next
  case (Some name)
  then have "stepwise lib now name db (run_mq lib self now cmd) (explained cmd)"
    using assms(1,2) by (cases cmd) (simp_all only: command_queue.simps option.inject option.distinct stepwise_commands)
  then obtain qid ls where "mq_steps lib now qid ls db db'" "explained cmd ls r" "ls = [] \<or> named db name qid"
    unfolding stepwise_def assms(3) fst_conv snd_conv by metis
  with Some show thesis by (intro that) simp_all
qed

lemma run_mq_ok: "mq_ok db \<Longrightarrow> scans lib \<Longrightarrow> run_mq lib self now cmd db = (r, db') \<Longrightarrow> mq_ok db'"
  by (metis run_mq_steps steps_mq_ok)

lemma reachable_mq_ok: "reachable_mq lib self db \<Longrightarrow> scans lib \<Longrightarrow> mq_ok db"
  by (induction rule: reachable_mq.induct) (auto intro: mq_ok_empty run_mq_ok)

end
