(* ===== verification/Mq_Life.thy ===== *)
theory Mq_Life
  imports Mq_Ops
begin

text \<open>
  What happens to a message over a run of commands: it is kept until something removes it, hidden
  while it is in flight, and delivered when its turn comes. Facts about steps, and the locale that
  carries them to runs.
\<close>


section \<open>From steps to runs\<close>

lemma named_kept: "mq_step lib now qid l db db' \<Longrightarrow> l \<noteq> Dropped \<Longrightarrow> named db name q \<Longrightarrow> named db' name q"
  by (induction rule: mq_step.induct)
    (auto simp: named_def enqueue_def deliver_def update_message_def bury_def drop_message_def delete_messages_def revive_def archive_row_def)

lemma named_unique:
  assumes "mq_ok db"
  shows "named db name qid \<Longrightarrow> named db name' qid \<Longrightarrow> name' = name" "named db name qid \<Longrightarrow> named db name qid' \<Longrightarrow> qid' = qid"
  using queue_unique [OF assms] unfolding named_def by metis+

text \<open>The steps that a command can make.\<close>

fun may_do :: "mq_command \<Rightarrow> label \<Rightarrow> bool" where
  "may_do (QCreate name mode) l \<longleftrightarrow> l = Created name"
| "may_do (QPurge name) l \<longleftrightarrow> l = Purged"
| "may_do (QDrop name) l \<longleftrightarrow> l = Dropped"
| "may_do (QSend name payload delay) l \<longleftrightarrow> l = Notified \<or> (\<exists>i. l = Sent i)"
| "may_do (QSendBatch name payloads delay) l \<longleftrightarrow> l = Notified \<or> (\<exists>i. l = Sent i)"
| "may_do (QRead name quantity timeout) l \<longleftrightarrow> (\<exists>i. l = Buried i) \<or> (\<exists>i t u. l = Delivered i t u)"
| "may_do (QDeadLetter name i reason) l \<longleftrightarrow> l = Buried i"
| "may_do (QReprocess name i) l \<longleftrightarrow> l = Revived i"
| "may_do (QPurgeDlq name) l \<longleftrightarrow> l = DlqPurged"
| "may_do (QSweepDlq days) l \<longleftrightarrow> (\<exists>at. l = DlqSwept at)"
| "may_do (QAck name i token) l \<longleftrightarrow> l = Acked i token"
| "may_do (QArchive name i token) l \<longleftrightarrow> l = Archived i token"
| "may_do (QSetVisibility name i token seconds) l \<longleftrightarrow> (\<exists>until. l = Extended i token until)"
| "may_do (QListDlq name limit offset) l \<longleftrightarrow> False"
| "may_do (QGetDlq name i) l \<longleftrightarrow> False"
| "may_do (QMetrics name) l \<longleftrightarrow> False"

lemma explained_read:
  assumes "explained (QRead name quantity timeout) ls r"
  obtains bs ds until where "ls = map Buried bs @ map (\<lambda>(i, t). Delivered i t until) ds"
    "\<And>ms. r = Inr (RMessages ms) \<Longrightarrow> mset (map (\<lambda>m. (qm_id m, qm_ack_token m)) ms) = mset ds" "isl r \<Longrightarrow> ds = []"
proof -
  from assms obtain bs ds until where "ls = map Buried bs @ map (\<lambda>(i, t). Delivered i t until) ds"
    "case r of Inr (RMessages ms) \<Rightarrow> mset (map (\<lambda>m. (qm_id m, qm_ack_token m)) ms) = mset ds | _ \<Rightarrow> ds = []"
    unfolding explained.simps by blast
  then show thesis by (intro that [of bs until ds]) (auto simp: isl_def)
qed

lemma explained_may_do: "explained cmd ls r \<Longrightarrow> l \<in> set ls \<Longrightarrow> may_do cmd l"
proof (cases cmd)
  case (QRead name quantity timeout)
  assume "explained cmd ls r" "l \<in> set ls"
  then show ?thesis unfolding QRead by (elim explained_read) auto
qed (auto split: if_splits sum.splits mq_reply.splits)

lemma dropped_alone: "explained cmd ls r \<Longrightarrow> Dropped \<in> set ls \<Longrightarrow> ls = [Dropped]"
  by (frule (1) explained_may_do) (cases cmd; auto split: if_splits)

text \<open>A property of the tables that the steps of the allowed commands keep, up to a time.\<close>

locale mq_stable =
  fixes lib :: "'v mq_lib" and I :: "'v mq_db \<Rightarrow> bool" and allowed :: "int \<Rightarrow> mq_command \<Rightarrow> bool"
  assumes scan: "I db \<Longrightarrow> scans lib"
    and step_kept: "mq_ok db \<Longrightarrow> I db \<Longrightarrow> allowed now cmd \<Longrightarrow> mq_step lib now qid l db db' \<Longrightarrow> may_do cmd l \<Longrightarrow>
      (\<And>name. command_queue cmd = Some name \<Longrightarrow> named db name qid) \<Longrightarrow> I db'"
begin

lemma steps_kept:
  assumes "mq_steps lib now qid ls db db'" "mq_ok db" "I db" "allowed now cmd" "\<forall>l \<in> set ls. may_do cmd l"
    and "\<And>name. command_queue cmd = Some name \<Longrightarrow> named db name qid" "Dropped \<in> set ls \<Longrightarrow> ls = [Dropped]"
  shows "I db'"
  using assms
proof (induction rule: mq_steps.induct)
  case (more l db db1 ls db2)
  have "I db1" using more.prems by (intro step_kept [OF more.prems(1,2,3) more.hyps(1)]) auto
  moreover have "mq_ok db1" by (rule step_mq_ok [OF more.hyps(1) more.prems(1)])
  moreover have "named db1 name qid" if "command_queue cmd = Some name" and "ls \<noteq> []" for name
    using named_kept [OF more.hyps(1) _ more.prems(5) [OF that(1)]] more.prems(6) that(2) by fastforce
  ultimately show ?case using more by (cases "ls = []") auto
qed

lemma run_kept:
  assumes "mq_ok db" "I db" "allowed now cmd" "run_mq lib self now cmd db = (r, db')"
  shows "I db'"
proof -
  from run_mq_steps [OF assms(1) scan [OF assms(2)] assms(4)] obtain qid ls where
    *: "mq_steps lib now qid ls db db'" "explained cmd ls r" "\<And>name. command_queue cmd = Some name \<Longrightarrow> ls = [] \<or> named db name qid" by blast
  show ?thesis
  proof (cases "ls = []")
    case True
    with * assms(2) show ?thesis by auto
  next
    case False
    with * show ?thesis by (intro steps_kept [OF *(1) assms(1-3)]) (auto dest: dropped_alone explained_may_do)
  qed
qed

lemma runs_kept:
  assumes "mq_ok db" "I db" "\<forall>(now, cmd) \<in> set cmds. allowed now cmd" "run_mqs lib self cmds db = (rs, db')"
  shows "I db'"
  using assms
proof (induction cmds arbitrary: db rs)
  case (Cons c cmds)
  obtain now cmd where c: "c = (now, cmd)" by (cases c)
  from Cons.prems(4) c obtain r db1 rs' where r: "run_mq lib self now cmd db = (r, db1)" "run_mqs lib self cmds db1 = (rs', db')"
    by (auto split: prod.splits)
  have "I db1" using run_kept [OF Cons.prems(1,2) _ r(1)] Cons.prems(3) c by simp
  then show ?case using Cons.IH [OF run_mq_ok [OF Cons.prems(1) scan [OF Cons.prems(2)] r(1)] _ _ r(2)] Cons.prems(3) by simp
qed auto

end


section \<open>Kept messages\<close>

text \<open>A command that may remove message \<open>i\<close> of the queue \<open>name\<close>.\<close>

fun may_remove :: "string \<Rightarrow> int \<Rightarrow> mq_command \<Rightarrow> bool" where
  "may_remove name i (QPurge name') \<longleftrightarrow> name' = name"
| "may_remove name i (QDrop name') \<longleftrightarrow> name' = name"
| "may_remove name i (QPurgeDlq name') \<longleftrightarrow> name' = name"
| "may_remove name i (QSweepDlq days) \<longleftrightarrow> True"
| "may_remove name i (QAck name' i' token) \<longleftrightarrow> name' = name \<and> i' = i"
| "may_remove name i _ \<longleftrightarrow> False"

lemma step_contents:
  assumes "mq_step lib now qid l db db'" "mq_ok db" "c \<in> set (contents db)"
    "l = Dropped \<or> l = Purged \<or> l = DlqPurged \<or> (\<exists>t. l = Acked (fst c) t) \<Longrightarrow> fst (snd c) \<noteq> qid" "\<forall>at. l \<noteq> DlqSwept at"
  shows "c \<in> set (contents db')"
  using assms
proof (induction rule: mq_step.induct)
  case (delivered m db q until)
  have "contents (deliver lib now until m db) = contents (update_message (m_id m) (\<lambda>_. claimed lib now until (mq_draws db, m)) db)"
    by (simp add: deliver_def contents_def)
  also have "\<dots> = contents db" using message_unique [OF delivered.prems(1) _ delivered(1)] by (intro contents_update) auto
  finally show ?case using delivered.prems(2) by simp
next
  case (buried m db reason)
  then show ?case using mset_eq_setD [OF mset_contents_bury [OF mq_ok_ids(1) [OF buried.prems(1)] buried(1)]] by simp
next
  case (revived d db)
  then show ?case using mset_eq_setD [OF mset_contents_revive [OF mq_ok_ids(2) [OF revived.prems(1)] revived(1)]] by simp
next
  case (archived m db token)
  then show ?case using mset_eq_setD [OF mset_contents_archive [OF mq_ok_ids(1) [OF archived.prems(1)] archived(1)]] by simp
next
  case (extended m db token until)
  have "contents (update_message (m_id m) (\<lambda>m. m\<lparr>m_visibility_timeout_at := Some until\<rparr>) db) = contents db"
    by (intro contents_update) (simp add: message_content_def)
  then show ?case using extended.prems(2) by simp
next
  case (acked m db token)
  have "c \<in># mset (contents db)" using acked.prems(2) by simp
  then show ?case using acked.prems(3) acked.hyps(2) unfolding mset_contents_without [OF mq_ok_ids(1) [OF acked.prems(1)] acked(1)]
    by (auto simp: message_content_def delivery_def)
next
  case (sent db at v)
  then show ?case by (simp add: contents_enqueue)
qed (auto simp: contents_def message_content_def dead_content_def archive_content_def delete_messages_def)

definition kept :: "'v mq_lib \<Rightarrow> string \<Rightarrow> 'v content \<Rightarrow> 'v mq_db \<Rightarrow> bool" where
  "kept lib name c db \<longleftrightarrow> scans lib \<and> c \<in> set (contents db) \<and> named db name (fst (snd c))"

interpretation lasting: mq_stable lib "kept lib name c" "\<lambda>_ cmd. \<not> may_remove name (fst c) cmd" for lib :: "'v mq_lib" and name c
proof
  fix db now cmd qid l db'
  assume *: "mq_ok db" "kept lib name c db" "\<not> may_remove name (fst c) cmd" "mq_step lib now qid l db db'" "may_do cmd l"
    "\<And>name. command_queue cmd = Some name \<Longrightarrow> named db name qid"
  have other: "fst (snd c) \<noteq> qid" if "named db name' qid" "name' \<noteq> name" for name'
    using that *(2) named_unique(1) [OF *(1)] by (auto simp: kept_def)
  have "c \<in> set (contents db')"
    using *(2,3,5,6) other by (intro step_contents [OF *(4,1)]; cases cmd) (auto simp: kept_def)
  moreover have "named db' name (fst (snd c))"
  proof (cases "l = Dropped")
    case True
    then obtain name' where "cmd = QDrop name'" using *(5) by (cases cmd) auto
    with *(3,6) other have "fst (snd c) \<noteq> qid" by simp
    with *(2,4) True show ?thesis by (auto simp: kept_def named_def)
  next
    case False
    with *(2,4) show ?thesis by (auto simp: kept_def intro: named_kept)
  qed
  ultimately show "kept lib name c db'" using *(2) by (simp add: kept_def)
qed (simp add: kept_def)


section \<open>Messages in flight\<close>

text \<open>
  A message that is in flight until a time stays hidden: whatever is left of it among the messages
  of its queue is the delivery that is out, or one that was cut short by its holder.
\<close>

definition hidden :: "'v mq_lib \<Rightarrow> int \<Rightarrow> int \<Rightarrow> 'v mq_db \<Rightarrow> bool" where
  "hidden lib i until db \<longleftrightarrow> scans lib \<and> i < mq_next_message db \<and>
     (\<forall>m \<in> set (mq_messages db). m_id m = i \<longrightarrow> m_visibility_timeout_at m = Some until)"

fun may_reveal :: "int \<Rightarrow> mq_command \<Rightarrow> bool" where
  "may_reveal i (QReprocess name i') \<longleftrightarrow> i' = i"
| "may_reveal i (QSetVisibility name i' token seconds) \<longleftrightarrow> i' = i"
| "may_reveal i _ \<longleftrightarrow> False"

lemma hidden_step:
  assumes "mq_step lib now qid l db db'" "mq_ok db" "hidden lib i until db" "now < until" "l \<noteq> Revived i" "\<forall>t u. l \<noteq> Extended i t u"
  shows "hidden lib i until db'"
  using assms
  by (induction rule: mq_step.induct)
    (auto simp: hidden_def enqueue_def sent_row_def deliver_def update_message_def bury_def drop_message_def delete_messages_def
      revive_def revived_row_def archive_row_def visible_def claimed_def)

interpretation in_flight: mq_stable lib "hidden lib i until" "\<lambda>now cmd. now < until \<and> \<not> may_reveal i cmd" for lib :: "'v mq_lib" and i until
proof
  fix db now cmd qid l db'
  assume *: "mq_ok db" "hidden lib i until db" "now < until \<and> \<not> may_reveal i cmd" "mq_step lib now qid l db db'" "may_do cmd l"
  from *(5,3) have "l \<noteq> Revived i" "\<forall>t u. l \<noteq> Extended i t u" by (cases cmd; auto)+
  with *(3) show "hidden lib i until db'" by (intro hidden_step [OF *(4,1,2)]) auto
qed (simp add: hidden_def)

lemma hidden_not_delivered: "mq_step lib now qid (Delivered i token u) db db' \<Longrightarrow> hidden lib i until db \<Longrightarrow> now < until \<Longrightarrow> False"
  by (auto elim!: mq_step_deliveredE simp: hidden_def visible_def)

lemma hidden_steps:
  assumes "mq_steps lib now qid ls db db'" "mq_ok db" "hidden lib i until db" "now < until" "\<forall>l \<in> set ls. l \<noteq> Revived i \<and> (\<forall>t u. l \<noteq> Extended i t u)"
  shows "\<forall>t u. Delivered i t u \<notin> set ls"
  using assms
proof (induction rule: mq_steps.induct)
  case (more l db db1 ls db2)
  have "hidden lib i until db1" using more.prems by (intro hidden_step [OF more.hyps(1) more.prems(1-3)]) auto
  with more.IH [OF step_mq_ok [OF more.hyps(1) more.prems(1)]] more.prems have "\<forall>t u. Delivered i t u \<notin> set ls" by simp
  moreover have "l \<noteq> Delivered i t u" for t u using hidden_not_delivered [OF _ more.prems(2,3)] more.hyps(1) by blast
  ultimately show ?case by auto
qed simp

lemma messages_from_read: "run_mq lib self now cmd db = (Inr (RMessages out), db') \<Longrightarrow> \<exists>name n t. cmd = QRead name n t"
  by (cases cmd) (auto simp: mq_reply_def andThen_def split: prod.splits sum.splits)

lemma hidden_not_returned:
  assumes "mq_ok db" "hidden lib i until db" "now < until" "run_mq lib self now cmd db = (Inr (RMessages out), db')"
  shows "i \<notin> qm_id ` set out"
proof
  assume "i \<in> qm_id ` set out"
  then obtain m where m: "m \<in> set out" "qm_id m = i" by auto
  from messages_from_read [OF assms(4)] obtain name n t where cmd: "cmd = QRead name n t" by blast
  have "scans lib" using assms(2) by (simp add: hidden_def)
  then obtain qid ls where ls: "mq_steps lib now qid ls db db'" "explained (QRead name n t) ls (Inr (RMessages out))"
    by (rule run_mq_steps [OF assms(1) _ assms(4) [unfolded cmd]]) (rule that)
  obtain bs ds u where e: "ls = map Buried bs @ map (\<lambda>(i, t). Delivered i t u) ds"
    "mset (map (\<lambda>m. (qm_id m, qm_ack_token m)) out) = mset ds" by (rule explained_read [OF ls(2)]) (rule that, assumption, blast)
  have "(i, qm_ack_token m) \<in> set ds" using mset_eq_setD [OF e(2)] m by force
  then have "Delivered i (qm_ack_token m) u \<in> set ls" unfolding e(1) by force
  moreover have "\<forall>l \<in> set ls. l \<noteq> Revived i \<and> (\<forall>t u. l \<noteq> Extended i t u)" unfolding e(1) by auto
  ultimately show False using hidden_steps [OF ls(1) assms(1-3)] by blast
qed

lemma in_flight_not_returned:
  assumes "mq_ok db" "hidden lib i until db" "\<forall>(now, cmd) \<in> set cmds. now < until \<and> \<not> may_reveal i cmd" "run_mqs lib self cmds db = (rs, db')"
  shows "\<forall>out. Inr (RMessages out) \<in> set rs \<longrightarrow> i \<notin> qm_id ` set out"
  using assms
proof (induction cmds arbitrary: db rs)
  case (Cons c cmds)
  obtain now cmd where c: "c = (now, cmd)" by (cases c)
  from Cons.prems(4) c obtain r db1 rs' where r: "run_mq lib self now cmd db = (r, db1)" "run_mqs lib self cmds db1 = (rs', db')" "rs = r # rs'"
    by (auto split: prod.splits)
  have now: "now < until" "\<not> may_reveal i cmd" using Cons.prems(3) c by simp_all
  have "hidden lib i until db1" using in_flight.run_kept [OF Cons.prems(1,2) _ r(1)] now by simp
  moreover have "mq_ok db1" using run_mq_ok [OF Cons.prems(1) _ r(1)] Cons.prems(2) by (simp add: hidden_def)
  ultimately have "\<forall>out. Inr (RMessages out) \<in> set rs' \<longrightarrow> i \<notin> qm_id ` set out" using Cons.IH [OF _ _ _ r(2)] Cons.prems(3) by simp
  moreover have "i \<notin> qm_id ` set out" if "r = Inr (RMessages out)" for out
    using hidden_not_returned [OF Cons.prems(1,2) now(1)] r(1) that by blast
  ultimately show ?case unfolding r(3) by auto
qed auto

text \<open>No random number drawn from now on makes this token again.\<close>

definition not_made_again :: "'v mq_lib \<Rightarrow> string \<Rightarrow> nat \<Rightarrow> bool" where
  "not_made_again lib token draws \<longleftrightarrow> (\<forall>now k m. draws \<le> k \<longrightarrow> new_token lib now k m \<noteq> token)"

text \<open>A token of a past delivery: if a message still has it, then with the time it had.\<close>

definition spent_token :: "'v mq_lib \<Rightarrow> int \<Rightarrow> string \<Rightarrow> int \<Rightarrow> 'v mq_db \<Rightarrow> bool" where
  "spent_token lib i token until db \<longleftrightarrow> scans lib \<and> not_made_again lib token (mq_draws db) \<and>
     (\<forall>m \<in> set (mq_messages db). m_id m = i \<longrightarrow> m_ack_token m = Some token \<longrightarrow> m_visibility_timeout_at m = Some until)"

fun may_extend :: "int \<Rightarrow> string \<Rightarrow> mq_command \<Rightarrow> bool" where
  "may_extend i token (QSetVisibility name i' token' seconds) \<longleftrightarrow> i' = i \<and> token' = token"
| "may_extend i token _ \<longleftrightarrow> False"

lemma step_draws: "mq_step lib now qid l db db' \<Longrightarrow> mq_draws db \<le> mq_draws db'"
  by (induction rule: mq_step.induct)
    (auto simp: enqueue_def deliver_def update_message_def bury_def drop_message_def delete_messages_def revive_def archive_row_def)

interpretation past: mq_stable lib "spent_token lib i token until" "\<lambda>_ cmd. \<not> may_extend i token cmd" for lib :: "'v mq_lib" and i token until
proof
  fix db now cmd qid l db'
  assume *: "mq_ok db" "spent_token lib i token until db" "\<not> may_extend i token cmd" "mq_step lib now qid l db db'" "may_do cmd l"
  have k: "scans lib" "not_made_again lib token (mq_draws db)" using *(2) by (simp_all add: spent_token_def)
  then have new: "\<forall>m. new_token lib now (mq_draws db) m \<noteq> token" by (simp add: not_made_again_def)
  have draws: "not_made_again lib token (mq_draws db')" using step_draws [OF *(4)] k(2) by (simp add: not_made_again_def)
  have before: "\<forall>m \<in> set (mq_messages db). m_id m = i \<longrightarrow> m_ack_token m = Some token \<longrightarrow> m_visibility_timeout_at m = Some until"
    using *(2) by (simp add: spent_token_def)
  from *(5,3) have l: "\<forall>u. l \<noteq> Extended i token u" by (cases cmd) auto
  from *(4,1) before l new
  have "\<forall>m \<in> set (mq_messages db'). m_id m = i \<longrightarrow> m_ack_token m = Some token \<longrightarrow> m_visibility_timeout_at m = Some until"
  proof (induction rule: mq_step.induct)
    case (extended m db tok u)
    then show ?case using message_unique [OF extended.prems(1) _ extended.hyps(1)] by (fastforce simp: update_message_def delivery_def)
  qed (auto simp: enqueue_def sent_row_def deliver_def update_message_def bury_def drop_message_def delete_messages_def
        revive_def revived_row_def archive_row_def claimed_def)
  then show "spent_token lib i token until db'" using k(1) draws by (simp add: spent_token_def)
qed (simp add: spent_token_def)


section \<open>Other queues\<close>

text \<open>The rows of a queue, and that it is there under its name.\<close>

definition rows_of :: "int \<Rightarrow> 'v mq_db \<Rightarrow> 'v mq_message list \<times> 'v mq_dead list \<times> 'v mq_archive list" where
  "rows_of qid db = (filter (\<lambda>m. m_queue_id m = qid) (mq_messages db), filter (\<lambda>d. d_queue_id d = qid) (mq_dlq db),
     filter (\<lambda>a. a_queue_id a = qid) (mq_archives db))"

definition undisturbed :: "'v mq_lib \<Rightarrow> string \<Rightarrow> int \<Rightarrow> 'v mq_message list \<times> 'v mq_dead list \<times> 'v mq_archive list \<Rightarrow> 'v mq_db \<Rightarrow> bool" where
  "undisturbed lib name qid rows db \<longleftrightarrow> scans lib \<and> named db name qid \<and> rows_of qid db = rows"

fun may_disturb :: "string \<Rightarrow> mq_command \<Rightarrow> bool" where
  "may_disturb name (QSweepDlq days) \<longleftrightarrow> True"
| "may_disturb name cmd \<longleftrightarrow> command_queue cmd = Some name"

lemma update_other:
  assumes "mq_ok db" "m \<in> set (mq_messages db)" "m_queue_id m \<noteq> qid" "\<And>x. x \<in> set (mq_messages db) \<Longrightarrow> m_id x = m_id m \<Longrightarrow> m_queue_id (f x) \<noteq> qid"
  shows "filter (\<lambda>m. m_queue_id m = qid) (map (\<lambda>x. if m_id x = m_id m then f x else x) (mq_messages db)) =
    filter (\<lambda>m. m_queue_id m = qid) (mq_messages db)"
proof -
  have other: "m_queue_id x \<noteq> qid" if "x \<in> set (mq_messages db)" "m_id x = m_id m" for x
    using message_unique [OF assms(1) that(1) assms(2) that(2)] assms(3) by simp
  have "set rows \<subseteq> set (mq_messages db) \<Longrightarrow> filter (\<lambda>m. m_queue_id m = qid) (map (\<lambda>x. if m_id x = m_id m then f x else x) rows) =
      filter (\<lambda>m. m_queue_id m = qid) rows" for rows
    by (induction rows) (auto simp: other assms(4))
  then show ?thesis by blast
qed

lemma step_elsewhere:
  assumes "mq_step lib now qid' l db db'" "mq_ok db" "qid \<noteq> qid'" "\<forall>at. l \<noteq> DlqSwept at"
  shows "rows_of qid db' = rows_of qid db"
  using assms
proof (induction rule: mq_step.induct)
  case (delivered m db q until)
  have "filter (\<lambda>m. m_queue_id m = qid) (mq_messages (deliver lib now until m db)) = filter (\<lambda>m. m_queue_id m = qid) (mq_messages db)"
    using delivered update_other [OF delivered.prems(1) delivered.hyps(1), of qid "\<lambda>_. claimed lib now until (mq_draws db, m)"]
    by (simp add: deliver_def update_message_def)
  then show ?case by (simp add: rows_of_def) (simp add: deliver_def update_message_def)
next
  case (extended m db token until)
  have "m_queue_id x \<noteq> qid" if "x \<in> set (mq_messages db)" "m_id x = m_id m" for x
    using message_unique [OF extended.prems(1) that(1) extended.hyps(1) that(2)] extended by (simp add: delivery_def)
  then have "filter (\<lambda>m. m_queue_id m = qid) (mq_messages (update_message (m_id m) (\<lambda>m. m\<lparr>m_visibility_timeout_at := Some until\<rparr>) db)) =
      filter (\<lambda>m. m_queue_id m = qid) (mq_messages db)"
    using extended update_other [OF extended.prems(1) extended.hyps(1), of qid "\<lambda>m. m\<lparr>m_visibility_timeout_at := Some until\<rparr>"]
    by (simp add: update_message_def delivery_def)
  then show ?case by (simp add: rows_of_def) (simp add: update_message_def)
next
  case (buried m db reason)
  have "m_id x \<noteq> m_id m \<and> m_queue_id x = qid \<longleftrightarrow> m_queue_id x = qid" if "x \<in> set (mq_messages db)" for x
    using message_unique [OF buried.prems(1) that buried.hyps(1)] buried by auto
  then show ?case using buried by (simp add: rows_of_def bury_def drop_message_def delete_messages_def dead_row_def conj_commute cong: filter_cong)
next
  case (acked m db token)
  have "m_id x \<noteq> m_id m \<and> m_queue_id x = qid \<longleftrightarrow> m_queue_id x = qid" if "x \<in> set (mq_messages db)" for x
    using message_unique [OF acked.prems(1) that acked.hyps(1)] acked by (auto simp: delivery_def)
  then show ?case by (simp add: rows_of_def drop_message_def delete_messages_def conj_commute cong: filter_cong)
next
  case (archived m db token)
  have "m_id x \<noteq> m_id m \<and> m_queue_id x = qid \<longleftrightarrow> m_queue_id x = qid" if "x \<in> set (mq_messages db)" for x
    using message_unique [OF archived.prems(1) that archived.hyps(1)] archived by (auto simp: delivery_def)
  then show ?case using archived by (simp add: rows_of_def archive_row_def drop_message_def delete_messages_def delivery_def conj_commute cong: filter_cong)
next
  case (revived d db)
  have "d_original_message_id x \<noteq> d_original_message_id d \<and> d_queue_id x = qid \<longleftrightarrow> d_queue_id x = qid" if "x \<in> set (mq_dlq db)" for x
    using that revived mq_ok_ids(2) [OF revived.prems(1)] by (metis distinct_map inj_onD)
  then show ?case using revived by (simp add: rows_of_def revive_def revived_row_def conj_commute cong: filter_cong)
next
  case (sent db at v)
  then show ?case by (simp add: rows_of_def enqueue_def sent_row_def)
qed (auto simp: rows_of_def delete_messages_def intro!: filter_cong)

interpretation elsewhere: mq_stable lib "undisturbed lib name qid rows" "\<lambda>_ cmd. \<not> may_disturb name cmd" for lib :: "'v mq_lib" and name qid rows
proof
  fix db now cmd qid' l db'
  assume *: "mq_ok db" "undisturbed lib name qid rows db" "\<not> may_disturb name cmd" "mq_step lib now qid' l db db'" "may_do cmd l"
    "\<And>name. command_queue cmd = Some name \<Longrightarrow> named db name qid'"
  have u: "scans lib" "named db name qid" "rows_of qid db = rows" using *(2) by (simp_all add: undisturbed_def)
  show "undisturbed lib name qid rows db'"
  proof (cases "command_queue cmd")
    case None
    then obtain name' where "l = Created name'" using *(3,5) by (cases cmd) auto
    with *(4) u show ?thesis by (auto elim!: mq_step.cases simp: undisturbed_def rows_of_def named_def)
  next
    case (Some name')
    then have "name' \<noteq> name" using *(3) by (cases cmd) auto
    then have "qid' \<noteq> qid" using *(6) [OF Some] u(2) named_unique(1) [OF *(1)] by blast
    moreover have "\<forall>at. l \<noteq> DlqSwept at" using *(5) Some by (cases cmd) auto
    ultimately have "rows_of qid db' = rows" using step_elsewhere [OF *(4,1), of qid] u(3) by auto
    moreover have "named db' name qid"
      using named_kept [OF *(4) _ u(2)] *(4) u(2) \<open>qid' \<noteq> qid\<close> by (cases "l = Dropped") (auto simp: named_def)
    ultimately show ?thesis using u(1) by (simp add: undisturbed_def)
  qed
qed (simp add: undisturbed_def)


section \<open>Ids are used once\<close>

lemma step_contents_back:
  assumes "mq_step lib now qid l db db'" "mq_ok db" "c \<in> set (contents db')"
  shows "c \<in> set (contents db) \<or> l = Sent (mq_next_message db) \<and> fst c = mq_next_message db"
  using assms
proof (induction rule: mq_step.induct)
  case (delivered m db q until)
  have "contents (deliver lib now until m db) = contents (update_message (m_id m) (\<lambda>_. claimed lib now until (mq_draws db, m)) db)"
    by (simp add: deliver_def contents_def)
  also have "\<dots> = contents db" using message_unique [OF delivered.prems(1) _ delivered(1)] by (intro contents_update) auto
  finally show ?case using delivered.prems(2) by simp
next
  case (buried m db reason)
  then show ?case using mset_eq_setD [OF mset_contents_bury [OF mq_ok_ids(1) [OF buried.prems(1)] buried(1)]] by simp
next
  case (revived d db)
  then show ?case using mset_eq_setD [OF mset_contents_revive [OF mq_ok_ids(2) [OF revived.prems(1)] revived(1)]] by simp
next
  case (archived m db token)
  then show ?case using mset_eq_setD [OF mset_contents_archive [OF mq_ok_ids(1) [OF archived.prems(1)] archived(1)]] by simp
next
  case (extended m db token until)
  have "contents (update_message (m_id m) (\<lambda>m. m\<lparr>m_visibility_timeout_at := Some until\<rparr>) db) = contents db"
    by (intro contents_update) (simp add: message_content_def)
  then show ?case using extended.prems(2) by simp
next
  case (sent db at v)
  then show ?case by (auto simp: contents_enqueue)
qed (auto simp: contents_def drop_message_def delete_messages_def)

lemma step_next: "mq_step lib now qid l db db' \<Longrightarrow> mq_next_message db \<le> mq_next_message db'"
  by (induction rule: mq_step.induct)
    (auto simp: enqueue_def deliver_def update_message_def bury_def drop_message_def delete_messages_def revive_def archive_row_def)

lemma steps_contents_back:
  assumes "mq_steps lib now qid ls db db'" "mq_ok db" "c \<in> set (contents db')" "\<forall>i. Sent i \<notin> set ls"
  shows "c \<in> set (contents db)"
  using assms by (induction rule: mq_steps.induct) (auto dest: step_contents_back step_mq_ok)

text \<open>A message that was removed stays away.\<close>

definition removed :: "'v mq_lib \<Rightarrow> int \<Rightarrow> 'v mq_db \<Rightarrow> bool" where
  "removed lib i db \<longleftrightarrow> scans lib \<and> i < mq_next_message db \<and> i \<notin> fst ` set (contents db)"

interpretation gone: mq_stable lib "removed lib i" "\<lambda>_ _. True" for lib :: "'v mq_lib" and i
proof
  fix db now cmd qid l db'
  assume *: "mq_ok db" "removed lib i db" "mq_step lib now qid l db db'"
  then show "removed lib i db'" using step_contents_back [OF *(3,1)] step_next [OF *(3)] by (fastforce simp: removed_def)
qed (simp add: removed_def)

lemma run_next: "mq_ok db \<Longrightarrow> scans lib \<Longrightarrow> run_mq lib self now cmd db = (r, db') \<Longrightarrow> mq_next_message db \<le> mq_next_message db'"
proof -
  assume "mq_ok db" "scans lib" "run_mq lib self now cmd db = (r, db')"
  then obtain qid ls where "mq_steps lib now qid ls db db'" by (rule run_mq_steps) (rule that)
  then show ?thesis by (induction rule: mq_steps.induct) (auto dest: step_next)
qed

lemma run_read: "run_mq lib self now (QRead name quantity timeout) db = (Inr (RMessages ms), db') \<Longrightarrow>
    MqStore_read lib self now name quantity timeout db = (Inr ms, db')"
  by (auto simp: mq_reply_def andThen_def split: prod.splits sum.splits)

lemma MqStore_send_stored:
  assumes "run_mq lib self now (QSend name payload delay) db = (Inr (RIds [i]), db')"
  shows "\<exists>qid v v'. ml_parse lib payload = Inr v \<and> ml_jsonb lib v = Inr v' \<and> named db' name qid \<and> (i, qid, v', now) \<in> set (contents db')"
proof -
  have send: "MqStore_send lib self now name payload delay db = (Inr i, db')"
    using assms by (auto simp: mq_reply_def andThen_def split: prod.splits sum.splits)
  then obtain v where v: "ml_parse lib payload = Inr v" "send_value lib now name v delay db = (Inr i, db')"
    by (auto simp: MqStore_send_def check_def given_def parse_json_payload_def split: sum.splits)
  show ?thesis
  proof (cases rule: queue_id_cases [of name db])
    case (missing e)
    with v(2) show ?thesis by (auto simp: send_value_def check_def andThen_def split: sum.splits)
  next
    case (found q)
    let ?body = "andThen (insert_message lib now (q_id q) v delay) (\<lambda>ident. andThen (notify_queue name 1) (\<lambda>_ db. (Inr ident, db)))"
    have "transaction ?body db = (Inr i, db')" using v(2) found(1) by (auto simp: send_value_def check_def andThen_def [of "queue_id name"] split: sum.splits)
    then have body: "?body db = (Inr i, db')" by (auto simp: transaction_def split: prod.splits sum.splits)
    then obtain db1 where ins: "insert_message lib now (q_id q) v delay db = (Inr i, db1)" "notify_queue name 1 db1 = (Inr (), db')"
      by (auto simp: andThen_def split: prod.splits sum.splits)
    obtain v' at where s: "ml_jsonb lib v = Inr v'" "timestamp_after now delay = Inr at"
      by (cases "ml_jsonb lib v"; cases "timestamp_after now delay") (use ins(1) in \<open>simp_all add: insert_message_def\<close>)
    with ins(1) have s': "db1 = enqueue lib now (q_id q) v' at db" "i = mq_next_message db" by (auto simp: insert_message_def enqueue_def sent_row_def)
    from ins(2) obtain notices where "db' = db1\<lparr>mq_notifications := notices\<rparr>"
      by (auto simp: notify_queue_def given_def pg_notify_def split: sum.splits if_splits)
    then have "contents db' = contents db1" "mq_queues db' = mq_queues db" by (simp_all add: contents_def s'(1) enqueue_def)
    then show ?thesis using v(1) s(1) s' found(2,3) by (auto simp: contents_enqueue named_def)
  qed
qed

lemma runs_mq_ok: "mq_ok db \<Longrightarrow> scans lib \<Longrightarrow> run_mqs lib self cmds db = (rs, db') \<Longrightarrow> mq_ok db'"
proof (induction cmds arbitrary: db rs)
  case (Cons c cmds)
  obtain now cmd where c: "c = (now, cmd)" by (cases c)
  from Cons.prems(3) c obtain r db1 rs' where r: "run_mq lib self now cmd db = (r, db1)" "run_mqs lib self cmds db1 = (rs', db')"
    by (auto split: prod.splits)
  show ?case by (rule Cons.IH [OF run_mq_ok [OF Cons.prems(1,2) r(1)] Cons.prems(2) r(2)])
qed simp

text \<open>A token whose time is over is refused.\<close>

lemma token_rejected:
  assumes "mq_ok db" "spent_token lib i token until db" "until \<le> now"
    "cmd \<in> {QAck name i token, QArchive name i token, QSetVisibility name i token seconds}" "run_mq lib self now cmd db = (r, db')"
  shows "db' = db \<and> r \<noteq> Inr (RFlag True)"
proof -
  have "scans lib" using assms(2) by (simp add: spent_token_def)
  then obtain qid ls where ls: "mq_steps lib now qid ls db db'" "explained cmd ls r" by (rule run_mq_steps [OF assms(1) _ assms(5)]) (rule that)
  have no: "\<not> delivery now qid i token m" if "m \<in> set (mq_messages db)" for m
    using assms(2,3) that by (fastforce simp: spent_token_def delivery_def in_flight_def)
  have "ls = []"
  proof (rule ccontr)
    assume "ls \<noteq> []"
    with ls(2) assms(4) obtain l where "ls = [l]" "l = Acked i token \<or> l = Archived i token \<or> (\<exists>u. l = Extended i token u)"
      by (auto split: if_splits)
    with ls(1) no show False by (auto elim!: mq_steps_ConsE elim: mq_step.cases)
  qed
  with ls assms(4) show ?thesis by (auto split: if_splits)
qed

end
