(* ===== verification/Mq_Reads.thy ===== *)
theory Mq_Reads
  imports Mq_Life
begin

text \<open>
  What a read returns and leaves behind, that reads reach every message, and that waiting reads return.
\<close>


section \<open>The result of a read\<close>

definition readable_rows :: "int \<Rightarrow> mq_queue \<Rightarrow> 'v mq_db \<Rightarrow> 'v mq_message list" where
  "readable_rows now q db = sort_key m_id (filter (\<lambda>m. m_queue_id m = q_id q \<and> visible now m \<and> \<not> spent q m) (mq_messages db))"

text \<open>The arguments of a read that pass its checks.\<close>

definition read_args :: "MqStore \<Rightarrow> string \<Rightarrow> int \<Rightarrow> int \<Rightarrow> bool" where
  "read_args self name quantity timeout \<longleftrightarrow> 0 < quantity \<and> quantity \<le> lim_max_batch_size (ms_limits self) \<and>
     0 \<le> timeout \<and> timeout \<le> lim_max_visibility_timeout_seconds (ms_limits self) \<and> validate_queue_name name = Inr ()"

text \<open>A read that cannot fail: its visibility timeout also ends at a time the database can hold.\<close>

definition read_ok :: "MqStore \<Rightarrow> int \<Rightarrow> string \<Rightarrow> int \<Rightarrow> int \<Rightarrow> bool" where
  "read_ok self now name quantity timeout \<longleftrightarrow> 0 < quantity \<and> quantity \<le> lim_max_batch_size (ms_limits self) \<and>
     0 \<le> timeout \<and> timeout \<le> lim_max_visibility_timeout_seconds (ms_limits self) \<and> validate_queue_name name = Inr () \<and>
     (\<exists>until. timestamp_after now timeout = Inr until)"

lemma read_ok_args: "read_ok self now name quantity timeout \<Longrightarrow> read_args self name quantity timeout"
  by (simp add: read_ok_def read_args_def)

lemma readable_rows_set: "set (readable_rows now q db) = {m \<in> set (mq_messages db). m_queue_id m = q_id q \<and> visible now m \<and> \<not> spent q m}"
  by (auto simp: readable_rows_def)

lemma readable_rows_distinct:
  assumes "mq_ok db"
  shows "distinct (map m_id (readable_rows now q db))"
proof -
  have "mset (map m_id (readable_rows now q db)) =
      mset (map m_id (filter (\<lambda>m. m_queue_id m = q_id q \<and> visible now m \<and> \<not> spent q m) (mq_messages db)))"
    by (simp add: readable_rows_def)
  then show ?thesis using mq_ok_ids(1) [OF assms] distinct_map_filter_subset mset_eq_imp_distinct_iff by blast
qed

lemma queue_id_found: "mq_ok db \<Longrightarrow> q \<in> set (mq_queues db) \<Longrightarrow> validate_queue_name (q_name q) = Inr () \<Longrightarrow> queue_id (q_name q) db = (Inr (q_id q), db)"
  using find_unique [of q_name "mq_queues db" q] by (simp add: queue_id_def mq_ok_def)

lemma read_args_unfold:
  assumes "read_args self name quantity timeout" "mq_ok db" "q \<in> set (mq_queues db)" "q_name q = name"
  shows "MqStore_read lib self now name quantity timeout db = andThen (dead_letter_due_messages lib now (q_id q)) (\<lambda>_.
    andThen (claim lib now (q_id q) quantity timeout) (\<lambda>rows db. (Inr (map row_to_message rows), db))) db"
  using assms queue_id_found [OF assms(2,3)]
  by (auto simp: MqStore_read_def read_args_def validate_quantity_def validate_non_negative_seconds_def validate_visibility_timeout_def andThen_def)

lemma picked_readable:
  assumes "mq_messages db1 = filter (\<lambda>m. \<not> (m_queue_id m = q_id q \<and> spent q m \<and> visible now m)) (mq_messages db)"
  shows "picked now (q_id q) quantity db1 = take (nat quantity) (readable_rows now q db)"
proof -
  have "filter (\<lambda>m. m_queue_id m = q_id q \<and> visible now m) (mq_messages db1) =
      filter (\<lambda>m. m_queue_id m = q_id q \<and> visible now m \<and> \<not> spent q m) (mq_messages db)"
    unfolding assms filter_filter by (rule filter_cong) auto
  then show ?thesis by (simp add: picked_def readable_rows_def)
qed

lemma read_result:
  assumes "mq_ok db" "scans lib" "q \<in> set (mq_queues db)" "q_name q = name" "read_args self name quantity timeout"
    "take (nat quantity) (readable_rows now q db) = [] \<or> timestamp_after now timeout = Inr until"
    "\<forall>m \<in> set (take (nat quantity) (readable_rows now q db)). m_read_count m < 2147483647"
  obtains out db1 bs where "MqStore_read lib self now name quantity timeout db =
      (Inr out, fold (deliver lib now until) (take (nat quantity) (readable_rows now q db)) db1)"
    "mset out = mset (map (row_to_message \<circ> claimed lib now until) (enumerate (mq_draws db) (take (nat quantity) (readable_rows now q db))))"
    "mq_ok db1" "mq_queues db1 = mq_queues db" "mq_draws db1 = mq_draws db"
    "mq_messages db1 = filter (\<lambda>m. \<not> (m_queue_id m = q_id q \<and> spent q m \<and> visible now m)) (mq_messages db)"
    "mq_next_message db1 = mq_next_message db"
    "db1 = fold (bury now (''max_redelivery_count='' @ dec (limit_of q))) bs db"
    "mset bs = mset (filter (\<lambda>m. m_queue_id m = q_id q \<and> spent q m \<and> visible now m) (mq_messages db))"
proof -
  obtain n bs db1 where due: "dead_letter_due_messages lib now (q_id q) db = (Inr n, db1)" "mq_steps lib now (q_id q) (map (Buried \<circ> m_id) bs) db db1"
    "mq_messages db1 = filter (\<lambda>m. \<not> (m_queue_id m = q_id q \<and> spent q m \<and> visible now m)) (mq_messages db)"
    "mq_queues db1 = mq_queues db" "mq_draws db1 = mq_draws db" "mq_next_message db1 = mq_next_message db"
    "db1 = fold (bury now (''max_redelivery_count='' @ dec (limit_of q))) bs db"
    "mset bs = mset (filter (\<lambda>m. m_queue_id m = q_id q \<and> spent q m \<and> visible now m) (mq_messages db))"
    by (rule dead_letter_due_steps [OF assms(1-3), of now]) (auto simp: fold_bury)
  have ok1: "mq_ok db1" by (rule steps_mq_ok [OF due(2) assms(1)])
  have picked: "picked now (q_id q) quantity db1 = take (nat quantity) (readable_rows now q db)" by (rule picked_readable [OF due(3)])
  have "\<forall>m \<in> set (picked now (q_id q) quantity db1). m_read_count m \<noteq> 2147483647" using assms(7) unfolding picked by auto
  from claim_result [OF assms(2) picked_rows(1) [OF ok1] assms(6) [folded picked] this]
  have "claim lib now (q_id q) quantity timeout db1 = (Inr (ml_scan lib (map (claimed lib now until) (enumerate (mq_draws db) (take (nat quantity) (readable_rows now q db))))),
      fold (deliver lib now until) (take (nat quantity) (readable_rows now q db)) db1)"
    unfolding picked due(5) .
  then have "MqStore_read lib self now name quantity timeout db =
      (Inr (map row_to_message (ml_scan lib (map (claimed lib now until) (enumerate (mq_draws db) (take (nat quantity) (readable_rows now q db)))))),
       fold (deliver lib now until) (take (nat quantity) (readable_rows now q db)) db1)"
    unfolding read_args_unfold [OF assms(5,1,3,4)] by (simp add: andThen_def due(1))
  moreover have "mset (ml_scan lib xs) = mset xs" for xs using assms(2) by (simp add: scans_def)
  ultimately show thesis using ok1 due(3-8) by (intro that [of _ db1 bs]) (auto simp: multiset.map_comp)
qed

text \<open>A read that succeeds.\<close>

lemma read_success:
  assumes "mq_ok db" "scans lib" "MqStore_read lib self now name quantity timeout db = (Inr out, db')"
  obtains q until where "q \<in> set (mq_queues db)" "q_name q = name" "read_args self name quantity timeout"
    "take (nat quantity) (readable_rows now q db) = [] \<or> timestamp_after now timeout = Inr until"
    "\<forall>m \<in> set (take (nat quantity) (readable_rows now q db)). m_read_count m < 2147483647"
proof -
  have c: "\<not> isl (validate_quantity quantity (lim_max_batch_size (ms_limits self)))"
    "\<not> isl (validate_non_negative_seconds ''visibility_timeout_seconds'' timeout)" "\<not> isl (validate_visibility_timeout self timeout)"
    using assms(3) by (auto simp: MqStore_read_def check_def split: sum.splits)
  have r: "andThen (queue_id name) (\<lambda>qid. andThen (dead_letter_due_messages lib now qid) (\<lambda>_.
      andThen (claim lib now qid quantity timeout) (\<lambda>rows db. (Inr (map row_to_message rows), db)))) db = (Inr out, db')"
    using assms(3) by (auto simp: MqStore_read_def check_def split: sum.splits)
  show thesis
  proof (cases rule: queue_id_cases [of name db])
    case (missing e)
    with r show thesis by (simp add: andThen_def)
  next
    case (found q)
    obtain n db1 where due: "dead_letter_due_messages lib now (q_id q) db = (Inr n, db1)"
      "mq_messages db1 = filter (\<lambda>m. \<not> (m_queue_id m = q_id q \<and> spent q m \<and> visible now m)) (mq_messages db)"
      by (rule dead_letter_due_steps [OF assms(1,2) found(2), of now]) (rule that)
    from r found(1) due(1) obtain rows where "claim lib now (q_id q) quantity timeout db1 = (Inr rows, db')"
      by (auto simp: andThen_def split: prod.splits sum.splits)
    from claim_success [OF this] obtain until where until: "picked now (q_id q) quantity db1 = [] \<or> timestamp_after now timeout = Inr until"
      "\<forall>m \<in> set (picked now (q_id q) quantity db1). m_read_count m \<noteq> 2147483647" by blast
    have picked: "picked now (q_id q) quantity db1 = take (nat quantity) (readable_rows now q db)" by (rule picked_readable [OF due(2)])
    have "m_read_count m < 2147483647" if "m \<in> set (take (nat quantity) (readable_rows now q db))" for m
    proof -
      have "m \<in> set (mq_messages db)" using in_set_takeD [OF that] by (simp add: readable_rows_def)
      then have "m_read_count m \<le> 2147483647" using mq_ok_message(3) [OF assms(1)] by (simp add: message_ok_def)
      moreover have "m_read_count m \<noteq> 2147483647" using until(2) that unfolding picked by auto
      ultimately show ?thesis by simp
    qed
    moreover have "read_args self name quantity timeout"
      using c found(4) by (auto simp: read_args_def validate_quantity_def validate_non_negative_seconds_def validate_visibility_timeout_def split: if_splits)
    ultimately show thesis using found until(1) unfolding picked by (intro that) auto
  qed
qed

section \<open>Reads reach every message\<close>

lemma after_delivery:
  "y \<in> set (mq_messages (fold (deliver lib now until) ms db)) \<Longrightarrow>
    y \<in> set (mq_messages db) \<and> m_id y \<notin> m_id ` set ms \<or> (\<exists>k. \<exists>m \<in> set ms. y = claimed lib now until (k, m))"
proof (induction ms arbitrary: db)
  case (Cons m ms)
  have "y \<in> set (mq_messages (deliver lib now until m db)) \<Longrightarrow> y \<in> set (mq_messages db) \<and> m_id y \<noteq> m_id m \<or> y = claimed lib now until (mq_draws db, m)"
    by (auto simp: deliver_def update_message_def)
  with Cons show ?case by fastforce
qed simp

text \<open>A message that was returned is in flight until the time it was returned with.\<close>

lemma read_returned:
  assumes "mq_ok db" "scans lib" "MqStore_read lib self now name quantity timeout db = (Inr out, db')" "m \<in> set out"
  obtains until where "timestamp_after now timeout = Inr until" "qm_visibility_timeout_at m = Some until"
    "\<And>y. y \<in> set (mq_messages db') \<Longrightarrow> m_id y = qm_id m \<Longrightarrow> m_visibility_timeout_at y = Some until"
    "qm_id m \<in> m_id ` set (mq_messages db)"
proof -
  obtain q until where q: "q \<in> set (mq_queues db)" "q_name q = name" "read_args self name quantity timeout"
    "take (nat quantity) (readable_rows now q db) = [] \<or> timestamp_after now timeout = Inr until"
    "\<forall>m \<in> set (take (nat quantity) (readable_rows now q db)). m_read_count m < 2147483647" by (rule read_success [OF assms(1-3)])
  let ?ms = "take (nat quantity) (readable_rows now q db)"
  obtain db1 where r: "db' = fold (deliver lib now until) ?ms db1"
    "mset out = mset (map (row_to_message \<circ> claimed lib now until) (enumerate (mq_draws db) ?ms))"
    by (rule read_result [OF assms(1,2) q]) (use assms(3) that in simp)
  from mset_eq_setD [OF r(2)] assms(4) obtain k x where x: "(k, x) \<in> set (enumerate (mq_draws db) ?ms)" "m = row_to_message (claimed lib now until (k, x))"
    by auto
  have "x \<in> set ?ms" by (rule enumerate_member [OF x(1)])
  then have ids: "qm_id m \<in> m_id ` set ?ms" by (simp add: x(2) row_to_message_def)
  have "m_visibility_timeout_at y = Some until" if "y \<in> set (mq_messages db')" "m_id y = qm_id m" for y
    using after_delivery [OF that(1) [unfolded r(1)]] that(2) ids by (auto simp: claimed_def)
  moreover have "qm_id m \<in> m_id ` set (mq_messages db)" using ids by (auto simp: readable_rows_def dest!: in_set_takeD)
  moreover have "timestamp_after now timeout = Inr until" using q(4) \<open>x \<in> set ?ms\<close> by auto
  ultimately show thesis by (intro that) (simp_all add: x(2) row_to_message_def claimed_def)
qed

lemma read_counts:
  assumes "mq_ok db" "scans lib" "MqStore_read lib self now name quantity timeout db = (Inr out, db')" "q \<in> set (mq_queues db)" "q_name q = name" "m \<in> set out"
  shows "1 \<le> qm_read_count m \<and> (0 < limit_of q \<longrightarrow> qm_read_count m \<le> limit_of q)"
proof -
  obtain q' until where q: "q' \<in> set (mq_queues db)" "q_name q' = name" "read_args self name quantity timeout"
    "take (nat quantity) (readable_rows now q' db) = [] \<or> timestamp_after now timeout = Inr until"
    "\<forall>m \<in> set (take (nat quantity) (readable_rows now q' db)). m_read_count m < 2147483647" by (rule read_success [OF assms(1-3)])
  have [simp]: "q' = q" using queue_unique [OF assms(1) q(1) assms(4)] q(2) assms(5) by simp
  let ?ms = "take (nat quantity) (readable_rows now q db)"
  have "mset out = mset (map (row_to_message \<circ> claimed lib now until) (enumerate (mq_draws db) ?ms))"
    by (rule read_result [OF assms(1,2) q]) (use assms(3) in simp)
  from mset_eq_setD [OF this] assms(6) obtain k x where x: "(k, x) \<in> set (enumerate (mq_draws db) ?ms)" "m = row_to_message (claimed lib now until (k, x))"
    by auto
  have "x \<in> set (readable_rows now q db)" using enumerate_member [OF x(1)] by (rule in_set_takeD)
  then have "x \<in> set (mq_messages db)" "\<not> spent q x" by (auto simp: readable_rows_def)
  then show ?thesis using mq_ok_message(3) [OF assms(1)] by (auto simp: x(2) row_to_message_def claimed_def message_ok_def spent_def)
qed

lemma fold_bury_dlq: "m \<in> set bs \<Longrightarrow> \<exists>i. dead_row now reason i m \<in> set (mq_dlq (fold (bury now reason) bs db))"
proof (induction bs arbitrary: db)
  case (Cons b bs)
  have mono: "d \<in> set (mq_dlq db) \<Longrightarrow> d \<in> set (mq_dlq (fold (bury now reason) bs db))" for d db
    by (induction bs arbitrary: db) (auto simp: bury_def)
  show ?case
  proof (cases "m \<in> set bs")
    case False
    have "dead_row now reason (mq_next_dead db) b \<in> set (mq_dlq (bury now reason b db))" by (simp add: bury_def)
    from mono [OF this] False Cons.prems show ?thesis by auto
  qed (use Cons.IH in simp)
qed simp

lemma fold_deliver_dlq [simp]: "mq_dlq (fold (deliver lib now until) ms db) = mq_dlq db"
  by (induction ms arbitrary: db) (auto simp: deliver_def update_message_def)

lemma read_buries:
  assumes "mq_ok db" "scans lib" "MqStore_read lib self now name quantity timeout db = (Inr out, db')" "q \<in> set (mq_queues db)" "q_name q = name"
    "m \<in> set (mq_messages db)" "m_queue_id m = q_id q" "visible now m" "spent q m"
  shows "\<exists>i. dead_row now (''max_redelivery_count='' @ dec (limit_of q)) i m \<in> set (mq_dlq db')"
proof -
  obtain q' until where q: "q' \<in> set (mq_queues db)" "q_name q' = name" "read_args self name quantity timeout"
    "take (nat quantity) (readable_rows now q' db) = [] \<or> timestamp_after now timeout = Inr until"
    "\<forall>m \<in> set (take (nat quantity) (readable_rows now q' db)). m_read_count m < 2147483647" by (rule read_success [OF assms(1-3)])
  have q': "q' = q" using queue_unique [OF assms(1) q(1) assms(4)] q(2) assms(5) by simp
  obtain bs db1 where bs: "db' = fold (deliver lib now until) (take (nat quantity) (readable_rows now q db)) db1"
    "db1 = fold (bury now (''max_redelivery_count='' @ dec (limit_of q))) bs db"
    "mset bs = mset (filter (\<lambda>m. m_queue_id m = q_id q \<and> spent q m \<and> visible now m) (mq_messages db))"
    by (rule read_result [OF assms(1,2) q [unfolded q']]) (use assms(3) that in simp)
  have "m \<in> set bs" using mset_eq_setD [OF bs(3)] assms(6-9) by simp
  from fold_bury_dlq [OF this, of now "''max_redelivery_count='' @ dec (limit_of q)" db] show ?thesis unfolding bs(1) fold_deliver_dlq bs(2) by simp
qed

lemma not_delivered: "y \<in> set (mq_messages db) \<Longrightarrow> m_id y \<notin> m_id ` set ms \<Longrightarrow> y \<in> set (mq_messages (fold (deliver lib now until) ms db))"
  by (induction ms arbitrary: db) (auto simp: deliver_def update_message_def)

lemma fold_deliver_simps [simp]: "mq_queues (fold (deliver lib now until) ms db) = mq_queues db"
  "mq_next_message (fold (deliver lib now until) ms db) = mq_next_message db"
  by (induction ms arbitrary: db) (auto simp: deliver_def update_message_def)

lemma visible_mono: "visible now m \<Longrightarrow> now \<le> t \<Longrightarrow> visible t m"
  by (auto simp: visible_def split: option.splits)

text \<open>The messages of the queue with smaller ids that are not hidden beyond a time.\<close>

definition ahead :: "mq_queue \<Rightarrow> int \<Rightarrow> int \<Rightarrow> 'v mq_db \<Rightarrow> 'v mq_message set" where
  "ahead q i t db = {m \<in> set (mq_messages db). m_queue_id m = q_id q \<and> m_id m < i \<and>
     (case m_visibility_timeout_at m of None \<Rightarrow> True | Some u \<Rightarrow> u \<le> t)}"

lemma take_sorted:
  assumes "sorted (map k xs)" "x \<in> set xs" "x \<notin> set (take n xs)" "y \<in> set (take n xs)"
  shows "k y \<le> k x"
proof -
  have "xs = take n xs @ drop n xs" by simp
  with assms(2,3) have "x \<in> set (drop n xs)" by (metis Un_iff set_append)
  moreover have "sorted (map k (take n xs) @ map k (drop n xs))" using assms(1) by (metis append_take_drop_id map_append)
  ultimately show ?thesis using assms(4) by (auto simp: sorted_append)
qed

lemma read_progress:
  assumes "mq_ok db" "scans lib" "q \<in> set (mq_queues db)" "q_name q = name" "read_ok self now name quantity timeout"
    "timestamp_after now timeout = Inr until" "now \<le> t" "t < until"
    "m \<in> set (mq_messages db)" "m_queue_id m = q_id q" "visible now m" "\<not> spent q m"
    "\<forall>x \<in> set (mq_messages db). m_queue_id x = q_id q \<longrightarrow> visible t x \<longrightarrow> m_read_count x < 2147483647"
    "MqStore_read lib self now name quantity timeout db = (r, db')"
  obtains out where "r = Inr out" "mq_ok db'" "q \<in> set (mq_queues db')"
    "\<forall>x \<in> set (mq_messages db'). m_queue_id x = q_id q \<longrightarrow> visible t x \<longrightarrow> m_read_count x < 2147483647"
    "m_id m \<in> qm_id ` set out \<or> m \<in> set (mq_messages db') \<and> card (ahead q (m_id m) t db') < card (ahead q (m_id m) t db)"
proof -
  let ?rows = "readable_rows now q db"
  let ?ms = "take (nat quantity) ?rows"
  have rows: "set ?rows = {x \<in> set (mq_messages db). m_queue_id x = q_id q \<and> visible now x \<and> \<not> spent q x}" by (auto simp: readable_rows_def)
  have small: "\<forall>x \<in> set ?ms. m_read_count x < 2147483647"
  proof
    fix x assume "x \<in> set ?ms"
    then have "x \<in> set ?rows" by (rule in_set_takeD)
    then show "m_read_count x < 2147483647" using rows assms(13) visible_mono [OF _ assms(7), of x] by blast
  qed
  obtain out db1 where o0: "MqStore_read lib self now name quantity timeout db = (Inr out, fold (deliver lib now until) ?ms db1)"
    and o1: "mset out = mset (map (row_to_message \<circ> claimed lib now until) (enumerate (mq_draws db) ?ms))" "mq_queues db1 = mq_queues db"
    "mq_messages db1 = filter (\<lambda>m. \<not> (m_queue_id m = q_id q \<and> spent q m \<and> visible now m)) (mq_messages db)"
    by (rule read_result [OF assms(1-4) read_ok_args [OF assms(5)] disjI2 [OF assms(6)] small]) (rule that)
  have o: "r = Inr out" "db' = fold (deliver lib now until) ?ms db1" using o0 assms(14) by simp_all
  note o = o o1
  have ok: "mq_ok db'" by (rule run_mq_ok [OF assms(1,2), of self now "QRead name quantity timeout" "map_sum id RMessages r"])
      (simp add: mq_reply_def andThen_def assms(14) o(1))
  have ids: "qm_id ` set out = m_id ` set ?ms"
  proof -
    have "qm_id ` set out = qm_id ` set (map (row_to_message \<circ> claimed lib now until) (enumerate (mq_draws db) ?ms))"
      using mset_eq_setD [OF o(3)] by simp
    also have "\<dots> = m_id ` snd ` set (enumerate (mq_draws db) ?ms)" by (simp add: image_image row_to_message_def)
    also have "snd ` set (enumerate (mq_draws db) ?ms) = set ?ms" by (metis list.set_map map_snd_enumerate)
    finally show ?thesis .
  qed
  have kinds: "y \<in> set (mq_messages db) \<and> m_id y \<notin> m_id ` set ?ms \<or> m_visibility_timeout_at y = Some until" if "y \<in> set (mq_messages db')" for y
    using after_delivery [OF that [unfolded o(2)]] o(5) by (auto simp: claimed_def)
  have "ahead q (m_id m) t db' \<subseteq> ahead q (m_id m) t db"
    using kinds assms(8) by (fastforce simp: ahead_def)
  moreover have "m \<in> set (mq_messages db') \<and> (\<exists>x \<in> ahead q (m_id m) t db. x \<notin> ahead q (m_id m) t db')" if "m_id m \<notin> m_id ` set ?ms"
  proof
    show "m \<in> set (mq_messages db')" unfolding o(2) using that assms(9,12) o(5) by (intro not_delivered) auto
    have m: "m \<in> set ?rows" "m \<notin> set ?ms" using rows assms(9-12) that by auto
    then have "?ms \<noteq> []" using assms(5) by (cases ?rows) (auto simp: read_ok_def)
    then obtain x where x: "x \<in> set ?ms" by (metis list.set_sel(1))
    have "sorted (map m_id ?rows)" by (simp add: readable_rows_def)
    from take_sorted [OF this m x] have "m_id x \<le> m_id m" .
    moreover have "m_id x \<noteq> m_id m" using that x by (metis imageI)
    moreover have xr: "x \<in> set (mq_messages db)" "m_queue_id x = q_id q" "visible now x" using in_set_takeD [OF x] rows by auto
    ultimately have "x \<in> ahead q (m_id m) t db" using assms(7) by (auto simp: ahead_def visible_def split: option.splits)
    moreover have "x \<notin> ahead q (m_id m) t db'" using kinds [of x] x assms(8) by (auto simp: ahead_def)
    ultimately show "\<exists>x \<in> ahead q (m_id m) t db. x \<notin> ahead q (m_id m) t db'" by blast
  qed
  moreover have "finite (ahead q (m_id m) t db)" by (simp add: ahead_def)
  ultimately have "m_id m \<in> qm_id ` set out \<or> m \<in> set (mq_messages db') \<and> card (ahead q (m_id m) t db') < card (ahead q (m_id m) t db)"
    unfolding ids by (metis psubsetI psubset_card_mono)
  moreover have "\<forall>x \<in> set (mq_messages db'). m_queue_id x = q_id q \<longrightarrow> visible t x \<longrightarrow> m_read_count x < 2147483647"
    using kinds assms(8,13) by (fastforce simp: visible_def)
  ultimately show thesis using that o(1,2,4) ok assms(3) by simp
qed

text \<open>A series of reads: time, quantity and visibility timeout of each.\<close>

definition reads :: "string \<Rightarrow> (int \<times> int \<times> int) list \<Rightarrow> (int \<times> mq_command) list" where
  "reads name = map (\<lambda>(now, quantity, timeout). (now, QRead name quantity timeout))"

lemma reads_reach:
  assumes "mq_ok db" "scans lib" "q \<in> set (mq_queues db)" "q_name q = name"
    "\<forall>(now, quantity, timeout) \<in> set rs. read_ok self now name quantity timeout \<and> t0 \<le> now \<and> now \<le> t \<and>
       (\<forall>until. timestamp_after now timeout = Inr until \<longrightarrow> t < until)"
    "m \<in> set (mq_messages db)" "m_queue_id m = q_id q" "visible t0 m" "\<not> spent q m"
    "\<forall>x \<in> set (mq_messages db). m_queue_id x = q_id q \<longrightarrow> visible t x \<longrightarrow> m_read_count x < 2147483647"
    "card (ahead q (m_id m) t db) < length rs"
  shows "\<exists>out. Inr (RMessages out) \<in> set (fst (run_mqs lib self (reads name rs) db)) \<and> m_id m \<in> qm_id ` set out"
  using assms
proof (induction rs arbitrary: db)
  case (Cons c rs)
  obtain now quantity timeout where c: "c = (now, quantity, timeout)" by (cases c)
  from Cons.prems(5) c obtain until where args: "read_ok self now name quantity timeout" "timestamp_after now timeout = Inr until"
    "t0 \<le> now" "now \<le> t" "t < until" by (auto simp: read_ok_def)
  obtain r db1 where run: "MqStore_read lib self now name quantity timeout db = (r, db1)" by fastforce
  obtain out where o: "r = Inr out" "mq_ok db1" "q \<in> set (mq_queues db1)"
    "\<forall>x \<in> set (mq_messages db1). m_queue_id x = q_id q \<longrightarrow> visible t x \<longrightarrow> m_read_count x < 2147483647"
    "m_id m \<in> qm_id ` set out \<or> m \<in> set (mq_messages db1) \<and> card (ahead q (m_id m) t db1) < card (ahead q (m_id m) t db)"
    by (rule read_progress [OF Cons.prems(1-4) args(1,2,4,5) Cons.prems(6,7) visible_mono [OF Cons.prems(8) args(3)] Cons.prems(9,10) run])
  have step: "fst (run_mqs lib self (reads name (c # rs)) db) = Inr (RMessages out) # fst (run_mqs lib self (reads name rs) db1)"
    by (simp add: reads_def c mq_reply_def andThen_def run o(1) split: prod.splits)
  show ?case
  proof (cases "m_id m \<in> qm_id ` set out")
    case True
    then show ?thesis unfolding step by auto
  next
    case False
    with o(5) have "m \<in> set (mq_messages db1)" "card (ahead q (m_id m) t db1) < length rs" using Cons.prems(11) by auto
    with Cons.IH [OF o(2) Cons.prems(2) o(3) Cons.prems(4) _ _ Cons.prems(7-9) o(4)] Cons.prems(5) show ?thesis unfolding step by auto
  qed
qed simp

end
