(* ===== verification/Mq_Server.thy ===== *)
theory Mq_Server
  imports Mq_Reads Mq_Client Rpc_Server
begin

text \<open>
  The queue service of the server, \<open>MqGrpc\<close> of \<open>crates/pgapp-server/src/lib.rs\<close>: its handlers over
  \<open>MqStore\<close>, the long poll that listens for notifications, and the stream of messages. The messages
  are those of the generated code. Whether a connection can listen and what wakes it up are
  arguments, as is what others do to the tables while a reader waits.
\<close>


section \<open>Listening\<close>

text \<open>How a wait for a notification ends: with one, with an error of the connection, or with its time.\<close>

datatype listen_event = Notification | ListenFailed | Elapsed

text \<open>
  One wait: with a listener until it is woken, a listener that fails is given up for a sleep, and
  without a listener it is a sleep. The number counts waits.
\<close>

definition wait_once :: "'v mq_db world \<Rightarrow> (nat \<Rightarrow> listen_event) \<Rightarrow> int option \<Rightarrow> int \<Rightarrow> bool \<Rightarrow> nat \<Rightarrow> 'v mq_db \<times> int \<Rightarrow> bool \<times> nat \<times> 'v mq_db \<times> int" where
  "wait_once others events dropped wait listening n st = (let st1 = nap others dropped wait n st
     in if listening \<and> events n = ListenFailed \<and> \<not> given_up dropped (snd st1)
        then (False, n + 2, nap others dropped wait (n + 1) st1) else (listening, n + 1, st1))"

partial_function (option) notify_loop ::
  "(int \<Rightarrow> ('v mq_db, 'm list) sql_op) \<Rightarrow> 'v mq_db world \<Rightarrow> (nat \<Rightarrow> listen_event) \<Rightarrow> int option \<Rightarrow> int \<Rightarrow> int \<Rightarrow> bool \<Rightarrow> nat \<Rightarrow> 'v mq_db \<times> int \<Rightarrow>
   (pg_error + 'm list, 'v mq_db \<times> int) outcome option" where
  "notify_loop rd others events dropped interval deadline listening n st = (if given_up dropped (snd st) then Some (GaveUp st)
     else case rd (snd st) (fst st) of
       (Inl e, db) \<Rightarrow> Some (Returned (Inl e) (db, snd st))
     | (Inr messages, db) \<Rightarrow> if messages \<noteq> [] \<or> deadline \<le> snd st then Some (Returned (Inr messages) (db, snd st))
         else (let wait = min (max 0 (deadline - snd st)) interval
           in if wait = 0 then Some (Returned (Inr []) (db, snd st))
              else (case wait_once others events dropped wait listening n (db, snd st) of (listening', n', st') \<Rightarrow>
                notify_loop rd others events dropped interval deadline listening' n' st')))"

text \<open>\<open>MqListener::connect\<close>: the name must be one of a queue, and the connection must succeed.\<close>

definition MqListener_connect :: "bool \<Rightarrow> string \<Rightarrow> bool" where
  "MqListener_connect reachable queue_name \<longleftrightarrow> reachable \<and> \<not> isl (mq_channel queue_name)"

definition read_with_notify_or_poll :: "'v mq_lib \<Rightarrow> MqStore \<Rightarrow> 'v mq_db world \<Rightarrow> (nat \<Rightarrow> listen_event) \<Rightarrow> bool \<Rightarrow> int option \<Rightarrow> string \<Rightarrow> int \<Rightarrow> int \<Rightarrow>
    int \<Rightarrow> int \<Rightarrow> 'v mq_db \<times> int \<Rightarrow> (pg_error + 'v QueueMessage_core list, 'v mq_db \<times> int) outcome option" where
  "read_with_notify_or_poll lib self others events reachable dropped queue_name quantity visibility_timeout_seconds max_poll_seconds
     poll_interval_millis st = (if max_poll_seconds < 0 then Some (Returned (Inl (InvalidArgument ''max_poll_seconds must not be negative'')) st)
      else case ml_deadline lib (snd st) max_poll_seconds of None \<Rightarrow> Some Panicked
      | Some deadline \<Rightarrow> notify_loop (\<lambda>now. MqStore_read lib self now queue_name quantity visibility_timeout_seconds) others events dropped
          (poll_interval poll_interval_millis) deadline (MqListener_connect reachable queue_name) 0 st)"

text \<open>The next item of a stream: it waits until there are messages or an error.\<close>

partial_function (option) stream_read_next ::
  "(int \<Rightarrow> ('v mq_db, 'm list) sql_op) \<Rightarrow> 'v mq_db world \<Rightarrow> (nat \<Rightarrow> listen_event) \<Rightarrow> bool \<Rightarrow> nat \<Rightarrow> 'v mq_db \<times> int \<Rightarrow>
   ((pg_error + 'm list) \<times> bool \<times> nat \<times> 'v mq_db \<times> int) option" where
  "stream_read_next rd others events listening n st = (case rd (snd st) (fst st) of
     (Inl e, db) \<Rightarrow> Some (Inl e, listening, n, db, snd st)
   | (Inr messages, db) \<Rightarrow> if messages \<noteq> [] then Some (Inr messages, listening, n, db, snd st)
       else (case wait_once others events None 100000 listening n (db, snd st) of (listening', n', st') \<Rightarrow>
         stream_read_next rd others events listening' n' st'))"


section \<open>Messages of the service\<close>

definition to_proto_message :: "'v mq_lib \<Rightarrow> 'v QueueMessage_core \<Rightarrow> QueueMessage" where
  "to_proto_message lib m = QueueMessage_create\<lparr>QueueMessage_messageId := dec (qm_id m), QueueMessage_readCount := IntNum (qm_read_count m),
     QueueMessage_enqueuedAt := ml_rfc3339 lib (qm_enqueued_at m),
     QueueMessage_visibilityTimeoutAt := (case qm_visibility_timeout_at m of None \<Rightarrow> [] | Some ts \<Rightarrow> ml_rfc3339 lib ts),
     QueueMessage_jsonPayload := ml_print lib (qm_payload m), QueueMessage_ackToken := qm_ack_token m\<rparr>"

definition to_proto_dlq_message :: "'v mq_lib \<Rightarrow> 'v DlqMessage_core \<Rightarrow> DlqMessage" where
  "to_proto_dlq_message lib m = DlqMessage_create\<lparr>DlqMessage_id := dec (dm_id m), DlqMessage_originalMessageId := dec (dm_original_message_id m),
     DlqMessage_readCount := IntNum (dm_read_count m), DlqMessage_enqueuedAt := ml_rfc3339 lib (dm_enqueued_at m),
     DlqMessage_deadLetteredAt := ml_rfc3339 lib (dm_dead_lettered_at m), DlqMessage_jsonPayload := ml_print lib (dm_payload m),
     DlqMessage_reason := dm_reason m\<rparr>"


section \<open>Handlers\<close>

record MqGrpc =
  mg_store :: MqStore
  mg_enabled :: bool
  mg_notify_enabled :: bool
  mg_request_timeout :: int

type_synonym 'v mq_server = "'v mq_db rpc_server"

definition MqGrpc_ensure_enabled :: "MqGrpc \<Rightarrow> Status + unit" where
  "MqGrpc_ensure_enabled self = (if mg_enabled self then Inr ()
     else Inl \<lparr>s_code = Code_Unavailable, s_message = ''mq service is disabled''\<rparr>)"

text \<open>Every handler but the stream: its name, the call of the store and the answer.\<close>

definition mq_handler :: "'v mq_lib \<Rightarrow> MqGrpc \<Rightarrow> string \<Rightarrow> ('v mq_db, 'b) sql_op \<Rightarrow> ('b \<Rightarrow> 'o) \<Rightarrow> 'v mq_server \<Rightarrow> (Status + 'o) \<times> 'v mq_server" where
  "mq_handler lib self method op respond = record_rpc ''mq'' method
     (require (MqGrpc_ensure_enabled self) (\<lambda>_. await (ml_db_text lib) op respond))"

text \<open>A storage mode other than transient, also an unknown number, is durable.\<close>

definition MqGrpc_create_queue :: "'v mq_lib \<Rightarrow> MqGrpc \<Rightarrow> CreateQueueRequest \<Rightarrow> 'v mq_server \<Rightarrow> (Status + OperationResult) \<times> 'v mq_server" where
  "MqGrpc_create_queue lib self req = mq_handler lib self ''create_queue''
     (MqStore_create_queue (mg_store self) (CreateQueueRequest_queueName req)
       (if i32 (CreateQueueRequest_storageMode req) = 2 then Transient else Durable)) (\<lambda>_. operation_result True)"

definition MqGrpc_purge_queue :: "'v mq_lib \<Rightarrow> MqGrpc \<Rightarrow> PurgeQueueRequest \<Rightarrow> 'v mq_server \<Rightarrow> (Status + OperationResult) \<times> 'v mq_server" where
  "MqGrpc_purge_queue lib self req = mq_handler lib self ''purge_queue'' (MqStore_purge_queue (PurgeQueueRequest_queueName req)) (\<lambda>_. operation_result True)"

definition MqGrpc_drop_queue :: "'v mq_lib \<Rightarrow> MqGrpc \<Rightarrow> DropQueueRequest \<Rightarrow> 'v mq_server \<Rightarrow> (Status + OperationResult) \<times> 'v mq_server" where
  "MqGrpc_drop_queue lib self req = mq_handler lib self ''drop_queue'' (MqStore_drop_queue (DropQueueRequest_queueName req)) (\<lambda>_. operation_result True)"

definition MqGrpc_send :: "'v mq_lib \<Rightarrow> MqGrpc \<Rightarrow> SendMessageRequest \<Rightarrow> 'v mq_server \<Rightarrow> (Status + SendMessageResponse) \<times> 'v mq_server" where
  "MqGrpc_send lib self req s = mq_handler lib self ''send''
     (MqStore_send lib (mg_store self) (sv_now s) (SendMessageRequest_queueName req) (SendMessageRequest_jsonPayload req)
       (i64 (SendMessageRequest_delaySeconds req)))
     (\<lambda>message_id. SendMessageResponse_create\<lparr>SendMessageResponse_messageId := dec message_id\<rparr>) s"

definition MqGrpc_send_batch :: "'v mq_lib \<Rightarrow> MqGrpc \<Rightarrow> SendBatchRequest \<Rightarrow> 'v mq_server \<Rightarrow> (Status + SendBatchResponse) \<times> 'v mq_server" where
  "MqGrpc_send_batch lib self req s = mq_handler lib self ''send_batch''
     (MqStore_send_batch lib (mg_store self) (sv_now s) (SendBatchRequest_queueName req) (SendBatchRequest_jsonPayloads req)
       (i64 (SendBatchRequest_delaySeconds req)))
     (\<lambda>message_ids. SendBatchResponse_create\<lparr>SendBatchResponse_messageIds := map dec message_ids\<rparr>) s"

definition MqGrpc_read :: "'v mq_lib \<Rightarrow> MqGrpc \<Rightarrow> ReadMessagesRequest \<Rightarrow> 'v mq_server \<Rightarrow> (Status + ReadMessagesResponse) \<times> 'v mq_server" where
  "MqGrpc_read lib self req s = mq_handler lib self ''read''
     (MqStore_read lib (mg_store self) (sv_now s) (ReadMessagesRequest_queueName req) (i32 (ReadMessagesRequest_quantity req))
       (i64 (ReadMessagesRequest_visibilityTimeoutSeconds req)))
     (\<lambda>messages. ReadMessagesResponse_create\<lparr>ReadMessagesResponse_messages := map (to_proto_message lib) messages\<rparr>) s"

definition MqGrpc_read_with_poll :: "'v mq_lib \<Rightarrow> MqGrpc \<Rightarrow> 'v mq_db world \<Rightarrow> (nat \<Rightarrow> listen_event) \<Rightarrow> bool \<Rightarrow> ReadWithPollRequest \<Rightarrow> 'v mq_server \<Rightarrow>
    ((Status + ReadMessagesResponse) \<times> 'v mq_server) option option" where
  "MqGrpc_read_with_poll lib self others events reachable req s = (case MqGrpc_ensure_enabled self of
     Inl status \<Rightarrow> Some (Some (record_rpc ''mq'' ''read_with_poll'' (\<lambda>db. (Inl status, db)) s))
   | Inr _ \<Rightarrow> await_waiting (ml_db_text lib) ''mq'' ''read_with_poll''
       ((if mg_notify_enabled self then read_with_notify_or_poll lib (mg_store self) others events reachable
         else MqStore_read_with_poll lib (mg_store self) others) (Some (sv_now s + mg_request_timeout self))
         (ReadWithPollRequest_queueName req) (i32 (ReadWithPollRequest_quantity req))
         (i64 (ReadWithPollRequest_visibilityTimeoutSeconds req)) (i64 (ReadWithPollRequest_maxPollSeconds req))
         (i64 (ReadWithPollRequest_pollIntervalMillis req)))
       (\<lambda>messages. ReadMessagesResponse_create\<lparr>ReadMessagesResponse_messages := map (to_proto_message lib) messages\<rparr>) s)"

definition MqGrpc_ack :: "'v mq_lib \<Rightarrow> MqGrpc \<Rightarrow> AckMessageRequest \<Rightarrow> 'v mq_server \<Rightarrow> (Status + OperationResult) \<times> 'v mq_server" where
  "MqGrpc_ack lib self req s = mq_handler lib self ''ack''
     (MqStore_ack (sv_now s) (AckMessageRequest_queueName req) (i64 (AckMessageRequest_messageId req)) (AckMessageRequest_ackToken req))
     operation_result s"

definition MqGrpc_archive :: "'v mq_lib \<Rightarrow> MqGrpc \<Rightarrow> ArchiveMessageRequest \<Rightarrow> 'v mq_server \<Rightarrow> (Status + OperationResult) \<times> 'v mq_server" where
  "MqGrpc_archive lib self req s = mq_handler lib self ''archive''
     (MqStore_archive (sv_now s) (ArchiveMessageRequest_queueName req) (i64 (ArchiveMessageRequest_messageId req)) (ArchiveMessageRequest_ackToken req))
     operation_result s"

definition MqGrpc_set_visibility_timeout ::
  "'v mq_lib \<Rightarrow> MqGrpc \<Rightarrow> SetVisibilityTimeoutRequest \<Rightarrow> 'v mq_server \<Rightarrow> (Status + OperationResult) \<times> 'v mq_server" where
  "MqGrpc_set_visibility_timeout lib self req s = mq_handler lib self ''set_visibility_timeout''
     (MqStore_set_visibility_timeout (mg_store self) (sv_now s) (SetVisibilityTimeoutRequest_queueName req)
       (i64 (SetVisibilityTimeoutRequest_messageId req)) (SetVisibilityTimeoutRequest_ackToken req)
       (i64 (SetVisibilityTimeoutRequest_visibilityTimeoutSeconds req)))
     operation_result s"

definition MqGrpc_metrics :: "'v mq_lib \<Rightarrow> MqGrpc \<Rightarrow> QueueMetricsRequest \<Rightarrow> 'v mq_server \<Rightarrow> (Status + QueueMetricsResponse) \<times> 'v mq_server" where
  "MqGrpc_metrics lib self req s = mq_handler lib self ''metrics'' (MqStore_metrics (sv_now s) (QueueMetricsRequest_queueName req))
     (\<lambda>metrics. QueueMetricsResponse_create\<lparr>QueueMetricsResponse_visibleMessageCount := dec (qs_visible_message_count metrics),
        QueueMetricsResponse_inFlightMessageCount := dec (qs_in_flight_message_count metrics),
        QueueMetricsResponse_oldestVisibleMessageAgeSeconds := dec (qs_oldest_visible_message_age_seconds metrics),
        QueueMetricsResponse_archivedMessageCount := dec (qs_archived_message_count metrics),
        QueueMetricsResponse_dlqMessageCount := dec (qs_dlq_message_count metrics)\<rparr>) s"

definition MqGrpc_list_dlq_messages ::
  "'v mq_lib \<Rightarrow> MqGrpc \<Rightarrow> ListDlqMessagesRequest \<Rightarrow> 'v mq_server \<Rightarrow> (Status + ListDlqMessagesResponse) \<times> 'v mq_server" where
  "MqGrpc_list_dlq_messages lib self req s = mq_handler lib self ''list_dlq_messages''
     (MqStore_list_dlq_messages (mg_store self) (ListDlqMessagesRequest_queueName req) (i32 (ListDlqMessagesRequest_limit req))
       (i64 (ListDlqMessagesRequest_offset req)))
     (\<lambda>page. ListDlqMessagesResponse_create\<lparr>ListDlqMessagesResponse_messages := map (to_proto_dlq_message lib) (dp_messages page),
        ListDlqMessagesResponse_nextOffset := dec (case dp_next_offset page of None \<Rightarrow> 0 | Some offset \<Rightarrow> offset)\<rparr>) s"

definition MqGrpc_get_dlq_message :: "'v mq_lib \<Rightarrow> MqGrpc \<Rightarrow> GetDlqMessageRequest \<Rightarrow> 'v mq_server \<Rightarrow> (Status + DlqMessage) \<times> 'v mq_server" where
  "MqGrpc_get_dlq_message lib self req s = mq_handler lib self ''get_dlq_message''
     (MqStore_get_dlq_message (GetDlqMessageRequest_queueName req) (i64 (GetDlqMessageRequest_originalMessageId req)))
     (to_proto_dlq_message lib) s"

definition MqGrpc_reprocess_dlq_message ::
  "'v mq_lib \<Rightarrow> MqGrpc \<Rightarrow> ReprocessDlqMessageRequest \<Rightarrow> 'v mq_server \<Rightarrow> (Status + OperationResult) \<times> 'v mq_server" where
  "MqGrpc_reprocess_dlq_message lib self req s = mq_handler lib self ''reprocess_dlq_message''
     (MqStore_reprocess_dlq_message lib (sv_now s) (ReprocessDlqMessageRequest_queueName req) (i64 (ReprocessDlqMessageRequest_originalMessageId req)))
     operation_result s"

definition MqGrpc_purge_dlq :: "'v mq_lib \<Rightarrow> MqGrpc \<Rightarrow> PurgeDlqRequest \<Rightarrow> 'v mq_server \<Rightarrow> (Status + OperationResult) \<times> 'v mq_server" where
  "MqGrpc_purge_dlq lib self req s = mq_handler lib self ''purge_dlq'' (MqStore_purge_dlq (PurgeDlqRequest_queueName req)) (\<lambda>_. operation_result True) s"

text \<open>
  The stream: its items as far as a consumer takes them (\<open>unfold\<close> has no end of its own; the transport
  ends the call after an error). No call of \<open>record_rpc\<close> here.
\<close>

fun stream_items :: "'v mq_lib \<Rightarrow> (int \<Rightarrow> ('v mq_db, 'v QueueMessage_core list) sql_op) \<Rightarrow> 'v mq_db world \<Rightarrow> (nat \<Rightarrow> listen_event) \<Rightarrow> nat \<Rightarrow> bool \<Rightarrow> nat \<Rightarrow>
    'v mq_db \<times> int \<Rightarrow> ((Status + ReadMessagesResponse) list \<times> 'v mq_db \<times> int) option" where
  "stream_items lib rd others events 0 listening n st = Some ([], st)"
| "stream_items lib rd others events (Suc k) listening n st = (case stream_read_next rd others events listening n st of None \<Rightarrow> None
     | Some (Inl e, listening', n', st') \<Rightarrow> Some ([Inl (Status_from (ml_db_text lib) e)], st')
     | Some (Inr messages, listening', n', st') \<Rightarrow> map_option (\<lambda>(items, st''). (Inr (ReadMessagesResponse_create\<lparr>
         ReadMessagesResponse_messages := map (to_proto_message lib) messages\<rparr>) # items, st''))
         (stream_items lib rd others events k listening' n' st'))"

definition MqGrpc_stream_read :: "'v mq_lib \<Rightarrow> MqGrpc \<Rightarrow> 'v mq_db world \<Rightarrow> (nat \<Rightarrow> listen_event) \<Rightarrow> bool \<Rightarrow> nat \<Rightarrow> StreamReadRequest \<Rightarrow>
    'v mq_db \<times> int \<Rightarrow> ((Status + ReadMessagesResponse) list \<times> 'v mq_db \<times> int) option" where
  "MqGrpc_stream_read lib self others events reachable k req st = (case MqGrpc_ensure_enabled self of Inl status \<Rightarrow> Some ([Inl status], st)
     | Inr _ \<Rightarrow> stream_items lib (\<lambda>now. MqStore_read lib (mg_store self) now (StreamReadRequest_queueName req) (i32 (StreamReadRequest_quantity req))
         (i64 (StreamReadRequest_visibilityTimeoutSeconds req))) others events k
         (mg_notify_enabled self \<and> MqListener_connect reachable (StreamReadRequest_queueName req)) 0 st)"

end
