(* ===== verification/Mq_Service.thy ===== *)
theory Mq_Service
  imports Mq_Server
begin

text \<open>
  The SDK and the queue service together. The locale \<open>queue_contract\<close> is what a client of a queue relies
  on when it sends, reads and acknowledges; its lemma carries the contract through the generated code
  and the SDK. The interpretation shows that the handlers of the server keep it. The last section
  shows that long polls return.
\<close>


section \<open>The contract\<close>

locale queue_contract =
  fixes inv :: "'s \<Rightarrow> bool" and room :: "'s \<Rightarrow> bool" and usable :: "'s \<Rightarrow> string \<Rightarrow> bool"
    and waiting :: "'s \<Rightarrow> string \<Rightarrow> (int \<times> string) set"
    and held :: "'s \<Rightarrow> string \<Rightarrow> int \<Rightarrow> string \<Rightarrow> bool" and gone :: "'s \<Rightarrow> int \<Rightarrow> bool"
    and stored :: "string \<Rightarrow> string option" and readable :: "'s \<Rightarrow> int \<Rightarrow> int \<Rightarrow> bool"
    and send_h :: "rpc_options \<Rightarrow> SendMessageRequest \<Rightarrow> 's \<Rightarrow> SendMessageResponse result \<times> 's"
    and read_h :: "rpc_options \<Rightarrow> ReadMessagesRequest \<Rightarrow> 's \<Rightarrow> ReadMessagesResponse result \<times> 's"
    and ack_h :: "rpc_options \<Rightarrow> AckMessageRequest \<Rightarrow> 's \<Rightarrow> OperationResult result \<times> 's"
  assumes sends: "inv s \<Longrightarrow> room s \<Longrightarrow> usable s name \<Longrightarrow> stored text = Some text' \<Longrightarrow> \<exists>s' i. send_h opt \<lparr>unknownFields = [],
        SendMessageRequest_queueName = name, SendMessageRequest_jsonPayload = text, SendMessageRequest_delaySeconds = dec 0\<rparr> s =
          (Inr \<lparr>unknownFields = [], SendMessageResponse_messageId = dec i\<rparr>, s') \<and> inv s' \<and> usable s' name \<and> safe_int i \<and>
        waiting s' name = insert (i, text') (waiting s name) \<and> (\<forall>n t. readable s n t \<longrightarrow> readable s' n t)"
    and reads: "inv s \<Longrightarrow> usable s name \<Longrightarrow> readable s n t \<Longrightarrow> card (waiting s name) \<le> nat n \<Longrightarrow> \<exists>s' ms. read_h opt \<lparr>unknownFields = [],
        ReadMessagesRequest_queueName = name, ReadMessagesRequest_quantity = IntNum n, ReadMessagesRequest_visibilityTimeoutSeconds = dec t\<rparr> s =
          (Inr \<lparr>unknownFields = [], ReadMessagesResponse_messages = ms\<rparr>, s') \<and> inv s' \<and>
        (\<lambda>m. (QueueMessage_messageId m, QueueMessage_jsonPayload m)) ` set ms = (\<lambda>(i, text). (dec i, text)) ` waiting s name \<and>
        (\<forall>m \<in> set ms. unknownFields m = [] \<and> int64_ok (QueueMessage_messageId m) \<and> int32_ok (QueueMessage_readCount m)) \<and>
        (\<forall>m \<in> set ms. \<forall>i. QueueMessage_messageId m = dec i \<longrightarrow> held s' name i (QueueMessage_ackToken m))"
    and acks: "inv s \<Longrightarrow> held s name i token \<Longrightarrow> \<exists>s'. ack_h opt \<lparr>unknownFields = [], AckMessageRequest_queueName = name,
        AckMessageRequest_messageId = dec i, AckMessageRequest_ackToken = token\<rparr> s =
          (Inr \<lparr>unknownFields = [], OperationResult_success = True\<rparr>, s') \<and> inv s' \<and> gone s' i"
    and finite_waiting: "finite (waiting s name)"
begin

text \<open>A message that is sent is read and can be acknowledged, and is gone then.\<close>

lemma send_read_ack:
  fixes this :: "('w, 'r, 's) PGAppClient"
  assumes link: "rpc_link (pc_transport this) E st rest skippable"
    and serves: "serves_MQService_Send (pc_transport this) send_h" "serves_MQService_Read (pc_transport this) read_h"
      "serves_MQService_Ack (pc_transport this) ack_h"
    and state: "inv s" "room s" "usable s name" "stored (stringify payload) = Some text" "readable s n t" "card (waiting s name) < nat n"
    and numbers: "in_int32 n" "safe_int t"
    and opt: "opt = env_mergeOptions (pc_transport this) (rpcOptions this)"
    and sreq: "sreq = \<lparr>unknownFields = [], SendMessageRequest_queueName = name, SendMessageRequest_jsonPayload = stringify payload,
        SendMessageRequest_delaySeconds = dec 0\<rparr>" "length (SendMessageRequest_encode E sreq) < 2147483648"
    and rreq: "rreq = \<lparr>unknownFields = [], ReadMessagesRequest_queueName = name, ReadMessagesRequest_quantity = IntNum n,
        ReadMessagesRequest_visibilityTimeoutSeconds = dec t\<rparr>" "length (ReadMessagesRequest_encode E rreq) < 2147483648"
    and sizes: "\<And>i. safe_int i \<Longrightarrow> length (SendMessageResponse_encode E \<lparr>unknownFields = [], SendMessageResponse_messageId = dec i\<rparr>) < 2147483648"
      "\<And>resp s'. read_h opt rreq (snd (send_h opt sreq s)) = (Inr resp, s') \<Longrightarrow> length (ReadMessagesResponse_encode E resp) < 2147483648"
      "\<And>i m resp s'. read_h opt rreq (snd (send_h opt sreq s)) = (Inr resp, s') \<Longrightarrow> m \<in> set (ReadMessagesResponse_messages resp) \<Longrightarrow> safe_int i \<Longrightarrow>
        length (AckMessageRequest_encode E \<lparr>unknownFields = [], AckMessageRequest_queueName = name,
          AckMessageRequest_messageId = dec i, AckMessageRequest_ackToken = QueueMessage_ackToken m\<rparr>) < 2147483648"
      "length (OperationResult_encode E \<lparr>unknownFields = [], OperationResult_success = True\<rparr>) < 2147483648"
  shows "\<exists>i s1 s2 s3 ms m. MQClient_sendJson this name payload None s = (Some (Inr (IntNum i)), s1) \<and>
    MQClient_read this name (Some (IntNum n)) (Some (IntNum t)) s1 = (Some (Inr ms), s2) \<and>
    m \<in> set ms \<and> QueueMessage_messageId m = dec i \<and> QueueMessage_jsonPayload m = text \<and>
    MQClient_ack this name (IntNum i) (QueueMessage_ackToken m) s2 = (Some (Inr True), s3) \<and> gone s3 i"
proof -
  from sends [OF state(1-4), of opt] sreq(1) obtain s1 i where
    send: "send_h opt sreq s = (Inr \<lparr>unknownFields = [], SendMessageResponse_messageId = dec i\<rparr>, s1)"
      "inv s1" "usable s1 name" "safe_int i" "waiting s1 name = insert (i, text) (waiting s name)" "readable s1 n t" using state(5) by blast
  have "card (waiting s1 name) \<le> nat n" unfolding send(5) using card_insert_le_m1 state(6) finite_waiting [of s name]
    by (metis Suc_leI card_insert_if le_SucI order.strict_implies_order)
  from reads [OF send(2,3,6) this, of opt] rreq(1) obtain s2 ms where
    read: "read_h opt rreq s1 = (Inr \<lparr>unknownFields = [], ReadMessagesResponse_messages = ms\<rparr>, s2)" "inv s2"
      "(\<lambda>m. (QueueMessage_messageId m, QueueMessage_jsonPayload m)) ` set ms = (\<lambda>(i, text). (dec i, text)) ` waiting s1 name"
      "\<forall>m \<in> set ms. unknownFields m = [] \<and> int64_ok (QueueMessage_messageId m) \<and> int32_ok (QueueMessage_readCount m)"
      "\<forall>m \<in> set ms. \<forall>i. QueueMessage_messageId m = dec i \<longrightarrow> held s2 name i (QueueMessage_ackToken m)" by blast
  have "(dec i, text) \<in> (\<lambda>m. (QueueMessage_messageId m, QueueMessage_jsonPayload m)) ` set ms" unfolding read(3) send(5) by force
  then obtain m where m: "m \<in> set ms" "QueueMessage_messageId m = dec i" "QueueMessage_jsonPayload m = text" by auto
  with read(5) have "held s2 name i (QueueMessage_ackToken m)" by blast
  from acks [OF read(2) this, of opt] obtain s3 where
    ack: "ack_h opt \<lparr>unknownFields = [], AckMessageRequest_queueName = name, AckMessageRequest_messageId = dec i,
        AckMessageRequest_ackToken = QueueMessage_ackToken m\<rparr> s2 = (Inr \<lparr>unknownFields = [], OperationResult_success = True\<rparr>, s3)" "gone s3 i" by blast
  have "in_int64 i" using send(4) by (simp add: safe_int_def abs_le_iff)
  then have "MQClient_sendJson this name payload None s = (Some (Inr (IntNum i)), s1)"
    using MQClient_sendJson_call [OF link serves(1), where queueName = name and payload = payload and s = s and delaySeconds = None]
      send(1,4) sreq opt sizes(1) [OF send(4)]
    by (simp add: Let_def SendMessageRequest_create_def orDefault_def js_Number_safe transmissible_def SendMessageResponse_ok_def unknown_ok_def
        int64_ok_def safe_int_def)
  moreover have "MQClient_read this name (Some (IntNum n)) (Some (IntNum t)) s1 = (Some (Inr ms), s2)"
    using MQClient_read_call [OF link serves(2), where queueName = name and s = s1 and quantity = "Some (IntNum n)" and visibilityTimeoutSeconds = "Some (IntNum t)"]
      read(1,4) send(1) rreq opt sizes(2) numbers
    by (simp add: Let_def ReadMessagesRequest_create_def int32_ok_def transmissible_def ReadMessagesResponse_ok_def QueueMessage_ok_def unknown_ok_def list_all_iff)
  moreover have "MQClient_ack this name (IntNum i) (QueueMessage_ackToken m) s2 = (Some (Inr True), s3)"
    using MQClient_ack_call [OF link serves(3), where queueName = name and s = s2 and messageId = "IntNum i" and ackToken = "QueueMessage_ackToken m"]
      ack(1) send(1,4) read(1) m(1) opt sizes(3,4)
    by (simp add: Let_def AckMessageRequest_create_def transmissible_def OperationResult_ok_def unknown_ok_def)
  ultimately show ?thesis using m ack(2) by blast
qed

end


section \<open>The operations of the store on one message\<close>

text \<open>An MD5 text has 32 hexadecimal digits.\<close>

definition md5_hex :: "'v mq_lib \<Rightarrow> bool" where
  "md5_hex lib \<longleftrightarrow> (\<forall>t. length (ml_md5 lib t) = 32 \<and> list_all (\<lambda>c. c \<in> set ''0123456789abcdef'') (ml_md5 lib t))"

lemma new_token_valid:
  assumes "md5_hex lib"
  shows "validate_ack_token (new_token lib now k m) = Inr ()"
proof -
  let ?t = "new_token lib now k m"
  have t: "length ?t = 32" "list_all (\<lambda>c. c \<in> set ''0123456789abcdef'') ?t" using assms by (auto simp: md5_hex_def new_token_def)
  have hex: "\<not> is_whitespace c \<and> (of_char c :: int) < 128" if "c \<in> set ''0123456789abcdef''" for c
    using that by (auto simp: is_whitespace_def Let_def)
  have "length (utf8 ?t) = 32" using t hex by (subst utf8_ascii) (auto simp: list_all_iff)
  moreover have "\<not> list_all is_whitespace ?t" using t hex by (cases ?t) auto
  ultimately show ?thesis by (simp add: validate_ack_token_def)
qed

lemma channel_short:
  assumes "validate_queue_name name = Inr ()"
  shows "length (utf8 (''pgapp_mq_'' @ name)) = 9 + length name"
proof -
  from assms have "list_all ident_char name" using validate_identifier_chars by (auto simp: validate_queue_name_def)
  then have "list_all (\<lambda>c. (of_char c :: int) < 128) (''pgapp_mq_'' @ name)" by (auto simp: list_all_iff ident_char_ascii)
  then show ?thesis by (subst utf8_ascii) auto
qed

lemma notify_queue_result:
  assumes "validate_queue_name name = Inr ()"
  shows "notify_queue name n db = (if length name \<le> 54
    then (Inr (), db\<lparr>mq_notifications := mq_notifications db @ [(''pgapp_mq_'' @ name, dec (int n))]\<rparr>)
    else (Inl (Database InvalidParameterValue), db))"
  using channel_short [OF assms] by (simp add: notify_queue_def mq_channel_def assms pg_notify_def del: utf8.simps)

lemma MqStore_send_result:
  assumes "mq_ok db" "q \<in> set (mq_queues db)" "q_name q = name" "validate_queue_name name = Inr ()" "length name \<le> 54"
    "validate_payload_size self text = Inr ()" "ml_parse lib text = Inr v" "ml_jsonb lib v = Inr v'" "0 \<le> delay" "timestamp_after now delay = Inr at"
  shows "MqStore_send lib self now name text delay db = (Inr (mq_next_message db), (enqueue lib now (q_id q) v' at db)
    \<lparr>mq_notifications := mq_notifications db @ [(''pgapp_mq_'' @ name, dec 1)]\<rparr>)"
  using assms queue_id_found [OF assms(1,2)]
  by (simp add: MqStore_send_def send_value_def parse_json_payload_def validate_non_negative_seconds_def andThen_def transaction_def
      insert_message_def notify_queue_result enqueue_def sent_row_def)

lemma delivered_row:
  assumes "distinct (map m_id ms)" "(k, m) \<in> set (enumerate (mq_draws db) ms)" "m \<in> set (mq_messages db)"
  shows "claimed lib now until (k, m) \<in> set (mq_messages (fold (deliver lib now until) ms db))"
proof -
  let ?cs = "map (claimed lib now until) (enumerate (mq_draws db) ms)"
  have "map m_id ?cs = map m_id (map snd (enumerate (mq_draws db) ms))" unfolding map_map by (rule map_cong) simp_all
  also have "\<dots> = map m_id ms" unfolding map_snd_enumerate ..
  finally have "find (\<lambda>c. m_id c = m_id (claimed lib now until (k, m))) ?cs = Some (claimed lib now until (k, m))"
    using assms(1,2) by (intro find_unique) force+
  then show ?thesis using assms(3) unfolding fold_deliver [OF assms(1)] by (auto simp: replace_rows_def intro!: rev_image_eqI [of m])
qed

lemma MqStore_ack_result:
  assumes "mq_ok db" "q \<in> set (mq_queues db)" "q_name q = name" "validate_queue_name name = Inr ()" "validate_ack_token token = Inr ()"
  shows "MqStore_ack now name i token db = (Inr (list_ex (delivery now (q_id q) i token) (mq_messages db)),
    delete_messages (delivery now (q_id q) i token) db)"
  using assms queue_id_found [OF assms(1,2)] by (simp add: MqStore_ack_def andThen_def)


lemma MqStore_dead_letter_result:
  assumes "mq_ok db" "scans lib" "q \<in> set (mq_queues db)" "validate_queue_name (q_name q) = Inr ()" "m \<in> set (mq_messages db)" "m_queue_id m = q_id q"
  shows "MqStore_dead_letter lib now (q_name q) (m_id m) reason db = (Inr True, bury now reason m db)"
proof -
  let ?P = "\<lambda>x. m_queue_id x = q_id q \<and> m_id x = m_id m"
  have "filter ?P (mq_messages db) = filter (\<lambda>x. m_id x = m_id m) (mq_messages db)"
    using message_unique [OF assms(1) _ assms(5)] assms(6) by (auto intro!: filter_cong)
  also have "\<dots> = [m]" by (rule filter_one [OF mq_ok_ids(1) [OF assms(1)] assms(5)])
  finally have one: "filter ?P (mq_messages db) = [m]" .
  obtain ms where "mset ms = mset (filter ?P (mq_messages db))" "move_to_dlq lib now reason ?P db = (int (length ms), fold (bury now reason) ms db)"
    by (rule move_to_dlq_steps [OF assms(1,2), where P = ?P and qid = "q_id q"]) auto
  then have "move_to_dlq lib now reason ?P db = (1, bury now reason m db)" using one by simp
  then show ?thesis using queue_id_found [OF assms(1,3,4)] by (simp add: MqStore_dead_letter_def andThen_def)
qed

lemma MqStore_reprocess_result:
  assumes "mq_ok db" "q \<in> set (mq_queues db)" "validate_queue_name (q_name q) = Inr ()" "d \<in> set (mq_dlq db)" "d_queue_id d = q_id q"
  shows "MqStore_reprocess_dlq_message lib now (q_name q) (d_original_message_id d) db = (Inr True, revive lib now d db)"
  using reprocess_found [OF assms(1,4), of lib now] queue_id_found [OF assms(1-3)]
  by (simp add: MqStore_reprocess_dlq_message_def andThen_def [of "queue_id (q_name q)"] transaction_def assms(5))

text \<open>An operation that fails and changes nothing.\<close>

definition refused :: "('s, 'a) sql_op \<Rightarrow> 's \<Rightarrow> bool" where
  "refused op db \<longleftrightarrow> isl (fst (op db)) \<and> snd (op db) = db"

lemma refused_parts:
  "refused op db \<Longrightarrow> refused (check v op) db"
  "(\<And>x. refused (f x) db) \<Longrightarrow> refused (given u f) db"
  "(\<And>qid. refused (g qid) mdb) \<Longrightarrow> refused (andThen (queue_id name) g) mdb"
  "(\<And>x db'. isl (fst (h x db'))) \<Longrightarrow> refused (transaction (andThen op' h)) db"
proof -
  show "refused op db \<Longrightarrow> refused (check v op) db" "(\<And>x. refused (f x) db) \<Longrightarrow> refused (given u f) db"
    by (auto simp: refused_def check_def given_def split: sum.splits)
  show "(\<And>qid. refused (g qid) mdb) \<Longrightarrow> refused (andThen (queue_id name) g) mdb"
    by (cases rule: queue_id_cases [of name mdb]) (auto simp: refused_def andThen_def)
  assume "\<And>x db'. isl (fst (h x db'))"
  then have "\<exists>e db'. h x db1 = (Inl e, db')" for x db1 by (metis isl_def prod.collapse)
  then have "\<exists>e db'. andThen op' h db = (Inl e, db')" unfolding andThen_def by (auto split: prod.splits sum.splits)
  then show "refused (transaction (andThen op' h)) db" by (auto simp: refused_def transaction_def)
qed


section \<open>The handlers keep the contract\<close>

definition mq_inv :: "'v mq_lib \<Rightarrow> 'v mq_server \<Rightarrow> bool" where
  "mq_inv lib s \<longleftrightarrow> mq_ok (sv_db s) \<and> scans lib \<and> md5_hex lib \<and> sv_now s < last_timestamp \<and>
     (\<forall>c \<in> set (contents (sv_db s)). 0 < fst c) \<and> 0 < mq_next_message (sv_db s) \<and> mq_next_message (sv_db s) \<le> 9007199254740993"

text \<open>The next id is one that JavaScript can hold.\<close>

definition mq_room :: "'v mq_server \<Rightarrow> bool" where
  "mq_room s \<longleftrightarrow> mq_next_message (sv_db s) \<le> 9007199254740992"

definition mq_usable :: "MqGrpc \<Rightarrow> 'v mq_server \<Rightarrow> string \<Rightarrow> bool" where
  "mq_usable self s name \<longleftrightarrow> mg_enabled self \<and> validate_queue_name name = Inr () \<and> length name \<le> 54 \<and>
     (\<exists>q \<in> set (mq_queues (sv_db s)). q_name q = name \<and>
       (\<forall>m \<in> set (mq_messages (sv_db s)). m_queue_id m = q_id q \<longrightarrow> m_read_count m < 2147483647))"

definition mq_waiting :: "'v mq_lib \<Rightarrow> 'v mq_server \<Rightarrow> string \<Rightarrow> (int \<times> string) set" where
  "mq_waiting lib s name = (\<Union>q \<in> {q \<in> set (mq_queues (sv_db s)). q_name q = name}.
     (\<lambda>m. (m_id m, ml_print lib (m_payload m))) ` set (readable_rows (sv_now s) q (sv_db s)))"

definition mq_held :: "MqGrpc \<Rightarrow> 'v mq_server \<Rightarrow> string \<Rightarrow> int \<Rightarrow> string \<Rightarrow> bool" where
  "mq_held self s name i token \<longleftrightarrow> mg_enabled self \<and> validate_queue_name name = Inr () \<and> validate_ack_token token = Inr () \<and>
     (\<exists>q \<in> set (mq_queues (sv_db s)). q_name q = name \<and> list_ex (delivery (sv_now s) (q_id q) i token) (mq_messages (sv_db s)))"

definition mq_gone :: "'v mq_server \<Rightarrow> int \<Rightarrow> bool" where
  "mq_gone s i \<longleftrightarrow> i < mq_next_message (sv_db s) \<and> i \<notin> fst ` set (contents (sv_db s))"

definition mq_stored :: "'v mq_lib \<Rightarrow> MqGrpc \<Rightarrow> string \<Rightarrow> string option" where
  "mq_stored lib self text = (case validate_payload_size (mg_store self) text of Inl _ \<Rightarrow> None
     | Inr _ \<Rightarrow> (case ml_parse lib text of Inl _ \<Rightarrow> None | Inr v \<Rightarrow> (case ml_jsonb lib v of Inl _ \<Rightarrow> None | Inr v' \<Rightarrow> Some (ml_print lib v'))))"

definition mq_readable :: "MqGrpc \<Rightarrow> 'v mq_server \<Rightarrow> int \<Rightarrow> int \<Rightarrow> bool" where
  "mq_readable self s n t \<longleftrightarrow> 0 < n \<and> n \<le> lim_max_batch_size (ms_limits (mg_store self)) \<and> 0 < t \<and>
     t \<le> lim_max_visibility_timeout_seconds (ms_limits (mg_store self)) \<and> (\<exists>until. timestamp_after (sv_now s) t = Inr until)"

lemma mq_waiting_queue:
  assumes "mq_ok (sv_db s)" "q \<in> set (mq_queues (sv_db s))" "q_name q = name"
  shows "mq_waiting lib s name = (\<lambda>m. (m_id m, ml_print lib (m_payload m))) ` set (readable_rows (sv_now s) q (sv_db s))"
proof -
  have "{q' \<in> set (mq_queues (sv_db s)). q_name q' = name} = {q}" using queue_unique [OF assms(1)] assms(2,3) by blast
  then show ?thesis by (simp add: mq_waiting_def)
qed

lemma mq_handler_ok:
  assumes "mg_enabled self" "op (sv_db s) = (Inr x, db')"
  shows "\<exists>s'. mq_handler lib self call op respond s = (Inr (respond x), s') \<and> sv_db s' = db' \<and> sv_now s' = sv_now s"
  using assms by (auto simp: mq_handler_def record_rpc_def require_def MqGrpc_ensure_enabled_def await_def)

lemma MqGrpc_send_spec:
  assumes "mq_inv lib s" "mq_room s" "mq_usable self s name" "mq_stored lib self text = Some text'"
  shows "\<exists>s' i. MqGrpc_send lib self \<lparr>unknownFields = [], SendMessageRequest_queueName = name, SendMessageRequest_jsonPayload = text,
      SendMessageRequest_delaySeconds = dec 0\<rparr> s = (Inr \<lparr>unknownFields = [], SendMessageResponse_messageId = dec i\<rparr>, s') \<and> mq_inv lib s' \<and>
    mq_usable self s' name \<and> safe_int i \<and> mq_waiting lib s' name = insert (i, text') (mq_waiting lib s name) \<and>
    (\<forall>n t. mq_readable self s n t \<longrightarrow> mq_readable self s' n t)"
proof -
  let ?db = "sv_db s"
  from assms(4) obtain v v' where v: "validate_payload_size (mg_store self) text = Inr ()" "ml_parse lib text = Inr v" "ml_jsonb lib v = Inr v'"
    "text' = ml_print lib v'" by (auto simp: mq_stored_def split: sum.splits)
  from assms(3) obtain q where q: "mg_enabled self" "validate_queue_name name = Inr ()" "length name \<le> 54" "q \<in> set (mq_queues ?db)" "q_name q = name"
    "\<forall>m \<in> set (mq_messages ?db). m_queue_id m = q_id q \<longrightarrow> m_read_count m < 2147483647" by (auto simp: mq_usable_def)
  have i: "mq_ok ?db" "scans lib" "md5_hex lib" "sv_now s < last_timestamp" "\<forall>c \<in> set (contents ?db). 0 < fst c" "0 < mq_next_message ?db"
    "mq_next_message ?db \<le> 9007199254740993" using assms(1) by (simp_all add: mq_inv_def)
  have at: "timestamp_after (sv_now s) 0 = Inr (sv_now s)" using i(4) by (simp add: timestamp_after_def safe_int_def)
  let ?db1 = "enqueue lib (sv_now s) (q_id q) v' (sv_now s) ?db"
  let ?db' = "?db1\<lparr>mq_notifications := mq_notifications ?db @ [(''pgapp_mq_'' @ name, dec 1)]\<rparr>"
  note sent = MqStore_send_result [OF i(1) q(4,5,2,3) v(1-3) order_refl at]
  have "has_queue ?db (q_id q)" using q(4) by (simp add: has_queue_def)
  then have ok1: "mq_ok ?db1" by (intro step_mq_ok [OF mq_step.sent i(1)]) simp_all
  then have ok': "mq_ok ?db'" by (rule step_mq_ok [OF mq_step.notified])
  from mq_handler_ok [where self = self and lib = lib and s = s and call = "''send''"
      and op = "MqStore_send lib (mg_store self) (sv_now s) name text 0" and respond = "\<lambda>message_id. SendMessageResponse_create\<lparr>SendMessageResponse_messageId := dec message_id\<rparr>", OF q(1) sent]
  obtain s' where s': "MqGrpc_send lib self \<lparr>unknownFields = [], SendMessageRequest_queueName = name, SendMessageRequest_jsonPayload = text,
      SendMessageRequest_delaySeconds = dec 0\<rparr> s = (Inr \<lparr>unknownFields = [], SendMessageResponse_messageId = dec (mq_next_message ?db)\<rparr>, s')"
    "sv_db s' = ?db'" "sv_now s' = sv_now s" by (auto simp: MqGrpc_send_def SendMessageResponse_create_def)
  have msgs: "mq_messages ?db' = mq_messages ?db @ [sent_row lib (sv_now s) (mq_next_message ?db) (q_id q) v' (sv_now s)]" "mq_queues ?db' = mq_queues ?db"
    "mq_next_message ?db' = mq_next_message ?db + 1" by (simp_all add: enqueue_def)
  have "contents ?db' = contents ?db1" by (simp add: contents_def)
  then have "set (contents ?db') = insert (mq_next_message ?db, q_id q, v', sv_now s) (set (contents ?db))" by (simp add: contents_enqueue)
  then have "mq_inv lib s'" using i ok' assms(2) msgs(3) by (auto simp: mq_inv_def s' mq_room_def)
  moreover have "mq_usable self s' name" using q msgs by (auto simp: mq_usable_def s' sent_row_def)
  moreover have "set (readable_rows (sv_now s) q ?db') = insert (sent_row lib (sv_now s) (mq_next_message ?db) (q_id q) v' (sv_now s)) (set (readable_rows (sv_now s) q ?db))"
    unfolding readable_rows_set msgs by (auto simp: sent_row_def visible_def spent_def)
  then have "mq_waiting lib s' name = insert (mq_next_message ?db, text') (mq_waiting lib s name)"
    using mq_waiting_queue [OF ok' [folded s'(2)], of q name lib] mq_waiting_queue [OF i(1) q(4,5), of lib] q(4,5) msgs(2) v(4)
    by (simp add: s'(2,3) sent_row_def)
  moreover have "safe_int (mq_next_message ?db)" using assms(2) i(6) by (simp add: mq_room_def safe_int_def)
  moreover have "\<forall>n t. mq_readable self s n t \<longrightarrow> mq_readable self s' n t" by (simp add: mq_readable_def s'(3))
  ultimately show ?thesis using s'(1) by blast
qed


lemma MqGrpc_read_spec:
  assumes "mq_inv lib s" "mq_usable self s name" "mq_readable self s n t" "card (mq_waiting lib s name) \<le> nat n"
  shows "\<exists>s' ms. MqGrpc_read lib self \<lparr>unknownFields = [], ReadMessagesRequest_queueName = name, ReadMessagesRequest_quantity = IntNum n,
      ReadMessagesRequest_visibilityTimeoutSeconds = dec t\<rparr> s = (Inr \<lparr>unknownFields = [], ReadMessagesResponse_messages = ms\<rparr>, s') \<and> mq_inv lib s' \<and>
    (\<lambda>m. (QueueMessage_messageId m, QueueMessage_jsonPayload m)) ` set ms = (\<lambda>(i, text). (dec i, text)) ` mq_waiting lib s name \<and>
    (\<forall>m \<in> set ms. unknownFields m = [] \<and> int64_ok (QueueMessage_messageId m) \<and> int32_ok (QueueMessage_readCount m)) \<and>
    (\<forall>m \<in> set ms. \<forall>i. QueueMessage_messageId m = dec i \<longrightarrow> mq_held self s' name i (QueueMessage_ackToken m))"
proof -
  let ?db = "sv_db s"
  from assms(2) obtain q where q: "mg_enabled self" "validate_queue_name name = Inr ()" "q \<in> set (mq_queues ?db)" "q_name q = name"
    "\<forall>m \<in> set (mq_messages ?db). m_queue_id m = q_id q \<longrightarrow> m_read_count m < 2147483647" by (auto simp: mq_usable_def)
  have inv: "mq_ok ?db" "scans lib" "md5_hex lib" using assms(1) by (simp_all add: mq_inv_def)
  from assms(3) obtain until where until: "timestamp_after (sv_now s) t = Inr until" "read_ok (mg_store self) (sv_now s) name n t" "sv_now s < until"
    using q(2) by (auto simp: mq_readable_def read_ok_def dest: timestamp_later)
  let ?rows = "readable_rows (sv_now s) q ?db"
  note set = readable_rows_set [of "sv_now s" q ?db]
  have d: "distinct (map m_id ?rows)" by (rule readable_rows_distinct [OF inv(1)])
  have "length ?rows \<le> nat n"
  proof -
    have "card (mq_waiting lib s name) = card (fst ` mq_waiting lib s name)"
      using d by (intro card_image [symmetric]) (auto simp: mq_waiting_queue [OF inv(1) q(3,4)] inj_on_def distinct_map)
    also have "fst ` mq_waiting lib s name = m_id ` set ?rows" by (simp add: mq_waiting_queue [OF inv(1) q(3,4)] image_image)
    also have "card (m_id ` set ?rows) = length ?rows" using d by (metis distinct_card length_map set_map)
    finally show ?thesis using assms(4) by simp
  qed
  then have take: "take (nat n) ?rows = ?rows" by simp
  have small: "\<forall>m \<in> set ?rows. m_read_count m < 2147483647" using q(5) set by blast
  then have small': "\<forall>m \<in> set (take (nat n) ?rows). m_read_count m < 2147483647" by (simp add: take)
  obtain out db1 where o: "MqStore_read lib (mg_store self) (sv_now s) name n t ?db = (Inr out, fold (deliver lib (sv_now s) until) ?rows db1)"
    "mset out = mset (map (row_to_message \<circ> claimed lib (sv_now s) until) (enumerate (mq_draws ?db) ?rows))"
    "mq_ok db1" "mq_queues db1 = mq_queues ?db" "mq_draws db1 = mq_draws ?db"
    "mq_messages db1 = filter (\<lambda>m. \<not> (m_queue_id m = q_id q \<and> spent q m \<and> visible (sv_now s) m)) (mq_messages ?db)"
    "mq_next_message db1 = mq_next_message ?db"
    by (rule read_result [OF inv(1,2) q(3,4) read_ok_args [OF until(2)] disjI2 [OF until(1)] small', unfolded take]) (rule that)
  let ?db' = "fold (deliver lib (sv_now s) until) ?rows db1"
  from mq_handler_ok [where self = self and lib = lib and s = s and call = "''read''"
      and op = "MqStore_read lib (mg_store self) (sv_now s) name n t"
      and respond = "\<lambda>messages. ReadMessagesResponse_create\<lparr>ReadMessagesResponse_messages := map (to_proto_message lib) messages\<rparr>", OF q(1) o(1)]
  obtain s' where s': "MqGrpc_read lib self \<lparr>unknownFields = [], ReadMessagesRequest_queueName = name, ReadMessagesRequest_quantity = IntNum n,
      ReadMessagesRequest_visibilityTimeoutSeconds = dec t\<rparr> s = (Inr \<lparr>unknownFields = [], ReadMessagesResponse_messages = map (to_proto_message lib) out\<rparr>, s')"
    "sv_db s' = ?db'" "sv_now s' = sv_now s" by (auto simp: MqGrpc_read_def ReadMessagesResponse_create_def i32_def)
  have run: "run_mq lib (mg_store self) (sv_now s) (QRead name n t) ?db = (Inr (RMessages out), ?db')" by (simp add: mq_reply_def andThen_def o(1))
  have ok': "mq_ok ?db'" by (rule run_mq_ok [OF inv(1,2) run])
  have kept_back: "c \<in> set (contents ?db)" if "c \<in> set (contents ?db')" for c
  proof -
    obtain qid ls where ls: "mq_steps lib (sv_now s) qid ls ?db ?db'" "explained (QRead name n t) ls (Inr (RMessages out))"
      by (rule run_mq_steps [OF inv(1,2) run]) (rule that)
    then have "\<forall>i. Sent i \<notin> set ls" by (auto dest: explained_may_do)
    with that steps_contents_back [OF ls(1) inv(1)] show ?thesis by blast
  qed
  have "mq_next_message ?db' = mq_next_message ?db" using o(7) by simp
  then have "mq_inv lib s'" using assms(1) ok' kept_back by (auto simp: mq_inv_def s')
  moreover have elems: "set out = (row_to_message \<circ> claimed lib (sv_now s) until) ` set (enumerate (mq_draws ?db) ?rows)"
    using mset_eq_setD [OF o(2)] by simp
  have snds: "snd ` set (enumerate (mq_draws ?db) ?rows) = set ?rows" by (metis list.set_map map_snd_enumerate)
  have "(\<lambda>m. (QueueMessage_messageId m, QueueMessage_jsonPayload m)) ` set (map (to_proto_message lib) out) =
      (\<lambda>m. (dec (m_id m), ml_print lib (m_payload m))) ` snd ` set (enumerate (mq_draws ?db) ?rows)"
    by (simp add: elems image_image to_proto_message_def row_to_message_def claimed_def case_prod_unfold)
  then have "(\<lambda>m. (QueueMessage_messageId m, QueueMessage_jsonPayload m)) ` set (map (to_proto_message lib) out) =
      (\<lambda>(i, text). (dec i, text)) ` mq_waiting lib s name"
    by (simp add: snds mq_waiting_queue [OF inv(1) q(3,4)] image_image)
  moreover have "unknownFields m = [] \<and> int64_ok (QueueMessage_messageId m) \<and> int32_ok (QueueMessage_readCount m) \<and>
      (\<forall>i. QueueMessage_messageId m = dec i \<longrightarrow> mq_held self s' name i (QueueMessage_ackToken m))" if m: "m \<in> set (map (to_proto_message lib) out)" for m
  proof -
    from m elems obtain k r where kr: "(k, r) \<in> set (enumerate (mq_draws ?db) ?rows)" "m = to_proto_message lib (row_to_message (claimed lib (sv_now s) until (k, r)))"
      by auto
    then have r: "r \<in> set ?rows" using enumerate_member by fastforce
    then have row: "r \<in> set (mq_messages ?db)" "m_queue_id r = q_id q" "\<not> spent q r" using set by auto
    have "message_content r \<in> set (contents ?db)" using row(1) by (simp add: contents_def)
    then have "0 < fst (message_content r)" using assms(1) by (simp add: mq_inv_def)
    then have id: "0 < m_id r" "m_id r < mq_next_message ?db" using mq_ok_message(2) [OF inv(1) row(1)] by (simp_all add: message_content_def)
    have count: "0 \<le> m_read_count r" "m_read_count r < 2147483647" using mq_ok_message(3) [OF inv(1) row(1)] small r by (auto simp: message_ok_def)
    have "claimed lib (sv_now s) until (k, r) \<in> set (mq_messages ?db')"
      using kr(1) row o(5,6) by (intro delivered_row [OF d]) auto
    then have "list_ex (delivery (sv_now s) (q_id q) (m_id r) (new_token lib (sv_now s) k r)) (mq_messages ?db')"
      using row(2) until(3) by (auto simp: list_ex_iff delivery_def in_flight_def claimed_def intro!: bexI [of _ "claimed lib (sv_now s) until (k, r)"])
    then have "mq_held self s' name (m_id r) (new_token lib (sv_now s) k r)"
      using q o(4) new_token_valid [OF inv(3)] by (auto simp: mq_held_def s')
    moreover have "m_id r < 9223372036854775808" using id assms(1) by (simp add: mq_inv_def)
    ultimately show ?thesis using id count
      by (auto simp: kr(2) to_proto_message_def row_to_message_def claimed_def QueueMessage_create_def int64_ok_def int32_ok_def)
  qed
  ultimately show ?thesis using s'(1) by (intro exI [of _ s'] exI [of _ "map (to_proto_message lib) out"]) blast
qed


lemma MqGrpc_ack_spec:
  assumes "mq_inv lib s" "mq_held self s name i token"
  shows "\<exists>s'. MqGrpc_ack lib self \<lparr>unknownFields = [], AckMessageRequest_queueName = name, AckMessageRequest_messageId = dec i,
      AckMessageRequest_ackToken = token\<rparr> s = (Inr \<lparr>unknownFields = [], OperationResult_success = True\<rparr>, s') \<and> mq_inv lib s' \<and> mq_gone s' i"
proof -
  let ?db = "sv_db s"
  from assms(2) obtain q where q: "mg_enabled self" "validate_queue_name name = Inr ()" "validate_ack_token token = Inr ()" "q \<in> set (mq_queues ?db)"
    "q_name q = name" "list_ex (delivery (sv_now s) (q_id q) i token) (mq_messages ?db)" by (auto simp: mq_held_def)
  have ok: "mq_ok ?db" using assms(1) by (simp add: mq_inv_def)
  obtain m where m: "m \<in> set (mq_messages ?db)" "m_id m = i" "delivery (sv_now s) (q_id q) (m_id m) token m"
    "\<And>x. x \<in> set (mq_messages ?db) \<Longrightarrow> delivery (sv_now s) (q_id q) i token x \<longleftrightarrow> m_id x = i" by (rule delivery_row [OF ok q(6)]) (rule that)
  let ?db' = "drop_message i ?db"
  have del: "delete_messages (delivery (sv_now s) (q_id q) i token) ?db = ?db'" using m(4) by (simp add: delete_messages_def drop_message_def cong: filter_cong)
  have result: "MqStore_ack (sv_now s) name i token ?db = (Inr True, ?db')"
    using MqStore_ack_result [OF ok q(4,5,2,3)] q(6) del by simp
  from mq_handler_ok [where self = self and lib = lib and s = s and call = "''ack''" and op = "MqStore_ack (sv_now s) name i token"
      and respond = operation_result, OF q(1) result]
  obtain s' where s': "MqGrpc_ack lib self \<lparr>unknownFields = [], AckMessageRequest_queueName = name, AckMessageRequest_messageId = dec i,
      AckMessageRequest_ackToken = token\<rparr> s = (Inr \<lparr>unknownFields = [], OperationResult_success = True\<rparr>, s')" "sv_db s' = ?db'" "sv_now s' = sv_now s"
    by (auto simp: MqGrpc_ack_def operation_result_def OperationResult_create_def)
  have step: "mq_step lib (sv_now s) (q_id q) (Acked i token) ?db ?db'" using mq_step.acked [OF m(1,3), of lib] m(2) by simp
  have "i \<notin> fst ` set (contents ?db')"
  proof
    assume "i \<in> fst ` set (contents ?db')"
    moreover have "mset (map fst (contents ?db)) = add_mset i (mset (map fst (contents ?db')))"
      using arg_cong [OF mset_contents_without [OF mq_ok_ids(1) [OF ok] m(1)], of "image_mset fst"] m(2) by (simp add: message_content_def)
    then have "mset (map fst (contents ?db)) = mset (i # map fst (contents ?db'))" by simp
    then have "distinct (i # map fst (contents ?db'))" using ok by (metis mq_ok_def mset_eq_imp_distinct_iff)
    ultimately show False by simp
  qed
  moreover have "i < mq_next_message ?db" using mq_ok_message(2) [OF ok m(1)] m(2) by simp
  ultimately have "mq_gone s' i" using step_next [OF step] by (simp add: mq_gone_def s')
  moreover have "mq_next_message ?db' = mq_next_message ?db" by (simp add: drop_message_def delete_messages_def)
  then have "mq_inv lib s'" using assms(1) step_mq_ok [OF step ok] step_contents_back [OF step ok] by (auto simp: mq_inv_def s')
  ultimately show ?thesis using s'(1) by blast
qed

interpretation queues: queue_contract "mq_inv lib" mq_room "mq_usable self" "mq_waiting lib" "mq_held self" mq_gone "mq_stored lib self" "mq_readable self"
    "behind raise (MqGrpc_send lib self)" "behind raise (MqGrpc_read lib self)" "behind raise (MqGrpc_ack lib self)" for lib self raise
proof
  fix s name payload payload' and opt :: rpc_options
  assume "mq_inv lib s" "mq_room s" "mq_usable self s name" "mq_stored lib self payload = Some payload'"
  from MqGrpc_send_spec [OF this] show "\<exists>s' i. behind raise (MqGrpc_send lib self) opt \<lparr>unknownFields = [],
        SendMessageRequest_queueName = name, SendMessageRequest_jsonPayload = payload, SendMessageRequest_delaySeconds = dec 0\<rparr> s =
          (Inr \<lparr>unknownFields = [], SendMessageResponse_messageId = dec i\<rparr>, s') \<and> mq_inv lib s' \<and> mq_usable self s' name \<and> safe_int i \<and>
        mq_waiting lib s' name = insert (i, payload') (mq_waiting lib s name) \<and> (\<forall>n t. mq_readable self s n t \<longrightarrow> mq_readable self s' n t)"
    unfolding behind_def by fastforce
next
  fix s name n t and opt :: rpc_options
  assume "mq_inv lib s" "mq_usable self s name" "mq_readable self s n t" "card (mq_waiting lib s name) \<le> nat n"
  from MqGrpc_read_spec [OF this] obtain s' ms where r: "MqGrpc_read lib self \<lparr>unknownFields = [], ReadMessagesRequest_queueName = name,
      ReadMessagesRequest_quantity = IntNum n, ReadMessagesRequest_visibilityTimeoutSeconds = dec t\<rparr> s =
        (Inr \<lparr>unknownFields = [], ReadMessagesResponse_messages = ms\<rparr>, s')" and rest: "mq_inv lib s' \<and>
      (\<lambda>m. (QueueMessage_messageId m, QueueMessage_jsonPayload m)) ` set ms = (\<lambda>(i, text). (dec i, text)) ` mq_waiting lib s name \<and>
      (\<forall>m \<in> set ms. unknownFields m = [] \<and> int64_ok (QueueMessage_messageId m) \<and> int32_ok (QueueMessage_readCount m)) \<and>
      (\<forall>m \<in> set ms. \<forall>i. QueueMessage_messageId m = dec i \<longrightarrow> mq_held self s' name i (QueueMessage_ackToken m))" by blast
  show "\<exists>s' ms. behind raise (MqGrpc_read lib self) opt \<lparr>unknownFields = [], ReadMessagesRequest_queueName = name,
      ReadMessagesRequest_quantity = IntNum n, ReadMessagesRequest_visibilityTimeoutSeconds = dec t\<rparr> s =
        (Inr \<lparr>unknownFields = [], ReadMessagesResponse_messages = ms\<rparr>, s') \<and> mq_inv lib s' \<and>
      (\<lambda>m. (QueueMessage_messageId m, QueueMessage_jsonPayload m)) ` set ms = (\<lambda>(i, text). (dec i, text)) ` mq_waiting lib s name \<and>
      (\<forall>m \<in> set ms. unknownFields m = [] \<and> int64_ok (QueueMessage_messageId m) \<and> int32_ok (QueueMessage_readCount m)) \<and>
      (\<forall>m \<in> set ms. \<forall>i. QueueMessage_messageId m = dec i \<longrightarrow> mq_held self s' name i (QueueMessage_ackToken m))"
    by (intro exI [of _ s'] exI [of _ ms] conjI) (use r rest in \<open>simp_all add: behind_def\<close>)
next
  fix s name i token and opt :: rpc_options
  assume "mq_inv lib s" "mq_held self s name i token"
  from MqGrpc_ack_spec [OF this] show "\<exists>s'. behind raise (MqGrpc_ack lib self) opt \<lparr>unknownFields = [], AckMessageRequest_queueName = name,
      AckMessageRequest_messageId = dec i, AckMessageRequest_ackToken = token\<rparr> s =
        (Inr \<lparr>unknownFields = [], OperationResult_success = True\<rparr>, s') \<and> mq_inv lib s' \<and> mq_gone s' i"
    unfolding behind_def by fastforce
qed (simp add: mq_waiting_def)


section \<open>Long polls return\<close>

lemma wait_once_later:
  assumes "time_passes others" "0 < wait" "\<not> given_up dropped (snd st)" "wait_once others events dropped wait listening n st = (listening', n', st')"
  shows "snd st < snd st'"
proof -
  let ?st1 = "nap others dropped wait n st"
  have "snd st < snd ?st1" by (rule nap_later [OF assms(1-3)])
  moreover have "snd ?st1 < snd (nap others dropped wait (n + 1) ?st1)" if "\<not> given_up dropped (snd ?st1)" by (rule nap_later [OF assms(1,2) that])
  ultimately show ?thesis using assms(4) by (auto simp: wait_once_def Let_def split: if_splits)
qed

lemma notify_loop_returns:
  assumes "time_passes others" "0 < interval"
  shows "\<exists>out. notify_loop rd others events dropped interval deadline listening n st = Some out \<and> waited (\<lambda>messages. messages \<noteq> []) deadline dropped out"
proof (induction "nat (deadline - snd st)" arbitrary: listening n st rule: less_induct)
  case less
  show ?case
  proof (cases "given_up dropped (snd st)")
    case False
    obtain r db where rd: "rd (snd st) (fst st) = (r, db)" by fastforce
    let ?wait = "min (max 0 (deadline - snd st)) interval"
    obtain listening' n' st' where w: "wait_once others events dropped ?wait listening n (db, snd st) = (listening', n', st')" by (metis prod_cases3)
    have pos: "0 < ?wait" if "\<not> deadline \<le> snd st" using that assms(2) by simp
    then have "nat (deadline - snd st') < nat (deadline - snd st)" if "\<not> deadline \<le> snd st"
      using that wait_once_later [OF assms(1) pos _ w] False by simp
    with less [of st' listening' n'] rd w pos False show ?thesis
      by (subst notify_loop.simps) (auto simp: Let_def split: sum.splits)
  qed (subst notify_loop.simps, simp)
qed

lemma MqStore_read_with_poll_returns:
  assumes "time_passes others" "ml_deadline lib (snd st) max_poll_seconds = Some deadline"
  shows "\<exists>out. MqStore_read_with_poll lib self others dropped name quantity timeout max_poll_seconds millis st = Some out \<and> waited (\<lambda>messages. messages \<noteq> []) deadline dropped out"
proof (cases "check (validate_quantity quantity (lim_max_batch_size (ms_limits self)))
    (check (validate_non_negative_seconds ''visibility_timeout_seconds'' timeout) (check (validate_visibility_timeout self timeout)
    (check (validate_non_negative_seconds ''max_poll_seconds'' max_poll_seconds) (\<lambda>db. (Inr (), db))))) (fst st)")
  case (Pair r db)
  then show ?thesis using poll_loop_returns [OF assms(1) poll_interval_pos]
    by (cases r) (simp_all add: MqStore_read_with_poll_def Pair assms(2))
qed

lemma read_with_notify_or_poll_returns:
  assumes "time_passes others" "ml_deadline lib (snd st) max_poll_seconds = Some deadline"
  shows "\<exists>out. read_with_notify_or_poll lib self others events reachable dropped name quantity timeout max_poll_seconds millis st = Some out \<and>
    waited (\<lambda>messages. messages \<noteq> []) deadline dropped out"
  by (simp add: read_with_notify_or_poll_def assms(2) notify_loop_returns [OF assms(1) poll_interval_pos])

end
