(* ===== verification/Mq_Laws.thy ===== *)
theory Mq_Laws
  imports Mq_Service
begin

text \<open>
  The properties of the queues of the server: of the tables over runs of operations, of single
  operations, and of the SDK together with the service.
\<close>


section \<open>A library for concrete runs\<close>

text \<open>JSON values are their texts here; the first token differs from the later ones.\<close>

definition sample_lib :: "string mq_lib" where
  "sample_lib = \<lparr>ml_parse = Inr, ml_print = (\<lambda>v. v), ml_jsonb = Inr, ml_no_headers = ''{}'',
     ml_md5 = (\<lambda>t. replicate 32 (if last t = CHR ''0'' then CHR ''0'' else CHR ''1'')), ml_clock_text = (\<lambda>_. ''now''),
     ml_random_text = (\<lambda>k. if k = 0 then ''0'' else ''1''), ml_scan = (\<lambda>rows. rows), ml_rfc3339 = dec, ml_db_text = (\<lambda>_. ''database error''),
     ml_deadline = (\<lambda>now seconds. Some (now + seconds * 1000000))\<rparr>"

definition sample_store :: MqStore where
  "sample_store = \<lparr>ms_transient_enabled = True, ms_limits = \<lparr>lim_max_batch_size = 100, lim_max_payload_bytes = 8,
     lim_max_visibility_timeout_seconds = 43200, lim_max_redelivery_count = 1\<rparr>\<rparr>"

lemma sample_scans: "scans sample_lib"
  by (simp add: scans_def sample_lib_def)

lemma sample_md5: "md5_hex sample_lib"
  by (simp add: md5_hex_def sample_lib_def list_all_iff)

lemma sample_token: "new_token sample_lib now k m = replicate 32 (if k = 0 then CHR ''0'' else CHR ''1'')"
  by (simp add: new_token_def sample_lib_def)

text \<open>A queue with two messages, and the same after its first message was read for thirty seconds.\<close>

definition sample_commands :: "(int \<times> mq_command) list" where
  "sample_commands = [(1000000, QCreate ''jobs'' Durable), (2000000, QSend ''jobs'' ''1'' 0), (3000000, QSend ''jobs'' ''2'' 0)]"

definition sample_db :: "string mq_db" where
  "sample_db = snd (run_mqs sample_lib sample_store sample_commands empty_mq)"

definition sample_read :: "string mq_db" where
  "sample_read = snd (run_mq sample_lib sample_store 4000000 (QRead ''jobs'' 1 30) sample_db)"

lemma runs_reachable: "reachable_mq lib self db \<Longrightarrow> reachable_mq lib self (snd (run_mqs lib self cmds db))"
proof (induction cmds arbitrary: db)
  case (Cons c cmds)
  obtain now cmd where c: "c = (now, cmd)" by (cases c)
  obtain r db1 where r: "run_mq lib self now cmd db = (r, db1)" by fastforce
  then have "reachable_mq lib self (snd (run_mqs lib self cmds db1))" by (intro Cons.IH reachable_mq.step [OF Cons.prems])
  with r c show ?case by (simp add: case_prod_unfold)
qed simp

lemma sample_reachable: "reachable_mq sample_lib sample_store sample_db"
  unfolding sample_db_def by (rule runs_reachable [OF reachable_mq.start])

lemma sample_value: "sample_db = \<lparr>mq_queues = [\<lparr>q_id = 1, q_name = ''jobs'', q_durable = True, q_max_redelivery_count = Some 1\<rparr>],
    mq_messages = [sent_row sample_lib 2000000 1 1 ''1'' 2000000, sent_row sample_lib 3000000 2 1 ''2'' 3000000],
    mq_archives = [], mq_dlq = [], mq_next_queue = 2, mq_next_message = 3, mq_next_archive = 1, mq_next_dead = 1, mq_draws = 0,
    mq_notifications = [(''pgapp_mq_jobs'', ''1''), (''pgapp_mq_jobs'', ''1'')]\<rparr>"
  by code_simp



section \<open>Properties of the tables\<close>

text \<open>
  C14. Whatever operations ran, at whatever times, the tables of the queues are consistent: queues have
  different names and ids; the id of a message is in use once, among the waiting messages, the dead
  letters and the archive; every message belongs to a queue; a message has a token and a visibility
  timeout if and only if it was delivered; and no message was delivered more often than its queue allows.
\<close>

theorem mq_tables_consistent:
  assumes "reachable_mq lib self db" "scans lib"
  shows "mq_ok db"
  using assms by (rule reachable_mq_ok)

theorem mq_tables_consistent_witness:
  "mq_ok sample_db \<and> map m_payload (mq_messages sample_db) = [''1'', ''2'']"
  using mq_tables_consistent [OF sample_reachable sample_scans] by (simp add: sample_value sent_row_def)

text \<open>
  C1. No message is lost: after a send has answered with an id, and whatever runs then, except an
  acknowledgement of that id and the commands that throw away messages or dead letters (purge and drop
  of its queue, and the sweep of old dead letters), the message is still there under that id, in its
  queue, its dead letters or its archive, with the payload and the time it was sent.
\<close>

theorem no_message_lost:
  assumes "reachable_mq lib self db" "scans lib" "run_mq lib self now (QSend name payload delay) db = (Inr (RIds [i]), db1)"
    and "\<forall>(_, cmd) \<in> set cmds. \<not> may_remove name i cmd" "run_mqs lib self cmds db1 = (rs, db2)"
  shows "\<exists>qid v v'. ml_parse lib payload = Inr v \<and> ml_jsonb lib v = Inr v' \<and> named db2 name qid \<and> (i, qid, v', now) \<in> set (contents db2)"
proof -
  have ok: "mq_ok db" by (rule reachable_mq_ok [OF assms(1,2)])
  from MqStore_send_stored [OF assms(3)] obtain qid v v' where sent: "ml_parse lib payload = Inr v" "ml_jsonb lib v = Inr v'" "named db1 name qid"
    "(i, qid, v', now) \<in> set (contents db1)" by blast
  have "kept lib name (i, qid, v', now) db2"
    by (rule lasting.runs_kept [OF run_mq_ok [OF ok assms(2,3)] _ _ assms(5)]) (use sent assms(2,4) in \<open>auto simp: kept_def\<close>)
  then show ?thesis using sent by (auto simp: kept_def)
qed

definition later_commands :: "(int \<times> mq_command) list" where
  "later_commands = [(4000000, QRead ''jobs'' 5 30), (5000000, QDeadLetter ''jobs'' 3 ''poison''), (6000000, QAck ''jobs'' 1 (replicate 32 CHR ''0'')),
     (7000000, QReprocess ''jobs'' 3)]"

theorem no_message_lost_witness:
  "\<exists>qid. (3, qid, ''3'', 3500000) \<in>
     set (contents (snd (run_mqs sample_lib sample_store later_commands (snd (run_mq sample_lib sample_store 3500000 (QSend ''jobs'' ''3'' 0) sample_db)))))"
proof -
  let ?db1 = "snd (run_mq sample_lib sample_store 3500000 (QSend ''jobs'' ''3'' 0) sample_db)"
  let ?out = "run_mqs sample_lib sample_store later_commands ?db1"
  have "fst (run_mq sample_lib sample_store 3500000 (QSend ''jobs'' ''3'' 0) sample_db) = Inr (RIds [3])" by code_simp
  then have "run_mq sample_lib sample_store 3500000 (QSend ''jobs'' ''3'' 0) sample_db = (Inr (RIds [3]), ?db1)" by (metis prod.collapse)
  moreover have "\<forall>(_, cmd) \<in> set later_commands. \<not> may_remove ''jobs'' 3 cmd" by (simp add: later_commands_def)
  moreover have "?out = (fst ?out, snd ?out)" by simp
  ultimately obtain qid v v' where v: "ml_parse sample_lib ''3'' = Inr v" "ml_jsonb sample_lib v = Inr v'" "(3, qid, v', 3500000) \<in> set (contents (snd ?out))"
    using no_message_lost [OF sample_reachable sample_scans] by blast
  then have "v' = ''3''" by (simp add: sample_lib_def)
  with v(3) show ?thesis by blast
qed

text \<open>
  C10. A message that a read returned is in flight: until the visibility timeout it was returned with,
  no read returns it again, whatever else runs, unless its holder changes its timeout or an
  administrator puts it back from the dead letters.
\<close>

theorem hidden_while_in_flight:
  assumes "reachable_mq lib self db" "scans lib" "run_mq lib self now (QRead name quantity timeout) db = (Inr (RMessages ms), db1)" "m \<in> set ms"
    and "\<forall>(now', cmd) \<in> set cmds. now' < the (qm_visibility_timeout_at m) \<and> \<not> may_reveal (qm_id m) cmd" "run_mqs lib self cmds db1 = (rs, db2)"
  shows "\<forall>out. Inr (RMessages out) \<in> set rs \<longrightarrow> qm_id m \<notin> qm_id ` set out"
proof -
  have ok: "mq_ok db" by (rule reachable_mq_ok [OF assms(1,2)])
  have read: "MqStore_read lib self now name quantity timeout db = (Inr ms, db1)" by (rule run_read [OF assms(3)])
  obtain until where until: "qm_visibility_timeout_at m = Some until"
    "\<And>y. y \<in> set (mq_messages db1) \<Longrightarrow> m_id y = qm_id m \<Longrightarrow> m_visibility_timeout_at y = Some until" "qm_id m \<in> m_id ` set (mq_messages db)"
    by (rule read_returned [OF ok assms(2) read assms(4)]) (rule that)
  have "hidden lib (qm_id m) until db1" using until assms(2) run_next [OF ok assms(2,3)] mq_ok_message(2) [OF ok] by (fastforce simp: hidden_def)
  then show ?thesis
    using in_flight_not_returned [OF run_mq_ok [OF ok assms(2,3)] _ _ assms(6), of "qm_id m" until] assms(5) until(1) by auto
qed

lemma sample_read_result: "run_mq sample_lib sample_store 4000000 (QRead ''jobs'' 1 30) sample_db =
    (Inr (RMessages [\<lparr>qm_id = 1, qm_read_count = 1, qm_enqueued_at = 2000000, qm_visibility_timeout_at = Some 34000000,
       qm_ack_token = replicate 32 CHR ''0'', qm_payload = ''1''\<rparr>]), sample_read)"
proof -
  have "fst (run_mq sample_lib sample_store 4000000 (QRead ''jobs'' 1 30) sample_db) =
      Inr (RMessages [\<lparr>qm_id = 1, qm_read_count = 1, qm_enqueued_at = 2000000, qm_visibility_timeout_at = Some 34000000,
       qm_ack_token = replicate 32 CHR ''0'', qm_payload = ''1''\<rparr>])" by code_simp
  then show ?thesis unfolding sample_read_def by (metis prod.collapse)
qed

theorem hidden_while_in_flight_witness:
  "\<exists>out. Inr (RMessages out) \<in> set (fst (run_mqs sample_lib sample_store [(5000000, QRead ''jobs'' 9 1), (33000000, QRead ''jobs'' 9 1)] sample_read)) \<and>
     map qm_id out = [2] \<and> 1 \<notin> qm_id ` set out"
proof -
  let ?out = "run_mqs sample_lib sample_store [(5000000, QRead ''jobs'' 9 1), (33000000, QRead ''jobs'' 9 1)] sample_read"
  have "?out = (fst ?out, snd ?out)" by simp
  from hidden_while_in_flight [OF sample_reachable sample_scans sample_read_result _ _ this]
  have hidden: "\<forall>out. Inr (RMessages out) \<in> set (fst ?out) \<longrightarrow> 1 \<notin> qm_id ` set out" by simp
  have "fst ?out \<noteq> []" by (simp split: prod.splits)
  then have "hd (fst ?out) \<in> set (fst ?out)" by (rule hd_in_set)
  moreover have "case hd (fst ?out) of Inr (RMessages out) \<Rightarrow> map qm_id out = [2] | _ \<Rightarrow> False" by code_simp
  then obtain out where "hd (fst ?out) = Inr (RMessages out)" "map qm_id out = [2]" by (auto split: sum.splits mq_reply.splits)
  ultimately show ?thesis using hidden by metis
qed

text \<open>
  C11. The token of a delivery is worth nothing once its visibility timeout has passed: whatever ran
  since, and also where the message is in flight again, acknowledging, archiving or extending with it
  changes nothing and does not report success. This relies on the random numbers of later deliveries
  not making the same token again.
\<close>

theorem stale_token_rejected:
  assumes "reachable_mq lib self db" "scans lib" "run_mq lib self now (QRead name quantity timeout) db = (Inr (RMessages ms), db1)" "m \<in> set ms"
    and "not_made_again lib (qm_ack_token m) (mq_draws db1)" "\<forall>(_, cmd) \<in> set cmds. \<not> may_extend (qm_id m) (qm_ack_token m) cmd"
    and "run_mqs lib self cmds db1 = (rs, db2)" "the (qm_visibility_timeout_at m) \<le> now'"
    and "cmd \<in> {QAck name' (qm_id m) (qm_ack_token m), QArchive name' (qm_id m) (qm_ack_token m),
      QSetVisibility name' (qm_id m) (qm_ack_token m) seconds}" "run_mq lib self now' cmd db2 = (r, db3)"
  shows "db3 = db2 \<and> r \<noteq> Inr (RFlag True)"
proof -
  have ok: "mq_ok db" "mq_ok db1" using reachable_mq_ok [OF assms(1,2)] run_mq_ok [OF _ assms(2,3)] by blast+
  obtain until where until: "qm_visibility_timeout_at m = Some until"
    "\<And>y. y \<in> set (mq_messages db1) \<Longrightarrow> m_id y = qm_id m \<Longrightarrow> m_visibility_timeout_at y = Some until"
    by (rule read_returned [OF ok(1) assms(2) run_read [OF assms(3)] assms(4)]) (rule that)
  have "spent_token lib (qm_id m) (qm_ack_token m) until db2"
    by (rule past.runs_kept [OF ok(2) _ _ assms(7)]) (use until assms(2,5,6) in \<open>auto simp: spent_token_def\<close>)
  moreover have "until \<le> now'" using assms(8) until(1) by simp
  ultimately show ?thesis using token_rejected [OF runs_mq_ok [OF ok(2) assms(2,7)] _ _ assms(9,10)] by blast
qed

theorem stale_token_rejected_witness:
  "run_mq sample_lib sample_store 34000000 (QAck ''jobs'' 1 (replicate 32 CHR ''0'')) sample_read = (Inr (RFlag False), sample_read)"
proof -
  obtain r db3 where run: "run_mq sample_lib sample_store 34000000 (QAck ''jobs'' 1 (replicate 32 CHR ''0'')) sample_read = (r, db3)" by fastforce
  have "mq_draws sample_read = 1" by code_simp
  then have "not_made_again sample_lib (replicate 32 CHR ''0'') (mq_draws sample_read)" by (simp add: not_made_again_def sample_token)
  then have "db3 = sample_read \<and> r \<noteq> Inr (RFlag True)"
    using stale_token_rejected [OF sample_reachable sample_scans sample_read_result _ _ _ _ _ _ run, of _ "[]"] by simp
  moreover have "fst (run_mq sample_lib sample_store 34000000 (QAck ''jobs'' 1 (replicate 32 CHR ''0'')) sample_read) = Inr (RFlag False)" by code_simp
  ultimately show ?thesis using run by simp
qed

text \<open>
  C15. Where a queue limits redeliveries, a read returns no message more often than the limit, and every
  message that has been delivered that often and is visible leaves the queue: it is among the dead
  letters then, with its payload, its count and the limit as the reason.
\<close>

theorem redelivery_limit:
  assumes "reachable_mq lib self db" "scans lib" "run_mq lib self now (QRead name quantity timeout) db = (Inr (RMessages ms), db')"
    and "q \<in> set (mq_queues db)" "q_name q = name" "0 < limit_of q"
  shows "(\<forall>m \<in> set ms. 1 \<le> qm_read_count m \<and> qm_read_count m \<le> limit_of q) \<and>
    (\<forall>m \<in> set (mq_messages db). m_queue_id m = q_id q \<and> visible now m \<and> limit_of q \<le> m_read_count m \<longrightarrow>
       m_id m \<notin> m_id ` set (mq_messages db') \<and>
       (\<exists>i. dead_row now (''max_redelivery_count='' @ dec (limit_of q)) i m \<in> set (mq_dlq db')))"
proof -
  have ok: "mq_ok db" "mq_ok db'" using reachable_mq_ok [OF assms(1,2)] run_mq_ok [OF _ assms(2,3)] by blast+
  note read = run_read [OF assms(3)]
  from read_counts [OF ok(1) assms(2) read assms(4,5)] assms(6)
  have "\<forall>m \<in> set ms. 1 \<le> qm_read_count m \<and> qm_read_count m \<le> limit_of q" by blast
  moreover have "\<exists>i. dead_row now (''max_redelivery_count='' @ dec (limit_of q)) i m \<in> set (mq_dlq db')"
    if "m \<in> set (mq_messages db)" "m_queue_id m = q_id q" "visible now m" "limit_of q \<le> m_read_count m" for m
    using read_buries [OF ok(1) assms(2) read assms(4,5) that(1,2,3)] that(4) assms(6) by (simp add: spent_def)
  ultimately show ?thesis using mq_ok_ids(3) [OF ok(2)] by (force simp: dead_row_def)
qed

lemma sample_read_reachable: "reachable_mq sample_lib sample_store sample_read"
  by (rule reachable_mq.step [OF sample_reachable sample_read_result])

theorem redelivery_limit_witness:
  "(\<exists>i m. dead_row 40000000 ''max_redelivery_count=1'' i m \<in> set (mq_dlq (snd (run_mq sample_lib sample_store 40000000 (QRead ''jobs'' 5 30) sample_read))) \<and>
     m_id m = 1 \<and> m_payload m = ''1'')"
proof -
  let ?q = "\<lparr>q_id = 1, q_name = ''jobs'', q_durable = True, q_max_redelivery_count = Some 1\<rparr>"
  let ?m = "(sent_row sample_lib 2000000 1 1 ''1'' 2000000)\<lparr>m_visibility_timeout_at := Some 34000000, m_ack_token := Some (replicate 32 CHR ''0''), m_read_count := 1\<rparr>"
  obtain ms db' where run: "run_mq sample_lib sample_store 40000000 (QRead ''jobs'' 5 30) sample_read = (Inr (RMessages ms), db')"
  proof -
    have "case fst (run_mq sample_lib sample_store 40000000 (QRead ''jobs'' 5 30) sample_read) of Inr (RMessages ms) \<Rightarrow> map qm_id ms = [2] | _ \<Rightarrow> False" by code_simp
    then show thesis using that
      by (cases "run_mq sample_lib sample_store 40000000 (QRead ''jobs'' 5 30) sample_read") (auto split: sum.splits mq_reply.splits)
  qed
  have "mq_queues sample_read = [?q]" "?m \<in> set (mq_messages sample_read)" by code_simp+
  moreover have "visible 40000000 ?m" "m_queue_id ?m = 1" by (simp_all add: visible_def sent_row_def)
  ultimately have "\<exists>i. dead_row 40000000 (''max_redelivery_count='' @ dec 1) i ?m \<in> set (mq_dlq db')"
    using redelivery_limit [OF sample_read_reachable sample_scans run, of ?q] by (auto simp: limit_of_def)
  moreover have "m_id ?m = 1" "m_payload ?m = ''1''" by (simp_all add: sent_row_def)
  moreover have "''max_redelivery_count='' @ dec 1 = ''max_redelivery_count=1''" by code_simp
  ultimately show ?thesis unfolding run snd_conv by metis
qed

text \<open>
  C13. A read that passes its checks returns the messages of its queue that are visible and not spent,
  the oldest first up to its quantity, each with its payload and a count one higher, and leaves those
  that were too many as they are.
\<close>

theorem read_delivers_oldest:
  assumes "reachable_mq lib self db" "scans lib" "q \<in> set (mq_queues db)" "q_name q = name" "read_ok self now name quantity timeout"
    and "\<forall>m \<in> set (mq_messages db). m_queue_id m = q_id q \<longrightarrow> m_read_count m < 2147483647"
  shows "\<exists>ms db'. run_mq lib self now (QRead name quantity timeout) db = (Inr (RMessages ms), db') \<and>
    mset (map (\<lambda>m. (qm_id m, qm_payload m, qm_read_count m)) ms) =
      mset (map (\<lambda>m. (m_id m, m_payload m, m_read_count m + 1)) (take (nat quantity) (readable_rows now q db))) \<and>
    set (drop (nat quantity) (readable_rows now q db)) \<subseteq> set (mq_messages db')"
proof -
  let ?rows = "readable_rows now q db"
  let ?ms = "take (nat quantity) ?rows"
  have ok: "mq_ok db" by (rule reachable_mq_ok [OF assms(1,2)])
  from assms(5) obtain until where until: "timestamp_after now timeout = Inr until" by (auto simp: read_ok_def)
  have small: "\<forall>m \<in> set ?ms. m_read_count m < 2147483647" using assms(6) by (auto simp: readable_rows_set dest!: in_set_takeD)
  obtain out db1 where r: "MqStore_read lib self now name quantity timeout db = (Inr out, fold (deliver lib now until) ?ms db1)"
    "mset out = mset (map (row_to_message \<circ> claimed lib now until) (enumerate (mq_draws db) ?ms))"
    "mq_messages db1 = filter (\<lambda>m. \<not> (m_queue_id m = q_id q \<and> spent q m \<and> visible now m)) (mq_messages db)"
    by (rule read_result [OF ok assms(2-4) read_ok_args [OF assms(5)] disjI2 [OF until] small]) (rule that)
  have "mset (map (\<lambda>m. (qm_id m, qm_payload m, qm_read_count m)) out) =
      mset (map (\<lambda>m. (m_id m, m_payload m, m_read_count m + 1)) (map snd (enumerate (mq_draws db) ?ms)))"
    unfolding mset_map r(2) by (simp add: multiset.map_comp comp_def row_to_message_def claimed_def case_prod_unfold)
  moreover have "m \<in> set (mq_messages (fold (deliver lib now until) ?ms db1))" if "m \<in> set (drop (nat quantity) ?rows)" for m
  proof (rule not_delivered)
    have "distinct (map m_id ?ms @ map m_id (drop (nat quantity) ?rows))"
      using readable_rows_distinct [OF ok, of now q] by (metis append_take_drop_id map_append)
    with that show "m_id m \<notin> m_id ` set ?ms" by auto
    show "m \<in> set (mq_messages db1)" using in_set_dropD [OF that] by (auto simp: readable_rows_set r(3))
  qed
  moreover have "run_mq lib self now (QRead name quantity timeout) db = (Inr (RMessages out), fold (deliver lib now until) ?ms db1)"
    by (simp add: mq_reply_def andThen_def r(1))
  ultimately show ?thesis by auto
qed

theorem read_delivers_oldest_witness:
  "\<exists>ms db'. run_mq sample_lib sample_store 4000000 (QRead ''jobs'' 1 30) sample_db = (Inr (RMessages ms), db') \<and>
    mset (map (\<lambda>m. (qm_id m, qm_payload m, qm_read_count m)) ms) = mset [(1, ''1'', 1)]"
proof -
  let ?q = "\<lparr>q_id = 1, q_name = ''jobs'', q_durable = True, q_max_redelivery_count = Some 1\<rparr>"
  have "timestamp_after 4000000 30 = Inr 34000000" "validate_queue_name ''jobs'' = Inr ()" by code_simp+
  then have ok: "read_ok sample_store 4000000 ''jobs'' 1 30" by (simp add: read_ok_def sample_store_def)
  have q: "?q \<in> set (mq_queues sample_db)" by (simp add: sample_value)
  have "map (\<lambda>m. (m_id m, m_payload m, m_read_count m + 1)) (take (nat 1) (readable_rows 4000000 ?q sample_db)) = [(1, ''1'', 1)]" by code_simp
  moreover have "\<forall>m \<in> set (mq_messages sample_db). m_queue_id m = q_id ?q \<longrightarrow> m_read_count m < 2147483647" by (simp add: sample_value sent_row_def)
  ultimately show ?thesis using read_delivers_oldest [OF sample_reachable sample_scans q _ ok] by fastforce
qed

text \<open>
  C12. Every message is delivered: where a message is visible and not spent, and readers keep reading
  its queue while the messages they get stay in flight, one of the first reads returns it, at the
  latest after as many reads as there are older messages that could come before it, plus one.
\<close>

theorem every_message_is_delivered:
  assumes "reachable_mq lib self db" "scans lib" "q \<in> set (mq_queues db)" "q_name q = name"
    and "\<forall>(now, quantity, timeout) \<in> set rs. read_ok self now name quantity timeout \<and> t0 \<le> now \<and> now \<le> t \<and>
      (\<forall>until. timestamp_after now timeout = Inr until \<longrightarrow> t < until)"
    and "m \<in> set (mq_messages db)" "m_queue_id m = q_id q" "visible t0 m" "\<not> spent q m"
    and "\<forall>x \<in> set (mq_messages db). m_queue_id x = q_id q \<longrightarrow> visible t x \<longrightarrow> m_read_count x < 2147483647"
    and "card (ahead q (m_id m) t db) < length rs"
  shows "\<exists>out. Inr (RMessages out) \<in> set (fst (run_mqs lib self (reads name rs) db)) \<and> m_id m \<in> qm_id ` set out"
  using reads_reach [OF reachable_mq_ok [OF assms(1,2)] assms(2-)] .

theorem every_message_is_delivered_witness:
  "\<exists>out. Inr (RMessages out) \<in> set (fst (run_mqs sample_lib sample_store (reads ''jobs'' [(4000000, 1, 30), (5000000, 1, 30)]) sample_db)) \<and> 2 \<in> qm_id ` set out"
proof -
  let ?q = "\<lparr>q_id = 1, q_name = ''jobs'', q_durable = True, q_max_redelivery_count = Some 1\<rparr>"
  let ?m = "sent_row sample_lib 3000000 2 1 ''2'' 3000000"
  have times: "timestamp_after 4000000 30 = Inr 34000000" "timestamp_after 5000000 30 = Inr 35000000" "validate_queue_name ''jobs'' = Inr ()" by code_simp+
  have "ahead ?q (m_id ?m) 5000000 sample_db \<subseteq> {sent_row sample_lib 2000000 1 1 ''1'' 2000000}" by (auto simp: ahead_def sample_value sent_row_def)
  then have "card (ahead ?q (m_id ?m) 5000000 sample_db) \<le> card {sent_row sample_lib 2000000 1 1 ''1'' 2000000}" by (intro card_mono) simp_all
  then have few: "card (ahead ?q (m_id ?m) 5000000 sample_db) < length [(4000000, 1, 30), (5000000, 1, 30)]" by simp
  have "\<exists>out. Inr (RMessages out) \<in> set (fst (run_mqs sample_lib sample_store (reads ''jobs'' [(4000000, 1, 30), (5000000, 1, 30)]) sample_db)) \<and> m_id ?m \<in> qm_id ` set out"
    by (rule every_message_is_delivered [OF sample_reachable sample_scans _ _ _ _ _ _ _ _ few, where ?t0.0 = 4000000])
      (simp_all add: sample_value sent_row_def read_ok_def sample_store_def times visible_def spent_def limit_of_def)
  then show ?thesis by (simp add: sent_row_def)
qed

text \<open>
  Queues are isolated: commands on other queues, whatever they are, leave every row of a queue as
  it is, waiting messages, dead letters and archive. Only the sweep of old dead letters is for all queues.
\<close>

theorem queues_isolated:
  assumes "reachable_mq lib self db" "scans lib" "named db name qid" "\<forall>(_, cmd) \<in> set cmds. \<not> may_disturb name cmd"
    and "run_mqs lib self cmds db = (rs, db')"
  shows "rows_of qid db' = rows_of qid db \<and> named db' name qid"
proof -
  have "undisturbed lib name qid (rows_of qid db) db'"
    by (rule elsewhere.runs_kept [OF reachable_mq_ok [OF assms(1,2)] _ _ assms(5)]) (use assms(2-4) in \<open>auto simp: undisturbed_def\<close>)
  then show ?thesis by (simp add: undisturbed_def)
qed

theorem queues_isolated_witness:
  "rows_of 1 (snd (run_mqs sample_lib sample_store [(5000000, QCreate ''other'' Transient), (6000000, QSend ''other'' ''3'' 0), (7000000, QDrop ''other'')] sample_db)) =
   rows_of 1 sample_db \<and> mq_messages sample_db \<noteq> []"
proof -
  let ?cmds = "[(5000000, QCreate ''other'' Transient), (6000000, QSend ''other'' ''3'' 0), (7000000, QDrop ''other'')]"
  let ?out = "run_mqs sample_lib sample_store ?cmds sample_db"
  have "named sample_db ''jobs'' 1" by (simp add: named_def sample_value)
  moreover have "\<forall>(_, cmd) \<in> set ?cmds. \<not> may_disturb ''jobs'' cmd" by simp
  moreover have "?out = (fst ?out, snd ?out)" by simp
  ultimately have "rows_of 1 (snd ?out) = rows_of 1 sample_db" using queues_isolated [OF sample_reachable sample_scans] by blast
  then show ?thesis by (simp add: sample_value)
qed



section \<open>Dead letters and names\<close>

text \<open>
  C17. Burying a message and reprocessing it brings it back: both commands report success, in between
  the message is a dead letter with the reason given, and afterwards the dead letters are as before and
  the queue has the message again under its id, visible at once, with its payload and the time it was
  sent, no token and a count of zero.
\<close>

theorem reprocessed_message_returns:
  assumes "reachable_mq lib self db" "scans lib" "m \<in> set (mq_messages db)" "named db name (m_queue_id m)" "validate_queue_name name = Inr ()"
  shows "\<exists>db1 db2. run_mq lib self now (QDeadLetter name (m_id m) reason) db = (Inr (RFlag True), db1) \<and>
    mq_dlq db1 = mq_dlq db @ [dead_row now reason (mq_next_dead db) m] \<and>
    run_mq lib self now' (QReprocess name (m_id m)) db1 = (Inr (RFlag True), db2) \<and> mq_dlq db2 = mq_dlq db \<and>
    mq_messages db2 = filter (\<lambda>x. m_id x \<noteq> m_id m) (mq_messages db) @ [m\<lparr>m_headers := ml_no_headers lib, m_available_at := now',
      m_visibility_timeout_at := None, m_ack_token := None, m_read_count := 0\<rparr>]"
proof -
  have ok: "mq_ok db" by (rule reachable_mq_ok [OF assms(1,2)])
  from assms(4) obtain q where q: "q \<in> set (mq_queues db)" "q_name q = name" "q_id q = m_queue_id m" by (auto simp: named_def)
  let ?db1 = "bury now reason m db"
  have bury: "run_mq lib self now (QDeadLetter name (m_id m) reason) db = (Inr (RFlag True), ?db1)"
    using MqStore_dead_letter_result [OF ok assms(2) q(1) _ assms(3)] q assms(5) by (simp add: mq_reply_def andThen_def)
  have ok1: "mq_ok ?db1" by (rule run_mq_ok [OF ok assms(2) bury])
  have q1: "q \<in> set (mq_queues ?db1)" using q by (simp add: bury_def drop_message_def delete_messages_def)
  let ?d = "dead_row now reason (mq_next_dead db) m"
  have d_of: "d_queue_id ?d = m_queue_id m" "d_original_message_id ?d = m_id m" by (simp_all add: dead_row_def)
  have d: "dead_row now reason (mq_next_dead db) m \<in> set (mq_dlq ?db1)" by (simp add: bury_def)
  let ?db2 = "revive lib now' (dead_row now reason (mq_next_dead db) m) ?db1"
  have "run_mq lib self now' (QReprocess name (m_id m)) ?db1 = (Inr (RFlag True), ?db2)"
    using MqStore_reprocess_result [OF ok1 q1 _ d, of lib now'] q assms(5) by (simp add: mq_reply_def andThen_def d_of)
  moreover have "m_id m \<notin> d_original_message_id ` set (mq_dlq db)" using mq_ok_ids(3) [OF ok] assms(3) by blast
  then have "filter (\<lambda>d. d_original_message_id d \<noteq> m_id m) (mq_dlq db) = mq_dlq db" unfolding filter_id_conv by (metis imageI)
  then have "mq_dlq ?db2 = mq_dlq db" by (simp add: revive_def bury_def dead_row_def)
  moreover have "mq_messages ?db2 = filter (\<lambda>x. m_id x \<noteq> m_id m) (mq_messages db) @ [m\<lparr>m_headers := ml_no_headers lib, m_available_at := now',
      m_visibility_timeout_at := None, m_ack_token := None, m_read_count := 0\<rparr>]"
    by (simp add: revive_def bury_def dead_row_def revived_row_def drop_message_def delete_messages_def)
  moreover have "mq_dlq ?db1 = mq_dlq db @ [dead_row now reason (mq_next_dead db) m]" by (simp add: bury_def)
  ultimately show ?thesis using bury by (intro exI [of _ ?db1] exI [of _ ?db2] conjI)
qed

theorem reprocessed_message_returns_witness:
  "\<exists>db1 db2. run_mq sample_lib sample_store 5000000 (QDeadLetter ''jobs'' 2 ''poison'') sample_db = (Inr (RFlag True), db1) \<and>
    run_mq sample_lib sample_store 6000000 (QReprocess ''jobs'' 2) db1 = (Inr (RFlag True), db2) \<and> map m_payload (mq_messages db2) = [''1'', ''2'']"
proof -
  let ?m = "sent_row sample_lib 3000000 2 1 ''2'' 3000000"
  have "?m \<in> set (mq_messages sample_db)" "named sample_db ''jobs'' (m_queue_id ?m)" by (simp_all add: sample_value named_def sent_row_def)
  moreover have "validate_queue_name ''jobs'' = Inr ()" by code_simp
  ultimately obtain db1 db2 where "run_mq sample_lib sample_store 5000000 (QDeadLetter ''jobs'' (m_id ?m) ''poison'') sample_db = (Inr (RFlag True), db1)"
    "run_mq sample_lib sample_store 6000000 (QReprocess ''jobs'' (m_id ?m)) db1 = (Inr (RFlag True), db2)"
    "mq_messages db2 = filter (\<lambda>x. m_id x \<noteq> m_id ?m) (mq_messages sample_db) @ [?m\<lparr>m_headers := ml_no_headers sample_lib, m_available_at := 6000000,
      m_visibility_timeout_at := None, m_ack_token := None, m_read_count := 0\<rparr>]"
    using reprocessed_message_returns [OF sample_reachable sample_scans, of ?m "''jobs''" 5000000 "''poison''" 6000000] by blast
  then show ?thesis by (intro exI [of _ db1] exI [of _ db2]) (simp add: sample_value sent_row_def)
qed

text \<open>
  C18. A queue whose name has more than 54 bytes can be created but not used: the name passes the check of
  the server, which allows 128 bytes, but the channel of its notifications is too long for PostgreSQL, so
  every send to it fails and stores nothing.
\<close>

theorem long_queue_name_cannot_send:
  assumes "validate_queue_name name = Inr ()" "54 < length name"
  shows "fst (MqStore_create_queue self name Durable db) = Inr () \<and>
    isl (fst (MqStore_send lib self now name payload delay db)) \<and> snd (MqStore_send lib self now name payload delay db) = db \<and>
    (payloads \<noteq> [] \<longrightarrow> isl (fst (MqStore_send_batch lib self now name payloads delay db)) \<and>
       snd (MqStore_send_batch lib self now name payloads delay db) = db)"
proof -
  have no: "notify_queue name n db' = (Inl (Database InvalidParameterValue), db')" for n and db' :: "'a mq_db"
    using notify_queue_result [OF assms(1), of n db'] assms(2) by simp
  have "refused (MqStore_send lib self now name payload delay) db"
    unfolding MqStore_send_def send_value_def by (intro refused_parts) (simp add: andThen_def no)
  moreover have "refused (MqStore_send_batch lib self now name payloads delay) db" if "payloads \<noteq> []"
    unfolding MqStore_send_batch_def if_not_P [OF that] by (intro refused_parts) (simp add: andThen_def no)
  moreover have "fst (MqStore_create_queue self name Durable db) = Inr ()" using assms(1) by (simp add: MqStore_create_queue_def)
  ultimately show ?thesis by (simp add: refused_def)
qed

theorem long_queue_name_cannot_send_witness:
  "fst (MqStore_create_queue sample_store (replicate 55 CHR ''q'') Durable sample_db) = Inr () \<and>
   isl (fst (MqStore_send sample_lib sample_store 0 (replicate 55 CHR ''q'') ''1'' 0 sample_db))"
proof -
  have "validate_queue_name (replicate 55 CHR ''q'') = Inr ()" by code_simp
  from long_queue_name_cannot_send [OF this, of sample_store sample_db sample_lib 0 "''1''" 0 "[]"] show ?thesis by simp
qed



section \<open>Readers that wait\<close>

text \<open>
  C16. A long poll returns: whether it listens for notifications or not, whatever wakes it up and whatever
  others do meanwhile, as long as time passes while it sleeps. An answer without messages comes only
  after the deadline that the request sets, and the status of a timeout only after the timeout of the
  server; the one other thing that can happen is a deadline beyond the end of time, which is excluded here.
\<close>

theorem long_poll_returns:
  assumes "time_passes others" "ml_deadline lib (sv_now s) (i64 (ReadWithPollRequest_maxPollSeconds req)) = Some deadline"
  shows "\<exists>r s'. MqGrpc_read_with_poll lib self others events reachable req s = Some (Some (r, s')) \<and>
    (\<forall>resp. r = Inr resp \<and> ReadMessagesResponse_messages resp = [] \<longrightarrow> deadline \<le> sv_now s') \<and>
    (r = Inl request_timed_out \<longrightarrow> sv_now s + mg_request_timeout self \<le> sv_now s')"
proof (cases "mg_enabled self")
  case True
  let ?op = "(if mg_notify_enabled self then read_with_notify_or_poll lib (mg_store self) others events reachable
      else MqStore_read_with_poll lib (mg_store self) others) (Some (sv_now s + mg_request_timeout self))
      (ReadWithPollRequest_queueName req) (i32 (ReadWithPollRequest_quantity req))
      (i64 (ReadWithPollRequest_visibilityTimeoutSeconds req)) (i64 (ReadWithPollRequest_maxPollSeconds req))
      (i64 (ReadWithPollRequest_pollIntervalMillis req))"
  have "\<exists>out. ?op (sv_db s, sv_now s) = Some out \<and> waited (\<lambda>messages. messages \<noteq> []) deadline (Some (sv_now s + mg_request_timeout self)) out"
    using read_with_notify_or_poll_returns [OF assms(1), where st = "(sv_db s, sv_now s)"]
      MqStore_read_with_poll_returns [OF assms(1), where st = "(sv_db s, sv_now s)"] assms(2) by simp
  then obtain out where out: "?op (sv_db s, sv_now s) = Some out"
    "waited (\<lambda>messages. messages \<noteq> []) deadline (Some (sv_now s + mg_request_timeout self)) out" by blast
  let ?respond = "\<lambda>messages. ReadMessagesResponse_create\<lparr>ReadMessagesResponse_messages := map (to_proto_message lib) messages\<rparr>"
  from await_waiting_returns [where op = ?op and respond = ?respond and db_text = "ml_db_text lib" and service = "''mq''" and call = "''read_with_poll''", OF out]
  obtain r s' where r: "await_waiting (ml_db_text lib) ''mq'' ''read_with_poll'' ?op ?respond s = Some (Some (r, s'))"
    "\<forall>y. r = Inr y \<longrightarrow> (\<exists>x. y = ?respond x \<and> (x \<noteq> [] \<or> deadline \<le> sv_now s'))"
    "r = Inl request_timed_out \<longrightarrow> given_up (Some (sv_now s + mg_request_timeout self)) (sv_now s')"
    by (elim exE conjE) (rule that)
  have "MqGrpc_read_with_poll lib self others events reachable req s = Some (Some (r, s'))"
    using r(1) True by (simp add: MqGrpc_read_with_poll_def MqGrpc_ensure_enabled_def)
  then show ?thesis using r(2,3) by (fastforce simp: given_up_def ReadMessagesResponse_create_def)
qed (simp add: MqGrpc_read_with_poll_def MqGrpc_ensure_enabled_def record_rpc_def request_timed_out_def)

definition sample_grpc :: MqGrpc where
  "sample_grpc = \<lparr>mg_store = sample_store, mg_enabled = True, mg_notify_enabled = True, mg_request_timeout = 30000000\<rparr>"

definition sample_server :: "string mq_server" where
  "sample_server = \<lparr>sv_now = 3500000, sv_latency = 0, sv_db = sample_db, sv_metrics = (\<lambda>_. None)\<rparr>"

definition sample_poll :: ReadWithPollRequest where
  "sample_poll = ReadWithPollRequest_create\<lparr>ReadWithPollRequest_queueName := ''jobs'', ReadWithPollRequest_quantity := IntNum 1, ReadWithPollRequest_maxPollSeconds := dec 5\<rparr>"

theorem long_poll_returns_witness:
  "\<exists>r s'. MqGrpc_read_with_poll sample_lib sample_grpc (\<lambda>n d (db, now). (db, now + d)) (\<lambda>n. Elapsed) True sample_poll
     (sample_server\<lparr>sv_db := empty_mq\<rparr>) = Some (Some (r, s'))"
proof -
  have "time_passes (\<lambda>n d (db, now). (db, now + d))" by (simp add: time_passes_def)
  moreover have "i64 (ReadWithPollRequest_maxPollSeconds sample_poll) = 5" by (simp add: sample_poll_def)
  then have "ml_deadline sample_lib (sv_now (sample_server\<lparr>sv_db := empty_mq\<rparr>)) (i64 (ReadWithPollRequest_maxPollSeconds sample_poll)) = Some 8500000"
    by (simp add: sample_lib_def sample_server_def)
  ultimately show ?thesis using long_poll_returns by blast
qed


section \<open>The SDK and the service\<close>

text \<open>
  C4. A message that an application sends through the SDK is among those it reads next, with the JSON text
  that the database keeps of its payload, and acknowledging it with the id of the send and the token of
  the read removes it for good. This holds for a queue that the server has, a quantity that covers the
  messages waiting, a transport that speaks the wire format, and whatever happened before.
\<close>

theorem sdk_message_round_trip:
  fixes this :: "('w, 'r, 'v mq_server) PGAppClient"
  assumes "rpc_link (pc_transport this) E st rest skippable"
    and "serves_MQService_Send (pc_transport this) (behind raise (MqGrpc_send lib self))"
      "serves_MQService_Read (pc_transport this) (behind raise (MqGrpc_read lib self))"
      "serves_MQService_Ack (pc_transport this) (behind raise (MqGrpc_ack lib self))"
    and "mq_inv lib s" "mq_room s" "mq_usable self s name" "mq_stored lib self (stringify payload) = Some text" "mq_readable self s n t"
      "card (mq_waiting lib s name) < nat n" "in_int32 n" "safe_int t"
    and "sreq = \<lparr>unknownFields = [], SendMessageRequest_queueName = name, SendMessageRequest_jsonPayload = stringify payload,
        SendMessageRequest_delaySeconds = dec 0\<rparr>" "length (SendMessageRequest_encode E sreq) < 2147483648"
    and "rreq = \<lparr>unknownFields = [], ReadMessagesRequest_queueName = name, ReadMessagesRequest_quantity = IntNum n,
        ReadMessagesRequest_visibilityTimeoutSeconds = dec t\<rparr>" "length (ReadMessagesRequest_encode E rreq) < 2147483648"
    and "\<And>i. safe_int i \<Longrightarrow> length (SendMessageResponse_encode E \<lparr>unknownFields = [], SendMessageResponse_messageId = dec i\<rparr>) < 2147483648"
      "\<And>resp s'. MqGrpc_read lib self rreq (snd (MqGrpc_send lib self sreq s)) = (Inr resp, s') \<Longrightarrow> length (ReadMessagesResponse_encode E resp) < 2147483648"
      "\<And>i m resp s'. MqGrpc_read lib self rreq (snd (MqGrpc_send lib self sreq s)) = (Inr resp, s') \<Longrightarrow> m \<in> set (ReadMessagesResponse_messages resp) \<Longrightarrow>
        safe_int i \<Longrightarrow> length (AckMessageRequest_encode E \<lparr>unknownFields = [], AckMessageRequest_queueName = name,
          AckMessageRequest_messageId = dec i, AckMessageRequest_ackToken = QueueMessage_ackToken m\<rparr>) < 2147483648"
      "length (OperationResult_encode E \<lparr>unknownFields = [], OperationResult_success = True\<rparr>) < 2147483648"
  shows "\<exists>i s1 s2 s3 ms m. MQClient_sendJson this name payload None s = (Some (Inr (IntNum i)), s1) \<and>
    MQClient_read this name (Some (IntNum n)) (Some (IntNum t)) s1 = (Some (Inr ms), s2) \<and>
    m \<in> set ms \<and> QueueMessage_messageId m = dec i \<and> QueueMessage_jsonPayload m = text \<and>
    MQClient_ack this name (IntNum i) (QueueMessage_ackToken m) s2 = (Some (Inr True), s3) \<and> mq_gone s3 i"
proof -
  have send: "snd (behind raise (MqGrpc_send lib self) opt sreq s) = snd (MqGrpc_send lib self sreq s)" for opt
    by (simp add: behind_def split: prod.splits)
  have read: "behind raise (MqGrpc_read lib self) opt rreq s1 = (Inr resp, s') \<longleftrightarrow> MqGrpc_read lib self rreq s1 = (Inr resp, s')" for opt s1 resp s'
    by (cases "MqGrpc_read lib self rreq s1"; cases "fst (MqGrpc_read lib self rreq s1)") (simp_all add: behind_def)
  show ?thesis by (rule queues.send_read_ack [OF assms(1-12) refl assms(13-17), unfolded send read]) (use assms(18-20) in blast)+
qed

text \<open>A transport with the three methods.\<close>

definition mq_routes :: "string \<Rightarrow> method_info \<Rightarrow> rpc_options \<Rightarrow> bytes \<Rightarrow> string mq_server \<Rightarrow> bytes result \<times> string mq_server" where
  "mq_routes service m = (if mi_name m = ''Send''
     then dispatch ''pgapp.v1.MQService'' (unaryMethod ''Send'' ''pgapp.v1.SendMessageRequest'' ''pgapp.v1.SendMessageResponse'')
       (SendMessageRequest_internalBinaryRead proto_R RU_true) (SendMessageResponse_internalBinaryWrite proto_W WU_true)
       (behind (\<lambda>status. mkError (s_message status)) (MqGrpc_send sample_lib sample_grpc)) service m
     else if mi_name m = ''Read''
     then dispatch ''pgapp.v1.MQService'' (unaryMethod ''Read'' ''pgapp.v1.ReadMessagesRequest'' ''pgapp.v1.ReadMessagesResponse'')
       (ReadMessagesRequest_internalBinaryRead proto_R RU_true) (ReadMessagesResponse_internalBinaryWrite proto_W WU_true)
       (behind (\<lambda>status. mkError (s_message status)) (MqGrpc_read sample_lib sample_grpc)) service m
     else dispatch ''pgapp.v1.MQService'' (unaryMethod ''Ack'' ''pgapp.v1.AckMessageRequest'' ''pgapp.v1.OperationResult'')
       (AckMessageRequest_internalBinaryRead proto_R RU_true) (OperationResult_internalBinaryWrite proto_W WU_true)
       (behind (\<lambda>status. mkError (s_message status)) (MqGrpc_ack sample_lib sample_grpc)) service m)"

definition mq_client :: "(bytes list, nat \<times> bytes, string mq_server) PGAppClient" where
  "mq_client = PGAppClient_new (\<lambda>host. proto_env mq_routes (\<lambda>service m opt bs s. (([], None), s))) None None"

definition sample_response :: ReadMessagesResponse where
  "sample_response = \<lparr>unknownFields = [], ReadMessagesResponse_messages = map (\<lambda>(i, sent, payload, c). \<lparr>unknownFields = [], QueueMessage_messageId = i,
     QueueMessage_readCount = IntNum 1, QueueMessage_enqueuedAt = sent, QueueMessage_visibilityTimeoutAt = ''33500000'',
     QueueMessage_jsonPayload = payload, QueueMessage_ackToken = replicate 32 c\<rparr>)
     [(''1'', ''2000000'', ''1'', CHR ''0''), (''2'', ''3000000'', ''2'', CHR ''1''), (''3'', ''3500000'', ''true'', CHR ''1'')]\<rparr>"

lemma sample_exchange: "fst (MqGrpc_read sample_lib sample_grpc \<lparr>unknownFields = [], ReadMessagesRequest_queueName = ''jobs'',
      ReadMessagesRequest_quantity = IntNum 5, ReadMessagesRequest_visibilityTimeoutSeconds = dec 30\<rparr>
    (snd (MqGrpc_send sample_lib sample_grpc \<lparr>unknownFields = [], SendMessageRequest_queueName = ''jobs'', SendMessageRequest_jsonPayload = ''true'',
        SendMessageRequest_delaySeconds = dec 0\<rparr> sample_server))) = Inr sample_response"
  by code_simp

lemma sample_ready:
  "mq_inv sample_lib sample_server" "mq_room sample_server" "mq_usable sample_grpc sample_server ''jobs''"
  "mq_stored sample_lib sample_grpc ''true'' = Some ''true''" "mq_readable sample_grpc sample_server 5 30"
  "card (mq_waiting sample_lib sample_server ''jobs'') < nat 5"
proof -
  have facts: "validate_queue_name ''jobs'' = Inr ()" "validate_payload_size sample_store ''true'' = Inr ()" "timestamp_after 3500000 30 = Inr 33500000"
    by code_simp+
  have ok: "mq_ok sample_db" by (rule reachable_mq_ok [OF sample_reachable sample_scans])
  then show "mq_inv sample_lib sample_server"
    using sample_scans sample_md5 by (simp add: mq_inv_def sample_server_def last_timestamp_def)
      (simp add: sample_value contents_def message_content_def sent_row_def)
  show "mq_room sample_server" "mq_usable sample_grpc sample_server ''jobs''"
    using facts by (simp_all add: mq_room_def mq_usable_def sample_server_def sample_value sample_grpc_def sent_row_def)
  show "mq_stored sample_lib sample_grpc ''true'' = Some ''true''" using facts by (simp add: mq_stored_def sample_grpc_def sample_lib_def)
  show "mq_readable sample_grpc sample_server 5 30" using facts by (simp add: mq_readable_def sample_grpc_def sample_server_def sample_store_def)
  have "mq_waiting sample_lib sample_server ''jobs'' \<subseteq> (\<lambda>m. (m_id m, ml_print sample_lib (m_payload m))) ` set (mq_messages sample_db)"
    by (auto simp: mq_waiting_def readable_rows_def sample_server_def)
  then have "card (mq_waiting sample_lib sample_server ''jobs'') \<le> card ((\<lambda>m. (m_id m, ml_print sample_lib (m_payload m))) ` set (mq_messages sample_db))"
    by (intro card_mono) simp_all
  also have "\<dots> \<le> length (mq_messages sample_db)" by (rule order_trans [OF card_image_le card_length]) simp
  also have "\<dots> < nat 5" by (simp add: sample_value)
  finally show "card (mq_waiting sample_lib sample_server ''jobs'') < nat 5" .
qed

theorem sdk_message_round_trip_witness:
  "\<exists>i s1 s2 s3 ms m. MQClient_sendJson mq_client ''jobs'' (JBool True) None sample_server = (Some (Inr (IntNum i)), s1) \<and>
    MQClient_read mq_client ''jobs'' (Some (IntNum 5)) (Some (IntNum 30)) s1 = (Some (Inr ms), s2) \<and>
    m \<in> set ms \<and> QueueMessage_messageId m = dec i \<and> QueueMessage_jsonPayload m = ''true'' \<and>
    MQClient_ack mq_client ''jobs'' (IntNum i) (QueueMessage_ackToken m) s2 = (Some (Inr True), s3) \<and> mq_gone s3 i"
proof -
  let ?raise = "\<lambda>status. mkError (s_message status)"
  have tr: "pc_transport mq_client = proto_env mq_routes (\<lambda>service m opt bs s. (([], None), s))"
    by (simp add: mq_client_def PGAppClient_new_def Let_def)
  have routes: "serves_MQService_Send (pc_transport mq_client) (behind ?raise (MqGrpc_send sample_lib sample_grpc))"
    "serves_MQService_Read (pc_transport mq_client) (behind ?raise (MqGrpc_read sample_lib sample_grpc))"
    "serves_MQService_Ack (pc_transport mq_client) (behind ?raise (MqGrpc_ack sample_lib sample_grpc))"
    unfolding tr by (simp_all add: serves_def mq_routes_def dispatch_def)
  have link: "rpc_link (pc_transport mq_client) proto_E (\<lambda>w. w) snd p_payload" unfolding tr by (rule proto_link)
  have json: "stringify (JBool True) = ''true''" by simp
  note ready = sample_ready [folded json]
  have small: "length (SendMessageRequest_encode proto_E \<lparr>unknownFields = [], SendMessageRequest_queueName = ''jobs'',
      SendMessageRequest_jsonPayload = stringify (JBool True), SendMessageRequest_delaySeconds = dec 0\<rparr>) < 2147483648"
    "length (ReadMessagesRequest_encode proto_E \<lparr>unknownFields = [], ReadMessagesRequest_queueName = ''jobs'', ReadMessagesRequest_quantity = IntNum 5,
      ReadMessagesRequest_visibilityTimeoutSeconds = dec 30\<rparr>) < 2147483648"
    "length (SendMessageResponse_encode proto_E \<lparr>unknownFields = [], SendMessageResponse_messageId = dec i\<rparr>) < 2147483648"
    "length (AckMessageRequest_encode proto_E \<lparr>unknownFields = [], AckMessageRequest_queueName = ''jobs'',
      AckMessageRequest_messageId = dec i, AckMessageRequest_ackToken = replicate 32 c\<rparr>) < 2147483648"
    "length (OperationResult_encode proto_E \<lparr>unknownFields = [], OperationResult_success = True\<rparr>) < 2147483648" for i c
    unfolding SendMessageRequest_encode_def ReadMessagesRequest_encode_def SendMessageResponse_encode_def AckMessageRequest_encode_def OperationResult_encode_def
    by (rule le_less_trans, (rule wire_size)+, simp)+
  have read: "length (ReadMessagesResponse_encode proto_E sample_response) < 2147483648"
    unfolding ReadMessagesResponse_encode_def QueueMessage_encode_def
    by (rule le_less_trans, (rule wire_size)+) (simp add: sample_response_def)
  show ?thesis
    by (rule sdk_message_round_trip [OF link routes ready(1-3) _ ready(5,6) _ _ refl small(1) refl small(2) small(3) _ _ small(5)])
      (use sample_ready(4) sample_exchange read small(4) in \<open>auto simp: sample_response_def safe_int_def\<close>)
qed

end
