(* ===== verification/Config_Store.thy ===== *)
theory Config_Store
  imports Waiting "HOL-Library.List_Lexorder"
begin

text \<open>
  \<open>ConfigStore\<close> of \<open>crates/pgapp-core/src/config_center.rs\<close>: the config centre of the server over its tables
  (\<open>migrations/0004_config.sql\<close>, \<open>0007_config_schema.sql\<close>). Drafts of items per scope, their schema, and the
  releases made of them. JSON values are a type parameter; what the code takes from libraries and
  from the database is a record of functions. An operation runs alone and at one instant, in
  microseconds, except while it sleeps. The ids of items and releases are read by no operation and left out.
\<close>


section \<open>Tables\<close>

record ConfigScope_core =
  gs_app_id :: string
  gs_environment :: string
  gs_cluster :: string
  gs_namespace :: string

record ConfigLimits =
  cl_max_watch_seconds :: int
  cl_max_payload_bytes :: nat
  cl_max_page_size :: nat
  cl_max_schema_bytes :: nat

definition ConfigLimits_default :: ConfigLimits where
  "ConfigLimits_default = \<lparr>cl_max_watch_seconds = 30, cl_max_payload_bytes = 1024 * 1024, cl_max_page_size = 100,
     cl_max_schema_bytes = 256 * 1024\<rparr>"

record 'v config_scope =
  sr_id :: int
  sr_scope :: ConfigScope_core
  sr_current_revision :: int
  sr_created_at :: int
  sr_updated_at :: int
  sr_json_schema :: "'v option"

record 'v config_item =
  it_scope_id :: int
  it_key :: string
  it_value :: 'v
  it_deleted :: bool
  it_updated_at :: int

record 'v config_release =
  rl_scope_id :: int
  rl_revision :: int
  rl_snapshot :: 'v
  rl_checksum :: string
  rl_message :: string
  rl_published_by :: string
  rl_published_at :: int

record 'v config_db =
  cf_scopes :: "'v config_scope list"
  cf_items :: "'v config_item list"
  cf_releases :: "'v config_release list"
  cf_next_scope :: int

definition empty_config :: "'v config_db" where
  "empty_config = \<lparr>cf_scopes = [], cf_items = [], cf_releases = [], cf_next_scope = 1\<rparr>"

text \<open>
  What comes from libraries and the database: \<open>serde_json\<close> (\<open>from_str\<close>, \<open>to_string\<close>, an object of its
  members), what a JSONB column makes of a value and its \<open>null\<close>, SHA-256 in hexadecimal of a text,
  \<open>jsonschema\<close> (the error of a schema, the error of a value under a schema), the sort key of a text in
  the collation of the database, the text of a time and of a database error, and the sum of a time
  and seconds (nothing where it panics).
\<close>

record 'v config_lib =
  lb_parse :: "string \<Rightarrow> string + 'v"
  lb_print :: "'v \<Rightarrow> string"
  lb_object :: "(string \<times> 'v) list \<Rightarrow> 'v"
  lb_jsonb :: "'v \<Rightarrow> db_error + 'v"
  lb_null :: 'v
  lb_sha256 :: "string \<Rightarrow> string"
  lb_schema_error :: "'v \<Rightarrow> string option"
  lb_value_error :: "'v \<Rightarrow> 'v \<Rightarrow> string option"
  lb_collate :: "string \<Rightarrow> nat list"
  lb_rfc3339 :: "int \<Rightarrow> string"
  lb_db_text :: "db_error \<Rightarrow> string"
  lb_deadline :: "int \<Rightarrow> int \<Rightarrow> int option"


section \<open>Values of the store\<close>

record 'v ConfigItem_core =
  ci_key :: string
  ci_value :: 'v
  ci_deleted :: bool
  ci_updated_at :: int

record 'v ConfigRelease_core =
  cr_scope :: ConfigScope_core
  cr_revision :: int
  cr_checksum :: string
  cr_snapshot :: 'v
  cr_message :: string
  cr_published_by :: string
  cr_published_at :: int

record ConfigScopeSummary_core =
  cu_scope :: ConfigScope_core
  cu_current_revision :: int
  cu_created_at :: int
  cu_updated_at :: int

record 'v ConfigWatchResult_core =
  cw_changed :: bool
  cw_latest_revision :: int
  cw_release :: "'v ConfigRelease_core option"

record 'a ConfigPage =
  cp_items :: "'a list"
  cp_limit :: nat
  cp_offset :: int
  cp_next_offset :: "int option"

record PageState =
  ps_limit :: nat
  ps_fetch_limit :: int
  ps_offset :: int


section \<open>Checks\<close>

definition validate_scope :: "ConfigScope_core \<Rightarrow> pg_error + unit" where
  "validate_scope scope = (case validate_config_component ''app_id'' (gs_app_id scope) of Inl e \<Rightarrow> Inl e
     | Inr _ \<Rightarrow> (case validate_config_component ''environment'' (gs_environment scope) of Inl e \<Rightarrow> Inl e
     | Inr _ \<Rightarrow> (case validate_config_component ''cluster'' (gs_cluster scope) of Inl e \<Rightarrow> Inl e
     | Inr _ \<Rightarrow> validate_config_component ''namespace'' (gs_namespace scope))))"

definition validate_publish_field :: "string \<Rightarrow> string \<Rightarrow> pg_error + unit" where
  "validate_publish_field field v = (if 512 < length (utf8 v) then Inl (InvalidArgument (field @ '' exceeds 512 bytes'')) else Inr ())"

definition ConfigStore_validate_payload_size :: "'v config_lib \<Rightarrow> ConfigLimits \<Rightarrow> 'v \<Rightarrow> pg_error + unit" where
  "ConfigStore_validate_payload_size lib self v = (if cl_max_payload_bytes self < length (utf8 (lb_print lib v))
     then Inl (InvalidArgument (''json_value exceeds '' @ dec (int (cl_max_payload_bytes self)) @ '' bytes'')) else Inr ())"

definition validate_schema_size :: "'v config_lib \<Rightarrow> ConfigLimits \<Rightarrow> 'v \<Rightarrow> pg_error + unit" where
  "validate_schema_size lib self v = (if cl_max_schema_bytes self < length (utf8 (lb_print lib v))
     then Inl (InvalidArgument (''json_schema exceeds '' @ dec (int (cl_max_schema_bytes self)) @ '' bytes'')) else Inr ())"

definition validate_json_schema :: "'v config_lib \<Rightarrow> 'v \<Rightarrow> pg_error + unit" where
  "validate_json_schema lib schema = (case lb_schema_error lib schema of
     Some err \<Rightarrow> Inl (InvalidArgument (''invalid JSON schema: '' @ err)) | None \<Rightarrow> Inr ())"

definition validate_value_against_schema :: "'v config_lib \<Rightarrow> string \<Rightarrow> 'v \<Rightarrow> 'v \<Rightarrow> pg_error + unit" where
  "validate_value_against_schema lib key schema v = (case lb_schema_error lib schema of
     Some err \<Rightarrow> Inl (InvalidArgument (''invalid JSON schema: '' @ err))
   | None \<Rightarrow> (case lb_value_error lib schema v of
       Some err \<Rightarrow> Inl (InvalidArgument (''config key '' @ key @ '' failed JSON schema validation: '' @ err)) | None \<Rightarrow> Inr ()))"

definition checksum_json :: "'v config_lib \<Rightarrow> 'v \<Rightarrow> string" where
  "checksum_json lib v = lb_sha256 lib (lb_print lib v)"

definition scope_label :: "ConfigScope_core \<Rightarrow> string" where
  "scope_label scope = gs_app_id scope @ ''/'' @ gs_environment scope @ ''/'' @ gs_cluster scope @ ''/'' @ gs_namespace scope"

text \<open>\<open>page\<close> and \<open>finish\<close>\<close>

definition ConfigStore_page :: "ConfigLimits \<Rightarrow> int option \<Rightarrow> int \<Rightarrow> pg_error + PageState" where
  "ConfigStore_page self limit offset = (if offset < 0 then Inl (InvalidArgument ''offset must not be negative'')
     else let requested = (case limit of None \<Rightarrow> int (cl_max_page_size self) | Some n \<Rightarrow> n)
       in if requested \<le> 0 then Inl (InvalidArgument ''limit must be positive'')
          else let n = nat (min requested (int (cl_max_page_size self)))
            in Inr \<lparr>ps_limit = n, ps_fetch_limit = int n + 1, ps_offset = offset\<rparr>)"

definition PageState_finish :: "PageState \<Rightarrow> 'a list \<Rightarrow> 'a ConfigPage" where
  "PageState_finish page items = (let has_more = ps_limit page < length items
     in \<lparr>cp_items = (if has_more then take (ps_limit page) items else items), cp_limit = ps_limit page, cp_offset = ps_offset page,
         cp_next_offset = (if has_more then Some (ps_offset page + int (ps_limit page)) else None)\<rparr>)"

text \<open>\<open>LIMIT $1 OFFSET $2\<close>\<close>

definition page_rows :: "PageState \<Rightarrow> 'a list \<Rightarrow> 'a list" where
  "page_rows page rows = take (nat (ps_fetch_limit page)) (drop (nat (ps_offset page)) rows)"


section \<open>Statements\<close>

definition scope_row :: "ConfigScope_core \<Rightarrow> 'v config_db \<Rightarrow> 'v config_scope option" where
  "scope_row scope db = find (\<lambda>s. sr_scope s = scope) (cf_scopes db)"

text \<open>
  \<open>INSERT INTO config_scopes ... ON CONFLICT DO UPDATE SET updated_at = config_scopes.updated_at RETURNING id\<close>.
  The sequence of the ids gives a number also to an insertion that meets a conflict.
\<close>

definition draw_scope_id :: "'v config_db \<Rightarrow> 'v config_db" where
  "draw_scope_id db = db\<lparr>cf_next_scope := cf_next_scope db + 1\<rparr>"

definition ensure_scope :: "int \<Rightarrow> ConfigScope_core \<Rightarrow> ('v config_db, int) sql_op" where
  "ensure_scope now scope db = (case scope_row scope db of Some s \<Rightarrow> (Inr (sr_id s), draw_scope_id db)
     | None \<Rightarrow> (Inr (cf_next_scope db), db\<lparr>cf_scopes := cf_scopes db @ [\<lparr>sr_id = cf_next_scope db, sr_scope = scope, sr_current_revision = 0,
         sr_created_at = now, sr_updated_at = now, sr_json_schema = None\<rparr>], cf_next_scope := cf_next_scope db + 1\<rparr>))"

text \<open>\<open>SELECT ... FROM config_scopes WHERE id = $1\<close> with \<open>fetch_one\<close>\<close>

definition select_scope_row :: "int \<Rightarrow> ('v config_db, 'v config_scope) sql_op" where
  "select_scope_row sid db = (case find (\<lambda>s. sr_id s = sid) (cf_scopes db) of None \<Rightarrow> (Inl (NotFound ''row not found''), db) | Some s \<Rightarrow> (Inr s, db))"

definition schema_for_scope_id :: "int \<Rightarrow> ('v config_db, 'v option) sql_op" where
  "schema_for_scope_id sid = andThen (select_scope_row sid) (\<lambda>s db. (Inr (sr_json_schema s), db))"

text \<open>\<open>UPDATE config_scopes SET ... WHERE id = $1\<close>\<close>

definition update_scope :: "int \<Rightarrow> ('v config_scope \<Rightarrow> 'v config_scope) \<Rightarrow> 'v config_db \<Rightarrow> 'v config_db" where
  "update_scope sid f db = db\<lparr>cf_scopes := map (\<lambda>s. if sr_id s = sid then f s else s) (cf_scopes db)\<rparr>"

text \<open>\<open>INSERT INTO config_items ... ON CONFLICT (scope_id, config_key) DO UPDATE\<close>\<close>

definition put_item :: "'v config_item \<Rightarrow> 'v config_db \<Rightarrow> 'v config_db" where
  "put_item item db = (let same = (\<lambda>i. it_scope_id i = it_scope_id item \<and> it_key i = it_key item)
     in if list_ex same (cf_items db) then db\<lparr>cf_items := map (\<lambda>i. if same i then item else i) (cf_items db)\<rparr>
        else db\<lparr>cf_items := cf_items db @ [item]\<rparr>)"

text \<open>\<open>INSERT INTO config_releases\<close>, whose scope and revision must be new.\<close>

definition insert_release :: "'v config_release \<Rightarrow> ('v config_db, unit) sql_op" where
  "insert_release r db = (if list_ex (\<lambda>r'. rl_scope_id r' = rl_scope_id r \<and> rl_revision r' = rl_revision r) (cf_releases db)
     then (Inl (Database UniqueViolation), db) else (Inr (), db\<lparr>cf_releases := cf_releases db @ [r]\<rparr>))"

text \<open>\<open>FROM config_releases r JOIN config_scopes s ON s.id = r.scope_id WHERE s.app_id = ... ORDER BY r.revision DESC\<close>\<close>

definition release_rows :: "ConfigScope_core \<Rightarrow> 'v config_db \<Rightarrow> 'v config_release list" where
  "release_rows scope db = sort_key (\<lambda>r. - rl_revision r)
     (filter (\<lambda>r. list_ex (\<lambda>s. sr_id s = rl_scope_id r \<and> sr_scope s = scope) (cf_scopes db)) (cf_releases db))"

definition row_to_release :: "ConfigScope_core \<Rightarrow> 'v config_release \<Rightarrow> 'v ConfigRelease_core" where
  "row_to_release scope r = \<lparr>cr_scope = scope, cr_revision = rl_revision r, cr_checksum = rl_checksum r, cr_snapshot = rl_snapshot r,
     cr_message = rl_message r, cr_published_by = rl_published_by r, cr_published_at = rl_published_at r\<rparr>"

text \<open>\<open>SELECT ... FROM config_items WHERE scope_id = $1 ORDER BY config_key\<close>\<close>

definition item_rows :: "'v config_lib \<Rightarrow> int \<Rightarrow> 'v config_db \<Rightarrow> 'v config_item list" where
  "item_rows lib sid db = sort_key (\<lambda>i. lb_collate lib (it_key i)) (filter (\<lambda>i. it_scope_id i = sid) (cf_items db))"


section \<open>Operations\<close>

text \<open>The scopes, in the order of their four parts in the collation of the database.\<close>

definition scope_order :: "'v config_lib \<Rightarrow> 'v config_scope \<Rightarrow> nat list list" where
  "scope_order lib s = map (lb_collate lib) [gs_app_id (sr_scope s), gs_environment (sr_scope s), gs_cluster (sr_scope s), gs_namespace (sr_scope s)]"

definition ConfigStore_list_scopes :: "'v config_lib \<Rightarrow> ConfigLimits \<Rightarrow> int option \<Rightarrow> int \<Rightarrow> ('v config_db, ConfigScopeSummary_core ConfigPage) sql_op" where
  "ConfigStore_list_scopes lib self limit offset = given (ConfigStore_page self limit offset) (\<lambda>page db.
     (Inr (PageState_finish page (map (\<lambda>s. \<lparr>cu_scope = sr_scope s, cu_current_revision = sr_current_revision s,
        cu_created_at = sr_created_at s, cu_updated_at = sr_updated_at s\<rparr>) (page_rows page (sort_key (scope_order lib) (cf_scopes db))))), db))"

text \<open>A check of a value against the schema of its scope, if there is one.\<close>

definition check_schema :: "'v config_lib \<Rightarrow> 'v option \<Rightarrow> string \<Rightarrow> 'v \<Rightarrow> pg_error + unit" where
  "check_schema lib schema key v = (case schema of None \<Rightarrow> Inr () | Some s \<Rightarrow> validate_value_against_schema lib key s v)"

text \<open>A parameter of a statement that is a JSON value.\<close>

definition bind_json :: "'v config_lib \<Rightarrow> 'v \<Rightarrow> pg_error + 'v" where
  "bind_json lib v = map_sum Database id (lb_jsonb lib v)"

definition ConfigStore_upsert_item :: "'v config_lib \<Rightarrow> ConfigLimits \<Rightarrow> int \<Rightarrow> ConfigScope_core \<Rightarrow> string \<Rightarrow> 'v \<Rightarrow> ('v config_db, unit) sql_op" where
  "ConfigStore_upsert_item lib self now scope key v = check (validate_scope scope) (check (validate_config_key key)
     (check (ConfigStore_validate_payload_size lib self v) (transaction (andThen (ensure_scope now scope) (\<lambda>sid.
       andThen (schema_for_scope_id sid) (\<lambda>schema. check (check_schema lib schema key v) (given (bind_json lib v) (\<lambda>v' db.
         (Inr (), put_item \<lparr>it_scope_id = sid, it_key = key, it_value = v', it_deleted = False, it_updated_at = now\<rparr> db)))))))))"

definition ConfigStore_set_schema :: "'v config_lib \<Rightarrow> ConfigLimits \<Rightarrow> int \<Rightarrow> ConfigScope_core \<Rightarrow> 'v option \<Rightarrow> ('v config_db, unit) sql_op" where
  "ConfigStore_set_schema lib self now scope schema = check (validate_scope scope)
     (check (case schema of None \<Rightarrow> Inr () | Some v \<Rightarrow> validate_schema_size lib self v)
     (check (case schema of None \<Rightarrow> Inr () | Some v \<Rightarrow> validate_json_schema lib v)
       (transaction (andThen (ensure_scope now scope) (\<lambda>sid.
         given (case schema of None \<Rightarrow> Inr None | Some v \<Rightarrow> map_sum id Some (bind_json lib v)) (\<lambda>schema' db.
           (Inr (), update_scope sid (\<lambda>s. s\<lparr>sr_json_schema := schema', sr_updated_at := now\<rparr>) db)))))))"

definition ConfigStore_get_schema :: "ConfigScope_core \<Rightarrow> ('v config_db, 'v option) sql_op" where
  "ConfigStore_get_schema scope = check (validate_scope scope) (\<lambda>db. (Inr (Option.bind (scope_row scope db) sr_json_schema), db))"

text \<open>A deletion leaves a mark behind, also where there was no item, and always succeeds.\<close>

definition ConfigStore_delete_item :: "'v config_lib \<Rightarrow> int \<Rightarrow> ConfigScope_core \<Rightarrow> string \<Rightarrow> ('v config_db, bool) sql_op" where
  "ConfigStore_delete_item lib now scope key = check (validate_scope scope) (check (validate_config_key key)
     (transaction (andThen (ensure_scope now scope) (\<lambda>sid db.
       (Inr True, put_item \<lparr>it_scope_id = sid, it_key = key, it_value = lb_null lib, it_deleted = True, it_updated_at = now\<rparr> db)))))"

definition scope_id :: "ConfigScope_core \<Rightarrow> ('v config_db, int option) sql_op" where
  "scope_id scope db = (Inr (map_option sr_id (scope_row scope db)), db)"

definition row_to_item :: "'v config_item \<Rightarrow> 'v ConfigItem_core" where
  "row_to_item i = \<lparr>ci_key = it_key i, ci_value = it_value i, ci_deleted = it_deleted i, ci_updated_at = it_updated_at i\<rparr>"

definition ConfigStore_get_draft :: "'v config_lib \<Rightarrow> ConfigScope_core \<Rightarrow> ('v config_db, 'v ConfigItem_core list) sql_op" where
  "ConfigStore_get_draft lib scope = check (validate_scope scope) (andThen (scope_id scope) (\<lambda>sid db.
     (Inr (case sid of None \<Rightarrow> [] | Some i \<Rightarrow> map row_to_item (item_rows lib i db)), db)))"


section \<open>Releases\<close>

text \<open>The loop over the rows: the first value that its schema refuses ends it.\<close>

fun snapshot_of :: "'v config_lib \<Rightarrow> 'v option \<Rightarrow> 'v config_item list \<Rightarrow> pg_error + (string \<times> 'v) list" where
  "snapshot_of lib schema [] = Inr []"
| "snapshot_of lib schema (i # rows) = (case check_schema lib schema (it_key i) (it_value i) of Inl e \<Rightarrow> Inl e
     | Inr _ \<Rightarrow> map_sum id (Cons (it_key i, it_value i)) (snapshot_of lib schema rows))"

text \<open>\<open>SELECT config_key, value_json FROM config_items WHERE scope_id = $1 AND deleted = false ORDER BY config_key\<close>\<close>

definition active_rows :: "'v config_lib \<Rightarrow> int \<Rightarrow> 'v config_db \<Rightarrow> 'v config_item list" where
  "active_rows lib sid db = filter (\<lambda>i. \<not> it_deleted i) (item_rows lib sid db)"

definition ConfigStore_publish :: "'v config_lib \<Rightarrow> int \<Rightarrow> ConfigScope_core \<Rightarrow> string \<Rightarrow> string \<Rightarrow> ('v config_db, 'v ConfigRelease_core) sql_op" where
  "ConfigStore_publish lib now scope message published_by = check (validate_scope scope)
     (check (validate_publish_field ''message'' message) (check (validate_publish_field ''published_by'' published_by)
     (transaction (andThen (ensure_scope now scope) (\<lambda>sid. andThen (select_scope_row sid) (\<lambda>s.
       andThen (schema_for_scope_id sid) (\<lambda>schema db. given (snapshot_of lib schema (active_rows lib sid db)) (\<lambda>members.
         let snapshot = lb_object lib members; checksum = checksum_json lib snapshot; revision = sr_current_revision s + 1
         in given (bind_json lib snapshot) (\<lambda>stored. andThen (insert_release \<lparr>rl_scope_id = sid, rl_revision = revision, rl_snapshot = stored,
               rl_checksum = checksum, rl_message = message, rl_published_by = published_by, rl_published_at = now\<rparr>)
             (\<lambda>_ db. (Inr \<lparr>cr_scope = scope, cr_revision = revision, cr_checksum = checksum, cr_snapshot = snapshot,
                 cr_message = message, cr_published_by = published_by, cr_published_at = now\<rparr>,
               update_scope sid (\<lambda>s. s\<lparr>sr_current_revision := revision, sr_updated_at := now\<rparr>) db)))) db)))))))"

text \<open>\<open>fetch_optional\<close> and \<open>ok_or_else\<close>\<close>

definition first_release :: "ConfigScope_core \<Rightarrow> 'v config_release list \<Rightarrow> pg_error + 'v ConfigRelease_core" where
  "first_release scope rows = (case rows of [] \<Rightarrow> Inl (NotFound (''config release '' @ scope_label scope))
     | r # _ \<Rightarrow> Inr (row_to_release scope r))"

definition ConfigStore_get_latest_release :: "ConfigScope_core \<Rightarrow> ('v config_db, 'v ConfigRelease_core) sql_op" where
  "ConfigStore_get_latest_release scope = check (validate_scope scope) (\<lambda>db. (first_release scope (release_rows scope db), db))"

definition ConfigStore_get_release :: "ConfigScope_core \<Rightarrow> int \<Rightarrow> ('v config_db, 'v ConfigRelease_core) sql_op" where
  "ConfigStore_get_release scope revision = check (validate_scope scope) (if revision \<le> 0 then ConfigStore_get_latest_release scope
     else (\<lambda>db. (first_release scope (filter (\<lambda>r. rl_revision r = revision) (release_rows scope db)), db)))"

definition ConfigStore_list_releases :: "ConfigLimits \<Rightarrow> ConfigScope_core \<Rightarrow> int option \<Rightarrow> int \<Rightarrow> ('v config_db, 'v ConfigRelease_core ConfigPage) sql_op" where
  "ConfigStore_list_releases self scope limit offset = check (validate_scope scope) (given (ConfigStore_page self limit offset) (\<lambda>page db.
     (Inr (PageState_finish page (map (row_to_release scope) (page_rows page (release_rows scope db)))), db)))"


section \<open>Watching\<close>

definition latest_newer_than :: "ConfigScope_core \<Rightarrow> int \<Rightarrow> 'v config_db \<Rightarrow> 'v ConfigRelease_core option" where
  "latest_newer_than scope known_revision db = (case filter (\<lambda>r. known_revision < rl_revision r) (release_rows scope db) of
     [] \<Rightarrow> None | r # _ \<Rightarrow> Some (row_to_release scope r))"

definition current_revision :: "ConfigScope_core \<Rightarrow> 'v config_db \<Rightarrow> int" where
  "current_revision scope db = (case scope_row scope db of None \<Rightarrow> 0 | Some s \<Rightarrow> sr_current_revision s)"

text \<open>One turn of the loop.\<close>

definition watch_once :: "ConfigScope_core \<Rightarrow> int \<Rightarrow> ('v config_db, 'v ConfigWatchResult_core) sql_op" where
  "watch_once scope known_revision db = (Inr (case latest_newer_than scope known_revision db of
     Some release \<Rightarrow> \<lparr>cw_changed = True, cw_latest_revision = cr_revision release, cw_release = Some release\<rparr>
   | None \<Rightarrow> \<lparr>cw_changed = False, cw_latest_revision = current_revision scope db, cw_release = None\<rparr>), db)"

definition validate_watch :: "ConfigLimits \<Rightarrow> ConfigScope_core \<Rightarrow> int \<Rightarrow> int \<Rightarrow> pg_error + unit" where
  "validate_watch self scope known_revision timeout_seconds = (case validate_scope scope of Inl e \<Rightarrow> Inl e
     | Inr _ \<Rightarrow> if known_revision < 0 then Inl (InvalidArgument ''known_revision must not be negative'')
         else if timeout_seconds < 0 then Inl (InvalidArgument ''timeout_seconds must not be negative'')
         else if cl_max_watch_seconds self < timeout_seconds
         then Inl (InvalidArgument (''timeout_seconds must be less than or equal to '' @ dec (cl_max_watch_seconds self))) else Inr ())"

definition ConfigStore_watch :: "'v config_lib \<Rightarrow> ConfigLimits \<Rightarrow> 'v config_db world \<Rightarrow> int option \<Rightarrow> ConfigScope_core \<Rightarrow> int \<Rightarrow> int \<Rightarrow> int \<Rightarrow> 'v config_db \<times> int \<Rightarrow>
    (pg_error + 'v ConfigWatchResult_core, 'v config_db \<times> int) outcome option" where
  "ConfigStore_watch lib self others dropped scope known_revision timeout_seconds poll_interval_millis st =
     (case validate_watch self scope known_revision timeout_seconds of Inl e \<Rightarrow> Some (Returned (Inl e) st)
      | Inr _ \<Rightarrow> (case lb_deadline lib (snd st) timeout_seconds of None \<Rightarrow> Some Panicked
         | Some deadline \<Rightarrow> poll_loop (\<lambda>now. watch_once scope known_revision) cw_changed others dropped
             (poll_interval poll_interval_millis) deadline 0 st))"

end
