(* ===== verification/Config_Inv.thy ===== *)
theory Config_Inv
  imports Config_Store "HOL-Library.Multiset"
begin

text \<open>
  Runs of the config centre and what they keep. Every operation of \<open>ConfigStore\<close> changes the tables
  only by adding a scope, storing an item, setting a schema or adding a release; a property that
  these four changes keep is an invariant of all runs. The consistency of the tables, the permanence
  of releases and the separation of scopes are such invariants.
\<close>


section \<open>Commands\<close>

datatype 'v config_command =
    CListScopes "int option" int
  | CUpsert ConfigScope_core string 'v
  | CSetSchema ConfigScope_core "'v option"
  | CGetSchema ConfigScope_core
  | CDelete ConfigScope_core string
  | CGetDraft ConfigScope_core
  | CPublish ConfigScope_core string string
  | CGetRelease ConfigScope_core int
  | CListReleases ConfigScope_core "int option" int
  | CLook ConfigScope_core int

datatype 'v config_reply = GDone | GFlag bool | GScopes "ConfigScopeSummary_core ConfigPage" | GSchema "'v option" | GDraft "'v ConfigItem_core list"
  | GRelease "'v ConfigRelease_core" | GReleases "'v ConfigRelease_core ConfigPage" | GChange "'v ConfigWatchResult_core"

definition config_reply :: "('a \<Rightarrow> 'v config_reply) \<Rightarrow> ('v config_db, 'a) sql_op \<Rightarrow> ('v config_db, 'v config_reply) sql_op" where
  "config_reply f op = andThen op (\<lambda>x db. (Inr (f x), db))"

text \<open>\<open>CLook\<close> is a turn of the loop of \<open>watch\<close>.\<close>

fun run_config :: "'v config_lib \<Rightarrow> ConfigLimits \<Rightarrow> int \<Rightarrow> 'v config_command \<Rightarrow> ('v config_db, 'v config_reply) sql_op" where
  "run_config lib self now (CListScopes limit offset) = config_reply GScopes (ConfigStore_list_scopes lib self limit offset)"
| "run_config lib self now (CUpsert scope key v) = config_reply (\<lambda>_. GDone) (ConfigStore_upsert_item lib self now scope key v)"
| "run_config lib self now (CSetSchema scope schema) = config_reply (\<lambda>_. GDone) (ConfigStore_set_schema lib self now scope schema)"
| "run_config lib self now (CGetSchema scope) = config_reply GSchema (ConfigStore_get_schema scope)"
| "run_config lib self now (CDelete scope key) = config_reply GFlag (ConfigStore_delete_item lib now scope key)"
| "run_config lib self now (CGetDraft scope) = config_reply GDraft (ConfigStore_get_draft lib scope)"
| "run_config lib self now (CPublish scope message published_by) = config_reply GRelease (ConfigStore_publish lib now scope message published_by)"
| "run_config lib self now (CGetRelease scope revision) = config_reply GRelease (ConfigStore_get_release scope revision)"
| "run_config lib self now (CListReleases scope limit offset) = config_reply GReleases (ConfigStore_list_releases self scope limit offset)"
| "run_config lib self now (CLook scope known) = config_reply GChange (watch_once scope known)"

fun run_configs :: "'v config_lib \<Rightarrow> ConfigLimits \<Rightarrow> (int \<times> 'v config_command) list \<Rightarrow> 'v config_db \<Rightarrow> 'v config_db" where
  "run_configs lib self [] db = db"
| "run_configs lib self ((now, cmd) # cmds) db = run_configs lib self cmds (snd (run_config lib self now cmd db))"

text \<open>The scope that a command may write, and the scope that it may publish.\<close>

fun writes :: "'v config_command \<Rightarrow> ConfigScope_core option" where
  "writes (CUpsert scope _ _) = Some scope"
| "writes (CSetSchema scope _) = Some scope"
| "writes (CDelete scope _) = Some scope"
| "writes (CPublish scope _ _) = Some scope"
| "writes _ = None"

fun publishes :: "'v config_command \<Rightarrow> ConfigScope_core option" where
  "publishes (CPublish scope _ _) = Some scope"
| "publishes _ = None"


text \<open>A read leaves the tables as they are.\<close>

lemma reads_change_nothing: "writes cmd = None \<Longrightarrow> snd (run_config lib self now cmd db) = db"
  by (cases cmd) (simp_all add: config_reply_def andThen_def ConfigStore_list_scopes_def ConfigStore_get_schema_def ConfigStore_get_draft_def
    ConfigStore_get_release_def ConfigStore_get_latest_release_def ConfigStore_list_releases_def watch_once_def check_def given_def scope_id_def
    split: prod.split sum.split)

lemma reply_tables: "snd (config_reply f op db) = snd (op db)"
  by (simp add: config_reply_def andThen_def split: prod.split sum.split)

lemma reply_result: "fst (config_reply f op db) = map_sum id f (fst (op db))"
  by (simp add: config_reply_def andThen_def split: prod.split sum.split)


section \<open>Changes of the tables\<close>

definition add_scope :: "int \<Rightarrow> ConfigScope_core \<Rightarrow> 'v config_db \<Rightarrow> 'v config_db" where
  "add_scope now scope db = db\<lparr>cf_scopes := cf_scopes db @ [\<lparr>sr_id = cf_next_scope db, sr_scope = scope, sr_current_revision = 0,
     sr_created_at = now, sr_updated_at = now, sr_json_schema = None\<rparr>], cf_next_scope := cf_next_scope db + 1\<rparr>"

definition set_scope_schema :: "int \<Rightarrow> 'v option \<Rightarrow> int \<Rightarrow> 'v config_db \<Rightarrow> 'v config_db" where
  "set_scope_schema now schema sid = update_scope sid (\<lambda>s. s\<lparr>sr_json_schema := schema, sr_updated_at := now\<rparr>)"

definition add_release :: "int \<Rightarrow> 'v config_release \<Rightarrow> 'v config_db \<Rightarrow> 'v config_db" where
  "add_release now r db = update_scope (rl_scope_id r) (\<lambda>s. s\<lparr>sr_current_revision := rl_revision r, sr_updated_at := now\<rparr>)
     (db\<lparr>cf_releases := cf_releases db @ [r]\<rparr>)"

text \<open>The tables after \<open>ensure_scope\<close>.\<close>

definition ensured :: "int \<Rightarrow> ConfigScope_core \<Rightarrow> 'v config_db \<Rightarrow> 'v config_db" where
  "ensured now scope db = (if scope_row scope db = None then add_scope now scope db else draw_scope_id db)"

lemma draw_scope_id_same [simp]:
  "cf_scopes (draw_scope_id db) = cf_scopes db" "cf_items (draw_scope_id db) = cf_items db" "cf_releases (draw_scope_id db) = cf_releases db"
  "scope_row scope (draw_scope_id db) = scope_row scope db"
  by (simp_all add: draw_scope_id_def scope_row_def)

lemma scope_row_Some: "scope_row scope db = Some s \<Longrightarrow> s \<in> set (cf_scopes db) \<and> sr_scope s = scope"
  by (auto simp: scope_row_def find_Some_iff)

lemma scope_row_None: "scope_row scope db = None \<longleftrightarrow> scope \<notin> sr_scope ` set (cf_scopes db)"
  by (auto simp: scope_row_def find_None_iff)

lemma scope_row_ensured: "scope_row scope (ensured now scope db) \<noteq> None"
  unfolding ensured_def by (simp add: scope_row_None add_scope_def)

text \<open>Which row \<open>ensure_scope\<close> finds, and that statements on its id meet that row.\<close>

lemma ensure_scope_result:
  "ensure_scope now scope db = (Inr (sr_id (the (scope_row scope (ensured now scope db)))), ensured now scope db)"
  by (cases "scope_row scope db") (simp_all add: ensure_scope_def ensured_def add_scope_def, simp add: scope_row_def find_append)

text \<open>
  The writing operations as changes: what each leaves behind, given the row of its scope.
\<close>

lemma andThen_simps [simp]:
  "m db = (Inr x, db') \<Longrightarrow> andThen m f db = f x db'"
  "m db = (Inl e, db') \<Longrightarrow> andThen m f db = (Inl e, db')"
  by (simp_all add: andThen_def)


section \<open>Consistent tables\<close>

definition releases_of :: "int \<Rightarrow> 'v config_db \<Rightarrow> 'v config_release list" where
  "releases_of sid db = filter (\<lambda>r. rl_scope_id r = sid) (cf_releases db)"

definition items_of :: "int \<Rightarrow> 'v config_db \<Rightarrow> 'v config_item list" where
  "items_of sid db = filter (\<lambda>i. it_scope_id i = sid) (cf_items db)"

text \<open>
  Ids and the four parts of a scope name one row, items have one row per key, items and releases
  belong to scopes, and the revisions of a scope count from one to its current revision.
\<close>

definition config_ok :: "'v config_db \<Rightarrow> bool" where
  "config_ok db \<longleftrightarrow> distinct (map sr_id (cf_scopes db)) \<and> distinct (map sr_scope (cf_scopes db)) \<and>
     (\<forall>s \<in> set (cf_scopes db). sr_id s < cf_next_scope db) \<and>
     distinct (map (\<lambda>i. (it_scope_id i, it_key i)) (cf_items db)) \<and>
     it_scope_id ` set (cf_items db) \<subseteq> sr_id ` set (cf_scopes db) \<and> rl_scope_id ` set (cf_releases db) \<subseteq> sr_id ` set (cf_scopes db) \<and>
     (\<forall>s \<in> set (cf_scopes db). 0 \<le> sr_current_revision s \<and> map rl_revision (releases_of (sr_id s) db) = [1..sr_current_revision s])"

lemma config_ok_empty: "config_ok empty_config"
  by (simp add: config_ok_def empty_config_def)

lemma scope_unique: "config_ok db \<Longrightarrow> s \<in> set (cf_scopes db) \<Longrightarrow> s' \<in> set (cf_scopes db) \<Longrightarrow> sr_id s = sr_id s' \<or> sr_scope s = sr_scope s' \<Longrightarrow> s = s'"
  unfolding config_ok_def distinct_map by (auto dest: inj_onD)

lemma scope_row_found: "config_ok db \<Longrightarrow> s \<in> set (cf_scopes db) \<Longrightarrow> scope_row (sr_scope s) db = Some s"
  unfolding scope_row_def by (rule find_unique) (simp_all add: config_ok_def)

lemma select_scope_row_found: "config_ok db \<Longrightarrow> s \<in> set (cf_scopes db) \<Longrightarrow> select_scope_row (sr_id s) db = (Inr s, db)"
  unfolding select_scope_row_def by (subst find_unique) (simp_all add: config_ok_def)

lemma schema_found: "config_ok db \<Longrightarrow> s \<in> set (cf_scopes db) \<Longrightarrow> schema_for_scope_id (sr_id s) db = (Inr (sr_json_schema s), db)"
  by (simp add: schema_for_scope_id_def select_scope_row_found)

text \<open>The next revision is always free.\<close>

lemma insert_release_next:
  assumes "config_ok db" "s \<in> set (cf_scopes db)" "rl_scope_id r = sr_id s" "rl_revision r = sr_current_revision s + 1"
  shows "insert_release r db = (Inr (), db\<lparr>cf_releases := cf_releases db @ [r]\<rparr>)"
proof -
  have "set (map rl_revision (releases_of (sr_id s) db)) = {1..sr_current_revision s}" using assms(1,2) by (simp add: config_ok_def)
  then have "rl_revision r \<notin> rl_revision ` set (releases_of (sr_id s) db)" using assms(4) by simp
  then have "r' \<notin> set (releases_of (sr_id s) db)" if "rl_revision r' = rl_revision r" for r' using that by (metis imageI)
  then show ?thesis using assms(3) by (auto simp: insert_release_def list_ex_iff releases_of_def)
qed

lemma releases_of_simps [simp]:
  "releases_of sid (update_scope sid' f db) = releases_of sid db" "releases_of sid (put_item i db) = releases_of sid db"
  "releases_of sid (add_scope now scope db) = releases_of sid db"
  by (simp_all add: releases_of_def update_scope_def put_item_def add_scope_def Let_def)

lemma scopes_simps [simp]:
  "cf_scopes (put_item i db) = cf_scopes db" "cf_next_scope (put_item i db) = cf_next_scope db" "cf_releases (put_item i db) = cf_releases db"
  "cf_next_scope (update_scope sid f db) = cf_next_scope db" "cf_items (update_scope sid f db) = cf_items db" "cf_releases (update_scope sid f db) = cf_releases db"
  by (simp_all add: put_item_def update_scope_def Let_def)

lemma put_item_keys:
  assumes "distinct (map (\<lambda>i. (it_scope_id i, it_key i)) (cf_items db))"
  shows "distinct (map (\<lambda>i. (it_scope_id i, it_key i)) (cf_items (put_item item db)))"
    "it_scope_id ` set (cf_items (put_item item db)) \<subseteq> insert (it_scope_id item) (it_scope_id ` set (cf_items db))"
proof -
  let ?k = "\<lambda>i. (it_scope_id i, it_key i)" and ?same = "\<lambda>i. it_scope_id i = it_scope_id item \<and> it_key i = it_key item"
  have "map ?k (map (\<lambda>i. if ?same i then item else i) (cf_items db)) = map ?k (cf_items db)" by simp
  with assms show "distinct (map ?k (cf_items (put_item item db)))" by (auto simp: put_item_def list_ex_iff image_iff simp del: map_map)
  show "it_scope_id ` set (cf_items (put_item item db)) \<subseteq> insert (it_scope_id item) (it_scope_id ` set (cf_items db))"
    by (auto simp: put_item_def Let_def)
qed

text \<open>A change of a scope row that keeps its id and its parts.\<close>

lemma update_scope_rows:
  assumes "\<And>s. sr_id (f s) = sr_id s" "\<And>s. sr_scope (f s) = sr_scope s"
  shows "map sr_id (cf_scopes (update_scope sid f db)) = map sr_id (cf_scopes db)"
    "map sr_scope (cf_scopes (update_scope sid f db)) = map sr_scope (cf_scopes db)"
    "sr_id ` set (cf_scopes (update_scope sid f db)) = sr_id ` set (cf_scopes db)"
proof -
  show ids: "map sr_id (cf_scopes (update_scope sid f db)) = map sr_id (cf_scopes db)"
    "map sr_scope (cf_scopes (update_scope sid f db)) = map sr_scope (cf_scopes db)" using assms by (simp_all add: update_scope_def)
  then show "sr_id ` set (cf_scopes (update_scope sid f db)) = sr_id ` set (cf_scopes db)" by (metis list.set_map)
qed


section \<open>Invariants of runs\<close>

text \<open>
  What the four changes keep, all runs keep: of the scopes that commands may write, and of those that
  they may publish.
\<close>

locale config_invariant =
  fixes touched :: "ConfigScope_core \<Rightarrow> bool"
    and published :: "ConfigScope_core \<Rightarrow> bool"
    and keeps :: "'v config_db \<Rightarrow> bool"
  assumes consistent: "keeps db \<Longrightarrow> config_ok db"
    and drawn: "keeps db \<Longrightarrow> keeps (draw_scope_id db)"
    and added: "keeps db \<Longrightarrow> touched scope \<Longrightarrow> scope_row scope db = None \<Longrightarrow> keeps (add_scope now scope db)"
    and stored: "keeps db \<Longrightarrow> s \<in> set (cf_scopes db) \<Longrightarrow> touched (sr_scope s) \<Longrightarrow> it_scope_id item = sr_id s \<Longrightarrow> keeps (put_item item db)"
    and schema_set: "keeps db \<Longrightarrow> s \<in> set (cf_scopes db) \<Longrightarrow> touched (sr_scope s) \<Longrightarrow> keeps (set_scope_schema now schema (sr_id s) db)"
    and released: "keeps db \<Longrightarrow> s \<in> set (cf_scopes db) \<Longrightarrow> touched (sr_scope s) \<Longrightarrow> published (sr_scope s) \<Longrightarrow> rl_scope_id r = sr_id s \<Longrightarrow>
      rl_revision r = sr_current_revision s + 1 \<Longrightarrow> keeps (add_release now r db)"
begin

text \<open>A transaction on a scope: it starts with the row of the scope.\<close>

lemma scoped_keeps:
  assumes "keeps db" "touched scope" and body: "\<And>s db1 x db2. keeps db1 \<Longrightarrow> s \<in> set (cf_scopes db1) \<Longrightarrow> sr_scope s = scope \<Longrightarrow>
    f (sr_id s) db1 = (Inr x, db2) \<Longrightarrow> keeps db2"
  shows "keeps (snd (transaction (andThen (ensure_scope now scope) f) db))"
proof -
  let ?db = "ensured now scope db"
  obtain s where s: "scope_row scope ?db = Some s" using scope_row_ensured by blast
  have "keeps ?db" unfolding ensured_def using assms(1,2) added drawn by simp
  with body [of ?db s] scope_row_Some [OF s] have "keeps db2" if "f (sr_id s) ?db = (Inr x, db2)" for x db2 using that by blast
  then show ?thesis using assms(1) s by (simp add: transaction_def ensure_scope_result split: prod.split sum.split)
qed

lemma check_keeps: "keeps (snd (op db)) \<Longrightarrow> keeps db \<Longrightarrow> keeps (snd (check v op db))"
  by (simp add: check_def split: sum.split)

lemma upsert_keeps: "keeps db \<Longrightarrow> touched scope \<Longrightarrow> keeps (snd (ConfigStore_upsert_item lib self now scope key v db))"
  unfolding ConfigStore_upsert_item_def
  by (intro check_keeps scoped_keeps) (auto simp: schema_found [OF consistent] check_def given_def intro: stored split: sum.splits)

lemma set_schema_keeps: "keeps db \<Longrightarrow> touched scope \<Longrightarrow> keeps (snd (ConfigStore_set_schema lib self now scope schema db))"
  unfolding ConfigStore_set_schema_def
  by (intro check_keeps scoped_keeps) (auto simp: given_def intro: schema_set [unfolded set_scope_schema_def] split: sum.splits)

lemma delete_keeps: "keeps db \<Longrightarrow> touched scope \<Longrightarrow> keeps (snd (ConfigStore_delete_item lib now scope key db))"
  unfolding ConfigStore_delete_item_def by (intro check_keeps scoped_keeps) (auto intro: stored)

lemma publish_keeps: "keeps db \<Longrightarrow> touched scope \<Longrightarrow> published scope \<Longrightarrow> keeps (snd (ConfigStore_publish lib now scope message published_by db))"
  unfolding ConfigStore_publish_def
  by (intro check_keeps scoped_keeps)
    (auto simp: select_scope_row_found [OF consistent] schema_found [OF consistent] given_def Let_def insert_release_next [OF consistent]
      intro: released [unfolded add_release_def, of _ _ "\<lparr>rl_scope_id = _, rl_revision = _, rl_snapshot = _, rl_checksum = _, rl_message = _,
        rl_published_by = _, rl_published_at = _\<rparr>", simplified] split: sum.splits)

lemma run_config_keeps:
  assumes "keeps db" "pred_option touched (writes cmd)" "pred_option published (publishes cmd)"
  shows "keeps (snd (run_config lib self now cmd db))"
proof (cases "writes cmd")
  case None
  with assms(1) show ?thesis by (simp add: reads_change_nothing)
next
  case (Some scope)
  with assms show ?thesis by (cases cmd) (auto simp: reply_tables upsert_keeps set_schema_keeps delete_keeps publish_keeps)
qed

lemma run_configs_keeps:
  "keeps db \<Longrightarrow> \<forall>(now, cmd) \<in> set cmds. pred_option touched (writes cmd) \<and> pred_option published (publishes cmd) \<Longrightarrow>
    keeps (run_configs lib self cmds db)"
  by (induction lib self cmds db rule: run_configs.induct) (auto intro: run_config_keeps)

end


text \<open>The tables stay consistent.\<close>

lemma add_scope_ok:
  assumes "config_ok db" "scope_row scope db = None"
  shows "config_ok (add_scope now scope db)"
proof -
  have "releases_of (cf_next_scope db) db = []" using assms(1) by (fastforce simp: config_ok_def releases_of_def filter_empty_conv)
  then show ?thesis using assms by (auto simp: config_ok_def scope_row_None) (auto simp: add_scope_def)
qed

lemma put_item_ok: "config_ok db \<Longrightarrow> s \<in> set (cf_scopes db) \<Longrightarrow> it_scope_id item = sr_id s \<Longrightarrow> config_ok (put_item item db)"
proof -
  assume "config_ok db" and s: "s \<in> set (cf_scopes db)" "it_scope_id item = sr_id s"
  moreover from this have "insert (it_scope_id item) (it_scope_id ` set (cf_items db)) \<subseteq> sr_id ` set (cf_scopes db)" by (simp add: config_ok_def)
  ultimately show ?thesis using put_item_keys [of db item] order_trans [OF put_item_keys(2) [of db item]] by (simp add: config_ok_def)
qed

lemma set_scope_schema_ok: "config_ok db \<Longrightarrow> config_ok (set_scope_schema now schema sid db)"
  unfolding config_ok_def set_scope_schema_def by (subst update_scope_rows; simp)+ (auto simp: update_scope_def)

lemma add_release_ok:
  assumes "config_ok db" "s \<in> set (cf_scopes db)" "rl_scope_id r = sr_id s" "rl_revision r = sr_current_revision s + 1"
  shows "config_ok (add_release now r db)"
proof -
  have "[1..sr_current_revision s + 1] = [1..sr_current_revision s] @ [sr_current_revision s + 1]" using upto_rec2 [of 1 "sr_current_revision s + 1"] assms(1,2) by (auto simp: config_ok_def)
  then have here: "map rl_revision (releases_of (sr_id s) db @ [r]) = [1..sr_current_revision s + 1]" using assms by (simp add: config_ok_def)
  have "0 \<le> sr_current_revision t \<and> map rl_revision (releases_of (sr_id t) (add_release now r db)) = [1..sr_current_revision t]"
    if t: "t \<in> set (cf_scopes (add_release now r db))" for t
  proof -
    from t obtain u where u: "u \<in> set (cf_scopes db)" "t = (if sr_id u = sr_id s then u\<lparr>sr_current_revision := rl_revision r, sr_updated_at := now\<rparr> else u)"
      using assms(3) by (auto simp: add_release_def update_scope_def)
    have rels: "releases_of (sr_id t) (add_release now r db) = (if sr_id t = sr_id s then releases_of (sr_id t) db @ [r] else releases_of (sr_id t) db)"
      using assms(3) by (simp add: add_release_def releases_of_def update_scope_def)
    show ?thesis
    proof (cases "sr_id u = sr_id s")
      case True
      then have "u = s" using scope_unique [OF assms(1) u(1) assms(2)] by simp
      with u(2) rels here assms(1,2,4) show ?thesis by (simp add: config_ok_def)
    qed (use u rels assms(1) in \<open>simp add: config_ok_def\<close>)
  qed
  with assms show ?thesis unfolding config_ok_def add_release_def by (subst update_scope_rows; simp)+ (auto simp: update_scope_def)
qed

lemma draw_scope_id_ok: "config_ok db \<Longrightarrow> config_ok (draw_scope_id db)"
  by (auto simp: config_ok_def releases_of_def) (auto simp: draw_scope_id_def)

lemmas config_ok_changes = draw_scope_id_ok add_scope_ok put_item_ok set_scope_schema_ok add_release_ok

interpretation tables: config_invariant "\<lambda>_. True" "\<lambda>_. True" config_ok
  by unfold_locales (auto intro: config_ok_changes)


section \<open>The rows of a scope\<close>

definition scope_view :: "ConfigScope_core \<Rightarrow> 'v config_db \<Rightarrow> ('v config_scope \<times> 'v config_item list \<times> 'v config_release list) option" where
  "scope_view scope db = map_option (\<lambda>s. (s, items_of (sr_id s) db, releases_of (sr_id s) db)) (scope_row scope db)"

definition releases_view :: "ConfigScope_core \<Rightarrow> 'v config_db \<Rightarrow> 'v config_release list" where
  "releases_view scope db = (case scope_row scope db of None \<Rightarrow> [] | Some s \<Rightarrow> releases_of (sr_id s) db)"

lemma draw_scope_id_views [simp]:
  "items_of sid (draw_scope_id db) = items_of sid db" "releases_of sid (draw_scope_id db) = releases_of sid db"
  "scope_view scope (draw_scope_id db) = scope_view scope db" "releases_view scope (draw_scope_id db) = releases_view scope db"
  by (simp_all add: scope_view_def releases_view_def items_of_def releases_of_def split: option.split)

lemma scope_row_add: "scope_row scope db = None \<Longrightarrow> scope_row scope' (add_scope now scope db) = (if scope' = scope then Some \<lparr>sr_id = cf_next_scope db,
    sr_scope = scope, sr_current_revision = 0, sr_created_at = now, sr_updated_at = now, sr_json_schema = None\<rparr> else scope_row scope' db)"
  by (auto simp: scope_row_def add_scope_def find_append split: option.split)

lemma scope_row_put [simp]: "scope_row scope (put_item item db) = scope_row scope db"
  by (simp add: scope_row_def)

lemma scope_row_update: "(\<And>s. sr_scope (f s) = sr_scope s) \<Longrightarrow>
    scope_row scope (update_scope sid f db) = map_option (\<lambda>s. if sr_id s = sid then f s else s) (scope_row scope db)"
  by (simp add: scope_row_def update_scope_def find_map comp_def if_distrib cong: if_cong)

lemma items_of_simps [simp]:
  "items_of sid (update_scope sid' f db) = items_of sid db" "items_of sid (add_scope now scope db) = items_of sid db"
  "sid \<noteq> it_scope_id item \<Longrightarrow> items_of sid (put_item item db) = items_of sid db"
proof -
  have "filter (\<lambda>i. it_scope_id i = sid) (map (\<lambda>i. if it_scope_id i = it_scope_id item \<and> it_key i = it_key item then item else i) items) =
    filter (\<lambda>i. it_scope_id i = sid) items" if "sid \<noteq> it_scope_id item" for items
    using that by (induction items) auto
  then show "sid \<noteq> it_scope_id item \<Longrightarrow> items_of sid (put_item item db) = items_of sid db" by (simp add: items_of_def put_item_def)
qed (simp_all add: items_of_def add_scope_def)

lemma other_scope: "config_ok db \<Longrightarrow> s \<in> set (cf_scopes db) \<Longrightarrow> sr_scope s \<noteq> scope \<Longrightarrow> scope_row scope db = Some t \<Longrightarrow> sr_id t \<noteq> sr_id s"
  using scope_row_Some scope_unique by metis

text \<open>The releases of a scope, newest first.\<close>

lemma release_rows_view:
  assumes "config_ok db"
  shows "release_rows scope db = rev (releases_view scope db)"
proof (cases "scope_row scope db")
  case None
  then have "filter (\<lambda>r. list_ex (\<lambda>s. sr_id s = rl_scope_id r \<and> sr_scope s = scope) (cf_scopes db)) (cf_releases db) = []"
    by (auto simp: filter_empty_conv list_ex_iff scope_row_None)
  with None show ?thesis by (simp add: release_rows_def releases_view_def)
next
  case (Some s)
  then have s: "s \<in> set (cf_scopes db)" "sr_scope s = scope" using scope_row_Some by auto
  then have "list_ex (\<lambda>t. sr_id t = i \<and> sr_scope t = scope) (cf_scopes db) \<longleftrightarrow> i = sr_id s" for i
    unfolding list_ex_iff using scope_unique [OF assms s(1)] by metis
  then have rows: "release_rows scope db = sort_key (\<lambda>r. - rl_revision r) (releases_of (sr_id s) db)" by (simp add: release_rows_def releases_of_def)
  have revs: "map rl_revision (releases_of (sr_id s) db) = [1..sr_current_revision s]" using assms s(1) by (simp add: config_ok_def)
  then have "map (\<lambda>r. - rl_revision r) (releases_of (sr_id s) db) = map uminus [1..sr_current_revision s]" by (simp flip: revs)
  moreover have "sorted (rev (map uminus [1..sr_current_revision s]))" by (simp add: sorted_wrt_rev sorted_wrt_map)
  ultimately have "sorted (map (\<lambda>r. - rl_revision r) (rev (releases_of (sr_id s) db)))" by (simp flip: rev_map)
  moreover have "inj_on (\<lambda>r. - rl_revision r) (set (releases_of (sr_id s) db))"
    using arg_cong [OF revs, of distinct] by (simp add: distinct_map inj_on_def)
  ultimately have "sort_key (\<lambda>r. - rl_revision r) (releases_of (sr_id s) db) = rev (releases_of (sr_id s) db)"
    by (intro sort_key_inj_key_eq) simp_all
  with rows Some show ?thesis by (simp add: releases_view_def)
qed


section \<open>Scopes do not meet, releases stay\<close>

text \<open>What the four changes do to the rows of another scope.\<close>

lemma add_release_rows:
  "scope_row scope (add_release now r db) = map_option (\<lambda>s. if sr_id s = rl_scope_id r
     then s\<lparr>sr_current_revision := rl_revision r, sr_updated_at := now\<rparr> else s) (scope_row scope db)"
  "items_of sid (add_release now r db) = items_of sid db"
  "releases_of sid (add_release now r db) = releases_of sid db @ (if rl_scope_id r = sid then [r] else [])"
  by (simp_all add: add_release_def scope_row_update items_of_def releases_of_def) (simp add: scope_row_def)

lemma scope_view_changes:
  "scope_row scope' db = None \<Longrightarrow> scope' \<noteq> scope \<Longrightarrow> scope_view scope (add_scope now scope' db) = scope_view scope db"
  "config_ok db \<Longrightarrow> s \<in> set (cf_scopes db) \<Longrightarrow> sr_scope s \<noteq> scope \<Longrightarrow> it_scope_id item = sr_id s \<Longrightarrow> scope_view scope (put_item item db) = scope_view scope db"
  "config_ok db \<Longrightarrow> s \<in> set (cf_scopes db) \<Longrightarrow> sr_scope s \<noteq> scope \<Longrightarrow> scope_view scope (set_scope_schema now schema (sr_id s) db) = scope_view scope db"
  "config_ok db \<Longrightarrow> s \<in> set (cf_scopes db) \<Longrightarrow> sr_scope s \<noteq> scope \<Longrightarrow> rl_scope_id r = sr_id s \<Longrightarrow> scope_view scope (add_release now r db) = scope_view scope db"
proof -
  show "scope_row scope' db = None \<Longrightarrow> scope' \<noteq> scope \<Longrightarrow> scope_view scope (add_scope now scope' db) = scope_view scope db"
    by (simp add: scope_view_def scope_row_add)
next
  assume "config_ok db" "s \<in> set (cf_scopes db)" "sr_scope s \<noteq> scope"
  then have other: "sr_id t \<noteq> sr_id s" if "scope_row scope db = Some t" for t using other_scope that by blast
  then show "it_scope_id item = sr_id s \<Longrightarrow> scope_view scope (put_item item db) = scope_view scope db"
    "scope_view scope (set_scope_schema now schema (sr_id s) db) = scope_view scope db"
    "rl_scope_id r = sr_id s \<Longrightarrow> scope_view scope (add_release now r db) = scope_view scope db"
    by (cases "scope_row scope db"; simp add: scope_view_def set_scope_schema_def scope_row_update add_release_rows)+
qed

interpretation elsewhere: config_invariant "\<lambda>s. s \<noteq> scope" "\<lambda>_. True" "\<lambda>db. config_ok db \<and> scope_view scope db = view" for scope view
  by unfold_locales (auto simp: scope_view_changes intro: config_ok_changes)


lemma releases_view_changes:
  assumes "config_ok db"
  shows "scope_row scope' db = None \<Longrightarrow> releases_view scope (add_scope now scope' db) = releases_view scope db"
    "releases_view scope (put_item item db) = releases_view scope db"
    "releases_view scope (set_scope_schema now schema sid db) = releases_view scope db"
    "s \<in> set (cf_scopes db) \<Longrightarrow> rl_scope_id r = sr_id s \<Longrightarrow>
      releases_view scope (add_release now r db) = releases_view scope db @ (if sr_scope s = scope then [r] else [])"
proof -
  have "releases_of (cf_next_scope db) db = []" using assms by (fastforce simp: config_ok_def releases_of_def filter_empty_conv)
  then show "scope_row scope' db = None \<Longrightarrow> releases_view scope (add_scope now scope' db) = releases_view scope db"
    by (simp add: releases_view_def scope_row_add split: option.split)
  show "releases_view scope (put_item item db) = releases_view scope db" "releases_view scope (set_scope_schema now schema sid db) = releases_view scope db"
    by (auto simp: releases_view_def set_scope_schema_def scope_row_update split: option.split)
next
  assume s: "s \<in> set (cf_scopes db)" "rl_scope_id r = sr_id s"
  show "releases_view scope (add_release now r db) = releases_view scope db @ (if sr_scope s = scope then [r] else [])"
  proof (cases "sr_scope s = scope")
    case True
    with scope_row_found [OF assms s(1)] s(2) show ?thesis by (simp add: releases_view_def add_release_rows)
  next
    case False
    then have "sr_id t \<noteq> sr_id s" if "scope_row scope db = Some t" for t using other_scope [OF assms s(1) _ that] by simp
    with False s(2) show ?thesis by (cases "scope_row scope db") (simp_all add: releases_view_def add_release_rows)
  qed
qed

text \<open>A release stays, and only a publication adds one.\<close>

interpretation kept: config_invariant "\<lambda>_. True" "\<lambda>_. True" "\<lambda>db. config_ok db \<and> r \<in> set (releases_view scope db)" for scope r
  by unfold_locales (auto simp: releases_view_changes intro: config_ok_changes)

interpretation unpublished: config_invariant "\<lambda>_. True" "\<lambda>s. s \<noteq> scope" "\<lambda>db. config_ok db \<and> releases_view scope db = rows" for scope rows
  by unfold_locales (auto simp: releases_view_changes intro: config_ok_changes)

end
