(* ===== verification/Config_Reads.thy ===== *)
theory Config_Reads
  imports Config_Inv
begin

text \<open>
  What the operations of the config centre return: reads as functions of the rows of their scope,
  what a publication makes of a draft, and the pages of a list.
\<close>


section \<open>Reads\<close>

lemma Config_get_draft_view:
  "validate_scope scope = Inr () \<Longrightarrow> ConfigStore_get_draft lib scope db = (Inr (case scope_view scope db of None \<Rightarrow> []
    | Some (s, items, releases) \<Rightarrow> map row_to_item (sort_key (\<lambda>i. lb_collate lib (it_key i)) items)), db)"
  by (simp add: ConfigStore_get_draft_def scope_id_def scope_view_def item_rows_def items_of_def split: option.split)

lemma Config_get_schema_view:
  "validate_scope scope = Inr () \<Longrightarrow> ConfigStore_get_schema scope db = (Inr (case scope_view scope db of None \<Rightarrow> None | Some (s, _) \<Rightarrow> sr_json_schema s), db)"
  by (simp add: ConfigStore_get_schema_def scope_view_def split: option.split)

lemma releases_view_scope_view: "releases_view scope db = (case scope_view scope db of None \<Rightarrow> [] | Some (s, items, releases) \<Rightarrow> releases)"
  by (simp add: releases_view_def scope_view_def split: option.split)

text \<open>The revisions of a scope count from one.\<close>

lemma releases_view_revisions:
  assumes "config_ok db"
  shows "map rl_revision (releases_view scope db) = [1..current_revision scope db]" "0 \<le> current_revision scope db"
  using assms scope_row_Some [of scope db] by (auto simp: releases_view_def current_revision_def config_ok_def split: option.split)

lemma revision_found:
  assumes "config_ok db" "r \<in> set (releases_view scope db)"
  shows "filter (\<lambda>r'. rl_revision r' = rl_revision r) (release_rows scope db) = [r]" "0 < rl_revision r"
proof -
  note revs = releases_view_revisions(1) [OF assms(1), of scope]
  have "distinct (map rl_revision (rev (releases_view scope db)))" by (simp flip: rev_map add: revs)
  then show "filter (\<lambda>r'. rl_revision r' = rl_revision r) (release_rows scope db) = [r]"
    using assms by (simp add: release_rows_view filter_one)
  have "rl_revision r \<in> set (map rl_revision (releases_view scope db))" using assms(2) by simp
  then show "0 < rl_revision r" unfolding revs by simp
qed

lemma Config_get_release_found:
  assumes "config_ok db" "validate_scope scope = Inr ()" "r \<in> set (releases_view scope db)"
  shows "ConfigStore_get_release scope (rl_revision r) db = (Inr (row_to_release scope r), db)"
  using revision_found [OF assms(1,3)] assms(2) by (simp add: ConfigStore_get_release_def first_release_def)

lemma Config_get_release_Inr:
  assumes "config_ok db" "validate_scope scope = Inr ()" "0 < n" "ConfigStore_get_release scope n db = (Inr x, db')"
  obtains r where "r \<in> set (releases_view scope db)" "rl_revision r = n" "x = row_to_release scope r" "db' = db"
proof -
  let ?rows = "filter (\<lambda>r. rl_revision r = n) (rev (releases_view scope db))"
  have "first_release scope ?rows = Inr x" "db' = db" using assms by (auto simp: ConfigStore_get_release_def release_rows_view)
  then obtain r rest where "?rows = r # rest" "x = row_to_release scope r" by (auto simp: first_release_def split: list.splits)
  then have "r \<in> set ?rows" "x = row_to_release scope r" by (simp_all only: list.set_intros)
  then show ?thesis using that [of r] \<open>db' = db\<close> by simp
qed

lemma Config_get_latest_view:
  assumes "config_ok db" "validate_scope scope = Inr ()"
  shows "ConfigStore_get_latest_release scope db = ((if releases_view scope db = [] then Inl (NotFound (''config release '' @ scope_label scope))
    else Inr (row_to_release scope (last (releases_view scope db)))), db)"
  using assms by (cases "releases_view scope db" rule: rev_cases) (simp_all add: ConfigStore_get_latest_release_def first_release_def release_rows_view)


section \<open>Publishing\<close>

text \<open>The first value that the schema refuses decides.\<close>

lemma snapshot_of_find: "snapshot_of lib schema rows = (case find (\<lambda>i. check_schema lib schema (it_key i) (it_value i) \<noteq> Inr ()) rows of
    None \<Rightarrow> Inr (map (\<lambda>i. (it_key i, it_value i)) rows) | Some i \<Rightarrow> Inl (projl (check_schema lib schema (it_key i) (it_value i))))"
  by (induction rows) (auto split: sum.splits option.splits)

text \<open>The rows of a scope that has just been ensured are those it had.\<close>

lemma ensured_ok: "config_ok db \<Longrightarrow> config_ok (ensured now scope db)"
  by (simp add: ensured_def config_ok_changes)

lemma ensured_view:
  assumes "config_ok db"
  obtains s where "s \<in> set (cf_scopes (ensured now scope db))" "sr_scope s = scope" "scope_row scope (ensured now scope db) = Some s"
    "sr_current_revision s = current_revision scope db" "releases_view scope (ensured now scope db) = releases_view scope db"
    "sr_json_schema s = (case scope_view scope db of None \<Rightarrow> None | Some (s, _) \<Rightarrow> sr_json_schema s)"
    "items_of (sr_id s) (ensured now scope db) = (case scope_view scope db of None \<Rightarrow> [] | Some (s, items, _) \<Rightarrow> items)"
proof (cases "scope_row scope db")
  case None
  let ?s = "\<lparr>sr_id = cf_next_scope db, sr_scope = scope, sr_current_revision = 0, sr_created_at = now, sr_updated_at = now, sr_json_schema = None\<rparr>"
  have "items_of (cf_next_scope db) db = []" using assms by (fastforce simp: config_ok_def items_of_def filter_empty_conv)
  with None show ?thesis using that [of ?s]
    by (simp add: ensured_def scope_row_add current_revision_def scope_view_def releases_view_changes [OF assms]) (simp add: add_scope_def)
next
  case (Some s)
  with scope_row_Some [OF Some] show ?thesis using that [of s] by (simp add: ensured_def current_revision_def scope_view_def)
qed

definition release_row :: "'v config_lib \<Rightarrow> int \<Rightarrow> int \<Rightarrow> int \<Rightarrow> 'v \<Rightarrow> 'v \<Rightarrow> string \<Rightarrow> string \<Rightarrow> 'v config_release" where
  "release_row lib now sid revision snapshot stored message published_by = \<lparr>rl_scope_id = sid, rl_revision = revision, rl_snapshot = stored,
     rl_checksum = checksum_json lib snapshot, rl_message = message, rl_published_by = published_by, rl_published_at = now\<rparr>"

lemma ConfigStore_publish_result:
  assumes "config_ok db" "validate_scope scope = Inr ()" "validate_publish_field ''message'' message = Inr ()"
    "validate_publish_field ''published_by'' published_by = Inr ()" and s: "scope_row scope (ensured now scope db) = Some s"
  shows "ConfigStore_publish lib now scope message published_by db =
    (case snapshot_of lib (sr_json_schema s) (active_rows lib (sr_id s) (ensured now scope db)) of Inl e \<Rightarrow> (Inl e, db)
     | Inr members \<Rightarrow> (case lb_jsonb lib (lb_object lib members) of Inl e \<Rightarrow> (Inl (Database e), db)
       | Inr stored \<Rightarrow> (let r = release_row lib now (sr_id s) (sr_current_revision s + 1) (lb_object lib members) stored message published_by
           in (Inr ((row_to_release scope r)\<lparr>cr_snapshot := lb_object lib members\<rparr>), add_release now r (ensured now scope db)))))"
proof -
  have ok: "config_ok (ensured now scope db)" "s \<in> set (cf_scopes (ensured now scope db))" using ensured_ok [OF assms(1)] scope_row_Some [OF s] by auto
  show ?thesis using assms(2-)
    by (simp add: ConfigStore_publish_def transaction_def ensure_scope_result select_scope_row_found [OF ok] schema_found [OF ok] given_def bind_json_def
        Let_def insert_release_next [OF ok] release_row_def row_to_release_def add_release_def split: sum.split)
qed


lemma get_draft_valid: "ConfigStore_get_draft lib scope db = (Inr items, db') \<Longrightarrow> validate_scope scope = Inr ()"
  by (cases "validate_scope scope") (simp_all add: ConfigStore_get_draft_def)

text \<open>The rows a publication reads are the active ones of the draft.\<close>

lemma active_rows_draft:
  assumes "ConfigStore_get_draft lib scope db = (Inr items, db')"
    "items_of sid db1 = (case scope_view scope db of None \<Rightarrow> [] | Some (s, rows, _) \<Rightarrow> rows)"
  shows "map row_to_item (active_rows lib sid db1) = filter (\<lambda>i. \<not> ci_deleted i) items"
proof -
  have "items = map row_to_item (item_rows lib sid db1)"
    using assms by (auto simp: Config_get_draft_view get_draft_valid [OF assms(1)] item_rows_def items_of_def split: option.splits)
  then show ?thesis by (simp add: active_rows_def filter_map comp_def row_to_item_def)
qed

lemma row_members: "map (\<lambda>i. (it_key i, it_value i)) rows = map (\<lambda>i. (ci_key i, ci_value i)) (map row_to_item rows)"
  by (simp add: row_to_item_def)

lemma find_draft: "find (\<lambda>i. P (ci_key i) (ci_value i)) (map row_to_item rows) = map_option row_to_item (find (\<lambda>i. P (it_key i) (it_value i)) rows)"
  by (simp add: find_map comp_def row_to_item_def)

text \<open>A publication, seen from the draft.\<close>

lemma publish_draft:
  assumes ok: "config_ok db" and draft: "ConfigStore_get_draft lib scope db = (Inr items, db)" and schema: "ConfigStore_get_schema scope db = (Inr schema, db)"
    and fields: "validate_publish_field ''message'' message = Inr ()" "validate_publish_field ''published_by'' published_by = Inr ()"
    and active: "active = filter (\<lambda>i. \<not> ci_deleted i) items"
  shows "\<exists>r. rl_revision r = current_revision scope db + 1 \<and> rl_message r = message \<and> rl_published_by r = published_by \<and> rl_published_at r = now \<and>
    (let members = map (\<lambda>i. (ci_key i, ci_value i)) active in
     ConfigStore_publish lib now scope message published_by db =
       (case find (\<lambda>i. check_schema lib schema (ci_key i) (ci_value i) \<noteq> Inr ()) active of
         Some i \<Rightarrow> (Inl (projl (check_schema lib schema (ci_key i) (ci_value i))), db)
       | None \<Rightarrow> (case lb_jsonb lib (lb_object lib members) of Inl e \<Rightarrow> (Inl (Database e), db)
         | Inr stored \<Rightarrow> (Inr ((row_to_release scope r)\<lparr>cr_snapshot := lb_object lib members\<rparr>), add_release now r (ensured now scope db)))) \<and>
     rl_checksum r = checksum_json lib (lb_object lib members) \<and> (\<forall>stored. lb_jsonb lib (lb_object lib members) = Inr stored \<longrightarrow> rl_snapshot r = stored)) \<and>
    config_ok (add_release now r (ensured now scope db)) \<and>
    releases_view scope (add_release now r (ensured now scope db)) = releases_view scope db @ [r] \<and>
    ConfigStore_get_draft lib scope (add_release now r (ensured now scope db)) = (Inr items, add_release now r (ensured now scope db))"
proof -
  obtain s where s: "s \<in> set (cf_scopes (ensured now scope db))" "sr_scope s = scope" "scope_row scope (ensured now scope db) = Some s"
    "sr_current_revision s = current_revision scope db" "releases_view scope (ensured now scope db) = releases_view scope db"
    "sr_json_schema s = (case scope_view scope db of None \<Rightarrow> None | Some (s, _) \<Rightarrow> sr_json_schema s)"
    "items_of (sr_id s) (ensured now scope db) = (case scope_view scope db of None \<Rightarrow> [] | Some (s, items, _) \<Rightarrow> items)"
    by (rule ensured_view [OF ok, of now scope])
  note valid = get_draft_valid [OF draft] and ok1 = ensured_ok [OF ok, of now scope]
  let ?rows = "active_rows lib (sr_id s) (ensured now scope db)" and ?members = "map (\<lambda>i. (ci_key i, ci_value i)) active"
  have rows: "map row_to_item ?rows = active" unfolding active by (rule active_rows_draft [OF draft s(7)])
  then have members: "map (\<lambda>i. (it_key i, it_value i)) ?rows = ?members" using row_members [of ?rows] by simp
  have sch: "sr_json_schema s = schema" using schema s(6) by (simp add: Config_get_schema_view [OF valid])
  define r where "r = release_row lib now (sr_id s) (sr_current_revision s + 1) (lb_object lib ?members)
    (case lb_jsonb lib (lb_object lib ?members) of Inl _ \<Rightarrow> lb_null lib | Inr stored \<Rightarrow> stored) message published_by"
  let ?db = "add_release now r (ensured now scope db)"
  have r: "rl_scope_id r = sr_id s" "rl_revision r = sr_current_revision s + 1" by (simp_all add: r_def release_row_def)
  have found: "find (\<lambda>i. check_schema lib schema (ci_key i) (ci_value i) \<noteq> Inr ()) active =
      map_option row_to_item (find (\<lambda>i. check_schema lib schema (it_key i) (it_value i) \<noteq> Inr ()) ?rows)"
    unfolding rows [symmetric] by (rule find_draft)
  have "ConfigStore_publish lib now scope message published_by db =
       (case find (\<lambda>i. check_schema lib schema (ci_key i) (ci_value i) \<noteq> Inr ()) active of
         Some i \<Rightarrow> (Inl (projl (check_schema lib schema (ci_key i) (ci_value i))), db)
       | None \<Rightarrow> (case lb_jsonb lib (lb_object lib ?members) of Inl e \<Rightarrow> (Inl (Database e), db)
         | Inr stored \<Rightarrow> (Inr ((row_to_release scope r)\<lparr>cr_snapshot := lb_object lib ?members\<rparr>), ?db)))"
    unfolding ConfigStore_publish_result [OF ok valid fields s(3)] snapshot_of_find sch members found
    by (simp add: r_def row_to_item_def Let_def split: option.split sum.split)
  moreover have "releases_view scope ?db = releases_view scope db @ [r]" using releases_view_changes(4) [OF ok1 s(1) r(1)] s(2,5) by simp
  moreover have "ConfigStore_get_draft lib scope ?db = (Inr items, ?db)"
    using draft s(3,7) r(1) by (simp add: Config_get_draft_view [OF valid] scope_view_def [of _ ?db] add_release_rows) (auto split: option.splits)
  ultimately show ?thesis using add_release_ok [OF ok1 s(1) r] r(2) s(4) by (intro exI [of _ r]) (simp add: Let_def, simp add: r_def release_row_def)
qed


section \<open>Pages\<close>

text \<open>Following the offsets of the pages from an offset to the last page.\<close>

partial_function (option) follow_pages :: "(int \<Rightarrow> ('db, 'a ConfigPage) sql_op) \<Rightarrow> int \<Rightarrow> 'db \<Rightarrow> (pg_error + 'a list) option" where
  "follow_pages fetch offset db = (case fetch offset db of (Inl e, _) \<Rightarrow> Some (Inl e)
     | (Inr page, db') \<Rightarrow> (case cp_next_offset page of None \<Rightarrow> Some (Inr (cp_items page))
       | Some next \<Rightarrow> Option.bind (follow_pages fetch next db') (\<lambda>rest. Some (map_sum id (append (cp_items page)) rest))))"

text \<open>A list that is read in pages: the check before it, and its rows.\<close>

locale paged_list =
  fixes self :: ConfigLimits
    and valid :: "pg_error + unit"
    and fetch :: "int option \<Rightarrow> int \<Rightarrow> ('db, 'a ConfigPage) sql_op"
    and rows :: "'db \<Rightarrow> 'a list"
  assumes fetch: "fetch limit offset db = check valid (given (ConfigStore_page self limit offset)
    (\<lambda>page db. (Inr (PageState_finish page (page_rows page (rows db))), db))) db"
begin

text \<open>The pages together are the rows from the offset on.\<close>

lemma pages_complete:
  assumes "valid = Inr ()" "0 < cl_max_page_size self" "pred_option ((<) 0) limit" "0 \<le> offset"
  shows "follow_pages (fetch limit) offset db = Some (Inr (drop (nat offset) (rows db)))"
  using assms(4)
proof (induction "length (rows db) - nat offset" arbitrary: offset rule: less_induct)
  case less
  define n where "n = nat (min (case limit of None \<Rightarrow> int (cl_max_page_size self) | Some k \<Rightarrow> k) (int (cl_max_page_size self)))"
  have n: "0 < n" "ConfigStore_page self limit offset = Inr \<lparr>ps_limit = n, ps_fetch_limit = int n + 1, ps_offset = offset\<rparr>"
    using assms(2,3) less.prems by (cases limit; simp add: n_def ConfigStore_page_def Let_def)+
  let ?rows = "drop (nat offset) (rows db)"
  have page: "fetch limit offset db = (Inr \<lparr>cp_items = take n ?rows, cp_limit = n, cp_offset = offset,
      cp_next_offset = (if n < length ?rows then Some (offset + int n) else None)\<rparr>, db)"
    unfolding fetch assms(1) n(2) by (auto simp: PageState_finish_def page_rows_def Let_def min_def)
  show ?case
  proof (cases "n < length ?rows")
    case True
    then have "follow_pages (fetch limit) (offset + int n) db = Some (Inr (drop (nat (offset + int n)) (rows db)))"
      using n(1) less.prems by (intro less.hyps) auto
    moreover have "take n ?rows @ drop (nat (offset + int n)) (rows db) = ?rows"
      using less.prems append_take_drop_id [of n ?rows] by (simp add: nat_add_distrib add.commute)
    ultimately show ?thesis using True by (subst follow_pages.simps) (simp add: page)
  qed (subst follow_pages.simps, simp add: page)
qed

end

lemma page_rows_map: "page_rows page (map f xs) = map f (page_rows page xs)"
  by (simp add: page_rows_def take_map drop_map)

interpretation release_pages: paged_list self "validate_scope scope" "ConfigStore_list_releases self scope"
  "\<lambda>db. map (row_to_release scope) (release_rows scope db)" for self scope
  by unfold_locales (simp add: ConfigStore_list_releases_def page_rows_map)

interpretation scope_pages: paged_list self "Inr ()" "ConfigStore_list_scopes lib self"
  "\<lambda>db. map (\<lambda>s. \<lparr>cu_scope = sr_scope s, cu_current_revision = sr_current_revision s, cu_created_at = sr_created_at s, cu_updated_at = sr_updated_at s\<rparr>)
     (sort_key (scope_order lib) (cf_scopes db))" for self lib
  by unfold_locales (simp add: ConfigStore_list_scopes_def page_rows_map)

end
