(* ===== verification/Config_Server.thy ===== *)
theory Config_Server
  imports Config_Reads Config_Client Rpc_Server
begin

text \<open>
  The config service of the server, \<open>ConfigGrpc\<close> of \<open>crates/pgapp-server/src/lib.rs\<close>: its handlers over
  \<open>ConfigStore\<close>, with the messages of the generated code. What others do to the tables while a
  watch sleeps is an argument.
\<close>


section \<open>Messages of the service\<close>

definition required_scope :: "ConfigScope option \<Rightarrow> Status + ConfigScope_core" where
  "required_scope scope = (case scope of None \<Rightarrow> Inl \<lparr>s_code = Code_InvalidArgument, s_message = ''scope is required''\<rparr>
     | Some s \<Rightarrow> Inr \<lparr>gs_app_id = ConfigScope_appId s, gs_environment = ConfigScope_environment s, gs_cluster = ConfigScope_cluster s,
         gs_namespace = ConfigScope_namespace s\<rparr>)"

definition to_proto_scope :: "ConfigScope_core \<Rightarrow> ConfigScope" where
  "to_proto_scope scope = ConfigScope_create\<lparr>ConfigScope_appId := gs_app_id scope, ConfigScope_environment := gs_environment scope,
     ConfigScope_cluster := gs_cluster scope, ConfigScope_namespace := gs_namespace scope\<rparr>"

definition to_proto_release :: "'v config_lib \<Rightarrow> 'v ConfigRelease_core \<Rightarrow> ConfigRelease" where
  "to_proto_release lib release = ConfigRelease_create\<lparr>ConfigRelease_scope := Some (to_proto_scope (cr_scope release)),
     ConfigRelease_revision := dec (cr_revision release), ConfigRelease_checksum := cr_checksum release,
     ConfigRelease_snapshotJson := lb_print lib (cr_snapshot release), ConfigRelease_message := cr_message release,
     ConfigRelease_publishedBy := cr_published_by release, ConfigRelease_publishedAt := lb_rfc3339 lib (cr_published_at release)\<rparr>"

definition parse_config_json :: "'v config_lib \<Rightarrow> string \<Rightarrow> Status + 'v" where
  "parse_config_json lib payload = (case lb_parse lib payload of Inr v \<Rightarrow> Inr v
     | Inl err \<Rightarrow> Inl (Status_from (lb_db_text lib) (InvalidArgument (''invalid JSON payload: '' @ err))))"

definition nonzero_limit :: "int \<Rightarrow> int option" where
  "nonzero_limit limit = (if 0 < limit then Some limit else None)"

definition unwrap_or_default :: "int option \<Rightarrow> int" where
  "unwrap_or_default v = (case v of None \<Rightarrow> 0 | Some n \<Rightarrow> n)"


section \<open>Handlers\<close>

record ConfigGrpc =
  kg_store :: ConfigLimits
  kg_enabled :: bool
  kg_request_timeout :: int

type_synonym 'v config_server = "'v config_db rpc_server"

definition ConfigGrpc_ensure_enabled :: "ConfigGrpc \<Rightarrow> Status + unit" where
  "ConfigGrpc_ensure_enabled self = (if kg_enabled self then Inr ()
     else Inl \<lparr>s_code = Code_Unavailable, s_message = ''config service is disabled''\<rparr>)"

text \<open>A handler on a scope: enabled, with a scope in its request, then its body.\<close>

definition on_scope :: "ConfigGrpc \<Rightarrow> string \<Rightarrow> ConfigScope option \<Rightarrow> (ConfigScope_core \<Rightarrow> ('v config_db, 'o) rpc_body) \<Rightarrow>
    'v config_server \<Rightarrow> (Status + 'o) \<times> 'v config_server" where
  "on_scope self method scope body = record_rpc ''config'' method (require (ConfigGrpc_ensure_enabled self) (\<lambda>_. require (required_scope scope) body))"

definition ConfigGrpc_list_scopes :: "'v config_lib \<Rightarrow> ConfigGrpc \<Rightarrow> ListConfigScopesRequest \<Rightarrow> 'v config_server \<Rightarrow>
    (Status + ListConfigScopesResponse) \<times> 'v config_server" where
  "ConfigGrpc_list_scopes lib self req = record_rpc ''config'' ''list_scopes'' (require (ConfigGrpc_ensure_enabled self) (\<lambda>_.
     await (lb_db_text lib) (ConfigStore_list_scopes lib (kg_store self) (nonzero_limit (i32 (ListConfigScopesRequest_limit req)))
         (i64 (ListConfigScopesRequest_offset req)))
       (\<lambda>page. ListConfigScopesResponse_create\<lparr>ListConfigScopesResponse_scopes := map (\<lambda>summary.
            ConfigScopeSummary_create\<lparr>ConfigScopeSummary_scope := Some (to_proto_scope (cu_scope summary)),
              ConfigScopeSummary_currentRevision := dec (cu_current_revision summary),
              ConfigScopeSummary_createdAt := lb_rfc3339 lib (cu_created_at summary),
              ConfigScopeSummary_updatedAt := lb_rfc3339 lib (cu_updated_at summary)\<rparr>) (cp_items page),
          ListConfigScopesResponse_nextOffset := dec (unwrap_or_default (cp_next_offset page))\<rparr>)))"

definition ConfigGrpc_upsert_item :: "'v config_lib \<Rightarrow> ConfigGrpc \<Rightarrow> UpsertConfigItemRequest \<Rightarrow> 'v config_server \<Rightarrow>
    (Status + OperationResult) \<times> 'v config_server" where
  "ConfigGrpc_upsert_item lib self req s = on_scope self ''upsert_item'' (UpsertConfigItemRequest_scope req) (\<lambda>scope.
     require (parse_config_json lib (UpsertConfigItemRequest_jsonValue req)) (\<lambda>v.
       await (lb_db_text lib) (ConfigStore_upsert_item lib (kg_store self) (sv_now s) scope (UpsertConfigItemRequest_key req) v)
         (\<lambda>_. operation_result True))) s"

definition ConfigGrpc_delete_item :: "'v config_lib \<Rightarrow> ConfigGrpc \<Rightarrow> DeleteConfigItemRequest \<Rightarrow> 'v config_server \<Rightarrow>
    (Status + OperationResult) \<times> 'v config_server" where
  "ConfigGrpc_delete_item lib self req s = on_scope self ''delete_item'' (DeleteConfigItemRequest_scope req) (\<lambda>scope.
     await (lb_db_text lib) (ConfigStore_delete_item lib (sv_now s) scope (DeleteConfigItemRequest_key req)) operation_result) s"

definition ConfigGrpc_get_draft :: "'v config_lib \<Rightarrow> ConfigGrpc \<Rightarrow> GetConfigDraftRequest \<Rightarrow> 'v config_server \<Rightarrow>
    (Status + ConfigDraftResponse) \<times> 'v config_server" where
  "ConfigGrpc_get_draft lib self req = on_scope self ''get_draft'' (GetConfigDraftRequest_scope req) (\<lambda>scope.
     await (lb_db_text lib) (ConfigStore_get_draft lib scope)
       (\<lambda>items. ConfigDraftResponse_create\<lparr>ConfigDraftResponse_scope := Some (to_proto_scope scope),
          ConfigDraftResponse_items := map (\<lambda>item. ConfigItem_create\<lparr>ConfigItem_key := ci_key item,
            ConfigItem_jsonValue := lb_print lib (ci_value item), ConfigItem_deleted := ci_deleted item,
            ConfigItem_updatedAt := lb_rfc3339 lib (ci_updated_at item)\<rparr>) items\<rparr>))"

definition ConfigGrpc_publish :: "'v config_lib \<Rightarrow> ConfigGrpc \<Rightarrow> PublishConfigRequest \<Rightarrow> 'v config_server \<Rightarrow>
    (Status + ConfigRelease) \<times> 'v config_server" where
  "ConfigGrpc_publish lib self req s = on_scope self ''publish'' (PublishConfigRequest_scope req) (\<lambda>scope.
     await (lb_db_text lib) (ConfigStore_publish lib (sv_now s) scope (PublishConfigRequest_message req) (PublishConfigRequest_publishedBy req))
       (to_proto_release lib)) s"

definition ConfigGrpc_get_release :: "'v config_lib \<Rightarrow> ConfigGrpc \<Rightarrow> GetConfigReleaseRequest \<Rightarrow> 'v config_server \<Rightarrow>
    (Status + ConfigRelease) \<times> 'v config_server" where
  "ConfigGrpc_get_release lib self req = on_scope self ''get_release'' (GetConfigReleaseRequest_scope req) (\<lambda>scope.
     await (lb_db_text lib) (ConfigStore_get_release scope (i64 (GetConfigReleaseRequest_revision req))) (to_proto_release lib))"

definition ConfigGrpc_list_releases :: "'v config_lib \<Rightarrow> ConfigGrpc \<Rightarrow> ListConfigReleasesRequest \<Rightarrow> 'v config_server \<Rightarrow>
    (Status + ListConfigReleasesResponse) \<times> 'v config_server" where
  "ConfigGrpc_list_releases lib self req = on_scope self ''list_releases'' (ListConfigReleasesRequest_scope req) (\<lambda>scope.
     await (lb_db_text lib) (ConfigStore_list_releases (kg_store self) scope (nonzero_limit (i32 (ListConfigReleasesRequest_limit req)))
         (i64 (ListConfigReleasesRequest_offset req)))
       (\<lambda>page. ListConfigReleasesResponse_create\<lparr>ListConfigReleasesResponse_releases := map (to_proto_release lib) (cp_items page),
          ListConfigReleasesResponse_nextOffset := dec (unwrap_or_default (cp_next_offset page))\<rparr>))"

definition watch_response :: "'v config_lib \<Rightarrow> 'v ConfigWatchResult_core \<Rightarrow> WatchConfigResponse" where
  "watch_response lib result = WatchConfigResponse_create\<lparr>WatchConfigResponse_changed := cw_changed result,
     WatchConfigResponse_latestRevision := dec (cw_latest_revision result),
     WatchConfigResponse_release := map_option (to_proto_release lib) (cw_release result)\<rparr>"

text \<open>The outer option is empty when the call never ends, the inner one when it panics.\<close>

definition ConfigGrpc_watch :: "'v config_lib \<Rightarrow> ConfigGrpc \<Rightarrow> 'v config_db world \<Rightarrow> WatchConfigRequest \<Rightarrow> 'v config_server \<Rightarrow>
    ((Status + WatchConfigResponse) \<times> 'v config_server) option option" where
  "ConfigGrpc_watch lib self others req s = (case ConfigGrpc_ensure_enabled self of
     Inl status \<Rightarrow> Some (Some (record_rpc ''config'' ''watch'' (\<lambda>db. (Inl status, db)) s))
   | Inr _ \<Rightarrow> (case required_scope (WatchConfigRequest_scope req) of
       Inl status \<Rightarrow> Some (Some (record_rpc ''config'' ''watch'' (\<lambda>db. (Inl status, db)) s))
     | Inr scope \<Rightarrow> await_waiting (lb_db_text lib) ''config'' ''watch''
         (ConfigStore_watch lib (kg_store self) others (Some (sv_now s + kg_request_timeout self)) scope
           (i64 (WatchConfigRequest_knownRevision req)) (i64 (WatchConfigRequest_timeoutSeconds req)) 100)
         (watch_response lib) s))"

definition ConfigGrpc_set_schema :: "'v config_lib \<Rightarrow> ConfigGrpc \<Rightarrow> SetConfigSchemaRequest \<Rightarrow> 'v config_server \<Rightarrow>
    (Status + OperationResult) \<times> 'v config_server" where
  "ConfigGrpc_set_schema lib self req s = on_scope self ''set_schema'' (SetConfigSchemaRequest_scope req) (\<lambda>scope.
     require (if list_all is_whitespace (SetConfigSchemaRequest_jsonSchema req) then Inr None
         else map_sum id Some (parse_config_json lib (SetConfigSchemaRequest_jsonSchema req)))
       (\<lambda>schema. await (lb_db_text lib) (ConfigStore_set_schema lib (kg_store self) (sv_now s) scope schema) (\<lambda>_. operation_result True))) s"

definition ConfigGrpc_get_schema :: "'v config_lib \<Rightarrow> ConfigGrpc \<Rightarrow> GetConfigSchemaRequest \<Rightarrow> 'v config_server \<Rightarrow>
    (Status + ConfigSchemaResponse) \<times> 'v config_server" where
  "ConfigGrpc_get_schema lib self req = on_scope self ''get_schema'' (GetConfigSchemaRequest_scope req) (\<lambda>scope.
     await (lb_db_text lib) (ConfigStore_get_schema scope)
       (\<lambda>schema. ConfigSchemaResponse_create\<lparr>ConfigSchemaResponse_scope := Some (to_proto_scope scope),
          ConfigSchemaResponse_hasSchema := (schema \<noteq> None),
          ConfigSchemaResponse_jsonSchema := (case schema of None \<Rightarrow> [] | Some v \<Rightarrow> lb_print lib v)\<rparr>))"


section \<open>The contract of the service\<close>

text \<open>
  What a reader of the config centre relies on: asking for revision 0 gives the latest release of the
  scope, and changes nothing that can be read. The lemma carries this through the generated code and the SDK.
\<close>

locale config_contract =
  fixes latest :: "'s \<Rightarrow> ConfigScope \<Rightarrow> ConfigRelease option"
    and get_h :: "rpc_options \<Rightarrow> GetConfigReleaseRequest \<Rightarrow> 's \<Rightarrow> ConfigRelease result \<times> 's"
  assumes reads_latest: "latest s scope = Some release \<Longrightarrow> \<exists>s'. get_h opt \<lparr>unknownFields = [], GetConfigReleaseRequest_scope = Some scope,
      GetConfigReleaseRequest_revision = dec 0\<rparr> s = (Inr release, s') \<and> latest s' = latest s"
begin

lemma sdk_latest:
  fixes this :: "('w, 'r, 's) PGAppClient"
  assumes link: "rpc_link (pc_transport this) E st rest skippable" and serves: "serves_ConfigService_GetRelease (pc_transport this) get_h"
    and latest: "latest s (copyScope scope) = Some release" and snapshot: "JSON_parse (ConfigRelease_snapshotJson release) = Inr j"
    and ok: "ConfigRelease_ok skippable release" "length (ConfigRelease_encode E release) < 2147483648"
    and size: "length (GetConfigReleaseRequest_encode E \<lparr>unknownFields = [], GetConfigReleaseRequest_scope = Some (copyScope scope),
      GetConfigReleaseRequest_revision = dec 0\<rparr>) < 2147483648"
  shows "\<exists>s'. ConfigClient_getLatestRelease this scope s = (Some (Inr \<lparr>rs_scope = ConfigRelease_scope release,
      rs_revision = js_Number (ConfigRelease_revision release), rs_checksum = ConfigRelease_checksum release, rs_snapshot = j,
      rs_message = ConfigRelease_message release, rs_publishedBy = ConfigRelease_publishedBy release,
      rs_publishedAt = ConfigRelease_publishedAt release\<rparr>), s') \<and> latest s' = latest s"
proof -
  let ?req = "\<lparr>unknownFields = [], GetConfigReleaseRequest_scope = Some (copyScope scope), GetConfigReleaseRequest_revision = dec 0\<rparr>"
  obtain s' where s': "get_h (env_mergeOptions (pc_transport this) (rpcOptions this)) ?req s = (Inr release, s')" "latest s' = latest s"
    using reads_latest [OF latest] by blast
  have zero: "safe_num (IntNum 0)" "js_String (IntNum 0) = dec 0" by (simp_all add: safe_int_def)
  have "ConfigRelease_snapshotJson release \<noteq> []" using snapshot by (auto simp: JSON_parse_def skip_ws_def)
  then show ?thesis
    using ConfigClient_getRelease_call [OF link serves zero(1), where scope = scope and s = s] s' ok size snapshot zero(2)
    by (simp add: ConfigClient_getLatestRelease_def Let_def GetConfigReleaseRequest_create_def transmissible_def releaseSnapshot_def)
qed

end

definition latest_release :: "'v config_lib \<Rightarrow> ConfigGrpc \<Rightarrow> 'v config_server \<Rightarrow> ConfigScope \<Rightarrow> ConfigRelease option" where
  "latest_release lib self s scope = (if kg_enabled self then case required_scope (Some scope) of Inl _ \<Rightarrow> None
     | Inr core \<Rightarrow> (case fst (ConfigStore_get_latest_release core (sv_db s)) of Inl _ \<Rightarrow> None | Inr r \<Rightarrow> Some (to_proto_release lib r)) else None)"

lemma latest_release_cong: "sv_db s' = sv_db s \<Longrightarrow> latest_release lib self s' = latest_release lib self s"
  by (simp add: latest_release_def fun_eq_iff split: sum.split)

interpretation reader: config_contract "latest_release lib self" "behind raise (ConfigGrpc_get_release lib self)" for lib self raise
proof
  fix s :: "'a config_server" and scope release opt
  assume "latest_release lib self s scope = Some release"
  then obtain core r where r: "kg_enabled self" "required_scope (Some scope) = Inr core" "fst (ConfigStore_get_latest_release core (sv_db s)) = Inr r"
    "release = to_proto_release lib r" by (auto simp: latest_release_def split: if_splits sum.splits)
  moreover have "ConfigStore_get_release core 0 (sv_db s) = (Inr r, sv_db s)"
    using r(3) by (cases "validate_scope core") (simp_all add: ConfigStore_get_release_def ConfigStore_get_latest_release_def)
  ultimately have "\<exists>s'. behind raise (ConfigGrpc_get_release lib self) opt \<lparr>unknownFields = [], GetConfigReleaseRequest_scope = Some scope,
      GetConfigReleaseRequest_revision = dec 0\<rparr> s = (Inr release, s') \<and> sv_db s' = sv_db s"
    by (simp add: behind_def ConfigGrpc_get_release_def on_scope_def record_rpc_def require_def ConfigGrpc_ensure_enabled_def await_def)
  then show "\<exists>s'. behind raise (ConfigGrpc_get_release lib self) opt \<lparr>unknownFields = [], GetConfigReleaseRequest_scope = Some scope,
      GetConfigReleaseRequest_revision = dec 0\<rparr> s = (Inr release, s') \<and> latest_release lib self s' = latest_release lib self s"
    using latest_release_cong by blast
qed

end
