(* ===== verification/Config_Laws.thy ===== *)
theory Config_Laws
  imports Config_Server
begin

text \<open>
  What the config centre guarantees, for any sequence of commands: consistent tables, releases that
  hold the draft and never change, schemas that are enforced, scopes that do not meet, lists that
  are complete, watches that return, and what the SDK reads of it.
\<close>


section \<open>A config centre\<close>

text \<open>
  Concrete libraries for the witnesses: the JSON of the SDK, a schema that demands equality, and
  commands that store two items, delete one, publish and edit again.
\<close>

definition demo_lib :: "json config_lib" where
  "demo_lib = \<lparr>lb_parse = (\<lambda>s. case JSON_parse s of Inl _ \<Rightarrow> Inl ''expected value'' | Inr v \<Rightarrow> Inr v), lb_print = stringify, lb_object = JObj,
     lb_jsonb = Inr, lb_null = JNull, lb_sha256 = (\<lambda>s. ''c'' @ dec (int (length s))), lb_schema_error = (\<lambda>_. None),
     lb_value_error = (\<lambda>schema v. if v = schema then None else Some ''not equal''),
     lb_collate = map of_char, lb_rfc3339 = dec, lb_db_text = (\<lambda>_. ''error''), lb_deadline = (\<lambda>now seconds. Some (now + seconds * 1000000))\<rparr>"

definition demo_limits :: ConfigLimits where
  "demo_limits = \<lparr>cl_max_watch_seconds = 30, cl_max_payload_bytes = 64, cl_max_page_size = 2, cl_max_schema_bytes = 64\<rparr>"

definition demo_scope :: ConfigScope_core where
  "demo_scope = \<lparr>gs_app_id = ''billing'', gs_environment = ''prod'', gs_cluster = ''default'', gs_namespace = ''app''\<rparr>"

definition demo_commands :: "(int \<times> json config_command) list" where
  "demo_commands = [(1, CUpsert demo_scope ''b'' (JBool True)), (2, CUpsert demo_scope ''a'' JNull), (3, CDelete demo_scope ''a''),
     (4, CPublish demo_scope ''first'' ''ann''), (5, CUpsert demo_scope ''c'' (JBool False))]"

definition demo_db :: "json config_db" where
  "demo_db = run_configs demo_lib demo_limits demo_commands empty_config"

definition demo_draft :: "json ConfigItem_core list" where
  "demo_draft = [\<lparr>ci_key = ''a'', ci_value = JNull, ci_deleted = True, ci_updated_at = 3\<rparr>,
     \<lparr>ci_key = ''b'', ci_value = JBool True, ci_deleted = False, ci_updated_at = 1\<rparr>,
     \<lparr>ci_key = ''c'', ci_value = JBool False, ci_deleted = False, ci_updated_at = 5\<rparr>]"

lemma demo_value: "demo_db = \<lparr>cf_scopes = [\<lparr>sr_id = 1, sr_scope = demo_scope, sr_current_revision = 1, sr_created_at = 1, sr_updated_at = 4,
      sr_json_schema = None\<rparr>],
    cf_items = [\<lparr>it_scope_id = 1, it_key = ''b'', it_value = JBool True, it_deleted = False, it_updated_at = 1\<rparr>,
      \<lparr>it_scope_id = 1, it_key = ''a'', it_value = JNull, it_deleted = True, it_updated_at = 3\<rparr>,
      \<lparr>it_scope_id = 1, it_key = ''c'', it_value = JBool False, it_deleted = False, it_updated_at = 5\<rparr>],
    cf_releases = [\<lparr>rl_scope_id = 1, rl_revision = 1, rl_snapshot = JObj [(''b'', JBool True)], rl_checksum = ''c10'',
      rl_message = ''first'', rl_published_by = ''ann'', rl_published_at = 4\<rparr>], cf_next_scope = 6\<rparr>"
  by code_simp

text \<open>
  Whatever commands the config centre has run, succeeding or failing, its tables are consistent: the
  four parts name one scope, a key names one item, items and releases belong to scopes, and the
  revisions of a scope are exactly 1 up to its current revision.
\<close>

lemma run_configs_ok: "config_ok (run_configs lib self cmds empty_config)"
  by (rule tables.run_configs_keeps [OF config_ok_empty]) (auto simp: pred_option_def)


section \<open>Publishing\<close>

lemma publish_field_ok: "length (utf8 v) \<le> 512 \<Longrightarrow> validate_publish_field field v = Inr ()"
  by (simp add: validate_publish_field_def)

text \<open>
  C6. Publishing a draft whose active values keep the schema creates the next revision, which holds
  exactly the active items of the draft with their checksum and the data of the publication; it is the
  latest release then, and the draft stays as it was. What is stored is what the database makes of
  the snapshot.
\<close>

theorem publish_releases_draft:
  assumes "db = run_configs lib self cmds empty_config"
    and "ConfigStore_get_draft lib scope db = (Inr items, db)" "ConfigStore_get_schema scope db = (Inr schema, db)"
    and "length (utf8 message) \<le> 512" "length (utf8 published_by) \<le> 512"
    and "active = filter (\<lambda>i. \<not> ci_deleted i) items" "list_all (\<lambda>i. check_schema lib schema (ci_key i) (ci_value i) = Inr ()) active"
    and "snapshot = lb_object lib (map (\<lambda>i. (ci_key i, ci_value i)) active)" "lb_jsonb lib snapshot = Inr stored"
    and "release = \<lparr>cr_scope = scope, cr_revision = current_revision scope db + 1, cr_checksum = lb_sha256 lib (lb_print lib snapshot),
      cr_snapshot = stored, cr_message = message, cr_published_by = published_by, cr_published_at = now\<rparr>"
  shows "\<exists>db'. ConfigStore_publish lib now scope message published_by db = (Inr (release\<lparr>cr_snapshot := snapshot\<rparr>), db') \<and>
    ConfigStore_get_latest_release scope db' = (Inr release, db') \<and>
    ConfigStore_get_release scope (cr_revision release) db' = (Inr release, db') \<and>
    ConfigStore_get_draft lib scope db' = (Inr items, db')"
proof -
  have ok: "config_ok db" unfolding assms(1) by (rule run_configs_ok)
  have all: "find (\<lambda>i. check_schema lib schema (ci_key i) (ci_value i) \<noteq> Inr ()) active = None"
    using assms(7) by (auto simp: find_None_iff list_all_iff)
  obtain r where r: "rl_revision r = current_revision scope db + 1" "rl_message r = message" "rl_published_by r = published_by" "rl_published_at r = now"
    "ConfigStore_publish lib now scope message published_by db =
      (Inr ((row_to_release scope r)\<lparr>cr_snapshot := snapshot\<rparr>), add_release now r (ensured now scope db))"
    "rl_checksum r = checksum_json lib snapshot" "rl_snapshot r = stored" "config_ok (add_release now r (ensured now scope db))"
    "releases_view scope (add_release now r (ensured now scope db)) = releases_view scope db @ [r]"
    "ConfigStore_get_draft lib scope (add_release now r (ensured now scope db)) = (Inr items, add_release now r (ensured now scope db))"
    using publish_draft [OF ok assms(2,3) publish_field_ok [OF assms(4)] publish_field_ok [OF assms(5)] assms(6), of now] all assms(9)
    by (auto simp: assms(8) Let_def)
  note valid = get_draft_valid [OF assms(2)]
  have row: "row_to_release scope r = release" using r(1-4,6,7) by (simp add: row_to_release_def assms(10) checksum_json_def)
  show ?thesis
    using r(5,10) Config_get_latest_view [OF r(8) valid] Config_get_release_found [OF r(8) valid, of r] r(1,9) row
    by (intro exI [of _ "add_release now r (ensured now scope db)"]) (simp add: assms(10))
qed


lemma demo_reads:
  "ConfigStore_get_draft demo_lib demo_scope demo_db = (Inr demo_draft, demo_db)" "ConfigStore_get_schema demo_scope demo_db = (Inr None, demo_db)"
  "validate_scope demo_scope = Inr ()" "current_revision demo_scope demo_db = 1"
proof -
  show valid: "validate_scope demo_scope = Inr ()" by code_simp
  show "ConfigStore_get_draft demo_lib demo_scope demo_db = (Inr demo_draft, demo_db)"
    unfolding Config_get_draft_view [OF valid] demo_value by code_simp
  show "ConfigStore_get_schema demo_scope demo_db = (Inr None, demo_db)" "current_revision demo_scope demo_db = 1"
    by (simp_all add: Config_get_schema_view [OF valid] scope_view_def scope_row_def current_revision_def demo_value)
qed

theorem publish_releases_draft_witness:
  "\<exists>db'. ConfigStore_publish demo_lib 6 demo_scope ''second'' ''bob'' demo_db = (Inr \<lparr>cr_scope = demo_scope, cr_revision = 2,
      cr_checksum = ''c20'', cr_snapshot = JObj [(''b'', JBool True), (''c'', JBool False)], cr_message = ''second'', cr_published_by = ''bob'',
      cr_published_at = 6\<rparr>, db') \<and>
    fst (ConfigStore_get_latest_release demo_scope db') = fst (ConfigStore_get_release demo_scope 2 db')"
proof -
  let ?snapshot = "JObj [(''b'', JBool True), (''c'', JBool False)]"
  have sum: "lb_sha256 demo_lib (lb_print demo_lib ?snapshot) = ''c20''" by code_simp
  have jsonb: "lb_jsonb demo_lib ?snapshot = Inr ?snapshot" by (simp add: demo_lib_def)
  show ?thesis
    using publish_releases_draft [OF demo_db_def demo_reads(1,2) _ _ refl _ _ jsonb refl, of "''second''" "''bob''" 6]
    by (force simp: demo_draft_def check_schema_def demo_lib_def [THEN arg_cong [of _ _ lb_object]] sum demo_reads(4))
qed


text \<open>
  C19. A value that the schema of its scope refuses gets neither into the draft nor into a release: the
  write and the publication are refused as invalid arguments, and nothing changes.
\<close>

theorem schema_enforced:
  assumes "db = run_configs lib self cmds empty_config" "ConfigStore_get_schema scope db = (Inr (Some schema), db)" "lb_schema_error lib schema = None"
  shows "(validate_config_key key = Inr () \<and> ConfigStore_validate_payload_size lib self v = Inr () \<and> lb_value_error lib schema v = Some err \<longrightarrow>
      ConfigStore_upsert_item lib self now scope key v db =
        (Inl (InvalidArgument (''config key '' @ key @ '' failed JSON schema validation: '' @ err)), db)) \<and>
    (length (utf8 message) \<le> 512 \<and> length (utf8 published_by) \<le> 512 \<and> ConfigStore_get_draft lib scope db = (Inr items, db) \<and>
      i \<in> set items \<and> \<not> ci_deleted i \<and> lb_value_error lib schema (ci_value i) \<noteq> None \<longrightarrow>
      (\<exists>e. ConfigStore_publish lib now scope message published_by db = (Inl (InvalidArgument e), db)))"
proof -
  have ok: "config_ok db" unfolding assms(1) by (rule run_configs_ok)
  have valid: "validate_scope scope = Inr ()" using assms(2) by (cases "validate_scope scope") (simp_all add: ConfigStore_get_schema_def)
  have refuses: "check_schema lib (Some schema) key w = (case lb_value_error lib schema w of None \<Rightarrow> Inr ()
      | Some err \<Rightarrow> Inl (InvalidArgument (''config key '' @ key @ '' failed JSON schema validation: '' @ err)))" for key w
    using assms(3) by (simp add: check_schema_def validate_value_against_schema_def split: option.split)
  show ?thesis
  proof (intro conjI impI; elim conjE)
    assume key: "validate_config_key key = Inr ()" "ConfigStore_validate_payload_size lib self v = Inr ()" "lb_value_error lib schema v = Some err"
    obtain s where s: "s \<in> set (cf_scopes (ensured now scope db))" "scope_row scope (ensured now scope db) = Some s"
      "sr_json_schema s = (case scope_view scope db of None \<Rightarrow> None | Some (s, _) \<Rightarrow> sr_json_schema s)"
      by (rule ensured_view [OF ok, of now scope])
    have "sr_json_schema s = Some schema" using assms(2) s(3) by (simp add: Config_get_schema_view [OF valid])
    with s(1,2) key refuses show "ConfigStore_upsert_item lib self now scope key v db =
        (Inl (InvalidArgument (''config key '' @ key @ '' failed JSON schema validation: '' @ err)), db)"
      by (simp add: ConfigStore_upsert_item_def valid transaction_def ensure_scope_result schema_found [OF ensured_ok [OF ok]])
  next
    assume fields: "length (utf8 message) \<le> 512" "length (utf8 published_by) \<le> 512" and draft: "ConfigStore_get_draft lib scope db = (Inr items, db)"
      and i: "i \<in> set items" "\<not> ci_deleted i" "lb_value_error lib schema (ci_value i) \<noteq> None"
    let ?active = "filter (\<lambda>i. \<not> ci_deleted i) items"
    have "find (\<lambda>i. check_schema lib (Some schema) (ci_key i) (ci_value i) \<noteq> Inr ()) ?active \<noteq> None" using i refuses by (auto simp: find_None_iff)
    then obtain j where "find (\<lambda>i. check_schema lib (Some schema) (ci_key i) (ci_value i) \<noteq> Inr ()) ?active = Some j" by blast
    moreover from find_member [OF this] obtain e where "check_schema lib (Some schema) (ci_key j) (ci_value j) = Inl (InvalidArgument e)"
      unfolding refuses by (auto split: option.splits)
    ultimately show "\<exists>e. ConfigStore_publish lib now scope message published_by db = (Inl (InvalidArgument e), db)"
      using publish_draft [OF ok draft assms(2) publish_field_ok [OF fields(1)] publish_field_ok [OF fields(2)] refl, of now] by (auto simp: Let_def)
  qed
qed

definition strict_db :: "json config_db" where
  "strict_db = run_configs demo_lib demo_limits (demo_commands @ [(6, CSetSchema demo_scope (Some (JBool True)))]) empty_config"

lemma run_configs_append: "run_configs lib self (cmds @ cmds') db = run_configs lib self cmds' (run_configs lib self cmds db)"
  by (induction lib self cmds db rule: run_configs.induct) simp_all

lemma strict_value: "strict_db = set_scope_schema 6 (Some (JBool True)) 1 (draw_scope_id demo_db)"
proof -
  have "strict_db = snd (run_config demo_lib demo_limits 6 (CSetSchema demo_scope (Some (JBool True))) demo_db)"
    by (simp add: strict_db_def run_configs_append demo_db_def)
  also have "\<dots> = set_scope_schema 6 (Some (JBool True)) 1 (draw_scope_id demo_db)" unfolding demo_value by code_simp
  finally show ?thesis .
qed

lemma strict_reads: "ConfigStore_get_schema demo_scope strict_db = (Inr (Some (JBool True)), strict_db)"
    "ConfigStore_get_draft demo_lib demo_scope strict_db = (Inr demo_draft, strict_db)"
  unfolding strict_value demo_value by code_simp+

theorem schema_enforced_witness:
  "ConfigStore_upsert_item demo_lib demo_limits 7 demo_scope ''d'' JNull strict_db =
     (Inl (InvalidArgument ''config key d failed JSON schema validation: not equal''), strict_db) \<and>
   (\<exists>e. ConfigStore_publish demo_lib 7 demo_scope ''third'' ''bob'' strict_db = (Inl (InvalidArgument e), strict_db))"
proof -
  have "validate_config_key ''d'' = Inr ()" "ConfigStore_validate_payload_size demo_lib demo_limits JNull = Inr ()" by code_simp+
  then show ?thesis
    using schema_enforced [OF strict_db_def strict_reads(1), of "''d''" JNull "''not equal''" 7 "''third''" "''bob''" demo_draft
        "\<lparr>ci_key = ''c'', ci_value = JBool False, ci_deleted = False, ci_updated_at = 5\<rparr>"] strict_reads(2)
    by (simp add: demo_draft_def) (simp add: demo_lib_def)
qed

text \<open>
  C7. A published release never changes: whatever runs later, its revision returns the same release. And
  edits of the draft and of the schema are not visible to clients: only a publication changes the
  latest release of a scope.
\<close>

theorem releases_immutable:
  assumes "db = run_configs lib self cmds empty_config" "later = run_configs lib self edits db"
  shows "(0 < n \<and> ConfigStore_get_release scope n db = (Inr r, db) \<longrightarrow> ConfigStore_get_release scope n later = (Inr r, later)) \<and>
    (list_all (\<lambda>(now, cmd). publishes cmd \<noteq> Some scope) edits \<longrightarrow>
      fst (ConfigStore_get_latest_release scope later) = fst (ConfigStore_get_latest_release scope db))"
proof -
  have ok: "config_ok db" unfolding assms(1) by (rule run_configs_ok)
  have later: "config_ok later" unfolding assms(2) by (rule tables.run_configs_keeps [OF ok]) (auto simp: pred_option_def)
  show ?thesis
  proof (intro conjI impI; (elim conjE)?)
    assume r: "0 < n" "ConfigStore_get_release scope n db = (Inr r, db)"
    then have valid: "validate_scope scope = Inr ()" by (cases "validate_scope scope") (simp_all add: ConfigStore_get_release_def)
    from r obtain row where row: "row \<in> set (releases_view scope db)" "rl_revision row = n" "r = row_to_release scope row"
      by (rule Config_get_release_Inr [OF ok valid])
    have "config_ok later \<and> row \<in> set (releases_view scope later)"
      unfolding assms(2) by (rule kept.run_configs_keeps) (use ok row(1) in \<open>auto simp: pred_option_def\<close>)
    then show "ConfigStore_get_release scope n later = (Inr r, later)" using Config_get_release_found [OF later valid, of row] row(2,3) by simp
  next
    assume quiet: "list_all (\<lambda>(now, cmd). publishes cmd \<noteq> Some scope) edits"
    have "config_ok later \<and> releases_view scope later = releases_view scope db"
      unfolding assms(2) by (rule unpublished.run_configs_keeps) (use ok quiet in \<open>auto simp: pred_option_def list_all_iff\<close>)
    then show "fst (ConfigStore_get_latest_release scope later) = fst (ConfigStore_get_latest_release scope db)"
      using Config_get_latest_view [OF later] Config_get_latest_view [OF ok]
      by (cases "validate_scope scope") (simp_all add: ConfigStore_get_latest_release_def)
  qed
qed

theorem releases_immutable_witness:
  "fst (ConfigStore_get_release demo_scope 1 strict_db) = fst (ConfigStore_get_release demo_scope 1 demo_db) \<and>
   fst (ConfigStore_get_latest_release demo_scope strict_db) = fst (ConfigStore_get_latest_release demo_scope demo_db)"
proof -
  have later: "strict_db = run_configs demo_lib demo_limits [(6, CSetSchema demo_scope (Some (JBool True)))] demo_db"
    by (simp add: strict_db_def demo_db_def run_configs_append)
  have "\<exists>r. ConfigStore_get_release demo_scope 1 demo_db = (Inr r, demo_db)"
    using Config_get_release_found [of demo_db demo_scope "hd (cf_releases demo_db)"] demo_reads(3) run_configs_ok [of demo_lib demo_limits demo_commands]
    by (simp add: demo_db_def [symmetric]) (simp add: demo_value releases_view_def scope_row_def releases_of_def)
  then show ?thesis using releases_immutable [OF demo_db_def later, of 1 demo_scope] by auto
qed


section \<open>Scopes and pages\<close>

text \<open>
  C22. Scopes do not meet: after any commands that write other scopes, a scope has the draft, the schema,
  the releases and the answer to a watch that it had before.
\<close>

theorem config_scopes_isolated:
  assumes "db = run_configs lib self cmds empty_config" "list_all (\<lambda>(now, cmd). writes cmd \<noteq> Some scope) elsewhere"
    and "later = run_configs lib self elsewhere db"
    and "cmd \<in> {CGetDraft scope, CGetSchema scope, CGetRelease scope n, CListReleases scope limit offset, CLook scope known}"
  shows "fst (run_config lib self now cmd later) = fst (run_config lib self now cmd db)"
proof -
  have ok: "config_ok db" unfolding assms(1) by (rule run_configs_ok)
  have same: "config_ok later \<and> scope_view scope later = scope_view scope db" unfolding assms(3)
    by (rule elsewhere.run_configs_keeps) (use ok assms(2) in \<open>auto simp: list_all_iff pred_option_def\<close>)
  then have rows: "release_rows scope later = release_rows scope db" using ok by (simp add: release_rows_view releases_view_scope_view)
  have row: "scope_row scope later = scope_row scope db"
    using same by (auto simp: scope_view_def map_option_case split: option.splits)
  have look: "fst (watch_once scope known later) = fst (watch_once scope known db)"
    unfolding watch_once_def latest_newer_than_def current_revision_def rows row by simp
  show ?thesis
  proof (cases "validate_scope scope")
    case (Inl e)
    with assms(4) rows row show ?thesis
      by (auto simp: reply_result ConfigStore_get_draft_def ConfigStore_get_schema_def ConfigStore_get_release_def ConfigStore_list_releases_def look)
  next
    case (Inr u)
    then have valid: "validate_scope scope = Inr ()" by simp
    with assms(4) rows row same show ?thesis
      by (auto simp: reply_result Config_get_draft_view [OF valid] Config_get_schema_view [OF valid] ConfigStore_get_release_def
          ConfigStore_get_latest_release_def ConfigStore_list_releases_def look given_def split: sum.split)
  qed
qed

definition other_scope_commands :: "(int \<times> json config_command) list" where
  "other_scope_commands = [(6, CUpsert (demo_scope\<lparr>gs_environment := ''staging''\<rparr>) ''b'' JNull), (7, CPublish (demo_scope\<lparr>gs_environment := ''staging''\<rparr>) [] [])]"

theorem config_scopes_isolated_witness:
  "fst (run_config demo_lib demo_limits 8 (CGetDraft demo_scope) (run_configs demo_lib demo_limits other_scope_commands demo_db)) = Inr (GDraft demo_draft)"
proof -
  have "demo_scope\<lparr>gs_environment := ''staging''\<rparr> \<noteq> demo_scope" by (simp add: demo_scope_def)
  then have "list_all (\<lambda>(now, cmd). writes cmd \<noteq> Some demo_scope) other_scope_commands" by (simp add: other_scope_commands_def)
  from config_scopes_isolated [OF demo_db_def this refl, of "CGetDraft demo_scope"] show ?thesis by (simp add: reply_result demo_reads(1))
qed

text \<open>
  C23. Following the offsets of the pages of releases from the start ends, and gives every revision of the
  scope once, newest first, as it can be read on its own; whatever the size of the pages.
\<close>

theorem release_pages_complete:
  assumes "db = run_configs lib self cmds empty_config" "validate_scope scope = Inr ()" "0 < cl_max_page_size self" "pred_option ((<) 0) limit"
  shows "\<exists>releases. follow_pages (ConfigStore_list_releases self scope limit) 0 db = Some (Inr releases) \<and>
    map cr_revision releases = rev [1..current_revision scope db] \<and>
    list_all (\<lambda>r. ConfigStore_get_release scope (cr_revision r) db = (Inr r, db)) releases"
proof -
  have ok: "config_ok db" unfolding assms(1) by (rule run_configs_ok)
  let ?releases = "map (row_to_release scope) (rev (releases_view scope db))"
  have "follow_pages (ConfigStore_list_releases self scope limit) 0 db = Some (Inr ?releases)"
    using release_pages.pages_complete [OF assms(2-4), of 0 db] by (simp add: release_rows_view [OF ok])
  moreover have "map cr_revision ?releases = rev [1..current_revision scope db]"
    by (simp add: row_to_release_def comp_def flip: rev_map releases_view_revisions(1) [OF ok])
  moreover have "list_all (\<lambda>r. ConfigStore_get_release scope (cr_revision r) db = (Inr r, db)) ?releases"
    using Config_get_release_found [OF ok assms(2)] by (simp add: list_all_iff row_to_release_def [THEN arg_cong [of _ _ cr_revision]])
  ultimately show ?thesis by blast
qed

definition demo_released :: "json config_db" where
  "demo_released = run_configs demo_lib demo_limits
     (demo_commands @ [(6, CPublish demo_scope ''second'' ''ann''), (7, CPublish demo_scope ''third'' ''bob'')]) empty_config"

theorem release_pages_complete_witness:
  "\<exists>releases. follow_pages (ConfigStore_list_releases demo_limits demo_scope (Some 1)) 0 demo_released = Some (Inr releases) \<and>
     map cr_revision releases = [3, 2, 1]"
proof -
  have current: "rev [1..current_revision demo_scope demo_released] = [3, 2, 1]" by code_simp
  from release_pages_complete [OF demo_released_def demo_reads(3), of "Some 1"] show ?thesis
    by (simp only: current) (auto simp: demo_limits_def)
qed


section \<open>Watching\<close>

lemma watch_calls_store:
  assumes "kg_enabled self" "required_scope (WatchConfigRequest_scope req) = Inr scope"
    and "validate_watch (kg_store self) scope (i64 (WatchConfigRequest_knownRevision req)) (i64 (WatchConfigRequest_timeoutSeconds req)) = Inr ()"
    and "lb_deadline lib (sv_now s) (i64 (WatchConfigRequest_timeoutSeconds req)) = Some deadline"
  shows "ConfigGrpc_watch lib self others req s = await_waiting (lb_db_text lib) ''config'' ''watch''
    (\<lambda>st. poll_loop (\<lambda>now. watch_once scope (i64 (WatchConfigRequest_knownRevision req))) cw_changed others (Some (sv_now s + kg_request_timeout self))
      (poll_interval 100) deadline 0 (sv_db s, sv_now s)) (watch_response lib) s"
  using assms by (simp add: ConfigGrpc_watch_def ConfigGrpc_ensure_enabled_def ConfigStore_watch_def await_waiting_def)

text \<open>
  C20. A watch returns, whatever others do meanwhile: with a timeout only when the server allows requests
  no more time, otherwise with what the tables say at its end; it reports a change with the latest
  release beyond the known revision, and no change only when its time is over. A change that is
  there already is reported at once.
\<close>

theorem watch_returns:
  assumes "time_passes others" "kg_enabled self" "required_scope (WatchConfigRequest_scope req) = Inr scope"
    and "known = i64 (WatchConfigRequest_knownRevision req)" "seconds = i64 (WatchConfigRequest_timeoutSeconds req)"
    and "validate_watch (kg_store self) scope known seconds = Inr ()" "lb_deadline lib (sv_now s) seconds = Some deadline"
  shows "\<exists>r s'. ConfigGrpc_watch lib self others req s = Some (Some (r, s')) \<and>
    (case r of Inl status \<Rightarrow> status = request_timed_out \<and> sv_now s + kg_request_timeout self \<le> sv_now s'
     | Inr resp \<Rightarrow> \<exists>x. watch_once scope known (sv_db s') = (Inr x, sv_db s') \<and> resp = watch_response lib x \<and> (cw_changed x \<or> deadline \<le> sv_now s')) \<and>
    (latest_newer_than scope known (sv_db s) \<noteq> None \<and> 0 < kg_request_timeout self \<longrightarrow> \<not> isl r \<and> sv_db s' = sv_db s \<and> sv_now s' = sv_now s)"
proof -
  let ?op = "poll_loop (\<lambda>now. watch_once scope known) cw_changed others (Some (sv_now s + kg_request_timeout self)) (poll_interval 100) deadline"
  obtain out where out: "?op 0 (sv_db s, sv_now s) = Some out" "waited cw_changed deadline (Some (sv_now s + kg_request_timeout self)) out"
    using poll_loop_returns [OF assms(1) poll_interval_pos] by blast
  have call: "ConfigGrpc_watch lib self others req s = await_waiting (lb_db_text lib) ''config'' ''watch'' (\<lambda>st. ?op 0 (sv_db s, sv_now s)) (watch_response lib) s"
    using watch_calls_store [OF assms(2,3), of lib s deadline] assms(4-7) by simp
  have once: "?op 0 (sv_db s, sv_now s) = Some (Returned (fst (watch_once scope known (sv_db s))) (sv_db s, sv_now s))"
    if "latest_newer_than scope known (sv_db s) \<noteq> None" "0 < kg_request_timeout self"
    using that by (subst poll_loop.simps) (auto simp: given_up_def watch_once_def)
  show ?thesis
  proof (cases out)
    case (Returned r st)
    with poll_loop_answer out(1) have "\<exists>db. watch_once scope known db = (r, fst st)" by blast
    then obtain x where x: "r = Inr x" "watch_once scope known (fst st) = (Inr x, fst st)" by (auto simp: watch_once_def)
    from Returned out x once show ?thesis unfolding call
      by (cases st) (auto simp: await_waiting_def after_waiting_def record_rpc_def await_def)
  next
    case (GaveUp st)
    with out once show ?thesis unfolding call
      by (cases st) (auto simp: await_waiting_def after_waiting_def record_rpc_def given_up_def)
  qed (use out(2) in simp)
qed

definition demo_grpc :: ConfigGrpc where
  "demo_grpc = \<lparr>kg_store = demo_limits, kg_enabled = True, kg_request_timeout = 30000000\<rparr>"

definition demo_server :: "json config_server" where
  "demo_server = \<lparr>sv_now = 10, sv_latency = 0, sv_db = demo_db, sv_metrics = (\<lambda>_. None)\<rparr>"

definition demo_watch :: "int \<Rightarrow> WatchConfigRequest" where
  "demo_watch known = \<lparr>unknownFields = [], WatchConfigRequest_scope = Some (to_proto_scope demo_scope), WatchConfigRequest_knownRevision = dec known,
     WatchConfigRequest_timeoutSeconds = dec 30\<rparr>"

definition nobody :: "'v config_db world" where
  "nobody n d st = (fst st, snd st + d)"

lemma nobody_waits: "time_passes nobody"
  by (simp add: time_passes_def nobody_def)

lemma to_proto_scope_required [simp]: "required_scope (Some (to_proto_scope scope)) = Inr scope"
  by (simp add: required_scope_def to_proto_scope_def)

lemma demo_watch_valid:
  "required_scope (WatchConfigRequest_scope (demo_watch known)) = Inr demo_scope" "known = i64 (WatchConfigRequest_knownRevision (demo_watch known))"
  "30 = i64 (WatchConfigRequest_timeoutSeconds (demo_watch known))"
  "0 \<le> known \<Longrightarrow> validate_watch (kg_store demo_grpc) demo_scope known 30 = Inr ()"
  "lb_deadline demo_lib (sv_now demo_server) 30 = Some 30000010"
  using demo_reads(3) by (simp_all add: demo_watch_def validate_watch_def demo_grpc_def demo_limits_def demo_lib_def demo_server_def)

lemma demo_latest: "latest_newer_than demo_scope known (sv_db demo_server) = (if known < 1 then Some \<lparr>cr_scope = demo_scope, cr_revision = 1,
    cr_checksum = ''c10'', cr_snapshot = JObj [(''b'', JBool True)], cr_message = ''first'', cr_published_by = ''ann'', cr_published_at = 4\<rparr> else None)"
  by (simp add: latest_newer_than_def release_rows_def demo_server_def demo_value row_to_release_def)

theorem watch_returns_witness:
  "\<exists>resp s'. ConfigGrpc_watch demo_lib demo_grpc nobody (demo_watch 0) demo_server = Some (Some (Inr resp, s')) \<and>
    WatchConfigResponse_changed resp \<and> WatchConfigResponse_latestRevision resp = dec 1"
proof -
  obtain r s' where "ConfigGrpc_watch demo_lib demo_grpc nobody (demo_watch 0) demo_server = Some (Some (r, s'))" "\<not> isl r" "sv_db s' = sv_db demo_server"
    "case r of Inl status \<Rightarrow> status = request_timed_out \<and> sv_now demo_server + kg_request_timeout demo_grpc \<le> sv_now s'
     | Inr resp \<Rightarrow> \<exists>x. watch_once demo_scope 0 (sv_db s') = (Inr x, sv_db s') \<and> resp = watch_response demo_lib x \<and> (cw_changed x \<or> 30000010 \<le> sv_now s')"
    using watch_returns [OF nobody_waits _ demo_watch_valid(1,2,3) demo_watch_valid(4) demo_watch_valid(5), of 0] demo_latest [of 0]
    by (auto simp: demo_grpc_def)
  then show ?thesis using demo_latest [of 0] by (cases r) (auto simp: watch_once_def watch_response_def WatchConfigResponse_create_def)
qed

text \<open>
  C21. A watch that asks for as much time as the server allows a request does not end with the answer
  that nothing has changed: when nothing is published, it ends with the error that the request timed
  out. With the default limits this is so for a watch of the longest time allowed, 30 seconds.
\<close>

theorem full_watch_times_out:
  assumes "time_passes others" "\<And>n d st. fst (others n d st) = fst st" "kg_enabled self" "required_scope (WatchConfigRequest_scope req) = Inr scope"
    and "known = i64 (WatchConfigRequest_knownRevision req)" "seconds = i64 (WatchConfigRequest_timeoutSeconds req)"
    and "validate_watch (kg_store self) scope known seconds = Inr ()" "lb_deadline lib (sv_now s) seconds = Some deadline"
    and "latest_newer_than scope known (sv_db s) = None" "sv_now s + kg_request_timeout self \<le> deadline"
  shows "\<exists>s'. ConfigGrpc_watch lib self others req s = Some (Some (Inl request_timed_out, s'))"
proof -
  obtain now' where "poll_loop (\<lambda>now. watch_once scope known) cw_changed others (Some (sv_now s + kg_request_timeout self)) (poll_interval 100)
      deadline 0 (sv_db s, sv_now s) = Some (GaveUp (sv_db s, now'))"
    using poll_loop_gives_up [OF assms(1) poll_interval_pos [of 100] assms(2), where attempt = "\<lambda>now. watch_once scope known" and settled = cw_changed
        and db = "sv_db s" and x = "\<lparr>cw_changed = False, cw_latest_revision = current_revision scope (sv_db s), cw_release = None\<rparr>"
        and t = "sv_now s + kg_request_timeout self" and deadline = deadline and n = 0 and now = "sv_now s"] assms(9,10)
    by (auto simp: watch_once_def)
  then show ?thesis using watch_calls_store [OF assms(3,4), of lib s deadline] assms(5-8)
    by (simp add: await_waiting_def after_waiting_def record_rpc_def split: prod.split)
qed

theorem full_watch_times_out_witness:
  "\<exists>s'. ConfigGrpc_watch demo_lib demo_grpc nobody (demo_watch 1) demo_server = Some (Some (Inl request_timed_out, s'))"
  by (rule full_watch_times_out [OF nobody_waits _ _ demo_watch_valid(1,2,3) demo_watch_valid(4) demo_watch_valid(5)])
    (simp_all add: nobody_def demo_grpc_def demo_latest, simp add: demo_server_def)


section \<open>The SDK and the service\<close>

text \<open>A publication that succeeded, seen from the draft it published.\<close>

lemma published_release:
  assumes ok: "config_ok db" and draft: "ConfigStore_get_draft lib scope db = (Inr items, db)"
    and "ConfigStore_publish lib now scope message published_by db = (Inr x, db')"
    and snapshot: "snapshot = lb_object lib (map (\<lambda>i. (ci_key i, ci_value i)) (filter (\<lambda>i. \<not> ci_deleted i) items))" "lb_jsonb lib snapshot = Inr stored"
  shows "ConfigStore_get_latest_release scope db' = (Inr \<lparr>cr_scope = scope, cr_revision = current_revision scope db + 1,
    cr_checksum = lb_sha256 lib (lb_print lib snapshot), cr_snapshot = stored, cr_message = message, cr_published_by = published_by, cr_published_at = now\<rparr>, db')"
proof -
  note valid = get_draft_valid [OF draft]
  have fields: "validate_publish_field ''message'' message = Inr ()" "validate_publish_field ''published_by'' published_by = Inr ()"
    using assms(3) valid by (auto simp: ConfigStore_publish_def check_def split: sum.splits)
  obtain schema where schema: "ConfigStore_get_schema scope db = (Inr schema, db)" using Config_get_schema_view [OF valid] by blast
  obtain r where r: "rl_revision r = current_revision scope db + 1" "rl_message r = message" "rl_published_by r = published_by" "rl_published_at r = now"
    "rl_checksum r = checksum_json lib snapshot" "rl_snapshot r = stored" "config_ok db'" "releases_view scope db' = releases_view scope db @ [r]"
    using publish_draft [OF ok draft schema fields refl, of now] assms(3) snapshot by (auto simp: Let_def split: option.splits)
  show ?thesis using Config_get_latest_view [OF r(7) valid] r by (simp add: row_to_release_def checksum_json_def)
qed


text \<open>
  C5. What is published can be read through the SDK: after a publication that the service answered,
  \<open>getLatestRelease\<close> returns the next revision with the active items of the draft as a JSON value, its
  checksum and the data of the publication. This holds for a transport that speaks the wire format and
  whatever happened before.
\<close>

theorem sdk_reads_published_config:
  fixes this :: "('w, 'r, 'v config_server) PGAppClient"
  assumes "rpc_link (pc_transport this) E st rest skippable" "serves_ConfigService_GetRelease (pc_transport this) (behind raise (ConfigGrpc_get_release lib self))"
    and "sv_db s = run_configs lib (kg_store self) cmds empty_config" "required_scope (Some scope) = Inr core"
    and "ConfigStore_get_draft lib core (sv_db s) = (Inr items, sv_db s)"
    and "ConfigGrpc_publish lib self \<lparr>unknownFields = [], PublishConfigRequest_scope = Some scope, PublishConfigRequest_message = message,
      PublishConfigRequest_publishedBy = published_by\<rparr> s = (Inr resp, s1)"
    and "snapshot = lb_object lib (map (\<lambda>i. (ci_key i, ci_value i)) (filter (\<lambda>i. \<not> ci_deleted i) items))" "lb_jsonb lib snapshot = Inr stored"
    and "JSON_parse (lb_print lib stored) = Inr j" "revision = current_revision core (sv_db s) + 1" "safe_int revision"
    and "release = to_proto_release lib \<lparr>cr_scope = core, cr_revision = revision, cr_checksum = lb_sha256 lib (lb_print lib snapshot), cr_snapshot = stored,
      cr_message = message, cr_published_by = published_by, cr_published_at = sv_now s\<rparr>"
    and "length (ConfigRelease_encode E release) < 2147483648" "length (GetConfigReleaseRequest_encode E \<lparr>unknownFields = [],
      GetConfigReleaseRequest_scope = Some (copyScope scope), GetConfigReleaseRequest_revision = dec 0\<rparr>) < 2147483648"
  shows "\<exists>s2. ConfigClient_getLatestRelease this scope s1 = (Some (Inr \<lparr>rs_scope = Some (copyScope scope), rs_revision = IntNum revision,
    rs_checksum = lb_sha256 lib (lb_print lib snapshot), rs_snapshot = j, rs_message = message, rs_publishedBy = published_by,
    rs_publishedAt = lb_rfc3339 lib (sv_now s)\<rparr>), s2)"
proof -
  have ok: "config_ok (sv_db s)" unfolding assms(3) by (rule run_configs_ok)
  have scope: "required_scope (Some (copyScope scope)) = Inr core" "to_proto_scope core = copyScope scope"
    using assms(4) by (auto simp: required_scope_def copyScope_def to_proto_scope_def ConfigScope_create_def)
  obtain x where enabled: "kg_enabled self" and pub: "ConfigStore_publish lib (sv_now s) core message published_by (sv_db s) = (Inr x, sv_db s1)"
    using assms(4,6) by (auto simp: ConfigGrpc_publish_def on_scope_def record_rpc_def require_def ConfigGrpc_ensure_enabled_def await_def
        split: if_splits prod.splits sum.splits)
  have "latest_release lib self s1 (copyScope scope) = Some release"
    using published_release [OF ok assms(5) pub assms(7,8)] enabled scope(1) assms(10,12) by (simp add: latest_release_def)
  moreover have "in_int64 revision" using assms(11) by (simp add: safe_int_def abs_le_iff)
  then have "ConfigRelease_ok skippable release"
    by (simp add: assms(12) to_proto_release_def ConfigRelease_create_def ConfigRelease_ok_def unknown_ok_def scope(2) int64_ok_def)
  moreover have "JSON_parse (ConfigRelease_snapshotJson release) = Inr j" using assms(9,12) by (simp add: to_proto_release_def)
  ultimately show ?thesis
    using reader.sdk_latest [OF assms(1,2), of s1 scope release j] assms(11-14) by (auto simp: to_proto_release_def scope(2) js_Number_safe)
qed

text \<open>A transport with the method, and the draft of the example published.\<close>

definition config_client :: "(bytes list, nat \<times> bytes, json config_server) PGAppClient" where
  "config_client = PGAppClient_new (\<lambda>host. proto_env (dispatch ''pgapp.v1.ConfigService''
     (unaryMethod ''GetRelease'' ''pgapp.v1.GetConfigReleaseRequest'' ''pgapp.v1.ConfigRelease'')
     (GetConfigReleaseRequest_internalBinaryRead proto_R RU_true) (ConfigRelease_internalBinaryWrite proto_W WU_true)
     (behind (\<lambda>status. mkError (s_message status)) (ConfigGrpc_get_release demo_lib demo_grpc))) (\<lambda>service m opt bs s. (([], None), s))) None None"

theorem sdk_reads_published_config_witness:
  "\<exists>s2. ConfigClient_getLatestRelease config_client (to_proto_scope demo_scope) (snd (ConfigGrpc_publish demo_lib demo_grpc \<lparr>unknownFields = [],
      PublishConfigRequest_scope = Some (to_proto_scope demo_scope), PublishConfigRequest_message = ''second'', PublishConfigRequest_publishedBy = ''bob''\<rparr> demo_server)) =
    (Some (Inr \<lparr>rs_scope = Some (to_proto_scope demo_scope), rs_revision = IntNum 2, rs_checksum = ''c20'',
      rs_snapshot = JObj [(''b'', JBool True), (''c'', JBool False)], rs_message = ''second'', rs_publishedBy = ''bob'', rs_publishedAt = ''10''\<rparr>), s2)"
proof -
  let ?raise = "\<lambda>status. mkError (s_message status)"
  let ?snapshot = "JObj [(''b'', JBool True), (''c'', JBool False)]"
  let ?preq = "\<lparr>unknownFields = [], PublishConfigRequest_scope = Some (to_proto_scope demo_scope), PublishConfigRequest_message = ''second'',
    PublishConfigRequest_publishedBy = ''bob''\<rparr>"
  let ?release = "to_proto_release demo_lib \<lparr>cr_scope = demo_scope, cr_revision = 2, cr_checksum = lb_sha256 demo_lib (lb_print demo_lib ?snapshot),
    cr_snapshot = ?snapshot, cr_message = ''second'', cr_published_by = ''bob'', cr_published_at = sv_now demo_server\<rparr>"
  have link: "rpc_link (pc_transport config_client) proto_E (\<lambda>w. w) snd p_payload"
    and serves: "serves_ConfigService_GetRelease (pc_transport config_client) (behind ?raise (ConfigGrpc_get_release demo_lib demo_grpc))"
    unfolding config_client_def PGAppClient_new_def Let_def by (simp_all add: proto_link serves_def dispatch_def)
  have db: "sv_db demo_server = run_configs demo_lib (kg_store demo_grpc) demo_commands empty_config"
    by (simp add: demo_server_def demo_grpc_def demo_db_def)
  have draft: "ConfigStore_get_draft demo_lib demo_scope (sv_db demo_server) = (Inr demo_draft, sv_db demo_server)"
    using demo_reads(1) by (simp add: demo_server_def)
  have "\<not> isl (fst (ConfigGrpc_publish demo_lib demo_grpc ?preq demo_server))" unfolding demo_server_def demo_value by code_simp
  then obtain resp s1 where pub: "ConfigGrpc_publish demo_lib demo_grpc ?preq demo_server = (Inr resp, s1)"
    by (cases "ConfigGrpc_publish demo_lib demo_grpc ?preq demo_server"; cases "fst (ConfigGrpc_publish demo_lib demo_grpc ?preq demo_server)") auto
  have printed: "lb_sha256 demo_lib (lb_print demo_lib ?snapshot) = ''c20''" "JSON_parse (lb_print demo_lib ?snapshot) = Inr ?snapshot"
    "lb_rfc3339 demo_lib (sv_now demo_server) = ''10''" "lb_print demo_lib ?snapshot = ''{\"b\":true,\"c\":false}''" by code_simp+
  have copy: "copyScope (to_proto_scope demo_scope) = to_proto_scope demo_scope" by (simp add: copyScope_def to_proto_scope_def ConfigScope_create_def)
  have small: "length (ConfigRelease_encode proto_E ?release) < 2147483648"
    "length (GetConfigReleaseRequest_encode proto_E \<lparr>unknownFields = [], GetConfigReleaseRequest_scope = Some (to_proto_scope demo_scope),
      GetConfigReleaseRequest_revision = dec 0\<rparr>) < 2147483648"
    unfolding ConfigRelease_encode_def GetConfigReleaseRequest_encode_def ConfigScope_encode_def
    by (rule le_less_trans, (rule wire_size)+, simp add: to_proto_release_def to_proto_scope_def ConfigRelease_create_def ConfigScope_create_def demo_scope_def printed printed(1) [unfolded printed(4)])+
  have snapshot: "?snapshot = lb_object demo_lib (map (\<lambda>i. (ci_key i, ci_value i)) (filter (\<lambda>i. \<not> ci_deleted i) demo_draft))"
    "lb_jsonb demo_lib ?snapshot = Inr ?snapshot" by (simp_all add: demo_lib_def demo_draft_def)
  have revision: "2 = current_revision demo_scope (sv_db demo_server) + 1" "safe_int 2" using demo_reads(4) by (simp_all add: demo_server_def safe_int_def)
  show ?thesis
    using sdk_reads_published_config [OF link serves db to_proto_scope_required draft pub snapshot printed(2) revision refl small(1)] small(2)
    unfolding copy by (simp add: printed(1-3) pub)
qed

end
