(* ===== verification/Client_Auth.thy ===== *)
theory Client_Auth
  imports Rpc_Server "HOL-Library.List_Lexorder"
begin

text \<open>
  Client credentials: \<open>ClientStore\<close> of \<open>crates/pgapp-core/src/client_auth.rs\<close> over its table
  (\<open>migrations/0006_auth.sql\<close>), and \<open>AuthService\<close> of \<open>crates/pgapp-server/src/auth.rs\<close>, which stands in
  front of all services. SHA-256, Argon2 and random UUIDs are a record of functions. The roles of a
  client are identifiers, which JSON and JSONB give back as they are; they are a list here.
\<close>


section \<open>The table\<close>

record client_row =
  uc_id :: int
  uc_client_key :: string
  uc_key_hash :: string
  uc_secret_hash :: string
  uc_active :: bool
  uc_roles :: "string list"
  uc_created_at :: int
  uc_updated_at :: int

text \<open>The clients, the next id, and how many secrets have been drawn.\<close>

record auth_db =
  au_clients :: "client_row list"
  au_next_id :: int
  au_draws :: nat

definition no_clients :: auth_db where
  "no_clients = \<lparr>au_clients = [], au_next_id = 1, au_draws = 0\<rparr>"

text \<open>
  SHA-256 of a key in hexadecimal, the UUIDs drawn, the hash of a password with the salt of a draw (or
  why it fails), and the check of a password against a stored hash (or why the hash is not one).
\<close>

record auth_lib =
  al_hash_key :: "string \<Rightarrow> string"
  al_uuid :: "nat \<Rightarrow> string"
  al_hash_password :: "nat \<Rightarrow> string \<Rightarrow> string + string"
  al_verify_password :: "string \<Rightarrow> string \<Rightarrow> string + bool"
  al_db_text :: "db_error \<Rightarrow> string"

record CreatedClient =
  nc_id :: int
  nc_client_key :: string
  nc_secret :: string
  nc_roles :: "string list"

record ClientIdentity =
  id_id :: int
  id_client_key :: string
  id_roles :: "string list"

record ClientRecord =
  rc_id :: int
  rc_client_key :: string
  rc_active :: bool
  rc_roles :: "string list"
  rc_created_at :: int
  rc_updated_at :: int


section \<open>Operations\<close>

definition validate_client_key :: "string \<Rightarrow> pg_error + unit" where
  "validate_client_key client_key = validate_config_component ''client_key'' client_key"

fun validate_roles :: "string list \<Rightarrow> pg_error + unit" where
  "validate_roles [] = Inr ()"
| "validate_roles (role # roles) = (case validate_config_component ''role'' role of Inl e \<Rightarrow> Inl e | Inr _ \<Rightarrow> validate_roles roles)"

definition generate_secret :: "auth_lib \<Rightarrow> nat \<Rightarrow> string" where
  "generate_secret lib n = ''pgapp_'' @ al_uuid lib (2 * n) @ ''_'' @ al_uuid lib (2 * n + 1)"

definition hash_secret :: "auth_lib \<Rightarrow> nat \<Rightarrow> string \<Rightarrow> pg_error + string" where
  "hash_secret lib n secret = (case al_hash_password lib n secret of
     Inl err \<Rightarrow> Inl (InvalidArgument (''failed to hash client secret: '' @ err)) | Inr h \<Rightarrow> Inr h)"

definition verify_secret :: "auth_lib \<Rightarrow> string \<Rightarrow> string \<Rightarrow> pg_error + bool" where
  "verify_secret lib secret_hash secret = (case al_verify_password lib secret_hash secret of
     Inl err \<Rightarrow> Inl (Database (OwnText (''invalid stored client secret hash: '' @ err))) | Inr b \<Rightarrow> Inr b)"

text \<open>A secret drawn, with its salted hash.\<close>

definition draw_secret :: "auth_lib \<Rightarrow> (string \<Rightarrow> string \<Rightarrow> (auth_db, 'a) sql_op) \<Rightarrow> (auth_db, 'a) sql_op" where
  "draw_secret lib f db = (let n = au_draws db; secret = generate_secret lib n
     in given (hash_secret lib n secret) (f secret) (db\<lparr>au_draws := n + 1\<rparr>))"

text \<open>
  \<open>INSERT INTO pgapp_clients\<close>, with \<open>map_create_error\<close> for a key hash that is there already. The
  sequence gives a number also to an insertion that meets a conflict.
\<close>

definition insert_client :: "auth_lib \<Rightarrow> int \<Rightarrow> string \<Rightarrow> string \<Rightarrow> string list \<Rightarrow> (auth_db, int) sql_op" where
  "insert_client lib now client_key secret_hash roles db = (if list_ex (\<lambda>c. uc_key_hash c = al_hash_key lib client_key) (au_clients db)
     then (Inl (Conflict ''client key already exists''), db\<lparr>au_next_id := au_next_id db + 1\<rparr>)
     else (Inr (au_next_id db), db\<lparr>au_clients := au_clients db @ [\<lparr>uc_id = au_next_id db, uc_client_key = client_key,
         uc_key_hash = al_hash_key lib client_key, uc_secret_hash = secret_hash, uc_active = True, uc_roles = roles,
         uc_created_at = now, uc_updated_at = now\<rparr>], au_next_id := au_next_id db + 1\<rparr>))"

definition ClientStore_create_client :: "auth_lib \<Rightarrow> int \<Rightarrow> string \<Rightarrow> string list \<Rightarrow> (auth_db, CreatedClient) sql_op" where
  "ClientStore_create_client lib now client_key roles = check (validate_client_key client_key) (check (validate_roles roles)
     (draw_secret lib (\<lambda>secret secret_hash. andThen (insert_client lib now client_key secret_hash roles) (\<lambda>i db.
       (Inr \<lparr>nc_id = i, nc_client_key = client_key, nc_secret = secret, nc_roles = roles\<rparr>, db)))))"

text \<open>\<open>WHERE key_hash = $1 AND active = true\<close>\<close>

definition active_client :: "auth_lib \<Rightarrow> string \<Rightarrow> client_row \<Rightarrow> bool" where
  "active_client lib client_key c \<longleftrightarrow> uc_key_hash c = al_hash_key lib client_key \<and> uc_active c"

definition ClientStore_authenticate :: "auth_lib \<Rightarrow> string \<Rightarrow> string \<Rightarrow> (auth_db, ClientIdentity option) sql_op" where
  "ClientStore_authenticate lib client_key secret db = (if client_key = [] \<or> secret = [] then (Inr None, db)
     else case find (active_client lib client_key) (au_clients db) of None \<Rightarrow> (Inr None, db)
     | Some c \<Rightarrow> (case verify_secret lib (uc_secret_hash c) secret of Inl e \<Rightarrow> (Inl e, db)
       | Inr b \<Rightarrow> (Inr (if b then Some \<lparr>id_id = uc_id c, id_client_key = uc_client_key c, id_roles = uc_roles c\<rparr> else None), db)))"

text \<open>\<open>UPDATE pgapp_clients SET ... WHERE key_hash = $1 AND active = true\<close>\<close>

definition update_clients :: "auth_lib \<Rightarrow> string \<Rightarrow> (client_row \<Rightarrow> client_row) \<Rightarrow> auth_db \<Rightarrow> auth_db" where
  "update_clients lib client_key f db = db\<lparr>au_clients := map (\<lambda>c. if active_client lib client_key c then f c else c) (au_clients db)\<rparr>"

definition ClientStore_rotate_secret :: "auth_lib \<Rightarrow> int \<Rightarrow> string \<Rightarrow> (auth_db, CreatedClient option) sql_op" where
  "ClientStore_rotate_secret lib now client_key = check (validate_client_key client_key) (draw_secret lib (\<lambda>secret secret_hash db.
     (Inr (map_option (\<lambda>c. \<lparr>nc_id = uc_id c, nc_client_key = uc_client_key c, nc_secret = secret, nc_roles = uc_roles c\<rparr>)
        (find (active_client lib client_key) (au_clients db))),
      update_clients lib client_key (\<lambda>c. c\<lparr>uc_secret_hash := secret_hash, uc_updated_at := now\<rparr>) db)))"

definition ClientStore_deactivate :: "auth_lib \<Rightarrow> int \<Rightarrow> string \<Rightarrow> (auth_db, bool) sql_op" where
  "ClientStore_deactivate lib now client_key = check (validate_client_key client_key) (\<lambda>db.
     (Inr (list_ex (active_client lib client_key) (au_clients db)),
      update_clients lib client_key (\<lambda>c. c\<lparr>uc_active := False, uc_updated_at := now\<rparr>) db))"

definition ClientStore_list_clients :: "(auth_db, ClientRecord list) sql_op" where
  "ClientStore_list_clients db = (Inr (map (\<lambda>c. \<lparr>rc_id = uc_id c, rc_client_key = uc_client_key c, rc_active = uc_active c, rc_roles = uc_roles c,
     rc_created_at = uc_created_at c, rc_updated_at = uc_updated_at c\<rparr>) (sort_key (\<lambda>c. [- uc_created_at c, - uc_id c]) (au_clients db))), db)"


section \<open>The gate\<close>

record 'b http_call =
  hc_path :: string
  hc_headers :: "(string \<times> string) list"
  hc_body :: 'b

definition is_health_path :: "string \<Rightarrow> bool" where
  "is_health_path path \<longleftrightarrow> path \<in> {''/pgapp.v1.HealthService/GetHealth'', ''/pgapp.v1.HealthService/GetReadiness''}"

text \<open>\<open>headers.get(name)?.to_str().ok()?\<close>: the first value, if it is visible ASCII.\<close>

definition visible_char :: "char \<Rightarrow> bool" where
  "visible_char c = (let n = of_char c :: int in 32 \<le> n \<and> n < 127 \<or> n = 9)"

definition header_text :: "(string \<times> string) list \<Rightarrow> string \<Rightarrow> string option" where
  "header_text headers name = (case map_of headers name of None \<Rightarrow> None | Some v \<Rightarrow> if list_all visible_char v then Some v else None)"

definition extract_credentials :: "(string \<times> string) list \<Rightarrow> Credentials option" where
  "extract_credentials headers = (case header_text headers ''x-pgapp-key'' of None \<Rightarrow> None
     | Some key \<Rightarrow> (case header_text headers ''x-pgapp-secret'' of None \<Rightarrow> None
       | Some secret \<Rightarrow> if key = [] \<or> secret = [] then None else Some \<lparr>cr_key = key, cr_secret = secret\<rparr>))"

definition unauthenticated_response :: "string \<Rightarrow> Status" where
  "unauthenticated_response message = \<lparr>s_code = Code_Unauthenticated, s_message = message\<rparr>"

text \<open>
  \<open>AuthService::call\<close>. The services behind it take the identity of the caller, where there is one; they
  share the registry of metrics with it.
\<close>

type_synonym ('db, 'b, 'o) inner_service = "ClientIdentity option \<Rightarrow> 'b http_call \<Rightarrow> 'db rpc_server \<Rightarrow> (Status + 'o) \<times> 'db rpc_server"

definition AuthService_call :: "auth_lib \<Rightarrow> bool \<Rightarrow> ('db, 'b, 'o) inner_service \<Rightarrow> auth_db \<Rightarrow> 'b http_call \<Rightarrow> 'db rpc_server \<Rightarrow>
    (Status + 'o) \<times> 'db rpc_server" where
  "AuthService_call lib enabled inner db request s = (if \<not> enabled \<or> is_health_path (hc_path request) then inner None request s
     else case extract_credentials (hc_headers request) of
       None \<Rightarrow> (Inl (unauthenticated_response ''missing pgapp credentials''),
         s\<lparr>sv_metrics := MetricsRegistry_record ''auth'' ''authenticate'' ''unauthenticated'' 0 (sv_metrics s)\<rparr>)
     | Some credentials \<Rightarrow> (case fst (ClientStore_authenticate lib (cr_key credentials) (cr_secret credentials) db) of
         Inr (Some identity) \<Rightarrow> inner (Some identity) request s
       | Inr None \<Rightarrow> (Inl (unauthenticated_response ''invalid pgapp credentials''),
           s\<lparr>sv_metrics := MetricsRegistry_record ''auth'' ''authenticate'' ''unauthenticated'' 0 (sv_metrics s)\<rparr>)
       | Inl err \<Rightarrow> (Inl \<lparr>s_code = Code_Internal, s_message = ''authentication failed: '' @ PgAppError_text (al_db_text lib) err\<rparr>,
           s\<lparr>sv_metrics := MetricsRegistry_record ''auth'' ''authenticate'' ''error'' 0 (sv_metrics s)\<rparr>)))"

end
