(* ===== verification/Auth_Laws.thy ===== *)
theory Auth_Laws
  imports Client_Auth
begin

text \<open>
  Who is let in: runs of the administration of client credentials, the secrets that they leave valid,
  and that the gate in front of the services admits exactly those, however the SDK presents them.
\<close>


section \<open>Commands and the secrets they issue\<close>

datatype client_command = KCreate string "string list" | KRotate string | KDeactivate string

datatype client_reply = KCreated CreatedClient | KRotated "CreatedClient option" | KFlag bool

fun command_key :: "client_command \<Rightarrow> string" where
  "command_key (KCreate key _) = key"
| "command_key (KRotate key) = key"
| "command_key (KDeactivate key) = key"

definition client_reply :: "('a \<Rightarrow> client_reply) \<Rightarrow> (auth_db, 'a) sql_op \<Rightarrow> (auth_db, client_reply) sql_op" where
  "client_reply f op db = (case op db of (r, db') \<Rightarrow> (map_sum id f r, db'))"

fun run_client :: "auth_lib \<Rightarrow> int \<Rightarrow> client_command \<Rightarrow> (auth_db, client_reply) sql_op" where
  "run_client lib now (KCreate key roles) = client_reply KCreated (ClientStore_create_client lib now key roles)"
| "run_client lib now (KRotate key) = client_reply KRotated (ClientStore_rotate_secret lib now key)"
| "run_client lib now (KDeactivate key) = client_reply KFlag (ClientStore_deactivate lib now key)"

type_synonym client_event = "client_command \<times> (pg_error + client_reply)"

inductive client_run :: "auth_lib \<Rightarrow> client_event list \<Rightarrow> auth_db \<Rightarrow> bool" for lib where
  start: "client_run lib [] no_clients"
| step: "client_run lib history db \<Longrightarrow> run_client lib now cmd db = (r, db') \<Longrightarrow> client_run lib (history @ [(cmd, r)]) db'"

text \<open>What the answers say: the secret that is valid for a key.\<close>

fun noted :: "client_event \<Rightarrow> (string \<rightharpoonup> string) \<Rightarrow> (string \<rightharpoonup> string)" where
  "noted (KCreate key _, Inr (KCreated c)) m = m(key \<mapsto> nc_secret c)"
| "noted (KRotate key, Inr (KRotated (Some c))) m = m(key \<mapsto> nc_secret c)"
| "noted (KDeactivate key, Inr (KFlag True)) m = m(key := None)"
| "noted _ m = m"

definition valid_secrets :: "client_event list \<Rightarrow> (string \<rightharpoonup> string)" where
  "valid_secrets history = fold noted history Map.empty"

lemma valid_secrets_snoc: "valid_secrets (history @ [e]) = noted e (valid_secrets history)"
  by (simp add: valid_secrets_def)


section \<open>The table agrees with the answers\<close>

text \<open>A row of an active client holds a hash of the secret that is valid for it.\<close>

definition row_agrees :: "auth_lib \<Rightarrow> (string \<rightharpoonup> string) \<Rightarrow> client_row \<Rightarrow> bool" where
  "row_agrees lib m c \<longleftrightarrow> uc_key_hash c = al_hash_key lib (uc_client_key c) \<and> validate_client_key (uc_client_key c) = Inr () \<and>
     (if uc_active c then \<exists>n. m (uc_client_key c) = Some (generate_secret lib n) \<and> al_hash_password lib n (generate_secret lib n) = Inr (uc_secret_hash c)
      else m (uc_client_key c) = None)"

definition table_agrees :: "auth_lib \<Rightarrow> string set \<Rightarrow> (string \<rightharpoonup> string) \<Rightarrow> auth_db \<Rightarrow> bool" where
  "table_agrees lib keys m db \<longleftrightarrow> distinct (map uc_client_key (au_clients db)) \<and> uc_client_key ` set (au_clients db) \<subseteq> keys \<and>
     dom m \<subseteq> uc_client_key ` set (au_clients db) \<and> list_all (row_agrees lib m) (au_clients db)"

lemma table_agrees_draw [simp]: "table_agrees lib keys m (db\<lparr>au_draws := n\<rparr>) = table_agrees lib keys m db"
    "table_agrees lib keys m (db\<lparr>au_next_id := i\<rparr>) = table_agrees lib keys m db"
  by (simp_all add: table_agrees_def)

text \<open>The rows that a command on a key meets: the active row of that key.\<close>

lemma active_client_key:
  assumes "table_agrees lib keys m db" "inj_on (al_hash_key lib) keys" "key \<in> keys" "c \<in> set (au_clients db)"
  shows "active_client lib key c \<longleftrightarrow> uc_client_key c = key \<and> uc_active c"
proof -
  have "uc_key_hash c = al_hash_key lib (uc_client_key c)" "uc_client_key c \<in> keys"
    using assms(1,4) by (auto simp: table_agrees_def list_all_iff row_agrees_def)
  then show ?thesis using inj_onD [OF assms(2) _ _ assms(3)] by (auto simp: active_client_def)
qed

lemma hash_taken:
  assumes "table_agrees lib keys m db" "inj_on (al_hash_key lib) keys" "key \<in> keys"
  shows "list_ex (\<lambda>c. uc_key_hash c = al_hash_key lib key) (au_clients db) \<longleftrightarrow> key \<in> uc_client_key ` set (au_clients db)"
proof -
  have "uc_key_hash c = al_hash_key lib key \<longleftrightarrow> uc_client_key c = key" if "c \<in> set (au_clients db)" for c
    using that assms(1) inj_onD [OF assms(2) _ _ assms(3), of "uc_client_key c"] by (auto simp: table_agrees_def list_all_iff row_agrees_def)
  then show ?thesis by (auto simp: list_ex_iff)
qed

text \<open>The row found for a key is active, and the secret valid for the key is its secret.\<close>

lemma find_active:
  assumes "table_agrees lib keys m db" "inj_on (al_hash_key lib) keys" "key \<in> keys"
  shows "find (active_client lib key) (au_clients db) = Some c \<Longrightarrow> c \<in> set (au_clients db) \<and> uc_client_key c = key \<and> uc_active c"
    and "find (active_client lib key) (au_clients db) = None \<Longrightarrow> m key = None"
proof -
  note iff = active_client_key [OF assms]
  show "find (active_client lib key) (au_clients db) = Some c \<Longrightarrow> c \<in> set (au_clients db) \<and> uc_client_key c = key \<and> uc_active c"
    using find_member iff by metis
  assume none: "find (active_client lib key) (au_clients db) = None"
  show "m key = None"
  proof (rule ccontr)
    assume "m key \<noteq> None"
    then obtain c where c: "c \<in> set (au_clients db)" "uc_client_key c = key" using assms(1) by (auto simp: table_agrees_def)
    then have "\<not> uc_active c" using none iff by (auto simp: find_None_iff)
    then have "m key = None" using assms(1) c by (auto simp: table_agrees_def list_all_iff row_agrees_def)
    with \<open>m key \<noteq> None\<close> show False ..
  qed
qed


lemma update_agrees:
  assumes agrees: "table_agrees lib keys m db" "inj_on (al_hash_key lib) keys" "key \<in> keys"
    and f: "\<And>c. uc_client_key (f c) = uc_client_key c"
    and row: "\<And>c. c \<in> set (au_clients db) \<Longrightarrow> uc_client_key c = key \<Longrightarrow> uc_active c \<Longrightarrow> row_agrees lib (m(key := v)) (f c)"
    and found: "find (active_client lib key) (au_clients db) \<noteq> None"
  shows "table_agrees lib keys (m(key := v)) (update_clients lib key f db)"
proof -
  note iff = active_client_key [OF agrees]
  from found obtain c where c: "c \<in> set (au_clients db)" "uc_client_key c = key" "uc_active c" using find_active(1) [OF agrees] by blast
  have one: "d = c" if "d \<in> set (au_clients db)" "uc_client_key d = key" for d
    using that c agrees(1) by (auto simp: table_agrees_def distinct_map dest: inj_onD)
  have keys: "map uc_client_key (au_clients (update_clients lib key f db)) = map uc_client_key (au_clients db)" by (simp add: update_clients_def f)
  have "row_agrees lib (m(key := v)) (if active_client lib key d then f d else d)" if d: "d \<in> set (au_clients db)" for d
  proof (cases "uc_client_key d = key")
    case True
    with one [OF d] c iff [OF d] row [OF d] show ?thesis by simp
  next
    case False
    with agrees(1) d iff [OF d] show ?thesis by (simp add: table_agrees_def list_all_iff row_agrees_def)
  qed
  then have "list_all (\<lambda>d. row_agrees lib (m(key := v)) (if active_client lib key d then f d else d)) (au_clients db)" unfolding list_all_iff by blast
  then have "list_all (row_agrees lib (m(key := v))) (au_clients (update_clients lib key f db))" by (simp add: update_clients_def list.pred_map comp_def)
  moreover have "dom (m(key := v)) \<subseteq> uc_client_key ` set (au_clients db)" using agrees(1) c by (auto simp: table_agrees_def)
  ultimately show ?thesis using agrees(1) keys unfolding table_agrees_def set_map [symmetric] keys by auto
qed

lemma update_none: "find (active_client lib key) (au_clients db) = None \<Longrightarrow> update_clients lib key f db = db"
  by (auto simp: update_clients_def find_None_iff intro!: auth_db.equality map_idI)

lemma create_agrees:
  assumes agrees: "table_agrees lib keys m db" "inj_on (al_hash_key lib) keys" "key \<in> keys"
    and run: "run_client lib now (KCreate key roles) db = (r, db')"
  shows "table_agrees lib keys (noted (KCreate key roles, r) m) db'"
proof (cases "r")
  case (Inl e)
  with run agrees(1) show ?thesis
    by (auto simp: client_reply_def ClientStore_create_client_def check_def draw_secret_def given_def Let_def andThen_def insert_client_def
        split: sum.splits prod.splits if_splits)
next
  case (Inr reply)
  let ?s = "generate_secret lib (au_draws db)"
  from run Inr obtain h where h: "validate_client_key key = Inr ()" "al_hash_password lib (au_draws db) ?s = Inr h"
    "\<not> list_ex (\<lambda>c. uc_key_hash c = al_hash_key lib key) (au_clients db)"
    "db' = db\<lparr>au_draws := au_draws db + 1, au_clients := au_clients db @ [\<lparr>uc_id = au_next_id db, uc_client_key = key, uc_key_hash = al_hash_key lib key,
       uc_secret_hash = h, uc_active = True, uc_roles = roles, uc_created_at = now, uc_updated_at = now\<rparr>], au_next_id := au_next_id db + 1\<rparr>"
    "reply = KCreated \<lparr>nc_id = au_next_id db, nc_client_key = key, nc_secret = ?s, nc_roles = roles\<rparr>"
    by (auto simp: client_reply_def ClientStore_create_client_def check_def draw_secret_def given_def Let_def andThen_def insert_client_def hash_secret_def
        split: sum.splits prod.splits if_splits)
  have "key \<notin> uc_client_key ` set (au_clients db)" using h(3) hash_taken [OF agrees] by simp
  moreover from this have "row_agrees lib (m(key \<mapsto> ?s)) c" if "c \<in> set (au_clients db)" for c
    using that agrees(1) by (auto simp: table_agrees_def list_all_iff row_agrees_def)
  ultimately show ?thesis using agrees(1,3) h(1,2) unfolding Inr h(4,5)
    by (auto simp: table_agrees_def list_all_iff row_agrees_def [of lib "m(key \<mapsto> ?s)" "\<lparr>uc_id = _, uc_client_key = _, uc_key_hash = _,
       uc_secret_hash = _, uc_active = _, uc_roles = _, uc_created_at = _, uc_updated_at = _\<rparr>"])
qed

lemma rotate_agrees:
  assumes agrees: "table_agrees lib keys m db" "inj_on (al_hash_key lib) keys" "key \<in> keys"
    and run: "run_client lib now (KRotate key) db = (r, db')"
  shows "table_agrees lib keys (noted (KRotate key, r) m) db'"
proof (cases "validate_client_key key")
  case (Inr u)
  let ?s = "generate_secret lib (au_draws db)" and ?db = "db\<lparr>au_draws := au_draws db + 1\<rparr>"
  show ?thesis
  proof (cases "al_hash_password lib (au_draws db) ?s")
    case (Inl e)
    with run Inr agrees(1) show ?thesis by (auto simp: client_reply_def ClientStore_rotate_secret_def draw_secret_def Let_def hash_secret_def)
  next
    case h: (Inr h)
    let ?f = "\<lambda>c. c\<lparr>uc_secret_hash := h, uc_updated_at := now\<rparr>"
    from run Inr h have r: "r = Inr (KRotated (map_option (\<lambda>c. \<lparr>nc_id = uc_id c, nc_client_key = uc_client_key c, nc_secret = ?s, nc_roles = uc_roles c\<rparr>)
        (find (active_client lib key) (au_clients ?db))))" "db' = update_clients lib key ?f ?db"
      by (auto simp: client_reply_def ClientStore_rotate_secret_def draw_secret_def Let_def hash_secret_def)
    show ?thesis
    proof (cases "find (active_client lib key) (au_clients ?db)")
      case None
      with r(2) have "db' = ?db" using update_none by simp
      with None r(1) agrees(1) show ?thesis by simp
    next
      case (Some c)
      have "table_agrees lib keys (m(key := Some ?s)) (update_clients lib key ?f ?db)"
        by (rule update_agrees) (use agrees h Some in \<open>auto simp: table_agrees_def list_all_iff row_agrees_def\<close>)
      with r Some show ?thesis by simp
    qed
  qed
qed (use run agrees(1) in \<open>auto simp: client_reply_def ClientStore_rotate_secret_def\<close>)

lemma deactivate_agrees:
  assumes agrees: "table_agrees lib keys m db" "inj_on (al_hash_key lib) keys" "key \<in> keys"
    and run: "run_client lib now (KDeactivate key) db = (r, db')"
  shows "table_agrees lib keys (noted (KDeactivate key, r) m) db'"
proof (cases "validate_client_key key")
  case (Inr u)
  show ?thesis
  proof (cases "find (active_client lib key) (au_clients db)")
    case None
    then have "\<not> list_ex (active_client lib key) (au_clients db)" by (simp add: find_None_iff list_ex_iff)
    with None Inr run agrees(1) show ?thesis by (auto simp: client_reply_def ClientStore_deactivate_def update_none)
  next
    case (Some c)
    then have "list_ex (active_client lib key) (au_clients db)" using find_member by (fastforce simp: list_ex_iff)
    with run Inr have r: "r = Inr (KFlag True)" "db' = update_clients lib key (\<lambda>c. c\<lparr>uc_active := False, uc_updated_at := now\<rparr>) db"
      by (auto simp: client_reply_def ClientStore_deactivate_def)
    have "table_agrees lib keys (m(key := None)) db'" unfolding r(2)
      by (rule update_agrees) (use agrees Some in \<open>auto simp: table_agrees_def list_all_iff row_agrees_def\<close>)
    then show ?thesis by (simp add: r(1))
  qed
qed (use run agrees(1) in \<open>auto simp: client_reply_def ClientStore_deactivate_def\<close>)

lemma client_run_agrees:
  "client_run lib history db \<Longrightarrow> inj_on (al_hash_key lib) keys \<Longrightarrow> (\<lambda>(cmd, r). command_key cmd) ` set history \<subseteq> keys \<Longrightarrow>
    table_agrees lib keys (valid_secrets history) db"
proof (induction rule: client_run.induct)
  case start
  then show ?case by (simp add: table_agrees_def no_clients_def valid_secrets_def)
next
  case (step history db now cmd r db')
  then have IH: "table_agrees lib keys (valid_secrets history) db" "command_key cmd \<in> keys" by auto
  show ?case unfolding valid_secrets_snoc
    using IH step.hyps(2) step.prems(1) by (cases cmd) (auto intro: create_agrees rotate_agrees deactivate_agrees simp del: run_client.simps)
qed


section \<open>Only the secret issued last is valid\<close>

text \<open>
  What is needed of the hashes: the keys in use do not collide, and the check of a password against the
  hash of a secret that was drawn succeeds for that secret only.
\<close>

definition tells_apart :: "auth_lib \<Rightarrow> string \<Rightarrow> bool" where
  "tells_apart lib secret \<longleftrightarrow> (\<forall>n h. al_hash_password lib n (generate_secret lib n) = Inr h \<longrightarrow>
     al_verify_password lib h secret = Inr (secret = generate_secret lib n))"

definition keys_in_use :: "client_event list \<Rightarrow> string set" where
  "keys_in_use history = (\<lambda>(cmd, r). command_key cmd) ` set history"

lemma authenticate_result:
  assumes run: "client_run lib history db" and inj: "inj_on (al_hash_key lib) (insert key (keys_in_use history))" and apart: "tells_apart lib secret"
  shows "\<exists>x. ClientStore_authenticate lib key secret db = (Inr x, db) \<and> (x \<noteq> None \<longleftrightarrow> valid_secrets history key = Some secret) \<and>
    (\<forall>i. x = Some i \<longrightarrow> id_client_key i = key)"
proof -
  have agrees: "table_agrees lib (insert key (keys_in_use history)) (valid_secrets history) db"
    by (rule client_run_agrees [OF run inj]) (auto simp: keys_in_use_def)
  show ?thesis
  proof (cases "find (active_client lib key) (au_clients db)")
    case None
    then show ?thesis using find_active(2) [OF agrees inj] by (simp add: ClientStore_authenticate_def)
  next
    case (Some c)
    with find_active(1) [OF agrees inj, of key c] have c: "c \<in> set (au_clients db)" "uc_client_key c = key" "uc_active c" by auto
    then have "row_agrees lib (valid_secrets history) c" using agrees by (simp add: table_agrees_def list_all_iff)
    with c(2,3) obtain n where n: "valid_secrets history key = Some (generate_secret lib n)" "validate_client_key key = Inr ()"
      "al_hash_password lib n (generate_secret lib n) = Inr (uc_secret_hash c)" by (auto simp: row_agrees_def)
    have "key \<noteq> []" using n(2) by (auto simp: validate_client_key_def validate_config_component_def validate_identifier_def)
    moreover have "generate_secret lib n \<noteq> []" by (simp add: generate_secret_def)
    moreover have "verify_secret lib (uc_secret_hash c) secret = Inr (secret = generate_secret lib n)"
      using apart n(3) by (simp add: tells_apart_def verify_secret_def)
    ultimately show ?thesis using n(1) Some c(2) by (auto simp: ClientStore_authenticate_def)
  qed
qed

text \<open>
  C9. A client is authenticated with a secret exactly when the administration issued that secret to it
  last, by creating the client or by rotating its secret, and has not deactivated it since: older secrets
  and deactivated clients are refused.
\<close>

theorem only_latest_secret_authenticates:
  assumes "client_run lib history db" "inj_on (al_hash_key lib) (insert key (keys_in_use history))" "tells_apart lib secret"
  shows "\<exists>x. ClientStore_authenticate lib key secret db = (Inr x, db) \<and> (x \<noteq> None \<longleftrightarrow> valid_secrets history key = Some secret)"
  using authenticate_result [OF assms] by blast

text \<open>Rotating a secret makes the old one invalid, and deactivating a client all of its secrets.\<close>

definition demo_auth :: auth_lib where
  "demo_auth = \<lparr>al_hash_key = (\<lambda>k. ''h'' @ k), al_uuid = (\<lambda>n. if n = 0 then ''0'' else if n = 1 then ''1'' else if n = 2 then ''2'' else ''3''), al_hash_password = (\<lambda>n s. Inr s), al_verify_password = (\<lambda>h s. Inr (h = s)),
     al_db_text = (\<lambda>_. [])\<rparr>"

lemma demo_auth_apart: "tells_apart demo_auth secret" "inj_on (al_hash_key demo_auth) K"
  by (auto simp: tells_apart_def demo_auth_def inj_on_def)

definition demo_history :: "client_event list" where
  "demo_history = [(KCreate ''svc'' [], Inr (KCreated \<lparr>nc_id = 1, nc_client_key = ''svc'', nc_secret = ''pgapp_0_1'', nc_roles = []\<rparr>)),
     (KRotate ''svc'', Inr (KRotated (Some \<lparr>nc_id = 1, nc_client_key = ''svc'', nc_secret = ''pgapp_2_3'', nc_roles = []\<rparr>)))]"

definition demo_clients :: auth_db where
  "demo_clients = \<lparr>au_clients = [\<lparr>uc_id = 1, uc_client_key = ''svc'', uc_key_hash = ''hsvc'', uc_secret_hash = ''pgapp_2_3'', uc_active = True,
     uc_roles = [], uc_created_at = 5, uc_updated_at = 6\<rparr>], au_next_id = 2, au_draws = 2\<rparr>"

lemma demo_run: "client_run demo_auth demo_history demo_clients"
proof -
  let ?e = "(KCreate ''svc'' [], Inr (KCreated \<lparr>nc_id = 1, nc_client_key = ''svc'', nc_secret = ''pgapp_0_1'', nc_roles = []\<rparr>))"
  let ?db = "\<lparr>au_clients = [\<lparr>uc_id = 1, uc_client_key = ''svc'', uc_key_hash = ''hsvc'', uc_secret_hash = ''pgapp_0_1'', uc_active = True,
     uc_roles = [], uc_created_at = 5, uc_updated_at = 5\<rparr>], au_next_id = 2, au_draws = 1\<rparr>"
  have "run_client demo_auth 5 (KCreate ''svc'' []) no_clients = (snd ?e, ?db)" by code_simp
  then have "client_run demo_auth ([] @ [?e]) ?db" using client_run.step [OF client_run.start] by simp
  moreover have "run_client demo_auth 6 (KRotate ''svc'') ?db = (snd (demo_history ! 1), demo_clients)" by code_simp
  ultimately show ?thesis using client_run.step by (fastforce simp: demo_history_def)
qed

theorem only_latest_secret_authenticates_witness:
  "fst (ClientStore_authenticate demo_auth ''svc'' ''pgapp_0_1'' demo_clients) = Inr None \<and>
   (\<exists>i. fst (ClientStore_authenticate demo_auth ''svc'' ''pgapp_2_3'' demo_clients) = Inr (Some i))"
  using only_latest_secret_authenticates [OF demo_run demo_auth_apart(2,1), of "''svc''" "''pgapp_0_1''"]
    only_latest_secret_authenticates [OF demo_run demo_auth_apart(2,1), of "''svc''" "''pgapp_2_3''"]
  by (auto simp: valid_secrets_def demo_history_def)


section \<open>The gate and the SDK\<close>

text \<open>Keys and secrets that were issued travel as headers.\<close>

lemma ident_char_visible: "ident_char c \<Longrightarrow> visible_char c"
  by (auto simp: ident_char_def is_ascii_alphanumeric_def is_ascii_alphabetic_def is_digit_def digit_val_def visible_char_def Let_def split: if_splits)

lemma issued_visible:
  assumes run: "client_run lib history db" and inj: "inj_on (al_hash_key lib) (insert key (keys_in_use history))"
    and uuid: "\<And>n. list_all visible_char (al_uuid lib n)" and valid: "valid_secrets history key = Some secret"
  shows "list_all visible_char key \<and> list_all visible_char secret \<and> key \<noteq> [] \<and> secret \<noteq> []"
proof -
  have agrees: "table_agrees lib (insert key (keys_in_use history)) (valid_secrets history) db"
    by (rule client_run_agrees [OF run inj]) (auto simp: keys_in_use_def)
  with valid obtain c where c: "c \<in> set (au_clients db)" "uc_client_key c = key" by (auto simp: table_agrees_def)
  then have "row_agrees lib (valid_secrets history) c" using agrees by (simp add: table_agrees_def list_all_iff)
  with c(2) valid obtain n where n: "secret = generate_secret lib n" "validate_client_key key = Inr ()" by (auto simp: row_agrees_def split: if_splits)
  have "list_all visible_char ''pgapp_''" "list_all visible_char ''_''" by code_simp+
  then have "list_all visible_char secret" "secret \<noteq> []" using uuid by (simp_all add: n(1) generate_secret_def)
  moreover have "list_all ident_char key \<and> key \<noteq> []"
    using n(2) validate_identifier_chars by (simp add: validate_client_key_def validate_config_component_def)
  then have "list_all visible_char key" "key \<noteq> []" using ident_char_visible by (auto simp: list_all_iff)
  ultimately show ?thesis by blast
qed

text \<open>The credentials that a client of the SDK presents.\<close>

definition holds_valid_secret :: "client_event list \<Rightarrow> Credentials option \<Rightarrow> bool" where
  "holds_valid_secret history credentials = (case credentials of None \<Rightarrow> False | Some c \<Rightarrow> valid_secrets history (cr_key c) = Some (cr_secret c))"

text \<open>
  C8. With authentication enabled, a call of the SDK on any service but health, whatever other headers the
  transport adds to the metadata of the client, reaches its handler, and as
  the client whose key it carries, exactly when the client was built with the secret that was issued last
  for its key and its key has not been deactivated. Otherwise it is answered as unauthenticated, no handler
  runs and no table changes.
\<close>

theorem only_valid_clients_reach_handlers:
  fixes this :: "('w, 'r, 's) PGAppClient"
  assumes "client_run lib history db" "inj_on (al_hash_key lib) (cr_key ` set_option (pc_credentials this) \<union> keys_in_use history)"
    and "\<And>c. pc_credentials this = Some c \<Longrightarrow> tells_apart lib (cr_secret c)" "\<And>n. list_all visible_char (al_uuid lib n)"
    and "map_of (hc_headers request) ''x-pgapp-key'' = map_of (ro_meta (rpcOptions this)) ''x-pgapp-key''"
    and "map_of (hc_headers request) ''x-pgapp-secret'' = map_of (ro_meta (rpcOptions this)) ''x-pgapp-secret''"
    and "\<not> is_health_path (hc_path request)"
  shows "if holds_valid_secret history (pc_credentials this)
    then \<exists>identity. Some (id_client_key identity) = map_option cr_key (pc_credentials this) \<and>
      AuthService_call lib True inner db request s = inner (Some identity) request s
    else \<exists>message s'. AuthService_call lib True inner db request s = (Inl (unauthenticated_response message), s') \<and> sv_db s' = sv_db s"
proof (cases "pc_credentials this")
  case None
  then have "extract_credentials (hc_headers request) = None" using assms(5,6) by (simp add: rpcOptions_def extract_credentials_def header_text_def)
  with None assms(7) show ?thesis by (auto simp: holds_valid_secret_def AuthService_call_def)
next
  case (Some c)
  let ?visible = "list_all visible_char (cr_key c) \<and> list_all visible_char (cr_secret c) \<and> cr_key c \<noteq> [] \<and> cr_secret c \<noteq> []"
  have inj: "inj_on (al_hash_key lib) (insert (cr_key c) (keys_in_use history))" using assms(2) Some by simp
  have given: "extract_credentials (hc_headers request) = (if ?visible then Some c else None)"
    using assms(5,6) Some by (simp add: rpcOptions_def extract_credentials_def header_text_def split: option.split)
  from authenticate_result [OF assms(1) inj assms(3) [OF Some]] obtain x where
    x: "ClientStore_authenticate lib (cr_key c) (cr_secret c) db = (Inr x, db)" "x \<noteq> None \<longleftrightarrow> valid_secrets history (cr_key c) = Some (cr_secret c)"
      "\<forall>i. x = Some i \<longrightarrow> id_client_key i = cr_key c" by blast
  show ?thesis
  proof (cases "valid_secrets history (cr_key c) = Some (cr_secret c)")
    case True
    with issued_visible [OF assms(1) inj assms(4)] given x Some assms(7) show ?thesis
      by (auto simp: holds_valid_secret_def AuthService_call_def)
  next
    case False
    with given x Some assms(7) show ?thesis by (auto simp: holds_valid_secret_def AuthService_call_def)
  qed
qed

definition demo_caller :: "string \<Rightarrow> (bytes list, nat \<times> bytes, unit) PGAppClient" where
  "demo_caller secret = PGAppClient_new (\<lambda>host. proto_env (\<lambda>service m opt bs s. (Inl (mkError []), s)) (\<lambda>service m opt bs s. (([], None), s))) None
     (Some \<lparr>po_timeoutMs = None, po_credentials = Some \<lparr>cr_key = ''svc'', cr_secret = secret\<rparr>\<rparr>)"

definition demo_call :: "string \<Rightarrow> unit http_call" where
  "demo_call secret = \<lparr>hc_path = ''/pgapp.v1.CacheService/Get'', hc_headers = (''content-type'', ''application/grpc'') # ro_meta (rpcOptions (demo_caller secret)), hc_body = ()\<rparr>"

definition demo_inner :: "(unit, unit, string) inner_service" where
  "demo_inner identity request s = (Inr (case identity of None \<Rightarrow> [] | Some i \<Rightarrow> id_client_key i), s)"

definition demo_state :: "unit rpc_server" where
  "demo_state = \<lparr>sv_now = 0, sv_latency = 0, sv_db = (), sv_metrics = (\<lambda>_. None)\<rparr>"

theorem only_valid_clients_reach_handlers_witness:
  "fst (AuthService_call demo_auth True demo_inner demo_clients (demo_call ''pgapp_2_3'') demo_state) = Inr ''svc'' \<and>
   isl (fst (AuthService_call demo_auth True demo_inner demo_clients (demo_call ''pgapp_0_1'') demo_state))"
proof -
  have creds: "pc_credentials (demo_caller secret) = Some \<lparr>cr_key = ''svc'', cr_secret = secret\<rparr>" for secret
    by (simp add: demo_caller_def PGAppClient_new_def orDefault_def Let_def)
  have uuid: "list_all visible_char (al_uuid demo_auth n)" for n by (simp add: demo_auth_def visible_char_def Let_def)
  have path: "\<not> is_health_path (hc_path (demo_call secret))" 
    "map_of (hc_headers (demo_call secret)) ''x-pgapp-key'' = map_of (ro_meta (rpcOptions (demo_caller secret))) ''x-pgapp-key''"
    "map_of (hc_headers (demo_call secret)) ''x-pgapp-secret'' = map_of (ro_meta (rpcOptions (demo_caller secret))) ''x-pgapp-secret''" for secret
    by (simp_all add: demo_call_def is_health_path_def)
  note gate = only_valid_clients_reach_handlers [OF demo_run demo_auth_apart(2) demo_auth_apart(1) uuid path(2,3,1), where inner = demo_inner and s = demo_state]
  show ?thesis using gate [of "''pgapp_2_3''"] gate [of "''pgapp_0_1''"]
    by (auto simp: creds holds_valid_secret_def valid_secrets_def demo_history_def demo_inner_def)
qed

end
