(* ===== verification/Message_Types.thy ===== *)
theory Message_Types
  imports Codec_Laws
begin

text \<open>
  The reflection tables of the generated message types: what the constructor of each type in
  \<open>sdk/typescript/src/gen/pgapp/v1/*.ts\<close> tells the runtime about its fields, and the agreement of
  the methods that the generator wrote for speed with these tables. A table drives the reference
  here: a writer that takes the fields of a message as dynamic values and encodes each as the
  table says.
\<close>


section \<open>Tables\<close>

datatype ScalarType = INT64 | UINT64 | INT32 | BOOL | STRING | BYTES | UINT32

datatype RepeatType = NoRepeat | PACKED | UNPACKED

text \<open>The type of a field: a scalar, an enum with its name and the prefix of its values, or a message.\<close>

datatype field_kind = Scalar ScalarType | Enum string string | Message string

record field_info =
  fi_no :: nat
  fi_name :: string
  fi_kind :: field_kind
  fi_repeat :: RepeatType

record message_info =
  mt_typeName :: string
  mt_fields :: "field_info list"

text \<open>The value of a field, whatever its type; a message as its encoding.\<close>

datatype dyn = DStr string | DBytes bytes | DBool bool | DNum js_number | DMsg bytes | DOpt "bytes option" | DList "dyn list"

definition default_value :: "field_info \<Rightarrow> dyn" where
  "default_value f = (if fi_repeat f \<noteq> NoRepeat then DList [] else case fi_kind f of
       Scalar t \<Rightarrow> (case t of STRING \<Rightarrow> DStr [] | BYTES \<Rightarrow> DBytes [] | BOOL \<Rightarrow> DBool False
         | INT64 \<Rightarrow> DStr ''0'' | UINT64 \<Rightarrow> DStr ''0'' | INT32 \<Rightarrow> DNum (IntNum 0) | UINT32 \<Rightarrow> DNum (IntNum 0))
     | Enum _ _ \<Rightarrow> DNum (IntNum 0)
     | Message _ \<Rightarrow> DOpt None)"

text \<open>A value that is not of the type of its field has no encoding.\<close>

fun encode_scalar :: "nat \<Rightarrow> ScalarType \<Rightarrow> dyn \<Rightarrow> bytes" where
  "encode_scalar no STRING (DStr s) = encString proto_E no s"
| "encode_scalar no INT64 (DStr s) = encInt64 proto_E no s"
| "encode_scalar no UINT64 (DStr s) = encUint64 proto_E no s"
| "encode_scalar no BYTES (DBytes b) = encBytes proto_E no b"
| "encode_scalar no BOOL (DBool b) = encBool proto_E no b"
| "encode_scalar no INT32 (DNum x) = encInt32 proto_E no x"
| "encode_scalar no UINT32 (DNum x) = encUint32 proto_E no x"
| "encode_scalar no _ _ = []"

fun encode_item :: "nat \<Rightarrow> field_kind \<Rightarrow> dyn \<Rightarrow> bytes" where
  "encode_item no (Scalar STRING) (DStr s) = e_tag proto_E no LengthDelimited @ e_string proto_E s"
| "encode_item no (Message _) (DMsg b) = encMessage proto_E no b"
| "encode_item no _ _ = []"

definition text_of :: "dyn \<Rightarrow> string" where
  "text_of v = (case v of DStr s \<Rightarrow> s | _ \<Rightarrow> [])"

definition encode_field :: "field_info \<Rightarrow> dyn \<Rightarrow> bytes" where
  "encode_field f v = (case fi_repeat f of
       NoRepeat \<Rightarrow> (case fi_kind f of Scalar t \<Rightarrow> encode_scalar (fi_no f) t v
         | Enum _ _ \<Rightarrow> encode_scalar (fi_no f) INT32 v
         | Message _ \<Rightarrow> (case v of DOpt b \<Rightarrow> encOption (encMessage proto_E (fi_no f)) b | _ \<Rightarrow> []))
     | UNPACKED \<Rightarrow> (case v of DList vs \<Rightarrow> encRepeated (encode_item (fi_no f) (fi_kind f)) vs | _ \<Rightarrow> [])
     | PACKED \<Rightarrow> (case v of DList vs \<Rightarrow> encPackedInt64 proto_E (fi_no f) (map text_of vs) | _ \<Rightarrow> []))"

definition encode_table :: "message_info \<Rightarrow> dyn list \<Rightarrow> bytes" where
  "encode_table T vs = concat (map2 encode_field (mt_fields T) vs)"

definition numbers :: "message_info \<Rightarrow> nat list" where
  "numbers T = map fi_no (mt_fields T)"

text \<open>
  What the runtime's reader makes of one occurrence of a field, as the table says: the operation of
  the field's type. A message field has none here; it is covered by reading whole messages. A list
  of numbers is read one by one where its wire type is not that of a packed list.
\<close>

type_synonym wire_reader = "nat \<times> bytes"

definition tagged :: "('v \<Rightarrow> dyn) \<Rightarrow> (wire_reader \<Rightarrow> ('v \<times> wire_reader) result) \<Rightarrow> wire_reader \<Rightarrow> (dyn \<times> wire_reader) result" where
  "tagged con op r = bindE (op r) (\<lambda>(v, r'). Inr (con v, r'))"

fun read_scalar :: "ScalarType \<Rightarrow> wire_reader \<Rightarrow> (dyn \<times> wire_reader) result" where
  "read_scalar STRING = tagged DStr (r_string proto_R)"
| "read_scalar BYTES = tagged DBytes (r_bytes proto_R)"
| "read_scalar BOOL = tagged DBool (r_bool proto_R)"
| "read_scalar INT64 = tagged (\<lambda>i. DStr (dec i)) (r_int64 proto_R)"
| "read_scalar UINT64 = tagged (\<lambda>i. DStr (dec i)) (r_uint64 proto_R)"
| "read_scalar INT32 = tagged (\<lambda>i. DNum (IntNum i)) (r_int32 proto_R)"
| "read_scalar UINT32 = tagged (\<lambda>n. DNum (IntNum (int n))) (r_uint32 proto_R)"

definition item_reader :: "field_info \<Rightarrow> wire_type \<Rightarrow> (wire_reader \<Rightarrow> (dyn \<times> wire_reader) result) option" where
  "item_reader f wt = (if fi_repeat f = PACKED \<and> wt = LengthDelimited then None else case fi_kind f of
       Scalar t \<Rightarrow> Some (read_scalar t)
     | Enum _ _ \<Rightarrow> Some (read_scalar INT32)
     | Message _ \<Rightarrow> None)"

text \<open>The value read replaces the old one, or is appended to a list.\<close>

definition stored :: "field_info \<Rightarrow> dyn \<Rightarrow> dyn \<Rightarrow> dyn" where
  "stored f v old = (if fi_repeat f = NoRepeat then v else case old of DList vs \<Rightarrow> DList (vs @ [v]) | _ \<Rightarrow> old)"

text \<open>
  \<open>sets_field\<close>: a step of the field switch runs the operation, fails as it fails, and else
  stores its value under the field's number, leaving the other fields and the unknown ones.
\<close>

definition sets_field ::
  "('m message_scheme \<Rightarrow> dyn list) \<Rightarrow> field_info list \<Rightarrow> field_info \<Rightarrow> (wire_reader \<Rightarrow> (dyn \<times> wire_reader) result) \<Rightarrow>
   ('m message_scheme \<Rightarrow> wire_reader \<Rightarrow> ('m message_scheme \<times> wire_reader) comp) \<Rightarrow> bool" where
  "sets_field vals fs f op step \<longleftrightarrow> (\<forall>m r. case op r of
       Inl e \<Rightarrow> step m r = Some (Inl e)
     | Inr (v, r') \<Rightarrow> \<exists>m'. step m r = Some (Inr (m', r')) \<and> unknownFields m' = unknownFields m \<and>
         vals m' = map2 (\<lambda>g old. if fi_no g = fi_no f then stored f v old else old) fs (vals m))"

text \<open>
  \<open>follows_table T create wr rd fld vals ok\<close>: \<open>create\<close> holds the default of every field of
  the table; the writer writes the values of a message as the table encodes them; the reader turns
  that encoding back into the message; the field switch reads each scalar field of the table with
  the operation of its type, from any position into any message, and takes every other number for an
  unknown field.
\<close>

definition follows_table ::
  "message_info \<Rightarrow> 'm message_scheme \<Rightarrow> ('m message_scheme \<Rightarrow> bytes list \<Rightarrow> bytes list result) \<Rightarrow>
   (wire_reader \<Rightarrow> nat \<Rightarrow> 'm message_scheme option \<Rightarrow> ('m message_scheme \<times> wire_reader) comp) \<Rightarrow>
   (wire_reader reader \<Rightarrow> read_unknown \<Rightarrow> nat \<Rightarrow> wire_type \<Rightarrow> 'm message_scheme \<Rightarrow> wire_reader \<Rightarrow>
     ('m message_scheme \<times> wire_reader) comp) \<Rightarrow>
   ('m message_scheme \<Rightarrow> dyn list) \<Rightarrow> ('m message_scheme \<Rightarrow> bool) \<Rightarrow> bool" where
  "follows_table T create wr rd fld vals ok \<longleftrightarrow> distinct (numbers T) \<and> list_all field_no_ok (numbers T) \<and>
     vals create = map default_value (mt_fields T) \<and>
     (\<forall>m. ok m \<longrightarrow> length (encode_table T (vals m) @ encUnknown proto_E m) < 2147483648 \<longrightarrow>
        toBinary proto_W (wr m) = Inr (encode_table T (vals m) @ encUnknown proto_E m) \<and>
        fromBinary proto_R rd (encode_table T (vals m) @ encUnknown proto_E m) = Some (Inr m)) \<and>
     list_all (\<lambda>f. \<forall>options wt op. item_reader f wt = Some op \<longrightarrow>
        sets_field vals (mt_fields T) f op (fld proto_R options (fi_no f) wt)) (mt_fields T) \<and>
     (\<forall>options no wt m r. no \<notin> set (numbers T) \<longrightarrow> fld proto_R options no wt m r = readUnknown proto_R options (mt_typeName T) no wt m r)"

lemma encOption_map: "encOption f (map_option g x) = encOption (\<lambda>n. f (g n)) x"
  by (cases x) (simp_all add: encOption_def)

lemma encRepeated_map: "encRepeated f (map g xs) = encRepeated (\<lambda>x. f (g x)) xs"
  by (simp add: encRepeated_def comp_def)

lemma text_of_DStr: "text_of \<circ> DStr = id"
  by (simp add: text_of_def fun_eq_iff)

lemmas table_simps = numbers_def encode_table_def encode_field_def default_value_def encOption_map encRepeated_map
  text_of_DStr field_no_ok_def

lemma sets_field_setField:
  assumes "\<And>v m. vals (upd v m) = map2 (\<lambda>g old. if fi_no g = fi_no f then stored f (con v) old else old) fs (vals m)"
    and "\<And>v m. unknownFields (upd v m) = unknownFields m"
  shows "sets_field vals fs f (tagged con op) (setField op upd)"
  using assms by (auto simp: sets_field_def setField_def tagged_def split: sum.splits)

lemma readPacked_single: "wt \<noteq> LengthDelimited \<Longrightarrow> readPacked R step wt = step"
  by (simp add: readPacked_def fun_eq_iff)

lemmas reader_simps = item_reader_def stored_def sets_field_setField setNumber_def setUint32_def setLong_def pushField_def
  pushLong_def readPacked_single

lemma follows_tableI:
  assumes "wire_runtime.codec proto_R (\<lambda>w. w) snd rd wr enc ok"
    and "\<And>m. enc m = encode_table T (vals m) @ encUnknown proto_E m" "vals create = map default_value (mt_fields T)"
    and "distinct (numbers T)" "list_all field_no_ok (numbers T)"
    and "list_all (\<lambda>f. \<forall>options wt op. item_reader f wt = Some op \<longrightarrow>
        sets_field vals (mt_fields T) f op (fld proto_R options (fi_no f) wt)) (mt_fields T)"
    and "\<And>options no wt m r. no \<notin> set (numbers T) \<Longrightarrow> fld proto_R options no wt m r = readUnknown proto_R options (mt_typeName T) no wt m r"
  shows "follows_table T create wr rd fld vals ok"
proof -
  have "toBinary proto_W (wr m) = Inr (enc m) \<and> fromBinary proto_R rd (enc m) = Some (Inr m)"
    if "ok m" "length (enc m) < 2147483648" for m
    by (rule proto.codec_roundtrip [OF assms(1) that])
  then show ?thesis using assms(2-) by (simp add: follows_table_def)
qed

section \<open>common.ts\<close>

definition Empty_type :: message_info where
  "Empty_type = \<lparr>mt_typeName = ''pgapp.v1.Empty'', mt_fields = []\<rparr>"

definition Empty_values :: "Empty \<Rightarrow> dyn list" where
  "Empty_values m = []"

definition OperationResult_type :: message_info where
  "OperationResult_type = \<lparr>mt_typeName = ''pgapp.v1.OperationResult'', mt_fields = [
     \<lparr>fi_no = 1, fi_name = ''success'', fi_kind = Scalar BOOL, fi_repeat = NoRepeat\<rparr>]\<rparr>"

definition OperationResult_values :: "OperationResult \<Rightarrow> dyn list" where
  "OperationResult_values m = [DBool (OperationResult_success m)]"

definition ServiceCapability_type :: message_info where
  "ServiceCapability_type = \<lparr>mt_typeName = ''pgapp.v1.ServiceCapability'', mt_fields = [
     \<lparr>fi_no = 1, fi_name = ''name'', fi_kind = Scalar STRING, fi_repeat = NoRepeat\<rparr>,
     \<lparr>fi_no = 2, fi_name = ''state'', fi_kind = Enum ''pgapp.v1.ServiceState'' ''SERVICE_STATE_'', fi_repeat = NoRepeat\<rparr>,
     \<lparr>fi_no = 3, fi_name = ''message'', fi_kind = Scalar STRING, fi_repeat = NoRepeat\<rparr>]\<rparr>"

definition ServiceCapability_values :: "ServiceCapability \<Rightarrow> dyn list" where
  "ServiceCapability_values m = [DStr (ServiceCapability_name m), DNum (ServiceCapability_state m), DStr (ServiceCapability_message m)]"

section \<open>cache.ts\<close>

definition SetCacheRequest_type :: message_info where
  "SetCacheRequest_type = \<lparr>mt_typeName = ''pgapp.v1.SetCacheRequest'', mt_fields = [
     \<lparr>fi_no = 1, fi_name = ''namespace'', fi_kind = Scalar STRING, fi_repeat = NoRepeat\<rparr>,
     \<lparr>fi_no = 2, fi_name = ''key'', fi_kind = Scalar STRING, fi_repeat = NoRepeat\<rparr>,
     \<lparr>fi_no = 3, fi_name = ''value'', fi_kind = Scalar BYTES, fi_repeat = NoRepeat\<rparr>,
     \<lparr>fi_no = 4, fi_name = ''ttl_seconds'', fi_kind = Scalar INT64, fi_repeat = NoRepeat\<rparr>]\<rparr>"

definition SetCacheRequest_values :: "SetCacheRequest \<Rightarrow> dyn list" where
  "SetCacheRequest_values m = [DStr (SetCacheRequest_namespace m), DStr (SetCacheRequest_key m), DBytes (SetCacheRequest_value m), DStr (SetCacheRequest_ttlSeconds m)]"

definition GetCacheRequest_type :: message_info where
  "GetCacheRequest_type = \<lparr>mt_typeName = ''pgapp.v1.GetCacheRequest'', mt_fields = [
     \<lparr>fi_no = 1, fi_name = ''namespace'', fi_kind = Scalar STRING, fi_repeat = NoRepeat\<rparr>,
     \<lparr>fi_no = 2, fi_name = ''key'', fi_kind = Scalar STRING, fi_repeat = NoRepeat\<rparr>]\<rparr>"

definition GetCacheRequest_values :: "GetCacheRequest \<Rightarrow> dyn list" where
  "GetCacheRequest_values m = [DStr (GetCacheRequest_namespace m), DStr (GetCacheRequest_key m)]"

definition GetCacheResponse_type :: message_info where
  "GetCacheResponse_type = \<lparr>mt_typeName = ''pgapp.v1.GetCacheResponse'', mt_fields = [
     \<lparr>fi_no = 1, fi_name = ''hit'', fi_kind = Scalar BOOL, fi_repeat = NoRepeat\<rparr>,
     \<lparr>fi_no = 2, fi_name = ''value'', fi_kind = Scalar BYTES, fi_repeat = NoRepeat\<rparr>]\<rparr>"

definition GetCacheResponse_values :: "GetCacheResponse \<Rightarrow> dyn list" where
  "GetCacheResponse_values m = [DBool (GetCacheResponse_hit m), DBytes (GetCacheResponse_value m)]"

definition MGetCacheRequest_type :: message_info where
  "MGetCacheRequest_type = \<lparr>mt_typeName = ''pgapp.v1.MGetCacheRequest'', mt_fields = [
     \<lparr>fi_no = 1, fi_name = ''namespace'', fi_kind = Scalar STRING, fi_repeat = NoRepeat\<rparr>,
     \<lparr>fi_no = 2, fi_name = ''keys'', fi_kind = Scalar STRING, fi_repeat = UNPACKED\<rparr>]\<rparr>"

definition MGetCacheRequest_values :: "MGetCacheRequest \<Rightarrow> dyn list" where
  "MGetCacheRequest_values m = [DStr (MGetCacheRequest_namespace m), DList (map DStr (MGetCacheRequest_keys m))]"

definition CacheItem_type :: message_info where
  "CacheItem_type = \<lparr>mt_typeName = ''pgapp.v1.CacheItem'', mt_fields = [
     \<lparr>fi_no = 1, fi_name = ''key'', fi_kind = Scalar STRING, fi_repeat = NoRepeat\<rparr>,
     \<lparr>fi_no = 2, fi_name = ''hit'', fi_kind = Scalar BOOL, fi_repeat = NoRepeat\<rparr>,
     \<lparr>fi_no = 3, fi_name = ''value'', fi_kind = Scalar BYTES, fi_repeat = NoRepeat\<rparr>]\<rparr>"

definition CacheItem_values :: "CacheItem \<Rightarrow> dyn list" where
  "CacheItem_values m = [DStr (CacheItem_key m), DBool (CacheItem_hit m), DBytes (CacheItem_value m)]"

definition MGetCacheResponse_type :: message_info where
  "MGetCacheResponse_type = \<lparr>mt_typeName = ''pgapp.v1.MGetCacheResponse'', mt_fields = [
     \<lparr>fi_no = 1, fi_name = ''items'', fi_kind = Message ''pgapp.v1.CacheItem'', fi_repeat = UNPACKED\<rparr>]\<rparr>"

definition MGetCacheResponse_values :: "MGetCacheResponse \<Rightarrow> dyn list" where
  "MGetCacheResponse_values m = [DList (map (\<lambda>v. DMsg (CacheItem_encode proto_E v)) (MGetCacheResponse_items m))]"

definition DeleteCacheRequest_type :: message_info where
  "DeleteCacheRequest_type = \<lparr>mt_typeName = ''pgapp.v1.DeleteCacheRequest'', mt_fields = [
     \<lparr>fi_no = 1, fi_name = ''namespace'', fi_kind = Scalar STRING, fi_repeat = NoRepeat\<rparr>,
     \<lparr>fi_no = 2, fi_name = ''key'', fi_kind = Scalar STRING, fi_repeat = NoRepeat\<rparr>]\<rparr>"

definition DeleteCacheRequest_values :: "DeleteCacheRequest \<Rightarrow> dyn list" where
  "DeleteCacheRequest_values m = [DStr (DeleteCacheRequest_namespace m), DStr (DeleteCacheRequest_key m)]"

definition ExistsCacheRequest_type :: message_info where
  "ExistsCacheRequest_type = \<lparr>mt_typeName = ''pgapp.v1.ExistsCacheRequest'', mt_fields = [
     \<lparr>fi_no = 1, fi_name = ''namespace'', fi_kind = Scalar STRING, fi_repeat = NoRepeat\<rparr>,
     \<lparr>fi_no = 2, fi_name = ''key'', fi_kind = Scalar STRING, fi_repeat = NoRepeat\<rparr>]\<rparr>"

definition ExistsCacheRequest_values :: "ExistsCacheRequest \<Rightarrow> dyn list" where
  "ExistsCacheRequest_values m = [DStr (ExistsCacheRequest_namespace m), DStr (ExistsCacheRequest_key m)]"

definition ExistsCacheResponse_type :: message_info where
  "ExistsCacheResponse_type = \<lparr>mt_typeName = ''pgapp.v1.ExistsCacheResponse'', mt_fields = [
     \<lparr>fi_no = 1, fi_name = ''exists'', fi_kind = Scalar BOOL, fi_repeat = NoRepeat\<rparr>]\<rparr>"

definition ExistsCacheResponse_values :: "ExistsCacheResponse \<Rightarrow> dyn list" where
  "ExistsCacheResponse_values m = [DBool (ExistsCacheResponse_exists m)]"

definition InvalidateNamespaceRequest_type :: message_info where
  "InvalidateNamespaceRequest_type = \<lparr>mt_typeName = ''pgapp.v1.InvalidateNamespaceRequest'', mt_fields = [
     \<lparr>fi_no = 1, fi_name = ''namespace'', fi_kind = Scalar STRING, fi_repeat = NoRepeat\<rparr>]\<rparr>"

definition InvalidateNamespaceRequest_values :: "InvalidateNamespaceRequest \<Rightarrow> dyn list" where
  "InvalidateNamespaceRequest_values m = [DStr (InvalidateNamespaceRequest_namespace m)]"

definition CacheStatsRequest_type :: message_info where
  "CacheStatsRequest_type = \<lparr>mt_typeName = ''pgapp.v1.CacheStatsRequest'', mt_fields = []\<rparr>"

definition CacheStatsRequest_values :: "CacheStatsRequest \<Rightarrow> dyn list" where
  "CacheStatsRequest_values m = []"

definition NamespaceUsage_type :: message_info where
  "NamespaceUsage_type = \<lparr>mt_typeName = ''pgapp.v1.NamespaceUsage'', mt_fields = [
     \<lparr>fi_no = 1, fi_name = ''namespace'', fi_kind = Scalar STRING, fi_repeat = NoRepeat\<rparr>,
     \<lparr>fi_no = 2, fi_name = ''key_count'', fi_kind = Scalar INT64, fi_repeat = NoRepeat\<rparr>,
     \<lparr>fi_no = 3, fi_name = ''byte_size'', fi_kind = Scalar INT64, fi_repeat = NoRepeat\<rparr>]\<rparr>"

definition NamespaceUsage_values :: "NamespaceUsage \<Rightarrow> dyn list" where
  "NamespaceUsage_values m = [DStr (NamespaceUsage_namespace m), DStr (NamespaceUsage_keyCount m), DStr (NamespaceUsage_byteSize m)]"

definition CacheStatsResponse_type :: message_info where
  "CacheStatsResponse_type = \<lparr>mt_typeName = ''pgapp.v1.CacheStatsResponse'', mt_fields = [
     \<lparr>fi_no = 1, fi_name = ''hits'', fi_kind = Scalar INT64, fi_repeat = NoRepeat\<rparr>,
     \<lparr>fi_no = 2, fi_name = ''misses'', fi_kind = Scalar INT64, fi_repeat = NoRepeat\<rparr>,
     \<lparr>fi_no = 3, fi_name = ''writes'', fi_kind = Scalar INT64, fi_repeat = NoRepeat\<rparr>,
     \<lparr>fi_no = 4, fi_name = ''deletes'', fi_kind = Scalar INT64, fi_repeat = NoRepeat\<rparr>,
     \<lparr>fi_no = 5, fi_name = ''evictions'', fi_kind = Scalar INT64, fi_repeat = NoRepeat\<rparr>,
     \<lparr>fi_no = 6, fi_name = ''expired_removals'', fi_kind = Scalar INT64, fi_repeat = NoRepeat\<rparr>,
     \<lparr>fi_no = 7, fi_name = ''logical_key_count'', fi_kind = Scalar INT64, fi_repeat = NoRepeat\<rparr>,
     \<lparr>fi_no = 8, fi_name = ''logical_byte_size'', fi_kind = Scalar INT64, fi_repeat = NoRepeat\<rparr>,
     \<lparr>fi_no = 9, fi_name = ''namespace_usage'', fi_kind = Message ''pgapp.v1.NamespaceUsage'', fi_repeat = UNPACKED\<rparr>]\<rparr>"

definition CacheStatsResponse_values :: "CacheStatsResponse \<Rightarrow> dyn list" where
  "CacheStatsResponse_values m = [DStr (CacheStatsResponse_hits m), DStr (CacheStatsResponse_misses m), DStr (CacheStatsResponse_writes m), DStr (CacheStatsResponse_deletes m), DStr (CacheStatsResponse_evictions m), DStr (CacheStatsResponse_expiredRemovals m), DStr (CacheStatsResponse_logicalKeyCount m), DStr (CacheStatsResponse_logicalByteSize m), DList (map (\<lambda>v. DMsg (NamespaceUsage_encode proto_E v)) (CacheStatsResponse_namespaceUsage m))]"

definition IncrementRequest_type :: message_info where
  "IncrementRequest_type = \<lparr>mt_typeName = ''pgapp.v1.IncrementRequest'', mt_fields = [
     \<lparr>fi_no = 1, fi_name = ''namespace'', fi_kind = Scalar STRING, fi_repeat = NoRepeat\<rparr>,
     \<lparr>fi_no = 2, fi_name = ''key'', fi_kind = Scalar STRING, fi_repeat = NoRepeat\<rparr>,
     \<lparr>fi_no = 3, fi_name = ''delta'', fi_kind = Scalar INT64, fi_repeat = NoRepeat\<rparr>,
     \<lparr>fi_no = 4, fi_name = ''ttl_seconds'', fi_kind = Scalar INT64, fi_repeat = NoRepeat\<rparr>]\<rparr>"

definition IncrementRequest_values :: "IncrementRequest \<Rightarrow> dyn list" where
  "IncrementRequest_values m = [DStr (IncrementRequest_namespace m), DStr (IncrementRequest_key m), DStr (IncrementRequest_delta m), DStr (IncrementRequest_ttlSeconds m)]"

definition IncrementResponse_type :: message_info where
  "IncrementResponse_type = \<lparr>mt_typeName = ''pgapp.v1.IncrementResponse'', mt_fields = [
     \<lparr>fi_no = 1, fi_name = ''value'', fi_kind = Scalar INT64, fi_repeat = NoRepeat\<rparr>]\<rparr>"

definition IncrementResponse_values :: "IncrementResponse \<Rightarrow> dyn list" where
  "IncrementResponse_values m = [DStr (IncrementResponse_value m)]"

definition DecrementRequest_type :: message_info where
  "DecrementRequest_type = \<lparr>mt_typeName = ''pgapp.v1.DecrementRequest'', mt_fields = [
     \<lparr>fi_no = 1, fi_name = ''namespace'', fi_kind = Scalar STRING, fi_repeat = NoRepeat\<rparr>,
     \<lparr>fi_no = 2, fi_name = ''key'', fi_kind = Scalar STRING, fi_repeat = NoRepeat\<rparr>,
     \<lparr>fi_no = 3, fi_name = ''delta'', fi_kind = Scalar INT64, fi_repeat = NoRepeat\<rparr>,
     \<lparr>fi_no = 4, fi_name = ''ttl_seconds'', fi_kind = Scalar INT64, fi_repeat = NoRepeat\<rparr>]\<rparr>"

definition DecrementRequest_values :: "DecrementRequest \<Rightarrow> dyn list" where
  "DecrementRequest_values m = [DStr (DecrementRequest_namespace m), DStr (DecrementRequest_key m), DStr (DecrementRequest_delta m), DStr (DecrementRequest_ttlSeconds m)]"

definition DecrementResponse_type :: message_info where
  "DecrementResponse_type = \<lparr>mt_typeName = ''pgapp.v1.DecrementResponse'', mt_fields = [
     \<lparr>fi_no = 1, fi_name = ''value'', fi_kind = Scalar INT64, fi_repeat = NoRepeat\<rparr>]\<rparr>"

definition DecrementResponse_values :: "DecrementResponse \<Rightarrow> dyn list" where
  "DecrementResponse_values m = [DStr (DecrementResponse_value m)]"

definition SetNXRequest_type :: message_info where
  "SetNXRequest_type = \<lparr>mt_typeName = ''pgapp.v1.SetNXRequest'', mt_fields = [
     \<lparr>fi_no = 1, fi_name = ''namespace'', fi_kind = Scalar STRING, fi_repeat = NoRepeat\<rparr>,
     \<lparr>fi_no = 2, fi_name = ''key'', fi_kind = Scalar STRING, fi_repeat = NoRepeat\<rparr>,
     \<lparr>fi_no = 3, fi_name = ''value'', fi_kind = Scalar BYTES, fi_repeat = NoRepeat\<rparr>,
     \<lparr>fi_no = 4, fi_name = ''ttl_seconds'', fi_kind = Scalar INT64, fi_repeat = NoRepeat\<rparr>]\<rparr>"

definition SetNXRequest_values :: "SetNXRequest \<Rightarrow> dyn list" where
  "SetNXRequest_values m = [DStr (SetNXRequest_namespace m), DStr (SetNXRequest_key m), DBytes (SetNXRequest_value m), DStr (SetNXRequest_ttlSeconds m)]"

definition SetNXResponse_type :: message_info where
  "SetNXResponse_type = \<lparr>mt_typeName = ''pgapp.v1.SetNXResponse'', mt_fields = [
     \<lparr>fi_no = 1, fi_name = ''created'', fi_kind = Scalar BOOL, fi_repeat = NoRepeat\<rparr>]\<rparr>"

definition SetNXResponse_values :: "SetNXResponse \<Rightarrow> dyn list" where
  "SetNXResponse_values m = [DBool (SetNXResponse_created m)]"

definition GetSetRequest_type :: message_info where
  "GetSetRequest_type = \<lparr>mt_typeName = ''pgapp.v1.GetSetRequest'', mt_fields = [
     \<lparr>fi_no = 1, fi_name = ''namespace'', fi_kind = Scalar STRING, fi_repeat = NoRepeat\<rparr>,
     \<lparr>fi_no = 2, fi_name = ''key'', fi_kind = Scalar STRING, fi_repeat = NoRepeat\<rparr>,
     \<lparr>fi_no = 3, fi_name = ''value'', fi_kind = Scalar BYTES, fi_repeat = NoRepeat\<rparr>,
     \<lparr>fi_no = 4, fi_name = ''ttl_seconds'', fi_kind = Scalar INT64, fi_repeat = NoRepeat\<rparr>]\<rparr>"

definition GetSetRequest_values :: "GetSetRequest \<Rightarrow> dyn list" where
  "GetSetRequest_values m = [DStr (GetSetRequest_namespace m), DStr (GetSetRequest_key m), DBytes (GetSetRequest_value m), DStr (GetSetRequest_ttlSeconds m)]"

definition GetSetResponse_type :: message_info where
  "GetSetResponse_type = \<lparr>mt_typeName = ''pgapp.v1.GetSetResponse'', mt_fields = [
     \<lparr>fi_no = 1, fi_name = ''hit'', fi_kind = Scalar BOOL, fi_repeat = NoRepeat\<rparr>,
     \<lparr>fi_no = 2, fi_name = ''old_value'', fi_kind = Scalar BYTES, fi_repeat = NoRepeat\<rparr>]\<rparr>"

definition GetSetResponse_values :: "GetSetResponse \<Rightarrow> dyn list" where
  "GetSetResponse_values m = [DBool (GetSetResponse_hit m), DBytes (GetSetResponse_oldValue m)]"

definition AppendRequest_type :: message_info where
  "AppendRequest_type = \<lparr>mt_typeName = ''pgapp.v1.AppendRequest'', mt_fields = [
     \<lparr>fi_no = 1, fi_name = ''namespace'', fi_kind = Scalar STRING, fi_repeat = NoRepeat\<rparr>,
     \<lparr>fi_no = 2, fi_name = ''key'', fi_kind = Scalar STRING, fi_repeat = NoRepeat\<rparr>,
     \<lparr>fi_no = 3, fi_name = ''value'', fi_kind = Scalar BYTES, fi_repeat = NoRepeat\<rparr>,
     \<lparr>fi_no = 4, fi_name = ''ttl_seconds'', fi_kind = Scalar INT64, fi_repeat = NoRepeat\<rparr>]\<rparr>"

definition AppendRequest_values :: "AppendRequest \<Rightarrow> dyn list" where
  "AppendRequest_values m = [DStr (AppendRequest_namespace m), DStr (AppendRequest_key m), DBytes (AppendRequest_value m), DStr (AppendRequest_ttlSeconds m)]"

definition AppendResponse_type :: message_info where
  "AppendResponse_type = \<lparr>mt_typeName = ''pgapp.v1.AppendResponse'', mt_fields = [
     \<lparr>fi_no = 1, fi_name = ''length'', fi_kind = Scalar INT64, fi_repeat = NoRepeat\<rparr>]\<rparr>"

definition AppendResponse_values :: "AppendResponse \<Rightarrow> dyn list" where
  "AppendResponse_values m = [DStr (AppendResponse_length m)]"

definition PrependRequest_type :: message_info where
  "PrependRequest_type = \<lparr>mt_typeName = ''pgapp.v1.PrependRequest'', mt_fields = [
     \<lparr>fi_no = 1, fi_name = ''namespace'', fi_kind = Scalar STRING, fi_repeat = NoRepeat\<rparr>,
     \<lparr>fi_no = 2, fi_name = ''key'', fi_kind = Scalar STRING, fi_repeat = NoRepeat\<rparr>,
     \<lparr>fi_no = 3, fi_name = ''value'', fi_kind = Scalar BYTES, fi_repeat = NoRepeat\<rparr>,
     \<lparr>fi_no = 4, fi_name = ''ttl_seconds'', fi_kind = Scalar INT64, fi_repeat = NoRepeat\<rparr>]\<rparr>"

definition PrependRequest_values :: "PrependRequest \<Rightarrow> dyn list" where
  "PrependRequest_values m = [DStr (PrependRequest_namespace m), DStr (PrependRequest_key m), DBytes (PrependRequest_value m), DStr (PrependRequest_ttlSeconds m)]"

definition PrependResponse_type :: message_info where
  "PrependResponse_type = \<lparr>mt_typeName = ''pgapp.v1.PrependResponse'', mt_fields = [
     \<lparr>fi_no = 1, fi_name = ''length'', fi_kind = Scalar INT64, fi_repeat = NoRepeat\<rparr>]\<rparr>"

definition PrependResponse_values :: "PrependResponse \<Rightarrow> dyn list" where
  "PrependResponse_values m = [DStr (PrependResponse_length m)]"

section \<open>mq.ts\<close>

definition CreateQueueRequest_type :: message_info where
  "CreateQueueRequest_type = \<lparr>mt_typeName = ''pgapp.v1.CreateQueueRequest'', mt_fields = [
     \<lparr>fi_no = 1, fi_name = ''queue_name'', fi_kind = Scalar STRING, fi_repeat = NoRepeat\<rparr>,
     \<lparr>fi_no = 2, fi_name = ''storage_mode'', fi_kind = Enum ''pgapp.v1.QueueStorageMode'' ''QUEUE_STORAGE_MODE_'', fi_repeat = NoRepeat\<rparr>]\<rparr>"

definition CreateQueueRequest_values :: "CreateQueueRequest \<Rightarrow> dyn list" where
  "CreateQueueRequest_values m = [DStr (CreateQueueRequest_queueName m), DNum (CreateQueueRequest_storageMode m)]"

definition PurgeQueueRequest_type :: message_info where
  "PurgeQueueRequest_type = \<lparr>mt_typeName = ''pgapp.v1.PurgeQueueRequest'', mt_fields = [
     \<lparr>fi_no = 1, fi_name = ''queue_name'', fi_kind = Scalar STRING, fi_repeat = NoRepeat\<rparr>]\<rparr>"

definition PurgeQueueRequest_values :: "PurgeQueueRequest \<Rightarrow> dyn list" where
  "PurgeQueueRequest_values m = [DStr (PurgeQueueRequest_queueName m)]"

definition DropQueueRequest_type :: message_info where
  "DropQueueRequest_type = \<lparr>mt_typeName = ''pgapp.v1.DropQueueRequest'', mt_fields = [
     \<lparr>fi_no = 1, fi_name = ''queue_name'', fi_kind = Scalar STRING, fi_repeat = NoRepeat\<rparr>]\<rparr>"

definition DropQueueRequest_values :: "DropQueueRequest \<Rightarrow> dyn list" where
  "DropQueueRequest_values m = [DStr (DropQueueRequest_queueName m)]"

definition SendMessageRequest_type :: message_info where
  "SendMessageRequest_type = \<lparr>mt_typeName = ''pgapp.v1.SendMessageRequest'', mt_fields = [
     \<lparr>fi_no = 1, fi_name = ''queue_name'', fi_kind = Scalar STRING, fi_repeat = NoRepeat\<rparr>,
     \<lparr>fi_no = 2, fi_name = ''json_payload'', fi_kind = Scalar STRING, fi_repeat = NoRepeat\<rparr>,
     \<lparr>fi_no = 3, fi_name = ''delay_seconds'', fi_kind = Scalar INT64, fi_repeat = NoRepeat\<rparr>]\<rparr>"

definition SendMessageRequest_values :: "SendMessageRequest \<Rightarrow> dyn list" where
  "SendMessageRequest_values m = [DStr (SendMessageRequest_queueName m), DStr (SendMessageRequest_jsonPayload m), DStr (SendMessageRequest_delaySeconds m)]"

definition SendMessageResponse_type :: message_info where
  "SendMessageResponse_type = \<lparr>mt_typeName = ''pgapp.v1.SendMessageResponse'', mt_fields = [
     \<lparr>fi_no = 1, fi_name = ''message_id'', fi_kind = Scalar INT64, fi_repeat = NoRepeat\<rparr>]\<rparr>"

definition SendMessageResponse_values :: "SendMessageResponse \<Rightarrow> dyn list" where
  "SendMessageResponse_values m = [DStr (SendMessageResponse_messageId m)]"

definition SendBatchRequest_type :: message_info where
  "SendBatchRequest_type = \<lparr>mt_typeName = ''pgapp.v1.SendBatchRequest'', mt_fields = [
     \<lparr>fi_no = 1, fi_name = ''queue_name'', fi_kind = Scalar STRING, fi_repeat = NoRepeat\<rparr>,
     \<lparr>fi_no = 2, fi_name = ''json_payloads'', fi_kind = Scalar STRING, fi_repeat = UNPACKED\<rparr>,
     \<lparr>fi_no = 3, fi_name = ''delay_seconds'', fi_kind = Scalar INT64, fi_repeat = NoRepeat\<rparr>]\<rparr>"

definition SendBatchRequest_values :: "SendBatchRequest \<Rightarrow> dyn list" where
  "SendBatchRequest_values m = [DStr (SendBatchRequest_queueName m), DList (map DStr (SendBatchRequest_jsonPayloads m)), DStr (SendBatchRequest_delaySeconds m)]"

definition SendBatchResponse_type :: message_info where
  "SendBatchResponse_type = \<lparr>mt_typeName = ''pgapp.v1.SendBatchResponse'', mt_fields = [
     \<lparr>fi_no = 1, fi_name = ''message_ids'', fi_kind = Scalar INT64, fi_repeat = PACKED\<rparr>]\<rparr>"

definition SendBatchResponse_values :: "SendBatchResponse \<Rightarrow> dyn list" where
  "SendBatchResponse_values m = [DList (map DStr (SendBatchResponse_messageIds m))]"

definition ReadMessagesRequest_type :: message_info where
  "ReadMessagesRequest_type = \<lparr>mt_typeName = ''pgapp.v1.ReadMessagesRequest'', mt_fields = [
     \<lparr>fi_no = 1, fi_name = ''queue_name'', fi_kind = Scalar STRING, fi_repeat = NoRepeat\<rparr>,
     \<lparr>fi_no = 2, fi_name = ''quantity'', fi_kind = Scalar INT32, fi_repeat = NoRepeat\<rparr>,
     \<lparr>fi_no = 3, fi_name = ''visibility_timeout_seconds'', fi_kind = Scalar INT64, fi_repeat = NoRepeat\<rparr>]\<rparr>"

definition ReadMessagesRequest_values :: "ReadMessagesRequest \<Rightarrow> dyn list" where
  "ReadMessagesRequest_values m = [DStr (ReadMessagesRequest_queueName m), DNum (ReadMessagesRequest_quantity m), DStr (ReadMessagesRequest_visibilityTimeoutSeconds m)]"

definition ReadWithPollRequest_type :: message_info where
  "ReadWithPollRequest_type = \<lparr>mt_typeName = ''pgapp.v1.ReadWithPollRequest'', mt_fields = [
     \<lparr>fi_no = 1, fi_name = ''queue_name'', fi_kind = Scalar STRING, fi_repeat = NoRepeat\<rparr>,
     \<lparr>fi_no = 2, fi_name = ''quantity'', fi_kind = Scalar INT32, fi_repeat = NoRepeat\<rparr>,
     \<lparr>fi_no = 3, fi_name = ''visibility_timeout_seconds'', fi_kind = Scalar INT64, fi_repeat = NoRepeat\<rparr>,
     \<lparr>fi_no = 4, fi_name = ''max_poll_seconds'', fi_kind = Scalar INT64, fi_repeat = NoRepeat\<rparr>,
     \<lparr>fi_no = 5, fi_name = ''poll_interval_millis'', fi_kind = Scalar INT64, fi_repeat = NoRepeat\<rparr>]\<rparr>"

definition ReadWithPollRequest_values :: "ReadWithPollRequest \<Rightarrow> dyn list" where
  "ReadWithPollRequest_values m = [DStr (ReadWithPollRequest_queueName m), DNum (ReadWithPollRequest_quantity m), DStr (ReadWithPollRequest_visibilityTimeoutSeconds m), DStr (ReadWithPollRequest_maxPollSeconds m), DStr (ReadWithPollRequest_pollIntervalMillis m)]"

definition StreamReadRequest_type :: message_info where
  "StreamReadRequest_type = \<lparr>mt_typeName = ''pgapp.v1.StreamReadRequest'', mt_fields = [
     \<lparr>fi_no = 1, fi_name = ''queue_name'', fi_kind = Scalar STRING, fi_repeat = NoRepeat\<rparr>,
     \<lparr>fi_no = 2, fi_name = ''quantity'', fi_kind = Scalar INT32, fi_repeat = NoRepeat\<rparr>,
     \<lparr>fi_no = 3, fi_name = ''visibility_timeout_seconds'', fi_kind = Scalar INT64, fi_repeat = NoRepeat\<rparr>]\<rparr>"

definition StreamReadRequest_values :: "StreamReadRequest \<Rightarrow> dyn list" where
  "StreamReadRequest_values m = [DStr (StreamReadRequest_queueName m), DNum (StreamReadRequest_quantity m), DStr (StreamReadRequest_visibilityTimeoutSeconds m)]"

definition QueueMessage_type :: message_info where
  "QueueMessage_type = \<lparr>mt_typeName = ''pgapp.v1.QueueMessage'', mt_fields = [
     \<lparr>fi_no = 1, fi_name = ''message_id'', fi_kind = Scalar INT64, fi_repeat = NoRepeat\<rparr>,
     \<lparr>fi_no = 2, fi_name = ''read_count'', fi_kind = Scalar INT32, fi_repeat = NoRepeat\<rparr>,
     \<lparr>fi_no = 3, fi_name = ''enqueued_at'', fi_kind = Scalar STRING, fi_repeat = NoRepeat\<rparr>,
     \<lparr>fi_no = 4, fi_name = ''visibility_timeout_at'', fi_kind = Scalar STRING, fi_repeat = NoRepeat\<rparr>,
     \<lparr>fi_no = 5, fi_name = ''json_payload'', fi_kind = Scalar STRING, fi_repeat = NoRepeat\<rparr>,
     \<lparr>fi_no = 6, fi_name = ''ack_token'', fi_kind = Scalar STRING, fi_repeat = NoRepeat\<rparr>]\<rparr>"

definition QueueMessage_values :: "QueueMessage \<Rightarrow> dyn list" where
  "QueueMessage_values m = [DStr (QueueMessage_messageId m), DNum (QueueMessage_readCount m), DStr (QueueMessage_enqueuedAt m), DStr (QueueMessage_visibilityTimeoutAt m), DStr (QueueMessage_jsonPayload m), DStr (QueueMessage_ackToken m)]"

definition ReadMessagesResponse_type :: message_info where
  "ReadMessagesResponse_type = \<lparr>mt_typeName = ''pgapp.v1.ReadMessagesResponse'', mt_fields = [
     \<lparr>fi_no = 1, fi_name = ''messages'', fi_kind = Message ''pgapp.v1.QueueMessage'', fi_repeat = UNPACKED\<rparr>]\<rparr>"

definition ReadMessagesResponse_values :: "ReadMessagesResponse \<Rightarrow> dyn list" where
  "ReadMessagesResponse_values m = [DList (map (\<lambda>v. DMsg (QueueMessage_encode proto_E v)) (ReadMessagesResponse_messages m))]"

definition AckMessageRequest_type :: message_info where
  "AckMessageRequest_type = \<lparr>mt_typeName = ''pgapp.v1.AckMessageRequest'', mt_fields = [
     \<lparr>fi_no = 1, fi_name = ''queue_name'', fi_kind = Scalar STRING, fi_repeat = NoRepeat\<rparr>,
     \<lparr>fi_no = 2, fi_name = ''message_id'', fi_kind = Scalar INT64, fi_repeat = NoRepeat\<rparr>,
     \<lparr>fi_no = 3, fi_name = ''ack_token'', fi_kind = Scalar STRING, fi_repeat = NoRepeat\<rparr>]\<rparr>"

definition AckMessageRequest_values :: "AckMessageRequest \<Rightarrow> dyn list" where
  "AckMessageRequest_values m = [DStr (AckMessageRequest_queueName m), DStr (AckMessageRequest_messageId m), DStr (AckMessageRequest_ackToken m)]"

definition ArchiveMessageRequest_type :: message_info where
  "ArchiveMessageRequest_type = \<lparr>mt_typeName = ''pgapp.v1.ArchiveMessageRequest'', mt_fields = [
     \<lparr>fi_no = 1, fi_name = ''queue_name'', fi_kind = Scalar STRING, fi_repeat = NoRepeat\<rparr>,
     \<lparr>fi_no = 2, fi_name = ''message_id'', fi_kind = Scalar INT64, fi_repeat = NoRepeat\<rparr>,
     \<lparr>fi_no = 3, fi_name = ''ack_token'', fi_kind = Scalar STRING, fi_repeat = NoRepeat\<rparr>]\<rparr>"

definition ArchiveMessageRequest_values :: "ArchiveMessageRequest \<Rightarrow> dyn list" where
  "ArchiveMessageRequest_values m = [DStr (ArchiveMessageRequest_queueName m), DStr (ArchiveMessageRequest_messageId m), DStr (ArchiveMessageRequest_ackToken m)]"

definition SetVisibilityTimeoutRequest_type :: message_info where
  "SetVisibilityTimeoutRequest_type = \<lparr>mt_typeName = ''pgapp.v1.SetVisibilityTimeoutRequest'', mt_fields = [
     \<lparr>fi_no = 1, fi_name = ''queue_name'', fi_kind = Scalar STRING, fi_repeat = NoRepeat\<rparr>,
     \<lparr>fi_no = 2, fi_name = ''message_id'', fi_kind = Scalar INT64, fi_repeat = NoRepeat\<rparr>,
     \<lparr>fi_no = 3, fi_name = ''visibility_timeout_seconds'', fi_kind = Scalar INT64, fi_repeat = NoRepeat\<rparr>,
     \<lparr>fi_no = 4, fi_name = ''ack_token'', fi_kind = Scalar STRING, fi_repeat = NoRepeat\<rparr>]\<rparr>"

definition SetVisibilityTimeoutRequest_values :: "SetVisibilityTimeoutRequest \<Rightarrow> dyn list" where
  "SetVisibilityTimeoutRequest_values m = [DStr (SetVisibilityTimeoutRequest_queueName m), DStr (SetVisibilityTimeoutRequest_messageId m), DStr (SetVisibilityTimeoutRequest_visibilityTimeoutSeconds m), DStr (SetVisibilityTimeoutRequest_ackToken m)]"

definition QueueMetricsRequest_type :: message_info where
  "QueueMetricsRequest_type = \<lparr>mt_typeName = ''pgapp.v1.QueueMetricsRequest'', mt_fields = [
     \<lparr>fi_no = 1, fi_name = ''queue_name'', fi_kind = Scalar STRING, fi_repeat = NoRepeat\<rparr>]\<rparr>"

definition QueueMetricsRequest_values :: "QueueMetricsRequest \<Rightarrow> dyn list" where
  "QueueMetricsRequest_values m = [DStr (QueueMetricsRequest_queueName m)]"

definition QueueMetricsResponse_type :: message_info where
  "QueueMetricsResponse_type = \<lparr>mt_typeName = ''pgapp.v1.QueueMetricsResponse'', mt_fields = [
     \<lparr>fi_no = 1, fi_name = ''visible_message_count'', fi_kind = Scalar INT64, fi_repeat = NoRepeat\<rparr>,
     \<lparr>fi_no = 2, fi_name = ''in_flight_message_count'', fi_kind = Scalar INT64, fi_repeat = NoRepeat\<rparr>,
     \<lparr>fi_no = 3, fi_name = ''oldest_visible_message_age_seconds'', fi_kind = Scalar INT64, fi_repeat = NoRepeat\<rparr>,
     \<lparr>fi_no = 4, fi_name = ''archived_message_count'', fi_kind = Scalar INT64, fi_repeat = NoRepeat\<rparr>,
     \<lparr>fi_no = 5, fi_name = ''dlq_message_count'', fi_kind = Scalar INT64, fi_repeat = NoRepeat\<rparr>]\<rparr>"

definition QueueMetricsResponse_values :: "QueueMetricsResponse \<Rightarrow> dyn list" where
  "QueueMetricsResponse_values m = [DStr (QueueMetricsResponse_visibleMessageCount m), DStr (QueueMetricsResponse_inFlightMessageCount m), DStr (QueueMetricsResponse_oldestVisibleMessageAgeSeconds m), DStr (QueueMetricsResponse_archivedMessageCount m), DStr (QueueMetricsResponse_dlqMessageCount m)]"

definition DlqMessage_type :: message_info where
  "DlqMessage_type = \<lparr>mt_typeName = ''pgapp.v1.DlqMessage'', mt_fields = [
     \<lparr>fi_no = 1, fi_name = ''id'', fi_kind = Scalar INT64, fi_repeat = NoRepeat\<rparr>,
     \<lparr>fi_no = 2, fi_name = ''original_message_id'', fi_kind = Scalar INT64, fi_repeat = NoRepeat\<rparr>,
     \<lparr>fi_no = 3, fi_name = ''read_count'', fi_kind = Scalar INT32, fi_repeat = NoRepeat\<rparr>,
     \<lparr>fi_no = 4, fi_name = ''enqueued_at'', fi_kind = Scalar STRING, fi_repeat = NoRepeat\<rparr>,
     \<lparr>fi_no = 5, fi_name = ''dead_lettered_at'', fi_kind = Scalar STRING, fi_repeat = NoRepeat\<rparr>,
     \<lparr>fi_no = 6, fi_name = ''json_payload'', fi_kind = Scalar STRING, fi_repeat = NoRepeat\<rparr>,
     \<lparr>fi_no = 7, fi_name = ''reason'', fi_kind = Scalar STRING, fi_repeat = NoRepeat\<rparr>]\<rparr>"

definition DlqMessage_values :: "DlqMessage \<Rightarrow> dyn list" where
  "DlqMessage_values m = [DStr (DlqMessage_id m), DStr (DlqMessage_originalMessageId m), DNum (DlqMessage_readCount m), DStr (DlqMessage_enqueuedAt m), DStr (DlqMessage_deadLetteredAt m), DStr (DlqMessage_jsonPayload m), DStr (DlqMessage_reason m)]"

definition ListDlqMessagesRequest_type :: message_info where
  "ListDlqMessagesRequest_type = \<lparr>mt_typeName = ''pgapp.v1.ListDlqMessagesRequest'', mt_fields = [
     \<lparr>fi_no = 1, fi_name = ''queue_name'', fi_kind = Scalar STRING, fi_repeat = NoRepeat\<rparr>,
     \<lparr>fi_no = 2, fi_name = ''limit'', fi_kind = Scalar INT32, fi_repeat = NoRepeat\<rparr>,
     \<lparr>fi_no = 3, fi_name = ''offset'', fi_kind = Scalar INT64, fi_repeat = NoRepeat\<rparr>]\<rparr>"

definition ListDlqMessagesRequest_values :: "ListDlqMessagesRequest \<Rightarrow> dyn list" where
  "ListDlqMessagesRequest_values m = [DStr (ListDlqMessagesRequest_queueName m), DNum (ListDlqMessagesRequest_limit m), DStr (ListDlqMessagesRequest_offset m)]"

definition ListDlqMessagesResponse_type :: message_info where
  "ListDlqMessagesResponse_type = \<lparr>mt_typeName = ''pgapp.v1.ListDlqMessagesResponse'', mt_fields = [
     \<lparr>fi_no = 1, fi_name = ''messages'', fi_kind = Message ''pgapp.v1.DlqMessage'', fi_repeat = UNPACKED\<rparr>,
     \<lparr>fi_no = 2, fi_name = ''next_offset'', fi_kind = Scalar INT64, fi_repeat = NoRepeat\<rparr>]\<rparr>"

definition ListDlqMessagesResponse_values :: "ListDlqMessagesResponse \<Rightarrow> dyn list" where
  "ListDlqMessagesResponse_values m = [DList (map (\<lambda>v. DMsg (DlqMessage_encode proto_E v)) (ListDlqMessagesResponse_messages m)), DStr (ListDlqMessagesResponse_nextOffset m)]"

definition GetDlqMessageRequest_type :: message_info where
  "GetDlqMessageRequest_type = \<lparr>mt_typeName = ''pgapp.v1.GetDlqMessageRequest'', mt_fields = [
     \<lparr>fi_no = 1, fi_name = ''queue_name'', fi_kind = Scalar STRING, fi_repeat = NoRepeat\<rparr>,
     \<lparr>fi_no = 2, fi_name = ''original_message_id'', fi_kind = Scalar INT64, fi_repeat = NoRepeat\<rparr>]\<rparr>"

definition GetDlqMessageRequest_values :: "GetDlqMessageRequest \<Rightarrow> dyn list" where
  "GetDlqMessageRequest_values m = [DStr (GetDlqMessageRequest_queueName m), DStr (GetDlqMessageRequest_originalMessageId m)]"

definition ReprocessDlqMessageRequest_type :: message_info where
  "ReprocessDlqMessageRequest_type = \<lparr>mt_typeName = ''pgapp.v1.ReprocessDlqMessageRequest'', mt_fields = [
     \<lparr>fi_no = 1, fi_name = ''queue_name'', fi_kind = Scalar STRING, fi_repeat = NoRepeat\<rparr>,
     \<lparr>fi_no = 2, fi_name = ''original_message_id'', fi_kind = Scalar INT64, fi_repeat = NoRepeat\<rparr>]\<rparr>"

definition ReprocessDlqMessageRequest_values :: "ReprocessDlqMessageRequest \<Rightarrow> dyn list" where
  "ReprocessDlqMessageRequest_values m = [DStr (ReprocessDlqMessageRequest_queueName m), DStr (ReprocessDlqMessageRequest_originalMessageId m)]"

definition PurgeDlqRequest_type :: message_info where
  "PurgeDlqRequest_type = \<lparr>mt_typeName = ''pgapp.v1.PurgeDlqRequest'', mt_fields = [
     \<lparr>fi_no = 1, fi_name = ''queue_name'', fi_kind = Scalar STRING, fi_repeat = NoRepeat\<rparr>]\<rparr>"

definition PurgeDlqRequest_values :: "PurgeDlqRequest \<Rightarrow> dyn list" where
  "PurgeDlqRequest_values m = [DStr (PurgeDlqRequest_queueName m)]"

section \<open>config.ts\<close>

definition ConfigScope_type :: message_info where
  "ConfigScope_type = \<lparr>mt_typeName = ''pgapp.v1.ConfigScope'', mt_fields = [
     \<lparr>fi_no = 1, fi_name = ''app_id'', fi_kind = Scalar STRING, fi_repeat = NoRepeat\<rparr>,
     \<lparr>fi_no = 2, fi_name = ''environment'', fi_kind = Scalar STRING, fi_repeat = NoRepeat\<rparr>,
     \<lparr>fi_no = 3, fi_name = ''cluster'', fi_kind = Scalar STRING, fi_repeat = NoRepeat\<rparr>,
     \<lparr>fi_no = 4, fi_name = ''namespace'', fi_kind = Scalar STRING, fi_repeat = NoRepeat\<rparr>]\<rparr>"

definition ConfigScope_values :: "ConfigScope \<Rightarrow> dyn list" where
  "ConfigScope_values m = [DStr (ConfigScope_appId m), DStr (ConfigScope_environment m), DStr (ConfigScope_cluster m), DStr (ConfigScope_namespace m)]"

definition ConfigItem_type :: message_info where
  "ConfigItem_type = \<lparr>mt_typeName = ''pgapp.v1.ConfigItem'', mt_fields = [
     \<lparr>fi_no = 1, fi_name = ''key'', fi_kind = Scalar STRING, fi_repeat = NoRepeat\<rparr>,
     \<lparr>fi_no = 2, fi_name = ''json_value'', fi_kind = Scalar STRING, fi_repeat = NoRepeat\<rparr>,
     \<lparr>fi_no = 3, fi_name = ''deleted'', fi_kind = Scalar BOOL, fi_repeat = NoRepeat\<rparr>,
     \<lparr>fi_no = 4, fi_name = ''updated_at'', fi_kind = Scalar STRING, fi_repeat = NoRepeat\<rparr>]\<rparr>"

definition ConfigItem_values :: "ConfigItem \<Rightarrow> dyn list" where
  "ConfigItem_values m = [DStr (ConfigItem_key m), DStr (ConfigItem_jsonValue m), DBool (ConfigItem_deleted m), DStr (ConfigItem_updatedAt m)]"

definition ConfigRelease_type :: message_info where
  "ConfigRelease_type = \<lparr>mt_typeName = ''pgapp.v1.ConfigRelease'', mt_fields = [
     \<lparr>fi_no = 1, fi_name = ''scope'', fi_kind = Message ''pgapp.v1.ConfigScope'', fi_repeat = NoRepeat\<rparr>,
     \<lparr>fi_no = 2, fi_name = ''revision'', fi_kind = Scalar INT64, fi_repeat = NoRepeat\<rparr>,
     \<lparr>fi_no = 3, fi_name = ''checksum'', fi_kind = Scalar STRING, fi_repeat = NoRepeat\<rparr>,
     \<lparr>fi_no = 4, fi_name = ''snapshot_json'', fi_kind = Scalar STRING, fi_repeat = NoRepeat\<rparr>,
     \<lparr>fi_no = 5, fi_name = ''message'', fi_kind = Scalar STRING, fi_repeat = NoRepeat\<rparr>,
     \<lparr>fi_no = 6, fi_name = ''published_by'', fi_kind = Scalar STRING, fi_repeat = NoRepeat\<rparr>,
     \<lparr>fi_no = 7, fi_name = ''published_at'', fi_kind = Scalar STRING, fi_repeat = NoRepeat\<rparr>]\<rparr>"

definition ConfigRelease_values :: "ConfigRelease \<Rightarrow> dyn list" where
  "ConfigRelease_values m = [DOpt (map_option (ConfigScope_encode proto_E) (ConfigRelease_scope m)), DStr (ConfigRelease_revision m), DStr (ConfigRelease_checksum m), DStr (ConfigRelease_snapshotJson m), DStr (ConfigRelease_message m), DStr (ConfigRelease_publishedBy m), DStr (ConfigRelease_publishedAt m)]"

definition ListConfigScopesRequest_type :: message_info where
  "ListConfigScopesRequest_type = \<lparr>mt_typeName = ''pgapp.v1.ListConfigScopesRequest'', mt_fields = [
     \<lparr>fi_no = 1, fi_name = ''limit'', fi_kind = Scalar INT32, fi_repeat = NoRepeat\<rparr>,
     \<lparr>fi_no = 2, fi_name = ''offset'', fi_kind = Scalar INT64, fi_repeat = NoRepeat\<rparr>]\<rparr>"

definition ListConfigScopesRequest_values :: "ListConfigScopesRequest \<Rightarrow> dyn list" where
  "ListConfigScopesRequest_values m = [DNum (ListConfigScopesRequest_limit m), DStr (ListConfigScopesRequest_offset m)]"

definition ConfigScopeSummary_type :: message_info where
  "ConfigScopeSummary_type = \<lparr>mt_typeName = ''pgapp.v1.ConfigScopeSummary'', mt_fields = [
     \<lparr>fi_no = 1, fi_name = ''scope'', fi_kind = Message ''pgapp.v1.ConfigScope'', fi_repeat = NoRepeat\<rparr>,
     \<lparr>fi_no = 2, fi_name = ''current_revision'', fi_kind = Scalar INT64, fi_repeat = NoRepeat\<rparr>,
     \<lparr>fi_no = 3, fi_name = ''created_at'', fi_kind = Scalar STRING, fi_repeat = NoRepeat\<rparr>,
     \<lparr>fi_no = 4, fi_name = ''updated_at'', fi_kind = Scalar STRING, fi_repeat = NoRepeat\<rparr>]\<rparr>"

definition ConfigScopeSummary_values :: "ConfigScopeSummary \<Rightarrow> dyn list" where
  "ConfigScopeSummary_values m = [DOpt (map_option (ConfigScope_encode proto_E) (ConfigScopeSummary_scope m)), DStr (ConfigScopeSummary_currentRevision m), DStr (ConfigScopeSummary_createdAt m), DStr (ConfigScopeSummary_updatedAt m)]"

definition ListConfigScopesResponse_type :: message_info where
  "ListConfigScopesResponse_type = \<lparr>mt_typeName = ''pgapp.v1.ListConfigScopesResponse'', mt_fields = [
     \<lparr>fi_no = 1, fi_name = ''scopes'', fi_kind = Message ''pgapp.v1.ConfigScopeSummary'', fi_repeat = UNPACKED\<rparr>,
     \<lparr>fi_no = 2, fi_name = ''next_offset'', fi_kind = Scalar INT64, fi_repeat = NoRepeat\<rparr>]\<rparr>"

definition ListConfigScopesResponse_values :: "ListConfigScopesResponse \<Rightarrow> dyn list" where
  "ListConfigScopesResponse_values m = [DList (map (\<lambda>v. DMsg (ConfigScopeSummary_encode proto_E v)) (ListConfigScopesResponse_scopes m)), DStr (ListConfigScopesResponse_nextOffset m)]"

definition UpsertConfigItemRequest_type :: message_info where
  "UpsertConfigItemRequest_type = \<lparr>mt_typeName = ''pgapp.v1.UpsertConfigItemRequest'', mt_fields = [
     \<lparr>fi_no = 1, fi_name = ''scope'', fi_kind = Message ''pgapp.v1.ConfigScope'', fi_repeat = NoRepeat\<rparr>,
     \<lparr>fi_no = 2, fi_name = ''key'', fi_kind = Scalar STRING, fi_repeat = NoRepeat\<rparr>,
     \<lparr>fi_no = 3, fi_name = ''json_value'', fi_kind = Scalar STRING, fi_repeat = NoRepeat\<rparr>]\<rparr>"

definition UpsertConfigItemRequest_values :: "UpsertConfigItemRequest \<Rightarrow> dyn list" where
  "UpsertConfigItemRequest_values m = [DOpt (map_option (ConfigScope_encode proto_E) (UpsertConfigItemRequest_scope m)), DStr (UpsertConfigItemRequest_key m), DStr (UpsertConfigItemRequest_jsonValue m)]"

definition DeleteConfigItemRequest_type :: message_info where
  "DeleteConfigItemRequest_type = \<lparr>mt_typeName = ''pgapp.v1.DeleteConfigItemRequest'', mt_fields = [
     \<lparr>fi_no = 1, fi_name = ''scope'', fi_kind = Message ''pgapp.v1.ConfigScope'', fi_repeat = NoRepeat\<rparr>,
     \<lparr>fi_no = 2, fi_name = ''key'', fi_kind = Scalar STRING, fi_repeat = NoRepeat\<rparr>]\<rparr>"

definition DeleteConfigItemRequest_values :: "DeleteConfigItemRequest \<Rightarrow> dyn list" where
  "DeleteConfigItemRequest_values m = [DOpt (map_option (ConfigScope_encode proto_E) (DeleteConfigItemRequest_scope m)), DStr (DeleteConfigItemRequest_key m)]"

definition GetConfigDraftRequest_type :: message_info where
  "GetConfigDraftRequest_type = \<lparr>mt_typeName = ''pgapp.v1.GetConfigDraftRequest'', mt_fields = [
     \<lparr>fi_no = 1, fi_name = ''scope'', fi_kind = Message ''pgapp.v1.ConfigScope'', fi_repeat = NoRepeat\<rparr>]\<rparr>"

definition GetConfigDraftRequest_values :: "GetConfigDraftRequest \<Rightarrow> dyn list" where
  "GetConfigDraftRequest_values m = [DOpt (map_option (ConfigScope_encode proto_E) (GetConfigDraftRequest_scope m))]"

definition ConfigDraftResponse_type :: message_info where
  "ConfigDraftResponse_type = \<lparr>mt_typeName = ''pgapp.v1.ConfigDraftResponse'', mt_fields = [
     \<lparr>fi_no = 1, fi_name = ''scope'', fi_kind = Message ''pgapp.v1.ConfigScope'', fi_repeat = NoRepeat\<rparr>,
     \<lparr>fi_no = 2, fi_name = ''items'', fi_kind = Message ''pgapp.v1.ConfigItem'', fi_repeat = UNPACKED\<rparr>]\<rparr>"

definition ConfigDraftResponse_values :: "ConfigDraftResponse \<Rightarrow> dyn list" where
  "ConfigDraftResponse_values m = [DOpt (map_option (ConfigScope_encode proto_E) (ConfigDraftResponse_scope m)), DList (map (\<lambda>v. DMsg (ConfigItem_encode proto_E v)) (ConfigDraftResponse_items m))]"

definition PublishConfigRequest_type :: message_info where
  "PublishConfigRequest_type = \<lparr>mt_typeName = ''pgapp.v1.PublishConfigRequest'', mt_fields = [
     \<lparr>fi_no = 1, fi_name = ''scope'', fi_kind = Message ''pgapp.v1.ConfigScope'', fi_repeat = NoRepeat\<rparr>,
     \<lparr>fi_no = 2, fi_name = ''message'', fi_kind = Scalar STRING, fi_repeat = NoRepeat\<rparr>,
     \<lparr>fi_no = 3, fi_name = ''published_by'', fi_kind = Scalar STRING, fi_repeat = NoRepeat\<rparr>]\<rparr>"

definition PublishConfigRequest_values :: "PublishConfigRequest \<Rightarrow> dyn list" where
  "PublishConfigRequest_values m = [DOpt (map_option (ConfigScope_encode proto_E) (PublishConfigRequest_scope m)), DStr (PublishConfigRequest_message m), DStr (PublishConfigRequest_publishedBy m)]"

definition GetConfigReleaseRequest_type :: message_info where
  "GetConfigReleaseRequest_type = \<lparr>mt_typeName = ''pgapp.v1.GetConfigReleaseRequest'', mt_fields = [
     \<lparr>fi_no = 1, fi_name = ''scope'', fi_kind = Message ''pgapp.v1.ConfigScope'', fi_repeat = NoRepeat\<rparr>,
     \<lparr>fi_no = 2, fi_name = ''revision'', fi_kind = Scalar INT64, fi_repeat = NoRepeat\<rparr>]\<rparr>"

definition GetConfigReleaseRequest_values :: "GetConfigReleaseRequest \<Rightarrow> dyn list" where
  "GetConfigReleaseRequest_values m = [DOpt (map_option (ConfigScope_encode proto_E) (GetConfigReleaseRequest_scope m)), DStr (GetConfigReleaseRequest_revision m)]"

definition ListConfigReleasesRequest_type :: message_info where
  "ListConfigReleasesRequest_type = \<lparr>mt_typeName = ''pgapp.v1.ListConfigReleasesRequest'', mt_fields = [
     \<lparr>fi_no = 1, fi_name = ''scope'', fi_kind = Message ''pgapp.v1.ConfigScope'', fi_repeat = NoRepeat\<rparr>,
     \<lparr>fi_no = 2, fi_name = ''limit'', fi_kind = Scalar INT32, fi_repeat = NoRepeat\<rparr>,
     \<lparr>fi_no = 3, fi_name = ''offset'', fi_kind = Scalar INT64, fi_repeat = NoRepeat\<rparr>]\<rparr>"

definition ListConfigReleasesRequest_values :: "ListConfigReleasesRequest \<Rightarrow> dyn list" where
  "ListConfigReleasesRequest_values m = [DOpt (map_option (ConfigScope_encode proto_E) (ListConfigReleasesRequest_scope m)), DNum (ListConfigReleasesRequest_limit m), DStr (ListConfigReleasesRequest_offset m)]"

definition ListConfigReleasesResponse_type :: message_info where
  "ListConfigReleasesResponse_type = \<lparr>mt_typeName = ''pgapp.v1.ListConfigReleasesResponse'', mt_fields = [
     \<lparr>fi_no = 1, fi_name = ''releases'', fi_kind = Message ''pgapp.v1.ConfigRelease'', fi_repeat = UNPACKED\<rparr>,
     \<lparr>fi_no = 2, fi_name = ''next_offset'', fi_kind = Scalar INT64, fi_repeat = NoRepeat\<rparr>]\<rparr>"

definition ListConfigReleasesResponse_values :: "ListConfigReleasesResponse \<Rightarrow> dyn list" where
  "ListConfigReleasesResponse_values m = [DList (map (\<lambda>v. DMsg (ConfigRelease_encode proto_E v)) (ListConfigReleasesResponse_releases m)), DStr (ListConfigReleasesResponse_nextOffset m)]"

definition WatchConfigRequest_type :: message_info where
  "WatchConfigRequest_type = \<lparr>mt_typeName = ''pgapp.v1.WatchConfigRequest'', mt_fields = [
     \<lparr>fi_no = 1, fi_name = ''scope'', fi_kind = Message ''pgapp.v1.ConfigScope'', fi_repeat = NoRepeat\<rparr>,
     \<lparr>fi_no = 2, fi_name = ''known_revision'', fi_kind = Scalar INT64, fi_repeat = NoRepeat\<rparr>,
     \<lparr>fi_no = 3, fi_name = ''timeout_seconds'', fi_kind = Scalar INT64, fi_repeat = NoRepeat\<rparr>]\<rparr>"

definition WatchConfigRequest_values :: "WatchConfigRequest \<Rightarrow> dyn list" where
  "WatchConfigRequest_values m = [DOpt (map_option (ConfigScope_encode proto_E) (WatchConfigRequest_scope m)), DStr (WatchConfigRequest_knownRevision m), DStr (WatchConfigRequest_timeoutSeconds m)]"

definition WatchConfigResponse_type :: message_info where
  "WatchConfigResponse_type = \<lparr>mt_typeName = ''pgapp.v1.WatchConfigResponse'', mt_fields = [
     \<lparr>fi_no = 1, fi_name = ''changed'', fi_kind = Scalar BOOL, fi_repeat = NoRepeat\<rparr>,
     \<lparr>fi_no = 2, fi_name = ''latest_revision'', fi_kind = Scalar INT64, fi_repeat = NoRepeat\<rparr>,
     \<lparr>fi_no = 3, fi_name = ''release'', fi_kind = Message ''pgapp.v1.ConfigRelease'', fi_repeat = NoRepeat\<rparr>]\<rparr>"

definition WatchConfigResponse_values :: "WatchConfigResponse \<Rightarrow> dyn list" where
  "WatchConfigResponse_values m = [DBool (WatchConfigResponse_changed m), DStr (WatchConfigResponse_latestRevision m), DOpt (map_option (ConfigRelease_encode proto_E) (WatchConfigResponse_release m))]"

definition SetConfigSchemaRequest_type :: message_info where
  "SetConfigSchemaRequest_type = \<lparr>mt_typeName = ''pgapp.v1.SetConfigSchemaRequest'', mt_fields = [
     \<lparr>fi_no = 1, fi_name = ''scope'', fi_kind = Message ''pgapp.v1.ConfigScope'', fi_repeat = NoRepeat\<rparr>,
     \<lparr>fi_no = 2, fi_name = ''json_schema'', fi_kind = Scalar STRING, fi_repeat = NoRepeat\<rparr>]\<rparr>"

definition SetConfigSchemaRequest_values :: "SetConfigSchemaRequest \<Rightarrow> dyn list" where
  "SetConfigSchemaRequest_values m = [DOpt (map_option (ConfigScope_encode proto_E) (SetConfigSchemaRequest_scope m)), DStr (SetConfigSchemaRequest_jsonSchema m)]"

definition GetConfigSchemaRequest_type :: message_info where
  "GetConfigSchemaRequest_type = \<lparr>mt_typeName = ''pgapp.v1.GetConfigSchemaRequest'', mt_fields = [
     \<lparr>fi_no = 1, fi_name = ''scope'', fi_kind = Message ''pgapp.v1.ConfigScope'', fi_repeat = NoRepeat\<rparr>]\<rparr>"

definition GetConfigSchemaRequest_values :: "GetConfigSchemaRequest \<Rightarrow> dyn list" where
  "GetConfigSchemaRequest_values m = [DOpt (map_option (ConfigScope_encode proto_E) (GetConfigSchemaRequest_scope m))]"

definition ConfigSchemaResponse_type :: message_info where
  "ConfigSchemaResponse_type = \<lparr>mt_typeName = ''pgapp.v1.ConfigSchemaResponse'', mt_fields = [
     \<lparr>fi_no = 1, fi_name = ''scope'', fi_kind = Message ''pgapp.v1.ConfigScope'', fi_repeat = NoRepeat\<rparr>,
     \<lparr>fi_no = 2, fi_name = ''has_schema'', fi_kind = Scalar BOOL, fi_repeat = NoRepeat\<rparr>,
     \<lparr>fi_no = 3, fi_name = ''json_schema'', fi_kind = Scalar STRING, fi_repeat = NoRepeat\<rparr>]\<rparr>"

definition ConfigSchemaResponse_values :: "ConfigSchemaResponse \<Rightarrow> dyn list" where
  "ConfigSchemaResponse_values m = [DOpt (map_option (ConfigScope_encode proto_E) (ConfigSchemaResponse_scope m)), DBool (ConfigSchemaResponse_hasSchema m), DStr (ConfigSchemaResponse_jsonSchema m)]"

section \<open>health.ts\<close>

definition HealthRequest_type :: message_info where
  "HealthRequest_type = \<lparr>mt_typeName = ''pgapp.v1.HealthRequest'', mt_fields = []\<rparr>"

definition HealthRequest_values :: "HealthRequest \<Rightarrow> dyn list" where
  "HealthRequest_values m = []"

definition HealthResponse_type :: message_info where
  "HealthResponse_type = \<lparr>mt_typeName = ''pgapp.v1.HealthResponse'', mt_fields = [
     \<lparr>fi_no = 1, fi_name = ''live'', fi_kind = Scalar BOOL, fi_repeat = NoRepeat\<rparr>]\<rparr>"

definition HealthResponse_values :: "HealthResponse \<Rightarrow> dyn list" where
  "HealthResponse_values m = [DBool (HealthResponse_live m)]"

definition ReadinessRequest_type :: message_info where
  "ReadinessRequest_type = \<lparr>mt_typeName = ''pgapp.v1.ReadinessRequest'', mt_fields = []\<rparr>"

definition ReadinessRequest_values :: "ReadinessRequest \<Rightarrow> dyn list" where
  "ReadinessRequest_values m = []"

definition ReadinessResponse_type :: message_info where
  "ReadinessResponse_type = \<lparr>mt_typeName = ''pgapp.v1.ReadinessResponse'', mt_fields = [
     \<lparr>fi_no = 1, fi_name = ''ready'', fi_kind = Scalar BOOL, fi_repeat = NoRepeat\<rparr>,
     \<lparr>fi_no = 2, fi_name = ''capabilities'', fi_kind = Message ''pgapp.v1.ServiceCapability'', fi_repeat = UNPACKED\<rparr>]\<rparr>"

definition ReadinessResponse_values :: "ReadinessResponse \<Rightarrow> dyn list" where
  "ReadinessResponse_values m = [DBool (ReadinessResponse_ready m), DList (map (\<lambda>v. DMsg (ServiceCapability_encode proto_E v)) (ReadinessResponse_capabilities m))]"

definition RuntimeMetricsRequest_type :: message_info where
  "RuntimeMetricsRequest_type = \<lparr>mt_typeName = ''pgapp.v1.RuntimeMetricsRequest'', mt_fields = []\<rparr>"

definition RuntimeMetricsRequest_values :: "RuntimeMetricsRequest \<Rightarrow> dyn list" where
  "RuntimeMetricsRequest_values m = []"

definition MethodMetric_type :: message_info where
  "MethodMetric_type = \<lparr>mt_typeName = ''pgapp.v1.MethodMetric'', mt_fields = [
     \<lparr>fi_no = 1, fi_name = ''service'', fi_kind = Scalar STRING, fi_repeat = NoRepeat\<rparr>,
     \<lparr>fi_no = 2, fi_name = ''method'', fi_kind = Scalar STRING, fi_repeat = NoRepeat\<rparr>,
     \<lparr>fi_no = 3, fi_name = ''status'', fi_kind = Scalar STRING, fi_repeat = NoRepeat\<rparr>,
     \<lparr>fi_no = 4, fi_name = ''count'', fi_kind = Scalar UINT64, fi_repeat = NoRepeat\<rparr>,
     \<lparr>fi_no = 5, fi_name = ''errors'', fi_kind = Scalar UINT64, fi_repeat = NoRepeat\<rparr>,
     \<lparr>fi_no = 6, fi_name = ''total_latency_millis'', fi_kind = Scalar UINT64, fi_repeat = NoRepeat\<rparr>]\<rparr>"

definition MethodMetric_values :: "MethodMetric \<Rightarrow> dyn list" where
  "MethodMetric_values m = [DStr (MethodMetric_service m), DStr (MethodMetric_method m), DStr (MethodMetric_status m), DStr (MethodMetric_count m), DStr (MethodMetric_errors m), DStr (MethodMetric_totalLatencyMillis m)]"

definition PgPoolMetrics_type :: message_info where
  "PgPoolMetrics_type = \<lparr>mt_typeName = ''pgapp.v1.PgPoolMetrics'', mt_fields = [
     \<lparr>fi_no = 1, fi_name = ''size'', fi_kind = Scalar UINT32, fi_repeat = NoRepeat\<rparr>,
     \<lparr>fi_no = 2, fi_name = ''idle'', fi_kind = Scalar UINT32, fi_repeat = NoRepeat\<rparr>]\<rparr>"

definition PgPoolMetrics_values :: "PgPoolMetrics \<Rightarrow> dyn list" where
  "PgPoolMetrics_values m = [DNum (PgPoolMetrics_size m), DNum (PgPoolMetrics_idle m)]"

definition RuntimeMetricsResponse_type :: message_info where
  "RuntimeMetricsResponse_type = \<lparr>mt_typeName = ''pgapp.v1.RuntimeMetricsResponse'', mt_fields = [
     \<lparr>fi_no = 1, fi_name = ''methods'', fi_kind = Message ''pgapp.v1.MethodMetric'', fi_repeat = UNPACKED\<rparr>,
     \<lparr>fi_no = 2, fi_name = ''pg_pool'', fi_kind = Message ''pgapp.v1.PgPoolMetrics'', fi_repeat = NoRepeat\<rparr>]\<rparr>"

definition RuntimeMetricsResponse_values :: "RuntimeMetricsResponse \<Rightarrow> dyn list" where
  "RuntimeMetricsResponse_values m = [DList (map (\<lambda>v. DMsg (MethodMetric_encode proto_E v)) (RuntimeMetricsResponse_methods m)), DOpt (map_option (PgPoolMetrics_encode proto_E) (RuntimeMetricsResponse_pgPool m))]"

section \<open>The generated methods follow the tables\<close>

lemma Empty_follows: "follows_table Empty_type Empty_create (Empty_internalBinaryWrite proto_W WU_true) (Empty_internalBinaryRead proto_R RU_true) Empty_field Empty_values (Empty_ok p_payload)"
  by (rule follows_tableI [OF proto.Empty_codec])
    (simp_all add: Empty_type_def Empty_values_def Empty_encode_def Empty_create_def Empty_field_def [abs_def] table_simps reader_simps)

lemma OperationResult_follows: "follows_table OperationResult_type OperationResult_create (OperationResult_internalBinaryWrite proto_W WU_true) (OperationResult_internalBinaryRead proto_R RU_true) OperationResult_field OperationResult_values (OperationResult_ok p_payload)"
  by (rule follows_tableI [OF proto.OperationResult_codec])
    (simp_all add: OperationResult_type_def OperationResult_values_def OperationResult_encode_def OperationResult_create_def OperationResult_field_def [abs_def] table_simps reader_simps)

lemma ServiceCapability_follows: "follows_table ServiceCapability_type ServiceCapability_create (ServiceCapability_internalBinaryWrite proto_W WU_true) (ServiceCapability_internalBinaryRead proto_R RU_true) ServiceCapability_field ServiceCapability_values (ServiceCapability_ok p_payload)"
  by (rule follows_tableI [OF proto.ServiceCapability_codec])
    (simp_all add: ServiceCapability_type_def ServiceCapability_values_def ServiceCapability_encode_def ServiceCapability_create_def ServiceCapability_field_def [abs_def] table_simps reader_simps)

lemma SetCacheRequest_follows: "follows_table SetCacheRequest_type SetCacheRequest_create (SetCacheRequest_internalBinaryWrite proto_W WU_true) (SetCacheRequest_internalBinaryRead proto_R RU_true) SetCacheRequest_field SetCacheRequest_values (SetCacheRequest_ok p_payload)"
  by (rule follows_tableI [OF proto.SetCacheRequest_codec])
    (simp_all add: SetCacheRequest_type_def SetCacheRequest_values_def SetCacheRequest_encode_def SetCacheRequest_create_def SetCacheRequest_field_def [abs_def] table_simps reader_simps)

lemma GetCacheRequest_follows: "follows_table GetCacheRequest_type GetCacheRequest_create (GetCacheRequest_internalBinaryWrite proto_W WU_true) (GetCacheRequest_internalBinaryRead proto_R RU_true) GetCacheRequest_field GetCacheRequest_values (GetCacheRequest_ok p_payload)"
  by (rule follows_tableI [OF proto.GetCacheRequest_codec])
    (simp_all add: GetCacheRequest_type_def GetCacheRequest_values_def GetCacheRequest_encode_def GetCacheRequest_create_def GetCacheRequest_field_def [abs_def] table_simps reader_simps)

lemma GetCacheResponse_follows: "follows_table GetCacheResponse_type GetCacheResponse_create (GetCacheResponse_internalBinaryWrite proto_W WU_true) (GetCacheResponse_internalBinaryRead proto_R RU_true) GetCacheResponse_field GetCacheResponse_values (GetCacheResponse_ok p_payload)"
  by (rule follows_tableI [OF proto.GetCacheResponse_codec])
    (simp_all add: GetCacheResponse_type_def GetCacheResponse_values_def GetCacheResponse_encode_def GetCacheResponse_create_def GetCacheResponse_field_def [abs_def] table_simps reader_simps)

lemma MGetCacheRequest_follows: "follows_table MGetCacheRequest_type MGetCacheRequest_create (MGetCacheRequest_internalBinaryWrite proto_W WU_true) (MGetCacheRequest_internalBinaryRead proto_R RU_true) MGetCacheRequest_field MGetCacheRequest_values (MGetCacheRequest_ok p_payload)"
  by (rule follows_tableI [OF proto.MGetCacheRequest_codec])
    (simp_all add: MGetCacheRequest_type_def MGetCacheRequest_values_def MGetCacheRequest_encode_def MGetCacheRequest_create_def MGetCacheRequest_field_def [abs_def] table_simps reader_simps)

lemma CacheItem_follows: "follows_table CacheItem_type CacheItem_create (CacheItem_internalBinaryWrite proto_W WU_true) (CacheItem_internalBinaryRead proto_R RU_true) CacheItem_field CacheItem_values (CacheItem_ok p_payload)"
  by (rule follows_tableI [OF proto.CacheItem_codec])
    (simp_all add: CacheItem_type_def CacheItem_values_def CacheItem_encode_def CacheItem_create_def CacheItem_field_def [abs_def] table_simps reader_simps)

lemma MGetCacheResponse_follows: "follows_table MGetCacheResponse_type MGetCacheResponse_create (MGetCacheResponse_internalBinaryWrite proto_W WU_true) (MGetCacheResponse_internalBinaryRead proto_R RU_true) MGetCacheResponse_field MGetCacheResponse_values (MGetCacheResponse_ok p_payload)"
  by (rule follows_tableI [OF proto.MGetCacheResponse_codec])
    (simp_all add: MGetCacheResponse_type_def MGetCacheResponse_values_def MGetCacheResponse_encode_def MGetCacheResponse_create_def MGetCacheResponse_field_def [abs_def] table_simps reader_simps)

lemma DeleteCacheRequest_follows: "follows_table DeleteCacheRequest_type DeleteCacheRequest_create (DeleteCacheRequest_internalBinaryWrite proto_W WU_true) (DeleteCacheRequest_internalBinaryRead proto_R RU_true) DeleteCacheRequest_field DeleteCacheRequest_values (DeleteCacheRequest_ok p_payload)"
  by (rule follows_tableI [OF proto.DeleteCacheRequest_codec])
    (simp_all add: DeleteCacheRequest_type_def DeleteCacheRequest_values_def DeleteCacheRequest_encode_def DeleteCacheRequest_create_def DeleteCacheRequest_field_def [abs_def] table_simps reader_simps)

lemma ExistsCacheRequest_follows: "follows_table ExistsCacheRequest_type ExistsCacheRequest_create (ExistsCacheRequest_internalBinaryWrite proto_W WU_true) (ExistsCacheRequest_internalBinaryRead proto_R RU_true) ExistsCacheRequest_field ExistsCacheRequest_values (ExistsCacheRequest_ok p_payload)"
  by (rule follows_tableI [OF proto.ExistsCacheRequest_codec])
    (simp_all add: ExistsCacheRequest_type_def ExistsCacheRequest_values_def ExistsCacheRequest_encode_def ExistsCacheRequest_create_def ExistsCacheRequest_field_def [abs_def] table_simps reader_simps)

lemma ExistsCacheResponse_follows: "follows_table ExistsCacheResponse_type ExistsCacheResponse_create (ExistsCacheResponse_internalBinaryWrite proto_W WU_true) (ExistsCacheResponse_internalBinaryRead proto_R RU_true) ExistsCacheResponse_field ExistsCacheResponse_values (ExistsCacheResponse_ok p_payload)"
  by (rule follows_tableI [OF proto.ExistsCacheResponse_codec])
    (simp_all add: ExistsCacheResponse_type_def ExistsCacheResponse_values_def ExistsCacheResponse_encode_def ExistsCacheResponse_create_def ExistsCacheResponse_field_def [abs_def] table_simps reader_simps)

lemma InvalidateNamespaceRequest_follows: "follows_table InvalidateNamespaceRequest_type InvalidateNamespaceRequest_create (InvalidateNamespaceRequest_internalBinaryWrite proto_W WU_true) (InvalidateNamespaceRequest_internalBinaryRead proto_R RU_true) InvalidateNamespaceRequest_field InvalidateNamespaceRequest_values (InvalidateNamespaceRequest_ok p_payload)"
  by (rule follows_tableI [OF proto.InvalidateNamespaceRequest_codec])
    (simp_all add: InvalidateNamespaceRequest_type_def InvalidateNamespaceRequest_values_def InvalidateNamespaceRequest_encode_def InvalidateNamespaceRequest_create_def InvalidateNamespaceRequest_field_def [abs_def] table_simps reader_simps)

lemma CacheStatsRequest_follows: "follows_table CacheStatsRequest_type CacheStatsRequest_create (CacheStatsRequest_internalBinaryWrite proto_W WU_true) (CacheStatsRequest_internalBinaryRead proto_R RU_true) CacheStatsRequest_field CacheStatsRequest_values (CacheStatsRequest_ok p_payload)"
  by (rule follows_tableI [OF proto.CacheStatsRequest_codec])
    (simp_all add: CacheStatsRequest_type_def CacheStatsRequest_values_def CacheStatsRequest_encode_def CacheStatsRequest_create_def CacheStatsRequest_field_def [abs_def] table_simps reader_simps)

lemma NamespaceUsage_follows: "follows_table NamespaceUsage_type NamespaceUsage_create (NamespaceUsage_internalBinaryWrite proto_W WU_true) (NamespaceUsage_internalBinaryRead proto_R RU_true) NamespaceUsage_field NamespaceUsage_values (NamespaceUsage_ok p_payload)"
  by (rule follows_tableI [OF proto.NamespaceUsage_codec])
    (simp_all add: NamespaceUsage_type_def NamespaceUsage_values_def NamespaceUsage_encode_def NamespaceUsage_create_def NamespaceUsage_field_def [abs_def] table_simps reader_simps)

lemma CacheStatsResponse_follows: "follows_table CacheStatsResponse_type CacheStatsResponse_create (CacheStatsResponse_internalBinaryWrite proto_W WU_true) (CacheStatsResponse_internalBinaryRead proto_R RU_true) CacheStatsResponse_field CacheStatsResponse_values (CacheStatsResponse_ok p_payload)"
  by (rule follows_tableI [OF proto.CacheStatsResponse_codec])
    (simp_all add: CacheStatsResponse_type_def CacheStatsResponse_values_def CacheStatsResponse_encode_def CacheStatsResponse_create_def CacheStatsResponse_field_def [abs_def] table_simps reader_simps)

lemma IncrementRequest_follows: "follows_table IncrementRequest_type IncrementRequest_create (IncrementRequest_internalBinaryWrite proto_W WU_true) (IncrementRequest_internalBinaryRead proto_R RU_true) IncrementRequest_field IncrementRequest_values (IncrementRequest_ok p_payload)"
  by (rule follows_tableI [OF proto.IncrementRequest_codec])
    (simp_all add: IncrementRequest_type_def IncrementRequest_values_def IncrementRequest_encode_def IncrementRequest_create_def IncrementRequest_field_def [abs_def] table_simps reader_simps)

lemma IncrementResponse_follows: "follows_table IncrementResponse_type IncrementResponse_create (IncrementResponse_internalBinaryWrite proto_W WU_true) (IncrementResponse_internalBinaryRead proto_R RU_true) IncrementResponse_field IncrementResponse_values (IncrementResponse_ok p_payload)"
  by (rule follows_tableI [OF proto.IncrementResponse_codec])
    (simp_all add: IncrementResponse_type_def IncrementResponse_values_def IncrementResponse_encode_def IncrementResponse_create_def IncrementResponse_field_def [abs_def] table_simps reader_simps)

lemma DecrementRequest_follows: "follows_table DecrementRequest_type DecrementRequest_create (DecrementRequest_internalBinaryWrite proto_W WU_true) (DecrementRequest_internalBinaryRead proto_R RU_true) DecrementRequest_field DecrementRequest_values (DecrementRequest_ok p_payload)"
  by (rule follows_tableI [OF proto.DecrementRequest_codec])
    (simp_all add: DecrementRequest_type_def DecrementRequest_values_def DecrementRequest_encode_def DecrementRequest_create_def DecrementRequest_field_def [abs_def] table_simps reader_simps)

lemma DecrementResponse_follows: "follows_table DecrementResponse_type DecrementResponse_create (DecrementResponse_internalBinaryWrite proto_W WU_true) (DecrementResponse_internalBinaryRead proto_R RU_true) DecrementResponse_field DecrementResponse_values (DecrementResponse_ok p_payload)"
  by (rule follows_tableI [OF proto.DecrementResponse_codec])
    (simp_all add: DecrementResponse_type_def DecrementResponse_values_def DecrementResponse_encode_def DecrementResponse_create_def DecrementResponse_field_def [abs_def] table_simps reader_simps)

lemma SetNXRequest_follows: "follows_table SetNXRequest_type SetNXRequest_create (SetNXRequest_internalBinaryWrite proto_W WU_true) (SetNXRequest_internalBinaryRead proto_R RU_true) SetNXRequest_field SetNXRequest_values (SetNXRequest_ok p_payload)"
  by (rule follows_tableI [OF proto.SetNXRequest_codec])
    (simp_all add: SetNXRequest_type_def SetNXRequest_values_def SetNXRequest_encode_def SetNXRequest_create_def SetNXRequest_field_def [abs_def] table_simps reader_simps)

lemma SetNXResponse_follows: "follows_table SetNXResponse_type SetNXResponse_create (SetNXResponse_internalBinaryWrite proto_W WU_true) (SetNXResponse_internalBinaryRead proto_R RU_true) SetNXResponse_field SetNXResponse_values (SetNXResponse_ok p_payload)"
  by (rule follows_tableI [OF proto.SetNXResponse_codec])
    (simp_all add: SetNXResponse_type_def SetNXResponse_values_def SetNXResponse_encode_def SetNXResponse_create_def SetNXResponse_field_def [abs_def] table_simps reader_simps)

lemma GetSetRequest_follows: "follows_table GetSetRequest_type GetSetRequest_create (GetSetRequest_internalBinaryWrite proto_W WU_true) (GetSetRequest_internalBinaryRead proto_R RU_true) GetSetRequest_field GetSetRequest_values (GetSetRequest_ok p_payload)"
  by (rule follows_tableI [OF proto.GetSetRequest_codec])
    (simp_all add: GetSetRequest_type_def GetSetRequest_values_def GetSetRequest_encode_def GetSetRequest_create_def GetSetRequest_field_def [abs_def] table_simps reader_simps)

lemma GetSetResponse_follows: "follows_table GetSetResponse_type GetSetResponse_create (GetSetResponse_internalBinaryWrite proto_W WU_true) (GetSetResponse_internalBinaryRead proto_R RU_true) GetSetResponse_field GetSetResponse_values (GetSetResponse_ok p_payload)"
  by (rule follows_tableI [OF proto.GetSetResponse_codec])
    (simp_all add: GetSetResponse_type_def GetSetResponse_values_def GetSetResponse_encode_def GetSetResponse_create_def GetSetResponse_field_def [abs_def] table_simps reader_simps)

lemma AppendRequest_follows: "follows_table AppendRequest_type AppendRequest_create (AppendRequest_internalBinaryWrite proto_W WU_true) (AppendRequest_internalBinaryRead proto_R RU_true) AppendRequest_field AppendRequest_values (AppendRequest_ok p_payload)"
  by (rule follows_tableI [OF proto.AppendRequest_codec])
    (simp_all add: AppendRequest_type_def AppendRequest_values_def AppendRequest_encode_def AppendRequest_create_def AppendRequest_field_def [abs_def] table_simps reader_simps)

lemma AppendResponse_follows: "follows_table AppendResponse_type AppendResponse_create (AppendResponse_internalBinaryWrite proto_W WU_true) (AppendResponse_internalBinaryRead proto_R RU_true) AppendResponse_field AppendResponse_values (AppendResponse_ok p_payload)"
  by (rule follows_tableI [OF proto.AppendResponse_codec])
    (simp_all add: AppendResponse_type_def AppendResponse_values_def AppendResponse_encode_def AppendResponse_create_def AppendResponse_field_def [abs_def] table_simps reader_simps)

lemma PrependRequest_follows: "follows_table PrependRequest_type PrependRequest_create (PrependRequest_internalBinaryWrite proto_W WU_true) (PrependRequest_internalBinaryRead proto_R RU_true) PrependRequest_field PrependRequest_values (PrependRequest_ok p_payload)"
  by (rule follows_tableI [OF proto.PrependRequest_codec])
    (simp_all add: PrependRequest_type_def PrependRequest_values_def PrependRequest_encode_def PrependRequest_create_def PrependRequest_field_def [abs_def] table_simps reader_simps)

lemma PrependResponse_follows: "follows_table PrependResponse_type PrependResponse_create (PrependResponse_internalBinaryWrite proto_W WU_true) (PrependResponse_internalBinaryRead proto_R RU_true) PrependResponse_field PrependResponse_values (PrependResponse_ok p_payload)"
  by (rule follows_tableI [OF proto.PrependResponse_codec])
    (simp_all add: PrependResponse_type_def PrependResponse_values_def PrependResponse_encode_def PrependResponse_create_def PrependResponse_field_def [abs_def] table_simps reader_simps)

lemma CreateQueueRequest_follows: "follows_table CreateQueueRequest_type CreateQueueRequest_create (CreateQueueRequest_internalBinaryWrite proto_W WU_true) (CreateQueueRequest_internalBinaryRead proto_R RU_true) CreateQueueRequest_field CreateQueueRequest_values (CreateQueueRequest_ok p_payload)"
  by (rule follows_tableI [OF proto.CreateQueueRequest_codec])
    (simp_all add: CreateQueueRequest_type_def CreateQueueRequest_values_def CreateQueueRequest_encode_def CreateQueueRequest_create_def CreateQueueRequest_field_def [abs_def] table_simps reader_simps)

lemma PurgeQueueRequest_follows: "follows_table PurgeQueueRequest_type PurgeQueueRequest_create (PurgeQueueRequest_internalBinaryWrite proto_W WU_true) (PurgeQueueRequest_internalBinaryRead proto_R RU_true) PurgeQueueRequest_field PurgeQueueRequest_values (PurgeQueueRequest_ok p_payload)"
  by (rule follows_tableI [OF proto.PurgeQueueRequest_codec])
    (simp_all add: PurgeQueueRequest_type_def PurgeQueueRequest_values_def PurgeQueueRequest_encode_def PurgeQueueRequest_create_def PurgeQueueRequest_field_def [abs_def] table_simps reader_simps)

lemma DropQueueRequest_follows: "follows_table DropQueueRequest_type DropQueueRequest_create (DropQueueRequest_internalBinaryWrite proto_W WU_true) (DropQueueRequest_internalBinaryRead proto_R RU_true) DropQueueRequest_field DropQueueRequest_values (DropQueueRequest_ok p_payload)"
  by (rule follows_tableI [OF proto.DropQueueRequest_codec])
    (simp_all add: DropQueueRequest_type_def DropQueueRequest_values_def DropQueueRequest_encode_def DropQueueRequest_create_def DropQueueRequest_field_def [abs_def] table_simps reader_simps)

lemma SendMessageRequest_follows: "follows_table SendMessageRequest_type SendMessageRequest_create (SendMessageRequest_internalBinaryWrite proto_W WU_true) (SendMessageRequest_internalBinaryRead proto_R RU_true) SendMessageRequest_field SendMessageRequest_values (SendMessageRequest_ok p_payload)"
  by (rule follows_tableI [OF proto.SendMessageRequest_codec])
    (simp_all add: SendMessageRequest_type_def SendMessageRequest_values_def SendMessageRequest_encode_def SendMessageRequest_create_def SendMessageRequest_field_def [abs_def] table_simps reader_simps)

lemma SendMessageResponse_follows: "follows_table SendMessageResponse_type SendMessageResponse_create (SendMessageResponse_internalBinaryWrite proto_W WU_true) (SendMessageResponse_internalBinaryRead proto_R RU_true) SendMessageResponse_field SendMessageResponse_values (SendMessageResponse_ok p_payload)"
  by (rule follows_tableI [OF proto.SendMessageResponse_codec])
    (simp_all add: SendMessageResponse_type_def SendMessageResponse_values_def SendMessageResponse_encode_def SendMessageResponse_create_def SendMessageResponse_field_def [abs_def] table_simps reader_simps)

lemma SendBatchRequest_follows: "follows_table SendBatchRequest_type SendBatchRequest_create (SendBatchRequest_internalBinaryWrite proto_W WU_true) (SendBatchRequest_internalBinaryRead proto_R RU_true) SendBatchRequest_field SendBatchRequest_values (SendBatchRequest_ok p_payload)"
  by (rule follows_tableI [OF proto.SendBatchRequest_codec])
    (simp_all add: SendBatchRequest_type_def SendBatchRequest_values_def SendBatchRequest_encode_def SendBatchRequest_create_def SendBatchRequest_field_def [abs_def] table_simps reader_simps)

lemma SendBatchResponse_follows: "follows_table SendBatchResponse_type SendBatchResponse_create (SendBatchResponse_internalBinaryWrite proto_W WU_true) (SendBatchResponse_internalBinaryRead proto_R RU_true) SendBatchResponse_field SendBatchResponse_values (SendBatchResponse_ok p_payload)"
  by (rule follows_tableI [OF proto.SendBatchResponse_codec])
    (simp_all add: SendBatchResponse_type_def SendBatchResponse_values_def SendBatchResponse_encode_def SendBatchResponse_create_def SendBatchResponse_field_def [abs_def] table_simps reader_simps)

lemma ReadMessagesRequest_follows: "follows_table ReadMessagesRequest_type ReadMessagesRequest_create (ReadMessagesRequest_internalBinaryWrite proto_W WU_true) (ReadMessagesRequest_internalBinaryRead proto_R RU_true) ReadMessagesRequest_field ReadMessagesRequest_values (ReadMessagesRequest_ok p_payload)"
  by (rule follows_tableI [OF proto.ReadMessagesRequest_codec])
    (simp_all add: ReadMessagesRequest_type_def ReadMessagesRequest_values_def ReadMessagesRequest_encode_def ReadMessagesRequest_create_def ReadMessagesRequest_field_def [abs_def] table_simps reader_simps)

lemma ReadWithPollRequest_follows: "follows_table ReadWithPollRequest_type ReadWithPollRequest_create (ReadWithPollRequest_internalBinaryWrite proto_W WU_true) (ReadWithPollRequest_internalBinaryRead proto_R RU_true) ReadWithPollRequest_field ReadWithPollRequest_values (ReadWithPollRequest_ok p_payload)"
  by (rule follows_tableI [OF proto.ReadWithPollRequest_codec])
    (simp_all add: ReadWithPollRequest_type_def ReadWithPollRequest_values_def ReadWithPollRequest_encode_def ReadWithPollRequest_create_def ReadWithPollRequest_field_def [abs_def] table_simps reader_simps)

lemma StreamReadRequest_follows: "follows_table StreamReadRequest_type StreamReadRequest_create (StreamReadRequest_internalBinaryWrite proto_W WU_true) (StreamReadRequest_internalBinaryRead proto_R RU_true) StreamReadRequest_field StreamReadRequest_values (StreamReadRequest_ok p_payload)"
  by (rule follows_tableI [OF proto.StreamReadRequest_codec])
    (simp_all add: StreamReadRequest_type_def StreamReadRequest_values_def StreamReadRequest_encode_def StreamReadRequest_create_def StreamReadRequest_field_def [abs_def] table_simps reader_simps)

lemma QueueMessage_follows: "follows_table QueueMessage_type QueueMessage_create (QueueMessage_internalBinaryWrite proto_W WU_true) (QueueMessage_internalBinaryRead proto_R RU_true) QueueMessage_field QueueMessage_values (QueueMessage_ok p_payload)"
  by (rule follows_tableI [OF proto.QueueMessage_codec])
    (simp_all add: QueueMessage_type_def QueueMessage_values_def QueueMessage_encode_def QueueMessage_create_def QueueMessage_field_def [abs_def] table_simps reader_simps)

lemma ReadMessagesResponse_follows: "follows_table ReadMessagesResponse_type ReadMessagesResponse_create (ReadMessagesResponse_internalBinaryWrite proto_W WU_true) (ReadMessagesResponse_internalBinaryRead proto_R RU_true) ReadMessagesResponse_field ReadMessagesResponse_values (ReadMessagesResponse_ok p_payload)"
  by (rule follows_tableI [OF proto.ReadMessagesResponse_codec])
    (simp_all add: ReadMessagesResponse_type_def ReadMessagesResponse_values_def ReadMessagesResponse_encode_def ReadMessagesResponse_create_def ReadMessagesResponse_field_def [abs_def] table_simps reader_simps)

lemma AckMessageRequest_follows: "follows_table AckMessageRequest_type AckMessageRequest_create (AckMessageRequest_internalBinaryWrite proto_W WU_true) (AckMessageRequest_internalBinaryRead proto_R RU_true) AckMessageRequest_field AckMessageRequest_values (AckMessageRequest_ok p_payload)"
  by (rule follows_tableI [OF proto.AckMessageRequest_codec])
    (simp_all add: AckMessageRequest_type_def AckMessageRequest_values_def AckMessageRequest_encode_def AckMessageRequest_create_def AckMessageRequest_field_def [abs_def] table_simps reader_simps)

lemma ArchiveMessageRequest_follows: "follows_table ArchiveMessageRequest_type ArchiveMessageRequest_create (ArchiveMessageRequest_internalBinaryWrite proto_W WU_true) (ArchiveMessageRequest_internalBinaryRead proto_R RU_true) ArchiveMessageRequest_field ArchiveMessageRequest_values (ArchiveMessageRequest_ok p_payload)"
  by (rule follows_tableI [OF proto.ArchiveMessageRequest_codec])
    (simp_all add: ArchiveMessageRequest_type_def ArchiveMessageRequest_values_def ArchiveMessageRequest_encode_def ArchiveMessageRequest_create_def ArchiveMessageRequest_field_def [abs_def] table_simps reader_simps)

lemma SetVisibilityTimeoutRequest_follows: "follows_table SetVisibilityTimeoutRequest_type SetVisibilityTimeoutRequest_create (SetVisibilityTimeoutRequest_internalBinaryWrite proto_W WU_true) (SetVisibilityTimeoutRequest_internalBinaryRead proto_R RU_true) SetVisibilityTimeoutRequest_field SetVisibilityTimeoutRequest_values (SetVisibilityTimeoutRequest_ok p_payload)"
  by (rule follows_tableI [OF proto.SetVisibilityTimeoutRequest_codec])
    (simp_all add: SetVisibilityTimeoutRequest_type_def SetVisibilityTimeoutRequest_values_def SetVisibilityTimeoutRequest_encode_def SetVisibilityTimeoutRequest_create_def SetVisibilityTimeoutRequest_field_def [abs_def] table_simps reader_simps)

lemma QueueMetricsRequest_follows: "follows_table QueueMetricsRequest_type QueueMetricsRequest_create (QueueMetricsRequest_internalBinaryWrite proto_W WU_true) (QueueMetricsRequest_internalBinaryRead proto_R RU_true) QueueMetricsRequest_field QueueMetricsRequest_values (QueueMetricsRequest_ok p_payload)"
  by (rule follows_tableI [OF proto.QueueMetricsRequest_codec])
    (simp_all add: QueueMetricsRequest_type_def QueueMetricsRequest_values_def QueueMetricsRequest_encode_def QueueMetricsRequest_create_def QueueMetricsRequest_field_def [abs_def] table_simps reader_simps)

lemma QueueMetricsResponse_follows: "follows_table QueueMetricsResponse_type QueueMetricsResponse_create (QueueMetricsResponse_internalBinaryWrite proto_W WU_true) (QueueMetricsResponse_internalBinaryRead proto_R RU_true) QueueMetricsResponse_field QueueMetricsResponse_values (QueueMetricsResponse_ok p_payload)"
  by (rule follows_tableI [OF proto.QueueMetricsResponse_codec])
    (simp_all add: QueueMetricsResponse_type_def QueueMetricsResponse_values_def QueueMetricsResponse_encode_def QueueMetricsResponse_create_def QueueMetricsResponse_field_def [abs_def] table_simps reader_simps)

lemma DlqMessage_follows: "follows_table DlqMessage_type DlqMessage_create (DlqMessage_internalBinaryWrite proto_W WU_true) (DlqMessage_internalBinaryRead proto_R RU_true) DlqMessage_field DlqMessage_values (DlqMessage_ok p_payload)"
  by (rule follows_tableI [OF proto.DlqMessage_codec])
    (simp_all add: DlqMessage_type_def DlqMessage_values_def DlqMessage_encode_def DlqMessage_create_def DlqMessage_field_def [abs_def] table_simps reader_simps)

lemma ListDlqMessagesRequest_follows: "follows_table ListDlqMessagesRequest_type ListDlqMessagesRequest_create (ListDlqMessagesRequest_internalBinaryWrite proto_W WU_true) (ListDlqMessagesRequest_internalBinaryRead proto_R RU_true) ListDlqMessagesRequest_field ListDlqMessagesRequest_values (ListDlqMessagesRequest_ok p_payload)"
  by (rule follows_tableI [OF proto.ListDlqMessagesRequest_codec])
    (simp_all add: ListDlqMessagesRequest_type_def ListDlqMessagesRequest_values_def ListDlqMessagesRequest_encode_def ListDlqMessagesRequest_create_def ListDlqMessagesRequest_field_def [abs_def] table_simps reader_simps)

lemma ListDlqMessagesResponse_follows: "follows_table ListDlqMessagesResponse_type ListDlqMessagesResponse_create (ListDlqMessagesResponse_internalBinaryWrite proto_W WU_true) (ListDlqMessagesResponse_internalBinaryRead proto_R RU_true) ListDlqMessagesResponse_field ListDlqMessagesResponse_values (ListDlqMessagesResponse_ok p_payload)"
  by (rule follows_tableI [OF proto.ListDlqMessagesResponse_codec])
    (simp_all add: ListDlqMessagesResponse_type_def ListDlqMessagesResponse_values_def ListDlqMessagesResponse_encode_def ListDlqMessagesResponse_create_def ListDlqMessagesResponse_field_def [abs_def] table_simps reader_simps)

lemma GetDlqMessageRequest_follows: "follows_table GetDlqMessageRequest_type GetDlqMessageRequest_create (GetDlqMessageRequest_internalBinaryWrite proto_W WU_true) (GetDlqMessageRequest_internalBinaryRead proto_R RU_true) GetDlqMessageRequest_field GetDlqMessageRequest_values (GetDlqMessageRequest_ok p_payload)"
  by (rule follows_tableI [OF proto.GetDlqMessageRequest_codec])
    (simp_all add: GetDlqMessageRequest_type_def GetDlqMessageRequest_values_def GetDlqMessageRequest_encode_def GetDlqMessageRequest_create_def GetDlqMessageRequest_field_def [abs_def] table_simps reader_simps)

lemma ReprocessDlqMessageRequest_follows: "follows_table ReprocessDlqMessageRequest_type ReprocessDlqMessageRequest_create (ReprocessDlqMessageRequest_internalBinaryWrite proto_W WU_true) (ReprocessDlqMessageRequest_internalBinaryRead proto_R RU_true) ReprocessDlqMessageRequest_field ReprocessDlqMessageRequest_values (ReprocessDlqMessageRequest_ok p_payload)"
  by (rule follows_tableI [OF proto.ReprocessDlqMessageRequest_codec])
    (simp_all add: ReprocessDlqMessageRequest_type_def ReprocessDlqMessageRequest_values_def ReprocessDlqMessageRequest_encode_def ReprocessDlqMessageRequest_create_def ReprocessDlqMessageRequest_field_def [abs_def] table_simps reader_simps)

lemma PurgeDlqRequest_follows: "follows_table PurgeDlqRequest_type PurgeDlqRequest_create (PurgeDlqRequest_internalBinaryWrite proto_W WU_true) (PurgeDlqRequest_internalBinaryRead proto_R RU_true) PurgeDlqRequest_field PurgeDlqRequest_values (PurgeDlqRequest_ok p_payload)"
  by (rule follows_tableI [OF proto.PurgeDlqRequest_codec])
    (simp_all add: PurgeDlqRequest_type_def PurgeDlqRequest_values_def PurgeDlqRequest_encode_def PurgeDlqRequest_create_def PurgeDlqRequest_field_def [abs_def] table_simps reader_simps)

lemma ConfigScope_follows: "follows_table ConfigScope_type ConfigScope_create (ConfigScope_internalBinaryWrite proto_W WU_true) (ConfigScope_internalBinaryRead proto_R RU_true) ConfigScope_field ConfigScope_values (ConfigScope_ok p_payload)"
  by (rule follows_tableI [OF proto.ConfigScope_codec])
    (simp_all add: ConfigScope_type_def ConfigScope_values_def ConfigScope_encode_def ConfigScope_create_def ConfigScope_field_def [abs_def] table_simps reader_simps)

lemma ConfigItem_follows: "follows_table ConfigItem_type ConfigItem_create (ConfigItem_internalBinaryWrite proto_W WU_true) (ConfigItem_internalBinaryRead proto_R RU_true) ConfigItem_field ConfigItem_values (ConfigItem_ok p_payload)"
  by (rule follows_tableI [OF proto.ConfigItem_codec])
    (simp_all add: ConfigItem_type_def ConfigItem_values_def ConfigItem_encode_def ConfigItem_create_def ConfigItem_field_def [abs_def] table_simps reader_simps)

lemma ConfigRelease_follows: "follows_table ConfigRelease_type ConfigRelease_create (ConfigRelease_internalBinaryWrite proto_W WU_true) (ConfigRelease_internalBinaryRead proto_R RU_true) ConfigRelease_field ConfigRelease_values (ConfigRelease_ok p_payload)"
  by (rule follows_tableI [OF proto.ConfigRelease_codec])
    (simp_all add: ConfigRelease_type_def ConfigRelease_values_def ConfigRelease_encode_def ConfigRelease_create_def ConfigRelease_field_def [abs_def] table_simps reader_simps)

lemma ListConfigScopesRequest_follows: "follows_table ListConfigScopesRequest_type ListConfigScopesRequest_create (ListConfigScopesRequest_internalBinaryWrite proto_W WU_true) (ListConfigScopesRequest_internalBinaryRead proto_R RU_true) ListConfigScopesRequest_field ListConfigScopesRequest_values (ListConfigScopesRequest_ok p_payload)"
  by (rule follows_tableI [OF proto.ListConfigScopesRequest_codec])
    (simp_all add: ListConfigScopesRequest_type_def ListConfigScopesRequest_values_def ListConfigScopesRequest_encode_def ListConfigScopesRequest_create_def ListConfigScopesRequest_field_def [abs_def] table_simps reader_simps)

lemma ConfigScopeSummary_follows: "follows_table ConfigScopeSummary_type ConfigScopeSummary_create (ConfigScopeSummary_internalBinaryWrite proto_W WU_true) (ConfigScopeSummary_internalBinaryRead proto_R RU_true) ConfigScopeSummary_field ConfigScopeSummary_values (ConfigScopeSummary_ok p_payload)"
  by (rule follows_tableI [OF proto.ConfigScopeSummary_codec])
    (simp_all add: ConfigScopeSummary_type_def ConfigScopeSummary_values_def ConfigScopeSummary_encode_def ConfigScopeSummary_create_def ConfigScopeSummary_field_def [abs_def] table_simps reader_simps)

lemma ListConfigScopesResponse_follows: "follows_table ListConfigScopesResponse_type ListConfigScopesResponse_create (ListConfigScopesResponse_internalBinaryWrite proto_W WU_true) (ListConfigScopesResponse_internalBinaryRead proto_R RU_true) ListConfigScopesResponse_field ListConfigScopesResponse_values (ListConfigScopesResponse_ok p_payload)"
  by (rule follows_tableI [OF proto.ListConfigScopesResponse_codec])
    (simp_all add: ListConfigScopesResponse_type_def ListConfigScopesResponse_values_def ListConfigScopesResponse_encode_def ListConfigScopesResponse_create_def ListConfigScopesResponse_field_def [abs_def] table_simps reader_simps)

lemma UpsertConfigItemRequest_follows: "follows_table UpsertConfigItemRequest_type UpsertConfigItemRequest_create (UpsertConfigItemRequest_internalBinaryWrite proto_W WU_true) (UpsertConfigItemRequest_internalBinaryRead proto_R RU_true) UpsertConfigItemRequest_field UpsertConfigItemRequest_values (UpsertConfigItemRequest_ok p_payload)"
  by (rule follows_tableI [OF proto.UpsertConfigItemRequest_codec])
    (simp_all add: UpsertConfigItemRequest_type_def UpsertConfigItemRequest_values_def UpsertConfigItemRequest_encode_def UpsertConfigItemRequest_create_def UpsertConfigItemRequest_field_def [abs_def] table_simps reader_simps)

lemma DeleteConfigItemRequest_follows: "follows_table DeleteConfigItemRequest_type DeleteConfigItemRequest_create (DeleteConfigItemRequest_internalBinaryWrite proto_W WU_true) (DeleteConfigItemRequest_internalBinaryRead proto_R RU_true) DeleteConfigItemRequest_field DeleteConfigItemRequest_values (DeleteConfigItemRequest_ok p_payload)"
  by (rule follows_tableI [OF proto.DeleteConfigItemRequest_codec])
    (simp_all add: DeleteConfigItemRequest_type_def DeleteConfigItemRequest_values_def DeleteConfigItemRequest_encode_def DeleteConfigItemRequest_create_def DeleteConfigItemRequest_field_def [abs_def] table_simps reader_simps)

lemma GetConfigDraftRequest_follows: "follows_table GetConfigDraftRequest_type GetConfigDraftRequest_create (GetConfigDraftRequest_internalBinaryWrite proto_W WU_true) (GetConfigDraftRequest_internalBinaryRead proto_R RU_true) GetConfigDraftRequest_field GetConfigDraftRequest_values (GetConfigDraftRequest_ok p_payload)"
  by (rule follows_tableI [OF proto.GetConfigDraftRequest_codec])
    (simp_all add: GetConfigDraftRequest_type_def GetConfigDraftRequest_values_def GetConfigDraftRequest_encode_def GetConfigDraftRequest_create_def GetConfigDraftRequest_field_def [abs_def] table_simps reader_simps)

lemma ConfigDraftResponse_follows: "follows_table ConfigDraftResponse_type ConfigDraftResponse_create (ConfigDraftResponse_internalBinaryWrite proto_W WU_true) (ConfigDraftResponse_internalBinaryRead proto_R RU_true) ConfigDraftResponse_field ConfigDraftResponse_values (ConfigDraftResponse_ok p_payload)"
  by (rule follows_tableI [OF proto.ConfigDraftResponse_codec])
    (simp_all add: ConfigDraftResponse_type_def ConfigDraftResponse_values_def ConfigDraftResponse_encode_def ConfigDraftResponse_create_def ConfigDraftResponse_field_def [abs_def] table_simps reader_simps)

lemma PublishConfigRequest_follows: "follows_table PublishConfigRequest_type PublishConfigRequest_create (PublishConfigRequest_internalBinaryWrite proto_W WU_true) (PublishConfigRequest_internalBinaryRead proto_R RU_true) PublishConfigRequest_field PublishConfigRequest_values (PublishConfigRequest_ok p_payload)"
  by (rule follows_tableI [OF proto.PublishConfigRequest_codec])
    (simp_all add: PublishConfigRequest_type_def PublishConfigRequest_values_def PublishConfigRequest_encode_def PublishConfigRequest_create_def PublishConfigRequest_field_def [abs_def] table_simps reader_simps)

lemma GetConfigReleaseRequest_follows: "follows_table GetConfigReleaseRequest_type GetConfigReleaseRequest_create (GetConfigReleaseRequest_internalBinaryWrite proto_W WU_true) (GetConfigReleaseRequest_internalBinaryRead proto_R RU_true) GetConfigReleaseRequest_field GetConfigReleaseRequest_values (GetConfigReleaseRequest_ok p_payload)"
  by (rule follows_tableI [OF proto.GetConfigReleaseRequest_codec])
    (simp_all add: GetConfigReleaseRequest_type_def GetConfigReleaseRequest_values_def GetConfigReleaseRequest_encode_def GetConfigReleaseRequest_create_def GetConfigReleaseRequest_field_def [abs_def] table_simps reader_simps)

lemma ListConfigReleasesRequest_follows: "follows_table ListConfigReleasesRequest_type ListConfigReleasesRequest_create (ListConfigReleasesRequest_internalBinaryWrite proto_W WU_true) (ListConfigReleasesRequest_internalBinaryRead proto_R RU_true) ListConfigReleasesRequest_field ListConfigReleasesRequest_values (ListConfigReleasesRequest_ok p_payload)"
  by (rule follows_tableI [OF proto.ListConfigReleasesRequest_codec])
    (simp_all add: ListConfigReleasesRequest_type_def ListConfigReleasesRequest_values_def ListConfigReleasesRequest_encode_def ListConfigReleasesRequest_create_def ListConfigReleasesRequest_field_def [abs_def] table_simps reader_simps)

lemma ListConfigReleasesResponse_follows: "follows_table ListConfigReleasesResponse_type ListConfigReleasesResponse_create (ListConfigReleasesResponse_internalBinaryWrite proto_W WU_true) (ListConfigReleasesResponse_internalBinaryRead proto_R RU_true) ListConfigReleasesResponse_field ListConfigReleasesResponse_values (ListConfigReleasesResponse_ok p_payload)"
  by (rule follows_tableI [OF proto.ListConfigReleasesResponse_codec])
    (simp_all add: ListConfigReleasesResponse_type_def ListConfigReleasesResponse_values_def ListConfigReleasesResponse_encode_def ListConfigReleasesResponse_create_def ListConfigReleasesResponse_field_def [abs_def] table_simps reader_simps)

lemma WatchConfigRequest_follows: "follows_table WatchConfigRequest_type WatchConfigRequest_create (WatchConfigRequest_internalBinaryWrite proto_W WU_true) (WatchConfigRequest_internalBinaryRead proto_R RU_true) WatchConfigRequest_field WatchConfigRequest_values (WatchConfigRequest_ok p_payload)"
  by (rule follows_tableI [OF proto.WatchConfigRequest_codec])
    (simp_all add: WatchConfigRequest_type_def WatchConfigRequest_values_def WatchConfigRequest_encode_def WatchConfigRequest_create_def WatchConfigRequest_field_def [abs_def] table_simps reader_simps)

lemma WatchConfigResponse_follows: "follows_table WatchConfigResponse_type WatchConfigResponse_create (WatchConfigResponse_internalBinaryWrite proto_W WU_true) (WatchConfigResponse_internalBinaryRead proto_R RU_true) WatchConfigResponse_field WatchConfigResponse_values (WatchConfigResponse_ok p_payload)"
  by (rule follows_tableI [OF proto.WatchConfigResponse_codec])
    (simp_all add: WatchConfigResponse_type_def WatchConfigResponse_values_def WatchConfigResponse_encode_def WatchConfigResponse_create_def WatchConfigResponse_field_def [abs_def] table_simps reader_simps)

lemma SetConfigSchemaRequest_follows: "follows_table SetConfigSchemaRequest_type SetConfigSchemaRequest_create (SetConfigSchemaRequest_internalBinaryWrite proto_W WU_true) (SetConfigSchemaRequest_internalBinaryRead proto_R RU_true) SetConfigSchemaRequest_field SetConfigSchemaRequest_values (SetConfigSchemaRequest_ok p_payload)"
  by (rule follows_tableI [OF proto.SetConfigSchemaRequest_codec])
    (simp_all add: SetConfigSchemaRequest_type_def SetConfigSchemaRequest_values_def SetConfigSchemaRequest_encode_def SetConfigSchemaRequest_create_def SetConfigSchemaRequest_field_def [abs_def] table_simps reader_simps)

lemma GetConfigSchemaRequest_follows: "follows_table GetConfigSchemaRequest_type GetConfigSchemaRequest_create (GetConfigSchemaRequest_internalBinaryWrite proto_W WU_true) (GetConfigSchemaRequest_internalBinaryRead proto_R RU_true) GetConfigSchemaRequest_field GetConfigSchemaRequest_values (GetConfigSchemaRequest_ok p_payload)"
  by (rule follows_tableI [OF proto.GetConfigSchemaRequest_codec])
    (simp_all add: GetConfigSchemaRequest_type_def GetConfigSchemaRequest_values_def GetConfigSchemaRequest_encode_def GetConfigSchemaRequest_create_def GetConfigSchemaRequest_field_def [abs_def] table_simps reader_simps)

lemma ConfigSchemaResponse_follows: "follows_table ConfigSchemaResponse_type ConfigSchemaResponse_create (ConfigSchemaResponse_internalBinaryWrite proto_W WU_true) (ConfigSchemaResponse_internalBinaryRead proto_R RU_true) ConfigSchemaResponse_field ConfigSchemaResponse_values (ConfigSchemaResponse_ok p_payload)"
  by (rule follows_tableI [OF proto.ConfigSchemaResponse_codec])
    (simp_all add: ConfigSchemaResponse_type_def ConfigSchemaResponse_values_def ConfigSchemaResponse_encode_def ConfigSchemaResponse_create_def ConfigSchemaResponse_field_def [abs_def] table_simps reader_simps)

lemma HealthRequest_follows: "follows_table HealthRequest_type HealthRequest_create (HealthRequest_internalBinaryWrite proto_W WU_true) (HealthRequest_internalBinaryRead proto_R RU_true) HealthRequest_field HealthRequest_values (HealthRequest_ok p_payload)"
  by (rule follows_tableI [OF proto.HealthRequest_codec])
    (simp_all add: HealthRequest_type_def HealthRequest_values_def HealthRequest_encode_def HealthRequest_create_def HealthRequest_field_def [abs_def] table_simps reader_simps)

lemma HealthResponse_follows: "follows_table HealthResponse_type HealthResponse_create (HealthResponse_internalBinaryWrite proto_W WU_true) (HealthResponse_internalBinaryRead proto_R RU_true) HealthResponse_field HealthResponse_values (HealthResponse_ok p_payload)"
  by (rule follows_tableI [OF proto.HealthResponse_codec])
    (simp_all add: HealthResponse_type_def HealthResponse_values_def HealthResponse_encode_def HealthResponse_create_def HealthResponse_field_def [abs_def] table_simps reader_simps)

lemma ReadinessRequest_follows: "follows_table ReadinessRequest_type ReadinessRequest_create (ReadinessRequest_internalBinaryWrite proto_W WU_true) (ReadinessRequest_internalBinaryRead proto_R RU_true) ReadinessRequest_field ReadinessRequest_values (ReadinessRequest_ok p_payload)"
  by (rule follows_tableI [OF proto.ReadinessRequest_codec])
    (simp_all add: ReadinessRequest_type_def ReadinessRequest_values_def ReadinessRequest_encode_def ReadinessRequest_create_def ReadinessRequest_field_def [abs_def] table_simps reader_simps)

lemma ReadinessResponse_follows: "follows_table ReadinessResponse_type ReadinessResponse_create (ReadinessResponse_internalBinaryWrite proto_W WU_true) (ReadinessResponse_internalBinaryRead proto_R RU_true) ReadinessResponse_field ReadinessResponse_values (ReadinessResponse_ok p_payload)"
  by (rule follows_tableI [OF proto.ReadinessResponse_codec])
    (simp_all add: ReadinessResponse_type_def ReadinessResponse_values_def ReadinessResponse_encode_def ReadinessResponse_create_def ReadinessResponse_field_def [abs_def] table_simps reader_simps)

lemma RuntimeMetricsRequest_follows: "follows_table RuntimeMetricsRequest_type RuntimeMetricsRequest_create (RuntimeMetricsRequest_internalBinaryWrite proto_W WU_true) (RuntimeMetricsRequest_internalBinaryRead proto_R RU_true) RuntimeMetricsRequest_field RuntimeMetricsRequest_values (RuntimeMetricsRequest_ok p_payload)"
  by (rule follows_tableI [OF proto.RuntimeMetricsRequest_codec])
    (simp_all add: RuntimeMetricsRequest_type_def RuntimeMetricsRequest_values_def RuntimeMetricsRequest_encode_def RuntimeMetricsRequest_create_def RuntimeMetricsRequest_field_def [abs_def] table_simps reader_simps)

lemma MethodMetric_follows: "follows_table MethodMetric_type MethodMetric_create (MethodMetric_internalBinaryWrite proto_W WU_true) (MethodMetric_internalBinaryRead proto_R RU_true) MethodMetric_field MethodMetric_values (MethodMetric_ok p_payload)"
  by (rule follows_tableI [OF proto.MethodMetric_codec])
    (simp_all add: MethodMetric_type_def MethodMetric_values_def MethodMetric_encode_def MethodMetric_create_def MethodMetric_field_def [abs_def] table_simps reader_simps)

lemma PgPoolMetrics_follows: "follows_table PgPoolMetrics_type PgPoolMetrics_create (PgPoolMetrics_internalBinaryWrite proto_W WU_true) (PgPoolMetrics_internalBinaryRead proto_R RU_true) PgPoolMetrics_field PgPoolMetrics_values (PgPoolMetrics_ok p_payload)"
  by (rule follows_tableI [OF proto.PgPoolMetrics_codec])
    (simp_all add: PgPoolMetrics_type_def PgPoolMetrics_values_def PgPoolMetrics_encode_def PgPoolMetrics_create_def PgPoolMetrics_field_def [abs_def] table_simps reader_simps)

lemma RuntimeMetricsResponse_follows: "follows_table RuntimeMetricsResponse_type RuntimeMetricsResponse_create (RuntimeMetricsResponse_internalBinaryWrite proto_W WU_true) (RuntimeMetricsResponse_internalBinaryRead proto_R RU_true) RuntimeMetricsResponse_field RuntimeMetricsResponse_values (RuntimeMetricsResponse_ok p_payload)"
  by (rule follows_tableI [OF proto.RuntimeMetricsResponse_codec])
    (simp_all add: RuntimeMetricsResponse_type_def RuntimeMetricsResponse_values_def RuntimeMetricsResponse_encode_def RuntimeMetricsResponse_create_def RuntimeMetricsResponse_field_def [abs_def] table_simps reader_simps)

text \<open>
  C30. For every message type of the generated code, the methods that were generated for speed agree with
  the reflection table the constructor hands to the runtime: \<open>create\<close> sets the default of each
  field's type, \<open>internalBinaryWrite\<close> writes the fields of the table in its order, each with its
  number and in the encoding of its type, and \<open>internalBinaryRead\<close> turns this encoding of any
  valid message back into the message. Its switch reads a scalar field of the table, wherever it
  occurs, with the operation of the field's type and stores the value under that field alone, and it
  takes a number that is not in the table for an unknown field.
\<close>

theorem generated_methods_follow_tables:
  "follows_table Empty_type Empty_create (Empty_internalBinaryWrite proto_W WU_true) (Empty_internalBinaryRead proto_R RU_true) Empty_field Empty_values (Empty_ok p_payload) \<and>
   follows_table OperationResult_type OperationResult_create (OperationResult_internalBinaryWrite proto_W WU_true) (OperationResult_internalBinaryRead proto_R RU_true) OperationResult_field OperationResult_values (OperationResult_ok p_payload) \<and>
   follows_table ServiceCapability_type ServiceCapability_create (ServiceCapability_internalBinaryWrite proto_W WU_true) (ServiceCapability_internalBinaryRead proto_R RU_true) ServiceCapability_field ServiceCapability_values (ServiceCapability_ok p_payload) \<and>
   follows_table SetCacheRequest_type SetCacheRequest_create (SetCacheRequest_internalBinaryWrite proto_W WU_true) (SetCacheRequest_internalBinaryRead proto_R RU_true) SetCacheRequest_field SetCacheRequest_values (SetCacheRequest_ok p_payload) \<and>
   follows_table GetCacheRequest_type GetCacheRequest_create (GetCacheRequest_internalBinaryWrite proto_W WU_true) (GetCacheRequest_internalBinaryRead proto_R RU_true) GetCacheRequest_field GetCacheRequest_values (GetCacheRequest_ok p_payload) \<and>
   follows_table GetCacheResponse_type GetCacheResponse_create (GetCacheResponse_internalBinaryWrite proto_W WU_true) (GetCacheResponse_internalBinaryRead proto_R RU_true) GetCacheResponse_field GetCacheResponse_values (GetCacheResponse_ok p_payload) \<and>
   follows_table MGetCacheRequest_type MGetCacheRequest_create (MGetCacheRequest_internalBinaryWrite proto_W WU_true) (MGetCacheRequest_internalBinaryRead proto_R RU_true) MGetCacheRequest_field MGetCacheRequest_values (MGetCacheRequest_ok p_payload) \<and>
   follows_table CacheItem_type CacheItem_create (CacheItem_internalBinaryWrite proto_W WU_true) (CacheItem_internalBinaryRead proto_R RU_true) CacheItem_field CacheItem_values (CacheItem_ok p_payload) \<and>
   follows_table MGetCacheResponse_type MGetCacheResponse_create (MGetCacheResponse_internalBinaryWrite proto_W WU_true) (MGetCacheResponse_internalBinaryRead proto_R RU_true) MGetCacheResponse_field MGetCacheResponse_values (MGetCacheResponse_ok p_payload) \<and>
   follows_table DeleteCacheRequest_type DeleteCacheRequest_create (DeleteCacheRequest_internalBinaryWrite proto_W WU_true) (DeleteCacheRequest_internalBinaryRead proto_R RU_true) DeleteCacheRequest_field DeleteCacheRequest_values (DeleteCacheRequest_ok p_payload) \<and>
   follows_table ExistsCacheRequest_type ExistsCacheRequest_create (ExistsCacheRequest_internalBinaryWrite proto_W WU_true) (ExistsCacheRequest_internalBinaryRead proto_R RU_true) ExistsCacheRequest_field ExistsCacheRequest_values (ExistsCacheRequest_ok p_payload) \<and>
   follows_table ExistsCacheResponse_type ExistsCacheResponse_create (ExistsCacheResponse_internalBinaryWrite proto_W WU_true) (ExistsCacheResponse_internalBinaryRead proto_R RU_true) ExistsCacheResponse_field ExistsCacheResponse_values (ExistsCacheResponse_ok p_payload) \<and>
   follows_table InvalidateNamespaceRequest_type InvalidateNamespaceRequest_create (InvalidateNamespaceRequest_internalBinaryWrite proto_W WU_true) (InvalidateNamespaceRequest_internalBinaryRead proto_R RU_true) InvalidateNamespaceRequest_field InvalidateNamespaceRequest_values (InvalidateNamespaceRequest_ok p_payload) \<and>
   follows_table CacheStatsRequest_type CacheStatsRequest_create (CacheStatsRequest_internalBinaryWrite proto_W WU_true) (CacheStatsRequest_internalBinaryRead proto_R RU_true) CacheStatsRequest_field CacheStatsRequest_values (CacheStatsRequest_ok p_payload) \<and>
   follows_table NamespaceUsage_type NamespaceUsage_create (NamespaceUsage_internalBinaryWrite proto_W WU_true) (NamespaceUsage_internalBinaryRead proto_R RU_true) NamespaceUsage_field NamespaceUsage_values (NamespaceUsage_ok p_payload) \<and>
   follows_table CacheStatsResponse_type CacheStatsResponse_create (CacheStatsResponse_internalBinaryWrite proto_W WU_true) (CacheStatsResponse_internalBinaryRead proto_R RU_true) CacheStatsResponse_field CacheStatsResponse_values (CacheStatsResponse_ok p_payload) \<and>
   follows_table IncrementRequest_type IncrementRequest_create (IncrementRequest_internalBinaryWrite proto_W WU_true) (IncrementRequest_internalBinaryRead proto_R RU_true) IncrementRequest_field IncrementRequest_values (IncrementRequest_ok p_payload) \<and>
   follows_table IncrementResponse_type IncrementResponse_create (IncrementResponse_internalBinaryWrite proto_W WU_true) (IncrementResponse_internalBinaryRead proto_R RU_true) IncrementResponse_field IncrementResponse_values (IncrementResponse_ok p_payload) \<and>
   follows_table DecrementRequest_type DecrementRequest_create (DecrementRequest_internalBinaryWrite proto_W WU_true) (DecrementRequest_internalBinaryRead proto_R RU_true) DecrementRequest_field DecrementRequest_values (DecrementRequest_ok p_payload) \<and>
   follows_table DecrementResponse_type DecrementResponse_create (DecrementResponse_internalBinaryWrite proto_W WU_true) (DecrementResponse_internalBinaryRead proto_R RU_true) DecrementResponse_field DecrementResponse_values (DecrementResponse_ok p_payload) \<and>
   follows_table SetNXRequest_type SetNXRequest_create (SetNXRequest_internalBinaryWrite proto_W WU_true) (SetNXRequest_internalBinaryRead proto_R RU_true) SetNXRequest_field SetNXRequest_values (SetNXRequest_ok p_payload) \<and>
   follows_table SetNXResponse_type SetNXResponse_create (SetNXResponse_internalBinaryWrite proto_W WU_true) (SetNXResponse_internalBinaryRead proto_R RU_true) SetNXResponse_field SetNXResponse_values (SetNXResponse_ok p_payload) \<and>
   follows_table GetSetRequest_type GetSetRequest_create (GetSetRequest_internalBinaryWrite proto_W WU_true) (GetSetRequest_internalBinaryRead proto_R RU_true) GetSetRequest_field GetSetRequest_values (GetSetRequest_ok p_payload) \<and>
   follows_table GetSetResponse_type GetSetResponse_create (GetSetResponse_internalBinaryWrite proto_W WU_true) (GetSetResponse_internalBinaryRead proto_R RU_true) GetSetResponse_field GetSetResponse_values (GetSetResponse_ok p_payload) \<and>
   follows_table AppendRequest_type AppendRequest_create (AppendRequest_internalBinaryWrite proto_W WU_true) (AppendRequest_internalBinaryRead proto_R RU_true) AppendRequest_field AppendRequest_values (AppendRequest_ok p_payload) \<and>
   follows_table AppendResponse_type AppendResponse_create (AppendResponse_internalBinaryWrite proto_W WU_true) (AppendResponse_internalBinaryRead proto_R RU_true) AppendResponse_field AppendResponse_values (AppendResponse_ok p_payload) \<and>
   follows_table PrependRequest_type PrependRequest_create (PrependRequest_internalBinaryWrite proto_W WU_true) (PrependRequest_internalBinaryRead proto_R RU_true) PrependRequest_field PrependRequest_values (PrependRequest_ok p_payload) \<and>
   follows_table PrependResponse_type PrependResponse_create (PrependResponse_internalBinaryWrite proto_W WU_true) (PrependResponse_internalBinaryRead proto_R RU_true) PrependResponse_field PrependResponse_values (PrependResponse_ok p_payload) \<and>
   follows_table CreateQueueRequest_type CreateQueueRequest_create (CreateQueueRequest_internalBinaryWrite proto_W WU_true) (CreateQueueRequest_internalBinaryRead proto_R RU_true) CreateQueueRequest_field CreateQueueRequest_values (CreateQueueRequest_ok p_payload) \<and>
   follows_table PurgeQueueRequest_type PurgeQueueRequest_create (PurgeQueueRequest_internalBinaryWrite proto_W WU_true) (PurgeQueueRequest_internalBinaryRead proto_R RU_true) PurgeQueueRequest_field PurgeQueueRequest_values (PurgeQueueRequest_ok p_payload) \<and>
   follows_table DropQueueRequest_type DropQueueRequest_create (DropQueueRequest_internalBinaryWrite proto_W WU_true) (DropQueueRequest_internalBinaryRead proto_R RU_true) DropQueueRequest_field DropQueueRequest_values (DropQueueRequest_ok p_payload) \<and>
   follows_table SendMessageRequest_type SendMessageRequest_create (SendMessageRequest_internalBinaryWrite proto_W WU_true) (SendMessageRequest_internalBinaryRead proto_R RU_true) SendMessageRequest_field SendMessageRequest_values (SendMessageRequest_ok p_payload) \<and>
   follows_table SendMessageResponse_type SendMessageResponse_create (SendMessageResponse_internalBinaryWrite proto_W WU_true) (SendMessageResponse_internalBinaryRead proto_R RU_true) SendMessageResponse_field SendMessageResponse_values (SendMessageResponse_ok p_payload) \<and>
   follows_table SendBatchRequest_type SendBatchRequest_create (SendBatchRequest_internalBinaryWrite proto_W WU_true) (SendBatchRequest_internalBinaryRead proto_R RU_true) SendBatchRequest_field SendBatchRequest_values (SendBatchRequest_ok p_payload) \<and>
   follows_table SendBatchResponse_type SendBatchResponse_create (SendBatchResponse_internalBinaryWrite proto_W WU_true) (SendBatchResponse_internalBinaryRead proto_R RU_true) SendBatchResponse_field SendBatchResponse_values (SendBatchResponse_ok p_payload) \<and>
   follows_table ReadMessagesRequest_type ReadMessagesRequest_create (ReadMessagesRequest_internalBinaryWrite proto_W WU_true) (ReadMessagesRequest_internalBinaryRead proto_R RU_true) ReadMessagesRequest_field ReadMessagesRequest_values (ReadMessagesRequest_ok p_payload) \<and>
   follows_table ReadWithPollRequest_type ReadWithPollRequest_create (ReadWithPollRequest_internalBinaryWrite proto_W WU_true) (ReadWithPollRequest_internalBinaryRead proto_R RU_true) ReadWithPollRequest_field ReadWithPollRequest_values (ReadWithPollRequest_ok p_payload) \<and>
   follows_table StreamReadRequest_type StreamReadRequest_create (StreamReadRequest_internalBinaryWrite proto_W WU_true) (StreamReadRequest_internalBinaryRead proto_R RU_true) StreamReadRequest_field StreamReadRequest_values (StreamReadRequest_ok p_payload) \<and>
   follows_table QueueMessage_type QueueMessage_create (QueueMessage_internalBinaryWrite proto_W WU_true) (QueueMessage_internalBinaryRead proto_R RU_true) QueueMessage_field QueueMessage_values (QueueMessage_ok p_payload) \<and>
   follows_table ReadMessagesResponse_type ReadMessagesResponse_create (ReadMessagesResponse_internalBinaryWrite proto_W WU_true) (ReadMessagesResponse_internalBinaryRead proto_R RU_true) ReadMessagesResponse_field ReadMessagesResponse_values (ReadMessagesResponse_ok p_payload) \<and>
   follows_table AckMessageRequest_type AckMessageRequest_create (AckMessageRequest_internalBinaryWrite proto_W WU_true) (AckMessageRequest_internalBinaryRead proto_R RU_true) AckMessageRequest_field AckMessageRequest_values (AckMessageRequest_ok p_payload) \<and>
   follows_table ArchiveMessageRequest_type ArchiveMessageRequest_create (ArchiveMessageRequest_internalBinaryWrite proto_W WU_true) (ArchiveMessageRequest_internalBinaryRead proto_R RU_true) ArchiveMessageRequest_field ArchiveMessageRequest_values (ArchiveMessageRequest_ok p_payload) \<and>
   follows_table SetVisibilityTimeoutRequest_type SetVisibilityTimeoutRequest_create (SetVisibilityTimeoutRequest_internalBinaryWrite proto_W WU_true) (SetVisibilityTimeoutRequest_internalBinaryRead proto_R RU_true) SetVisibilityTimeoutRequest_field SetVisibilityTimeoutRequest_values (SetVisibilityTimeoutRequest_ok p_payload) \<and>
   follows_table QueueMetricsRequest_type QueueMetricsRequest_create (QueueMetricsRequest_internalBinaryWrite proto_W WU_true) (QueueMetricsRequest_internalBinaryRead proto_R RU_true) QueueMetricsRequest_field QueueMetricsRequest_values (QueueMetricsRequest_ok p_payload) \<and>
   follows_table QueueMetricsResponse_type QueueMetricsResponse_create (QueueMetricsResponse_internalBinaryWrite proto_W WU_true) (QueueMetricsResponse_internalBinaryRead proto_R RU_true) QueueMetricsResponse_field QueueMetricsResponse_values (QueueMetricsResponse_ok p_payload) \<and>
   follows_table DlqMessage_type DlqMessage_create (DlqMessage_internalBinaryWrite proto_W WU_true) (DlqMessage_internalBinaryRead proto_R RU_true) DlqMessage_field DlqMessage_values (DlqMessage_ok p_payload) \<and>
   follows_table ListDlqMessagesRequest_type ListDlqMessagesRequest_create (ListDlqMessagesRequest_internalBinaryWrite proto_W WU_true) (ListDlqMessagesRequest_internalBinaryRead proto_R RU_true) ListDlqMessagesRequest_field ListDlqMessagesRequest_values (ListDlqMessagesRequest_ok p_payload) \<and>
   follows_table ListDlqMessagesResponse_type ListDlqMessagesResponse_create (ListDlqMessagesResponse_internalBinaryWrite proto_W WU_true) (ListDlqMessagesResponse_internalBinaryRead proto_R RU_true) ListDlqMessagesResponse_field ListDlqMessagesResponse_values (ListDlqMessagesResponse_ok p_payload) \<and>
   follows_table GetDlqMessageRequest_type GetDlqMessageRequest_create (GetDlqMessageRequest_internalBinaryWrite proto_W WU_true) (GetDlqMessageRequest_internalBinaryRead proto_R RU_true) GetDlqMessageRequest_field GetDlqMessageRequest_values (GetDlqMessageRequest_ok p_payload) \<and>
   follows_table ReprocessDlqMessageRequest_type ReprocessDlqMessageRequest_create (ReprocessDlqMessageRequest_internalBinaryWrite proto_W WU_true) (ReprocessDlqMessageRequest_internalBinaryRead proto_R RU_true) ReprocessDlqMessageRequest_field ReprocessDlqMessageRequest_values (ReprocessDlqMessageRequest_ok p_payload) \<and>
   follows_table PurgeDlqRequest_type PurgeDlqRequest_create (PurgeDlqRequest_internalBinaryWrite proto_W WU_true) (PurgeDlqRequest_internalBinaryRead proto_R RU_true) PurgeDlqRequest_field PurgeDlqRequest_values (PurgeDlqRequest_ok p_payload) \<and>
   follows_table ConfigScope_type ConfigScope_create (ConfigScope_internalBinaryWrite proto_W WU_true) (ConfigScope_internalBinaryRead proto_R RU_true) ConfigScope_field ConfigScope_values (ConfigScope_ok p_payload) \<and>
   follows_table ConfigItem_type ConfigItem_create (ConfigItem_internalBinaryWrite proto_W WU_true) (ConfigItem_internalBinaryRead proto_R RU_true) ConfigItem_field ConfigItem_values (ConfigItem_ok p_payload) \<and>
   follows_table ConfigRelease_type ConfigRelease_create (ConfigRelease_internalBinaryWrite proto_W WU_true) (ConfigRelease_internalBinaryRead proto_R RU_true) ConfigRelease_field ConfigRelease_values (ConfigRelease_ok p_payload) \<and>
   follows_table ListConfigScopesRequest_type ListConfigScopesRequest_create (ListConfigScopesRequest_internalBinaryWrite proto_W WU_true) (ListConfigScopesRequest_internalBinaryRead proto_R RU_true) ListConfigScopesRequest_field ListConfigScopesRequest_values (ListConfigScopesRequest_ok p_payload) \<and>
   follows_table ConfigScopeSummary_type ConfigScopeSummary_create (ConfigScopeSummary_internalBinaryWrite proto_W WU_true) (ConfigScopeSummary_internalBinaryRead proto_R RU_true) ConfigScopeSummary_field ConfigScopeSummary_values (ConfigScopeSummary_ok p_payload) \<and>
   follows_table ListConfigScopesResponse_type ListConfigScopesResponse_create (ListConfigScopesResponse_internalBinaryWrite proto_W WU_true) (ListConfigScopesResponse_internalBinaryRead proto_R RU_true) ListConfigScopesResponse_field ListConfigScopesResponse_values (ListConfigScopesResponse_ok p_payload) \<and>
   follows_table UpsertConfigItemRequest_type UpsertConfigItemRequest_create (UpsertConfigItemRequest_internalBinaryWrite proto_W WU_true) (UpsertConfigItemRequest_internalBinaryRead proto_R RU_true) UpsertConfigItemRequest_field UpsertConfigItemRequest_values (UpsertConfigItemRequest_ok p_payload) \<and>
   follows_table DeleteConfigItemRequest_type DeleteConfigItemRequest_create (DeleteConfigItemRequest_internalBinaryWrite proto_W WU_true) (DeleteConfigItemRequest_internalBinaryRead proto_R RU_true) DeleteConfigItemRequest_field DeleteConfigItemRequest_values (DeleteConfigItemRequest_ok p_payload) \<and>
   follows_table GetConfigDraftRequest_type GetConfigDraftRequest_create (GetConfigDraftRequest_internalBinaryWrite proto_W WU_true) (GetConfigDraftRequest_internalBinaryRead proto_R RU_true) GetConfigDraftRequest_field GetConfigDraftRequest_values (GetConfigDraftRequest_ok p_payload) \<and>
   follows_table ConfigDraftResponse_type ConfigDraftResponse_create (ConfigDraftResponse_internalBinaryWrite proto_W WU_true) (ConfigDraftResponse_internalBinaryRead proto_R RU_true) ConfigDraftResponse_field ConfigDraftResponse_values (ConfigDraftResponse_ok p_payload) \<and>
   follows_table PublishConfigRequest_type PublishConfigRequest_create (PublishConfigRequest_internalBinaryWrite proto_W WU_true) (PublishConfigRequest_internalBinaryRead proto_R RU_true) PublishConfigRequest_field PublishConfigRequest_values (PublishConfigRequest_ok p_payload) \<and>
   follows_table GetConfigReleaseRequest_type GetConfigReleaseRequest_create (GetConfigReleaseRequest_internalBinaryWrite proto_W WU_true) (GetConfigReleaseRequest_internalBinaryRead proto_R RU_true) GetConfigReleaseRequest_field GetConfigReleaseRequest_values (GetConfigReleaseRequest_ok p_payload) \<and>
   follows_table ListConfigReleasesRequest_type ListConfigReleasesRequest_create (ListConfigReleasesRequest_internalBinaryWrite proto_W WU_true) (ListConfigReleasesRequest_internalBinaryRead proto_R RU_true) ListConfigReleasesRequest_field ListConfigReleasesRequest_values (ListConfigReleasesRequest_ok p_payload) \<and>
   follows_table ListConfigReleasesResponse_type ListConfigReleasesResponse_create (ListConfigReleasesResponse_internalBinaryWrite proto_W WU_true) (ListConfigReleasesResponse_internalBinaryRead proto_R RU_true) ListConfigReleasesResponse_field ListConfigReleasesResponse_values (ListConfigReleasesResponse_ok p_payload) \<and>
   follows_table WatchConfigRequest_type WatchConfigRequest_create (WatchConfigRequest_internalBinaryWrite proto_W WU_true) (WatchConfigRequest_internalBinaryRead proto_R RU_true) WatchConfigRequest_field WatchConfigRequest_values (WatchConfigRequest_ok p_payload) \<and>
   follows_table WatchConfigResponse_type WatchConfigResponse_create (WatchConfigResponse_internalBinaryWrite proto_W WU_true) (WatchConfigResponse_internalBinaryRead proto_R RU_true) WatchConfigResponse_field WatchConfigResponse_values (WatchConfigResponse_ok p_payload) \<and>
   follows_table SetConfigSchemaRequest_type SetConfigSchemaRequest_create (SetConfigSchemaRequest_internalBinaryWrite proto_W WU_true) (SetConfigSchemaRequest_internalBinaryRead proto_R RU_true) SetConfigSchemaRequest_field SetConfigSchemaRequest_values (SetConfigSchemaRequest_ok p_payload) \<and>
   follows_table GetConfigSchemaRequest_type GetConfigSchemaRequest_create (GetConfigSchemaRequest_internalBinaryWrite proto_W WU_true) (GetConfigSchemaRequest_internalBinaryRead proto_R RU_true) GetConfigSchemaRequest_field GetConfigSchemaRequest_values (GetConfigSchemaRequest_ok p_payload) \<and>
   follows_table ConfigSchemaResponse_type ConfigSchemaResponse_create (ConfigSchemaResponse_internalBinaryWrite proto_W WU_true) (ConfigSchemaResponse_internalBinaryRead proto_R RU_true) ConfigSchemaResponse_field ConfigSchemaResponse_values (ConfigSchemaResponse_ok p_payload) \<and>
   follows_table HealthRequest_type HealthRequest_create (HealthRequest_internalBinaryWrite proto_W WU_true) (HealthRequest_internalBinaryRead proto_R RU_true) HealthRequest_field HealthRequest_values (HealthRequest_ok p_payload) \<and>
   follows_table HealthResponse_type HealthResponse_create (HealthResponse_internalBinaryWrite proto_W WU_true) (HealthResponse_internalBinaryRead proto_R RU_true) HealthResponse_field HealthResponse_values (HealthResponse_ok p_payload) \<and>
   follows_table ReadinessRequest_type ReadinessRequest_create (ReadinessRequest_internalBinaryWrite proto_W WU_true) (ReadinessRequest_internalBinaryRead proto_R RU_true) ReadinessRequest_field ReadinessRequest_values (ReadinessRequest_ok p_payload) \<and>
   follows_table ReadinessResponse_type ReadinessResponse_create (ReadinessResponse_internalBinaryWrite proto_W WU_true) (ReadinessResponse_internalBinaryRead proto_R RU_true) ReadinessResponse_field ReadinessResponse_values (ReadinessResponse_ok p_payload) \<and>
   follows_table RuntimeMetricsRequest_type RuntimeMetricsRequest_create (RuntimeMetricsRequest_internalBinaryWrite proto_W WU_true) (RuntimeMetricsRequest_internalBinaryRead proto_R RU_true) RuntimeMetricsRequest_field RuntimeMetricsRequest_values (RuntimeMetricsRequest_ok p_payload) \<and>
   follows_table MethodMetric_type MethodMetric_create (MethodMetric_internalBinaryWrite proto_W WU_true) (MethodMetric_internalBinaryRead proto_R RU_true) MethodMetric_field MethodMetric_values (MethodMetric_ok p_payload) \<and>
   follows_table PgPoolMetrics_type PgPoolMetrics_create (PgPoolMetrics_internalBinaryWrite proto_W WU_true) (PgPoolMetrics_internalBinaryRead proto_R RU_true) PgPoolMetrics_field PgPoolMetrics_values (PgPoolMetrics_ok p_payload) \<and>
   follows_table RuntimeMetricsResponse_type RuntimeMetricsResponse_create (RuntimeMetricsResponse_internalBinaryWrite proto_W WU_true) (RuntimeMetricsResponse_internalBinaryRead proto_R RU_true) RuntimeMetricsResponse_field RuntimeMetricsResponse_values (RuntimeMetricsResponse_ok p_payload)"
  by (intro conjI Empty_follows
    OperationResult_follows
    ServiceCapability_follows
    SetCacheRequest_follows
    GetCacheRequest_follows
    GetCacheResponse_follows
    MGetCacheRequest_follows
    CacheItem_follows
    MGetCacheResponse_follows
    DeleteCacheRequest_follows
    ExistsCacheRequest_follows
    ExistsCacheResponse_follows
    InvalidateNamespaceRequest_follows
    CacheStatsRequest_follows
    NamespaceUsage_follows
    CacheStatsResponse_follows
    IncrementRequest_follows
    IncrementResponse_follows
    DecrementRequest_follows
    DecrementResponse_follows
    SetNXRequest_follows
    SetNXResponse_follows
    GetSetRequest_follows
    GetSetResponse_follows
    AppendRequest_follows
    AppendResponse_follows
    PrependRequest_follows
    PrependResponse_follows
    CreateQueueRequest_follows
    PurgeQueueRequest_follows
    DropQueueRequest_follows
    SendMessageRequest_follows
    SendMessageResponse_follows
    SendBatchRequest_follows
    SendBatchResponse_follows
    ReadMessagesRequest_follows
    ReadWithPollRequest_follows
    StreamReadRequest_follows
    QueueMessage_follows
    ReadMessagesResponse_follows
    AckMessageRequest_follows
    ArchiveMessageRequest_follows
    SetVisibilityTimeoutRequest_follows
    QueueMetricsRequest_follows
    QueueMetricsResponse_follows
    DlqMessage_follows
    ListDlqMessagesRequest_follows
    ListDlqMessagesResponse_follows
    GetDlqMessageRequest_follows
    ReprocessDlqMessageRequest_follows
    PurgeDlqRequest_follows
    ConfigScope_follows
    ConfigItem_follows
    ConfigRelease_follows
    ListConfigScopesRequest_follows
    ConfigScopeSummary_follows
    ListConfigScopesResponse_follows
    UpsertConfigItemRequest_follows
    DeleteConfigItemRequest_follows
    GetConfigDraftRequest_follows
    ConfigDraftResponse_follows
    PublishConfigRequest_follows
    GetConfigReleaseRequest_follows
    ListConfigReleasesRequest_follows
    ListConfigReleasesResponse_follows
    WatchConfigRequest_follows
    WatchConfigResponse_follows
    SetConfigSchemaRequest_follows
    GetConfigSchemaRequest_follows
    ConfigSchemaResponse_follows
    HealthRequest_follows
    HealthResponse_follows
    ReadinessRequest_follows
    ReadinessResponse_follows
    RuntimeMetricsRequest_follows
    MethodMetric_follows
    PgPoolMetrics_follows
    RuntimeMetricsResponse_follows)

end
