(* ===== verification/Spec2Isabelle.thy ===== *)
theory Spec2Isabelle
  imports Codec_Laws Cache_Client Mq_Client Config_Client Admin_Laws Cache_Laws Mq_Laws Config_Laws Auth_Laws Message_Types
begin

text \<open>
  pgapp is a server that offers a cache, message queues and a configuration centre on top of
  PostgreSQL, with a gRPC interface for applications and an HTTP interface for an admin console.
  This library models its TypeScript: the SDK an application uses (\<open>sdk/typescript/src\<close>), from
  the methods of \<open>CacheClient\<close>, \<open>MQClient\<close> and \<open>ConfigClient\<close> down to the bytes that the
  generated code writes and reads, and the admin console (\<open>apps/admin-ui/src/App.tsx\<close>), from its
  buttons down to its HTTP requests. Of the server, which is Rust over SQL, it models the argument
  checks (\<open>crates/pgapp-core/src/validation.rs\<close>), the cache, the queues and the config centre with their
  tables (\<open>cache.rs\<close>, \<open>mq.rs\<close>, \<open>listen.rs\<close>, \<open>config_center.rs\<close>), client credentials and their check in front of
  all services (\<open>client_auth.rs\<close>, \<open>auth.rs\<close>), and the services in front of them (\<open>CacheGrpc\<close>,
  \<open>MqGrpc\<close> and \<open>ConfigGrpc\<close> of \<open>crates/pgapp-server/src/lib.rs\<close>), so that the SDK and the server meet in one theorem.

  \<^bold>\<open>Theories and code.\<close>
  \<^item> \<open>Prelude\<close>: text, UTF-8, decimal numbers, JavaScript numbers (\<open>Number\<close>, \<open>String\<close>, rounding to
    doubles), thrown values and results as sums.
  \<^item> \<open>Wire\<close>, \<open>Wire_Runtime\<close>, \<open>Proto_Wire\<close>: the statements of the generated readers and writers; the
    laws of the reader and the writer of the protobuf runtime, which is not part of the repository,
    as locales (\<open>wire_writer\<close>, \<open>wire_reader\<close>, \<open>wire_progress\<close>, \<open>wire_runtime\<close>); and the proto3
    wire format as an interpretation of them, so that all hypotheses about the runtime can be met.
  \<^item> \<open>Common_Messages\<close>, \<open>Cache_Messages\<close>, \<open>Mq_Messages\<close>, \<open>Config_Messages\<close>, \<open>Health_Messages\<close>: the
    files \<open>gen/pgapp/v1/*.ts\<close>, one record per message with its \<open>create\<close>, \<open>internalBinaryRead\<close> and
    \<open>internalBinaryWrite\<close>, its reference encoding, and the lemmas that reading inverts writing.
  \<^item> \<open>Service_Clients\<close>: \<open>gen/pgapp/v1/*.client.ts\<close>. \<open>Rpc_Link\<close>: what a transport must do for a service
    (\<open>serves\<close>, \<open>streams\<close>), the locale \<open>rpc_link\<close> of a client and a service that speak the same wire
    format, and one lemma per method that a call runs the handler of the service on its argument.
  \<^item> \<open>Json\<close>: \<open>JSON.stringify\<close> (compact and indented) and \<open>JSON.parse\<close> with their round trips.
  \<^item> \<open>Client_Core\<close>, \<open>Cache_Client\<close>, \<open>Mq_Client\<close>, \<open>Config_Client\<close>: \<open>sdk/typescript/src/index.ts\<close>, one
    definition per method, composed of the generated clients and the error conversion as in the code.
  \<^item> \<open>Codec_Laws\<close>: the properties of the generated code.
  \<^item> \<open>Validation\<close>: the argument checks of the server. \<open>Query_Text\<close>: query strings and their parser.
  \<^item> \<open>Admin_Http\<close>: the requests of the console. \<open>Async_Data\<close>: the hook \<open>useAsyncData\<close> as a state
    machine, its invariant, and its refinement of a specification that knows only the newest load.
    \<open>Admin_Views\<close>, \<open>Admin_Mq\<close>, \<open>Admin_Clients\<close>, \<open>Admin_Config\<close>: the views with their handlers and
    what they render. \<open>Admin_App\<close>: the page. \<open>Admin_Console\<close>: sessions, a step relation over the
    page and the network, with the invariants of the token and of the secret of a client; leaving a view
    resets it, as React unmounts it. \<open>Admin_Laws\<close>: the properties of the console.
  \<^item> \<open>Message_Types\<close>: the reflection tables of the generated messages, and that every \<open>create\<close>, reader
    and writer follows the table of its type: whole messages, and each scalar field on its own.
  \<^item> \<open>Sql_Ops\<close>: operations on tables, the \<open>?\<close> operator, transactions, timestamps, and triples for
    invariants. \<open>Waiting\<close>: loops that ask, sleep and ask again, which the long poll and the watch are, and
    that they return. \<open>Rpc_Server\<close>: statuses, metrics and \<open>record_rpc\<close> with the timeout of requests.
  \<^item> \<open>Cache_Store\<close>: \<open>CacheStore\<close> over its tables. \<open>Cache_Spec\<close>, \<open>Cache_Writes\<close>, \<open>Cache_Inv\<close>, \<open>Cache_Refine\<close>:
    what each operation does to what can be read, the invariants (locale \<open>op_invariant\<close>, interpreted
    for consistency and for other namespaces), and the refinement of a specification without rows.
    \<open>Cache_Capacity\<close>: what the sweep keeps and which row an eviction takes.
    \<open>Cache_Server\<close>: the handlers. \<open>Cache_Service\<close>: the contract of a cache as a locale, interpreted on
    the handlers. \<open>Cache_Laws\<close>: the properties.
  \<^item> \<open>Mq_Store\<close>: \<open>MqStore\<close> over its tables, and its long poll. \<open>Mq_Steps\<close>: the queues as a step
    relation with labels. \<open>Mq_Inv\<close>: steps keep the tables consistent. \<open>Mq_Ops\<close>: every operation is a
    sequence of steps that its answer explains. \<open>Mq_Life\<close>: the locale \<open>mq_stable\<close>, which carries what
    steps keep to runs, interpreted for messages that are kept, in flight, removed, with a spent token,
    and for other queues. \<open>Mq_Reads\<close>: what reads return, and that they reach every message.
    \<open>Mq_Server\<close>: the handlers, the long poll that listens, and the stream. \<open>Mq_Service\<close>: the contract
    of a queue as a locale, interpreted on the handlers, and that long polls return. \<open>Mq_Laws\<close>: the properties.
  \<^item> \<open>Config_Store\<close>: \<open>ConfigStore\<close> over its tables. \<open>Config_Inv\<close>: runs of the config centre, and the locale
    \<open>config_invariant\<close>, which carries what the changes of the tables keep to runs, interpreted for
    consistency, for releases that stay, for drafts that are not published and for other scopes.
    \<open>Config_Reads\<close>: what reads and publications return, and pages (locale \<open>paged_list\<close>, interpreted for scopes
    and releases). \<open>Config_Server\<close>: the handlers, and the contract of a reader as a locale, interpreted on
    them. \<open>Config_Laws\<close>: the properties.
  \<^item> \<open>Client_Auth\<close>: \<open>ClientStore\<close> over its table, and \<open>AuthService\<close>. \<open>Auth_Laws\<close>: histories of the administration as
    an inductive relation, the secrets that they leave valid, and that exactly these are let in.
  \<^item> This theory: the properties of the SDK that need all its layers.

  \<^bold>\<open>State and effects.\<close> A service, and the other side of a network, is a function from a request and
  a state to an answer and the next state; it is an argument of every definition that reaches it.
  A call of the SDK returns \<open>None\<close> if it does not return, \<open>Some (Inl e)\<close> if it throws and
  \<open>Some (Inr x)\<close> if it returns; a stream returns what it yields and how it ends. Records of the
  generated code keep their unknown fields as bytes. The 64-bit fields are decimal texts, as the
  generator was told (\<open>long_type_string\<close>); 32-bit fields are JavaScript numbers.

  A store of the server is a record of tables, lists of rows; an operation takes the tables and the
  time and returns a result or an error and the tables, a handler the same with the metrics. Time is
  in microseconds.

  \<^bold>\<open>What is shown.\<close> Of the queues: no message is lost, a message in flight is hidden, stale tokens are
  refused, reads deliver the oldest messages and reach every one, the limit of redeliveries, isolation,
  reprocessing, consistent tables, long polls that return, and a message that goes through the SDK, the
  wire and the service and back (C1, C4, C10 to C18). Of the config centre: a release holds the draft it was
  made of, is read through the SDK and never changes; schemas are enforced, scopes do not meet, pages are
  complete, watches return (C5 to C7, C19 to C23). Of the credentials: a call reaches a handler exactly with
  the secret that was issued last for an active key (C8, C9). Of the cache: refinement of a map with expiry, a value
  read back through the SDK, consistency, isolation and capacity (C2, C3, C24 to C28). Of the
  generated code: it writes the proto3 encoding and reads it back, follows its tables, and returns on
  every input (C29 to C32). Of the SDK: streams in order, what becomes of ids beyond the integers JavaScript
  holds, and every failure of every method turned into a \<open>PGAppError\<close> (C33 to C35); that methods run the handler of the service on
  their arguments carries C3 to C5. Of the console: it sends the token with everything,
  shows the newest answer, its editors send what they show, and a secret on screen is the one issued last (C36 to C40). Where the code does
  not do what it means to, that is shown as well, for all inputs that meet it: C18, C21, C27, C28, C34 and C39. Theorems
  without a number are of the same kind, for further methods.

  \<^bold>\<open>Bounds and fuel.\<close> The field loop of a reader ends because the reader's position grows; where
  the runtime does not promise progress, the loop is \<open>partial_function (option)\<close> and termination is a
  theorem. \<open>JSON.parse\<close> has fuel, \<open>2 * length + 2\<close>, and a lemma says that more fuel changes
  nothing. Messages are shorter than \<open>2^31\<close> bytes, the limit of a length prefix in the runtime. The loops of
  a long poll and of a watch are \<open>partial_function (option)\<close>; they return because time passes while they sleep. The
  loop that evicts cache entries ends because each turn removes a row.

  \<^bold>\<open>Not modelled.\<close> Of the server: the admin HTTP interface, health and the start of the process. Concurrency inside PostgreSQL: an operation runs alone and at
  one instant, except while it sleeps; a request other than a long poll or a watch ends before its
  timeout. Ids, counters, generations and revisions stay below \<open>2^63\<close>, the range of their columns. SHA-256, MD5, Argon2, random numbers, the order in which a statement visits rows, the collation,
  \<open>serde_json\<close>, JSONB and \<open>jsonschema\<close>, \<open>chrono\<close> and the
  texts of driver errors are arguments, with what is needed of them as hypotheses
  (\<open>scans\<close>, \<open>md5_hex\<close>, \<open>not_made_again\<close>,
  \<open>time_passes\<close>, \<open>tells_apart\<close>). The protobuf runtime, gRPC and React beyond what the definitions use,
  the SDKs in other languages, styles, icons, build files and tests. Characters are those from
  U+0001 to U+00FF (PostgreSQL takes no U+0000); numbers that are not integers are kept as their
  text. In a session of the console a handler runs to its end before the next event; the order of
  answers to loads is free in \<open>Async_Data\<close>.
\<close>

section \<open>The cache client over the wire\<close>

text \<open>A client of a transport with the protobuf wire format, for concrete runs.\<close>

definition proto_client ::
  "(string \<Rightarrow> method_info \<Rightarrow> rpc_options \<Rightarrow> bytes \<Rightarrow> 's \<Rightarrow> bytes result \<times> 's) \<Rightarrow>
   (string \<Rightarrow> method_info \<Rightarrow> rpc_options \<Rightarrow> bytes \<Rightarrow> 's \<Rightarrow> (bytes list \<times> thrown option) \<times> 's) \<Rightarrow>
   (bytes list, nat \<times> bytes, 's) PGAppClient" where
  "proto_client un ss = PGAppClient_new (\<lambda>host. proto_env un ss) None
     (Some \<lparr>po_timeoutMs = None, po_credentials = Some \<lparr>cr_key = ''k'', cr_secret = ''s''\<rparr>\<rparr>)"

lemma proto_client_simps [simp]:
  "pc_transport (proto_client un ss) = proto_env un ss"
  "rpcOptions (proto_client un ss) =
     \<lparr>ro_meta = [(''x-pgapp-key'', ''k''), (''x-pgapp-secret'', ''s'')], ro_timeout = None\<rparr>"
  by (simp_all add: proto_client_def PGAppClient_new_def rpcOptions_def Let_def)

lemma proto_client_link: "rpc_link (pc_transport (proto_client un ss)) proto_E (\<lambda>w. w) snd p_payload"
  by (simp add: proto_link)

definition no_stream :: "string \<Rightarrow> method_info \<Rightarrow> rpc_options \<Rightarrow> bytes \<Rightarrow> 's \<Rightarrow> (bytes list \<times> thrown option) \<times> 's" where
  "no_stream service m opt bs s = (([], None), s)"

lemma deliverable_proto:
  assumes "OperationResult_ok p_payload x" "unknownFields x = []"
  shows "deliverable (OperationResult_ok p_payload) (OperationResult_encode proto_E) (Inr x)"
proof -
  have "length (OperationResult_encode proto_E x) < 2147483648"
    unfolding OperationResult_encode_def
    by (rule le_less_trans, (rule wire_size)+) (simp add: assms)
  with assms show ?thesis by (simp add: transmissible_def)
qed

text \<open>
  \<open>CacheClient.set\<close> runs the service's handler for \<open>Set\<close> on exactly the namespace, key,
  bytes and time to live it was given, with the metadata of the client, and returns what the
  handler reports; an error of the handler is thrown as a \<open>PGAppError\<close>.
\<close>

theorem cache_set_runs_handler:
  fixes this :: "('w, 'r, 's) PGAppClient"
  assumes "rpc_link (pc_transport this) E st rest skippable"
    and "serves_CacheService_Set (pc_transport this) h" "safe_int ttl"
    and "req = \<lparr>unknownFields = [], SetCacheRequest_namespace = ns, SetCacheRequest_key = key,
      SetCacheRequest_value = encodeBytes v, SetCacheRequest_ttlSeconds = dec ttl\<rparr>"
    and "length (SetCacheRequest_encode E req) < 2147483648"
    and "h (env_mergeOptions (pc_transport this) (rpcOptions this)) req s = (out, s')"
    and "deliverable (OperationResult_ok skippable) (OperationResult_encode E) out"
  shows "CacheClient_set this ns key v (Some (IntNum ttl)) s =
    (Some (case out of Inl e \<Rightarrow> Inl (throwFrom e) | Inr x \<Rightarrow> Inr (OperationResult_success x)), s')"
  using CacheClient_set_call [OF assms(1,2), where ttlSeconds = "Some (IntNum ttl)" and namespace = ns and key = key and content = v and s = s] assms(3-)
  by (cases out) (simp_all add: Let_def SetCacheRequest_create_def)

definition set_handler :: "rpc_options \<Rightarrow> SetCacheRequest \<Rightarrow> (rpc_options \<times> SetCacheRequest) list \<Rightarrow>
    OperationResult result \<times> (rpc_options \<times> SetCacheRequest) list" where
  "set_handler opt req s = (Inr (OperationResult_create\<lparr>OperationResult_success := True\<rparr>), (opt, req) # s)"

theorem cache_set_runs_handler_witness:
  "CacheClient_set (proto_client (dispatch ''pgapp.v1.CacheService''
        (unaryMethod ''Set'' ''pgapp.v1.SetCacheRequest'' ''pgapp.v1.OperationResult'')
        (SetCacheRequest_internalBinaryRead proto_R RU_true)
        (OperationResult_internalBinaryWrite proto_W WU_true) set_handler) no_stream)
      ''users'' ''42'' (Text ''hi'') (Some (IntNum 60)) [] =
    (Some (Inr True), [(\<lparr>ro_meta = [(''x-pgapp-key'', ''k''), (''x-pgapp-secret'', ''s'')], ro_timeout = None\<rparr>,
       \<lparr>unknownFields = [], SetCacheRequest_namespace = ''users'', SetCacheRequest_key = ''42'',
        SetCacheRequest_value = encodeBytes (Text ''hi''), SetCacheRequest_ttlSeconds = dec 60\<rparr>)])"
  (is "CacheClient_set (proto_client ?un no_stream) _ _ _ _ _ = (_, [(?opt, ?req)])")
proof -
  have s: "serves_CacheService_Set (pc_transport (proto_client ?un no_stream)) set_handler"
    using dispatch_serves by simp
  have small: "length (SetCacheRequest_encode proto_E ?req) < 2147483648"
    unfolding SetCacheRequest_encode_def
    by (rule le_less_trans, (rule wire_size)+) (simp add: encodeBytes_def Let_def)
  have d: "deliverable (OperationResult_ok p_payload) (OperationResult_encode proto_E)
      (Inr (OperationResult_create\<lparr>OperationResult_success := True\<rparr>))"
    by (rule deliverable_proto) (simp_all add: OperationResult_ok_def OperationResult_create_def unknown_ok_def)
  from cache_set_runs_handler [OF proto_client_link s _ refl small _ d, where s = "[]" and s' = "[(?opt, ?req)]"]
  show ?thesis by (simp add: set_handler_def OperationResult_create_def)
qed

text \<open>
  \<open>CacheClient.get\<close> returns the bytes the service found for the key, or \<open>null\<close> when the
  service reports a miss, whatever bytes came with the miss.
\<close>

theorem cache_get_hit_or_miss:
  fixes this :: "('w, 'r, 's) PGAppClient"
  assumes "rpc_link (pc_transport this) E st rest skippable" "serves_CacheService_Get (pc_transport this) h"
    and "req = \<lparr>unknownFields = [], GetCacheRequest_namespace = ns, GetCacheRequest_key = key\<rparr>"
    and "length (GetCacheRequest_encode E req) < 2147483648"
    and "h (env_mergeOptions (pc_transport this) (rpcOptions this)) req s = (Inr found, s')"
    and "transmissible (GetCacheResponse_ok skippable) (GetCacheResponse_encode E) found"
  shows "CacheClient_get this ns key s =
    (Some (Inr (if GetCacheResponse_hit found then Some (GetCacheResponse_value found) else None)), s')"
  using CacheClient_get_call [OF assms(1,2), where namespace = ns and key = key and s = s] assms(3-)
  by (simp add: Let_def GetCacheRequest_create_def)

definition answers :: "'o \<Rightarrow> rpc_options \<Rightarrow> 'i \<Rightarrow> 'i list \<Rightarrow> 'o result \<times> 'i list" where
  "answers x opt req s = (Inr x, req # s)"

theorem cache_get_hit_or_miss_witness:
  "CacheClient_get (proto_client (dispatch ''pgapp.v1.CacheService''
        (unaryMethod ''Get'' ''pgapp.v1.GetCacheRequest'' ''pgapp.v1.GetCacheResponse'')
        (GetCacheRequest_internalBinaryRead proto_R RU_true) (GetCacheResponse_internalBinaryWrite proto_W WU_true)
        (answers \<lparr>unknownFields = [], GetCacheResponse_hit = True, GetCacheResponse_value = [7]\<rparr>)) no_stream)
      ''users'' ''42'' [] =
    (Some (Inr (Some [7])), [\<lparr>unknownFields = [], GetCacheRequest_namespace = ''users'', GetCacheRequest_key = ''42''\<rparr>])"
  (is "CacheClient_get (proto_client (dispatch _ _ _ _ (answers ?x)) _) _ _ _ = (_, [?req])")
proof -
  have small: "length (GetCacheRequest_encode proto_E ?req) < 2147483648"
    unfolding GetCacheRequest_encode_def by (rule le_less_trans, (rule wire_size)+) simp
  have "length (GetCacheResponse_encode proto_E ?x) < 2147483648"
    unfolding GetCacheResponse_encode_def by (rule le_less_trans, (rule wire_size)+) simp
  then have x: "transmissible (GetCacheResponse_ok p_payload) (GetCacheResponse_encode proto_E) ?x"
    by (simp add: transmissible_def GetCacheResponse_ok_def unknown_ok_def)
  show ?thesis
    by (subst cache_get_hit_or_miss [OF proto_client_link _ refl small _ x, where h = "answers ?x"])
      (simp_all add: dispatch_serves answers_def)
qed

text \<open>
  \<open>CacheClient.mget\<close> asks for exactly the given keys, in their order, and returns the items of
  the service unchanged; an item that is a miss comes back as the service sent it, with bytes and
  not with \<open>null\<close>.
\<close>

theorem cache_mget_items:
  fixes this :: "('w, 'r, 's) PGAppClient"
  assumes "rpc_link (pc_transport this) E st rest skippable" "serves_CacheService_MGet (pc_transport this) h"
    and "req = \<lparr>unknownFields = [], MGetCacheRequest_namespace = ns, MGetCacheRequest_keys = keys\<rparr>"
    and "length (MGetCacheRequest_encode E req) < 2147483648"
    and "h (env_mergeOptions (pc_transport this) (rpcOptions this)) req s = (Inr found, s')"
    and "transmissible (MGetCacheResponse_ok skippable) (MGetCacheResponse_encode E) found"
  shows "CacheClient_mget this ns keys s = (Some (Inr (MGetCacheResponse_items found)), s')"
  using CacheClient_mget_call [OF assms(1,2), where namespace = ns and keys = keys and s = s] assms(3-)
  by (simp add: Let_def MGetCacheRequest_create_def)

definition missed_item :: CacheItem where
  "missed_item = CacheItem_create\<lparr>CacheItem_key := ''42''\<rparr>"

theorem cache_mget_items_witness:
  "CacheClient_mget (proto_client (dispatch ''pgapp.v1.CacheService''
        (unaryMethod ''MGet'' ''pgapp.v1.MGetCacheRequest'' ''pgapp.v1.MGetCacheResponse'')
        (MGetCacheRequest_internalBinaryRead proto_R RU_true) (MGetCacheResponse_internalBinaryWrite proto_W WU_true)
        (answers \<lparr>unknownFields = [], MGetCacheResponse_items = [missed_item]\<rparr>)) no_stream) ''users'' [''42''] [] =
    (Some (Inr [missed_item]),
     [\<lparr>unknownFields = [], MGetCacheRequest_namespace = ''users'', MGetCacheRequest_keys = [''42'']\<rparr>]) \<and>
   \<not> CacheItem_hit missed_item \<and> CacheItem_value missed_item = []"
  (is "CacheClient_mget (proto_client (dispatch _ _ _ _ (answers ?x)) _) _ _ _ = (_, [?req]) \<and> _")
proof -
  have small: "length (MGetCacheRequest_encode proto_E ?req) < 2147483648"
    unfolding MGetCacheRequest_encode_def by (rule le_less_trans, (rule wire_size)+) simp
  have "length (MGetCacheResponse_encode proto_E ?x) < 2147483648"
    unfolding MGetCacheResponse_encode_def CacheItem_encode_def
    by (rule le_less_trans, (rule wire_size)+) (simp add: missed_item_def CacheItem_create_def)
  then have x: "transmissible (MGetCacheResponse_ok p_payload) (MGetCacheResponse_encode proto_E) ?x"
    by (simp add: transmissible_def MGetCacheResponse_ok_def CacheItem_ok_def missed_item_def CacheItem_create_def unknown_ok_def)
  have "CacheClient_mget (proto_client (dispatch ''pgapp.v1.CacheService''
        (unaryMethod ''MGet'' ''pgapp.v1.MGetCacheRequest'' ''pgapp.v1.MGetCacheResponse'')
        (MGetCacheRequest_internalBinaryRead proto_R RU_true) (MGetCacheResponse_internalBinaryWrite proto_W WU_true)
        (answers ?x)) no_stream) ''users'' [''42''] [] = (Some (Inr [missed_item]), [?req])"
    by (subst cache_mget_items [OF proto_client_link _ refl small _ x, where h = "answers ?x"])
      (simp_all add: dispatch_serves answers_def)
  then show ?thesis by (simp add: missed_item_def CacheItem_create_def)
qed

text \<open>
  \<open>CacheClient.increment\<close> sends the delta exactly and returns the service's new value
  exactly, for all integers up to \<open>2^53\<close> in magnitude.
\<close>

theorem cache_increment_exact:
  fixes this :: "('w, 'r, 's) PGAppClient"
  assumes "rpc_link (pc_transport this) E st rest skippable" "serves_CacheService_Increment (pc_transport this) h"
    and "safe_int delta" "safe_int ttl" "safe_int v"
    and "req = \<lparr>unknownFields = [], IncrementRequest_namespace = ns, IncrementRequest_key = key,
      IncrementRequest_delta = dec delta, IncrementRequest_ttlSeconds = dec ttl\<rparr>"
    and "length (IncrementRequest_encode E req) < 2147483648"
    and "h (env_mergeOptions (pc_transport this) (rpcOptions this)) req s = (Inr found, s')"
    and "IncrementResponse_value found = dec v"
    and "transmissible (IncrementResponse_ok skippable) (IncrementResponse_encode E) found"
  shows "CacheClient_increment this ns key (Some (IntNum delta)) (Some (IntNum ttl)) s = (Some (Inr (IntNum v)), s')"
  using CacheClient_increment_call [OF assms(1,2), where namespace = ns and key = key and s = s
      and delta = "Some (IntNum delta)" and ttlSeconds = "Some (IntNum ttl)"] assms(3-)
  by (simp add: Let_def IncrementRequest_create_def js_Number_safe)

theorem cache_increment_exact_witness:
  "CacheClient_increment (proto_client (dispatch ''pgapp.v1.CacheService''
        (unaryMethod ''Increment'' ''pgapp.v1.IncrementRequest'' ''pgapp.v1.IncrementResponse'')
        (IncrementRequest_internalBinaryRead proto_R RU_true) (IncrementResponse_internalBinaryWrite proto_W WU_true)
        (answers \<lparr>unknownFields = [], IncrementResponse_value = dec 9007199254740992\<rparr>)) no_stream)
      ''n'' ''k'' (Some (IntNum (-5))) (Some (IntNum 0)) [] =
    (Some (Inr (IntNum 9007199254740992)), [\<lparr>unknownFields = [], IncrementRequest_namespace = ''n'',
       IncrementRequest_key = ''k'', IncrementRequest_delta = dec (-5), IncrementRequest_ttlSeconds = dec 0\<rparr>])"
  (is "CacheClient_increment (proto_client (dispatch _ _ _ _ (answers ?x)) _) _ _ _ _ _ = (_, [?req])")
proof -
  have small: "length (IncrementRequest_encode proto_E ?req) < 2147483648"
    unfolding IncrementRequest_encode_def by (rule le_less_trans, (rule wire_size)+) simp
  have "length (IncrementResponse_encode proto_E ?x) < 2147483648"
    unfolding IncrementResponse_encode_def by (rule le_less_trans, (rule wire_size)+) simp
  then have x: "transmissible (IncrementResponse_ok p_payload) (IncrementResponse_encode proto_E) ?x"
    by (simp add: transmissible_def IncrementResponse_ok_def unknown_ok_def int64_ok_def)
  show ?thesis
    by (rule cache_increment_exact [OF proto_client_link _ _ _ _ refl small _ _ x, where h = "answers ?x"])
      (simp_all add: dispatch_serves answers_def safe_int_def)
qed


section \<open>The message queue client over the wire\<close>

text \<open>
  \<open>MQClient.sendJson\<close> delivers the payload: the handler receives a JSON text that parses to
  exactly the value that was sent, and the caller gets the id the service assigned.
\<close>

theorem send_json_delivers:
  fixes this :: "('w, 'r, 's) PGAppClient"
  assumes "rpc_link (pc_transport this) E st rest skippable" "serves_MQService_Send (pc_transport this) h"
    and "json_ok v" "safe_int delay" "safe_int k"
    and "req = \<lparr>unknownFields = [], SendMessageRequest_queueName = queue,
      SendMessageRequest_jsonPayload = stringify v, SendMessageRequest_delaySeconds = dec delay\<rparr>"
    and "length (SendMessageRequest_encode E req) < 2147483648"
    and "h (env_mergeOptions (pc_transport this) (rpcOptions this)) req s = (Inr sent, s')"
    and "SendMessageResponse_messageId sent = dec k"
    and "transmissible (SendMessageResponse_ok skippable) (SendMessageResponse_encode E) sent"
  shows "MQClient_sendJson this queue v (Some (IntNum delay)) s = (Some (Inr (IntNum k)), s') \<and>
    JSON_parse (SendMessageRequest_jsonPayload req) = Inr v"
  using MQClient_sendJson_call [OF assms(1,2), where queueName = queue and payload = v and s = s
      and delaySeconds = "Some (IntNum delay)"] assms(3-)
  by (simp add: Let_def SendMessageRequest_create_def js_Number_safe JSON_parse_stringify)

definition order_json :: json where
  "order_json = JObj [(''sku'', JStr ''a1''), (''qty'', JNum (IntNum 3)), (''tags'', JArr [JNull, JBool True])]"

theorem send_json_delivers_witness:
  "MQClient_sendJson (proto_client (dispatch ''pgapp.v1.MQService''
        (unaryMethod ''Send'' ''pgapp.v1.SendMessageRequest'' ''pgapp.v1.SendMessageResponse'')
        (SendMessageRequest_internalBinaryRead proto_R RU_true) (SendMessageResponse_internalBinaryWrite proto_W WU_true)
        (answers \<lparr>unknownFields = [], SendMessageResponse_messageId = dec 17\<rparr>)) no_stream)
      ''orders'' order_json (Some (IntNum 0)) [] =
    (Some (Inr (IntNum 17)), [\<lparr>unknownFields = [], SendMessageRequest_queueName = ''orders'',
       SendMessageRequest_jsonPayload = stringify order_json, SendMessageRequest_delaySeconds = dec 0\<rparr>]) \<and>
   JSON_parse (SendMessageRequest_jsonPayload \<lparr>unknownFields = [], SendMessageRequest_queueName = ''orders'',
       SendMessageRequest_jsonPayload = stringify order_json, SendMessageRequest_delaySeconds = dec 0\<rparr>) = Inr order_json"
  (is "MQClient_sendJson (proto_client (dispatch _ _ _ _ (answers ?x)) _) _ _ _ _ = (_, [?req]) \<and> _")
proof -
  have j: "json_ok order_json" by code_simp
  have len: "length (stringify order_json) = 39" by code_simp
  have small: "length (SendMessageRequest_encode proto_E ?req) < 2147483648"
    unfolding SendMessageRequest_encode_def by (rule le_less_trans, (rule wire_size)+) (simp add: len)
  have "length (SendMessageResponse_encode proto_E ?x) < 2147483648"
    unfolding SendMessageResponse_encode_def by (rule le_less_trans, (rule wire_size)+) simp
  then have x: "transmissible (SendMessageResponse_ok p_payload) (SendMessageResponse_encode proto_E) ?x"
    by (simp add: transmissible_def SendMessageResponse_ok_def unknown_ok_def int64_ok_def)
  show ?thesis
    by (rule send_json_delivers [OF proto_client_link _ j _ _ refl small _ _ x, where h = "answers ?x"])
      (simp_all add: dispatch_serves answers_def)
qed

text \<open>
  \<open>MQClient.sendBatchJson\<close> sends the payloads in order, one JSON text each, and returns the
  ids of the service in its order.
\<close>

theorem send_batch_in_order:
  fixes this :: "('w, 'r, 's) PGAppClient"
  assumes "rpc_link (pc_transport this) E st rest skippable" "serves_MQService_SendBatch (pc_transport this) h"
    and "list_all json_ok vs" "safe_int delay" "list_all safe_int ks"
    and "req = \<lparr>unknownFields = [], SendBatchRequest_queueName = queue,
      SendBatchRequest_jsonPayloads = map stringify vs, SendBatchRequest_delaySeconds = dec delay\<rparr>"
    and "length (SendBatchRequest_encode E req) < 2147483648"
    and "h (env_mergeOptions (pc_transport this) (rpcOptions this)) req s = (Inr sent, s')"
    and "SendBatchResponse_messageIds sent = map dec ks"
    and "transmissible (SendBatchResponse_ok skippable) (SendBatchResponse_encode E) sent"
  shows "MQClient_sendBatchJson this queue vs (Some (IntNum delay)) s = (Some (Inr (map IntNum ks)), s') \<and>
    map JSON_parse (SendBatchRequest_jsonPayloads req) = map Inr vs"
  using MQClient_sendBatchJson_call [OF assms(1,2), where queueName = queue and payloads = vs and s = s
      and delaySeconds = "Some (IntNum delay)"] assms(3-)
  by (simp add: Let_def SendBatchRequest_create_def js_Number_safe JSON_parse_stringify list_all_iff comp_def)

theorem send_batch_in_order_witness:
  "MQClient_sendBatchJson (proto_client (dispatch ''pgapp.v1.MQService''
        (unaryMethod ''SendBatch'' ''pgapp.v1.SendBatchRequest'' ''pgapp.v1.SendBatchResponse'')
        (SendBatchRequest_internalBinaryRead proto_R RU_true) (SendBatchResponse_internalBinaryWrite proto_W WU_true)
        (answers \<lparr>unknownFields = [], SendBatchResponse_messageIds = map dec [8, 9]\<rparr>)) no_stream)
      ''orders'' [JNull, JBool True] (Some (IntNum 5)) [] =
    (Some (Inr (map IntNum [8, 9])), [\<lparr>unknownFields = [], SendBatchRequest_queueName = ''orders'',
       SendBatchRequest_jsonPayloads = map stringify [JNull, JBool True], SendBatchRequest_delaySeconds = dec 5\<rparr>]) \<and>
   map JSON_parse (SendBatchRequest_jsonPayloads \<lparr>unknownFields = [], SendBatchRequest_queueName = ''orders'',
       SendBatchRequest_jsonPayloads = map stringify [JNull, JBool True], SendBatchRequest_delaySeconds = dec 5\<rparr>) =
     map Inr [JNull, JBool True]"
  (is "MQClient_sendBatchJson (proto_client (dispatch _ _ _ _ (answers ?x)) _) _ _ _ _ = (_, [?req]) \<and> _")
proof -
  have small: "length (SendBatchRequest_encode proto_E ?req) < 2147483648"
    unfolding SendBatchRequest_encode_def by (rule le_less_trans, (rule wire_size)+) simp
  have "length (SendBatchResponse_encode proto_E ?x) < 2147483648"
    unfolding SendBatchResponse_encode_def by (rule le_less_trans, (rule wire_size)+) simp
  then have x: "transmissible (SendBatchResponse_ok p_payload) (SendBatchResponse_encode proto_E) ?x"
    by (simp add: transmissible_def SendBatchResponse_ok_def unknown_ok_def int64_ok_def)
  show ?thesis
    by (rule send_batch_in_order [OF proto_client_link _ _ _ _ refl small _ _ x, where h = "answers ?x"])
      (simp_all add: dispatch_serves answers_def)
qed

text \<open>
  C33. \<open>MQClient.streamRead\<close> yields every message of every response, in the order of arrival, and
  then ends, or throws the error of the stream as a \<open>PGAppError\<close>; the messages that came before
  the error are yielded first.
\<close>

theorem stream_read_in_order:
  fixes this :: "('w, 'r, 's) PGAppClient"
  assumes "rpc_link (pc_transport this) E st rest skippable" "streams_MQService_StreamRead (pc_transport this) E h"
    and "in_int32 quantity" "safe_int timeout"
    and "req = \<lparr>unknownFields = [], StreamReadRequest_queueName = queue,
      StreamReadRequest_quantity = IntNum quantity, StreamReadRequest_visibilityTimeoutSeconds = dec timeout\<rparr>"
    and "length (StreamReadRequest_encode E req) < 2147483648"
    and "h (env_mergeOptions (pc_transport this) (rpcOptions this)) req s = ((responses, fin), s')"
    and "list_all (transmissible (ReadMessagesResponse_ok skippable) (ReadMessagesResponse_encode E)) responses"
  shows "MQClient_streamRead this queue (Some \<lparr>so_quantity = Some (IntNum quantity),
      so_visibilityTimeoutSeconds = Some (IntNum timeout)\<rparr>) s =
    (Some (concat (map ReadMessagesResponse_messages responses), map_option throwFrom fin), s')"
  using MQClient_streamRead_call [OF assms(1,2), where queueName = queue and s = s
      and quantity = "Some (IntNum quantity)" and visibilityTimeoutSeconds = "Some (IntNum timeout)"] assms(3-)
  by (simp add: Let_def StreamReadRequest_create_def)

definition stream_handler :: "rpc_options \<Rightarrow> StreamReadRequest \<Rightarrow> nat \<Rightarrow>
    (ReadMessagesResponse list \<times> thrown option) \<times> nat" where
  "stream_handler opt req s = (([\<lparr>unknownFields = [], ReadMessagesResponse_messages = []\<rparr>,
     \<lparr>unknownFields = [], ReadMessagesResponse_messages = [QueueMessage_create]\<rparr>],
     Some (mkError ''UNAVAILABLE'')), s + 1)"

theorem stream_read_in_order_witness:
  "MQClient_streamRead (proto_client (\<lambda>service m opt bs s. (Inl (mkError []), s))
        (dispatch_stream (StreamReadRequest_internalBinaryRead proto_R RU_true) (ReadMessagesResponse_encode proto_E)
           stream_handler)) ''orders''
      (Some \<lparr>so_quantity = Some (IntNum 2), so_visibilityTimeoutSeconds = Some (IntNum 30)\<rparr>) 0 =
    (Some ([QueueMessage_create], Some (throwFrom (mkError ''UNAVAILABLE''))), 1)"
  (is "MQClient_streamRead (proto_client _ (dispatch_stream _ _ ?h)) _ _ _ = _")
proof -
  let ?req = "\<lparr>unknownFields = [], StreamReadRequest_queueName = ''orders'',
      StreamReadRequest_quantity = IntNum 2, StreamReadRequest_visibilityTimeoutSeconds = dec 30\<rparr>"
  have small: "length (StreamReadRequest_encode proto_E ?req) < 2147483648"
    unfolding StreamReadRequest_encode_def by (rule le_less_trans, (rule wire_size)+) simp
  have bound: "length (ReadMessagesResponse_encode proto_E r) < 2147483648"
    if "r \<in> set (fst (fst (stream_handler opt req s)))" for r opt req s
    unfolding ReadMessagesResponse_encode_def QueueMessage_encode_def
    by (rule le_less_trans, (rule wire_size)+) (use that in \<open>auto simp: stream_handler_def QueueMessage_create_def\<close>)
  have "int64_ok ''0''" by code_simp
  then have ok: "list_all (transmissible (ReadMessagesResponse_ok p_payload) (ReadMessagesResponse_encode proto_E))
      (fst (fst (stream_handler opt req s)))" for opt req s
    using bound [of _ opt req s]
    by (auto simp: list_all_iff transmissible_def ReadMessagesResponse_ok_def QueueMessage_ok_def
        stream_handler_def unknown_ok_def QueueMessage_create_def)
  show ?thesis
    by (rule trans [OF stream_read_in_order [OF proto_client_link _ _ _ refl small,
            where h = stream_handler and s = 0 and responses = "fst (fst (stream_handler undefined undefined 0))"
              and fin = "Some (mkError ''UNAVAILABLE'')" and s' = 1]])
      (use ok in \<open>simp_all add: dispatch_streams\<close>, simp_all add: stream_handler_def)
qed

text \<open>
  A message that was sent can be acknowledged: the id \<open>sendJson\<close> returns, passed to \<open>ack\<close>,
  reaches the service as the id it assigned, for all ids up to \<open>2^53\<close>.
\<close>

theorem sent_message_is_acked:
  fixes this :: "('w, 'r, 's) PGAppClient"
  assumes "rpc_link (pc_transport this) E st rest skippable"
    and "serves_MQService_Send (pc_transport this) hs" "serves_MQService_Ack (pc_transport this) ha"
    and "safe_int delay" "safe_int k"
    and "sreq = \<lparr>unknownFields = [], SendMessageRequest_queueName = queue,
      SendMessageRequest_jsonPayload = stringify v, SendMessageRequest_delaySeconds = dec delay\<rparr>"
    and "length (SendMessageRequest_encode E sreq) < 2147483648"
    and "opt = env_mergeOptions (pc_transport this) (rpcOptions this)"
    and "hs opt sreq s = (Inr sent, s1)" "SendMessageResponse_messageId sent = dec k"
    and "transmissible (SendMessageResponse_ok skippable) (SendMessageResponse_encode E) sent"
    and "areq = \<lparr>unknownFields = [], AckMessageRequest_queueName = queue,
      AckMessageRequest_messageId = dec k, AckMessageRequest_ackToken = token\<rparr>"
    and "length (AckMessageRequest_encode E areq) < 2147483648"
    and "ha opt areq s1 = (Inr done, s2)"
    and "transmissible (OperationResult_ok skippable) (OperationResult_encode E) done"
  shows "\<exists>messageId. MQClient_sendJson this queue v (Some (IntNum delay)) s = (Some (Inr messageId), s1) \<and>
    MQClient_ack this queue messageId token s1 = (Some (Inr (OperationResult_success done)), s2)"
proof -
  have "MQClient_sendJson this queue v (Some (IntNum delay)) s = (Some (Inr (IntNum k)), s1)"
    using MQClient_sendJson_call [OF assms(1,2), where queueName = queue and payload = v and s = s
        and delaySeconds = "Some (IntNum delay)"] assms
    by (simp add: Let_def SendMessageRequest_create_def js_Number_safe)
  moreover have "MQClient_ack this queue (IntNum k) token s1 = (Some (Inr (OperationResult_success done)), s2)"
    using MQClient_ack_call [OF assms(1,3), where queueName = queue and s = s1 and messageId = "IntNum k"
        and ackToken = token] assms
    by (simp add: Let_def AckMessageRequest_create_def)
  ultimately show ?thesis by blast
qed

text \<open>A service that assigns a given id and accepts every acknowledgement, in one transport.\<close>

definition sends :: "int \<Rightarrow> rpc_options \<Rightarrow> SendMessageRequest \<Rightarrow> string list \<Rightarrow> SendMessageResponse result \<times> string list" where
  "sends k opt req s = (Inr \<lparr>unknownFields = [], SendMessageResponse_messageId = dec k\<rparr>, s @ [''sent''])"

definition acks :: "rpc_options \<Rightarrow> AckMessageRequest \<Rightarrow> string list \<Rightarrow> OperationResult result \<times> string list" where
  "acks opt req s = (Inr \<lparr>unknownFields = [], OperationResult_success = True\<rparr>, s @ [AckMessageRequest_messageId req])"

definition mq_service ::
  "int \<Rightarrow> string \<Rightarrow> method_info \<Rightarrow> rpc_options \<Rightarrow> bytes \<Rightarrow> string list \<Rightarrow> bytes result \<times> string list" where
  "mq_service k service m opt bs s = (if mi_name m = ''Send''
     then dispatch ''pgapp.v1.MQService'' (unaryMethod ''Send'' ''pgapp.v1.SendMessageRequest'' ''pgapp.v1.SendMessageResponse'')
       (SendMessageRequest_internalBinaryRead proto_R RU_true) (SendMessageResponse_internalBinaryWrite proto_W WU_true)
       (sends k) service m opt bs s
     else dispatch ''pgapp.v1.MQService'' (unaryMethod ''Ack'' ''pgapp.v1.AckMessageRequest'' ''pgapp.v1.OperationResult'')
       (AckMessageRequest_internalBinaryRead proto_R RU_true) (OperationResult_internalBinaryWrite proto_W WU_true)
       acks service m opt bs s)"

lemma mq_service_serves:
  "serves_MQService_Send (proto_env (mq_service k) ss) (sends k)" "serves_MQService_Ack (proto_env (mq_service k) ss) acks"
  by (simp_all add: serves_def mq_service_def dispatch_def)

theorem sent_message_is_acked_witness:
  "\<exists>messageId. MQClient_sendJson (proto_client (mq_service 17) no_stream) ''orders'' JNull (Some (IntNum 0)) [] =
      (Some (Inr messageId), [''sent'']) \<and>
    MQClient_ack (proto_client (mq_service 17) no_stream) ''orders'' messageId ''tok'' [''sent''] =
      (Some (Inr (OperationResult_success \<lparr>unknownFields = [], OperationResult_success = True\<rparr>)), [''sent'', dec 17])"
proof -
  let ?sent = "\<lparr>unknownFields = [], SendMessageResponse_messageId = dec 17\<rparr>"
  let ?areq = "\<lparr>unknownFields = [], AckMessageRequest_queueName = ''orders'',
      AckMessageRequest_messageId = dec 17, AckMessageRequest_ackToken = ''tok''\<rparr>"
  let ?sreq = "\<lparr>unknownFields = [], SendMessageRequest_queueName = ''orders'',
      SendMessageRequest_jsonPayload = stringify JNull, SendMessageRequest_delaySeconds = dec 0\<rparr>"
  have sizes: "length (SendMessageRequest_encode proto_E ?sreq) < 2147483648"
    "length (AckMessageRequest_encode proto_E ?areq) < 2147483648"
    "length (SendMessageResponse_encode proto_E ?sent) < 2147483648"
    unfolding SendMessageRequest_encode_def AckMessageRequest_encode_def SendMessageResponse_encode_def
    by (rule le_less_trans, (rule wire_size)+, simp)+
  from sizes(3) have x: "transmissible (SendMessageResponse_ok p_payload) (SendMessageResponse_encode proto_E) ?sent"
    by (simp add: transmissible_def SendMessageResponse_ok_def unknown_ok_def int64_ok_def)
  have y: "transmissible (OperationResult_ok p_payload) (OperationResult_encode proto_E)
      \<lparr>unknownFields = [], OperationResult_success = True\<rparr>"
    using deliverable_proto [of "\<lparr>unknownFields = [], OperationResult_success = True\<rparr>"]
    by (simp add: OperationResult_ok_def unknown_ok_def)
  show ?thesis
    by (rule sent_message_is_acked [OF proto_client_link _ _ _ _ refl sizes(1) refl _ _ x refl sizes(2) _ y,
          where hs = "sends 17" and ha = acks])
      (simp_all add: mq_service_serves [simplified] sends_def acks_def)
qed

text \<open>
  C34. An id beyond \<open>2^53\<close> need not survive the SDK, whose ids are doubles. For every id \<open>k\<close> the
  service assigns between \<open>2^53\<close> and \<open>2^54 - 1\<close>, over any transport, the number \<open>sendJson\<close>
  returns, passed to \<open>ack\<close>, reaches the service as the nearest even number, so that every odd id is
  acknowledged under the id of a neighbour and every even id under its own.
\<close>

theorem large_id_names_another_message:
  fixes this :: "('w, 'r, 's) PGAppClient"
  assumes "rpc_link (pc_transport this) E st rest skippable"
    and "serves_MQService_Send (pc_transport this) hs" "serves_MQService_Ack (pc_transport this) ha"
    and "safe_int delay" "9007199254740992 \<le> k" "k < 18014398509481983"
    and "sreq = \<lparr>unknownFields = [], SendMessageRequest_queueName = queue,
      SendMessageRequest_jsonPayload = stringify v, SendMessageRequest_delaySeconds = dec delay\<rparr>"
    and "length (SendMessageRequest_encode E sreq) < 2147483648"
    and "opt = env_mergeOptions (pc_transport this) (rpcOptions this)"
    and "hs opt sreq s = (Inr sent, s1)" "SendMessageResponse_messageId sent = dec k"
    and "transmissible (SendMessageResponse_ok skippable) (SendMessageResponse_encode E) sent"
    and "areq = \<lparr>unknownFields = [], AckMessageRequest_queueName = queue,
      AckMessageRequest_messageId = dec (to_double k), AckMessageRequest_ackToken = token\<rparr>"
    and "length (AckMessageRequest_encode E areq) < 2147483648"
    and "ha opt areq s1 = (Inr done, s2)"
    and "transmissible (OperationResult_ok skippable) (OperationResult_encode E) done"
  shows "(\<exists>messageId. MQClient_sendJson this queue v (Some (IntNum delay)) s = (Some (Inr messageId), s1) \<and>
      MQClient_ack this queue messageId token s1 = (Some (Inr (OperationResult_success done)), s2)) \<and>
    (to_double k = k \<longleftrightarrow> even k) \<and> \<bar>to_double k - k\<bar> \<le> 1"
proof -
  note d = to_double_even_range [OF assms(5,6)]
  have number: "js_Number (dec k) = IntNum (to_double k)" using assms(5,6) by (simp add: js_Number_dec64)
  have sent: "MQClient_sendJson this queue v (Some (IntNum delay)) s = (Some (Inr (IntNum (to_double k))), s1)"
    using MQClient_sendJson_call [OF assms(1,2), where queueName = queue and payload = v and s = s
        and delaySeconds = "Some (IntNum delay)"] assms number
    by (simp add: Let_def SendMessageRequest_create_def)
  have printed: "js_String (IntNum (to_double k)) = dec (to_double k)" by (rule js_String_even [OF d(1-3)])
  have "transmissible (AckMessageRequest_ok skippable) (AckMessageRequest_encode E) areq"
    using assms(13,14) d(1,2) by (simp add: transmissible_def AckMessageRequest_ok_def unknown_ok_def int64_ok_def)
  then have "MQServiceClient_ack (pc_transport this) areq (rpcOptions this) s1 = (Some (Inr done), s2)"
    using rpc_link.MQServiceClient_ack_call [OF assms(1,3), of areq "rpcOptions this" s1] assms(9,15,16) by simp
  then have "MQClient_ack this queue (IntNum (to_double k)) token s1 = (Some (Inr (OperationResult_success done)), s2)"
    using assms(13) by (simp add: MQClient_ack_def AckMessageRequest_create_def printed)
  with sent d(4,5) show ?thesis by blast
qed

theorem large_id_names_another_message_witness:
  "\<exists>messageId. MQClient_sendJson (proto_client (mq_service 9007199254740993) no_stream) ''orders'' JNull (Some (IntNum 0)) [] =
      (Some (Inr messageId), [''sent'']) \<and>
    MQClient_ack (proto_client (mq_service 9007199254740993) no_stream) ''orders'' messageId ''tok'' [''sent''] =
      (Some (Inr True), [''sent'', dec 9007199254740992])"
proof -
  let ?sent = "\<lparr>unknownFields = [], SendMessageResponse_messageId = dec 9007199254740993\<rparr>"
  let ?ok = "\<lparr>unknownFields = [], OperationResult_success = True\<rparr>"
  let ?sreq = "\<lparr>unknownFields = [], SendMessageRequest_queueName = ''orders'',
      SendMessageRequest_jsonPayload = stringify JNull, SendMessageRequest_delaySeconds = dec 0\<rparr>"
  let ?areq = "\<lparr>unknownFields = [], AckMessageRequest_queueName = ''orders'',
      AckMessageRequest_messageId = dec (to_double 9007199254740993), AckMessageRequest_ackToken = ''tok''\<rparr>"
  have d: "to_double 9007199254740993 = 9007199254740992" by code_simp
  have sizes: "length (SendMessageRequest_encode proto_E ?sreq) < 2147483648"
    "length (AckMessageRequest_encode proto_E ?areq) < 2147483648"
    "length (SendMessageResponse_encode proto_E ?sent) < 2147483648"
    unfolding SendMessageRequest_encode_def AckMessageRequest_encode_def SendMessageResponse_encode_def
    by (rule le_less_trans, (rule wire_size)+, simp)+
  from sizes(3) have x: "transmissible (SendMessageResponse_ok p_payload) (SendMessageResponse_encode proto_E) ?sent"
    by (simp add: transmissible_def SendMessageResponse_ok_def unknown_ok_def int64_ok_def)
  have y: "transmissible (OperationResult_ok p_payload) (OperationResult_encode proto_E) ?ok"
    using deliverable_proto [of ?ok] by (simp add: OperationResult_ok_def unknown_ok_def)
  have "(\<exists>messageId. MQClient_sendJson (proto_client (mq_service 9007199254740993) no_stream) ''orders'' JNull (Some (IntNum 0)) [] =
        (Some (Inr messageId), [''sent'']) \<and>
      MQClient_ack (proto_client (mq_service 9007199254740993) no_stream) ''orders'' messageId ''tok'' [''sent''] =
        (Some (Inr (OperationResult_success ?ok)), [''sent'', dec (to_double 9007199254740993)])) \<and>
    (to_double 9007199254740993 = 9007199254740993 \<longleftrightarrow> even (9007199254740993 :: int)) \<and>
    \<bar>to_double 9007199254740993 - 9007199254740993\<bar> \<le> 1"
    by (rule large_id_names_another_message [OF proto_client_link _ _ _ _ _ refl sizes(1) refl _ _ x refl sizes(2) _ y,
          where hs = "sends 9007199254740993" and ha = acks])
      (simp_all add: mq_service_serves [simplified] sends_def acks_def)
  then show ?thesis by (simp add: d)
qed

text \<open>
  A time to live that is no 64-bit integer is refused before anything is sent: the caller
  gets an error and the service is not called.
\<close>

lemma seqW_fails:
  assumes "\<And>w. \<exists>e. f w = Inl e"
  shows "\<exists>e. seqW (fs @ f # gs) w = Inl e"
proof (induction fs arbitrary: w)
  case Nil
  from assms [of w] show ?case by auto
next
  case (Cons a fs)
  then show ?case by (cases "a w") auto
qed

theorem unsendable_ttl_is_refused:
  fixes this :: "('w, 'r, 's) PGAppClient"
  assumes "rpc_link (pc_transport this) E st rest skippable" "js_String ttl = dec v" "\<not> in_int64 v"
  shows "\<exists>e. CacheClient_set this ns key content (Some ttl) s = (Some (Inl (throwFrom e)), s)"
proof -
  let ?W = "env_W (pc_transport this)"
  let ?m = "SetCacheRequest_create\<lparr>SetCacheRequest_namespace := ns, SetCacheRequest_key := key,
      SetCacheRequest_value := encodeBytes content, SetCacheRequest_ttlSeconds := dec v\<rparr>"
  have "wire_writer ?W E st" using assms(1) by (simp add: rpc_link_def wire_runtime_def)
  from wire_writer.int64_range [OF this assms(3)]
  have w: "\<exists>e. whenW (dec v \<noteq> ''0'') (tagInt64 ?W 4 (dec v)) w = Inl e" for w
    using assms(3) by (auto simp: whenW_def tagInt64_def)
  have "\<exists>e. SetCacheRequest_internalBinaryWrite ?W WU_true ?m w = Inl e" for w
    using seqW_fails [OF w, where fs = "[whenW (ns \<noteq> []) (tagString ?W 1 ns), whenW (key \<noteq> []) (tagString ?W 2 key),
          whenW (encodeBytes content \<noteq> []) (tagBytes ?W 3 (encodeBytes content))]"
        and gs = "[writeUnknown ?W WU_true ''pgapp.v1.SetCacheRequest'' ?m]"]
    by (simp add: SetCacheRequest_internalBinaryWrite_def)
  then obtain e where "toBinary ?W (SetCacheRequest_internalBinaryWrite ?W WU_true ?m) = Inl e"
    unfolding toBinary_def by (metis bindE_simps(1))
  then have "CacheServiceClient_set (pc_transport this) ?m (rpcOptions this) s = (Some (Inl e), s)"
    by (simp add: CacheServiceClient_set_def stackIntercept_unary_def)
  then show ?thesis using assms(2) by (auto simp: CacheClient_set_def)
qed

theorem unsendable_ttl_is_refused_witness:
  "\<exists>e. CacheClient_set (proto_client (mq_service 17) no_stream) ''n'' ''k'' (Text ''v'') (Some (IntNum 9223372036854775808)) [] =
     (Some (Inl (throwFrom e)), [])"
proof (rule unsendable_ttl_is_refused [OF proto_client_link])
  show "js_String (IntNum 9223372036854775808) = dec 9223372036854776000" by code_simp
qed simp

text \<open>
  Calls return whatever the service sends back, malformed bytes included, since the reader
  only moves forward: reading a key, reading a queue, watching a scope and running a stream to
  its end.
\<close>

theorem calls_return:
  fixes this :: "('w, 'r, 's) PGAppClient"
  assumes "wire_progress (env_R (pc_transport this))"
  shows "(\<exists>y. fst (CacheClient_get this ns key s) = Some y) \<and>
    (\<exists>y. fst (MQClient_read this queue quantity timeout s) = Some y) \<and>
    (\<exists>y. fst (ConfigClient_watch this scope knownRevision timeoutSeconds s) = Some y) \<and>
    (\<exists>y. fst (MQClient_streamRead this queue options s) = Some y)"
proof -
  note unary = wire_progress.unary_returns [OF assms _ refl]
  have wrapped: "\<exists>y. fst (wrap (answer call f)) = Some y" if "\<exists>y. fst call = Some y"
    for call :: "'o comp \<times> 's" and f :: "'o \<Rightarrow> 'a result"
    using that by (auto simp: wrap_def answer_def bindC_def split: sum.splits)
  have "\<exists>y. fst (CacheClient_get this ns key s) = Some y"
    unfolding CacheClient_get_def CacheServiceClient_get_def
    by (intro wrapped unary wire_progress.GetCacheResponse_returns assms)
  moreover have "\<exists>y. fst (MQClient_read this queue quantity timeout s) = Some y"
    unfolding MQClient_read_def MQServiceClient_read_def
    by (intro wrapped unary wire_progress.ReadMessagesResponse_returns assms)
  moreover have "\<exists>y. fst (ConfigClient_watch this scope knownRevision timeoutSeconds s) = Some y"
    unfolding ConfigClient_watch_def ConfigServiceClient_watch_def
    by (intro wrapped unary wire_progress.WatchConfigResponse_returns assms)
  moreover have "\<exists>y. fst (MQClient_streamRead this queue options s) = Some y"
    using wire_progress.stream_returns [OF assms wire_progress.ReadMessagesResponse_returns [OF assms] refl]
    unfolding MQClient_streamRead_def MQServiceClient_streamRead_def yieldMessages_def Let_def by fastforce
  ultimately show ?thesis by blast
qed

theorem calls_return_witness:
  "(\<exists>y. fst (CacheClient_get (proto_client (mq_service 17) no_stream) ''n'' ''k'' []) = Some y) \<and>
   (\<exists>y. fst (MQClient_read (proto_client (mq_service 17) no_stream) ''q'' None None []) = Some y) \<and>
   (\<exists>y. fst (ConfigClient_watch (proto_client (mq_service 17) no_stream) ConfigScope_create (IntNum 0) (IntNum 5) []) = Some y) \<and>
   (\<exists>y. fst (MQClient_streamRead (proto_client (mq_service 17) no_stream) ''q'' None []) = Some y)"
  by (rule calls_return) (simp add: proto_p.wire_progress_axioms)


section \<open>The configuration client over the wire\<close>

text \<open>
  \<open>ConfigClient.getRelease\<close> returns the release the service has for the scope and revision,
  with the published configuration parsed back to the value that was published.
\<close>

theorem get_release_returns_snapshot:
  fixes this :: "('w, 'r, 's) PGAppClient"
  assumes "rpc_link (pc_transport this) E st rest skippable" "serves_ConfigService_GetRelease (pc_transport this) h"
    and "safe_int revision" "json_ok v" "safe_int k"
    and "req = \<lparr>unknownFields = [], GetConfigReleaseRequest_scope = Some (copyScope scope),
      GetConfigReleaseRequest_revision = dec revision\<rparr>"
    and "length (GetConfigReleaseRequest_encode E req) < 2147483648"
    and "h (env_mergeOptions (pc_transport this) (rpcOptions this)) req s = (Inr rel, s')"
    and "ConfigRelease_snapshotJson rel = stringify v" "ConfigRelease_revision rel = dec k"
    and "transmissible (ConfigRelease_ok skippable) (ConfigRelease_encode E) rel"
  shows "ConfigClient_getRelease this scope (IntNum revision) s =
    (Some (Inr \<lparr>rs_scope = ConfigRelease_scope rel, rs_revision = IntNum k, rs_checksum = ConfigRelease_checksum rel,
       rs_snapshot = v, rs_message = ConfigRelease_message rel, rs_publishedBy = ConfigRelease_publishedBy rel,
       rs_publishedAt = ConfigRelease_publishedAt rel\<rparr>), s')"
proof -
  have "stringify v \<noteq> []" using stringify_start [OF assms(4)] by fastforce
  then have "releaseSnapshot rel = Inr \<lparr>rs_scope = ConfigRelease_scope rel, rs_revision = IntNum k,
       rs_checksum = ConfigRelease_checksum rel, rs_snapshot = v, rs_message = ConfigRelease_message rel,
       rs_publishedBy = ConfigRelease_publishedBy rel, rs_publishedAt = ConfigRelease_publishedAt rel\<rparr>"
    using assms(4,5,9,10) by (simp add: releaseSnapshot_def JSON_parse_stringify js_Number_safe)
  then show ?thesis
    using ConfigClient_getRelease_call [OF assms(1,2), where scope = scope and revision = "IntNum revision"
        and s = s] assms(3-)
    by (simp add: Let_def GetConfigReleaseRequest_create_def)
qed

definition release_example :: ConfigRelease where
  "release_example = ConfigRelease_create\<lparr>ConfigRelease_revision := dec 4,
     ConfigRelease_snapshotJson := stringify order_json\<rparr>"

theorem get_release_returns_snapshot_witness:
  "ConfigClient_getRelease (proto_client (dispatch ''pgapp.v1.ConfigService''
        (unaryMethod ''GetRelease'' ''pgapp.v1.GetConfigReleaseRequest'' ''pgapp.v1.ConfigRelease'')
        (GetConfigReleaseRequest_internalBinaryRead proto_R RU_true) (ConfigRelease_internalBinaryWrite proto_W WU_true)
        (answers release_example)) no_stream) ConfigScope_create (IntNum 4) [] =
    (Some (Inr \<lparr>rs_scope = None, rs_revision = IntNum 4, rs_checksum = [], rs_snapshot = order_json,
       rs_message = [], rs_publishedBy = [], rs_publishedAt = []\<rparr>),
     [\<lparr>unknownFields = [], GetConfigReleaseRequest_scope = Some (copyScope ConfigScope_create),
       GetConfigReleaseRequest_revision = dec 4\<rparr>])"
  (is "_ = (_, [?req])")
proof -
  have j: "json_ok order_json" and len: "length (stringify order_json) = 39" by code_simp+
  have small: "length (GetConfigReleaseRequest_encode proto_E ?req) < 2147483648"
    unfolding GetConfigReleaseRequest_encode_def ConfigScope_encode_def
    by (rule le_less_trans, (rule wire_size)+) (simp add: copyScope_def ConfigScope_create_def)
  have "length (ConfigRelease_encode proto_E release_example) < 2147483648"
    unfolding ConfigRelease_encode_def ConfigScope_encode_def
    by (rule le_less_trans, (rule wire_size)+) (simp add: release_example_def ConfigRelease_create_def len)
  then have x: "transmissible (ConfigRelease_ok p_payload) (ConfigRelease_encode proto_E) release_example"
    by (simp add: transmissible_def ConfigRelease_ok_def unknown_ok_def int64_ok_def release_example_def
        ConfigRelease_create_def)
  show ?thesis
    by (rule trans [OF get_release_returns_snapshot [OF proto_client_link _ _ j _ refl small _ _ _ x,
            where h = "answers release_example" and k = 4 and s = "[]" and s' = "[?req]"]])
      (simp_all add: dispatch_serves [simplified] answers_def release_example_def ConfigRelease_create_def)
qed

text \<open>
  \<open>getLatestRelease\<close> asks for revision 0, and a release without a snapshot is an empty object.
\<close>

theorem latest_release_of_empty_snapshot:
  fixes this :: "('w, 'r, 's) PGAppClient"
  assumes "rpc_link (pc_transport this) E st rest skippable" "serves_ConfigService_GetRelease (pc_transport this) h"
    and "req = \<lparr>unknownFields = [], GetConfigReleaseRequest_scope = Some (copyScope scope),
      GetConfigReleaseRequest_revision = ''0''\<rparr>"
    and "length (GetConfigReleaseRequest_encode E req) < 2147483648"
    and "h (env_mergeOptions (pc_transport this) (rpcOptions this)) req s = (Inr rel, s')"
    and "ConfigRelease_snapshotJson rel = []"
    and "transmissible (ConfigRelease_ok skippable) (ConfigRelease_encode E) rel"
  shows "\<exists>r. ConfigClient_getLatestRelease this scope s = (Some (Inr r), s') \<and> rs_snapshot r = JObj []"
proof -
  have "JSON_parse ''{}'' = Inr (JObj [])" by code_simp
  then obtain r where "releaseSnapshot rel = Inr r" "rs_snapshot r = JObj []"
    using assms(6) by (simp add: releaseSnapshot_def)
  then show ?thesis
    using ConfigClient_getRelease_call [OF assms(1,2), where scope = scope and revision = "IntNum 0"
        and s = s] assms(3-)
    by (simp add: Let_def GetConfigReleaseRequest_create_def ConfigClient_getLatestRelease_def)
qed

theorem latest_release_of_empty_snapshot_witness:
  "\<exists>r. ConfigClient_getLatestRelease (proto_client (dispatch ''pgapp.v1.ConfigService''
        (unaryMethod ''GetRelease'' ''pgapp.v1.GetConfigReleaseRequest'' ''pgapp.v1.ConfigRelease'')
        (GetConfigReleaseRequest_internalBinaryRead proto_R RU_true) (ConfigRelease_internalBinaryWrite proto_W WU_true)
        (answers ConfigRelease_create)) no_stream) ConfigScope_create [] =
      (Some (Inr r), [\<lparr>unknownFields = [], GetConfigReleaseRequest_scope = Some (copyScope ConfigScope_create),
       GetConfigReleaseRequest_revision = ''0''\<rparr>]) \<and> rs_snapshot r = JObj []"
  (is "\<exists>r. _ = (_, [?req]) \<and> _")
proof -
  have small: "length (GetConfigReleaseRequest_encode proto_E ?req) < 2147483648"
    unfolding GetConfigReleaseRequest_encode_def ConfigScope_encode_def
    by (rule le_less_trans, (rule wire_size)+) (simp add: copyScope_def ConfigScope_create_def)
  have "length (ConfigRelease_encode proto_E ConfigRelease_create) < 2147483648"
    unfolding ConfigRelease_encode_def ConfigScope_encode_def
    by (rule le_less_trans, (rule wire_size)+) (simp add: ConfigRelease_create_def)
  moreover have "int64_ok ''0''" by code_simp
  ultimately have x: "transmissible (ConfigRelease_ok p_payload) (ConfigRelease_encode proto_E) ConfigRelease_create"
    by (simp add: transmissible_def ConfigRelease_ok_def unknown_ok_def ConfigRelease_create_def)
  show ?thesis
    by (rule latest_release_of_empty_snapshot [OF proto_client_link _ refl small _ _ x,
          where h = "answers ConfigRelease_create"])
      (simp_all add: dispatch_serves [simplified] answers_def ConfigRelease_create_def)
qed

text \<open>
  A watch answer keeps the change flag, the revision and the release apart: without a
  release the result has none; with one that is not JSON the watch throws a \<open>PGAppError\<close>, whatever
  the other fields say.
\<close>

theorem watch_reports_release:
  fixes this :: "('w, 'r, 's) PGAppClient"
  assumes "rpc_link (pc_transport this) E st rest skippable" "serves_ConfigService_Watch (pc_transport this) h"
    and "safe_int known" "safe_int timeout" "safe_int k"
    and "req = \<lparr>unknownFields = [], WatchConfigRequest_scope = Some (copyScope scope),
      WatchConfigRequest_knownRevision = dec known, WatchConfigRequest_timeoutSeconds = dec timeout\<rparr>"
    and "length (WatchConfigRequest_encode E req) < 2147483648"
    and "h (env_mergeOptions (pc_transport this) (rpcOptions this)) req s = (Inr found, s')"
    and "WatchConfigResponse_latestRevision found = dec k"
    and "transmissible (WatchConfigResponse_ok skippable) (WatchConfigResponse_encode E) found"
  shows "case WatchConfigResponse_release found of
      None \<Rightarrow> ConfigClient_watch this scope (IntNum known) (IntNum timeout) s =
        (Some (Inr \<lparr>wr_changed = WatchConfigResponse_changed found, wr_latestRevision = IntNum k, wr_release = None\<rparr>), s')
    | Some rel \<Rightarrow> (case releaseSnapshot rel of
        Inr r \<Rightarrow> ConfigClient_watch this scope (IntNum known) (IntNum timeout) s =
          (Some (Inr \<lparr>wr_changed = WatchConfigResponse_changed found, wr_latestRevision = IntNum k, wr_release = Some r\<rparr>), s')
      | Inl e \<Rightarrow> ConfigClient_watch this scope (IntNum known) (IntNum timeout) s = (Some (Inl (throwFrom e)), s') \<and>
          is_PGAppError (throwFrom e))"
proof -
  have call: "ConfigClient_watch this scope (IntNum known) (IntNum timeout) s = (Some (converted (watchResult found)), s')"
    using ConfigClient_watch_call [OF assms(1,2), where scope = scope and knownRevision = "IntNum known"
        and timeoutSeconds = "IntNum timeout" and s = s] assms(3-)
    by (simp add: Let_def WatchConfigRequest_create_def)
  have parse: "JSON_parse t = Inl e \<Longrightarrow> e = syntax_error" for t e
    by (auto simp: JSON_parse_def split: option.splits if_splits)
  show ?thesis
  proof (cases "WatchConfigResponse_release found")
    case None
    with call assms(5,9) show ?thesis by (simp add: watchResult_def js_Number_safe)
  next
    case (Some rel)
    show ?thesis
    proof (cases "releaseSnapshot rel")
      case (Inl e)
      then have "e = syntax_error"
        by (cases "JSON_parse (ConfigRelease_snapshotJson rel)"; cases "JSON_parse ''{}''")
          (auto simp: releaseSnapshot_def dest!: parse split: if_splits)
      then have "is_PGAppError (throwFrom e)" by (simp add: throwFrom_cases nullish_def syntax_error_def)
      with Inl Some call show ?thesis by (simp add: watchResult_def)
    next
      case (Inr r)
      with Some call assms(5,9) show ?thesis by (simp add: watchResult_def js_Number_safe)
    qed
  qed
qed

definition watch_quiet :: WatchConfigResponse where
  "watch_quiet = WatchConfigResponse_create\<lparr>WatchConfigResponse_latestRevision := dec 3\<rparr>"

theorem watch_reports_release_witness:
  "ConfigClient_watch (proto_client (dispatch ''pgapp.v1.ConfigService''
        (unaryMethod ''Watch'' ''pgapp.v1.WatchConfigRequest'' ''pgapp.v1.WatchConfigResponse'')
        (WatchConfigRequest_internalBinaryRead proto_R RU_true) (WatchConfigResponse_internalBinaryWrite proto_W WU_true)
        (answers watch_quiet)) no_stream) ConfigScope_create (IntNum 3) (IntNum 30) [] =
    (Some (Inr \<lparr>wr_changed = False, wr_latestRevision = IntNum 3, wr_release = None\<rparr>),
     [\<lparr>unknownFields = [], WatchConfigRequest_scope = Some (copyScope ConfigScope_create),
       WatchConfigRequest_knownRevision = dec 3, WatchConfigRequest_timeoutSeconds = dec 30\<rparr>])"
  (is "_ = (_, [?req])")
proof -
  have small: "length (WatchConfigRequest_encode proto_E ?req) < 2147483648"
    unfolding WatchConfigRequest_encode_def ConfigScope_encode_def
    by (rule le_less_trans, (rule wire_size)+) (simp add: copyScope_def ConfigScope_create_def)
  have "length (WatchConfigResponse_encode proto_E watch_quiet) < 2147483648"
    unfolding WatchConfigResponse_encode_def ConfigRelease_encode_def ConfigScope_encode_def
    by (rule le_less_trans, (rule wire_size)+) (simp add: watch_quiet_def WatchConfigResponse_create_def)
  then have x: "transmissible (WatchConfigResponse_ok p_payload) (WatchConfigResponse_encode proto_E) watch_quiet"
    by (simp add: transmissible_def WatchConfigResponse_ok_def unknown_ok_def int64_ok_def watch_quiet_def
        WatchConfigResponse_create_def)
  have "serves_ConfigService_Watch (pc_transport (proto_client (dispatch ''pgapp.v1.ConfigService''
        (unaryMethod ''Watch'' ''pgapp.v1.WatchConfigRequest'' ''pgapp.v1.WatchConfigResponse'')
        (WatchConfigRequest_internalBinaryRead proto_R RU_true) (WatchConfigResponse_internalBinaryWrite proto_W WU_true)
        (answers watch_quiet)) no_stream)) (answers watch_quiet)"
    using dispatch_serves by simp
  from watch_reports_release [OF proto_client_link this _ _ _ refl small _ _ x, where k = 3 and s = "[]" and s' = "[?req]"]
  show ?thesis by (simp add: answers_def watch_quiet_def WatchConfigResponse_create_def)
qed


section \<open>Errors and metadata\<close>

text \<open>
  What \<open>PGAppError.from\<close> is to make of an error: a \<open>PGAppError\<close> with the message and the code of an
  error that has a message, else with the text of what was thrown.
\<close>

definition keeps_error :: "err_obj \<Rightarrow> thrown \<Rightarrow> bool" where
  "keeps_error err e = (case e of Nullish _ \<Rightarrow> False
     | Thrown pe \<Rightarrow> eo_name pe = ''PGAppError'' \<and> eo_isError pe \<and> (case eo_message err of
         Some m \<Rightarrow> eo_message pe = Some m \<and> eo_code pe = eo_code err
       | None \<Rightarrow> eo_message pe = Some (if eo_isError err then [] else eo_string err) \<and> eo_code pe = None))"

text \<open>
  \<open>converts call m\<close>: the outcome \<open>m\<close> of a method against the outcome of the call of the generated
  client in it. It leaves the other side in the same state, returns when the call returns, keeps an
  error in a \<open>PGAppError\<close>, and what it makes of an answer is a value or again a \<open>PGAppError\<close>. A
  thrown \<open>null\<close> or \<open>undefined\<close> becomes a \<open>TypeError\<close>.
\<close>

definition converts :: "'o comp \<times> 's \<Rightarrow> 'a comp \<times> 's \<Rightarrow> bool" where
  "converts call m \<longleftrightarrow> snd m = snd call \<and> (case fst call of
       None \<Rightarrow> fst m = None
     | Some (Inl (Nullish t)) \<Rightarrow> fst m = Some (Inl (type_error t))
     | Some (Inl (Thrown err)) \<Rightarrow> (\<exists>e. fst m = Some (Inl e) \<and> keeps_error err e)
     | Some (Inr _) \<Rightarrow> (\<exists>v. fst m = Some (Inr v)) \<or> (\<exists>e. fst m = Some (Inl e) \<and> is_PGAppError e))"

definition ends_converted :: "('o list \<times> thrown option) option \<times> 's \<Rightarrow> ('a list \<times> thrown option) option \<times> 's \<Rightarrow> bool" where
  "ends_converted call m \<longleftrightarrow> snd m = snd call \<and> (case fst call of
       None \<Rightarrow> fst m = None
     | Some (_, None) \<Rightarrow> (\<exists>vs. fst m = Some (vs, None))
     | Some (_, Some (Nullish t)) \<Rightarrow> (\<exists>vs. fst m = Some (vs, Some (type_error t)))
     | Some (_, Some (Thrown err)) \<Rightarrow> (\<exists>vs e. fst m = Some (vs, Some e) \<and> keeps_error err e))"

lemma throwFrom_keeps: "keeps_error err (throwFrom (Thrown err))"
  by (simp add: keeps_error_def throwFrom_def PGAppError_from_def PGAppError_def split: option.split)

lemma throwFrom_Nullish: "throwFrom (Nullish t) = type_error t"
  by (simp add: throwFrom_def PGAppError_from_def)

lemma wrap_converts:
  assumes "\<And>x e. f x = Inl e \<Longrightarrow> \<not> nullish e"
  shows "converts call (wrap (answer call f))"
proof -
  obtain out s where call: "call = (out, s)" by (cases call)
  show ?thesis
  proof (cases out)
    case None
    then show ?thesis by (simp add: call converts_def)
  next
    case (Some x)
    show ?thesis
    proof (cases x)
      case (Inl err)
      then show ?thesis using Some
        by (cases err) (simp_all add: call converts_def throwFrom_keeps throwFrom_Nullish)
    next
      case (Inr y)
      then show ?thesis using Some assms [of y]
        by (cases "f y") (simp_all add: call converts_def throwFrom_cases)
    qed
  qed
qed

lemma yieldMessages_converts: "ends_converted call (yieldMessages call)"
  by (cases call; cases "fst call")
    (auto simp: ends_converted_def yieldMessages_def throwFrom_keeps throwFrom_Nullish split: option.split thrown.split)

lemma JSON_parse_error: "JSON_parse t = Inl e \<Longrightarrow> \<not> nullish e"
  by (auto simp: JSON_parse_def syntax_error_def nullish_def split: option.splits if_splits)

lemma releaseSnapshot_error: "releaseSnapshot rel = Inl e \<Longrightarrow> \<not> nullish e"
  by (cases "JSON_parse (if ConfigRelease_snapshotJson rel = [] then ''{}'' else ConfigRelease_snapshotJson rel)")
    (auto simp: releaseSnapshot_def dest: JSON_parse_error)

lemma watchResult_error: "watchResult response = Inl e \<Longrightarrow> \<not> nullish e"
  by (cases "WatchConfigResponse_release response"; cases "releaseSnapshot (the (WatchConfigResponse_release response))")
    (auto simp: watchResult_def dest: releaseSnapshot_error)

lemma cache_methods_convert:
  "(\<exists>req. converts (CacheServiceClient_set (pc_transport this) req (rpcOptions this) s)
      (CacheClient_set this ns key content ttl s)) \<and>
   (\<exists>req. converts (CacheServiceClient_get (pc_transport this) req (rpcOptions this) s)
      (CacheClient_get this ns key s)) \<and>
   (\<exists>req. converts (CacheServiceClient_mGet (pc_transport this) req (rpcOptions this) s)
      (CacheClient_mget this ns keys s)) \<and>
   (\<exists>req. converts (CacheServiceClient_delete (pc_transport this) req (rpcOptions this) s)
      (CacheClient_delete this ns key s)) \<and>
   (\<exists>req. converts (CacheServiceClient_exists (pc_transport this) req (rpcOptions this) s)
      (CacheClient_exists this ns key s)) \<and>
   (\<exists>req. converts (CacheServiceClient_invalidateNamespace (pc_transport this) req (rpcOptions this) s)
      (CacheClient_invalidateNamespace this ns s)) \<and>
   (\<exists>req. converts (CacheServiceClient_stats (pc_transport this) req (rpcOptions this) s)
      (CacheClient_stats this s)) \<and>
   (\<exists>req. converts (CacheServiceClient_increment (pc_transport this) req (rpcOptions this) s)
      (CacheClient_increment this ns key delta ttl s)) \<and>
   (\<exists>req. converts (CacheServiceClient_decrement (pc_transport this) req (rpcOptions this) s)
      (CacheClient_decrement this ns key delta ttl s)) \<and>
   (\<exists>req. converts (CacheServiceClient_setNX (pc_transport this) req (rpcOptions this) s)
      (CacheClient_setNX this ns key content ttl s)) \<and>
   (\<exists>req. converts (CacheServiceClient_getSet (pc_transport this) req (rpcOptions this) s)
      (CacheClient_getSet this ns key content ttl s)) \<and>
   (\<exists>req. converts (CacheServiceClient_append (pc_transport this) req (rpcOptions this) s)
      (CacheClient_append this ns key content ttl s)) \<and>
   (\<exists>req. converts (CacheServiceClient_prepend (pc_transport this) req (rpcOptions this) s)
      (CacheClient_prepend this ns key content ttl s))"
  unfolding CacheClient_set_def CacheClient_get_def CacheClient_mget_def CacheClient_delete_def CacheClient_exists_def CacheClient_invalidateNamespace_def CacheClient_stats_def CacheClient_increment_def CacheClient_decrement_def CacheClient_setNX_def CacheClient_getSet_def CacheClient_append_def CacheClient_prepend_def
  by (intro conjI; (rule exI, rule wrap_converts, simp))

lemma mq_methods_convert:
  "(\<exists>req. converts (MQServiceClient_createQueue (pc_transport this) req (rpcOptions this) s)
      (MQClient_createQueue this queue mode s)) \<and>
   (\<exists>req. converts (MQServiceClient_purgeQueue (pc_transport this) req (rpcOptions this) s)
      (MQClient_purgeQueue this queue s)) \<and>
   (\<exists>req. converts (MQServiceClient_dropQueue (pc_transport this) req (rpcOptions this) s)
      (MQClient_dropQueue this queue s)) \<and>
   (\<exists>req. converts (MQServiceClient_send (pc_transport this) req (rpcOptions this) s)
      (MQClient_sendJson this queue v delay s)) \<and>
   (\<exists>req. converts (MQServiceClient_sendBatch (pc_transport this) req (rpcOptions this) s)
      (MQClient_sendBatchJson this queue vs delay s)) \<and>
   (\<exists>req. converts (MQServiceClient_read (pc_transport this) req (rpcOptions this) s)
      (MQClient_read this queue quantity timeout s)) \<and>
   (\<exists>req. converts (MQServiceClient_readWithPoll (pc_transport this) req (rpcOptions this) s)
      (MQClient_readWithPoll this queue quantity timeout poll interval s)) \<and>
   (\<exists>req. converts (MQServiceClient_ack (pc_transport this) req (rpcOptions this) s)
      (MQClient_ack this queue i token s)) \<and>
   (\<exists>req. converts (MQServiceClient_archive (pc_transport this) req (rpcOptions this) s)
      (MQClient_archive this queue i token s)) \<and>
   (\<exists>req. converts (MQServiceClient_setVisibilityTimeout (pc_transport this) req (rpcOptions this) s)
      (MQClient_setVisibilityTimeout this queue i token seconds s)) \<and>
   (\<exists>req. converts (MQServiceClient_metrics (pc_transport this) req (rpcOptions this) s)
      (MQClient_metrics this queue s)) \<and>
   (\<exists>req. converts (MQServiceClient_listDlqMessages (pc_transport this) req (rpcOptions this) s)
      (MQClient_listDlqMessages this queue limit offset s)) \<and>
   (\<exists>req. converts (MQServiceClient_getDlqMessage (pc_transport this) req (rpcOptions this) s)
      (MQClient_getDlqMessage this queue i s)) \<and>
   (\<exists>req. converts (MQServiceClient_reprocessDlqMessage (pc_transport this) req (rpcOptions this) s)
      (MQClient_reprocessDlqMessage this queue i s)) \<and>
   (\<exists>req. converts (MQServiceClient_purgeDlq (pc_transport this) req (rpcOptions this) s)
      (MQClient_purgeDlq this queue s)) \<and>
   (\<exists>req. ends_converted (MQServiceClient_streamRead (pc_transport this) req (rpcOptions this) s)
      (MQClient_streamRead this queue options s))"
  unfolding MQClient_createQueue_def MQClient_purgeQueue_def MQClient_dropQueue_def MQClient_sendJson_def MQClient_sendBatchJson_def MQClient_read_def MQClient_readWithPoll_def MQClient_ack_def MQClient_archive_def MQClient_setVisibilityTimeout_def MQClient_metrics_def MQClient_listDlqMessages_def MQClient_getDlqMessage_def MQClient_reprocessDlqMessage_def MQClient_purgeDlq_def MQClient_streamRead_def Let_def
  by (intro conjI; (rule exI, (rule yieldMessages_converts | rule wrap_converts, simp)))

lemma config_methods_convert:
  "(\<exists>req. converts (ConfigServiceClient_getRelease (pc_transport this) req (rpcOptions this) s)
      (ConfigClient_getRelease this scope revision s)) \<and>
   (\<exists>req. converts (ConfigServiceClient_getRelease (pc_transport this) req (rpcOptions this) s)
      (ConfigClient_getLatestRelease this scope s)) \<and>
   (\<exists>req. converts (ConfigServiceClient_watch (pc_transport this) req (rpcOptions this) s)
      (ConfigClient_watch this scope revision seconds s))"
  unfolding ConfigClient_getLatestRelease_def ConfigClient_getRelease_def ConfigClient_watch_def
  by (intro conjI; (rule exI, rule wrap_converts, (erule releaseSnapshot_error | erule watchResult_error)))

text \<open>
  C35. Every method of the three clients, with any arguments and over any transport, passes on the
  failure of the call it makes as a \<open>PGAppError\<close> with the message and the code of what was thrown,
  throws nothing that is not a \<open>PGAppError\<close> where the call answers, and leaves the service in the
  state after the call; \<open>streamRead\<close> ends with the error its stream ends with, converted in the same
  way. Only a thrown \<open>null\<close> or \<open>undefined\<close> gives another error, a \<open>TypeError\<close>.
\<close>

theorem clients_throw_PGAppErrors:
  fixes this :: "('w, 'r, 's) PGAppClient"
  shows "((\<exists>req. converts (CacheServiceClient_set (pc_transport this) req (rpcOptions this) s)
      (CacheClient_set this ns key content ttl s)) \<and>
   (\<exists>req. converts (CacheServiceClient_get (pc_transport this) req (rpcOptions this) s)
      (CacheClient_get this ns key s)) \<and>
   (\<exists>req. converts (CacheServiceClient_mGet (pc_transport this) req (rpcOptions this) s)
      (CacheClient_mget this ns keys s)) \<and>
   (\<exists>req. converts (CacheServiceClient_delete (pc_transport this) req (rpcOptions this) s)
      (CacheClient_delete this ns key s)) \<and>
   (\<exists>req. converts (CacheServiceClient_exists (pc_transport this) req (rpcOptions this) s)
      (CacheClient_exists this ns key s)) \<and>
   (\<exists>req. converts (CacheServiceClient_invalidateNamespace (pc_transport this) req (rpcOptions this) s)
      (CacheClient_invalidateNamespace this ns s)) \<and>
   (\<exists>req. converts (CacheServiceClient_stats (pc_transport this) req (rpcOptions this) s)
      (CacheClient_stats this s)) \<and>
   (\<exists>req. converts (CacheServiceClient_increment (pc_transport this) req (rpcOptions this) s)
      (CacheClient_increment this ns key delta ttl s)) \<and>
   (\<exists>req. converts (CacheServiceClient_decrement (pc_transport this) req (rpcOptions this) s)
      (CacheClient_decrement this ns key delta ttl s)) \<and>
   (\<exists>req. converts (CacheServiceClient_setNX (pc_transport this) req (rpcOptions this) s)
      (CacheClient_setNX this ns key content ttl s)) \<and>
   (\<exists>req. converts (CacheServiceClient_getSet (pc_transport this) req (rpcOptions this) s)
      (CacheClient_getSet this ns key content ttl s)) \<and>
   (\<exists>req. converts (CacheServiceClient_append (pc_transport this) req (rpcOptions this) s)
      (CacheClient_append this ns key content ttl s)) \<and>
   (\<exists>req. converts (CacheServiceClient_prepend (pc_transport this) req (rpcOptions this) s)
      (CacheClient_prepend this ns key content ttl s))) \<and>
   ((\<exists>req. converts (MQServiceClient_createQueue (pc_transport this) req (rpcOptions this) s)
      (MQClient_createQueue this queue mode s)) \<and>
   (\<exists>req. converts (MQServiceClient_purgeQueue (pc_transport this) req (rpcOptions this) s)
      (MQClient_purgeQueue this queue s)) \<and>
   (\<exists>req. converts (MQServiceClient_dropQueue (pc_transport this) req (rpcOptions this) s)
      (MQClient_dropQueue this queue s)) \<and>
   (\<exists>req. converts (MQServiceClient_send (pc_transport this) req (rpcOptions this) s)
      (MQClient_sendJson this queue v delay s)) \<and>
   (\<exists>req. converts (MQServiceClient_sendBatch (pc_transport this) req (rpcOptions this) s)
      (MQClient_sendBatchJson this queue vs delay s)) \<and>
   (\<exists>req. converts (MQServiceClient_read (pc_transport this) req (rpcOptions this) s)
      (MQClient_read this queue quantity timeout s)) \<and>
   (\<exists>req. converts (MQServiceClient_readWithPoll (pc_transport this) req (rpcOptions this) s)
      (MQClient_readWithPoll this queue quantity timeout poll interval s)) \<and>
   (\<exists>req. converts (MQServiceClient_ack (pc_transport this) req (rpcOptions this) s)
      (MQClient_ack this queue i token s)) \<and>
   (\<exists>req. converts (MQServiceClient_archive (pc_transport this) req (rpcOptions this) s)
      (MQClient_archive this queue i token s)) \<and>
   (\<exists>req. converts (MQServiceClient_setVisibilityTimeout (pc_transport this) req (rpcOptions this) s)
      (MQClient_setVisibilityTimeout this queue i token seconds s)) \<and>
   (\<exists>req. converts (MQServiceClient_metrics (pc_transport this) req (rpcOptions this) s)
      (MQClient_metrics this queue s)) \<and>
   (\<exists>req. converts (MQServiceClient_listDlqMessages (pc_transport this) req (rpcOptions this) s)
      (MQClient_listDlqMessages this queue limit offset s)) \<and>
   (\<exists>req. converts (MQServiceClient_getDlqMessage (pc_transport this) req (rpcOptions this) s)
      (MQClient_getDlqMessage this queue i s)) \<and>
   (\<exists>req. converts (MQServiceClient_reprocessDlqMessage (pc_transport this) req (rpcOptions this) s)
      (MQClient_reprocessDlqMessage this queue i s)) \<and>
   (\<exists>req. converts (MQServiceClient_purgeDlq (pc_transport this) req (rpcOptions this) s)
      (MQClient_purgeDlq this queue s)) \<and>
   (\<exists>req. ends_converted (MQServiceClient_streamRead (pc_transport this) req (rpcOptions this) s)
      (MQClient_streamRead this queue options s))) \<and>
   ((\<exists>req. converts (ConfigServiceClient_getRelease (pc_transport this) req (rpcOptions this) s)
      (ConfigClient_getRelease this scope revision s)) \<and>
   (\<exists>req. converts (ConfigServiceClient_getRelease (pc_transport this) req (rpcOptions this) s)
      (ConfigClient_getLatestRelease this scope s)) \<and>
   (\<exists>req. converts (ConfigServiceClient_watch (pc_transport this) req (rpcOptions this) s)
      (ConfigClient_watch this scope revision seconds s)))"
  by (rule conjI [OF cache_methods_convert conjI [OF mq_methods_convert config_methods_convert]])

text \<open>
  A gRPC status reaches the caller: when the service fails with a message and a status code,
  the call throws a \<open>PGAppError\<close> with this message and this code.
\<close>

theorem service_status_reaches_caller:
  fixes this :: "('w, 'r, 's) PGAppClient"
  assumes "rpc_link (pc_transport this) E st rest skippable" "serves_MQService_Metrics (pc_transport this) h"
    and "req = \<lparr>unknownFields = [], QueueMetricsRequest_queueName = queue\<rparr>"
    and "length (QueueMetricsRequest_encode E req) < 2147483648"
    and "h (env_mergeOptions (pc_transport this) (rpcOptions this)) req s = (Inl (Thrown err), s')"
    and "eo_message err = Some m"
  shows "MQClient_metrics this queue s = (Some (Inl (Thrown (PGAppError m (eo_code err)))), s')"
  using MQClient_metrics_call [OF assms(1,2), where queueName = queue and s = s] assms(3-)
  by (simp add: Let_def QueueMetricsRequest_create_def throwFrom_def PGAppError_from_def)

definition not_found :: err_obj where
  "not_found = \<lparr>eo_name = ''RpcError'', eo_isError = True, eo_message = Some ''no such queue'',
     eo_code = Some (PNum (IntNum 5)), eo_string = ''RpcError: no such queue''\<rparr>"

definition fails :: "rpc_options \<Rightarrow> QueueMetricsRequest \<Rightarrow> nat \<Rightarrow> QueueMetricsResponse result \<times> nat" where
  "fails opt req s = (Inl (Thrown not_found), s + 1)"

theorem service_status_reaches_caller_witness:
  "MQClient_metrics (proto_client (dispatch ''pgapp.v1.MQService''
        (unaryMethod ''Metrics'' ''pgapp.v1.QueueMetricsRequest'' ''pgapp.v1.QueueMetricsResponse'')
        (QueueMetricsRequest_internalBinaryRead proto_R RU_true) (QueueMetricsResponse_internalBinaryWrite proto_W WU_true)
        fails) no_stream) ''orders'' 0 =
    (Some (Inl (Thrown (PGAppError ''no such queue'' (Some (PNum (IntNum 5)))))), 1)"
proof -
  let ?req = "\<lparr>unknownFields = [], QueueMetricsRequest_queueName = ''orders''\<rparr>"
  have small: "length (QueueMetricsRequest_encode proto_E ?req) < 2147483648"
    unfolding QueueMetricsRequest_encode_def by (rule le_less_trans, (rule wire_size)+) simp
  show ?thesis
    by (rule trans [OF service_status_reaches_caller [OF proto_client_link _ refl small, where h = fails
            and err = not_found and m = "''no such queue''" and s' = 1]])
      (simp_all add: dispatch_serves [simplified] fails_def not_found_def)
qed

text \<open>
  Every call carries the credentials of its client and nothing else: the key and the secret
  under their metadata names when the client was given credentials, no metadata otherwise; and the
  timeout it was given.
\<close>

theorem rpcOptions_carry_credentials:
  "rpcOptions (PGAppClient_new connect endpoint options) =
     \<lparr>ro_meta = (case options of None \<Rightarrow> [] | Some opts \<Rightarrow> (case po_credentials opts of None \<Rightarrow> []
        | Some c \<Rightarrow> [(''x-pgapp-key'', cr_key c), (''x-pgapp-secret'', cr_secret c)])),
      ro_timeout = (case options of None \<Rightarrow> None | Some opts \<Rightarrow> po_timeoutMs opts)\<rparr> \<and>
   pc_transport (PGAppClient_new connect endpoint options) =
     connect (case endpoint of None \<Rightarrow> ''127.0.0.1:50051'' | Some host \<Rightarrow> host)"
  by (cases options; cases endpoint) (simp_all add: rpcOptions_def PGAppClient_new_def Let_def)
end
